(* ===== verification/Json.thy ===== *)
theory Json
  imports Complex_Main Rust_Str
begin

text \<open>
  JSON values as \<open>serde_json::Value\<close> has them, the accessors that the code calls on them, and the
  record of the foreign functions the code relies on.

  A number is an unsigned or negative 64-bit integer or a finite binary64 value; a finite
  binary64 value is a rational, compared exactly, and \<open>as_f64\<close> of an integer rounds to 53 bits
  (to nearest, ties to even).  An object is the association list of a \<open>BTreeMap\<close>: the keys
  ascend strictly (\<open>json_wf\<close>), so iterating it visits the keys in order.
\<close>

datatype json_num = PosInt nat | NegInt int | FloatNum rat

datatype json =
    JNull
  | JBool bool
  | JNumber json_num
  | JString string
  | JArray "json list"
  | JObject "(string \<times> json) list"

fun json_wf :: "json \<Rightarrow> bool" where
  "json_wf (JArray xs) = (\<forall>x\<in>set xs. json_wf x)"
| "json_wf (JObject kvs) =
     (sorted (map fst kvs) \<and> distinct (map fst kvs) \<and> (\<forall>kv\<in>set kvs. json_wf (snd kv)))"
| "json_wf (JNumber (PosInt n)) = (n < 2 ^ 64)"
| "json_wf (JNumber (NegInt i)) = (- (2 ^ 63) \<le> i \<and> i < 0)"
| "json_wf _ = True"

section \<open>Numbers\<close>

fun bit_len :: "nat \<Rightarrow> nat" where
  "bit_len n = (if n = 0 then 0 else Suc (bit_len (n div 2)))"

declare bit_len.simps [simp del]

definition f64_of_nat :: "nat \<Rightarrow> rat" where
  "f64_of_nat n =
     (let e = bit_len n - 53; q = n div 2 ^ e; r = n mod 2 ^ e;
          q' = (if 2 ^ e < 2 * r \<or> (2 * r = 2 ^ e \<and> odd q) then q + 1 else q)
      in of_nat (q' * 2 ^ e))"

fun num_as_f64 :: "json_num \<Rightarrow> rat" where
  "num_as_f64 (PosInt n) = f64_of_nat n"
| "num_as_f64 (NegInt i) = - f64_of_nat (nat (- i))"
| "num_as_f64 (FloatNum q) = q"

lemma bit_len_bound: "n < 2 ^ k \<Longrightarrow> bit_len n \<le> k"
proof (induction n arbitrary: k rule: bit_len.induct)
  case (1 n)
  show ?case
  proof (cases "n = 0")
    case True
    then show ?thesis by (simp add: bit_len.simps)
  next
    case False
    with "1.prems" obtain k' where k: "k = Suc k'" by (cases k) auto
    with "1.prems" have "n div 2 < 2 ^ k'" by (simp add: less_mult_imp_div_less mult.commute)
    with "1.IH" False have "bit_len (n div 2) \<le> k'" by blast
    with k False show ?thesis by (subst bit_len.simps) simp
  qed
qed

text \<open>Integers below \<open>2 ^ 53\<close> convert exactly.\<close>

lemma f64_of_nat_exact: "n < 2 ^ 53 \<Longrightarrow> f64_of_nat n = of_nat n"
  using bit_len_bound [of n 53] by (simp add: f64_of_nat_def Let_def)

section \<open>Accessors\<close>

fun as_f64 :: "json \<Rightarrow> rat option" where
  "as_f64 (JNumber n) = Some (num_as_f64 n)"
| "as_f64 _ = None"

fun as_str :: "json \<Rightarrow> string option" where
  "as_str (JString s) = Some s"
| "as_str _ = None"

fun as_bool :: "json \<Rightarrow> bool option" where
  "as_bool (JBool b) = Some b"
| "as_bool _ = None"

fun as_array :: "json \<Rightarrow> json list option" where
  "as_array (JArray xs) = Some xs"
| "as_array _ = None"

fun as_object :: "json \<Rightarrow> (string \<times> json) list option" where
  "as_object (JObject kvs) = Some kvs"
| "as_object _ = None"

text \<open>\<open>Value::get\<close> with a string key and with an index.\<close>

fun json_get :: "string \<Rightarrow> json \<Rightarrow> json option" where
  "json_get k (JObject kvs) = map_of kvs k"
| "json_get k _ = None"

fun json_index :: "nat \<Rightarrow> json \<Rightarrow> json option" where
  "json_index i (JArray xs) = (if i < length xs then Some (xs ! i) else None)"
| "json_index i _ = None"

text \<open>\<open>Map::insert\<close>, the insertion into a \<open>BTreeMap\<close>.\<close>

fun obj_insert :: "string \<Rightarrow> json \<Rightarrow> (string \<times> json) list \<Rightarrow> (string \<times> json) list" where
  "obj_insert k v [] = [(k, v)]"
| "obj_insert k v ((k', v') # kvs) =
     (if k < k' then (k, v) # (k', v') # kvs
      else if k = k' then (k, v) # kvs
      else (k', v') # obj_insert k v kvs)"

lemma map_of_obj_insert: "map_of (obj_insert k v kvs) = (map_of kvs)(k \<mapsto> v)"
  by (induction kvs) (auto simp: fun_eq_iff)

lemma keys_obj_insert: "fst ` set (obj_insert k v kvs) = insert k (fst ` set kvs)"
  by (induction k v kvs rule: obj_insert.induct) (simp_all add: insert_commute)

lemma sorted_obj_insert:
  "sorted (map fst kvs) \<and> distinct (map fst kvs) \<Longrightarrow>
   sorted (map fst (obj_insert k v kvs)) \<and> distinct (map fst (obj_insert k v kvs))"
proof (induction kvs)
  case Nil
  then show ?case by simp
next
  case (Cons kv kvs)
  obtain k' v' where kv: "kv = (k', v')" by fastforce
  have ge: "\<forall>x\<in>fst ` set (obj_insert k v kvs). x = k \<or> k' \<le> x \<and> k' \<noteq> x"
    using Cons.prems kv by (auto simp: keys_obj_insert)
  show ?case
    using Cons kv ge by (auto simp: image_iff)
qed

definition obj_of_list :: "(string \<times> json) list \<Rightarrow> json" where
  "obj_of_list kvs = JObject (fold (\<lambda>(k, v). obj_insert k v) kvs [])"

section \<open>Foreign functions\<close>

text \<open>
  \<open>overflow_checks\<close> says whether the build traps arithmetic overflow (the debug profile) or
  wraps (the release profile).  \<open>regex_new\<close> is \<open>Regex::new\<close> with \<open>is_match\<close> of the result,
  \<open>dt_add_secs\<close> the sum of an instant and a number of seconds (\<open>None\<close> where chrono panics),
  \<open>json_to_string\<close> the serializer, \<open>sha256_hex\<close> the hex digest, \<open>db_time\<close> what an instant reads
  back as after it was stored in a timestamp column.
\<close>

record externals =
  overflow_checks :: bool
  regex_new :: "string \<Rightarrow> (string \<Rightarrow> bool) option"
  dt_add_secs :: "time \<Rightarrow> int \<Rightarrow> time option"
  json_to_string :: "json \<Rightarrow> string"
  sha256_hex :: "string \<Rightarrow> string"
  db_time :: "time \<Rightarrow> time"

text \<open>An instance with which witnesses evaluate: no regular expression compiles, time does not
  run out within the signed 64-bit range of seconds, a value is printed as its string content, a
  stored instant has microseconds.\<close>

definition sample_ext :: externals where
  "sample_ext = \<lparr>overflow_checks = False, regex_new = (\<lambda>_. None),
     dt_add_secs = (\<lambda>t s. if \<bar>s\<bar> < 2 ^ 53 then Some (t + secs s) else None),
     json_to_string = (\<lambda>j. case as_str j of Some s \<Rightarrow> s | None \<Rightarrow> ''x''),
     sha256_hex = (\<lambda>s. s), db_time = (\<lambda>t. t div 1000 * 1000)\<rparr>"

end
