(* ===== verification/Planner.thy ===== *)
theory Planner
  imports Json
begin

text \<open>
  The data a plan is made of (\<open>agent/planner.rs\<close> and the expression types of
  \<open>agent/workflow_compiler.rs\<close>, with \<open>RetryPolicy\<close> and \<open>SchemaMode\<close> of
  \<open>agent/definition.rs\<close>), and the two queries on a plan.
\<close>

datatype primitive_type = NumberType | StringType | BooleanType

datatype type_spec =
    PrimitiveSpec primitive_type
  | ArraySpec type_spec
  | ObjectSpec "(string \<times> type_spec) list"

datatype typed_expression = TypedExpression
  (te_type: type_spec)
  (te_op: "string option")
  (te_function: "string option")
  (te_args: "typed_expression list")
  (te_left: "typed_expression option")
  (te_right: "typed_expression option")
  (te_value: "json option")
  (te_path: "string option")

datatype condition_op =
    OpExists | OpNotExists | OpEquals | OpNotEquals | OpGreaterThan | OpLessThan
  | OpGreaterThanEquals | OpLessThanEquals | OpNotEmpty | OpEmpty | OpIsTruthy | OpIsFalsy
  | OpContains

record structured_condition =
  sc_left :: string
  sc_operator :: condition_op
  sc_right :: "json option"

datatype step_condition =
    Deterministic structured_condition
  | Expression typed_expression

record planned_step =
  ps_index :: nat
  ps_description :: string
  ps_tool :: "string option"
  ps_tool_args :: "json option"
  ps_success_criteria :: string
  ps_condition :: "step_condition option"
  ps_foreach :: "string option"
  ps_depends_on :: "nat list"

record plan =
  plan_goal :: string
  plan_job_type :: "string option"
  plan_steps :: "planned_step list"
  plan_rationale :: string

definition plan_next_step :: "plan \<Rightarrow> nat \<Rightarrow> planned_step option" where
  "plan_next_step p current =
     (if current < length (plan_steps p) then Some (plan_steps p ! current) else None)"

definition plan_is_complete :: "plan \<Rightarrow> nat \<Rightarrow> bool" where
  "plan_is_complete p current = (length (plan_steps p) \<le> current)"

section \<open>Retry policy\<close>

record retry_policy =
  max_attempts :: nat
  backoff_secs :: nat
  retry_on :: "string list"

definition default_retry_policy :: retry_policy where
  "default_retry_policy = \<lparr>max_attempts = 1, backoff_secs = 2, retry_on = []\<rparr>"

definition matches_retry_condition :: "externals \<Rightarrow> retry_policy \<Rightarrow> string \<Rightarrow> bool" where
  "matches_retry_condition ext rp err =
     (if retry_on rp = [] then True
      else list_ex (\<lambda>pattern.
             case regex_new ext pattern of
               Some is_match \<Rightarrow> is_match err
             | None \<Rightarrow> str_contains (to_ascii_lowercase pattern) (to_ascii_lowercase err))
           (retry_on rp))"

datatype schema_mode = Strict | Warn | Off

definition default_schema_mode :: schema_mode where
  "default_schema_mode = Strict"

end
