(* ===== verification/Dag.thy ===== *)
theory Dag
  imports Planner
begin

text \<open>
  \<open>agent/dag.rs\<close>: the workflow graph, the queries of the scheduler on it (ready steps,
  completion, deadlock, next retry) and the state transitions of a step, with the constructor
  from a plan and the conversion of a node back into a planned step.  The expansion of for-each
  templates is in theory \<open>Dag_Foreach\<close>.
\<close>

section \<open>Data\<close>

datatype step_status =
    Pending
  | Ready
  | Running
  | Succeeded
  | Failed
  | Skipped
  | Retrying nat time
  | AwaitingInput "string list"
  | AwaitingChildren "string list"

fun is_terminal :: "step_status \<Rightarrow> bool" where
  "is_terminal Succeeded = True"
| "is_terminal Failed = True"
| "is_terminal Skipped = True"
| "is_terminal _ = False"

fun is_actionable :: "step_status \<Rightarrow> bool" where
  "is_actionable Pending = True"
| "is_actionable Ready = True"
| "is_actionable Running = True"
| "is_actionable (Retrying _ _) = True"
| "is_actionable (AwaitingInput _) = True"
| "is_actionable (AwaitingChildren _) = True"
| "is_actionable _ = False"

datatype step_kind =
    NormalStep
  | ForEachTemplate
  | ForEachItem string nat
  | ForEachJoin string

record step_node =
  node_id :: string
  node_index :: nat
  node_description :: string
  node_tool :: "string option"
  node_tool_args :: "json option"
  node_success_criteria :: string
  node_condition :: "step_condition option"
  node_foreach :: "string option"
  node_kind :: step_kind
  node_depends_on :: "string list"
  node_status :: step_status
  node_attempt :: nat
  node_retry_policy :: retry_policy
  node_schema_mode :: schema_mode
  node_input_schema :: "json option"
  node_output_schema :: "json option"
  node_output_data :: "json option"
  node_started_at :: "time option"
  node_completed_at :: "time option"
  node_error :: "string option"

datatype workflow_status = WfRunning | WfCompleted | WfFailed | WfCancelled

record workflow =
  wf_id :: string
  wf_agent_id :: string
  wf_tenant_id :: string
  wf_goal :: string
  wf_nodes :: "step_node list"
  wf_status :: workflow_status
  wf_created_at :: time
  wf_updated_at :: time

text \<open>The errors of a transition.  \<open>Panic\<close> is not a value of \<open>WorkflowError\<close>: it stands for the
  unwinding that an arithmetic or chrono overflow causes.\<close>

datatype workflow_error =
    StepNotFound string
  | InvalidTransition string step_status string
  | Panic

section \<open>Queries\<close>

definition get_step :: "workflow \<Rightarrow> string \<Rightarrow> step_node option" where
  "get_step w sid = find (\<lambda>n. node_id n = sid) (wf_nodes w)"

fun dep_done :: "step_status \<Rightarrow> bool" where
  "dep_done Succeeded = True"
| "dep_done Skipped = True"
| "dep_done _ = False"

definition deps_satisfied :: "workflow \<Rightarrow> step_node \<Rightarrow> bool" where
  "deps_satisfied w node =
     list_all (\<lambda>dep. list_ex (\<lambda>n. node_id n = dep \<and> dep_done (node_status n)) (wf_nodes w))
       (node_depends_on node)"

definition step_ready :: "workflow \<Rightarrow> time \<Rightarrow> step_node \<Rightarrow> bool" where
  "step_ready w now node =
     (case node_status node of
        Pending \<Rightarrow> deps_satisfied w node
      | Retrying _ next_retry_at \<Rightarrow> next_retry_at \<le> now
      | _ \<Rightarrow> False)"

definition ready_steps :: "workflow \<Rightarrow> time \<Rightarrow> step_node list" where
  "ready_steps w now = filter (step_ready w now) (wf_nodes w)"

definition is_complete :: "workflow \<Rightarrow> bool" where
  "is_complete w = list_all (\<lambda>n. is_terminal (node_status n)) (wf_nodes w)"

definition has_failures :: "workflow \<Rightarrow> bool" where
  "has_failures w = list_ex (\<lambda>n. node_status n = Failed) (wf_nodes w)"

fun is_active :: "step_status \<Rightarrow> bool" where
  "is_active Running = True"
| "is_active (Retrying _ _) = True"
| "is_active (AwaitingInput _) = True"
| "is_active (AwaitingChildren _) = True"
| "is_active _ = False"

definition detect_deadlock :: "workflow \<Rightarrow> time \<Rightarrow> string list option" where
  "detect_deadlock w now =
     (if is_complete w then None
      else if list_ex (\<lambda>n. is_active (node_status n)) (wf_nodes w) then None
      else if ready_steps w now \<noteq> [] then None
      else Some (map node_id (filter (\<lambda>n. node_status n = Failed) (wf_nodes w))))"

fun retry_time_of :: "step_status \<Rightarrow> time option" where
  "retry_time_of (Retrying _ t) = Some t"
| "retry_time_of _ = None"

definition next_retry_time :: "workflow \<Rightarrow> time option" where
  "next_retry_time w =
     (case List.map_filter (\<lambda>n. retry_time_of (node_status n)) (wf_nodes w) of
        [] \<Rightarrow> None
      | t # ts \<Rightarrow> Some (fold min ts t))"

section \<open>State transitions\<close>

definition set_step :: "string \<Rightarrow> (step_node \<Rightarrow> step_node) \<Rightarrow> time \<Rightarrow> workflow \<Rightarrow> workflow" where
  "set_step sid f now w =
     w\<lparr>wf_nodes := update_first (\<lambda>n. node_id n = sid) f (wf_nodes w), wf_updated_at := now\<rparr>"

fun can_run :: "step_status \<Rightarrow> bool" where
  "can_run Pending = True"
| "can_run Ready = True"
| "can_run (Retrying _ _) = True"
| "can_run _ = False"

definition mark_running :: "workflow \<Rightarrow> string \<Rightarrow> time \<Rightarrow> (workflow_error, workflow) result" where
  "mark_running w sid now =
     (case get_step w sid of
        None \<Rightarrow> Inl (StepNotFound sid)
      | Some step \<Rightarrow>
          if can_run (node_status step)
          then Inr (set_step sid (\<lambda>n. n\<lparr>node_status := Running, node_started_at := Some now\<rparr>) now w)
          else Inl (InvalidTransition sid (node_status step) ''Running''))"

definition mark_succeeded ::
  "workflow \<Rightarrow> string \<Rightarrow> json \<Rightarrow> time \<Rightarrow> (workflow_error, workflow) result" where
  "mark_succeeded w sid out now =
     (case get_step w sid of
        None \<Rightarrow> Inl (StepNotFound sid)
      | Some step \<Rightarrow>
          if node_status step = Running
          then Inr (set_step sid (\<lambda>n. n\<lparr>node_status := Succeeded, node_output_data := Some out,
                      node_completed_at := Some now\<rparr>) now w)
          else Inl (InvalidTransition sid (node_status step) ''Succeeded''))"

definition mark_skipped :: "workflow \<Rightarrow> string \<Rightarrow> time \<Rightarrow> (workflow_error, workflow) result" where
  "mark_skipped w sid now =
     (case get_step w sid of
        None \<Rightarrow> Inl (StepNotFound sid)
      | Some step \<Rightarrow>
          if node_status step = Pending \<or> node_status step = Ready
          then Inr (set_step sid (\<lambda>n. n\<lparr>node_status := Skipped, node_completed_at := Some now\<rparr>) now w)
          else Inl (InvalidTransition sid (node_status step) ''Skipped''))"

text \<open>Unsigned arithmetic of a build: trapped (\<open>None\<close>) or wrapped.\<close>

definition wrap_to :: "externals \<Rightarrow> nat \<Rightarrow> nat \<Rightarrow> nat option" where
  "wrap_to ext bits n =
     (if n < 2 ^ bits then Some n else if overflow_checks ext then None else Some (n mod 2 ^ bits))"

text \<open>\<open>backoff_secs * 2u64.pow(attempt.saturating_sub(1))\<close>, then the cast to \<open>i64\<close>, the
  conversion to a duration (which panics outside chrono's millisecond range) and the sum with the
  current time.\<close>

definition as_i64 :: "nat \<Rightarrow> int" where
  "as_i64 n = (if n < 2 ^ 63 then int n else int n - 2 ^ 64)"

definition duration_secs_ok :: "int \<Rightarrow> bool" where
  "duration_secs_ok s = (\<bar>s\<bar> \<le> (2 ^ 63 - 1) div 1000)"

definition retry_at :: "externals \<Rightarrow> retry_policy \<Rightarrow> nat \<Rightarrow> time \<Rightarrow> time option" where
  "retry_at ext rp attempt now =
     (case wrap_to ext 64 (2 ^ (attempt - 1)) of
        None \<Rightarrow> None
      | Some factor \<Rightarrow>
          (case wrap_to ext 64 (backoff_secs rp * factor) of
             None \<Rightarrow> None
           | Some secs_u64 \<Rightarrow>
               if duration_secs_ok (as_i64 secs_u64) then dt_add_secs ext now (as_i64 secs_u64)
               else None))"

definition handle_failure ::
  "externals \<Rightarrow> workflow \<Rightarrow> string \<Rightarrow> string \<Rightarrow> time \<Rightarrow>
     (workflow_error, step_status \<times> workflow) result" where
  "handle_failure ext w sid err now =
     (case get_step w sid of
        None \<Rightarrow> Inl (StepNotFound sid)
      | Some step \<Rightarrow>
          if node_status step = Running
          then (case wrap_to ext 32 (node_attempt step + 1) of
             None \<Rightarrow> Inl Panic
           | Some attempt \<Rightarrow>
               if attempt < max_attempts (node_retry_policy step)
                  \<and> matches_retry_condition ext (node_retry_policy step) err
               then (case retry_at ext (node_retry_policy step) attempt now of
                  None \<Rightarrow> Inl Panic
                | Some t \<Rightarrow>
                    Inr (Retrying attempt t,
                         set_step sid (\<lambda>n. n\<lparr>node_attempt := attempt,
                           node_status := Retrying attempt t, node_error := Some err\<rparr>) now w))
               else Inr (Failed,
                         set_step sid (\<lambda>n. n\<lparr>node_attempt := attempt, node_status := Failed,
                           node_error := Some err, node_completed_at := Some now\<rparr>) now w))
          else Inl (InvalidTransition sid (node_status step) ''Failed/Retrying''))"

section \<open>From a plan and back\<close>

definition step_name :: "nat \<Rightarrow> string" where
  "step_name i = ''step-'' @ show_nat i"

definition node_of_planned :: "planned_step \<Rightarrow> step_node" where
  "node_of_planned step = \<lparr>
     node_id = step_name (ps_index step),
     node_index = ps_index step,
     node_description = ps_description step,
     node_tool = ps_tool step,
     node_tool_args = ps_tool_args step,
     node_success_criteria = ps_success_criteria step,
     node_condition = ps_condition step,
     node_foreach = ps_foreach step,
     node_kind = (if ps_foreach step \<noteq> None then ForEachTemplate else NormalStep),
     node_depends_on =
       (if ps_depends_on step = [] then
          (if 0 < ps_index step then [step_name (ps_index step - 1)] else [])
        else map step_name (ps_depends_on step)),
     node_status = Pending,
     node_attempt = 0,
     node_retry_policy = default_retry_policy,
     node_schema_mode = default_schema_mode,
     node_input_schema = None,
     node_output_schema = None,
     node_output_data = None,
     node_started_at = None,
     node_completed_at = None,
     node_error = None\<rparr>"

text \<open>\<open>uuid\<close> is the fresh identifier that \<open>Uuid::new_v4\<close> returns.\<close>

definition from_plan :: "string \<Rightarrow> plan \<Rightarrow> string \<Rightarrow> string \<Rightarrow> time \<Rightarrow> workflow" where
  "from_plan uuid p agent_id tenant_id now = \<lparr>
     wf_id = ''wf-'' @ uuid,
     wf_agent_id = agent_id,
     wf_tenant_id = tenant_id,
     wf_goal = plan_goal p,
     wf_nodes = map node_of_planned (plan_steps p),
     wf_status = WfRunning,
     wf_created_at = now,
     wf_updated_at = now\<rparr>"

definition to_planned_step :: "step_node \<Rightarrow> planned_step" where
  "to_planned_step n = \<lparr>
     ps_index = node_index n,
     ps_description = node_description n,
     ps_tool = node_tool n,
     ps_tool_args = node_tool_args n,
     ps_success_criteria = node_success_criteria n,
     ps_condition = node_condition n,
     ps_foreach = node_foreach n,
     ps_depends_on = List.map_filter
       (\<lambda>sid. case strip_prefix ''step-'' sid of None \<Rightarrow> None | Some s \<Rightarrow> parse_usize s)
       (node_depends_on n)\<rparr>"

end
