(* ===== verification/Dag_Machine.thy ===== *)
theory Dag_Machine
  imports Dag
begin

text \<open>
  The correctness of \<open>agent/dag.rs\<close> as a state machine.  \<open>wf_step\<close> is one successful
  transition of the workflow; \<open>node_step\<close> is the diagram of legal transitions of one
  node.  Every transition moves exactly one node along the diagram, and from this follow the
  invariants: terminal nodes are never touched again, attempts stay within the retry policy, and
  the work left decreases with every transition.  The second part is about the graph: a deadlock
  always has a failed step, a cycle, a missing dependency or a parked step behind it.
\<close>

section \<open>Steps of the machine\<close>

inductive node_step :: "externals \<Rightarrow> step_node \<Rightarrow> step_node \<Rightarrow> bool" for ext where
  to_running: "can_run (node_status n) \<Longrightarrow>
     node_step ext n (n\<lparr>node_status := Running, node_started_at := Some now\<rparr>)"
| to_succeeded: "node_status n = Running \<Longrightarrow>
     node_step ext n (n\<lparr>node_status := Succeeded, node_output_data := Some out,
       node_completed_at := Some now\<rparr>)"
| to_failed: "node_status n = Running \<Longrightarrow> wrap_to ext 32 (Suc (node_attempt n)) = Some a \<Longrightarrow>
     node_step ext n (n\<lparr>node_attempt := a, node_status := Failed, node_error := Some err,
       node_completed_at := Some now\<rparr>)"
| to_retrying: "node_status n = Running \<Longrightarrow> wrap_to ext 32 (Suc (node_attempt n)) = Some a \<Longrightarrow>
     a < max_attempts (node_retry_policy n) \<Longrightarrow>
     retry_at ext (node_retry_policy n) a now = Some t \<Longrightarrow>
     node_step ext n (n\<lparr>node_attempt := a, node_status := Retrying a t, node_error := Some err\<rparr>)"
| to_skipped: "node_status n = Pending \<or> node_status n = Ready \<Longrightarrow>
     node_step ext n (n\<lparr>node_status := Skipped, node_completed_at := Some now\<rparr>)"

inductive wf_step :: "externals \<Rightarrow> workflow \<Rightarrow> workflow \<Rightarrow> bool" for ext where
  run: "mark_running w sid now = Inr w' \<Longrightarrow> wf_step ext w w'"
| succeed: "mark_succeeded w sid out now = Inr w' \<Longrightarrow> wf_step ext w w'"
| fail: "handle_failure ext w sid err now = Inr (st, w') \<Longrightarrow> wf_step ext w w'"
| skip: "mark_skipped w sid now = Inr w' \<Longrightarrow> wf_step ext w w'"

definition ids_distinct :: "workflow \<Rightarrow> bool" where
  "ids_distinct w = distinct (map node_id (wf_nodes w))"

lemma node_step_frame [frame_simps]:
  "node_step ext n n' \<Longrightarrow> node_id n' = node_id n \<and> node_depends_on n' = node_depends_on n
     \<and> node_retry_policy n' = node_retry_policy n \<and> node_kind n' = node_kind n"
  by (auto elim: node_step.cases)

lemma node_step_not_terminal: "node_step ext n n' \<Longrightarrow> \<not> is_terminal (node_status n)"
  by (auto elim!: node_step.cases) (cases "node_status n"; simp)+

text \<open>A step of the workflow is a step of one node.\<close>

lemma set_step_nodes:
  "wf_nodes (set_step sid f now w) = update_first (\<lambda>n. node_id n = sid) f (wf_nodes w)"
  by (simp add: set_step_def)

lemma mark_running_Inr_iff:
  "mark_running w sid now = Inr w' \<longleftrightarrow> (\<exists>n. get_step w sid = Some n \<and> can_run (node_status n)
     \<and> w' = set_step sid (\<lambda>n. n\<lparr>node_status := Running, node_started_at := Some now\<rparr>) now w)"
  by (auto simp: mark_running_def split: option.splits)

lemma mark_succeeded_Inr_iff:
  "mark_succeeded w sid out now = Inr w' \<longleftrightarrow> (\<exists>n. get_step w sid = Some n \<and> node_status n = Running
     \<and> w' = set_step sid (\<lambda>n. n\<lparr>node_status := Succeeded, node_output_data := Some out,
              node_completed_at := Some now\<rparr>) now w)"
  by (auto simp: mark_succeeded_def split: option.splits)

lemma mark_skipped_Inr_iff:
  "mark_skipped w sid now = Inr w' \<longleftrightarrow> (\<exists>n. get_step w sid = Some n
     \<and> (node_status n = Pending \<or> node_status n = Ready)
     \<and> w' = set_step sid (\<lambda>n. n\<lparr>node_status := Skipped, node_completed_at := Some now\<rparr>) now w)"
  by (auto simp: mark_skipped_def split: option.splits)

lemma handle_failure_InrE:
  assumes "handle_failure ext w sid err now = Inr (st, w')"
  obtains (retry) n a t where "get_step w sid = Some n" "node_status n = Running"
      "wrap_to ext 32 (Suc (node_attempt n)) = Some a" "a < max_attempts (node_retry_policy n)"
      "matches_retry_condition ext (node_retry_policy n) err"
      "retry_at ext (node_retry_policy n) a now = Some t" "st = Retrying a t"
      "w' = set_step sid (\<lambda>n. n\<lparr>node_attempt := a, node_status := Retrying a t,
              node_error := Some err\<rparr>) now w"
  | (give_up) n a where "get_step w sid = Some n" "node_status n = Running"
      "wrap_to ext 32 (Suc (node_attempt n)) = Some a"
      "\<not> (a < max_attempts (node_retry_policy n)
          \<and> matches_retry_condition ext (node_retry_policy n) err)" "st = Failed"
      "w' = set_step sid (\<lambda>n. n\<lparr>node_attempt := a, node_status := Failed,
              node_error := Some err, node_completed_at := Some now\<rparr>) now w"
  using assms unfolding handle_failure_def
  by (simp split: option.splits if_splits) blast+

lemma wf_stepE:
  assumes "wf_step ext w w'"
  obtains sid n f now where "get_step w sid = Some n" "node_step ext n (f n)"
    "w' = set_step sid f now w" "\<And>m. node_id (f m) = node_id m"
  using assms
proof cases
  case (run sid now)
  then show thesis
    by (auto simp: mark_running_Inr_iff intro: that [OF _ node_step.to_running])
next
  case (succeed sid out now)
  then show thesis
    by (auto simp: mark_succeeded_Inr_iff intro: that [OF _ node_step.to_succeeded])
next
  case (fail sid err now st)
  then show thesis
    by (cases rule: handle_failure_InrE)
      (auto intro: that [OF _ node_step.to_retrying] that [OF _ node_step.to_failed])
next
  case (skip sid now)
  then show thesis
    by (auto simp: mark_skipped_Inr_iff intro: that [OF _ node_step.to_skipped])
qed

lemma ids_step: "wf_step ext w w' \<Longrightarrow> map node_id (wf_nodes w') = map node_id (wf_nodes w)"
  by (elim wf_stepE) (simp add: set_step_nodes map_update_first_frame)

lemma ids_distinct_step: "wf_step ext w w' \<Longrightarrow> ids_distinct w \<Longrightarrow> ids_distinct w'"
  by (simp add: ids_distinct_def ids_step)

lemma wf_step_node:
  assumes "wf_step ext w w'" and "n' \<in> set (wf_nodes w')"
  shows "n' \<in> set (wf_nodes w) \<or> (\<exists>n\<in>set (wf_nodes w). node_step ext n n')"
proof -
  from assms(1) obtain sid m f now where m: "get_step w sid = Some m" "node_step ext m (f m)"
      "w' = set_step sid f now w"
    by (blast elim: wf_stepE)
  from assms(2) m(3) show ?thesis
  proof (simp add: set_step_nodes, elim mem_update_firstE)
    fix x assume "find (\<lambda>n. node_id n = sid) (wf_nodes w) = Some x" "n' = f x" "x \<in> set (wf_nodes w)"
    with m show ?thesis by (auto simp: get_step_def)
  qed simp
qed

text \<open>An invariant of the nodes is an invariant of the workflow.\<close>

lemma wf_step_invariant:
  assumes keep: "\<And>n n'. node_step ext n n' \<Longrightarrow> I n \<Longrightarrow> I n'"
  shows "wf_step ext w w' \<Longrightarrow> \<forall>n\<in>set (wf_nodes w). I n \<Longrightarrow> \<forall>n\<in>set (wf_nodes w'). I n"
  using wf_step_node keep by blast

lemma wf_steps_invariant:
  assumes keep: "\<And>n n'. node_step ext n n' \<Longrightarrow> I n \<Longrightarrow> I n'"
  shows "(wf_step ext)\<^sup>*\<^sup>* w w' \<Longrightarrow> \<forall>n\<in>set (wf_nodes w). I n \<Longrightarrow> \<forall>n\<in>set (wf_nodes w'). I n"
proof (induction rule: rtranclp_induct)
  case (step y z)
  then show ?case using wf_step_invariant [of ext I y z] keep by blast
qed

section \<open>Terminal nodes\<close>

lemma terminal_kept_step:
  assumes "wf_step ext w w'" "ids_distinct w" "n \<in> set (wf_nodes w)" "is_terminal (node_status n)"
  shows "n \<in> set (wf_nodes w')"
proof -
  from assms(1) obtain sid m f now where m: "get_step w sid = Some m" "node_step ext m (f m)"
      "w' = set_step sid f now w"
    by (blast elim: wf_stepE)
  have "node_id n \<noteq> sid"
  proof
    assume "node_id n = sid"
    with m(1) assms(2,3) have "m = n"
      using find_distinct_key [of node_id "wf_nodes w" n]
      by (simp add: get_step_def ids_distinct_def)
    with m(2) assms(4) show False by (blast dest: node_step_not_terminal)
  qed
  with assms(3) m(3) show ?thesis by (simp add: set_step_nodes mem_update_first_other)
qed

lemma ids_distinct_steps: "(wf_step ext)\<^sup>*\<^sup>* w w' \<Longrightarrow> ids_distinct w \<Longrightarrow> ids_distinct w'"
  by (induction rule: rtranclp_induct) (auto dest: ids_distinct_step)

text \<open>C1: once a step has succeeded, failed or been skipped, no sequence of state transitions
  changes anything of it: the very node, with its output, error and completion time, is still in
  the workflow.\<close>

theorem terminal_steps_are_final:
  assumes "(wf_step ext)\<^sup>*\<^sup>* w w'" and "ids_distinct w"
    and "n \<in> set (wf_nodes w)" and "is_terminal (node_status n)"
  shows "n \<in> set (wf_nodes w')"
  using assms
proof (induction rule: rtranclp_induct)
  case base
  then show ?case by simp
next
  case (step y z)
  then show ?case by (blast intro: terminal_kept_step ids_distinct_steps)
qed

section \<open>Attempts\<close>

definition attempt_limit :: "step_node \<Rightarrow> nat" where
  "attempt_limit n = max 1 (max_attempts (node_retry_policy n))"

definition attempt_ok :: "step_node \<Rightarrow> bool" where
  "attempt_ok n \<longleftrightarrow> max_attempts (node_retry_policy n) < 2 ^ 32
     \<and> (if is_terminal (node_status n) then node_attempt n \<le> attempt_limit n
        else node_attempt n < attempt_limit n)"

lemma wrap_to_id: "n < 2 ^ bits \<Longrightarrow> wrap_to ext bits n = Some n"
  by (simp add: wrap_to_def)

lemma attempt_ok_wrap:
  "attempt_ok n \<Longrightarrow> node_status n = Running \<Longrightarrow>
     wrap_to ext 32 (Suc (node_attempt n)) = Some (Suc (node_attempt n))"
  by (auto simp: attempt_ok_def attempt_limit_def intro!: wrap_to_id)

lemma attempt_ok_step: "node_step ext n n' \<Longrightarrow> attempt_ok n \<Longrightarrow> attempt_ok n'"
proof (induction rule: node_step.induct)
  case (to_running n now)
  then show ?case by (cases "node_status n") (auto simp: attempt_ok_def attempt_limit_def)
next
  case (to_failed n a err now)
  with attempt_ok_wrap [of n ext] show ?case by (auto simp: attempt_ok_def attempt_limit_def)
next
  case (to_retrying n a now t err)
  with attempt_ok_wrap [of n ext] show ?case by (auto simp: attempt_ok_def attempt_limit_def)
qed (auto simp: attempt_ok_def attempt_limit_def)

text \<open>A sequence of calls of the transition methods, where a refused call changes nothing, and the number
  of times it starts a step.\<close>

datatype transition = DoRun string time | DoSucceed string json time | DoFail string string time | DoSkip string time

fun apply_transition :: "externals \<Rightarrow> transition \<Rightarrow> workflow \<Rightarrow> workflow option" where
  "apply_transition ext (DoRun sid now) w = (case mark_running w sid now of Inr w' \<Rightarrow> Some w' | Inl _ \<Rightarrow> None)"
| "apply_transition ext (DoSucceed sid out now) w = (case mark_succeeded w sid out now of Inr w' \<Rightarrow> Some w' | Inl _ \<Rightarrow> None)"
| "apply_transition ext (DoFail sid err now) w = (case handle_failure ext w sid err now of Inr (_, w') \<Rightarrow> Some w' | Inl _ \<Rightarrow> None)"
| "apply_transition ext (DoSkip sid now) w = (case mark_skipped w sid now of Inr w' \<Rightarrow> Some w' | Inl _ \<Rightarrow> None)"

fun starts_step :: "string \<Rightarrow> transition \<Rightarrow> bool" where
  "starts_step sid (DoRun s _) = (s = sid)"
| "starts_step sid _ = False"

fun starts :: "externals \<Rightarrow> string \<Rightarrow> transition list \<Rightarrow> workflow \<Rightarrow> nat" where
  "starts ext sid [] w = 0"
| "starts ext sid (t # ts) w =
     (case apply_transition ext t w of
        None \<Rightarrow> starts ext sid ts w
      | Some w' \<Rightarrow> (if starts_step sid t then 1 else 0) + starts ext sid ts w')"

text \<open>The starts that a step has left.\<close>

definition starts_left :: "step_node \<Rightarrow> nat" where
  "starts_left n = (if is_terminal (node_status n) then 0
     else attempt_limit n - node_attempt n - (if node_status n = Running then 1 else 0))"

lemma attempt_limit_frame: "node_step ext n n' \<Longrightarrow> attempt_limit n' = attempt_limit n"
  by (simp add: attempt_limit_def node_step_frame)

lemma starts_left_step:
  assumes "node_step ext n n'" "attempt_ok n"
  shows "starts_left n' + (if node_status n' = Running then 1 else 0) \<le> starts_left n"
  using assms
proof (induction rule: node_step.induct)
  case (to_running n now)
  then have "\<not> is_terminal (node_status n)" "node_status n \<noteq> Running" by (cases "node_status n"; simp)+
  with to_running show ?case by (auto simp: starts_left_def attempt_ok_def attempt_limit_def)
next
  case (to_failed n a err now)
  then show ?case by (simp add: starts_left_def)
next
  case (to_retrying n a now t err)
  with attempt_ok_wrap [of n ext] show ?case by (auto simp: starts_left_def attempt_limit_def)
next
  case (to_skipped n now)
  then show ?case by (simp add: starts_left_def)
qed (simp add: starts_left_def)

lemma apply_transition_wf_step: "apply_transition ext t w = Some w' \<Longrightarrow> wf_step ext w w'"
  by (cases t) (auto intro: wf_step.intros split: sum.splits)

lemma get_step_set_step:
  "(\<And>m. node_id (f m) = node_id m) \<Longrightarrow> get_step w sid = Some n \<Longrightarrow> get_step (set_step sid f now w) sid = Some (f n)"
  by (simp add: get_step_def set_step_nodes find_update_first_same)

text \<open>What one transition does to the step.\<close>

lemma apply_transition_node:
  assumes "apply_transition ext t w = Some w'" "get_step w sid = Some n"
  shows "\<exists>n'. get_step w' sid = Some n' \<and> (n' = n \<and> \<not> starts_step sid t
      \<or> node_step ext n n' \<and> (starts_step sid t \<longrightarrow> node_status n' = Running))"
proof -
  obtain sid' m f now where m: "get_step w sid' = Some m" "node_step ext m (f m)" "w' = set_step sid' f now w"
    "\<And>m. node_id (f m) = node_id m" and run: "starts_step sid t \<Longrightarrow> sid' = sid \<and> node_status (f m) = Running"
  proof (cases t)
    case (DoRun s now)
    with assms that [of s _ "\<lambda>n. n\<lparr>node_status := Running, node_started_at := Some now\<rparr>" now] show thesis
      by (auto simp: mark_running_Inr_iff intro: node_step.to_running split: sum.splits)
  next
    case (DoSucceed s out now)
    have "wf_step ext w w'" using assms(1) by (rule apply_transition_wf_step)
    with DoSucceed show thesis by (elim wf_stepE) (rule that, assumption+, simp)
  next
    case (DoFail s err now)
    have "wf_step ext w w'" using assms(1) by (rule apply_transition_wf_step)
    with DoFail show thesis by (elim wf_stepE) (rule that, assumption+, simp)
  next
    case (DoSkip s now)
    have "wf_step ext w w'" using assms(1) by (rule apply_transition_wf_step)
    with DoSkip show thesis by (elim wf_stepE) (rule that, assumption+, simp)
  qed
  show ?thesis
  proof (cases "sid' = sid")
    case True
    with m assms(2) run show ?thesis by (auto simp: get_step_set_step)
  next
    case False
    have "get_step w' sid = get_step w sid"
      using False m(3,4) by (simp add: get_step_def set_step_nodes find_update_first_other)
    with False run assms(2) show ?thesis by auto
  qed
qed

lemma starts_bounded:
  "get_step w sid = Some n \<Longrightarrow> attempt_ok n \<Longrightarrow> starts ext sid ts w \<le> starts_left n"
proof (induction ts arbitrary: w n)
  case (Cons t ts)
  show ?case
  proof (cases "apply_transition ext t w")
    case None
    with Cons show ?thesis by simp
  next
    case (Some w')
    from apply_transition_node [OF this Cons.prems(1)] obtain n' where n': "get_step w' sid = Some n'"
      "n' = n \<and> \<not> starts_step sid t \<or> node_step ext n n' \<and> (starts_step sid t \<longrightarrow> node_status n' = Running)" by blast
    then have "attempt_ok n'" using attempt_ok_step Cons.prems(2) by blast
    from Cons.IH [OF n'(1) this] n'(2) starts_left_step [OF _ Cons.prems(2)] Some show ?thesis by fastforce
  qed
qed simp

text \<open>C10: whatever transitions are called in whatever order, and whichever arithmetic the build has, a fresh
  step is started at most \<open>max_attempts\<close> times, and once where the policy says zero.\<close>

theorem attempts_within_policy:
  assumes "get_step w sid = Some n" "node_status n = Pending" "node_attempt n = 0"
    and "max_attempts (node_retry_policy n) < 2 ^ 32"
  shows "starts ext sid ts w \<le> max 1 (max_attempts (node_retry_policy n))"
proof -
  have "attempt_ok n" "starts_left n = attempt_limit n"
    using assms(2-4) by (simp_all add: attempt_ok_def starts_left_def attempt_limit_def)
  with starts_bounded [OF assms(1), of ext ts] show ?thesis by (simp add: attempt_limit_def)
qed

section \<open>Termination\<close>

text \<open>The transitions a node can still make: two for every attempt left.\<close>

fun status_work :: "nat \<Rightarrow> step_status \<Rightarrow> nat" where
  "status_work k Running = 2 * k + 1"
| "status_work k Pending = 2 * k + 2"
| "status_work k Ready = 2 * k + 2"
| "status_work k (Retrying _ _) = 2 * k + 2"
| "status_work k _ = 0"

definition node_work :: "step_node \<Rightarrow> nat" where
  "node_work n = status_work (attempt_limit n - node_attempt n) (node_status n)"

definition workflow_work :: "workflow \<Rightarrow> nat" where
  "workflow_work w = sum_list (map node_work (wf_nodes w))"

lemma node_work_decreases: "node_step ext n n' \<Longrightarrow> attempt_ok n \<Longrightarrow> node_work n' < node_work n"
proof (induction rule: node_step.induct)
  case (to_running n now)
  then show ?case by (cases "node_status n") (auto simp: node_work_def attempt_limit_def)
next
  case (to_retrying n a now t err)
  with attempt_ok_wrap [of n ext] have "a = Suc (node_attempt n)" by simp
  with to_retrying show ?case
    by (auto simp: node_work_def attempt_limit_def attempt_ok_def)
qed (auto simp: node_work_def attempt_limit_def)

lemma sum_list_update_first:
  fixes g :: "'a \<Rightarrow> nat"
  shows "find P xs = Some x \<Longrightarrow> g (f x) < g x \<Longrightarrow>
    sum_list (map g (update_first P f xs)) < sum_list (map g xs)"
  by (induction xs) (auto split: if_splits)

lemma workflow_work_decreases:
  assumes "wf_step ext w w'" and "\<forall>n\<in>set (wf_nodes w). attempt_ok n"
  shows "workflow_work w' < workflow_work w"
proof -
  from assms(1) obtain sid n f now where n: "get_step w sid = Some n" "node_step ext n (f n)"
      "w' = set_step sid f now w"
    by (blast elim: wf_stepE)
  then have "attempt_ok n" using assms(2) by (auto simp: get_step_def dest: find_mem)
  with n show ?thesis
    by (simp add: workflow_work_def set_step_nodes get_step_def sum_list_update_first
        node_work_decreases)
qed

lemma relpowp_work_bound:
  "(wf_step ext ^^ k) w w' \<Longrightarrow> \<forall>n\<in>set (wf_nodes w). attempt_ok n \<Longrightarrow>
     k + workflow_work w' \<le> workflow_work w \<and> (\<forall>n\<in>set (wf_nodes w'). attempt_ok n)"
proof (induction k arbitrary: w')
  case 0
  then show ?case by simp
next
  case (Suc k)
  then obtain y where y: "(wf_step ext ^^ k) w y" "wf_step ext y w'" by auto
  with Suc have IH: "k + workflow_work y \<le> workflow_work w" "\<forall>n\<in>set (wf_nodes y). attempt_ok n"
    by auto
  with y(2) have "workflow_work w' < workflow_work y" by (blast intro: workflow_work_decreases)
  moreover have "\<forall>n\<in>set (wf_nodes w'). attempt_ok n"
    using wf_step_invariant [of ext attempt_ok y w'] y(2) IH(2) attempt_ok_step by blast
  ultimately show ?case using IH(1) by simp
qed

text \<open>C7: the machine terminates.  A run that starts with every step pending makes at most
  \<open>2 * max_attempts + 2\<close> transitions per step, in any order and with any outcomes.\<close>

theorem transitions_bounded:
  assumes "(wf_step ext ^^ k) w w'"
    and "\<forall>n\<in>set (wf_nodes w). node_status n = Pending \<and> node_attempt n = 0
           \<and> max_attempts (node_retry_policy n) < 2 ^ 32"
  shows "k \<le> (\<Sum>n\<leftarrow>wf_nodes w. 2 * max 1 (max_attempts (node_retry_policy n)) + 2)"
proof -
  from assms(2) have ok: "\<forall>n\<in>set (wf_nodes w). attempt_ok n"
    by (auto simp: attempt_ok_def attempt_limit_def)
  have "map node_work (wf_nodes w)
      = map (\<lambda>n. 2 * max 1 (max_attempts (node_retry_policy n)) + 2) (wf_nodes w)"
    using assms(2) by (auto simp: node_work_def attempt_limit_def)
  then have "workflow_work w
      = (\<Sum>n\<leftarrow>wf_nodes w. 2 * max 1 (max_attempts (node_retry_policy n)) + 2)"
    by (simp only: workflow_work_def)
  then show ?thesis using relpowp_work_bound [OF assms(1) ok] by linarith
qed

section \<open>Deadlock\<close>

text \<open>Dependencies point backwards in the node list.\<close>

fun topo_from :: "string set \<Rightarrow> step_node list \<Rightarrow> bool" where
  "topo_from seen [] = True"
| "topo_from seen (n # ns) =
     ((\<forall>d\<in>set (node_depends_on n). d \<in> seen) \<and> topo_from (insert (node_id n) seen) ns)"

definition topo_ordered :: "workflow \<Rightarrow> bool" where
  "topo_ordered w = topo_from {} (wf_nodes w)"

text \<open>\<open>depends_rel w a b\<close>: step \<open>a\<close> waits for step \<open>b\<close>.\<close>

definition depends_rel :: "workflow \<Rightarrow> string \<Rightarrow> string \<Rightarrow> bool" where
  "depends_rel w a b = (\<exists>n\<in>set (wf_nodes w). node_id n = a \<and> b \<in> set (node_depends_on n))"

text \<open>What can keep a step waiting for ever: a failed step, a step parked in \<open>Ready\<close>, which nothing starts,
  a dependency that is no step, or a cycle.\<close>

definition blocker :: "workflow \<Rightarrow> step_node \<Rightarrow> bool" where
  "blocker w b \<longleftrightarrow> node_status b = Failed \<or> node_status b = Ready
     \<or> (\<exists>d\<in>set (node_depends_on b). d \<notin> node_id ` set (wf_nodes w))
     \<or> (depends_rel w)\<^sup>+\<^sup>+ (node_id b) (node_id b)"

lemma detect_deadlock_SomeD:
  "detect_deadlock w now = Some ids \<Longrightarrow> \<not> is_complete w \<and> ready_steps w now = []
     \<and> (\<forall>n\<in>set (wf_nodes w). \<not> is_active (node_status n))
     \<and> ids = map node_id (filter (\<lambda>n. node_status n = Failed) (wf_nodes w))"
  by (auto simp: detect_deadlock_def list_ex_iff split: if_splits)

text \<open>An unfinished step of a deadlocked workflow is a blocker or waits for an unfinished or failed step.\<close>

lemma deadlocked_step_waits:
  assumes "detect_deadlock w now = Some ids" "n \<in> set (wf_nodes w)" "\<not> is_terminal (node_status n)" "\<not> blocker w n"
  obtains m where "m \<in> set (wf_nodes w)" "depends_rel w (node_id n) (node_id m)"
    "node_status m = Failed \<or> \<not> is_terminal (node_status m)"
proof -
  note dd = detect_deadlock_SomeD [OF assms(1)]
  have "node_status n = Pending"
    using dd assms(2-4) by (cases "node_status n") (auto simp: blocker_def)
  moreover have "\<not> step_ready w now n" using dd assms(2) by (auto simp: ready_steps_def filter_empty_conv)
  ultimately have "\<not> deps_satisfied w n" by (simp add: step_ready_def)
  then obtain d where d: "d \<in> set (node_depends_on n)"
      "\<forall>m\<in>set (wf_nodes w). node_id m = d \<longrightarrow> \<not> dep_done (node_status m)"
    by (auto simp: deps_satisfied_def list_all_iff list_ex_iff)
  with assms(4) obtain m where m: "m \<in> set (wf_nodes w)" "node_id m = d" by (auto simp: blocker_def)
  moreover have "node_status m = Failed \<or> \<not> is_terminal (node_status m)"
    using d(2) m by (cases "node_status m") auto
  ultimately show thesis using that d(1) assms(2) by (auto simp: depends_rel_def)
qed

text \<open>In a finite set where every element has a successor there is a cycle.\<close>

lemma finite_total_cycle:
  assumes "finite S" "x \<in> S" "\<And>y. y \<in> S \<Longrightarrow> \<exists>z\<in>S. R y z"
  shows "\<exists>y\<in>S. R\<^sup>+\<^sup>+ y y"
proof -
  define r where "r = {(y, z). y \<in> S \<and> z \<in> S \<and> R y z}"
  have "finite r" using assms(1) by (auto simp: r_def intro: finite_subset [of _ "S \<times> S"])
  have "\<not> acyclic r"
  proof
    assume "acyclic r"
    with \<open>finite r\<close> have "wf (r\<inverse>)" by (rule finite_acyclic_wf_converse)
    then show False
      using assms(2)
    proof (rule wfE_min)
      fix z assume "z \<in> S" and m: "\<And>y. (y, z) \<in> r\<inverse> \<Longrightarrow> y \<notin> S"
      with assms(3) obtain y where "y \<in> S" "R z y" by blast
      with \<open>z \<in> S\<close> m [of y] show False by (simp add: r_def)
    qed
  qed
  then obtain y where y: "(y, y) \<in> r\<^sup>+" by (auto simp: acyclic_def)
  then have "y \<in> S" by (auto simp: r_def dest: tranclD)
  moreover have "R\<^sup>+\<^sup>+ a b" if "(a, b) \<in> r\<^sup>+" for a b
    using that by induction (auto simp: r_def intro: tranclp.intros)
  ultimately show ?thesis using y by blast
qed

lemma deadlock_explained:
  assumes "detect_deadlock w now = Some ids"
    and "n \<in> set (wf_nodes w)" and "\<not> is_terminal (node_status n)"
  shows "\<exists>b\<in>set (wf_nodes w). (depends_rel w)\<^sup>*\<^sup>* (node_id n) (node_id b)
    \<and> (node_id b \<in> set ids \<or> node_status b = Ready
       \<or> (\<exists>d\<in>set (node_depends_on b). d \<notin> node_id ` set (wf_nodes w))
       \<or> (depends_rel w)\<^sup>+\<^sup>+ (node_id b) (node_id b))"
proof -
  let ?open = "\<lambda>m. m \<in> set (wf_nodes w) \<and> \<not> is_terminal (node_status m) \<and> (depends_rel w)\<^sup>*\<^sup>* (node_id n) (node_id m)"
  have "\<exists>b\<in>set (wf_nodes w). (depends_rel w)\<^sup>*\<^sup>* (node_id n) (node_id b) \<and> blocker w b"
  proof (rule ccontr)
    assume none: "\<not> ?thesis"
    have "\<exists>z\<in>node_id ` {m. ?open m}. depends_rel w y z" if y: "y \<in> node_id ` {m. ?open m}" for y
    proof -
      from y obtain m where m: "?open m" "y = node_id m" by auto
      with none obtain k where k: "k \<in> set (wf_nodes w)" "depends_rel w (node_id m) (node_id k)"
        "node_status k = Failed \<or> \<not> is_terminal (node_status k)"
        using deadlocked_step_waits [OF assms(1), of m] by blast
      have reach: "(depends_rel w)\<^sup>*\<^sup>* (node_id n) (node_id k)" using m(1) k(2) by auto
      with none k(1) have "node_status k \<noteq> Failed" by (auto simp: blocker_def)
      with k m(2) reach show ?thesis by auto
    qed
    moreover have "finite (node_id ` {m. ?open m})" by (rule finite_imageI, rule finite_subset [of _ "set (wf_nodes w)"]) auto
    moreover have "node_id n \<in> node_id ` {m. ?open m}" using assms(2,3) by blast
    ultimately obtain y where "y \<in> node_id ` {m. ?open m}" "(depends_rel w)\<^sup>+\<^sup>+ y y"
      using finite_total_cycle [of "node_id ` {m. ?open m}" "node_id n" "depends_rel w"] by blast
    with none show False by (auto simp: blocker_def)
  qed
  then obtain b where b: "b \<in> set (wf_nodes w)" "(depends_rel w)\<^sup>*\<^sup>* (node_id n) (node_id b)" "blocker w b" by blast
  moreover have "node_id b \<in> set ids" if "node_status b = Failed"
    using that b(1) detect_deadlock_SomeD [OF assms(1)] by auto
  ultimately show ?thesis by (auto simp: blocker_def)
qed

text \<open>C3: every reported deadlock has a reason.  Each unfinished step is, or waits directly or through other
  steps for, a failed step, which the report names, a step parked in \<open>Ready\<close>, a step with a dependency
  that does not exist, or a step on a dependency cycle.\<close>

theorem deadlock_is_explained:
  assumes "detect_deadlock w now = Some ids"
    and "n \<in> set (wf_nodes w)" and "\<not> is_terminal (node_status n)"
  shows "\<exists>b\<in>set (wf_nodes w). (depends_rel w)\<^sup>*\<^sup>* (node_id n) (node_id b)
    \<and> (node_id b \<in> set ids \<or> node_status b = Ready
       \<or> (\<exists>d\<in>set (node_depends_on b). d \<notin> node_id ` set (wf_nodes w))
       \<or> (depends_rel w)\<^sup>+\<^sup>+ (node_id b) (node_id b))"
  using assms by (rule deadlock_explained)

text \<open>C5: progress.  While no step has failed, a workflow whose dependencies all exist and form no cycle, and
  in which no step is parked in \<open>Ready\<close>, is complete, or has a step that is ready now, or one that is
  running, waiting for its retry time, for input or for a child: no deadlock is reported.\<close>

theorem no_deadlock_without_failure:
  assumes "\<not> has_failures w" and "\<forall>n\<in>set (wf_nodes w). node_status n \<noteq> Ready"
    and "\<forall>n\<in>set (wf_nodes w). set (node_depends_on n) \<subseteq> node_id ` set (wf_nodes w)"
    and "\<forall>i. \<not> (depends_rel w)\<^sup>+\<^sup>+ i i"
  shows "detect_deadlock w now = None
    \<and> (is_complete w \<or> ready_steps w now \<noteq> [] \<or> (\<exists>n\<in>set (wf_nodes w). is_active (node_status n)))"
proof -
  have "detect_deadlock w now = None"
  proof (rule ccontr)
    assume "detect_deadlock w now \<noteq> None"
    then obtain ids where ids: "detect_deadlock w now = Some ids" by blast
    note dd = detect_deadlock_SomeD [OF this]
    then obtain n where n: "n \<in> set (wf_nodes w)" "\<not> is_terminal (node_status n)"
      by (auto simp: is_complete_def list_all_iff)
    have "ids = []" using dd assms(1) by (auto simp: has_failures_def list_ex_iff filter_empty_conv)
    obtain b where b: "b \<in> set (wf_nodes w)" "node_id b \<in> set ids \<or> node_status b = Ready
        \<or> (\<exists>d\<in>set (node_depends_on b). d \<notin> node_id ` set (wf_nodes w)) \<or> (depends_rel w)\<^sup>+\<^sup>+ (node_id b) (node_id b)"
      using deadlock_explained [OF ids n] by blast
    with \<open>ids = []\<close> assms(2-4) show False by (auto dest: bspec)
  qed
  then show ?thesis
    by (auto simp: detect_deadlock_def list_ex_iff split: if_splits)
qed

section \<open>Retry timing\<close>

lemma fold_min_le: "fold min ts (t::int) \<le> t \<and> (\<forall>u\<in>set ts. fold min ts t \<le> u) \<and> fold min ts t \<in> set (t # ts)"
proof (induction ts arbitrary: t)
  case (Cons u ts)
  from Cons.IH [of "min u t"] show ?case by (auto simp: min_def split: if_splits)
qed simp

text \<open>The time the scheduler sleeps until is the earliest retry time.  It is the retry time of
  some step, and before it no retrying step is ready.\<close>

theorem next_retry_time_is_earliest:
  assumes "next_retry_time w = Some t"
  shows "(\<exists>n\<in>set (wf_nodes w). retry_time_of (node_status n) = Some t)
    \<and> (\<forall>now < t. \<forall>n\<in>set (ready_steps w now). node_status n = Pending)"
proof -
  let ?ts = "List.map_filter (\<lambda>n. retry_time_of (node_status n)) (wf_nodes w)"
  from assms obtain u us where ts: "?ts = u # us" "t = fold min us u"
    by (auto simp: next_retry_time_def split: list.splits)
  with fold_min_le [of us u] have "t \<in> set ?ts" "\<forall>v\<in>set ?ts. t \<le> v" by auto
  then have mem: "\<exists>n\<in>set (wf_nodes w). retry_time_of (node_status n) = Some t"
    and low: "\<And>n v. n \<in> set (wf_nodes w) \<Longrightarrow> retry_time_of (node_status n) = Some v \<Longrightarrow> t \<le> v"
    by (auto simp: List.map_filter_def)
  from low have "\<forall>now < t. \<forall>n\<in>set (ready_steps w now). node_status n = Pending"
    by (fastforce simp: ready_steps_def step_ready_def split: step_status.splits)
  with mem show ?thesis by blast
qed

lemma duration_secs_ok_nat: "d \<le> 9223372036854775 \<Longrightarrow> duration_secs_ok (int d)"
  by (simp add: duration_secs_ok_def)

text \<open>Exponential backoff.  As long as the delay fits chrono's range and at most 64 attempts
  are made, the retry time is \<open>backoff_secs * 2 ^ (attempt - 1)\<close> seconds from now, in either
  build.\<close>

theorem retry_backoff_exact:
  assumes "attempt \<le> 64" and "backoff_secs rp * 2 ^ (attempt - 1) \<le> 9223372036854775"
  shows "retry_at ext rp attempt now = dt_add_secs ext now (int (backoff_secs rp * 2 ^ (attempt - 1)))"
proof -
  have "(2::nat) ^ (attempt - 1) < 2 ^ 64" using assms(1) by (intro power_strict_increasing) auto
  then have "wrap_to ext 64 (2 ^ (attempt - 1)) = Some (2 ^ (attempt - 1))" by (rule wrap_to_id)
  moreover have "wrap_to ext 64 (backoff_secs rp * 2 ^ (attempt - 1))
      = Some (backoff_secs rp * 2 ^ (attempt - 1))"
    using assms(2) by (intro wrap_to_id) simp
  moreover have "as_i64 (backoff_secs rp * 2 ^ (attempt - 1)) = int (backoff_secs rp * 2 ^ (attempt - 1))"
    using assms(2) by (simp add: as_i64_def)
  moreover have "duration_secs_ok (int (backoff_secs rp * 2 ^ (attempt - 1)))"
    using assms(2) by (rule duration_secs_ok_nat)
  ultimately show ?thesis by (simp add: retry_at_def)
qed

text \<open>Past the 64th attempt the backoff of a release build collapses: the power wraps to zero
  and the step is retried at once.\<close>

theorem retry_backoff_collapses:
  assumes "\<not> overflow_checks ext" and "64 < attempt"
  shows "retry_at ext rp attempt now = dt_add_secs ext now 0"
proof -
  have "(2::nat) ^ 64 dvd 2 ^ (attempt - 1)" using assms(2) by (intro le_imp_power_dvd) simp
  then have "(2::nat) ^ (attempt - 1) mod 2 ^ 64 = 0" by simp
  moreover have "(2::nat) ^ 64 \<le> 2 ^ (attempt - 1)"
    using assms(2) by (intro power_increasing) auto
  then have "\<not> (2::nat) ^ (attempt - 1) < 2 ^ 64" by (simp only: not_less)
  ultimately have "wrap_to ext 64 (2 ^ (attempt - 1)) = Some 0"
    using assms(1) by (simp add: wrap_to_def)
  then show ?thesis
    by (simp add: retry_at_def wrap_to_def as_i64_def duration_secs_ok_def)
qed

section \<open>Workflows made from plans\<close>

text \<open>A plan whose steps are numbered in order and depend on earlier steps only.\<close>

definition plan_ordered :: "plan \<Rightarrow> bool" where
  "plan_ordered p \<longleftrightarrow> (\<forall>i < length (plan_steps p). ps_index (plan_steps p ! i) = i
     \<and> (\<forall>d\<in>set (ps_depends_on (plan_steps p ! i)). d < i))"

lemma step_name_inject [simp]: "step_name i = step_name j \<longleftrightarrow> i = j"
  by (simp add: step_name_def)

lemma topo_from_planned:
  assumes "\<forall>i < length ss. ps_index (ss ! i) = k + i \<and> (\<forall>d\<in>set (ps_depends_on (ss ! i)). d < k + i)"
    and "step_name ` {..<k} \<subseteq> seen"
  shows "topo_from seen (map node_of_planned ss)"
  using assms
proof (induction ss arbitrary: k seen)
  case Nil
  then show ?case by simp
next
  case (Cons s ss)
  from Cons.prems(1) have s: "ps_index s = k" "\<forall>d\<in>set (ps_depends_on s). d < k" by force+
  have "topo_from (insert (step_name k) seen) (map node_of_planned ss)"
  proof (rule Cons.IH [of "Suc k"])
    show "\<forall>i < length ss. ps_index (ss ! i) = Suc k + i
        \<and> (\<forall>d\<in>set (ps_depends_on (ss ! i)). d < Suc k + i)"
      using Cons.prems(1) by force
    show "step_name ` {..<Suc k} \<subseteq> insert (step_name k) seen"
      using Cons.prems(2) by (auto simp: lessThan_Suc)
  qed
  moreover have "\<forall>d\<in>set (node_depends_on (node_of_planned s)). d \<in> seen"
    using s Cons.prems(2) by (auto simp: node_of_planned_def)
  moreover have "node_id (node_of_planned s) = step_name k"
    using s by (simp add: node_of_planned_def)
  ultimately show ?case by simp
qed

lemma ids_from_plan:
  assumes "plan_ordered p"
  shows "map node_id (wf_nodes (from_plan uuid p a t now)) = map step_name [0..<length (plan_steps p)]"
  using assms
  by (auto simp: from_plan_def node_of_planned_def plan_ordered_def intro!: nth_equalityI)

text \<open>A plan with steps numbered in order and with backward dependencies gives a workflow
  that satisfies what the scheduler theorems assume: unique ids, dependencies pointing backwards,
  every step pending and never attempted.\<close>

theorem from_plan_wellformed:
  assumes "plan_ordered p"
  shows "ids_distinct (from_plan uuid p agent_id tenant_id now)
    \<and> topo_ordered (from_plan uuid p agent_id tenant_id now)
    \<and> (\<forall>n\<in>set (wf_nodes (from_plan uuid p agent_id tenant_id now)).
         node_status n = Pending \<and> node_attempt n = 0 \<and> max_attempts (node_retry_policy n) < 2 ^ 32)"
proof (intro conjI)
  show "ids_distinct (from_plan uuid p agent_id tenant_id now)"
    unfolding ids_distinct_def ids_from_plan [OF assms]
    by (simp add: distinct_map inj_on_def)
  show "topo_ordered (from_plan uuid p agent_id tenant_id now)"
    using topo_from_planned [of "plan_steps p" 0 "{}"] assms
    by (simp add: topo_ordered_def from_plan_def plan_ordered_def)
qed (auto simp: from_plan_def node_of_planned_def default_retry_policy_def)

lemma parse_step_names:
  "\<forall>d\<in>set ds. d < 2 ^ 64 \<Longrightarrow>
   List.map_filter (\<lambda>sid. case strip_prefix ''step-'' sid of None \<Rightarrow> None | Some s \<Rightarrow> parse_usize s)
     (map step_name ds) = ds"
proof -
  assume "\<forall>d\<in>set ds. d < 2 ^ 64"
  then have "\<forall>d\<in>set ds. (case strip_prefix ''step-'' (step_name d) of None \<Rightarrow> None
      | Some s \<Rightarrow> parse_usize s) = Some d"
    by (auto simp: step_name_def parse_usize_show simp del: append.simps)
  then show ?thesis
    by (simp add: map_filter_map map_filter_cong_Some [where g = "\<lambda>d. d"] comp_def)
qed

text \<open>The conversion of a workflow node back into a planned step undoes the constructor,
  except that an empty dependency list of a later step comes back as the implied dependency on
  the step before it.\<close>

theorem planned_step_roundtrip:
  assumes "ps_index s < 2 ^ 64" and "\<forall>d\<in>set (ps_depends_on s). d < 2 ^ 64"
  shows "to_planned_step (node_of_planned s) =
    s\<lparr>ps_depends_on := (if ps_depends_on s = [] \<and> 0 < ps_index s then [ps_index s - 1]
                        else ps_depends_on s)\<rparr>"
  using parse_step_names [OF assms(2)] parse_step_names [of "[ps_index s - 1]"] assms(1)
  by (simp add: to_planned_step_def node_of_planned_def)

section \<open>Concrete runs\<close>

text \<open>Two steps in a row; the first is skipped, fails, or is retried.\<close>

definition sample_planned :: "nat \<Rightarrow> planned_step" where
  "sample_planned i = \<lparr>ps_index = i, ps_description = ''d'', ps_tool = None, ps_tool_args = None,
     ps_success_criteria = [], ps_condition = None, ps_foreach = None, ps_depends_on = []\<rparr>"

definition sample_plan :: plan where
  "sample_plan = \<lparr>plan_goal = ''g'', plan_job_type = None,
     plan_steps = [sample_planned 0, sample_planned 1], plan_rationale = []\<rparr>"

definition sample_workflow :: workflow where
  "sample_workflow = from_plan ''u'' sample_plan ''a'' ''t'' 0"

definition sample_skipped :: workflow where
  "sample_skipped = set_step (step_name 0)
     (\<lambda>n. n\<lparr>node_status := Skipped, node_completed_at := Some 1\<rparr>) 1 sample_workflow"

definition sample_started :: workflow where
  "sample_started = set_step (step_name 1)
     (\<lambda>n. n\<lparr>node_status := Running, node_started_at := Some 2\<rparr>) 2 sample_skipped"

definition sample_failed :: workflow where
  "sample_failed = set_step (step_name 0) (\<lambda>n. n\<lparr>node_status := Failed\<rparr>) 1 sample_workflow"

definition sample_retrying :: workflow where
  "sample_retrying = set_step (step_name 0) (\<lambda>n. n\<lparr>node_status := Retrying 1 7\<rparr>) 1 sample_workflow"

lemmas sample_defs = sample_started_def sample_skipped_def sample_failed_def sample_retrying_def
  sample_workflow_def sample_plan_def sample_planned_def from_plan_def node_of_planned_def
  set_step_def default_retry_policy_def

lemma sample_skip: "mark_skipped sample_workflow (step_name 0) 1 = Inr sample_skipped"
  by (simp add: mark_skipped_def get_step_def sample_defs)

lemma sample_start: "mark_running sample_skipped (step_name 1) 2 = Inr sample_started"
  by (simp add: mark_running_def get_step_def sample_defs)

lemma sample_ordered: "plan_ordered sample_plan"
  by (simp add: plan_ordered_def sample_plan_def sample_planned_def less_Suc_eq numeral_2_eq_2)

lemma sample_pending:
  "\<forall>n\<in>set (wf_nodes sample_workflow). node_status n = Pending \<and> node_attempt n = 0
     \<and> max_attempts (node_retry_policy n) < 2 ^ 32"
  by (simp add: sample_defs)

lemma sample_distinct: "ids_distinct sample_workflow" "ids_distinct sample_skipped"
  by (simp_all add: ids_distinct_def sample_defs)

lemma sample_steps: "wf_step sample_ext sample_workflow sample_skipped"
    "wf_step sample_ext sample_skipped sample_started"
  using wf_step.skip [OF sample_skip] wf_step.run [OF sample_start] by auto

theorem terminal_steps_are_final_witness:
  "wf_nodes sample_skipped ! 0 \<in> set (wf_nodes sample_started)
     \<and> node_status (wf_nodes sample_skipped ! 0) = Skipped"
proof
  have t: "is_terminal (node_status (wf_nodes sample_skipped ! 0))" by (simp add: sample_defs)
  have m: "wf_nodes sample_skipped ! 0 \<in> set (wf_nodes sample_skipped)" by (simp add: sample_defs)
  show "wf_nodes sample_skipped ! 0 \<in> set (wf_nodes sample_started)"
    using terminal_steps_are_final [OF r_into_rtranclp [of "wf_step sample_ext"] sample_distinct(2) m t]
      sample_steps(2) by blast
  show "node_status (wf_nodes sample_skipped ! 0) = Skipped" by (simp add: sample_defs)
qed

theorem attempts_within_policy_witness:
  "starts sample_ext (step_name 0) [DoRun (step_name 0) 1, DoFail (step_name 0) ''e'' 2, DoRun (step_name 0) 99] sample_workflow \<le> 1"
proof -
  have "get_step sample_workflow (step_name 0) = Some (node_of_planned (sample_planned 0))"
    "node_status (node_of_planned (sample_planned 0)) = Pending" "node_attempt (node_of_planned (sample_planned 0)) = 0"
    "max_attempts (node_retry_policy (node_of_planned (sample_planned 0))) = 1"
    by (simp_all add: get_step_def sample_defs)
  from attempts_within_policy [OF this(1-3), unfolded this(4)] show ?thesis by (simp del: starts.simps)
qed

theorem transitions_bounded_witness:
  "(wf_step sample_ext ^^ 2) sample_workflow sample_started
     \<and> (2::nat) \<le> (\<Sum>n\<leftarrow>wf_nodes sample_workflow. 2 * max 1 (max_attempts (node_retry_policy n)) + 2)"
proof
  show r: "(wf_step sample_ext ^^ 2) sample_workflow sample_started"
    using sample_steps by (auto simp: numeral_2_eq_2)
  show "(2::nat) \<le> (\<Sum>n\<leftarrow>wf_nodes sample_workflow. 2 * max 1 (max_attempts (node_retry_policy n)) + 2)"
    by (rule transitions_bounded [OF r sample_pending])
qed

lemma sample_not_ready:
  "\<forall>n\<in>set (wf_nodes sample_workflow). node_status n \<noteq> Ready"
  by (simp add: sample_defs)

lemma sample_deadlock: "detect_deadlock sample_failed 5 = Some [step_name 0]"
  by (simp add: detect_deadlock_def is_complete_def ready_steps_def step_ready_def
      deps_satisfied_def sample_defs)

theorem deadlock_is_explained_witness:
  "\<exists>b\<in>set (wf_nodes sample_failed). (depends_rel sample_failed)\<^sup>*\<^sup>* (step_name 1) (node_id b)
     \<and> (node_id b = step_name 0 \<or> (depends_rel sample_failed)\<^sup>+\<^sup>+ (node_id b) (node_id b))"
proof -
  have n: "wf_nodes sample_failed ! 1 \<in> set (wf_nodes sample_failed)"
    "\<not> is_terminal (node_status (wf_nodes sample_failed ! 1))"
    "node_id (wf_nodes sample_failed ! 1) = step_name 1"
    and others: "\<forall>b\<in>set (wf_nodes sample_failed). node_status b \<noteq> Ready
      \<and> set (node_depends_on b) \<subseteq> node_id ` set (wf_nodes sample_failed)"
    by (simp_all add: sample_defs)
  from deadlock_is_explained [OF sample_deadlock n(1,2)] obtain b where b: "b \<in> set (wf_nodes sample_failed)"
    "(depends_rel sample_failed)\<^sup>*\<^sup>* (step_name 1) (node_id b)"
    "node_id b \<in> set [step_name 0] \<or> node_status b = Ready
       \<or> (\<exists>d\<in>set (node_depends_on b). d \<notin> node_id ` set (wf_nodes sample_failed))
       \<or> (depends_rel sample_failed)\<^sup>+\<^sup>+ (node_id b) (node_id b)" unfolding n(3) by blast
  with others have "node_id b = step_name 0 \<or> (depends_rel sample_failed)\<^sup>+\<^sup>+ (node_id b) (node_id b)" by auto
  with b(1,2) show ?thesis by blast
qed

lemma sample_acyclic: "\<not> (depends_rel sample_workflow)\<^sup>+\<^sup>+ i i"
proof -
  have edge: "a = step_name 1 \<and> b = step_name 0" if "depends_rel sample_workflow a b" for a b
    using that by (auto simp: depends_rel_def sample_defs)
  have "a = step_name 1 \<and> b = step_name 0" if "(depends_rel sample_workflow)\<^sup>+\<^sup>+ a b" for a b
    using that by induction (auto dest: edge)
  from this [of i i] show ?thesis by auto
qed

theorem no_deadlock_without_failure_witness:
  "detect_deadlock sample_workflow 5 = None"
proof -
  have "\<forall>n\<in>set (wf_nodes sample_workflow). set (node_depends_on n) \<subseteq> node_id ` set (wf_nodes sample_workflow)"
    "\<not> has_failures sample_workflow" by (simp_all add: has_failures_def sample_defs)
  with no_deadlock_without_failure [OF _ sample_not_ready, of 5] sample_acyclic show ?thesis by blast
qed

theorem next_retry_time_is_earliest_witness:
  "next_retry_time sample_retrying = Some 7
     \<and> list_all (\<lambda>n. node_status n = Pending) (ready_steps sample_retrying 6)"
proof
  show t: "next_retry_time sample_retrying = Some 7"
    by (simp add: next_retry_time_def sample_defs)
  show "list_all (\<lambda>n. node_status n = Pending) (ready_steps sample_retrying 6)"
    using next_retry_time_is_earliest [OF t, THEN conjunct2, THEN spec, of 6]
    by (simp add: list_all_iff)
qed

theorem retry_backoff_exact_witness:
  "retry_at sample_ext \<lparr>max_attempts = 5, backoff_secs = 2, retry_on = []\<rparr> 3 0 = Some (secs 8)"
  using retry_backoff_exact [of 3 "\<lparr>max_attempts = 5, backoff_secs = 2, retry_on = []\<rparr>" sample_ext 0]
  by (simp add: sample_ext_def)

theorem retry_backoff_collapses_witness:
  "retry_at sample_ext \<lparr>max_attempts = 100, backoff_secs = 2, retry_on = []\<rparr> 65 9 = Some 9"
  using retry_backoff_collapses [of sample_ext 65 "\<lparr>max_attempts = 100, backoff_secs = 2, retry_on = []\<rparr>" 9]
  by (simp add: sample_ext_def secs_def)

theorem from_plan_wellformed_witness: "topo_ordered (from_plan ''u'' sample_plan ''a'' ''t'' 0)"
  using from_plan_wellformed [OF sample_ordered] by blast

theorem planned_step_roundtrip_witness:
  "ps_depends_on (to_planned_step (node_of_planned (sample_planned 4))) = [3]"
  using planned_step_roundtrip [of "sample_planned 4"] by (simp add: sample_planned_def)

end
