(* ===== verification/Dag_Foreach.thy ===== *)
theory Dag_Foreach
  imports Dag_Machine
begin

text \<open>
  The for-each part of \<open>agent/dag.rs\<close>: the collection a template iterates over, the rendering of
  the \<open>{item}\<close> and \<open>{item.key}\<close> placeholders, and the expansion of a template into one node per
  item and a join node.  The rendering loop rewrites its text until no placeholder is found and
  need not stop, so it is a partial function: \<open>None\<close> is a call that never returns.
\<close>

section \<open>The collection\<close>

definition resolve_collection :: "workflow \<Rightarrow> string \<Rightarrow> json list" where
  "resolve_collection w expression =
     (let parts = split_on CHR ''.'' expression;
          by_key = (if 3 \<le> length parts \<and> parts ! 0 = ''deps'' then
                      (case get_step w (parts ! 1) of
                         None \<Rightarrow> None
                       | Some dep \<Rightarrow>
                           (case node_output_data dep of
                              None \<Rightarrow> None
                            | Some output \<Rightarrow> Option.bind (json_get (parts ! 2) output) as_array))
                    else None);
          whole = (if length parts = 2 \<and> parts ! 0 = ''deps'' then
                     (case get_step w (parts ! 1) of
                        None \<Rightarrow> None
                      | Some dep \<Rightarrow> Option.bind (node_output_data dep) as_array)
                   else None)
      in case by_key of
           Some arr \<Rightarrow> arr
         | None \<Rightarrow> (case whole of Some arr \<Rightarrow> arr | None \<Rightarrow> []))"

section \<open>Rendering placeholders\<close>

definition json_text :: "externals \<Rightarrow> json \<Rightarrow> string" where
  "json_text ext v = (case v of JString s \<Rightarrow> s | other \<Rightarrow> json_to_string ext other)"

definition item_replacement :: "externals \<Rightarrow> json \<Rightarrow> string \<Rightarrow> string" where
  "item_replacement ext item key =
     (case json_get key item of
        Some v \<Rightarrow> json_text ext v
      | None \<Rightarrow> ''{item.'' @ key @ ''}'')"

partial_function (option) render_loop :: "externals \<Rightarrow> json \<Rightarrow> string \<Rightarrow> string option" where
  "render_loop ext item s =
     (case str_find ''{item.'' s of
        None \<Rightarrow> Some s
      | Some start \<Rightarrow>
          (case str_find ''}'' (drop (start + 6) s) of
             None \<Rightarrow> Some s
           | Some stop \<Rightarrow>
               render_loop ext item
                 (take start s @ item_replacement ext item (take stop (drop (start + 6) s))
                    @ drop (stop + 1) (drop (start + 6) s))))"

definition render_string :: "externals \<Rightarrow> json \<Rightarrow> string \<Rightarrow> string option" where
  "render_string ext item s =
     render_loop ext item
       (if str_contains ''{item}'' s then str_replace ''{item}'' (json_text ext item) s else s)"

fun render_item_template :: "externals \<Rightarrow> json \<Rightarrow> json \<Rightarrow> json option" where
  "render_item_template ext item (JString s) = map_option JString (render_string ext item s)"
| "render_item_template ext item (JObject kvs) =
     map_option JObject
       (those (map (\<lambda>kv. map_option (Pair (fst kv)) (render_item_template ext item (snd kv))) kvs))"
| "render_item_template ext item (JArray xs) =
     map_option JArray (those (map (render_item_template ext item) xs))"
| "render_item_template ext item other = Some other"

section \<open>Expansion\<close>

definition join_id :: "string \<Rightarrow> string" where
  "join_id template_id = template_id @ ''_join''"

definition child_id :: "string \<Rightarrow> nat \<Rightarrow> string" where
  "child_id template_id idx = template_id @ ''['' @ show_nat idx @ '']''"

definition expand_child :: "externals \<Rightarrow> step_node \<Rightarrow> nat \<Rightarrow> json \<Rightarrow> step_node option" where
  "expand_child ext template idx item =
     (let child = template\<lparr>node_id := child_id (node_id template) idx,
                           node_kind := ForEachItem (node_id template) idx,
                           node_status := Pending\<rparr>
      in case node_tool_args template of
           None \<Rightarrow> Some child
         | Some args \<Rightarrow>
             map_option (\<lambda>a. child\<lparr>node_tool_args := Some a\<rparr>) (render_item_template ext item args))"

definition expand_join :: "step_node \<Rightarrow> nat \<Rightarrow> step_node" where
  "expand_join template n_items =
     template\<lparr>node_id := join_id (node_id template),
              node_kind := ForEachJoin (node_id template),
              node_depends_on := map (child_id (node_id template)) [0..<n_items],
              node_status := Pending,
              node_description := ''Join results for '' @ node_id template,
              node_tool := None\<rparr>"

definition redirect_deps :: "string \<Rightarrow> step_node \<Rightarrow> step_node" where
  "redirect_deps tid n =
     n\<lparr>node_depends_on := map (\<lambda>d. if d = tid then join_id tid else d) (node_depends_on n)\<rparr>"

text \<open>One pass of the loop over the templates: the workflow, the new nodes and the changed
  dependency lists so far.\<close>

type_synonym expansion = "workflow \<times> step_node list \<times> (string \<times> string list) list"

definition expand_one ::
  "externals \<Rightarrow> time \<Rightarrow> string \<times> string option \<Rightarrow> expansion \<Rightarrow> expansion option" where
  "expand_one ext now te st =
     (case (te, st) of ((tid, expr), (w, new, upd)) \<Rightarrow>
        (case get_step w tid of
           None \<Rightarrow> None
         | Some template \<Rightarrow>
             (let items = (case expr of None \<Rightarrow> [] | Some e \<Rightarrow> resolve_collection w e)
              in case those (map (\<lambda>(i, item). expand_child ext template i item) (enumerate 0 items)) of
                   None \<Rightarrow> None
                 | Some children \<Rightarrow>
                     (let done = update_first (\<lambda>n. node_id n = tid)
                            (\<lambda>n. n\<lparr>node_status := Succeeded, node_completed_at := Some now\<rparr>)
                            (wf_nodes w);
                          redirected = map (redirect_deps tid) done
                      in Some (w\<lparr>wf_nodes := redirected\<rparr>,
                               new @ children @ [expand_join template (length items)],
                               upd @ map (\<lambda>n. (node_id n, node_depends_on (redirect_deps tid n)))
                                       (filter (\<lambda>n. tid \<in> set (node_depends_on n)) done))))))"

fun expand_all ::
  "externals \<Rightarrow> time \<Rightarrow> (string \<times> string option) list \<Rightarrow> expansion \<Rightarrow> expansion option" where
  "expand_all ext now [] st = Some st"
| "expand_all ext now (te # tes) st =
     (case expand_one ext now te st of None \<Rightarrow> None | Some st' \<Rightarrow> expand_all ext now tes st')"

definition expandable :: "workflow \<Rightarrow> step_node \<Rightarrow> bool" where
  "expandable w n = (node_kind n = ForEachTemplate \<and> node_status n = Pending \<and> deps_satisfied w n)"

text \<open>\<open>None\<close>: the call never returns.  Otherwise the workflow and what the method returns.\<close>

definition expand_foreach_nodes ::
  "externals \<Rightarrow> workflow \<Rightarrow> time \<Rightarrow>
     (workflow \<times> (step_node list \<times> (string \<times> string list) list) option) option" where
  "expand_foreach_nodes ext w now =
     (let to_expand = map (\<lambda>n. (node_id n, node_foreach n)) (filter (expandable w) (wf_nodes w))
      in if to_expand = [] then Some (w, None)
         else case expand_all ext now to_expand (w, [], []) of
                None \<Rightarrow> None
              | Some (w', new, upd) \<Rightarrow>
                  Some (w'\<lparr>wf_nodes := wf_nodes w' @ new\<rparr>, Some (new, upd)))"

section \<open>Rendering is substitution\<close>

text \<open>A template text as pieces: plain text and \<open>{item.key}\<close> holes.\<close>

datatype piece = Plain string | Hole string

fun piece_text :: "piece \<Rightarrow> string" where
  "piece_text (Plain t) = t"
| "piece_text (Hole k) = ''{item.'' @ k @ ''}''"

fun piece_value :: "externals \<Rightarrow> json \<Rightarrow> piece \<Rightarrow> string" where
  "piece_value ext item (Plain t) = t"
| "piece_value ext item (Hole k) = item_replacement ext item k"

fun piece_ok :: "externals \<Rightarrow> json \<Rightarrow> piece \<Rightarrow> bool" where
  "piece_ok ext item (Plain t) = (CHR ''{'' \<notin> set t)"
| "piece_ok ext item (Hole k) = (CHR ''{'' \<notin> set k \<and> CHR ''}'' \<notin> set k
     \<and> (case json_get k item of None \<Rightarrow> False | Some v \<Rightarrow> CHR ''{'' \<notin> set (json_text ext v)))"

abbreviation pieces_text :: "piece list \<Rightarrow> string" where
  "pieces_text ps \<equiv> concat (map piece_text ps)"

abbreviation pieces_value :: "externals \<Rightarrow> json \<Rightarrow> piece list \<Rightarrow> string" where
  "pieces_value ext item ps \<equiv> concat (map (piece_value ext item) ps)"

lemma piece_no_brace:
  "piece_ok ext item p \<Longrightarrow> CHR ''{'' \<notin> set (piece_value ext item p)"
  by (cases p) (auto simp: item_replacement_def split: option.splits)

lemma render_hole:
  assumes "CHR ''{'' \<notin> set pre" and "CHR ''}'' \<notin> set k"
  shows "render_loop ext item (pre @ ''{item.'' @ k @ ''}'' @ rest)
       = render_loop ext item (pre @ item_replacement ext item k @ rest)"
proof -
  let ?s = "pre @ ''{item.'' @ k @ ''}'' @ rest"
  have "str_find ''{item.'' ?s = Some (length pre)"
    using assms(1) by (subst str_find_skip) simp_all
  moreover have d: "drop (length pre + 6) ?s = k @ ''}'' @ rest" by simp
  moreover have "str_find ''}'' (k @ ''}'' @ rest) = Some (length k)"
    using assms(2) by (subst str_find_skip) simp_all
  ultimately show ?thesis by (subst render_loop.simps) simp
qed

lemma render_pieces:
  assumes "CHR ''{'' \<notin> set pre" and "\<forall>p\<in>set ps. piece_ok ext item p"
  shows "render_loop ext item (pre @ pieces_text ps) = Some (pre @ pieces_value ext item ps)"
  using assms
proof (induction ps arbitrary: pre)
  case Nil
  then show ?case by (subst render_loop.simps) (simp add: str_find_absent)
next
  case (Cons p ps)
  have pre': "CHR ''{'' \<notin> set (pre @ piece_value ext item p)"
    using Cons.prems piece_no_brace [of ext item p] by simp
  have "render_loop ext item (pre @ pieces_text (p # ps))
      = render_loop ext item ((pre @ piece_value ext item p) @ pieces_text ps)"
  proof (cases p)
    case (Hole k)
    with Cons.prems render_hole [of pre k ext item "pieces_text ps"] show ?thesis
      by (simp split: option.splits)
  qed simp
  with Cons.IH [OF pre'] Cons.prems(2) show ?case by simp
qed

lemma pieces_no_item: "\<forall>p\<in>set ps. piece_ok ext item p \<Longrightarrow> str_find ''{item}'' (pieces_text ps) = None"
proof (induction ps)
  case (Cons p ps)
  show ?case
  proof (cases p)
    case (Plain t)
    with Cons show ?thesis by (simp add: str_find_skip)
  next
    case (Hole k)
    with Cons.prems have "CHR ''{'' \<notin> set (''item.'' @ k @ ''}'')" by simp
    then have "str_find ''{item}'' ((''item.'' @ k @ ''}'') @ pieces_text ps) = None"
      using Cons by (subst str_find_skip) simp_all
    with Hole show ?thesis by simp
  qed
qed simp

text \<open>Rendering is substitution.  Where every hole of a template names a field of the item and
  no substituted text contains an opening brace, the loop stops, and the result is the template
  with each \<open>{item.key}\<close> replaced by the text of that field.\<close>

theorem render_substitutes:
  assumes "\<forall>p\<in>set ps. piece_ok ext item p"
  shows "render_item_template ext item (JString (concat (map piece_text ps)))
       = Some (JString (concat (map (piece_value ext item) ps)))"
  using render_pieces [of "[]" ps ext item] pieces_no_item [of ps ext item] assms
  by (simp add: render_string_def str_contains_def)

text \<open>The loop never returns from a text that an iteration maps to itself.\<close>

lemma render_loop_stuck:
  assumes "str_find ''{item.'' s = Some start" and "str_find ''}'' (drop (start + 6) s) = Some stop"
    and "take start s @ item_replacement ext item (take stop (drop (start + 6) s))
           @ drop (stop + 1) (drop (start + 6) s) = s"
  shows "render_loop ext item s = None"
proof (rule ccontr)
  assume "render_loop ext item s \<noteq> None"
  then obtain r where ret: "render_loop ext item s = Some r" by blast
  have "ext = ext \<and> item = item \<longrightarrow> s \<noteq> s"
  proof (rule render_loop.raw_induct [where P = "\<lambda>e i t r. e = ext \<and> i = item \<longrightarrow> t \<noteq> s", OF _ ret])
    fix f e i t r
    assume IH: "\<And>e i t r. f e i t = Some r \<Longrightarrow> e = ext \<and> i = item \<longrightarrow> t \<noteq> s"
      and eq: "(case str_find ''{item.'' t of None \<Rightarrow> Some t | Some start \<Rightarrow>
          (case str_find ''}'' (drop (start + 6) t) of None \<Rightarrow> Some t | Some stop \<Rightarrow>
             f e i (take start t @ item_replacement e i (take stop (drop (start + 6) t))
               @ drop (stop + 1) (drop (start + 6) t)))) = Some r"
    show "e = ext \<and> i = item \<longrightarrow> t \<noteq> s"
    proof (intro impI notI)
      assume "e = ext \<and> i = item" "t = s"
      with eq assms have "f e i t = Some r" by simp
      with IH \<open>e = ext \<and> i = item\<close> \<open>t = s\<close> show False by blast
    qed
  qed
  then show False by simp
qed

text \<open>A hole whose key the item does not have makes the expansion hang: the placeholder is
  replaced by itself and the loop never returns.\<close>

theorem render_missing_key_diverges:
  assumes "CHR ''{'' \<notin> set pre" and "CHR ''}'' \<notin> set key" and "json_get key item = None"
    and "\<not> str_contains ''{item}'' (pre @ ''{item.'' @ key @ ''}'' @ rest)"
  shows "render_item_template ext item (JString (pre @ ''{item.'' @ key @ ''}'' @ rest)) = None"
proof -
  let ?s = "pre @ ''{item.'' @ key @ ''}'' @ rest"
  have "render_loop ext item ?s = None"
  proof (rule render_loop_stuck)
    show "str_find ''{item.'' ?s = Some (length pre)"
      using assms(1) by (subst str_find_skip) simp_all
    show "str_find ''}'' (drop (length pre + 6) ?s) = Some (length key)"
      using assms(2) str_find_skip [of "CHR ''}''" key "[]" "''}'' @ rest"] by simp
    show "take (length pre) ?s
        @ item_replacement ext item (take (length key) (drop (length pre + 6) ?s))
        @ drop (length key + 1) (drop (length pre + 6) ?s) = ?s"
      using assms(3) by (simp add: item_replacement_def)
  qed
  with assms(4) show ?thesis by (simp add: render_string_def)
qed

section \<open>What an expansion does to the graph\<close>

text \<open>The effect on the existing nodes, for the set \<open>E\<close> of expanded template ids.\<close>

definition expanded_node :: "time \<Rightarrow> string set \<Rightarrow> step_node \<Rightarrow> step_node" where
  "expanded_node now E n =
     (if node_id n \<in> E then n\<lparr>node_status := Succeeded, node_completed_at := Some now\<rparr> else n)
       \<lparr>node_depends_on := map (\<lambda>d. if d \<in> E then join_id d else d) (node_depends_on n)\<rparr>"

text \<open>The number of items of a template: none without an expression.\<close>

definition item_count :: "workflow \<Rightarrow> string option \<Rightarrow> nat" where
  "item_count w expr = length (case expr of None \<Rightarrow> [] | Some e \<Rightarrow> resolve_collection w e)"

text \<open>The nodes an expansion adds for one template with \<open>k\<close> items.\<close>

definition fans_out :: "step_node list \<Rightarrow> string \<Rightarrow> nat \<Rightarrow> bool" where
  "fans_out new tid k \<longleftrightarrow>
     (\<exists>j\<in>set new. node_id j = join_id tid \<and> node_kind j = ForEachJoin tid \<and> node_status j = Pending
        \<and> node_tool j = None \<and> node_depends_on j = map (child_id tid) [0..<k])
   \<and> (\<forall>i < k. \<exists>c\<in>set new. node_id c = child_id tid i \<and> node_kind c = ForEachItem tid i
        \<and> node_status c = Pending)"

lemma expanded_node_id [simp]: "node_id (expanded_node now E n) = node_id n"
  by (simp add: expanded_node_def)

lemma expanded_node_empty: "expanded_node now {} n = n"
  by (simp add: expanded_node_def)

lemma expanded_node_insert:
  assumes "\<forall>e\<in>E. join_id e \<noteq> tid"
  shows "redirect_deps tid (if node_id n = tid then (expanded_node now E n)
            \<lparr>node_status := Succeeded, node_completed_at := Some now\<rparr> else expanded_node now E n)
       = expanded_node now (insert tid E) n"
  using assms by (auto simp: expanded_node_def redirect_deps_def)

lemma those_SomeD: "those xs = Some ys \<Longrightarrow> xs = map Some ys"
  by (induction xs arbitrary: ys) (auto split: option.splits)

lemma expand_child_Some:
  "expand_child ext template i item = Some c \<Longrightarrow> node_id c = child_id (node_id template) i
     \<and> node_kind c = ForEachItem (node_id template) i \<and> node_status c = Pending
     \<and> node_depends_on c = node_depends_on template"
  by (auto simp: expand_child_def Let_def split: option.splits)

lemma expand_one_SomeE:
  assumes "expand_one ext now (tid, expr) (w, new, upd) = Some (w', new', upd')"
  obtains template children k where "get_step w tid = Some template"
    "w' = w\<lparr>wf_nodes := map (redirect_deps tid) (update_first (\<lambda>n. node_id n = tid)
            (\<lambda>n. n\<lparr>node_status := Succeeded, node_completed_at := Some now\<rparr>) (wf_nodes w))\<rparr>"
    "new' = new @ children @ [expand_join template k]" "length children = k" "k = item_count w expr"
    "\<And>i. i < k \<Longrightarrow> node_id (children ! i) = child_id tid i
        \<and> node_kind (children ! i) = ForEachItem tid i \<and> node_status (children ! i) = Pending"
proof -
  from assms obtain template children where t: "get_step w tid = Some template"
      "those (map (\<lambda>(i, item). expand_child ext template i item)
         (enumerate 0 (case expr of None \<Rightarrow> [] | Some e \<Rightarrow> resolve_collection w e))) = Some children"
      "w' = w\<lparr>wf_nodes := map (redirect_deps tid) (update_first (\<lambda>n. node_id n = tid)
            (\<lambda>n. n\<lparr>node_status := Succeeded, node_completed_at := Some now\<rparr>) (wf_nodes w))\<rparr>"
      "new' = new @ children @ [expand_join template
         (length (case expr of None \<Rightarrow> [] | Some e \<Rightarrow> resolve_collection w e))]"
    unfolding expand_one_def Let_def by (simp split: option.splits)
  let ?items = "case expr of None \<Rightarrow> [] | Some e \<Rightarrow> resolve_collection w e"
  have tid: "node_id template = tid" using t(1) by (auto simp: get_step_def dest: find_mem)
  have eq: "map (\<lambda>(i, item). expand_child ext template i item) (enumerate 0 ?items) = map Some children"
    using t(2) by (rule those_SomeD)
  then have len: "length children = length ?items"
    by (metis length_map length_enumerate)
  have "expand_child ext template i (?items ! i) = Some (children ! i)" if "i < length ?items" for i
    using that arg_cong [OF eq, of "\<lambda>xs. xs ! i"] len by (simp add: nth_enumerate_eq)
  then have "\<And>i. i < length ?items \<Longrightarrow> node_id (children ! i) = child_id tid i
      \<and> node_kind (children ! i) = ForEachItem tid i \<and> node_status (children ! i) = Pending"
    using expand_child_Some tid by blast
  with that t len show thesis by (simp add: item_count_def)
qed

lemma expand_one_nodes:
  assumes "expand_one ext now (tid, expr) (w, new, upd) = Some (w', new', upd')"
    and "wf_nodes w = map (expanded_node now E) ns" "distinct (map node_id ns)"
    and "\<forall>e\<in>E. join_id e \<noteq> tid"
  shows "wf_nodes w' = map (expanded_node now (insert tid E)) ns"
proof -
  have "distinct (map node_id (wf_nodes w))" using assms(2,3) by (simp add: comp_def)
  then have "wf_nodes w' = map (redirect_deps tid) (map (\<lambda>n. if node_id n = tid
      then n\<lparr>node_status := Succeeded, node_completed_at := Some now\<rparr> else n) (wf_nodes w))"
    using assms(1) by (elim expand_one_SomeE) (simp add: update_first_distinct)
  with assms(2,4) show ?thesis by (simp add: expanded_node_insert)
qed

lemma fans_out_mono: "fans_out new tid k \<Longrightarrow> set new \<subseteq> set new' \<Longrightarrow> fans_out new' tid k"
  unfolding fans_out_def by blast

lemma expand_one_fans_out:
  assumes "expand_one ext now (tid, expr) (w, new, upd) = Some (w', new', upd')"
  shows "set new \<subseteq> set new' \<and> fans_out new' tid (item_count w expr)"
  using assms
proof (rule expand_one_SomeE)
  fix template children k
  assume t: "get_step w tid = Some template"
    and n: "new' = new @ children @ [expand_join template k]" and l: "length children = k"
    and k: "k = item_count w expr"
    and c: "\<And>i. i < k \<Longrightarrow> node_id (children ! i) = child_id tid i
        \<and> node_kind (children ! i) = ForEachItem tid i \<and> node_status (children ! i) = Pending"
  have tid: "node_id template = tid" using t by (auto simp: get_step_def dest: find_mem)
  have "\<exists>x\<in>set new'. node_id x = child_id tid i \<and> node_kind x = ForEachItem tid i \<and> node_status x = Pending"
    if "i < k" for i
    using c [OF that] that l n by (intro bexI [of _ "children ! i"]) auto
  moreover have "\<exists>j\<in>set new'. node_id j = join_id tid \<and> node_kind j = ForEachJoin tid
      \<and> node_status j = Pending \<and> node_tool j = None \<and> node_depends_on j = map (child_id tid) [0..<k]"
    using n tid by (intro bexI [of _ "expand_join template k"]) (simp_all add: expand_join_def)
  ultimately have "fans_out new' tid k"
    unfolding fans_out_def by blast
  then show ?thesis using n k by auto
qed

lemma expanded_node_output [simp]: "node_output_data (expanded_node now E n) = node_output_data n"
  by (simp add: expanded_node_def)

lemma find_map_image: "find P (map f xs) = map_option f (find (\<lambda>x. P (f x)) xs)"
  by (induction xs) simp_all

lemma get_step_expanded:
  "wf_nodes w = map (expanded_node now E) (wf_nodes w0) \<Longrightarrow>
     get_step w i = map_option (expanded_node now E) (get_step w0 i)"
  by (simp add: get_step_def find_map_image)

lemma resolve_collection_expanded:
  assumes "wf_nodes w = map (expanded_node now E) (wf_nodes w0)"
  shows "resolve_collection w e = resolve_collection w0 e"
  unfolding resolve_collection_def get_step_expanded [OF assms] Let_def
  by (simp split: option.split)

lemma item_count_expanded:
  "wf_nodes w = map (expanded_node now E) (wf_nodes w0) \<Longrightarrow> item_count w e = item_count w0 e"
  by (simp add: item_count_def resolve_collection_expanded split: option.splits)

lemma expand_all_spec:
  assumes "expand_all ext now tes (w, new, upd) = Some (w', new', upd')"
    and "wf_nodes w = map (expanded_node now E) (wf_nodes w0)" "ids_distinct w0"
    and "\<forall>a\<in>E \<union> fst ` set tes. \<forall>b\<in>fst ` set tes. join_id a \<noteq> b"
  shows "wf_nodes w' = map (expanded_node now (E \<union> fst ` set tes)) (wf_nodes w0) \<and> set new \<subseteq> set new'
    \<and> (\<forall>(tid, expr)\<in>set tes. fans_out new' tid (item_count w0 expr))"
  using assms
proof (induction tes arbitrary: w new upd E)
  case Nil
  then show ?case by simp
next
  case (Cons te tes)
  obtain tid expr where te: "te = (tid, expr)" by fastforce
  from Cons.prems(1) te obtain w1 new1 upd1 where
    one: "expand_one ext now (tid, expr) (w, new, upd) = Some (w1, new1, upd1)" and
    rest: "expand_all ext now tes (w1, new1, upd1) = Some (w', new', upd')"
    by (auto split: option.splits)
  have w1: "wf_nodes w1 = map (expanded_node now (insert tid E)) (wf_nodes w0)"
    using Cons.prems te by (intro expand_one_nodes [OF one Cons.prems(2)]) (auto simp: ids_distinct_def)
  have IH: "wf_nodes w' = map (expanded_node now (insert tid E \<union> fst ` set tes)) (wf_nodes w0)
      \<and> set new1 \<subseteq> set new' \<and> (\<forall>(tid, expr)\<in>set tes. fans_out new' tid (item_count w0 expr))"
    using Cons.prems(4) te by (intro Cons.IH [OF rest w1 Cons.prems(3)]) auto
  have "set new \<subseteq> set new1 \<and> fans_out new1 tid (item_count w0 expr)"
    using expand_one_fans_out [OF one] item_count_expanded [OF Cons.prems(2)] by simp
  with IH te show ?case by (auto intro: fans_out_mono)
qed

text \<open>C13: what an expansion does.  Every expandable template becomes succeeded; every dependency
  on it becomes a dependency on its join node, and nothing else of the existing nodes changes; the
  join node is pending and depends on exactly the item nodes of the template, one per element of
  its collection, which are all there and pending.\<close>

theorem expansion_spec:
  assumes "expand_foreach_nodes ext w now = Some (w', Some (new, upd))" and "ids_distinct w"
    and "\<forall>a\<in>set (wf_nodes w). \<forall>b\<in>set (wf_nodes w). join_id (node_id a) \<noteq> node_id b"
  shows "wf_nodes w' =
      map (expanded_node now (node_id ` {n \<in> set (wf_nodes w). expandable w n})) (wf_nodes w) @ new
    \<and> (\<forall>t\<in>{n \<in> set (wf_nodes w). expandable w n}.
         fans_out new (node_id t) (item_count w (node_foreach t)))"
proof -
  let ?tes = "map (\<lambda>n. (node_id n, node_foreach n)) (filter (expandable w) (wf_nodes w))"
  from assms(1) obtain w1 where w1: "expand_all ext now ?tes (w, [], []) = Some (w1, new, upd)"
      "w' = w1\<lparr>wf_nodes := wf_nodes w1 @ new\<rparr>"
    by (auto simp: expand_foreach_nodes_def Let_def split: if_splits option.splits)
  have E: "fst ` set ?tes = node_id ` {n \<in> set (wf_nodes w). expandable w n}"
    by (auto simp: image_iff)
  have "wf_nodes w1 = map (expanded_node now ({} \<union> fst ` set ?tes)) (wf_nodes w) \<and> set [] \<subseteq> set new
      \<and> (\<forall>(tid, expr)\<in>set ?tes. fans_out new tid (item_count w expr))"
    using assms(2,3)
    by (intro expand_all_spec [OF w1(1)])
      (auto simp: expanded_node_empty ids_distinct_def map_idI)
  with w1(2) E show ?thesis by simp
qed

section \<open>Identifiers stay unique\<close>

definition plain_id :: "string \<Rightarrow> bool" where
  "plain_id s = (CHR ''['' \<notin> set s \<and> CHR ''_'' \<notin> set s)"

definition new_ids :: "string set \<Rightarrow> string set" where
  "new_ids E = {child_id t i | t i. t \<in> E} \<union> join_id ` E"

lemma take_until_append: "c \<notin> set a \<Longrightarrow> takeWhile (\<lambda>x. x \<noteq> c) (a @ c # b) = a"
  by (induction a) auto

lemma split_unique:
  assumes "c \<notin> set a" "c \<notin> set a'" "a @ c # b = a' @ c # b'"
  shows "a = a' \<and> b = b'"
  by (metis assms append_Cons append_same_eq same_append_eq list.inject take_until_append)

lemma child_id_inject:
  "plain_id s \<Longrightarrow> plain_id t \<Longrightarrow> child_id s i = child_id t j \<longleftrightarrow> s = t \<and> i = j"
  using split_unique [of "CHR ''[''" s t "show_nat i @ '']''" "show_nat j @ '']''"]
  by (auto simp: child_id_def plain_id_def)

lemma child_id_neq_join: "plain_id t \<Longrightarrow> child_id s i \<noteq> join_id t"
  by (auto simp: child_id_def join_id_def plain_id_def dest!: arg_cong [of _ _ set])

lemma join_id_inject [simp]: "join_id s = join_id t \<longleftrightarrow> s = t"
  by (simp add: join_id_def)

lemma new_ids_not_plain: "x \<in> new_ids E \<Longrightarrow> \<not> plain_id x"
  by (auto simp: new_ids_def plain_id_def child_id_def join_id_def)

lemma join_id_not_plain [simp]: "\<not> plain_id (join_id t)"
  by (simp add: plain_id_def join_id_def)

lemma new_ids_mono: "E \<subseteq> E' \<Longrightarrow> new_ids E \<subseteq> new_ids E'"
  unfolding new_ids_def by blast

lemma new_ids_member: "t \<in> E \<Longrightarrow> child_id t i \<in> new_ids E" "t \<in> E \<Longrightarrow> join_id t \<in> new_ids E"
  unfolding new_ids_def by blast+

lemma new_ids_fresh:
  assumes "plain_id t" "\<forall>e\<in>E. plain_id e" "t \<notin> E"
  shows "child_id t i \<notin> new_ids E" "join_id t \<notin> new_ids E"
  using assms by (auto simp: new_ids_def child_id_inject child_id_neq_join dest: sym)

lemma expand_one_ids:
  assumes "expand_one ext now (tid, expr) (w, new, upd) = Some (w', new', upd')"
    and "plain_id tid" "\<forall>e\<in>E. plain_id e" "tid \<notin> E"
    and "distinct (map node_id new)" "node_id ` set new \<subseteq> new_ids E"
  shows "distinct (map node_id new') \<and> node_id ` set new' \<subseteq> new_ids (insert tid E)"
  using assms(1)
proof (rule expand_one_SomeE)
  fix template children k
  assume t: "get_step w tid = Some template"
    and n: "new' = new @ children @ [expand_join template k]" and l: "length children = k"
    and k: "k = item_count w expr"
    and c: "\<And>i. i < k \<Longrightarrow> node_id (children ! i) = child_id tid i
        \<and> node_kind (children ! i) = ForEachItem tid i \<and> node_status (children ! i) = Pending"
  have tid: "node_id template = tid" using t by (auto simp: get_step_def dest: find_mem)
  have ids: "map node_id new' = map node_id new @ map (child_id tid) [0..<k] @ [join_id tid]"
    using n tid l c by (auto simp: expand_join_def intro!: nth_equalityI)
  have kids: "distinct (map (child_id tid) [0..<k])"
    using assms(2) by (simp add: distinct_map inj_on_def child_id_inject)
  have "set (map (child_id tid) [0..<k] @ [join_id tid]) \<inter> new_ids E = {}"
    using new_ids_fresh [OF assms(2-4)] by auto
  moreover have "join_id tid \<notin> set (map (child_id tid) [0..<k])"
    using child_id_neq_join [OF assms(2)] by (auto dest: sym)
  ultimately have "distinct (map node_id new')"
    using assms(5,6) kids unfolding ids by auto
  moreover have "node_id ` set new' \<subseteq> new_ids (insert tid E)"
  proof -
    have "node_id ` set new' = set (map node_id new')" by simp
    with assms(6) new_ids_mono [of E "insert tid E"] show ?thesis
      unfolding ids by (auto simp: new_ids_member)
  qed
  ultimately show ?thesis by blast
qed

lemma expand_all_ids:
  assumes "expand_all ext now tes (w, new, upd) = Some (w', new', upd')"
    and "\<forall>t\<in>E \<union> fst ` set tes. plain_id t" "distinct (map fst tes)" "E \<inter> fst ` set tes = {}"
    and "distinct (map node_id new)" "node_id ` set new \<subseteq> new_ids E"
  shows "distinct (map node_id new') \<and> node_id ` set new' \<subseteq> new_ids (E \<union> fst ` set tes)"
  using assms
proof (induction tes arbitrary: w new upd E)
  case Nil
  then show ?case by simp
next
  case (Cons te tes)
  obtain tid expr where te: "te = (tid, expr)" by fastforce
  from Cons.prems(1) te obtain w1 new1 upd1 where
    one: "expand_one ext now (tid, expr) (w, new, upd) = Some (w1, new1, upd1)" and
    rest: "expand_all ext now tes (w1, new1, upd1) = Some (w', new', upd')"
    by (auto split: option.splits)
  have step: "distinct (map node_id new1) \<and> node_id ` set new1 \<subseteq> new_ids (insert tid E)"
    using Cons.prems te by (intro expand_one_ids [OF one]) auto
  have "distinct (map node_id new') \<and> node_id ` set new' \<subseteq> new_ids (insert tid E \<union> fst ` set tes)"
    using Cons.prems te step by (intro Cons.IH [OF rest]) auto
  then show ?case using te by simp
qed

text \<open>Expanding keeps step ids unique when the ids are plain, as those of a planned workflow
  are: no item or join id meets another or an existing id.\<close>

theorem expansion_keeps_ids_unique:
  assumes "expand_foreach_nodes ext w now = Some (w', r)" and "ids_distinct w"
    and "\<forall>n\<in>set (wf_nodes w). plain_id (node_id n)"
  shows "ids_distinct w'"
proof (cases r)
  case None
  with assms show ?thesis
    by (auto simp: expand_foreach_nodes_def Let_def split: if_splits option.splits)
next
  case (Some nu)
  let ?tes = "map (\<lambda>n. (node_id n, node_foreach n)) (filter (expandable w) (wf_nodes w))"
  from assms(1) Some obtain w1 new upd where w1:
      "expand_all ext now ?tes (w, [], []) = Some (w1, new, upd)" "nu = (new, upd)"
      "w' = w1\<lparr>wf_nodes := wf_nodes w1 @ new\<rparr>"
    by (auto simp: expand_foreach_nodes_def Let_def split: if_splits option.splits)
  have "distinct (map fst ?tes)"
    using assms(2) by (simp add: ids_distinct_def comp_def distinct_map_filter)
  then have new: "distinct (map node_id new) \<and> node_id ` set new \<subseteq> new_ids ({} \<union> fst ` set ?tes)"
    using assms(3) by (intro expand_all_ids [OF w1(1)]) auto
  have "\<forall>b\<in>fst ` set ?tes. plain_id b" using assms(3) by auto
  then have "\<forall>a\<in>{} \<union> fst ` set ?tes. \<forall>b\<in>fst ` set ?tes. join_id a \<noteq> b"
    by (metis join_id_not_plain)
  then have "wf_nodes w1 = map (expanded_node now ({} \<union> fst ` set ?tes)) (wf_nodes w)
      \<and> set [] \<subseteq> set new \<and> (\<forall>(tid, expr)\<in>set ?tes. fans_out new tid (item_count w expr))"
    using assms(2)
    by (intro expand_all_spec [OF w1(1)]) (auto simp: expanded_node_empty ids_distinct_def map_idI)
  then have "map node_id (wf_nodes w') = map node_id (wf_nodes w) @ map node_id new"
    using w1(3) by simp
  moreover have "plain_id x" if "x \<in> node_id ` set (wf_nodes w)" for x
    using assms(3) that by blast
  moreover have "\<not> plain_id x" if "x \<in> node_id ` set new" for x
    using new that new_ids_not_plain by blast
  ultimately show ?thesis
    using new assms(2) by (auto simp: ids_distinct_def disjoint_iff)
qed

section \<open>Concrete expansions\<close>

text \<open>A list step that succeeded with two names, a template over them and a step after it.\<close>

definition foreach_workflow :: workflow where
  "foreach_workflow = sample_workflow\<lparr>wf_nodes :=
     [(node_of_planned (sample_planned 0))\<lparr>node_id := ''list'', node_status := Succeeded,
        node_output_data := Some (JArray [JString ''x'', JString ''y''])\<rparr>,
      (node_of_planned (sample_planned 1))\<lparr>node_id := ''each'', node_kind := ForEachTemplate,
        node_depends_on := [''list''], node_foreach := Some ''deps.list'',
        node_tool_args := Some (JString ''do {item}'')\<rparr>,
      (node_of_planned (sample_planned 2))\<lparr>node_id := ''after'', node_depends_on := [''each'']\<rparr>]\<rparr>"

definition foreach_expanded :: workflow where
  "foreach_expanded = (case expand_foreach_nodes sample_ext foreach_workflow 9 of
     None \<Rightarrow> foreach_workflow | Some (w, _) \<Rightarrow> w)"

definition foreach_added :: "step_node list" where
  "foreach_added = (case expand_foreach_nodes sample_ext foreach_workflow 9 of
     Some (_, Some (new, _)) \<Rightarrow> new | _ \<Rightarrow> [])"

lemma foreach_render: "render_loop sample_ext v ''do x'' = Some ''do x''"
    "render_loop sample_ext v ''do y'' = Some ''do y''"
  by (subst render_loop.simps, simp add: str_find_absent)+

lemma foreach_replace: "str_contains ''{item}'' ''do {item}''"
    "str_replace ''{item}'' ''x'' ''do {item}'' = ''do x''"
    "str_replace ''{item}'' ''y'' ''do {item}'' = ''do y''"
  by (simp_all add: str_contains_def str_replace.simps)

lemmas foreach_eval = expand_foreach_nodes_def expandable_def foreach_workflow_def sample_defs
  deps_satisfied_def get_step_def expand_one_def resolve_collection_def expand_child_def
  render_string_def json_text_def foreach_replace foreach_render

lemma foreach_run: "\<exists>u. expand_foreach_nodes sample_ext foreach_workflow 9
    = Some (foreach_expanded, Some (foreach_added, u))"
  by (simp add: foreach_eval foreach_added_def foreach_expanded_def)

lemma foreach_ids_ok: "ids_distinct foreach_workflow"
    "\<forall>n\<in>set (wf_nodes foreach_workflow). plain_id (node_id n)"
  by (simp_all add: foreach_workflow_def sample_defs ids_distinct_def plain_id_def)

lemma foreach_each: "\<exists>n\<in>set (wf_nodes foreach_workflow). expandable foreach_workflow n
    \<and> node_id n = ''each'' \<and> item_count foreach_workflow (node_foreach n) = 2"
  by (simp add: foreach_eval item_count_def)

theorem render_substitutes_witness:
  "render_item_template sample_ext (JObject [(''k'', JString ''v'')]) (JString ''a {item.k} b'')
     = Some (JString ''a v b'')"
  using render_substitutes [of "[Plain ''a '', Hole ''k'', Plain '' b'']" sample_ext
      "JObject [(''k'', JString ''v'')]"]
  by (simp add: json_text_def item_replacement_def)

theorem render_missing_key_diverges_witness:
  "render_item_template sample_ext JNull (JString ''{item.k}'') = None"
  using render_missing_key_diverges [of "[]" "''k''" JNull "[]" sample_ext]
  by (simp add: str_contains_def)

theorem expansion_spec_witness: "fans_out foreach_added ''each'' 2"
proof -
  obtain u where "expand_foreach_nodes sample_ext foreach_workflow 9
      = Some (foreach_expanded, Some (foreach_added, u))" using foreach_run by blast
  moreover have "\<forall>a\<in>set (wf_nodes foreach_workflow). \<forall>b\<in>set (wf_nodes foreach_workflow).
      join_id (node_id a) \<noteq> node_id b"
    using foreach_ids_ok(2) by (metis join_id_not_plain)
  ultimately show ?thesis
    using expansion_spec [OF _ foreach_ids_ok(1)] foreach_each by fastforce
qed

theorem expansion_keeps_ids_unique_witness: "ids_distinct foreach_expanded"
  using foreach_run expansion_keeps_ids_unique [OF _ foreach_ids_ok] by blast

end
