(* ===== verification/Json_Schema.thy ===== *)
theory Json_Schema
  imports Planner
begin

text \<open>
  The JSON-schema validator of \<open>tools/mod.rs\<close> (\<open>validate_output_against_schema\<close>) and the
  schemas that the workflow compiler derives from its types (\<open>TypeSpec::to_json_schema\<close>).
  A validation error is a value with the path at which it occurred; the prose of the message is
  left out.  Theorems: the validator accepts exactly the values of a type under the schema of
  that type, and errors are reported inside the value under validation.
\<close>

section \<open>The validator\<close>

datatype schema_reason =
    SchemaNotObject
  | NoAnyOf
  | OneOfCount nat
  | MatchedNot
  | NotConst
  | NotInEnum
  | WrongType
  | BelowMinLength nat nat
  | AboveMaxLength nat nat
  | BadPattern
  | PatternNeedsString
  | PatternMismatch
  | MinimumNeedsNumber
  | BelowMinimum
  | MaximumNeedsNumber
  | AboveMaximum
  | RequiredNotString
  | MissingProperty string
  | UnexpectedProperty string
  | BelowMinItems nat nat
  | AboveMaxItems nat nat

type_synonym schema_error = "string \<times> schema_reason"

fun json_as_u64 :: "json \<Rightarrow> nat option" where
  "json_as_u64 (JNumber (PosInt n)) = Some n"
| "json_as_u64 _ = None"

fun json_as_i64 :: "json \<Rightarrow> int option" where
  "json_as_i64 (JNumber (PosInt n)) = (if n < 2 ^ 63 then Some (int n) else None)"
| "json_as_i64 (JNumber (NegInt i)) = Some i"
| "json_as_i64 _ = None"

fun is_number :: "json \<Rightarrow> bool" where
  "is_number (JNumber _) = True"
| "is_number _ = False"

definition matches_type_name :: "json \<Rightarrow> string \<Rightarrow> bool" where
  "matches_type_name value type_name =
     (if type_name = ''object'' then as_object value \<noteq> None
      else if type_name = ''array'' then as_array value \<noteq> None
      else if type_name = ''string'' then as_str value \<noteq> None
      else if type_name = ''integer'' then json_as_i64 value \<noteq> None \<or> json_as_u64 value \<noteq> None
      else if type_name = ''number'' then is_number value
      else if type_name = ''boolean'' then as_bool value \<noteq> None
      else if type_name = ''null'' then value = JNull
      else True)"

fun matches_schema_type :: "json \<Rightarrow> json \<Rightarrow> bool" where
  "matches_schema_type value (JString type_name) = matches_type_name value type_name"
| "matches_schema_type value (JArray types) =
     list_ex (\<lambda>entry. case as_str entry of Some t \<Rightarrow> matches_type_name value t | None \<Rightarrow> False) types"
| "matches_schema_type value _ = True"

text \<open>A sequence of checks with \<open>?\<close> after each: the first error ends it.\<close>

fun checks :: "('e + unit) list \<Rightarrow> 'e + unit" where
  "checks [] = Inr ()"
| "checks (Inl e # cs) = Inl e"
| "checks (Inr _ # cs) = checks cs"

abbreviation fail_if :: "bool \<Rightarrow> string \<Rightarrow> schema_reason \<Rightarrow> schema_error + unit" where
  "fail_if b path r \<equiv> (if b then Inl (path, r) else Inr ())"

type_synonym json_object = "(string \<times> json) list"

definition check_const :: "json \<Rightarrow> json_object \<Rightarrow> string \<Rightarrow> schema_error + unit" where
  "check_const value so path =
     (case map_of so ''const'' of Some c \<Rightarrow> fail_if (value \<noteq> c) path NotConst | None \<Rightarrow> Inr ())"

definition check_enum :: "json \<Rightarrow> json_object \<Rightarrow> string \<Rightarrow> schema_error + unit" where
  "check_enum value so path =
     (case Option.bind (map_of so ''enum'') as_array of
        Some vs \<Rightarrow> fail_if (value \<notin> set vs) path NotInEnum
      | None \<Rightarrow> Inr ())"

definition check_type :: "json \<Rightarrow> json_object \<Rightarrow> string \<Rightarrow> schema_error + unit" where
  "check_type value so path =
     (case map_of so ''type'' of
        Some t \<Rightarrow> fail_if (\<not> matches_schema_type value t) path WrongType
      | None \<Rightarrow> Inr ())"

definition text_length :: "json \<Rightarrow> nat" where
  "text_length value = (case as_str value of Some s \<Rightarrow> chars_count s | None \<Rightarrow> 0)"

definition check_min_length :: "json \<Rightarrow> json_object \<Rightarrow> string \<Rightarrow> schema_error + unit" where
  "check_min_length value so path =
     (case Option.bind (map_of so ''minLength'') json_as_u64 of
        Some m \<Rightarrow> fail_if (text_length value < m) path (BelowMinLength (text_length value) m)
      | None \<Rightarrow> Inr ())"

definition check_max_length :: "json \<Rightarrow> json_object \<Rightarrow> string \<Rightarrow> schema_error + unit" where
  "check_max_length value so path =
     (case Option.bind (map_of so ''maxLength'') json_as_u64 of
        Some m \<Rightarrow> fail_if (m < text_length value) path (AboveMaxLength (text_length value) m)
      | None \<Rightarrow> Inr ())"

definition check_pattern :: "externals \<Rightarrow> json \<Rightarrow> json_object \<Rightarrow> string \<Rightarrow> schema_error + unit" where
  "check_pattern ext value so path =
     (case Option.bind (map_of so ''pattern'') as_str of
        None \<Rightarrow> Inr ()
      | Some pattern \<Rightarrow>
          (case regex_new ext pattern of
             None \<Rightarrow> Inl (path, BadPattern)
           | Some is_match \<Rightarrow>
               (case as_str value of
                  None \<Rightarrow> Inl (path, PatternNeedsString)
                | Some text \<Rightarrow> fail_if (\<not> is_match text) path PatternMismatch)))"

definition check_minimum :: "json \<Rightarrow> json_object \<Rightarrow> string \<Rightarrow> schema_error + unit" where
  "check_minimum value so path =
     (case Option.bind (map_of so ''minimum'') as_f64 of
        None \<Rightarrow> Inr ()
      | Some m \<Rightarrow>
          (case as_f64 value of
             None \<Rightarrow> Inl (path, MinimumNeedsNumber)
           | Some actual \<Rightarrow> fail_if (actual < m) path BelowMinimum))"

definition check_maximum :: "json \<Rightarrow> json_object \<Rightarrow> string \<Rightarrow> schema_error + unit" where
  "check_maximum value so path =
     (case Option.bind (map_of so ''maximum'') as_f64 of
        None \<Rightarrow> Inr ()
      | Some m \<Rightarrow>
          (case as_f64 value of
             None \<Rightarrow> Inl (path, MaximumNeedsNumber)
           | Some actual \<Rightarrow> fail_if (m < actual) path AboveMaximum))"

definition check_required :: "json_object \<Rightarrow> json_object \<Rightarrow> string \<Rightarrow> schema_error + unit" where
  "check_required obj so path =
     (case Option.bind (map_of so ''required'') as_array of
        None \<Rightarrow> Inr ()
      | Some required \<Rightarrow>
          checks (map (\<lambda>entry.
            case as_str entry of
              None \<Rightarrow> Inl (path, RequiredNotString)
            | Some name \<Rightarrow> fail_if (map_of obj name = None) path (MissingProperty name)) required))"

definition schema_properties :: "json_object \<Rightarrow> json_object option" where
  "schema_properties so = Option.bind (map_of so ''properties'') as_object"

definition known_property :: "json_object \<Rightarrow> string \<Rightarrow> bool" where
  "known_property so key =
     (case schema_properties so of Some props \<Rightarrow> key \<in> fst ` set props | None \<Rightarrow> False)"

definition check_item_counts :: "json list \<Rightarrow> json_object \<Rightarrow> string \<Rightarrow> schema_error + unit" where
  "check_item_counts arr so path = checks
     [case Option.bind (map_of so ''minItems'') json_as_u64 of
        Some m \<Rightarrow> fail_if (length arr < m) path (BelowMinItems (length arr) m)
      | None \<Rightarrow> Inr (),
      case Option.bind (map_of so ''maxItems'') json_as_u64 of
        Some m \<Rightarrow> fail_if (m < length arr) path (AboveMaxItems (length arr) m)
      | None \<Rightarrow> Inr ()]"

definition property_path :: "string \<Rightarrow> string \<Rightarrow> string" where
  "property_path path name = path @ ''.'' @ name"

definition item_path :: "string \<Rightarrow> nat \<Rightarrow> string" where
  "item_path path idx = path @ ''['' @ show_nat idx @ '']''"

lemma as_object_eq_Some: "as_object j = Some kvs \<longleftrightarrow> j = JObject kvs"
  by (cases j) auto

lemma as_array_eq_Some: "as_array j = Some xs \<longleftrightarrow> j = JArray xs"
  by (cases j) auto

lemma size_map_of: "map_of kvs k = Some v \<Longrightarrow> size v < size (JObject kvs)"
  by (induction kvs) (auto split: if_splits)

lemma size_element: "x \<in> set xs \<Longrightarrow> size x < size (JArray xs)"
  by (induction xs) auto

lemma size_field: "(k, v) \<in> set kvs \<Longrightarrow> size v < size (JObject kvs)"
  by (induction kvs) auto

lemma size_bind_array:
  "Option.bind (map_of kvs k) as_array = Some xs \<Longrightarrow> x \<in> set xs \<Longrightarrow> size x < size (JObject kvs)"
  by (auto simp: bind_eq_Some_conv as_array_eq_Some simp del: json.size
      dest!: size_map_of size_element)

lemma size_properties:
  "schema_properties kvs = Some props \<Longrightarrow> (k, v) \<in> set props \<Longrightarrow> size v < size (JObject kvs)"
  by (auto simp: schema_properties_def bind_eq_Some_conv as_object_eq_Some simp del: json.size
      dest!: size_map_of size_field)

lemma enumerate_memD: "(i, x) \<in> set (enumerate 0 xs) \<Longrightarrow> i < length xs \<and> xs ! i = x"
  by (auto simp: in_set_enumerate_eq)

lemma size_tuple_items:
  "(i, item, sub) \<in> set (enumerate 0 (zip arr subs)) \<Longrightarrow> size sub < size (JArray subs)"
  using size_element [of "subs ! i" subs] by (auto dest!: enumerate_memD)

lemmas schema_sizes = size_map_of size_bind_array size_properties size_tuple_items

function validate_json_schema ::
  "externals \<Rightarrow> json \<Rightarrow> json \<Rightarrow> string \<Rightarrow> schema_error + unit" where
  "validate_json_schema ext value schema path =
    (case as_object schema of
       None \<Rightarrow> Inl (path, SchemaNotObject)
     | Some so \<Rightarrow>
       (case Option.bind (map_of so ''anyOf'') as_array of
          Some any_of \<Rightarrow>
            if list_ex (\<lambda>sub. validate_json_schema ext value sub path = Inr ()) any_of then Inr ()
            else Inl (path, NoAnyOf)
        | None \<Rightarrow>
          checks
           [case Option.bind (map_of so ''oneOf'') as_array of
              None \<Rightarrow> Inr ()
            | Some one_of \<Rightarrow>
                (let n = length (filter id
                           (map (\<lambda>sub. validate_json_schema ext value sub path = Inr ()) one_of))
                 in fail_if (n \<noteq> 1) path (OneOfCount n)),
            case Option.bind (map_of so ''allOf'') as_array of
              None \<Rightarrow> Inr ()
            | Some all_of \<Rightarrow> checks (map (\<lambda>sub. validate_json_schema ext value sub path) all_of),
            case map_of so ''not'' of
              None \<Rightarrow> Inr ()
            | Some not_schema \<Rightarrow>
                fail_if (validate_json_schema ext value not_schema path = Inr ()) path MatchedNot,
            check_const value so path,
            check_enum value so path,
            check_type value so path,
            check_min_length value so path,
            check_max_length value so path,
            check_pattern ext value so path,
            check_minimum value so path,
            check_maximum value so path,
            case as_object value of
              None \<Rightarrow> Inr ()
            | Some obj \<Rightarrow>
                checks
                 [check_required obj so path,
                  case schema_properties so of
                    None \<Rightarrow> Inr ()
                  | Some props \<Rightarrow>
                      checks (map (\<lambda>(name, sub).
                        case map_of obj name of
                          Some child \<Rightarrow> validate_json_schema ext child sub (property_path path name)
                        | None \<Rightarrow> Inr ()) props),
                  case map_of so ''additionalProperties'' of
                    None \<Rightarrow> Inr ()
                  | Some additional \<Rightarrow>
                      if additional = JBool False then
                        checks (map (\<lambda>(key, child).
                          fail_if (\<not> known_property so key) path (UnexpectedProperty key)) obj)
                      else if as_object additional \<noteq> None then
                        checks (map (\<lambda>(key, child).
                          if known_property so key then Inr ()
                          else validate_json_schema ext child additional (property_path path key)) obj)
                      else Inr ()],
            case as_array value of
              None \<Rightarrow> Inr ()
            | Some arr \<Rightarrow>
                checks
                 [case map_of so ''items'' of
                    None \<Rightarrow> Inr ()
                  | Some items \<Rightarrow>
                      (case as_array items of
                         Some tuple_schemas \<Rightarrow>
                           checks (map (\<lambda>(idx, item, sub).
                             validate_json_schema ext item sub (item_path path idx))
                             (enumerate 0 (zip arr tuple_schemas)))
                       | None \<Rightarrow>
                           checks (map (\<lambda>(idx, item).
                             validate_json_schema ext item items (item_path path idx))
                             (enumerate 0 arr))),
                  check_item_counts arr so path]]))"
  by pat_completeness auto
termination
  by (relation "measure (\<lambda>(ext, value, schema, path). size schema)")
    (auto simp: as_object_eq_Some as_array_eq_Some dest!: schema_sizes)

declare validate_json_schema.simps [simp del]

definition validate_output_against_schema ::
  "externals \<Rightarrow> string \<Rightarrow> json \<Rightarrow> json \<Rightarrow> string \<times> schema_error + unit" where
  "validate_output_against_schema ext tool_name output schema =
     (case validate_json_schema ext output schema ''$'' of
        Inl e \<Rightarrow> Inl (tool_name, e)
      | Inr _ \<Rightarrow> Inr ())"

section \<open>Schemas of types\<close>

fun primitive_name :: "primitive_type \<Rightarrow> string" where
  "primitive_name NumberType = ''number''"
| "primitive_name StringType = ''string''"
| "primitive_name BooleanType = ''boolean''"

fun to_json_schema :: "type_spec \<Rightarrow> json" where
  "to_json_schema (PrimitiveSpec primitive) =
     obj_of_list [(''type'', JString (primitive_name primitive))]"
| "to_json_schema (ArraySpec items) =
     obj_of_list [(''type'', JString ''array''), (''items'', to_json_schema items)]"
| "to_json_schema (ObjectSpec flds) =
     obj_of_list
       [(''type'', JString ''object''),
        (''properties'', obj_of_list (map (\<lambda>(key, value). (key, to_json_schema value)) flds)),
        (''additionalProperties'', JBool False),
        (''required'', JArray (map (\<lambda>(key, value). JString key) flds))]"

text \<open>The map of an object type has each key once.\<close>

fun type_wf :: "type_spec \<Rightarrow> bool" where
  "type_wf (PrimitiveSpec _) = True"
| "type_wf (ArraySpec t) = type_wf t"
| "type_wf (ObjectSpec flds) = (distinct (map fst flds) \<and> (\<forall>(k, t)\<in>set flds. type_wf t))"

text \<open>What it means for a value to have a type: an object has exactly the fields of its type.\<close>

fun has_type :: "json \<Rightarrow> type_spec \<Rightarrow> bool" where
  "has_type v (PrimitiveSpec NumberType) = (\<exists>n. v = JNumber n)"
| "has_type v (PrimitiveSpec StringType) = (\<exists>s. v = JString s)"
| "has_type v (PrimitiveSpec BooleanType) = (\<exists>b. v = JBool b)"
| "has_type v (ArraySpec t) = (case v of JArray xs \<Rightarrow> (\<forall>x\<in>set xs. has_type x t) | _ \<Rightarrow> False)"
| "has_type v (ObjectSpec flds) =
     (case v of
        JObject kvs \<Rightarrow>
          fst ` set kvs = fst ` set flds
          \<and> (\<forall>(k, t)\<in>set flds. case map_of kvs k of Some x \<Rightarrow> has_type x t | None \<Rightarrow> False)
      | _ \<Rightarrow> False)"

section \<open>The validator accepts exactly the values of a type\<close>

lemma checks_ok_iff: "checks cs = Inr () \<longleftrightarrow> (\<forall>c\<in>set cs. c = Inr ())"
  by (induction cs rule: checks.induct) auto

lemma ball_enumerate: "(\<forall>x\<in>set (enumerate 0 xs). P x) \<longleftrightarrow> (\<forall>i < length xs. P (i, xs ! i))"
  by (auto simp: in_set_enumerate_eq Ball_def)

lemma checks_InlD: "checks cs = Inl e \<Longrightarrow> Inl e \<in> set cs"
  by (induction cs rule: checks.induct) auto

lemma map_of_fold_insert:
  "map_of (fold (\<lambda>(k, v). obj_insert k v) kvs acc) = map_of acc ++ map_of (rev kvs)"
  by (induction kvs arbitrary: acc) (auto simp: map_of_obj_insert map_add_def fun_eq_iff split: option.splits)

lemma sorted_fold_insert:
  "sorted (map fst acc) \<and> distinct (map fst acc) \<Longrightarrow>
   sorted (map fst (fold (\<lambda>(k, v). obj_insert k v) kvs acc))
     \<and> distinct (map fst (fold (\<lambda>(k, v). obj_insert k v) kvs acc))"
  by (induction kvs arbitrary: acc) (auto simp: sorted_obj_insert)

lemma map_of_distinct_rev: "distinct (map fst kvs) \<Longrightarrow> map_of (rev kvs) = map_of kvs"
  using map_of_inject_set [of "rev kvs" kvs] by (simp add: rev_map [symmetric])

lemma set_fold_insert:
  assumes "distinct (map fst kvs)"
  shows "set (fold (\<lambda>(k, v). obj_insert k v) kvs []) = set kvs"
proof -
  let ?o = "fold (\<lambda>(k, v). obj_insert k v) kvs []"
  have "distinct (map fst ?o)" using sorted_fold_insert [of "[]" kvs] by simp
  moreover have "map_of ?o = map_of kvs"
    using assms by (simp add: map_of_fold_insert map_of_distinct_rev)
  ultimately show ?thesis
    using assms by (metis map_of_eq_Some_iff subrelI subset_antisym)
qed

lemma map_of_obj3:
  "map_of (fold (\<lambda>(k, v). obj_insert k v) kvs []) = map_of (rev kvs)"
  by (simp add: map_of_fold_insert)

lemmas check_defs = check_const_def check_enum_def check_min_length_def check_max_length_def
  check_pattern_def check_minimum_def check_maximum_def check_item_counts_def

lemma schema_primitive:
  "validate_json_schema ext v (to_json_schema (PrimitiveSpec p)) path = Inr ()
     \<longleftrightarrow> has_type v (PrimitiveSpec p)"
  by (cases p; cases v; subst validate_json_schema.simps)
    (auto simp: obj_of_list_def map_of_obj3 schema_properties_def check_defs check_type_def
      check_required_def matches_type_name_def)

lemma schema_array:
  assumes "\<And>v path. validate_json_schema ext v (to_json_schema t) path = Inr () \<longleftrightarrow> has_type v t"
  shows "validate_json_schema ext v (to_json_schema (ArraySpec t)) path = Inr ()
     \<longleftrightarrow> has_type v (ArraySpec t)"
proof -
  have "as_array (to_json_schema t) = None" by (cases t) (simp_all add: obj_of_list_def)
  then show ?thesis
    by (cases v; subst validate_json_schema.simps)
      (auto simp: obj_of_list_def map_of_obj3 schema_properties_def check_defs check_type_def
        check_required_def matches_type_name_def checks_ok_iff assms ball_enumerate
        all_set_conv_all_nth nth_enumerate_eq)
qed

lemma schema_object_keywords:
  assumes "distinct (map fst flds)"
  shows "validate_json_schema ext (JObject kvs) (to_json_schema (ObjectSpec flds)) path = Inr ()
     \<longleftrightarrow> (\<forall>(k, t)\<in>set flds. map_of kvs k \<noteq> None)
       \<and> (\<forall>(k, t)\<in>set flds. \<forall>c. map_of kvs k = Some c \<longrightarrow>
            validate_json_schema ext c (to_json_schema t) (property_path path k) = Inr ())
       \<and> (\<forall>(k, c)\<in>set kvs. k \<in> fst ` set flds)"
proof -
  let ?props = "map (\<lambda>(key, value). (key, to_json_schema value)) flds"
  have d: "distinct (map fst ?props)" using assms by (simp add: comp_def case_prod_beta)
  have keys: "fst ` (\<lambda>(key, value). (key, to_json_schema value)) ` set flds = fst ` set flds"
    by force
  have req: "(\<forall>x\<in>set flds. (case as_str (case x of (key, value) \<Rightarrow> JString key) of
        None \<Rightarrow> Inl (path, RequiredNotString)
      | Some name \<Rightarrow> fail_if (map_of kvs name = None) path (MissingProperty name)) = Inr ())
    \<longleftrightarrow> (\<forall>(k, t)\<in>set flds. map_of kvs k \<noteq> None)"
    by (intro ball_cong refl) (auto split: prod.splits)
  have sub: "(\<forall>x\<in>set flds. (case (case x of (key, value) \<Rightarrow> (key, to_json_schema value)) of
        (name, sub) \<Rightarrow> case map_of kvs name of None \<Rightarrow> Inr ()
      | Some child \<Rightarrow> validate_json_schema ext child sub (property_path path name)) = Inr ())
    \<longleftrightarrow> (\<forall>(k, t)\<in>set flds. \<forall>c. map_of kvs k = Some c \<longrightarrow>
            validate_json_schema ext c (to_json_schema t) (property_path path k) = Inr ())"
    by (intro ball_cong refl) (auto split: prod.splits option.splits)
  have extra: "(\<forall>x\<in>set kvs. (case x of (key, child) \<Rightarrow>
        fail_if (key \<notin> fst ` set flds) path (UnexpectedProperty key)) = Inr ())
    \<longleftrightarrow> (\<forall>(k, c)\<in>set kvs. k \<in> fst ` set flds)"
    by (auto split: if_splits)
  show ?thesis
    by (subst validate_json_schema.simps)
      (simp add: obj_of_list_def map_of_obj3 schema_properties_def check_defs check_type_def
        check_required_def matches_type_name_def checks_ok_iff known_property_def
        set_fold_insert [OF d] keys req sub extra)
qed

lemma schema_object:
  assumes "\<And>k t v path. (k, t) \<in> set flds \<Longrightarrow>
      validate_json_schema ext v (to_json_schema t) path = Inr () \<longleftrightarrow> has_type v t"
    and "distinct (map fst flds)"
  shows "validate_json_schema ext v (to_json_schema (ObjectSpec flds)) path = Inr ()
     \<longleftrightarrow> has_type v (ObjectSpec flds)"
proof (cases "\<exists>kvs. v = JObject kvs")
  case True
  then obtain kvs where v: "v = JObject kvs" by blast
  have keys: "(\<forall>(k, t)\<in>set flds. map_of kvs k \<noteq> None) \<and> (\<forall>(k, c)\<in>set kvs. k \<in> fst ` set flds)
      \<longleftrightarrow> fst ` set kvs = fst ` set flds"
    unfolding map_of_eq_None_iff set_eq_subset image_subset_iff case_prod_beta by blast
  have sub: "(\<forall>(k, t)\<in>set flds. \<forall>c. map_of kvs k = Some c \<longrightarrow>
        validate_json_schema ext c (to_json_schema t) (property_path path k) = Inr ())
      \<longleftrightarrow> (\<forall>(k, t)\<in>set flds. \<forall>c. map_of kvs k = Some c \<longrightarrow> has_type c t)"
    using assms(1) by (intro ball_cong refl) auto
  have ty: "has_type v (ObjectSpec flds) \<longleftrightarrow> fst ` set kvs = fst ` set flds
      \<and> (\<forall>(k, t)\<in>set flds. map_of kvs k \<noteq> None)
      \<and> (\<forall>(k, t)\<in>set flds. \<forall>c. map_of kvs k = Some c \<longrightarrow> has_type c t)"
    unfolding v by (force split: option.splits)
  show ?thesis
    using keys ty unfolding v schema_object_keywords [OF assms(2)] sub by argo
next
  case False
  then show ?thesis
    by (cases v; subst validate_json_schema.simps)
      (simp_all add: obj_of_list_def map_of_obj3 check_defs check_type_def matches_type_name_def
        checks_ok_iff)
qed

lemma validate_type_schema:
  assumes "type_wf t"
  shows "validate_json_schema ext v (to_json_schema t) path = Inr () \<longleftrightarrow> has_type v t"
  using assms
proof (induction t arbitrary: v path)
  case (ObjectSpec flds)
  show ?case
  proof (rule schema_object)
    show "distinct (map fst flds)" using ObjectSpec.prems by simp
    fix k t v path
    assume kt: "(k, t) \<in> set flds"
    with ObjectSpec.prems have "type_wf t" by auto
    with ObjectSpec.IH [OF kt] kt
    show "validate_json_schema ext v (to_json_schema t) path = Inr () \<longleftrightarrow> has_type v t" by simp
  qed
qed (simp_all only: schema_primitive schema_array type_wf.simps)

text \<open>C16: the schema of a type is exact.  The validator accepts a value under the schema that the
  compiler derives from a type if and only if the value has that type: for an object, exactly
  the fields of the type, each with a value of its type.\<close>

theorem type_schema_exact:
  assumes "type_wf t"
  shows "validate_json_schema ext v (to_json_schema t) path = Inr () \<longleftrightarrow> has_type v t"
  by (rule validate_type_schema [OF assms])

section \<open>Where an error is reported\<close>

text \<open>The path \<open>q\<close> denotes a place inside the value \<open>v\<close>, which is itself at path \<open>p\<close>.\<close>

inductive located :: "json \<Rightarrow> string \<Rightarrow> string \<Rightarrow> bool" where
  here: "located v p p"
| field: "map_of kvs k = Some c \<Longrightarrow> located c (property_path p k) q \<Longrightarrow> located (JObject kvs) p q"
| item: "i < length xs \<Longrightarrow> located (xs ! i) (item_path p i) q \<Longrightarrow> located (JArray xs) p q"

definition reports_in :: "json \<Rightarrow> string \<Rightarrow> schema_error + unit \<Rightarrow> bool" where
  "reports_in v p c \<longleftrightarrow> (\<forall>q r. c = Inl (q, r) \<longrightarrow> located v p q)"

lemma reports_basic: "reports_in v p (Inr ())" "reports_in v p (Inl (p, r))" "reports_in v p (checks [])"
  by (simp_all add: reports_in_def located.here)

lemma reports_checks:
  "reports_in v p c \<Longrightarrow> reports_in v p (checks cs) \<Longrightarrow> reports_in v p (checks (c # cs))"
  "(\<And>x. x \<in> set xs \<Longrightarrow> reports_in v p (f x)) \<Longrightarrow> reports_in v p (checks (map f xs))"
proof -
  show "reports_in v p c \<Longrightarrow> reports_in v p (checks cs) \<Longrightarrow> reports_in v p (checks (c # cs))"
    by (cases c) (auto simp: reports_in_def)
  assume each: "\<And>x. x \<in> set xs \<Longrightarrow> reports_in v p (f x)"
  show "reports_in v p (checks (map f xs))"
    unfolding reports_in_def
  proof (intro allI impI)
    fix q r
    assume "checks (map f xs) = Inl (q, r)"
    then obtain x where "x \<in> set xs" "f x = Inl (q, r)" by (auto dest!: checks_InlD)
    with each show "located v p q" by (auto simp: reports_in_def)
  qed
qed

lemma reports_branch:
  "(o' = None \<Longrightarrow> reports_in v p a) \<Longrightarrow> (\<And>y. o' = Some y \<Longrightarrow> reports_in v p (f y)) \<Longrightarrow>
     reports_in v p (case o' of None \<Rightarrow> a | Some y \<Rightarrow> f y)"
  "(b \<Longrightarrow> reports_in v p c) \<Longrightarrow> (\<not> b \<Longrightarrow> reports_in v p d) \<Longrightarrow> reports_in v p (if b then c else d)"
  "(\<And>x y. z = (x, y) \<Longrightarrow> reports_in v p (g x y)) \<Longrightarrow> reports_in v p (case z of (x, y) \<Rightarrow> g x y)"
  "(\<And>n. reports_in v p (h n)) \<Longrightarrow> reports_in v p (let n = m in h n)"
  by (auto split: option.splits prod.splits)

lemmas reports_rules = reports_basic reports_checks reports_branch

lemma reports_check:
  "reports_in v p (check_const v so p)" "reports_in v p (check_enum v so p)"
  "reports_in v p (check_type v so p)" "reports_in v p (check_min_length v so p)"
  "reports_in v p (check_max_length v so p)" "reports_in v p (check_pattern ext v so p)"
  "reports_in v p (check_minimum v so p)" "reports_in v p (check_maximum v so p)"
  "reports_in v p (check_item_counts arr so p)" "reports_in v p (check_required obj so p)"
  unfolding check_defs check_type_def check_required_def by (intro reports_rules)+

lemma reports_field:
  "map_of kvs k = Some c \<Longrightarrow> reports_in c (property_path p k) x \<Longrightarrow> reports_in (JObject kvs) p x"
  by (auto simp: reports_in_def intro: located.field)

lemma reports_item:
  "i < length xs \<Longrightarrow> reports_in (xs ! i) (item_path p i) x \<Longrightarrow> reports_in (JArray xs) p x"
  by (auto simp: reports_in_def intro: located.item)

lemma json_wf_child:
  "json_wf (JObject kvs) \<Longrightarrow> map_of kvs k = Some c \<Longrightarrow> json_wf c"
  "json_wf (JObject kvs) \<Longrightarrow> (k, c) \<in> set kvs \<Longrightarrow> map_of kvs k = Some c"
  "json_wf (JArray xs) \<Longrightarrow> i < length xs \<Longrightarrow> json_wf (xs ! i)"
  by (force dest: map_of_SomeD, simp_all)

lemma reports_validate:
  "json_wf v \<Longrightarrow> reports_in v path (validate_json_schema ext v schema path)"
proof (induction "size schema" arbitrary: v schema path rule: less_induct)
  case less
  have IH: "\<And>v' sub p. size sub < size schema \<Longrightarrow> json_wf v' \<Longrightarrow>
      reports_in v' p (validate_json_schema ext v' sub p)"
    using less.hyps by blast
  show ?case
    unfolding validate_json_schema.simps [of ext v schema path]
  proof (intro reports_rules reports_check, goal_cases)
    case (1 so all_of sub)
    with less.prems show ?case by (auto simp: as_object_eq_Some intro!: IH dest: size_bind_array)
  next
    case (2 so obj props x name sub child)
    then have o: "v = JObject obj" "schema = JObject so" by (simp_all add: as_object_eq_Some)
    with 2 less.prems show ?case
      by (auto intro!: reports_field [where k = name] IH size_properties dest: json_wf_child(1))
  next
    case (3 so obj additional x key child)
    then have o: "v = JObject obj" "schema = JObject so" by (simp_all add: as_object_eq_Some)
    with 3 less.prems json_wf_child(2) [of obj key child] have "map_of obj key = Some child" by simp
    with 3 o less.prems show ?case
      by (auto intro!: reports_field [where k = key] IH size_map_of dest: json_wf_child(1))
  next
    case (4 so arr items x idx item)
    then have o: "v = JArray arr" "schema = JObject so"
      by (simp_all add: as_object_eq_Some as_array_eq_Some)
    with 4 less.prems show ?case
      by (auto intro!: reports_item [where i = idx] IH size_map_of dest!: enumerate_memD)
  next
    case (5 so arr items subs x idx y item sub)
    then have o: "v = JArray arr" "schema = JObject so" "items = JArray subs"
      by (simp_all add: as_object_eq_Some as_array_eq_Some)
    with 5 have i: "idx < length arr" "arr ! idx = item" "size sub < size schema"
      using size_tuple_items [of idx item sub arr subs] size_map_of [of so "''items''" items]
      by (auto dest!: enumerate_memD)
    with o less.prems show ?case
      by (auto intro!: reports_item [where i = idx] IH)
  qed
qed

text \<open>An error is reported inside the value: its path denotes the value itself or one of its
  fields or elements, at any depth.\<close>

theorem schema_error_located:
  assumes "json_wf v" and "validate_json_schema ext v schema path = Inl (q, r)"
  shows "located v path q"
  using reports_validate [OF assms(1)] assms(2) unfolding reports_in_def by blast

section \<open>Concrete validations\<close>

definition sample_type :: type_spec where
  "sample_type = ObjectSpec [(''a'', ArraySpec (PrimitiveSpec NumberType))]"

definition sample_value :: "json \<Rightarrow> json" where
  "sample_value x = JObject [(''a'', JArray [x])]"

theorem type_schema_exact_witness:
  "validate_json_schema sample_ext (sample_value (JNumber (PosInt 1))) (to_json_schema sample_type) ''$''
     = Inr ()
   \<and> validate_json_schema sample_ext (sample_value JNull) (to_json_schema sample_type) ''$'' \<noteq> Inr ()"
  using type_schema_exact [of sample_type sample_ext _ "''$''"]
  by (simp add: sample_type_def sample_value_def)

lemma sample_invalid:
  "validate_json_schema sample_ext JNull (to_json_schema (PrimitiveSpec NumberType)) p = Inl (p, WrongType)"
  by (subst validate_json_schema.simps)
    (simp add: obj_of_list_def map_of_obj3 check_defs check_type_def matches_type_name_def)

lemma sample_invalid_nested:
  "validate_json_schema sample_ext (JArray [JNull])
     (to_json_schema (ArraySpec (PrimitiveSpec NumberType))) ''$''
     = Inl (item_path ''$'' 0, WrongType)"
  using sample_invalid
  by (subst validate_json_schema.simps)
    (simp add: obj_of_list_def map_of_obj3 check_defs check_type_def matches_type_name_def)

theorem schema_error_located_witness: "located (JArray [JNull]) ''$'' (item_path ''$'' 0)"
  by (rule schema_error_located [OF _ sample_invalid_nested]) simp

end
