(* ===== verification/Dag_Conditions.thy ===== *)
theory Dag_Conditions
  imports Dag_Foreach Json_Schema
begin

text \<open>
  The skip gate of \<open>agent/dag_engine.rs\<close>: the input a step sees (the outputs of its
  predecessors), the resolution of a dotted path against it, and the evaluation of structured
  and typed conditions; with the schema check around a step and the in-memory start of a step.
\<close>

section \<open>Step input\<close>

record step_input =
  si_data :: json
  si_predecessor_outputs :: "(string \<times> json) list"

text \<open>\<open>StepInput::from_predecessors\<close>, with the store's \<open>get_step_output\<close> as an argument.
  The map is built in the order of the dependencies; a later output of the same id replaces an
  earlier one.\<close>

fun predecessor_outputs ::
  "(string \<Rightarrow> ('e, json option) result) \<Rightarrow> string list \<Rightarrow> (string \<times> json) list
     \<Rightarrow> ('e, (string \<times> json) list) result" where
  "predecessor_outputs get_step_output [] acc = Inr acc"
| "predecessor_outputs get_step_output (dep_id # deps) acc =
     (case get_step_output dep_id of
        Inl e \<Rightarrow> Inl e
      | Inr None \<Rightarrow> predecessor_outputs get_step_output deps acc
      | Inr (Some output) \<Rightarrow>
          predecessor_outputs get_step_output deps (obj_insert dep_id output acc))"

definition from_predecessors ::
  "(string \<Rightarrow> ('e, json option) result) \<Rightarrow> step_node \<Rightarrow> ('e, step_input) result" where
  "from_predecessors get_step_output step =
     (case predecessor_outputs get_step_output (node_depends_on step) [] of
        Inl e \<Rightarrow> Inl e
      | Inr outs \<Rightarrow> Inr \<lparr>si_data = JObject outs, si_predecessor_outputs = outs\<rparr>)"

definition build_dag_step_metadata :: "step_node \<Rightarrow> step_input \<Rightarrow> json" where
  "build_dag_step_metadata step input = obj_of_list
     [(''dag_step_id'', JString (node_id step)),
      (''dag_step_index'', JNumber (PosInt (node_index step))),
      (''dag_step_input'', si_data input),
      (''dag_predecessor_outputs'', JObject (si_predecessor_outputs input))]"

definition mark_step_running_in_memory :: "workflow \<Rightarrow> string \<Rightarrow> time \<Rightarrow> workflow" where
  "mark_step_running_in_memory w step_id now =
     w\<lparr>wf_nodes := update_first (\<lambda>n. node_id n = step_id)
        (\<lambda>n. if can_run (node_status n)
             then n\<lparr>node_status := Running,
                    node_started_at := (case node_started_at n of None \<Rightarrow> Some now | t \<Rightarrow> t)\<rparr>
             else n) (wf_nodes w)\<rparr>"

section \<open>Paths\<close>

fun walk_path :: "string list \<Rightarrow> json \<Rightarrow> json option" where
  "walk_path [] current = Some current"
| "walk_path (segment # segments) current =
     (if segment = [] then walk_path segments current
      else case json_get segment current of
             Some v \<Rightarrow> walk_path segments v
           | None \<Rightarrow>
               (case parse_usize segment of
                  None \<Rightarrow> None
                | Some idx \<Rightarrow>
                    (case json_index idx current of
                       None \<Rightarrow> None
                     | Some v \<Rightarrow> walk_path segments v)))"

definition step_key :: "string \<Rightarrow> string option" where
  "step_key segment =
     (case strip_prefix ''result_of_step_'' segment of
        None \<Rightarrow> Some segment
      | Some rest \<Rightarrow>
          (let digits = takeWhile is_ascii_digit rest
           in if digits = [] then None else Some (''step-'' @ digits)))"

definition normalize_ref :: "string \<Rightarrow> string" where
  "normalize_ref path =
     (case strip_prefix ''$.deps.'' (trim path) of
        Some rest \<Rightarrow> rest
      | None \<Rightarrow>
          (case strip_prefix ''deps.'' (trim path) of Some rest \<Rightarrow> rest | None \<Rightarrow> trim path))"

definition resolve_path :: "string \<Rightarrow> step_input \<Rightarrow> json option" where
  "resolve_path path input =
     (case split_on CHR ''.'' (normalize_ref path) of
        [] \<Rightarrow> None
      | first # segments \<Rightarrow>
          (case step_key first of
             None \<Rightarrow> None
           | Some key \<Rightarrow>
               (case map_of (si_predecessor_outputs input) key of
                  None \<Rightarrow> None
                | Some output \<Rightarrow> walk_path segments output)))"

section \<open>Typed expressions\<close>

fun bool_value :: "json \<Rightarrow> bool option" where
  "bool_value (JBool b) = Some b"
| "bool_value (JNumber n) = Some (num_as_f64 n \<noteq> 0)"
| "bool_value (JString s) = Some (s \<noteq> [])"
| "bool_value (JArray values) = Some (values \<noteq> [])"
| "bool_value (JObject values) = Some (values \<noteq> [])"
| "bool_value JNull = Some False"

definition numeric_value :: "(rat \<Rightarrow> rat \<Rightarrow> bool) \<Rightarrow> json \<Rightarrow> json option \<Rightarrow> bool option" where
  "numeric_value cmp left right =
     (case as_f64 left of
        None \<Rightarrow> None
      | Some l \<Rightarrow> (case Option.bind right as_f64 of None \<Rightarrow> None | Some r \<Rightarrow> Some (cmp l r)))"

definition compare_values :: "(json \<Rightarrow> json \<Rightarrow> bool) \<Rightarrow> json \<Rightarrow> json option \<Rightarrow> bool option" where
  "compare_values cmp left right = map_option (cmp left) right"

definition bool_pair :: "(bool \<Rightarrow> bool \<Rightarrow> bool) \<Rightarrow> json \<Rightarrow> json option \<Rightarrow> bool option" where
  "bool_pair f left right =
     (case (bool_value left, Option.bind right bool_value) of
        (Some l, Some r) \<Rightarrow> Some (f l r)
      | _ \<Rightarrow> None)"

definition apply_op :: "string \<Rightarrow> json \<Rightarrow> json option \<Rightarrow> bool option" where
  "apply_op op left right =
     (if op = ''gt'' then numeric_value (>) left right
      else if op = ''gte'' then numeric_value (\<ge>) left right
      else if op = ''lt'' then numeric_value (<) left right
      else if op = ''lte'' then numeric_value (\<le>) left right
      else if op = ''eq'' then compare_values (=) left right
      else if op = ''neq'' then compare_values (\<noteq>) left right
      else if op = ''and'' then bool_pair (\<and>) left right
      else if op = ''or'' then bool_pair (\<or>) left right
      else if op = ''not'' then map_option Not (bool_value left)
      else None)"

fun json_count :: "json \<Rightarrow> nat option" where
  "json_count (JArray values) = Some (length values)"
| "json_count (JObject m) = Some (length m)"
| "json_count (JString text) = Some (chars_count text)"
| "json_count _ = None"

definition apply_function :: "string \<Rightarrow> json list \<Rightarrow> json option" where
  "apply_function fn args =
     (if fn = ''len'' \<or> fn = ''count'' then
        (case args of
           [] \<Rightarrow> None
         | first # _ \<Rightarrow> map_option (\<lambda>n. JNumber (PosInt n)) (json_count first))
      else None)"

fun evaluate_typed_expression :: "typed_expression \<Rightarrow> step_input \<Rightarrow> json option" where
  "evaluate_typed_expression (TypedExpression ty op fn args left right val path) input =
     (case val of
        Some value \<Rightarrow> Some value
      | None \<Rightarrow>
     (case path of
        Some p \<Rightarrow> resolve_path p input
      | None \<Rightarrow>
     (case fn of
        Some f \<Rightarrow>
          (case those (map (\<lambda>arg. evaluate_typed_expression arg input) args) of
             None \<Rightarrow> None
           | Some vs \<Rightarrow> apply_function f vs)
      | None \<Rightarrow>
     (case op of
        None \<Rightarrow> None
      | Some o' \<Rightarrow>
          (case (case left of None \<Rightarrow> None | Some l \<Rightarrow> evaluate_typed_expression l input) of
             None \<Rightarrow> None
           | Some lv \<Rightarrow>
               map_option JBool
                 (apply_op o' lv
                    (case right of None \<Rightarrow> None | Some r \<Rightarrow> evaluate_typed_expression r input)))))))"

definition evaluate_typed_condition :: "typed_expression \<Rightarrow> step_input \<Rightarrow> bool" where
  "evaluate_typed_condition expr input =
     (case evaluate_typed_expression expr input of Some (JBool value) \<Rightarrow> value | _ \<Rightarrow> False)"

section \<open>Structured conditions\<close>

definition numeric_cmp :: "(rat \<Rightarrow> rat \<Rightarrow> bool) \<Rightarrow> json option \<Rightarrow> json option \<Rightarrow> bool" where
  "numeric_cmp cmp resolved right =
     (case (Option.bind resolved as_f64, Option.bind right as_f64) of
        (Some l, Some r) \<Rightarrow> cmp l r
      | _ \<Rightarrow> True)"

fun not_empty_value :: "json option \<Rightarrow> bool" where
  "not_empty_value None = False"
| "not_empty_value (Some JNull) = False"
| "not_empty_value (Some (JString s)) = (s \<noteq> [])"
| "not_empty_value (Some (JArray a)) = (a \<noteq> [])"
| "not_empty_value (Some (JObject m)) = (m \<noteq> [])"
| "not_empty_value _ = True"

fun empty_value :: "json option \<Rightarrow> bool" where
  "empty_value None = True"
| "empty_value (Some JNull) = True"
| "empty_value (Some (JString s)) = (s = [])"
| "empty_value (Some (JArray a)) = (a = [])"
| "empty_value (Some (JObject m)) = (m = [])"
| "empty_value _ = False"

fun truthy_value :: "json option \<Rightarrow> bool" where
  "truthy_value None = False"
| "truthy_value (Some JNull) = False"
| "truthy_value (Some (JBool b)) = b"
| "truthy_value (Some (JNumber n)) = (num_as_f64 n \<noteq> 0)"
| "truthy_value (Some (JString s)) = (s \<noteq> [])"
| "truthy_value (Some (JArray a)) = (a \<noteq> [])"
| "truthy_value (Some (JObject _)) = True"

fun falsy_value :: "json option \<Rightarrow> bool" where
  "falsy_value None = True"
| "falsy_value (Some JNull) = True"
| "falsy_value (Some (JBool b)) = (\<not> b)"
| "falsy_value (Some (JNumber n)) = (num_as_f64 n = 0)"
| "falsy_value (Some (JString s)) = (s = [])"
| "falsy_value (Some (JArray a)) = (a = [])"
| "falsy_value (Some (JObject _)) = False"

fun equals_value :: "json option \<Rightarrow> json option \<Rightarrow> bool" where
  "equals_value (Some left) (Some right) = (left = right)"
| "equals_value None None = True"
| "equals_value (Some JNull) None = True"
| "equals_value _ _ = False"

fun not_equals_value :: "json option \<Rightarrow> json option \<Rightarrow> bool" where
  "not_equals_value (Some left) (Some right) = (left \<noteq> right)"
| "not_equals_value None None = False"
| "not_equals_value (Some JNull) None = False"
| "not_equals_value _ _ = True"

fun contains_value :: "json option \<Rightarrow> json option \<Rightarrow> bool" where
  "contains_value (Some (JString haystack)) (Some (JString needle)) = str_contains needle haystack"
| "contains_value (Some (JArray arr)) (Some needle) = (needle \<in> set arr)"
| "contains_value _ _ = False"

definition apply_condition :: "condition_op \<Rightarrow> json option \<Rightarrow> json option \<Rightarrow> bool" where
  "apply_condition op resolved right =
     (case op of
        OpExists \<Rightarrow> (case resolved of Some v \<Rightarrow> v \<noteq> JNull | None \<Rightarrow> False)
      | OpNotExists \<Rightarrow> (case resolved of Some v \<Rightarrow> v = JNull | None \<Rightarrow> True)
      | OpEquals \<Rightarrow> equals_value resolved right
      | OpNotEquals \<Rightarrow> not_equals_value resolved right
      | OpGreaterThan \<Rightarrow> numeric_cmp (>) resolved right
      | OpLessThan \<Rightarrow> numeric_cmp (<) resolved right
      | OpGreaterThanEquals \<Rightarrow> numeric_cmp (\<ge>) resolved right
      | OpLessThanEquals \<Rightarrow> numeric_cmp (\<le>) resolved right
      | OpNotEmpty \<Rightarrow> not_empty_value resolved
      | OpEmpty \<Rightarrow> empty_value resolved
      | OpIsTruthy \<Rightarrow> truthy_value resolved
      | OpIsFalsy \<Rightarrow> falsy_value resolved
      | OpContains \<Rightarrow> contains_value resolved right)"

definition evaluate_structured_condition :: "structured_condition \<Rightarrow> step_input \<Rightarrow> bool" where
  "evaluate_structured_condition cond input =
     apply_condition (sc_operator cond) (resolve_path (sc_left cond) input) (sc_right cond)"

fun evaluate_condition :: "step_condition \<Rightarrow> step_input \<Rightarrow> bool" where
  "evaluate_condition (Deterministic cond) input = evaluate_structured_condition cond input"
| "evaluate_condition (Expression expr) input = evaluate_typed_condition expr input"

section \<open>Schema check of a step\<close>

definition validate_step_schema ::
  "externals \<Rightarrow> step_node \<Rightarrow> string \<Rightarrow> json \<Rightarrow> json option
     \<Rightarrow> (string \<times> string \<times> schema_error, unit) result" where
  "validate_step_schema ext step label value schema =
     (case schema of
        None \<Rightarrow> Inr ()
      | Some sch \<Rightarrow>
          (case validate_output_against_schema ext (node_id step) value sch of
             Inr _ \<Rightarrow> Inr ()
           | Inl err \<Rightarrow>
               (case node_schema_mode step of
                  Off \<Rightarrow> Inr ()
                | Warn \<Rightarrow> Inr ()
                | Strict \<Rightarrow> Inl (label, err))))"

section \<open>A step sees exactly the outputs of its dependencies\<close>

lemma predecessor_outputs_spec:
  assumes "predecessor_outputs get deps acc = Inr outs" and "sorted (map fst acc) \<and> distinct (map fst acc)"
  shows "map_of outs k = (if k \<in> set deps \<and> get k \<noteq> Inr None then
            (case get k of Inr v \<Rightarrow> v | Inl e \<Rightarrow> None) else map_of acc k)
    \<and> sorted (map fst outs) \<and> distinct (map fst outs)"
  using assms
proof (induction deps arbitrary: acc)
  case (Cons d deps)
  show ?case
  proof (cases "get d")
    case (Inr r)
    with Cons.prems Cons.IH [of acc] Cons.IH [of "obj_insert d v acc" for v] show ?thesis
      by (cases r) (auto simp: map_of_obj_insert sorted_obj_insert)
  qed (use Cons.prems in simp)
qed simp

text \<open>C19: step isolation.  The input of a step holds, for every dependency whose output is stored,
  that output, and nothing of any other step; its keys ascend, so the JSON form of the input is
  well formed.\<close>

theorem step_input_isolated:
  assumes "from_predecessors get step = Inr input"
  shows "map_of (si_predecessor_outputs input) k =
      (if k \<in> set (node_depends_on step) then (case get k of Inr v \<Rightarrow> v | Inl e \<Rightarrow> None) else None)
    \<and> si_data input = JObject (si_predecessor_outputs input)
    \<and> sorted (map fst (si_predecessor_outputs input))
    \<and> distinct (map fst (si_predecessor_outputs input))"
proof -
  obtain outs where o: "predecessor_outputs get (node_depends_on step) [] = Inr outs"
      "input = \<lparr>si_data = JObject outs, si_predecessor_outputs = outs\<rparr>"
    using assms by (auto simp: from_predecessors_def split: sum.splits)
  show ?thesis using predecessor_outputs_spec [OF o(1), of k] o(2) by auto
qed

section \<open>Paths\<close>

abbreviation dotted :: "string list \<Rightarrow> string" where
  "dotted segments \<equiv> join_with ''.'' segments"

lemma normalize_prefixes:
  assumes "p \<noteq> []" "visible (hd p)" "visible (last p)"
  shows "normalize_ref (''$.deps.'' @ p) = p" "normalize_ref (''deps.'' @ p) = p"
    "hd p \<noteq> CHR ''$'' \<Longrightarrow> hd p \<noteq> CHR ''d'' \<Longrightarrow> normalize_ref p = p"
proof -
  have t: "trim (''$.deps.'' @ p) = ''$.deps.'' @ p" "trim (''deps.'' @ p) = ''deps.'' @ p" "trim p = p"
    using assms by (intro trim_visible; simp add: visible_def byte_of_def)+
  show "normalize_ref (''$.deps.'' @ p) = p" "normalize_ref (''deps.'' @ p) = p"
    unfolding normalize_ref_def t by (simp_all add: strip_prefix_def)
  show "hd p \<noteq> CHR ''$'' \<Longrightarrow> hd p \<noteq> CHR ''d'' \<Longrightarrow> normalize_ref p = p"
    unfolding normalize_ref_def t using assms(1) by (cases p) (simp_all add: strip_prefix_def)
qed

lemma hd_dotted: "w \<noteq> [] \<Longrightarrow> hd (dotted (w # ws)) = hd w" "w \<noteq> [] \<Longrightarrow> dotted (w # ws) \<noteq> []"
  by (cases "ws = []"; simp add: join_with_Cons)+

lemma takeWhile_digits: "takeWhile is_ascii_digit (show_nat i) = show_nat i"
  by (simp add: takeWhile_eq_all_conv show_nat_digits)

lemma dot_not_in_names [simp]: "CHR ''.'' \<notin> set (show_nat i)"
  by (rule not_digit_show_nat) (simp add: is_ascii_digit_def byte_of_def)

lemma last_dotted: "ws \<noteq> [] \<Longrightarrow> last ws \<noteq> [] \<Longrightarrow> dotted ws \<noteq> [] \<and> last (dotted ws) = last (last ws)"
proof (induction ws)
  case (Cons w ws)
  then show ?case by (cases "ws = []") (auto simp: join_with_Cons)
qed simp

lemma resolve_path_key:
  assumes "normalize_ref p = dotted (w # segs)" "\<forall>s\<in>set (w # segs). CHR ''.'' \<notin> set s"
    and "step_key w = Some key"
  shows "resolve_path p input
    = Option.bind (map_of (si_predecessor_outputs input) key) (walk_path segs)"
  using assms split_on_join [of "w # segs" "CHR ''.''"]
  by (simp add: resolve_path_def split: option.splits)

text \<open>The spellings of a reference agree.  With or without the prefixes \<open>$.deps.\<close> and
  \<open>deps.\<close>, by step id or as \<open>result_of_step_N\<close>, a reference to step N resolves to the same
  value: the walk through the output of that step.\<close>

theorem path_spellings_agree:
  assumes "\<forall>s\<in>set segs. CHR ''.'' \<notin> set s"
    and "segs = [] \<or> last segs \<noteq> [] \<and> visible (last (last segs))"
    and "p \<in> {''$.deps.'', ''deps.'', []}" and "ref \<in> {step_name i, ''result_of_step_'' @ show_nat i}"
  shows "resolve_path (p @ join_with ''.'' (ref # segs)) input
    = Option.bind (map_of (si_predecessor_outputs input) (step_name i)) (walk_path segs)"
proof (rule resolve_path_key)
  have digit: "visible (last (show_nat i))"
    using show_nat_digits [of "last (show_nat i)" i] by (auto simp: visible_def is_ascii_digit_def)
  then have "last (ref # segs) \<noteq> [] \<and> visible (last (last (ref # segs)))"
    using assms(2,4) by (auto simp: step_name_def)
  then have l: "dotted (ref # segs) \<noteq> []" "visible (last (dotted (ref # segs)))"
    using last_dotted [of "ref # segs"] by simp_all
  have "ref \<noteq> []" and h: "hd ref = CHR ''s'' \<or> hd ref = CHR ''r''"
    using assms(4) by (auto simp: step_name_def)
  then have "hd (dotted (ref # segs)) = hd ref" by (simp add: hd_dotted)
  with h l assms(3) show "normalize_ref (p @ dotted (ref # segs)) = dotted (ref # segs)"
    using normalize_prefixes [of "dotted (ref # segs)"]
    by (auto simp: visible_def byte_of_def)
  show "\<forall>s\<in>set (ref # segs). CHR ''.'' \<notin> set s"
    using assms(1,4) by (auto simp: step_name_def)
  show "step_key ref = Some (step_name i)"
    using assms(4) by (auto simp: step_key_def step_name_def strip_prefix_def Let_def takeWhile_digits)
qed

section \<open>The operators\<close>

text \<open>The operators come in complementary pairs.  For every condition and input exactly one
  operator of each of the pairs exists / not exists, equals / not equals, not empty / empty and
  truthy / falsy holds; the numeric pairs are complementary when both sides are numbers, and
  both hold otherwise.\<close>

theorem condition_operators_complement:
  "let holds = (\<lambda>op. evaluate_condition (Deterministic (c\<lparr>sc_operator := op\<rparr>)) input);
       numbers = (Option.bind (resolve_path (sc_left c) input) as_f64 \<noteq> None
         \<and> Option.bind (sc_right c) as_f64 \<noteq> None)
   in holds OpNotExists = (\<not> holds OpExists) \<and> holds OpNotEquals = (\<not> holds OpEquals)
    \<and> holds OpEmpty = (\<not> holds OpNotEmpty) \<and> holds OpIsFalsy = (\<not> holds OpIsTruthy)
    \<and> holds OpLessThanEquals = (if numbers then \<not> holds OpGreaterThan else True)
    \<and> holds OpGreaterThanEquals = (if numbers then \<not> holds OpLessThan else True)"
proof -
  let ?v = "resolve_path (sc_left c) input"
  have "not_equals_value ?v (sc_right c) = (\<not> equals_value ?v (sc_right c))"
    by (cases "(?v, sc_right c)" rule: equals_value.cases) auto
  moreover have "empty_value ?v = (\<not> not_empty_value ?v)"
    by (cases ?v rule: empty_value.cases) auto
  moreover have "falsy_value ?v = (\<not> truthy_value ?v)"
    by (cases ?v rule: falsy_value.cases) auto
  ultimately show ?thesis
    unfolding Let_def evaluate_condition.simps evaluate_structured_condition_def
    by (auto simp: apply_condition_def numeric_cmp_def split: option.splits)
qed

text \<open>What a condition on a path that does not resolve gives.  The step runs under the
  negative tests, the numeric comparisons and an inequality, and is skipped under exists,
  not empty, truthy, contains and an equality with a value.\<close>

theorem unresolved_condition:
  assumes "resolve_path (sc_left c) input = None"
  shows "evaluate_condition (Deterministic c) input \<longleftrightarrow>
     sc_operator c \<in> {OpNotExists, OpGreaterThan, OpLessThan, OpGreaterThanEquals,
        OpLessThanEquals, OpEmpty, OpIsFalsy}
   \<or> sc_operator c = OpEquals \<and> sc_right c = None
   \<or> sc_operator c = OpNotEquals \<and> sc_right c \<noteq> None"
  using assms
  by (cases "sc_right c"; cases "sc_operator c")
    (simp_all add: evaluate_structured_condition_def apply_condition_def numeric_cmp_def)

section \<open>Schema mode\<close>

text \<open>A strict step accepts exactly the values of its schema's type; a step in another mode
  accepts every value.\<close>

theorem step_schema_enforced:
  assumes "type_wf t"
  shows "validate_step_schema ext step label v (Some (to_json_schema t)) = Inr ()
    \<longleftrightarrow> has_type v t \<or> node_schema_mode step \<noteq> Strict"
  using validate_type_schema [OF assms, of ext v "''$''"]
  by (cases "validate_json_schema ext v (to_json_schema t) ''$''"; cases "node_schema_mode step")
    (auto simp: validate_step_schema_def validate_output_against_schema_def)

section \<open>Concrete inputs\<close>

definition sample_input :: step_input where
  "sample_input = \<lparr>si_data = JObject [(step_name 0, JObject [(''n'', JNull)])],
     si_predecessor_outputs = [(step_name 0, JObject [(''n'', JNull)])]\<rparr>"

definition sample_node :: step_node where
  "sample_node = node_of_planned (sample_planned 1)"

lemma sample_node_simps [simp]: "node_depends_on sample_node = [step_name 0]"
    "node_schema_mode sample_node = Strict"
  by (simp_all add: sample_node_def node_of_planned_def sample_planned_def default_schema_mode_def)

theorem step_input_isolated_witness:
  "map_of [(step_name 0, JNull)] (step_name 1) = None"
  using step_input_isolated [of "\<lambda>_. Inr (Some JNull) :: (unit, json option) result" sample_node
      "\<lparr>si_data = JObject [(step_name 0, JNull)], si_predecessor_outputs = [(step_name 0, JNull)]\<rparr>"
      "step_name 1"]
  by (simp add: from_predecessors_def)

theorem path_spellings_agree_witness:
  "resolve_path (''$.deps.'' @ join_with ''.'' [''result_of_step_'' @ show_nat 0, ''n'']) sample_input
     = Some JNull"
  using path_spellings_agree [of "[''n'']" "''$.deps.''" "''result_of_step_'' @ show_nat 0" 0 sample_input]
  by (simp add: sample_input_def visible_def byte_of_def)

theorem unresolved_condition_witness:
  "\<not> evaluate_condition (Deterministic \<lparr>sc_left = ''step-9'', sc_operator = OpEquals,
       sc_right = Some JNull\<rparr>) \<lparr>si_data = JNull, si_predecessor_outputs = []\<rparr>"
proof -
  let ?c = "\<lparr>sc_left = ''step-9'', sc_operator = OpEquals, sc_right = Some JNull\<rparr>"
  have "resolve_path (sc_left ?c) \<lparr>si_data = JNull, si_predecessor_outputs = []\<rparr> = None"
    by (simp add: resolve_path_def split: list.split option.split)
  from unresolved_condition [OF this] show ?thesis by simp
qed

theorem step_schema_enforced_witness:
  "validate_step_schema sample_ext sample_node ''output'' JNull
     (Some (to_json_schema (PrimitiveSpec NumberType))) \<noteq> Inr ()"
  using step_schema_enforced [of "PrimitiveSpec NumberType" sample_ext sample_node "''output''" JNull]
  by simp

end
