(* ===== verification/Dag_Store.thy ===== *)
theory Dag_Store
  imports Dag_Foreach
begin

text \<open>
  The persistence of workflows (\<open>storage/dag_store.rs\<close>): the two tables as lists of rows with the
  constraints of their schema (primary keys and the reference of a step to its workflow), the
  operations of \<open>PgWorkflowStore\<close> as their SQL does them, and the conversions between a row and a
  step node, with the casts to and from 32-bit columns.

  Columns of type JSONB or with JSON text hold the value itself (its encoding is serde's), the
  column \<open>input_data\<close>, which nothing reads or writes, is left out, and rows with equal
  \<open>step_index\<close> are read in insertion order.  An operation that fails leaves the tables as they
  were, since it runs in a transaction.
\<close>

section \<open>Columns\<close>

definition to_i32 :: "nat \<Rightarrow> int" where
  "to_i32 n = (int n + 2 ^ 31) mod 2 ^ 32 - 2 ^ 31"

definition i32_to_u32 :: "int \<Rightarrow> nat" where
  "i32_to_u32 i = nat (i mod 2 ^ 32)"

definition i32_to_u64 :: "int \<Rightarrow> nat" where
  "i32_to_u64 i = nat (i mod 2 ^ 64)"

fun step_status_to_str :: "step_status \<Rightarrow> string" where
  "step_status_to_str Pending = ''pending''"
| "step_status_to_str Ready = ''ready''"
| "step_status_to_str Running = ''running''"
| "step_status_to_str Succeeded = ''succeeded''"
| "step_status_to_str Failed = ''failed''"
| "step_status_to_str Skipped = ''skipped''"
| "step_status_to_str (Retrying _ _) = ''retrying''"
| "step_status_to_str (AwaitingInput _) = ''awaiting_input''"
| "step_status_to_str (AwaitingChildren _) = ''awaiting_children''"

definition parse_step_status :: "string \<Rightarrow> time option \<Rightarrow> int \<Rightarrow> time \<Rightarrow> step_status" where
  "parse_step_status s retry attempt now =
     (if s = ''pending'' then Pending
      else if s = ''ready'' then Ready
      else if s = ''running'' then Running
      else if s = ''succeeded'' then Succeeded
      else if s = ''failed'' then Failed
      else if s = ''skipped'' then Skipped
      else if s = ''retrying'' then
        Retrying (i32_to_u32 attempt) (case retry of Some t \<Rightarrow> t | None \<Rightarrow> now)
      else if s = ''awaiting_input'' then AwaitingInput []
      else if s = ''awaiting_children'' then AwaitingChildren []
      else Pending)"

fun workflow_status_str :: "workflow_status \<Rightarrow> string" where
  "workflow_status_str WfRunning = ''running''"
| "workflow_status_str WfCompleted = ''completed''"
| "workflow_status_str WfFailed = ''failed''"
| "workflow_status_str WfCancelled = ''cancelled''"

definition parse_workflow_status :: "string \<Rightarrow> workflow_status" where
  "parse_workflow_status s =
     (if s = ''completed'' then WfCompleted else if s = ''failed'' then WfFailed
      else if s = ''cancelled'' then WfCancelled else WfRunning)"

fun schema_mode_str :: "schema_mode \<Rightarrow> string" where
  "schema_mode_str Strict = ''strict''"
| "schema_mode_str Warn = ''warn''"
| "schema_mode_str Off = ''off''"

definition parse_schema_mode :: "string \<Rightarrow> schema_mode" where
  "parse_schema_mode s = (if s = ''warn'' then Warn else if s = ''off'' then Off else Strict)"

section \<open>Tables\<close>

record execution_row =
  er_id :: string
  er_agent_id :: string
  er_tenant_id :: string
  er_goal :: string
  er_status :: string
  er_created_at :: time
  er_updated_at :: time

record step_row =
  sr_id :: string
  sr_workflow_id :: string
  sr_step_index :: int
  sr_description :: string
  sr_tool :: "string option"
  sr_tool_args :: "json option"
  sr_success_criteria :: string
  sr_condition :: "step_condition option"
  sr_depends_on :: "string list"
  sr_status :: string
  sr_attempt :: int
  sr_max_retries :: int
  sr_retry_backoff :: int
  sr_schema_mode :: string
  sr_input_schema :: "json option"
  sr_output_schema :: "json option"
  sr_output_data :: "json option"
  sr_error :: "string option"
  sr_started_at :: "time option"
  sr_completed_at :: "time option"
  sr_retry_at :: "time option"
  sr_created_at :: time
  sr_updated_at :: time
  sr_step_kind :: step_kind
  sr_foreach :: "string option"
  sr_parent_step_id :: "string option"
  sr_item_index :: "int option"

record workflow_tables =
  workflow_executions :: "execution_row list"
  workflow_steps :: "step_row list"

datatype db_error = DuplicateKey string | MissingReference string

definition insert_execution ::
  "execution_row \<Rightarrow> workflow_tables \<Rightarrow> (db_error, workflow_tables) result" where
  "insert_execution r db =
     (if er_id r \<in> er_id ` set (workflow_executions db) then Inl (DuplicateKey (er_id r))
      else Inr (db\<lparr>workflow_executions := workflow_executions db @ [r]\<rparr>))"

definition insert_step :: "step_row \<Rightarrow> workflow_tables \<Rightarrow> (db_error, workflow_tables) result" where
  "insert_step r db =
     (if sr_id r \<in> sr_id ` set (workflow_steps db) then Inl (DuplicateKey (sr_id r))
      else if sr_workflow_id r \<notin> er_id ` set (workflow_executions db)
      then Inl (MissingReference (sr_workflow_id r))
      else Inr (db\<lparr>workflow_steps := workflow_steps db @ [r]\<rparr>))"

fun insert_steps :: "step_row list \<Rightarrow> workflow_tables \<Rightarrow> (db_error, workflow_tables) result" where
  "insert_steps [] db = Inr db"
| "insert_steps (r # rs) db =
     (case insert_step r db of Inl e \<Rightarrow> Inl e | Inr db' \<Rightarrow> insert_steps rs db')"

section \<open>Rows and nodes\<close>

definition item_columns :: "step_kind \<Rightarrow> string option \<times> int option" where
  "item_columns k =
     (case k of ForEachItem parent index \<Rightarrow> (Some parent, Some (to_i32 index)) | _ \<Rightarrow> (None, None))"

text \<open>The row that both \<open>INSERT\<close> statements write for a node: what they do not name is null.\<close>

definition step_node_row :: "externals \<Rightarrow> string \<Rightarrow> time \<Rightarrow> time \<Rightarrow> step_node \<Rightarrow> step_row" where
  "step_node_row ext workflow_id created updated n = \<lparr>
     sr_id = node_id n,
     sr_workflow_id = workflow_id,
     sr_step_index = to_i32 (node_index n),
     sr_description = node_description n,
     sr_tool = node_tool n,
     sr_tool_args = node_tool_args n,
     sr_success_criteria = node_success_criteria n,
     sr_condition = node_condition n,
     sr_depends_on = node_depends_on n,
     sr_status = step_status_to_str (node_status n),
     sr_attempt = to_i32 (node_attempt n),
     sr_max_retries = to_i32 (max_attempts (node_retry_policy n)),
     sr_retry_backoff = to_i32 (backoff_secs (node_retry_policy n)),
     sr_schema_mode = schema_mode_str (node_schema_mode n),
     sr_input_schema = node_input_schema n,
     sr_output_schema = node_output_schema n,
     sr_output_data = None,
     sr_error = None,
     sr_started_at = None,
     sr_completed_at = None,
     sr_retry_at = None,
     sr_created_at = db_time ext created,
     sr_updated_at = db_time ext updated,
     sr_step_kind = node_kind n,
     sr_foreach = node_foreach n,
     sr_parent_step_id = fst (item_columns (node_kind n)),
     sr_item_index = snd (item_columns (node_kind n))\<rparr>"

definition row_to_step_node :: "time \<Rightarrow> step_row \<Rightarrow> step_node" where
  "row_to_step_node now r = \<lparr>
     node_id = sr_id r,
     node_index = i32_to_u64 (sr_step_index r),
     node_description = sr_description r,
     node_tool = sr_tool r,
     node_tool_args = sr_tool_args r,
     node_success_criteria = sr_success_criteria r,
     node_condition = sr_condition r,
     node_foreach = sr_foreach r,
     node_kind = sr_step_kind r,
     node_depends_on = sr_depends_on r,
     node_status = parse_step_status (sr_status r) (sr_retry_at r) (sr_attempt r) now,
     node_attempt = i32_to_u32 (sr_attempt r),
     node_retry_policy = \<lparr>max_attempts = i32_to_u32 (sr_max_retries r),
       backoff_secs = i32_to_u64 (sr_retry_backoff r), retry_on = []\<rparr>,
     node_schema_mode = parse_schema_mode (sr_schema_mode r),
     node_input_schema = sr_input_schema r,
     node_output_schema = sr_output_schema r,
     node_output_data = sr_output_data r,
     node_started_at = sr_started_at r,
     node_completed_at = sr_completed_at r,
     node_error = sr_error r\<rparr>"

section \<open>Operations\<close>

definition create_workflow ::
  "externals \<Rightarrow> workflow_tables \<Rightarrow> workflow \<Rightarrow> (db_error, workflow_tables) result" where
  "create_workflow ext db w =
     (case insert_execution \<lparr>er_id = wf_id w, er_agent_id = wf_agent_id w,
             er_tenant_id = wf_tenant_id w, er_goal = wf_goal w,
             er_status = workflow_status_str (wf_status w),
             er_created_at = db_time ext (wf_created_at w),
             er_updated_at = db_time ext (wf_updated_at w)\<rparr> db of
        Inl e \<Rightarrow> Inl e
      | Inr db' \<Rightarrow>
          insert_steps
            (map (step_node_row ext (wf_id w) (wf_created_at w) (wf_updated_at w)) (wf_nodes w)) db')"

definition get_workflow :: "workflow_tables \<Rightarrow> time \<Rightarrow> string \<Rightarrow> workflow option" where
  "get_workflow db now workflow_id =
     (case find (\<lambda>r. er_id r = workflow_id) (workflow_executions db) of
        None \<Rightarrow> None
      | Some r \<Rightarrow> Some \<lparr>
          wf_id = er_id r,
          wf_agent_id = er_agent_id r,
          wf_tenant_id = er_tenant_id r,
          wf_goal = er_goal r,
          wf_nodes = map (row_to_step_node now)
            (sort_key sr_step_index
               (filter (\<lambda>s. sr_workflow_id s = workflow_id) (workflow_steps db))),
          wf_status = parse_workflow_status (er_status r),
          wf_created_at = er_created_at r,
          wf_updated_at = er_updated_at r\<rparr>)"

fun newest :: "execution_row list \<Rightarrow> execution_row option" where
  "newest [] = None"
| "newest (r # rs) =
     (case newest rs of
        None \<Rightarrow> Some r
      | Some r' \<Rightarrow> if er_created_at r < er_created_at r' then Some r' else Some r)"

definition resume_workflow :: "workflow_tables \<Rightarrow> time \<Rightarrow> string \<Rightarrow> workflow option" where
  "resume_workflow db now agent_id =
     (case newest (filter (\<lambda>r. er_agent_id r = agent_id \<and> er_status r = ''running'')
             (workflow_executions db)) of
        None \<Rightarrow> None
      | Some r \<Rightarrow> get_workflow db now (er_id r))"

abbreviation coalesce :: "'a option \<Rightarrow> 'a option \<Rightarrow> 'a option" where
  "coalesce a b \<equiv> (case a of Some x \<Rightarrow> Some x | None \<Rightarrow> b)"

definition update_step_row ::
  "externals \<Rightarrow> step_status \<Rightarrow> nat \<Rightarrow> json option \<Rightarrow> string option \<Rightarrow> time \<Rightarrow> step_row \<Rightarrow> step_row" where
  "update_step_row ext status attempt output err now r =
     r\<lparr>sr_status := step_status_to_str status,
       sr_attempt := to_i32 attempt,
       sr_output_data := coalesce output (sr_output_data r),
       sr_error := coalesce err (sr_error r),
       sr_retry_at := map_option (db_time ext) (retry_time_of status),
       sr_completed_at :=
         coalesce (if is_terminal status then Some (db_time ext now) else None) (sr_completed_at r),
       sr_started_at :=
         coalesce (if status = Running then Some (db_time ext now) else None) (sr_started_at r),
       sr_updated_at := db_time ext now\<rparr>"

definition update_step_status ::
  "externals \<Rightarrow> workflow_tables \<Rightarrow> string \<Rightarrow> step_status \<Rightarrow> nat \<Rightarrow> json option \<Rightarrow> string option \<Rightarrow> time
     \<Rightarrow> workflow_tables" where
  "update_step_status ext db step_id status attempt output err now =
     db\<lparr>workflow_steps :=
        map (\<lambda>r. if sr_id r = step_id then update_step_row ext status attempt output err now r else r)
          (workflow_steps db)\<rparr>"

definition get_step_output :: "workflow_tables \<Rightarrow> string \<Rightarrow> json option" where
  "get_step_output db step_id =
     (case find (\<lambda>r. sr_id r = step_id) (workflow_steps db) of
        None \<Rightarrow> None
      | Some r \<Rightarrow> sr_output_data r)"

definition update_workflow_status ::
  "externals \<Rightarrow> workflow_tables \<Rightarrow> string \<Rightarrow> workflow_status \<Rightarrow> time \<Rightarrow> workflow_tables" where
  "update_workflow_status ext db workflow_id status now =
     db\<lparr>workflow_executions :=
        map (\<lambda>r. if er_id r = workflow_id
                 then r\<lparr>er_status := workflow_status_str status, er_updated_at := db_time ext now\<rparr>
                 else r) (workflow_executions db)\<rparr>"

definition update_dependencies ::
  "externals \<Rightarrow> string \<Rightarrow> time \<Rightarrow> string \<times> string list \<Rightarrow> workflow_tables \<Rightarrow> workflow_tables" where
  "update_dependencies ext workflow_id now upd db =
     db\<lparr>workflow_steps :=
        map (\<lambda>r. if sr_id r = fst upd \<and> sr_workflow_id r = workflow_id
                 then r\<lparr>sr_depends_on := snd upd, sr_updated_at := db_time ext now\<rparr> else r)
          (workflow_steps db)\<rparr>"

definition save_expanded_nodes ::
  "externals \<Rightarrow> workflow_tables \<Rightarrow> string \<Rightarrow> step_node list \<Rightarrow> (string \<times> string list) list \<Rightarrow> time
     \<Rightarrow> (db_error, workflow_tables) result" where
  "save_expanded_nodes ext db workflow_id new_steps updated_dependencies now =
     (case insert_steps (map (step_node_row ext workflow_id now now) new_steps) db of
        Inl e \<Rightarrow> Inl e
      | Inr db' \<Rightarrow> Inr (fold (update_dependencies ext workflow_id now) updated_dependencies db'))"

section \<open>The constraints of the schema\<close>

definition tables_ok :: "workflow_tables \<Rightarrow> bool" where
  "tables_ok db \<longleftrightarrow> distinct (map er_id (workflow_executions db)) \<and> distinct (map sr_id (workflow_steps db))
     \<and> sr_workflow_id ` set (workflow_steps db) \<subseteq> er_id ` set (workflow_executions db)"

lemma insert_steps_Inr:
  "insert_steps rs db = Inr db' \<Longrightarrow> db' = db\<lparr>workflow_steps := workflow_steps db @ rs\<rparr>
     \<and> distinct (map sr_id rs) \<and> sr_id ` set rs \<inter> sr_id ` set (workflow_steps db) = {}
     \<and> sr_workflow_id ` set rs \<subseteq> er_id ` set (workflow_executions db)"
proof (induction rs arbitrary: db)
  case (Cons r rs)
  then obtain db1 where db1: "insert_step r db = Inr db1" "insert_steps rs db1 = Inr db'"
    by (auto split: sum.splits)
  with Cons.IH [OF db1(2)] show ?case
    by (auto simp: insert_step_def split: if_splits)
qed simp

lemma insert_steps_duplicate:
  "x \<in> set rs \<Longrightarrow> sr_id x \<in> sr_id ` set (workflow_steps db) \<Longrightarrow> \<exists>e. insert_steps rs db = Inl e"
  using insert_steps_Inr [of rs db] by (cases "insert_steps rs db") auto

lemma tables_ok_insert_steps:
  "tables_ok db \<Longrightarrow> insert_steps rs db = Inr db' \<Longrightarrow> tables_ok db'"
  using insert_steps_Inr [of rs db db'] by (auto simp: tables_ok_def)

lemma update_step_row_keys [simp]:
  "sr_id (update_step_row ext st a out err now r) = sr_id r"
  "sr_workflow_id (update_step_row ext st a out err now r) = sr_workflow_id r"
  "sr_step_index (update_step_row ext st a out err now r) = sr_step_index r"
  by (simp_all add: update_step_row_def)

lemma tables_ok_cong:
  assumes "map er_id (workflow_executions db) = map er_id (workflow_executions db')"
    and "map sr_id (workflow_steps db) = map sr_id (workflow_steps db')"
    and "map sr_workflow_id (workflow_steps db) = map sr_workflow_id (workflow_steps db')"
  shows "tables_ok db \<longleftrightarrow> tables_ok db'"
  unfolding tables_ok_def using assms by (metis set_map)

lemma tables_ok_update_step_status [simp]:
  "tables_ok (update_step_status ext db sid st a out err now) = tables_ok db"
  by (rule tables_ok_cong) (auto simp: update_step_status_def)

lemma tables_ok_update_workflow_status [simp]:
  "tables_ok (update_workflow_status ext db wid st now) = tables_ok db"
  by (rule tables_ok_cong) (auto simp: update_workflow_status_def)

lemma tables_ok_update_dependencies [simp]:
  "tables_ok (update_dependencies ext wid now upd db) = tables_ok db"
  by (rule tables_ok_cong) (auto simp: update_dependencies_def)

lemma tables_ok_fold_dependencies:
  "tables_ok db \<Longrightarrow> tables_ok (fold (update_dependencies ext wid now) upds db)"
  by (induction upds arbitrary: db) auto

section \<open>Reading back what was written\<close>

lemma i32_small: "n < 2 ^ 31 \<Longrightarrow> to_i32 n = int n"
  by (simp add: to_i32_def)

lemma i32_roundtrip:
  assumes "n < 2 ^ 31"
  shows "i32_to_u32 (to_i32 n) = n" "i32_to_u64 (to_i32 n) = n"
  using assms by (simp_all add: i32_small i32_to_u32_def i32_to_u64_def)

lemma schema_mode_roundtrip [simp]: "parse_schema_mode (schema_mode_str m) = m"
  by (cases m) (simp_all add: parse_schema_mode_def)

lemma workflow_status_roundtrip [simp]: "parse_workflow_status (workflow_status_str st) = st"
  by (cases st) (simp_all add: parse_workflow_status_def)

text \<open>What the columns of a step can represent of its status.\<close>

fun storable_status :: "nat \<Rightarrow> step_status \<Rightarrow> bool" where
  "storable_status attempt (Retrying a t) = (a = attempt \<and> attempt < 2 ^ 31)"
| "storable_status attempt (AwaitingInput qs) = (qs = [])"
| "storable_status attempt (AwaitingChildren cs) = (cs = [])"
| "storable_status attempt _ = True"

text \<open>A status with its retry time in the resolution of the store.\<close>

fun rounded_status :: "(time \<Rightarrow> time) \<Rightarrow> step_status \<Rightarrow> step_status" where
  "rounded_status rd (Retrying a t) = Retrying a (rd t)"
| "rounded_status rd st = st"

lemma parse_status_stored:
  "storable_status attempt st \<Longrightarrow>
     parse_step_status (step_status_to_str st) (map_option rd (retry_time_of st))
       (to_i32 attempt) now = rounded_status rd st"
  by (cases st) (simp_all add: parse_step_status_def i32_roundtrip)

text \<open>A node as the constructor makes it: pending, nothing recorded, numbers within 31 bits, and
  no retry patterns.\<close>

definition fresh_node :: "step_node \<Rightarrow> bool" where
  "fresh_node n \<longleftrightarrow> node_status n = Pending \<and> node_attempt n < 2 ^ 31 \<and> node_index n < 2 ^ 31
     \<and> max_attempts (node_retry_policy n) < 2 ^ 31 \<and> backoff_secs (node_retry_policy n) < 2 ^ 31
     \<and> retry_on (node_retry_policy n) = [] \<and> node_output_data n = None \<and> node_started_at n = None
     \<and> node_completed_at n = None \<and> node_error n = None"

lemma row_roundtrip: "fresh_node n \<Longrightarrow> row_to_step_node now (step_node_row ext wid c u n) = n"
  by (simp add: fresh_node_def row_to_step_node_def step_node_row_def i32_roundtrip
      parse_step_status_def)

lemma sort_key_map_keep:
  assumes "\<And>x. k (h x) = k x"
  shows "sort_key k (map h xs) = map h (sort_key k xs)"
proof -
  have "insort_key k (h x) (map h ys) = map h (insort_key k x ys)" for x ys
    by (induction ys) (simp_all add: assms)
  then show ?thesis by (induction xs) simp_all
qed

lemma find_last_new: "key r \<notin> key ` set xs \<Longrightarrow> find (\<lambda>x. key x = key r) (xs @ [r]) = Some r"
  by (induction xs) auto

lemma create_then_load:
  assumes "tables_ok db" and "create_workflow ext db w = Inr db'"
    and "\<forall>n\<in>set (wf_nodes w). fresh_node n" and "sorted (map node_index (wf_nodes w))"
    and "db_time ext (wf_created_at w) = wf_created_at w"
    and "db_time ext (wf_updated_at w) = wf_updated_at w"
  shows "get_workflow db' now (wf_id w) = Some w \<and> tables_ok db'"
proof -
  let ?r = "\<lparr>er_id = wf_id w, er_agent_id = wf_agent_id w, er_tenant_id = wf_tenant_id w,
    er_goal = wf_goal w, er_status = workflow_status_str (wf_status w),
    er_created_at = wf_created_at w, er_updated_at = wf_updated_at w\<rparr>"
  let ?rows = "map (step_node_row ext (wf_id w) (wf_created_at w) (wf_updated_at w)) (wf_nodes w)"
  have new: "wf_id w \<notin> er_id ` set (workflow_executions db)"
    and ins: "insert_steps ?rows (db\<lparr>workflow_executions := workflow_executions db @ [?r]\<rparr>) = Inr db'"
    using assms(2,5,6) by (auto simp: create_workflow_def insert_execution_def split: if_splits)
  have db': "workflow_executions db' = workflow_executions db @ [?r]"
      "workflow_steps db' = workflow_steps db @ ?rows"
    using insert_steps_Inr [OF ins] by simp_all
  have "find (\<lambda>r. er_id r = wf_id w) (workflow_executions db') = Some ?r"
    using find_last_new [of er_id ?r "workflow_executions db"] new db'(1) by simp
  moreover have "filter (\<lambda>s. sr_workflow_id s = wf_id w) (workflow_steps db') = ?rows"
  proof -
    have "filter (\<lambda>s. sr_workflow_id s = wf_id w) (workflow_steps db) = []"
      using new assms(1) unfolding tables_ok_def filter_empty_conv image_subset_iff by metis
    moreover have "filter (\<lambda>s. sr_workflow_id s = wf_id w) ?rows = ?rows"
      by (rule filter_True) (simp add: step_node_row_def)
    ultimately show ?thesis using db'(2) by simp
  qed
  moreover have "sort_key sr_step_index ?rows = ?rows"
    using assms(3,4)
    by (intro sort_key_id_if_sorted)
      (auto simp: step_node_row_def comp_def sorted_map fresh_node_def i32_small sorted_wrt_map
        elim!: sorted_wrt_mono_rel [rotated])
  moreover have "map (row_to_step_node now) ?rows = wf_nodes w"
    using assms(3) by (simp add: row_roundtrip map_idI)
  moreover have "tables_ok (db\<lparr>workflow_executions := workflow_executions db @ [?r]\<rparr>)"
    using assms(1) new by (auto simp: tables_ok_def)
  ultimately show ?thesis
    using tables_ok_insert_steps [OF _ ins] by (simp add: get_workflow_def)
qed

text \<open>A workflow reads back as it was written.  A workflow of fresh nodes in the order of their
  indices, once created, loads as itself.\<close>

theorem store_roundtrip:
  assumes "tables_ok db" and "create_workflow ext db w = Inr db'"
    and "\<forall>n\<in>set (wf_nodes w). fresh_node n" and "sorted (map node_index (wf_nodes w))"
    and "db_time ext (wf_created_at w) = wf_created_at w"
    and "db_time ext (wf_updated_at w) = wf_updated_at w"
  shows "get_workflow db' now (wf_id w) = Some w \<and> tables_ok db'"
  using create_then_load [OF assms] .

section \<open>The interface of a store\<close>

text \<open>What saving a status does to the node.\<close>

definition persisted ::
  "step_status \<Rightarrow> nat \<Rightarrow> json option \<Rightarrow> string option \<Rightarrow> time \<Rightarrow> step_node \<Rightarrow> step_node" where
  "persisted status attempt output err now n =
     n\<lparr>node_status := status,
       node_attempt := attempt,
       node_output_data := coalesce output (node_output_data n),
       node_error := coalesce err (node_error n),
       node_completed_at := coalesce (if is_terminal status then Some now else None) (node_completed_at n),
       node_started_at := coalesce (if status = Running then Some now else None) (node_started_at n)\<rparr>"

lemma failed_persisted:
  "(\<lambda>n. n\<lparr>node_attempt := a, node_status := Failed, node_error := Some msg,
        node_completed_at := Some now\<rparr>) = persisted Failed a None (Some msg) now"
  by (rule ext, rule step_node.equality) (simp_all add: persisted_def)

lemma retrying_persisted:
  "(\<lambda>n. n\<lparr>node_attempt := a, node_status := Retrying b t, node_error := Some msg\<rparr>)
    = persisted (Retrying b t) a None (Some msg) now"
  by (rule ext, rule step_node.equality) (simp_all add: persisted_def)

lemma handle_failure_persisted:
  "handle_failure ext w sid msg now = Inr (st, w') \<Longrightarrow>
     \<exists>a. w' = set_step sid (persisted st a None (Some msg) now) now w"
  by (auto simp: handle_failure_def failed_persisted retrying_persisted [of _ _ _ _ now]
      split: option.splits if_splits)

text \<open>What saving makes of the instants of a step: the start of a running step and the end of a finished one
  are the save's own reading of the clock.\<close>

definition stamped :: "(time \<Rightarrow> time) \<Rightarrow> step_status \<Rightarrow> time \<Rightarrow> step_node \<Rightarrow> step_node" where
  "stamped rd st saved n = n\<lparr>node_status := rounded_status rd st,
     node_started_at := (if st = Running then Some (rd saved) else node_started_at n),
     node_completed_at := (if is_terminal st then Some (rd saved) else node_completed_at n)\<rparr>"

text \<open>The workflow \<open>w'\<close> that a transition of step \<open>sid\<close> made from \<open>w\<close>, as it is loaded after the save.\<close>

definition as_stored ::
  "(time \<Rightarrow> time) \<Rightarrow> workflow \<Rightarrow> string \<Rightarrow> step_status \<Rightarrow> time \<Rightarrow> workflow \<Rightarrow> workflow" where
  "as_stored rd w sid st saved w' =
     w'\<lparr>wf_nodes := update_first (\<lambda>n. node_id n = sid) (stamped rd st saved) (wf_nodes w'),
        wf_updated_at := wf_updated_at w\<rparr>"

lemma update_first_twice:
  "(\<And>n. P n \<Longrightarrow> P (f n)) \<Longrightarrow> update_first P g (update_first P f ns) = update_first P (\<lambda>n. g (f n)) ns"
  by (induction ns) simp_all

text \<open>The contract of a workflow store: saving a status that the store can represent changes
  exactly that step of the workflow that is loaded afterwards, with instants in the store's resolution.\<close>

locale workflow_store =
  fixes load :: "'db \<Rightarrow> string \<Rightarrow> workflow option"
    and save_step :: "'db \<Rightarrow> string \<Rightarrow> step_status \<Rightarrow> nat \<Rightarrow> json option \<Rightarrow> string option \<Rightarrow> time \<Rightarrow> 'db"
    and consistent :: "'db \<Rightarrow> bool"
    and representable :: "nat \<Rightarrow> step_status \<Rightarrow> bool"
    and resolution :: "time \<Rightarrow> time"
  assumes load_ids: "consistent db \<Longrightarrow> load db wid = Some w \<Longrightarrow> ids_distinct w"
    and consistent_save: "consistent db \<Longrightarrow> consistent (save_step db sid st a out err now)"
    and load_save: "consistent db \<Longrightarrow> load db wid = Some w \<Longrightarrow> representable a st \<Longrightarrow>
      load (save_step db sid st a out err saved) wid
      = Some (w\<lparr>wf_nodes := update_first (\<lambda>n. node_id n = sid)
          (persisted (rounded_status resolution st) a out err (resolution saved)) (wf_nodes w)\<rparr>)"
begin

text \<open>A transition that updates the node as saving does, apart from the instants, is simulated by saving.\<close>

lemma save_simulates:
  assumes "consistent db" "load db wid = Some w" "representable a st" "get_step w sid = Some n"
    and "stamped resolution st saved (f n) = persisted (rounded_status resolution st) a out err (resolution saved) n"
    and "\<And>n. node_id (f n) = node_id n"
  shows "load (save_step db sid st a out err saved) wid
       = Some (as_stored resolution w sid st saved (set_step sid f now w))"
proof -
  let ?p = "persisted (rounded_status resolution st) a out err (resolution saved)"
  have "update_first (\<lambda>n. node_id n = sid) ?p (wf_nodes w)
      = update_first (\<lambda>n. node_id n = sid) (\<lambda>n. stamped resolution st saved (f n)) (wf_nodes w)"
    using assms(4,5) by (intro update_first_cong_find) (auto simp: get_step_def)
  then have "update_first (\<lambda>n. node_id n = sid) ?p (wf_nodes w)
      = update_first (\<lambda>n. node_id n = sid) (stamped resolution st saved)
          (update_first (\<lambda>n. node_id n = sid) f (wf_nodes w))"
    using assms(6) by (simp add: update_first_twice)
  with load_save [OF assms(1-3)] show ?thesis by (simp add: set_step_def as_stored_def)
qed

lemma run_simulated:
  assumes "consistent db" "load db wid = Some w" "get_step w sid = Some n"
    and "mark_running w sid now = Inr w'" "representable (node_attempt n) Running"
  shows "load (save_step db sid Running (node_attempt n) None None saved) wid
       = Some (as_stored resolution w sid Running saved w')"
proof -
  have w': "w' = set_step sid (\<lambda>n. n\<lparr>node_status := Running, node_started_at := Some now\<rparr>) now w"
    using assms(3,4) by (simp add: mark_running_def split: if_splits)
  show ?thesis unfolding w'
    by (rule save_simulates [OF assms(1,2,5,3)]) (simp_all add: stamped_def persisted_def)
qed

lemma success_simulated:
  assumes "consistent db" "load db wid = Some w" "get_step w sid = Some n"
    and "mark_succeeded w sid out now = Inr w'" "representable (node_attempt n) Succeeded"
  shows "load (save_step db sid Succeeded (node_attempt n) (Some out) None saved) wid
       = Some (as_stored resolution w sid Succeeded saved w')"
proof -
  have w': "w' = set_step sid (\<lambda>n. n\<lparr>node_status := Succeeded, node_output_data := Some out, node_completed_at := Some now\<rparr>) now w"
    using assms(3,4) by (simp add: mark_succeeded_def split: if_splits)
  show ?thesis unfolding w'
    by (rule save_simulates [OF assms(1,2,5,3)]) (simp_all add: stamped_def persisted_def)
qed

lemma skip_simulated:
  assumes "consistent db" "load db wid = Some w" "get_step w sid = Some n"
    and "mark_skipped w sid now = Inr w'" "representable (node_attempt n) Skipped"
  shows "load (save_step db sid Skipped (node_attempt n) None None saved) wid
       = Some (as_stored resolution w sid Skipped saved w')"
proof -
  have w': "w' = set_step sid (\<lambda>n. n\<lparr>node_status := Skipped, node_completed_at := Some now\<rparr>) now w"
    using assms(3,4) by (simp add: mark_skipped_def split: if_splits)
  show ?thesis unfolding w'
    by (rule save_simulates [OF assms(1,2,5,3)]) (simp_all add: stamped_def persisted_def)
qed

lemma failure_simulated:
  assumes "consistent db" "load db wid = Some w" "get_step w sid = Some n"
    and "handle_failure ext w sid msg now = Inr (st, w')" "get_step w' sid = Some n'"
    and "representable (node_attempt n') st"
  shows "load (save_step db sid st (node_attempt n') None (Some msg) saved) wid
       = Some (as_stored resolution w sid st saved w')"
proof -
  from handle_failure_persisted [OF assms(4)] obtain a
    where w': "w' = set_step sid (persisted st a None (Some msg) now) now w" by blast
  then have "get_step w' sid = Some (persisted st a None (Some msg) now n)"
    using assms(3) by (simp add: get_step_def set_step_def find_update_first_same persisted_def)
  with assms(5) have a: "node_attempt n' = a" by (auto simp: persisted_def)
  have st: "st \<noteq> Running" using assms(4) by (auto simp: handle_failure_def split: option.splits if_splits)
  have "is_terminal (rounded_status resolution st) = is_terminal st" "rounded_status resolution st \<noteq> Running"
    using st by (cases st; simp)+
  with st have "stamped resolution st saved (persisted st a None (Some msg) now n)
      = persisted (rounded_status resolution st) (node_attempt n') None (Some msg) (resolution saved) n"
    by (simp add: stamped_def persisted_def a)
  then show ?thesis unfolding w'
    by (rule save_simulates [OF assms(1,2,6,3)]) (simp add: persisted_def)
qed

end

section \<open>The Postgres store keeps the contract\<close>

lemma row_update:
  assumes "storable_status a st" "a < 2 ^ 31"
  shows "row_to_step_node t (update_step_row ext st a out err saved r)
       = persisted (rounded_status (db_time ext) st) a out err (db_time ext saved) (row_to_step_node t r)"
proof -
  have "is_terminal (rounded_status (db_time ext) st) = is_terminal st"
    "rounded_status (db_time ext) st = Running \<longleftrightarrow> st = Running" by (cases st; simp)+
  then show ?thesis
    by (intro step_node.equality)
      (use assms in \<open>simp_all add: row_to_step_node_def update_step_row_def persisted_def
         parse_status_stored i32_roundtrip split: option.split\<close>)
qed

lemma get_workflow_ids:
  "tables_ok db \<Longrightarrow> get_workflow db t wid = Some w \<Longrightarrow> ids_distinct w"
proof -
  assume ok: "tables_ok db" and w: "get_workflow db t wid = Some w"
  let ?rows = "sort_key sr_step_index (filter (\<lambda>s. sr_workflow_id s = wid) (workflow_steps db))"
  have "wf_nodes w = map (row_to_step_node t) ?rows"
    using w by (auto simp: get_workflow_def split: option.splits)
  then have "map node_id (wf_nodes w) = map sr_id ?rows"
    by (simp add: row_to_step_node_def comp_def)
  moreover have "distinct (map sr_id ?rows)"
    using ok by (auto simp: tables_ok_def distinct_map intro: inj_on_subset)
  ultimately show ?thesis by (simp add: ids_distinct_def)
qed

lemma get_workflow_update:
  assumes "tables_ok db" "get_workflow db t wid = Some w"
    and "storable_status a st" "a < 2 ^ 31"
  shows "get_workflow (update_step_status ext db sid st a out err saved) t wid
    = Some (w\<lparr>wf_nodes := update_first (\<lambda>n. node_id n = sid)
        (persisted (rounded_status (db_time ext) st) a out err (db_time ext saved)) (wf_nodes w)\<rparr>)"
proof -
  let ?f = "\<lambda>r. if sr_id r = sid then update_step_row ext st a out err saved r else r"
  let ?p = "persisted (rounded_status (db_time ext) st) a out err (db_time ext saved)"
  let ?rows = "filter (\<lambda>s. sr_workflow_id s = wid) (workflow_steps db)"
  have rows: "filter (\<lambda>s. sr_workflow_id s = wid) (map ?f (workflow_steps db)) = map ?f ?rows"
    by (induction "workflow_steps db") (simp_all add: filter_map comp_def if_distrib cong: if_cong)
  have "map (row_to_step_node t) (map ?f (sort_key sr_step_index ?rows))
      = map (\<lambda>n. if node_id n = sid then ?p n else n)
          (map (row_to_step_node t) (sort_key sr_step_index ?rows))"
    using row_update [OF assms(3,4)] by (auto simp: row_to_step_node_def)
  moreover have "distinct (map node_id (wf_nodes w))"
    using get_workflow_ids [OF assms(1,2)] by (simp add: ids_distinct_def)
  ultimately show ?thesis
    using assms(2) rows sort_key_map_keep [of sr_step_index ?f ?rows]
    by (auto simp: get_workflow_def update_step_status_def update_first_distinct split: option.splits)
qed

text \<open>The contract holds at every reading \<open>t\<close> of the clock at which a workflow is loaded.\<close>

interpretation pg: workflow_store "\<lambda>db. get_workflow db t" "update_step_status ext" tables_ok
  "\<lambda>a st. storable_status a st \<and> a < 2 ^ 31" "db_time ext" for t ext
  by unfold_locales (auto intro: get_workflow_ids get_workflow_update)

text \<open>C15: The store implements the state machine.  When a transition of a step succeeds at the instant
  \<open>now\<close> on the loaded workflow and its result is saved as the engine does, at a later reading
  \<open>saved\<close> of the clock, the workflow that is loaded afterwards is the one the transition computed,
  with three exceptions: a retry time is in the resolution of the database, the start of a running step
  and the end of a finished one are the instant of the save in that resolution, and the time of update of the
  workflow is the old one.  Attempts must be below \<open>2 ^ 31\<close>.\<close>

theorem store_refines_machine:
  assumes "tables_ok db" and "get_workflow db t wid = Some w" and "get_step w sid = Some n"
    and "node_attempt n < 2 ^ 31"
  shows "(mark_running w sid now = Inr w1 \<longrightarrow>
      get_workflow (update_step_status ext db sid Running (node_attempt n) None None saved) t wid
        = Some (as_stored (db_time ext) w sid Running saved w1))
    \<and> (mark_succeeded w sid out now = Inr w2 \<longrightarrow>
      get_workflow (update_step_status ext db sid Succeeded (node_attempt n) (Some out) None saved) t wid
        = Some (as_stored (db_time ext) w sid Succeeded saved w2))
    \<and> (mark_skipped w sid now = Inr w3 \<longrightarrow>
      get_workflow (update_step_status ext db sid Skipped (node_attempt n) None None saved) t wid
        = Some (as_stored (db_time ext) w sid Skipped saved w3))
    \<and> (handle_failure ext w sid msg now = Inr (st, w4) \<longrightarrow> get_step w4 sid = Some n' \<longrightarrow>
        node_attempt n' < 2 ^ 31 \<longrightarrow>
      get_workflow (update_step_status ext db sid st (node_attempt n') None (Some msg) saved) t wid
        = Some (as_stored (db_time ext) w sid st saved w4))"
proof -
  have st: "storable_status (node_attempt n') st"
    if "handle_failure ext w sid msg now = Inr (st, w4)" "get_step w4 sid = Some n'" "node_attempt n' < 2 ^ 31"
    using that assms(3)
    by (auto simp: handle_failure_def get_step_def set_step_def find_update_first_same
        split: option.splits if_splits)
  show ?thesis
    using pg.run_simulated [OF assms(1-3), where now = now and saved = saved]
      pg.success_simulated [OF assms(1-3), where now = now and saved = saved]
      pg.skip_simulated [OF assms(1-3), where now = now and saved = saved]
      pg.failure_simulated [OF assms(1-3), where now = now and saved = saved] assms(4) st
    by simp
qed

section \<open>Two gaps of the schema\<close>

text \<open>Step ids are a global key.  Once any workflow made from a plan with a first step is
  stored, no further workflow with a first step can be created: its insertion is rejected.\<close>

theorem second_workflow_rejected:
  assumes "create_workflow ext db (from_plan u p agent tenant now) = Inr db1"
    and "s \<in> set (plan_steps p)" and "s' \<in> set (plan_steps p')" and "ps_index s' = ps_index s"
  shows "\<exists>e. create_workflow ext db1 (from_plan u' p' agent' tenant' now') = Inl e"
proof -
  let ?row = "\<lambda>u now x. step_node_row ext (''wf-'' @ u) now now (node_of_planned x)"
  obtain db0 where "insert_steps (map (?row u now) (plan_steps p)) db0 = Inr db1"
    using assms(1) by (auto simp: create_workflow_def from_plan_def comp_def split: sum.splits)
  then have "sr_id (?row u now s) \<in> sr_id ` set (workflow_steps db1)"
    using insert_steps_Inr assms(2) by fastforce
  then have taken: "sr_id (?row u' now' s') \<in> sr_id ` set (workflow_steps db1)"
    using assms(4) by (simp add: step_node_row_def node_of_planned_def)
  have "\<exists>e. insert_steps (map (?row u' now') (plan_steps p')) db2 = Inl e"
    if "workflow_steps db2 = workflow_steps db1" for db2
    using insert_steps_duplicate [of "?row u' now' s'" _ db2] taken that assms(3) by simp
  then show ?thesis
    by (auto simp: create_workflow_def from_plan_def comp_def insert_execution_def)
qed

lemma update_dependencies_rows:
  "map (\<lambda>r. (sr_id r, sr_workflow_id r, sr_status r, sr_step_kind r))
     (workflow_steps (fold (update_dependencies ext wid now) upds db))
   = map (\<lambda>r. (sr_id r, sr_workflow_id r, sr_status r, sr_step_kind r)) (workflow_steps db)"
proof (induction upds arbitrary: db)
  case (Cons u upds)
  have "map (\<lambda>r. (sr_id r, sr_workflow_id r, sr_status r, sr_step_kind r))
      (workflow_steps (update_dependencies ext wid now u db))
    = map (\<lambda>r. (sr_id r, sr_workflow_id r, sr_status r, sr_step_kind r)) (workflow_steps db)"
    by (auto simp: update_dependencies_def)
  with Cons show ?case by simp
qed simp

text \<open>Saving an expansion does not save that the template is done.  The row of every existing
  step keeps its status, so that a pending template is loaded as pending again, and the ids of
  the new nodes are taken, so that saving its second expansion is rejected.\<close>

theorem expansion_saved_twice_fails:
  assumes "save_expanded_nodes ext db wid new upd now = Inr db'"
  shows "(\<forall>r\<in>set (workflow_steps db). \<exists>r'\<in>set (workflow_steps db').
        sr_id r' = sr_id r \<and> sr_status r' = sr_status r \<and> sr_step_kind r' = sr_step_kind r)
    \<and> (\<forall>n\<in>set new. \<forall>new'. node_id n \<in> node_id ` set new' \<longrightarrow>
        (\<exists>e. save_expanded_nodes ext db' wid new' upd' now' = Inl e))"
proof -
  let ?rows = "map (step_node_row ext wid now now) new"
  let ?key = "\<lambda>r. (sr_id r, sr_workflow_id r, sr_status r, sr_step_kind r)"
  obtain db1 where ins: "insert_steps ?rows db = Inr db1"
      and db': "db' = fold (update_dependencies ext wid now) upd db1"
    using assms by (auto simp: save_expanded_nodes_def split: sum.splits)
  have "map ?key (workflow_steps db') = map ?key (workflow_steps db @ ?rows)"
    using insert_steps_Inr [OF ins] update_dependencies_rows [of ext wid now upd db1] db' by simp
  from arg_cong [OF this, of set]
  have keys: "?key ` set (workflow_steps db') = ?key ` set (workflow_steps db @ ?rows)"
    by (simp only: set_map)
  have old: "\<exists>r'\<in>set (workflow_steps db'). sr_id r' = sr_id r \<and> sr_status r' = sr_status r
      \<and> sr_step_kind r' = sr_step_kind r" if "r \<in> set (workflow_steps db)" for r
  proof -
    have "?key r \<in> ?key ` set (workflow_steps db')" unfolding keys using that by simp
    then show ?thesis by auto
  qed
  have "\<exists>e. save_expanded_nodes ext db' wid new' upd' now' = Inl e"
    if n: "n \<in> set new" and "node_id n \<in> node_id ` set new'" for n new'
  proof -
    from that obtain m where m: "m \<in> set new'" "node_id m = node_id n" by auto
    have "?key (step_node_row ext wid now now n) \<in> ?key ` set (workflow_steps db')"
      unfolding keys using n by simp
    then have "sr_id (step_node_row ext wid now' now' m) \<in> sr_id ` set (workflow_steps db')"
      using m(2) by (auto simp: step_node_row_def image_iff)
    with m(1) show ?thesis
      using insert_steps_duplicate [of "step_node_row ext wid now' now' m"
          "map (step_node_row ext wid now' now') new'" db']
      by (auto simp: save_expanded_nodes_def)
  qed
  with old show ?thesis by blast
qed

section \<open>Concrete tables\<close>

definition empty_tables :: workflow_tables where
  "empty_tables = \<lparr>workflow_executions = [], workflow_steps = []\<rparr>"

definition sample_tables :: workflow_tables where
  "sample_tables = (case create_workflow sample_ext empty_tables sample_workflow of
     Inr db \<Rightarrow> db | Inl _ \<Rightarrow> empty_tables)"

lemma sample_created: "create_workflow sample_ext empty_tables sample_workflow = Inr sample_tables"
  by (simp add: sample_tables_def create_workflow_def empty_tables_def insert_execution_def
      insert_step_def step_node_row_def sample_defs)

lemma empty_ok: "tables_ok empty_tables"
  by (simp add: tables_ok_def empty_tables_def)

theorem store_roundtrip_witness:
  "get_workflow sample_tables 5 (wf_id sample_workflow) = Some sample_workflow \<and> tables_ok sample_tables"
  by (rule store_roundtrip [OF empty_ok sample_created])
    (simp_all add: fresh_node_def sample_defs sample_ext_def)

lemma sample_loaded:
  "get_workflow sample_tables 5 (wf_id sample_workflow) = Some sample_workflow \<and> tables_ok sample_tables"
  by (rule create_then_load [OF empty_ok sample_created])
    (simp_all add: fresh_node_def sample_defs sample_ext_def)

theorem store_refines_machine_witness:
  "get_workflow (update_step_status sample_ext sample_tables (step_name 0) Skipped 0 None None 2500) 5
     (wf_id sample_workflow)
   = Some ((set_step (step_name 0) (\<lambda>n. n\<lparr>node_status := Skipped, node_completed_at := Some 2000\<rparr>) 1234
       sample_workflow)\<lparr>wf_updated_at := wf_updated_at sample_workflow\<rparr>)"
proof -
  let ?w = "set_step (step_name 0) (\<lambda>n. n\<lparr>node_status := Skipped, node_completed_at := Some 1234\<rparr>) 1234 sample_workflow"
  have n: "get_step sample_workflow (step_name 0) = Some (node_of_planned (sample_planned 0))"
    by (simp add: get_step_def sample_defs)
  have "mark_skipped sample_workflow (step_name 0) 1234 = Inr ?w"
    by (simp add: mark_skipped_def n node_of_planned_def)
  with store_refines_machine [of sample_tables 5 "wf_id sample_workflow" sample_workflow "step_name 0"
      "node_of_planned (sample_planned 0)" 1234 _ sample_ext 2500] sample_loaded n
  have "get_workflow (update_step_status sample_ext sample_tables (step_name 0) Skipped 0 None None 2500) 5
     (wf_id sample_workflow) = Some (as_stored (db_time sample_ext) sample_workflow (step_name 0) Skipped 2500 ?w)"
    by (simp add: node_of_planned_def)
  moreover have "as_stored (db_time sample_ext) sample_workflow (step_name 0) Skipped 2500 ?w
    = (set_step (step_name 0) (\<lambda>n. n\<lparr>node_status := Skipped, node_completed_at := Some 2000\<rparr>) 1234
       sample_workflow)\<lparr>wf_updated_at := wf_updated_at sample_workflow\<rparr>"
    by (simp add: as_stored_def set_step_def stamped_def update_first_twice sample_ext_def)
  ultimately show ?thesis by simp
qed

theorem second_workflow_rejected_witness:
  "\<exists>e. create_workflow sample_ext sample_tables (from_plan ''v'' sample_plan ''b'' ''t'' 0) = Inl e"
  by (rule second_workflow_rejected [OF sample_created [unfolded sample_workflow_def],
        of "sample_planned 0" "sample_planned 0"])
    (simp_all add: sample_plan_def)

definition sample_join :: step_node where
  "sample_join = (node_of_planned (sample_planned 0))\<lparr>node_id := ''j''\<rparr>"

theorem expansion_saved_twice_fails_witness:
  "\<exists>db'. save_expanded_nodes sample_ext sample_tables (wf_id sample_workflow) [sample_join] [] 0 = Inr db'
     \<and> (\<exists>e. save_expanded_nodes sample_ext db' (wf_id sample_workflow) [sample_join] [] 0 = Inl e)"
proof -
  have "sr_id ` set (workflow_steps sample_tables) = {step_name 0, step_name 1}"
      "er_id ` set (workflow_executions sample_tables) = {wf_id sample_workflow}"
    by (simp_all add: sample_tables_def create_workflow_def empty_tables_def insert_execution_def
        insert_step_def step_node_row_def sample_defs)
  then obtain db' where "save_expanded_nodes sample_ext sample_tables (wf_id sample_workflow)
      [sample_join] [] 0 = Inr db'"
    by (auto simp: save_expanded_nodes_def insert_step_def step_node_row_def sample_join_def step_name_def)
  with expansion_saved_twice_fails [OF this] show ?thesis by auto
qed

end
