(* ===== verification/Dag_Engine.thy ===== *)
theory Dag_Engine
  imports Dag_Conditions Dag_Store
begin

text \<open>
  The scheduler of \<open>agent/dag_engine.rs\<close>: one task per ready step, the application of the task
  results to the workflow and the store, a scheduling cycle and the loop around it.

  The executor behind a step (an agent that calls a language model and tools) is the argument
  \<open>en_exec\<close>: what it returns for a step and its context, whatever it is.  The tasks of a cycle
  run in list order; each of them reads outputs of finished steps and writes its own row only.
  The readings of the clock are arguments, one for each phase of a cycle.  Events, artifact
  files and log messages are left out.  \<open>None\<close> stands for a cycle that does not return (the
  rendering of a for-each template may loop).
\<close>

section \<open>Outcomes\<close>

record step_result =
  res_step_index :: nat
  res_success :: bool
  res_skipped :: bool
  res_output :: string
  res_final_answer_candidate :: "string option"
  res_tool_results :: "json list"
  res_tools_called :: "string list"
  res_items_processed :: nat
  res_connector_writes :: "string list"

text \<open>\<open>StepVerdict\<close> of the executor; \<open>VPanic\<close> is a task that panicked.\<close>

datatype step_verdict =
    VExecuted step_result
  | VSkipped
  | VDelegating step_result "string list"
  | VNeedsClarification step_result "string list"
  | VDeterministicAbort step_result string
  | VError string
  | VPanic

datatype dag_step_outcome =
    Executed step_result
  | SkippedOutcome
  | AwaitingChildrenOutcome step_result "string list"
  | AwaitingInputOutcome step_result "string list"
  | DeterministicAbort step_result string
  | ErrorOutcome string

datatype cycle_outcome =
    Continue
  | WaitUntil time
  | Complete
  | CycleFailed string
  | Deadlocked "string list"

text \<open>The reason of a failed workflow: a message, or the one made from the blocked step ids.\<close>

datatype failure_reason = Reason string | DeadlockReason "string list"

datatype workflow_outcome = WorkflowCompleted | WorkflowFailed failure_reason | WorkflowCancelled

record engine_env =
  en_ext :: externals
  en_exec :: "planned_step \<Rightarrow> json \<Rightarrow> (string \<times> json) list \<Rightarrow> step_verdict"
  en_schema_text :: "string \<times> string \<times> schema_error \<Rightarrow> string"
  en_panic_text :: string

record cycle_clock =
  ck_load :: time
  ck_expand :: time
  ck_query :: time
  ck_execute :: time
  ck_apply :: time

section \<open>The task of a step\<close>

definition predecessor_metadata :: "step_input \<Rightarrow> (string \<times> json) list" where
  "predecessor_metadata input =
     map (\<lambda>(dep_key, dep_value).
       (map (\<lambda>c. if c = CHR ''-'' then CHR ''_'' else c) dep_key @ ''_output'', dep_value))
       (si_predecessor_outputs input)"

fun outcome_of_verdict :: "engine_env \<Rightarrow> step_verdict \<Rightarrow> dag_step_outcome" where
  "outcome_of_verdict env (VExecuted r) = Executed r"
| "outcome_of_verdict env VSkipped = SkippedOutcome"
| "outcome_of_verdict env (VDelegating r child_ids) = AwaitingChildrenOutcome r child_ids"
| "outcome_of_verdict env (VNeedsClarification r questions) = AwaitingInputOutcome r questions"
| "outcome_of_verdict env (VDeterministicAbort r reason) = DeterministicAbort r reason"
| "outcome_of_verdict env (VError e) = ErrorOutcome e"
| "outcome_of_verdict env VPanic = ErrorOutcome (en_panic_text env)"

text \<open>The status that the task stores after the executor returned, where it stores one.\<close>

fun verdict_status :: "step_verdict \<Rightarrow> step_status option" where
  "verdict_status (VDelegating r child_ids) = Some (AwaitingChildren child_ids)"
| "verdict_status (VNeedsClarification r questions) = Some (AwaitingInput questions)"
| "verdict_status _ = None"

definition run_step_task ::
  "engine_env \<Rightarrow> time \<Rightarrow> workflow_tables \<Rightarrow> step_node
     \<Rightarrow> workflow_tables \<times> string \<times> dag_step_outcome" where
  "run_step_task env now db step =
     (case from_predecessors (\<lambda>dep. Inr (get_step_output db dep)) step of
        Inl e \<Rightarrow> (db, node_id step, ErrorOutcome e)
      | Inr input \<Rightarrow>
          if (case node_condition step of None \<Rightarrow> False | Some c \<Rightarrow> \<not> evaluate_condition c input) then
            (update_step_status (en_ext env) db (node_id step) Skipped (node_attempt step) None None now,
             node_id step, SkippedOutcome)
          else
            (let db1 = update_step_status (en_ext env) db (node_id step) Running (node_attempt step)
                         None None now
             in case validate_step_schema (en_ext env) step ''input'' (si_data input)
                       (node_input_schema step) of
                  Inl e \<Rightarrow> (db1, node_id step, ErrorOutcome (en_schema_text env e))
                | Inr _ \<Rightarrow>
                    (let verdict = en_exec env (to_planned_step step)
                           (build_dag_step_metadata step input) (predecessor_metadata input);
                         db2 = (case verdict_status verdict of
                                  None \<Rightarrow> db1
                                | Some st \<Rightarrow> update_step_status (en_ext env) db1 (node_id step) st
                                    (node_attempt step) None None now)
                     in (db2, (if verdict = VPanic then ''unknown'' else node_id step),
                         outcome_of_verdict env verdict))))"

fun execute_parallel ::
  "engine_env \<Rightarrow> time \<Rightarrow> workflow_tables \<Rightarrow> step_node list
     \<Rightarrow> workflow_tables \<times> (string \<times> dag_step_outcome) list" where
  "execute_parallel env now db [] = (db, [])"
| "execute_parallel env now db (step # steps) =
     (case run_step_task env now db step of
        (db1, result) \<Rightarrow>
          (case execute_parallel env now db1 steps of (db2, results) \<Rightarrow> (db2, result # results)))"

section \<open>Applying a result\<close>

definition opt_string :: "string option \<Rightarrow> json" where
  "opt_string s = (case s of None \<Rightarrow> JNull | Some t \<Rightarrow> JString t)"

definition output_value :: "step_result \<Rightarrow> json" where
  "output_value r = obj_of_list
     ([(''output'', JString (res_output r)),
       (''final_answer_candidate'', opt_string (res_final_answer_candidate r))]
      @ (if res_tool_results r = [] then [] else [(''tool_results'', JArray (res_tool_results r))]))"

definition apply_failure ::
  "engine_env \<Rightarrow> time \<Rightarrow> string \<Rightarrow> string \<Rightarrow> workflow_tables \<times> workflow
     \<Rightarrow> (workflow_tables \<times> workflow)" where
  "apply_failure env now step_id msg st =
     (case st of (db, w) \<Rightarrow>
        let w1 = mark_step_running_in_memory w step_id now
        in case handle_failure (en_ext env) w1 step_id msg now of
             Inl _ \<Rightarrow> (db, w1)
           | Inr (new_status, w2) \<Rightarrow>
               (case get_step w2 step_id of
                  None \<Rightarrow> (db, w2)
                | Some step \<Rightarrow>
                    (update_step_status (en_ext env) db step_id new_status (node_attempt step) None
                       (Some msg) now, w2)))"

definition apply_success ::
  "engine_env \<Rightarrow> time \<Rightarrow> string \<Rightarrow> step_result \<Rightarrow> workflow_tables \<times> workflow
     \<Rightarrow> (workflow_tables \<times> workflow)" where
  "apply_success env now step_id result st =
     (case st of (db, w) \<Rightarrow>
        let w1 = mark_step_running_in_memory w step_id now
        in case get_step w1 step_id of
             None \<Rightarrow> (db, w1)
           | Some step \<Rightarrow>
               (case validate_step_schema (en_ext env) step ''output'' (output_value result)
                       (node_output_schema step) of
                  Inl e \<Rightarrow> apply_failure env now step_id (en_schema_text env e) (db, w1)
                | Inr _ \<Rightarrow>
                    (update_step_status (en_ext env) db step_id Succeeded (node_attempt step)
                       (Some (output_value result)) None now,
                     (case mark_succeeded w1 step_id (output_value result) now of
                        Inr w2 \<Rightarrow> w2
                      | Inl _ \<Rightarrow> w1))))"

definition set_status_in_memory :: "string \<Rightarrow> step_status \<Rightarrow> workflow \<Rightarrow> workflow" where
  "set_status_in_memory step_id status w =
     w\<lparr>wf_nodes := update_first (\<lambda>n. node_id n = step_id) (\<lambda>n. n\<lparr>node_status := status\<rparr>) (wf_nodes w)\<rparr>"

fun apply_outcome ::
  "engine_env \<Rightarrow> time \<Rightarrow> string \<times> dag_step_outcome \<Rightarrow> workflow_tables \<times> workflow
     \<Rightarrow> (workflow_tables \<times> workflow)" where
  "apply_outcome env now (step_id, SkippedOutcome) (db, w) =
     (db, case mark_skipped w step_id now of Inr w' \<Rightarrow> w' | Inl _ \<Rightarrow> w)"
| "apply_outcome env now (step_id, Executed result) st =
     (if res_success result then apply_success env now step_id result st
      else apply_failure env now step_id (res_output result) st)"
| "apply_outcome env now (step_id, AwaitingChildrenOutcome _ child_ids) (db, w) =
     (db, set_status_in_memory step_id (AwaitingChildren child_ids) w)"
| "apply_outcome env now (step_id, AwaitingInputOutcome _ questions) (db, w) =
     (db, set_status_in_memory step_id (AwaitingInput questions) w)"
| "apply_outcome env now (step_id, DeterministicAbort _ reason) st =
     apply_failure env now step_id reason st"
| "apply_outcome env now (step_id, ErrorOutcome e) st = apply_failure env now step_id e st"

section \<open>A cycle\<close>

definition run_ready ::
  "engine_env \<Rightarrow> cycle_clock \<Rightarrow> workflow_tables \<Rightarrow> workflow \<Rightarrow> workflow_tables" where
  "run_ready env ck db w =
     (case execute_parallel env (ck_execute ck) db (ready_steps w (ck_query ck)) of
        (db1, results) \<Rightarrow> fst (fold (apply_outcome env (ck_apply ck)) results (db1, w)))"

definition schedule ::
  "engine_env \<Rightarrow> cycle_clock \<Rightarrow> workflow_tables \<Rightarrow> workflow \<Rightarrow> cycle_outcome \<times> workflow_tables" where
  "schedule env ck db w =
     (if is_complete w then (Complete, db)
      else case detect_deadlock w (ck_query ck) of
             Some blocked \<Rightarrow> (Deadlocked blocked, db)
           | None \<Rightarrow>
               if ready_steps w (ck_query ck) = [] then
                 (case next_retry_time w of
                    Some t \<Rightarrow> (WaitUntil t, db)
                  | None \<Rightarrow> (WaitUntil (ck_query ck + secs 2), db))
               else (Continue, run_ready env ck db w))"

definition run_cycle ::
  "engine_env \<Rightarrow> cycle_clock \<Rightarrow> string \<Rightarrow> workflow_tables
     \<Rightarrow> (db_error, cycle_outcome \<times> workflow_tables) result option" where
  "run_cycle env ck agent_id db =
     (case resume_workflow db (ck_load ck) agent_id of
        None \<Rightarrow> Some (Inr (CycleFailed (''no active workflow for agent '' @ agent_id), db))
      | Some workflow \<Rightarrow>
          (case expand_foreach_nodes (en_ext env) workflow (ck_expand ck) of
             None \<Rightarrow> None
           | Some (w, None) \<Rightarrow> Some (Inr (schedule env ck db w))
           | Some (w, Some (new_steps, updated_deps)) \<Rightarrow>
               (case save_expanded_nodes (en_ext env) db (wf_id w) new_steps updated_deps
                       (ck_expand ck) of
                  Inl e \<Rightarrow> Some (Inl e)
                | Inr db1 \<Rightarrow> Some (Inr (schedule env ck db1 w)))))"

section \<open>The loop\<close>

text \<open>What the loop meets in one iteration: cancellation before the cycle or during the sleep
  after it, the environment and the clock of the cycle, the time at which it ends.\<close>

record iteration =
  it_cancelled :: bool
  it_cancelled_asleep :: bool
  it_env :: engine_env
  it_clock :: cycle_clock
  it_end :: time

definition set_workflow_status ::
  "externals \<Rightarrow> string \<Rightarrow> workflow_status \<Rightarrow> time \<Rightarrow> workflow_tables \<Rightarrow> workflow_tables" where
  "set_workflow_status ext agent_id status now db =
     (case resume_workflow db now agent_id of
        None \<Rightarrow> db
      | Some w \<Rightarrow> update_workflow_status ext db (wf_id w) status now)"

text \<open>One iteration: the loop ends with an outcome, or goes on (\<open>None\<close>) with the store.\<close>

definition run_iteration ::
  "iteration \<Rightarrow> string \<Rightarrow> workflow_tables
     \<Rightarrow> (db_error, workflow_outcome option \<times> workflow_tables) result option" where
  "run_iteration it agent_id db =
     (let finish = (\<lambda>status db. set_workflow_status (en_ext (it_env it)) agent_id status (it_end it) db)
      in if it_cancelled it then Some (Inr (Some WorkflowCancelled, finish WfCancelled db))
         else case run_cycle (it_env it) (it_clock it) agent_id db of
                None \<Rightarrow> None
              | Some (Inl e) \<Rightarrow> Some (Inl e)
              | Some (Inr (Continue, db1)) \<Rightarrow> Some (Inr (None, db1))
              | Some (Inr (WaitUntil _, db1)) \<Rightarrow>
                  Some (Inr (if it_cancelled_asleep it then Some WorkflowCancelled else None, db1))
              | Some (Inr (Complete, db1)) \<Rightarrow>
                  Some (Inr (Some WorkflowCompleted, finish WfCompleted db1))
              | Some (Inr (CycleFailed reason, db1)) \<Rightarrow>
                  Some (Inr (Some (WorkflowFailed (Reason reason)), finish WfFailed db1))
              | Some (Inr (Deadlocked blocked, db1)) \<Rightarrow>
                  Some (Inr (Some (WorkflowFailed (DeadlockReason blocked)), finish WfFailed db1)))"

text \<open>The loop for the iterations of a list: \<open>Inr None\<close> when it is still running after them.\<close>

fun run_workflow ::
  "iteration list \<Rightarrow> string \<Rightarrow> workflow_tables
     \<Rightarrow> (db_error, workflow_outcome option \<times> workflow_tables) result option" where
  "run_workflow [] agent_id db = Some (Inr (None, db))"
| "run_workflow (it # its) agent_id db =
     (case run_iteration it agent_id db of
        None \<Rightarrow> None
      | Some (Inl e) \<Rightarrow> Some (Inl e)
      | Some (Inr (Some outcome, db1)) \<Rightarrow> Some (Inr (Some outcome, db1))
      | Some (Inr (None, db1)) \<Rightarrow> run_workflow its agent_id db1)"

section \<open>Finished steps stay as they are\<close>

definition row_finished :: "step_row \<Rightarrow> bool" where
  "row_finished r \<longleftrightarrow> sr_status r \<in> {''succeeded'', ''failed'', ''skipped''}"

lemma finished_status: "row_finished r \<Longrightarrow> is_terminal (node_status (row_to_step_node t r))"
  by (auto simp: row_finished_def row_to_step_node_def parse_step_status_def)

lemma update_other_row:
  "r \<in> set (workflow_steps db) \<Longrightarrow> sr_id r \<noteq> sid \<Longrightarrow>
     r \<in> set (workflow_steps (update_step_status ext db sid st a out err now))"
  by (force simp: update_step_status_def)

lemma run_step_task_other:
  assumes "run_step_task env now db step = (db', sid, oc)"
    and "r \<in> set (workflow_steps db)" "sr_id r \<noteq> node_id step"
  shows "r \<in> set (workflow_steps db')"
    and "sid = node_id step \<or> sid = ''unknown'' \<and> oc = ErrorOutcome (en_panic_text env)"
  using assms
  by (auto simp: run_step_task_def Let_def update_other_row split: sum.splits if_splits option.splits)

lemma execute_parallel_other:
  assumes "execute_parallel env now db steps = (db', results)"
    and "r \<in> set (workflow_steps db)" "sr_id r \<notin> node_id ` set steps"
  shows "r \<in> set (workflow_steps db') \<and> (\<forall>(sid, oc)\<in>set results.
      sid \<noteq> sr_id r \<or> oc = ErrorOutcome (en_panic_text env))"
  using assms
proof (induction steps arbitrary: db db' results)
  case (Cons step steps)
  obtain db1 sid oc where t: "run_step_task env now db step = (db1, sid, oc)"
    by (metis prod_cases3)
  obtain db2 rs where e: "execute_parallel env now db1 steps = (db2, rs)" by fastforce
  have r: "r \<in> set (workflow_steps db1)"
      "sid = node_id step \<or> sid = ''unknown'' \<and> oc = ErrorOutcome (en_panic_text env)"
    using run_step_task_other [OF t Cons.prems(2)] Cons.prems(3) by auto
  with Cons.IH [OF e] Cons.prems t e show ?case by auto
qed simp

text \<open>In memory the step \<open>t\<close> is finished or unknown.\<close>

definition closed_in_memory :: "string \<Rightarrow> workflow \<Rightarrow> bool" where
  "closed_in_memory t w \<longleftrightarrow> (\<forall>n. get_step w t = Some n \<longrightarrow> is_terminal (node_status n))"

lemma get_step_update_other:
  "sid \<noteq> t \<Longrightarrow> (\<And>n. node_id (f n) = node_id n) \<Longrightarrow>
     find (\<lambda>n. node_id n = t) (update_first (\<lambda>n. node_id n = sid) f ns) = find (\<lambda>n. node_id n = t) ns"
  by (rule find_update_first_other) auto

lemma closed_set_step:
  "sid \<noteq> t \<Longrightarrow> (\<And>n. node_id (f n) = node_id n) \<Longrightarrow> closed_in_memory t w \<Longrightarrow>
     closed_in_memory t (set_step sid f now w)"
  by (simp add: closed_in_memory_def get_step_def set_step_def get_step_update_other)

lemma mark_in_memory_closed:
  "closed_in_memory sid w \<Longrightarrow> mark_step_running_in_memory w sid now = w"
proof -
  assume c: "closed_in_memory sid w"
  have upd: "update_first (\<lambda>n. node_id n = sid) f (wf_nodes w) = wf_nodes w"
    if "\<And>n. is_terminal (node_status n) \<Longrightarrow> f n = n" for f
  proof (cases "get_step w sid")
    case None
    then show ?thesis by (simp add: get_step_def update_first_find_None)
  next
    case (Some n)
    with c that have "f n = n" by (simp add: closed_in_memory_def)
    then have "update_first (\<lambda>n. node_id n = sid) f (wf_nodes w)
        = update_first (\<lambda>n. node_id n = sid) (\<lambda>n. n) (wf_nodes w)"
      using Some by (intro update_first_cong_find) (auto simp: get_step_def)
    then show ?thesis by simp
  qed
  have "\<not> can_run st" if "is_terminal st" for st using that by (cases st) auto
  then show ?thesis unfolding mark_step_running_in_memory_def by (subst upd) auto
qed

lemma closed_no_failure:
  "closed_in_memory sid w \<Longrightarrow> \<exists>e. handle_failure ext w sid msg now = Inl e"
  by (auto simp: handle_failure_def closed_in_memory_def split: option.split)

lemma mark_in_memory_other:
  "sid \<noteq> t \<Longrightarrow> closed_in_memory t w \<Longrightarrow> closed_in_memory t (mark_step_running_in_memory w sid now)"
  by (simp add: closed_in_memory_def get_step_def mark_step_running_in_memory_def get_step_update_other)

lemma handle_failure_other:
  assumes "handle_failure ext w sid msg now = Inr (st, w')" "sid \<noteq> t" "closed_in_memory t w"
  shows "closed_in_memory t w'"
  using handle_failure_persisted [OF assms(1)] assms(2,3)
  by (auto intro!: closed_set_step simp: persisted_def)

lemma apply_failure_other:
  assumes "apply_failure env now sid msg (db, w) = (db', w')"
    and "r \<in> set (workflow_steps db)" "closed_in_memory (sr_id r) w"
  shows "r \<in> set (workflow_steps db') \<and> closed_in_memory (sr_id r) w'"
proof (cases "sid = sr_id r")
  case True
  with assms show ?thesis
    using closed_no_failure [of sid w "en_ext env" msg now]
    by (auto simp: apply_failure_def mark_in_memory_closed)
next
  case False
  with assms mark_in_memory_other [OF False assms(3)] show ?thesis
    by (auto simp: apply_failure_def Let_def update_other_row intro: handle_failure_other
        split: sum.splits option.splits)
qed

lemma apply_success_other:
  assumes "apply_success env now sid result (db, w) = (db', w')" "sid \<noteq> sr_id r"
    and "r \<in> set (workflow_steps db)" "closed_in_memory (sr_id r) w"
  shows "r \<in> set (workflow_steps db') \<and> closed_in_memory (sr_id r) w'"
proof -
  let ?w1 = "mark_step_running_in_memory w sid now"
  have c: "closed_in_memory (sr_id r) ?w1" using mark_in_memory_other assms(2,4) by blast
  have "closed_in_memory (sr_id r) w2" if "mark_succeeded ?w1 sid out now = Inr w2" for w2 out
    using that assms(2) c
    by (auto simp: mark_succeeded_def intro!: closed_set_step split: option.splits if_splits)
  with assms c show ?thesis
    by (auto simp: apply_success_def Let_def update_other_row
        split: sum.splits option.splits dest: apply_failure_other [OF _ assms(3)])
qed

lemma apply_outcome_other:
  assumes "apply_outcome env now (sid, oc) (db, w) = (db', w')"
    and "sid \<noteq> sr_id r \<or> (\<exists>e. oc = ErrorOutcome e)"
    and "r \<in> set (workflow_steps db)" "closed_in_memory (sr_id r) w"
  shows "r \<in> set (workflow_steps db') \<and> closed_in_memory (sr_id r) w'"
proof (cases oc)
  case SkippedOutcome
  with assms show ?thesis
    by (auto simp: mark_skipped_def intro!: closed_set_step split: option.splits if_splits sum.splits)
next
  case (Executed result)
  with assms show ?thesis
    by (auto split: if_splits dest: apply_failure_other apply_success_other)
next
  case (AwaitingChildrenOutcome x cs)
  with assms show ?thesis
    by (auto simp: set_status_in_memory_def closed_in_memory_def get_step_def get_step_update_other)
next
  case (AwaitingInputOutcome x qs)
  with assms show ?thesis
    by (auto simp: set_status_in_memory_def closed_in_memory_def get_step_def get_step_update_other)
qed (use assms apply_failure_other in auto)

lemma apply_outcomes_other:
  assumes "fold (apply_outcome env now) results (db, w) = (db', w')"
    and "\<forall>(sid, oc)\<in>set results. sid \<noteq> sr_id r \<or> (\<exists>e. oc = ErrorOutcome e)"
    and "r \<in> set (workflow_steps db)" "closed_in_memory (sr_id r) w"
  shows "r \<in> set (workflow_steps db')"
  using assms
proof (induction results arbitrary: db w)
  case (Cons x results)
  obtain sid oc db1 w1 where x: "x = (sid, oc)" "apply_outcome env now x (db, w) = (db1, w1)"
    by fastforce
  with Cons.prems apply_outcome_other [of env now sid oc db w db1 w1 r]
  have "r \<in> set (workflow_steps db1) \<and> closed_in_memory (sr_id r) w1" by auto
  with Cons x show ?case by auto
qed simp

lemma run_ready_other:
  assumes "r \<in> set (workflow_steps db)" "sr_id r \<notin> node_id ` set (ready_steps w (ck_query ck))"
    and "closed_in_memory (sr_id r) w"
  shows "r \<in> set (workflow_steps (run_ready env ck db w))"
proof -
  obtain db1 results where e: "execute_parallel env (ck_execute ck) db (ready_steps w (ck_query ck))
      = (db1, results)" by fastforce
  obtain db2 w2 where f: "fold (apply_outcome env (ck_apply ck)) results (db1, w) = (db2, w2)" by fastforce
  from execute_parallel_other [OF e assms(1,2)] have "r \<in> set (workflow_steps db1)"
      "\<forall>(sid, oc)\<in>set results. sid \<noteq> sr_id r \<or> (\<exists>e. oc = ErrorOutcome e)" by auto
  with apply_outcomes_other [OF f _ _ assms(3)] e f show ?thesis by (simp add: run_ready_def)
qed

text \<open>An expansion keeps the ids of the existing nodes and changes a status to succeeded only.\<close>

definition same_step :: "step_node \<Rightarrow> step_node \<Rightarrow> bool" where
  "same_step a b \<longleftrightarrow> node_id b = node_id a \<and> (node_status b = node_status a \<or> node_status b = Succeeded)"

lemma expand_one_same:
  assumes "expand_one ext now te (w, new, upd) = Some (w', new', upd')"
  shows "list_all2 same_step (wf_nodes w) (wf_nodes w')"
proof -
  obtain tid expr where te: "te = (tid, expr)" by fastforce
  have "list_all2 same_step ns (map (redirect_deps tid) (update_first P
      (\<lambda>n. n\<lparr>node_status := Succeeded, node_completed_at := Some now\<rparr>) ns))" for P ns
    by (induction ns) (auto simp: same_step_def redirect_deps_def list_all2_map2 list_all2_same)
  with assms te show ?thesis by (auto elim: expand_one_SomeE)
qed

lemma expand_all_same:
  "expand_all ext now tes (w, new, upd) = Some (w', new', upd') \<Longrightarrow>
     list_all2 same_step (wf_nodes w) (wf_nodes w')"
proof (induction tes arbitrary: w new upd)
  case Nil
  then show ?case by (simp add: list_all2_same same_step_def)
next
  case (Cons te tes)
  then obtain w1 new1 upd1 where s: "expand_one ext now te (w, new, upd) = Some (w1, new1, upd1)"
      "expand_all ext now tes (w1, new1, upd1) = Some (w', new', upd')"
    by (auto split: option.splits)
  show ?case
    by (rule list_all2_trans [OF _ expand_one_same [OF s(1)] Cons.IH [OF s(2)]])
      (auto simp: same_step_def)
qed

lemma expand_foreach_same:
  assumes "expand_foreach_nodes ext w now = Some (w', res)"
  obtains ns where "list_all2 same_step (wf_nodes w) ns" "wf_id w' = wf_id w"
    "wf_nodes w' = ns @ (case res of None \<Rightarrow> [] | Some (new, upd) \<Rightarrow> new)"
proof -
  have wid: "wf_id w2 = wf_id w1" if "expand_all ext now tes (w1, n1, u1) = Some (w2, n2, u2)"
    for tes w1 n1 u1 w2 n2 u2
    using that
    by (induction tes arbitrary: w1 n1 u1) (auto split: option.splits elim!: expand_one_SomeE)
  from assms that expand_all_same wid show thesis
    unfolding expand_foreach_nodes_def Let_def
    by (fastforce simp: list_all2_same same_step_def split: if_splits option.splits)
qed

lemma resume_row:
  assumes "tables_ok db" "resume_workflow db t agent = Some w" "n \<in> set (wf_nodes w)"
    and "r \<in> set (workflow_steps db)" "sr_id r = node_id n"
  shows "node_status n = node_status (row_to_step_node t r)"
proof -
  from assms(2,3) obtain s where s: "s \<in> set (workflow_steps db)" "n = row_to_step_node t s"
    by (auto simp: resume_workflow_def get_workflow_def split: option.splits)
  with assms(5) have "sr_id s = sr_id r" by (simp add: row_to_step_node_def)
  with assms(1,4) s have "s = r" by (auto simp: tables_ok_def distinct_map dest: inj_onD)
  with s show ?thesis by simp
qed

lemma finished_not_scheduled:
  assumes "tables_ok db" "resume_workflow db t agent = Some w"
    and "list_all2 same_step (wf_nodes w) ns" "wf_nodes w' = ns @ new"
    and "r \<in> set (workflow_steps db)" "row_finished r" "sr_id r \<notin> node_id ` set new"
    and "m \<in> set (wf_nodes w')" "node_id m = sr_id r"
  shows "is_terminal (node_status m)"
proof -
  have "m \<in> set ns" using assms(4,7,8,9) by (metis Un_iff image_eqI set_append)
  then obtain i where i: "i < length ns" "ns ! i = m" by (auto simp: in_set_conv_nth)
  then have same: "same_step (wf_nodes w ! i) m" "wf_nodes w ! i \<in> set (wf_nodes w)"
    using assms(3) by (auto simp: list_all2_conv_all_nth)
  then have "node_status (wf_nodes w ! i) = node_status (row_to_step_node t r)"
    using resume_row [OF assms(1,2) same(2) assms(5)] assms(9) by (simp add: same_step_def)
  with same finished_status [OF assms(6), of t] show ?thesis
    by (auto simp: same_step_def)
qed

lemma schedule_other:
  assumes "schedule env ck db w = (oc, db')" "r \<in> set (workflow_steps db)"
    and "\<And>m. m \<in> set (wf_nodes w) \<Longrightarrow> node_id m = sr_id r \<Longrightarrow> is_terminal (node_status m)"
  shows "r \<in> set (workflow_steps db')"
proof -
  have "closed_in_memory (sr_id r) w"
    using assms(3) by (auto simp: closed_in_memory_def get_step_def dest: find_mem)
  moreover have "sr_id r \<notin> node_id ` set (ready_steps w (ck_query ck))"
    using assms(3) by (fastforce simp: ready_steps_def step_ready_def split: step_status.splits)
  ultimately have "r \<in> set (workflow_steps (run_ready env ck db w))"
    using run_ready_other [OF assms(2)] by blast
  with assms(1,2) show ?thesis by (auto simp: schedule_def split: if_splits option.splits)
qed

definition same_result :: "step_row \<Rightarrow> step_row \<Rightarrow> bool" where
  "same_result r r' \<longleftrightarrow> sr_id r' = sr_id r \<and> sr_status r' = sr_status r \<and> sr_attempt r' = sr_attempt r
     \<and> sr_output_data r' = sr_output_data r \<and> sr_error r' = sr_error r
     \<and> sr_started_at r' = sr_started_at r \<and> sr_completed_at r' = sr_completed_at r"

lemma update_dependencies_same:
  "r \<in> set (workflow_steps db) \<Longrightarrow>
     \<exists>r'\<in>set (workflow_steps (fold (update_dependencies ext wid now) upds db)). same_result r r'"
proof (induction upds arbitrary: db r)
  case Nil
  then show ?case by (auto simp: same_result_def)
next
  case (Cons u upds)
  let ?f = "\<lambda>r. if sr_id r = fst u \<and> sr_workflow_id r = wid
      then r\<lparr>sr_depends_on := snd u, sr_updated_at := db_time ext now\<rparr> else r"
  have "?f r \<in> set (workflow_steps (update_dependencies ext wid now u db))"
    using Cons.prems by (force simp: update_dependencies_def)
  from Cons.IH [OF this] show ?case by (auto simp: same_result_def split: if_splits)
qed

lemma same_result_finished: "same_result r r' \<Longrightarrow> row_finished r \<Longrightarrow> row_finished r'"
  by (simp add: same_result_def row_finished_def)

text \<open>Saving an expansion keeps the old rows, and the new nodes have identifiers of their own.\<close>

lemma expansion_saved:
  assumes "insert_steps (map (step_node_row ext wid t t') new) db = Inr db0" "r \<in> set (workflow_steps db)"
  shows "sr_id r \<notin> node_id ` set new"
    and "\<exists>r1\<in>set (workflow_steps (fold (update_dependencies ext wid t'') upd db0)). same_result r r1"
proof -
  have "sr_id ` set (map (step_node_row ext wid t t') new) = node_id ` set new"
    by (simp add: image_image step_node_row_def)
  with insert_steps_Inr [OF assms(1)] assms(2) show "sr_id r \<notin> node_id ` set new" by blast
  have "r \<in> set (workflow_steps db0)" using insert_steps_Inr [OF assms(1)] assms(2) by simp
  then show "\<exists>r1\<in>set (workflow_steps (fold (update_dependencies ext wid t'') upd db0)). same_result r r1"
    by (rule update_dependencies_same)
qed

text \<open>C9: a cycle never touches a finished step.  Whatever the executor returns, the row of every
  step that succeeded, failed or was skipped has the same status, attempt, output, error and
  times after the cycle as before.\<close>

theorem cycle_keeps_finished_steps:
  assumes "tables_ok db" and "run_cycle env ck agent db = Some (Inr (oc, db'))"
    and "r \<in> set (workflow_steps db)" and "row_finished r"
  shows "\<exists>r'\<in>set (workflow_steps db'). same_result r r'"
proof (cases "resume_workflow db (ck_load ck) agent")
  case None
  with assms show ?thesis by (auto simp: run_cycle_def same_result_def)
next
  case (Some w)
  with assms(2) obtain w' res where x: "expand_foreach_nodes (en_ext env) w (ck_expand ck) = Some (w', res)"
    by (auto simp: run_cycle_def split: option.splits)
  then obtain ns where ns: "list_all2 same_step (wf_nodes w) ns"
      "wf_nodes w' = ns @ (case res of None \<Rightarrow> [] | Some (new, upd) \<Rightarrow> new)"
    by (rule expand_foreach_same)
  show ?thesis
  proof (cases res)
    case None
    then have "schedule env ck db w' = (oc, db')"
      using assms(2) Some x by (simp add: run_cycle_def)
    moreover have "is_terminal (node_status m)"
      if "m \<in> set (wf_nodes w')" "node_id m = sr_id r" for m
      using finished_not_scheduled [OF assms(1) Some ns assms(3,4) _ that] None by simp
    ultimately have "r \<in> set (workflow_steps db')"
      using schedule_other assms(3) by blast
    then show ?thesis by (auto simp: same_result_def)
  next
    case (Some nu)
    obtain new upd where nu: "nu = (new, upd)" by fastforce
    with assms(2) \<open>resume_workflow db (ck_load ck) agent = Some w\<close> x Some obtain db0 db1 where
      ins: "insert_steps (map (step_node_row (en_ext env) (wf_id w') (ck_expand ck) (ck_expand ck)) new) db
          = Inr db0" and
      db1: "db1 = fold (update_dependencies (en_ext env) (wf_id w') (ck_expand ck)) upd db0" and
      sch: "schedule env ck db1 w' = (oc, db')"
      by (auto simp: run_cycle_def save_expanded_nodes_def split: sum.splits)
    obtain r1 where r1: "r1 \<in> set (workflow_steps db1)" "same_result r r1"
      using expansion_saved(2) [OF ins assms(3)] db1 by blast
    from expansion_saved(1) [OF ins assms(3)]
    have "is_terminal (node_status m)"
      if "m \<in> set (wf_nodes w')" "node_id m = sr_id r" for m
      using finished_not_scheduled [OF assms(1) \<open>resume_workflow db (ck_load ck) agent = Some w\<close>
          ns assms(3,4) _ that] Some nu by simp
    moreover have "sr_id r1 = sr_id r" using r1(2) by (simp add: same_result_def)
    ultimately have "r1 \<in> set (workflow_steps db')"
      using schedule_other [OF sch r1(1)] by simp
    with r1(2) show ?thesis by blast
  qed
qed

section \<open>Only steps with finished dependencies start\<close>

text \<open>A step that is not among the scheduled ones keeps its row: every result carries the
  identifier of a scheduled step, or the one that stands for a task that panicked.\<close>

lemma apply_failure_elsewhere:
  assumes "apply_failure env now sid msg (db, w) = (db', w')" "sid \<noteq> sr_id r" "r \<in> set (workflow_steps db)"
  shows "r \<in> set (workflow_steps db')"
  using assms by (auto simp: apply_failure_def Let_def update_other_row split: sum.splits option.splits)

lemma apply_outcome_elsewhere:
  assumes "apply_outcome env now (sid, oc) (db, w) = (db', w')" "sid \<noteq> sr_id r"
    and "r \<in> set (workflow_steps db)"
  shows "r \<in> set (workflow_steps db')"
proof (cases oc)
  case (Executed result)
  with assms show ?thesis
    by (auto simp: apply_success_def Let_def update_other_row
        split: if_splits sum.splits option.splits dest: apply_failure_elsewhere)
qed (use assms apply_failure_elsewhere in auto)

lemma apply_outcomes_elsewhere:
  assumes "fold (apply_outcome env now) results (db, w) = (db', w')"
    and "sr_id r \<notin> fst ` set results" "r \<in> set (workflow_steps db)"
  shows "r \<in> set (workflow_steps db')"
  using assms
proof (induction results arbitrary: db w)
  case (Cons x results)
  obtain sid oc db1 w1 where x: "x = (sid, oc)" "apply_outcome env now x (db, w) = (db1, w1)"
    by fastforce
  with Cons.prems have "r \<in> set (workflow_steps db1)"
    by (intro apply_outcome_elsewhere [of env now sid oc db w db1 w1]) auto
  with Cons x show ?case by auto
qed simp

lemma run_ready_elsewhere:
  assumes "r \<in> set (workflow_steps db)" "sr_id r \<notin> node_id ` set (ready_steps w (ck_query ck))"
    and "sr_id r \<noteq> ''unknown''"
  shows "r \<in> set (workflow_steps (run_ready env ck db w))"
proof -
  have ids: "fst ` set results \<subseteq> insert ''unknown'' (node_id ` set steps)"
    if "execute_parallel env now db steps = (db', results)" for now db steps db' results
    using that
  proof (induction steps arbitrary: db db' results)
    case (Cons step steps)
    obtain db1 sid oc where t: "run_step_task env now db step = (db1, sid, oc)"
      by (metis prod_cases3)
    then have "sid = node_id step \<or> sid = ''unknown''"
      by (auto simp: run_step_task_def Let_def split: sum.splits if_splits option.splits)
    moreover obtain db2 rs where e: "execute_parallel env now db1 steps = (db2, rs)" by fastforce
    moreover have "results = (sid, oc) # rs" using Cons.prems t e by simp
    ultimately show ?case using Cons.IH [OF e] by auto
  qed simp
  obtain db1 results where e: "execute_parallel env (ck_execute ck) db (ready_steps w (ck_query ck))
      = (db1, results)" by fastforce
  obtain db2 w2 where f: "fold (apply_outcome env (ck_apply ck)) results (db1, w) = (db2, w2)" by fastforce
  have "r \<in> set (workflow_steps db1)" using execute_parallel_other [OF e assms(1,2)] by simp
  moreover have "sr_id r \<notin> fst ` set results" using ids [OF e] assms(2,3) by blast
  ultimately show ?thesis using apply_outcomes_elsewhere [OF f] e f by (simp add: run_ready_def)
qed

lemma schedule_elsewhere:
  assumes "schedule env ck db w = (oc, db')" "r \<in> set (workflow_steps db)" "sr_id r \<noteq> ''unknown''"
    and "sr_id r \<notin> node_id ` set (ready_steps w (ck_query ck))"
  shows "r \<in> set (workflow_steps db')"
  using assms run_ready_elsewhere [OF assms(2,4,3)]
  by (auto simp: schedule_def split: if_splits option.splits)

text \<open>The new nodes of an expansion are pending, and the join node of each template is among them.\<close>

lemma expand_all_new:
  assumes "expand_all ext now tes (w, new, upd) = Some (w', new', upd')"
  shows "set new \<subseteq> set new' \<and> (\<forall>n\<in>set new' - set new. node_status n = Pending)
    \<and> (\<forall>te\<in>set tes. join_id (fst te) \<in> node_id ` set new')"
  using assms
proof (induction tes arbitrary: w new upd)
  case (Cons te tes)
  obtain tid expr where te: "te = (tid, expr)" by fastforce
  from Cons.prems te obtain w1 new1 upd1 where
    one: "expand_one ext now (tid, expr) (w, new, upd) = Some (w1, new1, upd1)" and
    rest: "expand_all ext now tes (w1, new1, upd1) = Some (w', new', upd')"
    by (auto split: option.splits)
  from one have step: "set new \<subseteq> set new1 \<and> (\<forall>n\<in>set new1 - set new. node_status n = Pending)
      \<and> join_id tid \<in> node_id ` set new1"
  proof (rule expand_one_SomeE)
    fix template children k
    assume t: "get_step w tid = Some template"
      and n: "new1 = new @ children @ [expand_join template k]" "length children = k"
      and c: "\<And>i. i < k \<Longrightarrow> node_id (children ! i) = child_id tid i
          \<and> node_kind (children ! i) = ForEachItem tid i \<and> node_status (children ! i) = Pending"
    have "node_id template = tid" using t by (auto simp: get_step_def dest: find_mem)
    moreover have "\<forall>n\<in>set children. node_status n = Pending"
      using c n(2) by (auto simp: in_set_conv_nth)
    ultimately show ?thesis using n(1) by (auto simp: expand_join_def)
  qed
  from Cons.IH [OF rest] step te show ?case by auto
qed simp

text \<open>A step one of whose dependencies is not stored as done is not scheduled, also after the
  expansion: a dependency on an expanded template has become one on a new join node.\<close>

lemma unsatisfied_not_ready:
  assumes "tables_ok db" "resume_workflow db t agent = Some w"
    and r: "r \<in> set (workflow_steps db)" "sr_status r = ''pending''"
    and d: "d \<in> set (sr_depends_on r)"
      "\<forall>q\<in>set (workflow_steps db). sr_id q = d \<longrightarrow> sr_status q \<notin> {''succeeded'', ''skipped''}"
    and E: "sr_id r \<notin> E" "\<forall>e\<in>E. join_id e \<in> node_id ` set new"
    and w': "wf_nodes w' = map (expanded_node now E) (wf_nodes w) @ new"
    and new: "\<forall>n\<in>set new. node_status n = Pending" "sr_id ` set (workflow_steps db) \<inter> node_id ` set new = {}"
  shows "sr_id r \<notin> node_id ` set (ready_steps w' q)"
proof
  have rows: "\<exists>s\<in>set (workflow_steps db). n = row_to_step_node t s" if "n \<in> set (wf_nodes w)" for n
    using assms(2) that by (auto simp: resume_workflow_def get_workflow_def split: option.splits)
  have not_new: "m \<notin> set new" if "node_id m = sr_id s" "s \<in> set (workflow_steps db)" for m s
    using new(2) that by (auto simp: disjoint_iff)
  assume "sr_id r \<in> node_id ` set (ready_steps w' q)"
  then obtain n' where n': "n' \<in> set (wf_nodes w')" "node_id n' = sr_id r" "step_ready w' q n'"
    by (auto simp: ready_steps_def)
  with w' not_new r(1) obtain n where n: "n \<in> set (wf_nodes w)" "n' = expanded_node now E n" by auto
  with rows obtain s where s: "s \<in> set (workflow_steps db)" "n = row_to_step_node t s" by blast
  with n n'(2) have "sr_id s = sr_id r" by (simp add: row_to_step_node_def)
  with assms(1) r(1) s(1) have "s = r" by (auto simp: tables_ok_def distinct_map dest: inj_onD)
  with s n E(1) r(2) have pend: "node_status n' = Pending" and
    deps: "node_depends_on n' = map (\<lambda>d. if d \<in> E then join_id d else d) (sr_depends_on r)"
    by (simp_all add: expanded_node_def row_to_step_node_def parse_step_status_def)
  let ?d = "if d \<in> E then join_id d else d"
  have "\<not> (node_id m = ?d \<and> dep_done (node_status m))" if m: "m \<in> set (wf_nodes w')" for m
  proof (cases "m \<in> set new")
    case False
    with m w' obtain k where k: "k \<in> set (wf_nodes w)" "m = expanded_node now E k" by auto
    with rows obtain s where s: "s \<in> set (workflow_steps db)" "k = row_to_step_node t s" by blast
    then have id: "node_id m = sr_id s" using k by (simp add: row_to_step_node_def)
    show ?thesis
    proof
      assume a: "node_id m = ?d \<and> dep_done (node_status m)"
      then have "d \<notin> E" using E(2) new(2) s(1) id by (auto simp: disjoint_iff)
      then have "sr_id s = d" using a id by simp
      moreover have "node_id k = sr_id s" using k(2) id by simp
      ultimately have "dep_done (node_status k)" using a k(2) \<open>d \<notin> E\<close> by (simp add: expanded_node_def)
      note \<open>sr_id s = d\<close> this
      with d(2) s show False
        by (auto simp: row_to_step_node_def parse_step_status_def split: if_splits)
    qed
  qed (use new(1) in simp)
  moreover have "?d \<in> set (node_depends_on n')" unfolding deps set_map using d(1) by (rule imageI)
  ultimately have "\<not> deps_satisfied w' n'"
    unfolding deps_satisfied_def list_all_iff list_ex_iff by blast
  with n'(3) pend show False by (simp add: step_ready_def)
qed

lemma unsatisfied_not_expandable:
  assumes "tables_ok db" "resume_workflow db t agent = Some w" "n \<in> set (wf_nodes w)"
    and "r \<in> set (workflow_steps db)" "node_id n = sr_id r" "d \<in> set (sr_depends_on r)"
    and "\<forall>q\<in>set (workflow_steps db). sr_id q = d \<longrightarrow> sr_status q \<notin> {''succeeded'', ''skipped''}"
  shows "\<not> expandable w n"
proof -
  have rows: "\<exists>s\<in>set (workflow_steps db). n = row_to_step_node t s" if "n \<in> set (wf_nodes w)" for n
    using assms(2) that by (auto simp: resume_workflow_def get_workflow_def split: option.splits)
  from rows [OF assms(3)] obtain s where s: "s \<in> set (workflow_steps db)" "n = row_to_step_node t s" by blast
  with assms(5) have "sr_id s = sr_id r" by (simp add: row_to_step_node_def)
  with assms(1,4) s(1) have "s = r" by (auto simp: tables_ok_def distinct_map dest: inj_onD)
  have "\<not> (node_id m = d \<and> dep_done (node_status m))" if m: "m \<in> set (wf_nodes w)" for m
  proof -
    from rows [OF m] obtain q where "q \<in> set (workflow_steps db)" "m = row_to_step_node t q" by blast
    with assms(7) show ?thesis
      by (auto simp: row_to_step_node_def parse_step_status_def split: if_splits)
  qed
  with assms(6) s(2) \<open>s = r\<close> show ?thesis
    by (auto simp: expandable_def deps_satisfied_def list_all_iff list_ex_iff row_to_step_node_def)
qed

lemma cycle_expansion:
  assumes "tables_ok db" "resume_workflow db t agent = Some w"
    and "expand_foreach_nodes ext w now = Some (w', Some (new, upd))"
    and "sr_id ` set (workflow_steps db) \<inter> node_id ` set new = {}"
  shows "wf_nodes w' = map (expanded_node now (node_id ` {n \<in> set (wf_nodes w). expandable w n})) (wf_nodes w) @ new"
    and "\<forall>n\<in>set new. node_status n = Pending"
    and "\<forall>e\<in>node_id ` {n \<in> set (wf_nodes w). expandable w n}. join_id e \<in> node_id ` set new"
proof -
  let ?tes = "map (\<lambda>n. (node_id n, node_foreach n)) (filter (expandable w) (wf_nodes w))"
  from assms(3) obtain w1 where w1: "expand_all ext now ?tes (w, [], []) = Some (w1, new, upd)"
      "w' = w1\<lparr>wf_nodes := wf_nodes w1 @ new\<rparr>"
    by (auto simp: expand_foreach_nodes_def Let_def split: if_splits option.splits)
  have E: "fst ` set ?tes = node_id ` {n \<in> set (wf_nodes w). expandable w n}"
    by (auto simp: image_iff)
  from expand_all_new [OF w1(1)] have new: "\<forall>n\<in>set new. node_status n = Pending"
      "\<forall>e\<in>fst ` set ?tes. join_id e \<in> node_id ` set new" by auto
  from new show "\<forall>n\<in>set new. node_status n = Pending" by simp
  from new E show "\<forall>e\<in>node_id ` {n \<in> set (wf_nodes w). expandable w n}. join_id e \<in> node_id ` set new"
    by simp
  have ids: "node_id ` set (wf_nodes w) \<subseteq> sr_id ` set (workflow_steps db)"
    using assms(2) by (auto simp: resume_workflow_def get_workflow_def row_to_step_node_def
        split: option.splits)
  have "ids_distinct w"
    using assms(1,2) by (auto simp: resume_workflow_def split: option.splits dest: get_workflow_ids)
  moreover have "\<forall>a\<in>{} \<union> fst ` set ?tes. \<forall>b\<in>fst ` set ?tes. join_id a \<noteq> b"
  proof (intro ballI notI)
    fix a b assume "a \<in> {} \<union> fst ` set ?tes" "b \<in> fst ` set ?tes" "join_id a = b"
    then have "b \<in> node_id ` set new" using new(2) by (metis Un_empty_left)
    moreover have "b \<in> node_id ` set (wf_nodes w)" using \<open>b \<in> fst ` set ?tes\<close> by auto
    ultimately have "b \<in> node_id ` set new" "b \<in> node_id ` set (wf_nodes w)" by simp_all
    with ids assms(4) show False by blast
  qed
  ultimately have "wf_nodes w1 = map (expanded_node now ({} \<union> fst ` set ?tes)) (wf_nodes w)"
    using expand_all_spec [OF w1(1), of "{}" w] by (simp add: expanded_node_empty map_idI)
  with w1(2) E show "wf_nodes w' = map (expanded_node now (node_id ` {n \<in> set (wf_nodes w). expandable w n})) (wf_nodes w) @ new"
    by simp
qed

text \<open>C2: a cycle starts only steps whose dependencies are done.  If a cycle changes the stored
  result of a pending step (its status, attempt, output, error or times), then each of its
  dependencies was stored as succeeded or skipped when the cycle began: a failed, running, waiting,
  retrying or missing dependency keeps the step back, also when the cycle expands for-each
  templates.  The identifier \<open>unknown\<close> is excepted: the engine uses it for a task that panicked.\<close>

theorem cycle_starts_only_satisfied_steps:
  assumes "tables_ok db" and "run_cycle env ck agent db = Some (Inr (oc, db'))"
    and "r \<in> set (workflow_steps db)" and "sr_status r = ''pending''" and "sr_id r \<noteq> ''unknown''"
    and "\<not> (\<exists>r'\<in>set (workflow_steps db'). same_result r r')"
  shows "\<forall>d\<in>set (sr_depends_on r). \<exists>q\<in>set (workflow_steps db).
    sr_id q = d \<and> (sr_status q = ''succeeded'' \<or> sr_status q = ''skipped'')"
proof (intro ballI, rule ccontr)
  fix d
  assume d: "d \<in> set (sr_depends_on r)" and "\<not> (\<exists>q\<in>set (workflow_steps db).
    sr_id q = d \<and> (sr_status q = ''succeeded'' \<or> sr_status q = ''skipped''))"
  then have bad: "\<forall>q\<in>set (workflow_steps db). sr_id q = d \<longrightarrow> sr_status q \<notin> {''succeeded'', ''skipped''}"
    by auto
  from assms(2,3,6) obtain w where w: "resume_workflow db (ck_load ck) agent = Some w"
    by (auto simp: run_cycle_def same_result_def split: option.splits)
  with assms(2) obtain w' res where x: "expand_foreach_nodes (en_ext env) w (ck_expand ck) = Some (w', res)"
    by (auto simp: run_cycle_def split: option.splits)
  show False
  proof (cases res)
    case None
    with x have "w' = w" by (auto simp: expand_foreach_nodes_def Let_def split: if_splits option.splits)
    with assms(2) w x None have sch: "schedule env ck db w = (oc, db')" by (simp add: run_cycle_def)
    have "sr_id r \<notin> node_id ` set (ready_steps w (ck_query ck))"
      by (rule unsatisfied_not_ready [OF assms(1) w assms(3,4) d bad, of "{}" "[]" _ 0])
        (simp_all add: expanded_node_empty map_idI)
    with schedule_elsewhere [OF sch assms(3,5)] assms(6) show False by (auto simp: same_result_def)
  next
    case (Some nu)
    obtain new upd where nu: "res = Some (new, upd)" using Some by fastforce
    note sp = cycle_expansion [OF assms(1) w x [unfolded nu]]
    from assms(2) w x nu obtain db0 db1 where
      ins: "insert_steps (map (step_node_row (en_ext env) (wf_id w') (ck_expand ck) (ck_expand ck)) new) db
          = Inr db0" and
      db1: "db1 = fold (update_dependencies (en_ext env) (wf_id w') (ck_expand ck)) upd db0" and
      sch: "schedule env ck db1 w' = (oc, db')"
      by (auto simp: run_cycle_def save_expanded_nodes_def split: sum.splits)
    have fresh: "sr_id ` set (workflow_steps db) \<inter> node_id ` set new = {}"
      using expansion_saved(1) [OF ins] by blast
    note sp = sp [OF fresh]
    obtain r1 where r1: "r1 \<in> set (workflow_steps db1)" "same_result r r1"
      using expansion_saved(2) [OF ins assms(3)] db1 by blast
    have "sr_id r \<notin> node_id ` {n \<in> set (wf_nodes w). expandable w n}"
      using unsatisfied_not_expandable [OF assms(1) w _ assms(3) _ d bad] by (auto simp: eq_commute)
    then have "sr_id r \<notin> node_id ` set (ready_steps w' (ck_query ck))"
      by (rule unsatisfied_not_ready [OF assms(1) w assms(3,4) d bad _ sp(3,1,2) fresh])
    moreover have "sr_id r1 = sr_id r" using r1(2) by (simp add: same_result_def)
    ultimately have "r1 \<in> set (workflow_steps db')"
      using schedule_elsewhere [OF sch r1(1)] assms(5) by simp
    with r1(2) assms(6) show False by blast
  qed
qed

section \<open>Two behaviours of the loop\<close>

lemma no_expansion:
  "\<forall>n\<in>set (wf_nodes w). node_kind n = ForEachTemplate \<longrightarrow> node_status n \<noteq> Pending \<Longrightarrow>
     expand_foreach_nodes ext w now = Some (w, None)"
  by (auto simp: expand_foreach_nodes_def Let_def expandable_def filter_empty_conv)

text \<open>A workflow whose steps have all ended is reported as completed, also when some of them
  failed: the loop ends with this outcome and stores this status.\<close>

theorem ended_workflow_is_completed:
  assumes "resume_workflow db (ck_load (it_clock it)) agent = Some w"
    and "is_complete w" and "\<not> it_cancelled it"
  shows "\<exists>db'. run_workflow (it # its) agent db = Some (Inr (Some WorkflowCompleted, db'))
    \<and> db' = set_workflow_status (en_ext (it_env it)) agent WfCompleted (it_end it) db"
proof -
  have "expand_foreach_nodes (en_ext (it_env it)) w (ck_expand (it_clock it)) = Some (w, None)"
    using assms(2) by (intro no_expansion) (auto simp: is_complete_def list_all_iff)
  with assms show ?thesis by (simp add: run_iteration_def run_cycle_def schedule_def)
qed

text \<open>A step that is stored as running is never run again.  When every step is finished or
  running, for instance after a crash during its execution, the loop only waits: after any
  number of cycles without cancellation it has neither ended nor changed the store.\<close>

theorem running_step_never_resumed:
  assumes "\<And>t. resume_workflow db t agent = Some w" and "\<not> is_complete w"
    and "\<forall>n\<in>set (wf_nodes w). is_terminal (node_status n) \<or> node_status n = Running"
    and "\<forall>it\<in>set its. \<not> it_cancelled it \<and> \<not> it_cancelled_asleep it"
  shows "run_workflow its agent db = Some (Inr (None, db))"
  using assms(4)
proof (induction its)
  case (Cons it its)
  have "expand_foreach_nodes (en_ext (it_env it)) w (ck_expand (it_clock it)) = Some (w, None)"
    using assms(3) by (intro no_expansion) auto
  moreover have "detect_deadlock w (ck_query (it_clock it)) = None"
  proof -
    obtain n where "n \<in> set (wf_nodes w)" "node_status n = Running"
      using assms(2,3) by (auto simp: is_complete_def list_all_iff)
    then have "list_ex (\<lambda>n. is_active (node_status n)) (wf_nodes w)"
      by (auto simp: list_ex_iff intro!: bexI [of _ n])
    then show ?thesis by (simp add: detect_deadlock_def)
  qed
  moreover have "ready_steps w (ck_query (it_clock it)) = []"
    using assms(3) by (auto simp: ready_steps_def step_ready_def filter_empty_conv split: step_status.splits)
  ultimately have "run_cycle (it_env it) (it_clock it) agent db = Some (Inr (WaitUntil
      (case next_retry_time w of Some t \<Rightarrow> t | None \<Rightarrow> ck_query (it_clock it) + secs 2), db))"
    using assms(1) [of "ck_load (it_clock it)"] assms(2)
    by (simp add: run_cycle_def schedule_def split: option.split)
  then have "run_iteration it agent db = Some (Inr (None, db))"
    using Cons.prems unfolding run_iteration_def Let_def by (simp only: list.set_intros) simp
  moreover have "run_workflow its agent db = Some (Inr (None, db))"
    using Cons.prems by (intro Cons.IH) simp
  ultimately show ?case by simp
qed simp

section \<open>Concrete stores\<close>

text \<open>One workflow of one step with the given stored status.\<close>

definition one_row :: "string \<Rightarrow> step_row" where
  "one_row status = (step_node_row sample_ext ''wf-u'' 0 0 (node_of_planned (sample_planned 0)))
     \<lparr>sr_status := status\<rparr>"

definition one_step_tables :: "string \<Rightarrow> workflow_tables" where
  "one_step_tables status = \<lparr>workflow_executions = [\<lparr>er_id = ''wf-u'', er_agent_id = ''a'',
       er_tenant_id = ''t'', er_goal = ''g'', er_status = ''running'', er_created_at = 0, er_updated_at = 0\<rparr>],
     workflow_steps = [one_row status]\<rparr>"

definition one_step_workflow :: "step_status \<Rightarrow> workflow" where
  "one_step_workflow st = \<lparr>wf_id = ''wf-u'', wf_agent_id = ''a'', wf_tenant_id = ''t'', wf_goal = ''g'',
     wf_nodes = [(node_of_planned (sample_planned 0))\<lparr>node_status := st\<rparr>],
     wf_status = WfRunning, wf_created_at = 0, wf_updated_at = 0\<rparr>"

definition sample_iteration :: iteration where
  "sample_iteration = \<lparr>it_cancelled = False, it_cancelled_asleep = False,
     it_env = \<lparr>en_ext = sample_ext, en_exec = (\<lambda>_ _ _. VError ''e''), en_schema_text = (\<lambda>_. ''s''),
       en_panic_text = ''p''\<rparr>,
     it_clock = \<lparr>ck_load = 1, ck_expand = 1, ck_query = 1, ck_execute = 1, ck_apply = 1\<rparr>, it_end = 2\<rparr>"

lemma one_step_loaded:
  "resume_workflow (one_step_tables status) t ''a'' = Some (one_step_workflow
     (parse_step_status status None (to_i32 0) t))"
proof -
  have "row_to_step_node t (one_row status)
      = (node_of_planned (sample_planned 0))\<lparr>node_status := parse_step_status status None (to_i32 0) t\<rparr>"
    by (simp add: row_to_step_node_def one_row_def step_node_row_def node_of_planned_def
        sample_planned_def default_retry_policy_def i32_roundtrip)
  then show ?thesis
    by (simp add: resume_workflow_def get_workflow_def one_step_tables_def one_step_workflow_def
        parse_workflow_status_def one_row_def step_node_row_def)
qed

lemma one_step_ok: "tables_ok (one_step_tables status)"
  by (simp add: tables_ok_def one_step_tables_def one_row_def step_node_row_def)

theorem ended_workflow_is_completed_witness:
  "\<exists>db'. run_workflow [sample_iteration] ''a'' (one_step_tables ''failed'')
     = Some (Inr (Some WorkflowCompleted, db'))"
  using ended_workflow_is_completed [of "one_step_tables ''failed''" sample_iteration "''a''"
      "one_step_workflow Failed" "[]"]
  by (simp add: one_step_loaded parse_step_status_def one_step_workflow_def is_complete_def
      sample_iteration_def)

theorem running_step_never_resumed_witness:
  "run_workflow (replicate 100 sample_iteration) ''a'' (one_step_tables ''running'')
     = Some (Inr (None, one_step_tables ''running''))"
  by (rule running_step_never_resumed [where w = "one_step_workflow Running"])
    (simp_all add: one_step_loaded parse_step_status_def one_step_workflow_def is_complete_def
      sample_iteration_def)

theorem cycle_keeps_finished_steps_witness:
  "\<exists>oc db'. run_cycle (it_env sample_iteration) (it_clock sample_iteration) ''a''
       (one_step_tables ''failed'') = Some (Inr (oc, db'))
     \<and> (\<exists>r'\<in>set (workflow_steps db'). same_result (one_row ''failed'') r')"
proof -
  have "run_cycle (it_env sample_iteration) (it_clock sample_iteration) ''a''
      (one_step_tables ''failed'') = Some (Inr (Complete, one_step_tables ''failed''))"
    by (simp add: run_cycle_def one_step_loaded parse_step_status_def one_step_workflow_def
        expand_foreach_nodes_def expandable_def schedule_def is_complete_def)
  moreover from cycle_keeps_finished_steps [OF one_step_ok this, of "one_row ''failed''"]
  have "\<exists>r'\<in>set (workflow_steps (one_step_tables ''failed'')). same_result (one_row ''failed'') r'"
    by (simp add: one_step_tables_def row_finished_def one_row_def)
  ultimately show ?thesis by blast
qed

text \<open>Two steps: the first succeeded, the second depends on it and is pending.\<close>

definition second_row :: step_row where
  "second_row = (one_row ''pending'')\<lparr>sr_id := ''b'', sr_step_index := 1, sr_depends_on := [''a'']\<rparr>"

definition two_step_tables :: "string \<Rightarrow> workflow_tables" where
  "two_step_tables status = (one_step_tables status)
     \<lparr>workflow_steps := [(one_row status)\<lparr>sr_id := ''a''\<rparr>, second_row]\<rparr>"

definition skipping_env :: engine_env where
  "skipping_env = (it_env sample_iteration)\<lparr>en_exec := (\<lambda>_ _ _. VSkipped)\<rparr>"

lemma two_step_ok: "tables_ok (two_step_tables status)"
  by (simp add: tables_ok_def two_step_tables_def second_row_def one_step_tables_def one_row_def step_node_row_def)

lemma two_step_loaded:
  "resume_workflow (two_step_tables status) t ''a'' = Some ((one_step_workflow Pending)
     \<lparr>wf_nodes := map (row_to_step_node t) [(one_row status)\<lparr>sr_id := ''a''\<rparr>, second_row]\<rparr>)"
  by (simp add: resume_workflow_def get_workflow_def two_step_tables_def one_step_tables_def
      one_step_workflow_def second_row_def one_row_def step_node_row_def node_of_planned_def
      sample_planned_def parse_workflow_status_def to_i32_def)

lemma two_step_nodes:
  "row_to_step_node t ((one_row ''succeeded'')\<lparr>sr_id := ''a''\<rparr>)
     = (node_of_planned (sample_planned 0))\<lparr>node_id := ''a'', node_status := Succeeded\<rparr>"
  "row_to_step_node t second_row
     = (node_of_planned (sample_planned 1))\<lparr>node_id := ''b'', node_depends_on := [''a'']\<rparr>"
  by (simp_all add: row_to_step_node_def second_row_def one_row_def step_node_row_def node_of_planned_def
      sample_planned_def default_retry_policy_def parse_step_status_def to_i32_def
      i32_to_u32_def i32_to_u64_def)

theorem cycle_starts_only_satisfied_steps_witness:
  "\<exists>oc db'. run_cycle skipping_env (it_clock sample_iteration) ''a'' (two_step_tables ''succeeded'')
       = Some (Inr (oc, db'))
     \<and> \<not> (\<exists>r'\<in>set (workflow_steps db'). same_result second_row r')
     \<and> (\<forall>d\<in>set (sr_depends_on second_row). \<exists>q\<in>set (workflow_steps (two_step_tables ''succeeded'')).
          sr_id q = d \<and> (sr_status q = ''succeeded'' \<or> sr_status q = ''skipped''))"
proof -
  let ?w = "(one_step_workflow Pending)
     \<lparr>wf_nodes := [(node_of_planned (sample_planned 0))\<lparr>node_id := ''a'', node_status := Succeeded\<rparr>,
       (node_of_planned (sample_planned 1))\<lparr>node_id := ''b'', node_depends_on := [''a'']\<rparr>]\<rparr>"
  have cyc: "run_cycle skipping_env (it_clock sample_iteration) ''a'' (two_step_tables ''succeeded'')
      = Some (Inr (schedule skipping_env (it_clock sample_iteration) (two_step_tables ''succeeded'') ?w))"
    by (simp add: run_cycle_def two_step_loaded two_step_nodes expand_foreach_nodes_def expandable_def
        node_of_planned_def sample_planned_def)
  obtain oc db' where run: "run_cycle skipping_env (it_clock sample_iteration) ''a''
      (two_step_tables ''succeeded'') = Some (Inr (oc, db'))"
    and rows: "map sr_status (workflow_steps db') = [''succeeded'', ''running'']"
    unfolding cyc
    by (simp add: schedule_def is_complete_def detect_deadlock_def
        ready_steps_def step_ready_def deps_satisfied_def run_ready_def run_step_task_def
        node_of_planned_def sample_planned_def from_predecessors_def validate_step_schema_def
        skipping_env_def sample_iteration_def Let_def update_step_status_def update_step_row_def
        two_step_tables_def second_row_def one_row_def get_step_output_def step_node_row_def)
  have "\<not> same_result second_row r'" if "r' \<in> set (workflow_steps db')" for r'
  proof -
    have "sr_status r' \<in> set [''succeeded'', ''running'']"
      using that rows [symmetric] by (metis image_eqI set_map)
    then show ?thesis by (auto simp: same_result_def second_row_def one_row_def)
  qed
  with run cycle_starts_only_satisfied_steps [OF two_step_ok run, of second_row] show ?thesis
    by (auto simp: two_step_tables_def second_row_def one_row_def)
qed

end
