(* ===== verification/Policy.thy ===== *)
theory Policy
  imports Json
begin

text \<open>
  The policy engine (\<open>policy/rules.rs\<close>, \<open>policy/engine.rs\<close>): the rules a tenant configures,
  the built-in guards, and the decision on a tool call.  Theorems: what the guards catch never
  proceeds, a tenant cannot weaken the platform, the engine sees every path of a call; and two
  gaps of the guards, stated as theorems.
\<close>

section \<open>Rules\<close>

datatype policy_condition =
    Always
  | ToolIs string
  | ArgThreshold string rat
  | PlanIs string
  | PermissionModeIs string
  | ToolPoolIs string
  | RiskLevel string
  | ExternalSideEffect
  | ProtectedPathTouched
  | WritesOutsideWorkspace
  | ArgsMatch string
  | AllOf "policy_condition list"
  | AnyOf "policy_condition list"

datatype policy_action =
    ActAllow
  | ActBlock string
  | ActRequireApproval string
  | ActRedact "string list"
  | ActDowngrade string

record policy_rule =
  rule_id :: string
  rule_name :: string
  rule_tools :: "string list"
  rule_condition :: policy_condition
  rule_action :: policy_action
  rule_enabled :: bool

record policy_rule_set =
  rs_tenant_id :: string
  rs_rules :: "policy_rule list"

definition rule_set_new :: "string \<Rightarrow> policy_rule_set" where
  "rule_set_new tenant = \<lparr>rs_tenant_id = tenant, rs_rules = []\<rparr>"

definition platform_defaults :: "policy_rule list" where
  "platform_defaults =
     [\<lparr>rule_id = ''platform-no-critical'', rule_name = ''Block critical-risk tools'',
       rule_tools = [], rule_condition = RiskLevel ''critical'',
       rule_action = ActBlock ''critical-risk tools require explicit platform approval'',
       rule_enabled = True\<rparr>,
      \<lparr>rule_id = ''platform-free-no-infra'', rule_name = ''Free plan cannot use infra tools'',
       rule_tools = [''docker'', ''kubernetes''], rule_condition = PlanIs ''free'',
       rule_action = ActBlock ''infrastructure tools require Pro or Enterprise plan'',
       rule_enabled = True\<rparr>]"

section \<open>Context and decision\<close>

record policy_context =
  pc_tenant_id :: string
  pc_agent_id :: string
  pc_tool_name :: string
  pc_tool_args :: json
  pc_plan :: string
  pc_risk_level :: string
  pc_permission_mode :: string
  pc_tool_pool :: string
  pc_workspace_root :: "string option"

datatype policy_decision =
    Allow
  | Block string string
  | RequireApproval string string
  | Redact string "string list"
  | Downgrade string string

definition risk_ord :: "string \<Rightarrow> nat" where
  "risk_ord level =
     (if level = ''low'' then 1 else if level = ''medium'' then 2
      else if level = ''high'' then 3 else if level = ''critical'' then 4 else 0)"

definition permission_mode_ord :: "string \<Rightarrow> nat" where
  "permission_mode_ord mode =
     (if mode = ''plan_only'' then 0 else if mode = ''safe_auto'' then 1
      else if mode = ''workspace_write'' then 2 else if mode = ''trusted_auto'' then 3 else 1)"

abbreviation arg_str :: "policy_context \<Rightarrow> string \<Rightarrow> string option" where
  "arg_str ctx key \<equiv> Option.bind (json_get key (pc_tool_args ctx)) as_str"

fun find_map :: "('a \<Rightarrow> 'b option) \<Rightarrow> 'a list \<Rightarrow> 'b option" where
  "find_map f [] = None"
| "find_map f (x # xs) = (case f x of Some y \<Rightarrow> Some y | None \<Rightarrow> find_map f xs)"

definition command_text :: "policy_context \<Rightarrow> string option" where
  "command_text ctx =
     (case find_map (arg_str ctx) [''command'', ''cmd'', ''script''] of
        None \<Rightarrow> None
      | Some value \<Rightarrow> (if trim value = [] then None else Some (trim value)))"

definition non_get_method :: "policy_context \<Rightarrow> bool" where
  "non_get_method ctx =
     (case arg_str ctx ''method'' of
        Some m \<Rightarrow> to_ascii_uppercase m \<notin> {''GET'', ''HEAD''}
      | None \<Rightarrow> False)"

definition has_external_side_effect :: "policy_context \<Rightarrow> bool" where
  "has_external_side_effect ctx =
     (let t = pc_tool_name ctx in
      if t \<in> set [''email'', ''notification'', ''pushover'', ''api_call'', ''register_api_tool'',
                 ''send_message''] then True
      else if t = ''http_request'' then non_get_method ctx
      else if t = ''mcp_session'' then arg_str ctx ''action'' = Some ''call_tool''
      else False)"

definition mutating_tools :: "string list" where
  "mutating_tools =
     [''file_write'', ''file_edit'', ''memory_store'', ''memory_forget'', ''git_operations'',
      ''api_call'', ''pushover'', ''schedule'', ''cron_add'', ''cron_update'', ''cron_remove'',
      ''run_registered_wasm'', ''code_run'', ''compress'', ''decompress'', ''image_process'',
      ''pdf_create'', ''spreadsheet_write'', ''email'', ''notification'', ''vector_store'',
      ''vector_delete'', ''delegate'', ''send_message'', ''enter_worktree'', ''exit_worktree'',
      ''create_workspace_tool'', ''task_create'', ''task_update'', ''task_stop'', ''task_output'']"

definition is_mutating_tool :: "policy_context \<Rightarrow> bool" where
  "is_mutating_tool ctx =
     (let t = pc_tool_name ctx in
      if t \<in> set mutating_tools then True
      else if t = ''message_inbox'' then
        arg_str ctx ''action'' \<in> {Some ''ack'', Some ''continue_worker''}
      else if t = ''mcp_session'' then arg_str ctx ''action'' = Some ''call_tool''
      else if t = ''http_request'' then non_get_method ctx
      else False)"

definition is_write_target :: "policy_context \<Rightarrow> string \<Rightarrow> bool" where
  "is_write_target ctx path = (is_mutating_tool ctx \<and> trim path \<noteq> [])"

section \<open>Paths of a call\<close>

definition path_keys :: "string list" where
  "path_keys = [''path'', ''paths'', ''output'', ''repo_path'', ''worktree_path'', ''workspace'',
     ''directory'', ''cwd'', ''root'']"

fun paths_at :: "string \<Rightarrow> json \<Rightarrow> string list" where
  "paths_at key (JString path) = (if key \<in> set path_keys then [trim path] else [])"
| "paths_at key (JArray items) =
     (if key \<in> set path_keys then map trim (List.map_filter as_str items) else [])"
| "paths_at key _ = []"

fun collect_paths :: "json \<Rightarrow> string list" where
  "collect_paths (JObject kvs) =
     concat (map (\<lambda>kv. paths_at (fst kv) (snd kv) @ collect_paths (snd kv)) kvs)"
| "collect_paths (JArray items) = concat (map collect_paths items)"
| "collect_paths _ = []"

definition target_paths :: "json \<Rightarrow> string list" where
  "target_paths args = remdups_adj (sort (filter (\<lambda>p. p \<noteq> []) (collect_paths args)))"

definition normalize_path :: "string \<Rightarrow> string" where
  "normalize_path path =
     to_ascii_lowercase
       (trim_end_matches CHR ''/'' (map (\<lambda>c. if c = CHR 0x5C then CHR ''/'' else c) (trim path)))"

definition contains_path_traversal :: "string \<Rightarrow> bool" where
  "contains_path_traversal path = list_ex (\<lambda>s. s = ''..'') (split_on CHR ''/'' path)"

definition looks_absolute_path :: "string \<Rightarrow> bool" where
  "looks_absolute_path path =
     (starts_with ''/'' path \<or> (1 < length path \<and> path ! 1 = CHR '':''))"

definition path_leaves_workspace :: "string \<Rightarrow> policy_context \<Rightarrow> bool" where
  "path_leaves_workspace path ctx =
     (let normalized = normalize_path path in
      if normalized = [] then False
      else if contains_path_traversal normalized then True
      else if \<not> looks_absolute_path normalized then False
      else case map_option normalize_path (pc_workspace_root ctx) of
             None \<Rightarrow> False
           | Some ws_root \<Rightarrow> ws_root \<noteq> [] \<and> \<not> starts_with ws_root normalized)"

definition protected_segments :: "string list" where
  "protected_segments = [''.git'', ''.env'', ''.ssh'', ''.aws'', ''.kube'', ''.claude'', ''.narayan'',
     ''id_rsa'', ''id_ed25519'', ''authorized_keys'', ''known_hosts'', ''credentials'']"

definition targets_protected_path :: "string \<Rightarrow> bool" where
  "targets_protected_path path =
     (normalize_path path \<noteq> []
      \<and> list_ex (\<lambda>segment. list_ex (eq_ignore_ascii_case segment) protected_segments)
          (split_on CHR ''/'' (normalize_path path)))"

section \<open>Shell commands\<close>

definition dangerous_patterns :: "(string \<times> string) list" where
  "dangerous_patterns =
     [(''git reset --hard'', ''git reset --hard is blocked by policy''),
      (''git checkout --'', ''git checkout -- is blocked by policy''),
      (''git clean -fd'', ''git clean -fd is blocked by policy''),
      (''rm -rf /'', ''rm -rf / is blocked by policy''),
      (''rm -rf ~'', ''rm -rf ~ is blocked by policy''),
      (''curl '', ''''),
      (''wget '', '''')]"

definition pattern_reason :: "string \<Rightarrow> string \<times> string \<Rightarrow> string option" where
  "pattern_reason lower pr =
     (case pr of (pattern, reason) \<Rightarrow>
        if str_contains pattern lower then
          (if pattern = ''curl '' \<or> pattern = ''wget '' then
             (if (str_contains ''| sh'' lower \<or> str_contains ''| bash'' lower)
                 \<and> str_contains pattern lower
              then Some ''remote shell bootstrap commands are blocked by policy'' else None)
           else Some reason)
        else None)"

definition dangerous_shell_reason :: "string \<Rightarrow> string option" where
  "dangerous_shell_reason command =
     (let lower = to_ascii_lowercase command in
      case find_map (pattern_reason lower) dangerous_patterns of
        Some reason \<Rightarrow> Some reason
      | None \<Rightarrow>
          if str_contains ''sudo '' lower \<or> starts_with ''sudo'' lower
          then Some ''sudo commands are blocked by policy'' else None)"

definition looks_destructive_shell_command :: "string \<Rightarrow> bool" where
  "looks_destructive_shell_command command =
     list_ex (\<lambda>pattern. str_contains pattern (to_ascii_lowercase command))
       [''rm -rf'', ''git reset'', ''git checkout --'', ''git clean'', ''chmod 777'', ''mv '', ''del '',
        ''remove-item'']"

section \<open>The engine\<close>

abbreviation below_trusted :: "policy_context \<Rightarrow> bool" where
  "below_trusted ctx \<equiv>
     permission_mode_ord (pc_permission_mode ctx) < permission_mode_ord ''trusted_auto''"

definition writes_outside :: "policy_context \<Rightarrow> bool" where
  "writes_outside ctx =
     list_ex (\<lambda>path. is_write_target ctx path \<and> path_leaves_workspace path ctx)
       (target_paths (pc_tool_args ctx))"

definition worktree_guard :: "policy_context \<Rightarrow> policy_decision option" where
  "worktree_guard ctx =
     (if pc_tool_name ctx \<in> {''enter_worktree'', ''exit_worktree''}
         \<and> Option.bind (json_get ''explicit_user_request'' (pc_tool_args ctx)) as_bool \<noteq> Some True
      then Some (Block ''builtin-worktree-explicit-only''
        ''worktree tools are explicit-use only and require explicit_user_request=true'')
      else None)"

definition shell_guard :: "policy_context \<Rightarrow> policy_decision option" where
  "shell_guard ctx =
     (case command_text ctx of
        None \<Rightarrow> None
      | Some command \<Rightarrow>
          (case dangerous_shell_reason command of
             Some reason \<Rightarrow> Some (Block ''builtin-dangerous-shell'' reason)
           | None \<Rightarrow>
               if looks_destructive_shell_command command \<and> below_trusted ctx
               then Some (RequireApproval ''builtin-destructive-shell''
                 ''destructive shell or git operations require explicit approval in this permission mode'')
               else None))"

definition evaluate_builtin_guards :: "policy_context \<Rightarrow> policy_decision option" where
  "evaluate_builtin_guards ctx =
     (case worktree_guard ctx of Some d \<Rightarrow> Some d | None \<Rightarrow>
     (case shell_guard ctx of Some d \<Rightarrow> Some d | None \<Rightarrow>
      if pc_permission_mode ctx = ''plan_only'' \<and> is_mutating_tool ctx then
        Some (RequireApproval ''builtin-plan-only-mutation''
          ''this role is in plan_only mode, so mutating tools require explicit approval'')
      else if pc_tool_pool ctx = ''coordinator'' \<and> is_mutating_tool ctx then
        Some (RequireApproval ''builtin-coordinator-mutation''
          ''coordinator-scoped roles should orchestrate rather than produce final artifacts directly'')
      else
        (case find targets_protected_path (target_paths (pc_tool_args ctx)) of
           Some path \<Rightarrow>
             Some (RequireApproval ''builtin-protected-path''
               (''tool call touches protected path '' @ [CHR 0x27] @ path @ [CHR 0x27]
                  @ '' and requires approval''))
         | None \<Rightarrow>
             if writes_outside ctx \<and> below_trusted ctx then
               Some (RequireApproval ''builtin-workspace-boundary''
                 ''write targets outside the current workspace require approval'')
             else if has_external_side_effect ctx \<and> below_trusted ctx then
               Some (RequireApproval ''builtin-external-side-effect''
                 ''external side effects require approval in the current permission mode'')
             else None)))"

fun matches_condition :: "externals \<Rightarrow> policy_context \<Rightarrow> policy_condition \<Rightarrow> bool" where
  "matches_condition ext ctx Always = True"
| "matches_condition ext ctx (ToolIs tool) = (pc_tool_name ctx = tool)"
| "matches_condition ext ctx (PlanIs p) = (pc_plan ctx = p)"
| "matches_condition ext ctx (PermissionModeIs mode) = (pc_permission_mode ctx = mode)"
| "matches_condition ext ctx (ToolPoolIs pool) = (pc_tool_pool ctx = pool)"
| "matches_condition ext ctx (RiskLevel min_level) = (risk_ord (pc_risk_level ctx) \<ge> risk_ord min_level)"
| "matches_condition ext ctx ExternalSideEffect = has_external_side_effect ctx"
| "matches_condition ext ctx ProtectedPathTouched =
     list_ex targets_protected_path (target_paths (pc_tool_args ctx))"
| "matches_condition ext ctx WritesOutsideWorkspace = writes_outside ctx"
| "matches_condition ext ctx (ArgThreshold fld mx) =
     (case Option.bind (json_get fld (pc_tool_args ctx)) as_f64 of Some v \<Rightarrow> v > mx | None \<Rightarrow> False)"
| "matches_condition ext ctx (ArgsMatch pattern) =
     (case regex_new ext pattern of
        Some is_match \<Rightarrow> is_match (json_to_string ext (pc_tool_args ctx))
      | None \<Rightarrow> False)"
| "matches_condition ext ctx (AllOf conditions) = list_all (matches_condition ext ctx) conditions"
| "matches_condition ext ctx (AnyOf conditions) = list_ex (matches_condition ext ctx) conditions"

definition evaluate_rule :: "externals \<Rightarrow> policy_context \<Rightarrow> policy_rule \<Rightarrow> policy_decision option" where
  "evaluate_rule ext ctx rule =
     (if rule_tools rule \<noteq> [] \<and> pc_tool_name ctx \<notin> set (rule_tools rule) then None
      else if \<not> matches_condition ext ctx (rule_condition rule) then None
      else Some
        (case rule_action rule of
           ActAllow \<Rightarrow> Allow
         | ActBlock reason \<Rightarrow> Block (rule_id rule) reason
         | ActRequireApproval message \<Rightarrow> RequireApproval (rule_id rule) message
         | ActRedact flds \<Rightarrow> Redact (rule_id rule) flds
         | ActDowngrade to_model \<Rightarrow> Downgrade (rule_id rule) to_model))"

definition evaluate_rules ::
  "externals \<Rightarrow> policy_context \<Rightarrow> policy_rule list \<Rightarrow> policy_decision option" where
  "evaluate_rules ext ctx rules =
     find_map (\<lambda>rule. if \<not> rule_enabled rule then None else evaluate_rule ext ctx rule) rules"

definition evaluate :: "externals \<Rightarrow> policy_context \<Rightarrow> policy_rule_set \<Rightarrow> policy_decision" where
  "evaluate ext ctx tenant_rules =
     (case evaluate_builtin_guards ctx of Some d \<Rightarrow> d | None \<Rightarrow>
     (case evaluate_rules ext ctx platform_defaults of Some d \<Rightarrow> d | None \<Rightarrow>
     (case evaluate_rules ext ctx (rs_rules tenant_rules) of Some d \<Rightarrow> d | None \<Rightarrow> Allow)))"

section \<open>What the guards catch never proceeds\<close>

text \<open>The call runs at once, with or without a redaction or another model.\<close>

fun proceeds :: "policy_decision \<Rightarrow> bool" where
  "proceeds (Block _ _) = False"
| "proceeds (RequireApproval _ _) = False"
| "proceeds _ = True"

lemma guards_never_proceed: "evaluate_builtin_guards ctx = Some d \<Longrightarrow> \<not> proceeds d"
  unfolding evaluate_builtin_guards_def worktree_guard_def shell_guard_def
  by (auto split: option.splits if_splits)

lemma evaluate_guarded:
  "evaluate_builtin_guards ctx = Some d \<Longrightarrow> evaluate ext ctx rules = d"
  by (simp add: evaluate_def)

lemma list_ex_find: "list_ex P xs \<longleftrightarrow> find P xs \<noteq> None"
  by (simp only: find_None_iff list_ex_iff) blast

lemma guard_fires:
  assumes "(worktree_guard ctx \<noteq> None) \<or> (shell_guard ctx \<noteq> None)
    \<or> is_mutating_tool ctx \<and> (pc_permission_mode ctx = ''plan_only'' \<or> pc_tool_pool ctx = ''coordinator'')
    \<or> list_ex targets_protected_path (target_paths (pc_tool_args ctx))
    \<or> below_trusted ctx \<and> (writes_outside ctx \<or> has_external_side_effect ctx)"
  shows "evaluate_builtin_guards ctx \<noteq> None"
  using assms unfolding evaluate_builtin_guards_def list_ex_find
  by (auto split: option.splits if_splits)


text \<open>C27: a critical tool never proceeds, and a free plan never gets the infrastructure tools,
  whatever rules the tenant has.\<close>

theorem platform_rules_hold:
  assumes "pc_risk_level ctx = ''critical''
    \<or> pc_plan ctx = ''free'' \<and> pc_tool_name ctx \<in> {''docker'', ''kubernetes''}"
  shows "\<not> proceeds (evaluate ext ctx tenant_rules)"
proof (cases "evaluate_builtin_guards ctx")
  case None
  then show ?thesis
    using assms
    by (auto simp: evaluate_def evaluate_rules_def platform_defaults_def evaluate_rule_def risk_ord_def)
next
  case (Some d)
  then show ?thesis using guards_never_proceed evaluate_guarded by fastforce
qed

text \<open>C29: a tenant cannot weaken the platform: a decision other than plain permission that the
  engine takes without tenant rules is the decision under every set of tenant rules.\<close>

theorem tenant_cannot_weaken:
  assumes "evaluate ext ctx (rule_set_new tenant) \<noteq> Allow"
  shows "evaluate ext ctx tenant_rules = evaluate ext ctx (rule_set_new tenant)"
  using assms by (auto simp: evaluate_def rule_set_new_def evaluate_rules_def split: option.splits)

section \<open>The engine sees every path\<close>

text \<open>A text is mentioned under one of the keys \<open>K\<close>, alone or in an array, at any depth.\<close>

inductive mentions_under :: "string set \<Rightarrow> json \<Rightarrow> string \<Rightarrow> bool" for K where
  own: "(k, JString p) \<in> set kvs \<Longrightarrow> k \<in> K \<Longrightarrow> mentions_under K (JObject kvs) p"
| listed: "(k, JArray ps) \<in> set kvs \<Longrightarrow> k \<in> K \<Longrightarrow> JString p \<in> set ps \<Longrightarrow>
     mentions_under K (JObject kvs) p"
| inside: "(k, v) \<in> set kvs \<Longrightarrow> mentions_under K v p \<Longrightarrow> mentions_under K (JObject kvs) p"
| element: "v \<in> set xs \<Longrightarrow> mentions_under K v p \<Longrightarrow> mentions_under K (JArray xs) p"

abbreviation mentions_path :: "json \<Rightarrow> string \<Rightarrow> bool" where
  "mentions_path \<equiv> mentions_under (set path_keys)"

lemma as_str_eq_Some: "as_str j = Some s \<longleftrightarrow> j = JString s"
  by (cases j) auto

lemma set_map_filter: "y \<in> set (List.map_filter f xs) \<longleftrightarrow> (\<exists>x\<in>set xs. f x = Some y)"
  by (induction xs) (auto split: option.splits)

lemma paths_at_iff: "q \<in> set (paths_at k v) \<longleftrightarrow> k \<in> set path_keys \<and>
    (\<exists>p. q = trim p \<and> (v = JString p \<or> (\<exists>ps. v = JArray ps \<and> JString p \<in> set ps)))"
  by (cases v) (auto simp: set_map_filter as_str_eq_Some image_iff)

lemma collect_paths_sound: "q \<in> set (collect_paths v) \<Longrightarrow> \<exists>p. mentions_path v p \<and> q = trim p"
proof (induction v rule: collect_paths.induct)
  case (1 kvs)
  then obtain k v where kv: "(k, v) \<in> set kvs" "q \<in> set (paths_at k v) \<or> q \<in> set (collect_paths v)"
    by auto
  then show ?case
    using "1.IH" [of "(k, v)"] by (auto simp: paths_at_iff intro: mentions_under.intros)
next
  case (2 items)
  then obtain v where "v \<in> set items" "q \<in> set (collect_paths v)" by auto
  with "2.IH" show ?case by (metis mentions_under.element)
qed auto

lemma collect_paths_complete: "mentions_path v p \<Longrightarrow> trim p \<in> set (collect_paths v)"
proof (induction rule: mentions_under.induct)
  case (own k p kvs)
  then show ?case by (force simp: paths_at_iff)
next
  case (listed k ps kvs p)
  then show ?case by (force simp: paths_at_iff)
qed force+

text \<open>C33: the paths that the engine inspects are exactly the nonempty trimmed texts that the arguments hold under
  one of nine keys, alone or in an array, at any depth, in ascending order and without repetition.\<close>

theorem target_paths_complete:
  "set (target_paths args) = {trim p | p. trim p \<noteq> []
     \<and> mentions_under {''path'', ''paths'', ''output'', ''repo_path'', ''worktree_path'', ''workspace'', ''directory'',
         ''cwd'', ''root''} args p}
   \<and> sorted (target_paths args) \<and> distinct (target_paths args)"
proof -
  have "set path_keys = {''path'', ''paths'', ''output'', ''repo_path'', ''worktree_path'', ''workspace'',
      ''directory'', ''cwd'', ''root''}" by (simp add: path_keys_def)
  then show ?thesis
    using collect_paths_sound collect_paths_complete
    by (fastforce simp: target_paths_def sorted_distinct_dedup)
qed

section \<open>Gaps of the guards\<close>

text \<open>A path under any other key is not inspected, for instance the directory that \<open>decompress\<close>
  unpacks into, or the input of \<open>crypto\<close>.\<close>

theorem other_keys_not_inspected:
  "target_paths (JObject [(''output_dir'', JString p)]) = [] \<and> target_paths (JObject [(''file'', JString p)]) = []"
  by (simp add: target_paths_def path_keys_def)

text \<open>The workspace test is textual: a path that extends the text of the workspace root counts
  as inside, also where it names a sibling directory such as \<open>/ws-other\<close> of the root \<open>/ws\<close>.\<close>

theorem workspace_prefix_escape:
  assumes "pc_workspace_root ctx = Some ws" and "normalize_path path = normalize_path ws @ rest"
    and "\<not> contains_path_traversal (normalize_path path)"
  shows "\<not> path_leaves_workspace path ctx"
  using assms by (simp add: path_leaves_workspace_def Let_def)

text \<open>Only the first of the keys \<open>command\<close>, \<open>cmd\<close> and \<open>script\<close> that holds a text is examined: a
  blank \<open>command\<close> hides whatever the other two hold from the shell guard.\<close>

theorem blank_command_hides_script:
  assumes "json_get ''command'' (pc_tool_args ctx) = Some (JString c)" and "trim c = []"
  shows "shell_guard ctx = None"
  using assms by (simp add: shell_guard_def command_text_def)

section \<open>Concrete calls\<close>

definition sample_call :: "string \<Rightarrow> string \<Rightarrow> string \<Rightarrow> json \<Rightarrow> policy_context" where
  "sample_call tool risk mode args = \<lparr>pc_tenant_id = ''t'', pc_agent_id = ''a'', pc_tool_name = tool,
     pc_tool_args = args, pc_plan = ''pro'', pc_risk_level = risk, pc_permission_mode = mode,
     pc_tool_pool = ''worker'', pc_workspace_root = Some ''/ws''\<rparr>"

definition permissive :: policy_rule_set where
  "permissive = \<lparr>rs_tenant_id = ''t'', rs_rules = [\<lparr>rule_id = ''r'', rule_name = ''r'', rule_tools = [],
     rule_condition = Always, rule_action = ActAllow, rule_enabled = True\<rparr>]\<rparr>"


theorem platform_rules_hold_witness:
  "\<not> proceeds (evaluate sample_ext (sample_call ''x'' ''critical'' ''trusted_auto'' JNull) permissive)"
  by (rule platform_rules_hold) (simp add: sample_call_def)

theorem tenant_cannot_weaken_witness:
  "evaluate sample_ext (sample_call ''email'' ''low'' ''safe_auto'' JNull) permissive \<noteq> Allow"
proof -
  let ?c = "sample_call ''email'' ''low'' ''safe_auto'' JNull"
  have "evaluate sample_ext ?c (rule_set_new ''t'') \<noteq> Allow"
    by (simp add: evaluate_def evaluate_builtin_guards_def worktree_guard_def shell_guard_def
        command_text_def has_external_side_effect_def target_paths_def sample_call_def
        writes_outside_def permission_mode_ord_def)
  with tenant_cannot_weaken [OF this, of permissive] show ?thesis by simp
qed

lemma normalize_plain:
  "normalize_path ''/ws'' = ''/ws''" "normalize_path ''/ws-other/f'' = ''/ws-other/f''"
  by (simp_all add: normalize_path_def trim_visible visible_def byte_of_def trim_end_matches_def
      to_ascii_lowercase_def ascii_lower_def)

theorem workspace_prefix_escape_witness:
  "\<not> path_leaves_workspace ''/ws-other/f'' (sample_call ''file_write'' ''low'' ''safe_auto'' JNull)"
  using workspace_prefix_escape [of "sample_call ''file_write'' ''low'' ''safe_auto'' JNull" "''/ws''"
      "''/ws-other/f''" "''-other/f''"]
  by (simp add: normalize_plain sample_call_def contains_path_traversal_def)

theorem blank_command_hides_script_witness:
  "shell_guard (sample_call ''shell'' ''low'' ''safe_auto''
     (JObject [(''cmd'', JString ''rm -rf /''), (''command'', JString [])])) = None"
  by (rule blank_command_hides_script [where c = "[]"])
    (simp_all add: sample_call_def trim_def trim_start_def trim_end_def drop_any_fixed)

end
