(* ===== verification/Queue.thy ===== *)
theory Queue
  imports Prelude
begin

text \<open>
  The task queue of the scheduler (\<open>scheduler/queue.rs\<close>): the trait \<open>Queue\<close> as a locale, and its
  two implementations, the in-memory deque and the Redis lists of \<open>storage/redis.rs\<close>, as
  interpretations.  The Redis commands act on two lists of payloads, the waiting tasks and the
  tasks under way; the JSON encoding of a task is an argument.
\<close>

record execution_task =
  task_id :: string
  task_agent_id :: string
  task_attempt :: nat
  task_enqueued_at :: time

definition task_new :: "string \<Rightarrow> string \<Rightarrow> time \<Rightarrow> execution_task" where
  "task_new uuid agent_id now =
     \<lparr>task_id = uuid, task_agent_id = agent_id, task_attempt = 0, task_enqueued_at = now\<rparr>"

definition with_attempt :: "nat \<Rightarrow> execution_task \<Rightarrow> execution_task" where
  "with_attempt n t = t\<lparr>task_attempt := n\<rparr>"

section \<open>In memory\<close>

type_synonym memory_queue = "execution_task list"

definition mem_enqueue :: "execution_task \<Rightarrow> memory_queue \<Rightarrow> memory_queue" where
  "mem_enqueue task q = q @ [task]"

fun mem_dequeue :: "memory_queue \<Rightarrow> execution_task option \<times> memory_queue" where
  "mem_dequeue [] = (None, [])"
| "mem_dequeue (task # q) = (Some task, q)"

definition mem_ack :: "execution_task \<Rightarrow> memory_queue \<Rightarrow> memory_queue" where
  "mem_ack task q = q"

definition mem_retry :: "execution_task \<Rightarrow> memory_queue \<Rightarrow> memory_queue" where
  "mem_retry task q = task # q"

definition mem_depth :: "memory_queue \<Rightarrow> nat" where
  "mem_depth q = length q"

section \<open>Redis\<close>

text \<open>\<open>rq_queue\<close> and \<open>rq_processing\<close> are the lists under the two keys; \<open>RPUSH\<close> appends, \<open>LPUSH\<close>
  prepends, \<open>BLPOP\<close> takes the first element (or times out), \<open>LREM key 1 x\<close> removes the first
  occurrence of \<open>x\<close>.\<close>

record 'p redis_queue =
  rq_queue :: "'p list"
  rq_processing :: "'p list"

definition redis_enqueue :: "(execution_task \<Rightarrow> 'p) \<Rightarrow> execution_task \<Rightarrow> 'p redis_queue \<Rightarrow> 'p redis_queue" where
  "redis_enqueue enc task q = q\<lparr>rq_queue := rq_queue q @ [enc task]\<rparr>"

text \<open>The result is \<open>Inl ()\<close> when the payload does not decode: the task has then been moved to the
  processing list.\<close>

definition redis_dequeue ::
  "('p \<Rightarrow> execution_task option) \<Rightarrow> 'p redis_queue \<Rightarrow> (unit, execution_task option) result \<times> 'p redis_queue" where
  "redis_dequeue dec q =
     (case rq_queue q of
        [] \<Rightarrow> (Inr None, q)
      | payload # rest \<Rightarrow>
          (case dec payload of Some task \<Rightarrow> Inr (Some task) | None \<Rightarrow> Inl (),
           q\<lparr>rq_queue := rest, rq_processing := rq_processing q @ [payload]\<rparr>))"

definition redis_ack :: "(execution_task \<Rightarrow> 'p) \<Rightarrow> execution_task \<Rightarrow> 'p redis_queue \<Rightarrow> 'p redis_queue" where
  "redis_ack enc task q = q\<lparr>rq_processing := remove1 (enc task) (rq_processing q)\<rparr>"

definition redis_retry :: "(execution_task \<Rightarrow> 'p) \<Rightarrow> execution_task \<Rightarrow> 'p redis_queue \<Rightarrow> 'p redis_queue" where
  "redis_retry enc task q =
     q\<lparr>rq_processing := remove1 (enc task) (rq_processing q), rq_queue := enc task # rq_queue q\<rparr>"

definition redis_depth :: "'p redis_queue \<Rightarrow> nat" where
  "redis_depth q = length (rq_queue q)"

section \<open>The interface\<close>

text \<open>Taking at most \<open>n\<close> tasks, one after the other, until the queue is empty.\<close>

fun drain :: "('q \<Rightarrow> 't option \<times> 'q) \<Rightarrow> nat \<Rightarrow> 'q \<Rightarrow> 't list" where
  "drain deq 0 q = []"
| "drain deq (Suc n) q =
     (case deq q of (None, _) \<Rightarrow> [] | (Some t, q') \<Rightarrow> t # drain deq n q')"

locale task_queue =
  fixes waiting :: "'q \<Rightarrow> 't list"
    and enqueue :: "'t \<Rightarrow> 'q \<Rightarrow> 'q"
    and dequeue :: "'q \<Rightarrow> 't option \<times> 'q"
    and ack :: "'t \<Rightarrow> 'q \<Rightarrow> 'q"
    and retry :: "'t \<Rightarrow> 'q \<Rightarrow> 'q"
    and depth :: "'q \<Rightarrow> nat"
    and valid :: "'q \<Rightarrow> bool"
  assumes waiting_enqueue: "valid q \<Longrightarrow> waiting (enqueue t q) = waiting q @ [t]"
    and dequeue_empty: "valid q \<Longrightarrow> waiting q = [] \<Longrightarrow> fst (dequeue q) = None"
    and dequeue_first: "valid q \<Longrightarrow> waiting q = t # ts \<Longrightarrow>
      fst (dequeue q) = Some t \<and> waiting (snd (dequeue q)) = ts"
    and waiting_ack: "valid q \<Longrightarrow> waiting (ack t q) = waiting q"
    and waiting_retry: "valid q \<Longrightarrow> waiting (retry t q) = t # waiting q"
    and depth_waiting: "valid q \<Longrightarrow> depth q = length (waiting q)"
    and valid_enqueue: "valid q \<Longrightarrow> valid (enqueue t q)"
    and valid_dequeue: "valid q \<Longrightarrow> valid (snd (dequeue q))"
    and valid_retry: "valid q \<Longrightarrow> valid (retry t q)"
begin

lemma drain_waiting: "valid q \<Longrightarrow> drain dequeue n q = take n (waiting q)"
proof (induction n arbitrary: q)
  case (Suc n)
  show ?case
  proof (cases "waiting q")
    case Nil
    with Suc.prems dequeue_empty [of q] show ?thesis by (cases "dequeue q") auto
  next
    case (Cons t ts)
    with Suc.prems dequeue_first [of q t ts] valid_dequeue [of q] Suc.IH [of "snd (dequeue q)"]
    show ?thesis by (cases "dequeue q") auto
  qed
qed simp

lemma valid_fold_enqueue: "valid q \<Longrightarrow> valid (fold enqueue ts q)"
  by (induction ts arbitrary: q) (simp_all add: valid_enqueue)

lemma waiting_fold_enqueue: "valid q \<Longrightarrow> waiting (fold enqueue ts q) = waiting q @ ts"
  by (induction ts arbitrary: q) (simp_all add: waiting_enqueue valid_enqueue)

text \<open>First in, first out, with a retried task before all others.\<close>

lemma fifo_retry_first:
  assumes "valid q" "waiting q = []" "length ts < n"
  shows "drain dequeue n (retry t (fold enqueue ts q)) = t # ts"
    and "depth (retry t (fold enqueue ts q)) = Suc (length ts)"
  using assms drain_waiting [OF valid_retry [OF valid_fold_enqueue [OF assms(1)]], of n t ts]
  by (simp_all add: waiting_retry waiting_fold_enqueue valid_fold_enqueue depth_waiting valid_retry)

end

section \<open>Both backends keep the contract\<close>

interpretation mem: task_queue "\<lambda>q. q" mem_enqueue mem_dequeue mem_ack mem_retry mem_depth "\<lambda>_. True"
proof unfold_locales
  fix q :: memory_queue and t ts
  show "q = [] \<Longrightarrow> fst (mem_dequeue q) = None" by simp
  show "q = t # ts \<Longrightarrow> fst (mem_dequeue q) = Some t \<and> snd (mem_dequeue q) = ts" by simp
qed (simp_all add: mem_enqueue_def mem_ack_def mem_retry_def mem_depth_def)

text \<open>The tasks of a Redis queue; those that do not decode do not count.\<close>

definition redis_waiting :: "('p \<Rightarrow> execution_task option) \<Rightarrow> 'p redis_queue \<Rightarrow> execution_task list" where
  "redis_waiting dec q = List.map_filter dec (rq_queue q)"

definition redis_valid :: "(execution_task \<Rightarrow> 'p) \<Rightarrow> ('p \<Rightarrow> execution_task option) \<Rightarrow> 'p redis_queue \<Rightarrow> bool" where
  "redis_valid enc dec q \<longleftrightarrow> (\<forall>t. dec (enc t) = Some t) \<and> (\<forall>p\<in>set (rq_queue q). dec p \<noteq> None)"

definition redis_take ::
  "('p \<Rightarrow> execution_task option) \<Rightarrow> 'p redis_queue \<Rightarrow> execution_task option \<times> 'p redis_queue" where
  "redis_take dec q =
     (case redis_dequeue dec q of (Inr t, q') \<Rightarrow> (t, q') | (Inl _, q') \<Rightarrow> (None, q'))"

lemma redis_valid_head: "redis_valid enc dec q \<Longrightarrow> rq_queue q = p # ps \<Longrightarrow> \<exists>t. dec p = Some t"
  by (auto simp: redis_valid_def)

interpretation redis: task_queue "redis_waiting dec" "redis_enqueue enc" "redis_take dec"
  "redis_ack enc" "redis_retry enc" redis_depth "redis_valid enc dec" for enc dec
proof unfold_locales
  fix q :: "'a redis_queue" and t ts
  assume v: "redis_valid enc dec q"
  show "redis_waiting dec (redis_enqueue enc t q) = redis_waiting dec q @ [t]"
    using v by (simp add: redis_waiting_def redis_enqueue_def redis_valid_def map_filter_def)
  show "redis_waiting dec q = [] \<Longrightarrow> fst (redis_take dec q) = None"
    using v by (cases "rq_queue q")
      (auto simp: redis_waiting_def redis_take_def redis_dequeue_def dest!: redis_valid_head)
  show "redis_waiting dec q = t # ts \<Longrightarrow>
      fst (redis_take dec q) = Some t \<and> redis_waiting dec (snd (redis_take dec q)) = ts"
    using v by (cases "rq_queue q")
      (auto simp: redis_waiting_def redis_take_def redis_dequeue_def dest!: redis_valid_head)
  show "redis_waiting dec (redis_ack enc t q) = redis_waiting dec q"
    by (simp add: redis_waiting_def redis_ack_def)
  show "redis_waiting dec (redis_retry enc t q) = t # redis_waiting dec q"
    using v by (simp add: redis_waiting_def redis_retry_def redis_valid_def)
  show "redis_depth q = length (redis_waiting dec q)"
  proof -
    have "\<forall>p\<in>set ps. dec p \<noteq> None \<Longrightarrow> length (List.map_filter dec ps) = length ps" for ps
      by (induction ps) auto
    then show ?thesis using v by (simp add: redis_depth_def redis_waiting_def redis_valid_def)
  qed
  show "redis_valid enc dec (redis_enqueue enc t q)" "redis_valid enc dec (redis_retry enc t q)"
    using v by (auto simp: redis_valid_def redis_enqueue_def redis_retry_def)
  show "redis_valid enc dec (snd (redis_take dec q))"
    using v by (auto simp: redis_valid_def redis_take_def redis_dequeue_def split: list.splits option.splits)
qed

section \<open>Properties\<close>

text \<open>C37: both backends are first-in first-out queues with priority for retries: tasks that are
  enqueued on an empty queue are delivered in their order, after a task that was put back, and
  the depth is the number of waiting tasks.\<close>

theorem queues_are_fifo:
  assumes "rq_queue q = []" and "\<And>t. dec (enc t) = Some t" and "length ts < n"
  shows "drain mem_dequeue n (mem_retry t (fold mem_enqueue ts [])) = t # ts
    \<and> drain (redis_take dec) n (redis_retry enc t (fold (redis_enqueue enc) ts q)) = t # ts
    \<and> mem_depth (mem_retry t (fold mem_enqueue ts [])) = Suc (length ts)
    \<and> redis_depth (redis_retry enc t (fold (redis_enqueue enc) ts q)) = Suc (length ts)"
proof -
  have "redis_valid enc dec q" "redis_waiting dec q = []"
    using assms(1,2) by (simp_all add: redis_valid_def redis_waiting_def)
  then show ?thesis
    using mem.fifo_retry_first [of "[]" ts n t] redis.fifo_retry_first [of enc dec q ts n t] assms(3)
    by simp
qed

text \<open>A task that the worker puts back with a higher attempt number stays in the Redis list of
  tasks under way: the payload that is removed from it is the new one, which is not there.\<close>

theorem redis_retry_leaks:
  assumes "redis_dequeue dec q = (Inr (Some t), q')" and "dec (enc t) = Some t"
    and "enc (with_attempt (Suc (task_attempt t)) t) \<notin> set (rq_processing q')"
  shows "rq_processing (redis_retry enc (with_attempt (Suc (task_attempt t)) t) q') = rq_processing q'
    \<and> (\<exists>payload. dec payload = Some t \<and> rq_processing q' = rq_processing q @ [payload])"
  using assms
  by (auto simp: redis_retry_def redis_dequeue_def remove1_idem split: list.splits option.splits)

section \<open>Concrete queues\<close>

definition sample_task :: execution_task where
  "sample_task = task_new ''u'' ''a'' 0"

theorem queues_are_fifo_witness:
  "drain mem_dequeue 3 (mem_retry (with_attempt 1 sample_task) (fold mem_enqueue [sample_task] []))
     = [with_attempt 1 sample_task, sample_task]
   \<and> drain (redis_take Some) 3 (redis_retry id (with_attempt 1 sample_task)
         (fold (redis_enqueue id) [sample_task] \<lparr>rq_queue = [], rq_processing = []\<rparr>))
     = [with_attempt 1 sample_task, sample_task]"
  using queues_are_fifo [of "\<lparr>rq_queue = [], rq_processing = []\<rparr>" Some id "[sample_task]" 3
      "with_attempt 1 sample_task"] by simp

theorem redis_retry_leaks_witness:
  "rq_processing (redis_retry id (with_attempt 1 sample_task) \<lparr>rq_queue = [], rq_processing = [sample_task]\<rparr>)
     = [sample_task]"
  using redis_retry_leaks [of Some "\<lparr>rq_queue = [sample_task], rq_processing = []\<rparr>" sample_task
      "\<lparr>rq_queue = [], rq_processing = [sample_task]\<rparr>" id]
  by (simp add: redis_dequeue_def with_attempt_def sample_task_def task_new_def)

end
