(* ===== verification/Gateway.thy ===== *)
theory Gateway
  imports Complex_Main Rust_Str "HOL-Library.Word" "HOL-Library.AList"
begin

text \<open>
  The gateway in front of the model providers: the token buckets of \<open>gateway/limiter.rs\<close> and the
  response cache of \<open>gateway/cache.rs\<close>.  Instants are seconds (rational numbers), the numbers of
  a bucket are rational: the rounding of binary64 arithmetic is not modelled.  The map of the
  cache is the list of its entries in iteration order.
\<close>

section \<open>Token buckets\<close>

type_synonym instant = rat

record bucket =
  bk_tokens :: rat
  bk_capacity :: rat
  bk_refill_per_sec :: rat
  bk_last_refill :: instant

definition bucket_new :: "rat \<Rightarrow> rat \<Rightarrow> instant \<Rightarrow> bucket" where
  "bucket_new capacity refill_per_sec now = \<lparr>bk_tokens = capacity, bk_capacity = capacity,
     bk_refill_per_sec = refill_per_sec, bk_last_refill = now\<rparr>"

definition refill :: "instant \<Rightarrow> bucket \<Rightarrow> bucket" where
  "refill now b =
     b\<lparr>bk_tokens := min (bk_tokens b + (now - bk_last_refill b) * bk_refill_per_sec b) (bk_capacity b),
       bk_last_refill := now\<rparr>"

definition try_consume :: "instant \<Rightarrow> rat \<Rightarrow> bucket \<Rightarrow> bool \<times> bucket" where
  "try_consume now cost b =
     (let b' = refill now b
      in if bk_tokens b' \<ge> cost then (True, b'\<lparr>bk_tokens := bk_tokens b' - cost\<rparr>) else (False, b'))"

definition wait_secs :: "instant \<Rightarrow> rat \<Rightarrow> bucket \<Rightarrow> rat \<times> bucket" where
  "wait_secs now cost b =
     (let b' = refill now b
      in (if bk_tokens b' \<ge> cost then 0 else (cost - bk_tokens b') / bk_refill_per_sec b', b'))"

record provider_limits =
  requests_per_sec :: rat
  burst :: rat

definition default_limits :: provider_limits where
  "default_limits = \<lparr>requests_per_sec = 10, burst = 20\<rparr>"

type_synonym rate_limiter = "string \<Rightarrow> bucket option"

definition limiter_new :: "(string \<rightharpoonup> provider_limits) \<Rightarrow> instant \<Rightarrow> rate_limiter" where
  "limiter_new limits now name =
     map_option (\<lambda>l. bucket_new (burst l) (requests_per_sec l) now) (limits name)"

definition with_defaults :: "string list \<Rightarrow> instant \<Rightarrow> rate_limiter" where
  "with_defaults names = limiter_new (\<lambda>n. if n \<in> set names then Some default_limits else None)"

definition try_acquire :: "instant \<Rightarrow> string \<Rightarrow> rate_limiter \<Rightarrow> bool \<times> rate_limiter" where
  "try_acquire now provider l =
     (case l provider of
        None \<Rightarrow> (True, l)
      | Some b \<Rightarrow> (case try_consume now 1 b of (ok, b') \<Rightarrow> (ok, l(provider \<mapsto> b'))))"

text \<open>One pass of the loop of \<open>acquire\<close>: a slot (\<open>None\<close>), or the time to sleep.\<close>

definition acquire_pass :: "instant \<Rightarrow> bucket \<Rightarrow> rat option \<times> bucket" where
  "acquire_pass now b =
     (case try_consume now 1 b of
        (True, b') \<Rightarrow> (None, b')
      | (False, b') \<Rightarrow> (case wait_secs now 1 b' of (w, b'') \<Rightarrow> (Some w, b'')))"

section \<open>Response cache\<close>

record 'r cache_entry =
  ce_response :: 'r
  ce_inserted_at :: instant
  ce_ttl :: rat

definition is_expired :: "instant \<Rightarrow> 'r cache_entry \<Rightarrow> bool" where
  "is_expired now e = (now - ce_inserted_at e > ce_ttl e)"

record 'r response_cache =
  rc_entries :: "(string \<times> 'r cache_entry) list"
  rc_default_ttl :: rat
  rc_max_entries :: nat

definition cache_new :: "nat \<Rightarrow> nat \<Rightarrow> 'r response_cache" where
  "cache_new default_ttl_secs max_entries =
     \<lparr>rc_entries = [], rc_default_ttl = of_nat default_ttl_secs, rc_max_entries = max_entries\<rparr>"

definition cache_get :: "instant \<Rightarrow> string \<Rightarrow> 'r response_cache \<Rightarrow> 'r option" where
  "cache_get now key c =
     (case map_of (rc_entries c) key of
        None \<Rightarrow> None
      | Some e \<Rightarrow> if is_expired now e then None else Some (ce_response e))"

text \<open>\<open>min_by_key\<close>: the first entry with the least time of insertion.\<close>

fun oldest_key :: "(string \<times> 'r cache_entry) list \<Rightarrow> string option" where
  "oldest_key [] = None"
| "oldest_key [(k, e)] = Some k"
| "oldest_key ((k, e) # (k', e') # es) =
     (if ce_inserted_at e \<le> ce_inserted_at e' then oldest_key ((k, e) # es)
      else oldest_key ((k', e') # es))"

definition cache_set :: "instant \<Rightarrow> string \<Rightarrow> 'r \<Rightarrow> 'r response_cache \<Rightarrow> 'r response_cache" where
  "cache_set now key response c =
     (let live = filter (\<lambda>(k, e). \<not> is_expired now e) (rc_entries c);
          kept = (if length live \<ge> rc_max_entries c then
                    (case oldest_key live of
                       Some k \<Rightarrow> filter (\<lambda>(k', e). k' \<noteq> k) live
                     | None \<Rightarrow> live)
                  else live)
      in c\<lparr>rc_entries := AList.update key
             \<lparr>ce_response = response, ce_inserted_at = now, ce_ttl = rc_default_ttl c\<rparr> kept\<rparr>)"

definition invalidate_prefix :: "string \<Rightarrow> 'r response_cache \<Rightarrow> 'r response_cache" where
  "invalidate_prefix p c = c\<lparr>rc_entries := filter (\<lambda>(k, e). \<not> starts_with p k) (rc_entries c)\<rparr>"

definition cache_size :: "'r response_cache \<Rightarrow> nat" where
  "cache_size c = length (rc_entries c)"

definition make_cache_key :: "string \<Rightarrow> string \<Rightarrow> string" where
  "make_cache_key agent_id messages_hash = agent_id @ '':'' @ messages_hash"

definition djb2 :: "string \<Rightarrow> 64 word" where
  "djb2 input = fold (\<lambda>c h. h * 33 + of_nat (byte_of c)) input 5381"

definition hex_digit :: "nat \<Rightarrow> char" where
  "hex_digit d = (if d < 10 then char_of (48 + d) else char_of (87 + d))"

definition hex16 :: "64 word \<Rightarrow> string" where
  "hex16 w = map (\<lambda>i. hex_digit (unat w div 16 ^ (15 - i) mod 16)) [0..<16]"

definition hash_str :: "string \<Rightarrow> string" where
  "hash_str input = hex16 (djb2 input)"

section \<open>The rate is bounded\<close>

text \<open>The number of requests granted at a sequence of instants.\<close>

fun granted :: "instant list \<Rightarrow> bucket \<Rightarrow> nat" where
  "granted [] b = 0"
| "granted (t # ts) b =
     (case try_consume t 1 b of (ok, b') \<Rightarrow> (if ok then Suc (granted ts b') else granted ts b'))"

definition bucket_ok :: "bucket \<Rightarrow> bool" where
  "bucket_ok b \<longleftrightarrow> 0 \<le> bk_tokens b \<and> bk_tokens b \<le> bk_capacity b \<and> 0 \<le> bk_refill_per_sec b"

lemma try_consume_frame:
  assumes "try_consume t c b = (ok, b')"
  shows "bk_capacity b' = bk_capacity b" "bk_refill_per_sec b' = bk_refill_per_sec b"
    "bk_last_refill b' = t"
  using assms by (auto simp: try_consume_def refill_def Let_def split: if_splits)

lemma try_consume_tokens:
  assumes "try_consume t c b = (ok, b')"
  shows "bk_tokens b' + (if ok then c else 0)
    = min (bk_tokens b + (t - bk_last_refill b) * bk_refill_per_sec b) (bk_capacity b)"
  using assms by (auto simp: try_consume_def refill_def Let_def split: if_splits)

lemma try_consume_ok:
  assumes "bucket_ok b" "bk_last_refill b \<le> t" "0 \<le> c" "try_consume t c b = (ok, b')"
  shows "bucket_ok b'"
proof -
  have "0 \<le> (t - bk_last_refill b) * bk_refill_per_sec b"
    using assms(1,2) by (simp add: bucket_ok_def)
  with assms show ?thesis
    by (auto simp: bucket_ok_def try_consume_def refill_def Let_def split: if_splits)
qed

lemma granted_bound:
  assumes "bucket_ok b" "sorted (bk_last_refill b # ts)"
  shows "of_nat (granted ts b) \<le> bk_tokens b
    + (last (bk_last_refill b # ts) - bk_last_refill b) * bk_refill_per_sec b"
  using assms
proof (induction ts arbitrary: b)
  case Nil
  then show ?case by (simp add: bucket_ok_def)
next
  case (Cons t ts)
  obtain ok b' where c: "try_consume t 1 b = (ok, b')" by fastforce
  note f = try_consume_frame [OF c]
  have le: "bk_last_refill b \<le> t" "sorted (t # ts)" using Cons.prems(2) by auto
  have "of_nat (granted ts b') \<le> bk_tokens b' + (last (t # ts) - t) * bk_refill_per_sec b"
    using Cons.IH [of b'] try_consume_ok [OF Cons.prems(1) le(1) _ c] le f by simp
  moreover have "bk_tokens b' + (if ok then 1 else 0)
      \<le> bk_tokens b + (t - bk_last_refill b) * bk_refill_per_sec b"
    using try_consume_tokens [OF c] by simp
  ultimately show ?case using c by (simp add: algebra_simps split: if_splits)
qed

text \<open>The limiter bounds the rate.  In any sequence of attempts, at nondecreasing instants, the
  number of requests granted by a new bucket is at most its burst size plus the refill rate
  times the time that has passed.\<close>

theorem request_rate_bounded:
  assumes "0 \<le> burst l" and "0 \<le> requests_per_sec l" and "sorted (t0 # ts)"
  shows "of_nat (granted ts (bucket_new (burst l) (requests_per_sec l) t0))
    \<le> burst l + (last (t0 # ts) - t0) * requests_per_sec l"
  using granted_bound [of "bucket_new (burst l) (requests_per_sec l) t0" ts] assms
  by (simp add: bucket_new_def bucket_ok_def)

text \<open>After the sleep that a pass of \<open>acquire\<close> asks for, an undisturbed bucket of size at least one
  grants the request: the loop ends with its second pass.\<close>

lemma acquire_second_pass:
  assumes "acquire_pass now b = (Some w, b')" "1 \<le> bk_capacity b" "0 < bk_refill_per_sec b"
  shows "0 < w \<and> fst (acquire_pass (now + w) b') = None"
proof -
  obtain b1 where c: "try_consume now 1 b = (False, b1)" "wait_secs now 1 b1 = (w, b')"
    using assms(1) by (auto simp: acquire_pass_def split: prod.splits bool.splits)
  have b1: "bk_tokens b1 < 1" "bk_last_refill b1 = now" "bk_capacity b1 = bk_capacity b"
      "bk_refill_per_sec b1 = bk_refill_per_sec b"
    using c(1) by (auto simp: try_consume_def refill_def Let_def split: if_splits)
  have b': "b' = b1" and w: "w = (1 - bk_tokens b1) / bk_refill_per_sec b"
    using c b1 assms(2) by (auto simp: wait_secs_def refill_def Let_def split: if_splits)
  have "w * bk_refill_per_sec b = 1 - bk_tokens b1" using w assms(3) by simp
  then show ?thesis
    using b1 b' w assms(2,3) by (simp add: acquire_pass_def try_consume_def refill_def Let_def)
qed

section \<open>The cache answers right or not at all\<close>

definition cache_ok :: "'r response_cache \<Rightarrow> bool" where
  "cache_ok c \<longleftrightarrow> distinct (map fst (rc_entries c)) \<and> cache_size c \<le> max 1 (rc_max_entries c)"

lemma oldest_key_mem: "oldest_key es = Some k \<Longrightarrow> k \<in> fst ` set es"
  by (induction es rule: oldest_key.induct) (auto split: if_splits)

lemma oldest_key_None: "oldest_key es = None \<longleftrightarrow> es = []"
  by (induction es rule: oldest_key.induct) auto

lemma map_of_filter_subset: "distinct (map fst es) \<Longrightarrow> map_of (filter P es) k \<in> {None, map_of es k}"
proof (induction es)
  case (Cons e es)
  have "map_of (filter P es) (fst e) = None" if "fst e \<notin> fst ` set es"
    using that by (auto simp: map_of_eq_None_iff)
  with Cons show ?case by (cases e) (auto split: if_splits)
qed simp

lemma length_filter_key:
  "k \<in> fst ` set es \<Longrightarrow> length (filter (\<lambda>(k', e). k' \<noteq> k) es) < length es"
  by (auto intro!: length_filter_less)

text \<open>The entries that a store keeps of the old ones.\<close>

definition kept_entries :: "instant \<Rightarrow> 'r response_cache \<Rightarrow> (string \<times> 'r cache_entry) list" where
  "kept_entries now c =
     (let live = filter (\<lambda>(k, e). \<not> is_expired now e) (rc_entries c)
      in if length live \<ge> rc_max_entries c then
           (case oldest_key live of Some k \<Rightarrow> filter (\<lambda>(k', e). k' \<noteq> k) live | None \<Rightarrow> live)
         else live)"

lemma kept_entries_filter: "\<exists>P. kept_entries now c = filter P (rc_entries c)"
  unfolding kept_entries_def Let_def by (auto simp: filter_filter split: option.split intro: exI)

lemma kept_entries_length:
  assumes "cache_ok c"
  shows "length (kept_entries now c) < max 1 (rc_max_entries c)"
proof -
  let ?live = "filter (\<lambda>(k, e). \<not> is_expired now e) (rc_entries c)"
  have "length ?live \<le> max 1 (rc_max_entries c)"
    using assms le_trans [OF length_filter_le] by (auto simp: cache_ok_def cache_size_def)
  then show ?thesis
    using length_filter_key [OF oldest_key_mem, of ?live]
    by (auto simp: kept_entries_def Let_def oldest_key_None split: option.splits)
qed

lemma cache_set_kept:
  "cache_set now key response c = c\<lparr>rc_entries := AList.update key
     \<lparr>ce_response = response, ce_inserted_at = now, ce_ttl = rc_default_ttl c\<rparr> (kept_entries now c)\<rparr>"
  by (simp add: cache_set_def kept_entries_def Let_def)

lemma length_alist_update: "length (AList.update k v es) \<le> Suc (length es)"
  by (induction es) auto

text \<open>The cache answers right or not at all.  After a response is stored under a key, that key
  yields it until its time to live has passed; another key yields what it did before or nothing;
  and the cache stays within its size (at least one entry) with one entry per key.\<close>

theorem cache_answers_right:
  assumes "cache_ok c"
  shows "cache_get now' key (cache_set now key response c)
      = (if now' - now > rc_default_ttl c then None else Some response)
    \<and> (other \<noteq> key \<longrightarrow>
        cache_get now' other (cache_set now key response c) \<in> {None, cache_get now' other c})
    \<and> cache_ok (cache_set now key response c)"
proof -
  obtain P where P: "kept_entries now c = filter P (rc_entries c)"
    using kept_entries_filter by blast
  have d: "distinct (map fst (kept_entries now c))"
    using assms unfolding P cache_ok_def by (simp add: distinct_map_filter)
  have "map_of (kept_entries now c) other \<in> {None, map_of (rc_entries c) other}"
    unfolding P using assms by (intro map_of_filter_subset) (simp add: cache_ok_def)
  then have "other \<noteq> key \<longrightarrow>
      cache_get now' other (cache_set now key response c) \<in> {None, cache_get now' other c}"
    by (auto simp: cache_get_def cache_set_kept update_conv' split: option.splits)
  moreover have "cache_ok (cache_set now key response c)"
    using kept_entries_length [OF assms, of now] distinct_update [OF d]
    by (auto simp: cache_ok_def cache_size_def cache_set_kept
        intro!: le_trans [OF length_alist_update] Suc_leI)
  ultimately show ?thesis
    by (simp add: cache_get_def cache_set_kept update_conv' is_expired_def)
qed

section \<open>Concrete uses\<close>

theorem request_rate_bounded_witness:
  "granted [0, 0, 1/2, 1] (bucket_new 2 1 0) = 3
   \<and> of_nat (granted [0, 0, 1/2, 1] (bucket_new 2 1 0)) \<le> (2 + (1 - 0) * 1 :: rat)"
  using request_rate_bounded [of "\<lparr>requests_per_sec = 1, burst = 2\<rparr>" 0 "[0, 0, 1/2, 1]"]
  by (simp add: try_consume_def refill_def bucket_new_def)

theorem cache_answers_right_witness:
  "cache_get 5 ''k'' (cache_set 1 ''k'' True (cache_new 10 2)) = Some True"
  using cache_answers_right [of "cache_new 10 2" 5 "''k''" 1 True "''k''"]
  by (simp add: cache_new_def cache_ok_def cache_size_def)

end
