(* ===== verification/Llm_Controls.thy ===== *)
theory Llm_Controls
  imports Json_Schema
begin

text \<open>
  The generation settings of language-model steps (\<open>gateway/llm_controls.rs\<close>) and how the compiler
  infers them from a step's hint (\<open>agent/workflow_compiler.rs\<close>).  A decimal constant is the binary32
  or binary64 number nearest to it.
\<close>

datatype llm_role = Extractor | Router | Drafter | Critic | Validator | Recovery | FailureClassifier

datatype llm_execution_intent = IntentStrict | IntentBalanced | IntentCreative

datatype llm_budget_tier = Lean | Standard | High

fun default_max_tokens :: "llm_budget_tier \<Rightarrow> nat" where
  "default_max_tokens Lean = 128"
| "default_max_tokens Standard = 512"
| "default_max_tokens High = 2048"

fun default_temperature :: "llm_budget_tier \<Rightarrow> rat" where
  "default_temperature Lean = 0"
| "default_temperature Standard = 13421773 / 67108864"
| "default_temperature High = 11744051 / 16777216"

fun task_complexity_label :: "llm_budget_tier \<Rightarrow> string" where
  "task_complexity_label Lean = ''simple''"
| "task_complexity_label Standard = ''medium''"
| "task_complexity_label High = ''complex''"

record llm_generation_config =
  lg_role :: llm_role
  lg_execution_intent :: llm_execution_intent
  lg_budget_tier :: llm_budget_tier
  lg_max_tokens :: nat
  lg_temperature :: rat
  lg_cost_budget_usd :: "rat option"
  lg_cadence :: "string option"
  lg_response_format :: "json option"

definition generation_config_new ::
  "llm_role \<Rightarrow> llm_execution_intent \<Rightarrow> llm_budget_tier \<Rightarrow> llm_generation_config" where
  "generation_config_new role execution_intent budget_tier =
     \<lparr>lg_role = role, lg_execution_intent = execution_intent, lg_budget_tier = budget_tier,
      lg_max_tokens = default_max_tokens budget_tier,
      lg_temperature = default_temperature budget_tier,
      lg_cost_budget_usd = None, lg_cadence = None, lg_response_format = None\<rparr>"

definition with_limits :: "nat \<Rightarrow> rat \<Rightarrow> llm_generation_config \<Rightarrow> llm_generation_config" where
  "with_limits max_tokens temperature c = c\<lparr>lg_max_tokens := max_tokens, lg_temperature := temperature\<rparr>"

definition with_response_format :: "json \<Rightarrow> llm_generation_config \<Rightarrow> llm_generation_config" where
  "with_response_format response_format c = c\<lparr>lg_response_format := Some response_format\<rparr>"

definition with_json_object_response :: "llm_generation_config \<Rightarrow> llm_generation_config" where
  "with_json_object_response c =
     with_response_format (obj_of_list [(''type'', JString ''json_object'')]) c"

definition with_json_schema_response ::
  "string \<Rightarrow> json \<Rightarrow> llm_generation_config \<Rightarrow> llm_generation_config" where
  "with_json_schema_response name schema c = c\<lparr>lg_response_format := Some (obj_of_list
     [(''type'', JString ''json_schema''),
      (''json_schema'', obj_of_list
        [(''name'', JString name), (''strict'', JBool True), (''schema'', schema)])])\<rparr>"

section \<open>Inference from a hint\<close>

text \<open>The code lowers a hint with the Unicode \<open>to_lowercase\<close> before it looks for its ASCII markers.
  Outside ASCII only the Kelvin sign (to \<open>k\<close>) and the dotted capital I (to \<open>i\<close> and a combining dot)
  lower to ASCII letters; no marker has a \<open>k\<close> or ends in \<open>i\<close>, so the markers found are those of
  the ASCII lowering.\<close>

definition drafting_hint :: "string \<Rightarrow> bool" where
  "drafting_hint lower = (str_contains ''draft'' lower \<or> str_contains ''compose'' lower
     \<or> str_contains ''write'' lower \<or> str_contains ''summarize'' lower)"

definition infer_llm_execution_intent :: "llm_role \<Rightarrow> string \<Rightarrow> llm_execution_intent" where
  "infer_llm_execution_intent role hint = (let lower = to_ascii_lowercase hint in
     if role \<in> {Extractor, Validator, FailureClassifier} then IntentStrict
     else if role \<in> {Router, Critic, Recovery} then IntentBalanced
     else if drafting_hint lower then IntentCreative
     else IntentBalanced)"

definition recurring_markers :: "string list" where
  "recurring_markers = [''every minute'', ''every hour'', ''hourly'', ''minutely'', ''recurring'',
     ''poll'', ''watch'', ''monitor'', ''heartbeat'']"

definition infer_llm_budget_tier :: "llm_role \<Rightarrow> string \<Rightarrow> llm_budget_tier" where
  "infer_llm_budget_tier role hint = (let lower = to_ascii_lowercase hint in
     if list_ex (\<lambda>marker. str_contains marker lower) recurring_markers then Lean
     else if role \<in> {Extractor, Validator, FailureClassifier} then Lean
     else if role \<in> {Router, Critic, Recovery} then Standard
     else if drafting_hint lower then High
     else Standard)"

definition typed_field :: "string \<Rightarrow> string \<Rightarrow> string \<times> json" where
  "typed_field name ty = (name, obj_of_list [(''type'', JString ty)])"

definition string_array_field :: "string \<Rightarrow> string \<times> json" where
  "string_array_field name = (name, obj_of_list
     [(''type'', JString ''array''), (''items'', obj_of_list [(''type'', JString ''string'')])])"

definition role_schema :: "(string \<times> json) list \<Rightarrow> string list \<Rightarrow> json" where
  "role_schema props required = obj_of_list
     [(''type'', JString ''object''), (''properties'', obj_of_list props),
      (''required'', JArray (map JString required))]"

fun llm_output_schema :: "llm_role \<Rightarrow> json" where
  "llm_output_schema Extractor = role_schema
     [typed_field ''intent'' ''string'', string_array_field ''entities'', typed_field ''confidence'' ''number'']
     [''intent'', ''confidence'']"
| "llm_output_schema Router = role_schema
     [typed_field ''next_step'' ''string'', typed_field ''reason'' ''string'', typed_field ''confidence'' ''number'']
     [''next_step'', ''reason'']"
| "llm_output_schema Drafter = role_schema
     [typed_field ''draft_text'' ''string'', typed_field ''style'' ''string'', typed_field ''confidence'' ''number'']
     [''draft_text'']"
| "llm_output_schema Critic = role_schema
     [string_array_field ''issues'', typed_field ''score'' ''number'', typed_field ''should_retry'' ''boolean'']
     [''issues'', ''score'', ''should_retry'']"
| "llm_output_schema Validator = role_schema
     [typed_field ''is_valid'' ''boolean'', string_array_field ''errors'']
     [''is_valid'', ''errors'']"
| "llm_output_schema Recovery = role_schema
     [typed_field ''fixed_output'' ''object'', typed_field ''strategy_used'' ''string'']
     [''fixed_output'', ''strategy_used'']"
| "llm_output_schema FailureClassifier = role_schema
     [(''failure_type'', obj_of_list
        [(''type'', JString ''string''),
         (''enum'', JArray (map JString [''retryable'', ''repairable'', ''replan_required'', ''fatal'']))]),
      typed_field ''reason'' ''string'']
     [''failure_type'', ''reason'']"

text \<open>The \<open>BTreeMap\<close> of a role's outputs, by ascending key.\<close>

fun llm_output_mapping :: "llm_role \<Rightarrow> string \<Rightarrow> (string \<times> string) list" where
  "llm_output_mapping Extractor step_id =
     [(''confidence'', step_id @ ''.confidence''), (''entities'', step_id @ ''.entities''),
      (''intent'', step_id @ ''.intent'')]"
| "llm_output_mapping Router step_id =
     [(''confidence'', step_id @ ''.confidence''), (''next_step'', step_id @ ''.next_step''),
      (''reason'', step_id @ ''.reason'')]"
| "llm_output_mapping Drafter step_id =
     [(''confidence'', step_id @ ''.confidence''), (''draft_text'', step_id @ ''.draft_text''),
      (''style'', step_id @ ''.style'')]"
| "llm_output_mapping Critic step_id =
     [(''issues'', step_id @ ''.issues''), (''score'', step_id @ ''.score''),
      (''should_retry'', step_id @ ''.should_retry'')]"
| "llm_output_mapping Validator step_id =
     [(''errors'', step_id @ ''.errors''), (''is_valid'', step_id @ ''.is_valid'')]"
| "llm_output_mapping Recovery step_id =
     [(''fixed_output'', step_id @ ''.fixed_output''), (''strategy_used'', step_id @ ''.strategy_used'')]"
| "llm_output_mapping FailureClassifier step_id =
     [(''failure_type'', step_id @ ''.failure_type''), (''reason'', step_id @ ''.reason'')]"

text \<open>\<open>format!("llm_{:?}_output", role).to_lowercase()\<close>.\<close>

fun role_debug_lower :: "llm_role \<Rightarrow> string" where
  "role_debug_lower Extractor = ''extractor''"
| "role_debug_lower Router = ''router''"
| "role_debug_lower Drafter = ''drafter''"
| "role_debug_lower Critic = ''critic''"
| "role_debug_lower Validator = ''validator''"
| "role_debug_lower Recovery = ''recovery''"
| "role_debug_lower FailureClassifier = ''failureclassifier''"

fun tier_cost_budget :: "llm_budget_tier \<Rightarrow> rat" where
  "tier_cost_budget Lean = 1152921504606847 / 1152921504606846976"
| "tier_cost_budget Standard = 5764607523034235 / 576460752303423488"
| "tier_cost_budget High = 3602879701896397 / 72057594037927936"

definition llm_generation_for_hint :: "string \<Rightarrow> llm_role \<Rightarrow> llm_generation_config" where
  "llm_generation_for_hint hint role =
     (let execution_intent = infer_llm_execution_intent role hint;
          budget_tier = infer_llm_budget_tier role hint;
          config = (generation_config_new role execution_intent budget_tier)
            \<lparr>lg_cost_budget_usd := Some (tier_cost_budget budget_tier)\<rparr>;
          config = (if budget_tier = Lean
             then config\<lparr>lg_max_tokens := min (lg_max_tokens config) 128, lg_temperature := 0\<rparr>
             else config)
      in with_json_schema_response (''llm_'' @ role_debug_lower role @ ''_output'')
           (llm_output_schema role) config)"

section \<open>Roles and hints\<close>

text \<open>The outputs a role's step publishes are the properties of the schema its answer must have, each
  from the field of its own name, and every required field is among them.\<close>

theorem role_outputs_cover_schema:
  "\<exists>props required. json_get ''properties'' (llm_output_schema r) = Some (JObject props)
     \<and> json_get ''required'' (llm_output_schema r) = Some (JArray required)
     \<and> map fst (llm_output_mapping r step_id) = map fst props
     \<and> map snd (llm_output_mapping r step_id) = map (\<lambda>k. step_id @ CHR ''.'' # fst k) props
     \<and> set required \<subseteq> JString ` fst ` set props"
  by (cases r) (simp_all add: role_schema_def typed_field_def string_array_field_def obj_of_list_def)

text \<open>A hint that names a recurring activity puts every role on the smallest budget: 128 tokens at
  temperature zero.\<close>

theorem recurring_hints_are_lean:
  assumes "marker \<in> set recurring_markers" "str_contains marker (to_ascii_lowercase hint)"
  shows "lg_budget_tier (llm_generation_for_hint hint r) = Lean
    \<and> lg_max_tokens (llm_generation_for_hint hint r) = 128
    \<and> lg_temperature (llm_generation_for_hint hint r) = 0"
proof -
  have "infer_llm_budget_tier r hint = Lean"
    using assms by (auto simp: infer_llm_budget_tier_def list_ex_iff Let_def)
  then show ?thesis
    by (simp add: llm_generation_for_hint_def generation_config_new_def with_json_schema_response_def Let_def)
qed

end
