(* ===== verification/Typed_Expressions.thy ===== *)
theory Typed_Expressions
  imports Dag_Conditions
begin

text \<open>
  The static check of typed expressions in \<open>agent/workflow_compiler.rs\<close> and its relation to the
  evaluator of \<open>agent/dag_engine.rs\<close>: an accepted expression evaluates, to a value of its
  declared type.
\<close>

section \<open>The checker\<close>

record expression_function_spec =
  efs_input :: "type_spec list"
  efs_output :: type_spec

abbreviation number_type :: type_spec where
  "number_type \<equiv> PrimitiveSpec NumberType"

abbreviation boolean_type :: type_spec where
  "boolean_type \<equiv> PrimitiveSpec BooleanType"

fun type_spec_compatible :: "type_spec \<Rightarrow> type_spec \<Rightarrow> bool" where
  "type_spec_compatible (PrimitiveSpec expected) (PrimitiveSpec actual) = (expected = actual)"
| "type_spec_compatible (ArraySpec expected) (ArraySpec actual) =
     (expected = ObjectSpec [] \<or> type_spec_compatible expected actual)"
| "type_spec_compatible (ObjectSpec expected) (ObjectSpec actual) =
     list_all (\<lambda>(key, t). case map_of actual key of
        Some a \<Rightarrow> type_spec_compatible t a | None \<Rightarrow> False) expected"
| "type_spec_compatible _ _ = False"

fun typed_value_matches_type :: "json \<Rightarrow> type_spec \<Rightarrow> bool" where
  "typed_value_matches_type (JBool _) (PrimitiveSpec BooleanType) = True"
| "typed_value_matches_type (JNumber _) (PrimitiveSpec NumberType) = True"
| "typed_value_matches_type (JString _) (PrimitiveSpec StringType) = True"
| "typed_value_matches_type (JArray _) (ArraySpec _) = True"
| "typed_value_matches_type (JObject _) (ObjectSpec _) = True"
| "typed_value_matches_type JNull _ = True"
| "typed_value_matches_type _ _ = False"

datatype expression_error =
    UnsupportedFunction string
  | WrongArity string nat nat
  | FunctionNotNumeric string
  | FunctionTypeMismatch string
  | MissingLeft string
  | MissingRight string
  | NeedsNumericOperands string
  | NeedsMatchingOperands string
  | NeedsBooleanOperands string
  | NeedsBooleanOperand
  | UnsupportedOperator string
  | EmptyPath
  | ValueTypeMismatch
  | EmptyExpression

definition require :: "bool \<Rightarrow> 'e \<Rightarrow> 'e + unit" where
  "require b e = (if b then Inr () else Inl e)"

fun validate_typed_expression_node ::
  "(string \<times> expression_function_spec) list \<Rightarrow> typed_expression \<Rightarrow> expression_error + unit" where
  "validate_typed_expression_node registry (TypedExpression ty op fn args left right val path) =
     checks
      [case fn of
         None \<Rightarrow> Inr ()
       | Some f \<Rightarrow>
           (case map_of registry f of
              None \<Rightarrow> Inl (UnsupportedFunction f)
            | Some spec \<Rightarrow>
                checks
                 [require (length (efs_input spec) = length args)
                    (WrongArity f (length (efs_input spec)) (length args)),
                  checks (map (validate_typed_expression_node registry) args),
                  if f = ''len'' \<or> f = ''count'' then
                    require (type_spec_compatible number_type ty) (FunctionNotNumeric f)
                  else require (type_spec_compatible (efs_output spec) ty) (FunctionTypeMismatch f)]),
       case op of
         None \<Rightarrow> Inr ()
       | Some o' \<Rightarrow>
           (case left of
              None \<Rightarrow> Inl (MissingLeft o')
            | Some l \<Rightarrow>
                checks
                 [validate_typed_expression_node registry l,
                  if o' \<in> set [''gt'', ''gte'', ''lt'', ''lte''] then
                    (case right of
                       None \<Rightarrow> Inl (MissingRight o')
                     | Some r \<Rightarrow>
                         checks
                          [validate_typed_expression_node registry r,
                           require (type_spec_compatible number_type (te_type l)
                               \<and> type_spec_compatible number_type (te_type r)
                               \<and> type_spec_compatible boolean_type ty) (NeedsNumericOperands o')])
                  else if o' \<in> set [''eq'', ''neq''] then
                    (case right of
                       None \<Rightarrow> Inl (MissingRight o')
                     | Some r \<Rightarrow>
                         checks
                          [validate_typed_expression_node registry r,
                           require (type_spec_compatible (te_type l) (te_type r)
                               \<and> type_spec_compatible boolean_type ty) (NeedsMatchingOperands o')])
                  else if o' \<in> set [''and'', ''or''] then
                    (case right of
                       None \<Rightarrow> Inl (MissingRight o')
                     | Some r \<Rightarrow>
                         checks
                          [validate_typed_expression_node registry r,
                           require (type_spec_compatible boolean_type (te_type l)
                               \<and> type_spec_compatible boolean_type (te_type r)
                               \<and> type_spec_compatible boolean_type ty) (NeedsBooleanOperands o')])
                  else if o' = ''not'' then
                    require (type_spec_compatible boolean_type (te_type l)
                      \<and> type_spec_compatible boolean_type ty) NeedsBooleanOperand
                  else Inl (UnsupportedOperator o')]),
       case path of None \<Rightarrow> Inr () | Some p \<Rightarrow> require (trim p \<noteq> []) EmptyPath,
       case val of None \<Rightarrow> Inr () | Some v \<Rightarrow> require (typed_value_matches_type v ty) ValueTypeMismatch,
       require (\<not> (op = None \<and> fn = None \<and> path = None \<and> val = None)) EmptyExpression]"

fun validate_typed_expression ::
  "(string \<times> expression_function_spec) list \<Rightarrow> step_condition \<Rightarrow> expression_error + unit" where
  "validate_typed_expression registry (Deterministic _) = Inr ()"
| "validate_typed_expression registry (Expression expr) = validate_typed_expression_node registry expr"

text \<open>The functions the compiler registers: \<open>len\<close> and \<open>count\<close> of an array of strings.\<close>

definition expression_functions :: "(string \<times> expression_function_spec) list" where
  "expression_functions =
     [(''count'', \<lparr>efs_input = [ArraySpec (PrimitiveSpec StringType)], efs_output = number_type\<rparr>),
      (''len'', \<lparr>efs_input = [ArraySpec (PrimitiveSpec StringType)], efs_output = number_type\<rparr>)]"

section \<open>Accepted expressions evaluate\<close>

fun countable_type :: "type_spec \<Rightarrow> bool" where
  "countable_type (PrimitiveSpec p) = (p = StringType)"
| "countable_type _ = True"

text \<open>What the evaluator meets of an expression: a literal goes before a path, a path before a function, a
  function before an operator.  Two conditions on the expression itself, which the check does not ask for: no
  literal is null, and what is counted has a countable type.\<close>

fun no_null_literal :: "typed_expression \<Rightarrow> bool" where
  "no_null_literal (TypedExpression ty op fn args left right val path) =
     (case val of Some v \<Rightarrow> v \<noteq> JNull | None \<Rightarrow>
     (case path of Some p \<Rightarrow> True | None \<Rightarrow>
     (case fn of
        Some f \<Rightarrow> list_all no_null_literal args
      | None \<Rightarrow> (case left of None \<Rightarrow> True | Some l \<Rightarrow> no_null_literal l)
          \<and> (case right of None \<Rightarrow> True | Some r \<Rightarrow> no_null_literal r))))"

fun counts_countable :: "typed_expression \<Rightarrow> bool" where
  "counts_countable (TypedExpression ty op fn args left right val path) =
     (case val of Some v \<Rightarrow> True | None \<Rightarrow>
     (case path of Some p \<Rightarrow> True | None \<Rightarrow>
     (case fn of
        Some f \<Rightarrow> list_all counts_countable args \<and> (args \<noteq> [] \<longrightarrow> countable_type (te_type (hd args)))
      | None \<Rightarrow> (case left of None \<Rightarrow> True | Some l \<Rightarrow> counts_countable l)
          \<and> (case right of None \<Rightarrow> True | Some r \<Rightarrow> counts_countable r))))"

text \<open>The condition on the input of the step: every path resolves to a value of its type that is not null.\<close>

fun paths_supplied :: "step_input \<Rightarrow> typed_expression \<Rightarrow> bool" where
  "paths_supplied input (TypedExpression ty op fn args left right val path) =
     (case val of Some v \<Rightarrow> True | None \<Rightarrow>
     (case path of
        Some p \<Rightarrow> (\<exists>v. resolve_path p input = Some v \<and> v \<noteq> JNull \<and> typed_value_matches_type v ty)
      | None \<Rightarrow>
     (case fn of
        Some f \<Rightarrow> list_all (paths_supplied input) args
      | None \<Rightarrow> (case left of None \<Rightarrow> True | Some l \<Rightarrow> paths_supplied input l)
          \<and> (case right of None \<Rightarrow> True | Some r \<Rightarrow> paths_supplied input r))))"

text \<open>The three together.\<close>

fun well_supplied :: "step_input \<Rightarrow> typed_expression \<Rightarrow> bool" where
  "well_supplied input (TypedExpression ty op fn args left right val path) =
     (case val of Some v \<Rightarrow> v \<noteq> JNull | None \<Rightarrow>
     (case path of
        Some p \<Rightarrow>
          (case resolve_path p input of
             Some v \<Rightarrow> v \<noteq> JNull \<and> typed_value_matches_type v ty
           | None \<Rightarrow> False)
      | None \<Rightarrow>
     (case fn of
        Some f \<Rightarrow> list_all (well_supplied input) args
          \<and> (args \<noteq> [] \<longrightarrow> countable_type (te_type (hd args)))
      | None \<Rightarrow>
          (case left of None \<Rightarrow> True | Some l \<Rightarrow> well_supplied input l)
          \<and> (case right of None \<Rightarrow> True | Some r \<Rightarrow> well_supplied input r))))"

lemma well_supplied_iff:
  "well_supplied input e \<longleftrightarrow> no_null_literal e \<and> counts_countable e \<and> paths_supplied input e"
proof (induction input e rule: well_supplied.induct)
  case (1 input ty op fn args left right val path)
  show ?case
  proof (cases val)
    case None
    note val = None
    show ?thesis
    proof (cases path)
      case None
      note path = None
      show ?thesis
      proof (cases fn)
        case None
        with val path 1 show ?thesis by (cases left; cases right) auto
      next
        case (Some f)
        with val path 1 have "list_all (well_supplied input) args \<longleftrightarrow> list_all no_null_literal args
            \<and> list_all counts_countable args \<and> list_all (paths_supplied input) args"
          by (auto simp: list_all_iff)
        with val path Some show ?thesis by auto
      qed
    next
      case (Some p)
      with val show ?thesis by (cases "resolve_path p input") auto
    qed
  qed simp
qed

definition evaluates :: "typed_expression \<Rightarrow> step_input \<Rightarrow> bool" where
  "evaluates e input \<longleftrightarrow> (\<exists>v. evaluate_typed_expression e input = Some v \<and> v \<noteq> JNull
     \<and> typed_value_matches_type v (te_type e))"

lemma require_ok [simp]: "require b e = Inr () \<longleftrightarrow> b"
  by (simp add: require_def)

lemma compatible_primitive:
  "type_spec_compatible (PrimitiveSpec p) t \<longleftrightarrow> t = PrimitiveSpec p"
  by (cases t) auto

lemma matches_number: "v \<noteq> JNull \<Longrightarrow> typed_value_matches_type v number_type \<Longrightarrow> \<exists>n. v = JNumber n"
  by (cases v) auto

lemma matches_countable:
  "v \<noteq> JNull \<Longrightarrow> typed_value_matches_type v t \<Longrightarrow> countable_type t \<Longrightarrow> \<exists>n. json_count v = Some n"
  by (cases v; cases t) auto

lemma bool_value_total: "\<exists>b. bool_value v = Some b"
  by (cases v) auto

lemma those_total: "\<forall>x\<in>set xs. \<exists>y. f x = Some y \<Longrightarrow> \<exists>ys. those (map f xs) = Some ys \<and> length ys = length xs
    \<and> (xs \<noteq> [] \<longrightarrow> f (hd xs) = Some (hd ys))"
  by (induction xs) auto

text \<open>Each operator gives a boolean on operands of the types the checker asks for.\<close>

lemma apply_op_numeric:
  "o' \<in> set [''gt'', ''gte'', ''lt'', ''lte''] \<Longrightarrow> \<exists>b. apply_op o' (JNumber m) (Some (JNumber n)) = Some b"
  by (auto simp: apply_op_def numeric_value_def)

lemma apply_op_other:
  assumes "o' \<in> set [''eq'', ''neq'', ''and'', ''or'']"
  shows "\<exists>b. apply_op o' l (Some r) = Some b"
proof -
  obtain bl br where "bool_value l = Some bl" "bool_value r = Some br" using bool_value_total by metis
  then show ?thesis using assms by (auto simp: apply_op_def compare_values_def bool_pair_def)
qed

lemma apply_op_not: "\<exists>b. apply_op ''not'' l r = Some b"
  using bool_value_total [of l] by (auto simp: apply_op_def)

lemma checked_function:
  assumes "map_of expression_functions f = Some spec" "length (efs_input spec) = length args"
  shows "(f = ''len'' \<or> f = ''count'') \<and> args \<noteq> []"
  using assms by (auto simp: expression_functions_def split: if_splits)

lemma evaluates_function:
  assumes "f = ''len'' \<or> f = ''count''" "args \<noteq> []" "\<forall>a\<in>set args. evaluates a input"
    and "countable_type (te_type (hd args))"
  shows "evaluates (TypedExpression number_type op (Some f) args left right None None) input"
proof -
  have "\<forall>a\<in>set args. \<exists>v. evaluate_typed_expression a input = Some v"
    using assms(3) by (auto simp: evaluates_def)
  from those_total [OF this] obtain vs where
    vs: "those (map (\<lambda>a. evaluate_typed_expression a input) args) = Some vs" "length vs = length args"
      "evaluate_typed_expression (hd args) input = Some (hd vs)"
    using assms(2) by auto
  moreover have "evaluates (hd args) input" using assms(2,3) by simp
  ultimately obtain n where "json_count (hd vs) = Some n"
    using matches_countable assms(4) by (auto simp: evaluates_def)
  moreover have "vs \<noteq> []" using vs(2) assms(2) by auto
  ultimately show ?thesis
    using vs(1) assms(1) by (cases vs) (auto simp: evaluates_def apply_function_def)
qed

lemma evaluates_operator:
  assumes "evaluates l input"
    and "o' \<in> set [''gt'', ''gte'', ''lt'', ''lte''] \<and> te_type l = number_type
        \<and> (\<exists>r. right = Some r \<and> evaluates r input \<and> te_type r = number_type)
      \<or> o' \<in> set [''eq'', ''neq'', ''and'', ''or''] \<and> (\<exists>r. right = Some r \<and> evaluates r input)
      \<or> o' = ''not''"
  shows "evaluates (TypedExpression boolean_type (Some o') None args (Some l) right None None) input"
proof -
  obtain lv where lv: "evaluate_typed_expression l input = Some lv" "lv \<noteq> JNull"
      "typed_value_matches_type lv (te_type l)" using assms(1) by (auto simp: evaluates_def)
  have "\<exists>b. apply_op o' lv (case right of None \<Rightarrow> None | Some r \<Rightarrow> evaluate_typed_expression r input) = Some b"
    using assms(2)
  proof (elim disjE conjE exE)
    fix r
    assume a: "o' \<in> set [''gt'', ''gte'', ''lt'', ''lte'']" "te_type l = number_type" "right = Some r"
      "evaluates r input" "te_type r = number_type"
    then obtain m n where "lv = JNumber m" "evaluate_typed_expression r input = Some (JNumber n)"
      using lv matches_number by (metis evaluates_def)
    with a(1,3) apply_op_numeric show ?thesis by simp
  next
    fix r
    assume "o' \<in> set [''eq'', ''neq'', ''and'', ''or'']" "right = Some r" "evaluates r input"
    then show ?thesis using apply_op_other by (auto simp: evaluates_def)
  qed (use apply_op_not in simp)
  with lv(1) show ?thesis by (auto simp: evaluates_def)
qed

lemma checked_operator:
  assumes "validate_typed_expression_node reg (TypedExpression ty (Some o') None args left right None None) = Inr ()"
  obtains l where "left = Some l" "ty = boolean_type" "validate_typed_expression_node reg l = Inr ()"
    "o' \<in> set [''gt'', ''gte'', ''lt'', ''lte''] \<and> te_type l = number_type \<and> (\<exists>r. right = Some r
        \<and> validate_typed_expression_node reg r = Inr () \<and> te_type r = number_type)
      \<or> o' \<in> set [''eq'', ''neq'', ''and'', ''or'']
        \<and> (\<exists>r. right = Some r \<and> validate_typed_expression_node reg r = Inr ())
      \<or> o' = ''not''"
proof (cases left)
  case None
  with assms show thesis by (simp add: checks_ok_iff)
next
  case (Some l)
  then have v: "validate_typed_expression_node reg l = Inr ()"
    using assms by (simp add: checks_ok_iff)
  show thesis
  proof (cases "o' = ''not''")
    case True
    with assms Some v that show thesis by (simp add: checks_ok_iff compatible_primitive)
  next
    case False
    with assms Some obtain r where r: "right = Some r"
      by (cases right) (auto simp: checks_ok_iff split: if_splits)
    have "ty = boolean_type" and "validate_typed_expression_node reg r = Inr ()"
      and "o' \<in> set [''gt'', ''gte'', ''lt'', ''lte''] \<and> te_type l = number_type \<and> te_type r = number_type
        \<or> o' \<in> set [''eq'', ''neq'', ''and'', ''or'']"
      using assms False unfolding Some r
      by (auto simp: checks_ok_iff compatible_primitive split: if_splits)
    with that [OF Some _ v] r show thesis by blast
  qed
qed

lemma evaluates_checked:
  "validate_typed_expression_node expression_functions e = Inr () \<Longrightarrow> well_supplied input e \<Longrightarrow>
     evaluates e input"
proof (induction e input rule: evaluate_typed_expression.induct)
  case (1 ty op fn args left right val path input)
  let ?ok = "validate_typed_expression_node expression_functions"
  consider (val) v where "val = Some v" | (path) p where "val = None" "path = Some p"
    | (fn) f where "val = None" "path = None" "fn = Some f"
    | (op) o' where "val = None" "path = None" "fn = None" "op = Some o'"
    | (none) "val = None" "path = None" "fn = None" "op = None"
    by (cases val; cases path; cases fn; cases op) auto
  then show ?case
  proof cases
    case val
    with "1.prems" show ?thesis by (auto simp: evaluates_def checks_ok_iff)
  next
    case path
    with "1.prems" show ?thesis by (auto simp: evaluates_def split: option.splits)
  next
    case fn
    with "1.prems" obtain spec where spec: "map_of expression_functions f = Some spec"
        "length (efs_input spec) = length args" "\<forall>a\<in>set args. ?ok a = Inr ()"
      by (auto simp: checks_ok_iff split: option.splits)
    note f = checked_function [OF spec(1,2)]
    have "evaluates a input" if "a \<in> set args" for a
      using "1.IH"(3) [OF fn that] spec(3) "1.prems"(2) fn that by (simp add: list_all_iff)
    moreover have "ty = number_type"
      using "1.prems"(1) fn spec(1) f by (auto simp: checks_ok_iff compatible_primitive)
    ultimately show ?thesis
      using f fn "1.prems"(2) by (auto intro!: evaluates_function)
  next
    case op
    then have "?ok (TypedExpression ty (Some o') None args left right None None) = Inr ()"
      using "1.prems"(1) by simp
    then obtain l where l: "left = Some l" "ty = boolean_type" "?ok l = Inr ()"
      "o' \<in> set [''gt'', ''gte'', ''lt'', ''lte''] \<and> te_type l = number_type \<and> (\<exists>r. right = Some r
          \<and> ?ok r = Inr () \<and> te_type r = number_type)
        \<or> o' \<in> set [''eq'', ''neq'', ''and'', ''or''] \<and> (\<exists>r. right = Some r \<and> ?ok r = Inr ())
        \<or> o' = ''not''"
      by (rule checked_operator)
    have el: "evaluates l input"
      using "1.IH"(1) [OF op l(1,3)] "1.prems"(2) op l(1) by simp
    moreover have "evaluates r input" if "right = Some r" "?ok r = Inr ()" for r
      using "1.IH"(2) [OF op] el l(1) that "1.prems"(2) op by (auto simp: evaluates_def)
    ultimately have "evaluates (TypedExpression boolean_type (Some o') None args (Some l) right None None) input"
      using l(4) by (intro evaluates_operator) blast+
    with op l(1,2) show ?thesis by simp
  next
    case none
    with "1.prems"(1) show ?thesis by (simp add: checks_ok_iff)
  qed
qed

text \<open>C26: An expression that the compiler's check accepts, with the functions the compiler registers, evaluates to
  a value of its declared type that is not null, provided that the input resolves each of its paths to a
  value of the declared type that is not null, and that the expression satisfies two conditions which the
  check does not ask for: none of its literals is null, and \<open>len\<close> and \<open>count\<close> are applied
  to texts, arrays or objects only.\<close>

theorem accepted_expressions_evaluate:
  assumes "validate_typed_expression expression_functions (Expression e) = Inr ()"
    and "no_null_literal e" and "counts_countable e" and "paths_supplied input e"
  shows "\<exists>v. evaluate_typed_expression e input = Some v \<and> v \<noteq> JNull
    \<and> typed_value_matches_type v (te_type e)"
  using evaluates_checked [of e input] assms by (simp add: evaluates_def well_supplied_iff)

text \<open>The check never compares an argument's type with the function's declared input: \<open>len\<close> of a
  boolean is accepted although its evaluation has no result, and a condition built on it is false
  on every input.\<close>

definition len_of_boolean :: typed_expression where
  "len_of_boolean = TypedExpression number_type None (Some ''len'')
     [TypedExpression boolean_type None None [] None None (Some (JBool True)) None] None None None None"

theorem argument_types_unchecked:
  "validate_typed_expression expression_functions (Expression len_of_boolean) = Inr ()
   \<and> evaluate_typed_expression len_of_boolean input = None
   \<and> \<not> evaluate_condition (Expression (TypedExpression boolean_type (Some ''gte'') None []
         (Some len_of_boolean) (Some len_of_boolean) None None)) input"
  by (simp add: len_of_boolean_def expression_functions_def checks_ok_iff apply_function_def
      evaluate_typed_condition_def)

text \<open>Nor does the check refuse a null literal, which has every type: a comparison of numbers with it is accepted
  and has no result.\<close>

definition gt_null :: typed_expression where
  "gt_null = (let literal = (\<lambda>v. TypedExpression number_type None None [] None None (Some v) None) in
     TypedExpression boolean_type (Some ''gt'') None [] (Some (literal JNull))
       (Some (literal (JNumber (PosInt 1)))) None None)"

theorem null_literals_accepted:
  "validate_typed_expression expression_functions (Expression gt_null) = Inr () \<and> evaluate_typed_expression gt_null input = None"
  by (simp add: gt_null_def checks_ok_iff apply_op_def numeric_value_def)

section \<open>Witness\<close>

text \<open>\<open>len(result_of_step_0.rows) > 1 and not done\<close>, where the output of the step holds the rows.\<close>

definition sample_expression :: typed_expression where
  "sample_expression = (let atom = (\<lambda>t. TypedExpression t None None [] None None) in
     TypedExpression boolean_type (Some ''and'') None []
       (Some (TypedExpression boolean_type (Some ''gt'') None []
          (Some (TypedExpression number_type None (Some ''len'')
             [atom (ArraySpec (PrimitiveSpec StringType)) None (Some ''result_of_step_0.rows'')] None None None None))
          (Some (atom number_type (Some (JNumber (PosInt 1))) None)) None None))
       (Some (TypedExpression boolean_type (Some ''not'') None []
          (Some (atom boolean_type (Some (JBool False)) None)) None None None)) None None)"

definition sample_rows :: step_input where
  "sample_rows = \<lparr>si_data = JNull, si_predecessor_outputs =
     [(''step-0'', JObject [(''rows'', JArray [JString ''a'', JString ''b''])])]\<rparr>"

lemma sample_rows_resolved:
  "resolve_path ''result_of_step_0.rows'' sample_rows = Some (JArray [JString ''a'', JString ''b''])"
  "trim ''result_of_step_0.rows'' \<noteq> []"
  by code_simp+

theorem accepted_expressions_evaluate_witness:
  "\<exists>v. evaluate_typed_expression sample_expression sample_rows = Some v
     \<and> v \<noteq> JNull \<and> typed_value_matches_type v (te_type sample_expression)"
  by (rule accepted_expressions_evaluate)
    (simp_all add: sample_expression_def sample_rows_resolved expression_functions_def checks_ok_iff Let_def)

end
