(* ===== verification/Workflow_Variants.thy ===== *)
theory Workflow_Variants
  imports Planner "HOL-Library.Product_Lexorder"
begin

text \<open>
  Execution variants of a compiled workflow (\<open>agent/workflow_compiler.rs\<close>): the signature of the
  data at hand, the rules that match it, the choice of the best variant, and the policy the
  compiler installs.
\<close>

section \<open>Execution settings\<close>

datatype execution_mode = Sequential | Parallel

definition default_execution_mode :: execution_mode where
  "default_execution_mode = Sequential"

record data_strategy =
  ds_mode :: string
  ds_page_size :: "nat option"

definition default_data_strategy :: data_strategy where
  "default_data_strategy = \<lparr>ds_mode = ''single'', ds_page_size = None\<rparr>"

record execution_constraints =
  ec_max_rows :: "nat option"
  ec_timeout_ms :: "nat option"
  ec_cost_budget :: "nat option"

definition default_execution_constraints :: execution_constraints where
  "default_execution_constraints =
     \<lparr>ec_max_rows = None, ec_timeout_ms = None, ec_cost_budget = None\<rparr>"

record scheduler_config =
  sch_strategy :: string
  sch_lock_check :: string
  sch_max_concurrency :: nat

definition default_scheduler_strategy :: string where
  "default_scheduler_strategy = ''topological''"

definition default_scheduler_lock_check :: string where
  "default_scheduler_lock_check = ''before_execution''"

definition default_scheduler_config :: scheduler_config where
  "default_scheduler_config = \<lparr>sch_strategy = default_scheduler_strategy,
     sch_lock_check = default_scheduler_lock_check, sch_max_concurrency = 5\<rparr>"

section \<open>Signatures and rules\<close>

record data_signature =
  sig_schema_hash :: "string option"
  sig_connector_id :: "string option"
  sig_row_count :: "nat option"
  sig_missing_rate_bps :: "nat option"
  sig_tags :: "string list"

record variant_match_rule =
  vm_schema_hash :: "string option"
  vm_connector_id :: "string option"
  vm_row_count_min :: "nat option"
  vm_row_count_max :: "nat option"
  vm_missing_rate_bps_min :: "nat option"
  vm_missing_rate_bps_max :: "nat option"
  vm_tags :: "string list"

definition default_match_rule :: variant_match_rule where
  "default_match_rule = \<lparr>vm_schema_hash = None, vm_connector_id = None, vm_row_count_min = None,
     vm_row_count_max = None, vm_missing_rate_bps_min = None, vm_missing_rate_bps_max = None,
     vm_tags = []\<rparr>"

record workflow_variant_overrides =
  vo_execution :: "execution_mode option"
  vo_execution_constraints :: "execution_constraints option"
  vo_data_strategy :: "data_strategy option"
  vo_scheduler :: "scheduler_config option"

record workflow_variant =
  wv_id :: string
  wv_priority :: nat
  wv_description :: string
  wv_match_rule :: variant_match_rule
  wv_overrides :: workflow_variant_overrides

definition count_some :: "'a option \<Rightarrow> nat" where
  "count_some x = (if x \<noteq> None then 1 else 0)"

definition specificity_score :: "workflow_variant \<Rightarrow> nat" where
  "specificity_score v = (let r = wv_match_rule v in
     count_some (vm_schema_hash r) + count_some (vm_connector_id r)
     + count_some (vm_row_count_min r) + count_some (vm_row_count_max r)
     + count_some (vm_missing_rate_bps_min r) + count_some (vm_missing_rate_bps_max r)
     + length (vm_tags r))"

text \<open>\<open>is_some_and\<close> of Rust: a missing value never violates a bound.\<close>

definition is_some_and :: "'a option \<Rightarrow> ('a \<Rightarrow> bool) \<Rightarrow> bool" where
  "is_some_and x P = (case x of Some v \<Rightarrow> P v | None \<Rightarrow> False)"

definition matches :: "workflow_variant \<Rightarrow> data_signature \<Rightarrow> bool" where
  "matches v signature = (let r = wv_match_rule v in
     if is_some_and (vm_schema_hash r) (\<lambda>expected. sig_schema_hash signature \<noteq> Some expected) then False
     else if is_some_and (vm_connector_id r) (\<lambda>expected. sig_connector_id signature \<noteq> Some expected) then False
     else if is_some_and (vm_row_count_min r)
         (\<lambda>lo. is_some_and (sig_row_count signature) (\<lambda>count. count < lo)) then False
     else if is_some_and (vm_row_count_max r)
         (\<lambda>hi. is_some_and (sig_row_count signature) (\<lambda>count. count > hi)) then False
     else if is_some_and (vm_missing_rate_bps_min r)
         (\<lambda>lo. is_some_and (sig_missing_rate_bps signature) (\<lambda>count. count < lo)) then False
     else if is_some_and (vm_missing_rate_bps_max r)
         (\<lambda>hi. is_some_and (sig_missing_rate_bps signature) (\<lambda>count. count > hi)) then False
     else if vm_tags r \<noteq> []
         \<and> \<not> list_all (\<lambda>tag. list_ex (\<lambda>candidate. candidate = tag) (sig_tags signature)) (vm_tags r) then False
     else True)"

section \<open>Selection\<close>

datatype variant_fallback_mode = UseDefaultVariant | Recompile

record workflow_variant_policy =
  vp_default_variant_id :: string
  vp_fallback :: variant_fallback_mode
  vp_variants :: "workflow_variant list"

record workflow_variant_selection =
  vs_signature :: data_signature
  vs_variant_id :: string
  vs_description :: string
  vs_priority :: nat
  vs_execution :: execution_mode
  vs_execution_constraints :: execution_constraints
  vs_data_strategy :: data_strategy
  vs_scheduler :: scheduler_config

definition unwrap_or :: "'a option \<Rightarrow> 'a \<Rightarrow> 'a" where
  "unwrap_or x d = (case x of Some v \<Rightarrow> v | None \<Rightarrow> d)"

definition from_variant ::
  "data_signature \<Rightarrow> workflow_variant \<Rightarrow> execution_mode \<Rightarrow> execution_constraints \<Rightarrow> data_strategy
     \<Rightarrow> scheduler_config \<Rightarrow> workflow_variant_selection" where
  "from_variant signature v base_execution base_constraints base_data_strategy base_scheduler =
     \<lparr>vs_signature = signature,
      vs_variant_id = wv_id v,
      vs_description = wv_description v,
      vs_priority = wv_priority v,
      vs_execution = unwrap_or (vo_execution (wv_overrides v)) base_execution,
      vs_execution_constraints = unwrap_or (vo_execution_constraints (wv_overrides v)) base_constraints,
      vs_data_strategy = unwrap_or (vo_data_strategy (wv_overrides v)) base_data_strategy,
      vs_scheduler = unwrap_or (vo_scheduler (wv_overrides v)) base_scheduler\<rparr>"

definition default_variant :: "workflow_variant_policy \<Rightarrow> workflow_variant option" where
  "default_variant p = find (\<lambda>v. wv_id v = vp_default_variant_id p) (vp_variants p)"

definition rank :: "workflow_variant \<Rightarrow> nat \<times> nat" where
  "rank v = (wv_priority v, specificity_score v)"

text \<open>The loop over the variants, with the best one so far as its accumulator.\<close>

fun best_variant ::
  "data_signature \<Rightarrow> workflow_variant option \<Rightarrow> workflow_variant list \<Rightarrow> workflow_variant option" where
  "best_variant signature best [] = best"
| "best_variant signature best (v # vs) =
     (if \<not> matches v signature then best_variant signature best vs
      else case best of
          None \<Rightarrow> best_variant signature (Some v) vs
        | Some current \<Rightarrow>
            if rank v > rank current then best_variant signature (Some v) vs
            else best_variant signature best vs)"

definition select ::
  "workflow_variant_policy \<Rightarrow> data_signature \<Rightarrow> execution_mode \<Rightarrow> execution_constraints
     \<Rightarrow> data_strategy \<Rightarrow> scheduler_config \<Rightarrow> workflow_variant_selection option" where
  "select p signature base_execution base_constraints base_data_strategy base_scheduler =
     map_option
       (\<lambda>selected. from_variant signature selected base_execution base_constraints
          base_data_strategy base_scheduler)
       (case best_variant signature None (vp_variants p) of
          Some best \<Rightarrow> Some best
        | None \<Rightarrow> if vp_fallback p = UseDefaultVariant then default_variant p else None)"

section \<open>The compiler's policy\<close>

definition high_volume_variant :: workflow_variant where
  "high_volume_variant =
     \<lparr>wv_id = ''high_volume'', wv_priority = 100,
      wv_description = ''High-volume execution profile for large datasets'',
      wv_match_rule = default_match_rule\<lparr>vm_row_count_min := Some 10001\<rparr>,
      wv_overrides =
        \<lparr>vo_execution = Some Parallel,
         vo_execution_constraints = Some \<lparr>ec_max_rows = Some 50000, ec_timeout_ms = Some 15000,
           ec_cost_budget = Some 500\<rparr>,
         vo_data_strategy = Some \<lparr>ds_mode = ''paginate'', ds_page_size = Some 250\<rparr>,
         vo_scheduler = Some \<lparr>sch_strategy = default_scheduler_strategy,
           sch_lock_check = default_scheduler_lock_check, sch_max_concurrency = 3\<rparr>\<rparr>\<rparr>"

definition sparse_data_variant :: workflow_variant where
  "sparse_data_variant =
     \<lparr>wv_id = ''sparse_data'', wv_priority = 90,
      wv_description = ''Sparse or incomplete data profile'',
      wv_match_rule = default_match_rule\<lparr>vm_missing_rate_bps_min := Some 4000\<rparr>,
      wv_overrides =
        \<lparr>vo_execution = Some Sequential,
         vo_execution_constraints = Some \<lparr>ec_max_rows = Some 5000, ec_timeout_ms = Some 5000,
           ec_cost_budget = Some 100\<rparr>,
         vo_data_strategy = Some \<lparr>ds_mode = ''paginate'', ds_page_size = Some 500\<rparr>,
         vo_scheduler = Some \<lparr>sch_strategy = default_scheduler_strategy,
           sch_lock_check = default_scheduler_lock_check, sch_max_concurrency = 2\<rparr>\<rparr>\<rparr>"

definition base_variant :: "nat \<Rightarrow> workflow_variant" where
  "base_variant step_count =
     \<lparr>wv_id = ''base'', wv_priority = 0,
      wv_description = ''Default execution profile'',
      wv_match_rule = default_match_rule\<lparr>vm_row_count_max := Some 10000, vm_missing_rate_bps_max := Some 2500\<rparr>,
      wv_overrides =
        \<lparr>vo_execution = Some (if step_count > 1 then Parallel else Sequential),
         vo_execution_constraints = Some \<lparr>ec_max_rows = Some 10000, ec_timeout_ms = Some 5000,
           ec_cost_budget = Some 100\<rparr>,
         vo_data_strategy = Some \<lparr>ds_mode = ''paginate'', ds_page_size = Some 1000\<rparr>,
         vo_scheduler = Some default_scheduler_config\<rparr>\<rparr>"

text \<open>The steps of the workflow count only through their number.\<close>

definition build_variant_policy :: "'a list \<Rightarrow> workflow_variant_policy option" where
  "build_variant_policy compiled_steps =
     (if compiled_steps = [] then None
      else Some \<lparr>vp_default_variant_id = ''base'', vp_fallback = Recompile,
             vp_variants = [high_volume_variant, sparse_data_variant,
               base_variant (length compiled_steps)]\<rparr>)"

section \<open>What is selected\<close>

lemma matches_iff:
  "matches v s \<longleftrightarrow> (let r = wv_match_rule v in
     (\<forall>h. vm_schema_hash r = Some h \<longrightarrow> sig_schema_hash s = Some h)
   \<and> (\<forall>c. vm_connector_id r = Some c \<longrightarrow> sig_connector_id s = Some c)
   \<and> (\<forall>lo n. vm_row_count_min r = Some lo \<longrightarrow> sig_row_count s = Some n \<longrightarrow> lo \<le> n)
   \<and> (\<forall>hi n. vm_row_count_max r = Some hi \<longrightarrow> sig_row_count s = Some n \<longrightarrow> n \<le> hi)
   \<and> (\<forall>lo n. vm_missing_rate_bps_min r = Some lo \<longrightarrow> sig_missing_rate_bps s = Some n \<longrightarrow> lo \<le> n)
   \<and> (\<forall>hi n. vm_missing_rate_bps_max r = Some hi \<longrightarrow> sig_missing_rate_bps s = Some n \<longrightarrow> n \<le> hi)
   \<and> set (vm_tags r) \<subseteq> set (sig_tags s))"
proof -
  have tags: "(vm_tags r \<noteq> [] \<and> \<not> list_all (\<lambda>t. list_ex (\<lambda>c. c = t) (sig_tags s)) (vm_tags r))
      \<longleftrightarrow> \<not> set (vm_tags r) \<subseteq> set (sig_tags s)" for r
    by (auto simp: list_all_iff list_ex_iff)
  show ?thesis
    unfolding matches_def Let_def tags is_some_and_def by (auto split: option.splits)
qed

text \<open>\<open>v\<close> is the first of the matching variants of the greatest rank.\<close>

definition first_best :: "data_signature \<Rightarrow> workflow_variant list \<Rightarrow> workflow_variant \<Rightarrow> bool" where
  "first_best s vs v \<longleftrightarrow> (\<exists>pre post. vs = pre @ v # post \<and> matches v s
     \<and> (\<forall>u\<in>set pre. matches u s \<longrightarrow> rank u < rank v)
     \<and> (\<forall>u\<in>set post. matches u s \<longrightarrow> rank u \<le> rank v))"

lemma best_variant_Some:
  "matches b s \<Longrightarrow> \<exists>v. best_variant s (Some b) vs = Some v \<and> first_best s (b # vs) v"
proof (induction vs arbitrary: b)
  case Nil
  then show ?case by (auto simp: first_best_def intro!: exI [of _ "[]"])
next
  case (Cons a vs)
  show ?case
  proof (cases "matches a s \<and> rank a > rank b")
    case True
    with Cons.IH [of a] obtain v pre post where v: "best_variant s (Some a) vs = Some v"
      "a # vs = pre @ v # post" "matches v s" "\<forall>u\<in>set pre. matches u s \<longrightarrow> rank u < rank v"
      "\<forall>u\<in>set post. matches u s \<longrightarrow> rank u \<le> rank v"
      by (auto simp: first_best_def)
    then have "rank a \<le> rank v" using True by (cases pre) auto
    then have "rank b < rank v" using True by auto
    with v(2-5) have "first_best s (b # a # vs) v"
      unfolding first_best_def by (intro exI [of _ "b # pre"] exI [of _ post]) simp
    with v(1) True show ?thesis by simp
  next
    case False
    with Cons.IH [OF Cons.prems] obtain v pre post where v: "best_variant s (Some b) vs = Some v"
      "b # vs = pre @ v # post" "matches v s" "\<forall>u\<in>set pre. matches u s \<longrightarrow> rank u < rank v"
      "\<forall>u\<in>set post. matches u s \<longrightarrow> rank u \<le> rank v"
      by (auto simp: first_best_def)
    have "first_best s (b # a # vs) v"
    proof (cases pre)
      case Nil
      with v False show ?thesis
        unfolding first_best_def by (intro exI [of _ "[]"] exI [of _ "a # post"]) (auto simp: not_less)
    next
      case [simp]: (Cons b' pre')
      with v(2,4) Cons.prems have "rank b < rank v" by simp
      with False v show ?thesis
        unfolding first_best_def by (intro exI [of _ "b # a # pre'"] exI [of _ post]) auto
    qed
    with v(1) False show ?thesis by simp
  qed
qed

lemma best_variant_first_best:
  "best_variant s None vs = Some v \<Longrightarrow> first_best s vs v"
proof (induction vs)
  case Nil
  then show ?case by simp
next
  case (Cons a vs)
  show ?case
  proof (cases "matches a s")
    case True
    with best_variant_Some [of a s vs] Cons.prems show ?thesis by auto
  next
    case False
    with Cons obtain pre post where "vs = pre @ v # post" "matches v s"
      "\<forall>u\<in>set pre. matches u s \<longrightarrow> rank u < rank v" "\<forall>u\<in>set post. matches u s \<longrightarrow> rank u \<le> rank v"
      by (auto simp: first_best_def)
    with False show ?thesis
      unfolding first_best_def by (intro exI [of _ "a # pre"] exI [of _ post]) auto
  qed
qed

lemma best_variant_None_iff: "best_variant s None vs = None \<longleftrightarrow> (\<forall>v\<in>set vs. \<not> matches v s)"
proof (induction vs)
  case (Cons a vs)
  with best_variant_Some [of a s vs] show ?case by (cases "matches a s") auto
qed simp

text \<open>A selection comes from the first of the best-ranked matching variants: its predecessors in
  the policy that match have a smaller rank, its successors none greater.  Where nothing matches, the
  default variant is taken under the default fallback, and there is no selection otherwise.\<close>

theorem selects_first_best:
  "case best_variant s None (vp_variants p) of
     Some v \<Rightarrow> select p s e c d sch = Some (from_variant s v e c d sch)
       \<and> (\<exists>pre post. vp_variants p = pre @ v # post \<and> matches v s
           \<and> (\<forall>u\<in>set pre. matches u s \<longrightarrow> rank u < rank v)
           \<and> (\<forall>u\<in>set post. matches u s \<longrightarrow> rank u \<le> rank v))
   | None \<Rightarrow> (\<forall>v\<in>set (vp_variants p). \<not> matches v s)
       \<and> select p s e c d sch =
           (if vp_fallback p = UseDefaultVariant
            then map_option (\<lambda>v. from_variant s v e c d sch) (default_variant p) else None)"
  using best_variant_first_best [of s "vp_variants p"] best_variant_None_iff [of s "vp_variants p"]
  by (auto simp: select_def first_best_def split: option.split)

section \<open>What the compiler's policy selects\<close>

lemma high_volume_matches:
  "matches high_volume_variant s \<longleftrightarrow> (case sig_row_count s of None \<Rightarrow> True | Some n \<Rightarrow> 10000 < n)"
  by (auto simp: matches_iff high_volume_variant_def default_match_rule_def Let_def split: option.split)

lemma sparse_data_matches:
  "matches sparse_data_variant s \<longleftrightarrow> (case sig_missing_rate_bps s of None \<Rightarrow> True | Some n \<Rightarrow> 4000 \<le> n)"
  by (auto simp: matches_iff sparse_data_variant_def default_match_rule_def Let_def split: option.split)

lemma base_matches:
  "matches (base_variant k) s \<longleftrightarrow> (case sig_row_count s of None \<Rightarrow> True | Some n \<Rightarrow> n \<le> 10000)
     \<and> (case sig_missing_rate_bps s of None \<Rightarrow> True | Some n \<Rightarrow> n \<le> 2500)"
  by (auto simp: matches_iff base_variant_def default_match_rule_def Let_def split: option.split)

lemma standard_ranks:
  "rank sparse_data_variant < rank high_volume_variant"
  "rank (base_variant k) < rank high_volume_variant"
  "rank (base_variant k) < rank sparse_data_variant"
  by (simp_all add: rank_def less_prod_def sparse_data_variant_def high_volume_variant_def base_variant_def)

text \<open>The variant the compiler's own policy selects, for every signature: high volume above ten
  thousand rows and also when the row count is unknown; otherwise sparse data from a missing rate of
  4000 basis points and also when the rate is unknown; otherwise the base variant up to 2500 basis
  points; and nothing between 2500 and 4000.\<close>

theorem standard_policy_selects:
  "map_option (\<lambda>p. map_option vs_variant_id (select p s e c d sch)) (build_variant_policy steps) =
     (if steps = [] then None
      else Some (case (sig_row_count s, sig_missing_rate_bps s) of
          (None, _) \<Rightarrow> Some ''high_volume''
        | (Some n, m) \<Rightarrow>
            if 10000 < n then Some ''high_volume''
            else (case m of
                None \<Rightarrow> Some ''sparse_data''
              | Some bps \<Rightarrow>
                  if 4000 \<le> bps then Some ''sparse_data''
                  else if bps \<le> 2500 then Some ''base'' else None)))"
proof -
  have ids: "wv_id high_volume_variant = ''high_volume''" "wv_id sparse_data_variant = ''sparse_data''"
    "wv_id (base_variant k) = ''base''" for k
    by (simp_all add: high_volume_variant_def sparse_data_variant_def base_variant_def)
  show ?thesis
    using standard_ranks(1) standard_ranks(2,3) [of "length steps"]
    by (auto simp: build_variant_policy_def select_def high_volume_matches sparse_data_matches base_matches
        from_variant_def ids less_not_sym split: option.split)
qed

section \<open>Witness\<close>

definition sample_signature :: data_signature where
  "sample_signature = \<lparr>sig_schema_hash = None, sig_connector_id = None, sig_row_count = Some 20000,
     sig_missing_rate_bps = None, sig_tags = []\<rparr>"

definition sample_variant_policy :: workflow_variant_policy where
  "sample_variant_policy = \<lparr>vp_default_variant_id = ''base'', vp_fallback = UseDefaultVariant,
     vp_variants = [base_variant 1, sparse_data_variant, high_volume_variant]\<rparr>"

theorem selects_first_best_witness:
  "select sample_variant_policy sample_signature Sequential default_execution_constraints
       default_data_strategy default_scheduler_config
     = Some (from_variant sample_signature high_volume_variant Sequential
         default_execution_constraints default_data_strategy default_scheduler_config)"
proof -
  have "best_variant sample_signature None (vp_variants sample_variant_policy) = Some high_volume_variant"
    using standard_ranks(1)
    by (simp add: sample_variant_policy_def sample_signature_def base_matches sparse_data_matches
        high_volume_matches)
  then show ?thesis
    using selects_first_best [where s = sample_signature and p = sample_variant_policy and e = Sequential
        and c = default_execution_constraints and d = default_data_strategy and sch = default_scheduler_config] by simp
qed

end
