(* ===== verification/Compiled_Workflow.thy ===== *)
theory Compiled_Workflow
  imports Llm_Controls Typed_Expressions Workflow_Variants
begin

text \<open>
  The artifact of the workflow compiler (\<open>agent/workflow_compiler.rs\<close>): steps, bindings, policies
  and the workflow itself; the translation of a step's arguments to the templates of the runtime;
  and the plan built from a compiled workflow (\<open>agent/planner.rs\<close>).  A \<open>BTreeMap\<close> is the
  association list of its entries by ascending key.
\<close>

section \<open>Steps and policies\<close>

datatype dsl_step_type =
    FetchRecords | FilterStep | Compute | Aggregate | DetectAnomaly | LlmWorker | Branch | Notify
  | StoreResult | AcpBoundary

fun dsl_type_debug :: "dsl_step_type \<Rightarrow> string" where
  "dsl_type_debug FetchRecords = ''FetchRecords''"
| "dsl_type_debug FilterStep = ''Filter''"
| "dsl_type_debug Compute = ''Compute''"
| "dsl_type_debug Aggregate = ''Aggregate''"
| "dsl_type_debug DetectAnomaly = ''DetectAnomaly''"
| "dsl_type_debug LlmWorker = ''LlmWorker''"
| "dsl_type_debug Branch = ''Branch''"
| "dsl_type_debug Notify = ''Notify''"
| "dsl_type_debug StoreResult = ''StoreResult''"
| "dsl_type_debug AcpBoundary = ''AcpBoundary''"

definition LLM_WORKER_TOOL_NAME :: string where
  "LLM_WORKER_TOOL_NAME = ''llm_worker''"

datatype idempotency_class = Pure | SafeRepeat | SideEffect

datatype resume_behavior = Reuse | Recompute | Block

datatype failure_kind = TransientFailure | DataFailure | StructuralFailure | PolicyFailure

datatype recompile_mode = Fork | InPlace

record side_effect_policy =
  sep_pure :: string
  sep_safe_repeat :: string
  sep_side_effect :: string

definition default_side_effect_policy :: side_effect_policy where
  "default_side_effect_policy = \<lparr>sep_pure = ''recompute'', sep_safe_repeat = ''reuse_or_recompute'',
     sep_side_effect = ''block_or_confirm''\<rparr>"

record recompile_policy =
  rc_mode :: recompile_mode
  rc_trigger_on :: "failure_kind list"
  rc_ignore_on :: "failure_kind list"
  rc_max_recompile_count :: nat
  rc_preserve_state :: "string list"
  rc_side_effect_policy :: side_effect_policy
  rc_registry_version_policy :: string
  rc_approval_required_for :: "string list"
  rc_emit_diff :: bool

definition default_recompile_policy :: recompile_policy where
  "default_recompile_policy =
     \<lparr>rc_mode = Fork,
      rc_trigger_on = [StructuralFailure, PolicyFailure],
      rc_ignore_on = [TransientFailure, DataFailure],
      rc_max_recompile_count = 3,
      rc_preserve_state = [''completed_step_outputs'', ''failed_step_input_snapshot'',
        ''resource_bindings'', ''execution_snapshot'', ''user_confirmations''],
      rc_side_effect_policy = default_side_effect_policy,
      rc_registry_version_policy = ''pin_compile_time'',
      rc_approval_required_for = [''permissions_change'', ''side_effect_step_change''],
      rc_emit_diff = True\<rparr>"

record execution_policy =
  ep_on_retry :: resume_behavior
  ep_on_resume :: resume_behavior

definition default_execution_policy :: execution_policy where
  "default_execution_policy = \<lparr>ep_on_retry = Recompute, ep_on_resume = Reuse\<rparr>"

record execution_snapshot =
  es_workflow_hash :: string
  es_input_state :: json
  es_tool_versions :: "(string \<times> string) list"
  es_compiler_version :: string

record determinism_config =
  dc_time :: string
  dc_randomness :: string
  dc_external_calls :: string

definition default_determinism_config :: determinism_config where
  "default_determinism_config =
     \<lparr>dc_time = ''frozen'', dc_randomness = ''seeded'', dc_external_calls = ''recorded''\<rparr>"

record resource_binding =
  rb_id :: string
  rb_resource_type :: string
  rb_connector :: "string option"
  rb_permissions :: "string list"
  rb_schema :: "(string \<times> type_spec) list"

record binding_rule =
  br_dsl_type :: dsl_step_type
  br_source :: "string option"
  br_tool :: string
  br_operation :: string

section \<open>Compiled steps and workflows\<close>

record compiled_step =
  cs_id :: string
  cs_dsl_type :: dsl_step_type
  cs_tool :: "string option"
  cs_operation :: "string option"
  cs_branch_condition :: "string option"
  cs_repeat_until :: "string option"
  cs_fallback_step :: "string option"
  cs_loop_back_to :: "string option"
  cs_llm_role :: "llm_role option"
  cs_execution_intent :: "llm_execution_intent option"
  cs_llm_generation :: "llm_generation_config option"
  cs_args :: json
  cs_input_mapping :: "(string \<times> string) list"
  cs_output_mapping :: "(string \<times> string) list"
  cs_output_schema :: json
  cs_success_criteria :: "string list"
  cs_retry_policy :: retry_policy
  cs_execution_policy :: execution_policy
  cs_idempotency :: idempotency_class
  cs_locks :: "string list"
  cs_depends_on :: "string list"
  cs_next_steps :: "string list"
  cs_condition :: "step_condition option"
  cs_resource :: "string option"
  cs_handshake_id :: "string option"
  cs_handshake_version :: "nat option"
  cs_boundary_role :: "string option"
  cs_boundary_scope :: "string option"
  cs_peer_endpoint :: "string option"

record compiled_workflow =
  cw_workflow_id :: string
  cw_version :: string
  cw_workflow_version :: string
  cw_parent_workflow_version :: "string option"
  cw_recompile_reason :: "string option"
  cw_dsl_version :: string
  cw_binding_version :: string
  cw_runtime_version :: string
  cw_tool_registry_version :: string
  cw_entry_step :: string
  cw_execution :: execution_mode
  cw_steps :: "compiled_step list"
  cw_state_schema :: json
  cw_resources :: "(string \<times> resource_binding) list"
  cw_metadata :: json
  cw_tool_capabilities :: "(string \<times> string list) list"
  cw_binding_rules :: "binding_rule list"
  cw_variant_policy :: "workflow_variant_policy option"
  cw_execution_constraints :: execution_constraints
  cw_data_strategy :: data_strategy
  cw_determinism :: determinism_config
  cw_scheduler :: scheduler_config
  cw_recompile_policy :: recompile_policy
  cw_expression_functions :: "(string \<times> expression_function_spec) list"
  cw_permissions :: "(string \<times> string list) list"
  cw_execution_snapshot :: "execution_snapshot option"

definition build_state_schema :: "compiled_step list \<Rightarrow> json" where
  "build_state_schema steps = obj_of_list
     [(''type'', JString ''object''),
      (''properties'', obj_of_list (map (\<lambda>step. (cs_id step, cs_output_schema step)) steps)),
      (''required'', JArray (map (JString \<circ> cs_id) steps)),
      (''additionalProperties'', JBool False)]"

section \<open>Argument templates\<close>

fun split_once :: "char \<Rightarrow> string \<Rightarrow> (string \<times> string) option" where
  "split_once c [] = None"
| "split_once c (x # xs) =
     (if x = c then Some ([], xs) else map_option (\<lambda>(a, b). (x # a, b)) (split_once c xs))"

definition legacy_template_for_source_path :: "string \<Rightarrow> string" where
  "legacy_template_for_source_path source =
     (case split_once CHR ''.'' source of
        None \<Rightarrow> source
      | Some (step_ref, tail) \<Rightarrow>
          (case strip_prefix ''step_'' step_ref of
             None \<Rightarrow> source
           | Some step_num \<Rightarrow>
               (case parse_usize step_num of
                  None \<Rightarrow> source
                | Some index \<Rightarrow>
                    ''{{$.deps.step-'' @ show_nat (index - 1) @ ''.output.'' @ tail @ ''}}'')))"

fun translate :: "(string \<times> string) list \<Rightarrow> json \<Rightarrow> json" where
  "translate input_mapping (JString s) =
     (case Option.bind (strip_prefix ''$input.'' s) (map_of input_mapping) of
        Some source \<Rightarrow> JString (legacy_template_for_source_path source)
      | None \<Rightarrow> JString s)"
| "translate input_mapping (JObject kvs) = JObject (map (\<lambda>(k, v). (k, translate input_mapping v)) kvs)"
| "translate input_mapping (JArray items) = JArray (map (translate input_mapping) items)"
| "translate input_mapping other = other"

definition legacy_args_template_from_compiled_step :: "compiled_step \<Rightarrow> json" where
  "legacy_args_template_from_compiled_step step =
     (if cs_input_mapping step = [] then cs_args step
      else translate (cs_input_mapping step) (cs_args step))"

section \<open>The plan of a compiled workflow\<close>

datatype role_category =
    SoftwareEngineer | ResearchAnalyst | CustomerSupport | DevOps | Marketing | DataExtraction
  | SalesRevOps | FinanceAccounting | HRPeopleOps | LegalContract | ITOpsITSM | General

fun role_category_as_str :: "role_category \<Rightarrow> string" where
  "role_category_as_str SoftwareEngineer = ''software_engineer''"
| "role_category_as_str ResearchAnalyst = ''research_analyst''"
| "role_category_as_str CustomerSupport = ''customer_support''"
| "role_category_as_str DevOps = ''devops''"
| "role_category_as_str Marketing = ''marketing''"
| "role_category_as_str DataExtraction = ''data_extraction''"
| "role_category_as_str SalesRevOps = ''sales_revops''"
| "role_category_as_str FinanceAccounting = ''finance_accounting''"
| "role_category_as_str HRPeopleOps = ''hr_people_ops''"
| "role_category_as_str LegalContract = ''legal_contract''"
| "role_category_as_str ITOpsITSM = ''it_ops_itsm''"
| "role_category_as_str General = ''general''"

text \<open>The serialized names of the enumerations.\<close>

fun llm_role_name :: "llm_role \<Rightarrow> string" where
  "llm_role_name Extractor = ''extractor''"
| "llm_role_name Router = ''router''"
| "llm_role_name Drafter = ''drafter''"
| "llm_role_name Critic = ''critic''"
| "llm_role_name Validator = ''validator''"
| "llm_role_name Recovery = ''recovery''"
| "llm_role_name FailureClassifier = ''failure_classifier''"

fun execution_intent_name :: "llm_execution_intent \<Rightarrow> string" where
  "execution_intent_name IntentStrict = ''strict''"
| "execution_intent_name IntentBalanced = ''balanced''"
| "execution_intent_name IntentCreative = ''creative''"

fun budget_tier_name :: "llm_budget_tier \<Rightarrow> string" where
  "budget_tier_name Lean = ''lean''"
| "budget_tier_name Standard = ''standard''"
| "budget_tier_name High = ''high''"

definition llm_worker_args :: "compiled_step \<Rightarrow> (string \<times> json) list \<Rightarrow> (string \<times> json) list" where
  "llm_worker_args step obj =
     (let role = unwrap_or (cs_llm_role step) Drafter;
          generation = unwrap_or (cs_llm_generation step) (llm_generation_for_hint (cs_id step) role)
      in fold (\<lambda>(k, v). obj_insert k v)
         [(''llm_role'', JString (llm_role_name role)),
          (''execution_intent'', JString (execution_intent_name (lg_execution_intent generation))),
          (''budget_tier'', JString (budget_tier_name (lg_budget_tier generation))),
          (''temperature'', JNumber (FloatNum (lg_temperature generation))),
          (''max_tokens'', JNumber (PosInt (lg_max_tokens generation))),
          (''cost_budget_usd'',
             (case lg_cost_budget_usd generation of None \<Rightarrow> JNull | Some c \<Rightarrow> JNumber (FloatNum c))),
          (''response_format'', JString ''json''),
          (''output_schema'', cs_output_schema step)] obj)"

definition plan_tool_args :: "compiled_step \<Rightarrow> json" where
  "plan_tool_args step =
     (let tool_args = legacy_args_template_from_compiled_step step
      in if cs_tool step = Some LLM_WORKER_TOOL_NAME
         then (case tool_args of JObject obj \<Rightarrow> JObject (llm_worker_args step obj) | other \<Rightarrow> other)
         else tool_args)"

definition plan_dependency :: "string \<Rightarrow> nat option" where
  "plan_dependency dep =
     map_option (\<lambda>value. value - 1) (Option.bind (strip_prefix ''step_'' dep) parse_usize)"

definition plan_step_of :: "nat \<Rightarrow> compiled_step \<Rightarrow> planned_step" where
  "plan_step_of index step =
     \<lparr>ps_index = index,
      ps_description = cs_id step @ '': '' @ dsl_type_debug (cs_dsl_type step),
      ps_tool = cs_tool step,
      ps_tool_args = Some (plan_tool_args step),
      ps_success_criteria =
        (if cs_success_criteria step = [] then ''step '' @ show_nat (index + 1) @ '' complete''
         else join_with ''; '' (cs_success_criteria step)),
      ps_condition = cs_condition step,
      ps_foreach = None,
      ps_depends_on = List.map_filter plan_dependency (cs_depends_on step)\<rparr>"

text \<open>Of the role only its purpose and its category are used.\<close>

definition from_compiled_workflow :: "compiled_workflow \<Rightarrow> string \<Rightarrow> role_category \<Rightarrow> plan" where
  "from_compiled_workflow workflow purpose category =
     \<lparr>plan_goal = purpose,
      plan_job_type = Some (role_category_as_str category),
      plan_steps = map (\<lambda>(index, step). plan_step_of index step) (enumerate 0 (cw_steps workflow)),
      plan_rationale = ''deterministic plan from compiled workflow''\<rparr>"

end
