(* ===== verification/Workflow_Validation.thy ===== *)
theory Workflow_Validation
  imports Compiled_Workflow
begin

text \<open>
  The last pass of the workflow compiler, \<open>validate_compiled_workflow\<close> of
  \<open>agent/workflow_compiler.rs\<close>, one error constructor per message; what an accepted workflow
  satisfies, and what the plan built from it keeps of its dependencies.
\<close>

section \<open>The checks\<close>

fun contains_placeholder_value :: "json \<Rightarrow> bool" where
  "contains_placeholder_value (JString s) =
     (let lower = to_ascii_lowercase s
      in str_contains ''tbd'' lower \<or> str_contains ''placeholder'' lower \<or> str_contains ''{{'' s)"
| "contains_placeholder_value (JArray items) = list_ex contains_placeholder_value items"
| "contains_placeholder_value (JObject kvs) = list_ex (\<lambda>kv. contains_placeholder_value (snd kv)) kvs"
| "contains_placeholder_value _ = False"

datatype step_error =
    NoTool | NoOperation | NoLlmRole | NoExecutionIntent | NoLlmGeneration | OperationNotReason
  | PlaceholderArgs | EmptyInputMapping | UnresolvedInputMapping | EmptyOutputMapping
  | UnresolvedOutputMapping | NoOutputMapping | BadCondition expression_error
  | UnknownResource string

datatype compiler_error =
    WorkflowIdEmpty | WorkflowVersionEmpty | VersionEmpty | VersionMismatch | VersionFieldsEmpty
  | ToolRegistryVersionEmpty | NoSteps | RecompileCountZero | RecompileModeInvalid
  | DefaultVariantIdEmpty | NoVariants | VariantIdEmpty | DuplicateVariant string
  | UnknownDefaultVariant string
  | StepIdEmpty | DuplicateStep string | StepError string step_error
  | UnknownEntryStep string | StateSchemaNotObject | StateSchemaNoRequired
  | StateSchemaMissing string
  | UnknownDependency string string | UnknownNextStep string string
  | UnknownFallbackStep string string | UnknownLoopBack string string

definition blank_option :: "string option \<Rightarrow> bool" where
  "blank_option x = (case x of None \<Rightarrow> True | Some v \<Rightarrow> trim v = [])"

definition unresolved_path :: "string \<Rightarrow> bool" where
  "unresolved_path path = (let lower = to_ascii_lowercase path
     in str_contains ''{{'' path \<or> str_contains ''tbd'' lower \<or> str_contains ''placeholder'' lower)"

definition validate_mapping ::
  "step_error \<Rightarrow> step_error \<Rightarrow> (string \<times> string) list \<Rightarrow> step_error + unit" where
  "validate_mapping empty_err unresolved_err mapping = checks (map (\<lambda>(name, path). checks
     [require (\<not> (trim name = [] \<or> trim path = [])) empty_err,
      require (\<not> unresolved_path path) unresolved_err]) mapping)"

definition validate_compiled_step :: "compiled_step \<Rightarrow> compiled_workflow \<Rightarrow> step_error + unit" where
  "validate_compiled_step step workflow = checks
     [if cs_dsl_type step \<noteq> Branch then checks
        [require (\<not> blank_option (cs_tool step)) NoTool,
         require (\<not> blank_option (cs_operation step)) NoOperation]
      else Inr (),
      if cs_tool step = Some LLM_WORKER_TOOL_NAME then checks
        [require (cs_llm_role step \<noteq> None) NoLlmRole,
         require (cs_execution_intent step \<noteq> None) NoExecutionIntent,
         require (cs_llm_generation step \<noteq> None) NoLlmGeneration,
         require (cs_operation step = Some ''reason'') OperationNotReason]
      else Inr (),
      require (\<not> contains_placeholder_value (cs_args step)) PlaceholderArgs,
      validate_mapping EmptyInputMapping UnresolvedInputMapping (cs_input_mapping step),
      validate_mapping EmptyOutputMapping UnresolvedOutputMapping (cs_output_mapping step),
      require (\<not> (cs_dsl_type step \<noteq> Branch \<and> cs_output_mapping step = [])) NoOutputMapping,
      (case cs_condition step of
         None \<Rightarrow> Inr ()
       | Some condition \<Rightarrow>
           (case validate_typed_expression (cw_expression_functions workflow) condition of
              Inl e \<Rightarrow> Inl (BadCondition e)
            | Inr _ \<Rightarrow> Inr ())),
      (case cs_resource step of
         None \<Rightarrow> Inr ()
       | Some resource_id \<Rightarrow>
           require (resource_id \<in> fst ` set (cw_resources workflow)) (UnknownResource resource_id))]"

fun validate_variants :: "string list \<Rightarrow> workflow_variant list \<Rightarrow> compiler_error + unit" where
  "validate_variants seen [] = Inr ()"
| "validate_variants seen (v # vs) = checks
     [require (trim (wv_id v) \<noteq> []) VariantIdEmpty,
      require (wv_id v \<notin> set seen) (DuplicateVariant (wv_id v)),
      validate_variants (wv_id v # seen) vs]"

definition validate_variant_policy :: "workflow_variant_policy \<Rightarrow> compiler_error + unit" where
  "validate_variant_policy policy = checks
     [require (trim (vp_default_variant_id policy) \<noteq> []) DefaultVariantIdEmpty,
      require (vp_variants policy \<noteq> []) NoVariants,
      validate_variants [] (vp_variants policy),
      require (vp_default_variant_id policy \<in> wv_id ` set (vp_variants policy))
        (UnknownDefaultVariant (vp_default_variant_id policy))]"

fun validate_steps :: "compiled_workflow \<Rightarrow> string list \<Rightarrow> compiled_step list \<Rightarrow> compiler_error + unit" where
  "validate_steps workflow seen [] = Inr ()"
| "validate_steps workflow seen (step # steps) = checks
     [require (trim (cs_id step) \<noteq> []) StepIdEmpty,
      require (cs_id step \<notin> set seen) (DuplicateStep (cs_id step)),
      (case validate_compiled_step step workflow of
         Inl e \<Rightarrow> Inl (StepError (cs_id step) e) | Inr _ \<Rightarrow> Inr ()),
      validate_steps workflow (cs_id step # seen) steps]"

definition validate_state_schema :: "json \<Rightarrow> compiled_step list \<Rightarrow> compiler_error + unit" where
  "validate_state_schema schema steps =
     (case as_object schema of
        None \<Rightarrow> Inl StateSchemaNotObject
      | Some obj \<Rightarrow>
          (case Option.bind (map_of obj ''required'') as_array of
             None \<Rightarrow> Inl StateSchemaNoRequired
           | Some required \<Rightarrow>
               (let required_ids = List.map_filter as_str required
                in checks (map (\<lambda>step.
                     require (cs_id step \<in> set required_ids) (StateSchemaMissing (cs_id step))) steps))))"

definition validate_references :: "string list \<Rightarrow> compiled_step \<Rightarrow> compiler_error + unit" where
  "validate_references step_ids step = checks
     [checks (map (\<lambda>dep. require (dep \<in> set step_ids) (UnknownDependency (cs_id step) dep))
        (cs_depends_on step)),
      checks (map (\<lambda>next. require (next \<in> set step_ids) (UnknownNextStep (cs_id step) next))
        (cs_next_steps step)),
      (case cs_fallback_step step of
         None \<Rightarrow> Inr ()
       | Some fallback \<Rightarrow> require (fallback \<in> set step_ids) (UnknownFallbackStep (cs_id step) fallback)),
      (case cs_loop_back_to step of
         None \<Rightarrow> Inr ()
       | Some loop_back \<Rightarrow> require (loop_back \<in> set step_ids) (UnknownLoopBack (cs_id step) loop_back))]"

definition validate_compiled_workflow :: "compiled_workflow \<Rightarrow> compiler_error + unit" where
  "validate_compiled_workflow workflow =
     (let step_ids = map cs_id (cw_steps workflow) in checks
     [require (trim (cw_workflow_id workflow) \<noteq> []) WorkflowIdEmpty,
      require (trim (cw_workflow_version workflow) \<noteq> []) WorkflowVersionEmpty,
      require (trim (cw_version workflow) \<noteq> []) VersionEmpty,
      require (cw_version workflow = cw_workflow_version workflow) VersionMismatch,
      require (\<not> (trim (cw_dsl_version workflow) = [] \<or> trim (cw_binding_version workflow) = []
        \<or> trim (cw_runtime_version workflow) = [])) VersionFieldsEmpty,
      require (trim (cw_tool_registry_version workflow) \<noteq> []) ToolRegistryVersionEmpty,
      require (cw_steps workflow \<noteq> []) NoSteps,
      require (rc_max_recompile_count (cw_recompile_policy workflow) \<noteq> 0) RecompileCountZero,
      require (rc_mode (cw_recompile_policy workflow) \<in> {Fork, InPlace}) RecompileModeInvalid,
      (case cw_variant_policy workflow of None \<Rightarrow> Inr () | Some policy \<Rightarrow> validate_variant_policy policy),
      validate_steps workflow [] (cw_steps workflow),
      require (cw_entry_step workflow \<in> set step_ids) (UnknownEntryStep (cw_entry_step workflow)),
      validate_state_schema (cw_state_schema workflow) (cw_steps workflow),
      checks (map (validate_references step_ids) (cw_steps workflow))])"

section \<open>What an accepted workflow satisfies\<close>

lemma checks_map_ok: "checks (map f xs) = Inr () \<longleftrightarrow> (\<forall>x\<in>set xs. f x = Inr ())"
  by (auto simp: checks_ok_iff)

lemma validate_variants_ok:
  "validate_variants seen vs = Inr () \<longleftrightarrow> (\<forall>v\<in>set vs. trim (wv_id v) \<noteq> [])
     \<and> distinct (map wv_id vs) \<and> set seen \<inter> wv_id ` set vs = {}"
  by (induction vs arbitrary: seen) (auto simp: checks_ok_iff)

lemma validate_steps_ok:
  "validate_steps w seen steps = Inr () \<longleftrightarrow>
     (\<forall>s\<in>set steps. trim (cs_id s) \<noteq> [] \<and> validate_compiled_step s w = Inr ())
     \<and> distinct (map cs_id steps) \<and> set seen \<inter> cs_id ` set steps = {}"
  by (induction steps arbitrary: seen) (auto simp: checks_ok_iff split: sum.splits)

lemma validate_variant_policy_ok:
  "validate_variant_policy p = Inr () \<longleftrightarrow> (\<forall>v\<in>set (vp_variants p). trim (wv_id v) \<noteq> [])
     \<and> distinct (map wv_id (vp_variants p)) \<and> vp_default_variant_id p \<in> wv_id ` set (vp_variants p)"
  by (auto simp: validate_variant_policy_def checks_ok_iff validate_variants_ok)

lemma validate_references_ok:
  "validate_references ids s = Inr () \<longleftrightarrow>
     set (cs_depends_on s) \<union> set (cs_next_steps s) \<union> set_option (cs_fallback_step s)
       \<union> set_option (cs_loop_back_to s) \<subseteq> set ids"
  by (auto simp: validate_references_def checks_ok_iff split: option.splits)

lemma validate_state_schema_ok:
  "validate_state_schema schema steps = Inr () \<longleftrightarrow>
     (\<exists>required. json_get ''required'' schema = Some (JArray required)
        \<and> (\<forall>s\<in>set steps. JString (cs_id s) \<in> set required))"
proof -
  have "x \<in> set (List.map_filter as_str required) \<longleftrightarrow> JString x \<in> set required" for x required
    by (induction required) (auto split: option.splits elim!: as_str.elims)
  then show ?thesis
    by (cases schema) (auto simp: validate_state_schema_def checks_map_ok bind_eq_Some_conv
        split: option.splits elim!: as_array.elims)
qed

lemma validate_mapping_ok:
  "validate_mapping e u mapping = Inr () \<longleftrightarrow> (\<forall>(name, path)\<in>set mapping.
     trim name \<noteq> [] \<and> trim path \<noteq> [] \<and> \<not> unresolved_path path)"
  by (auto simp: validate_mapping_def checks_map_ok checks_ok_iff)

text \<open>A step is bound: it has a tool and an operation, the settings a language-model tool needs, no
  placeholder left in its arguments or mappings, an output, an accepted condition and a known
  resource.\<close>

definition step_bound :: "compiled_workflow \<Rightarrow> compiled_step \<Rightarrow> bool" where
  "step_bound w s \<longleftrightarrow>
     (cs_dsl_type s = Branch \<or> \<not> blank_option (cs_tool s) \<and> \<not> blank_option (cs_operation s)
        \<and> cs_output_mapping s \<noteq> [])
   \<and> (cs_tool s = Some ''llm_worker'' \<longrightarrow> cs_llm_role s \<noteq> None \<and> cs_execution_intent s \<noteq> None
        \<and> cs_llm_generation s \<noteq> None \<and> cs_operation s = Some ''reason'')
   \<and> \<not> contains_placeholder_value (cs_args s)
   \<and> (\<forall>(name, path)\<in>set (cs_input_mapping s) \<union> set (cs_output_mapping s).
        trim name \<noteq> [] \<and> trim path \<noteq> [] \<and> \<not> unresolved_path path)
   \<and> (\<forall>c. cs_condition s = Some c \<longrightarrow> validate_typed_expression (cw_expression_functions w) c = Inr ())
   \<and> set_option (cs_resource s) \<subseteq> fst ` set (cw_resources w)"

lemma validate_compiled_step_ok: "validate_compiled_step s w = Inr () \<longleftrightarrow> step_bound w s"
proof -
  have condition: "(case cs_condition s of None \<Rightarrow> Inr ()
      | Some c \<Rightarrow> (case validate_typed_expression (cw_expression_functions w) c of
           Inl e \<Rightarrow> Inl (BadCondition e) | Inr _ \<Rightarrow> Inr ())) = Inr ()
    \<longleftrightarrow> (\<forall>c. cs_condition s = Some c \<longrightarrow> validate_typed_expression (cw_expression_functions w) c = Inr ())"
    by (auto split: option.splits sum.splits)
  have resource: "(case cs_resource s of None \<Rightarrow> Inr ()
      | Some r \<Rightarrow> require (r \<in> fst ` set (cw_resources w)) (UnknownResource r)) = Inr ()
    \<longleftrightarrow> set_option (cs_resource s) \<subseteq> fst ` set (cw_resources w)"
    by (auto split: option.splits)
  show ?thesis
    unfolding validate_compiled_step_def step_bound_def LLM_WORKER_TOOL_NAME_def
    by (simp add: checks_ok_iff condition resource validate_mapping_ok ball_Un) blast
qed

text \<open>C21: The compiler's last pass accepts exactly the closed workflows: every header field is set and
  the two versions agree; a variant policy has distinct ids and its default among them; the step ids
  are distinct and not blank; every step is bound; the entry step and every dependency, successor,
  fallback and loop target is a step; and the state schema requires a bucket for each step.\<close>

theorem accepts_exactly_closed_workflows:
  "validate_compiled_workflow w = Inr () \<longleftrightarrow>
     (\<forall>field\<in>{cw_workflow_id w, cw_version w, cw_dsl_version w, cw_binding_version w,
        cw_runtime_version w, cw_tool_registry_version w}. trim field \<noteq> [])
   \<and> cw_workflow_version w = cw_version w
   \<and> rc_max_recompile_count (cw_recompile_policy w) > 0
   \<and> (\<forall>p. cw_variant_policy w = Some p \<longrightarrow> (\<forall>v\<in>set (vp_variants p). trim (wv_id v) \<noteq> [])
        \<and> distinct (map wv_id (vp_variants p)) \<and> default_variant p \<noteq> None)
   \<and> distinct (map cs_id (cw_steps w))
   \<and> (\<forall>s\<in>set (cw_steps w). trim (cs_id s) \<noteq> [] \<and> step_bound w s
        \<and> set (cs_depends_on s) \<union> set (cs_next_steps s) \<union> set_option (cs_fallback_step s)
           \<union> set_option (cs_loop_back_to s) \<subseteq> cs_id ` set (cw_steps w))
   \<and> cw_entry_step w \<in> cs_id ` set (cw_steps w)
   \<and> (\<exists>required. json_get ''required'' (cw_state_schema w) = Some (JArray required)
        \<and> (\<forall>s\<in>set (cw_steps w). JString (cs_id s) \<in> set required))"
proof -
  have mode: "rc_mode (cw_recompile_policy w) \<in> {Fork, InPlace}"
    by (cases "rc_mode (cw_recompile_policy w)") auto
  have default: "default_variant p \<noteq> None \<longleftrightarrow> vp_default_variant_id p \<in> wv_id ` set (vp_variants p)" for p
    using find_key_eq_None_iff [of wv_id "vp_default_variant_id p" "vp_variants p"]
    by (simp add: default_variant_def)
  have policy: "(case cw_variant_policy w of None \<Rightarrow> Inr () | Some p \<Rightarrow> validate_variant_policy p) = Inr ()
    \<longleftrightarrow> (\<forall>p. cw_variant_policy w = Some p \<longrightarrow> validate_variant_policy p = Inr ())"
    by (auto split: option.splits)
  show ?thesis
    unfolding validate_compiled_workflow_def Let_def default
    using mode
    by (simp add: checks_ok_iff checks_map_ok policy validate_variant_policy_ok validate_steps_ok
        validate_state_schema_ok validate_references_ok validate_compiled_step_ok) auto
qed

lemma accepted_dependencies:
  assumes "validate_compiled_workflow w = Inr ()" "s \<in> set (cw_steps w)"
  shows "set (cs_depends_on s) \<subseteq> cs_id ` set (cw_steps w)"
  using assms
  by (auto simp: validate_compiled_workflow_def Let_def checks_ok_iff checks_map_ok validate_references_ok)

text \<open>An accepted policy that falls back to its default always selects a variant.\<close>

theorem accepted_policy_selects:
  assumes "validate_variant_policy p = Inr ()" "vp_fallback p = UseDefaultVariant"
  shows "select p signature e c d sch \<noteq> None"
  using assms find_key_eq_None_iff [of wv_id "vp_default_variant_id p" "vp_variants p"]
  by (auto simp: select_def validate_variant_policy_ok default_variant_def split: option.split)

section \<open>What the plan keeps\<close>

lemma plan_dependency_canonical:
  "j + 1 < 2 ^ 64 \<Longrightarrow> plan_dependency (''step_'' @ show_nat (j + 1)) = Some j"
  unfolding plan_dependency_def strip_prefix_append by (simp add: parse_usize_show)

lemma plan_step_nth:
  "i < length (cw_steps w) \<Longrightarrow>
   plan_steps (from_compiled_workflow w purpose category) ! i = plan_step_of i (cw_steps w ! i)"
  by (simp add: from_compiled_workflow_def nth_enumerate_eq)

text \<open>C32: The plan of an accepted workflow whose steps are numbered \<open>step_1\<close>, \<open>step_2\<close>, ... in order
  keeps every dependency: the indices it lists for a step name exactly the steps the workflow
  listed, in the same order, all within the plan.\<close>

theorem plan_keeps_dependencies:
  fixes w :: compiled_workflow and purpose :: string and category :: role_category and i :: nat
  assumes accepted: "validate_compiled_workflow w = Inr ()"
    and ids: "map cs_id (cw_steps w) = map (\<lambda>i. ''step_'' @ show_nat (i + 1)) [0..<length (cw_steps w)]"
    and size: "length (cw_steps w) < 2 ^ 64" and i: "i < length (cw_steps w)"
  defines "deps \<equiv> ps_depends_on (plan_steps (from_compiled_workflow w purpose category) ! i)"
  shows "map (\<lambda>j. cs_id (cw_steps w ! j)) deps = cs_depends_on (cw_steps w ! i)
    \<and> (\<forall>j\<in>set deps. j < length (cw_steps w))"
proof -
  let ?n = "length (cw_steps w)" and ?deps = "cs_depends_on (cw_steps w ! i)"
  have id: "cs_id (cw_steps w ! j) = ''step_'' @ show_nat (j + 1)" if "j < ?n" for j
    using that arg_cong [OF ids, of "\<lambda>xs. xs ! j"] by simp
  have position: "\<exists>j<?n. plan_dependency d = Some j \<and> cs_id (cw_steps w ! j) = d" if "d \<in> set ?deps" for d
  proof -
    from accepted_dependencies [OF accepted nth_mem [OF i]] that
    obtain s where "s \<in> set (cw_steps w)" "cs_id s = d" by blast
    then obtain j where "j < ?n" "cs_id (cw_steps w ! j) = d" by (auto simp: in_set_conv_nth)
    moreover from this have "plan_dependency d = Some j"
      using id [of j] plan_dependency_canonical [of j] size by simp
    ultimately show ?thesis by blast
  qed
  then obtain pos where pos: "\<forall>d\<in>set ?deps. pos d < ?n \<and> plan_dependency d = Some (pos d)
      \<and> cs_id (cw_steps w ! pos d) = d"
    by metis
  then have "deps = map pos ?deps"
    unfolding deps_def plan_step_nth [OF i]
    by (simp add: plan_step_of_def map_filter_cong_Some)
  with pos show ?thesis by (auto intro: map_idI)
qed

text \<open>Steps keep the ids of the draft, and dependencies on ids of another form are dropped: the step
  is planned as if it had none.\<close>

theorem named_dependencies_dropped:
  assumes "i < length (cw_steps w)"
    and "\<forall>d\<in>set (cs_depends_on (cw_steps w ! i)). \<not> starts_with ''step_'' d"
  shows "ps_depends_on (plan_steps (from_compiled_workflow w purpose category) ! i) = []"
proof -
  have "plan_dependency d = None" if "\<not> starts_with ''step_'' d" for d
    using that by (simp add: plan_dependency_def strip_prefix_def)
  then have "List.map_filter plan_dependency ds = []" if "\<forall>d\<in>set ds. \<not> starts_with ''step_'' d" for ds
    using that by (induction ds) simp_all
  with assms show ?thesis by (simp add: plan_step_nth plan_step_of_def)
qed

section \<open>Witnesses\<close>

definition sample_step :: "string \<Rightarrow> string list \<Rightarrow> compiled_step" where
  "sample_step step_id deps =
     \<lparr>cs_id = step_id, cs_dsl_type = FetchRecords, cs_tool = Some ''http'', cs_operation = Some ''get'',
      cs_branch_condition = None, cs_repeat_until = None, cs_fallback_step = None, cs_loop_back_to = None,
      cs_llm_role = None, cs_execution_intent = None, cs_llm_generation = None, cs_args = JNull,
      cs_input_mapping = [], cs_output_mapping = [(''out'', ''x.out'')], cs_output_schema = JNull,
      cs_success_criteria = [], cs_retry_policy = default_retry_policy,
      cs_execution_policy = default_execution_policy, cs_idempotency = Pure, cs_locks = [],
      cs_depends_on = deps, cs_next_steps = [], cs_condition = None, cs_resource = None,
      cs_handshake_id = None, cs_handshake_version = None, cs_boundary_role = None,
      cs_boundary_scope = None, cs_peer_endpoint = None\<rparr>"

definition sample_workflow :: "compiled_step list \<Rightarrow> compiled_workflow" where
  "sample_workflow steps =
     \<lparr>cw_workflow_id = ''wf_1'', cw_version = ''v2'', cw_workflow_version = ''v2'',
      cw_parent_workflow_version = None, cw_recompile_reason = None, cw_dsl_version = ''v1'',
      cw_binding_version = ''v1'', cw_runtime_version = ''v1'', cw_tool_registry_version = ''registry'',
      cw_entry_step = cs_id (hd steps), cw_execution = Parallel, cw_steps = steps,
      cw_state_schema = build_state_schema steps, cw_resources = [], cw_metadata = JNull,
      cw_tool_capabilities = [], cw_binding_rules = [], cw_variant_policy = build_variant_policy steps,
      cw_execution_constraints = default_execution_constraints, cw_data_strategy = default_data_strategy,
      cw_determinism = default_determinism_config, cw_scheduler = default_scheduler_config,
      cw_recompile_policy = default_recompile_policy, cw_expression_functions = expression_functions,
      cw_permissions = [], cw_execution_snapshot = None\<rparr>"

lemma trim_sample [simp]:
  "trim ''wf_1'' = ''wf_1''" "trim ''v1'' = ''v1''" "trim ''v2'' = ''v2''" "trim ''registry'' = ''registry''"
  "trim ''base'' = ''base''" "trim ''high_volume'' = ''high_volume''" "trim ''sparse_data'' = ''sparse_data''"
  "trim ''http'' = ''http''" "trim ''get'' = ''get''" "trim ''out'' = ''out''" "trim ''x.out'' = ''x.out''"
  "trim ''step_1'' = ''step_1''" "trim ''step_2'' = ''step_2''" "trim ''fetch'' = ''fetch''"
  "trim ''notify'' = ''notify''"
  by (rule trim_visible; simp add: visible_def byte_of_def)+

lemma sample_step_bound: "step_bound w (sample_step a ds)"
  by (simp add: step_bound_def sample_step_def blank_option_def unresolved_path_def str_contains_def
      to_ascii_lowercase_def ascii_lower_def byte_of_def)

lemma sample_policy_ok: "build_variant_policy [a, b] = Some p \<Longrightarrow> validate_variant_policy p = Inr ()"
  by (auto simp: build_variant_policy_def validate_variant_policy_ok high_volume_variant_def
      sparse_data_variant_def base_variant_def)

lemma sample_accepted:
  assumes "trim a \<noteq> []" "trim b \<noteq> []" "a \<noteq> b" "set ds \<subseteq> {a, b}" "set es \<subseteq> {a, b}"
  shows "validate_compiled_workflow (sample_workflow [sample_step a ds, sample_step b es]) = Inr ()"
proof -
  have [simp]: "cs_id (sample_step x xs) = x" "cs_depends_on (sample_step x xs) = xs"
    "cs_next_steps (sample_step x xs) = []" "cs_fallback_step (sample_step x xs) = None"
    "cs_loop_back_to (sample_step x xs) = None" for x xs
    by (simp_all add: sample_step_def)
  let ?steps = "[sample_step a ds, sample_step b es]"
  let ?w = "sample_workflow ?steps"
  have [simp]: "cw_steps ?w = ?steps" "cw_variant_policy ?w = build_variant_policy ?steps"
    "cw_entry_step ?w = a" "cw_state_schema ?w = build_state_schema ?steps"
    "cw_recompile_policy ?w = default_recompile_policy" "cw_workflow_id ?w = ''wf_1''"
    "cw_version ?w = ''v2''" "cw_workflow_version ?w = ''v2''" "cw_dsl_version ?w = ''v1''"
    "cw_binding_version ?w = ''v1''" "cw_runtime_version ?w = ''v1''"
    "cw_tool_registry_version ?w = ''registry''"
    by (simp_all add: sample_workflow_def)
  have "validate_steps ?w [] ?steps = Inr ()"
    using assms unfolding validate_steps_ok validate_compiled_step_ok by (simp add: sample_step_bound)
  moreover have "validate_state_schema (build_state_schema ?steps) ?steps = Inr ()"
    by (simp add: validate_state_schema_ok build_state_schema_def obj_of_list_def)
  moreover have "(case build_variant_policy ?steps of None \<Rightarrow> Inr () | Some p \<Rightarrow> validate_variant_policy p) = Inr ()"
    by (auto split: option.split dest: sample_policy_ok)
  moreover have "rc_max_recompile_count default_recompile_policy \<noteq> 0"
    "rc_mode default_recompile_policy \<in> {Fork, InPlace}"
    by (simp_all add: default_recompile_policy_def)
  ultimately show ?thesis
    using assms(4,5) unfolding validate_compiled_workflow_def Let_def
    by (simp add: checks_ok_iff checks_map_ok validate_references_ok)
qed

text \<open>Nothing asks for the dependencies to be acyclic: two steps that wait for each other are accepted.
  And two steps with ids of their own are accepted although the plan loses their dependency.\<close>

theorem dependency_cycle_accepted:
  "validate_compiled_workflow (sample_workflow [sample_step ''step_1'' [''step_2''], sample_step ''step_2'' [''step_1'']])
     = Inr ()"
  by (rule sample_accepted) simp_all

theorem named_dependencies_dropped_witness:
  "validate_compiled_workflow (sample_workflow [sample_step ''fetch'' [], sample_step ''notify'' [''fetch'']]) = Inr ()
   \<and> ps_depends_on (plan_steps (from_compiled_workflow
        (sample_workflow [sample_step ''fetch'' [], sample_step ''notify'' [''fetch'']]) [] General) ! 1) = []"
proof
  show "validate_compiled_workflow (sample_workflow [sample_step ''fetch'' [], sample_step ''notify'' [''fetch'']]) = Inr ()"
    by (rule sample_accepted) simp_all
qed (rule named_dependencies_dropped; simp add: sample_workflow_def sample_step_def)

theorem accepts_exactly_closed_workflows_witness:
  "validate_compiled_workflow (sample_workflow [sample_step ''step_1'' [''step_9'']]) \<noteq> Inr ()"
  using accepts_exactly_closed_workflows [of "sample_workflow [sample_step ''step_1'' [''step_9'']]"]
  by (simp add: sample_workflow_def sample_step_def)

theorem plan_keeps_dependencies_witness:
  "map (\<lambda>j. cs_id (cw_steps (sample_workflow [sample_step ''step_1'' [], sample_step ''step_2'' [''step_1'']]) ! j))
     (ps_depends_on (plan_steps (from_compiled_workflow
        (sample_workflow [sample_step ''step_1'' [], sample_step ''step_2'' [''step_1'']]) [] General) ! 1))
   = [''step_1'']"
proof -
  let ?w = "sample_workflow [sample_step ''step_1'' [], sample_step ''step_2'' [''step_1'']]"
  have "validate_compiled_workflow ?w = Inr ()" by (rule sample_accepted) simp_all
  moreover have "map cs_id (cw_steps ?w) = map (\<lambda>i. ''step_'' @ show_nat (i + 1)) [0..<length (cw_steps ?w)]"
    by (simp add: sample_workflow_def sample_step_def show_nat.simps digit_char_def char_of_def bit_0)
  moreover have "length (cw_steps ?w) < 2 ^ 64" "1 < length (cw_steps ?w)"
    by (simp_all add: sample_workflow_def)
  ultimately show ?thesis
    using plan_keeps_dependencies [of ?w 1 "[]" General]
    by (simp add: sample_workflow_def sample_step_def)
qed

end
