(* ===== verification/Boundary.thy ===== *)
theory Boundary
  imports Json_Schema
begin

text \<open>
  The contract between two companies or teams (\<open>boundry/mod.rs\<close>, \<open>boundry/approval.rs\<close>, the state
  type of \<open>boundry/governance.rs\<close>) and its checks (\<open>boundry/validator.rs\<close>): the typed schemas, the
  handshake, the boundary step, the check of a payload against a schema and the check of a step
  against its handshake.

  The properties of an object schema are a hash map, listed here in the order in which the map is
  iterated; the order of the reported errors follows it.
\<close>

section \<open>Schemas\<close>

datatype typed_schema =
    StringSchema
  | NumberSchema
  | BooleanSchema
  | ArraySchema typed_schema
  | ObjectSchema "(string \<times> typed_schema \<times> bool \<times> string option) list"

fun type_name :: "json \<Rightarrow> string" where
  "type_name JNull = ''null''"
| "type_name (JBool _) = ''boolean''"
| "type_name (JNumber _) = ''number''"
| "type_name (JString _) = ''string''"
| "type_name (JArray _) = ''array''"
| "type_name (JObject _) = ''object''"

definition expected_error :: "string \<Rightarrow> string \<Rightarrow> json \<Rightarrow> string" where
  "expected_error path expected v = path @ '': expected '' @ expected @ '', got '' @ type_name v"

fun is_string :: "json \<Rightarrow> bool" where
  "is_string (JString _) = True" | "is_string _ = False"

fun is_number :: "json \<Rightarrow> bool" where
  "is_number (JNumber _) = True" | "is_number _ = False"

fun is_boolean :: "json \<Rightarrow> bool" where
  "is_boolean (JBool _) = True" | "is_boolean _ = False"

definition field_path :: "string \<Rightarrow> string \<Rightarrow> string" where
  "field_path path field = (if path = [] then field else path @ ''.'' @ field)"

function validate_recursive :: "json \<Rightarrow> typed_schema \<Rightarrow> string \<Rightarrow> string list" where
  "validate_recursive v StringSchema path =
     (if is_string v then [] else [expected_error path ''string'' v])"
| "validate_recursive v NumberSchema path =
     (if is_number v then [] else [expected_error path ''number'' v])"
| "validate_recursive v BooleanSchema path =
     (if is_boolean v then [] else [expected_error path ''boolean'' v])"
| "validate_recursive v (ArraySchema items) path =
     (case v of
        JArray arr \<Rightarrow>
          concat (map (\<lambda>(i, item). validate_recursive item items (path @ ''.'' @ show_nat i)) (enumerate 0 arr))
      | _ \<Rightarrow> [expected_error path ''array'' v])"
| "validate_recursive v (ObjectSchema properties) path =
     (case v of
        JObject obj \<Rightarrow>
          concat (map (\<lambda>(field, schema, required, _).
            (case map_of obj field of
               Some field_value \<Rightarrow> validate_recursive field_value schema (field_path path field)
             | None \<Rightarrow>
                 if required then [field_path path field @ '': required field missing''] else []))
            properties)
      | _ \<Rightarrow> [expected_error path ''object'' v])"
  by pat_completeness auto
termination
  by (relation "measure (\<lambda>(v, s, p). size s)")
    (auto simp: less_Suc_eq_le intro: size_list_estimation' dest!: in_set_enumerate_eq [THEN iffD1])

definition validate_payload_against_schema :: "json \<Rightarrow> typed_schema \<Rightarrow> (string list, unit) result" where
  "validate_payload_against_schema payload schema =
     (let errors = validate_recursive payload schema []
      in if errors = [] then Inr () else Inl errors)"

section \<open>Handshakes\<close>

datatype boundary_scope = CrossEnterprise | CrossTeam string string

datatype revocation_state =
    Active
  | Frozen string time string
  | Revoked string time string

fun is_active :: "revocation_state \<Rightarrow> bool" where
  "is_active Active = True" | "is_active _ = False"

fun rs_is_frozen :: "revocation_state \<Rightarrow> bool" where
  "rs_is_frozen (Frozen _ _ _) = True" | "rs_is_frozen _ = False"

fun is_revoked :: "revocation_state \<Rightarrow> bool" where
  "is_revoked (Revoked _ _ _) = True" | "is_revoked _ = False"

definition is_executable :: "revocation_state \<Rightarrow> bool" where
  "is_executable s = is_active s"

record boundary_party =
  bp_tenant_id :: string
  bp_display_name :: string
  bp_acp_endpoint :: string
  bp_public_key :: string

record handshake_rate_limit =
  rl_max_requests :: nat
  rl_window_secs :: nat

record data_barrier_policy =
  db_block_pii_fields :: bool
  db_pii_allowed_fields :: "string list"
  db_redact_outbound_fields :: "string list"
  db_allowed_residency_countries :: "string list"
  db_max_payload_bytes :: nat

datatype timeout_action = RejectOnTimeout | EscalateOnTimeout | AutoApprove

datatype quorum_mode = QuorumAll | QuorumAny

datatype approver_identity =
    TenantApprover string
  | TeamAdmin string
  | TeamMember string string

record approver_spec =
  as_identity :: approver_identity
  as_scope :: "string option"

record quorum_spec =
  qs_mode :: quorum_mode
  qs_approvers :: "approver_spec list"

record boundary_approval_policy =
  ap_always_require :: bool
  ap_require_when :: "string list"
  ap_quorum :: "quorum_spec option"
  ap_timeout_action :: timeout_action
  ap_timeout_secs :: nat
  ap_delegation_allowed :: bool

text \<open>The derived \<open>Default\<close>, which does not use the default of the deserializer.\<close>

definition default_approval_policy :: boundary_approval_policy where
  "default_approval_policy = \<lparr>ap_always_require = False, ap_require_when = [], ap_quorum = None,
     ap_timeout_action = RejectOnTimeout, ap_timeout_secs = 0, ap_delegation_allowed = False\<rparr>"

definition default_approval_timeout :: nat where
  "default_approval_timeout = 172800"

record boundary_handshake =
  bh_handshake_id :: string
  bh_handshake_version :: nat
  bh_created_at :: time
  bh_accepted_at :: "time option"
  bh_requester :: boundary_party
  bh_responder :: boundary_party
  bh_request_schema :: typed_schema
  bh_response_schema :: typed_schema
  bh_response_timeout_secs :: nat
  bh_idempotent :: bool
  bh_request_visible_fields :: "string list"
  bh_response_visible_fields :: "string list"
  bh_requester_accepted :: bool
  bh_responder_accepted :: bool
  bh_requester_signature :: "string option"
  bh_responder_signature :: "string option"
  bh_scope :: boundary_scope
  bh_revocation_state :: revocation_state
  bh_valid_from :: "time option"
  bh_valid_until :: "time option"
  bh_data_barrier :: data_barrier_policy
  bh_consent_version :: nat
  bh_rate_limit :: "handshake_rate_limit option"
  bh_approval_policy :: "boundary_approval_policy option"

datatype boundary_role = RequesterRole | ResponderRole

record boundary_retry_policy =
  brp_max_attempts :: nat
  brp_backoff_secs :: nat
  brp_retry_on_timeout :: bool
  brp_retry_on_schema_failure :: bool

record boundary_step =
  bst_id :: string
  bst_step_type :: string
  bst_tool :: string
  bst_handshake_id :: string
  bst_handshake_version :: nat
  bst_role :: boundary_role
  bst_peer_endpoint :: string
  bst_resource_id :: string
  bst_input_mapping :: json
  bst_output_schema :: typed_schema
  bst_read_only :: bool
  bst_retry_policy :: boundary_retry_policy
  bst_depends_on :: "string list"
  bst_next_steps :: "string list"
  bst_fallback_step :: "string option"
  bst_success_criteria :: "string list"

section \<open>Step validation\<close>

datatype boundary_validation_error =
    HandshakeFrozen string
  | HandshakeRevoked string
  | HandshakeNotStarted string time
  | HandshakeExpired string time
  | HandshakeVersionMismatch nat nat
  | HandshakeNotAccepted string string
  | MissingPeerResource string
  | PeerEndpointMismatch string string

definition pending_party :: "boundary_handshake \<Rightarrow> string" where
  "pending_party h =
     (if \<not> bh_requester_accepted h then bp_display_name (bh_requester h)
      else bp_display_name (bh_responder h))"

definition expected_endpoint :: "boundary_step \<Rightarrow> boundary_handshake \<Rightarrow> string" where
  "expected_endpoint step h =
     (case bst_role step of
        RequesterRole \<Rightarrow> bp_acp_endpoint (bh_responder h)
      | ResponderRole \<Rightarrow> bp_acp_endpoint (bh_requester h))"

definition validate_boundary_step_full ::
  "time \<Rightarrow> boundary_step \<Rightarrow> boundary_handshake \<Rightarrow> (boundary_validation_error, unit) result" where
  "validate_boundary_step_full now step h = checks
     [(case bh_revocation_state h of
         Frozen _ _ _ \<Rightarrow> Inl (HandshakeFrozen (bh_handshake_id h))
       | Revoked _ _ _ \<Rightarrow> Inl (HandshakeRevoked (bh_handshake_id h))
       | Active \<Rightarrow> Inr ()),
      (case bh_valid_from h of
         Some valid_from \<Rightarrow> if now < valid_from then Inl (HandshakeNotStarted (bh_handshake_id h) valid_from) else Inr ()
       | None \<Rightarrow> Inr ()),
      (case bh_valid_until h of
         Some valid_until \<Rightarrow> if valid_until < now then Inl (HandshakeExpired (bh_handshake_id h) valid_until) else Inr ()
       | None \<Rightarrow> Inr ()),
      (if bst_handshake_version step \<noteq> bh_handshake_version h
       then Inl (HandshakeVersionMismatch (bst_handshake_version step) (bh_handshake_version h)) else Inr ()),
      (if \<not> bh_requester_accepted h \<or> \<not> bh_responder_accepted h
       then Inl (HandshakeNotAccepted (bh_handshake_id h) (pending_party h)) else Inr ()),
      (if bh_scope h = CrossEnterprise \<and> bst_peer_endpoint step \<noteq> expected_endpoint step h
       then Inl (PeerEndpointMismatch (bst_peer_endpoint step) (expected_endpoint step h)) else Inr ())]"

text \<open>The check of \<open>boundry/mod.rs\<close>, against the resources bound to the workflow.\<close>

definition validate_boundary_step ::
  "string list \<Rightarrow> boundary_step \<Rightarrow> boundary_handshake \<Rightarrow> (boundary_validation_error, unit) result" where
  "validate_boundary_step bindings step h = checks
     [(if bst_handshake_version step \<noteq> bh_handshake_version h
       then Inl (HandshakeVersionMismatch (bst_handshake_version step) (bh_handshake_version h)) else Inr ()),
      (if \<not> bh_requester_accepted h \<or> \<not> bh_responder_accepted h
       then Inl (HandshakeNotAccepted (bh_handshake_id h) (pending_party h)) else Inr ()),
      (if bst_resource_id step \<notin> set bindings then Inl (MissingPeerResource (bst_resource_id step)) else Inr ()),
      (if bst_peer_endpoint step \<noteq> expected_endpoint step h
       then Inl (PeerEndpointMismatch (bst_peer_endpoint step) (expected_endpoint step h)) else Inr ())]"

section \<open>What the checks accept\<close>

text \<open>A value conforms to a schema.\<close>

inductive conforms :: "json \<Rightarrow> typed_schema \<Rightarrow> bool" where
  "conforms (JString s) StringSchema"
| "conforms (JNumber n) NumberSchema"
| "conforms (JBool b) BooleanSchema"
| "(\<And>x. x \<in> set xs \<Longrightarrow> conforms x items) \<Longrightarrow> conforms (JArray xs) (ArraySchema items)"
| "(\<And>f s r d v. (f, s, r, d) \<in> set props \<Longrightarrow> map_of obj f = Some v \<Longrightarrow> conforms v s) \<Longrightarrow>
   (\<And>f s d. (f, s, True, d) \<in> set props \<Longrightarrow> map_of obj f \<noteq> None) \<Longrightarrow>
   conforms (JObject obj) (ObjectSchema props)"

inductive_simps conforms_string: "conforms v StringSchema"
inductive_simps conforms_number: "conforms v NumberSchema"
inductive_simps conforms_boolean: "conforms v BooleanSchema"
inductive_simps conforms_array: "conforms v (ArraySchema items)"
inductive_simps conforms_object: "conforms v (ObjectSchema props)"

lemmas conforms_simps = conforms_string conforms_number conforms_boolean conforms_array conforms_object

lemma validate_recursive_object:
  "validate_recursive (JObject obj) (ObjectSchema props) path = [] \<longleftrightarrow>
     (\<forall>(f, s, r, d)\<in>set props. case map_of obj f of
        Some v \<Rightarrow> validate_recursive v s (field_path path f) = [] | None \<Rightarrow> \<not> r)"
proof -
  have "validate_recursive (JObject obj) (ObjectSchema props) path = [] \<longleftrightarrow>
     (\<forall>p\<in>set props. (case p of (f, s, r, d) \<Rightarrow> (case map_of obj f of
        Some v \<Rightarrow> validate_recursive v s (field_path path f)
      | None \<Rightarrow> if r then [field_path path f @ '': required field missing''] else [])) = [])"
    by (simp add: concat_eq_Nil_conv)
  also have "\<dots> \<longleftrightarrow> (\<forall>(f, s, r, d)\<in>set props. case map_of obj f of
        Some v \<Rightarrow> validate_recursive v s (field_path path f) = [] | None \<Rightarrow> \<not> r)"
    by (intro ball_cong refl) (simp split: option.split prod.split)
  finally show ?thesis .
qed

lemma set_enumerate_nth: "set (enumerate 0 xs) = (\<lambda>i. (i, xs ! i)) ` {..<length xs}"
  by (auto simp: in_set_enumerate_eq image_iff)

lemma validate_recursive_array:
  "validate_recursive (JArray xs) (ArraySchema items) path = [] \<longleftrightarrow>
     (\<forall>i<length xs. validate_recursive (xs ! i) items (path @ ''.'' @ show_nat i) = [])"
  by (simp add: concat_eq_Nil_conv set_enumerate_nth) (simp add: Ball_def)

lemma validate_recursive_conforms: "validate_recursive v s path = [] \<longleftrightarrow> conforms v s"
proof (induction s arbitrary: v path)
  case (ArraySchema items)
  show ?case
  proof (cases v)
    case (JArray xs)
    have "(\<forall>i<length xs. conforms (xs ! i) items) \<longleftrightarrow> (\<forall>x\<in>set xs. conforms x items)"
      by (metis in_set_conv_nth)
    then show ?thesis
      unfolding JArray validate_recursive_array ArraySchema.IH conforms_array by auto
  qed (simp_all add: conforms_array)
next
  case (ObjectSchema props)
  have IH: "validate_recursive w s path' = [] \<longleftrightarrow> conforms w s" if "(f, s, r, d) \<in> set props" for f s r d w path'
    using ObjectSchema.IH [OF that, of "(s, r, d)" s w path'] by (simp add: Basic_BNFs.fsts.simps Basic_BNFs.snds.simps)
  show ?case
  proof (cases v)
    case (JObject obj)
    have "(\<forall>(f, s, r, d)\<in>set props. case map_of obj f of
        Some w \<Rightarrow> validate_recursive w s (field_path path f) = [] | None \<Rightarrow> \<not> r)
      \<longleftrightarrow> (\<forall>(f, s, r, d)\<in>set props. case map_of obj f of Some w \<Rightarrow> conforms w s | None \<Rightarrow> \<not> r)"
      using IH by (intro ball_cong refl) (auto split: option.splits)
    then show ?thesis
      unfolding JObject validate_recursive_object conforms_object by (fastforce split: option.splits)
  qed (simp_all add: conforms_object)
qed (case_tac [!] v, simp_all add: conforms_simps)

text \<open>The payload check accepts exactly the values that conform to the agreed schema: at every depth
  the declared type, every required field present, every field that is present of its type.\<close>

theorem payload_check_exact:
  "validate_payload_against_schema v s = Inr () \<longleftrightarrow> conforms v s"
  by (simp add: validate_payload_against_schema_def Let_def validate_recursive_conforms)

text \<open>Fields the schema does not declare are not looked at: they cross the boundary.\<close>

theorem undeclared_fields_cross:
  assumes "validate_payload_against_schema (JObject obj) (ObjectSchema props) = Inr ()"
    and "k \<notin> fst ` set props"
  shows "validate_payload_against_schema (JObject ((k, v) # obj)) (ObjectSchema props) = Inr ()"
proof -
  have "map_of ((k, v) # obj) f = map_of obj f" if "(f, s, r, d) \<in> set props" for f s r d
    using assms(2) that by (force simp: image_iff)
  with assms(1) show ?thesis
    unfolding validate_payload_against_schema_def Let_def validate_recursive_conforms conforms_object
    by (fastforce split: if_splits)
qed

text \<open>The compiler's check of a boundary step accepts exactly when the handshake is active, the
  moment lies within its validity, the versions agree, both parties have accepted and, between
  companies, the step addresses the counterparty's endpoint.\<close>

theorem boundary_step_check_exact:
  "validate_boundary_step_full now step h = Inr () \<longleftrightarrow>
     bh_revocation_state h = Active
   \<and> (case bh_valid_from h of None \<Rightarrow> True | Some t \<Rightarrow> t \<le> now)
   \<and> (case bh_valid_until h of None \<Rightarrow> True | Some t \<Rightarrow> now \<le> t)
   \<and> bst_handshake_version step = bh_handshake_version h
   \<and> bh_requester_accepted h \<and> bh_responder_accepted h
   \<and> (case bh_scope h of
        CrossEnterprise \<Rightarrow> bst_peer_endpoint step = (case bst_role step of
           RequesterRole \<Rightarrow> bp_acp_endpoint (bh_responder h) | ResponderRole \<Rightarrow> bp_acp_endpoint (bh_requester h))
      | CrossTeam _ _ \<Rightarrow> True)"
  by (cases "bh_scope h"; cases "bh_revocation_state h")
    (auto simp: validate_boundary_step_full_def checks_ok_iff expected_endpoint_def split: option.splits)

end
