(* ===== verification/Boundary_Audit.thy ===== *)
theory Boundary_Audit
  imports Boundary
begin

text \<open>
  The audit ledger of boundary exchanges and the table of pending envelopes (\<open>boundry/audit.rs\<close>):
  the chain hash, the append, the verification, and parking and resolving an envelope.

  The tables are lists of rows in the order of insertion.  Rows read by time come in that order
  where their stored times are equal.  Identifiers drawn by \<open>new_id\<close> and clock readings are
  arguments.
\<close>

section \<open>Records\<close>

datatype boundary_side = RequesterSide | ResponderSide

datatype boundary_failure_kind =
    SchemaValidation | VersionMismatchFailure | SignatureInvalid | EnvelopeExpired
  | CapacityExceeded | PolicyRejected | InternalError | TimeoutFailure

datatype boundary_audit_event =
    EnvelopeSent | EnvelopeReceived | EnvelopeValidated | EnvelopeRejected string
  | DataBarrierViolationEvent | WorkStarted | WorkCompleted | WorkFailed boundary_failure_kind
  | ResponseSent | ResponseReceived | ResponseValidated | TimeoutExpired | RetryAttempted nat
  | BrokerInboundReceived string | BrokerResponseDelivered string

record audit_record =
  ar_record_id :: string
  ar_envelope_id :: string
  ar_handshake_id :: string
  ar_tenant_id :: string
  ar_side :: boundary_side
  ar_event :: boundary_audit_event
  ar_visible_payload :: json
  ar_payload_hash :: string
  ar_chain_hash :: string
  ar_previous_chain_hash :: "string option"
  ar_recorded_at :: time

record pending_envelope =
  pe_envelope_id :: string
  pe_handshake_id :: string
  pe_tenant_id :: string
  pe_workflow_id :: string
  pe_step_id :: string
  pe_correlation_token :: string
  pe_idempotency_key :: string
  pe_sent_at :: time
  pe_expires_at :: time
  pe_attempt_count :: nat
  pe_approval_review_id :: "string option"

record audit_tables =
  audit_ledger :: "audit_record list"
  pending_envelopes :: "pending_envelope list"

datatype audit_error =
    DuplicateRecord string
  | DuplicateIdempotencyKey string
  | ChainBroken string
  | ChainHashMismatch string

section \<open>The chain\<close>

definition compute_chain_hash :: "externals \<Rightarrow> string option \<Rightarrow> string \<Rightarrow> string \<Rightarrow> string \<Rightarrow> string" where
  "compute_chain_hash ext previous record_id envelope_id payload_hash =
     sha256_hex ext ((case previous of Some h \<Rightarrow> h | None \<Rightarrow> ''GENESIS'')
       @ ''||'' @ record_id @ ''||'' @ envelope_id @ ''||'' @ payload_hash)"

definition hash_payload :: "externals \<Rightarrow> json \<Rightarrow> string" where
  "hash_payload ext payload = sha256_hex ext (json_to_string ext payload)"

definition records_of :: "string \<Rightarrow> string \<Rightarrow> audit_tables \<Rightarrow> audit_record list" where
  "records_of handshake_id tenant_id db =
     sort_key ar_recorded_at
       (filter (\<lambda>r. ar_handshake_id r = handshake_id \<and> ar_tenant_id r = tenant_id) (audit_ledger db))"

definition latest_chain_hash :: "string \<Rightarrow> string \<Rightarrow> audit_tables \<Rightarrow> string option" where
  "latest_chain_hash handshake_id tenant_id db =
     (case records_of handshake_id tenant_id db of
        [] \<Rightarrow> None | rs \<Rightarrow> Some (ar_chain_hash (last rs)))"

definition audit_append ::
  "externals \<Rightarrow> string \<Rightarrow> time \<Rightarrow> string \<Rightarrow> string \<Rightarrow> string \<Rightarrow> boundary_side \<Rightarrow> boundary_audit_event
     \<Rightarrow> json \<Rightarrow> string \<Rightarrow> audit_tables \<Rightarrow> (audit_error, audit_record \<times> audit_tables) result" where
  "audit_append ext record_id now envelope_id handshake_id tenant_id side event shown payload_hash db =
     (let previous = latest_chain_hash handshake_id tenant_id db;
          r = \<lparr>ar_record_id = record_id, ar_envelope_id = envelope_id, ar_handshake_id = handshake_id,
               ar_tenant_id = tenant_id, ar_side = side, ar_event = event, ar_visible_payload = shown,
               ar_payload_hash = payload_hash,
               ar_chain_hash = compute_chain_hash ext previous record_id envelope_id payload_hash,
               ar_previous_chain_hash = previous, ar_recorded_at = now\<rparr>
      in if record_id \<in> ar_record_id ` set (audit_ledger db) then Inl (DuplicateRecord record_id)
         else Inr (r, db\<lparr>audit_ledger := audit_ledger db @ [r\<lparr>ar_recorded_at := db_time ext now\<rparr>]\<rparr>))"

fun verify_rows :: "externals \<Rightarrow> string option \<Rightarrow> audit_record list \<Rightarrow> (audit_error, unit) result" where
  "verify_rows ext expected_prev [] = Inr ()"
| "verify_rows ext expected_prev (r # rs) =
     (if ar_previous_chain_hash r \<noteq> expected_prev then Inl (ChainBroken (ar_record_id r))
      else if compute_chain_hash ext (ar_previous_chain_hash r) (ar_record_id r) (ar_envelope_id r)
           (ar_payload_hash r) \<noteq> ar_chain_hash r
      then Inl (ChainHashMismatch (ar_record_id r))
      else verify_rows ext (Some (ar_chain_hash r)) rs)"

definition verify_chain :: "externals \<Rightarrow> string \<Rightarrow> string \<Rightarrow> audit_tables \<Rightarrow> (audit_error, nat) result" where
  "verify_chain ext handshake_id tenant_id db =
     (case verify_rows ext None (records_of handshake_id tenant_id db) of
        Inl e \<Rightarrow> Inl e
      | Inr _ \<Rightarrow> Inr (length (records_of handshake_id tenant_id db)))"

text \<open>A page of the ledger, newest first (negative limits and offsets are errors of the database).\<close>

definition audit_query :: "string \<Rightarrow> string \<Rightarrow> nat \<Rightarrow> nat \<Rightarrow> audit_tables \<Rightarrow> audit_record list" where
  "audit_query handshake_id tenant_id limit offset db =
     take limit (drop offset (rev (records_of handshake_id tenant_id db)))"

section \<open>Pending envelopes\<close>

text \<open>A conflict on the envelope id is ignored; one on the idempotency key, which the insertion does
  not name, is an error.\<close>

definition insert_pending :: "pending_envelope \<Rightarrow> audit_tables \<Rightarrow> (audit_error, audit_tables) result" where
  "insert_pending p db =
     (if pe_envelope_id p \<in> pe_envelope_id ` set (pending_envelopes db) then Inr db
      else if pe_idempotency_key p \<in> pe_idempotency_key ` set (pending_envelopes db)
      then Inl (DuplicateIdempotencyKey (pe_idempotency_key p))
      else Inr (db\<lparr>pending_envelopes := pending_envelopes db @ [p]\<rparr>))"

definition park_envelope ::
  "externals \<Rightarrow> string \<Rightarrow> string \<Rightarrow> string \<Rightarrow> string \<Rightarrow> string \<Rightarrow> string \<Rightarrow> string \<Rightarrow> time \<Rightarrow> time
     \<Rightarrow> audit_tables \<Rightarrow> (audit_error, audit_tables) result" where
  "park_envelope ext envelope_id handshake_id tenant_id workflow_id step_id correlation_token
       idempotency_key sent_at expires_at db =
     insert_pending
       \<lparr>pe_envelope_id = envelope_id, pe_handshake_id = handshake_id, pe_tenant_id = tenant_id,
        pe_workflow_id = workflow_id, pe_step_id = step_id, pe_correlation_token = correlation_token,
        pe_idempotency_key = idempotency_key, pe_sent_at = db_time ext sent_at,
        pe_expires_at = db_time ext expires_at, pe_attempt_count = 1, pe_approval_review_id = None\<rparr> db"

definition resolve_envelope :: "string \<Rightarrow> audit_tables \<Rightarrow> audit_tables" where
  "resolve_envelope envelope_id db =
     db\<lparr>pending_envelopes := filter (\<lambda>p. pe_envelope_id p \<noteq> envelope_id) (pending_envelopes db)\<rparr>"

section \<open>Every ledger the code writes verifies\<close>

lemma verify_rows_append:
  "verify_rows ext prev (rs @ rs') = Inr () \<longleftrightarrow>
     verify_rows ext prev rs = Inr ()
   \<and> verify_rows ext (if rs = [] then prev else Some (ar_chain_hash (last rs))) rs' = Inr ()"
  by (induction rs arbitrary: prev) auto

text \<open>The ledgers reached from the empty one while the clock does not run backwards.\<close>

inductive ledger_reach :: "externals \<Rightarrow> time \<Rightarrow> audit_tables \<Rightarrow> bool" for ext where
  start: "audit_ledger db = [] \<Longrightarrow> ledger_reach ext t db"
| append: "ledger_reach ext t db \<Longrightarrow> t \<le> now \<Longrightarrow>
    audit_append ext rid now env h tn side event shown ph db = Inr (r, db') \<Longrightarrow> ledger_reach ext now db'"
| park: "ledger_reach ext t db \<Longrightarrow> insert_pending p db = Inr db' \<Longrightarrow> ledger_reach ext t db'"
| resolve: "ledger_reach ext t db \<Longrightarrow> ledger_reach ext t (resolve_envelope env db)"

text \<open>The rows of each chain are stored in order of time, and verify.\<close>

definition ledger_ok :: "externals \<Rightarrow> time \<Rightarrow> audit_tables \<Rightarrow> bool" where
  "ledger_ok ext t db \<longleftrightarrow> sorted (map ar_recorded_at (audit_ledger db))
     \<and> (\<forall>r\<in>set (audit_ledger db). ar_recorded_at r \<le> db_time ext t)
     \<and> (\<forall>h tn. verify_rows ext None (records_of h tn db) = Inr ())"

lemma sorted_filter_key: "sorted (map f xs) \<Longrightarrow> sorted (map f (filter P xs))"
  by (induction xs) auto

lemma records_of_sorted:
  "sorted (map ar_recorded_at (audit_ledger db)) \<Longrightarrow>
   records_of h tn db = filter (\<lambda>r. ar_handshake_id r = h \<and> ar_tenant_id r = tn) (audit_ledger db)"
  unfolding records_of_def by (intro sort_key_id_if_sorted sorted_filter_key)

lemma ledger_ok_append:
  assumes ok: "ledger_ok ext t db" and "mono (db_time ext)" "t \<le> now"
    and app: "audit_append ext rid now env h tn side event shown ph db = Inr (r, db')"
  shows "ledger_ok ext now db'"
proof -
  let ?r = "r\<lparr>ar_recorded_at := db_time ext now\<rparr>"
  from app have ledger: "audit_ledger db' = audit_ledger db @ [?r]"
    and r: "ar_handshake_id r = h" "ar_tenant_id r = tn" "ar_previous_chain_hash r = latest_chain_hash h tn db"
      "ar_chain_hash r = compute_chain_hash ext (ar_previous_chain_hash r) (ar_record_id r) (ar_envelope_id r)
         (ar_payload_hash r)"
    by (auto simp: audit_append_def Let_def split: if_splits)
  have le: "\<forall>r\<in>set (audit_ledger db). ar_recorded_at r \<le> db_time ext now"
    using ok monoD [OF assms(2,3)] by (auto simp: ledger_ok_def intro: order_trans)
  with ok have sorted: "sorted (map ar_recorded_at (audit_ledger db'))"
    by (auto simp: ledger_ok_def ledger sorted_append)
  have sorted0: "sorted (map ar_recorded_at (audit_ledger db))" using ok by (simp add: ledger_ok_def)
  have "verify_rows ext None (records_of h' tn' db') = Inr ()" for h' tn'
  proof -
    have old: "verify_rows ext None (records_of h' tn' db) = Inr ()" using ok by (simp add: ledger_ok_def)
    have new: "records_of h' tn' db' = records_of h' tn' db @ (if h' = h \<and> tn' = tn then [?r] else [])"
      unfolding records_of_sorted [OF sorted] records_of_sorted [OF sorted0] ledger using r(1,2) by auto
    show ?thesis
      using old r(3,4) by (auto simp: new verify_rows_append latest_chain_hash_def split: list.splits)
  qed
  with sorted le show ?thesis by (auto simp: ledger_ok_def ledger)
qed

lemma ledger_ok_frame:
  "audit_ledger db' = audit_ledger db \<Longrightarrow> ledger_ok ext t db' = ledger_ok ext t db"
  by (simp add: ledger_ok_def records_of_def)

lemma ledger_reach_ok: "ledger_reach ext t db \<Longrightarrow> mono (db_time ext) \<Longrightarrow> ledger_ok ext t db"
proof (induction rule: ledger_reach.induct)
  case (start db t)
  then show ?case by (simp add: ledger_ok_def records_of_def)
next
  case (append t db now rid env h tn side event shown ph r db')
  show ?case
    by (rule ledger_ok_append [OF append.IH [OF append.prems] append.prems append.hyps(2,3)])
next
  case (park t db p db')
  then have "audit_ledger db' = audit_ledger db"
    by (auto simp: insert_pending_def split: if_splits)
  from ledger_ok_frame [OF this] park.IH [OF park.prems] show ?case by simp
next
  case (resolve t db env)
  have "audit_ledger (resolve_envelope env db) = audit_ledger db" by (simp add: resolve_envelope_def)
  from ledger_ok_frame [OF this] resolve.IH [OF resolve.prems] show ?case by simp
qed

text \<open>The ledger the code writes always verifies: whatever appends are made, for whatever
  handshakes and tenants and interleaved with parking and resolving envelopes, as long as the clock
  does not run backwards, the verification of every chain succeeds and counts its records.\<close>

theorem written_ledger_verifies:
  assumes "ledger_reach ext t db" and "mono (db_time ext)"
  shows "verify_chain ext h tn db = Inr (length
    (filter (\<lambda>r. ar_handshake_id r = h \<and> ar_tenant_id r = tn) (audit_ledger db)))"
  using ledger_reach_ok [OF assms]
  by (simp add: verify_chain_def ledger_ok_def records_of_def)

section \<open>Alterations are detected\<close>

definition separator_free :: "audit_record \<Rightarrow> bool" where
  "separator_free r \<longleftrightarrow> CHR ''|'' \<notin> set (ar_record_id r) \<union> set (ar_envelope_id r) \<union> set (ar_payload_hash r)"

text \<open>What the chain covers of a record.\<close>

definition covered :: "audit_record \<Rightarrow> string \<times> string \<times> string \<times> string \<times> string option" where
  "covered r = (ar_record_id r, ar_envelope_id r, ar_payload_hash r, ar_chain_hash r, ar_previous_chain_hash r)"

lemma split_at_last_bar:
  assumes "a @ CHR ''|'' # x = b @ CHR ''|'' # y" "CHR ''|'' \<notin> set x" "CHR ''|'' \<notin> set y"
  shows "a = b \<and> x = y"
  using assms by (induction a arbitrary: b) (auto simp: Cons_eq_append_conv append_eq_Cons_conv)

lemma chain_input_inject:
  assumes "p @ ''||'' @ a @ ''||'' @ b @ ''||'' @ c = p' @ ''||'' @ a' @ ''||'' @ b' @ ''||'' @ c'"
    and "CHR ''|'' \<notin> set a \<union> set b \<union> set c" "CHR ''|'' \<notin> set a' \<union> set b' \<union> set c'"
  shows "p = p' \<and> a = a' \<and> b = b' \<and> c = c'"
proof -
  from assms split_at_last_bar [of "p @ ''||'' @ a @ ''||'' @ b @ ''|''" c "p' @ ''||'' @ a' @ ''||'' @ b' @ ''|''" c']
  have 1: "c = c'" "(p @ ''||'' @ a @ ''||'' @ b) @ ''|'' = (p' @ ''||'' @ a' @ ''||'' @ b') @ ''|''" by auto
  with assms split_at_last_bar [of "p @ ''||'' @ a @ ''|''" b "p' @ ''||'' @ a' @ ''|''" b']
  have 2: "b = b'" "(p @ ''||'' @ a) @ ''|'' = (p' @ ''||'' @ a') @ ''|''" by auto
  with assms split_at_last_bar [of "p @ ''|''" a "p' @ ''|''" a'] 1 2 show ?thesis by auto
qed

lemma chain_hash_inject:
  assumes "compute_chain_hash ext p a b c = compute_chain_hash ext p' a' b' c'"
    and "CHR ''|'' \<notin> set a \<union> set b \<union> set c" "CHR ''|'' \<notin> set a' \<union> set b' \<union> set c'"
  obtains "(case p of Some h \<Rightarrow> h | None \<Rightarrow> ''GENESIS'') = (case p' of Some h \<Rightarrow> h | None \<Rightarrow> ''GENESIS'')"
      "a = a'" "b = b'" "c = c'"
  | x y where "x \<noteq> y" "sha256_hex ext x = sha256_hex ext y"
  using assms chain_input_inject [OF _ assms(2,3)] unfolding compute_chain_hash_def by blast

lemma verified_chains_agree:
  assumes "verify_rows ext None rs = Inr ()" "verify_rows ext None rs' = Inr ()"
    and "length rs = length rs'" "rs \<noteq> []" "ar_chain_hash (last rs) = ar_chain_hash (last rs')"
    and "\<forall>r\<in>set rs \<union> set rs'. separator_free r"
  shows "map covered rs = map covered rs' \<or> (\<exists>x y. x \<noteq> y \<and> sha256_hex ext x = sha256_hex ext y)"
  using assms
proof (induction rs arbitrary: rs' rule: rev_induct)
  case Nil
  then show ?case by simp
next
  case (snoc r rs)
  then obtain r' qs where rs': "rs' = qs @ [r']" by (cases rs' rule: rev_cases) auto
  have len: "length rs = length qs" using snoc.prems(3) rs' by simp
  have v: "verify_rows ext None rs = Inr ()" "verify_rows ext None qs = Inr ()"
    and prev: "ar_previous_chain_hash r = (if rs = [] then None else Some (ar_chain_hash (last rs)))"
      "ar_previous_chain_hash r' = (if qs = [] then None else Some (ar_chain_hash (last qs)))"
    and chain: "compute_chain_hash ext (ar_previous_chain_hash r) (ar_record_id r) (ar_envelope_id r) (ar_payload_hash r)
      = ar_chain_hash r" "compute_chain_hash ext (ar_previous_chain_hash r') (ar_record_id r')
        (ar_envelope_id r') (ar_payload_hash r') = ar_chain_hash r'"
    using snoc.prems(1,2) rs' by (auto simp: verify_rows_append split: if_splits)
  have same: "ar_chain_hash r = ar_chain_hash r'" using snoc.prems(5) rs' by simp
  have free: "separator_free r" "separator_free r'" using snoc.prems(6) rs' by auto
  from chain same have eq: "compute_chain_hash ext (ar_previous_chain_hash r) (ar_record_id r) (ar_envelope_id r)
      (ar_payload_hash r) = compute_chain_hash ext (ar_previous_chain_hash r') (ar_record_id r')
      (ar_envelope_id r') (ar_payload_hash r')" by simp
  show ?case
  proof (rule chain_hash_inject [OF eq])
    show "CHR ''|'' \<notin> set (ar_record_id r) \<union> set (ar_envelope_id r) \<union> set (ar_payload_hash r)"
      "CHR ''|'' \<notin> set (ar_record_id r') \<union> set (ar_envelope_id r') \<union> set (ar_payload_hash r')"
      using free by (auto simp: separator_free_def)
  next
    assume e: "(case ar_previous_chain_hash r of Some h \<Rightarrow> h | None \<Rightarrow> ''GENESIS'')
        = (case ar_previous_chain_hash r' of Some h \<Rightarrow> h | None \<Rightarrow> ''GENESIS'')"
      "ar_record_id r = ar_record_id r'" "ar_envelope_id r = ar_envelope_id r'"
      "ar_payload_hash r = ar_payload_hash r'"
    show ?thesis
    proof (cases "rs = []")
      case True
      with len have "qs = []" by simp
      with True prev e same rs' show ?thesis by (simp add: covered_def)
    next
      case False
      with len have "qs \<noteq> []" by auto
      with False prev e(1) have last: "ar_chain_hash (last rs) = ar_chain_hash (last qs)" by simp
      have "map covered rs = map covered qs \<or> (\<exists>x y. x \<noteq> y \<and> sha256_hex ext x = sha256_hex ext y)"
        using snoc.prems(6) rs' by (intro snoc.IH v len False last) auto
      moreover have "covered r = covered r'"
        using e prev last same False \<open>qs \<noteq> []\<close> by (simp add: covered_def)
      ultimately show ?thesis using rs' by auto
    qed
  qed blast
qed

text \<open>The ledger is tamper evident.  Two chains of the same length that both verify and end in the
  same chain hash agree on every record id, envelope id, payload hash and link, unless they exhibit
  two different inputs with the same SHA-256 digest.  The ids and payload hashes contain no vertical
  bar, the separator of the hashed text (they are UUIDs and hex digests).\<close>

theorem ledger_tamper_evident:
  assumes "verify_rows ext None rs = Inr ()" "verify_rows ext None rs' = Inr ()"
    and "length rs = length rs'" "rs \<noteq> []" "ar_chain_hash (last rs) = ar_chain_hash (last rs')"
    and "\<forall>r\<in>set rs \<union> set rs'. separator_free r"
  shows "map covered rs = map covered rs' \<or> (\<exists>x y. x \<noteq> y \<and> sha256_hex ext x = sha256_hex ext y)"
  using assms by (rule verified_chains_agree)

text \<open>The hash does not cover the side, the event and the visible payload of a record: rewriting
  them anywhere in the ledger goes unnoticed.\<close>

lemma verify_rows_covered: "map covered rs = map covered rs' \<Longrightarrow> verify_rows ext prev rs = verify_rows ext prev rs'"
proof (induction rs arbitrary: rs' prev)
  case (Cons r rs)
  then obtain r' qs where rs': "rs' = r' # qs" "covered r = covered r'" "map covered rs = map covered qs"
    by (cases rs') auto
  from Cons.IH [OF rs'(3)] rs'(1,2) show ?case by (simp add: covered_def)
qed simp

definition rewrite_record ::
  "(audit_record \<Rightarrow> boundary_side) \<Rightarrow> (audit_record \<Rightarrow> boundary_audit_event) \<Rightarrow> (audit_record \<Rightarrow> json)
     \<Rightarrow> audit_record \<Rightarrow> audit_record" where
  "rewrite_record s e v r = r\<lparr>ar_side := s r, ar_event := e r, ar_visible_payload := v r\<rparr>"

theorem events_not_covered:
  "verify_chain ext h tn (db\<lparr>audit_ledger := map (rewrite_record s e v) (audit_ledger db)\<rparr>) = verify_chain ext h tn db"
proof -
  let ?f = "rewrite_record s e v"
  have records: "records_of h tn (db\<lparr>audit_ledger := map ?f (audit_ledger db)\<rparr>) = map ?f (records_of h tn db)"
  proof -
    have "sort_key ar_recorded_at (map ?f xs) = map ?f (sort_key ar_recorded_at xs)" for xs
    proof (induction xs)
      case (Cons x xs)
      have "insort_key ar_recorded_at (?f y) (map ?f ys) = map ?f (insort_key ar_recorded_at y ys)" for y ys
        by (induction ys) (simp_all add: rewrite_record_def)
      with Cons show ?case by simp
    qed simp
    then show ?thesis
      by (simp add: records_of_def filter_map o_def) (simp add: rewrite_record_def)
  qed
  have "map covered (map ?f rs) = map covered rs" for rs
    by (simp add: covered_def rewrite_record_def)
  from verify_rows_covered [OF this] show ?thesis unfolding verify_chain_def records length_map by simp
qed

section \<open>Witnesses\<close>

definition sample_tables :: audit_tables where
  "sample_tables = \<lparr>audit_ledger = [], pending_envelopes = []\<rparr>"

definition sample_record :: audit_record where
  "sample_record = \<lparr>ar_record_id = ''r1'', ar_envelope_id = ''e1'', ar_handshake_id = ''h1'', ar_tenant_id = ''t1'',
     ar_side = RequesterSide, ar_event = EnvelopeSent, ar_visible_payload = JNull, ar_payload_hash = ''ab'',
     ar_chain_hash = ''GENESIS||r1||e1||ab'', ar_previous_chain_hash = None, ar_recorded_at = 0\<rparr>"

lemma mono_sample_db_time: "mono (db_time sample_ext)"
  by (auto simp: sample_ext_def mono_def zdiv_mono1)

theorem written_ledger_verifies_witness:
  "verify_chain sample_ext ''h1'' ''t1'' (sample_tables\<lparr>audit_ledger := [sample_record]\<rparr>) = Inr 1"
proof -
  have "audit_append sample_ext ''r1'' 0 ''e1'' ''h1'' ''t1'' RequesterSide EnvelopeSent JNull ''ab'' sample_tables
      = Inr (sample_record, sample_tables\<lparr>audit_ledger := [sample_record]\<rparr>)"
    by (simp add: audit_append_def sample_tables_def sample_record_def latest_chain_hash_def records_of_def
        compute_chain_hash_def sample_ext_def Let_def)
  then have "ledger_reach sample_ext 0 (sample_tables\<lparr>audit_ledger := [sample_record]\<rparr>)"
    by (rule ledger_reach.append [OF ledger_reach.start [of _ _ 0], rotated 2])
      (simp_all add: sample_tables_def)
  from written_ledger_verifies [OF this mono_sample_db_time, of "''h1''" "''t1''"] show ?thesis
    by (simp add: sample_tables_def sample_record_def)
qed

theorem ledger_tamper_evident_witness:
  "map covered [sample_record] = map covered [sample_record\<lparr>ar_event := EnvelopeReceived\<rparr>]
     \<or> (\<exists>x y. x \<noteq> y \<and> sha256_hex sample_ext x = sha256_hex sample_ext y)"
  by (rule ledger_tamper_evident)
    (simp_all add: sample_record_def compute_chain_hash_def sample_ext_def separator_free_def)

end
