(* ===== verification/Boundary_Runtime.thy ===== *)
theory Boundary_Runtime
  imports Boundary_Audit
begin

text \<open>
  What leaves a boundary: the data barrier (\<open>boundry/data_barrier.rs\<close>) and the requester side of a
  boundary step (\<open>boundry/runtime.rs\<close>).  The peer that answers an HTTP request is a parameter, a
  function from the envelope to its response or an error text.  Identifiers and clock readings of
  one execution are drawn in advance.
\<close>

section \<open>Data barrier\<close>

datatype data_barrier_violation =
    PiiDetected string string
  | RedactedFieldPresent string
  | ResidencyMismatch string "string list"
  | PayloadTooLarge nat nat

text \<open>The patterns by kind; their text is never looked at, because \<open>regex_matches\<close> is a stub.\<close>

definition pii_kinds :: "string list" where
  "pii_kinds = [''credit_card'', ''ssn'', ''email'', ''phone'', ''nhs'']"

definition regex_matches :: "string \<Rightarrow> string \<Rightarrow> bool" where
  "regex_matches pattern txt = False"

definition scan_pii_regex :: "string \<Rightarrow> string option" where
  "scan_pii_regex value =
     (if length value < 8 then None else find (\<lambda>kind. regex_matches kind value) pii_kinds)"

definition check_field :: "externals \<Rightarrow> data_barrier_policy \<Rightarrow> string \<times> json \<Rightarrow> data_barrier_violation list" where
  "check_field ext policy kv =
     (let field = fst kv; value_str = json_to_string ext (snd kv) in
       (if field \<in> set (db_redact_outbound_fields policy) then [RedactedFieldPresent field] else [])
       @ (if db_block_pii_fields policy \<and> field \<notin> set (db_pii_allowed_fields policy)
          then (case scan_pii_regex value_str of Some kind \<Rightarrow> [PiiDetected field kind] | None \<Rightarrow> [])
          else []))"

definition check_outbound ::
  "externals \<Rightarrow> data_barrier_policy \<Rightarrow> json \<Rightarrow> nat \<Rightarrow> string option \<Rightarrow> data_barrier_violation list" where
  "check_outbound ext policy payload payload_bytes peer_country =
     (if db_max_payload_bytes policy > 0 \<and> payload_bytes > db_max_payload_bytes policy
      then [PayloadTooLarge payload_bytes (db_max_payload_bytes policy)] else [])
     @ (if db_allowed_residency_countries policy \<noteq> [] then
          (case peer_country of
             Some country \<Rightarrow>
               if \<not> list_ex (\<lambda>c. eq_ignore_ascii_case c country) (db_allowed_residency_countries policy)
               then [ResidencyMismatch country (db_allowed_residency_countries policy)] else []
           | None \<Rightarrow> [])
        else [])
     @ (case as_object payload of
          Some obj \<Rightarrow> concat (map (check_field ext policy) obj)
        | None \<Rightarrow> [])"

section \<open>Envelopes\<close>

record boundary_envelope =
  be_envelope_id :: string
  be_handshake_id :: string
  be_handshake_version :: nat
  be_requester_tenant_id :: string
  be_responder_tenant_id :: string
  be_payload :: json
  be_sent_at :: time
  be_expires_at :: time
  be_idempotency_key :: string
  be_requester_signature :: string
  be_callback_endpoint :: string
  be_correlation_token :: string

datatype boundary_outcome = CompletedOutcome | PendingOutcome "nat option" | RejectedOutcome | FailedOutcome

record boundary_failure =
  bf_kind :: boundary_failure_kind
  bf_reason :: string
  bf_retryable :: bool

record boundary_response =
  bres_envelope_id :: string
  bres_handshake_id :: string
  bres_correlation_token :: string
  bres_outcome :: boundary_outcome
  bres_payload :: "json option"
  bres_failure :: "boundary_failure option"
  bres_responded_at :: time
  bres_responder_signature :: string

definition apply_redaction :: "externals \<Rightarrow> json \<Rightarrow> string list \<Rightarrow> json" where
  "apply_redaction ext payload redact_fields =
     (case payload of
        JObject obj \<Rightarrow> JObject (map (\<lambda>(k, v).
          if k \<in> set redact_fields
          then (k, JString (''[redacted:'' @ sha256_hex ext (json_to_string ext v) @ '']'')) else (k, v)) obj)
      | _ \<Rightarrow> payload)"

definition sign_envelope :: "externals \<Rightarrow> string \<Rightarrow> string \<Rightarrow> json \<Rightarrow> string" where
  "sign_envelope ext signing_key_hex envelope_id payload =
     ''sig_hmac_'' @ sha256_hex ext
       (signing_key_hex @ ''||'' @ envelope_id @ ''||'' @ json_to_string ext payload)"

section \<open>The requester\<close>

record boundary_runtime =
  rt_signing_key_hex :: string
  rt_acp_base_url :: string
  rt_runtime_tenant :: string

record requester_draws =
  dr_envelope_id :: string
  dr_correlation_token :: string
  dr_sent_record_id :: string
  dr_received_record_id :: string
  dr_now :: time
  dr_sent_at :: time
  dr_responded_at :: time
  dr_received_at :: time

datatype runtime_error =
    BarrierViolations "data_barrier_violation list"
  | AuditFailure audit_error
  | SendFailed string
  | RuntimePanicked

definition send_cross_team ::
  "externals \<Rightarrow> requester_draws \<Rightarrow> boundary_envelope \<Rightarrow> string \<Rightarrow> audit_tables
     \<Rightarrow> (audit_error, boundary_response \<times> audit_tables) result" where
  "send_cross_team ext draws envelope responder_team_id db =
     (case insert_pending
         \<lparr>pe_envelope_id = be_envelope_id envelope, pe_handshake_id = be_handshake_id envelope,
          pe_tenant_id = responder_team_id, pe_workflow_id = ''cross_team'', pe_step_id = ''cross_team'',
          pe_correlation_token = be_correlation_token envelope,
          pe_idempotency_key = be_idempotency_key envelope, pe_sent_at = db_time ext (be_sent_at envelope),
          pe_expires_at = db_time ext (be_expires_at envelope), pe_attempt_count = 1,
          pe_approval_review_id = None\<rparr> db of
        Inl e \<Rightarrow> Inl e
      | Inr db' \<Rightarrow> Inr
          (\<lparr>bres_envelope_id = be_envelope_id envelope, bres_handshake_id = be_handshake_id envelope,
            bres_correlation_token = be_correlation_token envelope,
            bres_outcome = PendingOutcome (Some 300), bres_payload = None, bres_failure = None,
            bres_responded_at = dr_responded_at draws, bres_responder_signature = []\<rparr>, db'))"

text \<open>The address and the envelope give the peer's answer.\<close>

definition send_cross_enterprise ::
  "(string \<Rightarrow> boundary_envelope \<Rightarrow> (string, boundary_response) result) \<Rightarrow> boundary_envelope \<Rightarrow> boundary_step
     \<Rightarrow> (string, boundary_response) result" where
  "send_cross_enterprise peer envelope step = peer (bst_peer_endpoint step @ ''/boundary/receive'') envelope"

definition make_envelope ::
  "externals \<Rightarrow> boundary_runtime \<Rightarrow> requester_draws \<Rightarrow> boundary_step \<Rightarrow> json \<Rightarrow> string \<Rightarrow> data_barrier_policy
     \<Rightarrow> time \<Rightarrow> boundary_envelope" where
  "make_envelope ext rt draws step resolved_inputs workflow_id data_barrier expires_at =
     \<lparr>be_envelope_id = dr_envelope_id draws,
      be_handshake_id = bst_handshake_id step,
      be_handshake_version = bst_handshake_version step,
      be_requester_tenant_id = rt_runtime_tenant rt,
      be_responder_tenant_id = [],
      be_payload = apply_redaction ext resolved_inputs (db_redact_outbound_fields data_barrier),
      be_sent_at = dr_now draws,
      be_expires_at = expires_at,
      be_idempotency_key = bst_id step @ ''-'' @ workflow_id,
      be_requester_signature =
        sign_envelope ext (rt_signing_key_hex rt) (dr_envelope_id draws) resolved_inputs,
      be_callback_endpoint = rt_acp_base_url rt @ ''/boundary/callback'',
      be_correlation_token = dr_correlation_token draws\<rparr>"

text \<open>Steps 5 to 7: route the envelope, record the response, remove it from the pending table.\<close>

definition route_and_record ::
  "externals \<Rightarrow> (string \<Rightarrow> boundary_envelope \<Rightarrow> (string, boundary_response) result) \<Rightarrow> boundary_runtime
     \<Rightarrow> requester_draws \<Rightarrow> boundary_step \<Rightarrow> boundary_scope \<Rightarrow> boundary_envelope \<Rightarrow> audit_tables
     \<Rightarrow> (runtime_error, boundary_response) result \<times> audit_tables" where
  "route_and_record ext peer rt draws step scope envelope db =
     (case (case scope of
              CrossEnterprise \<Rightarrow>
                (case send_cross_enterprise peer envelope step of
                   Inl e \<Rightarrow> Inl (SendFailed e) | Inr response \<Rightarrow> Inr (response, db))
            | CrossTeam _ responder_team_id \<Rightarrow>
                (case send_cross_team ext draws envelope responder_team_id db of
                   Inl e \<Rightarrow> Inl (AuditFailure e) | Inr r \<Rightarrow> Inr r)) of
        Inl e \<Rightarrow> (Inl e, db)
      | Inr (response, db1) \<Rightarrow>
          (case audit_append ext (dr_received_record_id draws) (dr_received_at draws) (be_envelope_id envelope)
              (bst_handshake_id step) (rt_runtime_tenant rt) RequesterSide ResponseReceived (JObject [])
              (hash_payload ext (case bres_payload response of Some p \<Rightarrow> p | None \<Rightarrow> JNull)) db1 of
             Inl e \<Rightarrow> (Inl (AuditFailure e), db1)
           | Inr (_, db2) \<Rightarrow> (Inr response, resolve_envelope (be_envelope_id envelope) db2)))"

definition execute_requester_step ::
  "externals \<Rightarrow> (string \<Rightarrow> boundary_envelope \<Rightarrow> (string, boundary_response) result) \<Rightarrow> boundary_runtime
     \<Rightarrow> requester_draws \<Rightarrow> boundary_step \<Rightarrow> json \<Rightarrow> string \<Rightarrow> boundary_scope \<Rightarrow> data_barrier_policy
     \<Rightarrow> audit_tables \<Rightarrow> (runtime_error, boundary_response) result \<times> audit_tables" where
  "execute_requester_step ext peer rt draws step resolved_inputs workflow_id scope data_barrier db =
     (let payload_bytes = length (json_to_string ext resolved_inputs);
          violations = check_outbound ext data_barrier resolved_inputs payload_bytes None
      in if violations \<noteq> [] then (Inl (BarrierViolations violations), db)
         else case dt_add_secs ext (dr_now draws) (int (brp_max_attempts (bst_retry_policy step)) * 60 + 300) of
           None \<Rightarrow> (Inl RuntimePanicked, db)
         | Some expires_at \<Rightarrow>
             let envelope = make_envelope ext rt draws step resolved_inputs workflow_id data_barrier expires_at in
             case audit_append ext (dr_sent_record_id draws) (dr_sent_at draws) (dr_envelope_id draws)
                 (bst_handshake_id step) (rt_runtime_tenant rt) RequesterSide EnvelopeSent (JObject [])
                 (hash_payload ext resolved_inputs) db of
               Inl e \<Rightarrow> (Inl (AuditFailure e), db)
             | Inr (_, db1) \<Rightarrow>
                 (case park_envelope ext (dr_envelope_id draws) (bst_handshake_id step) (rt_runtime_tenant rt)
                     workflow_id (bst_id step) (dr_correlation_token draws) (be_idempotency_key envelope)
                     (dr_now draws) expires_at db1 of
                    Inl e \<Rightarrow> (Inl (AuditFailure e), db1)
                  | Inr db2 \<Rightarrow> route_and_record ext peer rt draws step scope envelope db2))"

section \<open>What the barrier lets through\<close>

lemma scan_pii_none [simp]: "scan_pii_regex v = None"
  by (simp add: scan_pii_regex_def regex_matches_def pii_kinds_def)

lemma check_field_clean: "check_field ext policy kv = [] \<longleftrightarrow> fst kv \<notin> set (db_redact_outbound_fields policy)"
  by (simp add: check_field_def Let_def)

text \<open>The data barrier lets a payload pass exactly when it respects the size limit, a known peer
  country is among the allowed ones, and no field marked for redaction is present.  Blocking of
  personal data has no part in it: whatever the fields contain, the scan finds nothing.\<close>

theorem barrier_passes_exactly:
  "check_outbound ext policy payload payload_bytes peer_country = [] \<longleftrightarrow>
     (db_max_payload_bytes policy = 0 \<or> payload_bytes \<le> db_max_payload_bytes policy)
   \<and> (case peer_country of
        None \<Rightarrow> True
      | Some country \<Rightarrow> db_allowed_residency_countries policy = []
          \<or> (\<exists>c\<in>set (db_allowed_residency_countries policy). eq_ignore_ascii_case c country))
   \<and> (case payload of
        JObject obj \<Rightarrow> fst ` set obj \<inter> set (db_redact_outbound_fields policy) = {}
      | _ \<Rightarrow> True)"
proof -
  have fields: "(case as_object payload of Some obj \<Rightarrow> concat (map (check_field ext policy) obj) | None \<Rightarrow> []) = []
    \<longleftrightarrow> (case payload of JObject obj \<Rightarrow> fst ` set obj \<inter> set (db_redact_outbound_fields policy) = {} | _ \<Rightarrow> True)"
    by (cases payload) (auto simp: concat_eq_Nil_conv check_field_clean)
  show ?thesis
    unfolding check_outbound_def append_is_Nil_conv fields
    by (auto simp: list_ex_iff not_less split: option.splits)
qed

text \<open>So the redaction of the envelope never changes anything: a payload with a field to redact was
  stopped before.\<close>

theorem redaction_never_happens:
  assumes "check_outbound ext policy payload n c = []"
  shows "apply_redaction ext payload (db_redact_outbound_fields policy) = payload"
proof (cases payload)
  case (JObject obj)
  with assms have "fst ` set obj \<inter> set (db_redact_outbound_fields policy) = {}"
    by (auto simp: check_outbound_def concat_eq_Nil_conv check_field_clean)
  then have "map (\<lambda>(k, v). if k \<in> set (db_redact_outbound_fields policy)
      then (k, JString (''[redacted:'' @ sha256_hex ext (json_to_string ext v) @ '']'')) else (k, v)) obj = obj"
    by (intro map_idI) (force simp: disjoint_iff)
  with JObject show ?thesis by (simp add: apply_redaction_def)
qed (simp_all add: apply_redaction_def)

section \<open>What an execution leaves behind\<close>

lemma audit_appendE:
  assumes "audit_append ext rid now env h tn side event shown ph db = Inr (r, db')"
  obtains r' where "db' = db\<lparr>audit_ledger := audit_ledger db @ [r']\<rparr>" "ar_record_id r' = rid"
    "ar_envelope_id r' = env" "ar_handshake_id r' = h" "ar_tenant_id r' = tn" "ar_side r' = side"
    "ar_event r' = event" "ar_payload_hash r' = ph"
  using assms by (auto simp: audit_append_def Let_def split: if_splits)

lemma pendingE:
  assumes "insert_pending p db = Inr db'"
  obtains (known) "pe_envelope_id p \<in> pe_envelope_id ` set (pending_envelopes db)" "db' = db"
  | (fresh) "pe_envelope_id p \<notin> pe_envelope_id ` set (pending_envelopes db)"
      "pe_idempotency_key p \<notin> pe_idempotency_key ` set (pending_envelopes db)"
      "db' = db\<lparr>pending_envelopes := pending_envelopes db @ [p]\<rparr>"
  using assms by (auto simp: insert_pending_def split: if_splits)

lemma insert_pending_frame:
  assumes "insert_pending p db = Inr db'"
  shows "audit_ledger db' = audit_ledger db"
    and "filter (\<lambda>q. pe_envelope_id q \<noteq> pe_envelope_id p) (pending_envelopes db')
      = filter (\<lambda>q. pe_envelope_id q \<noteq> pe_envelope_id p) (pending_envelopes db)"
    and "pe_envelope_id p \<in> pe_envelope_id ` set (pending_envelopes db')"
  using assms by (cases rule: pendingE; simp)+

text \<open>The table after the message was handed over: unchanged between companies, and between teams as
  well, since the envelope is already parked.\<close>

lemma route_and_recordE:
  assumes "route_and_record ext peer rt draws step scope envelope db = (Inr response, db')"
    and "be_envelope_id envelope \<in> pe_envelope_id ` set (pending_envelopes db)"
  obtains r where "audit_ledger db' = audit_ledger db @ [r]" "ar_event r = ResponseReceived"
    "ar_side r = RequesterSide" "ar_envelope_id r = be_envelope_id envelope"
    "ar_payload_hash r = hash_payload ext (case bres_payload response of Some p \<Rightarrow> p | None \<Rightarrow> JNull)"
    "pending_envelopes db' = filter (\<lambda>p. pe_envelope_id p \<noteq> be_envelope_id envelope) (pending_envelopes db)"
    "case scope of CrossEnterprise \<Rightarrow> peer (bst_peer_endpoint step @ ''/boundary/receive'') envelope = Inr response
      | CrossTeam _ _ \<Rightarrow> bres_outcome response = PendingOutcome (Some 300) \<and> bres_payload response = None"
proof -
  from assms obtain db2 r where
    app: "audit_append ext (dr_received_record_id draws) (dr_received_at draws) (be_envelope_id envelope)
        (bst_handshake_id step) (rt_runtime_tenant rt) RequesterSide ResponseReceived (JObject [])
        (hash_payload ext (case bres_payload response of Some p \<Rightarrow> p | None \<Rightarrow> JNull)) db = Inr (r, db2)"
    and db': "db' = resolve_envelope (be_envelope_id envelope) db2"
    and sc: "case scope of CrossEnterprise \<Rightarrow> peer (bst_peer_endpoint step @ ''/boundary/receive'') envelope = Inr response
      | CrossTeam _ _ \<Rightarrow> bres_outcome response = PendingOutcome (Some 300) \<and> bres_payload response = None"
    by (cases scope) (auto simp: route_and_record_def send_cross_enterprise_def send_cross_team_def
        insert_pending_def split: sum.splits prod.splits)
  from app obtain r' where "db2 = db\<lparr>audit_ledger := audit_ledger db @ [r']\<rparr>"
    "ar_envelope_id r' = be_envelope_id envelope" "ar_side r' = RequesterSide" "ar_event r' = ResponseReceived"
    "ar_payload_hash r' = hash_payload ext (case bres_payload response of Some p \<Rightarrow> p | None \<Rightarrow> JNull)"
    by (rule audit_appendE)
  with db' sc that show thesis by (simp add: resolve_envelope_def)
qed

lemma execute_requester_stepE:
  assumes "execute_requester_step ext peer rt draws step inputs workflow_id scope policy db = (res, db')"
    and "\<And>vs. res \<noteq> Inl (BarrierViolations vs)" "\<And>e. res \<noteq> Inl (AuditFailure e)" "res \<noteq> Inl RuntimePanicked"
  obtains expires s db1 db2 where
    "check_outbound ext policy inputs (length (json_to_string ext inputs)) None = []"
    "db1 = db\<lparr>audit_ledger := audit_ledger db @ [s]\<rparr>" "ar_event s = EnvelopeSent" "ar_side s = RequesterSide"
    "ar_envelope_id s = dr_envelope_id draws" "ar_payload_hash s = hash_payload ext inputs"
    "park_envelope ext (dr_envelope_id draws) (bst_handshake_id step) (rt_runtime_tenant rt) workflow_id
       (bst_id step) (dr_correlation_token draws) (bst_id step @ ''-'' @ workflow_id) (dr_now draws) expires db1 = Inr db2"
    "route_and_record ext peer rt draws step scope
       (make_envelope ext rt draws step inputs workflow_id policy expires) db2 = (res, db')"
proof -
  from assms obtain expires s db1 db2 where
    "check_outbound ext policy inputs (length (json_to_string ext inputs)) None = []"
    and app: "audit_append ext (dr_sent_record_id draws) (dr_sent_at draws) (dr_envelope_id draws)
       (bst_handshake_id step) (rt_runtime_tenant rt) RequesterSide EnvelopeSent (JObject [])
       (hash_payload ext inputs) db = Inr (s, db1)"
    and "park_envelope ext (dr_envelope_id draws) (bst_handshake_id step) (rt_runtime_tenant rt) workflow_id
       (bst_id step) (dr_correlation_token draws) (bst_id step @ ''-'' @ workflow_id) (dr_now draws) expires db1 = Inr db2"
    "route_and_record ext peer rt draws step scope
       (make_envelope ext rt draws step inputs workflow_id policy expires) db2 = (res, db')"
    by (auto simp: execute_requester_step_def Let_def make_envelope_def
        split: if_splits option.splits sum.splits prod.splits)
  with that show thesis by (blast elim: audit_appendE)
qed

lemma successful_execution:
  assumes "execute_requester_step ext peer rt draws step inputs workflow_id scope policy db = (Inr response, db')"
  obtains s r expires where "audit_ledger db' = audit_ledger db @ [s, r]"
    "ar_event s = EnvelopeSent" "ar_event r = ResponseReceived"
    "ar_envelope_id s = dr_envelope_id draws" "ar_envelope_id r = dr_envelope_id draws"
    "ar_payload_hash s = hash_payload ext inputs"
    "ar_payload_hash r = hash_payload ext (case bres_payload response of Some p \<Rightarrow> p | None \<Rightarrow> JNull)"
    "pending_envelopes db' = filter (\<lambda>p. pe_envelope_id p \<noteq> dr_envelope_id draws) (pending_envelopes db)"
    "case scope of
       CrossEnterprise \<Rightarrow> peer (bst_peer_endpoint step @ ''/boundary/receive'')
         (make_envelope ext rt draws step inputs workflow_id policy expires) = Inr response
     | CrossTeam _ _ \<Rightarrow> bres_outcome response = PendingOutcome (Some 300) \<and> bres_payload response = None"
proof (rule execute_requester_stepE [OF assms])
  fix expires s db1 db2
  let ?e = "make_envelope ext rt draws step inputs workflow_id policy expires"
  assume db1: "db1 = db\<lparr>audit_ledger := audit_ledger db @ [s]\<rparr>" and s: "ar_event s = EnvelopeSent"
    "ar_envelope_id s = dr_envelope_id draws" "ar_payload_hash s = hash_payload ext inputs"
    and park: "park_envelope ext (dr_envelope_id draws) (bst_handshake_id step) (rt_runtime_tenant rt) workflow_id
       (bst_id step) (dr_correlation_token draws) (bst_id step @ ''-'' @ workflow_id) (dr_now draws) expires db1 = Inr db2"
    and route: "route_and_record ext peer rt draws step scope ?e db2 = (Inr response, db')"
  have e: "be_envelope_id ?e = dr_envelope_id draws" by (simp add: make_envelope_def)
  note frame = insert_pending_frame [OF park [unfolded park_envelope_def], simplified]
  from route obtain r where "audit_ledger db' = audit_ledger db2 @ [r]" "ar_event r = ResponseReceived"
    "ar_envelope_id r = dr_envelope_id draws"
    "ar_payload_hash r = hash_payload ext (case bres_payload response of Some p \<Rightarrow> p | None \<Rightarrow> JNull)"
    "pending_envelopes db' = filter (\<lambda>p. pe_envelope_id p \<noteq> dr_envelope_id draws) (pending_envelopes db2)"
    "case scope of CrossEnterprise \<Rightarrow> peer (bst_peer_endpoint step @ ''/boundary/receive'') ?e = Inr response
      | CrossTeam _ _ \<Rightarrow> bres_outcome response = PendingOutcome (Some 300) \<and> bres_payload response = None"
    by (rule route_and_recordE) (simp_all add: e frame)
  with frame s db1 show thesis by (intro that) simp_all
qed simp_all

text \<open>A completed request is fully recorded: the ledger gains exactly two records, the sending
  with the hash of the inputs and the receipt with the hash of the answer, both of this envelope, the
  envelope is no longer pending, and between companies the answer is the peer's to the envelope
  built from the inputs.\<close>

theorem completed_request_recorded:
  assumes "execute_requester_step ext peer rt draws step inputs workflow_id scope policy db = (Inr response, db')"
  shows "\<exists>s r expires. audit_ledger db' = audit_ledger db @ [s, r]
    \<and> ar_event s = EnvelopeSent \<and> ar_event r = ResponseReceived
    \<and> ar_envelope_id s = dr_envelope_id draws \<and> ar_envelope_id r = dr_envelope_id draws
    \<and> ar_payload_hash s = hash_payload ext inputs
    \<and> ar_payload_hash r = hash_payload ext (case bres_payload response of Some p \<Rightarrow> p | None \<Rightarrow> JNull)
    \<and> pending_envelopes db' = filter (\<lambda>p. pe_envelope_id p \<noteq> dr_envelope_id draws) (pending_envelopes db)
    \<and> (case scope of
         CrossEnterprise \<Rightarrow> peer (bst_peer_endpoint step @ ''/boundary/receive'')
           (make_envelope ext rt draws step inputs workflow_id policy expires) = Inr response
       | CrossTeam _ _ \<Rightarrow> True)"
  by (rule successful_execution [OF assms]) (cases scope, auto)

text \<open>A request to another team of the same company is lost.  The row for the responder's team has
  the id under which the requester has already parked the envelope, so its insertion is skipped, and
  the requester's row is removed at the end: the pending table is as before, although the step reports
  that the answer is pending.\<close>

theorem cross_team_request_lost:
  assumes "execute_requester_step ext peer rt draws step inputs workflow_id (CrossTeam team1 team2) policy db = (Inr response, db')"
    and "dr_envelope_id draws \<notin> pe_envelope_id ` set (pending_envelopes db)"
  shows "pending_envelopes db' = pending_envelopes db \<and> bres_outcome response = PendingOutcome (Some 300)"
proof -
  from assms(1) have "pending_envelopes db' = filter (\<lambda>p. pe_envelope_id p \<noteq> dr_envelope_id draws) (pending_envelopes db)
      \<and> bres_outcome response = PendingOutcome (Some 300)"
    by (rule successful_execution) simp
  moreover have "filter (\<lambda>p. pe_envelope_id p \<noteq> dr_envelope_id draws) (pending_envelopes db) = pending_envelopes db"
    using assms(2) by (force intro: filter_True)
  ultimately show ?thesis by simp
qed

text \<open>A step whose message could not be sent cannot be tried again: its parked envelope keeps the
  idempotency key, which depends only on the step and the workflow, and parking the next envelope
  fails on it.\<close>

theorem failed_send_blocks_retry:
  assumes first: "execute_requester_step ext peer rt draws step inputs workflow_id scope policy db = (Inl (SendFailed e), db')"
    and fresh: "dr_envelope_id draws \<notin> pe_envelope_id ` set (pending_envelopes db)"
    and second: "dr_envelope_id draws' \<notin> pe_envelope_id ` set (pending_envelopes db')"
      "dr_sent_record_id draws' \<notin> ar_record_id ` set (audit_ledger db')"
      "dt_add_secs ext (dr_now draws') (int (brp_max_attempts (bst_retry_policy step)) * 60 + 300) \<noteq> None"
  shows "fst (execute_requester_step ext peer' rt draws' step inputs workflow_id scope policy db')
    = Inl (AuditFailure (DuplicateIdempotencyKey (bst_id step @ ''-'' @ workflow_id)))"
proof (rule execute_requester_stepE [OF first])
  fix expires s db1 db2
  assume clean: "check_outbound ext policy inputs (length (json_to_string ext inputs)) None = []"
    and db1: "db1 = db\<lparr>audit_ledger := audit_ledger db @ [s]\<rparr>"
    and park: "park_envelope ext (dr_envelope_id draws) (bst_handshake_id step) (rt_runtime_tenant rt) workflow_id
       (bst_id step) (dr_correlation_token draws) (bst_id step @ ''-'' @ workflow_id) (dr_now draws) expires db1 = Inr db2"
    and route: "route_and_record ext peer rt draws step scope
       (make_envelope ext rt draws step inputs workflow_id policy expires) db2 = (Inl (SendFailed e), db')"
  have "db' = db2"
    using route by (auto simp: route_and_record_def split: sum.splits prod.splits boundary_scope.splits)
  moreover have "bst_id step @ ''-'' @ workflow_id \<in> pe_idempotency_key ` set (pending_envelopes db2)"
    using park fresh db1 by (auto simp: park_envelope_def elim!: pendingE)
  ultimately have key: "bst_id step @ ''-'' @ workflow_id \<in> pe_idempotency_key ` set (pending_envelopes db')"
    by simp
  from second(3) obtain t where "dt_add_secs ext (dr_now draws') (int (brp_max_attempts (bst_retry_policy step)) * 60 + 300) = Some t"
    by auto
  with clean key second(1,2) show ?thesis
    by (auto simp: execute_requester_step_def Let_def audit_append_def park_envelope_def insert_pending_def
        make_envelope_def)
qed simp_all

section \<open>Witnesses\<close>

definition sample_bstep :: boundary_step where
  "sample_bstep = \<lparr>bst_id = ''s'', bst_step_type = ''notify'', bst_tool = ''acp_boundary'', bst_handshake_id = ''h'',
     bst_handshake_version = 1, bst_role = RequesterRole, bst_peer_endpoint = ''p'', bst_resource_id = ''r'',
     bst_input_mapping = JNull, bst_output_schema = StringSchema, bst_read_only = False,
     bst_retry_policy = \<lparr>brp_max_attempts = 1, brp_backoff_secs = 0, brp_retry_on_timeout = False,
       brp_retry_on_schema_failure = False\<rparr>,
     bst_depends_on = [], bst_next_steps = [], bst_fallback_step = None, bst_success_criteria = []\<rparr>"

definition sample_draws :: "string \<Rightarrow> requester_draws" where
  "sample_draws x = \<lparr>dr_envelope_id = x, dr_correlation_token = ''c'', dr_sent_record_id = x @ ''1'',
     dr_received_record_id = x @ ''2'', dr_now = 0, dr_sent_at = 0, dr_responded_at = 0, dr_received_at = 0\<rparr>"

definition sample_runtime :: boundary_runtime where
  "sample_runtime = \<lparr>rt_signing_key_hex = ''k'', rt_acp_base_url = ''u'', rt_runtime_tenant = ''t''\<rparr>"

definition open_barrier :: data_barrier_policy where
  "open_barrier = \<lparr>db_block_pii_fields = True, db_pii_allowed_fields = [], db_redact_outbound_fields = [],
     db_allowed_residency_countries = [], db_max_payload_bytes = 0\<rparr>"

abbreviation run_sample :: "(string \<Rightarrow> boundary_envelope \<Rightarrow> (string, boundary_response) result) \<Rightarrow> string
    \<Rightarrow> boundary_scope \<Rightarrow> audit_tables \<Rightarrow> (runtime_error, boundary_response) result \<times> audit_tables" where
  "run_sample peer x scope db \<equiv> execute_requester_step sample_ext peer sample_runtime (sample_draws x) sample_bstep
     JNull ''w'' scope open_barrier db"

lemmas sample_run = execute_requester_step_def Let_def sample_runtime_def sample_draws_def sample_bstep_def
  open_barrier_def check_outbound_def audit_append_def park_envelope_def insert_pending_def make_envelope_def
  route_and_record_def send_cross_enterprise_def send_cross_team_def latest_chain_hash_def records_of_def
  sample_ext_def sample_tables_def resolve_envelope_def apply_redaction_def

lemma sample_cross_team: "\<exists>response db'. run_sample (\<lambda>_ _. Inl []) ''e'' (CrossTeam ''a'' ''b'') sample_tables = (Inr response, db')"
  by (simp add: sample_run)

theorem completed_request_recorded_witness:
  "\<exists>s r. audit_ledger (snd (run_sample (\<lambda>_ _. Inl []) ''e'' (CrossTeam ''a'' ''b'') sample_tables)) = [s, r]"
proof -
  from sample_cross_team obtain response db' where
    "run_sample (\<lambda>_ _. Inl []) ''e'' (CrossTeam ''a'' ''b'') sample_tables = (Inr response, db')" by blast
  from completed_request_recorded [OF this] this show ?thesis by (auto simp: sample_tables_def)
qed

theorem cross_team_request_lost_witness:
  "pending_envelopes (snd (run_sample (\<lambda>_ _. Inl []) ''e'' (CrossTeam ''a'' ''b'') sample_tables)) = []"
proof -
  from sample_cross_team obtain response db' where
    "run_sample (\<lambda>_ _. Inl []) ''e'' (CrossTeam ''a'' ''b'') sample_tables = (Inr response, db')" by blast
  from cross_team_request_lost [OF this] this show ?thesis by (auto simp: sample_tables_def)
qed

theorem failed_send_blocks_retry_witness:
  "fst (run_sample (\<lambda>_ _. Inl []) ''f'' CrossEnterprise
      (snd (run_sample (\<lambda>_ _. Inl ''down'') ''e'' CrossEnterprise sample_tables)))
    = Inl (AuditFailure (DuplicateIdempotencyKey ''s-w''))"
proof -
  let ?db = "snd (run_sample (\<lambda>_ _. Inl ''down'') ''e'' CrossEnterprise sample_tables)"
  have "run_sample (\<lambda>_ _. Inl ''down'') ''e'' CrossEnterprise sample_tables = (Inl (SendFailed ''down''), ?db)"
    by (simp add: sample_run)
  from failed_send_blocks_retry [OF this, of "sample_draws ''f''" "\<lambda>_ _. Inl []"] show ?thesis
    by (simp add: sample_run)
qed

end
