(* ===== verification/Boundary_Governance.thy ===== *)
theory Boundary_Governance
  imports Boundary
begin

text \<open>
  The stored handshakes (\<open>boundry/handshake.rs\<close>) and their governance (\<open>boundry/governance.rs\<close>): drafts
  and acceptance, freezing, unfreezing and revoking with the log of these actions, breach reports,
  and the request counters of the rate limit.

  Tables are lists of rows in the order of insertion; rows read by time come in that order where
  their times are equal.  Identifiers from \<open>new_id\<close>, the clock and \<open>NOW()\<close> of the database are
  arguments.  The revocation state is stored as the value its JSON encodes.  The columns for
  signatures, data barrier, consent, rate limit and approval policy, which these operations neither
  read nor write, are left out.
\<close>

section \<open>Tables\<close>

record handshake_row =
  hr_handshake_id :: string
  hr_version :: nat
  hr_tenant_id :: string
  hr_requester_tenant_id :: string
  hr_responder_tenant_id :: string
  hr_requester_name :: string
  hr_responder_name :: string
  hr_requester_endpoint :: string
  hr_responder_endpoint :: string
  hr_requester_team_id :: "string option"
  hr_responder_team_id :: "string option"
  hr_scope :: string
  hr_request_schema :: json
  hr_response_schema :: json
  hr_request_visible_fields :: "string list"
  hr_response_visible_fields :: "string list"
  hr_response_timeout_secs :: int
  hr_idempotent :: bool
  hr_requester_accepted :: bool
  hr_responder_accepted :: bool
  hr_revocation_state :: revocation_state
  hr_revocation_state_text :: string
  hr_valid_from :: "time option"
  hr_valid_until :: "time option"
  hr_created_at :: time
  hr_accepted_at :: "time option"

record freeze_log_row =
  fl_id :: string
  fl_handshake_id :: string
  fl_tenant_id :: string
  fl_action :: string
  fl_actor :: string
  fl_reason :: string
  fl_occurred_at :: time

record breach_report =
  br_id :: string
  br_handshake_id :: string
  br_reporter_tenant :: string
  br_severity :: string
  br_description :: string
  br_affected_envelopes :: "string list"
  br_reported_at :: time

record rate_counter =
  rt_handshake_id :: string
  rt_tenant_id :: string
  rt_window_start :: time
  rt_request_count :: nat

record governance_tables =
  boundary_handshakes :: "handshake_row list"
  freeze_log :: "freeze_log_row list"
  breach_reports :: "breach_report list"
  rate_counters :: "rate_counter list"

datatype governance_error =
    DuplicateHandshake string
  | DuplicateLogEntry string
  | DuplicateReport string
  | IntegerOutOfRange
  | Panicked

section \<open>Handshakes\<close>

definition to_i64 :: "nat \<Rightarrow> int" where
  "to_i64 n = (int n + 2 ^ 63) mod 2 ^ 64 - 2 ^ 63"

fun scope_str :: "boundary_scope \<Rightarrow> string" where
  "scope_str CrossEnterprise = ''cross_enterprise''"
| "scope_str (CrossTeam _ _) = ''cross_team''"

fun scope_teams :: "boundary_scope \<Rightarrow> string option \<times> string option" where
  "scope_teams CrossEnterprise = (None, None)"
| "scope_teams (CrossTeam requester_team responder_team) = (Some requester_team, Some responder_team)"

definition create_draft ::
  "string \<Rightarrow> time \<Rightarrow> string \<Rightarrow> boundary_party \<Rightarrow> boundary_party \<Rightarrow> boundary_scope \<Rightarrow> json \<Rightarrow> json
     \<Rightarrow> string list \<Rightarrow> string list \<Rightarrow> nat \<Rightarrow> bool \<Rightarrow> governance_tables
     \<Rightarrow> (governance_error, string \<times> governance_tables) result" where
  "create_draft handshake_id now tenant_id requester responder scope request_schema response_schema
       request_visible response_visible response_timeout_secs idempotent db =
     (let r = \<lparr>hr_handshake_id = handshake_id, hr_version = 1, hr_tenant_id = tenant_id,
            hr_requester_tenant_id = bp_tenant_id requester, hr_responder_tenant_id = bp_tenant_id responder,
            hr_requester_name = bp_display_name requester, hr_responder_name = bp_display_name responder,
            hr_requester_endpoint = bp_acp_endpoint requester, hr_responder_endpoint = bp_acp_endpoint responder,
            hr_requester_team_id = fst (scope_teams scope), hr_responder_team_id = snd (scope_teams scope),
            hr_scope = scope_str scope, hr_request_schema = request_schema, hr_response_schema = response_schema,
            hr_request_visible_fields = request_visible, hr_response_visible_fields = response_visible,
            hr_response_timeout_secs = to_i64 response_timeout_secs, hr_idempotent = idempotent,
            hr_requester_accepted = True, hr_responder_accepted = False,
            hr_revocation_state = Active, hr_revocation_state_text = ''active'',
            hr_valid_from = None, hr_valid_until = None, hr_created_at = now, hr_accepted_at = None\<rparr>
      in if \<not> (- (2 ^ 31) \<le> to_i64 response_timeout_secs \<and> to_i64 response_timeout_secs < 2 ^ 31)
         then Inl IntegerOutOfRange
         else if \<exists>x\<in>set (boundary_handshakes db). hr_handshake_id x = handshake_id \<and> hr_version x = 1
           \<and> hr_tenant_id x = tenant_id
         then Inl (DuplicateHandshake handshake_id)
         else Inr (handshake_id, db\<lparr>boundary_handshakes := boundary_handshakes db @ [r]\<rparr>))"

text \<open>\<open>UPDATE boundary_handshakes ... WHERE handshake_id = $1 AND tenant_id = $2\<close>: every version.\<close>

definition update_handshakes ::
  "string \<Rightarrow> string \<Rightarrow> (handshake_row \<Rightarrow> handshake_row) \<Rightarrow> governance_tables \<Rightarrow> governance_tables" where
  "update_handshakes handshake_id tenant_id f db =
     db\<lparr>boundary_handshakes := map (\<lambda>r.
       if hr_handshake_id r = handshake_id \<and> hr_tenant_id r = tenant_id then f r else r) (boundary_handshakes db)\<rparr>"

definition accept ::
  "time \<Rightarrow> string \<Rightarrow> string \<Rightarrow> bool \<Rightarrow> governance_tables \<Rightarrow> governance_tables" where
  "accept now handshake_id tenant_id as_responder db =
     update_handshakes handshake_id tenant_id
       (\<lambda>r. (if as_responder then r\<lparr>hr_responder_accepted := True\<rparr> else r\<lparr>hr_requester_accepted := True\<rparr>)
          \<lparr>hr_accepted_at := Some now\<rparr>) db"

text \<open>The row of the greatest version.\<close>

fun latest_version :: "handshake_row list \<Rightarrow> handshake_row option" where
  "latest_version [] = None"
| "latest_version (r # rs) =
     (case latest_version rs of
        None \<Rightarrow> Some r
      | Some b \<Rightarrow> if hr_version b \<le> hr_version r then Some r else Some b)"

definition load_handshake :: "string \<Rightarrow> string \<Rightarrow> governance_tables \<Rightarrow> handshake_row option" where
  "load_handshake handshake_id tenant_id db =
     latest_version (filter (\<lambda>r. hr_handshake_id r = handshake_id \<and> hr_tenant_id r = tenant_id)
       (boundary_handshakes db))"

definition is_live :: "string \<Rightarrow> string \<Rightarrow> governance_tables \<Rightarrow> bool" where
  "is_live handshake_id tenant_id db =
     (case load_handshake handshake_id tenant_id db of
        Some r \<Rightarrow> hr_requester_accepted r \<and> hr_responder_accepted r \<and> hr_revocation_state_text r = ''active''
      | None \<Rightarrow> False)"

section \<open>Freezing and revoking\<close>

definition log_action ::
  "string \<Rightarrow> time \<Rightarrow> string \<Rightarrow> string \<Rightarrow> string \<Rightarrow> string \<Rightarrow> string \<Rightarrow> governance_tables
     \<Rightarrow> (governance_error, governance_tables) result" where
  "log_action entry_id now handshake_id tenant_id action actor reason db =
     (if entry_id \<in> fl_id ` set (freeze_log db) then Inl (DuplicateLogEntry entry_id)
      else Inr (db\<lparr>freeze_log := freeze_log db @
        [\<lparr>fl_id = entry_id, fl_handshake_id = handshake_id, fl_tenant_id = tenant_id, fl_action = action,
          fl_actor = actor, fl_reason = reason, fl_occurred_at = now\<rparr>]\<rparr>))"

definition set_revocation_state ::
  "string \<Rightarrow> string \<Rightarrow> revocation_state \<Rightarrow> governance_tables \<Rightarrow> governance_tables" where
  "set_revocation_state handshake_id tenant_id s =
     update_handshakes handshake_id tenant_id (\<lambda>r. r\<lparr>hr_revocation_state := s\<rparr>)"

definition freeze ::
  "string \<Rightarrow> time \<Rightarrow> time \<Rightarrow> string \<Rightarrow> string \<Rightarrow> string \<Rightarrow> string \<Rightarrow> governance_tables
     \<Rightarrow> (governance_error, governance_tables) result" where
  "freeze entry_id db_now now handshake_id tenant_id actor reason db =
     (case log_action entry_id db_now handshake_id tenant_id ''freeze'' actor reason db of
        Inl e \<Rightarrow> Inl e
      | Inr db' \<Rightarrow> Inr (set_revocation_state handshake_id tenant_id (Frozen actor now reason) db'))"

definition unfreeze ::
  "string \<Rightarrow> time \<Rightarrow> string \<Rightarrow> string \<Rightarrow> string \<Rightarrow> governance_tables
     \<Rightarrow> (governance_error, governance_tables) result" where
  "unfreeze entry_id db_now handshake_id tenant_id actor db =
     (case log_action entry_id db_now handshake_id tenant_id ''unfreeze'' actor ''unfreeze by actor'' db of
        Inl e \<Rightarrow> Inl e
      | Inr db' \<Rightarrow> Inr (set_revocation_state handshake_id tenant_id Active db'))"

definition revoke ::
  "string \<Rightarrow> time \<Rightarrow> time \<Rightarrow> string \<Rightarrow> string \<Rightarrow> string \<Rightarrow> string \<Rightarrow> governance_tables
     \<Rightarrow> (governance_error, governance_tables) result" where
  "revoke entry_id db_now now handshake_id tenant_id actor reason db =
     (case log_action entry_id db_now handshake_id tenant_id ''revoke'' actor reason db of
        Inl e \<Rightarrow> Inl e
      | Inr db' \<Rightarrow> Inr (set_revocation_state handshake_id tenant_id (Revoked actor now reason) db'))"

definition report_breach ::
  "string \<Rightarrow> time \<Rightarrow> string \<Rightarrow> string \<Rightarrow> string \<Rightarrow> string \<Rightarrow> string list \<Rightarrow> governance_tables
     \<Rightarrow> (governance_error, string \<times> governance_tables) result" where
  "report_breach entry_id now handshake_id reporter severity description affected db =
     (if entry_id \<in> br_id ` set (breach_reports db) then Inl (DuplicateReport entry_id)
      else Inr (entry_id, db\<lparr>breach_reports := breach_reports db @
        [\<lparr>br_id = entry_id, br_handshake_id = handshake_id, br_reporter_tenant = reporter, br_severity = severity,
          br_description = description, br_affected_envelopes = affected, br_reported_at = now\<rparr>]\<rparr>))"

definition actions_of :: "string \<Rightarrow> string \<Rightarrow> governance_tables \<Rightarrow> freeze_log_row list" where
  "actions_of handshake_id tenant_id db =
     sort_key fl_occurred_at
       (filter (\<lambda>l. fl_handshake_id l = handshake_id \<and> fl_tenant_id l = tenant_id) (freeze_log db))"

definition is_frozen :: "string \<Rightarrow> string \<Rightarrow> governance_tables \<Rightarrow> bool" where
  "is_frozen handshake_id tenant_id db =
     (case actions_of handshake_id tenant_id db of
        [] \<Rightarrow> False | ls \<Rightarrow> fl_action (last ls) = ''freeze'')"

section \<open>Rate limit\<close>

definition is_rate_limited ::
  "externals \<Rightarrow> time \<Rightarrow> string \<Rightarrow> string \<Rightarrow> nat \<Rightarrow> nat \<Rightarrow> governance_tables
     \<Rightarrow> (governance_error, bool) result" where
  "is_rate_limited ext now handshake_id tenant_id max_requests window_secs db =
     (case dt_add_secs ext now (- to_i64 window_secs) of
        None \<Rightarrow> Inl Panicked
      | Some window_start \<Rightarrow>
          Inr (max_requests \<le> sum_list (map rt_request_count
            (filter (\<lambda>c. rt_handshake_id c = handshake_id \<and> rt_tenant_id c = tenant_id
               \<and> db_time ext window_start \<le> rt_window_start c) (rate_counters db)))))"

text \<open>The remainder of Rust has the sign of the dividend.\<close>

definition rust_rem :: "int \<Rightarrow> int \<Rightarrow> int" where
  "rust_rem a b = sgn a * (\<bar>a\<bar> mod \<bar>b\<bar>)"

definition window_of :: "time \<Rightarrow> int \<Rightarrow> time" where
  "window_of now w = (let epoch_secs = now div nanos_per_sec in secs (epoch_secs - rust_rem epoch_secs w))"

definition same_window :: "string \<Rightarrow> string \<Rightarrow> time \<Rightarrow> rate_counter \<Rightarrow> bool" where
  "same_window handshake_id tenant_id start c \<longleftrightarrow>
     rt_handshake_id c = handshake_id \<and> rt_tenant_id c = tenant_id \<and> rt_window_start c = start"

definition increment_rate_counter ::
  "time \<Rightarrow> string \<Rightarrow> string \<Rightarrow> nat \<Rightarrow> governance_tables \<Rightarrow> (governance_error, governance_tables) result" where
  "increment_rate_counter now handshake_id tenant_id window_secs db =
     (if to_i64 window_secs = 0 then Inl Panicked
      else let start = window_of now (to_i64 window_secs) in
        case find (same_window handshake_id tenant_id start) (rate_counters db) of
          None \<Rightarrow> Inr (db\<lparr>rate_counters := rate_counters db @
            [\<lparr>rt_handshake_id = handshake_id, rt_tenant_id = tenant_id, rt_window_start = start,
              rt_request_count = 1\<rparr>]\<rparr>)
        | Some c \<Rightarrow>
            if 2 ^ 31 \<le> rt_request_count c + 1 then Inl IntegerOutOfRange
            else Inr (db\<lparr>rate_counters := update_first (same_window handshake_id tenant_id start)
              (\<lambda>c. c\<lparr>rt_request_count := rt_request_count c + 1\<rparr>) (rate_counters db)\<rparr>))"

text \<open>Each of the two statements reads the clock.\<close>

definition check_and_increment_rate ::
  "externals \<Rightarrow> time \<Rightarrow> time \<Rightarrow> string \<Rightarrow> string \<Rightarrow> nat \<Rightarrow> nat \<Rightarrow> governance_tables
     \<Rightarrow> (governance_error, bool \<times> governance_tables) result" where
  "check_and_increment_rate ext now now' handshake_id tenant_id max_requests window_secs db =
     (case is_rate_limited ext now handshake_id tenant_id max_requests window_secs db of
        Inl e \<Rightarrow> Inl e
      | Inr True \<Rightarrow> Inr (False, db)
      | Inr False \<Rightarrow>
          (case increment_rate_counter now' handshake_id tenant_id window_secs db of
             Inl e \<Rightarrow> Inl e
           | Inr db' \<Rightarrow> Inr (True, db')))"

section \<open>What governance changes\<close>

definition row_key :: "handshake_row \<Rightarrow> string \<times> string \<times> nat" where
  "row_key r = (hr_handshake_id r, hr_tenant_id r, hr_version r)"

lemma latest_version_map:
  "(\<And>r. hr_version (f r) = hr_version r) \<Longrightarrow> latest_version (map f rs) = map_option f (latest_version rs)"
  by (induction rs) (auto split: option.splits)

lemma latest_version_mem: "latest_version rs = Some r \<Longrightarrow> r \<in> set rs"
  by (induction rs) (auto split: option.splits if_splits)

lemma load_update_handshakes:
  assumes "\<And>r. row_key (f r) = row_key r"
  shows "load_handshake h tn (update_handshakes h' tn' f db) =
    (if h = h' \<and> tn = tn' then map_option f (load_handshake h tn db) else load_handshake h tn db)"
proof -
  let ?g = "\<lambda>r. if hr_handshake_id r = h' \<and> hr_tenant_id r = tn' then f r else r"
  let ?P = "\<lambda>r. hr_handshake_id r = h \<and> hr_tenant_id r = tn"
  have key: "hr_handshake_id (?g r) = hr_handshake_id r" "hr_tenant_id (?g r) = hr_tenant_id r"
    "hr_version (?g r) = hr_version r" for r
    using assms [of r] by (auto simp: row_key_def)
  have "filter ?P (map ?g rs) = map ?g (filter ?P rs)" for rs
    by (simp add: filter_map o_def key)
  moreover have "map ?g (filter ?P rs) = (if h = h' \<and> tn = tn' then map f (filter ?P rs) else filter ?P rs)" for rs
    by (induction rs) auto
  moreover have "latest_version (map f rs) = map_option f (latest_version rs)" for rs
    using assms by (intro latest_version_map) (simp add: row_key_def)
  ultimately show ?thesis
    by (simp add: load_handshake_def update_handshakes_def)
qed

lemma load_set_revocation_state:
  "load_handshake h tn (set_revocation_state h' tn' s db) =
     (if h = h' \<and> tn = tn' then map_option (\<lambda>r. r\<lparr>hr_revocation_state := s\<rparr>) (load_handshake h tn db)
      else load_handshake h tn db)"
  unfolding set_revocation_state_def by (rule load_update_handshakes) (simp add: row_key_def)

lemma log_action_load [frame_simps]:
  "log_action i now h' tn' a act reason db = Inr db' \<Longrightarrow> load_handshake h tn db' = load_handshake h tn db"
  by (auto simp: log_action_def load_handshake_def split: if_splits)

lemma set_revocation_state_log [simp]: "freeze_log (set_revocation_state h tn s db) = freeze_log db"
  by (simp add: set_revocation_state_def update_handshakes_def)

lemma actions_of_set_revocation_state [simp]:
  "actions_of h tn (set_revocation_state h' tn' s db) = actions_of h tn db"
  by (simp add: actions_of_def)

text \<open>An action no older than those logged is read as the latest one.\<close>

lemma sort_key_snoc_max:
  "\<forall>y\<in>set xs. k y \<le> k x \<Longrightarrow> sort_key k (xs @ [x]) = sort_key k xs @ [x]"
proof (induction xs)
  case (Cons a xs)
  have "insort_key k a (ys @ [x]) = insort_key k a ys @ [x]" if "k a \<le> k x" for ys
    using that by (induction ys) auto
  with Cons show ?case by simp
qed simp

lemma actions_of_log_action:
  assumes "log_action i now h' tn' a act reason db = Inr db'"
    and "\<forall>l\<in>set (freeze_log db). fl_occurred_at l \<le> now"
  shows "actions_of h tn db' = actions_of h tn db @
    (if h = h' \<and> tn = tn' then [\<lparr>fl_id = i, fl_handshake_id = h', fl_tenant_id = tn', fl_action = a,
       fl_actor = act, fl_reason = reason, fl_occurred_at = now\<rparr>] else [])"
  using assms
  by (auto simp: log_action_def actions_of_def sort_key_snoc_max split: if_splits)

lemma is_frozen_last: "is_frozen h tn db \<longleftrightarrow> actions_of h tn db \<noteq> [] \<and> fl_action (last (actions_of h tn db)) = ''freeze''"
  by (simp add: is_frozen_def split: list.split)

text \<open>A freeze takes effect at once and only where it is meant: the handshake of that tenant is then
  reported frozen and its stored state is frozen by that actor for that reason, while every other
  handshake and every other tenant's copy keeps its state and its freeze report.\<close>

theorem freeze_takes_effect:
  assumes "freeze i db_now now h tn actor reason db = Inr db'"
    and "\<forall>l\<in>set (freeze_log db). fl_occurred_at l \<le> db_now"
  shows "is_frozen h tn db'
    \<and> load_handshake h tn db' = map_option (\<lambda>r. r\<lparr>hr_revocation_state := Frozen actor now reason\<rparr>) (load_handshake h tn db)
    \<and> (\<forall>h' tn'. (h', tn') \<noteq> (h, tn) \<longrightarrow>
         load_handshake h' tn' db' = load_handshake h' tn' db \<and> is_frozen h' tn' db' = is_frozen h' tn' db)"
proof -
  from assms(1) obtain db1 where
    log: "log_action i db_now h tn ''freeze'' actor reason db = Inr db1"
    and db': "db' = set_revocation_state h tn (Frozen actor now reason) db1"
    by (auto simp: freeze_def split: sum.splits)
  note effect = actions_of_log_action [OF log assms(2)] log_action_load [OF log]
  show ?thesis
    unfolding db' is_frozen_last actions_of_set_revocation_state effect load_set_revocation_state by auto
qed

text \<open>The liveness test reads a column that no governance action writes: freezing or revoking a
  handshake never changes whether it counts as live.\<close>

lemma is_live_set_revocation_state: "is_live h tn (set_revocation_state h' tn' s db) = is_live h tn db"
  by (auto simp: is_live_def load_set_revocation_state split: option.splits)

lemma is_live_log_action: "log_action i now h' tn' a act reason db = Inr db' \<Longrightarrow> is_live h tn db' = is_live h tn db"
  by (simp add: is_live_def log_action_load)

theorem governance_ignored_by_liveness:
  "freeze i t t' h' tn' actor reason db = Inr db' \<or> revoke i t t' h' tn' actor reason db = Inr db'
     \<Longrightarrow> is_live h tn db' = is_live h tn db"
  by (auto simp: freeze_def revoke_def is_live_set_revocation_state is_live_log_action split: sum.splits)

text \<open>A revocation can be undone: unfreezing makes a revoked handshake active again.\<close>

theorem unfreeze_reverses_revocation:
  assumes "revoke i t t' h tn actor reason db = Inr db1" "unfreeze j t2 h tn actor2 db1 = Inr db2"
  shows "map_option hr_revocation_state (load_handshake h tn db1) = map_option (\<lambda>_. Revoked actor t' reason) (load_handshake h tn db)
    \<and> map_option hr_revocation_state (load_handshake h tn db2) = map_option (\<lambda>_. Active) (load_handshake h tn db)"
  using assms
  by (auto simp: revoke_def unfreeze_def load_set_revocation_state log_action_load option.map_comp o_def split: sum.splits)

section \<open>A handshake goes live only when both have accepted\<close>

text \<open>The operations of the two stores, the acceptance of one handshake by its responder excepted.\<close>

inductive other_step :: "string \<Rightarrow> string \<Rightarrow> governance_tables \<Rightarrow> governance_tables \<Rightarrow> bool" for h tn where
  "create_draft i now t rq rs sc s1 s2 v1 v2 timeout idem db = Inr (i', db') \<Longrightarrow> other_step h tn db db'"
| "(h', tn', as_responder) \<noteq> (h, tn, True) \<Longrightarrow> other_step h tn db (accept now h' tn' as_responder db)"
| "freeze i t t' h' tn' actor reason db = Inr db' \<Longrightarrow> other_step h tn db db'"
| "unfreeze i t h' tn' actor db = Inr db' \<Longrightarrow> other_step h tn db db'"
| "revoke i t t' h' tn' actor reason db = Inr db' \<Longrightarrow> other_step h tn db db'"
| "report_breach i t h' reporter sev descr env db = Inr (i', db') \<Longrightarrow> other_step h tn db db'"
| "check_and_increment_rate ext t t' h' tn' m w db = Inr (ok, db') \<Longrightarrow> other_step h tn db db'"

definition not_responded :: "string \<Rightarrow> string \<Rightarrow> governance_tables \<Rightarrow> bool" where
  "not_responded h tn db \<longleftrightarrow> (\<forall>r\<in>set (boundary_handshakes db).
     hr_handshake_id r = h \<longrightarrow> hr_tenant_id r = tn \<longrightarrow> \<not> hr_responder_accepted r)"

lemma not_responded_update:
  "not_responded h tn db \<Longrightarrow> (\<And>r. row_key (f r) = row_key r) \<Longrightarrow>
   ((h', tn') = (h, tn) \<Longrightarrow> (\<And>r. hr_responder_accepted (f r) = hr_responder_accepted r)) \<Longrightarrow>
   not_responded h tn (update_handshakes h' tn' f db)"
  by (auto simp: not_responded_def update_handshakes_def row_key_def)

lemma handshakes_log_action:
  "log_action i now h' tn' a act reason db = Inr db' \<Longrightarrow> boundary_handshakes db' = boundary_handshakes db"
  by (auto simp: log_action_def split: if_splits)

lemma handshakes_rate:
  "check_and_increment_rate ext t t' h' tn' m w db = Inr (ok, db') \<Longrightarrow>
   boundary_handshakes db' = boundary_handshakes db"
  by (auto simp: check_and_increment_rate_def increment_rate_counter_def Let_def
      split: sum.splits bool.splits if_splits option.splits)

lemma not_responded_cong:
  "boundary_handshakes db' = boundary_handshakes db \<Longrightarrow> not_responded h tn db' = not_responded h tn db"
  by (simp add: not_responded_def)

lemma not_responded_governed:
  assumes "not_responded h tn db" "log_action i now h' tn' a act reason db = Inr db1"
  shows "not_responded h tn (set_revocation_state h' tn' s db1)"
  unfolding set_revocation_state_def
  using assms handshakes_log_action [OF assms(2)]
  by (intro not_responded_update) (simp_all add: row_key_def not_responded_def)

lemma other_step_not_responded: "other_step h tn db db' \<Longrightarrow> not_responded h tn db \<Longrightarrow> not_responded h tn db'"
proof (induction rule: other_step.induct)
  case (1 i now t rq rs sc s1 s2 v1 v2 timeout idem db i' db')
  then show ?case by (auto simp: create_draft_def Let_def not_responded_def split: if_splits)
next
  case (2 h' tn' as_responder db now)
  show ?case
    unfolding accept_def using 2
    by (intro not_responded_update) (auto simp: row_key_def)
next
  case (3 i t t' h' tn' actor reason db db')
  then show ?case by (auto simp: freeze_def split: sum.splits intro: not_responded_governed)
next
  case (4 i t h' tn' actor db db')
  then show ?case by (auto simp: unfreeze_def split: sum.splits intro: not_responded_governed)
next
  case (5 i t t' h' tn' actor reason db db')
  then show ?case by (auto simp: revoke_def split: sum.splits intro: not_responded_governed)
next
  case (6 i t h' reporter sev descr env db i' db')
  then show ?case by (auto simp: report_breach_def not_responded_def split: if_splits)
next
  case (7 ext t t' h' tn' m w db ok db')
  from not_responded_cong [OF handshakes_rate [OF 7(1)]] 7(2) show ?case by simp
qed

text \<open>No sequence of drafts, acceptances, freezes, unfreezes, revocations, breach reports and
  rate-limited requests makes a handshake live as long as its responder has not accepted it in that
  tenant's copy.\<close>

theorem live_needs_responder:
  assumes "(other_step h tn)\<^sup>*\<^sup>* db db'" and "not_responded h tn db"
  shows "\<not> is_live h tn db'"
proof -
  from assms have "not_responded h tn db'"
    by (induction rule: rtranclp_induct) (auto intro: other_step_not_responded)
  then show ?thesis
    by (auto simp: is_live_def load_handshake_def not_responded_def split: option.splits dest!: latest_version_mem)
qed

section \<open>The rate limit\<close>

definition counts_of :: "string \<Rightarrow> string \<Rightarrow> governance_tables \<Rightarrow> rate_counter list" where
  "counts_of h tn db = filter (\<lambda>c. rt_handshake_id c = h \<and> rt_tenant_id c = tn) (rate_counters db)"

definition granted :: "string \<Rightarrow> string \<Rightarrow> governance_tables \<Rightarrow> nat" where
  "granted h tn db = sum_list (map rt_request_count (counts_of h tn db))"

lemma window_of_after:
  assumes "0 \<le> now" "0 < w"
  shows "now - secs w < window_of now w"
proof -
  let ?e = "now div nanos_per_sec"
  have e: "0 \<le> ?e" using assms by (simp add: nanos_per_sec_def pos_imp_zdiv_nonneg_iff)
  then have "rust_rem ?e w = ?e mod w" using assms by (cases "?e = 0") (auto simp: rust_rem_def)
  moreover have "?e mod w < w" using assms by simp
  ultimately have "?e - rust_rem ?e w \<ge> ?e - w + 1" by linarith
  then have "secs (?e - rust_rem ?e w) \<ge> secs (?e - w + 1)" by (simp add: secs_def nanos_per_sec_def)
  moreover have "secs (?e - w + 1) > now - secs w"
    unfolding secs_def nanos_per_sec_def by (simp add: algebra_simps)
  ultimately show ?thesis by (simp add: window_of_def Let_def)
qed

lemma sum_update_first_count:
  "find P cs = Some c \<Longrightarrow> (\<And>c. P c \<Longrightarrow> Q c) \<Longrightarrow> (\<And>c n. Q (c\<lparr>rt_request_count := n\<rparr>) = Q c) \<Longrightarrow>
   sum_list (map rt_request_count (filter Q (update_first P (\<lambda>c. c\<lparr>rt_request_count := rt_request_count c + 1\<rparr>) cs)))
     = sum_list (map rt_request_count (filter Q cs)) + 1"
  by (induction cs) (auto split: if_splits)

lemma increment_cases:
  assumes "increment_rate_counter now h tn w db = Inr db'"
  obtains (new) "to_i64 w \<noteq> 0" "rate_counters db' = rate_counters db @
      [\<lparr>rt_handshake_id = h, rt_tenant_id = tn, rt_window_start = window_of now (to_i64 w), rt_request_count = 1\<rparr>]"
  | (old) c where "to_i64 w \<noteq> 0" "find (same_window h tn (window_of now (to_i64 w))) (rate_counters db) = Some c"
      "rate_counters db' = update_first (same_window h tn (window_of now (to_i64 w)))
        (\<lambda>c. c\<lparr>rt_request_count := rt_request_count c + 1\<rparr>) (rate_counters db)"
  using assms by (auto simp: increment_rate_counter_def Let_def split: if_splits option.splits)

lemma increment_granted:
  "increment_rate_counter now h tn w db = Inr db' \<Longrightarrow> granted h tn db' = granted h tn db + 1"
proof (erule increment_cases)
  fix c
  assume "find (same_window h tn (window_of now (to_i64 w))) (rate_counters db) = Some c"
    and db': "rate_counters db' = update_first (same_window h tn (window_of now (to_i64 w)))
        (\<lambda>c. c\<lparr>rt_request_count := rt_request_count c + 1\<rparr>) (rate_counters db)"
  from sum_update_first_count [OF this(1), of "\<lambda>c. rt_handshake_id c = h \<and> rt_tenant_id c = tn"] db'
  show ?thesis by (simp add: granted_def counts_of_def same_window_def)
qed (simp add: granted_def counts_of_def)

lemma increment_counts:
  assumes "increment_rate_counter now h tn w db = Inr db'" "c \<in> set (counts_of h tn db')"
  obtains "c \<in> set (counts_of h tn db)" | "rt_request_count c = 1"
    | c0 where "c0 \<in> set (counts_of h tn db)" "rt_window_start c0 = window_of now (to_i64 w)"
      "rt_request_count c = rt_request_count c0 + 1"
proof (rule increment_cases [OF assms(1)])
  assume "rate_counters db' = rate_counters db @
      [\<lparr>rt_handshake_id = h, rt_tenant_id = tn, rt_window_start = window_of now (to_i64 w), rt_request_count = 1\<rparr>]"
  with assms(2) have "c \<in> set (counts_of h tn db) \<or> rt_request_count c = 1" by (auto simp: counts_of_def)
  with that(1,2) show thesis by blast
next
  fix c1
  assume "rate_counters db' = update_first (same_window h tn (window_of now (to_i64 w)))
      (\<lambda>c. c\<lparr>rt_request_count := rt_request_count c + 1\<rparr>) (rate_counters db)"
  with assms(2) have c: "c \<in> set (update_first (same_window h tn (window_of now (to_i64 w)))
      (\<lambda>c. c\<lparr>rt_request_count := rt_request_count c + 1\<rparr>) (rate_counters db))"
      "rt_handshake_id c = h" "rt_tenant_id c = tn"
    by (auto simp: counts_of_def)
  from c(1) show thesis
  proof (rule mem_update_firstE)
    assume "c \<in> set (rate_counters db)"
    with c that(1) show thesis by (simp add: counts_of_def)
  next
    fix x
    assume "x \<in> set (rate_counters db)" "same_window h tn (window_of now (to_i64 w)) x"
      "c = x\<lparr>rt_request_count := rt_request_count x + 1\<rparr>"
    with that(3) [of x] show thesis by (simp add: counts_of_def same_window_def)
  qed
qed

lemma unlimited_count:
  assumes "is_rate_limited ext now h tn m w db = Inr False"
    and "dt_add_secs ext now (- to_i64 w) = Some ws"
    and "c \<in> set (counts_of h tn db)" "db_time ext ws \<le> rt_window_start c"
  shows "rt_request_count c < m"
proof -
  let ?cs = "filter (\<lambda>c. rt_handshake_id c = h \<and> rt_tenant_id c = tn \<and> db_time ext ws \<le> rt_window_start c) (rate_counters db)"
  have "c \<in> set ?cs" using assms(3,4) by (simp add: counts_of_def)
  then have "rt_request_count c \<le> sum_list (map rt_request_count ?cs)" by (intro member_le_sum_list) auto
  with assms(1,2) show ?thesis by (simp add: is_rate_limited_def)
qed

text \<open>The rate limit holds per window.  A request is counted exactly when it is granted, and when
  all requests of a handshake use the same limit, no window ever counts more than the limit, whatever
  the clock reads between the check and the count.  The instants bound to a query are truncated, and
  chrono adds seconds exactly.\<close>

theorem rate_window_bounded:
  assumes call: "check_and_increment_rate ext now now' h tn m w db = Inr (ok, db')"
    and clock: "0 \<le> now" "now \<le> now'" and w: "w < 2 ^ 63"
    and ext: "\<forall>t. db_time ext t \<le> t" "\<forall>t s t'. dt_add_secs ext t s = Some t' \<longrightarrow> t' = t + secs s"
    and within: "\<forall>c\<in>set (counts_of h tn db). rt_request_count c \<le> m"
  shows "(\<forall>c\<in>set (counts_of h tn db'). rt_request_count c \<le> m)
    \<and> granted h tn db' = granted h tn db + (if ok then 1 else 0)"
proof (cases ok)
  case False
  with call within show ?thesis
    by (auto simp: check_and_increment_rate_def split: sum.splits bool.splits)
next
  case True
  with call have free: "is_rate_limited ext now h tn m w db = Inr False"
    and inc: "increment_rate_counter now' h tn w db = Inr db'"
    by (auto simp: check_and_increment_rate_def split: sum.splits bool.splits)
  from free obtain ws where ws: "dt_add_secs ext now (- to_i64 w) = Some ws"
    and m: "0 < m" by (auto simp: is_rate_limited_def split: option.splits)
  have i64: "to_i64 w = int w" using w by (simp add: to_i64_def)
  with inc have "0 < int w" by (auto simp: increment_rate_counter_def split: if_splits)
  then have start: "db_time ext ws \<le> window_of now' (int w)"
    using window_of_after [of now' "int w"] clock ext ws i64 by (smt (verit) secs_def mult_minus_left)
  have "rt_request_count c \<le> m" if "c \<in> set (counts_of h tn db')" for c
    using inc that
  proof (cases rule: increment_counts)
    case (3 c0)
    with start i64 have "rt_request_count c0 < m" by (intro unlimited_count [OF free ws]) auto
    with 3 show ?thesis by simp
  qed (use within m in auto)
  with increment_granted [OF inc] True show ?thesis by simp
qed

text \<open>Requests of the previous window stop counting as soon as it began more than a window ago, even
  those made a moment ago: with one request per ten seconds, two within two seconds are granted.\<close>

definition no_governance :: governance_tables where
  "no_governance = \<lparr>boundary_handshakes = [], freeze_log = [], breach_reports = [], rate_counters = []\<rparr>"

definition one_request :: governance_tables where
  "one_request = no_governance\<lparr>rate_counters := [\<lparr>rt_handshake_id = ''h'', rt_tenant_id = ''t'',
     rt_window_start = 0, rt_request_count = 1\<rparr>]\<rparr>"

lemma first_request:
  "check_and_increment_rate sample_ext (secs 9) (secs 9) ''h'' ''t'' 1 10 no_governance = Inr (True, one_request)"
  by (simp add: check_and_increment_rate_def is_rate_limited_def increment_rate_counter_def no_governance_def
      one_request_def sample_ext_def to_i64_def window_of_def rust_rem_def secs_def nanos_per_sec_def Let_def)

theorem rolling_window_exceeded:
  "check_and_increment_rate sample_ext (secs 9) (secs 9) ''h'' ''t'' 1 10 no_governance = Inr (True, one_request)
   \<and> (\<exists>db. check_and_increment_rate sample_ext (secs 11) (secs 11) ''h'' ''t'' 1 10 one_request = Inr (True, db))"
  using first_request
  by (simp add: check_and_increment_rate_def is_rate_limited_def increment_rate_counter_def no_governance_def
      one_request_def sample_ext_def to_i64_def window_of_def rust_rem_def secs_def nanos_per_sec_def Let_def same_window_def)

section \<open>Witnesses\<close>

theorem rate_window_bounded_witness:
  "granted ''h'' ''t'' one_request = granted ''h'' ''t'' no_governance + 1"
proof -
  have "counts_of ''h'' ''t'' no_governance = []" by (simp add: counts_of_def no_governance_def)
  moreover have "\<forall>t. db_time sample_ext t \<le> t"
    by (simp add: sample_ext_def) (metis div_mult_mod_eq le_add_same_cancel1 pos_mod_sign zero_less_numeral)
  moreover have "\<forall>t s t'. dt_add_secs sample_ext t s = Some t' \<longrightarrow> t' = t + secs s"
    by (simp add: sample_ext_def)
  moreover have "0 \<le> secs 9" by (simp add: secs_def nanos_per_sec_def)
  ultimately show ?thesis
    using rate_window_bounded [OF first_request] by simp
qed

theorem freeze_takes_effect_witness:
  "is_frozen ''h'' ''t'' (no_governance\<lparr>freeze_log := [\<lparr>fl_id = ''i'', fl_handshake_id = ''h'', fl_tenant_id = ''t'',
     fl_action = ''freeze'', fl_actor = ''a'', fl_reason = ''r'', fl_occurred_at = 5\<rparr>]\<rparr>)"
proof -
  have "freeze ''i'' 5 5 ''h'' ''t'' ''a'' ''r'' no_governance
    = Inr (no_governance\<lparr>freeze_log := [\<lparr>fl_id = ''i'', fl_handshake_id = ''h'', fl_tenant_id = ''t'',
       fl_action = ''freeze'', fl_actor = ''a'', fl_reason = ''r'', fl_occurred_at = 5\<rparr>]\<rparr>)"
    by (simp add: freeze_def log_action_def set_revocation_state_def update_handshakes_def no_governance_def)
  from freeze_takes_effect [OF this] show ?thesis by (simp add: no_governance_def)
qed

theorem live_needs_responder_witness:
  "\<not> is_live ''h'' ''t'' (accept 5 ''h'' ''t'' False no_governance)"
  by (rule live_needs_responder [of "''h''" "''t''" no_governance])
    (auto intro: other_step.intros simp: not_responded_def no_governance_def)

end
