(* ===== verification/Boundary_Broker.thy ===== *)
theory Boundary_Broker
  imports Boundary_Runtime Boundary_Governance
begin

text \<open>
  The broker between foreign agents and internal workflows (\<open>boundry/broker.rs\<close>): the registry of
  external agents, the queue of inbound envelopes, the responses that wait to be fetched, and the two
  operations of the broker runtime over these tables, the audit ledger and the governance tables.
\<close>

section \<open>Tables\<close>

datatype external_agent_verification =
    HmacSha256 string | Ed25519 string | ApiKey string | NoVerification

record external_agent =
  ea_id :: string
  ea_broker_tenant_id :: string
  ea_display_name :: string
  ea_callback_endpoint :: "string option"
  ea_platform_hint :: string
  ea_verification :: external_agent_verification
  ea_status :: string
  ea_allowed_handshake_ids :: "string list"
  ea_created_at :: time
  ea_last_seen_at :: "time option"

record queue_row =
  bq_queue_id :: string
  bq_external_agent_id :: string
  bq_broker_tenant_id :: string
  bq_handshake_id :: string
  bq_envelope_id :: string
  bq_payload :: json
  bq_payload_hash :: string
  bq_platform_metadata :: json
  bq_status :: string
  bq_received_at :: time
  bq_routed_at :: "time option"
  bq_responded_at :: "time option"
  bq_expires_at :: time

record response_row =
  rr_response_id :: string
  rr_queue_id :: string
  rr_external_agent_id :: string
  rr_envelope_id :: string
  rr_payload :: json
  rr_payload_hash :: string
  rr_delivered :: bool
  rr_delivery_attempts :: nat
  rr_last_attempt_at :: "time option"
  rr_created_at :: time

record broker_tables =
  external_agents :: "external_agent list"
  broker_queue :: "queue_row list"
  broker_responses :: "response_row list"

datatype broker_error =
    DuplicateAgent string
  | DuplicateQueueEntry string
  | DuplicateEnvelope string
  | DuplicateResponse string
  | UnknownQueueEntry string
  | BarrierRejected nat
  | HandshakeIsFrozen string
  | RateLimitExceeded string
  | BrokerAuditError audit_error
  | BrokerGovernanceError governance_error
  | BrokerPanicked

section \<open>Store\<close>

definition register_external_agent ::
  "string \<Rightarrow> time \<Rightarrow> string \<Rightarrow> string \<Rightarrow> string \<Rightarrow> string option \<Rightarrow> external_agent_verification
     \<Rightarrow> string list \<Rightarrow> broker_tables \<Rightarrow> (broker_error, string \<times> broker_tables) result" where
  "register_external_agent agent_id now broker_tenant_id display_name platform_hint callback_endpoint
       verification allowed_handshake_ids db =
     (if agent_id \<in> ea_id ` set (external_agents db) then Inl (DuplicateAgent agent_id)
      else Inr (agent_id, db\<lparr>external_agents := external_agents db @
        [\<lparr>ea_id = agent_id, ea_broker_tenant_id = broker_tenant_id, ea_display_name = display_name,
          ea_callback_endpoint = callback_endpoint, ea_platform_hint = platform_hint,
          ea_verification = verification, ea_status = ''active'',
          ea_allowed_handshake_ids = allowed_handshake_ids, ea_created_at = now, ea_last_seen_at = None\<rparr>]\<rparr>))"

definition load_external_agent :: "string \<Rightarrow> broker_tables \<Rightarrow> external_agent option" where
  "load_external_agent agent_id db = find (\<lambda>a. ea_id a = agent_id) (external_agents db)"

definition set_agent_status :: "string \<Rightarrow> string \<Rightarrow> broker_tables \<Rightarrow> broker_tables" where
  "set_agent_status agent_id status db =
     db\<lparr>external_agents := map (\<lambda>a. if ea_id a = agent_id then a\<lparr>ea_status := status\<rparr> else a) (external_agents db)\<rparr>"

definition suspend_external_agent :: "string \<Rightarrow> broker_tables \<Rightarrow> broker_tables" where
  "suspend_external_agent agent_id = set_agent_status agent_id ''suspended''"

definition revoke_external_agent :: "string \<Rightarrow> broker_tables \<Rightarrow> broker_tables" where
  "revoke_external_agent agent_id = set_agent_status agent_id ''revoked''"

definition enqueue_inbound ::
  "string \<Rightarrow> time \<Rightarrow> string \<Rightarrow> string \<Rightarrow> string \<Rightarrow> string \<Rightarrow> json \<Rightarrow> string \<Rightarrow> json \<Rightarrow> time \<Rightarrow> broker_tables
     \<Rightarrow> (broker_error, string \<times> broker_tables) result" where
  "enqueue_inbound queue_id now agent_id broker_tenant_id handshake_id envelope_id payload payload_hash
       metadata expires_at db =
     (if queue_id \<in> bq_queue_id ` set (broker_queue db) then Inl (DuplicateQueueEntry queue_id)
      else if envelope_id \<in> bq_envelope_id ` set (broker_queue db) then Inl (DuplicateEnvelope envelope_id)
      else Inr (queue_id, db\<lparr>broker_queue := broker_queue db @
        [\<lparr>bq_queue_id = queue_id, bq_external_agent_id = agent_id, bq_broker_tenant_id = broker_tenant_id,
          bq_handshake_id = handshake_id, bq_envelope_id = envelope_id, bq_payload = payload,
          bq_payload_hash = payload_hash, bq_platform_metadata = metadata, bq_status = ''pending'',
          bq_received_at = now, bq_routed_at = None, bq_responded_at = None, bq_expires_at = expires_at\<rparr>]\<rparr>))"

definition update_queue :: "string \<Rightarrow> (queue_row \<Rightarrow> queue_row) \<Rightarrow> broker_tables \<Rightarrow> broker_tables" where
  "update_queue queue_id f db =
     db\<lparr>broker_queue := map (\<lambda>q. if bq_queue_id q = queue_id then f q else q) (broker_queue db)\<rparr>"

definition mark_routed :: "time \<Rightarrow> string \<Rightarrow> broker_tables \<Rightarrow> broker_tables" where
  "mark_routed now queue_id = update_queue queue_id (\<lambda>q. q\<lparr>bq_status := ''routed'', bq_routed_at := Some now\<rparr>)"

definition mark_parked_approval :: "string \<Rightarrow> broker_tables \<Rightarrow> broker_tables" where
  "mark_parked_approval queue_id = update_queue queue_id (\<lambda>q. q\<lparr>bq_status := ''parked_approval''\<rparr>)"

definition store_response ::
  "string \<Rightarrow> time \<Rightarrow> string \<Rightarrow> string \<Rightarrow> string \<Rightarrow> json \<Rightarrow> string \<Rightarrow> broker_tables
     \<Rightarrow> (broker_error, string \<times> broker_tables) result" where
  "store_response response_id now queue_id agent_id envelope_id payload payload_hash db =
     (if response_id \<in> rr_response_id ` set (broker_responses db) then Inl (DuplicateResponse response_id)
      else if queue_id \<notin> bq_queue_id ` set (broker_queue db) then Inl (UnknownQueueEntry queue_id)
      else Inr (response_id, update_queue queue_id (\<lambda>q. q\<lparr>bq_status := ''responded'', bq_responded_at := Some now\<rparr>)
        (db\<lparr>broker_responses := broker_responses db @
          [\<lparr>rr_response_id = response_id, rr_queue_id = queue_id, rr_external_agent_id = agent_id,
            rr_envelope_id = envelope_id, rr_payload = payload, rr_payload_hash = payload_hash,
            rr_delivered = False, rr_delivery_attempts = 0, rr_last_attempt_at = None, rr_created_at = now\<rparr>]\<rparr>)))"

definition poll_responses :: "string \<Rightarrow> nat \<Rightarrow> broker_tables \<Rightarrow> response_row list" where
  "poll_responses agent_id limit db =
     take limit (sort_key rr_created_at
       (filter (\<lambda>r. rr_external_agent_id r = agent_id \<and> \<not> rr_delivered r) (broker_responses db)))"

definition mark_response_delivered :: "time \<Rightarrow> string \<Rightarrow> broker_tables \<Rightarrow> broker_tables" where
  "mark_response_delivered now response_id db =
     db\<lparr>broker_responses := map (\<lambda>r. if rr_response_id r = response_id
       then r\<lparr>rr_delivered := True, rr_last_attempt_at := Some now, rr_delivery_attempts := rr_delivery_attempts r + 1\<rparr>
       else r) (broker_responses db)\<rparr>"

section \<open>Runtime\<close>

record broker_world =
  bw_governance :: governance_tables
  bw_audit :: audit_tables
  bw_broker :: broker_tables

record broker_draws =
  bd_record_id :: string
  bd_queue_id :: string
  bd_response_id :: string
  bd_now :: time

definition append_audit ::
  "externals \<Rightarrow> string \<Rightarrow> broker_draws \<Rightarrow> string \<Rightarrow> string \<Rightarrow> boundary_audit_event \<Rightarrow> json \<Rightarrow> string
     \<Rightarrow> broker_world \<Rightarrow> (broker_error, broker_world) result" where
  "append_audit ext tenant draws envelope_id handshake_id event shown payload_hash w =
     (case audit_append ext (bd_record_id draws) (bd_now draws) envelope_id handshake_id tenant
         ResponderSide event shown payload_hash (bw_audit w) of
        Inl e \<Rightarrow> Inl (BrokerAuditError e)
      | Inr (_, db) \<Rightarrow> Inr (w\<lparr>bw_audit := db\<rparr>))"

text \<open>The text of the violations (\<open>Display\<close>) is a parameter.\<close>

definition receive_from_external ::
  "externals \<Rightarrow> (data_barrier_violation \<Rightarrow> string) \<Rightarrow> string \<Rightarrow> broker_draws \<Rightarrow> string \<Rightarrow> string
     \<Rightarrow> boundary_envelope \<Rightarrow> json \<Rightarrow> data_barrier_policy \<Rightarrow> broker_world
     \<Rightarrow> (broker_error, string) result \<times> broker_world" where
  "receive_from_external ext show_violation tenant draws agent_id handshake_id envelope metadata data_barrier w =
     (let payload = be_payload envelope;
          payload_bytes = length (json_to_string ext payload);
          payload_hash = hash_payload ext payload;
          violations = check_outbound ext data_barrier payload payload_bytes None
      in if violations \<noteq> [] then
           (case append_audit ext tenant draws (be_envelope_id envelope) handshake_id DataBarrierViolationEvent
               (JObject [(''violations'', JArray (map (JString \<circ> show_violation) violations))]) payload_hash w of
              Inl e \<Rightarrow> (Inl e, w)
            | Inr w1 \<Rightarrow> (Inl (BarrierRejected (length violations)), w1))
         else if is_frozen handshake_id tenant (bw_governance w) then (Inl (HandshakeIsFrozen handshake_id), w)
         else case check_and_increment_rate ext (bd_now draws) (bd_now draws) handshake_id tenant 100 3600
             (bw_governance w) of
           Inl e \<Rightarrow> (Inl (BrokerGovernanceError e), w)
         | Inr (False, _) \<Rightarrow> (Inl (RateLimitExceeded handshake_id), w)
         | Inr (True, gov) \<Rightarrow>
             let w1 = w\<lparr>bw_governance := gov\<rparr> in
             case append_audit ext tenant draws (be_envelope_id envelope) handshake_id EnvelopeReceived
                 (JObject []) payload_hash w1 of
               Inl e \<Rightarrow> (Inl e, w1)
             | Inr w2 \<Rightarrow>
                 (case dt_add_secs ext (bd_now draws) 3600 of
                    None \<Rightarrow> (Inl BrokerPanicked, w2)
                  | Some expires_at \<Rightarrow>
                      (case enqueue_inbound (bd_queue_id draws) (bd_now draws) agent_id tenant handshake_id
                          (be_envelope_id envelope) payload payload_hash metadata expires_at (bw_broker w2) of
                         Inl e \<Rightarrow> (Inl e, w2)
                       | Inr (queue_id, brk) \<Rightarrow> (Inr queue_id, w2\<lparr>bw_broker := brk\<rparr>))))"

text \<open>The webhook answers with success or not; an endpoint that cannot be reached counts as not.\<close>

definition deliver_response ::
  "externals \<Rightarrow> (string \<Rightarrow> json \<Rightarrow> bool) \<Rightarrow> string \<Rightarrow> broker_draws \<Rightarrow> string \<Rightarrow> string \<Rightarrow> string \<Rightarrow> json
     \<Rightarrow> string option \<Rightarrow> data_barrier_policy \<Rightarrow> string \<Rightarrow> broker_world
     \<Rightarrow> (broker_error, unit) result \<times> broker_world" where
  "deliver_response ext webhook tenant draws queue_id agent_id envelope_id payload callback_endpoint
       data_barrier handshake_id w =
     (let payload_bytes = length (json_to_string ext payload);
          violations = check_outbound ext data_barrier payload payload_bytes None;
          payload_hash = hash_payload ext payload
      in if violations \<noteq> [] then (Inl (BarrierRejected (length violations)), w)
         else case store_response (bd_response_id draws) (bd_now draws) queue_id agent_id envelope_id payload
             payload_hash (bw_broker w) of
           Inl e \<Rightarrow> (Inl e, w)
         | Inr (response_id, brk) \<Rightarrow>
             let brk' = (case callback_endpoint of
                   Some endpoint \<Rightarrow>
                     if webhook endpoint (obj_of_list [(''response_id'', JString response_id),
                          (''envelope_id'', JString envelope_id), (''payload'', payload)])
                     then mark_response_delivered (bd_now draws) response_id brk else brk
                 | None \<Rightarrow> brk);
                 w1 = w\<lparr>bw_broker := brk'\<rparr>
             in case append_audit ext tenant draws envelope_id handshake_id ResponseSent (JObject []) payload_hash w1 of
                  Inl e \<Rightarrow> (Inl e, w1)
                | Inr w2 \<Rightarrow> (Inr (), w2))"

section \<open>What the broker admits\<close>

lemma append_audit_frame:
  "append_audit ext tenant draws env h event shown ph w = Inr w' \<Longrightarrow>
   bw_governance w' = bw_governance w \<and> bw_broker w' = bw_broker w"
  by (auto simp: append_audit_def split: sum.splits)

text \<open>The broker queues an envelope only past its gates: if it is accepted, the payload passes
  the data barrier, the handshake is not frozen, the hourly quota of one hundred was not used up, the
  envelope was never queued before, and the queue gains exactly one pending entry with the payload as
  sent.  If it is refused, nothing is queued.\<close>

theorem broker_gates:
  assumes "receive_from_external ext sv tenant draws agent h envelope metadata policy w = (res, w')"
  shows "case res of
      Inl _ \<Rightarrow> bw_broker w' = bw_broker w
    | Inr q \<Rightarrow> check_outbound ext policy (be_payload envelope) (length (json_to_string ext (be_payload envelope))) None = []
        \<and> \<not> is_frozen h tenant (bw_governance w)
        \<and> is_rate_limited ext (bd_now draws) h tenant 100 3600 (bw_governance w) = Inr False
        \<and> be_envelope_id envelope \<notin> bq_envelope_id ` set (broker_queue (bw_broker w))
        \<and> (\<exists>row. broker_queue (bw_broker w') = broker_queue (bw_broker w) @ [row] \<and> bq_queue_id row = q
            \<and> bq_status row = ''pending'' \<and> bq_payload row = be_payload envelope
            \<and> bq_envelope_id row = be_envelope_id envelope \<and> bq_external_agent_id row = agent
            \<and> bq_handshake_id row = h)"
  using assms
  by (auto simp: receive_from_external_def Let_def enqueue_inbound_def check_and_increment_rate_def
      split: if_splits sum.splits option.splits bool.splits prod.splits dest!: append_audit_frame)

text \<open>The last logged action is all the broker looks at: after a revocation a handshake is not
  frozen, so envelopes on it are admitted; and the registry of agents is not consulted at all, so a
  suspended or revoked agent is admitted like an active one.\<close>

theorem revoked_handshake_admitted:
  assumes "revoke i t t' h tenant actor reason gov = Inr gov'"
    and "\<forall>l\<in>set (freeze_log gov). fl_occurred_at l \<le> t"
  shows "\<not> is_frozen h tenant gov'"
  using assms
  by (auto simp: revoke_def is_frozen_last actions_of_log_action split: sum.splits)

theorem agent_registry_ignored:
  "fst (receive_from_external ext sv tenant draws agent h envelope metadata policy
      (w\<lparr>bw_broker := (bw_broker w)\<lparr>external_agents := agents\<rparr>\<rparr>))
   = fst (receive_from_external ext sv tenant draws agent h envelope metadata policy w)"
  by (simp add: receive_from_external_def Let_def append_audit_def enqueue_inbound_def
      split: sum.split option.split bool.split prod.split)

section \<open>Responses\<close>

lemma poll_all:
  "r \<in> set (poll_responses agent (length (broker_responses db)) db) \<longleftrightarrow>
     r \<in> set (broker_responses db) \<and> rr_external_agent_id r = agent \<and> \<not> rr_delivered r"
  by (auto simp: poll_responses_def)

text \<open>The row a delivery leaves: stored, and marked when the webhook took it.\<close>

lemma stored_response:
  assumes "store_response rid now queue_id agent env payload ph db = Inr (rid', db')"
  obtains r where "rid' = rid" "r \<in> set (broker_responses db')" "rr_response_id r = rid" "rr_payload r = payload"
    "rr_external_agent_id r = agent" "\<not> rr_delivered r"
    "list_all (\<lambda>q. bq_queue_id q = queue_id \<longrightarrow> bq_status q = ''responded'') (broker_queue db')"
proof -
  let ?r = "\<lparr>rr_response_id = rid, rr_queue_id = queue_id, rr_external_agent_id = agent, rr_envelope_id = env,
    rr_payload = payload, rr_payload_hash = ph, rr_delivered = False, rr_delivery_attempts = 0,
    rr_last_attempt_at = None, rr_created_at = now\<rparr>"
  from assms have "rid' = rid" "broker_responses db' = broker_responses db @ [?r]"
    "broker_queue db' = map (\<lambda>q. if bq_queue_id q = queue_id
       then q\<lparr>bq_status := ''responded'', bq_responded_at := Some now\<rparr> else q) (broker_queue db)"
    by (auto simp: store_response_def update_queue_def split: if_splits)
  moreover have "list_all (\<lambda>q. bq_queue_id q = queue_id \<longrightarrow> bq_status q = ''responded'') (map (\<lambda>q.
      if bq_queue_id q = queue_id then q\<lparr>bq_status := ''responded'', bq_responded_at := Some now\<rparr> else q) qs)" for qs
    by (induction qs) simp_all
  ultimately show thesis by (intro that [of ?r]) simp_all
qed

lemma marked_response:
  assumes "r \<in> set (broker_responses db)" "rr_response_id r = rid"
  shows "\<exists>r'\<in>set (broker_responses (mark_response_delivered now rid db)). rr_response_id r' = rid
    \<and> rr_payload r' = rr_payload r \<and> rr_external_agent_id r' = rr_external_agent_id r \<and> rr_delivered r'"
  using assms unfolding mark_response_delivered_def
  by (intro bexI [of _ "r\<lparr>rr_delivered := True, rr_last_attempt_at := Some now,
      rr_delivery_attempts := rr_delivery_attempts r + 1\<rparr>"]) (auto simp: image_iff)

text \<open>A stored response is not lost.  When the delivery of a response succeeds, the response row is
  there with its payload, and either the webhook took it and it is marked delivered, or it is among
  the responses the agent polls; and the envelope's queue entry is marked as responded.\<close>

theorem response_delivered_or_pollable:
  assumes "deliver_response ext webhook tenant draws queue_id agent env payload callback policy h w = (Inr (), w')"
  shows "\<exists>r\<in>set (broker_responses (bw_broker w')). rr_response_id r = bd_response_id draws
      \<and> rr_payload r = payload \<and> rr_external_agent_id r = agent
      \<and> (rr_delivered r \<or> r \<in> set (poll_responses agent (length (broker_responses (bw_broker w'))) (bw_broker w')))
      \<and> list_all (\<lambda>q. bq_queue_id q = queue_id \<longrightarrow> bq_status q = ''responded'') (broker_queue (bw_broker w'))"
proof -
  from assms obtain brk rid where
    store: "store_response (bd_response_id draws) (bd_now draws) queue_id agent env payload (hash_payload ext payload)
      (bw_broker w) = Inr (rid, brk)"
    and w': "bw_broker w' = brk \<or> bw_broker w' = mark_response_delivered (bd_now draws) rid brk"
    by (auto simp: deliver_response_def Let_def split: if_splits sum.splits option.splits dest!: append_audit_frame)
  from store obtain r where r: "rid = bd_response_id draws" "r \<in> set (broker_responses brk)"
    "rr_response_id r = bd_response_id draws" "rr_payload r = payload" "rr_external_agent_id r = agent"
    "\<not> rr_delivered r" and q: "list_all (\<lambda>q. bq_queue_id q = queue_id \<longrightarrow> bq_status q = ''responded'') (broker_queue brk)"
    by (rule stored_response)
  have q': "broker_queue (mark_response_delivered (bd_now draws) rid brk) = broker_queue brk"
    by (simp add: mark_response_delivered_def)
  from w' show ?thesis
  proof
    assume e: "bw_broker w' = brk"
    from r q show ?thesis unfolding e poll_all by (intro bexI [of _ r]) simp_all
  next
    assume e: "bw_broker w' = mark_response_delivered (bd_now draws) rid brk"
    from marked_response [OF r(2,3), of "bd_now draws"] obtain r' where
      "r' \<in> set (broker_responses (bw_broker w'))" "rr_response_id r' = bd_response_id draws"
      "rr_payload r' = payload" "rr_external_agent_id r' = agent" "rr_delivered r'"
      using e r(1,4,5) by auto
    moreover have "list_all (\<lambda>q. bq_queue_id q = queue_id \<longrightarrow> bq_status q = ''responded'') (broker_queue (bw_broker w'))"
      using e q q' by simp
    ultimately show ?thesis by (intro bexI [of _ r']) simp_all
  qed
qed

section \<open>Witnesses\<close>

definition sample_world :: broker_world where
  "sample_world = \<lparr>bw_governance = no_governance, bw_audit = sample_tables,
     bw_broker = \<lparr>external_agents = [], broker_queue = [], broker_responses = []\<rparr>\<rparr>"

definition sample_bdraws :: broker_draws where
  "sample_bdraws = \<lparr>bd_record_id = ''r'', bd_queue_id = ''q'', bd_response_id = ''p'', bd_now = 0\<rparr>"

definition sample_inbound :: boundary_envelope where
  "sample_inbound = make_envelope sample_ext sample_runtime (sample_draws ''e'') sample_bstep JNull ''w'' open_barrier 0"

definition received_world :: broker_world where
  "received_world = snd (receive_from_external sample_ext (\<lambda>_. []) ''t'' sample_bdraws ''a'' ''h'' sample_inbound JNull
     open_barrier sample_world)"

lemmas sample_broker = receive_from_external_def sample_bdraws_def sample_inbound_def sample_world_def no_governance_def
  is_frozen_def actions_of_def check_and_increment_rate_def is_rate_limited_def increment_rate_counter_def
  append_audit_def enqueue_inbound_def to_i64_def

lemma sample_received:
  "receive_from_external sample_ext (\<lambda>_. []) ''t'' sample_bdraws ''a'' ''h'' sample_inbound JNull open_barrier
     sample_world = (Inr ''q'', received_world)"
  unfolding received_world_def by (simp add: sample_broker sample_run)

theorem broker_gates_witness:
  "map bq_status (broker_queue (bw_broker received_world)) = [''pending'']"
  using broker_gates [OF sample_received] by (auto simp: sample_world_def)

theorem response_delivered_or_pollable_witness:
  "\<exists>r\<in>set (broker_responses (bw_broker (snd (deliver_response sample_ext (\<lambda>_ _. False) ''t''
      (sample_bdraws\<lparr>bd_record_id := ''s''\<rparr>) ''q'' ''a'' ''e'' JNull None open_barrier ''h'' received_world)))).
     rr_payload r = JNull"
proof -
  have "fst (deliver_response sample_ext (\<lambda>_ _. False) ''t'' (sample_bdraws\<lparr>bd_record_id := ''s''\<rparr>) ''q'' ''a'' ''e''
      JNull None open_barrier ''h'' received_world) = Inr ()"
    unfolding received_world_def
    by (simp add: deliver_response_def store_response_def sample_broker sample_run)
  then obtain w' where w': "deliver_response sample_ext (\<lambda>_ _. False) ''t'' (sample_bdraws\<lparr>bd_record_id := ''s''\<rparr>)
      ''q'' ''a'' ''e'' JNull None open_barrier ''h'' received_world = (Inr (), w')"
    by (metis fst_conv surj_pair)
  from response_delivered_or_pollable [OF w'] show ?thesis unfolding w' by auto
qed

end
