(* ===== verification/Agent_Definition.thy ===== *)
theory Agent_Definition
  imports Compiled_Workflow
begin

text \<open>
  Agents, roles and their execution guidelines (\<open>agent/definition.rs\<close>): the records and enumerations,
  the defaults of a role category, the operations on guidelines and the two text parsers.  The
  Unicode \<open>str::to_lowercase\<close> is an argument (\<open>lowercase\<close>), since it is a table of the standard
  library.  Texts are UTF-8 byte strings, so the marker characters of the source are byte sequences.
\<close>

section \<open>Text helpers\<close>

text \<open>\<open>str::lines\<close>: a line feed ends a line, with the carriage return before it, and the text after the
  last line feed is a line unless it is empty.\<close>

definition strip_cr :: "string \<Rightarrow> string" where
  "strip_cr s = (if s \<noteq> [] \<and> last s = CHR 0x0D then butlast s else s)"

definition str_lines :: "string \<Rightarrow> string list" where
  "str_lines s = (let ps = split_on (CHR 0x0A) s in
     map strip_cr (butlast ps) @ (if last ps = [] then [] else [last ps]))"

fun split_where :: "('a \<Rightarrow> bool) \<Rightarrow> 'a list \<Rightarrow> 'a list list" where
  "split_where P [] = [[]]"
| "split_where P (x # xs) =
     (if P x then [] # split_where P xs
      else case split_where P xs of y # ys \<Rightarrow> (x # y) # ys | [] \<Rightarrow> [[x]])"

definition trim_start_matches :: "string \<Rightarrow> string \<Rightarrow> string" where
  "trim_start_matches pat s = drop_any [pat] s"

section \<open>Agents and roles\<close>

datatype agent_definition_status = DefDraft | DefActive | DefPaused | DefArchived

record agent_definition =
  ad_id :: string
  ad_tenant_id :: string
  ad_name :: string
  ad_persona :: string
  ad_connectors :: "string list"
  ad_constraints :: "string list"
  ad_memory_ref :: string
  ad_status :: agent_definition_status
  ad_created_at :: time
  ad_updated_at :: time

definition agent_definition_new :: "string \<Rightarrow> string \<Rightarrow> string \<Rightarrow> time \<Rightarrow> agent_definition" where
  "agent_definition_new did tenant_id name now =
     \<lparr>ad_id = did, ad_tenant_id = tenant_id, ad_name = name, ad_persona = [], ad_connectors = [],
      ad_constraints = [], ad_memory_ref = [], ad_status = DefDraft, ad_created_at = now, ad_updated_at = now\<rparr>"

definition validate_role_connectors :: "agent_definition \<Rightarrow> string list \<Rightarrow> string list" where
  "validate_role_connectors d role_connectors = filter (\<lambda>c. c \<notin> set (ad_connectors d)) role_connectors"

datatype role_status = RoleDraft | RoleTesting | RoleActive | RolePaused | RoleArchived

definition from_slug :: "string \<Rightarrow> role_category" where
  "from_slug value = (let s = to_ascii_lowercase (trim value) in
     if s = ''software_engineer'' then SoftwareEngineer
     else if s = ''research_analyst'' then ResearchAnalyst
     else if s = ''customer_support'' then CustomerSupport
     else if s = ''devops'' then DevOps
     else if s = ''marketing'' then Marketing
     else if s = ''data_extraction'' then DataExtraction
     else if s = ''sales_revops'' then SalesRevOps
     else if s = ''finance_accounting'' then FinanceAccounting
     else if s = ''hr_people_ops'' then HRPeopleOps
     else if s = ''legal_contract'' then LegalContract
     else if s = ''it_ops_itsm'' then ITOpsITSM
     else General)"

datatype execution_strategy = DeterministicWorkflow | AdaptivePlanning | CoordinatorShell

datatype tool_pool = WorkerPool | PlanPool | CoordinatorPool | VerificationPool | TeammatePool

datatype permission_mode = PlanOnly | SafeAuto | WorkspaceWrite | TrustedAuto

fun permission_mode_as_str :: "permission_mode \<Rightarrow> string" where
  "permission_mode_as_str PlanOnly = ''plan_only''"
| "permission_mode_as_str SafeAuto = ''safe_auto''"
| "permission_mode_as_str WorkspaceWrite = ''workspace_write''"
| "permission_mode_as_str TrustedAuto = ''trusted_auto''"

fun permission_mode_description :: "permission_mode \<Rightarrow> string" where
  "permission_mode_description PlanOnly = ''planning-only mode; mutating actions require explicit approval''"
| "permission_mode_description SafeAuto = ''safe reads and low-risk actions may proceed automatically''"
| "permission_mode_description WorkspaceWrite =
     ''workspace-local writes may proceed automatically; destructive and external actions escalate''"
| "permission_mode_description TrustedAuto =
     ''broad automation allowed, with destructive actions still scrutinized''"

section \<open>Guidelines\<close>

datatype rule_phase = BeforePhase | AfterPhase | AlwaysPhase

record guideline_rule =
  gl_text :: string
  gl_tool_scope :: "string option"
  gl_phase :: rule_phase

definition rule_always :: "string \<Rightarrow> guideline_rule" where
  "rule_always text = \<lparr>gl_text = text, gl_tool_scope = None, gl_phase = AlwaysPhase\<rparr>"

definition rule_before :: "string \<Rightarrow> string \<Rightarrow> guideline_rule" where
  "rule_before tool text = \<lparr>gl_text = text, gl_tool_scope = Some tool, gl_phase = BeforePhase\<rparr>"

definition rule_after :: "string \<Rightarrow> string \<Rightarrow> guideline_rule" where
  "rule_after tool text = \<lparr>gl_text = text, gl_tool_scope = Some tool, gl_phase = AfterPhase\<rparr>"

datatype failure_action =
    SkipAndLog string | SkipSilently | RetryOnce | EscalateToHuman "string option" | Abort

record failure_rule =
  fr_text :: string
  fr_tool_scope :: "string option"
  fr_action :: failure_action

datatype completion_check =
    AllItemsProcessed string | OutputExists string | RecordUpdated string | CountMatches string string
  | ErrorsLogged string | CustomCheck string

record completion_criterion =
  cc_description :: string
  cc_check :: completion_check

definition criterion_custom :: "string \<Rightarrow> completion_criterion" where
  "criterion_custom desc = \<lparr>cc_description = desc, cc_check = CustomCheck desc\<rparr>"

definition infer_failure_action :: "string \<Rightarrow> failure_action" where
  "infer_failure_action lower =
     (if str_contains ''retry'' lower then RetryOnce
      else if str_contains ''abort'' lower \<or> str_contains ''stop all'' lower then Abort
      else if str_contains ''escalat'' lower \<or> str_contains ''human'' lower \<or> str_contains ''handoff'' lower
      then EscalateToHuman (if str_contains ''slack'' lower then Some ''#ops-alerts'' else None)
      else if str_contains ''silent'' lower \<or> str_contains ''ignore'' lower then SkipSilently
      else SkipAndLog ''workspace/errors.txt'')"

record execution_guidelines =
  eg_rules :: "guideline_rule list"
  eg_failure_handling :: "failure_rule list"
  eg_priorities :: "string list"
  eg_completion_criteria :: "completion_criterion list"
  eg_execution_strategy :: execution_strategy
  eg_tool_pool :: tool_pool
  eg_permission_mode :: permission_mode
  eg_compiled_workflow :: "compiled_workflow option"

definition default_guidelines :: execution_guidelines where
  "default_guidelines =
     \<lparr>eg_rules = [], eg_failure_handling = [], eg_priorities = [], eg_completion_criteria = [],
      eg_execution_strategy = DeterministicWorkflow, eg_tool_pool = WorkerPool,
      eg_permission_mode = SafeAuto, eg_compiled_workflow = None\<rparr>"

definition MAX_RULES :: nat where "MAX_RULES = 12"
definition MAX_FAILURE :: nat where "MAX_FAILURE = 8"
definition MAX_PRIORITIES :: nat where "MAX_PRIORITIES = 5"
definition MAX_COMPLETION :: nat where "MAX_COMPLETION = 6"

lemmas max_defs = MAX_RULES_def MAX_FAILURE_def MAX_PRIORITIES_def MAX_COMPLETION_def

definition guidelines_is_empty :: "execution_guidelines \<Rightarrow> bool" where
  "guidelines_is_empty g \<longleftrightarrow> eg_rules g = [] \<and> eg_failure_handling g = [] \<and> eg_priorities g = []
     \<and> eg_completion_criteria g = [] \<and> eg_compiled_workflow g = None"

definition add_rule :: "guideline_rule \<Rightarrow> execution_guidelines \<Rightarrow> execution_guidelines" where
  "add_rule r g =
     (if length (eg_rules g) < MAX_RULES \<and> \<not> list_ex (\<lambda>x. gl_text x = gl_text r) (eg_rules g)
      then g\<lparr>eg_rules := eg_rules g @ [r]\<rparr> else g)"

definition add_failure :: "failure_rule \<Rightarrow> execution_guidelines \<Rightarrow> execution_guidelines" where
  "add_failure r g =
     (if length (eg_failure_handling g) < MAX_FAILURE
         \<and> \<not> list_ex (\<lambda>x. fr_text x = fr_text r) (eg_failure_handling g)
      then g\<lparr>eg_failure_handling := eg_failure_handling g @ [r]\<rparr> else g)"

definition add_priority :: "string \<Rightarrow> execution_guidelines \<Rightarrow> execution_guidelines" where
  "add_priority s g =
     (if length (eg_priorities g) < MAX_PRIORITIES \<and> s \<notin> set (eg_priorities g)
      then g\<lparr>eg_priorities := eg_priorities g @ [s]\<rparr> else g)"

definition add_completion :: "completion_criterion \<Rightarrow> execution_guidelines \<Rightarrow> execution_guidelines" where
  "add_completion c g =
     (if length (eg_completion_criteria g) < MAX_COMPLETION
         \<and> \<not> list_ex (\<lambda>x. cc_description x = cc_description c) (eg_completion_criteria g)
      then g\<lparr>eg_completion_criteria := eg_completion_criteria g @ [c]\<rparr> else g)"

definition extend_dedup :: "execution_guidelines \<Rightarrow> execution_guidelines \<Rightarrow> execution_guidelines" where
  "extend_dedup other g =
     fold add_completion (eg_completion_criteria other)
       (fold add_priority (eg_priorities other)
         (fold add_failure (eg_failure_handling other)
           (fold add_rule (eg_rules other) g)))"

definition remove_rules_with_prefix :: "string \<Rightarrow> execution_guidelines \<Rightarrow> execution_guidelines" where
  "remove_rules_with_prefix pre g =
     g\<lparr>eg_rules := filter (\<lambda>r. \<not> starts_with pre (gl_text r)) (eg_rules g)\<rparr>"

definition remove_priority_prefix :: "string \<Rightarrow> execution_guidelines \<Rightarrow> execution_guidelines" where
  "remove_priority_prefix pre g =
     g\<lparr>eg_priorities := filter (\<lambda>v. \<not> starts_with pre v) (eg_priorities g)\<rparr>"

definition csv_values :: "string \<Rightarrow> string list" where
  "csv_values value =
     filter (\<lambda>part. part \<noteq> []) (map trim (split_on CHR '','' (trim_end_matches CHR ''.'' (trim value))))"

definition extract_csv_rule_values :: "string \<Rightarrow> execution_guidelines \<Rightarrow> string list" where
  "extract_csv_rule_values pre g =
     remdups_adj (sort (concat (map csv_values
       (List.map_filter (\<lambda>r. strip_prefix pre (gl_text r)) (eg_rules g)))))"

definition preferred_tool_categories :: "execution_guidelines \<Rightarrow> string list" where
  "preferred_tool_categories = extract_csv_rule_values ''Prefer these tool categories when relevant:''"

definition preferred_connector_categories :: "execution_guidelines \<Rightarrow> string list" where
  "preferred_connector_categories =
     extract_csv_rule_values ''Prefer connectors from these categories when relevant:''"

definition workflow_hints :: "execution_guidelines \<Rightarrow> string list" where
  "workflow_hints g =
     filter (\<lambda>v. v \<noteq> []) (map trim (List.map_filter (strip_prefix ''step: '') (eg_priorities g)))"

section \<open>Guidelines as prompt text\<close>

text \<open>The arrow of the action texts, as the bytes of the source file.\<close>

definition arrow :: string where
  "arrow = [CHR 0xC3, CHR 0xA2, CHR 0xE2, CHR 0x80, CHR 0xA0, CHR 0xE2, CHR 0x80, CHR 0x99]"

definition newline :: string where
  "newline = [CHR 0x0A]"

definition rule_line :: "nat \<Rightarrow> guideline_rule \<Rightarrow> string" where
  "rule_line i r =
     show_nat (i + 1) @ ''. ''
     @ (case gl_tool_scope r of
          Some t \<Rightarrow>
            (case gl_phase r of
               BeforePhase \<Rightarrow> ''[BEFORE '' @ t @ ''] ''
             | AfterPhase \<Rightarrow> ''[AFTER '' @ t @ ''] ''
             | AlwaysPhase \<Rightarrow> ''['' @ t @ ''] '')
        | None \<Rightarrow> [])
     @ gl_text r"

fun action_text :: "failure_action \<Rightarrow> string" where
  "action_text (SkipAndLog log_path) = arrow @ '' Skip, log to '' @ log_path"
| "action_text SkipSilently = arrow @ '' Skip silently''"
| "action_text RetryOnce = arrow @ '' Retry once''"
| "action_text (EscalateToHuman (Some ch)) = arrow @ '' Escalate, notify '' @ ch"
| "action_text (EscalateToHuman None) = arrow @ '' Escalate to human''"
| "action_text Abort = arrow @ '' Abort run''"

definition failure_line :: "nat \<Rightarrow> failure_rule \<Rightarrow> string" where
  "failure_line i f =
     show_nat (i + 1) @ ''. '' @ (case fr_tool_scope f of Some t \<Rightarrow> ''['' @ t @ '' fails] '' | None \<Rightarrow> [])
     @ fr_text f @ '' '' @ action_text (fr_action f)"

definition priority_line :: "nat \<Rightarrow> string \<Rightarrow> string" where
  "priority_line i p =
     show_nat (i + 1) @ ''. '' @ (case strip_prefix ''step: '' p of Some r \<Rightarrow> trim r | None \<Rightarrow> p)"

definition completion_line :: "nat \<Rightarrow> completion_criterion \<Rightarrow> string" where
  "completion_line i c = show_nat (i + 1) @ ''. [ ] '' @ cc_description c"

definition prompt_section :: "string \<Rightarrow> nat \<Rightarrow> (nat \<Rightarrow> 'a \<Rightarrow> string) \<Rightarrow> 'a list \<Rightarrow> string list" where
  "prompt_section title limit line xs =
     (if xs = [] then []
      else [title @ newline @ join_with newline (map (\<lambda>(i, x). line i x) (enumerate 0 (take limit xs)))])"

fun execution_strategy_str :: "execution_strategy \<Rightarrow> string" where
  "execution_strategy_str DeterministicWorkflow = ''deterministic_workflow''"
| "execution_strategy_str AdaptivePlanning = ''adaptive_planning''"
| "execution_strategy_str CoordinatorShell = ''coordinator_shell''"

fun tool_pool_str :: "tool_pool \<Rightarrow> string" where
  "tool_pool_str WorkerPool = ''worker''"
| "tool_pool_str PlanPool = ''plan''"
| "tool_pool_str CoordinatorPool = ''coordinator''"
| "tool_pool_str VerificationPool = ''verification''"
| "tool_pool_str TeammatePool = ''teammate''"

definition to_prompt :: "execution_guidelines \<Rightarrow> string" where
  "to_prompt g = join_with (newline @ newline)
     (prompt_section ''RULES (apply in order):'' MAX_RULES rule_line (eg_rules g)
      @ prompt_section ''FAILURE HANDLING:'' MAX_FAILURE failure_line (eg_failure_handling g)
      @ prompt_section ''PRIORITIES:'' MAX_PRIORITIES priority_line (eg_priorities g)
      @ prompt_section ''DONE WHEN ALL OF:'' MAX_COMPLETION completion_line (eg_completion_criteria g)
      @ [''RUNTIME POLICY:'' @ newline @ ''execution_strategy: '' @ execution_strategy_str (eg_execution_strategy g)
         @ newline @ ''tool_pool: '' @ tool_pool_str (eg_tool_pool g)
         @ newline @ ''permission_mode: '' @ permission_mode_as_str (eg_permission_mode g)
         @ '' ('' @ permission_mode_description (eg_permission_mode g) @ '')''])"

section \<open>Guidelines from text\<close>

text \<open>The bullet the parser strips, as the bytes of the source file.\<close>

definition bullet :: string where
  "bullet = [CHR 0xC3, CHR 0xA2, CHR 0xE2, CHR 0x82, CHR 0xAC, CHR 0xC2, CHR 0xA2, CHR '' '']"

datatype text_section = RulesSection | FailureSection | PrioritiesSection | CompletionSection

definition failure_keywords :: "string list" where
  "failure_keywords = [''skip'', ''if fail'', ''on error'', ''retry'', ''escalate'', ''notify'', ''if missing'',
     ''fallback'', ''when missing'']"

definition text_failure_rule :: "string \<Rightarrow> string \<Rightarrow> failure_rule" where
  "text_failure_rule t l = \<lparr>fr_text = t, fr_tool_scope = None, fr_action = infer_failure_action l\<rparr>"

definition is_failure_text :: "string \<Rightarrow> bool" where
  "is_failure_text l = list_ex (\<lambda>k. str_contains k l) failure_keywords"

definition add_section_line :: "text_section \<Rightarrow> string \<Rightarrow> string \<Rightarrow> execution_guidelines \<Rightarrow> execution_guidelines" where
  "add_section_line sec t l g =
     (case sec of
        RulesSection \<Rightarrow>
          if is_failure_text l then add_failure (text_failure_rule t l) g else add_rule (rule_always t) g
      | FailureSection \<Rightarrow> add_failure (text_failure_rule t l) g
      | PrioritiesSection \<Rightarrow> add_priority t g
      | CompletionSection \<Rightarrow> add_completion (criterion_custom t) g)"

definition starts_with_digit :: "string \<Rightarrow> bool" where
  "starts_with_digit t = (case t of c # _ \<Rightarrow> is_ascii_digit c | [] \<Rightarrow> False)"

definition skill_line ::
  "(string \<Rightarrow> string) \<Rightarrow> string \<Rightarrow> text_section \<times> execution_guidelines \<Rightarrow> text_section \<times> execution_guidelines" where
  "skill_line lowercase line st =
     (let sec = fst st; g = snd st;
          t = trim_start_matches ''* '' (trim_start_matches bullet (trim_start_matches ''- '' (trim line)));
          l = lowercase t
      in if t = [] then st
         else if starts_with ''execution brief'' l \<or> starts_with ''rules:'' l then (RulesSection, g)
         else if starts_with ''on failure'' l \<or> starts_with ''failure:'' l \<or> starts_with ''on error'' l
         then (FailureSection, g)
         else if starts_with ''priorit'' l then (PrioritiesSection, g)
         else if starts_with ''done when'' l \<or> starts_with ''completion'' l \<or> starts_with ''complete when'' l
         then (CompletionSection, g)
         else if starts_with ''mandatory'' l \<or> starts_with ''before confirm'' l then st
         else if starts_with_digit t \<and> CHR ''.'' \<in> set t \<and> sec = RulesSection then st
         else if length t < 8 then st
         else (sec, add_section_line sec t l g))"

definition from_skill_text :: "(string \<Rightarrow> string) \<Rightarrow> string \<Rightarrow> execution_guidelines" where
  "from_skill_text lowercase text =
     snd (fold (skill_line lowercase) (str_lines text) (RulesSection, default_guidelines))"

definition completion_keywords :: "string list" where
  "completion_keywords = [''when done'', ''complete when'', ''done when'', ''all processed'', ''once all'', ''after all'']"

definition constraint_part :: "(string \<Rightarrow> string) \<Rightarrow> string \<Rightarrow> execution_guidelines \<Rightarrow> execution_guidelines" where
  "constraint_part lowercase part g =
     (let t = trim_end_matches CHR ''.'' (trim part); l = lowercase t
      in if length t < 6 then g
         else if starts_with ''no constraint'' l \<or> l = ''none'' \<or> l = ''n/a'' \<or> l = ''defaults'' then g
         else if list_ex (\<lambda>k. str_contains k l) completion_keywords then add_completion (criterion_custom t) g
         else if is_failure_text l then add_failure (text_failure_rule t l) g
         else add_rule (rule_always t) g)"

definition from_user_constraints :: "(string \<Rightarrow> string) \<Rightarrow> string \<Rightarrow> execution_guidelines" where
  "from_user_constraints lowercase text =
     fold (constraint_part lowercase)
       (split_where (\<lambda>c. c \<in> {CHR '','', CHR '';'', CHR 0x0A}) text) default_guidelines"

text \<open>\<open>From<&str>\<close>; the JSON parser of the guidelines is an argument.\<close>

definition guidelines_from ::
  "(string \<Rightarrow> execution_guidelines option) \<Rightarrow> (string \<Rightarrow> string) \<Rightarrow> string \<Rightarrow> execution_guidelines" where
  "guidelines_from parse lowercase s =
     (case parse s of
        Some parsed \<Rightarrow> parsed
      | None \<Rightarrow>
          let from_text = from_skill_text lowercase s
          in if \<not> guidelines_is_empty from_text then from_text
             else if trim s \<noteq> [] then add_rule (rule_always (trim s)) default_guidelines
             else default_guidelines)"

section \<open>Roles\<close>

datatype trigger_confidence = HighConfidence | MediumConfidence | LowConfidence

datatype trigger_type = WebhookType | ScheduleType | UserMessageType | ManualType | WorkforceEventType

record trigger_def =
  td_trigger_type :: trigger_type
  td_source_connector :: "string option"
  td_event_filter :: "string option"
  td_cron :: "string option"
  td_timezone :: "string option"
  td_allowed_users :: "string list option"
  td_intent_keywords :: "string list option"
  td_workforce_event_filter :: "string option"
  td_input_mapping :: "json option"
  td_depends_on_role_id :: "string option"
  td_confidence :: trigger_confidence

definition default_trigger_def :: trigger_def where
  "default_trigger_def =
     \<lparr>td_trigger_type = ManualType, td_source_connector = None, td_event_filter = None, td_cron = None,
      td_timezone = None, td_allowed_users = None, td_intent_keywords = None,
      td_workforce_event_filter = None, td_input_mapping = None, td_depends_on_role_id = None,
      td_confidence = MediumConfidence\<rparr>"

datatype output_format = TextFormat | MarkdownFormat | JsonFormat | HtmlFormat

datatype output_destination =
    WorkspaceDestination "string option"
  | ConnectorDestination string string string
  | ChannelDestination string string
  | EmailDestination string bool
  | WorkforceEventDestination string
  | ConversationReply

record output_spec =
  os_format :: output_format
  os_description :: string
  os_schema :: "json option"
  os_destination :: output_destination

definition default_output_spec :: output_spec where
  "default_output_spec = \<lparr>os_format = MarkdownFormat, os_description = [], os_schema = None,
     os_destination = WorkspaceDestination None\<rparr>"

datatype memory_scope = GlobalScope | AgentScope | RoleScope

record execution_limits =
  el_max_steps :: nat
  el_max_retries :: nat
  el_timeout_secs :: nat
  el_max_cost_usd :: "rat option"

definition default_execution_limits :: execution_limits where
  "default_execution_limits =
     \<lparr>el_max_steps = 40, el_max_retries = 3, el_timeout_secs = 1800, el_max_cost_usd = None\<rparr>"

fun default_memory_scope :: "role_category \<Rightarrow> memory_scope" where
  "default_memory_scope ResearchAnalyst = RoleScope"
| "default_memory_scope FinanceAccounting = RoleScope"
| "default_memory_scope HRPeopleOps = RoleScope"
| "default_memory_scope LegalContract = RoleScope"
| "default_memory_scope _ = AgentScope"

definition limits :: "nat \<Rightarrow> nat \<Rightarrow> nat \<Rightarrow> rat \<Rightarrow> execution_limits" where
  "limits steps retries timeout cost =
     \<lparr>el_max_steps = steps, el_max_retries = retries, el_timeout_secs = timeout, el_max_cost_usd = Some cost\<rparr>"

fun category_execution_limits :: "role_category \<Rightarrow> execution_limits" where
  "category_execution_limits SoftwareEngineer = limits 80 3 7200 10"
| "category_execution_limits ResearchAnalyst = limits 96 3 7200 10"
| "category_execution_limits DataExtraction = limits 96 3 7200 10"
| "category_execution_limits DevOps = limits 64 3 5400 8"
| "category_execution_limits ITOpsITSM = limits 64 3 5400 8"
| "category_execution_limits FinanceAccounting = limits 48 3 5400 6"
| "category_execution_limits LegalContract = limits 48 3 5400 6"
| "category_execution_limits SalesRevOps = limits 40 3 3600 5"
| "category_execution_limits HRPeopleOps = limits 40 3 3600 5"
| "category_execution_limits Marketing = limits 40 3 3600 5"
| "category_execution_limits CustomerSupport = limits 32 3 3600 4"
| "category_execution_limits General = limits 48 3 3600 4"

fun default_permission_mode :: "role_category \<Rightarrow> permission_mode" where
  "default_permission_mode SoftwareEngineer = WorkspaceWrite"
| "default_permission_mode DataExtraction = WorkspaceWrite"
| "default_permission_mode DevOps = WorkspaceWrite"
| "default_permission_mode ITOpsITSM = WorkspaceWrite"
| "default_permission_mode _ = SafeAuto"

record agent_role =
  ro_id :: string
  ro_agent_id :: string
  ro_tenant_id :: string
  ro_version :: nat
  ro_status :: role_status
  ro_name :: string
  ro_trigger :: trigger_def
  ro_purpose :: string
  ro_role_category :: role_category
  ro_execution_guidelines :: execution_guidelines
  ro_connectors :: "string list"
  ro_tools :: "string list"
  ro_output_spec :: output_spec
  ro_memory_scope :: memory_scope
  ro_execution_limits :: execution_limits
  ro_created_at :: time
  ro_updated_at :: time

definition agent_role_new :: "string \<Rightarrow> string \<Rightarrow> string \<Rightarrow> string \<Rightarrow> time \<Rightarrow> agent_role" where
  "agent_role_new rid agent_id tenant_id name now =
     \<lparr>ro_id = rid, ro_agent_id = agent_id, ro_tenant_id = tenant_id, ro_version = 1, ro_status = RoleDraft,
      ro_name = name, ro_trigger = default_trigger_def, ro_purpose = [], ro_role_category = General,
      ro_execution_guidelines = default_guidelines, ro_connectors = [], ro_tools = [],
      ro_output_spec = default_output_spec, ro_memory_scope = AgentScope,
      ro_execution_limits = default_execution_limits, ro_created_at = now, ro_updated_at = now\<rparr>"

definition bump_version :: "externals \<Rightarrow> time \<Rightarrow> agent_role \<Rightarrow> agent_role option" where
  "bump_version ext now r =
     (if ro_version r + 1 < 2 ^ 32 then Some (r\<lparr>ro_version := ro_version r + 1, ro_updated_at := now\<rparr>)
      else if overflow_checks ext then None
      else Some (r\<lparr>ro_version := 0, ro_updated_at := now\<rparr>))"

definition role_is_live :: "agent_role \<Rightarrow> bool" where
  "role_is_live r = (ro_status r = RoleActive)"

section \<open>Plan mode sessions\<close>

record plan_mode_message =
  pm_role :: string
  pm_content :: string

datatype plan_mode_attachment_kind = PdfKind | SpreadsheetKind | CsvKind | TextKind | BinaryKind | UnknownKind

record plan_mode_attachment =
  pa_name :: string
  pa_path :: string
  pa_mime_type :: "string option"
  pa_size_bytes :: nat
  pa_kind :: plan_mode_attachment_kind
  pa_extracted_preview :: string
  pa_uploaded_at :: time

datatype plan_mode_phase =
    CapturingIntent | ResolvingConnectors | CapturingClarifications | CapturingConstraints | Reviewing | PhaseComplete

datatype plan_mode_compiler_stage = IntentStage | DslStage | ValidateStage | RepairStage | BindStage | ReviewStage

record plan_mode_session =
  pms_id :: string
  pms_tenant_id :: string
  pms_draft_agent :: agent_definition
  pms_draft_role :: "agent_role option"
  pms_conversation :: "plan_mode_message list"
  pms_attachments :: "plan_mode_attachment list"
  pms_attachment_context :: string
  pms_session_workspace :: "string option"
  pms_goal_fingerprint :: "string option"
  pms_repair_version :: nat
  pms_reused_from_session_id :: "string option"
  pms_repair_root_session_id :: "string option"
  pms_phase :: plan_mode_phase
  pms_compiler_stage :: plan_mode_compiler_stage
  pms_compiler_repair_passes :: nat
  pms_compiler_validation_issues :: "string list"
  pms_intent_cache :: "json option"
  pms_pending_steps :: "json list"
  pms_created_at :: time
  pms_updated_at :: time

section \<open>Limits of registered WASM tools\<close>

record wasm_tool_resource_limits =
  wl_max_memory_bytes :: nat
  wl_max_fuel :: nat
  wl_timeout_secs :: nat

definition default_wasm_limits :: wasm_tool_resource_limits where
  "default_wasm_limits = \<lparr>wl_max_memory_bytes = 16 * 1024 * 1024, wl_max_fuel = 5000000, wl_timeout_secs = 3\<rparr>"

definition clamp :: "nat \<Rightarrow> nat \<Rightarrow> nat \<Rightarrow> nat" where
  "clamp lo hi x = max lo (min hi x)"

definition clamped :: "wasm_tool_resource_limits \<Rightarrow> wasm_tool_resource_limits" where
  "clamped l =
     \<lparr>wl_max_memory_bytes = clamp (1024 * 1024) (64 * 1024 * 1024) (wl_max_memory_bytes l),
      wl_max_fuel = clamp 100000 20000000 (wl_max_fuel l),
      wl_timeout_secs = clamp 1 10 (wl_timeout_secs l)\<rparr>"

section \<open>Guidelines stay within their limits\<close>

definition guidelines_ok :: "execution_guidelines \<Rightarrow> bool" where
  "guidelines_ok g \<longleftrightarrow>
     length (eg_rules g) \<le> MAX_RULES \<and> distinct (map gl_text (eg_rules g))
   \<and> length (eg_failure_handling g) \<le> MAX_FAILURE \<and> distinct (map fr_text (eg_failure_handling g))
   \<and> length (eg_priorities g) \<le> MAX_PRIORITIES \<and> distinct (eg_priorities g)
   \<and> length (eg_completion_criteria g) \<le> MAX_COMPLETION \<and> distinct (map cc_description (eg_completion_criteria g))"

lemma guidelines_ok_default: "guidelines_ok default_guidelines"
  by (simp add: guidelines_ok_def default_guidelines_def)

lemma guidelines_ok_adds:
  assumes "guidelines_ok g"
  shows "guidelines_ok (add_rule r g)" "guidelines_ok (add_failure f g)" "guidelines_ok (add_priority p g)"
    "guidelines_ok (add_completion c g)"
  using assms
  by (auto simp: guidelines_ok_def add_rule_def add_failure_def add_priority_def add_completion_def list_ex_iff image_iff)

lemma fold_invariant: "(\<And>x g. I g \<Longrightarrow> I (f x g)) \<Longrightarrow> I g \<Longrightarrow> I (fold f xs g)"
  by (induction xs arbitrary: g) auto

lemma guidelines_ok_extend: "guidelines_ok g \<Longrightarrow> guidelines_ok (extend_dedup other g)"
  by (simp add: extend_dedup_def fold_invariant [where I = guidelines_ok] guidelines_ok_adds)

lemma guidelines_ok_section_line: "guidelines_ok g \<Longrightarrow> guidelines_ok (add_section_line sec t l g)"
  by (simp add: add_section_line_def guidelines_ok_adds split: text_section.split)

lemma guidelines_ok_skill_line: "guidelines_ok (snd st) \<Longrightarrow> guidelines_ok (snd (skill_line lowercase line st))"
  by (simp add: skill_line_def Let_def guidelines_ok_section_line)

lemma guidelines_ok_skill_text: "guidelines_ok (from_skill_text lowercase text)"
  unfolding from_skill_text_def
  by (rule fold_invariant [where I = "\<lambda>st. guidelines_ok (snd st)"])
    (simp_all add: guidelines_ok_skill_line guidelines_ok_default)

lemma guidelines_ok_constraints: "guidelines_ok (from_user_constraints lowercase text)"
  unfolding from_user_constraints_def
  by (rule fold_invariant)
    (simp_all add: constraint_part_def Let_def guidelines_ok_adds guidelines_ok_default)

text \<open>Guidelines stay within the limits of the prompt.  Whatever text they are parsed from, they have at
  most twelve rules, eight failure rules, five priorities and six completion criteria, without
  repeated texts; merging them into guidelines within the limits stays within the limits, and keeps
  everything that was there before.\<close>

theorem guidelines_bounded:
  "guidelines_ok (from_skill_text lowercase text)
   \<and> guidelines_ok (from_user_constraints lowercase text')
   \<and> guidelines_ok (extend_dedup other (from_skill_text lowercase text))
   \<and> set (eg_rules g) \<subseteq> set (eg_rules (extend_dedup other g))
   \<and> set (eg_failure_handling g) \<subseteq> set (eg_failure_handling (extend_dedup other g))"
proof -
  have rules: "R \<subseteq> set (eg_rules g) \<Longrightarrow> R \<subseteq> set (eg_rules (extend_dedup other g))" for R g
    unfolding extend_dedup_def
    by (intro fold_invariant [where I = "\<lambda>g. R \<subseteq> set (eg_rules g)"])
      (auto simp: add_rule_def add_failure_def add_priority_def add_completion_def)
  have failures: "R \<subseteq> set (eg_failure_handling g) \<Longrightarrow> R \<subseteq> set (eg_failure_handling (extend_dedup other g))" for R g
    unfolding extend_dedup_def
    by (intro fold_invariant [where I = "\<lambda>g. R \<subseteq> set (eg_failure_handling g)"])
      (auto simp: add_rule_def add_failure_def add_priority_def add_completion_def)
  show ?thesis
    by (simp add: guidelines_ok_skill_text guidelines_ok_constraints guidelines_ok_extend rules failures)
qed

text \<open>The limits of a registered tool, whatever the tenant asks for, and the two-level connector check.\<close>

lemma clamped_limits:
  "wl_max_memory_bytes (clamped l) \<in> {1048576..67108864} \<and> wl_max_fuel (clamped l) \<in> {100000..20000000}
   \<and> wl_timeout_secs (clamped l) \<in> {1..10} \<and> clamped (clamped l) = clamped l"
  by (auto simp: clamped_def clamp_def)

lemma role_connectors_allowed: "validate_role_connectors d cs = [] \<longleftrightarrow> set cs \<subseteq> set (ad_connectors d)"
  by (auto simp: validate_role_connectors_def filter_empty_conv)

lemma slug_roundtrip: "from_slug (role_category_as_str c) = c"
  by (cases c) (simp_all add: from_slug_def Let_def trim_visible visible_def byte_of_def
      to_ascii_lowercase_def ascii_lower_def)

text \<open>A line that begins with a real bullet keeps it, because the parser strips the bytes of a wrongly
  decoded one.\<close>

definition bulleted_line :: string where
  "bulleted_line = [CHR 0xE2, CHR 0x80, CHR 0xA2, CHR '' ''] @ ''verify totals''"

theorem bullet_stays:
  "map gl_text (eg_rules (from_skill_text to_ascii_lowercase bulleted_line)) = [bulleted_line]"
  by code_simp

end
