(* ===== verification/Float64.thy ===== *)
theory Float64
  imports Json
begin

text \<open>
  Arithmetic of \<open>f64\<close> on finite values: a value is the rational it stands for, and the result of an
  operation is the exact result rounded to 53 significant bits, to nearest, ties to even.  The
  exponent is unbounded: overflow to infinity and subnormal results do not occur with the amounts,
  rates and scores of the code.  \<open>f64::round\<close> rounds half away from zero.
\<close>

definition round_even :: "rat \<Rightarrow> int" where
  "round_even q = (let f = \<lfloor>q\<rfloor>; d = q - of_int f in
     if 1 / 2 < d \<or> (d = 1 / 2 \<and> odd f) then f + 1 else f)"

text \<open>The exponent of the leading bit.\<close>

definition floor_log2 :: "rat \<Rightarrow> int" where
  "floor_log2 q = (let nd = quotient_of q; b = int (bit_len (nat \<bar>fst nd\<bar>)) - int (bit_len (nat (snd nd)))
     in if 2 powi b \<le> \<bar>q\<bar> then b else b - 1)"

definition f64_round :: "rat \<Rightarrow> rat" where
  "f64_round q = (if q = 0 then 0 else
     let e = floor_log2 q - 52 in of_int (round_even (q / 2 powi e)) * 2 powi e)"

definition f64_add :: "rat \<Rightarrow> rat \<Rightarrow> rat" where
  "f64_add a b = f64_round (a + b)"

definition f64_sub :: "rat \<Rightarrow> rat \<Rightarrow> rat" where
  "f64_sub a b = f64_round (a - b)"

definition f64_mul :: "rat \<Rightarrow> rat \<Rightarrow> rat" where
  "f64_mul a b = f64_round (a * b)"

definition f64_div :: "rat \<Rightarrow> rat \<Rightarrow> rat" where
  "f64_div a b = f64_round (a / b)"

definition round_away :: "rat \<Rightarrow> int" where
  "round_away q = (if 0 \<le> q then \<lfloor>q + 1 / 2\<rfloor> else - \<lfloor>1 / 2 - q\<rfloor>)"

section \<open>Rounding to an integer\<close>

lemma round_even_near: "\<bar>of_int (round_even q) - q\<bar> \<le> 1 / 2"
proof -
  have "of_int \<lfloor>q\<rfloor> \<le> q" "q < of_int \<lfloor>q\<rfloor> + 1" by linarith+
  then show ?thesis by (auto simp: round_even_def Let_def abs_le_iff)
qed

lemma round_even_of_int [simp]: "round_even (of_int i) = i"
  by (simp add: round_even_def Let_def)

text \<open>Rounding does not cross an integer.\<close>

lemma round_even_le: "q \<le> of_int k \<Longrightarrow> round_even q \<le> k"
proof (cases "q = of_int k")
  case False
  assume "q \<le> of_int k"
  with False have "q < of_int k" by simp
  then have "\<lfloor>q\<rfloor> < k" by (simp add: floor_less_iff)
  then show ?thesis by (auto simp: round_even_def Let_def)
qed simp

lemma round_even_ge: "of_int k \<le> q \<Longrightarrow> k \<le> round_even q"
proof -
  assume "of_int k \<le> q"
  then have "k \<le> \<lfloor>q\<rfloor>" by (simp add: le_floor_iff)
  then show ?thesis by (simp add: round_even_def Let_def)
qed

lemma round_even_mono: "p \<le> q \<Longrightarrow> round_even p \<le> round_even q"
proof (cases "\<lfloor>p\<rfloor> = \<lfloor>q\<rfloor>")
  case True
  assume "p \<le> q"
  with True show ?thesis by (auto simp: round_even_def Let_def)
next
  case False
  assume "p \<le> q"
  with False have "\<lfloor>p\<rfloor> + 1 \<le> \<lfloor>q\<rfloor>" using floor_mono [of p q] by linarith
  moreover have "round_even p \<le> \<lfloor>p\<rfloor> + 1" by (simp add: round_even_def Let_def)
  moreover have "\<lfloor>q\<rfloor> \<le> round_even q" by (simp add: round_even_def Let_def)
  ultimately show ?thesis by linarith
qed

section \<open>The leading bit\<close>

lemma bit_len_le_iff: "bit_len n \<le> k \<longleftrightarrow> n < 2 ^ k"
proof
  assume "bit_len n \<le> k"
  then show "n < 2 ^ k"
  proof (induction n arbitrary: k rule: bit_len.induct)
    case (1 n)
    show ?case
    proof (cases "n = 0")
      case False
      with "1.prems" obtain k' where k: "k = Suc k'" by (cases k) (simp_all add: bit_len.simps [of n])
      with "1.prems" False have "bit_len (n div 2) \<le> k'" by (simp add: bit_len.simps [of n])
      with "1.IH" False have "n div 2 < 2 ^ k'" by blast
      with k show ?thesis by (simp add: div_less_iff_less_mult mult.commute)
    qed simp
  qed
qed (rule bit_len_bound)

lemma bit_len_bounds:
  assumes "0 < n"
  shows "2 ^ (bit_len n - 1) \<le> n" "n < 2 ^ bit_len n" "0 < bit_len n"
proof -
  show "0 < bit_len n" using bit_len_le_iff [of n 0] assms by auto
  then show "2 ^ (bit_len n - 1) \<le> n" using bit_len_le_iff [of n "bit_len n - 1"] by auto
  show "n < 2 ^ bit_len n" using bit_len_le_iff [of n "bit_len n"] by simp
qed

lemma floor_log2_bounds:
  assumes "q \<noteq> 0"
  shows "2 powi floor_log2 q \<le> \<bar>q\<bar>" "\<bar>q\<bar> < 2 powi (floor_log2 q + 1)"
proof -
  obtain n d where nd: "quotient_of q = (n, d)" by fastforce
  then have q: "q = of_int n / of_int d" and d: "0 < d"
    by (simp_all add: quotient_of_div quotient_of_denom_pos)
  with assms have n: "n \<noteq> 0" by auto
  define a where "a = nat \<bar>n\<bar>"
  define c where "c = nat d"
  have a: "0 < a" and c: "0 < c" using n d by (simp_all add: a_def c_def)
  have abs: "\<bar>q\<bar> = of_nat a / of_nat c"
    using d by (simp add: q a_def c_def abs_divide)
  define b where "b = int (bit_len a) - int (bit_len c)"
  have flog: "floor_log2 q = (if 2 powi b \<le> \<bar>q\<bar> then b else b - 1)"
    by (simp add: floor_log2_def nd a_def c_def b_def Let_def)
  have a2: "(of_nat a :: rat) < 2 ^ bit_len a" "2 ^ (bit_len a - 1) \<le> (of_nat a :: rat)"
    and c2: "(of_nat c :: rat) < 2 ^ bit_len c" "2 ^ (bit_len c - 1) \<le> (of_nat c :: rat)"
    using bit_len_bounds [OF a] bit_len_bounds [OF c] by (simp_all flip: of_nat_less_iff of_nat_le_iff)
  have pw: "(2 :: rat) powi b = 2 ^ bit_len a / 2 ^ bit_len c"
    by (simp add: b_def power_int_diff)
  have la: "(2 :: rat) ^ bit_len a = 2 * 2 ^ (bit_len a - 1)" and lc: "(2 :: rat) ^ bit_len c = 2 * 2 ^ (bit_len c - 1)"
    using bit_len_bounds(3) [OF a] bit_len_bounds(3) [OF c] by (simp_all flip: power_Suc)
  have upper: "\<bar>q\<bar> < 2 * 2 powi b"
  proof -
    have "of_nat a / of_nat c < 2 ^ bit_len a / (2 ^ (bit_len c - 1) :: rat)"
      using a2 c2 c by (intro frac_less) simp_all
    also have "\<dots> = 2 * 2 powi b" by (simp add: pw lc)
    finally show ?thesis by (simp add: abs)
  qed
  have lower: "2 powi b / 2 \<le> \<bar>q\<bar>"
  proof -
    have "2 powi b / 2 = 2 ^ (bit_len a - 1) / (2 ^ bit_len c :: rat)" by (simp add: pw la)
    also have "\<dots> \<le> of_nat a / of_nat c" using a2 c2 c by (intro frac_le) simp_all
    finally show ?thesis by (simp add: abs)
  qed
  have step: "(2 :: rat) powi (b - 1) = 2 powi b / 2" "(2 :: rat) powi (b + 1) = 2 * 2 powi b"
    by (simp_all add: power_int_diff power_int_add)
  show "2 powi floor_log2 q \<le> \<bar>q\<bar>" using lower step by (simp add: flog)
  show "\<bar>q\<bar> < 2 powi (floor_log2 q + 1)" using upper step by (simp add: flog)
qed

lemma floor_log2_less: "q \<noteq> 0 \<Longrightarrow> \<bar>q\<bar> < 2 powi k \<Longrightarrow> floor_log2 q < k"
proof (rule ccontr)
  assume "q \<noteq> 0" "\<bar>q\<bar> < 2 powi k" "\<not> floor_log2 q < k"
  then have "(2 :: rat) powi k \<le> 2 powi floor_log2 q" by (intro power_int_increasing) auto
  with \<open>\<bar>q\<bar> < 2 powi k\<close> floor_log2_bounds(1) [OF \<open>q \<noteq> 0\<close>] show False by linarith
qed

section \<open>Rounding to 53 bits\<close>

lemma f64_round_0 [simp]: "f64_round 0 = 0"
  by (simp add: f64_round_def)

text \<open>Rounding does not cross a multiple of the last place, in particular no integer below
  \<open>2 ^ 53\<close> when the argument is below it.\<close>

lemma powi_neg_int:
  assumes "e \<le> 0"
  shows "\<exists>m. 1 / (2 :: rat) powi e = of_int m"
proof
  show "1 / (2 :: rat) powi e = of_int (2 ^ nat (- e))"
    using assms by (simp add: power_int_def field_simps)
qed

lemma f64_round_le_nat:
  assumes "q \<le> of_nat k" "0 \<le> q" "k < 2 ^ 53"
  shows "f64_round q \<le> of_nat k"
proof (cases "q = 0")
  case False
  define e where "e = floor_log2 q - 52"
  have "\<bar>q\<bar> < 2 powi 53"
    using assms by (simp add: power_int_def)
  then have "e \<le> 0" using floor_log2_less [OF False, of 53] by (simp add: e_def)
  then obtain m where m: "1 / (2 :: rat) powi e = of_int m" using powi_neg_int by blast
  have pos: "0 < (2 :: rat) powi e" by simp
  have "q / 2 powi e \<le> of_int (int k * m)"
    using assms(1) pos by (simp add: divide_right_mono flip: m)
  then have "round_even (q / 2 powi e) \<le> int k * m" by (rule round_even_le)
  then have "of_int (round_even (q / 2 powi e)) * 2 powi e \<le> (of_int (int k * m) :: rat) * 2 powi e"
    using pos by (intro mult_right_mono) (simp_all flip: of_int_mult)
  also have "\<dots> = of_nat k" using pos by (simp add: flip: m)
  finally show ?thesis using False by (simp add: f64_round_def e_def Let_def)
qed simp

lemma f64_round_nonneg: "0 \<le> q \<Longrightarrow> 0 \<le> f64_round q"
  using round_even_ge [of 0] by (simp add: f64_round_def Let_def)

text \<open>A value with at most 53 significant bits is exact.\<close>

lemma f64_round_dyadic:
  assumes "\<bar>m\<bar> < 2 ^ 53"
  shows "f64_round (of_int m / 2 ^ k) = of_int m / 2 ^ k"
proof (cases "m = 0")
  case False
  define q :: rat where "q = of_int m / 2 ^ k"
  define e where "e = floor_log2 q - 52"
  have "q \<noteq> 0" using False by (simp add: q_def)
  have "\<bar>of_int m\<bar> < (2 :: rat) ^ 53" using assms by (metis of_int_abs of_int_less_iff of_int_numeral of_int_power)
  then have "\<bar>q\<bar> < 2 ^ 53 / 2 ^ k" by (simp add: q_def abs_divide divide_strict_right_mono)
  also have "\<dots> = 2 powi (53 - int k)" by (simp add: power_int_diff)
  finally have "e \<le> - int k" using floor_log2_less [OF \<open>q \<noteq> 0\<close>, of "53 - int k"] by (simp add: e_def)
  then obtain n where n: "- int k - e = int n" by (metis add_uminus_conv_diff diff_ge_0_iff_ge nonneg_int_cases)
  have "q / 2 powi e = of_int m * 2 powi (- int k - e)"
    by (simp add: q_def power_int_diff power_int_minus field_simps)
  then have "q / 2 powi e = of_int (m * 2 ^ n)" by (simp add: n)
  then have "of_int (round_even (q / 2 powi e)) = q / 2 powi e" by (metis round_even_of_int)
  then show ?thesis using \<open>q \<noteq> 0\<close> by (simp add: f64_round_def e_def Let_def flip: q_def)
qed simp

lemma f64_round_int: "\<bar>m\<bar> < 2 ^ 53 \<Longrightarrow> f64_round (of_int m) = of_int m"
  using f64_round_dyadic [of m 0] by simp

lemma f64_round_nat: "k < 2 ^ 53 \<Longrightarrow> f64_round (of_nat k) = of_nat k"
  using f64_round_int [of "int k"] by simp

lemma round_away_le: "q \<le> of_int k \<Longrightarrow> 0 \<le> k \<Longrightarrow> round_away q \<le> k"
  by (auto simp: round_away_def floor_le_iff le_floor_iff) (linarith | simp add: le_floor_iff)+

lemma round_away_nonneg: "0 \<le> q \<Longrightarrow> 0 \<le> round_away q"
  by (simp add: round_away_def)

end
