(* ===== verification/Agent_State.thy ===== *)
theory Agent_State
  imports Planner Float64
begin

text \<open>
  The durable state of the platform (\<open>state/agent_state.rs\<close>, \<open>state/goal_instance.rs\<close>,
  \<open>state/goal_state.rs\<close>, \<open>state/session_task.rs\<close>, \<open>state/agent_message.rs\<close>): the records and every
  operation on them.  An operation that reads the clock twice takes both readings.  An assignment
  \<open>metadata["key"] = value\<close> inserts into an object, turns a null into an object first, and panics on
  any other value; such an operation returns an option.
\<close>

section \<open>Indexed assignment\<close>

fun json_set :: "string \<Rightarrow> json \<Rightarrow> json \<Rightarrow> json option" where
  "json_set k v (JObject kvs) = Some (JObject (obj_insert k v kvs))"
| "json_set k v JNull = Some (JObject [(k, v)])"
| "json_set k v _ = None"

text \<open>\<open>as_object_mut\<close> followed by \<open>Map::remove\<close>.\<close>

fun json_remove :: "string \<Rightarrow> json \<Rightarrow> json" where
  "json_remove k (JObject kvs) = JObject (filter (\<lambda>kv. fst kv \<noteq> k) kvs)"
| "json_remove k v = v"

lemma json_set_get: "json_set k v m = Some m' \<Longrightarrow> json_get k' m' = (if k' = k then Some v else json_get k' m)"
  by (cases m) (auto simp: map_of_obj_insert)

lemma json_set_eq_None_iff: "json_set k v m = None \<longleftrightarrow> m \<noteq> JNull \<and> as_object m = None"
  by (cases m) simp_all

lemma map_of_filter_key: "map_of (filter (\<lambda>kv. fst kv \<noteq> k) kvs) k' = (if k' = k then None else map_of kvs k')"
  by (induction kvs) auto

lemma json_remove_get [simp]: "json_get k' (json_remove k m) = (if k' = k then None else json_get k' m)"
  by (cases m) (simp_all add: map_of_filter_key)

lemma obj_insert_remove:
  assumes "sorted (map fst kvs)" "distinct (map fst kvs)" "map_of kvs k = None"
  shows "filter (\<lambda>kv. fst kv \<noteq> k) (obj_insert k v kvs) = kvs"
  using assms
proof (induction kvs)
  case (Cons kv kvs)
  obtain k' v' where kv: "kv = (k', v')" by fastforce
  with Cons.prems have "k' \<noteq> k" "\<forall>kv\<in>set kvs. fst kv \<noteq> k"
    by (auto simp: map_of_eq_None_iff split: if_splits)
  then have "filter (\<lambda>kv. fst kv \<noteq> k) kvs = kvs" by (simp add: filter_id_conv)
  with Cons kv \<open>k' \<noteq> k\<close> show ?case by (auto split: if_splits)
qed simp

section \<open>Agents\<close>

datatype agent_status =
    AgentPending | AgentPreflight | AgentClarifying | AgentPlanApprovalNeeded | AgentRunning
  | AgentWaiting | AgentDelegating | AgentCompleted | AgentFailed | AgentPaused

record agent_state =
  as_id :: string
  as_tenant_id :: string
  as_goal :: string
  as_status :: agent_status
  as_current_task :: "string option"
  as_current_step :: nat
  as_workspace_path :: string
  as_memory_ref :: "string option"
  as_next_run :: time
  as_created_at :: time
  as_updated_at :: time
  as_started_at :: "time option"
  as_plan :: "plan option"
  as_final_answer :: "string option"
  as_metadata :: json
  as_parent_agent_id :: "string option"
  as_pending_children :: "string list"
  as_conversation_id :: "string option"
  as_plan_rejection_count :: nat
  as_claimed_by :: "string option"
  as_lease_expires_at :: "time option"
  as_workflow_id :: "string option"

definition agent_new :: "string \<Rightarrow> string \<Rightarrow> string \<Rightarrow> string \<Rightarrow> time \<Rightarrow> agent_state" where
  "agent_new aid tenant_id goal workspace_path now =
     \<lparr>as_id = aid, as_tenant_id = tenant_id, as_goal = goal, as_status = AgentPending,
      as_current_task = None, as_current_step = 0, as_workspace_path = workspace_path,
      as_memory_ref = None, as_next_run = now, as_created_at = now, as_updated_at = now,
      as_started_at = None, as_plan = None, as_final_answer = None, as_metadata = JObject [],
      as_parent_agent_id = None, as_pending_children = [], as_conversation_id = None,
      as_plan_rejection_count = 0, as_claimed_by = None, as_lease_expires_at = None,
      as_workflow_id = None\<rparr>"

text \<open>The counter is a \<open>u32\<close>: at its end the debug build panics and the release build wraps.\<close>

definition advance_step :: "externals \<Rightarrow> time \<Rightarrow> agent_state \<Rightarrow> agent_state option" where
  "advance_step ext now s =
     (if as_current_step s + 1 < 2 ^ 32
      then Some (s\<lparr>as_current_step := as_current_step s + 1, as_updated_at := now\<rparr>)
      else if overflow_checks ext then None
      else Some (s\<lparr>as_current_step := 0, as_updated_at := now\<rparr>))"

definition agent_mark_preflight :: "time \<Rightarrow> time \<Rightarrow> agent_state \<Rightarrow> agent_state" where
  "agent_mark_preflight now now' s =
     s\<lparr>as_status := AgentPreflight,
       as_started_at := (case as_started_at s of None \<Rightarrow> Some now | Some t \<Rightarrow> Some t),
       as_updated_at := now'\<rparr>"

definition agent_mark_clarifying :: "time \<Rightarrow> agent_state \<Rightarrow> agent_state" where
  "agent_mark_clarifying now s = s\<lparr>as_status := AgentClarifying, as_updated_at := now\<rparr>"

definition agent_mark_plan_approval_needed :: "time \<Rightarrow> agent_state \<Rightarrow> agent_state" where
  "agent_mark_plan_approval_needed now s = s\<lparr>as_status := AgentPlanApprovalNeeded, as_updated_at := now\<rparr>"

definition agent_mark_running :: "time \<Rightarrow> agent_state \<Rightarrow> agent_state" where
  "agent_mark_running now s = s\<lparr>as_status := AgentRunning, as_updated_at := now\<rparr>"

definition agent_mark_waiting :: "time \<Rightarrow> time \<Rightarrow> agent_state \<Rightarrow> agent_state" where
  "agent_mark_waiting next_run now s =
     s\<lparr>as_status := AgentWaiting, as_next_run := next_run, as_updated_at := now\<rparr>"

definition agent_mark_delegating :: "string list \<Rightarrow> time \<Rightarrow> agent_state \<Rightarrow> agent_state" where
  "agent_mark_delegating child_ids now s =
     s\<lparr>as_status := AgentDelegating, as_pending_children := child_ids, as_updated_at := now\<rparr>"

definition agent_mark_completed :: "time \<Rightarrow> agent_state \<Rightarrow> agent_state" where
  "agent_mark_completed now s = s\<lparr>as_status := AgentCompleted, as_updated_at := now\<rparr>"

definition agent_mark_failed :: "time \<Rightarrow> agent_state \<Rightarrow> agent_state" where
  "agent_mark_failed now s = s\<lparr>as_status := AgentFailed, as_updated_at := now\<rparr>"

definition set_metadata :: "string \<Rightarrow> json \<Rightarrow> agent_state \<Rightarrow> agent_state option" where
  "set_metadata k v s = map_option (\<lambda>m. s\<lparr>as_metadata := m\<rparr>) (json_set k v (as_metadata s))"

definition agent_mark_partially_complete :: "string \<Rightarrow> json \<Rightarrow> time \<Rightarrow> agent_state \<Rightarrow> agent_state option" where
  "agent_mark_partially_complete note result now s =
     Option.bind (set_metadata ''partial_completion_note'' (JString note) (s\<lparr>as_status := AgentCompleted\<rparr>)) (\<lambda>s1.
     Option.bind (set_metadata ''partial_completion_result'' result s1) (\<lambda>s2.
     Some (s2\<lparr>as_updated_at := now\<rparr>)))"

definition final_answer :: "agent_state \<Rightarrow> string option" where
  "final_answer s =
     (case as_final_answer s of
        Some a \<Rightarrow> Some a
      | None \<Rightarrow> Option.bind (json_get ''final_answer'' (as_metadata s)) as_str)"

definition set_final_answer :: "string \<Rightarrow> time \<Rightarrow> agent_state \<Rightarrow> agent_state option" where
  "set_final_answer answer now s =
     (let answer = trim answer in
      if answer = [] then Some s
      else map_option (\<lambda>s. s\<lparr>as_updated_at := now\<rparr>)
        (set_metadata ''final_answer'' (JString answer) (s\<lparr>as_final_answer := Some answer\<rparr>)))"

definition clear_final_answer :: "time \<Rightarrow> agent_state \<Rightarrow> agent_state" where
  "clear_final_answer now s =
     s\<lparr>as_final_answer := None, as_metadata := json_remove ''final_answer'' (as_metadata s), as_updated_at := now\<rparr>"

text \<open>The text of an instant (RFC 3339) is a parameter.\<close>

definition checkpoint_value :: "(time \<Rightarrow> string) \<Rightarrow> string \<Rightarrow> nat \<Rightarrow> nat \<Rightarrow> string \<Rightarrow> time \<Rightarrow> json" where
  "checkpoint_value rfc3339 tid attempt step_index status now = obj_of_list
     [(''task_id'', JString tid), (''attempt'', JNumber (PosInt attempt)),
      (''step_index'', JNumber (PosInt step_index)), (''status'', JString status),
      (''recorded_at'', JString (rfc3339 now))]"

definition set_execution_checkpoint ::
  "(time \<Rightarrow> string) \<Rightarrow> string \<Rightarrow> nat \<Rightarrow> nat \<Rightarrow> string \<Rightarrow> time \<Rightarrow> time \<Rightarrow> agent_state \<Rightarrow> agent_state option" where
  "set_execution_checkpoint rfc3339 tid attempt step_index status now now' s =
     map_option (\<lambda>s. s\<lparr>as_updated_at := now'\<rparr>)
       (set_metadata ''execution_checkpoint'' (checkpoint_value rfc3339 tid attempt step_index status now) s)"

definition clear_execution_checkpoint :: "time \<Rightarrow> agent_state \<Rightarrow> agent_state" where
  "clear_execution_checkpoint now s =
     s\<lparr>as_metadata := json_remove ''execution_checkpoint'' (as_metadata s), as_updated_at := now\<rparr>"

definition is_child :: "agent_state \<Rightarrow> bool" where
  "is_child s = (as_parent_agent_id s \<noteq> None)"

section \<open>Goal instances\<close>

datatype goal_instance_status =
    GiPending | GiRunning | GiCompleted | GiPartiallyComplete | GiFailed | GiCancelled

datatype trigger_source =
    WebhookTrigger string string "string option"
  | ScheduleTrigger string time
  | UserMessageTrigger string string
  | ManualTrigger string
  | WorkforceEventTrigger string string

record goal_instance =
  gi_id :: string
  gi_tenant_id :: string
  gi_agent_id :: string
  gi_role_id :: string
  gi_role_version :: nat
  gi_input_data :: json
  gi_status :: goal_instance_status
  gi_result :: "json option"
  gi_failure_reason :: "string option"
  gi_trigger_source :: trigger_source
  gi_is_test :: bool
  gi_cost_usd :: rat
  gi_human_hours_saved :: rat
  gi_human_cost_saved_usd :: rat
  gi_agent_state_id :: "string option"
  gi_triggered_by_goal_instance_id :: "string option"
  gi_current_step :: nat
  gi_total_steps :: nat
  gi_last_message :: "string option"
  gi_created_at :: time
  gi_updated_at :: time
  gi_completed_at :: "time option"

definition goal_instance_new ::
  "string \<Rightarrow> string \<Rightarrow> string \<Rightarrow> string \<Rightarrow> nat \<Rightarrow> json \<Rightarrow> trigger_source \<Rightarrow> bool \<Rightarrow> time \<Rightarrow> goal_instance" where
  "goal_instance_new gid tenant_id agent_id role_id role_version input_data source is_test now =
     \<lparr>gi_id = gid, gi_tenant_id = tenant_id, gi_agent_id = agent_id, gi_role_id = role_id,
      gi_role_version = role_version, gi_input_data = input_data, gi_status = GiPending, gi_result = None,
      gi_failure_reason = None, gi_trigger_source = source, gi_is_test = is_test, gi_cost_usd = 0,
      gi_human_hours_saved = 0, gi_human_cost_saved_usd = 0, gi_agent_state_id = None,
      gi_triggered_by_goal_instance_id = None, gi_current_step = 0, gi_total_steps = 0,
      gi_last_message = None, gi_created_at = now, gi_updated_at = now, gi_completed_at = None\<rparr>"

definition gi_mark_running :: "string \<Rightarrow> time \<Rightarrow> goal_instance \<Rightarrow> goal_instance" where
  "gi_mark_running agent_state_id now g =
     g\<lparr>gi_status := GiRunning, gi_agent_state_id := Some agent_state_id, gi_updated_at := now\<rparr>"

definition gi_mark_completed :: "json \<Rightarrow> time \<Rightarrow> goal_instance \<Rightarrow> goal_instance" where
  "gi_mark_completed result now g =
     g\<lparr>gi_status := GiCompleted, gi_result := Some result, gi_updated_at := now, gi_completed_at := Some now\<rparr>"

definition gi_mark_failed :: "string \<Rightarrow> time \<Rightarrow> goal_instance \<Rightarrow> goal_instance" where
  "gi_mark_failed reason now g =
     g\<lparr>gi_status := GiFailed, gi_failure_reason := Some reason, gi_updated_at := now, gi_completed_at := Some now\<rparr>"

definition gi_mark_partially_complete :: "string \<Rightarrow> json \<Rightarrow> time \<Rightarrow> goal_instance \<Rightarrow> goal_instance" where
  "gi_mark_partially_complete note partial_result now g =
     g\<lparr>gi_status := GiPartiallyComplete, gi_failure_reason := Some note, gi_result := Some partial_result,
       gi_updated_at := now, gi_completed_at := Some now\<rparr>"

definition gi_add_cost :: "rat \<Rightarrow> time \<Rightarrow> goal_instance \<Rightarrow> goal_instance" where
  "gi_add_cost delta_usd now g = g\<lparr>gi_cost_usd := f64_add (gi_cost_usd g) delta_usd, gi_updated_at := now\<rparr>"

definition gi_is_terminal :: "goal_instance \<Rightarrow> bool" where
  "gi_is_terminal g = (gi_status g \<in> {GiCompleted, GiFailed, GiCancelled})"

record workforce_event_payload =
  wp_tenant_id :: string
  wp_agent_id :: string
  wp_agent_name :: string
  wp_role_id :: string
  wp_role_name :: string
  wp_goal_instance_id :: string
  wp_status :: string
  wp_output_data :: json
  wp_failure_reason :: "string option"
  wp_emitted_at :: time

fun event_status :: "goal_instance_status \<Rightarrow> string" where
  "event_status GiCompleted = ''completed''"
| "event_status GiFailed = ''failed''"
| "event_status GiCancelled = ''cancelled''"
| "event_status _ = ''unknown''"

definition to_workforce_event :: "string \<Rightarrow> string \<Rightarrow> time \<Rightarrow> goal_instance \<Rightarrow> workforce_event_payload" where
  "to_workforce_event agent_name role_name now g =
     \<lparr>wp_tenant_id = gi_tenant_id g, wp_agent_id = gi_agent_id g, wp_agent_name = agent_name,
      wp_role_id = gi_role_id g, wp_role_name = role_name, wp_goal_instance_id = gi_id g,
      wp_status = event_status (gi_status g),
      wp_output_data = (case gi_result g of Some r \<Rightarrow> r | None \<Rightarrow> JNull),
      wp_failure_reason = gi_failure_reason g, wp_emitted_at = now\<rparr>"

section \<open>Goals\<close>

datatype goal_status = GoalOpen | GoalInProgress | GoalCompleted | GoalFailed

record goal_state =
  gs_id :: string
  gs_tenant_id :: string
  gs_description :: string
  gs_status :: goal_status
  gs_agent_ids :: "string list"
  gs_created_at :: time
  gs_updated_at :: time

definition goal_state_new :: "string \<Rightarrow> string \<Rightarrow> string \<Rightarrow> time \<Rightarrow> goal_state" where
  "goal_state_new gid tenant_id description now =
     \<lparr>gs_id = gid, gs_tenant_id = tenant_id, gs_description = description, gs_status = GoalOpen,
      gs_agent_ids = [], gs_created_at = now, gs_updated_at = now\<rparr>"

definition gs_add_agent :: "string \<Rightarrow> time \<Rightarrow> goal_state \<Rightarrow> goal_state" where
  "gs_add_agent agent_id now g = g\<lparr>gs_agent_ids := gs_agent_ids g @ [agent_id], gs_updated_at := now\<rparr>"

definition gs_mark_in_progress :: "time \<Rightarrow> goal_state \<Rightarrow> goal_state" where
  "gs_mark_in_progress now g = g\<lparr>gs_status := GoalInProgress, gs_updated_at := now\<rparr>"

definition gs_mark_completed :: "time \<Rightarrow> goal_state \<Rightarrow> goal_state" where
  "gs_mark_completed now g = g\<lparr>gs_status := GoalCompleted, gs_updated_at := now\<rparr>"

section \<open>Session tasks and messages\<close>

datatype session_task_status = TaskPending | TaskInProgress | TaskBlocked | TaskCompleted | TaskFailed | TaskStopped

datatype session_task_result_status = ResultComplete | ResultPartial | ResultFailed

record session_task_output =
  to_status :: session_task_result_status
  to_artifacts :: "string list"
  to_findings :: "string list"
  to_confidence :: rat
  to_note :: "string option"

definition default_confidence :: rat where
  "default_confidence = 1"

record session_task =
  st_id :: string
  st_tenant_id :: string
  st_agent_id :: string
  st_subject :: string
  st_description :: string
  st_status :: session_task_status
  st_owner :: "string option"
  st_blocked_by :: "string list"
  st_blocks :: "string list"
  st_metadata :: json
  st_output :: "session_task_output option"
  st_created_at :: time
  st_updated_at :: time
  st_completed_at :: "time option"

definition session_task_new :: "string \<Rightarrow> string \<Rightarrow> string \<Rightarrow> string \<Rightarrow> string \<Rightarrow> time \<Rightarrow> session_task" where
  "session_task_new tid tenant_id agent_id subject description now =
     \<lparr>st_id = tid, st_tenant_id = tenant_id, st_agent_id = agent_id, st_subject = subject,
      st_description = description, st_status = TaskPending, st_owner = None, st_blocked_by = [],
      st_blocks = [], st_metadata = JObject [], st_output = None, st_created_at = now,
      st_updated_at = now, st_completed_at = None\<rparr>"

definition task_finished :: "session_task_status \<Rightarrow> bool" where
  "task_finished status = (status \<in> {TaskCompleted, TaskFailed, TaskStopped})"

definition set_status :: "session_task_status \<Rightarrow> time \<Rightarrow> session_task \<Rightarrow> session_task" where
  "set_status status now t =
     t\<lparr>st_status := status, st_updated_at := now,
       st_completed_at := (if task_finished status then Some now else None)\<rparr>"

definition set_output :: "session_task_output \<Rightarrow> time \<Rightarrow> session_task \<Rightarrow> session_task" where
  "set_output output now t = t\<lparr>st_output := Some output, st_updated_at := now\<rparr>"

datatype agent_message_kind = UpdateMessage | ResultMessage | QuestionMessage | InstructionMessage

record agent_message =
  am_id :: string
  am_tenant_id :: string
  am_sender_agent_id :: string
  am_recipient_agent_id :: string
  am_message_kind :: agent_message_kind
  am_subject :: string
  am_body :: string
  am_task_id :: "string option"
  am_step_index :: "nat option"
  am_result_contract :: "session_task_output option"
  am_metadata :: json
  am_created_at :: time
  am_delivered_at :: "time option"

definition agent_message_new ::
  "string \<Rightarrow> string \<Rightarrow> string \<Rightarrow> string \<Rightarrow> agent_message_kind \<Rightarrow> string \<Rightarrow> string \<Rightarrow> time \<Rightarrow> agent_message" where
  "agent_message_new mid tenant_id sender recipient kind subject body now =
     \<lparr>am_id = mid, am_tenant_id = tenant_id, am_sender_agent_id = sender,
      am_recipient_agent_id = recipient, am_message_kind = kind, am_subject = subject,
      am_body = body, am_task_id = None, am_step_index = None, am_result_contract = None,
      am_metadata = JObject [], am_created_at = now, am_delivered_at = None\<rparr>"

definition has_result_contract :: "agent_message \<Rightarrow> bool" where
  "has_result_contract m = (am_result_contract m \<noteq> None)"

definition mark_delivered :: "time \<Rightarrow> agent_message \<Rightarrow> agent_message" where
  "mark_delivered now m = m\<lparr>am_delivered_at := Some now\<rparr>"

end
