(* ===== verification/Agent_Store.thy ===== *)
theory Agent_Store
  imports Agent_State Dag_Store
begin

text \<open>
  The tables of agents, goal instances, session tasks and messages (\<open>storage/postgres.rs\<close>): their
  rows, the conversions, and each statement as its SQL does it.  As for the workflow store, a JSON
  column holds the value itself, integers are cast to and from 32-bit columns, instants are read
  back with the resolution of the column.  \<open>NOW()\<close> is an argument.  A row that another transaction
  has locked is one that \<open>FOR UPDATE SKIP LOCKED\<close> passes over; rows with equal sort keys are taken
  in table order.
\<close>

section \<open>Statuses as text\<close>

fun status_to_str :: "agent_status \<Rightarrow> string" where
  "status_to_str AgentPending = ''pending''"
| "status_to_str AgentPreflight = ''preflight''"
| "status_to_str AgentClarifying = ''clarifying''"
| "status_to_str AgentPlanApprovalNeeded = ''plan_approval_needed''"
| "status_to_str AgentRunning = ''running''"
| "status_to_str AgentWaiting = ''waiting''"
| "status_to_str AgentDelegating = ''delegating''"
| "status_to_str AgentCompleted = ''completed''"
| "status_to_str AgentFailed = ''failed''"
| "status_to_str AgentPaused = ''paused''"

definition str_to_status :: "string \<Rightarrow> agent_status" where
  "str_to_status s =
     (if s = ''preflight'' then AgentPreflight
      else if s = ''clarifying'' then AgentClarifying
      else if s = ''plan_approval_needed'' then AgentPlanApprovalNeeded
      else if s = ''running'' then AgentRunning
      else if s = ''waiting'' then AgentWaiting
      else if s = ''delegating'' then AgentDelegating
      else if s = ''completed'' then AgentCompleted
      else if s = ''failed'' then AgentFailed
      else if s = ''paused'' then AgentPaused
      else AgentPending)"

fun goal_instance_status_to_str :: "goal_instance_status \<Rightarrow> string" where
  "goal_instance_status_to_str GiPending = ''pending''"
| "goal_instance_status_to_str GiRunning = ''running''"
| "goal_instance_status_to_str GiCompleted = ''completed''"
| "goal_instance_status_to_str GiPartiallyComplete = ''partially_complete''"
| "goal_instance_status_to_str GiFailed = ''failed''"
| "goal_instance_status_to_str GiCancelled = ''cancelled''"

definition str_to_goal_instance_status :: "string \<Rightarrow> goal_instance_status" where
  "str_to_goal_instance_status s =
     (if s = ''running'' then GiRunning
      else if s = ''completed'' then GiCompleted
      else if s = ''partially_complete'' then GiPartiallyComplete
      else if s = ''failed'' then GiFailed
      else if s = ''cancelled'' then GiCancelled
      else GiPending)"

fun session_task_status_to_str :: "session_task_status \<Rightarrow> string" where
  "session_task_status_to_str TaskPending = ''pending''"
| "session_task_status_to_str TaskInProgress = ''in_progress''"
| "session_task_status_to_str TaskBlocked = ''blocked''"
| "session_task_status_to_str TaskCompleted = ''completed''"
| "session_task_status_to_str TaskFailed = ''failed''"
| "session_task_status_to_str TaskStopped = ''stopped''"

definition str_to_session_task_status :: "string \<Rightarrow> session_task_status" where
  "str_to_session_task_status s =
     (if s = ''in_progress'' then TaskInProgress
      else if s = ''blocked'' then TaskBlocked
      else if s = ''completed'' then TaskCompleted
      else if s = ''failed'' then TaskFailed
      else if s = ''stopped'' then TaskStopped
      else TaskPending)"

fun agent_message_kind_to_str :: "agent_message_kind \<Rightarrow> string" where
  "agent_message_kind_to_str UpdateMessage = ''update''"
| "agent_message_kind_to_str ResultMessage = ''result''"
| "agent_message_kind_to_str QuestionMessage = ''question''"
| "agent_message_kind_to_str InstructionMessage = ''instruction''"

definition str_to_agent_message_kind :: "string \<Rightarrow> agent_message_kind" where
  "str_to_agent_message_kind s =
     (if s = ''result'' then ResultMessage
      else if s = ''question'' then QuestionMessage
      else if s = ''instruction'' then InstructionMessage
      else UpdateMessage)"

section \<open>Agents\<close>

record agent_row =
  ag_id :: string
  ag_tenant_id :: string
  ag_goal :: string
  ag_status :: string
  ag_current_task :: "string option"
  ag_current_step :: int
  ag_workspace_path :: string
  ag_memory_ref :: "string option"
  ag_next_run :: time
  ag_created_at :: time
  ag_updated_at :: time
  ag_started_at :: "time option"
  ag_plan :: "plan option"
  ag_final_answer :: "string option"
  ag_metadata :: json
  ag_parent_agent_id :: "string option"
  ag_pending_children :: "string list"
  ag_conversation_id :: "string option"
  ag_plan_rejection_count :: int
  ag_claimed_by :: "string option"
  ag_lease_expires_at :: "time option"
  ag_workflow_id :: "string option"

definition agent_row_of :: "externals \<Rightarrow> agent_state \<Rightarrow> agent_row" where
  "agent_row_of ext s =
     \<lparr>ag_id = as_id s, ag_tenant_id = as_tenant_id s, ag_goal = as_goal s,
      ag_status = status_to_str (as_status s), ag_current_task = as_current_task s,
      ag_current_step = to_i32 (as_current_step s), ag_workspace_path = as_workspace_path s,
      ag_memory_ref = as_memory_ref s, ag_next_run = db_time ext (as_next_run s),
      ag_created_at = db_time ext (as_created_at s), ag_updated_at = db_time ext (as_updated_at s),
      ag_started_at = map_option (db_time ext) (as_started_at s), ag_plan = as_plan s,
      ag_final_answer = as_final_answer s, ag_metadata = as_metadata s,
      ag_parent_agent_id = as_parent_agent_id s, ag_pending_children = as_pending_children s,
      ag_conversation_id = as_conversation_id s,
      ag_plan_rejection_count = to_i32 (as_plan_rejection_count s), ag_claimed_by = as_claimed_by s,
      ag_lease_expires_at = map_option (db_time ext) (as_lease_expires_at s),
      ag_workflow_id = as_workflow_id s\<rparr>"

definition row_to_agent_state :: "agent_row \<Rightarrow> agent_state" where
  "row_to_agent_state r =
     \<lparr>as_id = ag_id r, as_tenant_id = ag_tenant_id r, as_goal = ag_goal r,
      as_status = str_to_status (ag_status r), as_current_task = ag_current_task r,
      as_current_step = i32_to_u32 (ag_current_step r), as_workspace_path = ag_workspace_path r,
      as_memory_ref = ag_memory_ref r, as_next_run = ag_next_run r, as_created_at = ag_created_at r,
      as_updated_at = ag_updated_at r, as_started_at = ag_started_at r, as_plan = ag_plan r,
      as_final_answer = coalesce (ag_final_answer r)
        (Option.bind (json_get ''final_answer'' (ag_metadata r)) as_str),
      as_metadata = ag_metadata r, as_parent_agent_id = ag_parent_agent_id r,
      as_pending_children = ag_pending_children r, as_conversation_id = ag_conversation_id r,
      as_plan_rejection_count = i32_to_u32 (ag_plan_rejection_count r),
      as_claimed_by = ag_claimed_by r, as_lease_expires_at = ag_lease_expires_at r,
      as_workflow_id = ag_workflow_id r\<rparr>"

text \<open>\<open>ON CONFLICT (id)\<close>: the tenant, the creation time and the parent stay, and a start time once
  set stays.\<close>

definition merge_agent_row :: "agent_row \<Rightarrow> agent_row \<Rightarrow> agent_row" where
  "merge_agent_row old new =
     new\<lparr>ag_tenant_id := ag_tenant_id old, ag_created_at := ag_created_at old,
         ag_parent_agent_id := ag_parent_agent_id old,
         ag_started_at := coalesce (ag_started_at old) (ag_started_at new)\<rparr>"

definition upsert_agent :: "externals \<Rightarrow> agent_state \<Rightarrow> agent_row list \<Rightarrow> agent_row list" where
  "upsert_agent ext s rows =
     (let new = agent_row_of ext s in
      if as_id s \<in> ag_id ` set rows
      then map (\<lambda>r. if ag_id r = as_id s then merge_agent_row r new else r) rows
      else rows @ [new])"

definition get_agent :: "string \<Rightarrow> string \<Rightarrow> agent_row list \<Rightarrow> agent_state option" where
  "get_agent tenant_id aid rows =
     map_option row_to_agent_state (find (\<lambda>r. ag_id r = aid \<and> ag_tenant_id r = tenant_id) rows)"

definition get_agent_internal :: "string \<Rightarrow> agent_row list \<Rightarrow> agent_state option" where
  "get_agent_internal aid rows = map_option row_to_agent_state (find (\<lambda>r. ag_id r = aid) rows)"

definition list_agents :: "string \<Rightarrow> agent_row list \<Rightarrow> agent_state list" where
  "list_agents tenant_id rows =
     map row_to_agent_state (take 100 (sort_key (\<lambda>r. - ag_created_at r)
       (filter (\<lambda>r. ag_tenant_id r = tenant_id) rows)))"

definition claimable :: "time \<Rightarrow> agent_row \<Rightarrow> bool" where
  "claimable now r \<longleftrightarrow> ag_next_run r \<le> now
     \<and> (ag_status r \<in> {''pending'', ''waiting''}
        \<or> ag_status r = ''running''
          \<and> (case ag_lease_expires_at r of None \<Rightarrow> True | Some t \<Rightarrow> t < now))"

definition claimed_ids :: "(string \<Rightarrow> bool) \<Rightarrow> nat \<Rightarrow> time \<Rightarrow> agent_row list \<Rightarrow> string list" where
  "claimed_ids locked limit now rows =
     map ag_id (take limit (sort_key ag_next_run
       (filter (\<lambda>r. claimable now r \<and> \<not> locked (ag_id r)) rows)))"

definition claim_row :: "string \<Rightarrow> int \<Rightarrow> time \<Rightarrow> agent_row \<Rightarrow> agent_row" where
  "claim_row worker_id lease_secs now r =
     r\<lparr>ag_status := ''running'', ag_claimed_by := Some worker_id,
       ag_lease_expires_at := Some (now + secs lease_secs), ag_updated_at := now\<rparr>"

definition claim_due_agents ::
  "(string \<Rightarrow> bool) \<Rightarrow> string \<Rightarrow> int \<Rightarrow> nat \<Rightarrow> time \<Rightarrow> agent_row list \<Rightarrow> agent_state list \<times> agent_row list" where
  "claim_due_agents locked worker_id lease_secs limit now rows =
     (let ids = claimed_ids locked limit now rows;
          rows' = map (\<lambda>r. if ag_id r \<in> set ids then claim_row worker_id lease_secs now r else r) rows
      in (map row_to_agent_state (filter (\<lambda>r. ag_id r \<in> set ids) rows'), rows'))"

definition renew_lease :: "string \<Rightarrow> string \<Rightarrow> int \<Rightarrow> time \<Rightarrow> agent_row list \<Rightarrow> bool \<times> agent_row list" where
  "renew_lease agent_id worker_id lease_secs now rows =
     (let hit = (\<lambda>r. ag_id r = agent_id \<and> ag_claimed_by r = Some worker_id)
      in (list_ex hit rows,
          map (\<lambda>r. if hit r then r\<lparr>ag_lease_expires_at := Some (now + secs lease_secs), ag_updated_at := now\<rparr> else r) rows))"

definition release_lease :: "string \<Rightarrow> string \<Rightarrow> time \<Rightarrow> agent_row list \<Rightarrow> agent_row list" where
  "release_lease agent_id worker_id now rows =
     map (\<lambda>r. if ag_id r = agent_id \<and> ag_claimed_by r = Some worker_id
       then r\<lparr>ag_claimed_by := None, ag_lease_expires_at := None, ag_updated_at := now\<rparr> else r) rows"

definition children_done :: "agent_row list \<Rightarrow> agent_row \<Rightarrow> bool" where
  "children_done rows a \<longleftrightarrow>
     \<not> list_ex (\<lambda>child. ag_id child \<in> set (ag_pending_children a)
        \<and> ag_status child \<notin> {''completed'', ''failed''}) rows"

definition resolve_delegating_agents :: "nat \<Rightarrow> agent_row list \<Rightarrow> agent_state list" where
  "resolve_delegating_agents limit rows =
     map row_to_agent_state (take limit (filter (\<lambda>a. ag_status a = ''delegating''
       \<and> length (ag_pending_children a) > 0 \<and> children_done rows a) rows))"

definition get_agent_children :: "string \<Rightarrow> string \<Rightarrow> agent_row list \<Rightarrow> agent_state list" where
  "get_agent_children tenant_id parent_id rows =
     map row_to_agent_state (sort_key ag_created_at
       (filter (\<lambda>r. ag_parent_agent_id r = Some parent_id \<and> ag_tenant_id r = tenant_id) rows))"

definition update_agent ::
  "string \<Rightarrow> string \<Rightarrow> (agent_row \<Rightarrow> agent_row) \<Rightarrow> time \<Rightarrow> agent_row list \<Rightarrow> agent_row list" where
  "update_agent tenant_id agent_id f now rows =
     map (\<lambda>r. if ag_id r = agent_id \<and> ag_tenant_id r = tenant_id then (f r)\<lparr>ag_updated_at := now\<rparr> else r) rows"

definition update_agent_plan :: "string \<Rightarrow> string \<Rightarrow> plan \<Rightarrow> time \<Rightarrow> agent_row list \<Rightarrow> agent_row list" where
  "update_agent_plan tenant_id agent_id p = update_agent tenant_id agent_id (\<lambda>r. r\<lparr>ag_plan := Some p\<rparr>)"

definition update_agent_metadata :: "string \<Rightarrow> string \<Rightarrow> json \<Rightarrow> time \<Rightarrow> agent_row list \<Rightarrow> agent_row list" where
  "update_agent_metadata tenant_id agent_id metadata =
     update_agent tenant_id agent_id (\<lambda>r. r\<lparr>ag_metadata := metadata\<rparr>)"

definition update_agent_status :: "string \<Rightarrow> string \<Rightarrow> string \<Rightarrow> time \<Rightarrow> agent_row list \<Rightarrow> agent_row list" where
  "update_agent_status tenant_id agent_id status =
     update_agent tenant_id agent_id (\<lambda>r. r\<lparr>ag_status := status\<rparr>)"

definition count_active_agents :: "string \<Rightarrow> agent_row list \<Rightarrow> nat" where
  "count_active_agents tenant_id rows = length (filter (\<lambda>r. ag_tenant_id r = tenant_id
     \<and> ag_status r \<in> {''pending'', ''waiting'', ''running'', ''clarifying'', ''delegating''}) rows)"

section \<open>Goal instances\<close>

record goal_instance_row =
  gr_id :: string
  gr_tenant_id :: string
  gr_agent_id :: string
  gr_role_id :: string
  gr_role_version :: int
  gr_input_data :: json
  gr_status :: string
  gr_result :: "json option"
  gr_failure_reason :: "string option"
  gr_trigger_source :: trigger_source
  gr_is_test :: bool
  gr_cost_usd :: rat
  gr_human_hours_saved :: rat
  gr_human_cost_saved_usd :: rat
  gr_agent_state_id :: "string option"
  gr_triggered_by_goal_instance_id :: "string option"
  gr_created_at :: time
  gr_updated_at :: time
  gr_completed_at :: "time option"
  gr_current_step :: int
  gr_total_steps :: int
  gr_last_message :: "string option"

text \<open>The insertion leaves the two columns of savings at their default.\<close>

definition goal_instance_row_of :: "externals \<Rightarrow> goal_instance \<Rightarrow> goal_instance_row" where
  "goal_instance_row_of ext g =
     \<lparr>gr_id = gi_id g, gr_tenant_id = gi_tenant_id g, gr_agent_id = gi_agent_id g, gr_role_id = gi_role_id g,
      gr_role_version = to_i32 (gi_role_version g), gr_input_data = gi_input_data g,
      gr_status = goal_instance_status_to_str (gi_status g), gr_result = gi_result g,
      gr_failure_reason = gi_failure_reason g, gr_trigger_source = gi_trigger_source g,
      gr_is_test = gi_is_test g, gr_cost_usd = gi_cost_usd g, gr_human_hours_saved = 0,
      gr_human_cost_saved_usd = 0, gr_agent_state_id = gi_agent_state_id g,
      gr_triggered_by_goal_instance_id = gi_triggered_by_goal_instance_id g,
      gr_created_at = db_time ext (gi_created_at g), gr_updated_at = db_time ext (gi_updated_at g),
      gr_completed_at = map_option (db_time ext) (gi_completed_at g),
      gr_current_step = to_i32 (gi_current_step g), gr_total_steps = to_i32 (gi_total_steps g),
      gr_last_message = gi_last_message g\<rparr>"

definition row_to_goal_instance :: "goal_instance_row \<Rightarrow> goal_instance" where
  "row_to_goal_instance r =
     \<lparr>gi_id = gr_id r, gi_tenant_id = gr_tenant_id r, gi_agent_id = gr_agent_id r, gi_role_id = gr_role_id r,
      gi_role_version = i32_to_u32 (gr_role_version r), gi_input_data = gr_input_data r,
      gi_status = str_to_goal_instance_status (gr_status r), gi_result = gr_result r,
      gi_failure_reason = gr_failure_reason r, gi_trigger_source = gr_trigger_source r,
      gi_is_test = gr_is_test r, gi_cost_usd = gr_cost_usd r, gi_human_hours_saved = gr_human_hours_saved r,
      gi_human_cost_saved_usd = gr_human_cost_saved_usd r, gi_agent_state_id = gr_agent_state_id r,
      gi_triggered_by_goal_instance_id = gr_triggered_by_goal_instance_id r,
      gi_current_step = i32_to_u32 (gr_current_step r), gi_total_steps = i32_to_u32 (gr_total_steps r),
      gi_last_message = gr_last_message r, gi_created_at = gr_created_at r, gi_updated_at = gr_updated_at r,
      gi_completed_at = gr_completed_at r\<rparr>"

definition merge_goal_instance_row :: "goal_instance_row \<Rightarrow> goal_instance_row \<Rightarrow> goal_instance_row" where
  "merge_goal_instance_row old new =
     old\<lparr>gr_status := gr_status new, gr_result := gr_result new, gr_failure_reason := gr_failure_reason new,
         gr_cost_usd := gr_cost_usd new, gr_agent_state_id := gr_agent_state_id new,
         gr_updated_at := gr_updated_at new, gr_completed_at := gr_completed_at new,
         gr_current_step := gr_current_step new, gr_total_steps := gr_total_steps new,
         gr_last_message := gr_last_message new\<rparr>"

definition upsert_goal_instance ::
  "externals \<Rightarrow> goal_instance \<Rightarrow> goal_instance_row list \<Rightarrow> goal_instance_row list" where
  "upsert_goal_instance ext g rows =
     (let new = goal_instance_row_of ext g in
      if gi_id g \<in> gr_id ` set rows
      then map (\<lambda>r. if gr_id r = gi_id g then merge_goal_instance_row r new else r) rows
      else rows @ [new])"

definition get_goal_instance :: "string \<Rightarrow> string \<Rightarrow> goal_instance_row list \<Rightarrow> goal_instance option" where
  "get_goal_instance tenant_id gid rows =
     map_option row_to_goal_instance (find (\<lambda>r. gr_id r = gid \<and> gr_tenant_id r = tenant_id) rows)"

definition update_goal_instance ::
  "string \<Rightarrow> string \<Rightarrow> (goal_instance_row \<Rightarrow> goal_instance_row) \<Rightarrow> time
     \<Rightarrow> goal_instance_row list \<Rightarrow> goal_instance_row list" where
  "update_goal_instance tenant_id gid f now rows =
     map (\<lambda>r. if gr_id r = gid \<and> gr_tenant_id r = tenant_id then (f r)\<lparr>gr_updated_at := now\<rparr> else r) rows"

definition update_goal_instance_result ::
  "string \<Rightarrow> string \<Rightarrow> json \<Rightarrow> time \<Rightarrow> goal_instance_row list \<Rightarrow> goal_instance_row list" where
  "update_goal_instance_result tenant_id gid result =
     update_goal_instance tenant_id gid (\<lambda>r. r\<lparr>gr_result := Some result\<rparr>)"

definition update_goal_instance_savings ::
  "string \<Rightarrow> string \<Rightarrow> rat \<Rightarrow> rat \<Rightarrow> time \<Rightarrow> goal_instance_row list \<Rightarrow> goal_instance_row list" where
  "update_goal_instance_savings tenant_id gid hours cost =
     update_goal_instance tenant_id gid (\<lambda>r. r\<lparr>gr_human_hours_saved := hours, gr_human_cost_saved_usd := cost\<rparr>)"

section \<open>Session tasks\<close>

record session_task_row =
  sk_id :: string
  sk_tenant_id :: string
  sk_agent_id :: string
  sk_subject :: string
  sk_description :: string
  sk_status :: string
  sk_owner :: "string option"
  sk_blocked_by :: "string list"
  sk_blocks :: "string list"
  sk_metadata :: json
  sk_output :: "session_task_output option"
  sk_created_at :: time
  sk_updated_at :: time
  sk_completed_at :: "time option"

definition session_task_row_of :: "externals \<Rightarrow> session_task \<Rightarrow> session_task_row" where
  "session_task_row_of ext t =
     \<lparr>sk_id = st_id t, sk_tenant_id = st_tenant_id t, sk_agent_id = st_agent_id t, sk_subject = st_subject t,
      sk_description = st_description t, sk_status = session_task_status_to_str (st_status t),
      sk_owner = st_owner t, sk_blocked_by = st_blocked_by t, sk_blocks = st_blocks t,
      sk_metadata = st_metadata t, sk_output = st_output t, sk_created_at = db_time ext (st_created_at t),
      sk_updated_at = db_time ext (st_updated_at t),
      sk_completed_at = map_option (db_time ext) (st_completed_at t)\<rparr>"

definition row_to_session_task :: "session_task_row \<Rightarrow> session_task" where
  "row_to_session_task r =
     \<lparr>st_id = sk_id r, st_tenant_id = sk_tenant_id r, st_agent_id = sk_agent_id r, st_subject = sk_subject r,
      st_description = sk_description r, st_status = str_to_session_task_status (sk_status r),
      st_owner = sk_owner r, st_blocked_by = sk_blocked_by r, st_blocks = sk_blocks r,
      st_metadata = sk_metadata r, st_output = sk_output r, st_created_at = sk_created_at r,
      st_updated_at = sk_updated_at r, st_completed_at = sk_completed_at r\<rparr>"

definition upsert_session_task :: "externals \<Rightarrow> session_task \<Rightarrow> session_task_row list \<Rightarrow> session_task_row list" where
  "upsert_session_task ext t rows =
     (let new = session_task_row_of ext t in
      if st_id t \<in> sk_id ` set rows
      then map (\<lambda>r. if sk_id r = st_id t
        then new\<lparr>sk_tenant_id := sk_tenant_id r, sk_agent_id := sk_agent_id r, sk_created_at := sk_created_at r\<rparr>
        else r) rows
      else rows @ [new])"

definition get_session_task :: "string \<Rightarrow> string \<Rightarrow> session_task_row list \<Rightarrow> session_task option" where
  "get_session_task tenant_id tid rows =
     map_option row_to_session_task (find (\<lambda>r. sk_tenant_id r = tenant_id \<and> sk_id r = tid) rows)"

definition list_session_tasks_for_agent :: "string \<Rightarrow> string \<Rightarrow> session_task_row list \<Rightarrow> session_task list" where
  "list_session_tasks_for_agent tenant_id agent_id rows =
     map row_to_session_task (sort_key sk_created_at (sort_key sk_updated_at
       (filter (\<lambda>r. sk_tenant_id r = tenant_id \<and> sk_agent_id r = agent_id) rows)))"

section \<open>Messages\<close>

record agent_message_row =
  mr_id :: string
  mr_tenant_id :: string
  mr_sender_agent_id :: string
  mr_recipient_agent_id :: string
  mr_message_kind :: string
  mr_subject :: string
  mr_body :: string
  mr_task_id :: "string option"
  mr_step_index :: "int option"
  mr_result_contract :: "session_task_output option"
  mr_metadata :: json
  mr_created_at :: time
  mr_delivered_at :: "time option"

definition agent_message_row_of :: "externals \<Rightarrow> agent_message \<Rightarrow> agent_message_row" where
  "agent_message_row_of ext m =
     \<lparr>mr_id = am_id m, mr_tenant_id = am_tenant_id m, mr_sender_agent_id = am_sender_agent_id m,
      mr_recipient_agent_id = am_recipient_agent_id m,
      mr_message_kind = agent_message_kind_to_str (am_message_kind m), mr_subject = am_subject m,
      mr_body = am_body m, mr_task_id = am_task_id m, mr_step_index = map_option to_i32 (am_step_index m),
      mr_result_contract = am_result_contract m, mr_metadata = am_metadata m,
      mr_created_at = db_time ext (am_created_at m),
      mr_delivered_at = map_option (db_time ext) (am_delivered_at m)\<rparr>"

definition row_to_agent_message :: "agent_message_row \<Rightarrow> agent_message" where
  "row_to_agent_message r =
     \<lparr>am_id = mr_id r, am_tenant_id = mr_tenant_id r, am_sender_agent_id = mr_sender_agent_id r,
      am_recipient_agent_id = mr_recipient_agent_id r,
      am_message_kind = str_to_agent_message_kind (mr_message_kind r), am_subject = mr_subject r,
      am_body = mr_body r, am_task_id = mr_task_id r, am_step_index = map_option i32_to_u32 (mr_step_index r),
      am_result_contract = mr_result_contract r, am_metadata = mr_metadata r,
      am_created_at = mr_created_at r, am_delivered_at = mr_delivered_at r\<rparr>"

definition create_agent_message :: "externals \<Rightarrow> agent_message \<Rightarrow> agent_message_row list \<Rightarrow> agent_message_row list" where
  "create_agent_message ext m rows =
     (let new = agent_message_row_of ext m in
      if am_id m \<in> mr_id ` set rows
      then map (\<lambda>r. if mr_id r = am_id m
        then new\<lparr>mr_tenant_id := mr_tenant_id r, mr_sender_agent_id := mr_sender_agent_id r,
                 mr_recipient_agent_id := mr_recipient_agent_id r, mr_created_at := mr_created_at r\<rparr>
        else r) rows
      else rows @ [new])"

definition undelivered :: "string \<Rightarrow> string \<Rightarrow> agent_message_row \<Rightarrow> bool" where
  "undelivered tenant_id recipient r \<longleftrightarrow>
     mr_tenant_id r = tenant_id \<and> mr_recipient_agent_id r = recipient \<and> mr_delivered_at r = None"

definition list_undelivered_agent_messages :: "string \<Rightarrow> string \<Rightarrow> agent_message_row list \<Rightarrow> agent_message list" where
  "list_undelivered_agent_messages tenant_id recipient rows =
     map row_to_agent_message (sort_key mr_created_at (filter (undelivered tenant_id recipient) rows))"

definition list_agent_inbox_messages ::
  "string \<Rightarrow> string \<Rightarrow> bool \<Rightarrow> nat \<Rightarrow> agent_message_row list \<Rightarrow> agent_message list" where
  "list_agent_inbox_messages tenant_id recipient undelivered_only limit rows =
     map row_to_agent_message (take limit (sort_key (\<lambda>r. - mr_created_at r) (filter (\<lambda>r.
       if undelivered_only then undelivered tenant_id recipient r
       else mr_tenant_id r = tenant_id \<and> mr_recipient_agent_id r = recipient) rows)))"

definition mark_agent_message_delivered_for_recipient ::
  "string \<Rightarrow> string \<Rightarrow> string \<Rightarrow> time \<Rightarrow> agent_message_row list \<Rightarrow> bool \<times> agent_message_row list" where
  "mark_agent_message_delivered_for_recipient tenant_id recipient mid now rows =
     (let hit = (\<lambda>r. mr_tenant_id r = tenant_id \<and> mr_id r = mid \<and> mr_recipient_agent_id r = recipient)
      in (list_ex hit rows, map (\<lambda>r. if hit r then r\<lparr>mr_delivered_at := Some now\<rparr> else r) rows))"

definition count_undelivered_agent_messages :: "string \<Rightarrow> string \<Rightarrow> agent_message_row list \<Rightarrow> nat" where
  "count_undelivered_agent_messages tenant_id recipient rows =
     length (filter (undelivered tenant_id recipient) rows)"

definition mark_agent_message_delivered :: "string \<Rightarrow> string \<Rightarrow> time \<Rightarrow> agent_message_row list \<Rightarrow> agent_message_row list" where
  "mark_agent_message_delivered tenant_id mid now rows =
     map (\<lambda>r. if mr_tenant_id r = tenant_id \<and> mr_id r = mid then r\<lparr>mr_delivered_at := Some now\<rparr> else r) rows"

section \<open>Round trips\<close>

lemma str_to_status_roundtrip [simp]: "str_to_status (status_to_str s) = s"
  by (cases s) (simp_all add: str_to_status_def)

lemma str_to_goal_instance_status_roundtrip [simp]:
  "str_to_goal_instance_status (goal_instance_status_to_str s) = s"
  by (cases s) (simp_all add: str_to_goal_instance_status_def)

lemma str_to_session_task_status_roundtrip [simp]:
  "str_to_session_task_status (session_task_status_to_str s) = s"
  by (cases s) (simp_all add: str_to_session_task_status_def)

lemma str_to_agent_message_kind_roundtrip [simp]: "str_to_agent_message_kind (agent_message_kind_to_str k) = k"
  by (cases k) (simp_all add: str_to_agent_message_kind_def)

text \<open>What the columns can hold: instants at the resolution of the database, counters of 31 bits.\<close>

definition storable_agent :: "externals \<Rightarrow> agent_state \<Rightarrow> bool" where
  "storable_agent ext s \<longleftrightarrow> as_current_step s < 2 ^ 31 \<and> as_plan_rejection_count s < 2 ^ 31
     \<and> db_time ext (as_next_run s) = as_next_run s \<and> db_time ext (as_created_at s) = as_created_at s
     \<and> db_time ext (as_updated_at s) = as_updated_at s
     \<and> map_option (db_time ext) (as_started_at s) = as_started_at s
     \<and> map_option (db_time ext) (as_lease_expires_at s) = as_lease_expires_at s"

lemma agent_row_roundtrip:
  "storable_agent ext s \<Longrightarrow> row_to_agent_state (agent_row_of ext s) = s\<lparr>as_final_answer := final_answer s\<rparr>"
  by (simp add: storable_agent_def row_to_agent_state_def agent_row_of_def i32_roundtrip final_answer_def
      split: option.split)

lemma find_append_fresh: "k \<notin> key ` set rows \<Longrightarrow> find (\<lambda>r. key r = k) (rows @ [r]) = (if key r = k then Some r else None)"
  by (induction rows) auto

lemma merge_agent_row_roundtrip:
  assumes "storable_agent ext s"
  shows "row_to_agent_state (merge_agent_row old (agent_row_of ext s)) =
    s\<lparr>as_tenant_id := ag_tenant_id old, as_created_at := ag_created_at old,
      as_parent_agent_id := ag_parent_agent_id old,
      as_started_at := coalesce (ag_started_at old) (as_started_at s), as_final_answer := final_answer s\<rparr>"
  using assms by (simp add: storable_agent_def row_to_agent_state_def agent_row_of_def merge_agent_row_def
      i32_roundtrip final_answer_def split: option.split)

text \<open>Saving an agent and loading it gives back the saved state.  The answer reads the same whether it
  was kept in its column or in the metadata, and an agent that was stored before keeps its tenant, its
  creation time, its parent and the start time it had.\<close>

theorem agent_roundtrip:
  assumes "storable_agent ext s"
  shows "get_agent_internal (as_id s) (upsert_agent ext s rows) = Some
    (case get_agent_internal (as_id s) rows of
       None \<Rightarrow> s\<lparr>as_final_answer := final_answer s\<rparr>
     | Some old \<Rightarrow> s\<lparr>as_tenant_id := as_tenant_id old, as_created_at := as_created_at old,
         as_parent_agent_id := as_parent_agent_id old,
         as_started_at := coalesce (as_started_at old) (as_started_at s), as_final_answer := final_answer s\<rparr>)"
proof (cases "as_id s \<in> ag_id ` set rows")
  case True
  then obtain old where old: "find (\<lambda>r. ag_id r = as_id s) rows = Some old"
    by (metis find_key_eq_None_iff option.exhaust)
  then have "find (\<lambda>r. ag_id r = as_id s) (upsert_agent ext s rows) = Some (merge_agent_row old (agent_row_of ext s))"
    using True by (simp add: upsert_agent_def Let_def)
      (induction rows, auto simp: merge_agent_row_def agent_row_of_def split: if_splits)
  with old show ?thesis
    by (simp add: get_agent_internal_def merge_agent_row_roundtrip [OF assms]) (simp add: row_to_agent_state_def)
next
  case False
  then have "find (\<lambda>r. ag_id r = as_id s) rows = None" by (simp add: find_key_eq_None_iff)
  moreover from False have "find (\<lambda>r. ag_id r = as_id s) (upsert_agent ext s rows) = Some (agent_row_of ext s)"
    by (simp add: upsert_agent_def find_append_fresh) (simp add: agent_row_of_def)
  ultimately show ?thesis by (simp add: get_agent_internal_def agent_row_roundtrip [OF assms])
qed

section \<open>Leases\<close>

text \<open>Worker \<open>w\<close> holds agent \<open>a\<close> at least until instant \<open>u\<close>.\<close>

definition held :: "string \<Rightarrow> string \<Rightarrow> time \<Rightarrow> agent_row list \<Rightarrow> bool" where
  "held a w u rows \<longleftrightarrow> (\<forall>r\<in>set rows. ag_id r = a \<longrightarrow> ag_status r = ''running'' \<and> ag_claimed_by r = Some w
     \<and> (case ag_lease_expires_at r of Some t \<Rightarrow> u \<le> t | None \<Rightarrow> False))"

text \<open>The statements that other workers issue on the table while the lease of \<open>w\<close> on \<open>a\<close> runs: claims,
  renewals and releases of leases, upserts of other agents, and the renewals of \<open>w\<close> itself.\<close>

inductive others_act :: "externals \<Rightarrow> string \<Rightarrow> string \<Rightarrow> time \<Rightarrow> agent_row list \<Rightarrow> agent_row list \<Rightarrow> bool"
  for ext a w u where
  none: "others_act ext a w u rows rows"
| claim: "others_act ext a w u rows rows1 \<Longrightarrow> now \<le> u \<Longrightarrow>
    claim_due_agents locked w' d limit now rows1 = (claimed, rows2) \<Longrightarrow> others_act ext a w u rows rows2"
| renew: "others_act ext a w u rows rows1 \<Longrightarrow> a' \<noteq> a \<or> w' \<noteq> w \<or> u \<le> now + secs d \<Longrightarrow>
    renew_lease a' w' d now rows1 = (ok, rows2) \<Longrightarrow> others_act ext a w u rows rows2"
| release: "others_act ext a w u rows rows1 \<Longrightarrow> a' \<noteq> a \<or> w' \<noteq> w \<Longrightarrow>
    others_act ext a w u rows (release_lease a' w' now rows1)"
| upsert: "others_act ext a w u rows rows1 \<Longrightarrow> as_id s \<noteq> a \<Longrightarrow>
    others_act ext a w u rows (upsert_agent ext s rows1)"

lemma held_not_claimable: "held a w u rows \<Longrightarrow> now \<le> u \<Longrightarrow> r \<in> set rows \<Longrightarrow> ag_id r = a \<Longrightarrow> \<not> claimable now r"
  by (force simp: held_def claimable_def split: option.splits)

lemma claimed_idsD:
  "i \<in> set (claimed_ids locked limit now rows) \<Longrightarrow> \<exists>r\<in>set rows. ag_id r = i \<and> claimable now r \<and> \<not> locked i"
  by (auto simp: claimed_ids_def dest!: in_set_takeD)

lemma held_not_claimed: "held a w u rows \<Longrightarrow> now \<le> u \<Longrightarrow> a \<notin> set (claimed_ids locked limit now rows)"
  using held_not_claimable claimed_idsD by blast

lemma ag_id_claim_row [simp]: "ag_id (claim_row w d now r) = ag_id r"
  by (simp add: claim_row_def)

lemma held_map:
  assumes "held a w u rows" "\<And>r. r \<in> set rows \<Longrightarrow> ag_id (f r) = ag_id r"
    and "\<And>r. r \<in> set rows \<Longrightarrow> ag_id r = a \<Longrightarrow> ag_status (f r) = ag_status r \<and> ag_claimed_by (f r) = ag_claimed_by r
      \<and> (ag_lease_expires_at (f r) = ag_lease_expires_at r
        \<or> (case ag_lease_expires_at (f r) of Some t \<Rightarrow> u \<le> t | None \<Rightarrow> False))"
  shows "held a w u (map f rows)"
  using assms unfolding held_def by (fastforce simp: ball_simps)

lemma held_claim:
  assumes "held a w u rows" "now \<le> u" "claim_due_agents locked w' d limit now rows = (claimed, rows')"
  shows "held a w u rows'"
  using assms(3) held_not_claimed [OF assms(1,2), of locked limit]
  by (auto simp: claim_due_agents_def Let_def intro!: held_map [OF assms(1)])

lemma held_renew:
  assumes "held a w u rows" "a' \<noteq> a \<or> w' \<noteq> w \<or> u \<le> now + secs d" "renew_lease a' w' d now rows = (ok, rows')"
  shows "held a w u rows'"
proof -
  have "rows' = map (\<lambda>r. if ag_id r = a' \<and> ag_claimed_by r = Some w'
      then r\<lparr>ag_lease_expires_at := Some (now + secs d), ag_updated_at := now\<rparr> else r) rows"
    using assms(3) by (auto simp: renew_lease_def Let_def)
  moreover have "ag_claimed_by r = Some w" if "r \<in> set rows" "ag_id r = a" for r
    using assms(1) that by (simp add: held_def)
  ultimately show ?thesis using assms(2)
    by (auto intro!: held_map [OF assms(1)])
qed

lemma held_release: "held a w u rows \<Longrightarrow> a' \<noteq> a \<or> w' \<noteq> w \<Longrightarrow> held a w u (release_lease a' w' now rows)"
  unfolding release_lease_def by (rule held_map) (auto simp: held_def)

lemma held_upsert:
  assumes "held a w u rows" "as_id s \<noteq> a"
  shows "held a w u (upsert_agent ext s rows)"
proof (cases "as_id s \<in> ag_id ` set rows")
  case True
  have "held a w u (map (\<lambda>r. if ag_id r = as_id s then merge_agent_row r (agent_row_of ext s) else r) rows)"
    by (rule held_map [OF assms(1)]) (use assms(2) in \<open>auto simp: merge_agent_row_def agent_row_of_def\<close>)
  with True show ?thesis by (simp add: upsert_agent_def)
next
  case False
  with assms show ?thesis by (simp add: upsert_agent_def held_def agent_row_of_def)
qed

lemma others_act_held: "others_act ext a w u rows rows' \<Longrightarrow> held a w u rows \<Longrightarrow> held a w u rows'"
  by (induction rule: others_act.induct) (auto intro: held_claim held_renew held_release held_upsert)

lemma claim_holds:
  assumes "claim_due_agents locked w d limit now rows = (claimed, rows')" "s \<in> set claimed"
  shows "held (as_id s) w (now + secs d) rows'"
proof -
  from assms have "as_id s \<in> set (claimed_ids locked limit now rows)"
    by (auto simp: claim_due_agents_def Let_def row_to_agent_state_def)
  with assms(1) show ?thesis
    by (auto simp: claim_due_agents_def Let_def held_def claim_row_def)
qed

text \<open>A claimed agent is not handed out again while its lease runs.  Whatever claims, lease renewals
  and releases of other workers and saves of other agents happen in between, a claim before the lease
  expires does not return the agent, for any worker, limit and set of locked rows.\<close>

theorem lease_excludes_claims:
  assumes "claim_due_agents locked w d limit now rows = (claimed, rows1)" "s \<in> set claimed"
    and "others_act ext (as_id s) w (now + secs d) rows1 rows2" "now' \<le> now + secs d"
  shows "as_id s \<notin> as_id ` set (fst (claim_due_agents locked' w' d' limit' now' rows2))"
proof -
  from others_act_held [OF assms(3) claim_holds [OF assms(1,2)]]
  have "held (as_id s) w (now + secs d) rows2" .
  from held_not_claimed [OF this assms(4)] show ?thesis
    by (auto simp: claim_due_agents_def Let_def row_to_agent_state_def)
qed

text \<open>The lease is only as long as it is: an agent that is still waiting in the queue when it expires is
  handed out a second time.\<close>

theorem expired_lease_claimed_again:
  assumes "ag_next_run r \<le> now'" "now + secs d < now'" "\<not> locked (ag_id r)"
  shows "ag_id r \<in> as_id ` set (fst (claim_due_agents locked w' d' 1 now' [claim_row w d now r]))"
  using assms
  by (simp add: claim_due_agents_def claimed_ids_def claimable_def row_to_agent_state_def)
    (simp add: claim_row_def)

section \<open>Delegation\<close>

text \<open>With a large enough batch the agents to wake up are exactly the delegating agents with children,
  none of which is stored with a status other than completed or failed; a child that is not stored
  does not hold its parent back.\<close>

theorem woken_exactly:
  "s \<in> set (resolve_delegating_agents (length rows) rows) \<longleftrightarrow>
   (\<exists>a\<in>set rows. s = row_to_agent_state a \<and> ag_status a = ''delegating'' \<and> ag_pending_children a \<noteq> []
      \<and> {c \<in> set rows. ag_id c \<in> set (ag_pending_children a)} \<subseteq> {c. ag_status c \<in> {''completed'', ''failed''}})"
proof -
  have "take (length rows) (filter P rows) = filter P rows" for P
    by (simp add: length_filter_le)
  then show ?thesis
    by (auto simp: resolve_delegating_agents_def children_done_def list_ex_iff)
qed

section \<open>Witnesses\<close>

definition sample_agent :: agent_state where
  "sample_agent = agent_new ''a1'' ''t1'' ''g'' ''/ws'' 0"

lemma storable_sample_agent: "storable_agent sample_ext sample_agent"
  by (simp add: storable_agent_def sample_agent_def agent_new_def sample_ext_def)

theorem agent_roundtrip_witness:
  "get_agent_internal ''a1'' (upsert_agent sample_ext sample_agent []) = Some sample_agent"
  using agent_roundtrip [OF storable_sample_agent, of "[]"]
  by (simp add: get_agent_internal_def sample_agent_def agent_new_def final_answer_def)

abbreviation sample_row :: agent_row where
  "sample_row \<equiv> agent_row_of sample_ext sample_agent"

lemma sample_claim:
  "claim_due_agents (\<lambda>_. False) ''w1'' 60 5 0 [sample_row]
   = ([row_to_agent_state (claim_row ''w1'' 60 0 sample_row)], [claim_row ''w1'' 60 0 sample_row])"
  by (simp add: claim_due_agents_def claimed_ids_def claimable_def)
    (simp add: agent_row_of_def sample_agent_def agent_new_def sample_ext_def)

theorem lease_excludes_claims_witness:
  "''a1'' \<notin> as_id ` set (fst (claim_due_agents (\<lambda>_. False) ''w2'' 60 5 (secs 30) [claim_row ''w1'' 60 0 sample_row]))"
proof -
  have "as_id (row_to_agent_state (claim_row ''w1'' 60 0 sample_row)) = ''a1''"
    by (simp add: row_to_agent_state_def) (simp add: agent_row_of_def sample_agent_def agent_new_def)
  with lease_excludes_claims [OF sample_claim _ others_act.none, of "row_to_agent_state (claim_row ''w1'' 60 0 sample_row)"
      "secs 30" "\<lambda>_. False" "''w2''" 60 5]
  show ?thesis by (simp add: secs_def nanos_per_sec_def)
qed

end
