(* ===== verification/Workforce.thy ===== *)
theory Workforce
  imports Agent_Definition Agent_Store
begin

text \<open>
  Workforce events (\<open>events/workforce.rs\<close> and the event type of \<open>agent/definition.rs\<close>): the filter
  expressions, the mapping of an event to input data, the subscriptions and their table
  (\<open>storage/postgres.rs\<close>), the dispatcher and the synchronisation of a role's subscription.  Fresh
  identifiers come from a function of the position of the subscription; whether a row could be
  saved is an argument, because the dispatcher only logs a failure.
\<close>

section \<open>Text helpers\<close>

text \<open>\<open>split\<close> with a string separator.\<close>

function split_str :: "'a list \<Rightarrow> 'a list \<Rightarrow> 'a list list" where
  "split_str p s =
     (if p = [] then [s]
      else case str_find p s of
        None \<Rightarrow> [s]
      | Some i \<Rightarrow> take i s # split_str p (drop (i + length p) s))"
  by pat_completeness auto
termination
proof (relation "measure (\<lambda>(p, s). length s)", goal_cases)
  case (2 p s i)
  then show ?case using str_find_SomeD [of p s i] by (cases p) auto
qed simp

declare split_str.simps [simp del]

definition split_once_str :: "'a list \<Rightarrow> 'a list \<Rightarrow> ('a list \<times> 'a list) option" where
  "split_once_str p s = map_option (\<lambda>i. (take i s, drop (i + length p) s)) (str_find p s)"

definition trim_matches :: "'a \<Rightarrow> 'a list \<Rightarrow> 'a list" where
  "trim_matches c s = trim_end_matches c (dropWhile (\<lambda>x. x = c) s)"

lemma str_find_first:
  assumes "p \<noteq> []" "\<not> str_contains p (a @ butlast p)"
  shows "str_find p (a @ p @ b) = Some (length a)"
proof (rule str_find_Some_firstI [OF assms(1) refl], intro allI impI notI)
  fix j assume j: "j < length a" and "starts_with p (drop j (a @ p @ b))"
  then obtain t where t: "drop j a @ p @ b = p @ t" by (auto simp: starts_with_split)
  have "take (length p) (drop j a @ p @ b) = p" by (simp add: t)
  moreover have "take (length p) (drop j a @ p @ b) = take (length p) (drop j a @ butlast p)"
  proof -
    have "length p \<le> length (drop j a @ butlast p)" using j by simp
    moreover have "drop j a @ p @ b = (drop j a @ butlast p) @ (last p # b)"
      using assms(1) by (metis append.assoc append_Cons append_Nil append_butlast_last_id)
    moreover have "take n (xs @ ys) = take n xs" if "n \<le> length xs" for n and xs ys :: "'a list"
      using that by simp
    ultimately show ?thesis by metis
  qed
  ultimately have "drop j a @ butlast p = p @ drop (length p) (drop j a @ butlast p)"
    by (metis append_take_drop_id)
  then have "a @ butlast p = take j a @ p @ drop (length p) (drop j a @ butlast p)"
    by (metis append.assoc append_take_drop_id)
  with assms show False using str_contains_iff by blast
qed

lemma split_str_join:
  assumes "p \<noteq> []" "ws \<noteq> []" "\<forall>w\<in>set ws. \<not> str_contains p (w @ butlast p)"
  shows "split_str p (join_with p ws) = ws"
  using assms(2,3)
proof (induction ws)
  case (Cons w ws)
  have none: "str_find p w = None"
  proof (rule ccontr)
    assume "str_find p w \<noteq> None"
    then obtain u v where "w = u @ p @ v" using str_contains_iff [OF assms(1)] by (auto simp: str_contains_def)
    then have "str_contains p (w @ butlast p)" using str_contains_iff [OF assms(1)] by fastforce
    with Cons.prems show False by simp
  qed
  show ?case
  proof (cases "ws = []")
    case True
    with none assms(1) show ?thesis by (subst split_str.simps) simp
  next
    case False
    then have j: "join_with p (w # ws) = w @ p @ join_with p ws" by (cases ws) simp_all
    have "str_find p (join_with p (w # ws)) = Some (length w)"
      unfolding j using Cons.prems assms(1) by (intro str_find_first) simp_all
    with j assms(1) Cons False show ?thesis by (subst split_str.simps) simp
  qed
qed simp

section \<open>Events\<close>

definition event_field :: "workforce_event_payload \<Rightarrow> string \<Rightarrow> string option" where
  "event_field ev field =
     (if field = ''role_name'' then Some (wp_role_name ev)
      else if field = ''agent_name'' then Some (wp_agent_name ev)
      else if field = ''status'' then Some (wp_status ev)
      else if field = ''role_id'' then Some (wp_role_id ev)
      else if field = ''agent_id'' then Some (wp_agent_id ev)
      else None)"

definition QUOTE :: char where "QUOTE = CHR 0x27"
definition DQUOTE :: char where "DQUOTE = CHR 0x22"

definition matches_clause :: "workforce_event_payload \<Rightarrow> string \<Rightarrow> bool" where
  "matches_clause ev clause =
     (case split_once_str '' == '' (trim clause) of
        None \<Rightarrow> False
      | Some (l, r) \<Rightarrow>
          event_field ev (trim l) = Some (trim_matches DQUOTE (trim_matches QUOTE (trim r))))"

definition matches_filter :: "workforce_event_payload \<Rightarrow> string \<Rightarrow> bool" where
  "matches_filter ev expr = list_all (matches_clause ev) (split_str '' AND '' expr)"

definition event_to_value :: "(time \<Rightarrow> string) \<Rightarrow> workforce_event_payload \<Rightarrow> json" where
  "event_to_value rfc3339 ev = obj_of_list
     [(''tenant_id'', JString (wp_tenant_id ev)), (''agent_id'', JString (wp_agent_id ev)),
      (''agent_name'', JString (wp_agent_name ev)), (''role_id'', JString (wp_role_id ev)),
      (''role_name'', JString (wp_role_name ev)), (''goal_instance_id'', JString (wp_goal_instance_id ev)),
      (''status'', JString (wp_status ev)), (''output_data'', wp_output_data ev),
      (''failure_reason'', case wp_failure_reason ev of Some r \<Rightarrow> JString r | None \<Rightarrow> JNull),
      (''emitted_at'', JString (rfc3339 (wp_emitted_at ev)))]"

fun follow :: "string list \<Rightarrow> json \<Rightarrow> json option" where
  "follow [] value = Some value"
| "follow (segment # segments) value = Option.bind (json_get segment value) (follow segments)"

definition resolve_jsonpath :: "json \<Rightarrow> string \<Rightarrow> json option" where
  "resolve_jsonpath value path =
     follow (split_on CHR ''.'' (case strip_prefix ''$.'' path of Some p \<Rightarrow> p | None \<Rightarrow> path)) value"

definition apply_mapping :: "(time \<Rightarrow> string) \<Rightarrow> workforce_event_payload \<Rightarrow> json \<Rightarrow> json" where
  "apply_mapping rfc3339 ev mapping =
     (case as_object mapping of
        None \<Rightarrow> JObject []
      | Some obj \<Rightarrow> JObject (fold (\<lambda>(key, path_val) result.
          case Option.bind (as_str path_val) (resolve_jsonpath (event_to_value rfc3339 ev)) of
            Some extracted \<Rightarrow> obj_insert key extracted result
          | None \<Rightarrow> result) obj []))"

section \<open>Subscriptions\<close>

record workforce_event_subscription =
  ws_id :: string
  ws_tenant_id :: string
  ws_subscriber_role_id :: string
  ws_subscriber_agent_id :: string
  ws_event_filter :: string
  ws_input_mapping :: json
  ws_active :: bool
  ws_created_at :: time

type_synonym subscription_table = "workforce_event_subscription list"

definition upsert_workforce_subscription ::
  "workforce_event_subscription \<Rightarrow> subscription_table \<Rightarrow> subscription_table" where
  "upsert_workforce_subscription sub rows =
     (if ws_id sub \<in> ws_id ` set rows
      then map (\<lambda>r. if ws_id r = ws_id sub
        then r\<lparr>ws_event_filter := ws_event_filter sub, ws_input_mapping := ws_input_mapping sub,
               ws_active := ws_active sub\<rparr> else r) rows
      else rows @ [sub])"

definition list_active_workforce_subscriptions :: "string \<Rightarrow> subscription_table \<Rightarrow> subscription_table" where
  "list_active_workforce_subscriptions tenant_id rows = filter (\<lambda>r. ws_tenant_id r = tenant_id \<and> ws_active r) rows"

definition deactivate_workforce_subscription :: "string \<Rightarrow> string \<Rightarrow> subscription_table \<Rightarrow> subscription_table" where
  "deactivate_workforce_subscription tenant_id sid rows =
     map (\<lambda>r. if ws_id r = sid \<and> ws_tenant_id r = tenant_id then r\<lparr>ws_active := False\<rparr> else r) rows"

definition get_agent_role :: "string \<Rightarrow> string \<Rightarrow> agent_role list \<Rightarrow> agent_role option" where
  "get_agent_role tenant_id rid roles = find (\<lambda>r. ro_id r = rid \<and> ro_tenant_id r = tenant_id) roles"

section \<open>Dispatch\<close>

record workforce_world =
  ww_roles :: "agent_role list"
  ww_subscriptions :: subscription_table
  ww_goal_instances :: "goal_instance_row list"
  ww_agents :: "agent_row list"

definition event_goal_instance ::
  "(time \<Rightarrow> string) \<Rightarrow> string \<Rightarrow> time \<Rightarrow> workforce_event_payload \<Rightarrow> workforce_event_subscription \<Rightarrow> agent_role
     \<Rightarrow> goal_instance" where
  "event_goal_instance rfc3339 uuid now ev sub role =
     goal_instance_new uuid (wp_tenant_id ev) (ws_subscriber_agent_id sub) (ws_subscriber_role_id sub)
       (ro_version role) (apply_mapping rfc3339 ev (ws_input_mapping sub))
       (WorkforceEventTrigger (wp_goal_instance_id ev) (wp_role_name ev)) False now"

text \<open>The role that a subscription triggers for an event, if any.\<close>

definition triggered_role ::
  "agent_role list \<Rightarrow> workforce_event_payload \<Rightarrow> workforce_event_subscription \<Rightarrow> agent_role option" where
  "triggered_role roles ev sub =
     (if ws_subscriber_role_id sub = wp_role_id ev then None
      else if \<not> matches_filter ev (ws_event_filter sub) then None
      else case get_agent_role (wp_tenant_id ev) (ws_subscriber_role_id sub) roles of
        None \<Rightarrow> None
      | Some role \<Rightarrow> if role_is_live role then Some role else None)"

fun dispatch_loop ::
  "externals \<Rightarrow> (time \<Rightarrow> string) \<Rightarrow> (string \<Rightarrow> string) \<Rightarrow> time \<Rightarrow> (goal_instance \<Rightarrow> bool) \<Rightarrow> workforce_event_payload
     \<Rightarrow> agent_role list \<Rightarrow> workforce_event_subscription list \<Rightarrow> nat \<times> goal_instance_row list \<Rightarrow> nat \<times> goal_instance_row list" where
  "dispatch_loop ext rfc3339 uuid now saved ev roles [] st = st"
| "dispatch_loop ext rfc3339 uuid now saved ev roles (sub # subs) st =
     dispatch_loop ext rfc3339 uuid now saved ev roles subs
       (case triggered_role roles ev sub of
          None \<Rightarrow> st
        | Some role \<Rightarrow>
            let gi = event_goal_instance rfc3339 (uuid (ws_id sub)) now ev sub role
            in if saved gi then (fst st + 1, upsert_goal_instance ext gi (snd st)) else st)"

definition dispatch ::
  "externals \<Rightarrow> (time \<Rightarrow> string) \<Rightarrow> (string \<Rightarrow> string) \<Rightarrow> time \<Rightarrow> (goal_instance \<Rightarrow> bool) \<Rightarrow> workforce_event_payload
     \<Rightarrow> workforce_world \<Rightarrow> nat \<times> workforce_world" where
  "dispatch ext rfc3339 uuid now saved ev w =
     (let subs = list_active_workforce_subscriptions (wp_tenant_id ev) (ww_subscriptions w);
          r = dispatch_loop ext rfc3339 uuid now saved ev (ww_roles w) subs (0, ww_goal_instances w)
      in (fst r, w\<lparr>ww_goal_instances := snd r\<rparr>))"

definition sync_subscriptions_for_role :: "agent_role \<Rightarrow> time \<Rightarrow> subscription_table \<Rightarrow> subscription_table" where
  "sync_subscriptions_for_role role now rows =
     (let sub_id = ''wfsub-'' @ ro_id role in
      if td_trigger_type (ro_trigger role) = WorkforceEventType \<and> ro_status role \<in> {RoleActive, RoleTesting} then
        let event_filter = (case td_workforce_event_filter (ro_trigger role) of Some f \<Rightarrow> f | None \<Rightarrow> []) in
        if event_filter = [] then rows
        else upsert_workforce_subscription
          \<lparr>ws_id = sub_id, ws_tenant_id = ro_tenant_id role, ws_subscriber_role_id = ro_id role,
           ws_subscriber_agent_id = ro_agent_id role, ws_event_filter = event_filter,
           ws_input_mapping = (case td_input_mapping (ro_trigger role) of Some m \<Rightarrow> m | None \<Rightarrow> JObject []),
           ws_active = True, ws_created_at = now\<rparr> rows
      else deactivate_workforce_subscription (ro_tenant_id role) sub_id rows)"

definition build_event ::
  "agent_definition list \<Rightarrow> agent_role list \<Rightarrow> time \<Rightarrow> goal_instance \<Rightarrow> workforce_event_payload option" where
  "build_event definitions roles now gi =
     Option.bind (find (\<lambda>d. ad_id d = gi_agent_id gi \<and> ad_tenant_id d = gi_tenant_id gi) definitions) (\<lambda>d.
     Option.bind (get_agent_role (gi_tenant_id gi) (gi_role_id gi) roles) (\<lambda>role.
     Some (to_workforce_event (ad_name d) (ro_name role) now gi)))"

section \<open>Filters\<close>

definition clause :: "string \<times> string \<Rightarrow> string" where
  "clause fv = fst fv @ '' == '' @ QUOTE # snd fv @ [QUOTE]"

definition filter_fields :: "string list" where
  "filter_fields = [''role_name'', ''agent_name'', ''status'', ''role_id'', ''agent_id'']"

text \<open>The clauses a filter can be made of: a known field, a value that neither begins nor ends with a
  quotation mark and does not contain the separator.\<close>

definition clause_ok :: "string \<times> string \<Rightarrow> bool" where
  "clause_ok fv \<longleftrightarrow> fst fv \<in> set filter_fields
     \<and> (snd fv \<noteq> [] \<longrightarrow> hd (snd fv) \<notin> {QUOTE, DQUOTE} \<and> last (snd fv) \<notin> {QUOTE, DQUOTE})
     \<and> \<not> str_contains '' AND '' (clause fv @ '' AND'')"

lemma dropWhile_other_head: "s = [] \<or> hd s \<noteq> c \<Longrightarrow> dropWhile (\<lambda>x. x = c) s = s"
  by (cases s) simp_all

lemma trim_end_matches_bare: "s = [] \<or> last s \<noteq> c \<Longrightarrow> trim_end_matches c s = s"
  using dropWhile_other_head [of "rev s" c] by (auto simp: trim_end_matches_def hd_rev)

lemma trim_end_matches_snoc: "s = [] \<or> last s \<noteq> c \<Longrightarrow> trim_end_matches c (s @ [c]) = s"
  using trim_end_matches_bare [of s c] by (simp add: trim_end_matches_def)

lemma trim_matches_bare: "v \<noteq> [] \<Longrightarrow> hd v \<noteq> c \<Longrightarrow> last v \<noteq> c \<Longrightarrow> trim_matches c v = v"
  by (simp add: trim_matches_def dropWhile_other_head trim_end_matches_bare)

lemma trim_matches_quoted:
  assumes "v \<noteq> []" "hd v \<noteq> c" "last v \<noteq> c"
  shows "trim_matches c (c # v @ [c]) = v"
proof -
  have "dropWhile (\<lambda>x. x = c) (v @ [c]) = v @ [c]" using assms by (intro dropWhile_other_head) (simp add: hd_append)
  then show ?thesis using assms by (simp add: trim_matches_def trim_end_matches_snoc)
qed

lemma trim_matches_quotes_only [simp]: "trim_matches c [c, c] = []" "trim_matches c [] = []"
  by (simp_all add: trim_matches_def trim_end_matches_def)

lemma field_visible: "f \<in> set filter_fields \<Longrightarrow> f \<noteq> [] \<and> visible (hd f) \<and> visible (last f) \<and> CHR '' '' \<notin> set f"
  by (auto simp: filter_fields_def visible_def byte_of_def)

lemma matches_clause_ok:
  assumes "clause_ok fv"
  shows "matches_clause ev (clause fv) \<longleftrightarrow> event_field ev (fst fv) = Some (snd fv)"
proof -
  obtain f v where fv: "fv = (f, v)" by fastforce
  have f: "f \<noteq> []" "visible (hd f)" "visible (last f)" "CHR '' '' \<notin> set f"
    using assms field_visible by (auto simp: clause_ok_def fv)
  have quote: "visible QUOTE" by (simp add: QUOTE_def visible_def byte_of_def)
  have cl: "clause fv = f @ '' == '' @ (QUOTE # v @ [QUOTE])" by (simp add: clause_def fv)
  have "trim (clause fv) = clause fv"
    using f quote by (intro trim_visible) (simp_all add: cl hd_append)
  moreover have "str_find '' == '' (clause fv) = Some (length f)"
    using str_find_skip [OF f(4), of "''== ''" "'' == '' @ (QUOTE # v @ [QUOTE])"] by (simp add: cl)
  then have "split_once_str '' == '' (clause fv) = Some (f, QUOTE # v @ [QUOTE])"
    by (simp add: split_once_str_def cl)
  moreover have "trim f = f" using f by (intro trim_visible)
  moreover have "trim (QUOTE # v @ [QUOTE]) = QUOTE # v @ [QUOTE]"
    using quote by (intro trim_visible) simp_all
  moreover have "trim_matches DQUOTE (trim_matches QUOTE (QUOTE # v @ [QUOTE])) = v"
    using assms by (cases "v = []") (simp_all add: clause_ok_def fv trim_matches_quoted trim_matches_bare)
  ultimately show ?thesis by (simp add: matches_clause_def fv)
qed

text \<open>A filter made of clauses \<open>field == 'value'\<close> joined by \<open>AND\<close> matches an event exactly when
  every named field of the event has the given value.\<close>

theorem filter_expression_meaning:
  assumes "clauses \<noteq> []" "list_all clause_ok clauses"
  shows "matches_filter ev (join_with '' AND '' (map clause clauses)) \<longleftrightarrow>
    list_all (\<lambda>fv. event_field ev (fst fv) = Some (snd fv)) clauses"
proof -
  have "split_str '' AND '' (join_with '' AND '' (map clause clauses)) = map clause clauses"
    using assms by (intro split_str_join) (auto simp: list_all_iff clause_ok_def)
  then show ?thesis
    using assms(2) by (auto simp: matches_filter_def list_all_iff matches_clause_ok)
qed

section \<open>What a dispatch creates\<close>

definition triggered ::
  "(time \<Rightarrow> string) \<Rightarrow> (string \<Rightarrow> string) \<Rightarrow> time \<Rightarrow> workforce_event_payload \<Rightarrow> agent_role list
     \<Rightarrow> workforce_event_subscription list \<Rightarrow> goal_instance list" where
  "triggered rfc3339 uuid now ev roles subs =
     List.map_filter (\<lambda>sub. map_option (event_goal_instance rfc3339 (uuid (ws_id sub)) now ev sub)
       (triggered_role roles ev sub)) subs"

lemma gi_id_event_goal_instance [simp]: "gi_id (event_goal_instance rfc uuid now ev sub role) = uuid"
  by (simp add: event_goal_instance_def goal_instance_new_def)

lemma triggered_simps [simp]:
  "triggered rfc uuid now ev roles [] = []"
  "triggered rfc uuid now ev roles (sub # subs) =
     (case triggered_role roles ev sub of None \<Rightarrow> []
      | Some role \<Rightarrow> [event_goal_instance rfc (uuid (ws_id sub)) now ev sub role])
     @ triggered rfc uuid now ev roles subs"
  by (simp_all add: triggered_def split: option.split)

lemma dispatch_loop_spec:
  assumes "distinct (map (uuid \<circ> ws_id) subs)" "(uuid \<circ> ws_id) ` set subs \<inter> gr_id ` set rows = {}"
  shows "dispatch_loop ext rfc uuid now (\<lambda>_. True) ev roles subs (n, rows) =
    (n + length (triggered rfc uuid now ev roles subs),
     rows @ map (goal_instance_row_of ext) (triggered rfc uuid now ev roles subs))"
  using assms
proof (induction subs arbitrary: n rows)
  case (Cons sub subs)
  show ?case
  proof (cases "triggered_role roles ev sub")
    case None
    with Cons show ?thesis by simp
  next
    case (Some role)
    define gi where "gi = event_goal_instance rfc (uuid (ws_id sub)) now ev sub role"
    have "upsert_goal_instance ext gi rows = rows @ [goal_instance_row_of ext gi]"
      using Cons.prems by (simp add: upsert_goal_instance_def gi_def)
    moreover have "gr_id (goal_instance_row_of ext gi) = uuid (ws_id sub)"
      by (simp add: goal_instance_row_of_def gi_def)
    ultimately show ?thesis
      using Cons.IH [of "rows @ [goal_instance_row_of ext gi]" "n + 1"] Cons.prems Some
      by (auto simp: gi_def [symmetric])
  qed
qed simp

text \<open>A dispatch creates one goal instance for each active subscription of the tenant that listens:
  the subscriber is another role than the one that reported, the filter matches, and the role exists
  and is active; the instances are appended in order, and their number is returned.  Nothing else
  changes, given that the rows can be saved and the new identifiers are fresh.\<close>

theorem dispatch_spec:
  assumes "distinct (map (uuid \<circ> ws_id) (list_active_workforce_subscriptions (wp_tenant_id ev) (ww_subscriptions w)))"
    and "(uuid \<circ> ws_id) ` set (ww_subscriptions w) \<inter> gr_id ` set (ww_goal_instances w) = {}"
  shows "dispatch ext rfc uuid now (\<lambda>_. True) ev w =
    (let new = triggered rfc uuid now ev (ww_roles w)
           (list_active_workforce_subscriptions (wp_tenant_id ev) (ww_subscriptions w))
     in (length new, w\<lparr>ww_goal_instances := ww_goal_instances w @ map (goal_instance_row_of ext) new\<rparr>))"
proof -
  have "(uuid \<circ> ws_id) ` set (list_active_workforce_subscriptions (wp_tenant_id ev) (ww_subscriptions w))
      \<inter> gr_id ` set (ww_goal_instances w) = {}"
    using assms(2) by (auto simp: list_active_workforce_subscriptions_def)
  from dispatch_loop_spec [OF assms(1) this, of ext rfc now ev "ww_roles w" 0]
  show ?thesis by (simp add: dispatch_def Let_def)
qed

text \<open>The created instances are rows of the goal table only.  The poller claims rows of the agent table,
  which a dispatch does not touch: it finds nothing new to run.\<close>

theorem dispatched_instances_not_scheduled:
  "claim_due_agents locked worker lease limit now' (ww_agents (snd (dispatch ext rfc uuid now saved ev w)))
   = claim_due_agents locked worker lease limit now' (ww_agents w)"
  by (simp add: dispatch_def Let_def)

text \<open>A role under test gets a subscription, which no event triggers.\<close>

theorem testing_role_not_triggered:
  assumes "get_agent_role (wp_tenant_id ev) (ws_subscriber_role_id sub) roles = Some role" "ro_status role = RoleTesting"
  shows "triggered_role roles ev sub = None"
  using assms by (simp add: triggered_role_def role_is_live_def)

text \<open>A role whose filter was removed keeps the subscription it had.\<close>

theorem emptied_filter_keeps_subscription:
  assumes "td_trigger_type (ro_trigger role) = WorkforceEventType" "ro_status role = RoleActive"
    "td_workforce_event_filter (ro_trigger role) = None"
  shows "sync_subscriptions_for_role role now rows = rows"
  using assms by (simp add: sync_subscriptions_for_role_def Let_def)

section \<open>Witnesses\<close>

definition sample_event :: workforce_event_payload where
  "sample_event = \<lparr>wp_tenant_id = ''t1'', wp_agent_id = ''ag'', wp_agent_name = ''Sales'', wp_role_id = ''r1'',
     wp_role_name = ''Lead'', wp_goal_instance_id = ''g1'', wp_status = ''completed'', wp_output_data = JObject [],
     wp_failure_reason = None, wp_emitted_at = 0\<rparr>"

lemma sample_clause_ok: "clause_ok (''role_name'', ''Lead'')" "clause_ok (''status'', ''completed'')"
  by (simp_all add: clause_ok_def clause_def filter_fields_def QUOTE_def DQUOTE_def str_contains_def)

theorem filter_expression_meaning_witness:
  "matches_filter sample_event (join_with '' AND '' (map clause [(''role_name'', ''Lead''), (''status'', ''completed'')]))"
  using filter_expression_meaning [of "[(''role_name'', ''Lead''), (''status'', ''completed'')]" sample_event]
  by (simp add: sample_clause_ok event_field_def sample_event_def)

definition sample_subscription :: workforce_event_subscription where
  "sample_subscription = \<lparr>ws_id = ''s1'', ws_tenant_id = ''t1'', ws_subscriber_role_id = ''r2'',
     ws_subscriber_agent_id = ''a2'', ws_event_filter = clause (''status'', ''completed''),
     ws_input_mapping = JObject [], ws_active = True, ws_created_at = 0\<rparr>"

definition sample_workforce :: workforce_world where
  "sample_workforce = \<lparr>ww_roles = [(agent_role_new ''r2'' ''a2'' ''t1'' ''Next'' 0)\<lparr>ro_status := RoleActive\<rparr>],
     ww_subscriptions = [sample_subscription], ww_goal_instances = [], ww_agents = []\<rparr>"

theorem dispatch_spec_witness:
  "fst (dispatch sample_ext (\<lambda>_. []) id 0 (\<lambda>_. True) sample_event sample_workforce) = 1"
proof -
  have "\<not> str_contains '' AND '' (clause (''status'', ''completed''))"
    by (simp add: clause_def QUOTE_def str_contains_def)
  then have "split_str '' AND '' (clause (''status'', ''completed'')) = [clause (''status'', ''completed'')]"
    by (subst split_str.simps) (simp add: str_contains_def)
  then have "matches_filter sample_event (clause (''status'', ''completed''))"
    by (simp add: matches_filter_def matches_clause_ok [OF sample_clause_ok(2)]) (simp add: event_field_def sample_event_def)
  then show ?thesis
    using dispatch_spec [of id sample_event sample_workforce sample_ext "\<lambda>_. []" 0]
    by (simp add: sample_workforce_def sample_subscription_def sample_event_def list_active_workforce_subscriptions_def
        triggered_role_def get_agent_role_def role_is_live_def agent_role_new_def Let_def)
qed

end
