(* ===== verification/Data_Signature.thy ===== *)
theory Data_Signature
  imports Workflow_Variants Json_Schema Float64
begin

text \<open>
  The signature of a run's input data (\<open>agent/workflow_compiler.rs\<close>, from
  \<open>data_signature_from_value\<close> to \<open>extract_tags\<close>), by which a workflow variant is selected: the hash of
  the shape, the connector, the number of rows, the rate of missing values in basis points, and the
  tags.  Numbers in JSON are finite, so the tests for infinities and NaN do not show.
\<close>

fun shape_signature :: "json \<Rightarrow> string" where
  "shape_signature JNull = ''null''"
| "shape_signature (JBool _) = ''bool''"
| "shape_signature (JNumber _) = ''number''"
| "shape_signature (JString _) = ''string''"
| "shape_signature (JArray items) =
     ''array['' @ join_with '','' (remdups_adj (sort (map shape_signature items))) @ '']''"
| "shape_signature (JObject kvs) =
     ''object{'' @ join_with '','' (sort (map (\<lambda>(key, value). key @ '':'' @ shape_signature value) kvs)) @ ''}''"

definition non_empty :: "string \<Rightarrow> string option" where
  "non_empty s = (let t = trim s in if t = [] then None else Some t)"

text \<open>The first of the keys with a non-empty text, in the object itself, else in the nested objects.\<close>

fun first_field :: "string list \<Rightarrow> (string \<times> json) list \<Rightarrow> string option" where
  "first_field [] kvs = None"
| "first_field (key # keys) kvs =
     (case Option.bind (Option.bind (map_of kvs key) as_str) non_empty of
        Some text \<Rightarrow> Some text
      | None \<Rightarrow> first_field keys kvs)"

fun extract_string_field :: "string list \<Rightarrow> json \<Rightarrow> string option"
  and extract_string_values :: "string list \<Rightarrow> (string \<times> json) list \<Rightarrow> string option" where
  "extract_string_field keys (JObject kvs) =
     (case first_field keys kvs of Some text \<Rightarrow> Some text | None \<Rightarrow> extract_string_values keys kvs)"
| "extract_string_field keys _ = None"
| "extract_string_values keys [] = None"
| "extract_string_values keys ((_, nested) # kvs) =
     (case extract_string_field keys nested of
        Some text \<Rightarrow> Some text
      | None \<Rightarrow> extract_string_values keys kvs)"

fun extract_row_count :: "json \<Rightarrow> nat option"
  and extract_row_count_values :: "(string \<times> json) list \<Rightarrow> nat option" where
  "extract_row_count (JArray items) = Some (length items)"
| "extract_row_count (JObject kvs) =
     (case Option.bind (map_of kvs ''row_count'') json_as_u64 of Some count \<Rightarrow> Some count | None \<Rightarrow>
     (case Option.bind (map_of kvs ''rows'') as_array of Some rows \<Rightarrow> Some (length rows) | None \<Rightarrow>
     (case Option.bind (map_of kvs ''records'') as_array of Some records \<Rightarrow> Some (length records) | None \<Rightarrow>
      extract_row_count_values kvs)))"
| "extract_row_count _ = None"
| "extract_row_count_values [] = None"
| "extract_row_count_values ((_, nested) # kvs) =
     (case extract_row_count nested of Some count \<Rightarrow> Some count | None \<Rightarrow> extract_row_count_values kvs)"

definition percent_to_bps :: "rat \<Rightarrow> nat" where
  "percent_to_bps percent =
     (let percent = (if percent \<le> 1 then f64_mul percent 100 else percent);
          clamped = max 0 (min 100 percent)
      in nat (round_away (f64_mul clamped 100)))"

fun missing_value :: "json \<Rightarrow> bool" where
  "missing_value JNull = True"
| "missing_value (JString s) = (trim s = [])"
| "missing_value (JArray items) = (items = [])"
| "missing_value (JObject kvs) = (kvs = [])"
| "missing_value _ = False"

definition row_values :: "json list \<Rightarrow> json list" where
  "row_values items = concat (map (map snd) (List.map_filter as_object items))"

definition extract_missing_rate_bps :: "json \<Rightarrow> nat option" where
  "extract_missing_rate_bps value =
     (case (case Option.bind (json_get ''missing_rate'' value) as_f64 of
              Some number \<Rightarrow> Some number
            | None \<Rightarrow> Option.bind (json_get ''null_rate'' value) as_f64) of
        Some number \<Rightarrow> Some (percent_to_bps number)
      | None \<Rightarrow>
          (case value of
             JArray items \<Rightarrow>
               let total = length (row_values items);
                   missing = length (filter missing_value (row_values items))
               in if total > 0
                  then Some (percent_to_bps (f64_mul (f64_div (f64_of_nat missing) (f64_of_nat total)) 100))
                  else None
           | _ \<Rightarrow> None))"

definition extract_tags :: "json \<Rightarrow> string list" where
  "extract_tags value =
     (let tags = (case Option.bind (json_get ''tags'' value) as_array of
            Some array \<Rightarrow> List.map_filter (\<lambda>v. Option.bind (as_str v) non_empty) array
          | None \<Rightarrow> []);
          source = (case Option.bind (Option.bind (json_get ''source'' value) as_str) non_empty of
            Some s \<Rightarrow> [s] | None \<Rightarrow> [])
      in remdups_adj (sort (tags @ source)))"

definition connector_keys :: "string list" where
  "connector_keys = [''connector_id'', ''connection'', ''resource_id'', ''resource'', ''db'', ''source'']"

definition data_signature_from_value :: "externals \<Rightarrow> json \<Rightarrow> data_signature" where
  "data_signature_from_value ext value =
     (let shape = shape_signature value in
      \<lparr>sig_schema_hash = (if trim shape = [] then None else Some (sha256_hex ext shape)),
       sig_connector_id = extract_string_field connector_keys value,
       sig_row_count = extract_row_count value,
       sig_missing_rate_bps = extract_missing_rate_bps value,
       sig_tags = extract_tags value\<rparr>)"

section \<open>Shapes\<close>

text \<open>Sorting and removing neighbours that are equal leaves the set of the elements, in order.\<close>

lemma remdups_adj_sort: "remdups_adj (sort xs) = sorted_list_of_set (set xs)"
  by (rule sorted_distinct_set_unique) (simp_all add: sorted_distinct_dedup sorted_remdups_adj)

text \<open>The shape of a table does not depend on how many rows it has or in which order: two arrays
  whose rows have the same shapes have the same signature, and so the same schema hash.\<close>

theorem shape_ignores_row_count:
  assumes "shape_signature ` set xs = shape_signature ` set ys"
  shows "sig_schema_hash (data_signature_from_value ext (JArray xs)) =
    sig_schema_hash (data_signature_from_value ext (JArray ys))"
  using assms by (simp add: data_signature_from_value_def Let_def remdups_adj_sort)

section \<open>Rate of missing values\<close>

lemma percent_to_bps_bounded: "percent_to_bps p \<le> 10000"
proof -
  define c where "c = max 0 (min 100 (if p \<le> 1 then f64_mul p 100 else p))"
  have c: "0 \<le> c" "c \<le> 100" by (simp_all add: c_def)
  then have "f64_mul c 100 \<le> of_nat 10000"
    unfolding f64_mul_def by (intro f64_round_le_nat) simp_all
  moreover have "0 \<le> f64_mul c 100" using c by (simp add: f64_mul_def f64_round_nonneg)
  ultimately have "round_away (f64_mul c 100) \<le> 10000" by (intro round_away_le) simp_all
  then show ?thesis by (simp add: percent_to_bps_def c_def Let_def)
qed

text \<open>Whatever the input says, the rate of missing values is at most 10000 basis points, and the tags
  are sorted, distinct and not empty.\<close>

theorem signature_in_range:
  "(case sig_missing_rate_bps (data_signature_from_value ext value) of None \<Rightarrow> True | Some bps \<Rightarrow> bps \<le> 10000)
   \<and> sorted (sig_tags (data_signature_from_value ext value))
   \<and> distinct (sig_tags (data_signature_from_value ext value))
   \<and> [] \<notin> set (sig_tags (data_signature_from_value ext value))"
proof -
  have ne: "non_empty s = Some t \<Longrightarrow> t \<noteq> []" for s t by (auto simp: non_empty_def Let_def split: if_splits)
  have "case extract_missing_rate_bps value of None \<Rightarrow> True | Some bps \<Rightarrow> bps \<le> 10000"
    by (auto simp: extract_missing_rate_bps_def Let_def percent_to_bps_bounded split: option.splits json.splits)
  moreover have "[] \<notin> set (extract_tags value)"
    by (auto simp: extract_tags_def Let_def List.map_filter_def bind_eq_Some_conv eq_commute [of "Some _"]
        split: option.splits dest: ne)
  ultimately show ?thesis
    by (simp add: data_signature_from_value_def Let_def extract_tags_def remdups_adj_sort)
qed

text \<open>A rate of at most one percent, computed from the rows, is taken for a fraction and multiplied by a
  hundred once more: one missing value among 128, which are 78 basis points, counts as 7813.\<close>

definition one_of_128_missing :: json where
  "one_of_128_missing = JArray (JObject [(''a'', JNull)] # replicate 127 (JObject [(''a'', JBool True)]))"

lemma row_values_replicate: "row_values (replicate n (JObject [(k, v)])) = replicate n v"
  by (induction n) (simp_all add: row_values_def)

theorem small_rate_taken_for_fraction:
  "sig_missing_rate_bps (data_signature_from_value ext one_of_128_missing) = Some 7813"
proof -
  have rv: "row_values (JObject [(''a'', JNull)] # replicate 127 (JObject [(''a'', JBool True)])) = JNull # replicate 127 (JBool True)"
    using row_values_replicate [of 127 "''a''" "JBool True"] by (simp add: row_values_def)
  have d: "f64_div (f64_of_nat 1) (f64_of_nat 128) = 1 / 128"
    using f64_round_dyadic [of 1 7] by (simp add: f64_div_def f64_of_nat_exact)
  have m: "f64_mul (1 / 128) 100 = 25 / 32" "f64_mul (25 / 32) 100 = 625 / 8" "f64_mul (625 / 8) 100 = 15625 / 2"
    using f64_round_dyadic [of 25 5] f64_round_dyadic [of 625 3] f64_round_dyadic [of 15625 1]
    by (simp_all add: f64_mul_def)
  have "percent_to_bps (25 / 32) = 7813"
    by (simp add: percent_to_bps_def Let_def m round_away_def)
  then have "percent_to_bps (f64_mul (f64_div (f64_of_nat 1) (f64_of_nat 128)) 100) = 7813"
    by (simp only: d m)
  then show ?thesis
    by (simp add: data_signature_from_value_def Let_def extract_missing_rate_bps_def one_of_128_missing_def rv)
qed

text \<open>A table of two equal rows has the shape of a table of one.\<close>

theorem shape_ignores_row_count_witness:
  "sig_schema_hash (data_signature_from_value sample_ext (JArray [JObject [(''a'', JBool True)], JObject [(''a'', JBool False)]]))
   = sig_schema_hash (data_signature_from_value sample_ext (JArray [JObject [(''a'', JBool True)]]))"
  by (rule shape_ignores_row_count) simp

end
