(* ===== verification/Recompile.thy ===== *)
theory Recompile
  imports Workforce Data_Signature Queue
begin

text \<open>
  The decisions of a worker after a failure (the first part of \<open>worker/worker.rs\<close>): whether a task is
  retried, whether a failure asks for a recompilation of the workflow, what is recorded in the agent's
  metadata, and the plan mode session that is opened for the repair.

  An error is its chain of messages, outermost first.  The deserializer of a recompile policy, the two
  session queries of the store, and the fresh identifiers are arguments.
\<close>

section \<open>Errors\<close>

type_synonym error_chain = "string list"

definition error_text :: "error_chain \<Rightarrow> string" where
  "error_text e = (case e of m # _ \<Rightarrow> m | [] \<Rightarrow> [])"

definition transient_markers :: "string list" where
  "transient_markers = [''rate limit'', ''too many requests'', ''timeout'', ''timed out'',
     ''temporarily unavailable'', ''service unavailable'', ''connection reset'', ''broken pipe'',
     ''503'', ''502'', ''504'']"

definition join_causes :: "error_chain \<Rightarrow> string" where
  "join_causes e =
     fold (\<lambda>cause text. let c = to_ascii_lowercase cause in
         if \<not> str_contains c text then text @ '' '' @ c else text)
       e (to_ascii_lowercase (error_text e))"

definition is_retryable_worker_error :: "error_chain \<Rightarrow> bool" where
  "is_retryable_worker_error e = list_ex (\<lambda>m. str_contains m (join_causes e)) transient_markers"

definition should_retry_task :: "execution_task \<Rightarrow> error_chain \<Rightarrow> bool" where
  "should_retry_task task e \<longleftrightarrow> task_attempt task < 3 \<and> is_retryable_worker_error e"

section \<open>Classification\<close>

definition policy_markers :: "string list" where
  "policy_markers = [''permission denied'', ''access denied'', ''policy'', ''forbidden'', ''plane guard'',
     ''exceeded safety limits'']"

definition structural_markers :: "string list" where
  "structural_markers = [''invalid schema'', ''state_schema'', ''type mismatch'', ''typed expression'',
     ''missing required entry'', ''depends on unknown step'', ''unknown next step'', ''entry_step'',
     ''missing resource'', ''resource binding'', ''unsupported operation'', ''tool not found'',
     ''missing tool'', ''placeholder'', ''unresolved'', ''binding'', ''connector'', ''api key'', ''oauth'',
     ''credential'']"

definition classify_recompile_failure :: "string \<Rightarrow> failure_kind option" where
  "classify_recompile_failure reason =
     (let lower = to_ascii_lowercase reason in
      if list_ex (\<lambda>m. str_contains m lower) policy_markers then Some PolicyFailure
      else if list_ex (\<lambda>m. str_contains m lower) structural_markers then Some StructuralFailure
      else None)"

datatype step_outcome =
    Continue int
  | NeedsClarification "json list"
  | PlanApprovalNeeded
  | Infeasible string
  | Complete
  | PartiallyComplete string
  | FailedStep string
  | TransientError string nat
  | PermanentError string
  | PolicyViolation string
  | RateLimited nat string
  | Delegating "string list"
  | NeedsRecompile string string

definition should_request_recompile :: "(json \<Rightarrow> recompile_policy option) \<Rightarrow> agent_state \<Rightarrow> failure_kind \<Rightarrow> bool" where
  "should_request_recompile parse_policy s kind =
     (case Option.bind (json_get ''recompile_policy'' (as_metadata s)) parse_policy of
        None \<Rightarrow> kind \<in> {StructuralFailure, PolicyFailure}
      | Some policy \<Rightarrow>
          if kind \<in> set (rc_ignore_on policy) then False
          else if rc_trigger_on policy \<noteq> [] then kind \<in> set (rc_trigger_on policy)
          else kind \<in> {StructuralFailure, PolicyFailure})"

definition outcome_recompile_request ::
  "(json \<Rightarrow> recompile_policy option) \<Rightarrow> step_outcome \<Rightarrow> agent_state \<Rightarrow> (failure_kind \<times> string) option" where
  "outcome_recompile_request parse_policy outcome s =
     (case outcome of
        NeedsRecompile reason kind_text \<Rightarrow>
          Some (if kind_text = ''policy'' then PolicyFailure else StructuralFailure, reason)
      | _ \<Rightarrow>
          (case (case outcome of
                   PermanentError reason \<Rightarrow> Some (StructuralFailure, reason)
                 | PolicyViolation reason \<Rightarrow> Some (PolicyFailure, reason)
                 | FailedStep reason \<Rightarrow> map_option (\<lambda>kind. (kind, reason)) (classify_recompile_failure reason)
                 | _ \<Rightarrow> None) of
             None \<Rightarrow> None
           | Some (kind, reason) \<Rightarrow>
               if should_request_recompile parse_policy s kind then Some (kind, reason) else None))"

section \<open>Recording the request\<close>

fun failure_kind_str :: "failure_kind \<Rightarrow> string" where
  "failure_kind_str TransientFailure = ''transient''"
| "failure_kind_str DataFailure = ''data''"
| "failure_kind_str StructuralFailure = ''structural''"
| "failure_kind_str PolicyFailure = ''policy''"

fun failure_kind_debug :: "failure_kind \<Rightarrow> string" where
  "failure_kind_debug TransientFailure = ''Transient''"
| "failure_kind_debug DataFailure = ''Data''"
| "failure_kind_debug StructuralFailure = ''Structural''"
| "failure_kind_debug PolicyFailure = ''Policy''"

definition opt_field :: "string \<Rightarrow> json option \<Rightarrow> (string \<times> json) list" where
  "opt_field k v = (case v of Some x \<Rightarrow> [(k, x)] | None \<Rightarrow> [])"

definition data_signature_to_value :: "data_signature \<Rightarrow> json" where
  "data_signature_to_value d = obj_of_list
     (opt_field ''schema_hash'' (map_option JString (sig_schema_hash d))
      @ opt_field ''connector_id'' (map_option JString (sig_connector_id d))
      @ opt_field ''row_count'' (map_option (JNumber \<circ> PosInt) (sig_row_count d))
      @ opt_field ''missing_rate_bps'' (map_option (JNumber \<circ> PosInt) (sig_missing_rate_bps d))
      @ [(''tags'', JArray (map JString (sig_tags d)))])"

fun set_all :: "(string \<times> json) list \<Rightarrow> agent_state \<Rightarrow> agent_state option" where
  "set_all [] s = Some s"
| "set_all ((k, v) # kvs) s = Option.bind (set_metadata k v s) (set_all kvs)"

definition meta :: "string \<Rightarrow> agent_state \<Rightarrow> json option" where
  "meta k s = json_get k (as_metadata s)"

definition meta_str :: "string \<Rightarrow> agent_state \<Rightarrow> string option" where
  "meta_str k s = Option.bind (meta k s) as_str"

definition recompile_count :: "agent_state \<Rightarrow> nat" where
  "recompile_count s = (case Option.bind (meta ''recompile_count'' s) json_as_u64 of Some n \<Rightarrow> n | None \<Rightarrow> 0)"

definition mark_recompile_requested ::
  "externals \<Rightarrow> (time \<Rightarrow> string) \<Rightarrow> failure_kind \<Rightarrow> string \<Rightarrow> time \<Rightarrow> agent_state \<Rightarrow> agent_state option" where
  "mark_recompile_requested ext rfc3339 kind reason now s =
     Option.bind (set_all
       [(''needs_recompile'', JBool True),
        (''recompile_count'', JNumber (PosInt (min (recompile_count s + 1) (2 ^ 64 - 1)))),
        (''recompile_failure_kind'', JString (failure_kind_str kind)),
        (''recompile_reason'', JString reason),
        (''recompile_requested_at'', JString (rfc3339 now)),
        (''recompile_mode'', JString ''fork'')] s) (\<lambda>s1.
     Option.bind (set_all (opt_field ''failed_workflow_version'' (meta ''workflow_version'' s1)) s1) (\<lambda>s2.
     Option.bind (set_all (opt_field ''recompile_parent_workflow_version'' (meta ''parent_workflow_version'' s2)) s2) (\<lambda>s3.
       set_all (opt_field ''recompile_data_signature''
         (map_option (data_signature_to_value \<circ> data_signature_from_value ext) (meta ''input_data'' s3))) s3)))"

section \<open>The repair session\<close>

record session_queries =
  sq_by_id :: "string \<Rightarrow> string \<Rightarrow> (error_chain, plan_mode_session option) result"
  sq_by_fingerprint :: "string \<Rightarrow> string \<Rightarrow> (error_chain, plan_mode_session option) result"

definition query_session ::
  "(string \<Rightarrow> (error_chain, plan_mode_session option) result) \<Rightarrow> string option
     \<Rightarrow> (error_chain, plan_mode_session option) result" where
  "query_session q key = (case key of None \<Rightarrow> Inr None | Some k \<Rightarrow> q k)"

definition load_original_plan_mode_session ::
  "session_queries \<Rightarrow> agent_state \<Rightarrow> (error_chain, plan_mode_session option) result" where
  "load_original_plan_mode_session sq s =
     (case query_session (sq_by_id sq (as_tenant_id s)) (meta_str ''plan_mode_session_id'' s) of
        Inl e \<Rightarrow> Inl e
      | Inr (Some session) \<Rightarrow> Inr (Some session)
      | Inr None \<Rightarrow>
          (case query_session (sq_by_fingerprint sq (as_tenant_id s)) (meta_str ''plan_mode_goal_fingerprint'' s) of
             Inl e \<Rightarrow> Inl e
           | Inr (Some session) \<Rightarrow> Inr (Some session)
           | Inr None \<Rightarrow>
               query_session (sq_by_fingerprint sq (as_tenant_id s)) (meta_str ''recompile_goal_fingerprint'' s)))"

record session_draws =
  sd_agent_id :: string
  sd_role_id :: string
  sd_session_id :: string
  sd_now :: time

definition json_opt :: "json option \<Rightarrow> json" where
  "json_opt v = (case v of Some x \<Rightarrow> x | None \<Rightarrow> JNull)"

definition json_opt_str :: "string option \<Rightarrow> json" where
  "json_opt_str v = json_opt (map_option JString v)"

definition or_else :: "'a option \<Rightarrow> 'a option \<Rightarrow> 'a option" where
  "or_else a b = (case a of Some x \<Rightarrow> Some x | None \<Rightarrow> b)"

definition draft_agent_of :: "session_draws \<Rightarrow> string \<Rightarrow> agent_definition \<Rightarrow> agent_definition" where
  "draft_agent_of draws tenant_id src =
     (agent_definition_new (sd_agent_id draws) tenant_id (ad_name src) (sd_now draws))
       \<lparr>ad_persona := ad_persona src, ad_connectors := ad_connectors src, ad_constraints := ad_constraints src,
        ad_memory_ref := ''agent:'' @ take 8 (sd_agent_id draws)\<rparr>"

definition draft_role_of :: "session_draws \<Rightarrow> string \<Rightarrow> agent_role \<Rightarrow> agent_role" where
  "draft_role_of draws tenant_id role =
     role\<lparr>ro_id := sd_role_id draws, ro_agent_id := sd_agent_id draws, ro_tenant_id := tenant_id,
          ro_status := RoleDraft, ro_version := min (ro_version role + 1) (2 ^ 32 - 1),
          ro_updated_at := sd_now draws, ro_created_at := sd_now draws\<rparr>"

definition workflow_version_of :: "agent_state \<Rightarrow> agent_role \<Rightarrow> string" where
  "workflow_version_of s role =
     (case meta_str ''workflow_version'' s of Some v \<Rightarrow> v | None \<Rightarrow> show_nat (ro_version role))"

definition input_signature :: "externals \<Rightarrow> agent_state \<Rightarrow> json" where
  "input_signature ext s = data_signature_to_value (data_signature_from_value ext
     (case meta ''input_data'' s of Some v \<Rightarrow> v | None \<Rightarrow> JObject []))"

definition recompile_fingerprint ::
  "externals \<Rightarrow> failure_kind \<Rightarrow> string \<Rightarrow> agent_state \<Rightarrow> agent_role \<Rightarrow> string" where
  "recompile_fingerprint ext kind reason s role =
     ''pmg_'' @ sha256_hex ext (json_to_string ext (obj_of_list
       [(''goal'', JString (as_goal s)), (''workflow_version'', JString (workflow_version_of s role)),
        (''reason'', JString reason), (''failure_kind'', JString (failure_kind_debug kind)),
        (''data_signature'', input_signature ext s),
        (''variant_id'', json_opt_str (meta_str ''workflow_variant_id'' s)),
        (''workflow_execution_profile'', json_opt (meta ''workflow_execution_profile'' s))]))"

definition recompile_intent :: "externals \<Rightarrow> failure_kind \<Rightarrow> string \<Rightarrow> agent_state \<Rightarrow> json" where
  "recompile_intent ext kind reason s = obj_of_list
     [(''goal'', JString (as_goal s)), (''recompile_reason'', JString reason),
      (''recompile_failure_kind'', JString (failure_kind_debug kind)),
      (''failed_workflow_version'', json_opt (meta ''failed_workflow_version'' s)),
      (''parent_workflow_version'', json_opt (meta ''recompile_parent_workflow_version'' s)),
      (''workflow_variant_id'', json_opt_str (meta_str ''workflow_variant_id'' s)),
      (''workflow_data_signature'', input_signature ext s),
      (''workflow_execution_profile'', json_opt (meta ''workflow_execution_profile'' s))]"

definition recompile_message :: "failure_kind \<Rightarrow> string \<Rightarrow> plan_mode_message" where
  "recompile_message kind reason = \<lparr>pm_role = ''assistant'', pm_content =
     ''Runtime marked this workflow for recompilation. Failure kind: '' @ failure_kind_debug kind
     @ ''. Reason: '' @ reason @ ''. Open this session to repair the compiled workflow.''\<rparr>"

definition repair_version_of :: "agent_state \<Rightarrow> plan_mode_session option \<Rightarrow> nat" where
  "repair_version_of s original =
     (case original of
        Some session \<Rightarrow> min (pms_repair_version session + 1) (2 ^ 32 - 1)
      | None \<Rightarrow> max (case Option.bind (meta ''recompile_count'' s) json_as_u64 of Some n \<Rightarrow> n | None \<Rightarrow> 1) 1 mod 2 ^ 32)"

definition repair_session ::
  "externals \<Rightarrow> session_draws \<Rightarrow> failure_kind \<Rightarrow> string \<Rightarrow> agent_state \<Rightarrow> agent_role \<Rightarrow> agent_definition
     \<Rightarrow> plan_mode_session option \<Rightarrow> plan_mode_session" where
  "repair_session ext draws kind reason s role defn original =
     (let draft_role = draft_role_of draws (as_tenant_id s) role;
          fingerprint = recompile_fingerprint ext kind reason s draft_role;
          source_fingerprint = or_else (Option.bind original pms_goal_fingerprint)
            (or_else (meta_str ''plan_mode_goal_fingerprint'' s) (meta_str ''recompile_goal_fingerprint'' s));
          reused = or_else (map_option pms_id original) (meta_str ''plan_mode_session_id'' s)
      in \<lparr>pms_id = sd_session_id draws, pms_tenant_id = as_tenant_id s,
          pms_draft_agent = draft_agent_of draws (as_tenant_id s)
            (case original of Some session \<Rightarrow> pms_draft_agent session | None \<Rightarrow> defn),
          pms_draft_role = Some draft_role,
          pms_conversation = (case original of Some session \<Rightarrow> pms_conversation session | None \<Rightarrow> [])
            @ [recompile_message kind reason],
          pms_attachments = (case original of Some session \<Rightarrow> pms_attachments session | None \<Rightarrow> []),
          pms_attachment_context = (case original of Some session \<Rightarrow> pms_attachment_context session | None \<Rightarrow> []),
          pms_session_workspace = Option.bind original pms_session_workspace,
          pms_goal_fingerprint = Some (case source_fingerprint of Some f \<Rightarrow> f | None \<Rightarrow> fingerprint),
          pms_repair_version = repair_version_of s original,
          pms_reused_from_session_id = reused,
          pms_repair_root_session_id = or_else (Option.bind original pms_repair_root_session_id)
            (or_else reused (Some (sd_session_id draws))),
          pms_phase = Reviewing, pms_compiler_stage = ReviewStage, pms_compiler_repair_passes = 0,
          pms_compiler_validation_issues = [],
          pms_intent_cache = or_else (Option.bind original pms_intent_cache) (Some (recompile_intent ext kind reason s)),
          pms_pending_steps = (case original of Some session \<Rightarrow> pms_pending_steps session | None \<Rightarrow> []),
          pms_created_at = sd_now draws, pms_updated_at = sd_now draws\<rparr>)"

definition session_metadata :: "plan_mode_session \<Rightarrow> string \<Rightarrow> (string \<times> json) list" where
  "session_metadata session fingerprint =
     [(''recompile_plan_mode_session_id'', JString (pms_id session)),
      (''recompile_plan_mode_agent_id'', JString (ad_id (pms_draft_agent session))),
      (''recompile_goal_fingerprint'', JString fingerprint),
      (''recompile_reused_from_session_id'', json_opt_str (pms_reused_from_session_id session)),
      (''recompile_repair_root_session_id'', json_opt_str (pms_repair_root_session_id session)),
      (''recompile_phase'', JString ''reviewing'')]"

end
