(* ===== verification/Worker.thy ===== *)
theory Worker
  imports Recompile
begin

text \<open>
  A worker (\<open>worker/worker.rs\<close>): how it takes a task from the queue, claims the agent, runs one step of
  the agent or its workflow, stores the result, and retries or gives up.

  The agent loop and the workflow engine are arguments of the environment, as are the serialization of
  the step history, the failures of single database calls, and what other processes do to the tables
  while the step runs.  The clock is read once when a task is opened and once when it is closed.  A
  panic (an assignment into metadata that is neither an object nor null) is a failure of its own: the
  pool catches it, and the task is then neither acknowledged nor retried.
\<close>

section \<open>Environment\<close>

datatype db_call =
    LoadAgent | ClaimAgent | SaveAgent | SaveFailedAgent | LoadRole | LoadDefinition
  | SaveDefinition | SaveSession | LoadGoal | SaveGoal

datatype dag_outcome = DagCompleted | DagFailed string | DagCancelled

record worker_tables =
  wt_agents :: "agent_row list"
  wt_goals :: "goal_instance_row list"
  wt_roles :: "agent_role list"
  wt_definitions :: "agent_definition list"
  wt_sessions :: "plan_mode_session list"

record 'h worker_env =
  we_name :: string
  we_ext :: externals
  we_rfc3339 :: "time \<Rightarrow> string"
  we_db :: "db_call \<Rightarrow> error_chain option"
  we_history_of :: "json option \<Rightarrow> 'h"
  we_history_value :: "'h \<Rightarrow> json"
  we_parse_policy :: "json \<Rightarrow> recompile_policy option"
  we_queries :: session_queries
  we_draws :: session_draws
  we_run_step :: "agent_state \<Rightarrow> plan option \<Rightarrow> 'h
    \<Rightarrow> (error_chain, step_outcome) result \<times> agent_state \<times> plan option \<times> 'h"
  we_run_workflow :: "agent_state \<Rightarrow> (error_chain, dag_outcome) result"
  we_meanwhile :: "worker_tables \<Rightarrow> worker_tables"
  we_opened_at :: time
  we_closed_at :: time

datatype task_failure = TaskError error_chain | TaskPanicked

type_synonym 'a task_result = "(task_failure, 'a) result"

definition db_ok :: "'h worker_env \<Rightarrow> db_call \<Rightarrow> unit task_result" where
  "db_ok env call = (case we_db env call of Some e \<Rightarrow> Inl (TaskError e) | None \<Rightarrow> Inr ())"

definition or_panic :: "'a option \<Rightarrow> 'a task_result" where
  "or_panic v = (case v of Some x \<Rightarrow> Inr x | None \<Rightarrow> Inl TaskPanicked)"

definition save_agent :: "'h worker_env \<Rightarrow> db_call \<Rightarrow> agent_state \<Rightarrow> worker_tables \<Rightarrow> unit task_result \<times> worker_tables" where
  "save_agent env call s w =
     (case db_ok env call of
        Inl e \<Rightarrow> (Inl e, w)
      | Inr _ \<Rightarrow> (Inr (), w\<lparr>wt_agents := upsert_agent (we_ext env) s (wt_agents w)\<rparr>))"

section \<open>The goal instance of a run\<close>

definition plan_len :: "plan option \<Rightarrow> nat option" where
  "plan_len p = map_option (\<lambda>p. length (plan_steps p) mod 2 ^ 32) p"

definition apply_goal_status ::
  "agent_state \<Rightarrow> goal_instance_status \<Rightarrow> json option \<Rightarrow> string option \<Rightarrow> string option \<Rightarrow> nat option \<Rightarrow> time
     \<Rightarrow> goal_instance \<Rightarrow> goal_instance" where
  "apply_goal_status s status result failure_reason last_message total_steps now g0 =
     (let g1 = g0\<lparr>gi_agent_state_id := Some (as_id s), gi_current_step := as_current_step s\<rparr>;
          g2 = (case total_steps of Some n \<Rightarrow> g1\<lparr>gi_total_steps := n\<rparr> | None \<Rightarrow> g1);
          g = (case last_message of Some m \<Rightarrow> g2\<lparr>gi_last_message := Some m\<rparr> | None \<Rightarrow> g2);
          res = (case result of Some r \<Rightarrow> r | None \<Rightarrow> JObject [])
      in case status of
           GiRunning \<Rightarrow> (gi_mark_running (as_id s) now g)\<lparr>gi_result := None, gi_failure_reason := None\<rparr>
         | GiCompleted \<Rightarrow> gi_mark_completed res now g
         | GiPartiallyComplete \<Rightarrow>
             gi_mark_partially_complete (case failure_reason of Some r \<Rightarrow> r | None \<Rightarrow> ''partially complete'') res now g
         | GiFailed \<Rightarrow> gi_mark_failed (case failure_reason of Some r \<Rightarrow> r | None \<Rightarrow> ''failed'') now g
         | GiCancelled \<Rightarrow> g\<lparr>gi_status := GiCancelled, gi_failure_reason := failure_reason, gi_updated_at := now,
             gi_completed_at := Some now\<rparr>
         | GiPending \<Rightarrow> g\<lparr>gi_status := GiPending\<rparr>)"

definition persist_goal_instance_status ::
  "'h worker_env \<Rightarrow> agent_state \<Rightarrow> goal_instance_status \<Rightarrow> json option \<Rightarrow> string option \<Rightarrow> string option \<Rightarrow> nat option
     \<Rightarrow> time \<Rightarrow> worker_tables \<Rightarrow> worker_tables" where
  "persist_goal_instance_status env s status result failure_reason last_message total_steps now w =
     (case meta_str ''goal_instance_id'' s of
        None \<Rightarrow> w
      | Some gid \<Rightarrow>
          (case (if we_db env LoadGoal = None then get_goal_instance (as_tenant_id s) gid (wt_goals w) else None) of
             None \<Rightarrow> w
           | Some g \<Rightarrow>
               if we_db env SaveGoal = None
               then w\<lparr>wt_goals := upsert_goal_instance (we_ext env)
                 (apply_goal_status s status result failure_reason last_message total_steps now g) (wt_goals w)\<rparr>
               else w))"

section \<open>Opening a task\<close>

definition lease_duration :: int where
  "lease_duration = 30"

definition claimed_state ::
  "'h worker_env \<Rightarrow> execution_task \<Rightarrow> agent_state \<Rightarrow> agent_state task_result" where
  "claimed_state env task s =
     (let now = we_opened_at env;
          s1 = s\<lparr>as_plan := None\<rparr>;
          s2 = (case Option.bind (as_plan s) (\<lambda>p. plan_next_step p (as_current_step s)) of
                  Some step \<Rightarrow> s1\<lparr>as_current_task :=
                    Some (''step '' @ show_nat (ps_index step) @ '': '' @ ps_description step)\<rparr>
                | None \<Rightarrow> s1);
          s3 = agent_mark_running now s2
      in case or_panic (set_execution_checkpoint (we_rfc3339 env) (task_id task) (task_attempt task)
             (as_current_step s3) ''running'' now now s3) of
           Inl e \<Rightarrow> Inl e
         | Inr s4 \<Rightarrow>
             (case or_panic (dt_add_secs (we_ext env) now lease_duration) of
                Inl e \<Rightarrow> Inl e
              | Inr lease \<Rightarrow> Inr (s4\<lparr>as_claimed_by := Some (we_name env), as_lease_expires_at := Some lease\<rparr>)))"

definition open_task ::
  "'h worker_env \<Rightarrow> execution_task \<Rightarrow> worker_tables \<Rightarrow> (agent_state \<times> plan option \<times> 'h) task_result \<times> worker_tables" where
  "open_task env task w =
     (case db_ok env LoadAgent of
        Inl e \<Rightarrow> (Inl e, w)
      | Inr _ \<Rightarrow>
          (case get_agent_internal (task_agent_id task) (wt_agents w) of
             None \<Rightarrow> (Inl (TaskError [''agent '' @ task_agent_id task @ '' not found'']), w)
           | Some s \<Rightarrow>
               let history = we_history_of env (meta ''step_history'' s) in
               (case claimed_state env task s of
                  Inl e \<Rightarrow> (Inl e, w)
                | Inr s' \<Rightarrow>
                    (case save_agent env ClaimAgent s' w of
                       (Inl e, w1) \<Rightarrow> (Inl e, w1)
                     | (Inr _, w1) \<Rightarrow>
                         (Inr (s', as_plan s, history),
                          persist_goal_instance_status env s' GiRunning None None (as_current_task s')
                            (plan_len (as_plan s)) (we_opened_at env) w1)))))"

section \<open>Recompilation\<close>

definition upsert_definition :: "agent_definition \<Rightarrow> agent_definition list \<Rightarrow> agent_definition list" where
  "upsert_definition d rows =
     (if ad_id d \<in> ad_id ` set rows
      then map (\<lambda>r. if ad_id r = ad_id d
        then d\<lparr>ad_tenant_id := ad_tenant_id r, ad_created_at := ad_created_at r\<rparr> else r) rows
      else rows @ [d])"

definition create_recompile_plan_mode_session ::
  "'h worker_env \<Rightarrow> failure_kind \<Rightarrow> string \<Rightarrow> agent_state \<Rightarrow> worker_tables
     \<Rightarrow> agent_state task_result \<times> worker_tables" where
  "create_recompile_plan_mode_session env kind reason s w =
     (case meta_str ''role_id'' s of
        None \<Rightarrow> (Inr s, w)
      | Some role_id \<Rightarrow>
      (case db_ok env LoadRole of Inl e \<Rightarrow> (Inl e, w) | Inr _ \<Rightarrow>
      (case get_agent_role (as_tenant_id s) role_id (wt_roles w) of
        None \<Rightarrow> (Inr s, w)
      | Some role \<Rightarrow>
      (case db_ok env LoadDefinition of Inl e \<Rightarrow> (Inl e, w) | Inr _ \<Rightarrow>
      (case load_original_plan_mode_session (we_queries env) s of Inl e \<Rightarrow> (Inl (TaskError e), w) | Inr original \<Rightarrow>
        let defn = (case find (\<lambda>d. ad_id d = ro_agent_id role \<and> ad_tenant_id d = as_tenant_id s) (wt_definitions w) of
              Some d \<Rightarrow> d
            | None \<Rightarrow> agent_definition_new (ro_agent_id role) (as_tenant_id s) (ro_name role) (sd_now (we_draws env)));
            session = repair_session (we_ext env) (we_draws env) kind reason s role defn original;
            fingerprint = recompile_fingerprint (we_ext env) kind reason s
              (draft_role_of (we_draws env) (as_tenant_id s) role)
        in case or_panic (set_all (session_metadata session fingerprint) s) of
             Inl e \<Rightarrow> (Inl e, w)
           | Inr s' \<Rightarrow>
               (case db_ok env SaveDefinition of Inl e \<Rightarrow> (Inl e, w) | Inr _ \<Rightarrow>
                 let w1 = w\<lparr>wt_definitions := upsert_definition (pms_draft_agent session) (wt_definitions w)\<rparr> in
                 (case db_ok env SaveSession of Inl e \<Rightarrow> (Inl e, w1) | Inr _ \<Rightarrow>
                   (Inr s', w1\<lparr>wt_sessions := wt_sessions w1 @ [session]\<rparr>))))))))"

definition request_recompile ::
  "'h worker_env \<Rightarrow> failure_kind \<Rightarrow> string \<Rightarrow> agent_state \<Rightarrow> worker_tables \<Rightarrow> agent_state task_result \<times> worker_tables" where
  "request_recompile env kind reason s w =
     (case or_panic (mark_recompile_requested (we_ext env) (we_rfc3339 env) kind reason (we_closed_at env) s) of
        Inl e \<Rightarrow> (Inl e, w)
      | Inr s' \<Rightarrow> create_recompile_plan_mode_session env kind reason s' w)"

definition request_recompile_for ::
  "'h worker_env \<Rightarrow> string \<Rightarrow> agent_state \<Rightarrow> worker_tables \<Rightarrow> agent_state task_result \<times> worker_tables" where
  "request_recompile_for env reason s w =
     (case classify_recompile_failure reason of
        None \<Rightarrow> (Inr s, w)
      | Some kind \<Rightarrow> request_recompile env kind reason s w)"

section \<open>The step itself\<close>

text \<open>A workflow run, and the state and outcome it leaves.  The text of an engine error in the outcome is
  its whole chain.\<close>

definition chain_text :: "error_chain \<Rightarrow> string" where
  "chain_text e = join_with '': '' e"

definition workflow_failed ::
  "'h worker_env \<Rightarrow> string \<Rightarrow> string \<Rightarrow> agent_state \<Rightarrow> worker_tables
     \<Rightarrow> (agent_state \<times> step_outcome) task_result \<times> worker_tables" where
  "workflow_failed env reason shown s w =
     (case or_panic (set_metadata ''last_worker_error'' (JString reason)
         (agent_mark_failed (we_closed_at env) (s\<lparr>as_workflow_id := None\<rparr>))) of
        Inl e \<Rightarrow> (Inl e, w)
      | Inr s1 \<Rightarrow>
          (case request_recompile_for env reason s1 w of
             (Inl e, w1) \<Rightarrow> (Inl e, w1)
           | (Inr s2, w1) \<Rightarrow> (Inr (s2, FailedStep shown), w1)))"

definition run_workflow_task ::
  "'h worker_env \<Rightarrow> agent_state \<Rightarrow> worker_tables \<Rightarrow> (agent_state \<times> step_outcome) task_result \<times> worker_tables" where
  "run_workflow_task env s w =
     (case we_run_workflow env s of
        Inr DagCompleted \<Rightarrow> (Inr (agent_mark_completed (we_closed_at env) (s\<lparr>as_workflow_id := None\<rparr>), Complete), w)
      | Inr (DagFailed reason) \<Rightarrow> workflow_failed env reason (''DAG workflow failed: '' @ reason) s w
      | Inr DagCancelled \<Rightarrow>
          (case or_panic (set_metadata ''last_worker_error'' (JString ''DAG workflow cancelled'')
              (agent_mark_failed (we_closed_at env) (s\<lparr>as_workflow_id := None\<rparr>))) of
             Inl e \<Rightarrow> (Inl e, w)
           | Inr s1 \<Rightarrow> (Inr (s1, FailedStep ''DAG workflow cancelled''), w))
      | Inl error \<Rightarrow> workflow_failed env (error_text error) (''DAG engine error: '' @ chain_text error) s w)"

text \<open>The linear loop failed with an error: record it, ask for a recompilation, store the agent as
  failed, and return the error.\<close>

definition step_failed ::
  "'h worker_env \<Rightarrow> execution_task \<Rightarrow> error_chain \<Rightarrow> agent_state \<Rightarrow> plan option \<Rightarrow> 'h \<Rightarrow> worker_tables
     \<Rightarrow> task_failure \<times> worker_tables" where
  "step_failed env task error s plan history w =
     (let now = we_closed_at env; reason = error_text error in
      case or_panic (set_all [(''step_history'', we_history_value env history),
          (''last_worker_error'', JString reason)] (s\<lparr>as_plan := plan\<rparr>)) of
        Inl e \<Rightarrow> (e, w)
      | Inr s1 \<Rightarrow>
      (case request_recompile_for env reason s1 w of
        (Inl e, w1) \<Rightarrow> (e, w1)
      | (Inr s2, w1) \<Rightarrow>
      (case or_panic (set_execution_checkpoint (we_rfc3339 env) (task_id task) (task_attempt task)
          (as_current_step s2) ''failed'' now now (agent_mark_failed now s2)) of
        Inl e \<Rightarrow> (e, w1)
      | Inr s3 \<Rightarrow>
      (case save_agent env SaveFailedAgent s3 w1 of
        (Inl e, w2) \<Rightarrow> (e, w2)
      | (Inr _, w2) \<Rightarrow>
          (TaskError error,
           persist_goal_instance_status env s3 GiFailed (Some (JObject [(''error'', JString reason)]))
             (Some reason) (Some reason) (plan_len plan) now w2)))))"

section \<open>Closing a task\<close>

definition outcome_goal_status ::
  "step_outcome \<Rightarrow> agent_state
     \<Rightarrow> (goal_instance_status \<times> json option \<times> string option \<times> string option) option" where
  "outcome_goal_status outcome s =
     (case outcome of
        Continue delay_secs \<Rightarrow>
          Some (GiRunning, None, None, Some (''rescheduled in ''
            @ (if delay_secs < 0 then ''-'' @ show_nat (nat (- delay_secs)) else show_nat (nat delay_secs))
            @ '' seconds''))
      | PlanApprovalNeeded \<Rightarrow> Some (GiRunning, None, None, Some ''plan approval needed'')
      | Complete \<Rightarrow>
          Some (GiCompleted,
            Some (case meta ''final_output'' s of Some v \<Rightarrow> v
                  | None \<Rightarrow> obj_of_list [(''final_answer'', JString (case final_answer s of Some a \<Rightarrow> a | None \<Rightarrow> [])),
                      (''goal'', JString (as_goal s))]),
            None, or_else (final_answer s) (Some ''goal complete''))
      | PartiallyComplete note \<Rightarrow>
          Some (GiPartiallyComplete,
            Some (case or_else (meta ''partial_completion_result'' s) (meta ''final_output'' s) of
                    Some v \<Rightarrow> v | None \<Rightarrow> JObject []),
            Some note, Some note)
      | FailedStep reason \<Rightarrow> Some (GiFailed, Some (JObject [(''error'', JString reason)]), Some reason, Some reason)
      | NeedsRecompile reason _ \<Rightarrow>
          Some (GiFailed, Some (JObject [(''error'', JString reason), (''recompile'', JBool True)]), Some reason,
            Some (''recompile requested: '' @ reason))
      | _ \<Rightarrow> None)"

definition close_task ::
  "'h worker_env \<Rightarrow> step_outcome \<Rightarrow> agent_state \<Rightarrow> plan option \<Rightarrow> 'h \<Rightarrow> worker_tables
     \<Rightarrow> step_outcome task_result \<times> worker_tables" where
  "close_task env outcome s plan history w =
     (let now = we_closed_at env in
      case (case outcome_recompile_request (we_parse_policy env) outcome s of
              None \<Rightarrow> (Inr s, w)
            | Some (kind, reason) \<Rightarrow> request_recompile env kind reason s w) of
        (Inl e, w1) \<Rightarrow> (Inl e, w1)
      | (Inr s1, w1) \<Rightarrow>
      (case or_panic (set_metadata ''step_history'' (we_history_value env history) (s1\<lparr>as_plan := plan\<rparr>)) of
        Inl e \<Rightarrow> (Inl e, w1)
      | Inr s2 \<Rightarrow>
          let s3 = (clear_execution_checkpoint now s2)\<lparr>as_current_task := None, as_claimed_by := None,
                as_lease_expires_at := None\<rparr>
          in case save_agent env SaveAgent s3 w1 of
               (Inl e, w2) \<Rightarrow> (Inl e, w2)
             | (Inr _, w2) \<Rightarrow>
                 (Inr outcome,
                  case outcome_goal_status outcome s3 of
                    None \<Rightarrow> w2
                  | Some (status, result, failure_reason, last_message) \<Rightarrow>
                      persist_goal_instance_status env s3 status result failure_reason last_message
                        (plan_len plan) now w2)))"

definition run_task ::
  "'h worker_env \<Rightarrow> execution_task \<Rightarrow> worker_tables \<Rightarrow> step_outcome task_result \<times> worker_tables" where
  "run_task env task w =
     (case open_task env task w of
        (Inl e, w1) \<Rightarrow> (Inl e, w1)
      | (Inr (s, plan, history), w1) \<Rightarrow>
          let w2 = we_meanwhile env w1 in
          if as_workflow_id s \<noteq> None then
            (case run_workflow_task env s w2 of
               (Inl e, w3) \<Rightarrow> (Inl e, w3)
             | (Inr (s', outcome), w3) \<Rightarrow> close_task env outcome s' plan history w3)
          else
            (case we_run_step env s plan history of
               (Inr outcome, s', plan', history') \<Rightarrow> close_task env outcome s' plan' history' w2
             | (Inl error, s', plan', history') \<Rightarrow>
                 (case step_failed env task error s' plan' history' w2 of (e, w3) \<Rightarrow> (Inl e, w3))))"

section \<open>The queue\<close>

definition mark_failed_async :: "'h worker_env \<Rightarrow> string \<Rightarrow> worker_tables \<Rightarrow> worker_tables" where
  "mark_failed_async env agent_id w =
     (case (if we_db env LoadAgent = None then get_agent_internal agent_id (wt_agents w) else None) of
        None \<Rightarrow> w
      | Some s \<Rightarrow>
          let now = we_closed_at env; s' = agent_mark_failed now s;
              w1 = snd (save_agent env SaveFailedAgent s' w)
          in case meta_str ''goal_instance_id'' s of
               None \<Rightarrow> w1
             | Some gid \<Rightarrow>
                 (case (if we_db env LoadGoal = None then get_goal_instance (as_tenant_id s) gid (wt_goals w1) else None) of
                    None \<Rightarrow> w1
                  | Some g \<Rightarrow>
                      if we_db env SaveGoal = None
                      then w1\<lparr>wt_goals := upsert_goal_instance (we_ext env)
                        (gi_mark_failed (case meta_str ''last_worker_error'' s of Some m \<Rightarrow> m | None \<Rightarrow> ''worker failed'') now
                          (g\<lparr>gi_agent_state_id := Some (as_id s), gi_current_step := as_current_step s,
                             gi_total_steps := (case plan_len (as_plan s) of Some n \<Rightarrow> n | None \<Rightarrow> gi_total_steps g)\<rparr>))
                        (wt_goals w1)\<rparr>
                      else w1))"

text \<open>One round on the in-memory queue: whether there was a task, the queue and the tables after it.\<close>

datatype round = NoTask | Done | Panicked

definition process_next ::
  "'h worker_env \<Rightarrow> memory_queue \<times> worker_tables \<Rightarrow> round \<times> memory_queue \<times> worker_tables" where
  "process_next env qw =
     (case mem_dequeue (fst qw) of
        (None, q) \<Rightarrow> (NoTask, q, snd qw)
      | (Some task, q) \<Rightarrow>
          (case run_task env task (snd qw) of
             (Inr _, w) \<Rightarrow> (Done, mem_ack task q, w)
           | (Inl TaskPanicked, w) \<Rightarrow> (Panicked, q, w)
           | (Inl (TaskError e), w) \<Rightarrow>
               if should_retry_task task e
               then (Done, mem_retry (task\<lparr>task_attempt := task_attempt task + 1\<rparr>) q, w)
               else (Done, mem_ack task q, mark_failed_async env (task_agent_id task) w)))"

text \<open>The event that a completed run of a role reports.\<close>

definition completion_event :: "time \<Rightarrow> agent_state \<Rightarrow> workforce_event_payload option" where
  "completion_event now s =
     (case (meta_str ''role_id'' s, meta_str ''role_name'' s, meta_str ''agent_definition_id'' s, meta_str ''goal_instance_id'' s) of
        (Some role_id, Some role_name, Some agent_def_id, Some gid) \<Rightarrow>
          Some \<lparr>wp_tenant_id = as_tenant_id s, wp_agent_id = agent_def_id,
            wp_agent_name = (case meta_str ''agent_name'' s of Some n \<Rightarrow> n | None \<Rightarrow> ''agent''),
            wp_role_id = role_id, wp_role_name = role_name, wp_goal_instance_id = gid, wp_status = ''completed'',
            wp_output_data = (case meta ''final_output'' s of Some v \<Rightarrow> v | None \<Rightarrow> JObject []),
            wp_failure_reason = None, wp_emitted_at = now\<rparr>
      | _ \<Rightarrow> None)"

section \<open>The queue drains\<close>

fun rounds :: "(nat \<Rightarrow> 'h worker_env) \<Rightarrow> nat \<Rightarrow> memory_queue \<times> worker_tables \<Rightarrow> memory_queue \<times> worker_tables" where
  "rounds envs 0 qw = qw"
| "rounds envs (Suc n) qw = snd (process_next (envs n) (rounds envs n qw))"

definition potential :: "memory_queue \<Rightarrow> nat" where
  "potential q = sum_list (map (\<lambda>t. Suc (3 - task_attempt t)) q)"

lemma process_next_cases:
  "fst (snd (process_next env (t # q, w))) = q
   \<or> task_attempt t < 3 \<and> fst (snd (process_next env (t # q, w))) = t\<lparr>task_attempt := task_attempt t + 1\<rparr> # q"
  by (simp add: process_next_def mem_ack_def mem_retry_def should_retry_task_def
      split: sum.split task_failure.split prod.split)

lemma process_next_empty: "process_next env ([], w) = (NoTask, [], w)"
  by (simp add: process_next_def)

lemma potential_decreases: "potential (fst (snd (process_next env (q, w)))) \<le> potential q - 1"
proof (cases q)
  case Nil
  then show ?thesis by (simp add: process_next_empty potential_def)
next
  case (Cons t ts)
  with process_next_cases [of env t ts w] show ?thesis by (auto simp: potential_def)
qed

lemma rounds_potential: "potential (fst (rounds envs n qw)) \<le> potential (fst qw) - n"
proof (induction n)
  case (Suc n)
  obtain q w where "rounds envs n qw = (q, w)" by fastforce
  with potential_decreases [of "envs n" q w] Suc show ?case by simp
qed simp

lemma potential_le: "potential q \<le> 4 * length q"
  by (induction q) (auto simp: potential_def)

text \<open>C17: Retries end.  Whatever the tasks do, and however the environment changes from one to the next, a
  worker that gets no new tasks empties its queue within four rounds per task: no task is attempted
  more than four times.\<close>

theorem queue_drains:
  assumes "4 * length q \<le> n"
  shows "fst (rounds envs n (q, w)) = []"
proof -
  have "potential (fst (rounds envs n (q, w))) = 0"
    using rounds_potential [of envs n "(q, w)"] potential_le [of q] assms by simp
  then show ?thesis by (cases "fst (rounds envs n (q, w))") (simp_all add: potential_def)
qed

section \<open>What is stored\<close>

lemma upserted_row:
  "\<exists>r. find (\<lambda>r. ag_id r = as_id s) (upsert_agent ext s rows) = Some r
     \<and> ag_status r = status_to_str (as_status s) \<and> ag_claimed_by r = as_claimed_by s
     \<and> ag_lease_expires_at r = map_option (db_time ext) (as_lease_expires_at s)
     \<and> ag_current_task r = as_current_task s \<and> ag_plan r = as_plan s \<and> ag_metadata r = as_metadata s"
proof (cases "as_id s \<in> ag_id ` set rows")
  case True
  then obtain old where "find (\<lambda>r. ag_id r = as_id s) rows = Some old"
    by (metis find_key_eq_None_iff option.exhaust)
  then have "find (\<lambda>r. ag_id r = as_id s) (upsert_agent ext s rows) = Some (merge_agent_row old (agent_row_of ext s))"
    using True by (simp add: upsert_agent_def Let_def)
      (induction rows, auto simp: merge_agent_row_def agent_row_of_def split: if_splits)
  then show ?thesis by (simp add: merge_agent_row_def agent_row_of_def)
next
  case False
  then have "find (\<lambda>r. ag_id r = as_id s) (upsert_agent ext s rows) = Some (agent_row_of ext s)"
    by (simp add: upsert_agent_def find_append_fresh) (simp add: agent_row_of_def)
  then show ?thesis by (simp add: agent_row_of_def)
qed

lemma persist_agents [simp]: "wt_agents (persist_goal_instance_status env s st r f m t now w) = wt_agents w"
  by (simp add: persist_goal_instance_status_def split: option.split)

lemma save_agentD: "save_agent env call s w = (Inr x, w') \<Longrightarrow> wt_agents w' = upsert_agent (we_ext env) s (wt_agents w)"
  by (auto simp: save_agent_def split: sum.splits)

lemma set_metadata_id:
  "set_metadata k v s = Some s' \<Longrightarrow> as_id s' = as_id s \<and> as_status s' = as_status s \<and> as_plan s' = as_plan s
     \<and> as_tenant_id s' = as_tenant_id s"
  by (auto simp: set_metadata_def)

lemma set_all_id: "set_all kvs s = Some s' \<Longrightarrow> as_id s' = as_id s \<and> as_status s' = as_status s \<and> as_plan s' = as_plan s"
  by (induction kvs s arbitrary: s' rule: set_all.induct) (fastforce simp: bind_eq_Some_conv dest: set_metadata_id)+

lemma mark_recompile_id:
  "mark_recompile_requested ext rfc kind reason now s = Some s' \<Longrightarrow> as_id s' = as_id s \<and> as_status s' = as_status s"
  by (auto simp: mark_recompile_requested_def bind_eq_Some_conv simp del: set_all.simps dest!: set_all_id)

lemma or_panic_Inr [simp]: "or_panic v = Inr x \<longleftrightarrow> v = Some x"
  by (simp add: or_panic_def split: option.split)

lemma create_session_id:
  "create_recompile_plan_mode_session env kind reason s w = (Inr s', w') \<Longrightarrow> as_id s' = as_id s \<and> as_status s' = as_status s"
  by (auto simp: create_recompile_plan_mode_session_def Let_def split: option.splits sum.splits dest!: set_all_id)

lemma request_recompile_id:
  "request_recompile env kind reason s w = (Inr s', w') \<Longrightarrow> as_id s' = as_id s \<and> as_status s' = as_status s"
  by (auto simp: request_recompile_def split: sum.splits dest!: mark_recompile_id create_session_id)

text \<open>What a closed task leaves: the agent is stored with the status the step gave it, released, without
  a current task and without a checkpoint.\<close>

lemma close_task_row:
  assumes "close_task env outcome s plan history w = (Inr outcome', w')"
  obtains r where "find (\<lambda>r. ag_id r = as_id s) (wt_agents w') = Some r" "ag_status r = status_to_str (as_status s)"
    "ag_claimed_by r = None" "ag_lease_expires_at r = None" "ag_current_task r = None" "ag_plan r = plan"
    "json_get ''execution_checkpoint'' (ag_metadata r) = None" "outcome' = outcome"
proof -
  from assms obtain s1 w1 s2 w2 where
    s1: "as_id s1 = as_id s" "as_status s1 = as_status s"
    and s2: "set_metadata ''step_history'' (we_history_value env history) (s1\<lparr>as_plan := plan\<rparr>) = Some s2"
    and save: "save_agent env SaveAgent ((clear_execution_checkpoint (we_closed_at env) s2)
        \<lparr>as_current_task := None, as_claimed_by := None, as_lease_expires_at := None\<rparr>) w1 = (Inr (), w2)"
    and w': "wt_agents w' = wt_agents w2" and out: "outcome' = outcome"
    by (auto simp: close_task_def Let_def split: option.splits prod.splits sum.splits dest!: request_recompile_id)
  let ?s3 = "(clear_execution_checkpoint (we_closed_at env) s2)
        \<lparr>as_current_task := None, as_claimed_by := None, as_lease_expires_at := None\<rparr>"
  have s3: "as_id ?s3 = as_id s" "as_status ?s3 = as_status s" "as_plan ?s3 = plan"
    "json_get ''execution_checkpoint'' (as_metadata ?s3) = None"
    using set_metadata_id [OF s2] s1 by (simp_all add: clear_execution_checkpoint_def)
  from upserted_row [of ?s3 "we_ext env" "wt_agents w1"] obtain r where
    "find (\<lambda>r. ag_id r = as_id s) (wt_agents w') = Some r" "ag_status r = status_to_str (as_status s)"
    "ag_claimed_by r = None" "ag_lease_expires_at r = None" "ag_current_task r = None" "ag_plan r = plan"
    and m: "ag_metadata r = as_metadata ?s3"
    unfolding w' save_agentD [OF save] s3 by auto
  moreover have "json_get ''execution_checkpoint'' (ag_metadata r) = None" unfolding m by (rule s3(4))
  ultimately show thesis using out by (intro that)
qed

text \<open>What opening a task leaves.\<close>

lemma claimed_stateD:
  "claimed_state env task s = Inr s' \<Longrightarrow>
   as_id s' = as_id s \<and> as_status s' = AgentRunning \<and> as_plan s' = None \<and> as_claimed_by s' = Some (we_name env)
   \<and> as_workflow_id s' = as_workflow_id s"
  by (auto simp: claimed_state_def Let_def set_execution_checkpoint_def set_metadata_def agent_mark_running_def
      split: option.splits sum.splits)

lemma get_agent_internal_id: "get_agent_internal aid rows = Some s \<Longrightarrow> as_id s = aid"
  by (auto simp: get_agent_internal_def row_to_agent_state_def dest!: find_mem)

lemma open_taskE:
  assumes "open_task env task w = (Inr (s, plan, history), w')"
  obtains s0 where "get_agent_internal (task_agent_id task) (wt_agents w) = Some s0" "claimed_state env task s0 = Inr s"
    "plan = as_plan s0" "as_id s = task_agent_id task" "wt_agents w' = upsert_agent (we_ext env) s (wt_agents w)"
proof -
  from assms obtain s0 w1 where *: "get_agent_internal (task_agent_id task) (wt_agents w) = Some s0"
    "claimed_state env task s0 = Inr s" "plan = as_plan s0" "save_agent env ClaimAgent s w = (Inr (), w1)"
    "wt_agents w' = wt_agents w1"
    by (auto simp: open_task_def Let_def split: sum.splits option.splits prod.splits)
  then show thesis
    using that [of s0] claimed_stateD [OF *(2)] get_agent_internal_id [OF *(1)] save_agentD [OF *(4)] by simp
qed

lemma workflow_failed_id:
  "workflow_failed env reason shown s w = (Inr (s', outcome), w') \<Longrightarrow> as_id s' = as_id s \<and> as_status s' = AgentFailed"
  by (auto simp: workflow_failed_def request_recompile_for_def agent_mark_failed_def split: sum.splits prod.splits option.splits
      dest!: set_metadata_id request_recompile_id)

lemma run_workflow_task_id: "run_workflow_task env s w = (Inr (s', outcome), w') \<Longrightarrow> as_id s' = as_id s"
  by (auto simp: run_workflow_task_def agent_mark_completed_def agent_mark_failed_def
      split: sum.splits dag_outcome.splits dest!: workflow_failed_id set_metadata_id)

lemma run_task_closed:
  assumes "run_task env task w = (Inr outcome, w')"
    and "\<And>s p h. as_id (fst (snd (we_run_step env s p h))) = as_id s"
  obtains s' o' p' h' w2 where "as_id s' = task_agent_id task" "close_task env o' s' p' h' w2 = (Inr outcome, w')"
proof -
  obtain s plan history w1 where op: "open_task env task w = (Inr (s, plan, history), w1)"
    using assms(1) by (cases "open_task env task w"; cases "fst (open_task env task w)") (auto simp: run_task_def)
  then have i: "as_id s = task_agent_id task" by (elim open_taskE)
  show thesis
  proof (cases "as_workflow_id s")
    case None
    obtain res s' p' h' where st: "we_run_step env s plan history = (res, s', p', h')"
      by (cases "we_run_step env s plan history") auto
    have "as_id s' = as_id s" using assms(2) [of s plan history] by (simp add: st)
    moreover obtain o' where "res = Inr o'"
      using assms(1) by (cases res) (auto simp: run_task_def op None st split: prod.splits)
    then have "close_task env o' s' p' h' (we_meanwhile env w1) = (Inr outcome, w')"
      using assms(1) by (simp add: run_task_def op None st)
    ultimately show thesis using that i by simp
  next
    case (Some wid)
    obtain res w3 where st: "run_workflow_task env s (we_meanwhile env w1) = (res, w3)" by fastforce
    obtain s' o' where res: "res = Inr (s', o')"
      using assms(1) by (cases res) (auto simp: run_task_def op Some st)
    have "close_task env o' s' plan history w3 = (Inr outcome, w')"
      using assms(1) by (simp add: run_task_def op Some st res)
    then show thesis using that i run_workflow_task_id [OF st [unfolded res]] by simp
  qed
qed

text \<open>C39: A task that ends without an error releases its agent.  Provided that the agent loop keeps the
  agent's identity, the agent is stored without an owner, without a lease, without a current task and
  without an execution checkpoint, whatever other processes wrote to its row in the meantime.\<close>

theorem finished_task_releases_agent:
  assumes "run_task env task w = (Inr outcome, w')"
    and "\<And>s p h. as_id (fst (snd (we_run_step env s p h))) = as_id s"
  shows "case find (\<lambda>r. ag_id r = task_agent_id task) (wt_agents w') of
      None \<Rightarrow> False
    | Some r \<Rightarrow> ag_claimed_by r = None \<and> ag_lease_expires_at r = None \<and> ag_current_task r = None
        \<and> json_get ''execution_checkpoint'' (ag_metadata r) = None"
proof -
  from assms obtain s' o' p' h' w2 where i: "as_id s' = task_agent_id task"
    and cl: "close_task env o' s' p' h' w2 = (Inr outcome, w')"
    by (rule run_task_closed)
  from cl obtain r where "find (\<lambda>r. ag_id r = as_id s') (wt_agents w') = Some r"
    "ag_claimed_by r = None" "ag_lease_expires_at r = None" "ag_current_task r = None"
    "json_get ''execution_checkpoint'' (ag_metadata r) = None"
    by (rule close_task_row)
  then show ?thesis by (simp add: i)
qed

section \<open>Behaviour worth knowing\<close>

text \<open>While a step runs, the stored agent has no plan: the plan is taken out of the state before the claim
  is saved.  A worker that dies in a step leaves an agent without its plan.\<close>

theorem plan_not_stored_while_running:
  assumes "open_task env task w = (Inr (s, plan, history), w')"
  shows "\<exists>r. find (\<lambda>r. ag_id r = task_agent_id task) (wt_agents w') = Some r \<and> ag_plan r = None
    \<and> ag_claimed_by r = Some (we_name env)"
proof (rule open_taskE [OF assms])
  fix s0
  assume c: "claimed_state env task s0 = Inr s" and i: "as_id s = task_agent_id task"
    and w': "wt_agents w' = upsert_agent (we_ext env) s (wt_agents w)"
  show ?thesis
    using upserted_row [of s "we_ext env" "wt_agents w"] claimed_stateD [OF c] unfolding w' i by auto
qed

text \<open>What the step left is stored, even when a user paused the agent in the meantime.\<close>

theorem pause_is_overwritten:
  assumes "open_task env task w = (Inr (s, plan, history), w1)" "as_workflow_id s = None"
    and "we_run_step env s plan history = (Inr outcome, s', plan', history')" "as_id s' = as_id s"
    and "run_task env task w = (Inr outcome', w')"
  shows "\<exists>r. find (\<lambda>r. ag_id r = task_agent_id task) (wt_agents w') = Some r
    \<and> ag_status r = status_to_str (as_status s')"
proof -
  have "close_task env outcome s' plan' history' (we_meanwhile env w1) = (Inr outcome', w')"
    using assms by (simp add: run_task_def)
  then obtain r where "find (\<lambda>r. ag_id r = as_id s') (wt_agents w') = Some r" "ag_status r = status_to_str (as_status s')"
    by (rule close_task_row)
  moreover have "as_id s = task_agent_id task" using assms(1) by (elim open_taskE)
  ultimately show ?thesis using assms(4) by auto
qed

text \<open>The number of recompilations so far has no part in the decision, so the limit of the policy is
  never reached.\<close>

theorem recompile_limit_not_enforced:
  assumes "set_metadata ''recompile_count'' (JNumber (PosInt n)) s = Some s'"
  shows "outcome_recompile_request parse outcome s' = outcome_recompile_request parse outcome s"
proof -
  have "json_get ''recompile_policy'' (as_metadata s') = json_get ''recompile_policy'' (as_metadata s)"
    using assms json_set_get by (fastforce simp: set_metadata_def)
  then show ?thesis
    by (simp add: outcome_recompile_request_def should_request_recompile_def split: step_outcome.split option.split)
qed

section \<open>Witnesses\<close>

text \<open>A worker whose step waits a minute, on a database that does not fail.\<close>

definition sample_worker :: "json worker_env" where
  "sample_worker = \<lparr>we_name = ''w1'', we_ext = sample_ext, we_rfc3339 = (\<lambda>_. ''now''), we_db = (\<lambda>_. None),
     we_history_of = (\<lambda>v. case v of Some x \<Rightarrow> x | None \<Rightarrow> JArray []), we_history_value = (\<lambda>h. h),
     we_parse_policy = (\<lambda>_. None),
     we_queries = \<lparr>sq_by_id = (\<lambda>_ _. Inr None), sq_by_fingerprint = (\<lambda>_ _. Inr None)\<rparr>,
     we_draws = \<lparr>sd_agent_id = ''a'', sd_role_id = ''r'', sd_session_id = ''s'', sd_now = 0\<rparr>,
     we_run_step = (\<lambda>s p h. (Inr (Continue 60), s, p, h)), we_run_workflow = (\<lambda>_. Inr DagCompleted),
     we_meanwhile = (\<lambda>w. w), we_opened_at = 0, we_closed_at = 1\<rparr>"

definition sample_worker_task :: execution_task where
  "sample_worker_task = \<lparr>task_id = ''k1'', task_agent_id = ''a1'', task_attempt = 0, task_enqueued_at = 0\<rparr>"

definition sample_worker_tables :: worker_tables where
  "sample_worker_tables = \<lparr>wt_agents = upsert_agent sample_ext sample_agent [], wt_goals = [], wt_roles = [],
     wt_definitions = [], wt_sessions = []\<rparr>"

theorem queue_drains_witness:
  "fst (rounds (\<lambda>_. sample_worker) 4 ([sample_worker_task], sample_worker_tables)) = []"
  using queue_drains [of "[sample_worker_task]" 4] by simp

lemma sample_agent_stored: "get_agent_internal ''a1'' (wt_agents sample_worker_tables) = Some sample_agent"
  by (simp add: sample_worker_tables_def upsert_agent_def get_agent_internal_def agent_row_of_def row_to_agent_state_def
      sample_agent_def agent_new_def sample_ext_def i32_to_u32_def to_i32_def str_to_status_def)

lemma sample_claimed: "\<exists>s m. claimed_state sample_worker sample_worker_task sample_agent = Inr s \<and> as_metadata s = JObject m"
  by (simp add: claimed_state_def Let_def sample_worker_def sample_worker_task_def sample_agent_def agent_new_def
      agent_mark_running_def set_execution_checkpoint_def set_metadata_def or_panic_def sample_ext_def lease_duration_def
      del: obj_insert.simps)

lemma sample_run: "fst (run_task sample_worker sample_worker_task sample_worker_tables) = Inr (Continue 60)"
proof -
  obtain s m where s: "claimed_state sample_worker sample_worker_task sample_agent = Inr s" and m: "as_metadata s = JObject m"
    using sample_claimed by blast
  have "as_workflow_id s = None"
    using claimed_stateD [OF s] by (simp add: sample_agent_def agent_new_def)
  moreover have "task_agent_id sample_worker_task = ''a1''" by (simp add: sample_worker_task_def)
  moreover have "we_db sample_worker call = None" for call by (simp add: sample_worker_def)
  moreover have "we_run_step sample_worker a p h = (Inr (Continue 60), a, p, h)" for a p h by (simp add: sample_worker_def)
  ultimately show ?thesis
    by (simp add: run_task_def open_task_def db_ok_def save_agent_def s m sample_agent_stored
        close_task_def outcome_recompile_request_def set_metadata_def or_panic_def Let_def)
qed

theorem finished_task_releases_agent_witness:
  "case find (\<lambda>r. ag_id r = ''a1'') (wt_agents (snd (run_task sample_worker sample_worker_task sample_worker_tables))) of
      None \<Rightarrow> False
    | Some r \<Rightarrow> ag_claimed_by r = None \<and> ag_lease_expires_at r = None \<and> ag_current_task r = None
        \<and> json_get ''execution_checkpoint'' (ag_metadata r) = None"
proof -
  have "run_task sample_worker sample_worker_task sample_worker_tables
    = (Inr (Continue 60), snd (run_task sample_worker sample_worker_task sample_worker_tables))" by (simp add: prod_eq_iff sample_run)
  from finished_task_releases_agent [OF this] show ?thesis
    by (simp add: sample_worker_def sample_worker_task_def)
qed

end
