(* ===== verification/Tool_Args.thy ===== *)
theory Tool_Args
  imports Agent_State Json_Schema
begin

text \<open>
  The arguments of a tool call (the first half of \<open>agent/executor.rs\<close>): the resolution of
  \<open>{{result_of_step_N...}}\<close> references against the outputs of earlier steps, the merge of planned and
  actual arguments, the paths made relative to the workspace, and the checks for missing and
  placeholder arguments.

  The artifact files are an argument: for a step index, the value the file holds, if it can be read
  and parsed.  \<open>lower\<close> is \<open>str::to_lowercase\<close>.
\<close>

section \<open>Results and calls\<close>

record tool_result =
  tr_success :: bool
  tr_output :: json
  tr_error :: "string option"

definition tool_ok :: "json \<Rightarrow> tool_result" where
  "tool_ok output = \<lparr>tr_success = True, tr_output = output, tr_error = None\<rparr>"

definition tool_err :: "string \<Rightarrow> tool_result" where
  "tool_err msg = \<lparr>tr_success = False, tr_output = JNull, tr_error = Some msg\<rparr>"

record parameter_schema =
  par_name :: string
  par_type :: string
  par_description :: string
  par_required :: bool

record tool_call =
  tl_id :: string
  tl_name :: string
  tl_arguments :: json

definition quoted :: "string \<Rightarrow> string" where
  "quoted s = [CHR 0x27] @ s @ [CHR 0x27]"

section \<open>References to earlier steps\<close>

definition step_outputs_from_state :: "(nat \<Rightarrow> json option) \<Rightarrow> agent_state \<Rightarrow> json list" where
  "step_outputs_from_state read_artifact s =
     (let pointers = (case Option.bind (json_get ''step_outputs'' (as_metadata s)) as_array of
                        Some xs \<Rightarrow> xs | None \<Rightarrow> [])
      in map (\<lambda>(index, pointer).
           if Option.bind (json_get ''artifact_path'' pointer) as_str \<noteq> None
           then (case read_artifact index of Some v \<Rightarrow> v | None \<Rightarrow> pointer)
           else pointer) (List.enumerate 0 pointers))"

definition is_ascii_alphanumeric :: "char \<Rightarrow> bool" where
  "is_ascii_alphanumeric c \<longleftrightarrow> is_ascii_digit c \<or> 65 \<le> byte_of c \<and> byte_of c \<le> 90 \<or> 97 \<le> byte_of c \<and> byte_of c \<le> 122"

definition field_char :: "char \<Rightarrow> bool" where
  "field_char c \<longleftrightarrow> is_ascii_alphanumeric c \<or> c = CHR ''_''"

function resolve_selectors :: "string \<Rightarrow> string \<Rightarrow> json \<Rightarrow> (string, json) result" where
  "resolve_selectors trimmed remaining current =
     (if remaining = [] then Inr current
      else case strip_prefix ''.'' remaining of
        Some after \<Rightarrow>
          let field = takeWhile field_char after in
          if field = [] then Inl (''invalid field access in '' @ quoted trimmed)
          else (case json_get field current of
                  None \<Rightarrow> Inl (''field '' @ quoted field @ '' not found in '' @ quoted trimmed)
                | Some v \<Rightarrow> resolve_selectors trimmed (drop (length field) after) v)
      | None \<Rightarrow>
          (case strip_prefix ''['' remaining of
             Some after \<Rightarrow>
               (case str_find '']'' after of
                  None \<Rightarrow> Inl (''unterminated index access in '' @ quoted trimmed)
                | Some close_index \<Rightarrow>
                    let index_str = trim (take close_index after) in
                    (case parse_usize index_str of
                       None \<Rightarrow> Inl (''invalid index '' @ quoted index_str @ '' in '' @ quoted trimmed)
                     | Some index \<Rightarrow>
                         (case json_index index current of
                            None \<Rightarrow> Inl (''index '' @ show_nat index @ '' not found in '' @ quoted trimmed)
                          | Some v \<Rightarrow> resolve_selectors trimmed (drop (close_index + 1) after) v)))
           | None \<Rightarrow> Inl (''unsupported selector '' @ quoted remaining @ '' in '' @ quoted trimmed)))"
  by pat_completeness auto
termination
  by (relation "measure (\<lambda>(t, r, c). length r)") (auto simp: strip_prefix_Some_iff)

declare resolve_selectors.simps [simp del]

definition resolve_template_expression :: "string \<Rightarrow> json list \<Rightarrow> (string, json) result" where
  "resolve_template_expression expr step_outputs =
     (let trimmed = trim expr in
      case strip_prefix ''result_of_step_'' trimmed of
        None \<Rightarrow> Inl (''unsupported template reference '' @ quoted trimmed)
      | Some rest \<Rightarrow>
          let digits = takeWhile is_ascii_digit rest in
          if digits = [] then Inl (''invalid step reference '' @ quoted trimmed)
          else case parse_usize digits of
                 None \<Rightarrow> Inl (''invalid step reference '' @ quoted trimmed)
               | Some step_index \<Rightarrow>
                   if step_index < length step_outputs
                   then resolve_selectors trimmed (drop (length digits) rest) (step_outputs ! step_index)
                   else Inl (''step output '' @ show_nat step_index @ '' is not available''))"

definition resolve_reference_from_state ::
  "(nat \<Rightarrow> json option) \<Rightarrow> string \<Rightarrow> agent_state \<Rightarrow> (string, json) result" where
  "resolve_reference_from_state read_artifact reference s =
     (let trimmed = trim reference;
          expr = (case strip_prefix ''{{'' trimmed of
                    None \<Rightarrow> trimmed
                  | Some v \<Rightarrow> (case strip_prefix ''}}'' (rev v) of None \<Rightarrow> trimmed | Some w \<Rightarrow> trim (rev w)))
      in resolve_template_expression expr (step_outputs_from_state read_artifact s))"

section \<open>Texts with references\<close>

function placeholders_from :: "string \<Rightarrow> nat \<Rightarrow> (nat \<times> nat \<times> string) list" where
  "placeholders_from text search_from =
     (case str_find ''{{'' (drop search_from text) of
        None \<Rightarrow> []
      | Some open_rel \<Rightarrow>
          let open_at = search_from + open_rel in
          (case str_find ''}}'' (drop (open_at + 2) text) of
             None \<Rightarrow> []
           | Some close_rel \<Rightarrow>
               let close_at = open_at + 2 + close_rel in
               (open_at, close_at + 2, trim (take close_rel (drop (open_at + 2) text)))
                 # placeholders_from text (close_at + 2)))"
  by pat_completeness auto
termination
proof (relation "measure (\<lambda>(text, search_from). length text - search_from)")
  fix input :: string and search_from o1 o2 c1 c2 :: nat
  assume "str_find ''{{'' (drop search_from input) = Some o1" "o2 = search_from + o1"
    "str_find ''}}'' (drop (o2 + 2) input) = Some c1" "c2 = o2 + 2 + c1"
  then show "((input, c2 + 2), input, search_from) \<in> measure (\<lambda>(text, search_from). length text - search_from)"
    using str_find_SomeD [of "''{{''" "drop search_from input" o1] by (auto simp: starts_with_split)
qed simp

declare placeholders_from.simps [simp del]

definition extract_placeholders :: "string \<Rightarrow> (nat \<times> nat \<times> string) list" where
  "extract_placeholders text = placeholders_from text 0"

fun template_value_to_string :: "externals \<Rightarrow> json \<Rightarrow> string" where
  "template_value_to_string ext JNull = []"
| "template_value_to_string ext (JBool b) = (if b then ''true'' else ''false'')"
| "template_value_to_string ext (JString s) = s"
| "template_value_to_string ext v = json_to_string ext v"

fun render_placeholders ::
  "externals \<Rightarrow> json list \<Rightarrow> string \<Rightarrow> nat \<Rightarrow> (nat \<times> nat \<times> string) list \<Rightarrow> (string, string) result" where
  "render_placeholders ext outs text cursor [] = Inr (drop cursor text)"
| "render_placeholders ext outs text cursor ((start, stop, expr) # ps) =
     (case resolve_template_expression expr outs of
        Inl e \<Rightarrow> Inl e
      | Inr value \<Rightarrow>
          (case render_placeholders ext outs text stop ps of
             Inl e \<Rightarrow> Inl e
           | Inr rest \<Rightarrow> Inr (take (start - cursor) (drop cursor text) @ template_value_to_string ext value @ rest)))"

definition resolve_template_string :: "externals \<Rightarrow> json list \<Rightarrow> string \<Rightarrow> (string, json) result" where
  "resolve_template_string ext outs text =
     (case extract_placeholders text of
        [] \<Rightarrow> Inr (JString text)
      | [(start, stop, expr)] \<Rightarrow>
          if trim (take start text) = [] \<and> trim (drop stop text) = []
          then resolve_template_expression expr outs
          else map_sum id JString (render_placeholders ext outs text 0 [(start, stop, expr)])
      | ps \<Rightarrow> map_sum id JString (render_placeholders ext outs text 0 ps))"

fun collect_results :: "('e, 'a) result list \<Rightarrow> ('e, 'a list) result" where
  "collect_results [] = Inr []"
| "collect_results (Inl e # rs) = Inl e"
| "collect_results (Inr x # rs) = map_sum id (\<lambda>xs. x # xs) (collect_results rs)"

fun resolve_template_value :: "externals \<Rightarrow> json list \<Rightarrow> json \<Rightarrow> (string, json) result" where
  "resolve_template_value ext outs (JString text) = resolve_template_string ext outs text"
| "resolve_template_value ext outs (JArray items) =
     map_sum id JArray (collect_results (map (resolve_template_value ext outs) items))"
| "resolve_template_value ext outs (JObject m) =
     map_sum id (\<lambda>vs. JObject (zip (map fst m) vs))
       (collect_results (map (\<lambda>kv. resolve_template_value ext outs (snd kv)) m))"
| "resolve_template_value ext outs v = Inr v"

definition resolve_tool_arguments ::
  "externals \<Rightarrow> (nat \<Rightarrow> json option) \<Rightarrow> json \<Rightarrow> agent_state \<Rightarrow> (string, json) result" where
  "resolve_tool_arguments ext read_artifact args s =
     resolve_template_value ext (step_outputs_from_state read_artifact s) args"

section \<open>Planned and actual arguments\<close>

fun is_object_value :: "json \<Rightarrow> bool" where
  "is_object_value (JObject _) = True"
| "is_object_value _ = False"

fun merge_tool_arguments :: "json \<Rightarrow> json \<Rightarrow> json" where
  "merge_tool_arguments (JObject planned) (JObject actual) =
     JObject (fold (\<lambda>(key, merged_value) acc. if merged_value = JNull then acc else obj_insert key merged_value acc)
       (map (\<lambda>kv. (fst kv,
          case map_of planned (fst kv) of
            Some child \<Rightarrow> (if is_object_value (snd kv) then merge_tool_arguments child (snd kv) else snd kv)
          | None \<Rightarrow> snd kv)) actual) planned)"
| "merge_tool_arguments planned JNull = planned"
| "merge_tool_arguments planned actual = actual"

section \<open>Paths\<close>

definition is_absolute :: "string \<Rightarrow> bool" where
  "is_absolute p = starts_with ''/'' p"

definition join_path :: "string \<Rightarrow> string \<Rightarrow> string" where
  "join_path base p =
     (if is_absolute p then p
      else if base = [] \<or> last base = CHR ''/'' then base @ p
      else base @ ''/'' @ p)"

definition path_parts :: "string \<Rightarrow> string list" where
  "path_parts p = filter (\<lambda>c. c \<noteq> [] \<and> c \<noteq> ''.'') (split_on CHR ''/'' p)"

definition file_name :: "string \<Rightarrow> string option" where
  "file_name p = (if path_parts p = [] \<or> last (path_parts p) = ''..'' then None else Some (last (path_parts p)))"

definition file_stem :: "string \<Rightarrow> string option" where
  "file_stem p =
     map_option (\<lambda>name.
       let before = rev (drop 1 (dropWhile (\<lambda>c. c \<noteq> CHR ''.'') (rev name)))
       in if CHR ''.'' \<notin> set name \<or> before = [] then name else before) (file_name p)"

definition ends_with :: "'a list \<Rightarrow> 'a list \<Rightarrow> bool" where
  "ends_with p s = starts_with (rev p) (rev s)"

definition normalize_tool_call :: "(string \<Rightarrow> string) \<Rightarrow> tool_call \<Rightarrow> tool_call" where
  "normalize_tool_call lower call =
     (if tl_name call = ''file_write'' then
        (case Option.bind (json_get ''path'' (tl_arguments call)) as_str of
           None \<Rightarrow> call
         | Some path \<Rightarrow>
             if ends_with ''.pdf'' (lower path)
             then call\<lparr>tl_name := ''pdf_create'', tl_arguments := obj_of_list
               [(''path'', JString path),
                (''title'', JString (case file_stem path of Some t \<Rightarrow> t | None \<Rightarrow> ''Document'')),
                (''content'', JString (case Option.bind (json_get ''content'' (tl_arguments call)) as_str of
                    Some c \<Rightarrow> c | None \<Rightarrow> []))]\<rparr>
             else call)
      else call)"

definition resolve_workspace_relative_path :: "string \<Rightarrow> string \<Rightarrow> string" where
  "resolve_workspace_relative_path path workspace_path =
     (if is_absolute path \<or> starts_with ''./workspace/'' path \<or> starts_with ''workspace/'' path then path
      else join_path workspace_path path)"

definition absolutize_key :: "string \<Rightarrow> string \<Rightarrow> (string \<times> json) list \<Rightarrow> (string \<times> json) list" where
  "absolutize_key workspace_path key m =
     (case Option.bind (map_of m key) as_str of
        None \<Rightarrow> m
      | Some path \<Rightarrow> obj_insert key (JString (resolve_workspace_relative_path path workspace_path)) m)"

definition normalize_compress_args :: "string \<Rightarrow> (string \<times> json) list \<Rightarrow> (string \<times> json) list" where
  "normalize_compress_args workspace_path m =
     (let m1 = absolutize_key workspace_path ''output'' m;
          m2 = (case Option.bind (map_of m1 ''input'') as_str of
                  None \<Rightarrow> m1
                | Some path \<Rightarrow>
                    let resolved = JString (resolve_workspace_relative_path path workspace_path);
                        m' = obj_insert ''input'' resolved m1
                    in if map_of m' ''paths'' = None then obj_insert ''paths'' (JArray [resolved]) m' else m')
      in case Option.bind (map_of m2 ''paths'') as_array of
           None \<Rightarrow> m2
         | Some paths \<Rightarrow> obj_insert ''paths'' (JArray (map (\<lambda>v. case as_str v of
               Some path \<Rightarrow> JString (resolve_workspace_relative_path path workspace_path) | None \<Rightarrow> v) paths)) m2)"

definition normalize_tool_args_for_workspace :: "string \<Rightarrow> string \<Rightarrow> json \<Rightarrow> json" where
  "normalize_tool_args_for_workspace tool_name workspace_path args =
     (case as_object args of
        None \<Rightarrow> args
      | Some m \<Rightarrow> JObject (
          if tool_name \<in> {''file_read'', ''file_write'', ''file_edit'', ''pdf_read'', ''decompress''}
          then absolutize_key workspace_path ''path'' m
          else if tool_name = ''pdf_create'' then
            (case Option.bind (map_of m ''path'') as_str of
               Some path \<Rightarrow> obj_insert ''path'' (JString (resolve_workspace_relative_path path workspace_path)) m
             | None \<Rightarrow>
                 (case Option.bind (map_of m ''filename'') as_str of
                    Some filename \<Rightarrow>
                      obj_insert ''path'' (JString (resolve_workspace_relative_path filename workspace_path)) m
                  | None \<Rightarrow> m))
          else if tool_name = ''compress'' then normalize_compress_args workspace_path m
          else if tool_name \<in> {''code_run'', ''run_registered_wasm''} then
            obj_insert ''workspace'' (JString (case Option.bind (map_of m ''workspace'') as_str of
                Some path \<Rightarrow> resolve_workspace_relative_path path workspace_path
              | None \<Rightarrow> workspace_path)) m
          else m))"

section \<open>Checks\<close>

fun value_is_missing :: "json option \<Rightarrow> bool" where
  "value_is_missing None = True"
| "value_is_missing (Some JNull) = True"
| "value_is_missing (Some (JString text)) = (trim text = [])"
| "value_is_missing (Some (JArray items)) = (items = [])"
| "value_is_missing _ = False"

definition missing_required_args :: "json \<Rightarrow> parameter_schema list \<Rightarrow> string list" where
  "missing_required_args args schema =
     (case as_object args of
        None \<Rightarrow> map par_name (filter par_required schema)
      | Some m \<Rightarrow> map par_name (filter (\<lambda>p. par_required p \<and> value_is_missing (map_of m (par_name p))) schema))"

definition is_placeholder_string :: "string \<Rightarrow> bool" where
  "is_placeholder_string value =
     (let trimmed = trim value; lower = to_ascii_lowercase trimmed in
      trimmed \<noteq> [] \<and>
      (starts_with ''<'' trimmed \<and> ends_with ''>'' trimmed
       \<or> str_contains ''user_provided'' lower \<or> str_contains ''to_be_provided'' lower
       \<or> str_contains ''replace_me'' lower \<or> str_contains ''your_'' lower))"

fun first_some :: "'a option list \<Rightarrow> 'a option" where
  "first_some [] = None"
| "first_some (x # xs) = (case x of Some v \<Rightarrow> Some v | None \<Rightarrow> first_some xs)"

lemma size_zip_item [termination_simp]: "(i, x) \<in> set (zip is xs) \<Longrightarrow> size x < Suc (size_list size xs)"
  using size_list_estimation' [of x xs "size x" size] by (auto dest: set_zip_rightD)

fun placeholder_walk :: "json \<Rightarrow> string \<Rightarrow> string option" where
  "placeholder_walk (JString text) path = (if is_placeholder_string text then Some path else None)"
| "placeholder_walk (JArray items) path =
     first_some (map (\<lambda>(index, item). placeholder_walk item (path @ ''['' @ show_nat index @ '']''))
       (zip [0..<length items] items))"
| "placeholder_walk (JObject m) path =
     first_some (map (\<lambda>kv. placeholder_walk (snd kv) (if path = [] then fst kv else path @ ''.'' @ fst kv)) m)"
| "placeholder_walk _ path = None"

definition placeholder_path :: "json \<Rightarrow> string option" where
  "placeholder_path value = placeholder_walk value []"

definition sanitize_final_answer_candidate :: "string \<Rightarrow> string option" where
  "sanitize_final_answer_candidate output =
     (let trimmed = trim output in
      if trimmed = [] \<or> eq_ignore_ascii_case trimmed ''no output'' \<or> starts_with ''STEP FAILED:'' trimmed then None
      else let answer = trim (case strip_prefix (rev ''STEP COMPLETE'') (rev trimmed) of
                                Some r \<Rightarrow> trim (rev r) | None \<Rightarrow> trimmed)
           in if answer = [] then None else Some answer)"

definition validate_tool_output_result ::
  "externals \<Rightarrow> (string \<times> schema_error \<Rightarrow> string) \<Rightarrow> string \<Rightarrow> tool_result \<Rightarrow> json option \<Rightarrow> tool_result" where
  "validate_tool_output_result ext show_error tool_name res schema =
     (if \<not> tr_success res then res
      else case schema of
        None \<Rightarrow> res
      | Some sch \<Rightarrow>
          (case validate_output_against_schema ext tool_name (tr_output res) sch of
             Inr _ \<Rightarrow> res
           | Inl err \<Rightarrow> tool_err (''tool '' @ quoted tool_name
               @ '' returned output that does not match its schema: '' @ show_error err)))"

section \<open>Properties\<close>

text \<open>Without recorded step outputs no reference resolves.\<close>

lemma no_outputs_no_reference:
  "json_get ''step_outputs'' (as_metadata s) = None \<Longrightarrow> \<exists>e. resolve_reference_from_state ra reference s = Inl e"
  by (simp add: resolve_reference_from_state_def resolve_template_expression_def step_outputs_from_state_def Let_def
      split: option.split)

text \<open>The strings in a value, at any depth.\<close>

fun json_strings :: "json \<Rightarrow> string set" where
  "json_strings (JString t) = {t}"
| "json_strings (JArray items) = (\<Union>v\<in>set items. json_strings v)"
| "json_strings (JObject m) = (\<Union>kv\<in>set m. json_strings (snd kv))"
| "json_strings _ = {}"

lemma first_some_None: "first_some xs = None \<longleftrightarrow> (\<forall>x\<in>set xs. x = None)"
  by (induction xs) (auto split: option.split)

lemma placeholder_walk_None:
  "placeholder_walk v path = None \<longleftrightarrow> (\<forall>t\<in>json_strings v. \<not> is_placeholder_string t)"
proof (induction v path rule: placeholder_walk.induct)
  case (2 items path)
  have "placeholder_walk (JArray items) path = None
      \<longleftrightarrow> (\<forall>p\<in>set (zip [0..<length items] items). placeholder_walk (snd p) (path @ ''['' @ show_nat (fst p) @ '']'') = None)"
    by (auto simp: first_some_None)
  also have "\<dots> \<longleftrightarrow> (\<forall>p\<in>set (zip [0..<length items] items). \<forall>t\<in>json_strings (snd p). \<not> is_placeholder_string t)"
    by (rule ball_cong) (use 2 in \<open>auto\<close>)
  also have "\<dots> \<longleftrightarrow> (\<forall>v\<in>set items. \<forall>t\<in>json_strings v. \<not> is_placeholder_string t)"
  proof -
    have "set items = snd ` set (zip [0..<length items] items)"
      by (metis length_upt list.set_map map_snd_zip minus_nat.diff_0)
    then show ?thesis by (metis (no_types, lifting) imageE imageI)
  qed
  finally show ?case by simp
next
  case (3 m path)
  have "placeholder_walk (JObject m) path = None
      \<longleftrightarrow> (\<forall>kv\<in>set m. placeholder_walk (snd kv) (if path = [] then fst kv else path @ ''.'' @ fst kv) = None)"
    by (auto simp: first_some_None)
  also have "\<dots> \<longleftrightarrow> (\<forall>kv\<in>set m. \<forall>t\<in>json_strings (snd kv). \<not> is_placeholder_string t)"
    by (rule ball_cong) (use 3 in \<open>auto\<close>)
  finally show ?case by simp
qed simp_all

text \<open>The check for placeholders is complete: it reports a path exactly when a string at some depth of the
  arguments is a placeholder.\<close>

theorem placeholder_check_exact:
  "placeholder_path v = None \<longleftrightarrow> {t. t \<in> json_strings v \<and> is_placeholder_string t} = {}"
  by (auto simp: placeholder_path_def placeholder_walk_None)

lemma merge_fold_get:
  "distinct (map fst kvs) \<Longrightarrow>
   map_of (fold (\<lambda>(key, v) acc. if v = JNull then acc else obj_insert key v acc) kvs planned) k
     = (case map_of kvs k of Some v \<Rightarrow> (if v = JNull then map_of planned k else Some v) | None \<Rightarrow> map_of planned k)"
  by (induction kvs arbitrary: planned)
    (auto simp: map_of_obj_insert map_of_eq_None_iff split: option.split prod.split, (metis image_eqI fst_conv)+)

lemma map_of_map_value: "map_of (map (\<lambda>kv. (fst kv, f kv)) kvs) k = map_option (\<lambda>v. f (k, v)) (map_of kvs k)"
  by (induction kvs) auto

text \<open>Merging keeps the plan's arguments.  A field that the call does not have, or has as null, keeps its
  planned value; objects are merged field by field; any other field is the call's.\<close>

theorem merge_keeps_planned:
  assumes "distinct (map fst actual)"
  shows "json_get k (merge_tool_arguments (JObject planned) (JObject actual)) =
     (case (map_of planned k, map_of actual k) of
        (p, None) \<Rightarrow> p
      | (p, Some JNull) \<Rightarrow> p
      | (Some child, Some (JObject m)) \<Rightarrow> Some (merge_tool_arguments child (JObject m))
      | (_, Some v) \<Rightarrow> Some v)"
proof -
  have "merge_tool_arguments child (JObject m) \<noteq> JNull" for child m by (cases child) simp_all
  then show ?thesis
    using assms by (simp add: merge_fold_get map_of_map_value comp_def split: option.split)
      (auto split: json.split option.split)
qed

theorem merge_keeps_planned_witness:
  "json_get ''a'' (merge_tool_arguments (JObject [(''a'', JBool True)]) (JObject [(''a'', JNull)])) = Some (JBool True)"
  using merge_keeps_planned [of "[(''a'', JNull)]" "''a''" "[(''a'', JBool True)]"] by simp

end
