(* ===== verification/Tool_Filters.thy ===== *)
theory Tool_Filters
  imports Tool_Args Agent_Store
begin

text \<open>
  The relevance filters of \<open>agent/executor.rs\<close>: what of the output of a search tool is shown to the
  language model.  \<open>canonicalize\<close> is \<open>fs::canonicalize\<close>.  The score of a memory is a sum of binary64
  values without a bound on its exponent.
\<close>

section \<open>Keywords\<close>

definition stop_words :: "string list" where
  "stop_words = [''the'', ''and'', ''for'', ''with'', ''that'', ''this'', ''from'', ''into'', ''then'', ''than'',
     ''step'', ''user'', ''tool'', ''plan'', ''goal'', ''only'', ''after'', ''before'', ''when'', ''where'', ''what'',
     ''which'', ''your'', ''their'', ''have'', ''will'', ''should'', ''would'', ''could'', ''other'', ''using'',
     ''through'', ''verify'', ''complete'', ''results'']"

fun split_chars :: "(char \<Rightarrow> bool) \<Rightarrow> string \<Rightarrow> string list" where
  "split_chars P [] = [[]]"
| "split_chars P (c # cs) =
     (if P c then [] # split_chars P cs
      else case split_chars P cs of [] \<Rightarrow> [[c]] | w # ws \<Rightarrow> (c # w) # ws)"

definition tokens :: "string \<Rightarrow> string list" where
  "tokens text = filter (\<lambda>t. 3 \<le> length t \<and> t \<notin> set stop_words)
     (map (\<lambda>t. to_ascii_lowercase (trim t)) (split_chars (\<lambda>c. \<not> is_ascii_alphanumeric c) text))"

definition result_relevance_keywords :: "agent_state \<Rightarrow> planned_step \<Rightarrow> string list" where
  "result_relevance_keywords s step =
     sort (remdups (tokens (as_goal s) @ tokens (ps_description step) @ tokens (ps_success_criteria step)))"

text \<open>\<open>matches(p).count()\<close>: occurrences that do not overlap, from the left.\<close>

function count_matches :: "string \<Rightarrow> string \<Rightarrow> nat" where
  "count_matches p s =
     (if p = [] then chars_count s + 1
      else case str_find p s of
        None \<Rightarrow> 0
      | Some i \<Rightarrow> Suc (count_matches p (drop (i + length p) s)))"
  by pat_completeness auto
termination
proof (relation "measure (\<lambda>(p, s). length s)")
  fix p s :: string and i
  assume "p \<noteq> []" "str_find p s = Some i"
  then show "((p, drop (i + length p) s), p, s) \<in> measure (\<lambda>(p, s). length s)"
    using str_find_SomeD [of p s i] by (cases p) auto
qed simp

declare count_matches.simps [simp del]

definition keyword_score :: "string \<Rightarrow> string list \<Rightarrow> nat" where
  "keyword_score text keywords = sum_list (map (\<lambda>k. count_matches k (to_ascii_lowercase text)) keywords)"

section \<open>Paths\<close>

definition normalized_path :: "string \<Rightarrow> string" where
  "normalized_path path = to_ascii_lowercase (map (\<lambda>c. if c = CHR 0x5C then CHR ''/'' else c) path)"

definition path_components :: "string \<Rightarrow> string list" where
  "path_components p =
     (if is_absolute p then [''/''] else if take 1 (split_on CHR ''/'' p) = [''.''] then [''.''] else []) @ path_parts p"

definition path_within_workspace :: "(string \<Rightarrow> string option) \<Rightarrow> string \<Rightarrow> string \<Rightarrow> bool" where
  "path_within_workspace canonicalize path workspace_path =
     (let candidate = (case canonicalize path of Some p \<Rightarrow> p | None \<Rightarrow> join_path workspace_path path);
          workspace = (case canonicalize workspace_path of Some w \<Rightarrow> w | None \<Rightarrow> workspace_path)
      in starts_with (path_components workspace) (path_components candidate))"

definition path_is_low_signal :: "string \<Rightarrow> bool" where
  "path_is_low_signal path =
     list_ex (\<lambda>segment. str_contains segment (normalized_path path))
       [''/.git/'', ''/target/'', ''/node_modules/'', ''/.venv/'', ''/dist/'', ''/build/'', ''/coverage/'']"

section \<open>Filters\<close>

definition str_field :: "string \<Rightarrow> json \<Rightarrow> string" where
  "str_field k v = (case Option.bind (json_get k v) as_str of Some s \<Rightarrow> s | None \<Rightarrow> [])"

definition array_field :: "string \<Rightarrow> json \<Rightarrow> json list" where
  "array_field k v = (case Option.bind (json_get k v) as_array of Some xs \<Rightarrow> xs | None \<Rightarrow> [])"

text \<open>The best \<open>n\<close> items, higher scores first, items of the same score in their order.\<close>

definition take_best :: "nat \<Rightarrow> ('k::{linorder, uminus} \<times> 'a) list \<Rightarrow> 'a list" where
  "take_best n scored = map snd (take n (sort_key (\<lambda>p. - fst p) scored))"

definition replace_items :: "string \<Rightarrow> json list \<Rightarrow> json \<Rightarrow> json" where
  "replace_items key kept output =
     (case as_object output of
        None \<Rightarrow> output
      | Some m \<Rightarrow> JObject (obj_insert key (JArray kept) (obj_insert ''count'' (JNumber (PosInt (length kept))) m)))"

definition annotate_relevance_filter ::
  "json \<Rightarrow> string \<Rightarrow> string list \<Rightarrow> nat \<Rightarrow> nat \<Rightarrow> nat \<Rightarrow> json" where
  "annotate_relevance_filter output mode keywords original_count kept_count dropped_count =
     (case as_object output of
        None \<Rightarrow> output
      | Some m \<Rightarrow> JObject (obj_insert ''relevance_filter'' (obj_of_list
          [(''applied'', JBool True), (''mode'', JString mode), (''keywords'', JArray (map JString keywords)),
           (''original_count'', JNumber (PosInt original_count)), (''kept_count'', JNumber (PosInt kept_count)),
           (''dropped_count'', JNumber (PosInt dropped_count))]) m))"

definition in_scope :: "(string \<Rightarrow> string option) \<Rightarrow> agent_state \<Rightarrow> string \<Rightarrow> bool" where
  "in_scope canonicalize s path \<longleftrightarrow>
     \<not> ((path \<noteq> [] \<and> \<not> path_within_workspace canonicalize path (as_workspace_path s)) \<or> path_is_low_signal path)"

definition filter_glob_search_output ::
  "(string \<Rightarrow> string option) \<Rightarrow> json \<Rightarrow> agent_state \<Rightarrow> planned_step \<Rightarrow> json" where
  "filter_glob_search_output canonicalize output s step =
     (let keywords = result_relevance_keywords s step;
          files = array_field ''files'' output;
          kept_files = filter (\<lambda>f. in_scope canonicalize s (str_field ''path'' f)) files;
          rel_path = (\<lambda>f. case Option.bind (json_get ''rel_path'' f) as_str of Some p \<Rightarrow> p | None \<Rightarrow> str_field ''path'' f);
          score = (\<lambda>f. int (keyword_score (rel_path f) keywords * 3 + keyword_score (str_field ''path'' f) keywords));
          kept = take_best 25 (map (\<lambda>f. (score f, f)) kept_files)
      in annotate_relevance_filter (replace_items ''files'' kept output) ''workspace_path_rerank'' keywords
           (length files) (length kept) (length files - length kept_files))"

definition filter_content_search_output ::
  "(string \<Rightarrow> string option) \<Rightarrow> json \<Rightarrow> agent_state \<Rightarrow> planned_step \<Rightarrow> json" where
  "filter_content_search_output canonicalize output s step =
     (let keywords = result_relevance_keywords s step;
          items = array_field ''matches'' output;
          kept_items = filter (\<lambda>m. in_scope canonicalize s (str_field ''file'' m)) items;
          score = (\<lambda>m. int (keyword_score (str_field ''file'' m) keywords * 2 + keyword_score (str_field ''line'' m) keywords * 4));
          kept = take_best 50 (map (\<lambda>m. (score m, m)) kept_items)
      in annotate_relevance_filter (replace_items ''matches'' kept output) ''workspace_content_rerank'' keywords
           (length items) (length kept) (length items - length kept_items))"

definition filter_web_search_output :: "json \<Rightarrow> agent_state \<Rightarrow> planned_step \<Rightarrow> json" where
  "filter_web_search_output output s step =
     (let keywords = result_relevance_keywords s step;
          items = array_field ''results'' output;
          score = (\<lambda>r. int (keyword_score (str_field ''title'' r) keywords * 4
            + keyword_score (str_field ''snippet'' r) keywords * 3 + keyword_score (str_field ''url'' r) keywords));
          kept = take_best 8 (map (\<lambda>r. (score r, r)) items)
      in annotate_relevance_filter (replace_items ''results'' kept output) ''search_result_rerank'' keywords
           (length items) (length kept) (length items - length kept))"

definition filter_vector_search_output :: "externals \<Rightarrow> json \<Rightarrow> agent_state \<Rightarrow> planned_step \<Rightarrow> json" where
  "filter_vector_search_output ext output s step =
     (let keywords = result_relevance_keywords s step;
          items = array_field ''results'' output;
          metadata = (\<lambda>r. case json_get ''metadata'' r of Some m \<Rightarrow> json_to_string ext m | None \<Rightarrow> []);
          semantic = (\<lambda>r. case Option.bind (json_get ''score'' r) as_f64 of Some q \<Rightarrow> q | None \<Rightarrow> 0);
          score = (\<lambda>r. f64_add (semantic r) (f64_of_nat
            (keyword_score (str_field ''content'' r) keywords * 4 + keyword_score (metadata r) keywords * 2)));
          kept = take_best 10 (map (\<lambda>r. (score r, r)) items)
      in annotate_relevance_filter (replace_items ''results'' kept output) ''semantic_memory_rerank'' keywords
           (length items) (length kept) (length items - length kept))"

definition apply_result_relevance_filter ::
  "externals \<Rightarrow> (string \<Rightarrow> string option) \<Rightarrow> string \<Rightarrow> tool_result \<Rightarrow> agent_state \<Rightarrow> planned_step \<Rightarrow> tool_result" where
  "apply_result_relevance_filter ext canonicalize tool_name res s step =
     (if \<not> tr_success res then res
      else if tool_name = ''glob_search''
        then res\<lparr>tr_output := filter_glob_search_output canonicalize (tr_output res) s step\<rparr>
      else if tool_name = ''content_search''
        then res\<lparr>tr_output := filter_content_search_output canonicalize (tr_output res) s step\<rparr>
      else if tool_name = ''web_search_tool''
        then res\<lparr>tr_output := filter_web_search_output (tr_output res) s step\<rparr>
      else if tool_name = ''vector_search''
        then res\<lparr>tr_output := filter_vector_search_output ext (tr_output res) s step\<rparr>
      else res)"

section \<open>What is shown\<close>

lemma set_take_best: "set (take_best n scored) \<subseteq> snd ` set scored"
  using image_mono [OF set_take_subset [of n "sort_key (\<lambda>p. - fst p) scored"], of snd] by (simp add: take_best_def)

lemma length_take_best: "length (take_best n scored) \<le> n"
  by (simp add: take_best_def)

text \<open>The items that are left out score no higher than the ones that are shown.\<close>

lemma take_best_is_best:
  fixes scored :: "('k::linordered_idom \<times> 'a) list"
  assumes "p \<in> set (take n (sort_key (\<lambda>p. - fst p) scored))" "q \<in> set (drop n (sort_key (\<lambda>p. - fst p) scored))"
  shows "fst q \<le> fst p"
proof -
  have "sorted (map (\<lambda>p. - fst p) (take n (sort_key (\<lambda>p. - fst p) scored) @ drop n (sort_key (\<lambda>p. - fst p) scored)))"
    by (simp only: append_take_drop_id sorted_sort_key)
  with assms show ?thesis by (auto simp: sorted_append simp del: append_take_drop_id)
qed

lemma array_field_annotated:
  assumes "as_object output \<noteq> None" "key \<noteq> ''relevance_filter''" "key \<noteq> ''count''"
  shows "array_field key (annotate_relevance_filter (replace_items key kept output) mode ks a b c) = kept"
  using assms by (auto simp: annotate_relevance_filter_def replace_items_def array_field_def map_of_obj_insert)

text \<open>A file search shows the language model at most 25 files, all of them files that the tool reported,
  and none outside the workspace or below a directory of generated files.\<close>

theorem shown_files_in_scope:
  assumes "as_object (tr_output res) \<noteq> None" "tr_success res"
  shows "let shown = array_field ''files'' (tr_output (apply_result_relevance_filter ext canon ''glob_search'' res s step)) in
     length shown \<le> 25 \<and> (\<forall>f\<in>set shown. f \<in> set (array_field ''files'' (tr_output res))
       \<and> (str_field ''path'' f = [] \<or> path_within_workspace canon (str_field ''path'' f) (as_workspace_path s))
       \<and> \<not> path_is_low_signal (str_field ''path'' f))"
proof -
  define kept where "kept = filter (\<lambda>f. in_scope canon s (str_field ''path'' f)) (array_field ''files'' (tr_output res))"
  obtain score :: "json \<Rightarrow> int" where
    "array_field ''files'' (tr_output (apply_result_relevance_filter ext canon ''glob_search'' res s step))
      = take_best 25 (map (\<lambda>f. (score f, f)) kept)"
    using assms by (simp add: apply_result_relevance_filter_def filter_glob_search_output_def Let_def
        array_field_annotated kept_def)
  moreover have "set (take_best 25 (map (\<lambda>f. (score f, f)) kept)) \<subseteq> set kept"
    using set_take_best [of 25 "map (\<lambda>f. (score f, f)) kept"] by auto
  ultimately show ?thesis
    using length_take_best [of 25 "map (\<lambda>f. (score f, f)) kept"] by (auto simp: kept_def in_scope_def)
qed

text \<open>A found file outside the workspace and one below \<open>target\<close> are left out.\<close>

definition sample_hit :: "string \<Rightarrow> json" where
  "sample_hit path = JObject [(''path'', JString path)]"

definition sample_found_step :: planned_step where
  "sample_found_step = \<lparr>ps_index = 0, ps_description = ''find'', ps_tool = Some ''glob_search'', ps_tool_args = None,
     ps_success_criteria = [], ps_condition = None, ps_foreach = None, ps_depends_on = []\<rparr>"

theorem shown_files_in_scope_witness:
  "set (array_field ''files'' (tr_output (apply_result_relevance_filter sample_ext Some ''glob_search''
      (tool_ok (JObject [(''files'', JArray (map sample_hit [''/tmp/a'', ''/etc/b'', ''/tmp/target/c'']))])) sample_agent sample_found_step)))
    \<subseteq> {sample_hit ''/tmp/a'', sample_hit ''/etc/b'', sample_hit ''/tmp/target/c''}"
  using shown_files_in_scope [of "tool_ok (JObject [(''files'', JArray (map sample_hit [''/tmp/a'', ''/etc/b'', ''/tmp/target/c'']))])"
      sample_ext Some sample_agent sample_found_step]
  by (auto simp: tool_ok_def array_field_def Let_def)

end
