(* ===== verification/Template_Vars.thy ===== *)
theory Template_Vars
  imports Agent_State Dag_Conditions
begin

text \<open>
  Runtime template variables (\<open>agent/template_vars.rs\<close>): the context of a step, the lookup of a
  variable, and the replacement of \<open>{{...}}\<close> in the arguments of a tool.

  The replacement is a loop that starts again from the front of the text after every replacement, so
  it need not end; \<open>None\<close> stands for a call that does not return.  The text of the clock is an
  argument.  The lookup of a path in the outputs of earlier steps is the one of the workflow engine
  (\<open>step_key\<close>, \<open>walk_path\<close>), which the code repeats.
\<close>

section \<open>Context\<close>

record template_context =
  tc_predecessor_outputs :: "(string \<times> json) list"
  tc_state_metadata :: json
  tc_goal :: string
  tc_workspace_path :: string
  tc_tenant_id :: string
  tc_input_data :: json

definition strip_suffix :: "'a list \<Rightarrow> 'a list \<Rightarrow> 'a list option" where
  "strip_suffix p s = map_option rev (strip_prefix (rev p) (rev s))"

definition step_output_key :: "string \<Rightarrow> string option" where
  "step_output_key key =
     Option.bind (strip_prefix ''step_'' key) (\<lambda>rest.
     Option.bind (strip_suffix ''_output'' rest) (\<lambda>step_num.
       if list_all is_ascii_digit step_num then Some (''step-'' @ step_num) else None))"

definition metadata_outputs :: "json \<Rightarrow> (string \<times> json) list" where
  "metadata_outputs metadata =
     (case as_object metadata of
        None \<Rightarrow> []
      | Some kvs \<Rightarrow> List.map_filter (\<lambda>(key, value). map_option (\<lambda>k. (k, value)) (step_output_key key)) kvs)"

definition context_input_data :: "agent_state \<Rightarrow> json" where
  "context_input_data s = (case json_get ''input_data'' (as_metadata s) of Some v \<Rightarrow> v | None \<Rightarrow> JObject [])"

definition from_agent_state :: "agent_state \<Rightarrow> template_context" where
  "from_agent_state s =
     \<lparr>tc_predecessor_outputs = metadata_outputs (as_metadata s), tc_state_metadata = as_metadata s,
      tc_goal = as_goal s, tc_workspace_path = as_workspace_path s, tc_tenant_id = as_tenant_id s,
      tc_input_data = context_input_data s\<rparr>"

definition from_dag_input :: "step_input \<Rightarrow> agent_state \<Rightarrow> template_context" where
  "from_dag_input input s =
     \<lparr>tc_predecessor_outputs = si_predecessor_outputs input, tc_state_metadata = as_metadata s,
      tc_goal = as_goal s, tc_workspace_path = as_workspace_path s, tc_tenant_id = as_tenant_id s,
      tc_input_data = context_input_data s\<rparr>"

section \<open>Variables\<close>

fun resolve_nested :: "string list \<Rightarrow> json \<Rightarrow> json option" where
  "resolve_nested [] current = Some current"
| "resolve_nested (segment # segments) current = Option.bind (json_get segment current) (resolve_nested segments)"

definition resolve_nested_path :: "string \<Rightarrow> json \<Rightarrow> json option" where
  "resolve_nested_path path value = resolve_nested (split_on CHR ''.'' path) value"

definition resolve_predecessor_path :: "string \<Rightarrow> (string \<times> json) list \<Rightarrow> json option" where
  "resolve_predecessor_path path predecessors =
     (case split_on CHR ''.'' path of
        [] \<Rightarrow> None
      | first # segments \<Rightarrow>
          Option.bind (step_key first) (\<lambda>key.
          Option.bind (map_of predecessors key) (walk_path segments)))"

definition resolve_single_var :: "string \<Rightarrow> template_context \<Rightarrow> string \<Rightarrow> json option" where
  "resolve_single_var now ctx var =
     (if var = ''now'' then Some (JString now)
      else if var = ''last_run_at'' then
        Some (case json_get ''last_successful_run_at'' (tc_state_metadata ctx) of
                Some v \<Rightarrow> v | None \<Rightarrow> JString ''1970-01-01T00:00:00Z'')
      else case strip_prefix ''state.'' var of
        Some field \<Rightarrow>
          if field = ''goal'' then Some (JString (tc_goal ctx))
          else if field = ''workspace_path'' then Some (JString (tc_workspace_path ctx))
          else if field = ''tenant_id'' then Some (JString (tc_tenant_id ctx))
          else json_get field (tc_state_metadata ctx)
      | None \<Rightarrow>
          (case strip_prefix ''input.'' var of
             Some field \<Rightarrow> resolve_nested_path field (tc_input_data ctx)
           | None \<Rightarrow>
               resolve_predecessor_path
                 (case strip_prefix ''$.deps.'' var of
                    Some rest \<Rightarrow> rest
                  | None \<Rightarrow> (case strip_prefix ''deps.'' var of Some rest \<Rightarrow> rest | None \<Rightarrow> var))
                 (tc_predecessor_outputs ctx)))"

section \<open>Replacement\<close>

fun template_text :: "externals \<Rightarrow> json \<Rightarrow> string" where
  "template_text ext (JString s) = s"
| "template_text ext JNull = ''null''"
| "template_text ext v = json_to_string ext v"

partial_function (option) resolve_string_templates ::
  "externals \<Rightarrow> (string \<Rightarrow> json option) \<Rightarrow> string \<Rightarrow> string option" where
  "resolve_string_templates ext lookup result =
     (case str_find ''{{'' result of
        None \<Rightarrow> Some result
      | Some start \<Rightarrow>
          (case str_find ''}}'' (drop (start + 2) result) of
             None \<Rightarrow> Some result
           | Some stop \<Rightarrow>
               (case lookup (trim (take stop (drop (start + 2) result))) of
                  Some val \<Rightarrow>
                    resolve_string_templates ext lookup
                      (take start result @ template_text ext val @ drop (stop + 2) (drop (start + 2) result))
                | None \<Rightarrow>
                    if length result \<le> start + 2 + stop + 2 then Some result
                    else if \<not> str_contains ''{{'' (drop (start + 2 + stop + 2) result) then Some result
                    else resolve_string_templates ext lookup result)))"

fun value_has_templates :: "json \<Rightarrow> bool" where
  "value_has_templates (JString s) = (str_contains ''{{'' s \<and> str_contains ''}}'' s)"
| "value_has_templates (JObject kvs) = (\<exists>kv\<in>set kvs. value_has_templates (snd kv))"
| "value_has_templates (JArray xs) = (\<exists>x\<in>set xs. value_has_templates x)"
| "value_has_templates _ = False"

definition has_templates :: "json option \<Rightarrow> bool" where
  "has_templates value = (case value of None \<Rightarrow> False | Some v \<Rightarrow> value_has_templates v)"

fun sequence :: "'a option list \<Rightarrow> 'a list option" where
  "sequence [] = Some []"
| "sequence (x # xs) = Option.bind x (\<lambda>v. Option.bind (sequence xs) (\<lambda>vs. Some (v # vs)))"

fun resolve_templates :: "externals \<Rightarrow> (string \<Rightarrow> json option) \<Rightarrow> json \<Rightarrow> json option" where
  "resolve_templates ext lookup (JString s) =
     (if \<not> str_contains ''{{'' s then Some (JString s)
      else map_option JString (resolve_string_templates ext lookup s))"
| "resolve_templates ext lookup (JObject kvs) =
     map_option (\<lambda>vs. JObject (zip (map fst kvs) vs)) (sequence (map (\<lambda>kv. resolve_templates ext lookup (snd kv)) kvs))"
| "resolve_templates ext lookup (JArray xs) =
     map_option JArray (sequence (map (resolve_templates ext lookup) xs))"
| "resolve_templates ext lookup v = Some v"

definition resolve_step_templates ::
  "externals \<Rightarrow> string \<Rightarrow> template_context \<Rightarrow> planned_step \<Rightarrow> planned_step option" where
  "resolve_step_templates ext now ctx step =
     (case ps_tool_args step of
        None \<Rightarrow> Some step
      | Some args \<Rightarrow>
          if value_has_templates args
          then map_option (\<lambda>args'. step\<lparr>ps_tool_args := Some args'\<rparr>)
            (resolve_templates ext (resolve_single_var now ctx) args)
          else Some step)"

section \<open>Substitution\<close>

datatype template_piece = Lit string | Var string

fun tp_text :: "template_piece \<Rightarrow> string" where
  "tp_text (Lit t) = t"
| "tp_text (Var v) = ''{{'' @ v @ ''}}''"

fun tp_value :: "externals \<Rightarrow> (string \<Rightarrow> json option) \<Rightarrow> template_piece \<Rightarrow> string" where
  "tp_value ext lookup (Lit t) = t"
| "tp_value ext lookup (Var v) = (case lookup (trim v) of Some val \<Rightarrow> template_text ext val | None \<Rightarrow> [])"

fun tp_ok :: "externals \<Rightarrow> (string \<Rightarrow> json option) \<Rightarrow> template_piece \<Rightarrow> bool" where
  "tp_ok ext lookup (Lit t) \<longleftrightarrow> CHR ''{'' \<notin> set t"
| "tp_ok ext lookup (Var v) \<longleftrightarrow> CHR ''}'' \<notin> set v
     \<and> (case lookup (trim v) of None \<Rightarrow> False | Some val \<Rightarrow> CHR ''{'' \<notin> set (template_text ext val))"

lemma resolve_hole:
  assumes "CHR ''{'' \<notin> set pre" "CHR ''}'' \<notin> set v" "lookup (trim v) = Some val"
  shows "resolve_string_templates ext lookup (pre @ ''{{'' @ v @ ''}}'' @ post)
    = resolve_string_templates ext lookup (pre @ template_text ext val @ post)"
proof -
  have "str_find ''{{'' (pre @ ''{{'' @ v @ ''}}'' @ post) = Some (length pre)"
    using assms(1) by (subst str_find_skip) simp_all
  moreover have "str_find ''}}'' (v @ ''}}'' @ post) = Some (length v)"
    using assms(2) by (subst str_find_skip) simp_all
  ultimately show ?thesis
    using assms(3) by (subst resolve_string_templates.simps) simp
qed

lemma resolve_pieces:
  assumes "CHR ''{'' \<notin> set pre" "\<forall>p\<in>set ps. tp_ok ext lookup p"
  shows "resolve_string_templates ext lookup (pre @ concat (map tp_text ps))
    = Some (pre @ concat (map (tp_value ext lookup) ps))"
  using assms
proof (induction ps arbitrary: pre)
  case Nil
  then show ?case by (subst resolve_string_templates.simps) (simp add: str_find_absent)
next
  case (Cons p ps)
  have "CHR ''{'' \<notin> set (pre @ tp_value ext lookup p)"
    using Cons.prems by (cases p) (auto split: option.splits)
  from Cons.IH [OF this] Cons.prems(2)
  have *: "resolve_string_templates ext lookup ((pre @ tp_value ext lookup p) @ concat (map tp_text ps))
      = Some ((pre @ tp_value ext lookup p) @ concat (map (tp_value ext lookup) ps))" by simp
  show ?case
  proof (cases p)
    case (Lit t)
    with * show ?thesis by simp
  next
    case (Var v)
    with Cons.prems obtain val where "lookup (trim v) = Some val" "CHR ''}'' \<notin> set v" by (auto split: option.splits)
    with Cons.prems(1) Var * resolve_hole [of pre v lookup val ext "concat (map tp_text ps)"] show ?thesis by simp
  qed
qed

text \<open>Replacement is substitution.  Where every variable of a text has a value and no value contains
  an opening brace, the loop returns, and the result is the text with each variable replaced by its
  value.\<close>

theorem templates_substitute:
  assumes "\<forall>p\<in>set ps. tp_ok ext lookup p"
  shows "resolve_string_templates ext lookup (concat (map tp_text ps)) = Some (concat (map (tp_value ext lookup) ps))"
  using resolve_pieces [of "[]" ps ext lookup] assms by simp

section \<open>Texts on which the loop does not return\<close>

lemma resolve_stuck:
  assumes step: "\<And>f. (case str_find ''{{'' s of
        None \<Rightarrow> Some s
      | Some start \<Rightarrow>
          (case str_find ''}}'' (drop (start + 2) s) of
             None \<Rightarrow> Some s
           | Some stop \<Rightarrow>
               (case lookup (trim (take stop (drop (start + 2) s))) of
                  Some val \<Rightarrow> f ext lookup (take start s @ template_text ext val @ drop (stop + 2) (drop (start + 2) s))
                | None \<Rightarrow>
                    if length s \<le> start + 2 + stop + 2 then Some s
                    else if \<not> str_contains ''{{'' (drop (start + 2 + stop + 2) s) then Some s
                    else f ext lookup s))) = f ext lookup s"
  shows "resolve_string_templates ext lookup s = None"
proof (rule ccontr)
  assume "resolve_string_templates ext lookup s \<noteq> None"
  then obtain r where ret: "resolve_string_templates ext lookup s = Some r" by blast
  have "ext = ext \<and> lookup = lookup \<longrightarrow> s \<noteq> s"
  proof (rule resolve_string_templates.raw_induct
      [where P = "\<lambda>e l t r. e = ext \<and> l = lookup \<longrightarrow> t \<noteq> s", OF _ ret])
    fix f e l t r
    assume IH: "\<And>e l t r. f e l t = Some r \<Longrightarrow> e = ext \<and> l = lookup \<longrightarrow> t \<noteq> s"
      and eq: "(case str_find ''{{'' t of
        None \<Rightarrow> Some t
      | Some start \<Rightarrow>
          (case str_find ''}}'' (drop (start + 2) t) of
             None \<Rightarrow> Some t
           | Some stop \<Rightarrow>
               (case l (trim (take stop (drop (start + 2) t))) of
                  Some val \<Rightarrow> f e l (take start t @ template_text e val @ drop (stop + 2) (drop (start + 2) t))
                | None \<Rightarrow>
                    if length t \<le> start + 2 + stop + 2 then Some t
                    else if \<not> str_contains ''{{'' (drop (start + 2 + stop + 2) t) then Some t
                    else f e l t))) = Some r"
    show "e = ext \<and> l = lookup \<longrightarrow> t \<noteq> s"
    proof (intro impI notI)
      assume "e = ext \<and> l = lookup" "t = s"
      then have same: "e = ext" "l = lookup" "t = s" by simp_all
      have "f ext lookup s = Some r" using step [of f] eq [unfolded same] by (rule trans [OF sym])
      with IH same show False by blast
    qed
  qed
  then show False by simp
qed

text \<open>A variable without a value that is followed by another template hangs the loop: it is found again
  and again, and the text after it is never looked at.\<close>

theorem unresolved_template_hangs:
  assumes "CHR ''{'' \<notin> set pre" "CHR ''}'' \<notin> set v" "lookup (trim v) = None" "str_contains ''{{'' post"
  shows "resolve_string_templates ext lookup (pre @ ''{{'' @ v @ ''}}'' @ post) = None"
proof (rule resolve_stuck)
  fix f :: "externals \<Rightarrow> (string \<Rightarrow> json option) \<Rightarrow> string \<Rightarrow> string option"
  define s where "s = pre @ ''{{'' @ v @ ''}}'' @ post"
  have d: "drop (length pre + 2) s = v @ ''}}'' @ post" by (simp add: s_def)
  have "str_find ''{{'' s = Some (length pre)"
    using assms(1) unfolding s_def by (subst str_find_skip) simp_all
  moreover note d
  moreover have "str_find ''}}'' (v @ ''}}'' @ post) = Some (length v)"
    using assms(2) by (subst str_find_skip) simp_all
  moreover have "drop (length pre + 2 + length v + 2) s = drop (length v + 2) (drop (length pre + 2) s)"
    by (simp only: drop_drop add_ac)
  then have "drop (length pre + 2 + length v + 2) s = post" unfolding d by simp
  moreover have "length pre + 2 + length v + 2 < length s"
    using assms(4) by (cases post) (simp_all add: s_def str_contains_def)
  ultimately show "(case str_find ''{{'' s of
        None \<Rightarrow> Some s
      | Some start \<Rightarrow>
          (case str_find ''}}'' (drop (start + 2) s) of
             None \<Rightarrow> Some s
           | Some stop \<Rightarrow>
               (case lookup (trim (take stop (drop (start + 2) s))) of
                  Some val \<Rightarrow> f ext lookup (take start s @ template_text ext val @ drop (stop + 2) (drop (start + 2) s))
                | None \<Rightarrow>
                    if length s \<le> start + 2 + stop + 2 then Some s
                    else if \<not> str_contains ''{{'' (drop (start + 2 + stop + 2) s) then Some s
                    else f ext lookup s))) = f ext lookup s"
    using assms(3,4) by (simp del: add_2_eq_Suc')
qed

text \<open>So does a variable whose value is a template of itself, such as a goal that mentions
  \<open>{{state.goal}}\<close>.\<close>

theorem self_reference_hangs:
  assumes "CHR ''}'' \<notin> set v" "lookup (trim v) = Some (JString (''{{'' @ v @ ''}}''))"
  shows "resolve_string_templates ext lookup (''{{'' @ v @ ''}}'') = None"
proof (rule resolve_stuck)
  fix f :: "externals \<Rightarrow> (string \<Rightarrow> json option) \<Rightarrow> string \<Rightarrow> string option"
  let ?s = "''{{'' @ v @ ''}}''"
  have "str_find ''{{'' ?s = Some 0" by simp
  moreover have "str_find ''}}'' (v @ ''}}'') = Some (length v)"
    using assms(1) by (subst str_find_skip) simp_all
  ultimately show "(case str_find ''{{'' ?s of
        None \<Rightarrow> Some ?s
      | Some start \<Rightarrow>
          (case str_find ''}}'' (drop (start + 2) ?s) of
             None \<Rightarrow> Some ?s
           | Some stop \<Rightarrow>
               (case lookup (trim (take stop (drop (start + 2) ?s))) of
                  Some val \<Rightarrow> f ext lookup (take start ?s @ template_text ext val @ drop (stop + 2) (drop (start + 2) ?s))
                | None \<Rightarrow>
                    if length ?s \<le> start + 2 + stop + 2 then Some ?s
                    else if \<not> str_contains ''{{'' (drop (start + 2 + stop + 2) ?s) then Some ?s
                    else f ext lookup ?s))) = f ext lookup ?s"
    using assms(2) by simp
qed

section \<open>Arguments without templates\<close>

lemma sequence_map_Some: "(\<And>x. x \<in> set xs \<Longrightarrow> f x = Some (g x)) \<Longrightarrow> sequence (map f xs) = Some (map g xs)"
  by (induction xs) simp_all

text \<open>Arguments without an opening brace pair come back unchanged.\<close>

theorem plain_arguments_unchanged:
  assumes "\<not> value_has_templates args"
  shows "resolve_step_templates ext now ctx (step\<lparr>ps_tool_args := Some args\<rparr>) = Some (step\<lparr>ps_tool_args := Some args\<rparr>)"
  using assms by (simp add: resolve_step_templates_def)

text \<open>Only the arguments of the tool change.\<close>

theorem templates_frame:
  "resolve_step_templates ext now ctx step = Some step' \<Longrightarrow> step' = step\<lparr>ps_tool_args := ps_tool_args step'\<rparr>"
  by (auto simp: resolve_step_templates_def split: option.splits if_splits)

section \<open>Witnesses\<close>

definition sample_context :: template_context where
  "sample_context = \<lparr>tc_predecessor_outputs = [(''step-0'', JObject [(''output'', JString ''ok'')])],
     tc_state_metadata = JObject [], tc_goal = ''g'', tc_workspace_path = ''/ws'', tc_tenant_id = ''t1'',
     tc_input_data = JObject []\<rparr>"

lemma sample_lookup:
  "resolve_single_var ''now'' sample_context ''state.goal'' = Some (JString ''g'')"
  "resolve_single_var ''now'' sample_context ''step-0.output'' = Some (JString ''ok'')"
  "resolve_single_var ''now'' sample_context ''step-1.output'' = None"
  by (simp_all add: resolve_single_var_def sample_context_def strip_prefix_def resolve_predecessor_path_def step_key_def)

lemma sample_trim: "trim ''state.goal'' = ''state.goal''" "trim ''step-0.output'' = ''step-0.output''"
  "trim ''step-1.output'' = ''step-1.output''"
  by (rule trim_visible; simp add: visible_def byte_of_def)+

theorem templates_substitute_witness:
  "resolve_string_templates sample_ext (resolve_single_var ''now'' sample_context)
     ''a {{state.goal}} b {{step-0.output}}'' = Some ''a g b ok''"
  using templates_substitute [of "[Lit ''a '', Var ''state.goal'', Lit '' b '', Var ''step-0.output'']" sample_ext
      "resolve_single_var ''now'' sample_context"]
  by (simp add: sample_lookup sample_trim)

theorem unresolved_template_hangs_witness:
  "resolve_string_templates sample_ext (resolve_single_var ''now'' sample_context)
     ''{{step-1.output}} {{state.goal}}'' = None"
  using unresolved_template_hangs [of "[]" "''step-1.output''" "resolve_single_var ''now'' sample_context"
      "'' {{state.goal}}''" sample_ext]
  by (simp add: sample_lookup sample_trim str_contains_def)

end
