(* ===== verification/Llm_Schemas.thy ===== *)
theory Llm_Schemas
  imports Llm_Controls Json_Schema
begin

text \<open>
  What a language-model step has to return (\<open>agent/workflow_compiler.rs\<close>): the role that its description
  suggests, the JSON schema of the role's output, and the mapping of the output into the state.  The
  description is lowered as in \<open>Llm_Controls\<close>: no marker contains a letter that a character outside
  ASCII could lower to, except \<open>k\<close> in \<open>check output\<close>, for which \<open>lower\<close> is an argument.
\<close>

definition infer_llm_role :: "(string \<Rightarrow> string) \<Rightarrow> string \<Rightarrow> llm_role" where
  "infer_llm_role to_lowercase hint =
     (let lower = to_lowercase hint; has = list_ex (\<lambda>m. str_contains m lower) in
      if has [''extract'', ''parse'', ''intent''] then Extractor
      else if has [''route'', ''router'', ''decide next''] then Router
      else if has [''critic'', ''review'', ''score''] then Critic
      else if has [''validate'', ''schema'', ''check output''] then Validator
      else if has [''recover'', ''repair'', ''fix''] then Recovery
      else if has [''failure'', ''error classify'', ''classify failure''] then FailureClassifier
      else Drafter)"

definition typed :: "string \<Rightarrow> json" where
  "typed t = obj_of_list [(''type'', JString t)]"

definition string_list_schema :: json where
  "string_list_schema = obj_of_list [(''type'', JString ''array''), (''items'', typed ''string'')]"

fun output_properties :: "llm_role \<Rightarrow> (string \<times> json) list" where
  "output_properties Extractor =
     [(''intent'', typed ''string''), (''entities'', string_list_schema), (''confidence'', typed ''number'')]"
| "output_properties Router =
     [(''next_step'', typed ''string''), (''reason'', typed ''string''), (''confidence'', typed ''number'')]"
| "output_properties Drafter =
     [(''draft_text'', typed ''string''), (''style'', typed ''string''), (''confidence'', typed ''number'')]"
| "output_properties Critic =
     [(''issues'', string_list_schema), (''score'', typed ''number''), (''should_retry'', typed ''boolean'')]"
| "output_properties Validator = [(''is_valid'', typed ''boolean''), (''errors'', string_list_schema)]"
| "output_properties Recovery = [(''fixed_output'', typed ''object''), (''strategy_used'', typed ''string'')]"
| "output_properties FailureClassifier =
     [(''failure_type'', obj_of_list [(''type'', JString ''string''),
        (''enum'', JArray (map JString [''retryable'', ''repairable'', ''replan_required'', ''fatal'']))]),
      (''reason'', typed ''string'')]"

fun required_outputs :: "llm_role \<Rightarrow> string list" where
  "required_outputs Extractor = [''intent'', ''confidence'']"
| "required_outputs Router = [''next_step'', ''reason'']"
| "required_outputs Drafter = [''draft_text'']"
| "required_outputs Critic = [''issues'', ''score'', ''should_retry'']"
| "required_outputs Validator = [''is_valid'', ''errors'']"
| "required_outputs Recovery = [''fixed_output'', ''strategy_used'']"
| "required_outputs FailureClassifier = [''failure_type'', ''reason'']"

definition llm_output_schema :: "llm_role \<Rightarrow> json" where
  "llm_output_schema role = obj_of_list
     [(''type'', JString ''object''), (''properties'', obj_of_list (output_properties role)),
      (''required'', JArray (map JString (required_outputs role)))]"

fun mapped_outputs :: "llm_role \<Rightarrow> string list" where
  "mapped_outputs Extractor = [''intent'', ''entities'', ''confidence'']"
| "mapped_outputs Router = [''next_step'', ''reason'', ''confidence'']"
| "mapped_outputs Drafter = [''draft_text'', ''style'', ''confidence'']"
| "mapped_outputs Critic = [''issues'', ''score'', ''should_retry'']"
| "mapped_outputs Validator = [''is_valid'', ''errors'']"
| "mapped_outputs Recovery = [''fixed_output'', ''strategy_used'']"
| "mapped_outputs FailureClassifier = [''failure_type'', ''reason'']"

definition llm_output_mapping :: "llm_role \<Rightarrow> string \<Rightarrow> string \<rightharpoonup> string" where
  "llm_output_mapping role step_id = map_of (map (\<lambda>field. (field, step_id @ ''.'' @ field)) (mapped_outputs role))"

text \<open>The mapping of a role names exactly the properties of its schema.\<close>

theorem mapping_fits_schema:
  "dom (llm_output_mapping role step_id) = fst ` set (output_properties role)"
  by (cases role) (auto simp: llm_output_mapping_def)

text \<open>Every required output is a property, so a value that has the schema can be mapped.\<close>

theorem required_outputs_mapped: "set (required_outputs role) \<subseteq> dom (llm_output_mapping role step_id)"
  by (cases role) (auto simp: llm_output_mapping_def)

end
