(* ===== verification/Executor.thy ===== *)
theory Executor
  imports Tool_Filters Template_Vars Llm_Schemas Policy Worker
begin

text \<open>
  The execution of a step (\<open>LlmExecutor\<close> in \<open>agent/executor.rs\<close>): the calls that the language model or
  the plan asks for, what is done to their arguments, the checks each call passes before the tool runs,
  and the result of the step.

  The language model, the tools, the inline discovery tools, the redactor of personal data and the
  serializers are arguments.  Prompts, tool selection, log messages and events have no part in what is
  executed and are left out; they reach the model only through its answers, which are arbitrary.  The
  map of workspace tools is never filled by the code, so the calls go to the registry.  A call reports,
  beside its result, the name and arguments with which a tool was really run.
\<close>

section \<open>Environment\<close>

record builtin_tool =
  tool_parameters :: "parameter_schema list"
  tool_output_schema :: "json option"
  tool_execute :: "json \<Rightarrow> (string, tool_result) result"

record chat_response =
  cr_content :: "string option"
  cr_tool_calls :: "tool_call list"

record pii_redactor =
  pii_found :: "string \<Rightarrow> bool"
  pii_redact :: "string \<Rightarrow> string"

record role_execution_policy =
  rp_tool_preferences :: "string list"
  rp_preferred_tool_categories :: "string list"
  rp_tool_pool :: tool_pool
  rp_permission_mode :: permission_mode
  rp_allowed_wasm_tools :: "string list"

record executor_env =
  ex_ext :: externals
  ex_lower :: "string \<Rightarrow> string"
  ex_parse_json :: "string \<Rightarrow> (string, json) result"
  ex_pretty :: "json \<Rightarrow> string"
  ex_show_schema_error :: "string \<times> schema_error \<Rightarrow> string"
  ex_now :: string
  ex_read_artifact :: "nat \<Rightarrow> json option"
  ex_canonicalize :: "string \<Rightarrow> string option"
  ex_tools :: "string \<Rightarrow> builtin_tool option"
  ex_pii :: "pii_redactor option"
  ex_policy_rules :: "policy_rule_set option"
  ex_role :: "role_execution_policy option"
  ex_chat :: "nat \<Rightarrow> (error_chain, chat_response) result"
  ex_meta_tool :: "nat \<Rightarrow> tool_call \<Rightarrow> json"
  ex_synthesize :: "tool_result list \<Rightarrow> (error_chain, string option) result"

section \<open>The role's policy\<close>

definition allowed_wasm_tools :: "string list \<Rightarrow> string list" where
  "allowed_wasm_tools tools =
     remdups_adj (sort (List.map_filter (\<lambda>t. Option.bind (strip_prefix ''wasm_tool:'' t)
       (\<lambda>name. if trim name = [] then None else Some (trim name))) tools))"

definition load_role_execution_policy ::
  "string list \<Rightarrow> agent_role \<Rightarrow> role_execution_policy" where
  "load_role_execution_policy preferred_categories role =
     \<lparr>rp_tool_preferences = filter (\<lambda>t. strip_prefix ''wasm_tool:'' t = None) (ro_tools role),
      rp_preferred_tool_categories = preferred_categories,
      rp_tool_pool = eg_tool_pool (ro_execution_guidelines role),
      rp_permission_mode = eg_permission_mode (ro_execution_guidelines role),
      rp_allowed_wasm_tools = allowed_wasm_tools (ro_tools role)\<rparr>"

fun tool_pool_text :: "tool_pool \<Rightarrow> string" where
  "tool_pool_text WorkerPool = ''worker''"
| "tool_pool_text PlanPool = ''plan''"
| "tool_pool_text CoordinatorPool = ''coordinator''"
| "tool_pool_text VerificationPool = ''verification''"
| "tool_pool_text TeammatePool = ''teammate''"

section \<open>Kinds of steps\<close>

definition greetings :: "string list" where
  "greetings = [''hi'', ''hello'', ''hey'', ''yo'', ''good morning'', ''good afternoon'', ''good evening'',
     ''thanks'', ''thank you'', ''bye'', ''goodbye'']"

definition is_direct_response_goal :: "(string \<Rightarrow> string) \<Rightarrow> string \<Rightarrow> bool" where
  "is_direct_response_goal to_lowercase goal =
     (let trimmed = trim goal; lower = to_lowercase trimmed in
      trimmed \<noteq> [] \<and> (lower \<in> set greetings
        \<or> list_all (\<lambda>c. is_ascii_digit c \<or> c \<in> set '' +-*/().='') lower))"

definition is_llm_worker_step :: "planned_step \<Rightarrow> bool" where
  "is_llm_worker_step step \<longleftrightarrow> ps_tool step = Some LLM_WORKER_TOOL_NAME"

definition is_answer_only_step :: "(string \<Rightarrow> string) \<Rightarrow> planned_step \<Rightarrow> bool" where
  "is_answer_only_step to_lowercase step \<longleftrightarrow> ps_tool step = None \<and>
     list_ex (\<lambda>m. str_contains m (to_lowercase (ps_description step)))
       [''reply'', ''answer'', ''respond'', ''return'', ''tell the user'', ''provide the user'']"

definition make_planned_tool_call :: "planned_step \<Rightarrow> tool_call option" where
  "make_planned_tool_call step =
     (if is_llm_worker_step step then None
      else map_option (\<lambda>name. \<lparr>tl_id = ''planned-step-'' @ show_nat (ps_index step), tl_name = name,
          tl_arguments = (case ps_tool_args step of Some a \<Rightarrow> a | None \<Rightarrow> JObject [])\<rparr>) (ps_tool step))"

text \<open>The name of a role in a deserialized \<open>llm_role\<close>.\<close>

definition role_of_name :: "string \<Rightarrow> llm_role option" where
  "role_of_name name = find (\<lambda>r. llm_role_name r = name)
     [Extractor, Router, Drafter, Critic, Validator, Recovery, FailureClassifier]"

fun llm_role_of_value :: "json \<Rightarrow> llm_role option" where
  "llm_role_of_value (JString name) = role_of_name name"
| "llm_role_of_value (JObject [(name, JNull)]) = role_of_name name"
| "llm_role_of_value _ = None"

definition llm_output_schema_from_step :: "(string \<Rightarrow> string) \<Rightarrow> planned_step \<Rightarrow> json" where
  "llm_output_schema_from_step to_lowercase step =
     (let args = Option.bind (ps_tool_args step) as_object;
          arg = (\<lambda>k. Option.bind args (\<lambda>m. map_of m k))
      in case arg ''output_schema'' of
           Some schema \<Rightarrow> schema
         | None \<Rightarrow> llm_output_schema (case Option.bind (arg ''llm_role'') llm_role_of_value of
             Some role \<Rightarrow> role | None \<Rightarrow> infer_llm_role to_lowercase (ps_description step)))"

section \<open>The answer of the model\<close>

definition META_TOOL_NAMES :: "string list" where
  "META_TOOL_NAMES = [''list_connectors_in_category'', ''request_more_connectors'', ''create_custom_connector'',
     ''request_more_tools'', ''tool_search'', ''create_workspace_tool'']"

text \<open>A slice \<open>&s[..n.min(s.len())]\<close> panics unless the index lies between two characters.\<close>

definition slice_to :: "string \<Rightarrow> nat \<Rightarrow> string option" where
  "slice_to s n =
     (let i = min (length s) n in
      if i = length s \<or> \<not> (128 \<le> byte_of (s ! i) \<and> byte_of (s ! i) < 192) then Some (take i s) else None)"

fun chat_loop :: "executor_env \<Rightarrow> nat \<Rightarrow> nat \<Rightarrow> chat_response task_result" where
  "chat_loop env rounds_left i =
     (case ex_chat env i of
        Inl e \<Rightarrow> Inl (TaskError e)
      | Inr r \<Rightarrow>
          (case (rounds_left, find (\<lambda>c. tl_name c \<in> set META_TOOL_NAMES) (cr_tool_calls r)) of
             (Suc n, Some call) \<Rightarrow>
               (case slice_to (json_to_string (ex_ext env) (ex_meta_tool env i call)) 2000 of
                  None \<Rightarrow> Inl TaskPanicked
                | Some _ \<Rightarrow> chat_loop env n (Suc i))
           | _ \<Rightarrow> Inr r))"

declare chat_loop.simps [simp del]

definition fast_path :: "planned_step \<Rightarrow> bool" where
  "fast_path step \<longleftrightarrow> ps_tool step \<noteq> None \<and> \<not> is_llm_worker_step step
     \<and> (case Option.bind (ps_tool_args step) as_object of Some m \<Rightarrow> m \<noteq> [] | None \<Rightarrow> False)"

definition step_response :: "executor_env \<Rightarrow> planned_step \<Rightarrow> chat_response task_result" where
  "step_response env step =
     (if fast_path step
      then Inr \<lparr>cr_content = Some (''Deterministic Fast-Path executing: '' @ the (ps_tool step)),
                cr_tool_calls = [the (make_planned_tool_call step)]\<rparr>
      else chat_loop env 3 0)"

definition worker_output ::
  "executor_env \<Rightarrow> planned_step \<Rightarrow> string option \<Rightarrow> string option \<times> tool_result list" where
  "worker_output env step content =
     (case content of
        None \<Rightarrow> (None, [tool_err ''llm_worker returned no output''])
      | Some text \<Rightarrow>
          (case ex_parse_json env text of
             Inl e \<Rightarrow> (Some text, [tool_err (''llm_worker returned non-JSON output: '' @ e)])
           | Inr parsed \<Rightarrow>
               (case validate_output_against_schema (ex_ext env) ''llm_worker'' parsed
                   (llm_output_schema_from_step (ex_lower env) step) of
                  Inl e \<Rightarrow> (Some text, [tool_err (''llm_worker output schema mismatch: '' @ ex_show_schema_error env e)])
                | Inr _ \<Rightarrow> (Some (ex_pretty env parsed), []))))"

section \<open>A tool call\<close>

definition plane_guard_risk :: "string \<Rightarrow> string" where
  "plane_guard_risk tool_name =
     (if starts_with ''workspace_tool_'' tool_name then ''medium''
      else if tool_name \<in> set [''file_read'', ''glob_search'', ''content_search'', ''memory_recall'', ''web_fetch'',
          ''web_search_tool'', ''http_request'', ''browser'', ''browser_open'', ''image_info'', ''pdf_read'', ''cron_list'',
          ''hardware_board_info'', ''hardware_memory_map'', ''hardware_memory_read'', ''wasm_inspect'', ''diff'',
          ''spreadsheet_read'', ''vector_search'', ''process_monitor'', ''sql_query''] then ''low''
      else if tool_name \<in> set [''docker'', ''kubernetes'', ''delegate'', ''mcp_session'', ''acp_session'',
          ''register_api_tool'', ''search_mcp_registry''] then ''high''
      else ''medium'')"

definition connector_names :: "string list" where
  "connector_names = [''salesforce'', ''hubspot'', ''zendesk'', ''intercom'', ''freshdesk'', ''github'', ''jira'',
     ''notion'', ''asana'', ''linear'', ''monday'', ''slack'', ''gmail'', ''google_calendar'', ''outlook'', ''quickbooks'',
     ''stripe'', ''servicenow'', ''pagerduty'', ''greenhouse'', ''docusign'', ''dbt_cloud'', ''twilio'', ''teams'',
     ''shopify'', ''airtable'', ''mailchimp'']"

definition needs_tenant :: "string \<Rightarrow> bool" where
  "needs_tenant name \<longleftrightarrow> name \<in> set [''external_db'', ''external_api'', ''run_registered_wasm'', ''mcp_session'',
     ''search_mcp_registry'', ''send_message'', ''message_inbox'', ''task_create'', ''task_get'', ''task_list'',
     ''task_update'', ''task_stop'', ''task_output'', ''memory_consolidate'', ''delegate'', ''enter_worktree'',
     ''exit_worktree''] \<or> name \<in> set connector_names"

definition or_insert :: "string \<Rightarrow> string option \<Rightarrow> (string \<times> json) list \<Rightarrow> (string \<times> json) list" where
  "or_insert k v m = (case v of Some s \<Rightarrow> (if map_of m k = None then obj_insert k (JString s) m else m) | None \<Rightarrow> m)"

definition insert_step_index :: "planned_step \<Rightarrow> (string \<times> json) list \<Rightarrow> (string \<times> json) list" where
  "insert_step_index step m =
     (if map_of m ''step_index'' = None then obj_insert ''step_index'' (JNumber (PosInt (ps_index step))) m else m)"

definition inject_context :: "agent_state \<Rightarrow> planned_step \<Rightarrow> string \<Rightarrow> json \<Rightarrow> json" where
  "inject_context s step name args =
     (case as_object args of
        None \<Rightarrow> args
      | Some m \<Rightarrow>
          let when_name = (\<lambda>names v. if name \<in> set names then v else None);
              m1 = (if needs_tenant name then
                  or_insert ''workspace_path'' (when_name [''enter_worktree'', ''exit_worktree''] (Some (as_workspace_path s)))
                  (or_insert ''task_id'' (when_name [''send_message'', ''message_inbox''] (as_current_task s))
                  (or_insert ''parent_agent_id'' (when_name [''send_message'', ''message_inbox''] (as_parent_agent_id s))
                  (or_insert ''parent_agent_id'' (when_name [''delegate''] (Some (as_id s)))
                  (or_insert ''goal_instance_id'' (meta_str ''goal_instance_id'' s)
                  (insert_step_index step
                  (or_insert ''agent_id'' (Some (as_id s))
                  (or_insert ''tenant_id'' (Some (as_tenant_id s)) m)))))))
                else m)
          in JObject (if name = ''run_registered_wasm'' then
              or_insert ''goal_instance_id'' (meta_str ''goal_instance_id'' s)
              (or_insert ''role_id'' (meta_str ''role_id'' s)
              (or_insert ''agent_id'' (Some (as_id s))
              (or_insert ''workspace'' (Some (as_workspace_path s)) m1)))
            else m1))"

text \<open>The call as it will be checked: renamed, merged with the planned arguments, its references resolved,
  its paths and context filled in.\<close>

definition prepare_call ::
  "executor_env \<Rightarrow> agent_state \<Rightarrow> planned_step \<Rightarrow> tool_call \<Rightarrow> string \<times> (string, json) result" where
  "prepare_call env s step raw =
     (let call = normalize_tool_call (ex_lower env) raw;
          name = tl_name call;
          merged = (case ps_tool_args step of
              Some planned \<Rightarrow> (if ps_tool step = Some name then merge_tool_arguments planned (tl_arguments call)
                else tl_arguments call)
            | None \<Rightarrow> tl_arguments call)
      in (name,
          case resolve_tool_arguments (ex_ext env) (ex_read_artifact env) merged s of
            Inl e \<Rightarrow> Inl (''tool '' @ quoted name @ '' argument resolution failed: '' @ e)
          | Inr resolved \<Rightarrow> Inr (inject_context s step name
              (normalize_tool_args_for_workspace name (as_workspace_path s) resolved))))"

definition wasm_scope :: "executor_env \<Rightarrow> string \<Rightarrow> json \<Rightarrow> (string, unit) result" where
  "wasm_scope env name args =
     (if name \<noteq> ''run_registered_wasm'' then Inr ()
      else let allowed = (case ex_role env of Some rp \<Rightarrow> rp_allowed_wasm_tools rp | None \<Rightarrow> []);
               requested = (case Option.bind (json_get ''tool_name'' args) as_str of Some t \<Rightarrow> trim t | None \<Rightarrow> [])
           in if requested = [] then
                Inl ''run_registered_wasm requires tool_name; configure and approve it in plan mode''
              else if allowed = [] then
                Inl ''run_registered_wasm is not approved for this role. Configure custom tools in plan mode first.''
              else if requested \<notin> set allowed then
                Inl (''WASM tool '' @ quoted requested @ '' is out of scope for this role. Allowed: ''
                  @ join_with '', '' allowed)
              else Inr ())"

definition check_call :: "executor_env \<Rightarrow> string \<Rightarrow> json \<Rightarrow> (string, builtin_tool) result" where
  "check_call env name args =
     (if name = ''create_workspace_tool'' then
        Inl ''create_workspace_tool is disabled at runtime. Configure and test custom tools in plan mode, then use run_registered_wasm.''
      else case wasm_scope env name args of
        Inl e \<Rightarrow> Inl e
      | Inr _ \<Rightarrow>
      (case ex_tools env name of
        None \<Rightarrow> Inl (''tool '' @ quoted name @ '' not found in registry or workspace custom tools'')
      | Some tool \<Rightarrow>
          let missing = missing_required_args args (tool_parameters tool) in
          if missing \<noteq> [] then Inl (''tool '' @ quoted name @ '' missing required args: '' @ join_with '', '' missing)
          else case placeholder_path args of
            Some path \<Rightarrow> Inl (''tool '' @ quoted name @ '' has unresolved placeholder args at ''
              @ (if path = [] then ''<root>'' else path))
          | None \<Rightarrow> Inr tool))"

definition clean_arguments :: "executor_env \<Rightarrow> json \<Rightarrow> json" where
  "clean_arguments env args =
     (case ex_pii env of
        None \<Rightarrow> args
      | Some pii \<Rightarrow>
          let raw = json_to_string (ex_ext env) args in
          if pii_found pii raw
          then (case ex_parse_json env (pii_redact pii raw) of Inr v \<Rightarrow> v | Inl _ \<Rightarrow> args)
          else args)"

definition call_context ::
  "executor_env \<Rightarrow> agent_state \<Rightarrow> string \<Rightarrow> json \<Rightarrow> policy_context" where
  "call_context env s name args =
     \<lparr>pc_tenant_id = as_tenant_id s, pc_agent_id = as_id s, pc_tool_name = name, pc_tool_args = args,
      pc_plan = (case meta_str ''plan_tier'' s of Some t \<Rightarrow> t | None \<Rightarrow> ''free''),
      pc_risk_level = plane_guard_risk name,
      pc_permission_mode = permission_mode_as_str
        (case ex_role env of Some rp \<Rightarrow> rp_permission_mode rp | None \<Rightarrow> SafeAuto),
      pc_tool_pool = tool_pool_text (case ex_role env of Some rp \<Rightarrow> rp_tool_pool rp | None \<Rightarrow> WorkerPool),
      pc_workspace_root = Some (as_workspace_path s)\<rparr>"

definition policy_refusal :: "executor_env \<Rightarrow> agent_state \<Rightarrow> string \<Rightarrow> json \<Rightarrow> string option" where
  "policy_refusal env s name args =
     (case ex_policy_rules env of
        None \<Rightarrow> None
      | Some tenant_rules \<Rightarrow>
          (case evaluate (ex_ext env) (call_context env s name args) tenant_rules of
             policy_decision.Block rid reason \<Rightarrow> Some (''policy blocked ['' @ rid @ '']: '' @ reason)
           | RequireApproval rid message \<Rightarrow>
               Some (''awaiting human approval for tool '' @ quoted name @ '' (rule: '' @ rid @ '')'')
           | _ \<Rightarrow> None))"

record call_report =
  rep_name :: string
  rep_result :: tool_result
  rep_executed :: "(string \<times> json) option"

definition refused :: "string \<Rightarrow> string \<Rightarrow> call_report" where
  "refused name e = \<lparr>rep_name = name, rep_result = tool_err e, rep_executed = None\<rparr>"

definition run_tool_call ::
  "executor_env \<Rightarrow> agent_state \<Rightarrow> planned_step \<Rightarrow> tool_call \<Rightarrow> call_report" where
  "run_tool_call env s step raw =
     (case prepare_call env s step raw of
        (name, Inl e) \<Rightarrow> refused name e
      | (name, Inr args) \<Rightarrow>
      (case check_call env name args of
        Inl e \<Rightarrow> refused name e
      | Inr tool \<Rightarrow>
          let clean = clean_arguments env args in
          (case policy_refusal env s name clean of
             Some e \<Rightarrow> refused name e
           | None \<Rightarrow>
               if plane_guard_risk name = ''critical'' then
                 refused name (''plane_guard: '' @ quoted name @ '' is critical-risk and blocked.'')
               else \<lparr>rep_name = name,
                 rep_result = (case tool_execute tool clean of
                     Inr res \<Rightarrow> validate_tool_output_result (ex_ext env) (ex_show_schema_error env) name
                       (apply_result_relevance_filter (ex_ext env) (ex_canonicalize env) name res s step)
                       (tool_output_schema tool)
                   | Inl e \<Rightarrow> tool_err (''tool '' @ quoted name @ '' error: '' @ e)),
                 rep_executed = Some (name, clean)\<rparr>)))"

section \<open>A step\<close>

record exec_result =
  er_step_index :: nat
  er_success :: bool
  er_skipped :: bool
  er_output :: string
  er_final_answer_candidate :: "string option"
  er_tool_results :: "tool_result list"
  er_tools_called :: "string list"
  er_items_processed :: nat
  er_connector_writes :: "string list"

definition item_count :: "json \<Rightarrow> nat option" where
  "item_count output =
     Option.bind (or_else (json_get ''count'' output) (or_else (json_get ''processed'' output)
       (or_else (json_get ''total'' output) (json_get ''rows'' output)))) json_as_u64"

definition sum_u64 :: "externals \<Rightarrow> nat list \<Rightarrow> nat option" where
  "sum_u64 ext ns =
     (if sum_list ns < 2 ^ 64 then Some (sum_list ns)
      else if overflow_checks ext then None else Some (sum_list ns mod 2 ^ 64))"

definition step_calls :: "executor_env \<Rightarrow> agent_state \<Rightarrow> plan \<Rightarrow> planned_step \<Rightarrow> chat_response \<Rightarrow> tool_call list" where
  "step_calls env s p step resp =
     (let direct = is_direct_response_goal (ex_lower env) (as_goal s) \<and> length (plan_steps p) = 1 \<and> is_llm_worker_step step;
          answer_only = \<not> direct \<and> \<not> is_llm_worker_step step \<and> is_answer_only_step (ex_lower env) step
      in if is_llm_worker_step step then []
         else if \<not> answer_only \<and> cr_tool_calls resp = [] then
           (case make_planned_tool_call step of Some c \<Rightarrow> [c] | None \<Rightarrow> [])
         else cr_tool_calls resp)"

definition final_output ::
  "executor_env \<Rightarrow> agent_state \<Rightarrow> plan \<Rightarrow> planned_step \<Rightarrow> string option \<Rightarrow> tool_result list
     \<Rightarrow> (string \<times> string option) task_result" where
  "final_output env s p step content results =
     (let output = (case content of Some c \<Rightarrow> c | None \<Rightarrow> ''no output'');
          candidate = sanitize_final_answer_candidate output;
          direct = is_direct_response_goal (ex_lower env) (as_goal s) \<and> length (plan_steps p) = 1 \<and> is_llm_worker_step step
      in if \<not> direct \<and> plan_is_complete p (ps_index step + 1) \<and> \<not> str_contains ''STEP FAILED'' output
            \<and> (results \<noteq> [] \<or> candidate = None)
         then (case ex_synthesize env results of
                 Inl e \<Rightarrow> Inl (TaskError e)
               | Inr None \<Rightarrow> Inr (output, candidate)
               | Inr (Some answer) \<Rightarrow> Inr (answer, Some answer))
         else Inr (output, candidate))"

definition finish_step ::
  "executor_env \<Rightarrow> agent_state \<Rightarrow> plan \<Rightarrow> planned_step \<Rightarrow> string option \<Rightarrow> tool_result list \<Rightarrow> string list
     \<Rightarrow> exec_result task_result" where
  "finish_step env s p step content results called =
     (case final_output env s p step content results of
        Inl e \<Rightarrow> Inl e
      | Inr (out, cand) \<Rightarrow>
          (case or_panic (sum_u64 (ex_ext env)
              (List.map_filter (\<lambda>r. item_count (tr_output r)) (filter tr_success results))) of
             Inl e \<Rightarrow> Inl e
           | Inr items \<Rightarrow> Inr
               \<lparr>er_step_index = ps_index step,
                er_success = (list_all tr_success results \<and> \<not> str_contains ''STEP FAILED'' out),
                er_skipped = False, er_output = out, er_final_answer_candidate = cand,
                er_tool_results = results, er_tools_called = called, er_items_processed = items,
                er_connector_writes = List.map_filter
                  (\<lambda>r. Option.bind (json_get ''connector'' (tr_output r)) as_str) (filter tr_success results)\<rparr>))"

text \<open>The step with its templates resolved; \<open>None\<close> when their resolution does not return.\<close>

definition resolved_step :: "executor_env \<Rightarrow> agent_state \<Rightarrow> planned_step \<Rightarrow> planned_step option" where
  "resolved_step env s step =
     (if has_templates (ps_tool_args step)
      then resolve_step_templates (ex_ext env) (ex_now env) (from_agent_state s) step
      else Some step)"

definition execute_resolved ::
  "executor_env \<Rightarrow> agent_state \<Rightarrow> plan \<Rightarrow> planned_step \<Rightarrow> (exec_result \<times> call_report list) task_result" where
  "execute_resolved env s p step =
     (case step_response env step of
        Inl e \<Rightarrow> Inl e
      | Inr resp \<Rightarrow>
          let (content, worker_results) =
                (if is_llm_worker_step step then worker_output env step (cr_content resp) else (cr_content resp, []));
              reports = map (run_tool_call env s step) (step_calls env s p step resp)
          in map_sum id (\<lambda>r. (r, reports))
               (finish_step env s p step content (worker_results @ map rep_result reports) (map rep_name reports)))"

definition execute_step ::
  "executor_env \<Rightarrow> agent_state \<Rightarrow> plan \<Rightarrow> planned_step \<Rightarrow> (exec_result \<times> call_report list) task_result option" where
  "execute_step env s p step =
     (case resolved_step env s step of
        None \<Rightarrow> None
      | Some step' \<Rightarrow> Some (execute_resolved env s p step'))"

section \<open>What runs\<close>

lemma check_callD:
  "check_call env name args = Inr tool \<Longrightarrow>
   name \<noteq> ''create_workspace_tool'' \<and> ex_tools env name = Some tool
   \<and> missing_required_args args (tool_parameters tool) = [] \<and> placeholder_path args = None
   \<and> wasm_scope env name args = Inr ()"
  by (auto simp: check_call_def Let_def split: if_splits sum.splits option.splits)

lemma policy_refusal_None:
  "policy_refusal env s name args = None \<longleftrightarrow>
   (case ex_policy_rules env of None \<Rightarrow> True
    | Some rules \<Rightarrow> proceeds (evaluate (ex_ext env) (call_context env s name args) rules))"
  by (auto simp: policy_refusal_def split: option.splits policy_decision.splits)

lemma run_tool_callD:
  assumes "rep_executed (run_tool_call env s step raw) = Some (name, clean)"
  obtains args tool where "prepare_call env s step raw = (name, Inr args)" "check_call env name args = Inr tool"
    "clean = clean_arguments env args" "policy_refusal env s name clean = None"
  using assms
  by (auto simp: run_tool_call_def refused_def Let_def split: prod.splits sum.splits option.splits if_splits)

lemma required_value:
  assumes "missing_required_args args ps = []" "p \<in> set ps" "par_required p"
  shows "\<exists>m v. args = JObject m \<and> map_of m (par_name p) = Some v
    \<and> v \<noteq> JNull \<and> v \<noteq> JArray [] \<and> (\<forall>t. v = JString t \<longrightarrow> trim t \<noteq> [])"
proof -
  obtain m where m: "args = JObject m" "\<not> value_is_missing (map_of m (par_name p))"
    using assms by (cases args) (auto simp: missing_required_args_def filter_empty_conv)
  then obtain v where "map_of m (par_name p) = Some v" by (cases "map_of m (par_name p)") auto
  with m show ?thesis by auto
qed

lemma wasm_in_scope:
  assumes "wasm_scope env ''run_registered_wasm'' args = Inr ()"
  shows "\<exists>rp t. ex_role env = Some rp \<and> json_get ''tool_name'' args = Some (JString t)
    \<and> trim t \<in> set (rp_allowed_wasm_tools rp)"
proof -
  obtain t where t: "json_get ''tool_name'' args = Some (JString t)"
    using assms by (cases "Option.bind (json_get ''tool_name'' args) as_str")
      (auto simp: wasm_scope_def Let_def bind_eq_Some_conv elim: as_str.elims)
  with assms show ?thesis by (cases "ex_role env") (auto simp: wasm_scope_def Let_def split: if_splits)
qed

text \<open>C11: A tool runs only after every check.  Whatever the model answers, a tool that runs is registered and
  is not the tool that writes new tools; before sensitive data is taken out of them, its arguments give
  every required parameter a value that is neither null nor a blank text nor the empty array, and contain
  no placeholder; where a policy engine is present, it lets the call proceed with exactly the arguments that
  the tool gets; and a run of a registered WASM tool names, before that redaction, one that the role allows.\<close>

theorem tools_run_only_when_cleared:
  assumes "rep_executed (run_tool_call env s step raw) = Some (name, clean)"
  shows "\<exists>tool args. prepare_call env s step raw = (name, Inr args) \<and> clean = clean_arguments env args
    \<and> ex_tools env name = Some tool \<and> name \<noteq> ''create_workspace_tool''
    \<and> (\<forall>p\<in>set (tool_parameters tool). par_required p \<longrightarrow>
         (\<exists>m v. args = JObject m \<and> map_of m (par_name p) = Some v
            \<and> v \<noteq> JNull \<and> v \<noteq> JArray [] \<and> (\<forall>t. v = JString t \<longrightarrow> trim t \<noteq> [])))
    \<and> {t \<in> json_strings args. is_placeholder_string t} = {}
    \<and> (\<forall>rules. ex_policy_rules env = Some rules \<longrightarrow>
         proceeds (evaluate (ex_ext env) (call_context env s name clean) rules))
    \<and> (name = ''run_registered_wasm'' \<longrightarrow>
         (\<exists>rp t. ex_role env = Some rp \<and> json_get ''tool_name'' args = Some (JString t)
            \<and> trim t \<in> set (rp_allowed_wasm_tools rp)))"
proof -
  from assms obtain args tool where c: "prepare_call env s step raw = (name, Inr args)"
    "check_call env name args = Inr tool" "clean = clean_arguments env args" "policy_refusal env s name clean = None"
    by (rule run_tool_callD)
  note d = check_callD [OF c(2)]
  have "{t \<in> json_strings args. is_placeholder_string t} = {}"
    using d placeholder_walk_None [of args "[]"] by (simp add: placeholder_path_def)
  moreover have "\<exists>m v. args = JObject m \<and> map_of m (par_name p) = Some v
      \<and> v \<noteq> JNull \<and> v \<noteq> JArray [] \<and> (\<forall>t. v = JString t \<longrightarrow> trim t \<noteq> [])"
    if "p \<in> set (tool_parameters tool)" "par_required p" for p
    using d that by (intro required_value) auto
  moreover have "\<exists>rp t. ex_role env = Some rp \<and> json_get ''tool_name'' args = Some (JString t)
      \<and> trim t \<in> set (rp_allowed_wasm_tools rp)" if "name = ''run_registered_wasm''"
    using d that by (intro wasm_in_scope) auto
  moreover have "proceeds (evaluate (ex_ext env) (call_context env s name clean) rules)"
    if "ex_policy_rules env = Some rules" for rules
    using c(4) that by (simp add: policy_refusal_None)
  ultimately show ?thesis
    using c(1,3) d by (intro exI [of _ tool] exI [of _ args] conjI ballI impI allI) simp_all
qed

lemma execute_stepD:
  assumes "execute_step env s p step = Some (Inr (res, reports))"
  obtains step' resp content worker_results where "resolved_step env s step = Some step'"
    "reports = map (run_tool_call env s step') (step_calls env s p step' resp)"
    "finish_step env s p step' content (worker_results @ map rep_result reports) (map rep_name reports) = Inr res"
proof -
  from assms obtain step' where 1: "resolved_step env s step = Some step'" "execute_resolved env s p step' = Inr (res, reports)"
    by (auto simp: execute_step_def split: option.splits)
  obtain resp where 2: "step_response env step' = Inr resp"
    using 1(2) by (auto simp: execute_resolved_def split: sum.splits)
  obtain content worker_results where 3: "(if is_llm_worker_step step' then worker_output env step' (cr_content resp)
      else (cr_content resp, [])) = (content, worker_results)" by fastforce
  let ?reports = "map (run_tool_call env s step') (step_calls env s p step' resp)"
  obtain r where "finish_step env s p step' content (worker_results @ map rep_result ?reports) (map rep_name ?reports) = Inr r"
    "res = r" "reports = ?reports"
    using 1(2) by (auto simp: execute_resolved_def 2 3 split: sum.splits)
      (cases "finish_step env s p step' content (worker_results @ map rep_result ?reports) (map rep_name ?reports)"; auto)+
  with 1 show thesis by (intro that) auto
qed

text \<open>C30: What the guards of the policy engine catch never runs.  With the policy engine in place, no call of a
  step runs that the builtin guards block or hold for approval, whatever the model answers and whatever
  rules the tenant has: in particular no dangerous shell command.\<close>

theorem guarded_calls_never_run:
  assumes "execute_step env s p step = Some (Inr (res, reports))" "ex_policy_rules env = Some rules"
    and "r \<in> set reports" "rep_executed r = Some (name, args)"
  shows "evaluate_builtin_guards (call_context env s name args) = None
    \<and> Option.bind (command_text (call_context env s name args)) dangerous_shell_reason = None"
proof -
  obtain step' raw where r: "r = run_tool_call env s step' raw"
    using assms(1,3) by (elim execute_stepD) auto
  have "proceeds (evaluate (ex_ext env) (call_context env s name args) rules)"
    using assms(2,4) unfolding r by (elim run_tool_callD) (simp add: policy_refusal_None)
  then have "evaluate_builtin_guards (call_context env s name args) = None"
    using guards_never_proceed evaluate_guarded by (metis option.exhaust)
  moreover from this have "shell_guard (call_context env s name args) = None"
    using guard_fires by blast
  then have "Option.bind (command_text (call_context env s name args)) dangerous_shell_reason = None"
    by (auto simp: shell_guard_def split: option.splits if_splits bind_splits)
  ultimately show ?thesis by blast
qed

lemma refused_not_success: "rep_executed (run_tool_call env s step raw) = None \<Longrightarrow> \<not> tr_success (rep_result (run_tool_call env s step raw))"
  by (auto simp: run_tool_call_def refused_def tool_err_def Let_def split: prod.splits sum.splits option.splits if_splits)

lemma finish_stepD:
  assumes "finish_step env s p step content results called = Inr res"
  shows "er_tool_results res = results \<and> er_tools_called res = called \<and> er_step_index res = ps_index step
   \<and> (er_success res \<longleftrightarrow> list_all tr_success results \<and> \<not> str_contains ''STEP FAILED'' (er_output res))"
proof -
  obtain x where x: "final_output env s p step content results = Inr x"
    using assms by (cases "final_output env s p step content results") (simp_all add: finish_step_def)
  let ?items = "or_panic (sum_u64 (ex_ext env)
      (List.map_filter (\<lambda>r. item_count (tr_output r)) (filter tr_success results)))"
  obtain out cand where o: "x = (out, cand)" by fastforce
  obtain items where i: "?items = Inr items"
    using assms x o by (cases ?items) (simp_all add: finish_step_def)
  show ?thesis
    using assms unfolding finish_step_def x o i sum.case prod.case sum.inject
    by (rule subst) (simp only: exec_result.select_convs simp_thms)
qed

text \<open>C24: A refused call fails its step: a step that reports success ran every call it was asked to make, and
  reports one result for each.\<close>

theorem success_means_all_ran:
  assumes "execute_step env s p step = Some (Inr (res, reports))" "er_success res" "r \<in> set reports"
  shows "rep_executed r \<noteq> None \<and> rep_result r \<in> set (er_tool_results res) \<and> tr_success (rep_result r)"
proof -
  from assms(1) obtain step' resp content worker_results where
    reports: "reports = map (run_tool_call env s step') (step_calls env s p step' resp)"
    and "finish_step env s p step' content (worker_results @ map rep_result reports) (map rep_name reports) = Inr res"
    by (rule execute_stepD)
  from finish_stepD [OF this(2)] assms(2) have
    results: "er_tool_results res = worker_results @ map rep_result reports" and
    ok: "list_all tr_success (worker_results @ map rep_result reports)" by blast+
  have "rep_result r \<in> set (worker_results @ map rep_result reports)" using assms(3) by simp
  with results ok have "rep_result r \<in> set (er_tool_results res) \<and> tr_success (rep_result r)"
    by (simp only: list_all_iff)
  moreover from this have "rep_executed r \<noteq> None" using assms(3) refused_not_success unfolding reports by fastforce
  ultimately show ?thesis by blast
qed

text \<open>The model is asked at most four times for a step.\<close>

lemma chat_loop_bounded:
  "(\<And>j. j \<le> i + n \<Longrightarrow> chat' j = ex_chat env j) \<Longrightarrow> chat_loop (env\<lparr>ex_chat := chat'\<rparr>) n i = chat_loop env n i"
proof (induction n arbitrary: i)
  case 0
  then show ?case by (subst (1 2) chat_loop.simps) (simp split: sum.split)
next
  case (Suc n)
  then have "chat_loop (env\<lparr>ex_chat := chat'\<rparr>) n (Suc i) = chat_loop env n (Suc i)" by simp
  with Suc.prems [of i] show ?case by (subst (1 2) chat_loop.simps) (simp split: sum.split option.split)
qed

text \<open>A step asks the language model for at most four answers before it runs its calls: answers after the
  fourth have no influence.\<close>

theorem four_answers_at_most:
  assumes "\<And>j. j < 4 \<Longrightarrow> chat' j = ex_chat env j"
  shows "step_response (env\<lparr>ex_chat := chat'\<rparr>) step = step_response env step"
  using chat_loop_bounded [of 0 3 chat' env] assms by (simp add: step_response_def)

section \<open>Behaviour worth knowing\<close>

text \<open>A decision to redact fields only writes a log line: the tool gets the fields.\<close>

theorem redaction_not_applied:
  assumes "prepare_call env s step raw = (name, Inr args)" "check_call env name args = Inr tool"
    and "ex_policy_rules env = Some rules"
    and "evaluate (ex_ext env) (call_context env s name (clean_arguments env args)) rules = Redact rid keys"
    and "plane_guard_risk name \<noteq> ''critical''"
  shows "rep_executed (run_tool_call env s step raw) = Some (name, clean_arguments env args)"
  using assms by (simp add: run_tool_call_def policy_refusal_def Let_def)

text \<open>A tenant that the model writes into the arguments is kept: the agent's own tenant is only filled in
  where none is given.\<close>

lemma or_insert_keeps: "map_of m k' = Some v \<Longrightarrow> map_of (or_insert k w m) k' = Some v"
  by (auto simp: or_insert_def map_of_obj_insert split: option.split)

lemma insert_step_index_keeps: "map_of m k' = Some v \<Longrightarrow> map_of (insert_step_index step m) k' = Some v"
  by (auto simp: insert_step_index_def map_of_obj_insert)

lemma if_keeps: "map_of a k = Some v \<Longrightarrow> map_of b k = Some v \<Longrightarrow> map_of (if c then a else b) k = Some v"
  by simp

theorem given_tenant_is_kept:
  "json_get ''tenant_id'' args = Some v \<Longrightarrow> json_get ''tenant_id'' (inject_context s step name args) = Some v"
proof (cases args)
  case (JObject m)
  assume "json_get ''tenant_id'' args = Some v"
  with JObject have "map_of m ''tenant_id'' = Some v" by simp
  then show ?thesis
    unfolding inject_context_def JObject as_object.simps option.case Let_def json_get.simps
    by (intro if_keeps or_insert_keeps insert_step_index_keeps)
qed simp_all

text \<open>The plane guard never blocks: no tool has the risk \<open>critical\<close>.\<close>

theorem plane_guard_never_blocks: "plane_guard_risk name \<noteq> ''critical''"
  by (simp add: plane_guard_risk_def)

text \<open>Where the redacted text is no JSON value any more, the arguments go out as they were.\<close>

theorem failed_redaction_ignored:
  assumes "ex_pii env = Some pii" "ex_parse_json env (pii_redact pii (json_to_string (ex_ext env) args)) = Inl e"
  shows "clean_arguments env args = args"
  using assms by (simp add: clean_arguments_def Let_def)

text \<open>The answer of a discovery tool that has a character across its 2000th byte brings the worker's task
  down.\<close>

theorem discovery_answer_panics:
  assumes "ex_chat env 0 = Inr r" "find (\<lambda>c. tl_name c \<in> set META_TOOL_NAMES) (cr_tool_calls r) = Some call"
    and "slice_to (json_to_string (ex_ext env) (ex_meta_tool env 0 call)) 2000 = None"
  shows "chat_loop env 3 0 = Inl TaskPanicked"
  using assms by (subst chat_loop.simps) (simp add: numeral_3_eq_3)

section \<open>Witnesses\<close>

definition sample_tool :: builtin_tool where
  "sample_tool = \<lparr>tool_parameters = [\<lparr>par_name = ''left'', par_type = ''string'', par_description = [], par_required = True\<rparr>],
     tool_output_schema = None, tool_execute = (\<lambda>_. Inr (tool_ok (JString ''same'')))\<rparr>"

definition sample_executor :: executor_env where
  "sample_executor = \<lparr>ex_ext = sample_ext, ex_lower = to_ascii_lowercase, ex_parse_json = (\<lambda>_. Inl ''not JSON''),
     ex_pretty = (\<lambda>_. []), ex_show_schema_error = (\<lambda>_. []), ex_now = [], ex_read_artifact = (\<lambda>_. None),
     ex_canonicalize = Some, ex_tools = (\<lambda>name. if name = ''diff'' then Some sample_tool else None), ex_pii = None,
     ex_policy_rules = Some (rule_set_new ''t1''), ex_role = None,
     ex_chat = (\<lambda>_. Inr \<lparr>cr_content = None, cr_tool_calls = []\<rparr>), ex_meta_tool = (\<lambda>_ _. JNull),
     ex_synthesize = (\<lambda>_. Inr None)\<rparr>"

definition sample_diff_step :: planned_step where
  "sample_diff_step = \<lparr>ps_index = 0, ps_description = ''compare'', ps_tool = Some ''diff'',
     ps_tool_args = Some (JObject [(''left'', JString ''a'')]), ps_success_criteria = [], ps_condition = None,
     ps_foreach = None, ps_depends_on = []\<rparr>"

definition sample_diff_plan :: plan where
  "sample_diff_plan = \<lparr>plan_goal = ''g'', plan_job_type = None, plan_steps = [sample_diff_step, sample_diff_step],
     plan_rationale = []\<rparr>"

definition sample_call_of_step :: tool_call where
  "sample_call_of_step = \<lparr>tl_id = [], tl_name = ''diff'', tl_arguments = JObject [(''left'', JString ''a'')]\<rparr>"

lemma sample_executed:
  "rep_executed (run_tool_call sample_executor sample_agent sample_diff_step sample_call_of_step)
     = Some (''diff'', JObject [(''left'', JString ''a'')])"
  by code_simp

theorem tools_run_only_when_cleared_witness:
  "\<exists>tool. ex_tools sample_executor ''diff'' = Some tool
     \<and> proceeds (evaluate sample_ext (call_context sample_executor sample_agent ''diff''
         (JObject [(''left'', JString ''a'')])) (rule_set_new ''t1''))"
proof -
  have "ex_ext sample_executor = sample_ext" "ex_policy_rules sample_executor = Some (rule_set_new ''t1'')"
    by (simp_all add: sample_executor_def)
  with tools_run_only_when_cleared [OF sample_executed] show ?thesis by auto
qed

lemma sample_step_executed:
  "\<exists>res r. execute_step sample_executor sample_agent sample_diff_plan sample_diff_step = Some (Inr (res, [r]))
     \<and> er_success res \<and> rep_executed r = Some (''diff'', JObject [(''left'', JString ''a'')])"
proof -
  let ?content = "''Deterministic Fast-Path executing: diff''"
  let ?call = "\<lparr>tl_id = ''planned-step-0'', tl_name = ''diff'', tl_arguments = JObject [(''left'', JString ''a'')]\<rparr>"
  let ?resp = "\<lparr>cr_content = Some ?content, cr_tool_calls = [?call]\<rparr>"
  let ?report = "\<lparr>rep_name = ''diff'', rep_result = tool_ok (JString ''same''),
      rep_executed = Some (''diff'', JObject [(''left'', JString ''a'')])\<rparr>"
  have "resolved_step sample_executor sample_agent sample_diff_step = Some sample_diff_step"
    "step_response sample_executor sample_diff_step = Inr ?resp" "\<not> is_llm_worker_step sample_diff_step"
    "step_calls sample_executor sample_agent sample_diff_plan sample_diff_step ?resp = [?call]"
    "run_tool_call sample_executor sample_agent sample_diff_step ?call = ?report"
    "final_output sample_executor sample_agent sample_diff_plan sample_diff_step (Some ?content)
      [tool_ok (JString ''same'')] = Inr (?content, Some ?content)" "\<not> str_contains ''STEP FAILED'' ?content"
    by code_simp+
  then show ?thesis
    by (simp add: execute_step_def execute_resolved_def finish_step_def sum_u64_def or_panic_def tool_ok_def
        item_count_def or_else_def)
qed

theorem guarded_calls_never_run_witness:
  "evaluate_builtin_guards (call_context sample_executor sample_agent ''diff'' (JObject [(''left'', JString ''a'')])) = None"
proof -
  obtain res r where r: "execute_step sample_executor sample_agent sample_diff_plan sample_diff_step = Some (Inr (res, [r]))"
    "rep_executed r = Some (''diff'', JObject [(''left'', JString ''a'')])"
    using sample_step_executed by blast
  have "ex_policy_rules sample_executor = Some (rule_set_new ''t1'')" by (simp add: sample_executor_def)
  from guarded_calls_never_run [OF r(1) this _ r(2)] show ?thesis by simp
qed

theorem success_means_all_ran_witness:
  "\<exists>res r. execute_step sample_executor sample_agent sample_diff_plan sample_diff_step = Some (Inr (res, [r]))
     \<and> rep_executed r \<noteq> None \<and> rep_result r \<in> set (er_tool_results res) \<and> tr_success (rep_result r)"
proof -
  obtain res r where r: "execute_step sample_executor sample_agent sample_diff_plan sample_diff_step = Some (Inr (res, [r]))"
    "er_success res"
    using sample_step_executed by blast
  from success_means_all_ran [OF r, of r] show ?thesis using r(1) by auto
qed

theorem four_answers_at_most_witness:
  "step_response (sample_executor\<lparr>ex_chat := (\<lambda>i. if i < 4 then ex_chat sample_executor i else Inl [])\<rparr>) sample_diff_step
     = step_response sample_executor sample_diff_step"
  by (rule four_answers_at_most) simp

end
