(* ===== verification/Evaluator.thy ===== *)
theory Evaluator
  imports Executor
begin

text \<open>
  The verdict on a finished step (\<open>agent/evaluator.rs\<close>) and the check of a role's completion criteria.

  The language model's answer, the deserializer of its reply and \<open>to_uppercase\<close> are arguments of the
  verdict; which files exist is an argument of the criteria.  A slice inside a character panics.
\<close>

section \<open>The verdict\<close>

datatype eval_verdict = EvContinue | EvRetry | EvAbort | EvGoalComplete

record eval_reflection =
  evr_verdict :: eval_verdict
  evr_summary :: string
  evr_key_findings :: "string list"
  evr_should_revise :: bool
  evr_revision_feedback :: string

record combined_reply =
  cb_verdict :: string
  cb_summary :: string
  cb_key_findings :: "string list"
  cb_revise :: bool
  cb_feedback :: string

record evaluator_env =
  ev_chat :: "(error_chain, string option) result"
  ev_from_str :: "string \<Rightarrow> combined_reply option"
  ev_to_uppercase :: "string \<Rightarrow> string"

definition is_no_answer :: "string \<Rightarrow> bool" where
  "is_no_answer trimmed \<longleftrightarrow> trimmed = [] \<or> eq_ignore_ascii_case trimmed ''no output''"

definition strip_step_complete :: "string \<Rightarrow> string" where
  "strip_step_complete trimmed = (case strip_suffix ''STEP COMPLETE'' trimmed of Some a \<Rightarrow> a | None \<Rightarrow> trimmed)"

definition candidate_summary :: "string \<Rightarrow> string option" where
  "candidate_summary s =
     (let trimmed = trim s in
      if is_no_answer trimmed \<or> starts_with ''STEP FAILED:'' trimmed then None
      else let answer = trim (case strip_suffix ''STEP COMPLETE'' trimmed of Some a \<Rightarrow> trim a | None \<Rightarrow> trimmed)
           in if answer = [] then None else Some answer)"

definition output_summary :: "string \<Rightarrow> string option" where
  "output_summary output =
     (let trimmed = trim output in
      if is_no_answer trimmed \<or> trimmed = ''STEP COMPLETE'' then None
      else Some (trim (strip_step_complete trimmed)))"

definition goal_summary :: "exec_result \<Rightarrow> string" where
  "goal_summary r =
     (case or_else (Option.bind (er_final_answer_candidate r) candidate_summary) (output_summary (er_output r)) of
        Some a \<Rightarrow> a | None \<Rightarrow> ''goal complete'')"

definition plain_reflection :: "eval_verdict \<Rightarrow> string \<Rightarrow> eval_reflection" where
  "plain_reflection v summary = \<lparr>evr_verdict = v, evr_summary = summary, evr_key_findings = [],
     evr_should_revise = False, evr_revision_feedback = []\<rparr>"

definition failed_errors :: "exec_result \<Rightarrow> string list" where
  "failed_errors r = List.map_filter tr_error (filter (\<lambda>t. \<not> tr_success t) (er_tool_results r))"

definition is_policy_error :: "string \<Rightarrow> bool" where
  "is_policy_error e =
     list_ex (\<lambda>m. str_contains m (to_ascii_lowercase e))
       [''policy_blocked'', ''plane guard'', ''access denied'', ''policy violation'']"

definition policy_abort :: "planned_step \<Rightarrow> exec_result \<Rightarrow> eval_reflection option" where
  "policy_abort step r =
     (let policy_errors = filter is_policy_error (failed_errors r) in
      if er_success r \<or> policy_errors = [] then None
      else Some \<lparr>evr_verdict = EvAbort,
        evr_summary = ''step '' @ show_nat (ps_index step) @ '' aborted due to policy violation: ''
          @ join_with ''; '' policy_errors,
        evr_key_findings = policy_errors, evr_should_revise = False,
        evr_revision_feedback = ''Role permissions or plane guard rules need updating.''\<rparr>)"

definition repeated_error :: "agent_state \<Rightarrow> exec_result \<Rightarrow> nat \<Rightarrow> string option" where
  "repeated_error s r retry_count =
     (let current = join_with '' | '' (failed_errors r) in
      if 1 \<le> retry_count \<and> \<not> er_success r \<and> current \<noteq> [] \<and> meta_str ''last_step_error'' s = Some current
      then Some current else None)"

definition repeated_abort :: "planned_step \<Rightarrow> string \<Rightarrow> eval_reflection task_result" where
  "repeated_abort step current =
     map_sum id (\<lambda>shown. \<lparr>evr_verdict = EvAbort,
         evr_summary = ''step '' @ show_nat (ps_index step) @ '' aborted: same error repeated ('' @ shown
           @ '') '' @ [CHR 0xE2, CHR 0x80, CHR 0x94] @ '' agent cannot self-resolve'',
         evr_key_findings = [current], evr_should_revise = False, evr_revision_feedback = []\<rparr>)
       (or_panic (slice_to current 100))"

definition verdict_of_text :: "(string \<Rightarrow> string) \<Rightarrow> string \<Rightarrow> eval_verdict" where
  "verdict_of_text to_uppercase t =
     (let v = to_uppercase (trim t) in
      if v = ''CONTINUE'' then EvContinue
      else if v = ''ABORT'' then EvAbort
      else if v = ''COMPLETE'' then EvGoalComplete
      else EvRetry)"

definition clean_reply :: "string \<Rightarrow> string" where
  "clean_reply raw =
     trim (rev (drop_any [''```''] (rev (drop_any [''```''] (drop_any [''```json''] (trim raw))))))"

definition reviewed :: "evaluator_env \<Rightarrow> eval_reflection task_result" where
  "reviewed env =
     (case ev_chat env of
        Inl e \<Rightarrow> Inl (TaskError e)
      | Inr content \<Rightarrow>
          let raw = (case content of Some c \<Rightarrow> c | None \<Rightarrow> []) in
          (case ev_from_str env (clean_reply raw) of
             Some parsed \<Rightarrow> Inr \<lparr>evr_verdict = verdict_of_text (ev_to_uppercase env) (cb_verdict parsed),
               evr_summary = cb_summary parsed, evr_key_findings = cb_key_findings parsed,
               evr_should_revise = cb_revise parsed, evr_revision_feedback = cb_feedback parsed\<rparr>
           | None \<Rightarrow> map_sum id (plain_reflection (verdict_of_text (ev_to_uppercase env) ''RETRY''))
               (or_panic (slice_to raw 140))))"

definition evaluate_and_reflect ::
  "evaluator_env \<Rightarrow> agent_state \<Rightarrow> plan \<Rightarrow> planned_step \<Rightarrow> exec_result \<Rightarrow> nat \<Rightarrow> nat \<Rightarrow> eval_reflection task_result" where
  "evaluate_and_reflect env s p step r retry_count max_retries =
     (if plan_is_complete p (as_current_step s + 1) \<and> er_success r
      then Inr (plain_reflection EvGoalComplete (goal_summary r))
      else if er_success r \<and> list_all tr_success (er_tool_results r) \<and> \<not> str_contains ''STEP FAILED'' (er_output r)
      then Inr (plain_reflection EvContinue (''step '' @ show_nat (ps_index step) @ '' completed successfully''))
      else if max_retries \<le> retry_count
      then Inr (plain_reflection EvAbort (''step '' @ show_nat (ps_index step) @ '' aborted after ''
        @ show_nat retry_count @ '' retries''))
      else case policy_abort step r of
        Some rf \<Rightarrow> Inr rf
      | None \<Rightarrow>
          (case repeated_error s r retry_count of
             Some current \<Rightarrow> repeated_abort step current
           | None \<Rightarrow> reviewed env))"

section \<open>Completion criteria\<close>

record criterion_result =
  crr_description :: string
  crr_satisfied :: bool
  crr_check_type :: string
  crr_detail :: string

definition tick :: string where "tick = [CHR 0xE2, CHR 0x9C, CHR 0x93, CHR '' '']"
definition cross :: string where "cross = [CHR 0xE2, CHR 0x9C, CHR 0x97, CHR '' '']"
definition dash :: string where "dash = '' '' @ [CHR 0xE2, CHR 0x80, CHR 0x94] @ '' ''"
definition info_mark :: string where "info_mark = [CHR 0xE2, CHR 0x84, CHR 0xB9, CHR '' '']"

definition trim_start_slash :: "string \<Rightarrow> string" where
  "trim_start_slash s = dropWhile (\<lambda>c. c = CHR ''/'') s"

definition below_workspace :: "agent_state \<Rightarrow> string \<Rightarrow> string" where
  "below_workspace s hint = trim_end_matches CHR ''/'' (as_workspace_path s) @ ''/'' @ trim_start_slash hint"

definition recorded_outputs :: "agent_state \<Rightarrow> json list" where
  "recorded_outputs s =
     (case Option.bind (json_get ''step_outputs'' (as_metadata s)) as_array of Some xs \<Rightarrow> xs | None \<Rightarrow> [])"

definition processed_items :: "agent_state \<Rightarrow> nat list" where
  "processed_items s =
     List.map_filter (\<lambda>out. Option.bind (or_else (json_get ''processed'' out) (json_get ''count'' out)) json_as_u64)
       (recorded_outputs s)"

definition wrote_to :: "string \<Rightarrow> agent_state \<Rightarrow> bool" where
  "wrote_to connector s =
     list_ex (\<lambda>out. case Option.bind (json_get ''connectors'' out) as_array of
         Some cs \<Rightarrow> list_ex (\<lambda>c. as_str c = Some connector) cs
       | None \<Rightarrow> False) (recorded_outputs s)"

definition first_count :: "string \<Rightarrow> agent_state \<Rightarrow> nat" where
  "first_count key s =
     (case List.map_filter (\<lambda>out. Option.bind (json_get key out) json_as_u64) (recorded_outputs s) of
        [] \<Rightarrow> 0 | n # _ \<Rightarrow> n)"

fun check_criterion ::
  "externals \<Rightarrow> (string \<Rightarrow> bool) \<Rightarrow> agent_state \<Rightarrow> completion_check \<Rightarrow> (bool \<times> string \<times> string) option" where
  "check_criterion ext file_exists s (OutputExists hint) =
     (let path = (if starts_with ''/'' hint then hint else below_workspace s hint); found = file_exists path in
      Some (found, ''output_exists'',
        if found then tick @ ''Found output at '' @ path
        else cross @ ''No output at '' @ path @ dash @ ''workspace may be empty''))"
| "check_criterion ext file_exists s (ErrorsLogged hint) =
     (let log_path = below_workspace s hint;
          found = (file_exists log_path \<or> Option.bind (json_get ''errors_logged'' (as_metadata s)) as_bool = Some True)
      in Some (found, ''errors_logged'',
        if found then tick @ ''Error log written at '' @ log_path
        else cross @ ''Error log missing at '' @ log_path @ dash @ ''skipped records may not have been logged''))"
| "check_criterion ext file_exists s (AllItemsProcessed hint) =
     map_option (\<lambda>n. (0 < n, ''all_items_processed'',
        if 0 < n then tick @ show_nat n @ '' items processed from '' @ hint
        else cross @ ''0 items processed from '' @ hint @ dash @ ''query may have returned nothing''))
       (sum_u64 ext (processed_items s))"
| "check_criterion ext file_exists s (RecordUpdated connector) =
     (let written = wrote_to connector s in
      Some (written, ''record_updated'',
        if written then tick @ connector @ '' record updated''
        else cross @ ''No successful write to '' @ connector @ '' found in step outputs''))"
| "check_criterion ext file_exists s (CountMatches source target) =
     (let sc = first_count source s; tc = first_count target s; good = (0 < sc \<and> sc = tc) in
      Some (good, ''count_matches'',
        if good then tick @ show_nat sc @ '' '' @ source @ '' = '' @ show_nat tc @ '' '' @ target @ '' (counts match)''
        else if sc = 0 then cross @ source @ '' count is 0'' @ dash @ ''source step may not have run''
        else cross @ show_nat sc @ ''/'' @ show_nat tc @ '' items: '' @ source @ '' processed, '' @ target
          @ '' output (mismatch)''))"
| "check_criterion ext file_exists s (CustomCheck assertion) = Some (True, ''custom'', info_mark @ assertion)"

text \<open>\<open>None\<close> stands for a sum that panics on overflow.\<close>

definition check_completion_criteria ::
  "externals \<Rightarrow> (string \<Rightarrow> bool) \<Rightarrow> agent_role \<Rightarrow> agent_state \<Rightarrow> (bool \<times> criterion_result list) option" where
  "check_completion_criteria ext file_exists role s =
     map_option (\<lambda>rs. (list_all crr_satisfied rs, rs))
       (sequence (map (\<lambda>c. map_option (\<lambda>(ok, kind, detail). \<lparr>crr_description = cc_description c,
           crr_satisfied = ok, crr_check_type = kind, crr_detail = detail\<rparr>)
         (check_criterion ext file_exists s (cc_check c)))
         (eg_completion_criteria (ro_execution_guidelines role))))"

section \<open>Verdicts\<close>

text \<open>No retry beyond the limit: once a step has used its retries, the verdict is never another retry,
  whatever the language model would say.\<close>

theorem retries_bounded:
  assumes "evaluate_and_reflect env s p step r retry_count max_retries = Inr rf" "max_retries \<le> retry_count"
  shows "evr_verdict rf \<noteq> EvRetry"
  using assms by (auto simp: evaluate_and_reflect_def plain_reflection_def split: if_splits)

lemma executed_success:
  assumes "execute_step xenv s p step = Some (Inr (r, reports))" "er_success r"
  shows "list_all tr_success (er_tool_results r) \<and> \<not> str_contains ''STEP FAILED'' (er_output r)"
  using assms(1) by (rule execute_stepD) (use assms(2) in \<open>auto dest: finish_stepD\<close>)

text \<open>The model does not judge a success.  The verdict on a step that the executor reports as successful
  is to go on, or that the goal is reached after the last step; the evaluator's model is not asked.\<close>

theorem successful_steps_go_on:
  assumes "execute_step xenv s p step = Some (Inr (r, reports))" "er_success r"
  shows "evaluate_and_reflect env s' p step' r retry_count max_retries = Inr (
    if plan_is_complete p (as_current_step s' + 1) then plain_reflection EvGoalComplete (goal_summary r)
    else plain_reflection EvContinue (''step '' @ show_nat (ps_index step') @ '' completed successfully''))"
  using executed_success [OF assms] assms(2) by (simp add: evaluate_and_reflect_def)

text \<open>A failure that repeats the previous error is given up, unless the report of it panics.\<close>

theorem repeated_error_aborts:
  assumes "evaluate_and_reflect env s p step r retry_count max_retries = Inr rf"
    and "repeated_error s r retry_count = Some current"
  shows "evr_verdict rf = EvAbort"
  using assms by (auto simp: evaluate_and_reflect_def repeated_error_def policy_abort_def repeated_abort_def or_panic_def
      plain_reflection_def Let_def split: if_splits option.splits)

text \<open>The evaluator looks for texts that the executor does not write: a call that the policy engine blocked
  and one that the plane guard blocked are judged by the language model.\<close>

theorem refusals_not_recognised:
  "\<not> is_policy_error ''policy blocked [no-prod]: production is frozen''"
  "\<not> is_policy_error (''plane_guard: '' @ quoted ''docker'' @ '' is critical-risk and blocked.'')"
  "\<not> is_policy_error (''awaiting human approval for tool '' @ quoted ''email'' @ '' (rule: r1)'')"
  by code_simp+

section \<open>Criteria\<close>

lemma sequence_Some_map:
  "sequence (map f xs) = Some ys \<Longrightarrow> length ys = length xs \<and> (\<forall>i<length xs. f (xs ! i) = Some (ys ! i))"
proof (induction xs arbitrary: ys)
  case (Cons x xs)
  then obtain y ys' where "f x = Some y" "sequence (map f xs) = Some ys'" "ys = y # ys'"
    by (auto simp: bind_eq_Some_conv)
  with Cons.IH [of ys'] show ?case by (auto simp: nth_Cons split: nat.split)
qed simp

lemma criterion_resultD:
  "map_option (\<lambda>(ok, kind, detail). \<lparr>crr_description = d, crr_satisfied = ok, crr_check_type = kind, crr_detail = detail\<rparr>)
     c = Some r \<Longrightarrow> c = Some (crr_satisfied r, crr_check_type r, crr_detail r) \<and> crr_description r = d"
  by auto

text \<open>A run is complete when every criterion holds: there is one result for each criterion of the role, in
  their order, with the outcome of its check, and the run counts as satisfied when all of them are.\<close>

theorem criteria_checked_exactly:
  assumes "check_completion_criteria ext file_exists role s = Some (all_ok, rs)"
  shows "length rs = length (eg_completion_criteria (ro_execution_guidelines role))
    \<and> map (\<lambda>c. (cc_description c, check_criterion ext file_exists s (cc_check c)))
          (eg_completion_criteria (ro_execution_guidelines role))
        = map (\<lambda>c. (crr_description c, Some (crr_satisfied c, crr_check_type c, crr_detail c))) rs
    \<and> all_ok = list_all crr_satisfied rs"
proof -
  let ?cs = "eg_completion_criteria (ro_execution_guidelines role)"
  have seq: "sequence (map (\<lambda>c. map_option (\<lambda>(ok, kind, detail). \<lparr>crr_description = cc_description c,
           crr_satisfied = ok, crr_check_type = kind, crr_detail = detail\<rparr>)
         (check_criterion ext file_exists s (cc_check c))) ?cs) = Some rs" "all_ok = list_all crr_satisfied rs"
    using assms by (auto simp: check_completion_criteria_def)
  note each = sequence_Some_map [OF seq(1)]
  have "map (\<lambda>c. (cc_description c, check_criterion ext file_exists s (cc_check c))) ?cs
        = map (\<lambda>c. (crr_description c, Some (crr_satisfied c, crr_check_type c, crr_detail c))) rs"
  proof (rule nth_equalityI)
    fix i assume "i < length (map (\<lambda>c. (cc_description c, check_criterion ext file_exists s (cc_check c))) ?cs)"
    then have i: "i < length ?cs" by simp
    with each have "map_option (\<lambda>(ok, kind, detail). \<lparr>crr_description = cc_description (?cs ! i),
        crr_satisfied = ok, crr_check_type = kind, crr_detail = detail\<rparr>)
      (check_criterion ext file_exists s (cc_check (?cs ! i))) = Some (rs ! i)" by blast
    from criterion_resultD [OF this] i each
    show "map (\<lambda>c. (cc_description c, check_criterion ext file_exists s (cc_check c))) ?cs ! i
        = map (\<lambda>c. (crr_description c, Some (crr_satisfied c, crr_check_type c, crr_detail c))) rs ! i"
      by simp
  qed (use each in simp)
  with each seq(2) show ?thesis by blast
qed

text \<open>Without recorded outputs, which a step that runs does not write, three kinds of criteria cannot hold.\<close>

theorem unrecorded_outputs_fail_criteria:
  assumes "json_get ''step_outputs'' (as_metadata s) = None"
  shows "\<exists>d. check_criterion ext file_exists s (AllItemsProcessed h) = Some (False, ''all_items_processed'', d)"
    and "\<exists>d. check_criterion ext file_exists s (RecordUpdated c) = Some (False, ''record_updated'', d)"
    and "\<exists>d. check_criterion ext file_exists s (CountMatches a b) = Some (False, ''count_matches'', d)"
  using assms by (simp_all add: processed_items_def wrote_to_def first_count_def recorded_outputs_def sum_u64_def
      map_filter_simps Let_def)

section \<open>Witnesses\<close>

definition sample_evaluator :: evaluator_env where
  "sample_evaluator = \<lparr>ev_chat = Inr (Some ''retry''), ev_from_str = (\<lambda>_. None), ev_to_uppercase = to_ascii_uppercase\<rparr>"

definition sample_failure :: exec_result where
  "sample_failure = \<lparr>er_step_index = 0, er_success = False, er_skipped = False, er_output = [],
     er_final_answer_candidate = None, er_tool_results = [tool_err ''boom''], er_tools_called = [''diff''],
     er_items_processed = 0, er_connector_writes = []\<rparr>"

text \<open>Below the limit the model's reply decides, here for a retry; at the limit the step is given up.\<close>

theorem retries_bounded_witness:
  "(\<exists>rf. evaluate_and_reflect sample_evaluator sample_agent sample_diff_plan sample_diff_step sample_failure 0 3 = Inr rf
      \<and> evr_verdict rf = EvRetry)
   \<and> (\<exists>rf. evaluate_and_reflect sample_evaluator sample_agent sample_diff_plan sample_diff_step sample_failure 3 3 = Inr rf
      \<and> evr_verdict rf \<noteq> EvRetry)"
proof -
  obtain a b where ev: "evaluate_and_reflect sample_evaluator sample_agent sample_diff_plan sample_diff_step sample_failure 0 3 = Inr a"
    "evr_verdict a = EvRetry"
    "evaluate_and_reflect sample_evaluator sample_agent sample_diff_plan sample_diff_step sample_failure 3 3 = Inr b"
  proof
    show "evaluate_and_reflect sample_evaluator sample_agent sample_diff_plan sample_diff_step sample_failure 0 3
        = Inr (plain_reflection EvRetry ''retry'')"
      by code_simp
    show "evr_verdict (plain_reflection EvRetry ''retry'') = EvRetry" by (simp add: plain_reflection_def)
    show "evaluate_and_reflect sample_evaluator sample_agent sample_diff_plan sample_diff_step sample_failure 3 3
        = Inr (plain_reflection EvAbort ''step 0 aborted after 3 retries'')"
      by code_simp
  qed
  with retries_bounded [OF ev(3)] show ?thesis by auto
qed

theorem successful_steps_go_on_witness:
  "\<exists>r. evaluate_and_reflect sample_evaluator sample_agent sample_diff_plan sample_diff_step r 0 3
     = Inr (plain_reflection EvContinue ''step 0 completed successfully'')"
proof -
  obtain res rep where r: "execute_step sample_executor sample_agent sample_diff_plan sample_diff_step = Some (Inr (res, [rep]))"
    "er_success res"
    using sample_step_executed by blast
  have more: "\<not> plan_is_complete sample_diff_plan (as_current_step sample_agent + 1)"
    and shown: "''step '' @ show_nat (ps_index sample_diff_step) @ '' completed successfully'' = ''step 0 completed successfully''"
    by code_simp+
  from successful_steps_go_on [OF r, of sample_evaluator sample_agent sample_diff_step 0 3]
  show ?thesis unfolding if_not_P [OF more] shown by blast
qed

definition sample_criteria_role :: agent_role where
  "sample_criteria_role = (let r = agent_role_new ''r1'' ''a1'' ''t1'' ''clerk'' 0 in
     r\<lparr>ro_execution_guidelines := (ro_execution_guidelines r)\<lparr>eg_completion_criteria :=
       [\<lparr>cc_description = ''report'', cc_check = OutputExists ''report.pdf''\<rparr>]\<rparr>\<rparr>)"

theorem criteria_checked_exactly_witness:
  "\<exists>rs. check_completion_criteria sample_ext (\<lambda>f. f = ''/ws/report.pdf'') sample_criteria_role sample_agent = Some (True, rs)
     \<and> length rs = 1"
proof -
  obtain rs where rs: "check_completion_criteria sample_ext (\<lambda>f. f = ''/ws/report.pdf'') sample_criteria_role sample_agent
      = Some (True, rs)"
    by (rule that) code_simp
  have "length (eg_completion_criteria (ro_execution_guidelines sample_criteria_role)) = 1" by code_simp
  with criteria_checked_exactly [OF rs] rs show ?thesis by auto
qed

end
