(* ===== verification/Intake.thy ===== *)
theory Intake
  imports Evaluator
begin

text \<open>
  What happens before an agent plans (\<open>agent/preflight.rs\<close>, \<open>agent/clarifier.rs\<close>): whether the goal is
  feasible with the tools at hand, and which questions the user has to answer first.

  The language model's answer and the deserializers of its two replies are arguments.  A question is
  read from and written to JSON as \<open>serde\<close>'s derived code does: a missing field has its default, a field
  that is given under its name and an alias is an error.
\<close>

section \<open>Feasibility\<close>

datatype preflight_result = Feasible | NotFeasible string "string list"

record preflight_reply =
  pf_feasible :: bool
  pf_missing_tools :: "string list"
  pf_reason :: string

definition preflight_check ::
  "(string \<Rightarrow> preflight_reply option) \<Rightarrow> (error_chain, string option) result \<Rightarrow> (error_chain, preflight_result) result" where
  "preflight_check from_str chat =
     (case chat of
        Inl e \<Rightarrow> Inl e
      | Inr content \<Rightarrow>
          (case from_str (clean_reply (case content of Some c \<Rightarrow> c | None \<Rightarrow> [])) of
             Some r \<Rightarrow> Inr (if pf_feasible r then Feasible else NotFeasible (pf_reason r) (pf_missing_tools r))
           | None \<Rightarrow> Inr Feasible))"

section \<open>Questions\<close>

record clarification_question =
  cq_id :: string
  cq_question_type :: "string option"
  cq_prompt :: string
  cq_placeholder :: "string option"
  cq_helper_text :: "string option"
  cq_options :: "string list"
  cq_multi_select :: bool
  cq_recommended :: "string list"
  cq_preview :: "json option"
  cq_required :: bool
  cq_secret :: bool
  cq_store_as_credential :: "string option"
  cq_connector_type :: "string option"
  cq_action_label :: "string option"
  cq_card_type :: "string option"
  cq_required_fields :: "string list"
  cq_binding_target :: "string option"
  cq_resume_token :: "string option"

definition question_id_from_prompt :: "string \<Rightarrow> nat \<Rightarrow> string" where
  "question_id_from_prompt prompt index =
     (let slug = join_with ''_'' (take 6 (filter (\<lambda>part. part \<noteq> [])
            (split_on CHR ''_'' (map (\<lambda>c. if is_ascii_alphanumeric c then ascii_lower c else CHR ''_'') prompt))))
      in if slug = [] then ''question_'' @ show_nat (index + 1) else slug)"

definition question_new :: "string \<Rightarrow> clarification_question" where
  "question_new prompt =
     \<lparr>cq_id = question_id_from_prompt prompt 0, cq_question_type = Some ''clarification'', cq_prompt = prompt,
      cq_placeholder = None, cq_helper_text = None, cq_options = [], cq_multi_select = False, cq_recommended = [],
      cq_preview = None, cq_required = True, cq_secret = False, cq_store_as_credential = None,
      cq_connector_type = None, cq_action_label = None, cq_card_type = None, cq_required_fields = [],
      cq_binding_target = None, cq_resume_token = None\<rparr>"

definition normalized :: "nat \<Rightarrow> clarification_question \<Rightarrow> clarification_question" where
  "normalized index q = (if trim (cq_id q) = [] then q\<lparr>cq_id := question_id_from_prompt (cq_prompt q) index\<rparr> else q)"

section \<open>Questions as JSON\<close>

text \<open>A field under any of its names; \<open>None\<close> when it is given twice.\<close>

definition aliased :: "(string \<times> json) list \<Rightarrow> string list \<Rightarrow> json option option" where
  "aliased m names =
     (case List.map_filter (map_of m) names of [] \<Rightarrow> Some None | [v] \<Rightarrow> Some (Some v) | _ \<Rightarrow> None)"

fun opt_string :: "json option \<Rightarrow> string option option" where
  "opt_string None = Some None"
| "opt_string (Some JNull) = Some None"
| "opt_string (Some (JString s)) = Some (Some s)"
| "opt_string _ = None"

fun opt_value :: "json option \<Rightarrow> json option" where
  "opt_value (Some JNull) = None"
| "opt_value v = v"

fun bool_or :: "bool \<Rightarrow> json option \<Rightarrow> bool option" where
  "bool_or d None = Some d"
| "bool_or d (Some (JBool b)) = Some b"
| "bool_or d _ = None"

fun strings_or_empty :: "json option \<Rightarrow> string list option" where
  "strings_or_empty None = Some []"
| "strings_or_empty (Some (JArray xs)) = sequence (map as_str xs)"
| "strings_or_empty _ = None"

fun string_or_empty :: "json option \<Rightarrow> string option" where
  "string_or_empty None = Some []"
| "string_or_empty (Some (JString s)) = Some s"
| "string_or_empty _ = None"

definition question_of_object :: "(string \<times> json) list \<Rightarrow> clarification_question option" where
  "question_of_object m =
     (let text_field = (\<lambda>names. Option.bind (aliased m names) opt_string);
          flag = (\<lambda>names d. Option.bind (aliased m names) (bool_or d)) in
      Option.bind (string_or_empty (map_of m ''id'')) (\<lambda>qid.
      Option.bind (text_field [''question_type'', ''type'']) (\<lambda>question_type.
      Option.bind (Option.bind (map_of m ''prompt'') as_str) (\<lambda>prompt.
      Option.bind (text_field [''placeholder'']) (\<lambda>placeholder.
      Option.bind (text_field [''helper_text'', ''helperText'']) (\<lambda>helper_text.
      Option.bind (strings_or_empty (map_of m ''options'')) (\<lambda>options.
      Option.bind (flag [''multi_select'', ''multiSelect''] False) (\<lambda>multi_select.
      Option.bind (strings_or_empty (map_of m ''recommended'')) (\<lambda>recommended.
      Option.bind (flag [''required''] True) (\<lambda>required.
      Option.bind (flag [''secret''] False) (\<lambda>secret.
      Option.bind (text_field [''store_as_credential'', ''storeAsCredential'']) (\<lambda>store_as_credential.
      Option.bind (text_field [''connector_type'', ''connectorType'']) (\<lambda>connector_type.
      Option.bind (text_field [''action_label'', ''actionLabel'']) (\<lambda>action_label.
      Option.bind (text_field [''card_type'']) (\<lambda>card_type.
      Option.bind (strings_or_empty (map_of m ''required_fields'')) (\<lambda>required_fields.
      Option.bind (text_field [''binding_target'']) (\<lambda>binding_target.
      Option.bind (text_field [''resume_token'']) (\<lambda>resume_token.
      Some \<lparr>cq_id = qid, cq_question_type = question_type, cq_prompt = prompt, cq_placeholder = placeholder,
        cq_helper_text = helper_text, cq_options = options, cq_multi_select = multi_select,
        cq_recommended = recommended, cq_preview = opt_value (map_of m ''preview''), cq_required = required,
        cq_secret = secret, cq_store_as_credential = store_as_credential, cq_connector_type = connector_type,
        cq_action_label = action_label, cq_card_type = card_type, cq_required_fields = required_fields,
        cq_binding_target = binding_target, cq_resume_token = resume_token\<rparr>))))))))))))))))))"

text \<open>An object that is no question but has a \<open>question\<close> is read leniently.\<close>

definition lenient_question :: "(string \<times> json) list \<Rightarrow> string \<Rightarrow> clarification_question" where
  "lenient_question m prompt =
     (let text_field = (\<lambda>v. Option.bind v as_str);
          texts = (\<lambda>k. case Option.bind (map_of m k) as_array of Some xs \<Rightarrow> List.map_filter as_str xs | None \<Rightarrow> []);
          flag = (\<lambda>v d. case Option.bind v as_bool of Some b \<Rightarrow> b | None \<Rightarrow> d) in
      \<lparr>cq_id = (case text_field (map_of m ''id'') of Some i \<Rightarrow> i | None \<Rightarrow> []),
       cq_question_type = text_field (or_else (map_of m ''question_type'') (map_of m ''type'')),
       cq_prompt = prompt, cq_placeholder = text_field (map_of m ''placeholder''),
       cq_helper_text = text_field (or_else (map_of m ''helper_text'') (map_of m ''helperText'')),
       cq_options = texts ''options'',
       cq_multi_select = flag (or_else (map_of m ''multi_select'') (map_of m ''multiSelect'')) False,
       cq_recommended = texts ''recommended'', cq_preview = map_of m ''preview'',
       cq_required = flag (map_of m ''required'') True, cq_secret = flag (map_of m ''secret'') False,
       cq_store_as_credential = text_field (map_of m ''store_as_credential''),
       cq_connector_type = text_field (map_of m ''connector_type''),
       cq_action_label = text_field (map_of m ''action_label''), cq_card_type = text_field (map_of m ''card_type''),
       cq_required_fields = texts ''required_fields'', cq_binding_target = text_field (map_of m ''binding_target''),
       cq_resume_token = text_field (map_of m ''resume_token'')\<rparr>)"

fun parse_question :: "nat \<Rightarrow> json \<Rightarrow> clarification_question option" where
  "parse_question index (JString prompt) = Some (normalized index (question_new prompt))"
| "parse_question index (JObject m) = map_option (normalized index)
     (or_else (question_of_object m) (map_option (lenient_question m) (Option.bind (map_of m ''question'') as_str)))"
| "parse_question index _ = None"

definition parse_clarification_questions :: "json \<Rightarrow> clarification_question list" where
  "parse_clarification_questions value =
     List.map_filter (\<lambda>(index, item). parse_question index item)
       (List.enumerate 0 (case as_array value of Some xs \<Rightarrow> xs | None \<Rightarrow> []))"

fun opt_json :: "string option \<Rightarrow> json" where
  "opt_json None = JNull"
| "opt_json (Some s) = JString s"

definition question_fields :: "clarification_question \<Rightarrow> (string \<times> json) list" where
  "question_fields q =
     [(''id'', JString (cq_id q)), (''question_type'', opt_json (cq_question_type q)),
      (''prompt'', JString (cq_prompt q)), (''placeholder'', opt_json (cq_placeholder q)),
      (''helper_text'', opt_json (cq_helper_text q)), (''options'', JArray (map JString (cq_options q))),
      (''multi_select'', JBool (cq_multi_select q)), (''recommended'', JArray (map JString (cq_recommended q))),
      (''preview'', (case cq_preview q of Some v \<Rightarrow> v | None \<Rightarrow> JNull)), (''required'', JBool (cq_required q)),
      (''secret'', JBool (cq_secret q)), (''store_as_credential'', opt_json (cq_store_as_credential q)),
      (''connector_type'', opt_json (cq_connector_type q)), (''action_label'', opt_json (cq_action_label q)),
      (''card_type'', opt_json (cq_card_type q)), (''required_fields'', JArray (map JString (cq_required_fields q))),
      (''binding_target'', opt_json (cq_binding_target q)), (''resume_token'', opt_json (cq_resume_token q))]"

definition question_value :: "clarification_question \<Rightarrow> json" where
  "question_value q = obj_of_list (question_fields q)"

definition questions_value :: "clarification_question list \<Rightarrow> json" where
  "questions_value qs = JArray (map question_value qs)"

section \<open>The clarifier\<close>

datatype clarification_result = Clear | NeedsInput "clarification_question list"

text \<open>\<open>trim_start_matches\<close> with a character and with a text; \<open>rfind\<close>.\<close>

definition str_rfind :: "string \<Rightarrow> string \<Rightarrow> nat option" where
  "str_rfind p s = map_option (\<lambda>i. length s - length p - i) (str_find (rev p) (rev s))"

definition strip_fences :: "string \<Rightarrow> string" where
  "strip_fences s =
     trim (if starts_with ''```'' s
       then let after = dropWhile (\<lambda>c. c = CHR 0x0A) (drop_any [''json''] (dropWhile (\<lambda>c. c = CHR ''`'') s))
            in case str_rfind ''```'' after of Some stop \<Rightarrow> take stop after | None \<Rightarrow> after
       else s)"

definition clarifier_check ::
  "(string \<Rightarrow> (bool \<times> json list) option) \<Rightarrow> (error_chain, string option) result
     \<Rightarrow> (error_chain, clarification_result) result" where
  "clarifier_check from_str chat =
     (case chat of
        Inl e \<Rightarrow> Inl e
      | Inr content \<Rightarrow>
          (case from_str (strip_fences (trim (case content of Some c \<Rightarrow> c | None \<Rightarrow> []))) of
             None \<Rightarrow> Inr Clear
           | Some (is_clear, raw_questions) \<Rightarrow>
               let questions = parse_clarification_questions (JArray raw_questions) in
               Inr (if is_clear \<or> raw_questions = [] \<or> questions = [] then Clear else NeedsInput questions)))"

definition clarifier_incorporate ::
  "agent_state \<Rightarrow> (error_chain, string option) result \<Rightarrow> (error_chain, string) result" where
  "clarifier_incorporate s chat = map_sum id (\<lambda>content. case content of Some c \<Rightarrow> c | None \<Rightarrow> as_goal s) chat"

text \<open>The question that asks for the credentials of a language-model provider (\<open>agent/loop.rs\<close>).\<close>

definition provider_credentials_questions :: "clarification_question list" where
  "provider_credentials_questions =
     [(question_new ''Add an LLM provider API key to continue.'')
        \<lparr>cq_id := ''llm_provider_credentials'', cq_question_type := Some ''approval'',
         cq_placeholder := Some ''After adding credentials in Settings, click Submit to retry.'',
         cq_helper_text := Some ''This workspace does not have any tenant provider credentials configured, and no platform fallback key is available.'',
         cq_required := False, cq_connector_type := Some ''provider_credentials'',
         cq_action_label := Some ''Open Settings -> Credentials'', cq_card_type := Some ''provider_credentials'',
         cq_required_fields := [''api_key''], cq_binding_target := Some ''provider_credentials'',
         cq_resume_token := Some ''provider_credentials''\<rparr>]"

section \<open>Questions that were asked\<close>

lemma obj_of_list_map:
  assumes "distinct (map fst kvs)"
  shows "map_of (fold (\<lambda>(k, v). obj_insert k v) kvs acc) = map_of acc ++ map_of kvs"
  using assms
proof (induction kvs arbitrary: acc)
  case (Cons kv kvs)
  obtain k v where kv: "kv = (k, v)" by fastforce
  have "map_of kvs k = None" using Cons.prems kv by (force simp: map_of_eq_None_iff)
  then have "(map_of acc)(k \<mapsto> v) ++ map_of kvs = map_of acc ++ (map_of kvs)(k \<mapsto> v)"
    by (auto simp: map_add_def fun_eq_iff split: option.split)
  moreover have "map_of (fold (\<lambda>(k, v). obj_insert k v) kvs (obj_insert k v acc)) = (map_of acc)(k \<mapsto> v) ++ map_of kvs"
    using Cons by (simp add: map_of_obj_insert)
  ultimately show ?case using kv by (simp del: map_add_upd add: fun_upd_def)
qed simp

lemma sequence_as_str [simp]: "sequence (map (as_str \<circ> JString) xs) = Some xs"
  by (induction xs) simp_all

lemma opt_string_json [simp]: "opt_string (Some (opt_json v)) = Some v"
  by (cases v) simp_all

definition storable_question :: "clarification_question \<Rightarrow> bool" where
  "storable_question q \<longleftrightarrow> trim (cq_id q) \<noteq> [] \<and> cq_preview q \<noteq> Some JNull"

lemma question_roundtrip:
  assumes "storable_question q"
  shows "parse_question i (question_value q) = Some q"
proof -
  let ?m = "fold (\<lambda>(k, v). obj_insert k v) (question_fields q) []"
  have "distinct (map fst (question_fields q))" by (simp add: question_fields_def)
  then have "map_of ?m = map_of (question_fields q)" using obj_of_list_map [of "question_fields q" "[]"] by simp
  then have get: "map_of ?m k = map_of (question_fields q) k" for k by simp
  have "opt_value (Some (case cq_preview q of Some v \<Rightarrow> v | None \<Rightarrow> JNull)) = cq_preview q"
  proof (cases "cq_preview q")
    case (Some v)
    with assms show ?thesis by (cases v) (simp_all add: storable_question_def)
  qed simp
  then have "question_of_object ?m = Some q"
    by (simp add: question_of_object_def aliased_def get map_filter_simps) (simp add: question_fields_def)
  with assms show ?thesis
    by (simp add: question_value_def obj_of_list_def or_else_def normalized_def storable_question_def)
qed

text \<open>Stored questions are read back: the questions that a run asks are written into its metadata, and
  what a later run reads there are the same questions.\<close>

theorem stored_questions_read_back:
  assumes "list_all storable_question qs"
  shows "parse_clarification_questions (questions_value qs) = qs"
proof -
  have "List.map_filter (\<lambda>(index, item). parse_question index item) (List.enumerate n (map question_value qs)) = qs" for n
    using assms by (induction qs arbitrary: n) (simp_all add: map_filter_simps question_roundtrip)
  then show ?thesis by (simp add: parse_clarification_questions_def questions_value_def)
qed

lemma set_split_on: "w \<in> set (split_on sep s) \<Longrightarrow> set w \<subseteq> set s"
proof (induction sep s arbitrary: w rule: split_on.induct)
  case (2 sep c cs)
  obtain v vs where v: "split_on sep cs = v # vs" by (cases "split_on sep cs") simp_all
  with "2.IH" have "set v \<subseteq> set cs" "w \<in> set vs \<Longrightarrow> set w \<subseteq> set cs" by auto
  with "2.prems" v show ?case by (auto split: if_splits)
qed simp

lemma set_join_with: "set (join_with sep ws) \<subseteq> set sep \<union> \<Union> (set ` set ws)"
  by (induction sep ws rule: join_with.induct) auto

text \<open>Every question that is asked has an id that is not blank, so it can be answered by its id.\<close>

lemma question_id_visible: "\<forall>c\<in>set (question_id_from_prompt prompt i). visible c"
proof -
  let ?clean = "map (\<lambda>c. if is_ascii_alphanumeric c then ascii_lower c else CHR ''_'') prompt"
  let ?slug = "join_with ''_'' (take 6 (filter (\<lambda>part. part \<noteq> []) (split_on CHR ''_'' ?clean)))"
  have bar: "visible CHR ''_''" by code_simp
  then have clean: "\<forall>c\<in>set ?clean. visible c"
    by (auto simp: visible_def is_ascii_alphanumeric_def is_ascii_digit_def ascii_lower_def split: if_splits)
  have "set ?slug \<subseteq> {CHR ''_''} \<union> set ?clean"
  proof
    fix c assume "c \<in> set ?slug"
    then consider "c = CHR ''_''" | w where "w \<in> set (split_on CHR ''_'' ?clean)" "c \<in> set w"
      using set_join_with [of "''_''"] by (fastforce dest: in_set_takeD)
    then show "c \<in> {CHR ''_''} \<union> set ?clean" using set_split_on [of _ "CHR ''_''" ?clean] by cases auto
  qed
  then have "\<forall>c\<in>set ?slug. visible c" using clean bar by blast
  moreover have "\<forall>c\<in>set (''question_'' @ show_nat (i + 1)). visible c"
  proof -
    have "\<forall>c\<in>set ''question_''. visible c" by code_simp
    moreover have "\<forall>c\<in>set (show_nat (i + 1)). visible c"
      by (auto dest!: show_nat_digits simp: is_ascii_digit_def visible_def)
    ultimately show ?thesis unfolding set_append ball_Un by (rule conjI)
  qed
  ultimately show ?thesis
    unfolding question_id_from_prompt_def Let_def by (cases "?slug = []") (simp_all only: if_True if_False simp_thms)
qed

lemma normalized_id: "trim (cq_id (normalized i q)) \<noteq> []"
proof -
  let ?new = "question_id_from_prompt (cq_prompt q) i"
  have "?new \<noteq> []" by (auto simp: question_id_from_prompt_def Let_def)
  then have "trim ?new = ?new" using question_id_visible [of "cq_prompt q" i] by (intro trim_visible) auto
  with \<open>?new \<noteq> []\<close> show ?thesis by (simp add: normalized_def)
qed

theorem asked_questions_have_ids:
  assumes "q \<in> set (parse_clarification_questions v)"
  shows "trim (cq_id q) \<noteq> []"
proof -
  obtain i item where "parse_question i item = Some q"
    using assms by (auto simp: parse_clarification_questions_def List.map_filter_def)
  then show ?thesis using normalized_id by (cases item) auto
qed

text \<open>The ids are not unique: two questions that begin with the same six words share one.\<close>

theorem question_ids_collide:
  "map cq_id (parse_clarification_questions (JArray [JString ''Which of the two databases should be read?'',
     JString ''Which of the two databases should be written?''])) =
   [''which_of_the_two_databases_should'', ''which_of_the_two_databases_should'']"
  by code_simp

text \<open>A reply that cannot be read counts as consent: the goal is feasible and clear.\<close>

theorem unreadable_reply_passes:
  "preflight_check (\<lambda>_. None) (Inr c) = Inr Feasible"
  "clarifier_check (\<lambda>_. None) (Inr c) = Inr Clear"
  by (simp_all add: preflight_check_def clarifier_check_def)

theorem stored_questions_read_back_witness:
  "parse_clarification_questions (questions_value provider_credentials_questions) = provider_credentials_questions"
proof -
  have "list_all storable_question provider_credentials_questions" by code_simp
  then show ?thesis by (rule stored_questions_read_back)
qed

end
