(* ===== verification/Orchestrator.thy ===== *)
theory Orchestrator
  imports Intake "HOL-Library.AList"
begin

text \<open>
  What surrounds the execution of a step, for the agent loop and for the workflow engine alike
  (\<open>agent/orchestrator.rs\<close>), with the history of steps (\<open>StepHistory\<close> in \<open>agent/prompts.rs\<close>) and the
  graph of extracted facts (\<open>knowledge/graph.rs\<close>).

  The executor is an argument, as in the code, and its contract is the locale \<open>step_executor\<close>, which the
  model's own executor satisfies.  Unicode case mapping, the class of alphanumeric characters and the
  iteration order of the hash map of facts are arguments.  Events, citations and the vector store are
  effects outside the model.  \<open>None\<close> stands for a step that does not return.
\<close>

section \<open>Characters\<close>

definition is_continuation :: "char \<Rightarrow> bool" where
  "is_continuation c \<longleftrightarrow> 128 \<le> byte_of c \<and> byte_of c < 192"

function utf8_chars :: "string \<Rightarrow> string list" where
  "utf8_chars [] = []"
| "utf8_chars (c # cs) = (c # takeWhile is_continuation cs) # utf8_chars (dropWhile is_continuation cs)"
  by pat_completeness auto
termination by (relation "measure length") (auto simp: le_imp_less_Suc length_dropWhile_le)

lemma concat_utf8_chars [simp]: "concat (utf8_chars s) = s"
  by (induction s rule: utf8_chars.induct) simp_all

definition truncate_chars :: "nat \<Rightarrow> string \<Rightarrow> string" where
  "truncate_chars max_chars s = concat (take max_chars (utf8_chars s))"

definition trim_chars :: "(string \<Rightarrow> bool) \<Rightarrow> string \<Rightarrow> string" where
  "trim_chars P s = concat (rev (dropWhile P (rev (dropWhile P (utf8_chars s)))))"

function split_ws :: "string \<Rightarrow> string \<Rightarrow> string list" where
  "split_ws acc [] = (if acc = [] then [] else [rev acc])"
| "split_ws acc (c # cs) =
     (case find (\<lambda>w. starts_with w (c # cs)) white_space of
        Some w \<Rightarrow> (if acc = [] then [] else [rev acc]) @ split_ws [] (drop (length w) (c # cs))
      | None \<Rightarrow> split_ws (c # acc) cs)"
  by pat_completeness auto
termination
proof (relation "measure (\<lambda>(acc, s). length s)", goal_cases)
  case (3 acc c cs w)
  then have "w \<noteq> []" using white_space_nonempty by (auto dest: find_mem)
  then show ?case by (cases w) auto
qed simp_all

definition split_whitespace :: "string \<Rightarrow> string list" where
  "split_whitespace s = split_ws [] s"

section \<open>History\<close>

record step_entry =
  en_index :: nat
  en_desc :: string
  en_success :: bool
  en_output :: string

type_synonym step_history = "step_entry list"

definition STEP_HISTORY_CAP :: nat where
  "STEP_HISTORY_CAP = 30"

definition history_push :: "nat \<Rightarrow> string \<Rightarrow> bool \<Rightarrow> string \<Rightarrow> step_history \<Rightarrow> step_history" where
  "history_push index desc success output h =
     (let h' = h @ [\<lparr>en_index = index, en_desc = desc, en_success = success, en_output = output\<rparr>]
      in drop (length h' - STEP_HISTORY_CAP) h')"

definition inject_facts :: "string \<Rightarrow> step_history \<Rightarrow> step_history" where
  "inject_facts facts h =
     (if facts = [] then h
      else h @ [\<lparr>en_index = 0, en_desc = ''knowledge_graph'', en_success = True, en_output = facts\<rparr>])"

definition history_line :: "nat \<Rightarrow> step_entry \<Rightarrow> string" where
  "history_line age e =
     (let icon = (if en_success e then [CHR 0xE2, CHR 0x9C, CHR 0x93] else [CHR 0xE2, CHR 0x9C, CHR 0x97]);
          output = (if age < 3 then truncate_chars 600 (en_output e)
            else if age < 8 then truncate_chars 200 (en_output e) else []);
          header = ''['' @ show_nat (en_index e) @ ''] '' @ icon @ '' '' @ en_desc e
      in if output = [] then header
         else header @ '' '' @ [CHR 0xE2, CHR 0x86, CHR 0x92] @ '' '' @ output)"

definition summarise :: "step_history \<Rightarrow> string" where
  "summarise h = join_with [CHR 0x0A]
     (map (\<lambda>(i, e). history_line (length h - 1 - i) e) (List.enumerate 0 h))"

section \<open>Facts\<close>

type_synonym knowledge_graph = "(string \<times> string) list"

definition add_node :: "string \<Rightarrow> string \<Rightarrow> knowledge_graph \<Rightarrow> knowledge_graph" where
  "add_node k v g = AList.update k v g"

definition get_related :: "(string \<Rightarrow> string) \<Rightarrow> (knowledge_graph \<Rightarrow> knowledge_graph) \<Rightarrow> string \<Rightarrow> knowledge_graph
    \<Rightarrow> (string \<times> string) list" where
  "get_related to_lowercase order query g =
     (let words = split_whitespace query in
      take 10 (filter (\<lambda>(k, v). list_ex (\<lambda>w. str_contains (to_lowercase w) (to_lowercase (k @ '' '' @ v))) words)
        (order g)))"

definition facts_text :: "(string \<times> string) list \<Rightarrow> string" where
  "facts_text facts = join_with [CHR 0x0A] (map (\<lambda>(k, v). k @ '': '' @ v) (take 5 facts))"

definition url_char :: "(string \<Rightarrow> bool) \<Rightarrow> string \<Rightarrow> bool" where
  "url_char alphanumeric c \<longleftrightarrow> alphanumeric c \<or> c \<in> {'':'', ''/'', ''.'', ''-'', ''_''}"

definition extract_entities :: "(string \<Rightarrow> bool) \<Rightarrow> string \<Rightarrow> (string \<times> string) list" where
  "extract_entities alphanumeric text =
     map (\<lambda>w. (''url'', trim_chars (\<lambda>c. \<not> url_char alphanumeric c) w))
       (filter (\<lambda>w. starts_with ''http://'' w \<or> starts_with ''https://'' w) (split_whitespace text))
     @ map (\<lambda>w. (''email'', w))
       (filter (\<lambda>w. CHR ''@'' \<in> set w \<and> CHR ''.'' \<in> set w) (split_whitespace text))"

section \<open>Around a step\<close>

record orchestrator_env =
  or_ext :: externals
  or_lower :: "string \<Rightarrow> string"
  or_alphanumeric :: "string \<Rightarrow> bool"
  or_order :: "knowledge_graph \<Rightarrow> knowledge_graph"
  or_now :: time
  or_now_text :: string
  or_role :: "agent_role option"
  or_execute :: "agent_state \<Rightarrow> plan \<Rightarrow> planned_step \<Rightarrow> exec_result task_result option"

datatype step_verdict =
    Executed exec_result "(string \<times> string) list"
  | StepSkipped string
  | DelegatedStep exec_result "string list"
  | ClarificationNeeded exec_result "clarification_question list"
  | DeterministicAbort exec_result string
  | StepError error_chain

definition inject_knowledge ::
  "orchestrator_env \<Rightarrow> agent_state \<Rightarrow> knowledge_graph \<Rightarrow> step_history \<Rightarrow> step_history" where
  "inject_knowledge env s g h =
     (let facts = get_related (or_lower env) (or_order env) (as_goal s) g
      in if facts = [] then h else inject_facts (facts_text facts) h)"

definition context_tools :: "string list" where
  "context_tools = [''delegate'', ''send_message'', ''message_inbox'', ''task_create'', ''task_get'', ''task_list'',
     ''task_update'', ''task_stop'', ''task_output'', ''enter_worktree'', ''exit_worktree'', ''vector_store'',
     ''vector_search'', ''vector_delete'', ''mcp_session'', ''search_mcp_registry'']"

definition task_tools :: "string list" where
  "task_tools = [''delegate'', ''task_create'', ''task_get'', ''task_list'', ''task_update'', ''task_stop'', ''task_output'']"

definition set_when :: "bool \<Rightarrow> string \<Rightarrow> string option \<Rightarrow> json \<Rightarrow> json option" where
  "set_when cond k v args = (case v of Some s \<Rightarrow> (if cond then json_set k (JString s) args else Some args) | None \<Rightarrow> Some args)"

definition inject_delegation_ctx :: "agent_state \<Rightarrow> planned_step \<Rightarrow> planned_step option" where
  "inject_delegation_ctx s step =
     (case ps_tool step of
        None \<Rightarrow> Some step
      | Some tool \<Rightarrow>
          if tool \<notin> set context_tools then Some step
          else let blank = (\<lambda>args. case Option.bind (json_get ''task_id'' args) as_str of Some t \<Rightarrow> trim t = [] | None \<Rightarrow> True);
                   talks = (tool \<in> {''send_message'', ''message_inbox''}) in
            map_option (\<lambda>args. step\<lparr>ps_tool_args := Some args\<rparr>)
            (Option.bind (json_set ''tenant_id'' (JString (as_tenant_id s))
               (case ps_tool_args step of Some a \<Rightarrow> a | None \<Rightarrow> JNull)) (\<lambda>a1.
             Option.bind (json_set ''agent_id'' (JString (as_id s)) a1) (\<lambda>a2.
             Option.bind (set_when (tool \<in> set task_tools \<and> blank a2) ''task_id'' (as_current_task s) a2) (\<lambda>a3.
             Option.bind (set_when (tool = ''delegate'') ''parent_agent_id'' (Some (as_id s)) a3) (\<lambda>a4.
             Option.bind (set_when talks ''parent_agent_id'' (as_parent_agent_id s) a4) (\<lambda>a5.
             Option.bind (set_when talks ''task_id'' (as_current_task s) a5) (\<lambda>a6.
             set_when (tool \<in> {''enter_worktree'', ''exit_worktree''}) ''workspace_path'' (Some (as_workspace_path s)) a6))))))))"

text \<open>The templates of a step are resolved against the state; \<open>None\<close> when that does not return.\<close>

definition resolve_step :: "orchestrator_env \<Rightarrow> agent_state \<Rightarrow> planned_step \<Rightarrow> planned_step option" where
  "resolve_step env s step =
     (if has_templates (ps_tool_args step)
      then resolve_step_templates (or_ext env) (or_now_text env) (from_agent_state s) step
      else Some step)"

subsection \<open>Recording\<close>

definition tool_result_value :: "tool_result \<Rightarrow> json" where
  "tool_result_value r = obj_of_list
     [(''success'', JBool (tr_success r)), (''output'', tr_output r), (''error'', opt_json (tr_error r))]"

fun recorded_step_of :: "json \<Rightarrow> json option" where
  "recorded_step_of (JObject m) =
     Option.bind (Option.bind (map_of m ''index'') json_as_u64) (\<lambda>i.
     Option.bind (Option.bind (map_of m ''description'') as_str) (\<lambda>d.
     Option.bind (Option.bind (map_of m ''tool_results'') as_str) (\<lambda>t.
     Some (obj_of_list [(''index'', JNumber (PosInt i)), (''description'', JString d), (''tool_results'', JString t)]))))"
| "recorded_step_of (JArray [i, d, t]) =
     Option.bind (json_as_u64 i) (\<lambda>i. Option.bind (as_str d) (\<lambda>d. Option.bind (as_str t) (\<lambda>t.
     Some (obj_of_list [(''index'', JNumber (PosInt i)), (''description'', JString d), (''tool_results'', JString t)]))))"
| "recorded_step_of _ = None"

text \<open>The recorder that is read back: a record with the field \<open>steps\<close>, or the list of its fields.\<close>

fun recorder_of_value :: "json \<Rightarrow> json list option" where
  "recorder_of_value (JObject m) =
     Option.bind (Option.bind (map_of m ''steps'') as_array) (\<lambda>xs. sequence (map recorded_step_of xs))"
| "recorder_of_value (JArray [v]) = Option.bind (as_array v) (\<lambda>xs. sequence (map recorded_step_of xs))"
| "recorder_of_value _ = None"

definition record_debug ::
  "orchestrator_env \<Rightarrow> agent_state \<Rightarrow> planned_step \<Rightarrow> exec_result \<Rightarrow> agent_state option" where
  "record_debug env s step r =
     (let steps = (case Option.bind (json_get ''debug_recording'' (as_metadata s)) recorder_of_value of
                     Some xs \<Rightarrow> xs | None \<Rightarrow> []);
          entry = obj_of_list [(''index'', JNumber (PosInt (ps_index step))),
            (''description'', JString (ps_description step)),
            (''tool_results'', JString (json_to_string (or_ext env) (JArray (map tool_result_value (er_tool_results r)))))]
      in set_metadata ''debug_recording'' (JArray (steps @ [entry])) s)"

definition output_key :: "nat \<Rightarrow> string" where
  "output_key i = ''step_'' @ show_nat i @ ''_output''"

definition step_output_value :: "exec_result \<Rightarrow> json" where
  "step_output_value r = obj_of_list
     [(''success'', JBool (er_success r)), (''output'', JString (truncate_chars 2000 (er_output r))),
      (''tools_called'', JArray (map JString (er_tools_called r))),
      (''items_processed'', JNumber (PosInt (er_items_processed r)))]"

definition persist_step_output :: "time \<Rightarrow> agent_state \<Rightarrow> planned_step \<Rightarrow> exec_result \<Rightarrow> agent_state option" where
  "persist_step_output now s step r =
     Option.bind (set_metadata (output_key (ps_index step)) (step_output_value r) s) (\<lambda>s.
       case er_final_answer_candidate r of Some c \<Rightarrow> set_final_answer c now s | None \<Rightarrow> Some s)"

subsection \<open>Verdict\<close>

definition detect_delegation :: "exec_result \<Rightarrow> string list option" where
  "detect_delegation r =
     first_some (map (\<lambda>t. Option.bind (Option.bind (json_get ''child_agent_ids'' (tr_output t)) as_array)
       (\<lambda>xs. let ids = List.map_filter as_str xs in if ids = [] then None else Some ids)) (er_tool_results r))"

definition detect_clarification :: "exec_result \<Rightarrow> clarification_question list option" where
  "detect_clarification r =
     first_some (map (\<lambda>t.
       if Option.bind (json_get ''status'' (tr_output t)) as_str = Some ''awaiting_user_input''
       then let qs = parse_clarification_questions
              (case json_get ''questions'' (tr_output t) of Some v \<Rightarrow> v | None \<Rightarrow> JNull)
            in if qs = [] then None else Some qs
       else None) (er_tool_results r))"

definition failure_output :: "exec_result \<Rightarrow> string" where
  "failure_output r = er_output r @ '' '' @ join_with '' '' (failed_errors r)"

definition rule_matches :: "(string \<Rightarrow> string) \<Rightarrow> exec_result \<Rightarrow> failure_rule \<Rightarrow> bool" where
  "rule_matches to_lowercase r rule \<longleftrightarrow>
     (case fr_tool_scope rule of Some scope \<Rightarrow> list_ex (str_contains scope) (er_tools_called r) | None \<Rightarrow> True)
     \<and> str_contains (to_lowercase (fr_text rule)) (to_lowercase (failure_output r))"

definition rule_reason :: "failure_rule \<Rightarrow> string option" where
  "rule_reason rule =
     (case fr_action rule of
        Abort \<Rightarrow> Some (''FailureRule matched: '' @ fr_text rule @ '' (action: abort)'')
      | EscalateToHuman _ \<Rightarrow> Some (''FailureRule matched: '' @ fr_text rule @ '' (action: escalate)'')
      | _ \<Rightarrow> None)"

definition check_failure_rules :: "orchestrator_env \<Rightarrow> agent_state \<Rightarrow> exec_result \<Rightarrow> string option" where
  "check_failure_rules env s r =
     (case (meta_str ''role_id'' s, or_role env) of
        (Some _, Some role) \<Rightarrow>
          first_some (map (\<lambda>rule. if rule_matches (or_lower env) r rule then rule_reason rule else None)
            (eg_failure_handling (ro_execution_guidelines role)))
      | _ \<Rightarrow> None)"

definition step_verdict_of ::
  "orchestrator_env \<Rightarrow> agent_state \<Rightarrow> exec_result \<Rightarrow> step_verdict" where
  "step_verdict_of env s r =
     (case detect_delegation r of
        Some child_ids \<Rightarrow> DelegatedStep r child_ids
      | None \<Rightarrow>
          (case detect_clarification r of
             Some questions \<Rightarrow> ClarificationNeeded r questions
           | None \<Rightarrow>
               (case (if er_success r then None else check_failure_rules env s r) of
                  Some reason \<Rightarrow> DeterministicAbort r reason
                | None \<Rightarrow> Executed r (if er_success r then extract_entities (or_alphanumeric env) (er_output r) else []))))"

fun learned :: "step_verdict \<Rightarrow> (string \<times> string) list" where
  "learned (Executed r entities) = entities"
| "learned _ = []"

record run_state =
  rs_agent :: agent_state
  rs_history :: step_history
  rs_graph :: knowledge_graph

definition after_step ::
  "orchestrator_env \<Rightarrow> planned_step \<Rightarrow> exec_result \<Rightarrow> run_state \<Rightarrow> (step_verdict \<times> run_state) option" where
  "after_step env step r st =
     map_option (\<lambda>s. let v = step_verdict_of env s r in
         (v, st\<lparr>rs_agent := s, rs_graph := fold (\<lambda>(k, e). add_node k e) (learned v) (rs_graph st)\<rparr>))
       (Option.bind (record_debug env (rs_agent st) step r) (\<lambda>s. persist_step_output (or_now env) s step r))"

definition orchestrate_step ::
  "orchestrator_env \<Rightarrow> planned_step \<Rightarrow> plan \<Rightarrow> run_state \<Rightarrow> (step_verdict \<times> run_state) task_result option" where
  "orchestrate_step env step p st =
     (let s = rs_agent st; st1 = st\<lparr>rs_history := inject_knowledge env s (rs_graph st) (rs_history st)\<rparr> in
      case inject_delegation_ctx s step of
        None \<Rightarrow> Some (Inl TaskPanicked)
      | Some step1 \<Rightarrow>
          (case resolve_step env s step1 of
             None \<Rightarrow> None
           | Some step2 \<Rightarrow>
               (case or_execute env s p step2 of
                  None \<Rightarrow> None
                | Some (Inl (TaskError e)) \<Rightarrow> Some (Inr (StepError e, st1))
                | Some (Inl TaskPanicked) \<Rightarrow> Some (Inl TaskPanicked)
                | Some (Inr r) \<Rightarrow> Some (or_panic (after_step env step2 r st1)))))"

section \<open>The executor's contract\<close>

locale step_executor =
  fixes exec :: "agent_state \<Rightarrow> plan \<Rightarrow> planned_step \<Rightarrow> exec_result task_result option"
  assumes success_law: "exec s p step = Some (Inr r) \<Longrightarrow> er_success r \<Longrightarrow>
      list_all tr_success (er_tool_results r) \<and> \<not> str_contains ''STEP FAILED'' (er_output r)"
    and index_law: "exec s p step = Some (Inr r) \<Longrightarrow> er_step_index r = ps_index step"
begin

text \<open>The evaluator lets a successful step go on without its model.\<close>

lemma success_goes_on:
  assumes "exec s p step = Some (Inr r)" "er_success r"
  shows "\<exists>summary. evaluate_and_reflect eenv s' p step' r retry_count max_retries = Inr (plain_reflection
    (if plan_is_complete p (as_current_step s' + 1) then EvGoalComplete else EvContinue) summary)"
  using success_law [OF assms] assms(2) by (auto simp: evaluate_and_reflect_def)

text \<open>Only a step that failed can be aborted by a rule.\<close>

lemma abort_only_on_failure:
  assumes "exec s p step = Some (Inr r)" "step_verdict_of env s' r = DeterministicAbort r' reason"
  shows "r' = r \<and> \<not> er_success r \<and> er_step_index r = ps_index step"
  using assms index_law by (auto simp: step_verdict_of_def split: option.splits if_splits)

end

definition llm_executor :: "executor_env \<Rightarrow> agent_state \<Rightarrow> plan \<Rightarrow> planned_step \<Rightarrow> exec_result task_result option" where
  "llm_executor xenv s p step = map_option (map_sum id fst) (execute_step xenv s p step)"

lemma llm_executorD:
  assumes "llm_executor xenv s p step = Some (Inr r)"
  shows "\<exists>reports. execute_step xenv s p step = Some (Inr (r, reports))"
proof -
  obtain z where "execute_step xenv s p step = Some z" "map_sum id fst z = Inr r"
    using assms by (auto simp: llm_executor_def)
  then show ?thesis by (cases z) auto
qed

lemma resolved_index: "resolved_step xenv s step = Some step' \<Longrightarrow> ps_index step' = ps_index step"
  by (auto simp: resolved_step_def resolve_step_templates_def split: if_splits option.splits)

interpretation llm: step_executor "llm_executor xenv" for xenv
proof
  fix s p step r
  assume "llm_executor xenv s p step = Some (Inr r)"
  then obtain reports where exec: "execute_step xenv s p step = Some (Inr (r, reports))" by (blast dest: llm_executorD)
  show "er_success r \<Longrightarrow> list_all tr_success (er_tool_results r) \<and> \<not> str_contains ''STEP FAILED'' (er_output r)"
    using executed_success [OF exec] .
  from exec show "er_step_index r = ps_index step"
    by (rule execute_stepD) (use finish_stepD resolved_index in metis)
qed

section \<open>Texts\<close>

lemma truncate_prefix: "\<exists>rest. s = truncate_chars n s @ rest"
proof
  show "s = truncate_chars n s @ concat (drop n (utf8_chars s))"
    by (simp add: truncate_chars_def flip: concat_append)
qed

lemma truncate_short: "length (utf8_chars s) \<le> n \<Longrightarrow> truncate_chars n s = s"
  by (simp add: truncate_chars_def)

text \<open>After every finished step the history has at most 30 entries, the newest ones.\<close>

lemma history_push_bounded: "length (history_push i d ok out h) \<le> STEP_HISTORY_CAP"
  by (simp add: history_push_def Let_def)

lemma history_push_last: "en_output (last (history_push i d ok out h)) = out"
  by (simp add: history_push_def Let_def STEP_HISTORY_CAP_def)

section \<open>What a step changes\<close>

lemma set_metadata_frame: "set_metadata k v s = Some s' \<Longrightarrow> \<exists>m. json_set k v (as_metadata s) = Some m \<and> s' = s\<lparr>as_metadata := m\<rparr>"
  by (auto simp: set_metadata_def)

lemma set_final_answer_frame:
  assumes "set_final_answer a now s = Some s'"
  obtains m f u where "s' = s\<lparr>as_metadata := m, as_final_answer := f, as_updated_at := u\<rparr>"
    "\<forall>k. k \<noteq> ''final_answer'' \<longrightarrow> json_get k m = json_get k (as_metadata s)"
proof (cases "trim a = []")
  case True
  with assms show thesis by (intro that [where m = "as_metadata s" and f = "as_final_answer s" and u = "as_updated_at s"]) (auto simp: set_final_answer_def)
next
  case False
  with assms obtain m where "json_set ''final_answer'' (JString (trim a)) (as_metadata s) = Some m"
    "s' = s\<lparr>as_metadata := m, as_final_answer := Some (trim a), as_updated_at := now\<rparr>"
    by (auto simp: set_final_answer_def set_metadata_def Let_def)
  then show thesis by (intro that [where m = m and f = "Some (trim a)" and u = now]) (auto simp: json_set_get)
qed

lemma after_stepD:
  assumes "after_step env step r st = Some (v, st')"
  obtains m f u where "rs_agent st' = (rs_agent st)\<lparr>as_metadata := m, as_final_answer := f, as_updated_at := u\<rparr>"
    "v = step_verdict_of env (rs_agent st') r" "rs_history st' = rs_history st"
    "json_get (output_key (ps_index step)) m = Some (step_output_value r)"
proof -
  obtain s1 s2 s3 where s: "record_debug env (rs_agent st) step r = Some s1"
    "set_metadata (output_key (ps_index step)) (step_output_value r) s1 = Some s2"
    "(case er_final_answer_candidate r of Some c \<Rightarrow> set_final_answer c (or_now env) s2 | None \<Rightarrow> Some s2) = Some s3"
    "v = step_verdict_of env s3 r" "rs_agent st' = s3" "rs_history st' = rs_history st"
    using assms by (auto simp: after_step_def persist_step_output_def Let_def bind_eq_Some_conv)
  obtain m1 where m1: "s1 = (rs_agent st)\<lparr>as_metadata := m1\<rparr>"
    using s(1) by (auto simp: record_debug_def Let_def dest!: set_metadata_frame)
  obtain m2 where m2: "s2 = s1\<lparr>as_metadata := m2\<rparr>" "json_set (output_key (ps_index step)) (step_output_value r) (as_metadata s1) = Some m2"
    using s(2) by (auto dest!: set_metadata_frame)
  have key: "output_key (ps_index step) \<noteq> ''final_answer''" by (simp add: output_key_def)
  show thesis
  proof (cases "er_final_answer_candidate r")
    case None
    with s m1 m2 show thesis
      by (intro that [where m = m2 and f = "as_final_answer (rs_agent st)" and u = "as_updated_at (rs_agent st)"]) (auto simp: json_set_get)
  next
    case (Some c)
    with s(3) have "set_final_answer c (or_now env) s2 = Some s3" by simp
    then obtain m f u where "s3 = s2\<lparr>as_metadata := m, as_final_answer := f, as_updated_at := u\<rparr>"
      "json_get (output_key (ps_index step)) m = json_get (output_key (ps_index step)) (as_metadata s2)"
      by (rule set_final_answer_frame) (use key in blast)
    with s m1 m2 show thesis by (intro that [where m = m and f = f and u = u]) (auto simp: json_set_get)
  qed
qed

lemma inject_delegation_index: "inject_delegation_ctx s step = Some step' \<Longrightarrow> ps_index step' = ps_index step"
  by (auto simp: inject_delegation_ctx_def Let_def split: option.splits if_splits)

lemma resolve_step_index: "resolve_step env s step = Some step' \<Longrightarrow> ps_index step' = ps_index step"
  by (auto simp: resolve_step_def resolve_step_templates_def split: if_splits option.splits)

lemma verdict_result: "step_verdict_of env s r' = Executed r entities \<Longrightarrow> r' = r"
  by (auto simp: step_verdict_of_def split: option.splits if_splits)

lemma orchestrate_stepE:
  assumes "orchestrate_step env step p st = Some (Inr (v, st'))"
  obtains (failed) e where "v = StepError e" "rs_agent st' = rs_agent st"
  | (ran) step2 r st1 where "ps_index step2 = ps_index step" "rs_agent st1 = rs_agent st"
      "or_execute env (rs_agent st) p step2 = Some (Inr r)" "after_step env step2 r st1 = Some (v, st')"
proof -
  let ?s = "rs_agent st"
  let ?st1 = "st\<lparr>rs_history := inject_knowledge env ?s (rs_graph st) (rs_history st)\<rparr>"
  obtain step1 where 1: "inject_delegation_ctx ?s step = Some step1"
    using assms by (auto simp: orchestrate_step_def Let_def split: option.splits)
  obtain step2 where 2: "resolve_step env ?s step1 = Some step2"
    using assms by (auto simp: orchestrate_step_def Let_def 1 split: option.splits)
  obtain z where z: "or_execute env ?s p step2 = Some z"
    using assms by (auto simp: orchestrate_step_def Let_def 1 2 split: option.splits)
  show thesis
  proof (cases z)
    case (Inl f)
    then show thesis
      using assms failed by (cases f) (auto simp: orchestrate_step_def Let_def 1 2 z)
  next
    case (Inr r)
    then have "after_step env step2 r ?st1 = Some (v, st')"
      using assms by (auto simp: orchestrate_step_def Let_def 1 2 z or_panic_def split: option.splits)
    moreover have "ps_index step2 = ps_index step" using 1 2 by (metis resolve_step_index inject_delegation_index)
    ultimately show thesis using ran [of step2 ?st1 r] z Inr by simp
  qed
qed

text \<open>Recording does not panic while the metadata is an object, and leaves it one.\<close>

lemma set_metadata_object:
  assumes "as_object (as_metadata s) \<noteq> None"
  obtains s' where "set_metadata k v s = Some s'" "as_object (as_metadata s') \<noteq> None"
  using assms that by (cases "as_metadata s") (auto simp: set_metadata_def)

lemma after_step_total:
  assumes "as_object (as_metadata (rs_agent st)) \<noteq> None"
  shows "\<exists>st'. after_step env step r st = Some (step_verdict_of env (rs_agent st') r, st')
    \<and> as_object (as_metadata (rs_agent st')) \<noteq> None
    \<and> rs_graph st' = fold (\<lambda>(k, e). add_node k e) (learned (step_verdict_of env (rs_agent st') r)) (rs_graph st)"
proof -
  obtain s1 where s1: "record_debug env (rs_agent st) step r = Some s1" "as_object (as_metadata s1) \<noteq> None"
    using assms unfolding record_debug_def Let_def by (rule set_metadata_object)
  obtain s2 where s2: "set_metadata (output_key (ps_index step)) (step_output_value r) s1 = Some s2"
    "as_object (as_metadata s2) \<noteq> None"
    using s1(2) by (rule set_metadata_object)
  obtain s3 where "persist_step_output (or_now env) s1 step r = Some s3" "as_object (as_metadata s3) \<noteq> None"
  proof (cases "er_final_answer_candidate r")
    case None
    with s2 that show thesis by (simp add: persist_step_output_def)
  next
    case (Some c)
    obtain s4 where "set_metadata ''final_answer'' (JString (trim c)) (s2\<lparr>as_final_answer := Some (trim c)\<rparr>) = Some s4"
      "as_object (as_metadata s4) \<noteq> None"
      by (rule set_metadata_object [of "s2\<lparr>as_final_answer := Some (trim c)\<rparr>"]) (use s2(2) in simp_all)
    with Some s2 show thesis
      using that [of s2] that [of "s4\<lparr>as_updated_at := or_now env\<rparr>"]
      by (cases "trim c = []") (simp_all add: persist_step_output_def set_final_answer_def Let_def)
  qed
  with s1 show ?thesis by (auto simp: after_step_def Let_def)
qed

text \<open>C36: A step changes only what it may.  Whatever the executor returns, the run of a step leaves the
  agent's identity, goal, status, position, plan, claim and children as they are: it writes the metadata,
  the final answer and the time of the change.\<close>

theorem orchestrated_step_frame:
  assumes "orchestrate_step env step p st = Some (Inr (v, st'))"
  shows "\<exists>m f u. rs_agent st' = (rs_agent st)\<lparr>as_metadata := m, as_final_answer := f, as_updated_at := u\<rparr>"
proof -
  show ?thesis
    using assms
  proof (cases rule: orchestrate_stepE)
    case failed
    then show ?thesis
      by (intro exI [of _ "as_metadata (rs_agent st)"] exI [of _ "as_final_answer (rs_agent st)"]
          exI [of _ "as_updated_at (rs_agent st)"]) simp
  next
    case ran
    from ran(4) show ?thesis by (rule after_stepD) (use ran(2) in auto)
  qed
qed

section \<open>What later steps see\<close>

lemma strip_suffix_Some_iff: "strip_suffix p s = Some t \<longleftrightarrow> s = t @ p"
  by (auto simp: strip_suffix_def strip_prefix_Some_iff) (metis rev_append rev_rev_ident)

lemma step_output_key_iff:
  "list_all is_ascii_digit ds \<Longrightarrow> step_output_key k = Some (''step-'' @ ds) \<longleftrightarrow> k = ''step_'' @ ds @ ''_output''"
  by (auto simp: step_output_key_def bind_eq_Some_conv strip_prefix_Some_iff strip_suffix_Some_iff)

lemma metadata_outputs_lookup:
  assumes "list_all is_ascii_digit ds"
  shows "map_of (metadata_outputs m) (''step-'' @ ds) = json_get (''step_'' @ ds @ ''_output'') m"
proof (cases m)
  case (JObject kvs)
  have "map_of (List.map_filter (\<lambda>(key, value). map_option (\<lambda>k. (k, value)) (step_output_key key)) kvs) (''step-'' @ ds)
      = map_of kvs (''step_'' @ ds @ ''_output'')"
  proof (induction kvs)
    case (Cons kv kvs)
    then show ?case
      using step_output_key_iff [OF assms, of "fst kv"]
      by (cases kv; cases "step_output_key (fst kv)") (auto simp: map_filter_simps)
  qed (simp add: map_filter_simps)
  then show ?thesis by (simp add: metadata_outputs_def JObject)
qed (simp_all add: metadata_outputs_def)

lemma show_nat_digits_all: "list_all is_ascii_digit (show_nat n)"
  by (auto simp: list_all_iff show_nat_digits)

text \<open>C34: Output reaches later steps.  When a step has run, a template of a later step that names its output
  is replaced by that output, cut at 2000 characters.\<close>

theorem output_reaches_templates:
  assumes "orchestrate_step env step p st = Some (Inr (Executed r entities, st'))"
  shows "resolve_single_var now (from_agent_state (rs_agent st')) (''step-'' @ show_nat (ps_index step) @ ''.output'')
    = Some (JString (truncate_chars 2000 (er_output r)))"
proof -
  let ?i = "show_nat (ps_index step)"
  obtain m f u where "rs_agent st' = (rs_agent st)\<lparr>as_metadata := m, as_final_answer := f, as_updated_at := u\<rparr>"
    "json_get (output_key (ps_index step)) m = Some (step_output_value r)"
    using assms
  proof (cases rule: orchestrate_stepE)
    case (ran step2 r' st1)
    from ran(4) show thesis
      by (rule after_stepD) (use ran that verdict_result [of env "rs_agent st'" r' r entities] in auto)
  qed auto
  then have "map_of (tc_predecessor_outputs (from_agent_state (rs_agent st'))) (''step-'' @ ?i) = Some (step_output_value r)"
    using metadata_outputs_lookup [OF show_nat_digits_all, of m "ps_index step"]
    by (simp add: from_agent_state_def output_key_def)
  moreover have "split_on CHR ''.'' (''step-'' @ ?i @ ''.output'') = [''step-'' @ ?i, ''output'']"
    by (subst append_assoc [symmetric], subst split_on_append) (auto dest: show_nat_digits simp: is_ascii_digit_def byte_of_def)
  ultimately show ?thesis
    by (simp add: resolve_single_var_def strip_prefix_def resolve_predecessor_path_def step_key_def
        step_output_value_def obj_of_list_def)
qed

section \<open>Rules that stop a run\<close>

text \<open>C40: A rule stops a run only where it applies.  A step is aborted without the evaluator exactly when it
  failed, neither delegated nor asked, and a failure rule of its role whose action is to abort or to
  escalate matches the failure; the reason names the first such rule.\<close>

theorem deterministic_abort_exact:
  assumes "meta_str ''role_id'' s = Some rid" "or_role env = Some role"
  defines "rules \<equiv> eg_failure_handling (ro_execution_guidelines role)"
    and "stops \<equiv> \<lambda>r rule. rule_matches (or_lower env) r rule \<and> rule_reason rule \<noteq> None"
  shows "step_verdict_of env s r = DeterministicAbort r reason \<longleftrightarrow>
    detect_delegation r = None \<and> detect_clarification r = None \<and> \<not> er_success r
    \<and> (\<exists>rule. find (stops r) rules = Some rule \<and> rule_reason rule = Some reason)"
proof -
  have "first_some (map (\<lambda>rule. if rule_matches (or_lower env) r rule then rule_reason rule else None) rs)
      = Option.bind (find (stops r) rs) rule_reason" for rs
    by (induction rs) (auto simp: stops_def split: option.splits)
  with assms show ?thesis
    by (auto simp: step_verdict_of_def check_failure_rules_def rules_def bind_eq_Some_conv split: option.splits)
qed

section \<open>Behaviour worth knowing\<close>

text \<open>The debug recording keeps the last step only: what is stored is the list of steps, what is read back
  is a recorder, and the list is never one.\<close>

lemma recorder_forgets: "recorder_of_value (JArray (xs @ [JObject m])) = None"
proof (cases xs)
  case (Cons x ys)
  obtain y zs where "ys @ [JObject m] = y # zs" by (cases ys) auto
  with Cons show ?thesis by simp
qed simp

theorem debug_recording_forgets:
  assumes "record_debug env s step r = Some s1" "record_debug env s1 step' r' = Some s2"
  shows "\<exists>e. json_get ''debug_recording'' (as_metadata s2) = Some (JArray [e])"
proof -
  obtain xs m where "json_get ''debug_recording'' (as_metadata s1) = Some (JArray (xs @ [JObject m]))"
    using assms(1) by (auto simp: record_debug_def Let_def obj_of_list_def json_set_get dest!: set_metadata_frame)
  with assms(2) show ?thesis
    by (auto simp: record_debug_def Let_def recorder_forgets json_set_get dest!: set_metadata_frame)
qed

definition sample_report :: exec_result where
  "sample_report = \<lparr>er_step_index = 0, er_success = True, er_skipped = False,
     er_output = ''see https://acme.example/payroll'', er_final_answer_candidate = Some ''done'',
     er_tool_results = [tool_ok JNull], er_tools_called = [''diff''], er_items_processed = 0, er_connector_writes = []\<rparr>"

definition sample_orchestrator :: orchestrator_env where
  "sample_orchestrator = \<lparr>or_ext = sample_ext, or_lower = to_ascii_lowercase,
     or_alphanumeric = (\<lambda>c. list_all is_ascii_alphanumeric c), or_order = id, or_now = 0, or_now_text = [],
     or_role = None, or_execute = (\<lambda>_ _ _. Some (Inr sample_report))\<rparr>"

definition sample_run :: run_state where
  "sample_run = \<lparr>rs_agent = sample_agent, rs_history = [], rs_graph = []\<rparr>"

text \<open>The graph of facts is one for all tenants: what a step of one tenant finds is put into the prompts of
  another whose goal has a word in common with it.\<close>

theorem facts_cross_tenants:
  "\<exists>st'. orchestrate_step sample_orchestrator sample_diff_step sample_diff_plan sample_run
       = Some (Inr (Executed sample_report [(''url'', ''https://acme.example/payroll'')], st'))
     \<and> map en_output (inject_knowledge sample_orchestrator
           (agent_new ''a2'' ''other-tenant'' ''check the payroll'' ''/ws2'' 0) (rs_graph st') [])
         = [''url: https://acme.example/payroll'']"
proof -
  let ?facts = "[(''url'', ''https://acme.example/payroll'')]"
  have steps: "inject_delegation_ctx sample_agent sample_diff_step = Some sample_diff_step"
    "resolve_step sample_orchestrator sample_agent sample_diff_step = Some sample_diff_step"
    "or_execute sample_orchestrator sample_agent sample_diff_plan sample_diff_step = Some (Inr sample_report)"
    "inject_knowledge sample_orchestrator sample_agent [] [] = []"
    by code_simp+
  have verdict: "step_verdict_of sample_orchestrator s sample_report = Executed sample_report ?facts" for s
  proof -
    have "extract_entities (or_alphanumeric sample_orchestrator) (er_output sample_report) = ?facts"
      "detect_delegation sample_report = None" "detect_clarification sample_report = None" "er_success sample_report"
      by code_simp+
    then show ?thesis by (simp add: step_verdict_of_def)
  qed
  have object: "as_object (as_metadata (rs_agent sample_run)) \<noteq> None" by code_simp
  obtain st' where st': "after_step sample_orchestrator sample_diff_step sample_report sample_run
      = Some (step_verdict_of sample_orchestrator (rs_agent st') sample_report, st')"
    "rs_graph st' = fold (\<lambda>(k, e). add_node k e)
        (learned (step_verdict_of sample_orchestrator (rs_agent st') sample_report)) (rs_graph sample_run)"
    using after_step_total [of sample_run sample_orchestrator sample_diff_step sample_report] object by blast
  have graph: "rs_graph st' = ?facts" using st'(2) by (simp add: verdict sample_run_def add_node_def)
  have "orchestrate_step sample_orchestrator sample_diff_step sample_diff_plan sample_run = Some (Inr (Executed sample_report ?facts, st'))"
    using st'(1) by (simp add: orchestrate_step_def sample_run_def steps verdict or_panic_def)
  moreover have "map en_output (inject_knowledge sample_orchestrator
      (agent_new ''a2'' ''other-tenant'' ''check the payroll'' ''/ws2'' 0) ?facts []) = [''url: https://acme.example/payroll'']"
    by code_simp
  ultimately show ?thesis using graph by auto
qed

section \<open>Witnesses\<close>

lemma sample_orchestrated:
  "\<exists>st'. orchestrate_step sample_orchestrator sample_diff_step sample_diff_plan sample_run
     = Some (Inr (Executed sample_report [(''url'', ''https://acme.example/payroll'')], st'))"
  using facts_cross_tenants by blast

theorem orchestrated_step_frame_witness:
  "\<exists>v st'. orchestrate_step sample_orchestrator sample_diff_step sample_diff_plan sample_run = Some (Inr (v, st'))
     \<and> as_status (rs_agent st') = AgentPending"
proof -
  obtain v st' where run: "orchestrate_step sample_orchestrator sample_diff_step sample_diff_plan sample_run = Some (Inr (v, st'))"
    using sample_orchestrated by blast
  have "as_status (rs_agent sample_run) = AgentPending" by (simp add: sample_run_def sample_agent_def agent_new_def)
  with orchestrated_step_frame [OF run] run show ?thesis by auto
qed

theorem output_reaches_templates_witness:
  "\<exists>v st'. orchestrate_step sample_orchestrator sample_diff_step sample_diff_plan sample_run = Some (Inr (v, st'))
     \<and> resolve_single_var [] (from_agent_state (rs_agent st')) ''step-0.output''
       = Some (JString ''see https://acme.example/payroll'')"
proof -
  have short: "length (utf8_chars (er_output sample_report)) < 99" by code_simp
  obtain st' where run: "orchestrate_step sample_orchestrator sample_diff_step sample_diff_plan sample_run
     = Some (Inr (Executed sample_report [(''url'', ''https://acme.example/payroll'')], st'))"
    using sample_orchestrated by blast
  have key: "''step-'' @ show_nat (ps_index sample_diff_step) @ ''.output'' = ''step-0.output''" by code_simp
  have out: "truncate_chars 2000 (er_output sample_report) = ''see https://acme.example/payroll''"
    using short by (simp add: truncate_short) (simp add: sample_report_def)
  show ?thesis using output_reaches_templates [OF run, of "[]"] run unfolding key out by blast
qed

definition sample_rule_role :: agent_role where
  "sample_rule_role = (let r = agent_role_new ''r1'' ''a1'' ''t1'' ''clerk'' 0 in
     r\<lparr>ro_execution_guidelines := (ro_execution_guidelines r)\<lparr>eg_failure_handling :=
       [\<lparr>fr_text = ''boom'', fr_tool_scope = None, fr_action = Abort\<rparr>]\<rparr>\<rparr>)"

theorem deterministic_abort_exact_witness:
  "step_verdict_of (sample_orchestrator\<lparr>or_role := Some sample_rule_role\<rparr>)
     (sample_agent\<lparr>as_metadata := JObject [(''role_id'', JString ''r1'')]\<rparr>) sample_failure
   = DeterministicAbort sample_failure ''FailureRule matched: boom (action: abort)''"
proof -
  let ?env = "sample_orchestrator\<lparr>or_role := Some sample_rule_role\<rparr>"
  let ?s = "sample_agent\<lparr>as_metadata := JObject [(''role_id'', JString ''r1'')]\<rparr>"
  have "meta_str ''role_id'' ?s = Some ''r1''" "or_role ?env = Some sample_rule_role"
    "detect_delegation sample_failure = None" "detect_clarification sample_failure = None" "\<not> er_success sample_failure"
    "find (\<lambda>rule. rule_matches (or_lower ?env) sample_failure rule \<and> rule_reason rule \<noteq> None)
       (eg_failure_handling (ro_execution_guidelines sample_rule_role))
     = Some \<lparr>fr_text = ''boom'', fr_tool_scope = None, fr_action = Abort\<rparr>"
    "rule_reason \<lparr>fr_text = ''boom'', fr_tool_scope = None, fr_action = Abort\<rparr>
     = Some ''FailureRule matched: boom (action: abort)''"
    by code_simp+
  with deterministic_abort_exact [of ?s "''r1''" ?env sample_rule_role sample_failure
      "''FailureRule matched: boom (action: abort)''"] show ?thesis by blast
qed

end
