(* ===== verification/Skills.thy ===== *)
theory Skills
  imports Orchestrator
begin

text \<open>
  The registry of skills (\<open>skills/registry.rs\<close>), the plan that a skill gives, and the evolution of a
  skill (\<open>skill_evolution/evolution.rs\<close>).

  The registry is a hash map: it is kept here as a list of skills with distinct names, and the order in
  which the code iterates over it is an argument, as is \<open>to_lowercase\<close>.
\<close>

section \<open>Skills\<close>

record skill_step_definition =
  sd_description :: string
  sd_tool :: "string option"
  sd_tool_args :: "json option"
  sd_success_criteria :: string

datatype skill_step = TextStep string | DetailedStep skill_step_definition

fun skill_step_description :: "skill_step \<Rightarrow> string" where
  "skill_step_description (TextStep t) = t"
| "skill_step_description (DetailedStep d) = sd_description d"

record skill =
  sl_name :: string
  sl_summary :: string
  sl_steps :: "skill_step list"
  sl_aliases :: "string list"
  sl_version :: nat

definition skill_new :: "string \<Rightarrow> string \<Rightarrow> string list \<Rightarrow> skill" where
  "skill_new name description steps =
     \<lparr>sl_name = name, sl_summary = description, sl_steps = map TextStep steps, sl_aliases = [], sl_version = 1\<rparr>"

definition skill_structured :: "string \<Rightarrow> string \<Rightarrow> skill_step_definition list \<Rightarrow> skill" where
  "skill_structured name description steps =
     \<lparr>sl_name = name, sl_summary = description, sl_steps = map DetailedStep steps, sl_aliases = [], sl_version = 1\<rparr>"

definition with_aliases :: "string list \<Rightarrow> skill \<Rightarrow> skill" where
  "with_aliases aliases s = s\<lparr>sl_aliases := aliases\<rparr>"

section \<open>The plan of a skill\<close>

definition instruction_args :: "string \<Rightarrow> json" where
  "instruction_args text = obj_of_list
     [(''instruction'', JString text), (''response_format'', JString ''text'')]"

definition default_criteria :: "nat \<Rightarrow> string" where
  "default_criteria index = ''step '' @ show_nat (index + 1) @ '' complete''"

fun to_planned_step :: "nat \<Rightarrow> skill_step \<Rightarrow> planned_step" where
  "to_planned_step index (TextStep t) =
     \<lparr>ps_index = index, ps_description = t, ps_tool = Some LLM_WORKER_TOOL_NAME,
      ps_tool_args = Some (instruction_args t), ps_success_criteria = default_criteria index,
      ps_condition = None, ps_foreach = None, ps_depends_on = []\<rparr>"
| "to_planned_step index (DetailedStep d) =
     \<lparr>ps_index = index, ps_description = sd_description d,
      ps_tool = or_else (sd_tool d) (Some LLM_WORKER_TOOL_NAME),
      ps_tool_args = or_else (sd_tool_args d) (Some (instruction_args (sd_description d))),
      ps_success_criteria =
        (if trim (sd_success_criteria d) = [] then default_criteria index else sd_success_criteria d),
      ps_condition = None, ps_foreach = None, ps_depends_on = []\<rparr>"

definition plan_from_skill :: "skill \<Rightarrow> plan" where
  "plan_from_skill s =
     \<lparr>plan_goal = sl_summary s, plan_job_type = Some ''skill'',
      plan_steps = map (\<lambda>(i, step). to_planned_step i step) (List.enumerate 0 (sl_steps s)),
      plan_rationale = ''using pre-built skill: '' @ sl_name s\<rparr>"

section \<open>The registry\<close>

type_synonym skill_registry = "skill list"

definition skill_register :: "skill \<Rightarrow> skill_registry \<Rightarrow> skill_registry" where
  "skill_register s reg = filter (\<lambda>s'. sl_name s' \<noteq> sl_name s) reg @ [s]"

definition skill_get :: "string \<Rightarrow> skill_registry \<Rightarrow> skill option" where
  "skill_get name reg = find (\<lambda>s. sl_name s = name) reg"

text \<open>The longest phrase of a skill that occurs in the goal; \<open>None\<close> when none does.\<close>

definition skill_score :: "(string \<Rightarrow> string) \<Rightarrow> string \<Rightarrow> skill \<Rightarrow> nat option" where
  "skill_score to_lowercase lower s =
     (let found = filter (\<lambda>p. p \<noteq> [] \<and> str_contains p lower) (map to_lowercase (sl_name s # sl_aliases s))
      in if found = [] then None else Some (Max (set (map length found))))"

text \<open>\<open>max_by_key\<close> gives the last of the elements with the greatest key.\<close>

fun max_by_key :: "('a \<Rightarrow> nat) \<Rightarrow> 'a option \<Rightarrow> 'a list \<Rightarrow> 'a option" where
  "max_by_key key best [] = best"
| "max_by_key key best (x # xs) =
     max_by_key key (case best of None \<Rightarrow> Some x | Some b \<Rightarrow> if key x < key b then Some b else Some x) xs"

definition find_matching ::
  "(string \<Rightarrow> string) \<Rightarrow> (skill_registry \<Rightarrow> skill_registry) \<Rightarrow> string \<Rightarrow> skill_registry \<Rightarrow> skill option" where
  "find_matching to_lowercase order goal reg =
     (let lower = to_lowercase goal in
      map_option snd (max_by_key fst None
        (List.map_filter (\<lambda>s. map_option (\<lambda>n. (n, s)) (skill_score to_lowercase lower s)) (order reg))))"

definition evolve_step :: "string \<Rightarrow> skill_step list \<Rightarrow> skill_step list" where
  "evolve_step s steps = (if s \<in> skill_step_description ` set steps then steps else steps @ [TextStep s])"

definition evolve_skill :: "skill \<Rightarrow> string list \<Rightarrow> skill" where
  "evolve_skill old improvements =
     \<lparr>sl_name = sl_name old @ ''-v2'', sl_summary = ''Improved version of '' @ sl_summary old,
      sl_steps = fold evolve_step improvements (sl_steps old), sl_aliases = sl_aliases old,
      sl_version = sl_version old + 1\<rparr>"

section \<open>Laws\<close>

lemma skill_get_register:
  "skill_get name (skill_register s reg) = (if name = sl_name s then Some s else skill_get name reg)"
proof -
  have "find (\<lambda>s'. sl_name s' = name) (filter (\<lambda>s'. sl_name s' \<noteq> sl_name s) reg @ [s])
      = (if name = sl_name s then Some s else find (\<lambda>s'. sl_name s' = name) reg)"
    by (induction reg) auto
  then show ?thesis by (simp add: skill_get_def skill_register_def)
qed

lemma register_distinct: "distinct (map sl_name reg) \<Longrightarrow> distinct (map sl_name (skill_register s reg))"
  by (auto simp: skill_register_def distinct_map_filter)

lemma max_by_key_spec:
  assumes "max_by_key key best xs = r"
  shows "(r = None \<longleftrightarrow> best = None \<and> xs = [])
     \<and> (\<forall>b. r = Some b \<longrightarrow> b \<in> set xs \<union> set_option best \<and> (\<forall>x\<in>set xs \<union> set_option best. key x \<le> key b))"
  using assms
proof (induction key best xs rule: max_by_key.induct)
  case (2 key best x xs)
  from "2.IH" [OF "2.prems" [simplified]] show ?case
    by (cases best) (force split: if_splits)+
qed auto

lemma find_matching_registered:
  assumes "find_matching to_lowercase order goal reg = Some s"
  shows "s \<in> set (order reg)"
proof -
  define cands where "cands =
    List.map_filter (\<lambda>s. map_option (\<lambda>n. (n, s)) (skill_score to_lowercase (to_lowercase goal) s)) (order reg)"
  from assms obtain n where "max_by_key fst None cands = Some (n, s)"
    by (auto simp: find_matching_def Let_def cands_def)
  with max_by_key_spec [OF this] have "(n, s) \<in> set cands" by simp
  then show ?thesis by (auto simp: cands_def map_filter_def)
qed

text \<open>A goal finds a skill exactly when some name or alias of a registered skill occurs in it, in lower
  case; the skill that is found is registered, and none has a longer phrase that occurs in the goal.\<close>

theorem skill_found_is_best:
  assumes "\<And>reg. set (order reg) = set reg"
  shows "(find_matching to_lowercase order goal reg = None
       \<longleftrightarrow> (\<forall>s\<in>set reg. skill_score to_lowercase (to_lowercase goal) s = None))
     \<and> (\<forall>s. find_matching to_lowercase order goal reg = Some s \<longrightarrow> s \<in> set reg
       \<and> (\<exists>n. skill_score to_lowercase (to_lowercase goal) s = Some n
          \<and> (\<forall>s'\<in>set reg. \<forall>m. skill_score to_lowercase (to_lowercase goal) s' = Some m \<longrightarrow> m \<le> n)))"
proof -
  let ?score = "skill_score to_lowercase (to_lowercase goal)"
  define cands where "cands = List.map_filter (\<lambda>s. map_option (\<lambda>n. (n, s)) (?score s)) (order reg)"
  have cands: "(n, s) \<in> set cands \<longleftrightarrow> s \<in> set reg \<and> ?score s = Some n" for n s
    using assms by (auto simp: cands_def map_filter_def image_iff intro!: exI [of _ s])
  define r where "r = max_by_key fst None cands"
  have r: "find_matching to_lowercase order goal reg = map_option snd r"
    by (simp add: find_matching_def r_def cands_def Let_def)
  note spec = max_by_key_spec [OF r_def [symmetric], simplified]
  have "cands = [] \<longleftrightarrow> (\<forall>s\<in>set reg. ?score s = None)"
  proof
    assume "cands = []"
    then show "\<forall>s\<in>set reg. ?score s = None" using cands by (metis empty_iff list.set(1) not_None_eq)
  next
    assume "\<forall>s\<in>set reg. ?score s = None"
    then show "cands = []" using cands by (cases cands) force+
  qed
  with spec have none: "r = None \<longleftrightarrow> (\<forall>s\<in>set reg. ?score s = None)" by simp
  have some: "s \<in> set reg \<and> (\<exists>n. ?score s = Some n \<and> (\<forall>s'\<in>set reg. \<forall>m. ?score s' = Some m \<longrightarrow> m \<le> n))"
    if "map_option snd r = Some s" for s
  proof -
    from that obtain n where b: "r = Some (n, s)" by auto
    with spec have "(n, s) \<in> set cands" and le: "\<forall>x\<in>set cands. fst x \<le> n" by auto
    then have "s \<in> set reg" "?score s = Some n" by (simp_all add: cands)
    moreover have "m \<le> n" if "s' \<in> set reg" "?score s' = Some m" for s' m
      using le that cands by fastforce
    ultimately show ?thesis by blast
  qed
  show ?thesis using none some unfolding r by simp
qed

lemma plan_from_skill_steps:
  "length (plan_steps (plan_from_skill s)) = length (sl_steps s)"
  "i < length (sl_steps s) \<Longrightarrow> ps_index (plan_steps (plan_from_skill s) ! i) = i
     \<and> ps_depends_on (plan_steps (plan_from_skill s) ! i) = []
     \<and> ps_tool (plan_steps (plan_from_skill s) ! i) \<noteq> None"
proof -
  have "ps_index (to_planned_step i st) = i \<and> ps_depends_on (to_planned_step i st) = []
      \<and> ps_tool (to_planned_step i st) \<noteq> None" for i st
    by (cases st) (simp_all add: or_else_def split: option.split)
  then show "length (plan_steps (plan_from_skill s)) = length (sl_steps s)"
    "i < length (sl_steps s) \<Longrightarrow> ps_index (plan_steps (plan_from_skill s) ! i) = i
     \<and> ps_depends_on (plan_steps (plan_from_skill s) ! i) = []
     \<and> ps_tool (plan_steps (plan_from_skill s) ! i) \<noteq> None"
    by (simp_all add: plan_from_skill_def nth_enumerate_eq)
qed

lemma evolve_keeps_steps: "\<exists>more. sl_steps (evolve_skill old improvements) = sl_steps old @ more
    \<and> length more \<le> length improvements"
proof -
  have "\<exists>more. fold evolve_step improvements steps = steps @ more \<and> length more \<le> length improvements" for steps
  proof (induction improvements arbitrary: steps)
    case (Cons s improvements)
    from Cons [of "evolve_step s steps"] obtain more where
      "fold evolve_step improvements (evolve_step s steps) = evolve_step s steps @ more"
      "length more \<le> length improvements" by blast
    moreover obtain xs where "evolve_step s steps = steps @ xs" "length xs \<le> 1"
      by (cases "s \<in> skill_step_description ` set steps") (auto simp: evolve_step_def)
    ultimately show ?case by (intro exI [of _ "xs @ more"]) simp
  qed simp
  then show ?thesis by (simp add: evolve_skill_def)
qed

text \<open>
  A skill that has evolved is found under its new name only by a goal that contains it, but its aliases
  stay those of the old skill: which of the two serves a goal depends on the order of the hash map.
\<close>

lemma alias_ambiguous:
  fixes old :: skill
  defines "new \<equiv> evolve_skill old []"
  assumes "sl_name old = ''tidy''" "sl_aliases old = [''clean the desk'']"
  shows "find_matching to_ascii_lowercase (\<lambda>r. r) ''please clean the desk'' [old, new] = Some new"
    and "find_matching to_ascii_lowercase rev ''please clean the desk'' [old, new] = Some old"
proof -
  have "skill_score to_ascii_lowercase ''please clean the desk'' old = Some 14"
    "skill_score to_ascii_lowercase ''please clean the desk'' new = Some 14"
    using assms(2,3)
    by (simp_all add: skill_score_def new_def evolve_skill_def; code_simp)+
  moreover have "to_ascii_lowercase ''please clean the desk'' = ''please clean the desk''" by code_simp
  ultimately show "find_matching to_ascii_lowercase (\<lambda>r. r) ''please clean the desk'' [old, new] = Some new"
    "find_matching to_ascii_lowercase rev ''please clean the desk'' [old, new] = Some old"
    by (simp_all add: find_matching_def map_filter_def)
qed

definition sample_skill :: skill where
  "sample_skill = with_aliases [''ship it''] (skill_new ''deploy'' ''deploy the application'' [''build'', ''test'', ''push''])"

lemma skill_found_is_best_witness:
  "find_matching to_ascii_lowercase rev ''Please SHIP IT now'' [sample_skill] \<noteq> None"
proof -
  have "\<exists>s\<in>set [sample_skill]. skill_score to_ascii_lowercase (to_ascii_lowercase ''Please SHIP IT now'') s \<noteq> None"
    by code_simp
  moreover have "set (rev reg) = set reg" for reg :: "skill list" by simp
  note conjunct1 [OF skill_found_is_best [where order = rev, OF this, of to_ascii_lowercase "''Please SHIP IT now''" "[sample_skill]"]]
  ultimately show ?thesis by (metis (no_types, lifting))
qed

end
