(* ===== verification/Step_Conditions.thy ===== *)
theory Step_Conditions
  imports Tool_Args Typed_Expressions
begin

text \<open>
  The conditions of steps as the agent loop evaluates them (\<open>agent/loop.rs\<close>).  The workflow engine has
  evaluators of its own (\<open>Dag_Conditions\<close>); here a failure is an error with a text, and a reference is
  looked up by a function that is an argument.
\<close>

section \<open>Structured conditions\<close>

fun condition_truthy :: "json \<Rightarrow> bool" where
  "condition_truthy JNull = False"
| "condition_truthy (JBool b) = b"
| "condition_truthy (JNumber n) = (num_as_f64 n \<noteq> 0)"
| "condition_truthy (JString t) = (trim t \<noteq> [])"
| "condition_truthy (JArray xs) = (xs \<noteq> [])"
| "condition_truthy (JObject m) = (m \<noteq> [])"

fun condition_contains :: "json \<Rightarrow> json \<Rightarrow> bool" where
  "condition_contains (JString actual) (JString expected) =
     str_contains (to_ascii_lowercase expected) (to_ascii_lowercase actual)"
| "condition_contains (JArray items) expected = (expected \<in> set items)"
| "condition_contains (JObject m) (JString expected) = (map_of m expected \<noteq> None)"
| "condition_contains _ _ = False"

definition condition_compare_numbers ::
  "(rat \<Rightarrow> rat \<Rightarrow> bool) \<Rightarrow> json \<Rightarrow> json \<Rightarrow> (string, bool) result" where
  "condition_compare_numbers cmp actual expected =
     (case as_f64 actual of
        None \<Rightarrow> Inl ''condition comparison requires numeric actual value''
      | Some l \<Rightarrow>
          (case as_f64 expected of
             None \<Rightarrow> Inl ''condition comparison requires numeric expected value''
           | Some r \<Rightarrow> Inr (cmp l r)))"

definition compared ::
  "string \<Rightarrow> (string, json) result \<Rightarrow> json option \<Rightarrow> (json \<Rightarrow> json \<Rightarrow> (string, bool) result) \<Rightarrow> (string, bool) result" where
  "compared op resolved right f =
     (case resolved of
        Inl e \<Rightarrow> Inl e
      | Inr actual \<Rightarrow>
          (case right of
             None \<Rightarrow> Inl (''condition.operator '' @ quoted op @ '' requires condition.right'')
           | Some expected \<Rightarrow> f actual expected))"

definition truthy_or :: "bool \<Rightarrow> (json \<Rightarrow> bool) \<Rightarrow> (string, json) result \<Rightarrow> bool" where
  "truthy_or d f resolved = (case resolved of Inr v \<Rightarrow> f v | Inl _ \<Rightarrow> d)"

fun structured_should_run ::
  "condition_op \<Rightarrow> (string, json) result \<Rightarrow> json option \<Rightarrow> (string, bool) result" where
  "structured_should_run OpExists resolved right = Inr (truthy_or False (\<lambda>_. True) resolved)"
| "structured_should_run OpNotExists resolved right = Inr (truthy_or True (\<lambda>_. False) resolved)"
| "structured_should_run OpIsTruthy resolved right = Inr (truthy_or False condition_truthy resolved)"
| "structured_should_run OpIsFalsy resolved right = Inr (truthy_or True (\<lambda>v. \<not> condition_truthy v) resolved)"
| "structured_should_run OpNotEmpty resolved right = Inr (truthy_or False condition_truthy resolved)"
| "structured_should_run OpEmpty resolved right = Inr (truthy_or True (\<lambda>v. \<not> condition_truthy v) resolved)"
| "structured_should_run OpEquals resolved right = compared ''equals'' resolved right (\<lambda>a e. Inr (a = e))"
| "structured_should_run OpNotEquals resolved right = compared ''not_equals'' resolved right (\<lambda>a e. Inr (a \<noteq> e))"
| "structured_should_run OpContains resolved right =
     compared ''contains'' resolved right (\<lambda>a e. Inr (condition_contains a e))"
| "structured_should_run OpGreaterThan resolved right =
     compared ''gt'' resolved right (condition_compare_numbers (>))"
| "structured_should_run OpGreaterThanEquals resolved right =
     compared ''gte'' resolved right (condition_compare_numbers (\<ge>))"
| "structured_should_run OpLessThan resolved right =
     compared ''lt'' resolved right (condition_compare_numbers (<))"
| "structured_should_run OpLessThanEquals resolved right =
     compared ''lte'' resolved right (condition_compare_numbers (\<le>))"

fun op_debug :: "condition_op \<Rightarrow> string" where
  "op_debug OpExists = ''Exists''"
| "op_debug OpNotExists = ''NotExists''"
| "op_debug OpIsTruthy = ''IsTruthy''"
| "op_debug OpIsFalsy = ''IsFalsy''"
| "op_debug OpNotEmpty = ''NotEmpty''"
| "op_debug OpEmpty = ''Empty''"
| "op_debug OpEquals = ''Equals''"
| "op_debug OpNotEquals = ''NotEquals''"
| "op_debug OpContains = ''Contains''"
| "op_debug OpGreaterThan = ''GreaterThan''"
| "op_debug OpGreaterThanEquals = ''GreaterThanEquals''"
| "op_debug OpLessThan = ''LessThan''"
| "op_debug OpLessThanEquals = ''LessThanEquals''"

section \<open>Typed expressions\<close>

fun expr_bool :: "json \<Rightarrow> bool option" where
  "expr_bool (JBool b) = Some b"
| "expr_bool (JNumber n) = Some (num_as_f64 n \<noteq> 0)"
| "expr_bool (JString t) = Some (trim t \<noteq> [])"
| "expr_bool (JArray xs) = Some (xs \<noteq> [])"
| "expr_bool (JObject m) = Some (m \<noteq> [])"
| "expr_bool JNull = Some False"

definition expr_numeric :: "(rat \<Rightarrow> rat \<Rightarrow> bool) \<Rightarrow> json \<Rightarrow> json option \<Rightarrow> (string, bool) result" where
  "expr_numeric cmp left right =
     (case as_f64 left of
        None \<Rightarrow> Inl ''typed comparison requires numeric left operand''
      | Some l \<Rightarrow>
          (case Option.bind right as_f64 of
             None \<Rightarrow> Inl ''typed comparison requires numeric right operand''
           | Some r \<Rightarrow> Inr (cmp l r)))"

definition expr_compare :: "(json \<Rightarrow> json \<Rightarrow> bool) \<Rightarrow> json \<Rightarrow> json option \<Rightarrow> (string, bool) result" where
  "expr_compare cmp left right =
     (case right of None \<Rightarrow> Inl ''typed comparison requires right operand'' | Some r \<Rightarrow> Inr (cmp left r))"

definition expr_pair :: "string \<Rightarrow> (bool \<Rightarrow> bool \<Rightarrow> bool) \<Rightarrow> json \<Rightarrow> json option \<Rightarrow> (string, bool) result" where
  "expr_pair op f left right =
     (case (expr_bool left, Option.bind right expr_bool) of
        (Some l, Some r) \<Rightarrow> Inr (f l r)
      | _ \<Rightarrow> Inl (''typed expression operator '' @ quoted op @ '' requires boolean operands''))"

definition expr_operator :: "string \<Rightarrow> json \<Rightarrow> json option \<Rightarrow> (string, bool) result" where
  "expr_operator op left right =
     (if op = ''gt'' then expr_numeric (>) left right
      else if op = ''gte'' then expr_numeric (\<ge>) left right
      else if op = ''lt'' then expr_numeric (<) left right
      else if op = ''lte'' then expr_numeric (\<le>) left right
      else if op = ''eq'' then expr_compare (=) left right
      else if op = ''neq'' then expr_compare (\<noteq>) left right
      else if op = ''and'' then expr_pair op (\<and>) left right
      else if op = ''or'' then expr_pair op (\<or>) left right
      else if op = ''not'' then
        (case expr_bool left of
           None \<Rightarrow> Inl (''typed expression operator '' @ quoted op @ '' requires boolean operand'')
         | Some b \<Rightarrow> Inr (\<not> b))
      else Inl (''unsupported typed expression operator '' @ quoted op))"

definition expr_function :: "externals \<Rightarrow> string \<Rightarrow> json list \<Rightarrow> (string, json) result" where
  "expr_function ext fn args =
     (if fn = ''len'' \<or> fn = ''count'' then
        (case args of
           [] \<Rightarrow> Inl (''function '' @ quoted fn @ '' requires one argument'')
         | first # _ \<Rightarrow>
             (case json_count first of
                Some n \<Rightarrow> Inr (JNumber (PosInt n))
              | None \<Rightarrow> Inl (''function '' @ quoted fn @ '' expects array, object, or string input, got ''
                  @ json_to_string ext first)))
      else Inl (''unsupported typed expression function '' @ quoted fn))"

fun evaluate_expression ::
  "externals \<Rightarrow> (string \<Rightarrow> (string, json) result) \<Rightarrow> typed_expression \<Rightarrow> (string, json) result" where
  "evaluate_expression ext lookup (TypedExpression ty op fn args left right val path) =
     (case val of
        Some value \<Rightarrow> Inr value
      | None \<Rightarrow>
     (case path of
        Some p \<Rightarrow> lookup p
      | None \<Rightarrow>
     (case fn of
        Some f \<Rightarrow>
          (case collect_results (map (evaluate_expression ext lookup) args) of
             Inl e \<Rightarrow> Inl e
           | Inr vs \<Rightarrow> expr_function ext f vs)
      | None \<Rightarrow>
     (case op of
        None \<Rightarrow> Inl ''typed expression is missing value, path, function, or operator''
      | Some o' \<Rightarrow>
          (case left of
             None \<Rightarrow> Inl (''typed expression operator '' @ quoted o' @ '' requires left operand'')
           | Some l \<Rightarrow>
               (case evaluate_expression ext lookup l of
                  Inl e \<Rightarrow> Inl e
                | Inr lv \<Rightarrow>
                    (case right of
                       None \<Rightarrow> map_sum id JBool (expr_operator o' lv None)
                     | Some r \<Rightarrow>
                         (case evaluate_expression ext lookup r of
                            Inl e \<Rightarrow> Inl e
                          | Inr rv \<Rightarrow> map_sum id JBool (expr_operator o' lv (Some rv))))))))))"

definition expression_condition ::
  "externals \<Rightarrow> (string \<Rightarrow> (string, json) result) \<Rightarrow> typed_expression \<Rightarrow> (string, bool) result" where
  "expression_condition ext lookup e =
     (case evaluate_expression ext lookup e of
        Inl err \<Rightarrow> Inl err
      | Inr (JBool b) \<Rightarrow> Inr b
      | Inr other \<Rightarrow> Inl (''typed expression for step condition must evaluate to boolean, got ''
          @ json_to_string ext other))"

section \<open>The condition of a step\<close>

fun should_run ::
  "externals \<Rightarrow> (string \<Rightarrow> (string, json) result) \<Rightarrow> (typed_expression \<Rightarrow> string) \<Rightarrow> step_condition
     \<Rightarrow> (string, bool \<times> string) result" where
  "should_run ext lookup show_expr (Deterministic c) =
     map_sum id (\<lambda>b. (b, sc_left c @ '' '' @ op_debug (sc_operator c)))
       (structured_should_run (sc_operator c) (lookup (sc_left c)) (sc_right c))"
| "should_run ext lookup show_expr (Expression e) =
     map_sum id (\<lambda>b. (b, show_expr e)) (expression_condition ext lookup e)"

text \<open>\<open>Inr None\<close> is to run the step, \<open>Inr (Some summary)\<close> to skip it.\<close>

definition evaluate_step_condition ::
  "externals \<Rightarrow> (nat \<Rightarrow> json option) \<Rightarrow> (typed_expression \<Rightarrow> string) \<Rightarrow> agent_state \<Rightarrow> planned_step
     \<Rightarrow> (string, string option) result" where
  "evaluate_step_condition ext read_artifact show_expr s step =
     (case ps_condition step of
        None \<Rightarrow> Inr None
      | Some c \<Rightarrow>
          map_sum id (\<lambda>(run, desc). if run then None
              else Some (''Skipped step '' @ show_nat (ps_index step) @ '' because condition '' @ desc
                @ '' was not satisfied.''))
            (should_run ext (\<lambda>r. resolve_reference_from_state read_artifact r s) show_expr c))"


section \<open>The two evaluators\<close>

text \<open>
  The workflow engine evaluates the same expressions with its own copy of these functions.  The copies differ
  on blank strings, true for the engine and false here, so they agree where an operand of a connective is
  itself an operator, a function or a literal that is not a blank string.
\<close>

fun plain_literal :: "json \<Rightarrow> bool" where
  "plain_literal (JString t) = (t = [] \<or> trim t \<noteq> [])"
| "plain_literal _ = True"

definition plain_operand :: "typed_expression \<Rightarrow> bool" where
  "plain_operand e = (case te_value e of Some v \<Rightarrow> plain_literal v | None \<Rightarrow> te_path e = None)"

definition connective :: "string option \<Rightarrow> bool" where
  "connective op = (op \<in> {Some ''and'', Some ''or'', Some ''not''})"

fun plain_expression :: "typed_expression \<Rightarrow> bool" where
  "plain_expression (TypedExpression ty op fn args left right val path) =
     (list_all plain_expression args
      \<and> (case left of None \<Rightarrow> True | Some l \<Rightarrow> plain_expression l \<and> (connective op \<longrightarrow> plain_operand l))
      \<and> (case right of None \<Rightarrow> True | Some r \<Rightarrow> plain_expression r \<and> (connective op \<longrightarrow> plain_operand r)))"

lemma trim_Nil [simp]: "trim [] = []"
  by code_simp

lemma map_sum_id_eq:
  "map_sum id f x = Inr y \<longleftrightarrow> (\<exists>z. x = Inr z \<and> y = f z)"
  "map_sum id f x = Inl e \<longleftrightarrow> x = Inl e"
  by (cases x; auto)+

lemma expr_bool_plain: "plain_literal v \<Longrightarrow> expr_bool v = bool_value v"
  by (cases v) auto

lemma collect_results_Inr: "collect_results rs = Inr xs \<longleftrightarrow> rs = map Inr xs"
proof (induction rs arbitrary: xs)
  case (Cons r rs)
  show ?case by (cases r; cases xs) (auto simp: Cons.IH map_sum_id_eq)
qed auto

lemma those_map_Some: "those (map Some xs) = Some xs"
  by (induction xs) auto

lemma expr_function_refines: "expr_function ext f vs = Inr v \<Longrightarrow> apply_function f vs = Some v"
  by (auto simp: expr_function_def apply_function_def split: if_splits list.splits option.splits)

lemma expr_operator_refines:
  assumes "expr_operator op l r = Inr b"
    and "connective (Some op) \<Longrightarrow> plain_literal l \<and> (\<forall>v. r = Some v \<longrightarrow> plain_literal v)"
  shows "apply_op op l r = Some b"
  using assms
  by (auto simp: expr_operator_def apply_op_def expr_numeric_def numeric_value_def expr_compare_def
      compare_values_def expr_pair_def bool_pair_def connective_def expr_bool_plain
      split: if_splits option.splits)
    (cases r; force simp: expr_bool_plain)+

lemma evaluated_operand_plain:
  assumes "plain_operand e" and "evaluate_expression ext lookup e = Inr v"
  shows "plain_literal v"
proof (cases e)
  case (TypedExpression ty op fn args left right val path)
  show ?thesis
    using assms unfolding TypedExpression plain_operand_def
    by (auto simp: expr_function_def map_sum_id_eq split: option.splits sum.splits if_splits list.splits)
qed


lemma plain_args:
  assumes "list_all plain_expression args"
    and "\<And>a w. a \<in> set args \<Longrightarrow> plain_expression a \<Longrightarrow> evaluate_expression ext lookup a = Inr w \<Longrightarrow>
      evaluate_typed_expression a input = Some w"
    and "collect_results (map (evaluate_expression ext lookup) args) = Inr vs"
  shows "those (map (\<lambda>a. evaluate_typed_expression a input) args) = Some vs"
proof -
  have "map (evaluate_expression ext lookup) args = map Inr vs"
    using assms(3) by (simp add: collect_results_Inr)
  then have "map (\<lambda>a. evaluate_typed_expression a input) args = map Some vs"
    using assms(1,2)
  proof (induction args arbitrary: vs)
    case (Cons a args)
    then show ?case by (cases vs) auto
  qed simp
  then show ?thesis by (simp add: those_map_Some)
qed

text \<open>The references of an expression.\<close>

fun references :: "typed_expression \<Rightarrow> string set" where
  "references (TypedExpression ty op fn args left right val path) =
     set_option path \<union> (\<Union>a\<in>set args. references a)
     \<union> (case left of None \<Rightarrow> {} | Some l \<Rightarrow> references l) \<union> (case right of None \<Rightarrow> {} | Some r \<Rightarrow> references r)"

lemma expression_refines:
  assumes "\<And>p v. p \<in> references e \<Longrightarrow> lookup p = Inr v \<Longrightarrow> resolve_path p input = Some v"
    and "plain_expression e"
    and "evaluate_expression ext lookup e = Inr v"
  shows "evaluate_typed_expression e input = Some v"
  using assms
proof (induction e arbitrary: v rule: typed_expression.induct)
  case (TypedExpression ty op fn args left right val path)
  consider (val) x where "val = Some x" | (path) p where "val = None" "path = Some p"
    | (fn) f where "val = None" "path = None" "fn = Some f"
    | (op) o' where "val = None" "path = None" "fn = None" "op = Some o'"
    | (none) "val = None" "path = None" "fn = None" "op = None"
    by (cases val; cases path; cases fn; cases op) auto
  then show ?case
  proof cases
    case fn
    then obtain vs where vs: "collect_results (map (evaluate_expression ext lookup) args) = Inr vs"
      "expr_function ext f vs = Inr v"
      using TypedExpression.prems(3) by (auto split: sum.splits)
    have "those (map (\<lambda>a. evaluate_typed_expression a input) args) = Some vs"
    proof (rule plain_args [OF _ _ vs(1)])
      show "list_all plain_expression args" using TypedExpression.prems(2) by simp
      fix a w assume a: "a \<in> set args" "plain_expression a" "evaluate_expression ext lookup a = Inr w"
      show "evaluate_typed_expression a input = Some w"
        using TypedExpression.IH(1) [OF a(1) _ a(2,3)] TypedExpression.prems(1) a(1) by auto
    qed
    with fn expr_function_refines [OF vs(2)] show ?thesis by simp
  next
    case op
    then obtain l lv rv b where l: "left = Some l" "evaluate_expression ext lookup l = Inr lv"
      and rv: "(right = None \<and> rv = None) \<or> (\<exists>r w. right = Some r \<and> rv = Some w
          \<and> evaluate_expression ext lookup r = Inr w)"
      and b: "expr_operator o' lv rv = Inr b" "v = JBool b"
      using TypedExpression.prems(3) by (auto simp: map_sum_id_eq split: option.splits sum.splits)
    have lv: "evaluate_typed_expression l input = Some lv"
      using TypedExpression.IH(2) [of l lv] TypedExpression.prems(1,2) l by auto
    have rv': "(case right of None \<Rightarrow> None | Some r \<Rightarrow> evaluate_typed_expression r input) = rv"
      using TypedExpression.IH(3) TypedExpression.prems(1,2) rv by auto
    have "apply_op o' lv rv = Some b"
    proof (rule expr_operator_refines [OF b(1)])
      assume "connective (Some o')"
      with op TypedExpression.prems(2) l rv show "plain_literal lv \<and> (\<forall>v. rv = Some v \<longrightarrow> plain_literal v)"
        by (auto dest: evaluated_operand_plain)
    qed
    with op l(1) lv rv' b(2) show ?thesis by simp
  qed (use TypedExpression.prems in auto)
qed

subsection \<open>References\<close>

text \<open>A reference to the output of a step and a field of it, nested at any depth.  (An index in brackets is
  read by the loop only, an index after a dot by the engine only.)\<close>

definition field_reference :: "nat \<Rightarrow> string list \<Rightarrow> string" where
  "field_reference i fs = join_with ''.'' ((''result_of_step_'' @ show_nat i) # fs)"

definition field_name :: "string \<Rightarrow> bool" where
  "field_name f \<longleftrightarrow> f \<noteq> [] \<and> list_all field_char f"

lemma field_char_visible: "field_char c \<Longrightarrow> visible c \<and> c \<noteq> CHR ''.''"
  by (auto simp: field_char_def is_ascii_alphanumeric_def is_ascii_digit_def visible_def byte_of_def)

lemma join_dots: "join_with ''.'' (w # ws) = w @ concat (map (\<lambda>f. CHR ''.'' # f) ws)"
proof (induction ws arbitrary: w)
  case (Cons v ws)
  have "join_with ''.'' (w # v # ws) = w @ ''.'' @ join_with ''.'' (v # ws)" by (simp add: join_with_Cons)
  with Cons.IH [of v] show ?case by simp
qed (simp add: join_with_Cons)

lemma field_reference_shape:
  assumes "\<forall>f\<in>set fs. field_name f"
  shows "trim (field_reference i fs) = field_reference i fs" "hd (field_reference i fs) = CHR ''r''"
    "visible (last (field_reference i fs))" "field_reference i fs \<noteq> []"
proof -
  show hd: "hd (field_reference i fs) = CHR ''r''" by (simp add: field_reference_def join_dots)
  show ne: "field_reference i fs \<noteq> []" by (simp add: field_reference_def join_dots)
  let ?ws = "(''result_of_step_'' @ show_nat i) # fs"
  have "is_ascii_digit (last (show_nat i))" by (rule show_nat_digits [of _ i]) simp
  then have "visible (last (show_nat i))" by (simp add: visible_def is_ascii_digit_def)
  moreover have "visible (last f)" if "f \<in> set fs" for f
  proof -
    have "f \<noteq> []" "list_all field_char f" using assms that by (auto simp: field_name_def)
    then show ?thesis using field_char_visible last_in_set [of f] by (auto simp: list_all_iff)
  qed
  ultimately have "last ?ws \<noteq> [] \<and> visible (last (last ?ws))"
    using assms by (auto simp: field_name_def)
  with last_dotted [of ?ws] show l: "visible (last (field_reference i fs))"
    by (simp add: field_reference_def)
  show "trim (field_reference i fs) = field_reference i fs"
    by (rule trim_visible [OF ne _ l]) (simp add: hd visible_def byte_of_def)
qed

lemma engine_resolves_field:
  assumes "\<forall>f\<in>set fs. field_name f"
  shows "resolve_path (field_reference i fs) input
    = Option.bind (map_of (si_predecessor_outputs input) (step_name i)) (walk_path fs)"
proof (rule resolve_path_key)
  show "normalize_ref (field_reference i fs) = join_with ''.'' ((''result_of_step_'' @ show_nat i) # fs)"
    using normalize_prefixes(3) [OF field_reference_shape(4) _ field_reference_shape(3)] field_reference_shape(2) assms
    by (simp add: visible_def byte_of_def) (simp add: field_reference_def)
  show "\<forall>s\<in>set ((''result_of_step_'' @ show_nat i) # fs). CHR ''.'' \<notin> set s"
    using assms field_char_visible by (auto simp: field_name_def list_all_iff)
  show "step_key (''result_of_step_'' @ show_nat i) = Some (step_name i)"
    by (simp add: step_key_def step_name_def strip_prefix_def Let_def takeWhile_digits)
qed

lemma selectors_walk:
  "\<forall>f\<in>set fs. field_name f \<Longrightarrow>
     resolve_selectors t (concat (map (\<lambda>f. CHR ''.'' # f) fs)) current = Inr v \<Longrightarrow> walk_path fs current = Some v"
proof (induction fs arbitrary: current)
  case Nil
  then show ?case by (simp add: resolve_selectors.simps)
next
  case (Cons f fs)
  let ?rest = "concat (map (\<lambda>f. CHR ''.'' # f) fs)"
  have f: "f \<noteq> []" "list_all field_char f" using Cons.prems(1) by (auto simp: field_name_def)
  have "\<not> field_char CHR ''.''"
    by (simp add: field_char_def is_ascii_alphanumeric_def is_ascii_digit_def byte_of_def)
  then have "takeWhile field_char (f @ ?rest) = f"
    using f(2) by (cases fs) (auto simp: takeWhile_append list_all_iff)
  with Cons.prems(2) f(1) obtain w where "json_get f current = Some w" "resolve_selectors t ?rest w = Inr v"
    by (subst (asm) resolve_selectors.simps) (auto simp: strip_prefix_def Let_def split: option.splits)
  with Cons f(1) show ?case by simp
qed

lemma loop_resolves_field:
  assumes "\<forall>f\<in>set fs. field_name f"
    and "resolve_reference_from_state ra (field_reference i fs) s = Inr v"
  shows "i < length (step_outputs_from_state ra s)
    \<and> walk_path fs (step_outputs_from_state ra s ! i) = Some v"
proof -
  let ?outs = "step_outputs_from_state ra s" and ?rs = "concat (map (\<lambda>f. CHR ''.'' # f) fs)"
  let ?p = "field_reference i fs"
  note shape = field_reference_shape [OF assms(1), of i]
  have p: "?p = ''result_of_step_'' @ show_nat i @ ?rs" by (simp add: field_reference_def join_dots)
  have "strip_prefix ''{{'' ?p = None" by (simp add: p strip_prefix_def)
  then have "resolve_template_expression ?p ?outs = Inr v"
    using assms(2) by (simp add: resolve_reference_from_state_def shape(1))
  moreover have "takeWhile is_ascii_digit (show_nat i @ ?rs) = show_nat i"
    using takeWhile_digits [of i] show_nat_digits
    by (cases fs) (auto simp: takeWhile_append is_ascii_digit_def byte_of_def)
  moreover have "strip_prefix ''result_of_step_'' ?p = Some (show_nat i @ ?rs)" by (simp add: p strip_prefix_def)
  ultimately obtain j where j: "parse_usize (show_nat i) = Some j" "j < length ?outs"
      "resolve_selectors ?p ?rs (?outs ! j) = Inr v"
    by (auto simp: resolve_template_expression_def shape(1) Let_def split: option.splits if_splits)
  have "j = i"
  proof -
    obtain c cs where c: "show_nat i = c # cs" by (cases "show_nat i") simp_all
    then have "is_ascii_digit c" using show_nat_digits [of c i] by simp
    then have "c \<noteq> CHR ''+''" by (auto simp: is_ascii_digit_def byte_of_def)
    then have "parse_digits 0 (show_nat i) = Some j"
      using j(1) c by (auto simp: parse_usize_def Let_def split: option.splits if_splits)
    then show ?thesis by (simp add: parse_digits_show)
  qed
  with j selectors_walk [OF assms(1)] show ?thesis by blast
qed

text \<open>C28: Where an expression gives the agent loop a value, it gives the workflow engine the same value, provided
  that its references name a step and fields of its output, that the engine's input holds for each step that
  the loop has recorded the output which the loop has recorded, and that no connective has a reference or a
  blank string for an operand.\<close>

theorem loop_expression_refines_engine:
  assumes "evaluate_expression ext (\<lambda>r. resolve_reference_from_state ra r s) e = Inr v"
    and "references e \<subseteq> {field_reference i fs | i fs. \<forall>f\<in>set fs. field_name f}"
    and "\<forall>i<length (step_outputs_from_state ra s).
      map_of (si_predecessor_outputs input) (step_name i) = Some (step_outputs_from_state ra s ! i)"
    and "plain_expression e"
  shows "evaluate_typed_expression e input = Some v"
proof (rule expression_refines [OF _ assms(4,1)])
  fix p w
  assume p: "p \<in> references e" "resolve_reference_from_state ra p s = Inr w"
  with assms(2) obtain i fs where f: "p = field_reference i fs" "\<forall>f\<in>set fs. field_name f" by blast
  from loop_resolves_field [OF f(2), of ra i s w] p(2) f(1)
  have "i < length (step_outputs_from_state ra s)" "walk_path fs (step_outputs_from_state ra s ! i) = Some w"
    by simp_all
  with assms(3) engine_resolves_field [OF f(2), of i input] f(1) show "resolve_path p input = Some w" by simp
qed

text \<open>\<open>result_of_step_0.count > 2\<close> after a first step with the output \<open>{count: 3}\<close>.\<close>

definition sample_positive :: typed_expression where
  "sample_positive = TypedExpression boolean_type (Some ''gt'') None []
     (Some (TypedExpression number_type None None [] None None None (Some ''result_of_step_0.count'')))
     (Some (TypedExpression number_type None None [] None None (Some (JNumber (PosInt 2))) None)) None None"

definition counting_agent :: agent_state where
  "counting_agent = (agent_new ''a1'' ''t1'' ''g'' ''/ws'' 0)\<lparr>as_metadata :=
     JObject [(''step_outputs'', JArray [JObject [(''count'', JNumber (PosInt 3))]])]\<rparr>"

lemma counting_outputs:
  "step_outputs_from_state (\<lambda>_. None) counting_agent = [JObject [(''count'', JNumber (PosInt 3))]]"
  by code_simp

lemma counting_reference:
  "resolve_reference_from_state (\<lambda>_. None) ''result_of_step_0.count'' counting_agent = Inr (JNumber (PosInt 3))"
proof -
  have digits: "takeWhile is_ascii_digit ''0.count'' = ''0''" "show_nat 0 = ''0''" by code_simp+
  have "parse_usize ''0'' = Some 0" using parse_usize_show [of 0] digits(2) by simp
  moreover have "trim ''result_of_step_0.count'' = ''result_of_step_0.count''" by code_simp
  moreover have "resolve_selectors t ''.count'' (JObject [(''count'', JNumber (PosInt 3))]) = Inr (JNumber (PosInt 3))" for t
  proof -
    have "takeWhile field_char ''count'' = ''count''" by code_simp
    then show ?thesis
      by (subst resolve_selectors.simps) (simp add: strip_prefix_def resolve_selectors.simps)
  qed
  ultimately show ?thesis
    using digits(1) by (simp add: resolve_reference_from_state_def resolve_template_expression_def counting_outputs
        strip_prefix_def Let_def)
qed

lemma loop_expression_refines_engine_witness:
  "evaluate_typed_expression sample_positive \<lparr>si_data = JNull,
     si_predecessor_outputs = [(''step-0'', JObject [(''count'', JNumber (PosInt 3))])]\<rparr> = Some (JBool True)"
proof (rule loop_expression_refines_engine [where ra = "\<lambda>_. None" and s = counting_agent and ext = sample_ext])
  show "plain_expression sample_positive" by (simp add: sample_positive_def connective_def)
  note counting_reference
  moreover have "expr_operator ''gt'' (JNumber (PosInt 3)) (Some (JNumber (PosInt 2))) = Inr True" by code_simp
  ultimately show "evaluate_expression sample_ext (\<lambda>r. resolve_reference_from_state (\<lambda>_. None) r counting_agent)
      sample_positive = Inr (JBool True)" by (simp add: sample_positive_def)
  have key: "step_name 0 = ''step-0''" "field_reference 0 [''count''] = ''result_of_step_0.count''" "field_name ''count''"
    by code_simp+
  show "\<forall>i<length (step_outputs_from_state (\<lambda>_. None) counting_agent).
      map_of (si_predecessor_outputs \<lparr>si_data = JNull,
        si_predecessor_outputs = [(''step-0'', JObject [(''count'', JNumber (PosInt 3))])]\<rparr>) (step_name i)
      = Some (step_outputs_from_state (\<lambda>_. None) counting_agent ! i)"
    unfolding counting_outputs by (simp add: key)
  have "references sample_positive = {field_reference 0 [''count'']}" unfolding key by (simp add: sample_positive_def)
  with key(3) show "references sample_positive \<subseteq> {field_reference i fs | i fs. \<forall>f\<in>set fs. field_name f}"
    by force
qed

text \<open>
  The difference that the theorem leaves out: \<open>not " "\<close> is true for the loop and false for the engine.
\<close>

lemma evaluators_differ_on_blank_strings:
  "evaluate_expression ext lookup (TypedExpression ty (Some ''not'') None []
      (Some (TypedExpression ty' None None [] None None (Some (JString '' '')) None)) None None None)
     = Inr (JBool True)"
  "evaluate_typed_expression (TypedExpression ty (Some ''not'') None []
      (Some (TypedExpression ty' None None [] None None (Some (JString '' '')) None)) None None None) input
     = Some (JBool False)"
proof -
  have "trim '' '' = []" by code_simp
  then show "evaluate_expression ext lookup (TypedExpression ty (Some ''not'') None []
      (Some (TypedExpression ty' None None [] None None (Some (JString '' '')) None)) None None None)
     = Inr (JBool True)"
    by (simp add: expr_operator_def)
qed (simp add: apply_op_def)

text \<open>
  A state without recorded outputs resolves no reference: an \<open>Equals\<close> condition then is an error, where
  \<open>NotExists\<close> and \<open>Empty\<close> hold.
\<close>

lemma conditions_without_outputs:
  assumes "json_get ''step_outputs'' (as_metadata s) = None"
  shows "\<exists>e. structured_should_run OpEquals (resolve_reference_from_state ra r s) right = Inl e"
    and "structured_should_run OpNotExists (resolve_reference_from_state ra r s) right = Inr True"
    and "structured_should_run OpEmpty (resolve_reference_from_state ra r s) right = Inr True"
  using no_outputs_no_reference [OF assms, of ra r] by (auto simp: compared_def truthy_or_def)

end
