(* ===== verification/Agent_Plan.thy ===== *)
theory Agent_Plan
  imports Skills Step_Conditions Workflow_Validation
begin

text \<open>
  How the agent loop gets a plan and keeps the session tasks of its steps (\<open>agent/loop.rs\<close>): a direct
  answer, a skill, the coordinator's plan, or the plan of a compiled workflow, in this order.

  The deserializer of a stored workflow, the role that the store returns, and the text of the clock are
  arguments.  \<open>None\<close> stands for a panic: an assignment into metadata that is neither an object nor null.
\<close>

section \<open>Direct answers\<close>

definition direct_response_plan :: "agent_state \<Rightarrow> plan" where
  "direct_response_plan s =
     \<lparr>plan_goal = as_goal s, plan_job_type = Some ''general'',
      plan_steps = [\<lparr>ps_index = 0, ps_description = ''Answer the user's message directly in chat.'',
        ps_tool = Some LLM_WORKER_TOOL_NAME,
        ps_tool_args = Some (instruction_args ''Answer the user's message directly in chat.''),
        ps_success_criteria = ''User receives a direct answer.'', ps_condition = None, ps_foreach = None,
        ps_depends_on = []\<rparr>],
      plan_rationale = ''Simple conversational request; answer directly without tools.''\<rparr>"

section \<open>Compiled workflows\<close>

definition str_or :: "string \<Rightarrow> json option \<Rightarrow> string" where
  "str_or d v = (case Option.bind v as_str of Some t \<Rightarrow> t | None \<Rightarrow> d)"

definition fallback_role_from_compiled_workflow :: "time \<Rightarrow> agent_state \<Rightarrow> compiled_workflow \<Rightarrow> agent_role" where
  "fallback_role_from_compiled_workflow now s compiled =
     (let field = (\<lambda>k. json_get k (cw_metadata compiled)) in
      (agent_role_new (str_or (as_id s) (meta ''role_id'' s)) (str_or (as_id s) (meta ''agent_definition_id'' s))
         (as_tenant_id s) (str_or (str_or (as_goal s) (field ''name'')) (meta ''role_name'' s)) now)
       \<lparr>ro_purpose := str_or (as_goal s) (field ''goal''),
        ro_role_category := (case Option.bind (field ''category'') as_str of
            Some c \<Rightarrow> from_slug c | None \<Rightarrow> role_category.General)\<rparr>)"

definition opt_num :: "nat option \<Rightarrow> json" where
  "opt_num v = (case v of Some n \<Rightarrow> JNumber (PosInt n) | None \<Rightarrow> JNull)"

fun execution_mode_value :: "execution_mode \<Rightarrow> json" where
  "execution_mode_value Sequential = JString ''Sequential''"
| "execution_mode_value Parallel = JString ''Parallel''"

definition constraints_value :: "execution_constraints \<Rightarrow> json" where
  "constraints_value c = obj_of_list
     [(''max_rows'', opt_num (ec_max_rows c)), (''timeout_ms'', opt_num (ec_timeout_ms c)),
      (''cost_budget'', opt_num (ec_cost_budget c))]"

definition data_strategy_value :: "data_strategy \<Rightarrow> json" where
  "data_strategy_value d = obj_of_list
     [(''mode'', JString (ds_mode d)), (''page_size'', opt_num (ds_page_size d))]"

definition scheduler_value :: "scheduler_config \<Rightarrow> json" where
  "scheduler_value c = obj_of_list
     [(''strategy'', JString (sch_strategy c)), (''lock_check'', JString (sch_lock_check c)),
      (''max_concurrency'', JNumber (PosInt (sch_max_concurrency c)))]"

definition profile_fields :: "workflow_variant_selection \<Rightarrow> (string \<times> json) list" where
  "profile_fields v =
     [(''execution'', execution_mode_value (vs_execution v)),
      (''execution_constraints'', constraints_value (vs_execution_constraints v)),
      (''data_strategy'', data_strategy_value (vs_data_strategy v)), (''scheduler'', scheduler_value (vs_scheduler v))]"

definition selection_value :: "workflow_variant_selection \<Rightarrow> json" where
  "selection_value v = obj_of_list
     ([(''signature'', data_signature_to_value (vs_signature v)), (''variant_id'', JString (vs_variant_id v)),
       (''description'', JString (vs_description v)), (''priority'', JNumber (PosInt (vs_priority v)))]
      @ profile_fields v)"

record plan_env =
  pe_ext :: externals
  pe_lower :: "string \<Rightarrow> string"
  pe_order :: "skill_registry \<Rightarrow> skill_registry"
  pe_now :: time
  pe_now_text :: string
  pe_store :: bool
  pe_role :: "string \<Rightarrow> string \<Rightarrow> agent_role option"
  pe_parse_workflow :: "json \<Rightarrow> compiled_workflow option"

text \<open>The role that the metadata names, if there is a store and it has the role.\<close>

definition loop_role :: "plan_env \<Rightarrow> agent_state \<Rightarrow> agent_role option" where
  "loop_role env s = (if pe_store env then Option.bind (meta_str ''role_id'' s) (pe_role env (as_tenant_id s)) else None)"

definition workflow_source :: "plan_env \<Rightarrow> agent_state \<Rightarrow> (compiled_workflow \<times> agent_role) option" where
  "workflow_source env s =
     (case Option.bind (meta ''compiled_workflow'' s) (pe_parse_workflow env) of
        Some compiled \<Rightarrow>
          Some (compiled, case loop_role env s of
            Some role \<Rightarrow> role | None \<Rightarrow> fallback_role_from_compiled_workflow (pe_now env) s compiled)
      | None \<Rightarrow> Option.bind (loop_role env s) (\<lambda>role.
          map_option (\<lambda>compiled. (compiled, role)) (eg_compiled_workflow (ro_execution_guidelines role))))"

subsection \<open>The coordinator\<close>

definition planned :: "nat \<Rightarrow> string \<Rightarrow> string \<Rightarrow> json \<Rightarrow> string \<Rightarrow> nat list \<Rightarrow> planned_step" where
  "planned index description tool args criteria deps =
     \<lparr>ps_index = index, ps_description = description, ps_tool = Some tool, ps_tool_args = Some args,
      ps_success_criteria = criteria, ps_condition = None, ps_foreach = None, ps_depends_on = deps\<rparr>"

definition strings :: "string list \<Rightarrow> json" where
  "strings xs = JArray (map JString xs)"

definition research_sub_goals :: "string \<Rightarrow> string list \<Rightarrow> string list" where
  "research_sub_goals goal hints =
     (if hints = []
      then [''Research the systems, dependencies, and open questions needed to accomplish: '' @ goal,
            ''Identify risks, unknowns, and validation ideas for: '' @ goal]
      else map (\<lambda>h. ''Research and validate: '' @ h) (take 2 hints))"

definition research_step :: "agent_state \<Rightarrow> string list \<Rightarrow> planned_step" where
  "research_step s hints =
     (case as_pending_children s of
        child # _ \<Rightarrow>
          planned 1 ''Continue the most relevant existing research worker with fresh context.'' ''delegate''
            (obj_of_list [(''continue_child_id'', JString child), (''worker_type'', JString ''research''),
              (''sub_goals'', JArray [])])
            ''research worker resumed or refreshed'' [0]
      | [] \<Rightarrow>
          planned 1 ''Spawn parallel research workers for independent discovery.'' ''delegate''
            (obj_of_list [(''sub_goals'', strings (research_sub_goals (as_goal s) hints)),
              (''worker_type'', JString ''research''), (''write_scope'', strings [''research'', ''analysis''])])
            ''research workers spawned and scheduled'' [0])"

definition synthesis_text :: string where
  "synthesis_text = ''Synthesize the findings into a self-contained implementation and verification spec; continue or respawn workers when the inbox shows stale context overlap.''"

definition coordinator_steps :: "agent_state \<Rightarrow> string list \<Rightarrow> planned_step list" where
  "coordinator_steps s hints =
     [planned 0 ''Assemble the coordination brief from durable tasks, cached prompt context, and the current goal.''
        ''task_list'' (obj_of_list [(''status'', JString ''pending'')]) ''coordination brief assembled'' [],
      research_step s hints,
      planned 2 ''Receive structured worker notifications and inspect the inbox before synthesizing.'' ''message_inbox''
        (obj_of_list [(''action'', JString ''list''), (''direction'', JString ''inbox''),
          (''undelivered_only'', JBool True), (''limit'', JNumber (PosInt 25))])
        ''worker notifications reviewed'' [1],
      planned 3 synthesis_text LLM_WORKER_TOOL_NAME (instruction_args synthesis_text)
        ''self-contained spec produced'' [2],
      planned 4 ''Run implementation through a scoped worker using the synthesized spec.'' ''delegate''
        (obj_of_list [(''sub_goals'', strings [''Implement the synthesized spec for: '' @ as_goal s,
            ''Keep the implementation scoped to the verified workspace boundaries for: '' @ as_goal s]),
          (''worker_type'', JString ''implementation''), (''write_scope'', strings [''workspace''])])
        ''implementation worker spawned and scheduled'' [3],
      planned 5 ''Run an independent verification worker from fresh context.'' ''delegate''
        (obj_of_list [(''sub_goals'', strings [''Verify the implementation independently for: '' @ as_goal s,
            ''Report only concrete failures, regressions, or missing evidence.'']),
          (''worker_type'', JString ''verification''), (''write_scope'', strings [''verification''])])
        ''verification worker spawned and scheduled'' [4],
      planned 6 ''Finalize from verified state only and record the durable result contract.'' ''task_output''
        (obj_of_list [(''status'', JString ''complete''),
          (''note'', JString ''coordinator shell completed after verification'')])
        ''verified final result recorded'' [5]]"

definition build_coordinator_shell_plan :: "plan_env \<Rightarrow> agent_role \<Rightarrow> agent_state \<Rightarrow> (plan \<times> agent_state) option" where
  "build_coordinator_shell_plan env role s =
     (let hints = workflow_hints (ro_execution_guidelines role);
          seen = (case Option.bind (meta ''worker_messages'' s) as_array of Some xs \<Rightarrow> length xs | None \<Rightarrow> 0) in
      map_option (\<lambda>s'. (\<lparr>plan_goal = as_goal s, plan_job_type = Some ''coordinator'',
          plan_steps = coordinator_steps s hints,
          plan_rationale = ''coordinator-shell plan: task-first research, synthesis, implementation, and verification''\<rparr>, s'))
        (set_metadata ''coordinator_shell'' (obj_of_list
          [(''mode'', JString ''coordinator_shell''), (''tool_pool'', JString ''coordinator''),
           (''goal'', JString (as_goal s)), (''research_hints'', strings hints),
           (''worker_messages_seen'', JNumber (PosInt seen)), (''pending_children'', strings (as_pending_children s)),
           (''updated_at'', JString (pe_now_text env))]) s))"

definition coordinator_plan :: "plan_env \<Rightarrow> agent_role \<Rightarrow> agent_state \<Rightarrow> (plan \<times> agent_state) option" where
  "coordinator_plan env role s =
     Option.bind (set_metadata ''coordinator_shell'' (obj_of_list
       [(''mode'', JString ''coordinator_shell''), (''tool_pool'', JString ''coordinator''),
        (''goal'', JString (as_goal s)), (''pending_children'', strings (as_pending_children s)),
        (''worker_messages'', (case meta ''worker_messages'' s of Some v \<Rightarrow> v | None \<Rightarrow> JArray [])),
        (''assembled_at'', JString (pe_now_text env))]) s) (build_coordinator_shell_plan env role)"

subsection \<open>The variant of the workflow\<close>

definition select_variant ::
  "compiled_workflow \<Rightarrow> data_signature \<Rightarrow> workflow_variant_policy \<Rightarrow> workflow_variant_selection option" where
  "select_variant compiled signature p =
     select p signature (cw_execution compiled) (cw_execution_constraints compiled)
       (cw_data_strategy compiled) (cw_scheduler compiled)"

text \<open>The flag says whether a plan may be made: it may not when no variant matches and the policy asks for a
  recompilation.\<close>

definition no_variant_fields :: "(string \<times> json) list" where
  "no_variant_fields =
     [(''needs_recompile'', JBool True),
      (''recompile_reason'', JString ''no workflow variant matched the current data signature'')]"

definition apply_variant :: "compiled_workflow \<Rightarrow> data_signature \<Rightarrow> agent_state \<Rightarrow> (bool \<times> agent_state) option" where
  "apply_variant compiled signature s =
     (case cw_variant_policy compiled of
        None \<Rightarrow> Some (True, s)
      | Some p \<Rightarrow>
          (case select_variant compiled signature p of
             Some v \<Rightarrow> map_option (Pair True) (set_all
               [(''workflow_variant'', selection_value v), (''workflow_variant_id'', JString (vs_variant_id v)),
                (''workflow_execution_profile'', obj_of_list (profile_fields v))] s)
           | None \<Rightarrow>
               if vp_fallback p = Recompile
               then map_option (Pair False) (set_all no_variant_fields s)
               else Some (True, s)))"

definition compiler_fields :: "compiled_workflow \<Rightarrow> (string \<times> json) list" where
  "compiler_fields compiled =
     (let field = (\<lambda>k d. case json_get k (cw_metadata compiled) of Some v \<Rightarrow> v | None \<Rightarrow> d) in
      [(''compiler_stage'', field ''compiler_stage'' (JString ''review'')),
       (''compiler_repair_passes'', field ''compiler_repair_passes'' (JNumber (PosInt 0))),
       (''compiler_validation_issues'', field ''compiler_validation_issues'' (JArray []))])"

definition workflow_plan ::
  "plan_env \<Rightarrow> compiled_workflow \<Rightarrow> agent_role \<Rightarrow> agent_state \<Rightarrow> (plan option \<times> agent_state) option" where
  "workflow_plan env compiled role s =
     (let signature = data_signature_from_value (pe_ext env)
            (case meta ''input_data'' s of Some v \<Rightarrow> v | None \<Rightarrow> JObject []) in
      Option.bind (set_metadata ''workflow_data_signature'' (data_signature_to_value signature) s) (\<lambda>s1.
      Option.bind (apply_variant compiled signature s1) (\<lambda>(go_on, s2).
        if go_on
        then map_option (Pair (Some (from_compiled_workflow compiled (ro_purpose role) (ro_role_category role))))
          (set_all (compiler_fields compiled) s2)
        else Some (None, s2))))"

definition try_plan_from_compiled_workflow ::
  "plan_env \<Rightarrow> agent_state \<Rightarrow> (plan option \<times> agent_state) option" where
  "try_plan_from_compiled_workflow env s =
     (case workflow_source env s of
        None \<Rightarrow> Some (None, s)
      | Some (compiled, role) \<Rightarrow>
          if eg_execution_strategy (ro_execution_guidelines role) = CoordinatorShell
          then map_option (\<lambda>(p, s'). (Some p, s')) (coordinator_plan env role s)
          else workflow_plan env compiled role s)"

section \<open>Choosing a plan\<close>

datatype planning = Planned plan | AskRecompile string string | NoPlan string

definition maybe_skill :: "plan_env \<Rightarrow> skill_registry \<Rightarrow> string \<Rightarrow> skill option" where
  "maybe_skill env reg goal = or_else (skill_get goal reg) (find_matching (pe_lower env) (pe_order env) goal reg)"

definition no_plan_reason :: "agent_state \<Rightarrow> string" where
  "no_plan_reason s = ''runtime does not invent plans anymore; rerun plan mode to produce a compiled workflow artifact for ''
     @ quoted (as_goal s)"

definition choose_plan :: "plan_env \<Rightarrow> skill_registry \<Rightarrow> agent_state \<Rightarrow> (planning \<times> agent_state) option" where
  "choose_plan env reg s =
     (if is_direct_response_goal (pe_lower env) (as_goal s) then Some (Planned (direct_response_plan s), s)
      else case maybe_skill env reg (as_goal s) of
        Some sk \<Rightarrow> Some (Planned (plan_from_skill sk), s)
      | None \<Rightarrow>
          map_option (\<lambda>(found, s'). (case found of
              Some p \<Rightarrow> Planned p
            | None \<Rightarrow>
                if Option.bind (meta ''needs_recompile'' s') as_bool = Some True
                then AskRecompile (str_or ''compiled workflow needs recompilation'' (meta ''recompile_reason'' s'))
                  (str_or ''structural'' (meta ''recompile_failure_kind'' s'))
                else NoPlan (no_plan_reason s'), s'))
            (try_plan_from_compiled_workflow env s))"


section \<open>What planning changes\<close>

lemma set_metadata_only: "set_metadata k v s = Some s' \<Longrightarrow> \<exists>m. s' = s\<lparr>as_metadata := m\<rparr>"
  by (auto simp: set_metadata_def)

lemma set_all_only: "set_all kvs s = Some s' \<Longrightarrow> \<exists>m. s' = s\<lparr>as_metadata := m\<rparr>"
proof (induction kvs arbitrary: s)
  case Nil
  then show ?case by (intro exI [of _ "as_metadata s"]) simp
next
  case (Cons kv kvs)
  then show ?case
    by (cases kv) (fastforce simp: bind_eq_Some_conv dest: set_metadata_only)
qed

lemma coordinator_plan_only:
  "coordinator_plan env role s = Some (p, s') \<Longrightarrow> \<exists>m. s' = s\<lparr>as_metadata := m\<rparr>"
  by (fastforce simp: coordinator_plan_def build_coordinator_shell_plan_def Let_def bind_eq_Some_conv
      dest: set_metadata_only)

lemma apply_variant_only:
  "apply_variant compiled signature s = Some (b, s') \<Longrightarrow> \<exists>m. s' = s\<lparr>as_metadata := m\<rparr>"
  by (auto simp: apply_variant_def simp del: set_all.simps split: option.splits if_splits dest!: set_all_only
      intro: exI [of _ "as_metadata s"])

lemma workflow_plan_only:
  assumes "workflow_plan env compiled role s = Some (p, s')"
  shows "\<exists>m. s' = s\<lparr>as_metadata := m\<rparr>"
proof -
  from assms obtain s1 s2 b where "\<exists>m. s1 = s\<lparr>as_metadata := m\<rparr>" "\<exists>m. s2 = s1\<lparr>as_metadata := m\<rparr>"
    "s' = s2 \<or> (\<exists>m. s' = s2\<lparr>as_metadata := m\<rparr>)"
    by (auto simp: workflow_plan_def Let_def bind_eq_Some_conv split: if_splits
        dest!: set_metadata_only apply_variant_only set_all_only)
  then show ?thesis by auto
qed

lemma choose_plan_only:
  assumes "choose_plan env reg s = Some (r, s')"
  shows "\<exists>m. s' = s\<lparr>as_metadata := m\<rparr>"
proof -
  have "\<exists>m. s = s\<lparr>as_metadata := m\<rparr>" by (intro exI [of _ "as_metadata s"]) simp
  with assms show ?thesis
    by (auto simp: choose_plan_def try_plan_from_compiled_workflow_def
        split: if_splits option.splits dest!: coordinator_plan_only workflow_plan_only)
qed

section \<open>Where plans come from\<close>

definition steps_in_order :: "plan \<Rightarrow> bool" where
  "steps_in_order p \<longleftrightarrow> (\<forall>i<length (plan_steps p). ps_index (plan_steps p ! i) = i)"

lemma coordinator_plan_steps:
  "coordinator_plan env role s = Some (p, s') \<Longrightarrow>
     plan_steps p = coordinator_steps s (workflow_hints (ro_execution_guidelines role))"
  by (auto simp: coordinator_plan_def build_coordinator_shell_plan_def Let_def bind_eq_Some_conv
      coordinator_steps_def research_step_def dest!: set_metadata_only split: list.split)

lemma coordinator_indices: "map ps_index (coordinator_steps s hints) = [0..<7]"
  by (simp add: coordinator_steps_def planned_def research_step_def upt_rec split: list.split)

lemma steps_in_order_map: "map ps_index (plan_steps p) = [0..<length (plan_steps p)] \<Longrightarrow> steps_in_order p"
  unfolding steps_in_order_def by (metis add_0 diff_zero length_map length_upt nth_map nth_upt)

lemma steps_in_order_direct: "steps_in_order (direct_response_plan s)"
  by (simp add: steps_in_order_def direct_response_plan_def)

lemma steps_in_order_skill: "steps_in_order (plan_from_skill sk)"
  by (simp add: steps_in_order_def plan_from_skill_steps)

lemma steps_in_order_workflow: "steps_in_order (from_compiled_workflow c purpose cat)"
  by (simp add: steps_in_order_def from_compiled_workflow_def plan_step_of_def nth_enumerate_eq)

lemma steps_in_order_coordinator:
  assumes "plan_steps p = coordinator_steps s hints"
  shows "steps_in_order p"
proof (rule steps_in_order_map)
  have "length (coordinator_steps s hints) = 7"
    using coordinator_indices [of s hints] by (metis length_map length_upt diff_zero)
  with assms coordinator_indices [of s hints]
  show "map ps_index (plan_steps p) = [0..<length (plan_steps p)]" by simp
qed

lemma maybe_skill_registered:
  assumes "maybe_skill env reg goal = Some sk" "\<And>r. set (pe_order env r) = set r"
  shows "sk \<in> set reg"
proof (cases "skill_get goal reg")
  case None
  with assms(1) have "find_matching (pe_lower env) (pe_order env) goal reg = Some sk"
    by (simp add: maybe_skill_def or_else_def)
  then have "sk \<in> set (pe_order env reg)"
    by (rule find_matching_registered)
  with assms(2) show ?thesis by simp
next
  case (Some sk')
  with assms(1) show ?thesis by (auto simp: maybe_skill_def or_else_def skill_get_def dest: find_mem)
qed

lemma workflow_planD:
  "workflow_plan env compiled role s = Some (Some p, s') \<Longrightarrow>
     p = from_compiled_workflow compiled (ro_purpose role) (ro_role_category role)"
  by (auto simp: workflow_plan_def Let_def bind_eq_Some_conv simp del: set_all.simps split: if_splits)

lemma try_planD:
  assumes "try_plan_from_compiled_workflow env s = Some (Some p, s')"
  obtains compiled role where "workflow_source env s = Some (compiled, role)"
    "plan_steps p = coordinator_steps s (workflow_hints (ro_execution_guidelines role))
       \<or> p = from_compiled_workflow compiled (ro_purpose role) (ro_role_category role)"
proof -
  from assms obtain compiled role where src: "workflow_source env s = Some (compiled, role)"
    by (auto simp: try_plan_from_compiled_workflow_def split: option.splits)
  show thesis
  proof (cases "eg_execution_strategy (ro_execution_guidelines role) = CoordinatorShell")
    case True
    with assms src have "coordinator_plan env role s = Some (p, s')"
      by (auto simp: try_plan_from_compiled_workflow_def)
    with that [OF src] show thesis by (simp add: coordinator_plan_steps)
  next
    case False
    with assms src have "workflow_plan env compiled role s = Some (Some p, s')"
      by (simp add: try_plan_from_compiled_workflow_def)
    with that [OF src] show thesis by (simp add: workflow_planD)
  qed
qed

text \<open>C20: The runtime does not invent plans: a plan is the direct answer to a conversational goal, the plan of a
  registered skill, the coordinator's plan of the role, or the plan of the stored compiled workflow.  In each
  of them the step at position \<open>i\<close> has the index \<open>i\<close>, so that the position of an agent names its step.\<close>

theorem plans_not_invented:
  assumes "choose_plan env reg s = Some (Planned p, s')" "\<And>r. set (pe_order env r) = set r"
  shows "steps_in_order p
     \<and> (p = direct_response_plan s \<and> is_direct_response_goal (pe_lower env) (as_goal s)
        \<or> (\<exists>sk\<in>set reg. p = plan_from_skill sk)
        \<or> (\<exists>compiled role. workflow_source env s = Some (compiled, role)
             \<and> (plan_steps p = coordinator_steps s (workflow_hints (ro_execution_guidelines role))
                \<or> p = from_compiled_workflow compiled (ro_purpose role) (ro_role_category role))))"
proof (cases "is_direct_response_goal (pe_lower env) (as_goal s)")
  case True
  with assms(1) have "p = direct_response_plan s" by (auto simp: choose_plan_def)
  with True show ?thesis by (simp add: steps_in_order_direct)
next
  case direct: False
  show ?thesis
  proof (cases "maybe_skill env reg (as_goal s)")
    case (Some sk)
    with direct assms(1) have "p = plan_from_skill sk" by (simp add: choose_plan_def)
    with maybe_skill_registered [OF Some assms(2)] show ?thesis by (auto simp: steps_in_order_skill)
  next
    case None
    with direct assms(1) obtain s'' where "try_plan_from_compiled_workflow env s = Some (Some p, s'')"
      by (auto simp: choose_plan_def split: option.splits if_splits)
    then obtain compiled role where "workflow_source env s = Some (compiled, role)"
      "plan_steps p = coordinator_steps s (workflow_hints (ro_execution_guidelines role))
         \<or> p = from_compiled_workflow compiled (ro_purpose role) (ro_role_category role)"
      by (rule try_planD)
    then show ?thesis by (auto simp: steps_in_order_workflow steps_in_order_coordinator)
  qed
qed

text \<open>
  A skill goes before the workflow that was compiled for the role, and a substring of the goal is enough to
  find one: the approved workflow of an agent is passed over when its goal mentions an alias of some skill.
\<close>

lemma skill_overrides_compiled_workflow:
  assumes "\<not> is_direct_response_goal (pe_lower env) (as_goal s)"
    and "maybe_skill env reg (as_goal s) = Some sk"
  shows "choose_plan env reg s = Some (Planned (plan_from_skill sk), s)"
    and "choose_plan env reg (s\<lparr>as_metadata := m\<rparr>) = Some (Planned (plan_from_skill sk), s\<lparr>as_metadata := m\<rparr>)"
  using assms by (simp_all add: choose_plan_def)

text \<open>Assignments into an object succeed and keep every other key.\<close>

lemma set_all_object:
  "\<exists>o'. set_all kvs (s\<lparr>as_metadata := JObject ob\<rparr>) = Some (s\<lparr>as_metadata := JObject o'\<rparr>)
      \<and> (\<forall>k. k \<notin> fst ` set kvs \<longrightarrow> map_of o' k = map_of ob k)
      \<and> (distinct (map fst kvs) \<longrightarrow> (\<forall>(k, v)\<in>set kvs. map_of o' k = Some v))"
proof (induction kvs arbitrary: ob)
  case (Cons kv kvs)
  obtain k v where kv: "kv = (k, v)" by (cases kv)
  from Cons [of "obj_insert k v ob"] show ?case
    unfolding kv by (auto simp: set_metadata_def map_of_obj_insert)
qed auto

definition input_signature :: "plan_env \<Rightarrow> agent_state \<Rightarrow> data_signature" where
  "input_signature env s = data_signature_from_value (pe_ext env)
     (case meta ''input_data'' s of Some v \<Rightarrow> v | None \<Rightarrow> JObject [])"

lemma set_metadata_object':
  "as_object (as_metadata s) = Some ob \<Longrightarrow>
     set_metadata k v s = Some (s\<lparr>as_metadata := JObject (obj_insert k v ob)\<rparr>)"
  by (cases "as_metadata s") (auto simp: set_metadata_def)

lemma workflow_plan_no_variant:
  assumes "cw_variant_policy compiled = Some pol" "vp_fallback pol = Recompile"
    and "as_object (as_metadata s) = Some ob" "map_of ob ''recompile_failure_kind'' = None"
    and "select_variant compiled (input_signature env s) pol = None"
  obtains o' where "workflow_plan env compiled role s = Some (None, s\<lparr>as_metadata := JObject o'\<rparr>)"
    "map_of o' ''recompile_failure_kind'' = None" "map_of o' ''needs_recompile'' = Some (JBool True)"
    "map_of o' ''recompile_reason'' = Some (JString ''no workflow variant matched the current data signature'')"
proof -
  let ?d = "input_signature env s"
  let ?o1 = "obj_insert ''workflow_data_signature'' (data_signature_to_value ?d) ob"
  obtain o' where o': "set_all no_variant_fields (s\<lparr>as_metadata := JObject ?o1\<rparr>) = Some (s\<lparr>as_metadata := JObject o'\<rparr>)"
    and other: "\<forall>k. k \<notin> fst ` set no_variant_fields \<longrightarrow> map_of o' k = map_of ?o1 k"
    and these: "distinct (map fst no_variant_fields) \<longrightarrow> (\<forall>(k, v)\<in>set no_variant_fields. map_of o' k = Some v)"
    using set_all_object [where kvs = no_variant_fields and s = s and ob = ?o1] by blast
  have "map_of o' ''recompile_failure_kind'' = map_of ?o1 ''recompile_failure_kind''"
    using other by (simp add: no_variant_fields_def)
  then have "map_of o' ''recompile_failure_kind'' = None"
    using assms(4) by (simp add: map_of_obj_insert)
  moreover have "map_of o' ''needs_recompile'' = Some (JBool True)"
    "map_of o' ''recompile_reason'' = Some (JString ''no workflow variant matched the current data signature'')"
    using these by (simp_all add: no_variant_fields_def)
  moreover have "workflow_plan env compiled role s = Some (None, s\<lparr>as_metadata := JObject o'\<rparr>)"
    using assms(1,2,5) o' set_metadata_object' [OF assms(3)]
    by (simp add: workflow_plan_def apply_variant_def input_signature_def [symmetric] del: set_all.simps)
  ultimately show thesis by (rule that [rotated])
qed

lemma workflow_plan_variant:
  assumes "cw_variant_policy compiled = Some pol" "as_object (as_metadata s) = Some ob"
    and "select_variant compiled (input_signature env s) pol = Some v"
  obtains o' where "workflow_plan env compiled role s =
    Some (Some (from_compiled_workflow compiled (ro_purpose role) (ro_role_category role)), s\<lparr>as_metadata := JObject o'\<rparr>)"
proof -
  let ?d = "input_signature env s"
  let ?o1 = "obj_insert ''workflow_data_signature'' (data_signature_to_value ?d) ob"
  let ?fields = "[(''workflow_variant'', selection_value v), (''workflow_variant_id'', JString (vs_variant_id v)),
      (''workflow_execution_profile'', obj_of_list (profile_fields v))]"
  from set_all_object [where kvs = ?fields and s = s and ob = ?o1]
  obtain o2 where o2: "set_all ?fields (s\<lparr>as_metadata := JObject ?o1\<rparr>) = Some (s\<lparr>as_metadata := JObject o2\<rparr>)" by blast
  from set_all_object [where kvs = "compiler_fields compiled" and s = s and ob = o2]
  obtain o3 where o3: "set_all (compiler_fields compiled) (s\<lparr>as_metadata := JObject o2\<rparr>)
      = Some (s\<lparr>as_metadata := JObject o3\<rparr>)" by blast
  have "workflow_plan env compiled role s =
    Some (Some (from_compiled_workflow compiled (ro_purpose role) (ro_role_category role)), s\<lparr>as_metadata := JObject o3\<rparr>)"
    using assms(1,3) o2 o3 set_metadata_object' [OF assms(2)]
    by (simp add: workflow_plan_def apply_variant_def input_signature_def [symmetric] del: set_all.simps)
  with that show thesis by blast
qed

text \<open>With a workflow whose policy asks for a recompilation, planning asks for it exactly when no variant
  matches the signature of the input data; otherwise it gives the plan of the workflow.\<close>

theorem variant_mismatch_recompiles:
  assumes "\<not> is_direct_response_goal (pe_lower env) (as_goal s)" "maybe_skill env reg (as_goal s) = None"
    and "workflow_source env s = Some (compiled, role)"
    and "eg_execution_strategy (ro_execution_guidelines role) \<noteq> CoordinatorShell"
    and "cw_variant_policy compiled = Some pol" "vp_fallback pol = Recompile"
    and "as_object (as_metadata s) = Some ob" "map_of ob ''recompile_failure_kind'' = None"
  shows "\<exists>m. choose_plan env reg s =
     Some (if select_variant compiled (input_signature env s) pol = None
           then AskRecompile ''no workflow variant matched the current data signature'' ''structural''
           else Planned (from_compiled_workflow compiled (ro_purpose role) (ro_role_category role)),
           s\<lparr>as_metadata := m\<rparr>)"
proof (cases "select_variant compiled (input_signature env s) pol")
  case None
  obtain o' where "workflow_plan env compiled role s = Some (None, s\<lparr>as_metadata := JObject o'\<rparr>)"
    "map_of o' ''recompile_failure_kind'' = None" "map_of o' ''needs_recompile'' = Some (JBool True)"
    "map_of o' ''recompile_reason'' = Some (JString ''no workflow variant matched the current data signature'')"
    by (rule workflow_plan_no_variant [OF assms(5-8) None])
  with assms(1-4) None show ?thesis
    by (auto simp: choose_plan_def try_plan_from_compiled_workflow_def meta_def str_or_def)
next
  case (Some v)
  obtain o' where "workflow_plan env compiled role s =
      Some (Some (from_compiled_workflow compiled (ro_purpose role) (ro_role_category role)), s\<lparr>as_metadata := JObject o'\<rparr>)"
    by (rule workflow_plan_variant [OF assms(5,7) Some])
  with assms(1-4) Some show ?thesis
    by (auto simp: choose_plan_def try_plan_from_compiled_workflow_def)
qed


section \<open>A concrete run\<close>

definition sample_stale_workflow :: compiled_workflow where
  "sample_stale_workflow = (sample_workflow [])
     \<lparr>cw_variant_policy := Some \<lparr>vp_default_variant_id = ''default'', vp_fallback = Recompile, vp_variants = []\<rparr>\<rparr>"

definition sample_planner :: plan_env where
  "sample_planner =
     \<lparr>pe_ext = sample_ext, pe_lower = to_ascii_lowercase, pe_order = rev, pe_now = 0, pe_now_text = ''now'',
      pe_store = False, pe_role = (\<lambda>_ _. None), pe_parse_workflow = (\<lambda>_. Some sample_stale_workflow)\<rparr>"

definition sample_goal_state :: "string \<Rightarrow> agent_state" where
  "sample_goal_state goal = (agent_new ''a'' ''t'' goal ''/w'' 0)\<lparr>as_metadata := JObject [(''compiled_workflow'', JNull)]\<rparr>"

lemma plans_not_invented_witness:
  "steps_in_order (plan_from_skill sample_skill) \<and> \<not> is_direct_response_goal (pe_lower sample_planner) ''ship it''"
proof
  have "choose_plan sample_planner [sample_skill] (sample_goal_state ''ship it'')
      = Some (Planned (plan_from_skill sample_skill), sample_goal_state ''ship it'')" by code_simp
  then show "steps_in_order (plan_from_skill sample_skill)"
    by (rule conjunct1 [OF plans_not_invented]) (simp add: sample_planner_def)
  show "\<not> is_direct_response_goal (pe_lower sample_planner) ''ship it''" by code_simp
qed

lemma variant_mismatch_recompiles_witness:
  "\<exists>m. choose_plan sample_planner [] (sample_goal_state ''Reconcile the invoices'')
     = Some (AskRecompile ''no workflow variant matched the current data signature'' ''structural'',
         (sample_goal_state ''Reconcile the invoices'')\<lparr>as_metadata := m\<rparr>)"
proof -
  let ?s = "sample_goal_state ''Reconcile the invoices''"
  let ?role = "fallback_role_from_compiled_workflow 0 ?s sample_stale_workflow"
  have src: "workflow_source sample_planner ?s = Some (sample_stale_workflow, ?role)"
    by (simp add: workflow_source_def sample_planner_def sample_goal_state_def meta_def loop_role_def)
  have "select_variant sample_stale_workflow (input_signature sample_planner ?s)
      \<lparr>vp_default_variant_id = ''default'', vp_fallback = Recompile, vp_variants = []\<rparr> = None"
    by (simp add: select_variant_def select_def)
  moreover have "\<exists>m. choose_plan sample_planner [] ?s =
     Some (if select_variant sample_stale_workflow (input_signature sample_planner ?s)
             \<lparr>vp_default_variant_id = ''default'', vp_fallback = Recompile, vp_variants = []\<rparr> = None
           then AskRecompile ''no workflow variant matched the current data signature'' ''structural''
           else Planned (from_compiled_workflow sample_stale_workflow (ro_purpose ?role) (ro_role_category ?role)),
           ?s\<lparr>as_metadata := m\<rparr>)"
  proof (rule variant_mismatch_recompiles [OF _ _ src, where ob = "[(''compiled_workflow'', JNull)]"])
    show "\<not> is_direct_response_goal (pe_lower sample_planner) (as_goal ?s)" by code_simp
    show "maybe_skill sample_planner [] (as_goal ?s) = None" by code_simp
  qed (simp_all add: sample_stale_workflow_def sample_goal_state_def fallback_role_from_compiled_workflow_def
      agent_role_new_def default_guidelines_def)
  ultimately show ?thesis by simp
qed

end
