(* ===== verification/Judgement.thy ===== *)
theory Judgement
  imports Orchestrator
begin

text \<open>
  The score that a finished step gets (\<open>cognition/judgement.rs\<close>) with the tuning of its domain
  (\<open>segments/domain.rs\<close>), the service levels of a run (\<open>compliance/sla.rs\<close>) and the limits of a run
  (\<open>cognition/control_loop.rs\<close>).

  A decimal literal of the code is the nearest binary64 value.  The clock is an argument, and so is the
  deserializer of a stored service-level status.
\<close>

section \<open>Domains\<close>

record judgement_tuning =
  jt_name :: string
  jt_watch_threshold :: rat
  jt_revise_threshold :: rat
  jt_escalate_retry_limit :: nat
  jt_retry_penalty :: rat
  jt_failure_penalty :: rat
  jt_tool_failure_penalty :: rat
  jt_no_tool_bonus :: rat
  jt_final_step_bonus :: rat
  jt_item_bonus :: rat
  jt_connector_bonus :: rat
  jt_sla_watch_pct :: rat
  jt_sla_escalate_pct :: rat
  jt_sla_watch_penalty :: rat
  jt_sla_escalate_penalty :: rat

definition tuning_new ::
  "string \<Rightarrow> rat \<Rightarrow> rat \<Rightarrow> nat \<Rightarrow> rat \<Rightarrow> rat \<Rightarrow> rat \<Rightarrow> rat \<Rightarrow> rat \<Rightarrow> rat \<Rightarrow> rat \<Rightarrow> rat \<Rightarrow> rat \<Rightarrow> rat \<Rightarrow> rat \<Rightarrow> judgement_tuning" where
  "tuning_new name watch revise retries retry failure tool_failure no_tool final item connector
     sla_watch sla_escalate sla_watch_penalty sla_escalate_penalty =
     \<lparr>jt_name = name, jt_watch_threshold = f64_round watch, jt_revise_threshold = f64_round revise,
      jt_escalate_retry_limit = retries, jt_retry_penalty = f64_round retry, jt_failure_penalty = f64_round failure,
      jt_tool_failure_penalty = f64_round tool_failure, jt_no_tool_bonus = f64_round no_tool,
      jt_final_step_bonus = f64_round final, jt_item_bonus = f64_round item, jt_connector_bonus = f64_round connector,
      jt_sla_watch_pct = f64_round sla_watch, jt_sla_escalate_pct = f64_round sla_escalate,
      jt_sla_watch_penalty = f64_round sla_watch_penalty, jt_sla_escalate_penalty = f64_round sla_escalate_penalty\<rparr>"

record domain_profile =
  dp_id :: string
  dp_label :: string
  dp_summary :: string
  dp_primary_connectors :: "string list"
  dp_requires_review :: bool
  dp_requires_evidence :: bool
  dp_pii_sensitive :: bool
  dp_judgement :: judgement_tuning

definition profile_new ::
  "string \<Rightarrow> string \<Rightarrow> string \<Rightarrow> string list \<Rightarrow> bool \<Rightarrow> bool \<Rightarrow> bool \<Rightarrow> judgement_tuning \<Rightarrow> domain_profile" where
  "profile_new pid label summary connectors review evidence pii tuning =
     \<lparr>dp_id = pid, dp_label = label, dp_summary = summary, dp_primary_connectors = connectors,
      dp_requires_review = review, dp_requires_evidence = evidence, dp_pii_sensitive = pii, dp_judgement = tuning\<rparr>"

definition general_profile :: domain_profile where
  "general_profile = profile_new ''general'' ''General''
     ''General-purpose assistant with no special compliance assumptions.''
     [] False False False
     (tuning_new ''general'' 0.80 0.55 2 0.05 0.28 0.12 0.05 0.04 0.03 0.04
        80.0 100.0 0.10 0.18)"

definition engineering_profile :: domain_profile where
  "engineering_profile = profile_new ''engineering'' ''Engineering Maintenance''
     ''Code review, CI/CD, repo maintenance, and engineering incident response.''
     [''github''] True False False
     (tuning_new ''engineering'' 0.82 0.60 2 0.05 0.28 0.12 0.04 0.04 0.03 0.05
        75.0 95.0 0.10 0.18)"

definition customer_support_profile :: domain_profile where
  "customer_support_profile = profile_new ''customer_support'' ''Customer Support''
     ''Ticket handling, escalation, SLA enforcement, and response drafting.''
     [''zendesk'', ''intercom'', ''freshdesk'', ''gorgias'', ''twilio''] True False True
     (tuning_new ''support'' 0.84 0.60 1 0.06 0.30 0.15 0.03 0.03 0.02 0.04
        75.0 95.0 0.10 0.20)"

definition compliance_ops_profile :: domain_profile where
  "compliance_ops_profile = profile_new ''compliance_ops'' ''Compliance Ops''
     ''Citation-first workflows, evidence packaging, and regulatory review.''
     [''servicenow''] True True True
     (tuning_new ''compliance'' 0.86 0.65 1 0.05 0.31 0.14 0.03 0.03 0.02 0.04
        70.0 95.0 0.12 0.22)"

definition sales_revops_profile :: domain_profile where
  "sales_revops_profile = profile_new ''sales_revops'' ''Sales & RevOps''
     ''Prospect research, CRM enrichment, outreach, and pipeline intelligence.''
     [''salesforce'', ''shopify'', ''shipstation''] True False True
     (tuning_new ''sales'' 0.79 0.56 2 0.05 0.28 0.12 0.03 0.03 0.03 0.04
        80.0 100.0 0.10 0.18)"

definition finance_accounting_profile :: domain_profile where
  "finance_accounting_profile = profile_new ''finance_accounting'' ''Finance & Accounting''
     ''Invoice processing, reconciliation, expense categorisation, and month-end close.''
     [''quickbooks'', ''stripe''] True True True
     (tuning_new ''finance'' 0.86 0.68 1 0.08 0.32 0.16 0.03 0.03 0.02 0.05
        70.0 95.0 0.12 0.22)"

definition hr_people_ops_profile :: domain_profile where
  "hr_people_ops_profile = profile_new ''hr_people_ops'' ''HR & People Ops''
     ''Candidate screening, onboarding, policy Q&A, and performance data.''
     [''greenhouse''] True False True
     (tuning_new ''hr'' 0.84 0.67 1 0.06 0.30 0.15 0.03 0.03 0.02 0.04
        75.0 95.0 0.10 0.20)"

definition legal_contract_profile :: domain_profile where
  "legal_contract_profile = profile_new ''legal_contract'' ''Legal & Contract Ops''
     ''Contract review, clause extraction, redlining, and due diligence.''
     [''docusign''] True True True
     (tuning_new ''legal'' 0.88 0.70 1 0.07 0.34 0.18 0.02 0.03 0.02 0.04
        70.0 95.0 0.12 0.22)"

definition it_ops_itsm_profile :: domain_profile where
  "it_ops_itsm_profile = profile_new ''it_ops_itsm'' ''IT Ops & ITSM''
     ''Incident runbooks, change advisory, health checks, and postmortems.''
     [''pagerduty'', ''servicenow''] True True False
     (tuning_new ''itsm'' 0.82 0.66 1 0.06 0.28 0.14 0.02 0.03 0.02 0.05
        65.0 90.0 0.14 0.24)"

definition research_intelligence_profile :: domain_profile where
  "research_intelligence_profile = profile_new ''research_intelligence'' ''Research & Intelligence''
     ''Market research, competitive intel, due diligence, and synthesis.''
     [''notion''] True True False
     (tuning_new ''research'' 0.80 0.58 2 0.05 0.26 0.12 0.03 0.03 0.03 0.04
        80.0 100.0 0.10 0.18)"

definition data_analytics_profile :: domain_profile where
  "data_analytics_profile = profile_new ''data_analytics'' ''Data & Analytics Ops''
     ''Pipeline monitoring, data quality checks, scheduled reports, and schema migrations.''
     [''dbt_cloud''] True True True
     (tuning_new ''data'' 0.81 0.60 2 0.05 0.28 0.14 0.03 0.03 0.02 0.04
        75.0 95.0 0.10 0.20)"

definition marketing_growth_profile :: domain_profile where
  "marketing_growth_profile = profile_new ''marketing_growth'' ''Marketing & Growth''
     ''SEO audits, competitor monitoring, content research, and campaign reporting.''
     [''hubspot''] True False True
     (tuning_new ''marketing'' 0.78 0.54 2 0.05 0.27 0.12 0.03 0.03 0.03 0.04
        80.0 100.0 0.10 0.18)"

definition procurement_vendor_ops_profile :: domain_profile where
  "procurement_vendor_ops_profile = profile_new ''procurement_vendor_ops'' ''Procurement & Vendor Ops''
     ''Vendor intake, purchase approvals, contract routing, invoice matching, and renewal management.''
     [''docusign'', ''quickbooks'', ''stripe'', ''notion''] True True True
     (tuning_new ''procurement'' 0.87 0.69 1 0.08 0.32 0.16 0.03 0.03 0.02 0.05
        70.0 95.0 0.12 0.22)"

definition security_ops_grc_profile :: domain_profile where
  "security_ops_grc_profile = profile_new ''security_ops_grc'' ''Security Ops & GRC''
     ''Access reviews, security evidence, incident response, risk tracking, and audit readiness.''
     [''servicenow'', ''pagerduty'', ''github'', ''notion''] True True True
     (tuning_new ''security'' 0.90 0.72 1 0.08 0.34 0.16 0.02 0.03 0.02 0.05
        60.0 90.0 0.14 0.24)"

definition customer_success_renewals_profile :: domain_profile where
  "customer_success_renewals_profile = profile_new ''customer_success_renewals'' ''Customer Success & Renewals''
     ''Account health, renewals, churn risk, QBR prep, and escalation follow-up.''
     [''salesforce'', ''hubspot'', ''zendesk'', ''intercom'', ''freshdesk''] True True True
     (tuning_new ''customer_success'' 0.81 0.58 2 0.06 0.28 0.13 0.03 0.03 0.03 0.04
        80.0 100.0 0.10 0.18)"

definition brand_protection_profile :: domain_profile where
  "brand_protection_profile = profile_new ''brand_protection'' ''Brand Protection & Monitoring''
     ''Website monitoring, defacement detection, competitor tracking, reputation management, and trademark protection.''
     [''brand_monitoring''] True True False
     (tuning_new ''brand_protection'' 0.87 0.68 1 0.06 0.30 0.14 0.02 0.03 0.02 0.05
        70.0 95.0 0.12 0.22)"

definition profile_for_slug :: "string \<Rightarrow> domain_profile" where
  "profile_for_slug slug =
     (let s = to_ascii_lowercase (trim slug) in
       if s \<in> {''engineering'', ''software_engineer'', ''devops''} then engineering_profile
       else if s \<in> {''customer_support''} then customer_support_profile
       else if s \<in> {''compliance_ops''} then compliance_ops_profile
       else if s \<in> {''sales_revops''} then sales_revops_profile
       else if s \<in> {''finance_accounting''} then finance_accounting_profile
       else if s \<in> {''hr_people_ops''} then hr_people_ops_profile
       else if s \<in> {''legal_contract''} then legal_contract_profile
       else if s \<in> {''it_ops_itsm''} then it_ops_itsm_profile
       else if s \<in> {''research_intelligence'', ''research_analyst''} then research_intelligence_profile
       else if s \<in> {''data_analytics'', ''data_extraction''} then data_analytics_profile
       else if s \<in> {''marketing_growth'', ''marketing''} then marketing_growth_profile
       else if s \<in> {''procurement_vendor_ops'', ''procurement''} then procurement_vendor_ops_profile
       else if s \<in> {''security_ops_grc'', ''security_ops'', ''grc''} then security_ops_grc_profile
       else if s \<in> {''customer_success_renewals'', ''customer_success''} then customer_success_renewals_profile
       else if s \<in> {''brand_protection'', ''brand_monitoring'', ''reputation''} then brand_protection_profile
       else general_profile)"

definition profile_for_job_type :: "string option \<Rightarrow> domain_profile" where
  "profile_for_job_type job_type = profile_for_slug (case job_type of Some t \<Rightarrow> t | None \<Rightarrow> ''general'')"

section \<open>Service levels\<close>

datatype sla_priority = SlaLow | SlaNormal | SlaHigh | SlaUrgent | SlaCritical

datatype escalation_action = Notify string | Reassign string | EscalateSla string | IncreasePriority

record escalation_rule =
  esc_trigger_pct :: rat
  esc_action :: escalation_action

record sla_policy =
  sp_id :: string
  sp_tenant_id :: string
  sp_name :: string
  sp_first_response_mins :: int
  sp_resolution_mins :: int
  sp_priority :: sla_priority
  sp_escalation_rules :: "escalation_rule list"

record sla_status =
  ss_agent_id :: string
  ss_policy_id :: string
  ss_started_at :: time
  ss_first_response_at :: "time option"
  ss_resolved_at :: "time option"
  ss_first_response_deadline :: time
  ss_resolution_deadline :: time
  ss_breached :: bool
  ss_escalation_triggered :: bool

text \<open>The outer option is the lookup of a policy, the inner one a deadline that chrono cannot represent.\<close>

definition sla_start ::
  "externals \<Rightarrow> sla_policy list \<Rightarrow> string \<Rightarrow> string \<Rightarrow> sla_priority \<Rightarrow> time \<Rightarrow> sla_status option option" where
  "sla_start ext policies agent_id tenant_id priority now =
     map_option (\<lambda>p.
       Option.bind (dt_add_secs ext now (60 * sp_first_response_mins p)) (\<lambda>first_response.
       Option.bind (dt_add_secs ext now (60 * sp_resolution_mins p)) (\<lambda>resolution.
       Some \<lparr>ss_agent_id = agent_id, ss_policy_id = sp_id p, ss_started_at = now, ss_first_response_at = None,
         ss_resolved_at = None, ss_first_response_deadline = first_response, ss_resolution_deadline = resolution,
         ss_breached = False, ss_escalation_triggered = False\<rparr>)))
     (find (\<lambda>p. sp_tenant_id p = tenant_id \<and> sp_priority p = priority) policies)"

text \<open>\<open>num_seconds\<close> and \<open>num_minutes\<close> of a duration, cut towards zero.\<close>

definition quot_int :: "int \<Rightarrow> int \<Rightarrow> int" where
  "quot_int a b = (if 0 \<le> a then a div b else - ((- a) div b))"

definition num_seconds :: "time \<Rightarrow> int" where
  "num_seconds d = quot_int d nanos_per_sec"

definition num_minutes :: "time \<Rightarrow> int" where
  "num_minutes d = quot_int (num_seconds d) 60"

definition f64_of_int :: "int \<Rightarrow> rat" where
  "f64_of_int i = f64_round (of_int i)"

text \<open>\<open>elapsed / total * 100.0 \<ge> pct\<close>, where a total of zero gives infinity or no number.\<close>

definition pct_reaches :: "int \<Rightarrow> int \<Rightarrow> rat \<Rightarrow> bool" where
  "pct_reaches elapsed whole pct \<longleftrightarrow>
     (if whole = 0 then 0 < elapsed
      else pct \<le> f64_mul (f64_div (f64_of_int elapsed) (f64_of_int whole)) 100)"

definition sla_check :: "sla_policy list \<Rightarrow> time \<Rightarrow> sla_status \<Rightarrow> escalation_action list" where
  "sla_check policies now status =
     (case find (\<lambda>p. sp_id p = ss_policy_id status) policies of
        None \<Rightarrow> []
      | Some p \<Rightarrow>
          (if ss_first_response_at status = None \<and> ss_first_response_deadline status < now
           then [EscalateSla ''first response SLA breached''] else [])
          @ (if ss_resolved_at status = None
             then map esc_action (filter (\<lambda>rule. pct_reaches (num_minutes (now - ss_started_at status))
                    (sp_resolution_mins p) (esc_trigger_pct rule)) (sp_escalation_rules p))
             else []))"

definition record_first_response :: "time \<Rightarrow> sla_status \<Rightarrow> sla_status" where
  "record_first_response now status =
     (if ss_first_response_at status = None then status\<lparr>ss_first_response_at := Some now\<rparr> else status)"

definition record_resolution :: "time \<Rightarrow> sla_status \<Rightarrow> sla_status" where
  "record_resolution now status =
     (let resolved = status\<lparr>ss_resolved_at := Some now\<rparr> in
      if ss_first_response_at status \<noteq> None
      then resolved\<lparr>ss_breached := (ss_resolution_deadline status < now)\<rparr> else resolved)"

section \<open>Judgement\<close>

datatype judgement_recommendation = JudgeContinue | JudgeWatch | JudgeRevise | JudgeEscalate

record judgement_signal =
  js_step_index :: nat
  js_step_description :: string
  js_job_type :: "string option"
  js_profile :: string
  js_score :: rat
  js_confidence :: rat
  js_recommendation :: judgement_recommendation
  js_summary :: string
  js_reasons :: "string list"
  js_timestamp :: string

record judgement_context =
  jc_state :: agent_state
  jc_plan :: plan
  jc_step :: planned_step
  jc_result :: exec_result
  jc_eval :: eval_reflection
  jc_retry_count :: nat

record judgement_env =
  je_sla :: "json \<Rightarrow> sla_status option"
  je_now :: time
  je_now_text :: string

definition clamp_f64 :: "rat \<Rightarrow> rat \<Rightarrow> rat \<Rightarrow> rat" where
  "clamp_f64 lo hi x = (if x < lo then lo else if hi < x then hi else x)"

definition show_int :: "int \<Rightarrow> string" where
  "show_int i = (if i < 0 then ''-'' @ show_nat (nat (- i)) else show_nat (nat i))"

text \<open>\<open>{:.0}\<close> of a value that is not negative.\<close>

definition show_f64_0 :: "rat \<Rightarrow> string" where
  "show_f64_0 q = show_int (round_even q)"

definition sla_pressure :: "judgement_env \<Rightarrow> agent_state \<Rightarrow> (rat \<times> bool) option" where
  "sla_pressure env s =
     Option.bind (json_get ''sla_status'' (as_metadata s)) (\<lambda>raw.
     map_option (\<lambda>status.
       let whole = f64_of_int (max 1 (num_seconds (ss_resolution_deadline status - ss_started_at status)));
           elapsed = f64_of_int (max 0 (num_seconds (je_now env - ss_started_at status)))
       in (f64_mul (f64_div elapsed whole) 100, ss_breached status))
     (je_sla env raw))"

text \<open>The score and the reasons so far; each consideration adds to both.\<close>

type_synonym scored = "rat \<times> string list"

definition adjust :: "bool \<Rightarrow> (rat \<Rightarrow> rat) \<Rightarrow> string \<Rightarrow> scored \<Rightarrow> scored" where
  "adjust cond f reason sc = (if cond then (f (fst sc), snd sc @ [reason]) else sc)"

definition judge_result :: "judgement_tuning \<Rightarrow> judgement_context \<Rightarrow> scored \<Rightarrow> scored" where
  "judge_result t ctx sc =
     (let r = jc_result ctx;
          failed_tools = length (filter (\<lambda>x. \<not> tr_success x) (er_tool_results r));
          sc1 = (if er_success r then (f64_add (fst sc) (f64_round 0.16), snd sc)
             else (f64_sub (fst sc) (jt_failure_penalty t), snd sc @ [''the step did not succeed'']))
      in adjust (0 < jc_retry_count ctx)
           (\<lambda>x. f64_sub x (f64_mul (jt_retry_penalty t) (f64_of_nat (min 3 (jc_retry_count ctx)))))
           (''retry count is '' @ show_nat (jc_retry_count ctx))
         (adjust (0 < failed_tools) (\<lambda>x. f64_sub x (jt_tool_failure_penalty t))
           (show_nat failed_tools @ '' tool call(s) failed'') sc1))"

definition judge_verdict :: "judgement_context \<Rightarrow> scored \<Rightarrow> scored" where
  "judge_verdict ctx sc =
     (let sc1 = adjust (evr_should_revise (jc_eval ctx)) (\<lambda>x. f64_sub x (f64_round 0.14))
            ''evaluator suggested a plan revision'' sc
      in case evr_verdict (jc_eval ctx) of
           EvContinue \<Rightarrow> sc1
         | EvGoalComplete \<Rightarrow> adjust True (\<lambda>x. f64_add x (f64_round 0.05)) ''the evaluator marked the run complete'' sc1
         | EvRetry \<Rightarrow> adjust True (\<lambda>x. f64_sub x (f64_round 0.08)) ''the evaluator requested another attempt'' sc1
         | EvAbort \<Rightarrow> adjust True (\<lambda>x. f64_sub x (f64_round 0.22)) ''the evaluator aborted the step'' sc1)"

definition judge_step :: "judgement_tuning \<Rightarrow> judgement_context \<Rightarrow> scored \<Rightarrow> scored" where
  "judge_step t ctx sc =
     (let r = jc_result ctx in
      adjust (er_connector_writes r \<noteq> []) (\<lambda>x. f64_add x (jt_connector_bonus t))
        (''wrote to '' @ show_nat (length (er_connector_writes r)) @ '' connector(s)'')
      (adjust (0 < er_items_processed r) (\<lambda>x. f64_add x (jt_item_bonus t))
        (''processed '' @ show_nat (er_items_processed r) @ '' item(s)'')
      (adjust (plan_is_complete (jc_plan ctx) (as_current_step (jc_state ctx) + 1))
        (\<lambda>x. f64_add x (jt_final_step_bonus t)) ''this was the final planned step''
      (adjust (ps_tool (jc_step ctx) = None \<and> er_success r) (\<lambda>x. f64_add x (jt_no_tool_bonus t))
        ''the step completed without a tool call'' sc))))"

datatype sla_pressure_level = NoSla | SlaWatch | SlaEscalate

definition sla_level :: "judgement_tuning \<Rightarrow> (rat \<times> bool) option \<Rightarrow> sla_pressure_level" where
  "sla_level t pressure =
     (case pressure of
        None \<Rightarrow> NoSla
      | Some (pct, breached) \<Rightarrow>
          if breached \<or> jt_sla_escalate_pct t \<le> pct then SlaEscalate
          else if jt_sla_watch_pct t \<le> pct then SlaWatch else NoSla)"

definition judge_sla :: "judgement_tuning \<Rightarrow> (rat \<times> bool) option \<Rightarrow> scored \<Rightarrow> scored" where
  "judge_sla t pressure sc =
     (let pct = (case pressure of Some (p, _) \<Rightarrow> p | None \<Rightarrow> 0) in
      case sla_level t pressure of
        NoSla \<Rightarrow> sc
      | SlaEscalate \<Rightarrow> adjust True (\<lambda>x. f64_sub x (jt_sla_escalate_penalty t))
          (''SLA breach at '' @ show_f64_0 pct @ ''% elapsed'') sc
      | SlaWatch \<Rightarrow> adjust True (\<lambda>x. f64_sub x (jt_sla_watch_penalty t))
          (''SLA is at '' @ show_f64_0 pct @ ''% elapsed'') sc)"

definition recommend ::
  "judgement_tuning \<Rightarrow> judgement_context \<Rightarrow> sla_pressure_level \<Rightarrow> rat \<Rightarrow> judgement_recommendation" where
  "recommend t ctx level score =
     (let failed = (\<not> er_success (jc_result ctx)) in
      if level = SlaEscalate \<or> evr_verdict (jc_eval ctx) = EvAbort
         \<or> failed \<and> jt_escalate_retry_limit t \<le> jc_retry_count ctx then JudgeEscalate
      else if evr_should_revise (jc_eval ctx) \<or> failed \<or> score < jt_revise_threshold t then JudgeRevise
      else if level = SlaWatch \<or> score < jt_watch_threshold t \<or> 0 < jc_retry_count ctx then JudgeWatch
      else JudgeContinue)"

fun confidence_of :: "judgement_recommendation \<Rightarrow> rat \<Rightarrow> rat" where
  "confidence_of JudgeContinue score = clamp_f64 0 1 (f64_add score (f64_round 0.08))"
| "confidence_of JudgeWatch score = score"
| "confidence_of JudgeRevise score = clamp_f64 0 1 (f64_sub score (f64_round 0.06))"
| "confidence_of JudgeEscalate score = clamp_f64 0 1 (f64_sub score (f64_round 0.12))"

fun headline :: "judgement_recommendation \<Rightarrow> string" where
  "headline JudgeContinue = ''Judgement: continue''"
| "headline JudgeWatch = ''Judgement: watch closely''"
| "headline JudgeRevise = ''Judgement: revise the plan''"
| "headline JudgeEscalate = ''Judgement: escalate for review''"

definition build_summary :: "judgement_recommendation \<Rightarrow> rat \<Rightarrow> string list \<Rightarrow> string" where
  "build_summary rec confidence reasons =
     headline rec @ '' - confidence '' @ show_f64_0 (clamp_f64 0 100 (f64_mul confidence 100)) @ ''% - ''
       @ (case reasons of r # _ \<Rightarrow> r | [] \<Rightarrow> ''no additional concerns'')"

definition judge :: "judgement_env \<Rightarrow> judgement_context \<Rightarrow> judgement_signal" where
  "judge env ctx =
     (let t = dp_judgement (profile_for_job_type (plan_job_type (jc_plan ctx)));
          pressure = sla_pressure env (jc_state ctx);
          scored = judge_sla t pressure (judge_step t ctx (judge_verdict ctx
            (judge_result t ctx (f64_round 0.72, []))));
          score = clamp_f64 0 1 (fst scored);
          rec = recommend t ctx (sla_level t pressure) score;
          confidence = confidence_of rec score
      in \<lparr>js_step_index = ps_index (jc_step ctx), js_step_description = ps_description (jc_step ctx),
          js_job_type = plan_job_type (jc_plan ctx), js_profile = jt_name t, js_score = score,
          js_confidence = confidence, js_recommendation = rec, js_summary = build_summary rec confidence (snd scored),
          js_reasons = snd scored, js_timestamp = je_now_text env\<rparr>)"

section \<open>Limits of a run\<close>

definition should_continue :: "nat \<Rightarrow> nat \<Rightarrow> time \<Rightarrow> agent_state \<Rightarrow> bool" where
  "should_continue max_steps timeout_secs now s \<longleftrightarrow>
     as_current_step s < max_steps
     \<and> (case as_started_at s of Some started \<Rightarrow> num_seconds (now - started) < int timeout_secs | None \<Rightarrow> True)"

section \<open>Properties\<close>

lemma clamp_range: "lo \<le> hi \<Longrightarrow> lo \<le> clamp_f64 lo hi x \<and> clamp_f64 lo hi x \<le> hi"
  by (simp add: clamp_f64_def)

lemma confidence_range: "0 \<le> score \<Longrightarrow> score \<le> 1 \<Longrightarrow> 0 \<le> confidence_of rec score \<and> confidence_of rec score \<le> 1"
  by (cases rec) (simp_all add: clamp_f64_def)

lemma judge_fields:
  obtains raw where "js_score (judge env ctx) = clamp_f64 0 1 raw"
    "js_recommendation (judge env ctx) = recommend (dp_judgement (profile_for_job_type (plan_job_type (jc_plan ctx)))) ctx
       (sla_level (dp_judgement (profile_for_job_type (plan_job_type (jc_plan ctx)))) (sla_pressure env (jc_state ctx)))
       (js_score (judge env ctx))"
    "js_confidence (judge env ctx) = confidence_of (js_recommendation (judge env ctx)) (js_score (judge env ctx))"
  by (rule that) (simp_all add: judge_def Let_def)

text \<open>A judgement stays in range and does not wave a failure through: score and confidence are between
  0 and 1, an aborted step is escalated, and only a step that succeeded at its first attempt, without a
  wish to revise the plan, gets the recommendation to continue.\<close>

theorem judgement_sound:
  "0 \<le> js_score (judge env ctx) \<and> js_score (judge env ctx) \<le> 1
   \<and> 0 \<le> js_confidence (judge env ctx) \<and> js_confidence (judge env ctx) \<le> 1
   \<and> (if evr_verdict (jc_eval ctx) = EvAbort then js_recommendation (judge env ctx) = JudgeEscalate else True)
   \<and> (if js_recommendation (judge env ctx) = JudgeContinue
      then er_success (jc_result ctx) \<and> jc_retry_count ctx = 0 \<and> \<not> evr_should_revise (jc_eval ctx) else True)"
proof -
  obtain raw where j: "js_score (judge env ctx) = clamp_f64 0 1 raw"
    "js_recommendation (judge env ctx) = recommend (dp_judgement (profile_for_job_type (plan_job_type (jc_plan ctx)))) ctx
       (sla_level (dp_judgement (profile_for_job_type (plan_job_type (jc_plan ctx)))) (sla_pressure env (jc_state ctx)))
       (js_score (judge env ctx))"
    "js_confidence (judge env ctx) = confidence_of (js_recommendation (judge env ctx)) (js_score (judge env ctx))"
    by (rule judge_fields)
  have "0 \<le> js_score (judge env ctx) \<and> js_score (judge env ctx) \<le> 1"
    unfolding j(1) by (rule clamp_range) simp
  moreover from this have "0 \<le> js_confidence (judge env ctx) \<and> js_confidence (judge env ctx) \<le> 1"
    unfolding j(3) by (intro confidence_range) auto
  moreover have "(if evr_verdict (jc_eval ctx) = EvAbort then js_recommendation (judge env ctx) = JudgeEscalate else True)"
    "(if js_recommendation (judge env ctx) = JudgeContinue
      then er_success (jc_result ctx) \<and> jc_retry_count ctx = 0 \<and> \<not> evr_should_revise (jc_eval ctx) else True)"
    unfolding j(2) by (auto simp: recommend_def Let_def)
  ultimately show ?thesis by blast
qed

text \<open>A missed first response is escalated at every later step: nothing records the response.\<close>

theorem missed_response_escalates_again:
  assumes "EscalateSla ''first response SLA breached'' \<in> set (sla_check policies now status)"
    and "ss_first_response_at status = None" "ss_first_response_deadline status < now" "now \<le> now'"
  shows "EscalateSla ''first response SLA breached'' \<in> set (sla_check policies now' status)"
  using assms by (auto simp: sla_check_def split: option.splits)

text \<open>A late resolution counts as a breach only when a first response was recorded.\<close>

theorem late_resolution_unnoticed:
  "ss_first_response_at status = None \<Longrightarrow> ss_breached (record_resolution now status) = ss_breached status"
  by (simp add: record_resolution_def Let_def)

text \<open>The time that a run waits for its user counts against its timeout.\<close>

theorem waiting_counts_as_running:
  "as_started_at s = Some t \<Longrightarrow> int timeout \<le> num_seconds (now - t) \<Longrightarrow>
   \<not> should_continue max_steps timeout now (agent_mark_clarifying u s)"
  by (simp add: should_continue_def agent_mark_clarifying_def)

end
