(* ===== verification/Agent_Loop.thy ===== *)
theory Agent_Loop
  imports Agent_Plan Judgement "HOL-Library.Monad_Syntax"
begin

text \<open>
  One step of an agent (\<open>agent/loop.rs\<close>, \<open>AgentLoop::run_step\<close>): the limits of the run, the checks before
  the first step, the wait for answers, planning, the workflow engine or the step itself, and what its
  verdict does to the agent, its session tasks, its parent and its goal.

  Arguments of a step are the answers of the language model, the deserializers, the roles of the store,
  which calls of the database succeed, the memory consolidation, the file system and the result of the
  workflow engine.  The clock is read once.  Events are outside the model.  \<open>None\<close> stands for a step that
  panics or does not return.
\<close>

section \<open>Texts\<close>

definition looks_like_placeholder :: "string \<Rightarrow> bool" where
  "looks_like_placeholder value =
     (let n = to_ascii_lowercase (trim value) in
      n = [] \<or> n \<in> {''goal complete'', ''goal achieved'', ''no output''} \<or> starts_with ''step complete'' n)"

definition real_text :: "string option \<Rightarrow> string option" where
  "real_text v = Option.bind v (\<lambda>t. if looks_like_placeholder t then None else Some t)"

definition completion_summary :: "agent_state \<Rightarrow> string" where
  "completion_summary s =
     (case real_text (or_else (real_text (final_answer s)) (meta_str ''last_reflection'' s)) of
        Some t \<Rightarrow> t | None \<Rightarrow> ''goal achieved'')"

definition tool_line :: "externals \<Rightarrow> exec_result \<Rightarrow> nat \<Rightarrow> tool_result \<Rightarrow> string" where
  "tool_line ext r index t =
     (if index < length (er_tools_called r) then er_tools_called r ! index else ''tool'') @ '': ''
     @ (if tr_output t = JNull then (case tr_error t of Some e \<Rightarrow> e | None \<Rightarrow> ''no output'')
        else json_to_string ext (tr_output t))"

definition step_history_summary :: "externals \<Rightarrow> exec_result \<Rightarrow> string \<Rightarrow> string" where
  "step_history_summary ext r fallback =
     (let details = join_with [CHR 0x0A]
            (map (\<lambda>(i, t). tool_line ext r i t) (List.enumerate 0 (er_tool_results r))) in
      case real_text (er_final_answer_candidate r) of
        Some answer \<Rightarrow> answer
      | None \<Rightarrow>
          if er_tool_results r \<noteq> [] \<and> trim details \<noteq> [] then details
          else if looks_like_placeholder (er_output r) then fallback else er_output r)"

definition is_missing_provider_credentials_error :: "error_chain \<Rightarrow> bool" where
  "is_missing_provider_credentials_error e =
     list_ex (\<lambda>m. str_contains m (to_ascii_lowercase (error_text e)))
       [''has no provider credentials configured'', ''no platform fallback is available'', ''call put /credentials'']"

text \<open>The error that ends a run, by its text.\<close>

definition mentions :: "string list \<Rightarrow> string \<Rightarrow> bool" where
  "mentions markers lower = list_ex (\<lambda>m. str_contains m lower) markers"

definition classify_error :: "(string \<Rightarrow> string) \<Rightarrow> string \<Rightarrow> step_outcome" where
  "classify_error to_lowercase reason =
     (let lower = to_lowercase reason in
      if mentions [''policy'', ''permission denied'', ''access denied'', ''plane guard'', ''forbidden''] lower
      then PolicyViolation reason
      else if mentions [''rate limit'', ''too many requests'', ''429''] lower then RateLimited 60 reason
      else if mentions [''credential'', ''not found'', ''invalid schema'', ''authentication failed'', ''oauth'', ''api key''] lower
      then PermanentError reason
      else if mentions [''timeout'', ''connection refused'', ''service unavailable'', ''temporarily unavailable'',
          ''connection reset'', ''503'', ''504''] lower
      then TransientError reason 30
      else FailedStep reason)"

section \<open>Recording\<close>

text \<open>\<open>Path::join\<close>.\<close>

definition path_join :: "string \<Rightarrow> string \<Rightarrow> string" where
  "path_join a b =
     (if starts_with ''/'' b then b
      else if a = [] \<or> last a = CHR ''/'' then a @ b else a @ ''/'' @ b)"

definition step_artifact_path :: "string \<Rightarrow> string \<Rightarrow> nat \<Rightarrow> string" where
  "step_artifact_path workspace agent_id index =
     path_join (path_join (path_join (path_join workspace ''.narayan'') ''artifacts'') agent_id)
       (''step-'' @ show_nat index @ ''.json'')"

definition compact_step_pointer :: "nat \<Rightarrow> string \<Rightarrow> bool \<Rightarrow> string \<Rightarrow> string \<Rightarrow> string list \<Rightarrow> json" where
  "compact_step_pointer index description success summary path tools = obj_of_list
     [(''step_index'', JNumber (PosInt index)), (''description'', JString description), (''success'', JBool success),
      (''summary'', JString (truncate_chars 200 summary)), (''artifact_path'', JString path),
      (''tools_called'', strings tools)]"

definition put_output :: "nat \<Rightarrow> json \<Rightarrow> json list \<Rightarrow> json list" where
  "put_output i v outs = (outs @ replicate (i + 1 - length outs) JNull)[i := v]"

definition persist_skipped_step_output :: "agent_state \<Rightarrow> planned_step \<Rightarrow> string \<Rightarrow> agent_state option" where
  "persist_skipped_step_output s step summary =
     (let pointer = compact_step_pointer (ps_index step) (ps_description step) True summary
            (step_artifact_path (as_workspace_path s) (as_id s) (ps_index step)) [];
          outs = (case Option.bind (meta ''step_outputs'' s) as_array of Some xs \<Rightarrow> xs | None \<Rightarrow> [])
      in set_metadata ''step_outputs'' (JArray (put_output (ps_index step) pointer outs)) s)"

fun recommendation_str :: "judgement_recommendation \<Rightarrow> string" where
  "recommendation_str JudgeContinue = ''continue''"
| "recommendation_str JudgeWatch = ''watch''"
| "recommendation_str JudgeRevise = ''revise''"
| "recommendation_str JudgeEscalate = ''escalate''"

definition judgement_value :: "judgement_signal \<Rightarrow> json" where
  "judgement_value j = obj_of_list
     [(''step_index'', JNumber (PosInt (js_step_index j))), (''step_description'', JString (js_step_description j)),
      (''job_type'', opt_json (js_job_type j)), (''profile'', JString (js_profile j)),
      (''score'', JNumber (FloatNum (js_score j))), (''confidence'', JNumber (FloatNum (js_confidence j))),
      (''recommendation'', JString (recommendation_str (js_recommendation j))), (''summary'', JString (js_summary j)),
      (''reasons'', strings (js_reasons j)), (''timestamp'', JString (js_timestamp j))]"

definition persist_judgement_signal :: "judgement_signal \<Rightarrow> agent_state \<Rightarrow> agent_state option" where
  "persist_judgement_signal j s =
     set_metadata ''judgement_signals'' (JArray
       ((case Option.bind (meta ''judgement_signals'' s) as_array of Some xs \<Rightarrow> xs | None \<Rightarrow> []) @ [judgement_value j])) s"

definition record_judgement :: "judgement_signal \<Rightarrow> agent_state \<Rightarrow> agent_state option" where
  "record_judgement j s =
     set_metadata ''last_judgement'' (judgement_value j) s \<bind> (\<lambda>s.
       if js_recommendation j = JudgeContinue then Some s else persist_judgement_signal j s)"

definition record_reflection :: "string \<Rightarrow> string list \<Rightarrow> agent_state \<Rightarrow> agent_state option" where
  "record_reflection summary findings =
     set_all [(''last_reflection'', JString summary), (''key_findings'', strings findings)]"

definition remove_metadata :: "string \<Rightarrow> agent_state \<Rightarrow> agent_state" where
  "remove_metadata k s = s\<lparr>as_metadata := json_remove k (as_metadata s)\<rparr>"

definition reset_retries :: "agent_state \<Rightarrow> agent_state option" where
  "reset_retries s = map_option (remove_metadata ''last_step_error'') (set_metadata ''retry_count'' (JNumber (PosInt 0)) s)"

definition retry_count_of :: "agent_state \<Rightarrow> nat" where
  "retry_count_of s = (case meta ''retry_count'' s \<bind> json_as_u64 of Some n \<Rightarrow> n mod 2 ^ 32 | None \<Rightarrow> 0)"

definition dash_mark :: string where
  "dash_mark = [CHR 0xE2, CHR 0x80, CHR 0x94]"

section \<open>Completion\<close>

fun check_early_completion :: "externals \<Rightarrow> agent_state \<Rightarrow> completion_criterion list \<Rightarrow> bool option" where
  "check_early_completion ext s [] = Some False"
| "check_early_completion ext s (c # cs) =
     (case cc_check c of
        RecordUpdated _ \<Rightarrow> Some True
      | AllItemsProcessed _ \<Rightarrow>
          sum_u64 ext (List.map_filter (\<lambda>out. json_get ''processed'' out \<bind> json_as_u64) (recorded_outputs s))
          \<bind> (\<lambda>n. if 0 < n then Some True else check_early_completion ext s cs)
      | _ \<Rightarrow> check_early_completion ext s cs)"

definition criterion_value :: "criterion_result \<Rightarrow> json" where
  "criterion_value c = obj_of_list
     [(''description'', JString (crr_description c)), (''satisfied'', JBool (crr_satisfied c)),
      (''check_type'', JString (crr_check_type c)), (''detail'', JString (crr_detail c))]"

definition enriched_result :: "agent_state \<Rightarrow> bool \<Rightarrow> criterion_result list \<Rightarrow> json" where
  "enriched_result s all_satisfied results = obj_of_list
     [(''step_outputs'', (case meta ''step_outputs'' s of Some v \<Rightarrow> v | None \<Rightarrow> JObject [])),
      (''judgement_signals'', (case meta ''judgement_signals'' s of Some v \<Rightarrow> v | None \<Rightarrow> JArray [])),
      (''criteria_checks'', JArray (map criterion_value results)), (''all_criteria_satisfied'', JBool all_satisfied)]"

section \<open>The loop\<close>

record consolidation_result =
  cn_changed :: bool
  cn_skipped :: bool
  cn_summary :: string
  cn_topics_saved :: "string list"
  cn_pruned_topics :: "string list"
  cn_topic_keys :: "string list"
  cn_index_key :: string
  cn_signal_fingerprint :: string

datatype loop_call = ReadTask | WriteTask | SendMessage | WriteGoal | FileReview

record loop_env =
  le_plan :: plan_env
  le_orchestrator :: orchestrator_env
  le_evaluator :: evaluator_env
  le_judgement :: judgement_env
  le_max_steps :: nat
  le_timeout_secs :: nat
  le_ok :: "loop_call \<Rightarrow> bool"
  le_message_id :: string
  le_preflight :: "(error_chain, preflight_result) result"
  le_clarify :: "(error_chain, clarification_result) result"
  le_incorporate :: "(error_chain, string option) result"
  le_file_exists :: "string \<Rightarrow> bool"
  le_read_artifact :: "nat \<Rightarrow> json option"
  le_show_expression :: "typed_expression \<Rightarrow> string"
  le_consolidation :: "consolidation_result option"
  le_workflow_store :: bool
  le_workflow_created :: bool
  le_workflow_id :: string
  le_run_workflow :: "agent_state \<Rightarrow> (error_chain, dag_outcome) result"
  le_sla_policies :: "sla_policy list option"

record loop_state =
  ls_run :: run_state
  ls_plan :: "plan option"
  ls_tasks :: "session_task_row list"
  ls_messages :: "agent_message_row list"
  ls_goals :: "goal_instance_row list"
  ls_skills :: skill_registry
  ls_reviews :: "(nat \<times> string) list"

type_synonym loop_result = "((error_chain, step_outcome) result \<times> loop_state) option"

abbreviation le_ext :: "loop_env \<Rightarrow> externals" where "le_ext env \<equiv> pe_ext (le_plan env)"
abbreviation le_now :: "loop_env \<Rightarrow> time" where "le_now env \<equiv> pe_now (le_plan env)"
abbreviation le_lower :: "loop_env \<Rightarrow> string \<Rightarrow> string" where "le_lower env \<equiv> pe_lower (le_plan env)"
abbreviation le_store :: "loop_env \<Rightarrow> bool" where "le_store env \<equiv> pe_store (le_plan env)"

definition the_agent :: "loop_state \<Rightarrow> agent_state" where
  "the_agent st = rs_agent (ls_run st)"

definition set_agent :: "agent_state \<Rightarrow> loop_state \<Rightarrow> loop_state" where
  "set_agent s st = st\<lparr>ls_run := (ls_run st)\<lparr>rs_agent := s\<rparr>\<rparr>"

definition push_history :: "nat \<Rightarrow> string \<Rightarrow> bool \<Rightarrow> string \<Rightarrow> loop_state \<Rightarrow> loop_state" where
  "push_history i desc ok out st =
     st\<lparr>ls_run := (ls_run st)\<lparr>rs_history := history_push i desc ok out (rs_history (ls_run st))\<rparr>\<rparr>"

definition exit_with :: "step_outcome \<Rightarrow> loop_state \<Rightarrow> loop_result" where
  "exit_with outcome st = Some (Inr outcome, st)"

text \<open>\<open>next_run_after\<close>; chrono panics on an instant out of range.\<close>

definition wait_for :: "loop_env \<Rightarrow> int \<Rightarrow> agent_state \<Rightarrow> agent_state option" where
  "wait_for env delay s =
     map_option (\<lambda>t. agent_mark_waiting t (le_now env) s) (dt_add_secs (le_ext env) (le_now env) delay)"

subsection \<open>Session tasks\<close>

definition step_task_id :: "agent_state \<Rightarrow> nat \<Rightarrow> string" where
  "step_task_id s i = as_id s @ '':workflow_step:'' @ show_nat i"

definition step_subject :: "planned_step \<Rightarrow> string" where
  "step_subject step = ''Step '' @ show_nat (ps_index step + 1) @ '': '' @ ps_description step"

definition load_task :: "loop_env \<Rightarrow> agent_state \<Rightarrow> nat \<Rightarrow> session_task_row list \<Rightarrow> session_task option" where
  "load_task env s i tasks =
     (if le_ok env ReadTask then get_session_task (as_tenant_id s) (step_task_id s i) tasks else None)"

definition task_of_step :: "loop_env \<Rightarrow> agent_state \<Rightarrow> planned_step \<Rightarrow> session_task_row list \<Rightarrow> session_task" where
  "task_of_step env s step tasks =
     (case load_task env s (ps_index step) tasks of
        Some t \<Rightarrow> t
      | None \<Rightarrow> session_task_new (step_task_id s (ps_index step)) (as_tenant_id s) (as_id s) (step_subject step)
          (ps_success_criteria step) (le_now env))"

definition save_task :: "loop_env \<Rightarrow> session_task \<Rightarrow> session_task_row list \<Rightarrow> session_task_row list" where
  "save_task env t tasks = (if le_ok env WriteTask then upsert_session_task (le_ext env) t tasks else tasks)"

fun set_task_fields :: "(string \<times> json) list \<Rightarrow> session_task \<Rightarrow> session_task option" where
  "set_task_fields [] t = Some t"
| "set_task_fields ((k, v) # kvs) t =
     json_set k v (st_metadata t) \<bind> (\<lambda>m. set_task_fields kvs (t\<lparr>st_metadata := m\<rparr>))"

definition synced_status :: "nat \<Rightarrow> nat \<Rightarrow> session_task_status \<Rightarrow> session_task_status option" where
  "synced_status index current status =
     (if index < current then Some TaskCompleted
      else if index = current \<or> \<not> task_finished status then Some TaskPending else None)"

definition sync_task :: "loop_env \<Rightarrow> agent_state \<Rightarrow> planned_step \<Rightarrow> session_task_row list \<Rightarrow> session_task_row list option" where
  "sync_task env s step tasks =
     map_option (\<lambda>t. save_task env
         (case synced_status (ps_index step) (as_current_step s) (st_status t) of
            Some status \<Rightarrow> set_status status (le_now env) t | None \<Rightarrow> t) tasks)
       (set_task_fields
         [(''step_index'', JNumber (PosInt (ps_index step))), (''planner_hint'', opt_json (ps_tool step)),
          (''execution_contract'', JString ''workflow_step'')]
         ((task_of_step env s step tasks)\<lparr>st_subject := step_subject step, st_description := ps_success_criteria step\<rparr>))"

fun sync_tasks :: "loop_env \<Rightarrow> agent_state \<Rightarrow> planned_step list \<Rightarrow> session_task_row list \<Rightarrow> session_task_row list option" where
  "sync_tasks env s [] tasks = Some tasks"
| "sync_tasks env s (step # steps) tasks = sync_task env s step tasks \<bind> sync_tasks env s steps"

definition sync_session_tasks_for_plan :: "loop_env \<Rightarrow> plan \<Rightarrow> loop_state \<Rightarrow> loop_state option" where
  "sync_session_tasks_for_plan env p st =
     (if le_store env
      then map_option (\<lambda>tasks. st\<lparr>ls_tasks := tasks\<rparr>) (sync_tasks env (the_agent st) (plan_steps p) (ls_tasks st))
      else Some st)"

definition mark_step_task_in_progress :: "loop_env \<Rightarrow> planned_step \<Rightarrow> loop_state \<Rightarrow> loop_state option" where
  "mark_step_task_in_progress env step st =
     (let s = the_agent st in
      if le_store env
      then map_option (\<lambda>t. set_agent (s\<lparr>as_current_task := Some (step_task_id s (ps_index step))\<rparr>)
             (st\<lparr>ls_tasks := save_task env t (ls_tasks st)\<rparr>))
        (set_task_fields [(''step_index'', JNumber (PosInt (ps_index step)))]
          (set_status TaskInProgress (le_now env) (task_of_step env s step (ls_tasks st))))
      else Some st)"

definition task_output :: "session_task_result_status \<Rightarrow> string list \<Rightarrow> rat \<Rightarrow> string \<Rightarrow> session_task_output" where
  "task_output status findings confidence note =
     \<lparr>to_status = status, to_artifacts = [], to_findings = findings, to_confidence = confidence, to_note = Some note\<rparr>"

definition mark_step_task_finished ::
  "loop_env \<Rightarrow> planned_step \<Rightarrow> session_task_status \<Rightarrow> session_task_output \<Rightarrow> loop_state \<Rightarrow> loop_state" where
  "mark_step_task_finished env step status output st =
     (let s = the_agent st; tid = step_task_id s (ps_index step) in
      case (if le_store env then load_task env s (ps_index step) (ls_tasks st) else None) of
        None \<Rightarrow> st
      | Some t \<Rightarrow>
          set_agent (if as_current_task s = Some tid then s\<lparr>as_current_task := None\<rparr> else s)
            (st\<lparr>ls_tasks := save_task env (set_output output (le_now env) (set_status status (le_now env) t)) (ls_tasks st)\<rparr>))"

subsection \<open>The parent\<close>

definition delegation_field :: "string \<Rightarrow> agent_state \<Rightarrow> json option" where
  "delegation_field k s = meta ''delegation_context'' s \<bind> json_get k"

definition worker_result ::
  "loop_env \<Rightarrow> session_task_result_status \<Rightarrow> string \<Rightarrow> string list \<Rightarrow> agent_state \<Rightarrow> string \<Rightarrow> agent_message" where
  "worker_result env status note findings s parent =
     (agent_message_new (le_message_id env) (as_tenant_id s) (as_id s) parent ResultMessage ''worker_result'' note (le_now env))
       \<lparr>am_task_id := or_else (delegation_field ''task_id'' s \<bind> as_str) (as_current_task s),
        am_step_index := Some (as_current_step s),
        am_metadata := obj_of_list
          [(''auto_generated'', JBool True),
           (''worker_type'', (case delegation_field ''worker_type'' s of Some v \<Rightarrow> v | None \<Rightarrow> JNull)),
           (''write_scope'', (case delegation_field ''write_scope'' s of Some v \<Rightarrow> v | None \<Rightarrow> JArray []))],
        am_result_contract := Some
          \<lparr>to_status = status, to_artifacts = (if trim (as_workspace_path s) = [] then [] else [as_workspace_path s]),
           to_findings = findings, to_confidence = 1, to_note = Some note\<rparr>\<rparr>"

definition notify_parent ::
  "loop_env \<Rightarrow> session_task_result_status \<Rightarrow> string \<Rightarrow> string list \<Rightarrow> loop_state \<Rightarrow> loop_state" where
  "notify_parent env status note findings st =
     (case as_parent_agent_id (the_agent st) of
        None \<Rightarrow> st
      | Some parent \<Rightarrow>
          if le_store env \<and> le_ok env SendMessage
          then st\<lparr>ls_messages := create_agent_message (le_ext env)
            (worker_result env status note findings (the_agent st) parent) (ls_messages st)\<rparr>
          else st)"

definition fail_run :: "loop_env \<Rightarrow> string \<Rightarrow> loop_state \<Rightarrow> loop_state" where
  "fail_run env reason st =
     notify_parent env ResultFailed reason [reason] (set_agent (agent_mark_failed (le_now env) (the_agent st)) st)"

definition consolidated :: "loop_env \<Rightarrow> agent_state \<Rightarrow> agent_state option" where
  "consolidated env s =
     (case le_consolidation env of
        None \<Rightarrow> Some s
      | Some r \<Rightarrow>
          set_metadata ''memory_consolidation'' (obj_of_list
            [(''last_run_at'', JString (pe_now_text (le_plan env))), (''changed'', JBool (cn_changed r)),
             (''skipped'', JBool (cn_skipped r)), (''summary'', JString (cn_summary r)),
             (''topics_saved'', strings (cn_topics_saved r)), (''pruned_topics'', strings (cn_pruned_topics r)),
             (''topic_keys'', strings (cn_topic_keys r)), (''index_key'', JString (cn_index_key r)),
             (''signal_fingerprint'', JString (cn_signal_fingerprint r))])
            (s\<lparr>as_memory_ref := Some (as_id s @ '':'' @ cn_index_key r)\<rparr>))"

definition complete_run :: "loop_env \<Rightarrow> string \<Rightarrow> (agent_state \<Rightarrow> string list) \<Rightarrow> loop_state \<Rightarrow> loop_state option" where
  "complete_run env note findings st =
     map_option (\<lambda>s. notify_parent env ResultComplete note (findings s) (set_agent s st))
       (consolidated env (agent_mark_completed (le_now env) (the_agent st)))"

subsection \<open>Before the first step\<close>

definition ask_user :: "loop_env \<Rightarrow> clarification_question list \<Rightarrow> loop_state \<Rightarrow> loop_result" where
  "ask_user env questions st =
     set_metadata ''clarification_questions'' (questions_value questions) (the_agent st) \<bind> (\<lambda>s.
     exit_with (NeedsClarification (map question_value questions))
       (set_agent (agent_mark_clarifying (le_now env) s) st))"

definition prompt_for_provider_credentials :: "loop_env \<Rightarrow> loop_state \<Rightarrow> loop_result" where
  "prompt_for_provider_credentials env = ask_user env provider_credentials_questions"

definition failed_check :: "loop_env \<Rightarrow> error_chain \<Rightarrow> loop_state \<Rightarrow> loop_result" where
  "failed_check env e st =
     (if is_missing_provider_credentials_error e then prompt_for_provider_credentials env st else Some (Inl e, st))"

definition infeasible_text :: "string \<Rightarrow> string list \<Rightarrow> string" where
  "infeasible_text reason missing =
     ''Goal not achievable. '' @ reason @ ''. Missing tools: ''
     @ (if missing = [] then ''none'' else join_with '', '' missing)"

definition run_preflight :: "loop_env \<Rightarrow> loop_state \<Rightarrow> loop_result" where
  "run_preflight env st0 =
     (let st = set_agent (agent_mark_preflight (le_now env) (le_now env) (the_agent st0)) st0 in
      case le_preflight env of
        Inl e \<Rightarrow> failed_check env e st
      | Inr (NotFeasible reason missing) \<Rightarrow>
          exit_with (Infeasible (infeasible_text reason missing)) (fail_run env (infeasible_text reason missing) st)
      | Inr Feasible \<Rightarrow>
          (case le_clarify env of
             Inl e \<Rightarrow> failed_check env e st
           | Inr Clear \<Rightarrow> wait_for env 0 (the_agent st) \<bind> (\<lambda>s. exit_with (Continue 0) (set_agent s st))
           | Inr (NeedsInput questions) \<Rightarrow> ask_user env questions st))"

subsection \<open>Planning\<close>

text \<open>\<open>ClarificationAnswers\<close> as serde reads it.\<close>

fun answers_ok :: "json \<Rightarrow> bool" where
  "answers_ok (JObject m) =
     ((case map_of m ''answers'' of Some v \<Rightarrow> strings_or_empty (Some v) \<noteq> None | None \<Rightarrow> False)
      \<and> opt_string (map_of m ''freeform'') \<noteq> None)"
| "answers_ok (JArray [a, f]) = (strings_or_empty (Some a) \<noteq> None \<and> opt_string (Some f) \<noteq> None)"
| "answers_ok _ = False"

definition incorporate_answers :: "loop_env \<Rightarrow> agent_state \<Rightarrow> agent_state option" where
  "incorporate_answers env s =
     (if meta ''refined_goal'' s = None \<and> (case meta ''clarification_answers'' s of Some v \<Rightarrow> answers_ok v | None \<Rightarrow> False)
      then (case clarifier_incorporate s (le_incorporate env) of
              Inr goal \<Rightarrow> set_metadata ''refined_goal'' (JString goal) s
            | Inl _ \<Rightarrow> Some s)
      else Some s)"

text \<open>\<open>Inr\<close> goes on, \<open>Inl\<close> ends the step.\<close>

definition plan_phase :: "loop_env \<Rightarrow> loop_state \<Rightarrow> (((error_chain, step_outcome) result \<times> loop_state) + loop_state) option" where
  "plan_phase env st =
     (if ls_plan st \<noteq> None then Some (Inr st)
      else incorporate_answers env (the_agent st) \<bind> (\<lambda>s.
        choose_plan (le_plan env) (ls_skills st) s \<bind> (\<lambda>(chosen, s').
          let st' = set_agent s' st in
          (case chosen of
             Planned p \<Rightarrow> map_option (\<lambda>st''. Inr (st''\<lparr>ls_plan := Some p\<rparr>)) (sync_session_tasks_for_plan env p st')
           | AskRecompile reason kind \<Rightarrow> Some (Inl (Inr (NeedsRecompile reason kind), st'))
           | NoPlan reason \<Rightarrow> Some (Inl (Inr (FailedStep reason), fail_run env reason st'))))))"

subsection \<open>The workflow engine\<close>

definition workflow_end :: "loop_env \<Rightarrow> (error_chain, dag_outcome) result \<Rightarrow> agent_state \<Rightarrow> step_outcome \<times> agent_state" where
  "workflow_end env r s =
     (let s' = s\<lparr>as_workflow_id := None\<rparr> in
      case r of
        Inr DagCompleted \<Rightarrow> (Complete, agent_mark_completed (le_now env) s')
      | Inr DagCancelled \<Rightarrow> (FailedStep ''DAG workflow cancelled'', agent_mark_failed (le_now env) s')
      | Inr (DagFailed reason) \<Rightarrow> (FailedStep reason, agent_mark_failed (le_now env) s')
      | Inl e \<Rightarrow> (FailedStep (''DAG engine error: '' @ join_with '': '' e), agent_mark_failed (le_now env) s'))"

definition workflow_phase :: "loop_env \<Rightarrow> loop_state \<Rightarrow> (step_outcome \<times> loop_state) + loop_state" where
  "workflow_phase env st =
     (let s = the_agent st in
      if le_workflow_store env \<and> as_workflow_id s = None \<and> le_workflow_created env
      then let s1 = s\<lparr>as_workflow_id := Some (le_workflow_id env)\<rparr>;
               (outcome, s2) = workflow_end env (le_run_workflow env s1) s1
           in Inl (outcome, set_agent s2 st)
      else Inr st)"

subsection \<open>Ends of a step\<close>

definition plan_completed :: "loop_env \<Rightarrow> loop_state \<Rightarrow> loop_result" where
  "plan_completed env st =
     (let summary = completion_summary (the_agent st) in
      complete_run env summary (\<lambda>s. case meta ''key_findings'' s \<bind> as_array of
          Some xs \<Rightarrow> List.map_filter as_str xs | None \<Rightarrow> [summary]) st
      \<bind> exit_with Complete)"

definition skip_step :: "loop_env \<Rightarrow> planned_step \<Rightarrow> string \<Rightarrow> loop_state \<Rightarrow> loop_result" where
  "skip_step env step summary st =
     persist_skipped_step_output (the_agent st) step summary \<bind> (\<lambda>s.
     record_reflection summary [] s \<bind> (\<lambda>s.
     reset_retries s \<bind> (\<lambda>s.
     advance_step (le_ext env) (le_now env) s \<bind> (\<lambda>s.
     wait_for env 0 s \<bind> (\<lambda>s.
     exit_with (Continue 0) (mark_step_task_finished env step TaskCompleted
       (task_output ResultComplete [summary] 1 ''step skipped by deterministic condition'')
       (push_history (ps_index step) (ps_description step) True summary (set_agent s st))))))))"

definition direct_answer :: "loop_env \<Rightarrow> plan \<Rightarrow> planned_step \<Rightarrow> exec_result \<Rightarrow> agent_state \<Rightarrow> bool" where
  "direct_answer env p step r s \<longleftrightarrow>
     is_direct_response_goal (le_lower env) (as_goal s) \<and> length (plan_steps p) = 1
     \<and> ps_tool step = Some LLM_WORKER_TOOL_NAME \<and> er_success r \<and> er_tool_results r = []"

definition answer_directly :: "loop_env \<Rightarrow> planned_step \<Rightarrow> exec_result \<Rightarrow> loop_state \<Rightarrow> loop_result" where
  "answer_directly env step r st =
     (let s = the_agent st; answer = (case final_answer s of Some a \<Rightarrow> a | None \<Rightarrow> er_output r) in
      set_final_answer answer (le_now env) s \<bind> (\<lambda>s.
      record_reflection answer [] s \<bind> (\<lambda>s.
      complete_run env answer (\<lambda>_. [answer])
        (push_history (ps_index step) (ps_description step) True answer (set_agent s st))
      \<bind> exit_with Complete)))"

definition blocked_text :: "planned_step \<Rightarrow> string \<Rightarrow> string" where
  "blocked_text step reason =
     ''Step '' @ show_nat (ps_index step) @ '' blocked by policy/permission rule: '' @ reason"

definition block_step :: "loop_env \<Rightarrow> planned_step \<Rightarrow> string \<Rightarrow> loop_state \<Rightarrow> loop_result" where
  "block_step env step reason st =
     record_reflection ''Aborted by deterministic FailureRule'' [] (the_agent st) \<bind> (\<lambda>s.
     exit_with (PermanentError (blocked_text step reason))
       (fail_run env (blocked_text step reason) (set_agent s st)))"

subsection \<open>After an evaluation\<close>

definition evolve_active_skill :: "exec_result \<Rightarrow> agent_state \<Rightarrow> skill_registry \<Rightarrow> skill_registry" where
  "evolve_active_skill r s reg =
     (case (if er_success r then meta_str ''active_skill'' s \<bind> (\<lambda>name. skill_get name reg) else None) of
        None \<Rightarrow> reg
      | Some old \<Rightarrow>
          let improvements = take 2 (map (truncate_chars 80)
                (List.map_filter (\<lambda>t. if tr_success t then json_get ''text'' (tr_output t) \<bind> as_str else None)
                  (er_tool_results r)))
          in if improvements = [] then reg else skill_register (evolve_skill old improvements) reg)"

fun review_reason :: "escalation_action \<Rightarrow> string option" where
  "review_reason (EscalateSla reason) = Some reason"
| "review_reason _ = None"

definition sla_reviews :: "loop_env \<Rightarrow> planned_step \<Rightarrow> agent_state \<Rightarrow> (nat \<times> string) list" where
  "sla_reviews env step s =
     (case (le_sla_policies env, meta ''sla_status'' s \<bind> je_sla (le_judgement env)) of
        (Some policies, Some status) \<Rightarrow>
          (if le_ok env FileReview
           then map (Pair (ps_index step)) (List.map_filter review_reason (sla_check policies (le_now env) status))
           else [])
      | _ \<Rightarrow> [])"

definition note_evaluation ::
  "loop_env \<Rightarrow> plan \<Rightarrow> planned_step \<Rightarrow> exec_result \<Rightarrow> eval_reflection \<Rightarrow> loop_state \<Rightarrow> loop_state option" where
  "note_evaluation env p step r ev st =
     record_reflection (evr_summary ev) (evr_key_findings ev) (the_agent st) \<bind> (\<lambda>s.
     record_judgement (judge (le_judgement env) \<lparr>jc_state = s, jc_plan = p, jc_step = step, jc_result = r,
        jc_eval = ev, jc_retry_count = retry_count_of (the_agent st)\<rparr>) s \<bind> (\<lambda>s'.
     Some (push_history (ps_index step) (ps_description step) (er_success r)
         (step_history_summary (le_ext env) r (evr_summary ev))
       (set_agent s' (st\<lparr>ls_skills := evolve_active_skill r s' (ls_skills st),
          ls_reviews := ls_reviews st @ sla_reviews env step s'\<rparr>)))))"

definition early_complete :: "loop_env \<Rightarrow> agent_state \<Rightarrow> bool option" where
  "early_complete env s =
     (case loop_role (le_plan env) s of
        Some role \<Rightarrow> check_early_completion (le_ext env) s (eg_completion_criteria (ro_execution_guidelines role))
      | None \<Rightarrow> Some False)"

definition keep_answer :: "loop_env \<Rightarrow> eval_reflection \<Rightarrow> agent_state \<Rightarrow> agent_state option" where
  "keep_answer env ev s =
     (if final_answer s = None \<and> \<not> looks_like_placeholder (evr_summary ev)
      then set_final_answer (evr_summary ev) (le_now env) s else Some s)"

definition complete_early :: "loop_env \<Rightarrow> planned_step \<Rightarrow> eval_reflection \<Rightarrow> loop_state \<Rightarrow> loop_result" where
  "complete_early env step ev st =
     keep_answer env ev (the_agent st) \<bind> (\<lambda>s.
     complete_run env (evr_summary ev) (\<lambda>_. [evr_summary ev]) (set_agent s st) \<bind> (\<lambda>st.
     exit_with Complete (mark_step_task_finished env step TaskCompleted
       (task_output ResultComplete [evr_summary ev] 1 ''completion criteria satisfied early'') st)))"

definition go_on :: "loop_env \<Rightarrow> planned_step \<Rightarrow> eval_reflection \<Rightarrow> loop_state \<Rightarrow> loop_result" where
  "go_on env step ev st0 =
     reset_retries (the_agent st0) \<bind> (\<lambda>s. let st = set_agent s st0 in
     early_complete env s \<bind> (\<lambda>early.
     if early then complete_early env step ev st
     else advance_step (le_ext env) (le_now env) s \<bind> (\<lambda>s.
       wait_for env 0 s \<bind> (\<lambda>s.
       exit_with (Continue 0) (mark_step_task_finished env step TaskCompleted
         (task_output ResultComplete [evr_summary ev] 1 ''step completed successfully'') (set_agent s st))))))"

definition write_goal_result :: "loop_env \<Rightarrow> json \<Rightarrow> loop_state \<Rightarrow> loop_state" where
  "write_goal_result env result st =
     (case meta_str ''goal_instance_id'' (the_agent st) of
        Some gid \<Rightarrow>
          if le_store env \<and> le_ok env WriteGoal
          then st\<lparr>ls_goals := update_goal_instance_result (as_tenant_id (the_agent st)) gid result (le_now env) (ls_goals st)\<rparr>
          else st
      | None \<Rightarrow> st)"

definition checked_criteria :: "loop_env \<Rightarrow> agent_state \<Rightarrow> (bool \<times> criterion_result list) option" where
  "checked_criteria env s =
     (case loop_role (le_plan env) s of
        Some role \<Rightarrow> check_completion_criteria (le_ext env) (le_file_exists env) role s
      | None \<Rightarrow> Some (True, []))"

definition unmet_note :: "string list \<Rightarrow> string" where
  "unmet_note failed = show_nat (length failed) @ '' criteria not met: '' @ join_with ''; '' failed"

definition complete_goal :: "loop_env \<Rightarrow> planned_step \<Rightarrow> eval_reflection \<Rightarrow> loop_state \<Rightarrow> loop_result" where
  "complete_goal env step ev st0 =
     keep_answer env ev (the_agent st0) \<bind> (\<lambda>s.
     checked_criteria env s \<bind> (\<lambda>(all_satisfied, results).
     let summary = completion_summary s; result = enriched_result s all_satisfied results; st = set_agent s st0 in
     if all_satisfied
     then complete_run env summary (\<lambda>_. [summary]) st \<bind> (\<lambda>st.
       exit_with Complete (write_goal_result env result (mark_step_task_finished env step TaskCompleted
         (task_output ResultComplete [summary] 1 ''goal completed and criteria satisfied'') st)))
     else let failed = map crr_description (filter (\<lambda>c. \<not> crr_satisfied c) results); note = unmet_note failed in
       agent_mark_partially_complete note result (le_now env) s \<bind> (\<lambda>s'.
       exit_with (PartiallyComplete note) (write_goal_result env result
         (mark_step_task_finished env step TaskBlocked (task_output ResultPartial failed 1 note)
           (notify_parent env ResultPartial note failed (set_agent s' st)))))))"

definition retry_delay :: "nat \<Rightarrow> int" where
  "retry_delay retry_count = 10 * 2 ^ min retry_count 4"

definition half :: rat where
  "half = 1 / 2"

definition retry_step ::
  "loop_env \<Rightarrow> planned_step \<Rightarrow> exec_result \<Rightarrow> eval_reflection \<Rightarrow> nat \<Rightarrow> loop_state \<Rightarrow> loop_result" where
  "retry_step env step r ev retry_count st =
     (let delay = retry_delay retry_count; last_error = join_with '' | '' (failed_errors r) in
      set_metadata ''retry_count'' (JNumber (PosInt (retry_count + 1))) (the_agent st) \<bind> (\<lambda>s.
      wait_for env delay s \<bind> (\<lambda>s.
      set_metadata ''last_step_error'' (JString (if last_error = [] then evr_summary ev else last_error)) s \<bind> (\<lambda>s.
      exit_with (Continue delay) (mark_step_task_finished env step TaskBlocked
        (task_output ResultPartial [evr_summary ev] half
          (''retry scheduled after '' @ show_nat (nat delay) @ '' seconds'')) (set_agent s st))))))"

definition abort_text :: "planned_step \<Rightarrow> eval_reflection \<Rightarrow> string" where
  "abort_text step ev = ''step '' @ show_nat (ps_index step) @ '' aborted: '' @ evr_summary ev"

definition abort_step :: "loop_env \<Rightarrow> planned_step \<Rightarrow> eval_reflection \<Rightarrow> loop_state \<Rightarrow> loop_result" where
  "abort_step env step ev st =
     (let reason = abort_text step ev in
      exit_with (classify_error (le_lower env) reason)
        (mark_step_task_finished env step TaskFailed
          (task_output ResultFailed [reason] 1 (evr_summary ev)) (fail_run env reason st)))"

definition conclude ::
  "loop_env \<Rightarrow> planned_step \<Rightarrow> exec_result \<Rightarrow> eval_reflection \<Rightarrow> nat \<Rightarrow> loop_state \<Rightarrow> loop_result" where
  "conclude env step r ev retry_count st =
     (case evr_verdict ev of
        EvContinue \<Rightarrow> go_on env step ev st
      | EvGoalComplete \<Rightarrow> complete_goal env step ev st
      | EvRetry \<Rightarrow> retry_step env step r ev retry_count st
      | EvAbort \<Rightarrow> abort_step env step ev st)"

definition evaluate_step :: "loop_env \<Rightarrow> plan \<Rightarrow> planned_step \<Rightarrow> exec_result \<Rightarrow> loop_state \<Rightarrow> loop_result" where
  "evaluate_step env p step r st =
     (let retry_count = retry_count_of (the_agent st) in
      case evaluate_and_reflect (le_evaluator env) (the_agent st) p step r retry_count 3 of
        Inl TaskPanicked \<Rightarrow> None
      | Inl (TaskError e) \<Rightarrow> Some (Inl e, st)
      | Inr ev \<Rightarrow> note_evaluation env p step r ev st \<bind> conclude env step r ev retry_count)"

subsection \<open>The step\<close>

definition after_verdict :: "loop_env \<Rightarrow> plan \<Rightarrow> planned_step \<Rightarrow> step_verdict \<Rightarrow> loop_state \<Rightarrow> loop_result" where
  "after_verdict env p step v st =
     (case v of
        Executed r _ \<Rightarrow>
          if direct_answer env p step r (the_agent st) then answer_directly env step r st
          else evaluate_step env p step r st
      | StepSkipped _ \<Rightarrow> exit_with (Continue 0) st
      | DelegatedStep _ child_ids \<Rightarrow>
          advance_step (le_ext env) (le_now env) (the_agent st) \<bind> (\<lambda>s.
          exit_with (Delegating child_ids) (set_agent (agent_mark_delegating child_ids (le_now env) s) st))
      | ClarificationNeeded _ questions \<Rightarrow> ask_user env questions st
      | DeterministicAbort _ reason \<Rightarrow> block_step env step reason st
      | step_verdict.StepError e \<Rightarrow> failed_check env e st)"

definition execute_planned :: "loop_env \<Rightarrow> plan \<Rightarrow> planned_step \<Rightarrow> loop_state \<Rightarrow> loop_result" where
  "execute_planned env p step st =
     mark_step_task_in_progress env step (set_agent (agent_mark_running (le_now env) (the_agent st)) st) \<bind> (\<lambda>st.
     orchestrate_step (le_orchestrator env) step p (ls_run st) \<bind> (\<lambda>res.
       case res of
         Inl _ \<Rightarrow> None
       | Inr (v, run) \<Rightarrow> after_verdict env p step v (st\<lparr>ls_run := run\<rparr>)))"

definition linear_step :: "loop_env \<Rightarrow> plan \<Rightarrow> loop_state \<Rightarrow> loop_result" where
  "linear_step env p st =
     (case plan_next_step p (as_current_step (the_agent st)) of
        None \<Rightarrow> plan_completed env st
      | Some step \<Rightarrow>
          (case evaluate_step_condition (le_ext env) (le_read_artifact env) (le_show_expression env) (the_agent st) step of
             Inl e \<Rightarrow> Some (Inl [e], st)
           | Inr (Some summary) \<Rightarrow> skip_step env step summary st
           | Inr None \<Rightarrow> execute_planned env p step st))"

definition limit_text :: "loop_env \<Rightarrow> string" where
  "limit_text env = ''agent exceeded safety limits ('' @ show_nat (le_max_steps env) @ '' steps / ''
     @ show_nat (le_timeout_secs env) @ ''s timeout) '' @ dash_mark @ '' aborting to prevent infinite loop''"

definition stored_questions :: "agent_state \<Rightarrow> clarification_question list" where
  "stored_questions s =
     (case meta ''clarification_questions'' s of Some v \<Rightarrow> parse_clarification_questions v | None \<Rightarrow> [])"

definition agent_step :: "loop_env \<Rightarrow> loop_state \<Rightarrow> loop_result" where
  "agent_step env st =
     (let s = the_agent st in
      if \<not> should_continue (le_max_steps env) (le_timeout_secs env) (le_now env) s
      then exit_with (FailedStep (limit_text env)) (fail_run env (limit_text env) st)
      else if as_status s = AgentPending then run_preflight env st
      else if as_status s = AgentClarifying
      then exit_with (NeedsClarification (map question_value (stored_questions s))) st
      else if as_status s = AgentPlanApprovalNeeded then exit_with PlanApprovalNeeded st
      else plan_phase env st \<bind> (\<lambda>planned. case planned of
        Inl (res, st') \<Rightarrow> Some (res, st')
      | Inr st1 \<Rightarrow>
          (case workflow_phase env st1 of
             Inl (outcome, st') \<Rightarrow> exit_with outcome st'
           | Inr st2 \<Rightarrow> (case ls_plan st2 of Some p \<Rightarrow> linear_step env p st2 | None \<Rightarrow> None))))"

end
