(* ===== verification/Agent_Run.thy ===== *)
theory Agent_Run
  imports Agent_Loop
begin

text \<open>
  What a step of the agent loop does to its agent: which part of the state it leaves alone, how its outcome
  and the status of the agent agree, how far the position moves, and how often a step is retried.
\<close>

section \<open>Quiet changes\<close>

text \<open>A quiet change keeps who the agent is, its status, when it is due, its position and its children.\<close>

definition same_agent :: "agent_state \<Rightarrow> agent_state \<Rightarrow> bool" where
  "same_agent s s' \<longleftrightarrow> as_id s' = as_id s \<and> as_tenant_id s' = as_tenant_id s \<and> as_goal s' = as_goal s
     \<and> as_workspace_path s' = as_workspace_path s \<and> as_parent_agent_id s' = as_parent_agent_id s
     \<and> as_created_at s' = as_created_at s \<and> as_claimed_by s' = as_claimed_by s
     \<and> as_lease_expires_at s' = as_lease_expires_at s"

definition quiet :: "agent_state \<Rightarrow> agent_state \<Rightarrow> bool" where
  "quiet s s' \<longleftrightarrow> same_agent s s' \<and> as_status s' = as_status s \<and> as_next_run s' = as_next_run s
     \<and> as_current_step s' = as_current_step s \<and> as_pending_children s' = as_pending_children s"

named_theorems quiet_intros

lemma quiet_refl [simp]: "quiet s s"
  by (simp add: quiet_def same_agent_def)

lemma quiet_trans [trans]: "quiet s t \<Longrightarrow> quiet t u \<Longrightarrow> quiet s u"
  by (auto simp: quiet_def same_agent_def)

lemma same_agent_refl [simp]: "same_agent s s"
  by (simp add: same_agent_def)

lemma same_agent_trans [trans]: "same_agent s t \<Longrightarrow> same_agent t u \<Longrightarrow> same_agent s u"
  by (auto simp: same_agent_def)

lemma quiet_same: "quiet s t \<Longrightarrow> same_agent s t"
  by (simp add: quiet_def)

lemma quiet_update [simp]: "quiet s (s\<lparr>as_metadata := m\<rparr>)" "quiet s (s\<lparr>as_current_task := t\<rparr>)"
  "quiet s (s\<lparr>as_memory_ref := r\<rparr>)" "quiet s (s\<lparr>as_updated_at := u\<rparr>)" "quiet s (s\<lparr>as_workflow_id := w\<rparr>)"
  "quiet s (s\<lparr>as_final_answer := f\<rparr>)"
  by (simp_all add: quiet_def same_agent_def)

lemma quiet_set_metadata [quiet_intros]: "set_metadata k v s = Some s' \<Longrightarrow> quiet s s'"
  by (auto dest!: set_metadata_only)

lemma quiet_set_all [quiet_intros]: "set_all kvs s = Some s' \<Longrightarrow> quiet s s'"
  by (auto dest!: set_all_only)

lemma quiet_record_reflection [quiet_intros]: "record_reflection t fs s = Some s' \<Longrightarrow> quiet s s'"
  unfolding record_reflection_def by (rule quiet_set_all)

lemma quiet_remove_metadata [simp]: "quiet s (remove_metadata k s)"
  by (simp add: remove_metadata_def)

lemma quiet_reset_retries [quiet_intros]:
  assumes "reset_retries s = Some s'"
  shows "quiet s s'"
proof -
  from assms obtain t where "set_metadata ''retry_count'' (JNumber (PosInt 0)) s = Some t"
    "s' = remove_metadata ''last_step_error'' t"
    by (auto simp: reset_retries_def)
  then show ?thesis by (auto intro: quiet_trans quiet_set_metadata)
qed

lemma quiet_set_final_answer [quiet_intros]: "set_final_answer a now s = Some s' \<Longrightarrow> quiet s s'"
  by (erule set_final_answer_frame) (simp add: quiet_def same_agent_def)

lemma quiet_keep_answer [quiet_intros]: "keep_answer env ev s = Some s' \<Longrightarrow> quiet s s'"
  by (auto simp: keep_answer_def split: if_splits intro: quiet_set_final_answer)

lemma quiet_record_judgement [quiet_intros]:
  assumes "record_judgement j s = Some s'"
  shows "quiet s s'"
proof -
  from assms obtain t where t: "set_metadata ''last_judgement'' (judgement_value j) s = Some t"
    and "t = s' \<or> persist_judgement_signal j t = Some s'"
    by (auto simp: record_judgement_def bind_eq_Some_conv split: if_splits)
  then have "quiet t s'" by (auto simp: persist_judgement_signal_def intro: quiet_set_metadata)
  with quiet_set_metadata [OF t] show ?thesis by (rule quiet_trans)
qed

lemma quiet_persist_skipped [quiet_intros]: "persist_skipped_step_output s step summary = Some s' \<Longrightarrow> quiet s s'"
  by (auto simp: persist_skipped_step_output_def Let_def intro: quiet_set_metadata)

lemma quiet_incorporate_answers [quiet_intros]: "incorporate_answers env s = Some s' \<Longrightarrow> quiet s s'"
  by (auto simp: incorporate_answers_def split: if_splits sum.splits intro: quiet_set_metadata)

lemma quiet_choose_plan [quiet_intros]: "choose_plan env reg s = Some (r, s') \<Longrightarrow> quiet s s'"
  by (auto dest!: choose_plan_only)

lemma quiet_orchestrated [quiet_intros]:
  assumes "orchestrate_step env step p st = Some (Inr (v, st'))"
  shows "quiet (rs_agent st) (rs_agent st')"
  using assms
proof (cases rule: orchestrate_stepE)
  case ran
  from ran(4) show ?thesis by (rule after_stepD) (use ran(2) in \<open>simp add: quiet_def same_agent_def\<close>)
qed simp

section \<open>Effects on the agent\<close>

lemma the_agent_set_agent [simp]: "the_agent (set_agent s st) = s"
  by (simp add: the_agent_def set_agent_def)

lemma the_agent_push_history [simp]: "the_agent (push_history i d ok out st) = the_agent st"
  by (simp add: the_agent_def push_history_def)

lemma the_agent_frame [simp]: "the_agent (st\<lparr>ls_plan := p\<rparr>) = the_agent st"
  "the_agent (st\<lparr>ls_tasks := t\<rparr>) = the_agent st" "the_agent (st\<lparr>ls_messages := m\<rparr>) = the_agent st"
  "the_agent (st\<lparr>ls_goals := g\<rparr>) = the_agent st" "the_agent (st\<lparr>ls_skills := k\<rparr>) = the_agent st"
  "the_agent (st\<lparr>ls_reviews := r\<rparr>) = the_agent st" "the_agent (st\<lparr>ls_run := run\<rparr>) = rs_agent run"
  by (simp_all add: the_agent_def)

lemma the_agent_notify_parent [simp]: "the_agent (notify_parent env status note findings st) = the_agent st"
  by (simp add: notify_parent_def split: option.split)

lemma the_agent_write_goal_result [simp]: "the_agent (write_goal_result env result st) = the_agent st"
  by (simp add: write_goal_result_def split: option.split)

lemma the_agent_fail_run [simp]: "the_agent (fail_run env reason st) = agent_mark_failed (le_now env) (the_agent st)"
  by (simp add: fail_run_def)

lemma quiet_task_finished [simp]: "quiet (the_agent st) (the_agent (mark_step_task_finished env step status out st))"
  by (simp add: mark_step_task_finished_def Let_def split: option.split)

lemma quiet_finished [simp]:
  "the_agent st = s \<Longrightarrow> quiet s (the_agent (mark_step_task_finished env step status out st))"
  using quiet_task_finished by blast

lemma quiet_task_in_progress [quiet_intros]:
  "mark_step_task_in_progress env step st = Some st' \<Longrightarrow> quiet (the_agent st) (the_agent st')"
  by (auto simp: mark_step_task_in_progress_def Let_def split: if_splits)

lemma the_agent_sync_tasks: "sync_session_tasks_for_plan env p st = Some st' \<Longrightarrow> the_agent st' = the_agent st"
  by (auto simp: sync_session_tasks_for_plan_def split: if_splits)

lemma quiet_consolidated [quiet_intros]:
  assumes "consolidated env s = Some s'"
  shows "quiet s s'"
proof (cases "le_consolidation env")
  case None
  with assms show ?thesis by (simp add: consolidated_def)
next
  case (Some r)
  with assms have "quiet (s\<lparr>as_memory_ref := Some (as_id s @ '':'' @ cn_index_key r)\<rparr>) s'"
    by (auto simp: consolidated_def intro: quiet_set_metadata)
  then show ?thesis by (rule quiet_trans [rotated]) simp
qed

lemma complete_runD:
  "complete_run env note findings st = Some st' \<Longrightarrow> quiet (agent_mark_completed (le_now env) (the_agent st)) (the_agent st')"
  by (auto simp: complete_run_def intro: quiet_consolidated)

lemma quiet_note_evaluation [quiet_intros]:
  assumes "note_evaluation env p step r ev st = Some st'"
  shows "quiet (the_agent st) (the_agent st')"
proof -
  from assms obtain s j s' where "record_reflection (evr_summary ev) (evr_key_findings ev) (the_agent st) = Some s"
    "record_judgement j s = Some s'" "the_agent st' = s'"
    by (auto simp: note_evaluation_def bind_eq_Some_conv)
  then show ?thesis by (auto intro: quiet_trans quiet_intros)
qed

section \<open>How a step may end\<close>

text \<open>The contract of a step: what each outcome says about the agent.\<close>

fun ends_in :: "loop_env \<Rightarrow> step_outcome \<Rightarrow> agent_state \<Rightarrow> bool" where
  "ends_in env (Continue d) s \<longleftrightarrow> as_status s = AgentWaiting \<and> dt_add_secs (le_ext env) (le_now env) d = Some (as_next_run s)"
| "ends_in env (NeedsClarification qs) s \<longleftrightarrow> as_status s = AgentClarifying"
| "ends_in env PlanApprovalNeeded s \<longleftrightarrow> as_status s = AgentPlanApprovalNeeded"
| "ends_in env (Infeasible _) s \<longleftrightarrow> as_status s = AgentFailed"
| "ends_in env Complete s \<longleftrightarrow> as_status s = AgentCompleted"
| "ends_in env (PartiallyComplete _) s \<longleftrightarrow> as_status s = AgentCompleted"
| "ends_in env (FailedStep _) s \<longleftrightarrow> as_status s = AgentFailed"
| "ends_in env (TransientError _ _) s \<longleftrightarrow> as_status s = AgentFailed"
| "ends_in env (PermanentError _) s \<longleftrightarrow> as_status s = AgentFailed"
| "ends_in env (PolicyViolation _) s \<longleftrightarrow> as_status s = AgentFailed"
| "ends_in env (RateLimited _ _) s \<longleftrightarrow> as_status s = AgentFailed"
| "ends_in env (Delegating ids) s \<longleftrightarrow> as_status s = AgentDelegating \<and> as_pending_children s = ids"
| "ends_in env (NeedsRecompile _ _) s \<longleftrightarrow> True"

definition next_position :: "nat \<Rightarrow> nat" where
  "next_position n = (if n + 1 < 2 ^ 32 then n + 1 else 0)"

definition moves_to :: "step_outcome \<Rightarrow> agent_state \<Rightarrow> agent_state \<Rightarrow> bool" where
  "moves_to outcome s s' \<longleftrightarrow>
     as_current_step s' = as_current_step s
     \<or> (outcome = Continue 0 \<or> (\<exists>ids. outcome = Delegating ids))
       \<and> as_current_step s' = next_position (as_current_step s)"

definition ends :: "loop_env \<Rightarrow> agent_state \<Rightarrow> (error_chain, step_outcome) result \<Rightarrow> loop_state \<Rightarrow> bool" where
  "ends env s res st' \<longleftrightarrow> same_agent s (the_agent st')
     \<and> (case res of Inl _ \<Rightarrow> as_current_step (the_agent st') = as_current_step s
        | Inr outcome \<Rightarrow> ends_in env outcome (the_agent st') \<and> moves_to outcome s (the_agent st'))"

lemma ends_after_quiet: "quiet s t \<Longrightarrow> ends env t res st' \<Longrightarrow> ends env s res st'"
  by (auto simp: ends_def quiet_def moves_to_def dest: same_agent_trans split: sum.splits)

lemma endsI:
  assumes "quiet t (the_agent st')" "same_agent s t" "ends_in env outcome t" "moves_to outcome s t"
  shows "ends env s (Inr outcome) st'"
proof -
  have "ends_in env outcome (the_agent st')" using assms(1,3) by (cases outcome) (auto simp: quiet_def)
  moreover have "moves_to outcome s (the_agent st')" using assms(1,4) by (auto simp: quiet_def moves_to_def)
  ultimately show ?thesis
    using assms(1,2) by (auto simp: ends_def quiet_def dest: same_agent_trans)
qed

lemma moves_same [simp]: "moves_to outcome s (s\<lparr>as_status := x, as_updated_at := u\<rparr>)"
  by (simp add: moves_to_def)

lemma advance_stepD: "advance_step ext now s = Some s' \<Longrightarrow> same_agent s s'
    \<and> as_current_step s' = next_position (as_current_step s)"
  by (auto simp: advance_step_def next_position_def same_agent_def split: if_splits)

lemma wait_forD: "wait_for env d s = Some s' \<Longrightarrow> same_agent s s' \<and> as_current_step s' = as_current_step s
    \<and> ends_in env (Continue d) s'"
  by (auto simp: wait_for_def agent_mark_waiting_def same_agent_def)

lemma ends_ask_user:
  assumes "ask_user env questions st = Some (res, st')"
  shows "ends env (the_agent st) res st'"
proof -
  from assms obtain s where s: "set_metadata ''clarification_questions'' (questions_value questions) (the_agent st) = Some s"
    "res = Inr (NeedsClarification (map question_value questions))"
    "st' = set_agent (agent_mark_clarifying (le_now env) s) st"
    by (auto simp: ask_user_def exit_with_def bind_eq_Some_conv)
  have "ends env s res st'"
    unfolding s(2) by (rule endsI [where t = "agent_mark_clarifying (le_now env) s"])
      (simp_all add: s(3) agent_mark_clarifying_def same_agent_def moves_to_def)
  with quiet_set_metadata [OF s(1)] show ?thesis by (rule ends_after_quiet)
qed

lemma ends_failed_check: "failed_check env e st = Some (res, st') \<Longrightarrow> ends env (the_agent st) res st'"
  by (auto simp: failed_check_def prompt_for_provider_credentials_def ends_def [of _ _ "Inl _"]
      split: if_splits intro: ends_ask_user)

lemma ends_failed:
  assumes "\<And>s. ends_in env outcome s \<longleftrightarrow> as_status s = AgentFailed" "quiet (the_agent (fail_run env reason st)) (the_agent st')"
  shows "ends env (the_agent st) (Inr outcome) st'"
proof (rule endsI [OF assms(2)])
  show "ends_in env outcome (the_agent (fail_run env reason st))"
    using assms(1) by (simp add: agent_mark_failed_def)
qed (simp_all add: agent_mark_failed_def same_agent_def moves_to_def)

lemma ends_run_preflight:
  assumes "run_preflight env st = Some (res, st')"
  shows "ends env (the_agent st) res st'"
proof -
  let ?s = "agent_mark_preflight (le_now env) (le_now env) (the_agent st)"
  have lift: "ends env (the_agent st) r st''" if "ends env ?s r st''" for r st''
    using that by (auto simp: ends_def moves_to_def agent_mark_preflight_def same_agent_def split: sum.splits)
  show ?thesis
  proof (cases "le_preflight env")
    case (Inl e)
    with assms show ?thesis
      by (intro lift) (auto simp: run_preflight_def Let_def dest: ends_failed_check)
  next
    case (Inr pf)
    show ?thesis
    proof (cases pf)
      case (NotFeasible reason missing)
      with Inr assms show ?thesis
        by (intro lift) (auto simp: run_preflight_def Let_def exit_with_def
            intro!: ends_failed [where st = "set_agent ?s st", simplified])
    next
      case Feasible
      show ?thesis
      proof (cases "le_clarify env")
        case (Inl e)
        with Inr Feasible assms show ?thesis
          by (intro lift) (auto simp: run_preflight_def Let_def dest: ends_failed_check)
      next
        case ok: (Inr c)
        show ?thesis
        proof (cases c)
          case Clear
          with Inr Feasible ok assms obtain s where s: "wait_for env 0 ?s = Some s"
            "res = Inr (Continue 0)" "st' = set_agent s st"
            by (auto simp: run_preflight_def Let_def exit_with_def bind_eq_Some_conv set_agent_def the_agent_def)
          show ?thesis
            unfolding s(2) by (intro lift endsI [where t = s]) (use wait_forD [OF s(1)] s(3) in \<open>auto simp: moves_to_def\<close>)
        next
          case (NeedsInput qs)
          with Inr Feasible ok assms show ?thesis
            by (intro lift) (auto simp: run_preflight_def Let_def dest: ends_ask_user)
        qed
      qed
    qed
  qed
qed


lemma ends_completed:
  assumes "quiet (agent_mark_completed (le_now env) s) (the_agent st')"
    "\<And>t. ends_in env outcome t \<longleftrightarrow> as_status t = AgentCompleted"
  shows "ends env s (Inr outcome) st'"
  by (rule endsI [OF assms(1)]) (simp_all add: assms(2) agent_mark_completed_def same_agent_def moves_to_def)

lemma ends_complete_run:
  assumes "complete_run env note findings st = Some st1" "quiet (the_agent st1) (the_agent st')"
  shows "ends env (the_agent st) (Inr Complete) st'"
  using complete_runD [OF assms(1)] assms(2) by (intro ends_completed) (auto intro: quiet_trans)

lemma ends_plan_completed: "plan_completed env st = Some (res, st') \<Longrightarrow> ends env (the_agent st) res st'"
  by (auto simp: plan_completed_def Let_def exit_with_def bind_eq_Some_conv intro: ends_complete_run)

lemma ends_waiting:
  assumes "same_agent s t" "as_current_step t = as_current_step s \<or> d = 0 \<and> as_current_step t = next_position (as_current_step s)"
    and "wait_for env d t = Some u" "quiet u (the_agent st')"
  shows "ends env s (Inr (Continue d)) st'"
proof (rule endsI [OF assms(4)])
  note w = wait_forD [OF assms(3)]
  from assms(1) w show "same_agent s u" by (auto intro: same_agent_trans)
  from w show "ends_in env (Continue d) u" by blast
  from w assms(2) show "moves_to (Continue d) s u" by (auto simp: moves_to_def)
qed

lemma ends_skip_step:
  assumes "skip_step env step summary st = Some (res, st')"
  shows "ends env (the_agent st) res st'"
proof -
  from assms obtain s1 s2 s3 s4 s5 where s: "persist_skipped_step_output (the_agent st) step summary = Some s1"
    "record_reflection summary [] s1 = Some s2" "reset_retries s2 = Some s3"
    "advance_step (le_ext env) (le_now env) s3 = Some s4" "wait_for env 0 s4 = Some s5"
    "res = Inr (Continue 0)" and st': "quiet s5 (the_agent st')"
    by (auto simp: skip_step_def exit_with_def bind_eq_Some_conv)
  have q: "quiet (the_agent st) s3" using s(1-3) by (meson quiet_trans quiet_intros)
  show ?thesis
    unfolding s(6) using advance_stepD [OF s(4)] by (intro ends_after_quiet [OF q] ends_waiting [OF _ _ s(5) st']) auto
qed

lemma ends_answer_directly:
  assumes "answer_directly env step r st = Some (res, st')"
  shows "ends env (the_agent st) res st'"
proof -
  define answer where "answer = (case final_answer (the_agent st) of Some a \<Rightarrow> a | None \<Rightarrow> er_output r)"
  from assms obtain s1 s2 where s: "set_final_answer answer (le_now env) (the_agent st) = Some s1"
    "record_reflection answer [] s1 = Some s2" "res = Inr Complete"
    "complete_run env answer (\<lambda>_. [answer])
      (push_history (ps_index step) (ps_description step) True answer (set_agent s2 st)) = Some st'"
    by (auto simp: answer_directly_def exit_with_def bind_eq_Some_conv answer_def Let_def)
  have q: "quiet (the_agent st) s2" using s(1,2) by (meson quiet_trans quiet_intros)
  show ?thesis
    unfolding s(3) using ends_complete_run [OF s(4)] by (intro ends_after_quiet [OF q]) simp
qed

lemma ends_block_step:
  assumes "block_step env step reason st = Some (res, st')"
  shows "ends env (the_agent st) res st'"
proof -
  from assms obtain s where s: "record_reflection ''Aborted by deterministic FailureRule'' [] (the_agent st) = Some s"
    "res = Inr (PermanentError (blocked_text step reason))"
    "st' = fail_run env (blocked_text step reason) (set_agent s st)"
    by (auto simp: block_step_def exit_with_def bind_eq_Some_conv)
  have "ends env s res st'"
    unfolding s(2,3) using ends_failed [where st = "set_agent s st" and env = env] by simp
  with quiet_record_reflection [OF s(1)] show ?thesis by (rule ends_after_quiet)
qed

lemma ends_go_on:
  assumes "go_on env step ev st = Some (res, st')"
  shows "ends env (the_agent st) res st'"
proof -
  from assms obtain s early where s: "reset_retries (the_agent st) = Some s" "early_complete env s = Some early"
    and rest: "(if early then complete_early env step ev (set_agent s st)
     else advance_step (le_ext env) (le_now env) s \<bind> (\<lambda>s1. wait_for env 0 s1 \<bind> (\<lambda>s2.
       exit_with (Continue 0) (mark_step_task_finished env step TaskCompleted
         (task_output ResultComplete [evr_summary ev] 1 ''step completed successfully'') (set_agent s2 (set_agent s st))))))
      = Some (res, st')"
    by (auto simp: go_on_def bind_eq_Some_conv Let_def)
  show ?thesis
  proof (rule ends_after_quiet [OF quiet_reset_retries [OF s(1)]], cases early)
    case True
    with rest obtain t st1 where t: "keep_answer env ev s = Some t"
      "complete_run env (evr_summary ev) (\<lambda>_. [evr_summary ev]) (set_agent t (set_agent s st)) = Some st1"
      "res = Inr Complete" "quiet (the_agent st1) (the_agent st')"
      by (auto simp: complete_early_def exit_with_def bind_eq_Some_conv)
    show "ends env s res st'"
      unfolding t(3) using ends_complete_run [OF t(2,4)] by (intro ends_after_quiet [OF quiet_keep_answer [OF t(1)]]) simp
  next
    case False
    with rest obtain s1 s2 where t: "advance_step (le_ext env) (le_now env) s = Some s1" "wait_for env 0 s1 = Some s2"
      "res = Inr (Continue 0)" and q: "quiet s2 (the_agent st')"
      by (auto simp: exit_with_def bind_eq_Some_conv)
    show "ends env s res st'"
      unfolding t(3) using advance_stepD [OF t(1)] by (intro ends_waiting [OF _ _ t(2) q]) auto
  qed
qed

lemma ends_complete_goal:
  assumes "complete_goal env step ev st = Some (res, st')"
  shows "ends env (the_agent st) res st'"
proof -
  from assms obtain s ok results where s: "keep_answer env ev (the_agent st) = Some s" "checked_criteria env s = Some (ok, results)"
    by (auto simp: complete_goal_def bind_eq_Some_conv)
  define failed where "failed = map crr_description (filter (\<lambda>c. \<not> crr_satisfied c) results)"
  show ?thesis
  proof (rule ends_after_quiet [OF quiet_keep_answer [OF s(1)]], cases ok)
    case True
    with assms s obtain st1 where t: "complete_run env (completion_summary s) (\<lambda>_. [completion_summary s]) (set_agent s st) = Some st1"
      "res = Inr Complete" and q: "quiet (the_agent st1) (the_agent st')"
      by (auto simp: complete_goal_def exit_with_def bind_eq_Some_conv Let_def)
    show "ends env s res st'"
      unfolding t(2) using ends_complete_run [OF t(1) q] by simp
  next
    case False
    with assms s obtain s' where t:
      "agent_mark_partially_complete (unmet_note failed) (enriched_result s False results) (le_now env) s = Some s'"
      "res = Inr (PartiallyComplete (unmet_note failed))" and q: "quiet s' (the_agent st')"
      by (auto simp: complete_goal_def exit_with_def bind_eq_Some_conv Let_def failed_def)
    from t(1) have "quiet (agent_mark_completed (le_now env) s) s'"
      by (auto simp: agent_mark_partially_complete_def agent_mark_completed_def bind_eq_Some_conv quiet_def same_agent_def
          dest!: set_metadata_only)
    with q show "ends env s res st'"
      unfolding t(2) by (intro ends_completed) (auto intro: quiet_trans)
  qed
qed

lemma ends_retry_step:
  assumes "retry_step env step r ev n st = Some (res, st')"
  shows "ends env (the_agent st) res st'"
proof -
  define err where "err = (if join_with '' | '' (failed_errors r) = [] then evr_summary ev else join_with '' | '' (failed_errors r))"
  from assms obtain s1 s2 s3 where s: "set_metadata ''retry_count'' (JNumber (PosInt (n + 1))) (the_agent st) = Some s1"
    "wait_for env (retry_delay n) s1 = Some s2" "set_metadata ''last_step_error'' (JString err) s2 = Some s3"
    "res = Inr (Continue (retry_delay n))" and q: "quiet s3 (the_agent st')"
    by (auto simp: retry_step_def exit_with_def bind_eq_Some_conv Let_def err_def)
  have "quiet s2 (the_agent st')" using quiet_set_metadata [OF s(3)] q by (rule quiet_trans)
  then have "ends env s1 res st'" unfolding s(4) by (intro ends_waiting [OF _ _ s(2)]) auto
  with quiet_set_metadata [OF s(1)] show ?thesis by (rule ends_after_quiet)
qed

lemma classify_error_fails: "ends_in env (classify_error low reason) s \<longleftrightarrow> as_status s = AgentFailed"
  by (simp add: classify_error_def Let_def)

lemma ends_conclude: "conclude env step r ev n st = Some (res, st') \<Longrightarrow> ends env (the_agent st) res st'"
  by (auto simp: conclude_def abort_step_def exit_with_def Let_def split: eval_verdict.splits
      intro: ends_go_on ends_complete_goal ends_retry_step
      intro!: ends_failed [OF classify_error_fails quiet_task_finished])

lemma ends_evaluate_step:
  assumes "evaluate_step env p step r st = Some (res, st')"
  shows "ends env (the_agent st) res st'"
proof (cases "evaluate_and_reflect (le_evaluator env) (the_agent st) p step r (retry_count_of (the_agent st)) 3")
  case (Inl f)
  with assms show ?thesis by (cases f) (auto simp: evaluate_step_def Let_def ends_def)
next
  case (Inr ev)
  with assms obtain st1 where "note_evaluation env p step r ev st = Some st1"
    "conclude env step r ev (retry_count_of (the_agent st)) st1 = Some (res, st')"
    by (auto simp: evaluate_step_def Let_def bind_eq_Some_conv)
  then show ?thesis by (meson ends_after_quiet ends_conclude quiet_note_evaluation)
qed


lemma step_never_skipped: "orchestrate_step env step p st = Some (Inr (v, st')) \<Longrightarrow> v \<noteq> StepSkipped reason"
  by (erule orchestrate_stepE) (auto simp: step_verdict_of_def split: option.splits elim!: after_stepD)

lemma ends_after_verdict:
  assumes "after_verdict env p step v st = Some (res, st')" "\<And>reason. v \<noteq> StepSkipped reason"
  shows "ends env (the_agent st) res st'"
proof (cases v)
  case (Executed r entities)
  with assms(1) show ?thesis
    by (auto simp: after_verdict_def split: if_splits intro: ends_answer_directly ends_evaluate_step)
next
  case (DelegatedStep r ids)
  with assms(1) obtain s where s: "advance_step (le_ext env) (le_now env) (the_agent st) = Some s"
    "res = Inr (Delegating ids)" "st' = set_agent (agent_mark_delegating ids (le_now env) s) st"
    by (auto simp: after_verdict_def exit_with_def bind_eq_Some_conv)
  show ?thesis
    unfolding s(2) using advance_stepD [OF s(1)]
    by (intro endsI [where t = "agent_mark_delegating ids (le_now env) s"])
      (auto simp: s(3) agent_mark_delegating_def same_agent_def moves_to_def)
qed (use assms in \<open>auto simp: after_verdict_def intro: ends_ask_user ends_block_step ends_failed_check\<close>)

lemma execute_plannedE:
  assumes "execute_planned env p step st = Some (res, st')"
  obtains st1 v run where
    "mark_step_task_in_progress env step (set_agent (agent_mark_running (le_now env) (the_agent st)) st) = Some st1"
    "orchestrate_step (le_orchestrator env) step p (ls_run st1) = Some (Inr (v, run))"
    "after_verdict env p step v (st1\<lparr>ls_run := run\<rparr>) = Some (res, st')"
proof -
  from assms obtain st1 z where z:
    "mark_step_task_in_progress env step (set_agent (agent_mark_running (le_now env) (the_agent st)) st) = Some st1"
    "orchestrate_step (le_orchestrator env) step p (ls_run st1) = Some z"
    "(case z of Inl _ \<Rightarrow> None | Inr (v, run) \<Rightarrow> after_verdict env p step v (st1\<lparr>ls_run := run\<rparr>)) = Some (res, st')"
    by (auto simp: execute_planned_def bind_eq_Some_conv)
  then show thesis using that by (cases z) auto
qed

lemma ends_execute_planned:
  assumes "execute_planned env p step st = Some (res, st')"
  shows "ends env (the_agent st) res st'"
proof -
  let ?s = "agent_mark_running (le_now env) (the_agent st)"
  obtain st1 v run where st1: "mark_step_task_in_progress env step (set_agent ?s st) = Some st1"
    "orchestrate_step (le_orchestrator env) step p (ls_run st1) = Some (Inr (v, run))"
    "after_verdict env p step v (st1\<lparr>ls_run := run\<rparr>) = Some (res, st')"
    using assms by (rule execute_plannedE)
  have "ends env (rs_agent run) res st'"
    using ends_after_verdict [OF st1(3)] step_never_skipped [OF st1(2)] by simp
  moreover have "quiet (the_agent st1) (rs_agent run)"
    using quiet_orchestrated [OF st1(2)] by (simp add: the_agent_def)
  moreover have "quiet ?s (the_agent st1)" using quiet_task_in_progress [OF st1(1)] by simp
  ultimately have "ends env ?s res st'" by (meson ends_after_quiet)
  then show ?thesis
    by (auto simp: ends_def moves_to_def agent_mark_running_def same_agent_def split: sum.splits)
qed

lemma ends_linear_step: "linear_step env p st = Some (res, st') \<Longrightarrow> ends env (the_agent st) res st'"
  by (auto simp: linear_step_def split: option.splits sum.splits
      intro: ends_plan_completed ends_skip_step ends_execute_planned) (simp_all add: ends_def)

lemma plan_phase_ends:
  assumes "plan_phase env st = Some r"
  shows "(case r of Inl (res, st') \<Rightarrow> ends env (the_agent st) res st'
     | Inr st' \<Rightarrow> quiet (the_agent st) (the_agent st') \<and> ls_plan st' \<noteq> None)"
proof (cases "ls_plan st")
  case (Some p)
  with assms show ?thesis by (auto simp: plan_phase_def)
next
  case None
  with assms obtain s chosen s' where s: "incorporate_answers env (the_agent st) = Some s"
    "choose_plan (le_plan env) (ls_skills st) s = Some (chosen, s')"
    by (auto simp: plan_phase_def bind_eq_Some_conv split: prod.splits)
  have q: "quiet (the_agent st) s'" using s by (meson quiet_trans quiet_intros)
  show ?thesis
  proof (cases chosen)
    case (Planned p)
    with None assms s obtain st1 where "sync_session_tasks_for_plan env p (set_agent s' st) = Some st1"
      "r = Inr (st1\<lparr>ls_plan := Some p\<rparr>)"
      by (auto simp: plan_phase_def)
    with q the_agent_sync_tasks show ?thesis by fastforce
  next
    case (AskRecompile reason kind)
    with None assms s have "r = Inl (Inr (NeedsRecompile reason kind), set_agent s' st)"
      by (auto simp: plan_phase_def)
    moreover have "ends env s' (Inr (NeedsRecompile reason kind)) (set_agent s' st)"
      by (simp add: ends_def moves_to_def)
    ultimately show ?thesis using ends_after_quiet [OF q] by simp
  next
    case (NoPlan reason)
    with None assms s have "r = Inl (Inr (FailedStep reason), fail_run env reason (set_agent s' st))"
      by (auto simp: plan_phase_def)
    moreover have "ends env s' (Inr (FailedStep reason)) (fail_run env reason (set_agent s' st))"
      using ends_failed [where st = "set_agent s' st" and env = env and outcome = "FailedStep reason" and reason = reason]
      by simp
    ultimately show ?thesis using ends_after_quiet [OF q] by simp
  qed
qed

lemma workflow_phase_ends:
  "workflow_phase env st = Inl (outcome, st') \<Longrightarrow> ends env (the_agent st) (Inr outcome) st'"
  "workflow_phase env st = Inr st2 \<Longrightarrow> st2 = st"
  by (auto simp: workflow_phase_def workflow_end_def Let_def ends_def moves_to_def same_agent_def
      agent_mark_completed_def agent_mark_failed_def split: if_splits sum.splits dag_outcome.splits)

lemma ends_agent_step:
  assumes "agent_step env st = Some (res, st')"
  shows "ends env (the_agent st) res st'"
proof (cases "should_continue (le_max_steps env) (le_timeout_secs env) (le_now env) (the_agent st)")
  case False
  with assms have "res = Inr (FailedStep (limit_text env))" "st' = fail_run env (limit_text env) st"
    by (auto simp: agent_step_def Let_def exit_with_def)
  then show ?thesis
    using ends_failed [where st = st and env = env and outcome = "FailedStep (limit_text env)" and reason = "limit_text env"]
    by simp
next
  case go: True
  consider (pending) "as_status (the_agent st) = AgentPending" | "as_status (the_agent st) = AgentClarifying"
    | "as_status (the_agent st) = AgentPlanApprovalNeeded"
    | (run) "as_status (the_agent st) \<notin> {AgentPending, AgentClarifying, AgentPlanApprovalNeeded}" by blast
  then show ?thesis
  proof cases
    case pending
    with assms go show ?thesis by (simp add: agent_step_def Let_def ends_run_preflight)
  next
    case run
    with assms go obtain r where r: "plan_phase env st = Some r"
      by (auto simp: agent_step_def Let_def bind_eq_Some_conv)
    show ?thesis
    proof (cases r)
      case (Inl x)
      with r run go assms have "x = (res, st')" by (cases x) (simp add: agent_step_def Let_def)
      with plan_phase_ends [OF r] Inl show ?thesis by simp
    next
      case (Inr st1)
      with plan_phase_ends [OF r] have q: "quiet (the_agent st) (the_agent st1)" by simp
      have "ends env (the_agent st1) res st'"
        using r run go assms Inr
        by (auto simp: agent_step_def Let_def exit_with_def split: sum.splits option.splits
            dest: workflow_phase_ends intro: ends_linear_step)
      with q show ?thesis by (rule ends_after_quiet)
    qed
  qed (use assms go in \<open>auto simp: agent_step_def Let_def exit_with_def ends_def moves_to_def\<close>)
qed

section \<open>Where a run ends too early\<close>

text \<open>An error that the loop itself calls transient, or a rate limit, still leaves the agent failed, which is a
  final status: the delay it reports is never used.\<close>

lemma transient_errors_are_final:
  assumes "agent_step env st = Some (Inr outcome, st')" "outcome = TransientError reason d \<or> outcome = RateLimited d' reason"
  shows "as_status (the_agent st') = AgentFailed"
  using ends_agent_step [OF assms(1)] assms(2) by (auto simp: ends_def)

text \<open>A criterion that a record is updated counts as met after any step, whatever the step did.\<close>

lemma record_updated_always_met:
  "\<exists>c\<in>set cs. \<exists>f. cc_check c = RecordUpdated f \<Longrightarrow> check_early_completion ext s cs \<noteq> Some False"
proof (induction cs)
  case (Cons c cs)
  then show ?case by (cases "cc_check c") (auto simp: bind_eq_Some_conv split: if_splits)
qed simp

text \<open>The workflow engine's result ends the run without the criteria of the role, without a result for the goal
  and without a message to the parent.\<close>

lemma workflow_ends_silently:
  assumes "workflow_phase env st = Inl (outcome, st')"
  shows "ls_messages st' = ls_messages st" "ls_goals st' = ls_goals st"
    "as_final_answer (the_agent st') = as_final_answer (the_agent st)" "ls_tasks st' = ls_tasks st"
  using assms by (auto simp: workflow_phase_def workflow_end_def Let_def set_agent_def the_agent_def
      agent_mark_completed_def agent_mark_failed_def split: if_splits sum.splits dag_outcome.splits)

text \<open>A step that delegates moves on, but its session task stays in progress.\<close>

lemma delegated_task_stays_open:
  "after_verdict env p step (DelegatedStep r ids) st = Some (res, st') \<Longrightarrow> ls_tasks st' = ls_tasks st"
  by (auto simp: after_verdict_def exit_with_def bind_eq_Some_conv set_agent_def)

end
