(* ===== verification/Agent_Retries.thy ===== *)
theory Agent_Retries
  imports Agent_Run
begin

text \<open>
  The retries of a step and the length of a run: how the retry counter in the metadata moves, and that a run
  of immediate and delayed continuations is bounded by the limit on steps.  The properties of a step and their
  witnesses, over a running agent whose step fails, stand at the end.
\<close>

section \<open>The counter\<close>

text \<open>Everything but the conclusion of a step keeps the counter.\<close>

definition keeps_count :: "agent_state \<Rightarrow> agent_state \<Rightarrow> bool" where
  "keeps_count s s' \<longleftrightarrow> json_get ''retry_count'' (as_metadata s') = json_get ''retry_count'' (as_metadata s)"

named_theorems keeps_intros

lemma keeps_refl [simp]: "keeps_count s s"
  by (simp add: keeps_count_def)

lemma keeps_trans [trans]: "keeps_count s t \<Longrightarrow> keeps_count t u \<Longrightarrow> keeps_count s u"
  by (simp add: keeps_count_def)

lemma keeps_retry_count: "keeps_count s s' \<Longrightarrow> retry_count_of s' = retry_count_of s"
  by (simp add: keeps_count_def retry_count_of_def meta_def)

lemma keeps_same_metadata: "as_metadata s' = as_metadata s \<Longrightarrow> keeps_count s s'"
  by (simp add: keeps_count_def)

lemma keeps_set_metadata: "set_metadata k v s = Some s' \<Longrightarrow> k \<noteq> ''retry_count'' \<Longrightarrow> keeps_count s s'"
  by (auto simp: set_metadata_def keeps_count_def json_set_get)

lemma keeps_set_all: "set_all kvs s = Some s' \<Longrightarrow> ''retry_count'' \<notin> fst ` set kvs \<Longrightarrow> keeps_count s s'"
proof (induction kvs arbitrary: s)
  case (Cons kv kvs)
  obtain k v where kv: "kv = (k, v)" by (cases kv)
  with Cons.prems obtain t where "set_metadata k v s = Some t" "set_all kvs t = Some s'"
    by (auto simp: bind_eq_Some_conv)
  with Cons kv show ?case by (auto intro: keeps_trans keeps_set_metadata)
qed simp

lemma keeps_record_reflection [keeps_intros]: "record_reflection t fs s = Some s' \<Longrightarrow> keeps_count s s'"
  unfolding record_reflection_def by (erule keeps_set_all) simp

lemma keeps_set_final_answer [keeps_intros]: "set_final_answer a now s = Some s' \<Longrightarrow> keeps_count s s'"
  by (erule set_final_answer_frame) (simp add: keeps_count_def)

lemma keeps_record_judgement [keeps_intros]:
  assumes "record_judgement j s = Some s'"
  shows "keeps_count s s'"
proof -
  from assms obtain t where t: "set_metadata ''last_judgement'' (judgement_value j) s = Some t"
    and "t = s' \<or> persist_judgement_signal j t = Some s'"
    by (auto simp: record_judgement_def bind_eq_Some_conv split: if_splits)
  then have "keeps_count t s'" by (auto simp: persist_judgement_signal_def elim!: keeps_set_metadata)
  moreover have "keeps_count s t" using t by (rule keeps_set_metadata) simp
  ultimately show ?thesis using keeps_trans by blast
qed

lemma keeps_note_evaluation [keeps_intros]:
  assumes "note_evaluation env p step r ev st = Some st'"
  shows "keeps_count (the_agent st) (the_agent st')"
proof -
  from assms obtain s j s' where "record_reflection (evr_summary ev) (evr_key_findings ev) (the_agent st) = Some s"
    "record_judgement j s = Some s'" "the_agent st' = s'"
    by (auto simp: note_evaluation_def bind_eq_Some_conv)
  then show ?thesis by (auto intro: keeps_trans keeps_intros)
qed

lemma keeps_incorporate_answers [keeps_intros]: "incorporate_answers env s = Some s' \<Longrightarrow> keeps_count s s'"
  by (auto simp: incorporate_answers_def split: if_splits sum.splits elim!: keeps_set_metadata)

lemma keeps_apply_variant [keeps_intros]:
  assumes "apply_variant compiled signature s = Some (b, s')"
  shows "keeps_count s s'"
proof -
  have "''retry_count'' \<notin> fst ` set no_variant_fields" by (simp add: no_variant_fields_def)
  with assms show ?thesis
    by (auto simp: apply_variant_def simp del: set_all.simps split: option.splits if_splits elim!: keeps_set_all)
qed

lemma keeps_workflow_plan [keeps_intros]:
  assumes "workflow_plan env compiled role s = Some (p, s')"
  shows "keeps_count s s'"
proof -
  define d where "d = data_signature_from_value (pe_ext env)
    (case meta ''input_data'' s of Some v \<Rightarrow> v | None \<Rightarrow> JObject [])"
  from assms obtain s1 go s2 where s: "set_metadata ''workflow_data_signature'' (data_signature_to_value d) s = Some s1"
    "apply_variant compiled d s1 = Some (go, s2)" "s' = s2 \<or> set_all (compiler_fields compiled) s2 = Some s'"
    by (auto simp: workflow_plan_def Let_def bind_eq_Some_conv d_def simp del: set_all.simps split: if_splits)
  have "''retry_count'' \<notin> fst ` set (compiler_fields compiled)" by (simp add: compiler_fields_def Let_def)
  with s(3) have "keeps_count s2 s'" by (auto intro: keeps_set_all)
  moreover have "keeps_count s s1" using s(1) by (rule keeps_set_metadata) simp
  ultimately show ?thesis using keeps_apply_variant [OF s(2)] keeps_trans by blast
qed

lemma keeps_coordinator_plan [keeps_intros]:
  assumes "coordinator_plan env role s = Some (p, s')"
  shows "keeps_count s s'"
proof -
  from assms obtain v1 v2 s1 where "set_metadata ''coordinator_shell'' v1 s = Some s1"
    "set_metadata ''coordinator_shell'' v2 s1 = Some s'"
    by (auto simp: coordinator_plan_def build_coordinator_shell_plan_def Let_def bind_eq_Some_conv)
  then have "keeps_count s s1" "keeps_count s1 s'" by (simp_all add: keeps_set_metadata)
  then show ?thesis by (rule keeps_trans)
qed

lemma keeps_choose_plan [keeps_intros]: "choose_plan env reg s = Some (r, s') \<Longrightarrow> keeps_count s s'"
  by (auto simp: choose_plan_def try_plan_from_compiled_workflow_def split: if_splits option.splits
      dest: keeps_coordinator_plan keeps_workflow_plan)

lemma keeps_after_step [keeps_intros]:
  assumes "after_step env step r st = Some (v, st')"
  shows "keeps_count (rs_agent st) (rs_agent st')"
proof -
  obtain s1 s2 s3 where s: "record_debug env (rs_agent st) step r = Some s1"
    "set_metadata (output_key (ps_index step)) (step_output_value r) s1 = Some s2"
    "(case er_final_answer_candidate r of Some c \<Rightarrow> set_final_answer c (or_now env) s2 | None \<Rightarrow> Some s2) = Some s3"
    "rs_agent st' = s3"
    using assms by (auto simp: after_step_def persist_step_output_def Let_def bind_eq_Some_conv)
  have "keeps_count (rs_agent st) s1" using s(1) by (auto simp: record_debug_def Let_def elim!: keeps_set_metadata)
  moreover have "keeps_count s1 s2" using s(2) by (rule keeps_set_metadata) (simp add: output_key_def)
  moreover have "keeps_count s2 s3" using s(3) by (auto split: option.splits intro: keeps_set_final_answer)
  ultimately show ?thesis using s(4) keeps_trans by blast
qed

lemma keeps_orchestrated [keeps_intros]:
  assumes "orchestrate_step env step p st = Some (Inr (v, st'))"
  shows "keeps_count (rs_agent st) (rs_agent st')"
  using assms
proof (cases rule: orchestrate_stepE)
  case ran
  from keeps_after_step [OF ran(4)] show ?thesis by (simp add: ran(2))
qed simp

lemma metadata_task_finished [simp]:
  "as_metadata (the_agent (mark_step_task_finished env step status out st)) = as_metadata (the_agent st)"
  by (simp add: mark_step_task_finished_def Let_def split: option.split)

lemma keeps_task_in_progress [keeps_intros]:
  "mark_step_task_in_progress env step st = Some st' \<Longrightarrow> keeps_count (the_agent st) (the_agent st')"
  by (auto simp: mark_step_task_in_progress_def Let_def keeps_count_def split: if_splits)

lemma metadata_wait_for: "wait_for env d s = Some s' \<Longrightarrow> as_metadata s' = as_metadata s"
  by (auto simp: wait_for_def agent_mark_waiting_def)

lemma metadata_advance_step: "advance_step ext now s = Some s' \<Longrightarrow> as_metadata s' = as_metadata s"
  by (auto simp: advance_step_def split: if_splits)

lemma reset_retries_count: "reset_retries s = Some s' \<Longrightarrow> retry_count_of s' = 0"
  by (auto simp: reset_retries_def set_metadata_def remove_metadata_def retry_count_of_def meta_def json_set_get)

section \<open>Continuations\<close>

text \<open>How a step continues: it is done and the next one starts with a fresh counter, or it is tried again.\<close>

definition continued :: "int \<Rightarrow> agent_state \<Rightarrow> agent_state \<Rightarrow> bool" where
  "continued d s s' \<longleftrightarrow>
     d = 0 \<and> as_current_step s' = next_position (as_current_step s) \<and> retry_count_of s' = 0
     \<or> retry_count_of s < 3 \<and> d = retry_delay (retry_count_of s) \<and> as_current_step s' = as_current_step s
       \<and> retry_count_of s' = retry_count_of s + 1"

lemma continued_after:
  "quiet s t \<Longrightarrow> keeps_count s t \<Longrightarrow> continued d t u \<Longrightarrow> continued d s u"
  by (auto simp: continued_def quiet_def dest: keeps_retry_count)

lemma continued_skip_step:
  assumes "skip_step env step summary st = Some (Inr (Continue d), st')"
  shows "continued d (the_agent st) (the_agent st')"
proof -
  from assms obtain s1 s2 s3 s4 s5 where s: "persist_skipped_step_output (the_agent st) step summary = Some s1"
    "record_reflection summary [] s1 = Some s2" "reset_retries s2 = Some s3"
    "advance_step (le_ext env) (le_now env) s3 = Some s4" "wait_for env 0 s4 = Some s5"
    "d = 0" and q: "quiet s5 (the_agent st')" and m: "as_metadata (the_agent st') = as_metadata s5"
    by (auto simp: skip_step_def exit_with_def bind_eq_Some_conv)
  have "quiet (the_agent st) s3" using s(1-3) by (meson quiet_trans quiet_intros)
  moreover have "retry_count_of (the_agent st') = retry_count_of s3"
    using m metadata_wait_for [OF s(5)] metadata_advance_step [OF s(4)] by (simp add: retry_count_of_def meta_def)
  moreover have "as_current_step (the_agent st') = next_position (as_current_step s3)"
    using q advance_stepD [OF s(4)] wait_forD [OF s(5)] by (simp add: quiet_def)
  ultimately show ?thesis
    using s(6) reset_retries_count [OF s(3)] by (simp add: continued_def quiet_def)
qed

lemma continued_go_on:
  assumes "go_on env step ev st = Some (Inr (Continue d), st')"
  shows "continued d (the_agent st) (the_agent st')"
proof -
  from assms obtain s1 early where s1: "reset_retries (the_agent st) = Some s1" "early_complete env s1 = Some early"
    by (auto simp: go_on_def bind_eq_Some_conv Let_def)
  from assms s1 obtain s2 s3 where s: "advance_step (le_ext env) (le_now env) s1 = Some s2" "wait_for env 0 s2 = Some s3"
    "d = 0" and q: "quiet s3 (the_agent st')" and m: "as_metadata (the_agent st') = as_metadata s3"
    by (auto simp: go_on_def bind_eq_Some_conv Let_def exit_with_def complete_early_def split: if_splits)
  have "retry_count_of (the_agent st') = retry_count_of s1"
    using m metadata_wait_for [OF s(2)] metadata_advance_step [OF s(1)] by (simp add: retry_count_of_def meta_def)
  moreover have "as_current_step (the_agent st') = next_position (as_current_step s1)"
    using q advance_stepD [OF s(1)] wait_forD [OF s(2)] by (simp add: quiet_def)
  ultimately show ?thesis
    using s(3) reset_retries_count [OF s1(1)] quiet_reset_retries [OF s1(1)] by (simp add: continued_def quiet_def)
qed

lemma continued_retry_step:
  assumes "retry_step env step r ev (retry_count_of (the_agent st)) st = Some (Inr (Continue d), st')"
    and "retry_count_of (the_agent st) < 3"
  shows "continued d (the_agent st) (the_agent st')"
proof -
  let ?n = "retry_count_of (the_agent st)"
  define err where "err = (if join_with '' | '' (failed_errors r) = [] then evr_summary ev else join_with '' | '' (failed_errors r))"
  from assms obtain s1 s2 s3 where s: "set_metadata ''retry_count'' (JNumber (PosInt (?n + 1))) (the_agent st) = Some s1"
    "wait_for env (retry_delay ?n) s1 = Some s2" "set_metadata ''last_step_error'' (JString err) s2 = Some s3"
    "d = retry_delay ?n" and q: "quiet s3 (the_agent st')" and m: "as_metadata (the_agent st') = as_metadata s3"
    by (auto simp: retry_step_def exit_with_def bind_eq_Some_conv Let_def err_def)
  have "json_get ''retry_count'' (as_metadata s1) = Some (JNumber (PosInt (?n + 1)))"
    using s(1) by (auto simp: set_metadata_def json_set_get)
  then have "json_get ''retry_count'' (as_metadata s3) = Some (JNumber (PosInt (?n + 1)))"
    using keeps_set_metadata [OF s(3)] metadata_wait_for [OF s(2)] by (simp add: keeps_count_def)
  then have "retry_count_of (the_agent st') = (?n + 1) mod 2 ^ 32"
    using m by (simp add: retry_count_of_def meta_def)
  then have "retry_count_of (the_agent st') = ?n + 1" using assms(2) by simp
  moreover have "as_current_step (the_agent st') = as_current_step (the_agent st)"
    using q quiet_set_metadata [OF s(3)] wait_forD [OF s(2)] quiet_set_metadata [OF s(1)] by (simp add: quiet_def)
  ultimately show ?thesis using s(4) assms(2) by (simp add: continued_def)
qed

lemma retry_below_limit:
  "evaluate_and_reflect env s p step r n m = Inr rf \<Longrightarrow> evr_verdict rf = EvRetry \<Longrightarrow> n < m"
  by (rule ccontr) (auto simp: evaluate_and_reflect_def plain_reflection_def split: if_splits)

lemma continued_conclude:
  assumes "conclude env step r ev (retry_count_of (the_agent st)) st = Some (Inr (Continue d), st')"
    and "evr_verdict ev = EvRetry \<Longrightarrow> retry_count_of (the_agent st) < 3"
  shows "continued d (the_agent st) (the_agent st')"
proof (cases "evr_verdict ev")
  case EvContinue
  with assms show ?thesis by (simp add: conclude_def continued_go_on)
next
  case EvRetry
  with assms show ?thesis by (simp add: conclude_def continued_retry_step)
next
  case EvAbort
  with assms show ?thesis
    by (auto simp: conclude_def abort_step_def exit_with_def Let_def classify_error_def split: if_splits)
next
  case EvGoalComplete
  with assms show ?thesis
    by (auto simp: conclude_def complete_goal_def exit_with_def Let_def bind_eq_Some_conv split: if_splits)
qed

lemma continued_evaluate_step:
  assumes "evaluate_step env p step r st = Some (Inr (Continue d), st')"
  shows "continued d (the_agent st) (the_agent st')"
proof -
  let ?n = "retry_count_of (the_agent st)"
  obtain ev where ev: "evaluate_and_reflect (le_evaluator env) (the_agent st) p step r ?n 3 = Inr ev"
    using assms by (auto simp: evaluate_step_def Let_def split: sum.splits task_failure.splits)
  with assms obtain st1 where st1: "note_evaluation env p step r ev st = Some st1"
    "conclude env step r ev ?n st1 = Some (Inr (Continue d), st')"
    by (auto simp: evaluate_step_def Let_def bind_eq_Some_conv)
  note k = keeps_note_evaluation [OF st1(1)]
  have "continued d (the_agent st1) (the_agent st')"
    using st1(2) retry_below_limit [OF ev] keeps_retry_count [OF k] by (intro continued_conclude) auto
  with quiet_note_evaluation [OF st1(1)] k show ?thesis by (rule continued_after)
qed

lemma ask_user_never_continues: "ask_user env qs st \<noteq> Some (Inr (Continue d), st')"
  by (auto simp: ask_user_def exit_with_def bind_eq_Some_conv)

lemma failed_check_never_continues: "failed_check env e st \<noteq> Some (Inr (Continue d), st')"
  by (auto simp: failed_check_def prompt_for_provider_credentials_def ask_user_never_continues)

lemma continued_after_verdict:
  assumes "after_verdict env p step v st = Some (Inr (Continue d), st')" "\<And>reason. v \<noteq> StepSkipped reason"
  shows "continued d (the_agent st) (the_agent st')"
proof (cases v)
  case (Executed r entities)
  with assms(1) have "evaluate_step env p step r st = Some (Inr (Continue d), st')"
    by (auto simp: after_verdict_def answer_directly_def exit_with_def bind_eq_Some_conv Let_def split: if_splits)
  then show ?thesis by (rule continued_evaluate_step)
qed (use assms in \<open>auto simp: after_verdict_def exit_with_def block_step_def bind_eq_Some_conv
    ask_user_never_continues failed_check_never_continues\<close>)

lemma continued_execute_planned:
  assumes "execute_planned env p step st = Some (Inr (Continue d), st')"
  shows "continued d (the_agent st) (the_agent st')"
proof -
  let ?s = "agent_mark_running (le_now env) (the_agent st)"
  obtain st1 v run where st1: "mark_step_task_in_progress env step (set_agent ?s st) = Some st1"
    "orchestrate_step (le_orchestrator env) step p (ls_run st1) = Some (Inr (v, run))"
    "after_verdict env p step v (st1\<lparr>ls_run := run\<rparr>) = Some (Inr (Continue d), st')"
    using assms by (rule execute_plannedE)
  have "continued d (rs_agent run) (the_agent st')"
    using continued_after_verdict [OF st1(3)] step_never_skipped [OF st1(2)] by simp
  moreover have "quiet (the_agent st1) (rs_agent run)" "keeps_count (the_agent st1) (rs_agent run)"
    using quiet_orchestrated [OF st1(2)] keeps_orchestrated [OF st1(2)] by (simp_all add: the_agent_def)
  moreover have "quiet ?s (the_agent st1)" "keeps_count ?s (the_agent st1)"
    using quiet_task_in_progress [OF st1(1)] keeps_task_in_progress [OF st1(1)] by simp_all
  ultimately have "continued d ?s (the_agent st')" by (meson continued_after)
  then show ?thesis
    by (simp add: continued_def agent_mark_running_def retry_count_of_def meta_def)
qed

lemma continued_linear_step:
  "linear_step env p st = Some (Inr (Continue d), st') \<Longrightarrow> continued d (the_agent st) (the_agent st')"
  by (auto simp: linear_step_def plan_completed_def exit_with_def bind_eq_Some_conv Let_def
      split: option.splits sum.splits intro: continued_skip_step continued_execute_planned)

lemma plan_phase_keeps:
  assumes "plan_phase env st = Some (Inr st')"
  shows "quiet (the_agent st) (the_agent st') \<and> keeps_count (the_agent st) (the_agent st')"
proof (cases "ls_plan st")
  case (Some p)
  with assms show ?thesis by (auto simp: plan_phase_def)
next
  case None
  with assms obtain s chosen s' where s: "incorporate_answers env (the_agent st) = Some s"
    "choose_plan (le_plan env) (ls_skills st) s = Some (chosen, s')"
    by (auto simp: plan_phase_def bind_eq_Some_conv split: prod.splits)
  with None assms obtain p st1 where "chosen = Planned p" "sync_session_tasks_for_plan env p (set_agent s' st) = Some st1"
    "st' = st1\<lparr>ls_plan := Some p\<rparr>"
    by (cases chosen) (auto simp: plan_phase_def)
  then have "the_agent st' = s'" using the_agent_sync_tasks by fastforce
  with s show ?thesis by (meson quiet_trans quiet_intros keeps_trans keeps_intros)
qed

lemma plan_phase_never_continues: "plan_phase env st \<noteq> Some (Inl (Inr (Continue d), st'))"
  by (auto simp: plan_phase_def bind_eq_Some_conv Let_def split: if_splits planning.splits)

lemma workflow_never_continues: "workflow_phase env st \<noteq> Inl (Continue d, st')"
  by (auto simp: workflow_phase_def workflow_end_def Let_def split: if_splits sum.splits dag_outcome.splits)

lemma continued_agent_step:
  assumes "agent_step env st = Some (Inr (Continue d), st')" "as_status (the_agent st) \<noteq> AgentPending"
  shows "as_current_step (the_agent st) < le_max_steps env \<and> continued d (the_agent st) (the_agent st')"
proof -
  have go: "should_continue (le_max_steps env) (le_timeout_secs env) (le_now env) (the_agent st)"
    "as_status (the_agent st) \<notin> {AgentPending, AgentClarifying, AgentPlanApprovalNeeded}"
    using assms by (auto simp: agent_step_def Let_def exit_with_def split: if_splits)
  with assms(1) obtain r where r: "plan_phase env st = Some r"
    by (auto simp: agent_step_def Let_def bind_eq_Some_conv)
  have "\<exists>st1. r = Inr st1"
  proof (cases r)
    case (Inl x)
    with r go assms(1) have "x = (Inr (Continue d), st')" by (cases x) (simp add: agent_step_def Let_def)
    with Inl r plan_phase_never_continues show ?thesis by blast
  qed auto
  then obtain st1 where st1: "r = Inr st1" by blast
  obtain st2 where w: "workflow_phase env st1 = Inr st2"
    using r go assms(1) st1 workflow_never_continues
    by (cases "workflow_phase env st1") (auto simp: agent_step_def Let_def exit_with_def)
  then have "st2 = st1" by (rule workflow_phase_ends(2))
  with r go assms(1) st1 w obtain p where "linear_step env p st1 = Some (Inr (Continue d), st')"
    by (auto simp: agent_step_def Let_def split: option.splits)
  then have "continued d (the_agent st1) (the_agent st')" by (rule continued_linear_step)
  moreover have "quiet (the_agent st) (the_agent st1)" "keeps_count (the_agent st) (the_agent st1)"
    using plan_phase_keeps r st1 by auto
  ultimately show ?thesis using go(1) by (auto simp: should_continue_def intro: continued_after)
qed

section \<open>Properties of a step\<close>

text \<open>Only planning asks for a new compilation.\<close>

definition no_recompile :: "loop_result \<Rightarrow> bool" where
  "no_recompile r \<longleftrightarrow> (\<forall>reason kind st'. r \<noteq> Some (Inr (NeedsRecompile reason kind), st'))"

named_theorems no_recompile_intros

lemma no_recompile_simps [simp]:
  "no_recompile None" "no_recompile (Some (Inl e, st'))"
  "no_recompile (exit_with outcome st') \<longleftrightarrow> (\<forall>reason kind. outcome \<noteq> NeedsRecompile reason kind)"
  by (auto simp: no_recompile_def exit_with_def)

lemma no_recompile_bind [no_recompile_intros]: "(\<And>x. no_recompile (f x)) \<Longrightarrow> no_recompile (m \<bind> f)"
  by (cases m) simp_all

lemma no_recompile_ask_user [no_recompile_intros]: "no_recompile (ask_user env qs st)"
  by (auto simp: ask_user_def Let_def intro!: no_recompile_intros)

lemma no_recompile_failed_check [no_recompile_intros]: "no_recompile (failed_check env e st)"
  by (auto simp: failed_check_def prompt_for_provider_credentials_def intro!: no_recompile_intros)

lemma no_recompile_preflight: "no_recompile (run_preflight env st)"
  by (auto simp: run_preflight_def Let_def intro!: no_recompile_intros split: sum.split preflight_result.split clarification_result.split)

lemma no_recompile_conclude [no_recompile_intros]: "no_recompile (conclude env step r ev n st)"
  by (auto simp: conclude_def go_on_def complete_early_def complete_goal_def retry_step_def abort_step_def
      classify_error_def Let_def intro!: no_recompile_intros split: eval_verdict.split)

lemma no_recompile_evaluate_step [no_recompile_intros]: "no_recompile (evaluate_step env p step r st)"
  by (auto simp: evaluate_step_def Let_def intro!: no_recompile_intros split: sum.split task_failure.split)

lemma no_recompile_after_verdict [no_recompile_intros]: "no_recompile (after_verdict env p step v st)"
  by (cases v) (auto simp: after_verdict_def answer_directly_def block_step_def skip_step_def Let_def
      intro!: no_recompile_intros)

lemma no_recompile_linear_step: "no_recompile (linear_step env p st)"
  by (auto simp: linear_step_def execute_planned_def plan_completed_def skip_step_def Let_def
      intro!: no_recompile_intros split: option.split sum.split prod.split)

lemma no_recompile_workflow: "workflow_phase env st = Inl (outcome, st') \<Longrightarrow> outcome \<noteq> NeedsRecompile reason kind"
  by (auto simp: workflow_phase_def workflow_end_def Let_def split: if_splits sum.splits dag_outcome.splits)

lemma recompile_keeps_status:
  assumes "agent_step env st = Some (Inr (NeedsRecompile reason kind), st')"
  shows "as_status (the_agent st') = as_status (the_agent st)"
proof -
  have go: "should_continue (le_max_steps env) (le_timeout_secs env) (le_now env) (the_agent st)"
    "as_status (the_agent st) \<notin> {AgentPending, AgentClarifying, AgentPlanApprovalNeeded}"
    using assms no_recompile_preflight [of env st]
    by (auto simp: agent_step_def Let_def exit_with_def no_recompile_def split: if_splits)
  with assms obtain r where r: "plan_phase env st = Some r"
    by (auto simp: agent_step_def Let_def bind_eq_Some_conv)
  show ?thesis
  proof (cases r)
    case (Inl x)
    with r go assms have x: "plan_phase env st = Some (Inl (Inr (NeedsRecompile reason kind), st'))"
      by (cases x) (simp add: agent_step_def Let_def)
    then obtain s chosen s' where s: "incorporate_answers env (the_agent st) = Some s"
      "choose_plan (le_plan env) (ls_skills st) s = Some (chosen, s')" and p: "ls_plan st = None"
      by (auto simp: plan_phase_def bind_eq_Some_conv split: if_splits)
    with x have s3: "st' = set_agent s' st" by (cases chosen) (auto simp: plan_phase_def)
    from s have "quiet (the_agent st) s'" by (meson quiet_trans quiet_intros)
    with s3 show ?thesis by (simp add: quiet_def)
  next
    case (Inr st1)
    show ?thesis
    proof (cases "workflow_phase env st1")
      case (Inl y)
      with r go assms Inr have "y = (NeedsRecompile reason kind, st')"
        by (cases y) (simp add: agent_step_def Let_def exit_with_def)
      with Inl no_recompile_workflow show ?thesis by blast
    next
      case (Inr st2)
      with r go assms \<open>r = Inr st1\<close> obtain p where "linear_step env p st2 = Some (Inr (NeedsRecompile reason kind), st')"
        by (auto simp: agent_step_def Let_def split: option.splits)
      with no_recompile_linear_step show ?thesis by (simp add: no_recompile_def)
    qed
  qed
qed

text \<open>C6: The outcome of a step fixes the status that it leaves.  A step that goes on leaves the agent waiting
  until the instant of the reported delay, a question leaves it clarifying, an unapproved plan waiting for the
  approval, completion leaves it completed, delegation leaves it delegating to exactly the reported children,
  and a request for a new compilation leaves the status as it was.  All other outcomes leave it failed, those
  with a delay for a retry included: a transient error and a rate limit.\<close>

theorem outcome_matches_status:
  assumes "agent_step env st = Some (Inr outcome, st')"
  shows "case outcome of
      Continue d \<Rightarrow> as_status (the_agent st') = AgentWaiting
        \<and> dt_add_secs (le_ext env) (le_now env) d = Some (as_next_run (the_agent st'))
    | NeedsClarification _ \<Rightarrow> as_status (the_agent st') = AgentClarifying
    | PlanApprovalNeeded \<Rightarrow> as_status (the_agent st') = AgentPlanApprovalNeeded
    | Complete \<Rightarrow> as_status (the_agent st') = AgentCompleted
    | PartiallyComplete _ \<Rightarrow> as_status (the_agent st') = AgentCompleted
    | Delegating ids \<Rightarrow> as_status (the_agent st') = AgentDelegating \<and> as_pending_children (the_agent st') = ids
    | NeedsRecompile _ _ \<Rightarrow> as_status (the_agent st') = as_status (the_agent st)
    | _ \<Rightarrow> as_status (the_agent st') = AgentFailed"
proof -
  have "ends_in env outcome (the_agent st')" using ends_agent_step [OF assms] by (simp add: ends_def)
  with assms recompile_keeps_status show ?thesis by (cases outcome) auto
qed

text \<open>C18: A step keeps who the agent is: identifier, tenant, goal, workspace, parent, claim and lease stay as
  they are, whether the step reports an outcome or an error.  So the row that a worker stores after the step
  is the row of the agent it claimed.\<close>

theorem step_keeps_identity:
  assumes "agent_step env st = Some (res, st')"
  shows "same_agent (the_agent st) (the_agent st')"
  using ends_agent_step [OF assms] by (simp add: ends_def)

text \<open>C14: The position moves by at most one, and only when the step is done: it stays while the step is
  retried, questions are open, or the run ends, and moves to the next step only with an immediate
  continuation or a delegation.\<close>

theorem position_moves_by_one:
  assumes "agent_step env st = Some (res, st')" "le_max_steps env < 2 ^ 32"
  shows "as_current_step (the_agent st') = as_current_step (the_agent st)
     \<or> as_current_step (the_agent st') = as_current_step (the_agent st) + 1
       \<and> (res = Inr (Continue 0) \<or> (\<exists>ids. res = Inr (Delegating ids)))"
proof (cases "as_current_step (the_agent st) < le_max_steps env")
  case True
  with assms(2) have "next_position (as_current_step (the_agent st)) = as_current_step (the_agent st) + 1"
    by (simp add: next_position_def)
  with ends_agent_step [OF assms(1)] show ?thesis
    by (auto simp: ends_def moves_to_def split: sum.splits)
next
  case False
  with assms(1) show ?thesis
    by (auto simp: agent_step_def Let_def should_continue_def exit_with_def agent_mark_failed_def)
qed

section \<open>Bounds\<close>

text \<open>C8: The retry counter decides whether and when a failed step runs again.  When an agent that has started
  goes on, either its step is done: the next one follows at once with the counter at zero; or the same step is
  tried again, which happens at most three times: with the counter at 0 after 10 seconds, at 1 after 20, at 2
  after 40, and never at 3 or above, and it raises the counter by one.\<close>

theorem three_retries_at_most:
  assumes "agent_step env st = Some (Inr (Continue d), st')" "as_status (the_agent st) \<noteq> AgentPending"
  shows "d = 0 \<and> retry_count_of (the_agent st') = 0
       \<and> as_current_step (the_agent st') = next_position (as_current_step (the_agent st))
     \<or> (retry_count_of (the_agent st), d) \<in> {(0, 10), (1, 20), (2, 40)}
       \<and> retry_count_of (the_agent st') = retry_count_of (the_agent st) + 1
       \<and> as_current_step (the_agent st') = as_current_step (the_agent st)"
proof -
  have delay: "(n, retry_delay n) \<in> {(0, 10), (1, 20), (2, 40)}" if "n < 3" for n
  proof -
    from that consider "n = 0" | "n = 1" | "n = 2" by linarith
    then show ?thesis by cases (simp_all add: retry_delay_def)
  qed
  from continued_agent_step [OF assms] have "continued d (the_agent st) (the_agent st')" by blast
  with delay show ?thesis unfolding continued_def by metis
qed

text \<open>
  A run: steps with an environment each (the answers, the clock, the tables), and after each step that goes on
  what the worker does until the next one.  The result is the number of steps that went on and the result of
  the step that did not, or \<open>None\<close> when the run is still going on at the end of the list.
\<close>

fun agent_run ::
  "(loop_env \<times> (loop_state \<Rightarrow> loop_state)) list \<Rightarrow> loop_state \<Rightarrow> (nat \<times> loop_result) option" where
  "agent_run [] st = None"
| "agent_run ((env, between) # its) st =
     (case agent_step env st of
        Some (Inr (Continue d), st') \<Rightarrow> map_option (\<lambda>(n, r). (Suc n, r)) (agent_run its (between st'))
      | r \<Rightarrow> Some (0, r))"

definition run_potential :: "nat \<Rightarrow> agent_state \<Rightarrow> nat" where
  "run_potential M s = 4 * (M - as_current_step s) + (3 - retry_count_of s)"

lemma run_potential_decreases:
  assumes "continued d s s'" "as_current_step s < M" "M < 2 ^ 32"
  shows "run_potential M s' < run_potential M s"
  using assms by (auto simp: continued_def run_potential_def next_position_def)

text \<open>The worker keeps the position and the counter, and no agent returns to the preflight.\<close>

definition keeps_progress :: "(loop_state \<Rightarrow> loop_state) \<Rightarrow> bool" where
  "keeps_progress between \<longleftrightarrow> (\<forall>st. as_current_step (the_agent (between st)) = as_current_step (the_agent st)
     \<and> retry_count_of (the_agent (between st)) = retry_count_of (the_agent st)
     \<and> as_status (the_agent (between st)) \<noteq> AgentPending)"

definition settled :: "loop_result \<Rightarrow> bool" where
  "settled r \<longleftrightarrow> (\<forall>outcome st'. r = Some (Inr outcome, st') \<longrightarrow> (\<exists>reason kind. outcome = NeedsRecompile reason kind)
     \<or> as_status (the_agent st') \<in> {AgentCompleted, AgentFailed, AgentClarifying, AgentPlanApprovalNeeded, AgentDelegating})"

lemma settled_step: "(\<And>d st'. agent_step env st \<noteq> Some (Inr (Continue d), st')) \<Longrightarrow> settled (agent_step env st)"
  unfolding settled_def
proof (intro allI impI)
  fix outcome st'
  assume c: "\<And>d st'. agent_step env st \<noteq> Some (Inr (Continue d), st')" and o: "agent_step env st = Some (Inr outcome, st')"
  have "ends_in env outcome (the_agent st')" using ends_agent_step [OF o] by (simp add: ends_def)
  with c o show "(\<exists>reason kind. outcome = NeedsRecompile reason kind)
     \<or> as_status (the_agent st') \<in> {AgentCompleted, AgentFailed, AgentClarifying, AgentPlanApprovalNeeded, AgentDelegating}"
    by (cases outcome) auto
qed

lemma agent_run_stops:
  "(\<And>d st'. agent_step env st \<noteq> Some (Inr (Continue d), st')) \<Longrightarrow>
     agent_run ((env, between) # its) st = Some (0, agent_step env st)"
  by (auto split: option.split sum.split step_outcome.split)

lemma started_run_is_bounded:
  assumes "\<And>env between. (env, between) \<in> set its \<Longrightarrow> le_max_steps env = M \<and> keeps_progress between"
    and "M < 2 ^ 32" "as_status (the_agent st) \<noteq> AgentPending" "run_potential M (the_agent st) < length its"
  shows "\<exists>n r. agent_run its st = Some (n, r) \<and> n \<le> run_potential M (the_agent st) \<and> settled r"
  using assms(1,3,4)
proof (induction its arbitrary: st)
  case (Cons it its)
  obtain env between where it: "it = (env, between)" by fastforce
  with Cons.prems(1) have i: "le_max_steps env = M" "keeps_progress between" by auto
  show ?case
  proof (cases "\<exists>d st'. agent_step env st = Some (Inr (Continue d), st')")
    case False
    then have "agent_run (it # its) st = Some (0, agent_step env st)" unfolding it by (intro agent_run_stops) blast
    moreover have "settled (agent_step env st)" using False by (intro settled_step) blast
    ultimately show ?thesis by simp
  next
    case True
    then obtain d st' where st': "agent_step env st = Some (Inr (Continue d), st')" by blast
    from continued_agent_step [OF st' Cons.prems(2)]
    have "run_potential M (the_agent st') < run_potential M (the_agent st)"
      using i(1) assms(2) by (auto intro: run_potential_decreases)
    moreover have "run_potential M (the_agent (between st')) = run_potential M (the_agent st')"
      "as_status (the_agent (between st')) \<noteq> AgentPending"
      using i(2) by (simp_all add: keeps_progress_def run_potential_def)
    ultimately obtain n r where "agent_run its (between st') = Some (n, r)"
      "n \<le> run_potential M (the_agent (between st'))" "settled r"
      using Cons.IH [of "between st'"] Cons.prems(1,3) by auto
    with st' it \<open>run_potential M (the_agent (between st')) = _\<close>
      \<open>run_potential M (the_agent st') < _\<close> show ?thesis by simp
  qed
qed simp

lemma preflight_keeps_progress:
  assumes "agent_step env st = Some (Inr (Continue d), st')" "as_status (the_agent st) = AgentPending"
  shows "run_potential M (the_agent st') = run_potential M (the_agent st)"
proof -
  have "run_preflight env st = Some (Inr (Continue d), st')"
    using assms by (auto simp: agent_step_def Let_def exit_with_def split: if_splits)
  then have "as_current_step (the_agent st') = as_current_step (the_agent st)"
    "as_metadata (the_agent st') = as_metadata (the_agent st)"
    using failed_check_never_continues ask_user_never_continues
    by (auto simp: run_preflight_def Let_def exit_with_def wait_for_def agent_mark_waiting_def agent_mark_preflight_def
          bind_eq_Some_conv split: sum.splits preflight_result.splits clarification_result.splits option.splits)
  then show ?thesis by (simp add: run_potential_def retry_count_of_def meta_def)
qed


section \<open>Retries are scheduled\<close>

abbreviation object_metadata :: "agent_state \<Rightarrow> bool" where
  "object_metadata s \<equiv> as_object (as_metadata s) \<noteq> None"

lemma record_reflection_total:
  assumes "object_metadata s"
  obtains s' where "record_reflection summary findings s = Some s'" "object_metadata s'"
proof -
  obtain s1 where s1: "set_metadata ''last_reflection'' (JString summary) s = Some s1" "object_metadata s1"
    using assms by (rule set_metadata_object)
  obtain s2 where "set_metadata ''key_findings'' (strings findings) s1 = Some s2" "object_metadata s2"
    using s1(2) by (rule set_metadata_object)
  with s1(1) that show thesis by (simp add: record_reflection_def)
qed

lemma record_judgement_total:
  assumes "object_metadata s"
  obtains s' where "record_judgement j s = Some s'" "object_metadata s'"
proof -
  obtain s1 where s1: "set_metadata ''last_judgement'' (judgement_value j) s = Some s1" "object_metadata s1"
    using assms by (rule set_metadata_object)
  obtain s2 where s2: "persist_judgement_signal j s1 = Some s2" "object_metadata s2"
    using s1(2) unfolding persist_judgement_signal_def by (rule set_metadata_object)
  show thesis
    using that [of s1] that [of s2] s1 s2 by (cases "js_recommendation j = JudgeContinue") (simp_all add: record_judgement_def)
qed

lemma note_evaluation_total:
  assumes "object_metadata (the_agent st)"
  obtains st' where "note_evaluation env p step r ev st = Some st'" "object_metadata (the_agent st')"
proof -
  obtain s where s: "record_reflection (evr_summary ev) (evr_key_findings ev) (the_agent st) = Some s" "object_metadata s"
    using assms by (rule record_reflection_total)
  let ?j = "judge (le_judgement env) \<lparr>jc_state = s, jc_plan = p, jc_step = step, jc_result = r,
     jc_eval = ev, jc_retry_count = retry_count_of (the_agent st)\<rparr>"
  obtain s' where "record_judgement ?j s = Some s'" "object_metadata s'"
    using s(2) by (rule record_judgement_total)
  with s(1) that show thesis by (simp add: note_evaluation_def)
qed

lemma retry_step_total:
  assumes "object_metadata (the_agent st)" "dt_add_secs (le_ext env) (le_now env) (retry_delay n) = Some t"
  obtains st' where "retry_step env step r ev n st = Some (Inr (Continue (retry_delay n)), st')"
proof -
  obtain s1 where s1: "set_metadata ''retry_count'' (JNumber (PosInt (n + 1))) (the_agent st) = Some s1" "object_metadata s1"
    using assms(1) by (rule set_metadata_object)
  define s2 where "s2 = agent_mark_waiting t (le_now env) s1"
  define err where "err = (if join_with '' | '' (failed_errors r) = [] then evr_summary ev else join_with '' | '' (failed_errors r))"
  have s2: "wait_for env (retry_delay n) s1 = Some s2" "object_metadata s2"
    using assms(2) s1(2) by (simp_all add: wait_for_def s2_def agent_mark_waiting_def)
  obtain s3 where "set_metadata ''last_step_error'' (JString err) s2 = Some s3" "object_metadata s3"
    using s2(2) by (rule set_metadata_object)
  with s1(1) s2(1) that show thesis by (simp add: retry_step_def Let_def exit_with_def err_def)
qed

lemma retry_scheduled:
  assumes "evaluate_and_reflect (le_evaluator env) (the_agent st) p step r (retry_count_of (the_agent st)) 3 = Inr ev"
    and "evr_verdict ev = EvRetry" "as_object (as_metadata (the_agent st)) \<noteq> None"
    and "dt_add_secs (le_ext env) (le_now env) (retry_delay (retry_count_of (the_agent st))) = Some t"
  shows "\<exists>st'. evaluate_step env p step r st = Some (Inr (Continue (retry_delay (retry_count_of (the_agent st)))), st')
    \<and> as_status (the_agent st') = AgentWaiting \<and> as_next_run (the_agent st') = t
    \<and> as_current_step (the_agent st') = as_current_step (the_agent st)"
proof -
  let ?n = "retry_count_of (the_agent st)"
  obtain st1 where st1: "note_evaluation env p step r ev st = Some st1" "object_metadata (the_agent st1)"
    using assms(3) by (rule note_evaluation_total)
  obtain st' where st': "retry_step env step r ev ?n st1 = Some (Inr (Continue (retry_delay ?n)), st')"
    using st1(2) assms(4) by (rule retry_step_total)
  then have e: "evaluate_step env p step r st = Some (Inr (Continue (retry_delay ?n)), st')"
    using assms(1,2) st1(1) by (simp add: evaluate_step_def conclude_def)
  have "0 < retry_delay ?n" by (simp add: retry_delay_def)
  with ends_evaluate_step [OF e] assms(4) e show ?thesis
    by (auto simp: ends_def moves_to_def)
qed

section \<open>Witnesses\<close>

text \<open>A running agent whose single step fails: the evaluator asks for a retry.\<close>

definition sample_loop :: loop_env where
  "sample_loop = \<lparr>le_plan = sample_planner, le_orchestrator = sample_orchestrator\<lparr>or_execute := (\<lambda>_ _ _. Some (Inr sample_failure))\<rparr>,
     le_evaluator = sample_evaluator, le_judgement = \<lparr>je_sla = (\<lambda>_. None), je_now = 0, je_now_text = ''now''\<rparr>,
     le_max_steps = 50, le_timeout_secs = 3600, le_ok = (\<lambda>_. True), le_message_id = ''m'',
     le_preflight = Inr Feasible, le_clarify = Inr Clear, le_incorporate = Inr None, le_file_exists = (\<lambda>_. False),
     le_read_artifact = (\<lambda>_. None), le_show_expression = (\<lambda>_. []), le_consolidation = None,
     le_workflow_store = False, le_workflow_created = False, le_workflow_id = [], le_run_workflow = (\<lambda>_. Inr DagCompleted),
     le_sla_policies = None\<rparr>"

definition sample_loop_state :: loop_state where
  "sample_loop_state = \<lparr>ls_run = sample_run\<lparr>rs_agent := sample_agent\<lparr>as_status := AgentRunning\<rparr>\<rparr>,
     ls_plan = Some sample_diff_plan, ls_tasks = [], ls_messages = [], ls_goals = [], ls_skills = [], ls_reviews = []\<rparr>"

lemma sample_verdict:
  "evaluate_and_reflect sample_evaluator s sample_diff_plan sample_diff_step sample_failure 0 3 = Inr (plain_reflection EvRetry ''retry'')"
proof -
  have "\<not> er_success sample_failure" "policy_abort sample_diff_step sample_failure = None"
    "reviewed sample_evaluator = Inr (plain_reflection EvRetry ''retry'')" by code_simp+
  moreover have "repeated_error s sample_failure 0 = None" by (simp add: repeated_error_def)
  ultimately show ?thesis by (simp add: evaluate_and_reflect_def)
qed

lemma sample_orchestrated_failure:
  assumes "rs_agent run = agent_mark_running 0 (sample_agent\<lparr>as_status := AgentRunning\<rparr>)" "rs_history run = []" "rs_graph run = []"
  obtains run' where "orchestrate_step (le_orchestrator sample_loop) sample_diff_step sample_diff_plan run
      = Some (Inr (Executed sample_failure [], run'))" "object_metadata (rs_agent run')"
proof -
  let ?env = "le_orchestrator sample_loop" and ?s = "agent_mark_running 0 (sample_agent\<lparr>as_status := AgentRunning\<rparr>)"
  have steps: "inject_delegation_ctx ?s sample_diff_step = Some sample_diff_step"
    "resolve_step ?env ?s sample_diff_step = Some sample_diff_step"
    "or_execute ?env ?s sample_diff_plan sample_diff_step = Some (Inr sample_failure)"
    "inject_knowledge ?env ?s [] [] = []"
    by code_simp+
  have verdict: "step_verdict_of ?env s sample_failure = Executed sample_failure []" for s
  proof -
    have "extract_entities (or_alphanumeric ?env) (er_output sample_failure) = []" "or_role ?env = None"
      "detect_delegation sample_failure = None" "detect_clarification sample_failure = None"
      "\<not> er_success sample_failure"
      by code_simp+
    then show ?thesis by (simp add: step_verdict_of_def check_failure_rules_def split: option.split)
  qed
  have object: "object_metadata (rs_agent run)" unfolding assms by code_simp
  have hist: "run\<lparr>rs_history := []\<rparr> = run" using assms(2) by (cases run) simp
  obtain run' where "after_step ?env sample_diff_step sample_failure run
      = Some (step_verdict_of ?env (rs_agent run') sample_failure, run')" "object_metadata (rs_agent run')"
    using after_step_total [of run ?env sample_diff_step sample_failure] object by blast
  with that show thesis
    by (simp add: orchestrate_step_def assms steps verdict hist or_panic_def)
qed

lemma sample_step_retries:
  obtains st' where "agent_step sample_loop sample_loop_state = Some (Inr (Continue 10), st')"
proof -
  let ?s = "sample_agent\<lparr>as_status := AgentRunning\<rparr>" and ?st = "set_agent (agent_mark_running 0 (the_agent sample_loop_state)) sample_loop_state"
  have st: "the_agent sample_loop_state = ?s" by (simp add: sample_loop_state_def the_agent_def)
  have phases: "plan_phase sample_loop sample_loop_state = Some (Inr sample_loop_state)"
    "workflow_phase sample_loop sample_loop_state = Inr sample_loop_state"
    by (simp_all add: plan_phase_def workflow_phase_def sample_loop_def sample_loop_state_def)
  have start: "should_continue (le_max_steps sample_loop) (le_timeout_secs sample_loop) (le_now sample_loop) ?s"
    "plan_next_step sample_diff_plan (as_current_step ?s) = Some sample_diff_step" "ps_condition sample_diff_step = None"
    "as_status ?s = AgentRunning" "le_now sample_loop = 0" "\<not> le_store sample_loop"
    by code_simp+
  have run: "rs_agent (ls_run ?st) = agent_mark_running 0 ?s" "rs_history (ls_run ?st) = []" "rs_graph (ls_run ?st) = []"
    by (simp_all add: st set_agent_def) (simp_all add: sample_loop_state_def sample_run_def)
  obtain run' where run': "orchestrate_step (le_orchestrator sample_loop) sample_diff_step sample_diff_plan (ls_run ?st)
      = Some (Inr (Executed sample_failure [], run'))" "object_metadata (rs_agent run')"
    using run by (rule sample_orchestrated_failure)
  let ?st1 = "?st\<lparr>ls_run := run'\<rparr>"
  have count: "retry_count_of (the_agent ?st1) = 0"
  proof -
    have "retry_count_of (agent_mark_running 0 ?s) = 0" by code_simp
    moreover have "retry_count_of (rs_agent run') = retry_count_of (rs_agent (ls_run ?st))"
      using run'(1) by (intro keeps_retry_count keeps_orchestrated)
    ultimately show ?thesis unfolding run(1) by simp
  qed
  have "dt_add_secs (le_ext sample_loop) (le_now sample_loop) (retry_delay 0) = Some (secs 10)" by code_simp
  moreover have "evaluate_and_reflect (le_evaluator sample_loop) (the_agent ?st1) sample_diff_plan sample_diff_step
      sample_failure (retry_count_of (the_agent ?st1)) 3 = Inr (plain_reflection EvRetry ''retry'')"
    unfolding count by (simp only: sample_loop_def loop_env.simps sample_verdict)
  moreover have "evr_verdict (plain_reflection EvRetry ''retry'') = EvRetry" by (simp add: plain_reflection_def)
  moreover have "object_metadata (the_agent ?st1)" using run'(2) by simp
  ultimately obtain st' where "evaluate_step sample_loop sample_diff_plan sample_diff_step sample_failure ?st1
      = Some (Inr (Continue (retry_delay 0)), st')"
    using retry_scheduled [of sample_loop ?st1 sample_diff_plan sample_diff_step sample_failure] unfolding count by blast
  moreover have "retry_delay 0 = 10" by (simp add: retry_delay_def)
  moreover have "\<not> direct_answer sample_loop sample_diff_plan sample_diff_step sample_failure s" for s
    by (simp add: direct_answer_def sample_failure_def)
  ultimately have "linear_step sample_loop sample_diff_plan sample_loop_state = Some (Inr (Continue 10), st')"
    using run'(1) start(2,3,5,6)
    by (simp add: linear_step_def st evaluate_step_condition_def execute_planned_def mark_step_task_in_progress_def
        after_verdict_def count)
  with phases start(1,4) that show thesis
    by (simp add: agent_step_def st exit_with_def) (simp add: sample_loop_state_def)
qed

theorem outcome_matches_status_witness:
  "\<exists>st'. agent_step sample_loop sample_loop_state = Some (Inr (Continue 10), st') \<and> as_status (the_agent st') = AgentWaiting"
proof -
  obtain st' where st': "agent_step sample_loop sample_loop_state = Some (Inr (Continue 10), st')" by (rule sample_step_retries)
  with outcome_matches_status [OF st'] show ?thesis by auto
qed

theorem step_keeps_identity_witness:
  "\<exists>res st'. agent_step sample_loop sample_loop_state = Some (res, st') \<and> as_id (the_agent st') = ''a1''"
proof -
  obtain st' where st': "agent_step sample_loop sample_loop_state = Some (Inr (Continue 10), st')" by (rule sample_step_retries)
  have "as_id (the_agent sample_loop_state) = ''a1''" by code_simp
  with step_keeps_identity [OF st'] st' show ?thesis by (auto simp: same_agent_def)
qed

theorem position_moves_by_one_witness:
  "\<exists>st'. agent_step sample_loop sample_loop_state = Some (Inr (Continue 10), st') \<and> as_current_step (the_agent st') = 0"
proof -
  obtain st' where st': "agent_step sample_loop sample_loop_state = Some (Inr (Continue 10), st')" by (rule sample_step_retries)
  have "as_current_step (the_agent sample_loop_state) = 0" "le_max_steps sample_loop = 50" by code_simp+
  with position_moves_by_one [OF st'] st' show ?thesis by auto
qed

theorem three_retries_at_most_witness:
  "\<exists>st'. agent_step sample_loop sample_loop_state = Some (Inr (Continue 10), st') \<and> retry_count_of (the_agent st') = 1"
proof -
  obtain st' where st': "agent_step sample_loop sample_loop_state = Some (Inr (Continue 10), st')" by (rule sample_step_retries)
  have "as_status (the_agent sample_loop_state) = AgentRunning" "retry_count_of (the_agent sample_loop_state) = 0" by code_simp+
  with three_retries_at_most [OF st'] st' show ?thesis by auto
qed


end
