(* ===== verification/F64_Value.thy ===== *)
theory F64_Value
  imports Float64
begin

text \<open>
  \<open>f64\<close> with its infinities, NaN, overflow and subnormal results, for code that computes with numbers of its
  users; and the conversions of the standard library between numbers and text.  The two zeros are one
  value: the code never divides by zero and compares with \<open>==\<close>.
\<close>

section \<open>Values\<close>

datatype f64 = FinF rat | PosInf | NegInf | NotANumber

text \<open>The value nearest to a rational: 53 significant bits, the last place not below \<open>2 ^ -1074\<close>, and an
  infinity from \<open>2 ^ 1024\<close> on.\<close>

definition f64_of_rat :: "rat \<Rightarrow> f64" where
  "f64_of_rat q = (if q = 0 then FinF 0 else
     let e = max (floor_log2 q - 52) (- 1074); r = of_int (round_even (q / 2 powi e)) * 2 powi e
     in if 2 ^ 1024 \<le> r then PosInf else if r \<le> - (2 ^ 1024) then NegInf else FinF r)"

definition signed_inf :: "bool \<Rightarrow> f64" where
  "signed_inf negative = (if negative then NegInf else PosInf)"

fun fneg :: "f64 \<Rightarrow> f64" where
  "fneg (FinF q) = FinF (- q)"
| "fneg PosInf = NegInf"
| "fneg NegInf = PosInf"
| "fneg NotANumber = NotANumber"

fun fabs :: "f64 \<Rightarrow> f64" where
  "fabs (FinF q) = FinF \<bar>q\<bar>"
| "fabs NotANumber = NotANumber"
| "fabs _ = PosInf"

fun fadd :: "f64 \<Rightarrow> f64 \<Rightarrow> f64" where
  "fadd (FinF a) (FinF b) = f64_of_rat (a + b)"
| "fadd NotANumber _ = NotANumber"
| "fadd _ NotANumber = NotANumber"
| "fadd PosInf NegInf = NotANumber"
| "fadd NegInf PosInf = NotANumber"
| "fadd (FinF _) y = y"
| "fadd x _ = x"

definition fsub :: "f64 \<Rightarrow> f64 \<Rightarrow> f64" where
  "fsub a b = fadd a (fneg b)"

fun f_negative :: "f64 \<Rightarrow> bool" where
  "f_negative (FinF q) = (q < 0)"
| "f_negative NegInf = True"
| "f_negative _ = False"

fun f_zero :: "f64 \<Rightarrow> bool" where
  "f_zero (FinF q) = (q = 0)"
| "f_zero _ = False"

definition fmul :: "f64 \<Rightarrow> f64 \<Rightarrow> f64" where
  "fmul a b = (case (a, b) of
      (FinF x, FinF y) \<Rightarrow> f64_of_rat (x * y)
    | _ \<Rightarrow> if a = NotANumber \<or> b = NotANumber \<or> f_zero a \<or> f_zero b then NotANumber
        else signed_inf (f_negative a \<noteq> f_negative b))"

text \<open>The divisor is not zero.\<close>

definition fdiv :: "f64 \<Rightarrow> f64 \<Rightarrow> f64" where
  "fdiv a b = (case (a, b) of
      (FinF x, FinF y) \<Rightarrow> f64_of_rat (x / y)
    | (FinF x, _) \<Rightarrow> if b = NotANumber then NotANumber else FinF 0
    | (_, FinF y) \<Rightarrow> if a = NotANumber then NotANumber else signed_inf (f_negative a \<noteq> f_negative b)
    | _ \<Rightarrow> NotANumber)"

text \<open>The order; NaN is not comparable.\<close>

fun flt :: "f64 \<Rightarrow> f64 \<Rightarrow> bool" where
  "flt (FinF a) (FinF b) = (a < b)"
| "flt NotANumber _ = False"
| "flt _ NotANumber = False"
| "flt NegInf NegInf = False"
| "flt NegInf _ = True"
| "flt _ NegInf = False"
| "flt PosInf _ = False"
| "flt (FinF _) PosInf = True"

definition fle :: "f64 \<Rightarrow> f64 \<Rightarrow> bool" where
  "fle a b \<longleftrightarrow> flt a b \<or> a = b \<and> a \<noteq> NotANumber"

text \<open>\<open>f64::min\<close> and \<open>f64::max\<close> prefer the operand that is a number.\<close>

definition fmin :: "f64 \<Rightarrow> f64 \<Rightarrow> f64" where
  "fmin a b = (if a = NotANumber then b else if b = NotANumber then a else if flt b a then b else a)"

definition fmax :: "f64 \<Rightarrow> f64 \<Rightarrow> f64" where
  "fmax a b = (if a = NotANumber then b else if b = NotANumber then a else if flt a b then b else a)"

fun fround :: "f64 \<Rightarrow> f64" where
  "fround (FinF q) = FinF (of_int (round_away q))"
| "fround x = x"

text \<open>\<open>Iterator::sum\<close>.\<close>

definition fsum :: "f64 list \<Rightarrow> f64" where
  "fsum xs = fold (\<lambda>x acc. fadd acc x) xs (FinF 0)"

section \<open>Numbers from text\<close>

definition split_sign :: "string \<Rightarrow> bool \<times> string" where
  "split_sign s = (case s of
      [] \<Rightarrow> (False, s)
    | c # t \<Rightarrow> if c = CHR ''-'' then (True, t) else if c = CHR ''+'' then (False, t) else (False, s))"

definition digits_of :: "string \<Rightarrow> nat" where
  "digits_of ds = (case parse_digits 0 ds of Some n \<Rightarrow> n | None \<Rightarrow> 0)"

text \<open>\<open>str::parse::<i64>()\<close>.\<close>

definition parse_i64 :: "string \<Rightarrow> int option" where
  "parse_i64 s =
     (let (negative, ds) = split_sign s; n = (if negative then - int (digits_of ds) else int (digits_of ds)) in
      if ds \<noteq> [] \<and> list_all is_ascii_digit ds \<and> - (2 ^ 63) \<le> n \<and> n < 2 ^ 63 then Some n else None)"

text \<open>An exponent after the mantissa, or nothing.\<close>

definition parse_exponent :: "string \<Rightarrow> int option" where
  "parse_exponent s = (case s of
      [] \<Rightarrow> Some 0
    | c # t \<Rightarrow>
        if c = CHR ''e'' \<or> c = CHR ''E''
        then (let (negative, ds) = split_sign t in
          if ds \<noteq> [] \<and> list_all is_ascii_digit ds
          then Some (if negative then - int (digits_of ds) else int (digits_of ds)) else None)
        else None)"

definition parse_decimal :: "string \<Rightarrow> rat option" where
  "parse_decimal s =
     (let whole = takeWhile is_ascii_digit s; rest = dropWhile is_ascii_digit s;
          (frac, rest') = (case rest of
              [] \<Rightarrow> ([], rest)
            | c # t \<Rightarrow> if c = CHR ''.'' then (takeWhile is_ascii_digit t, dropWhile is_ascii_digit t) else ([], rest))
      in if whole = [] \<and> frac = [] then None
         else map_option (\<lambda>e. of_nat (digits_of (whole @ frac)) * 10 powi (e - int (length frac))) (parse_exponent rest'))"

text \<open>\<open>str::parse::<f64>()\<close>.\<close>

definition parse_f64 :: "string \<Rightarrow> f64 option" where
  "parse_f64 s =
     (let (negative, t) = split_sign s; signed = (\<lambda>x. if negative then fneg x else x) in
      if eq_ignore_ascii_case t ''inf'' \<or> eq_ignore_ascii_case t ''infinity'' then Some (signed PosInf)
      else if eq_ignore_ascii_case t ''nan'' then Some NotANumber
      else map_option (\<lambda>q. signed (f64_of_rat q)) (parse_decimal t))"

fun parse_bool :: "string \<Rightarrow> bool option" where
  "parse_bool s = (if s = ''true'' then Some True else if s = ''false'' then Some False else None)"

text \<open>\<open>Number::from_f64\<close> has no infinity and no NaN.\<close>

fun json_of_f64 :: "f64 \<Rightarrow> json option" where
  "json_of_f64 (FinF q) = Some (JNumber (FloatNum q))"
| "json_of_f64 _ = None"

section \<open>Facts\<close>

lemma f64_of_rat_0 [simp]: "f64_of_rat 0 = FinF 0"
  by (simp add: f64_of_rat_def)

lemma takeWhile_all_digits: "list_all is_ascii_digit ds \<Longrightarrow> takeWhile is_ascii_digit ds = ds \<and> dropWhile is_ascii_digit ds = []"
  by (simp add: list_all_iff takeWhile_eq_all_conv dropWhile_eq_Nil_conv)

end
