(* ===== verification/Data_Formula.thy ===== *)
theory Data_Formula
  imports F64_Value Json_Schema
begin

text \<open>
  The formulas of the data engine (\<open>tools/data_engine.rs\<close>): paths into a record, the recursive-descent
  parser, the depth of an expression and its evaluation.  A record is the object that it is in JSON.

  The parser is the code's, one function per method and per loop, over the text that is left.  Every call
  spends one unit of fuel; \<open>parse_formula\<close> starts with six units per byte and six more, which
  is always enough (\<open>parser_returns\<close>).
\<close>

type_synonym data_row = "(string \<times> json) list"

section \<open>Paths\<close>

fun get_parts :: "string list \<Rightarrow> json option \<Rightarrow> json option" where
  "get_parts [] v = v"
| "get_parts (p # ps) v = (case v of Some (JObject m) \<Rightarrow> get_parts ps (map_of m p) | _ \<Rightarrow> None)"

definition get_path :: "data_row \<Rightarrow> string \<Rightarrow> json option" where
  "get_path row path = get_parts (split_on CHR ''.'' path) (Some (JObject row))"

definition child_object :: "string \<Rightarrow> data_row \<Rightarrow> data_row" where
  "child_object k m = (case map_of m k of Some (JObject child) \<Rightarrow> child | _ \<Rightarrow> [])"

fun set_path_parts :: "data_row \<Rightarrow> string list \<Rightarrow> json \<Rightarrow> data_row" where
  "set_path_parts m [] v = m"
| "set_path_parts m [p] v = obj_insert p v m"
| "set_path_parts m (p # ps) v = obj_insert p (JObject (set_path_parts (child_object p m) ps v)) m"

definition set_path :: "string \<Rightarrow> json \<Rightarrow> data_row \<Rightarrow> data_row" where
  "set_path path v row = set_path_parts row (split_on CHR ''.'' path) v"

definition obj_remove :: "string \<Rightarrow> data_row \<Rightarrow> data_row" where
  "obj_remove k m = filter (\<lambda>kv. fst kv \<noteq> k) m"

fun remove_path_parts :: "data_row \<Rightarrow> string list \<Rightarrow> data_row" where
  "remove_path_parts m [] = m"
| "remove_path_parts m [p] = obj_remove p m"
| "remove_path_parts m (p # ps) =
     (case map_of m p of
        Some (JObject child) \<Rightarrow> obj_insert p (JObject (remove_path_parts child ps)) m
      | _ \<Rightarrow> m)"

definition remove_path :: "string \<Rightarrow> data_row \<Rightarrow> data_row" where
  "remove_path path row = remove_path_parts row (split_on CHR ''.'' path)"

section \<open>Numbers\<close>

fun number_of :: "json \<Rightarrow> f64 option" where
  "number_of (JNumber n) = Some (FinF (num_as_f64 n))"
| "number_of (JString s) = parse_f64 s"
| "number_of (JBool b) = Some (FinF (if b then 1 else 0))"
| "number_of _ = None"

definition number_to_value :: "f64 \<Rightarrow> (string, json) result" where
  "number_to_value x = (case json_of_f64 x of Some v \<Rightarrow> Inr v | None \<Rightarrow> Inl ''invalid numeric value'')"

definition need :: "string \<Rightarrow> 'a option \<Rightarrow> (string, 'a) result" where
  "need e x = (case x of Some v \<Rightarrow> Inr v | None \<Rightarrow> Inl e)"

definition rbind :: "('e, 'a) result \<Rightarrow> ('a \<Rightarrow> ('e, 'b) result) \<Rightarrow> ('e, 'b) result" where
  "rbind r f = (case r of Inl e \<Rightarrow> Inl e | Inr x \<Rightarrow> f x)"

lemma rbind_simps [simp]: "rbind (Inl e) f = Inl e" "rbind (Inr x) f = f x"
  by (simp_all add: rbind_def)

lemma rbind_Inr_iff: "rbind r f = Inr y \<longleftrightarrow> (\<exists>x. r = Inr x \<and> f x = Inr y)"
  by (cases r) auto

lemma rbind_cong [fundef_cong]: "r = r' \<Longrightarrow> (\<And>x. r' = Inr x \<Longrightarrow> f x = f' x) \<Longrightarrow> rbind r f = rbind r' f'"
  by (cases r') auto

section \<open>Expressions\<close>

datatype bin_op = OpAdd | OpSub | OpMul | OpDiv

datatype formula =
    FLiteral json
  | FField string
  | FMinus formula
  | FBinary formula bin_op formula
  | FCall string "formula list"

fun expr_depth :: "formula \<Rightarrow> nat" where
  "expr_depth (FLiteral _) = 1"
| "expr_depth (FField _) = 1"
| "expr_depth (FMinus e) = 1 + expr_depth e"
| "expr_depth (FBinary l _ r) = 1 + max (expr_depth l) (expr_depth r)"
| "expr_depth (FCall _ args) = 1 + fold max (map expr_depth args) 0"

subsection \<open>Evaluation\<close>

fun arith :: "bin_op \<Rightarrow> f64 \<Rightarrow> f64 \<Rightarrow> (string, json) result" where
  "arith OpAdd l r = number_to_value (fadd l r)"
| "arith OpSub l r = number_to_value (fsub l r)"
| "arith OpMul l r = number_to_value (fmul l r)"
| "arith OpDiv l r = (if f_zero r then Inl ''division by zero'' else number_to_value (fdiv l r))"

definition all_numbers :: "string \<Rightarrow> json list \<Rightarrow> (string, f64 list) result" where
  "all_numbers e vs = need e (those (map number_of vs))"

definition round_digits :: "json list \<Rightarrow> nat" where
  "round_digits vs = (case vs of
      _ # d # _ \<Rightarrow> (case json_as_i64 d of Some i \<Rightarrow> nat (max 0 (min 10 i)) | None \<Rightarrow> 0)
    | _ \<Rightarrow> 0)"

definition round_to :: "nat \<Rightarrow> f64 \<Rightarrow> f64" where
  "round_to digits x = fdiv (fround (fmul x (FinF (10 ^ digits)))) (FinF (10 ^ digits))"

definition first_arg :: "string \<Rightarrow> json list \<Rightarrow> (string, json) result" where
  "first_arg e vs = (case vs of v # _ \<Rightarrow> Inr v | [] \<Rightarrow> Inl e)"

definition fold_numbers :: "(f64 \<Rightarrow> f64 \<Rightarrow> f64) \<Rightarrow> string \<Rightarrow> f64 list \<Rightarrow> (string, json) result" where
  "fold_numbers f e xs = (case xs of [] \<Rightarrow> Inl e | x # _ \<Rightarrow> number_to_value (fold (\<lambda>y acc. f acc y) xs x))"

definition call_helper :: "string \<Rightarrow> json list \<Rightarrow> (string, json) result" where
  "call_helper name vs =
     (let fn = to_ascii_lowercase name in
      if fn = ''coalesce'' then Inr (case find (\<lambda>v. v \<noteq> JNull) vs of Some v \<Rightarrow> v | None \<Rightarrow> JNull)
      else if fn = ''abs''
      then rbind (first_arg ''abs expects one argument'' vs) (\<lambda>v.
             rbind (need ''abs expects numeric value'' (number_of v)) (\<lambda>x. number_to_value (fabs x)))
      else if fn = ''min''
      then rbind (all_numbers ''min expects numeric values'' vs) (fold_numbers fmin ''min expects at least one argument'')
      else if fn = ''max''
      then rbind (all_numbers ''max expects numeric values'' vs) (fold_numbers fmax ''max expects at least one argument'')
      else if fn = ''round''
      then rbind (first_arg ''round expects at least one argument'' vs) (\<lambda>v.
             rbind (need ''round expects numeric value'' (number_of v)) (\<lambda>x. number_to_value (round_to (round_digits vs) x)))
      else Inl (''unsupported formula helper '' @ CHR 0x27 # fn @ [CHR 0x27]))"

fun evaluate_expr :: "data_row \<Rightarrow> formula \<Rightarrow> (string, json) result"
  and evaluate_args :: "data_row \<Rightarrow> formula list \<Rightarrow> (string, json list) result" where
  "evaluate_expr row (FLiteral v) = Inr v"
| "evaluate_expr row (FField field) = Inr (case get_path row field of Some v \<Rightarrow> v | None \<Rightarrow> JNull)"
| "evaluate_expr row (FMinus e) =
     rbind (evaluate_expr row e) (\<lambda>v.
     rbind (need ''unary minus expects numeric value'' (number_of v)) (\<lambda>x. number_to_value (fneg x)))"
| "evaluate_expr row (FBinary l op r) =
     rbind (evaluate_expr row l) (\<lambda>lv.
     rbind (evaluate_expr row r) (\<lambda>rv.
     rbind (need ''arithmetic expects numeric values'' (number_of lv)) (\<lambda>x.
     rbind (need ''arithmetic expects numeric values'' (number_of rv)) (\<lambda>y. arith op x y))))"
| "evaluate_expr row (FCall name args) = rbind (evaluate_args row args) (call_helper name)"
| "evaluate_args row [] = Inr []"
| "evaluate_args row (e # es) =
     rbind (evaluate_expr row e) (\<lambda>v. rbind (evaluate_args row es) (\<lambda>vs. Inr (v # vs)))"

section \<open>The parser\<close>

definition is_ident_start :: "char \<Rightarrow> bool" where
  "is_ident_start c \<longleftrightarrow> 65 \<le> byte_of c \<and> byte_of c \<le> 90 \<or> 97 \<le> byte_of c \<and> byte_of c \<le> 122 \<or> c = CHR ''_''"

definition is_ident_continue :: "char \<Rightarrow> bool" where
  "is_ident_continue c \<longleftrightarrow> is_ident_start c \<or> is_ascii_digit c \<or> c = CHR ''.''"

definition is_number_char :: "char \<Rightarrow> bool" where
  "is_number_char c \<longleftrightarrow> is_ascii_digit c \<or> c = CHR ''.''"

text \<open>A parser gives an error or a value with the text that is left, and \<open>None\<close> when its fuel is spent.\<close>

type_synonym 'a formula_parsed = "(string, 'a \<times> string) result option"

definition pbind :: "'a formula_parsed \<Rightarrow> ('a \<Rightarrow> string \<Rightarrow> 'b formula_parsed) \<Rightarrow> 'b formula_parsed" where
  "pbind p f = (case p of
      None \<Rightarrow> None
    | Some (Inl e) \<Rightarrow> Some (Inl e)
    | Some (Inr (x, rest)) \<Rightarrow> f x rest)"

definition pfail :: "string \<Rightarrow> 'a formula_parsed" where
  "pfail e = Some (Inl e)"

definition pok :: "'a \<Rightarrow> string \<Rightarrow> 'a formula_parsed" where
  "pok x rest = Some (Inr (x, rest))"

definition first_char :: "string \<Rightarrow> string" where
  "first_char s = take 1 s @ takeWhile (\<lambda>c. 128 \<le> byte_of c \<and> byte_of c < 192) (drop 1 s)"

definition expect :: "char \<Rightarrow> 'a \<Rightarrow> string \<Rightarrow> 'a formula_parsed" where
  "expect c x s = (case trim_start s of
      d # t \<Rightarrow> if d = c then pok x t else pfail (''expected '' @ [CHR 0x27, c, CHR 0x27])
    | [] \<Rightarrow> pfail (''expected '' @ [CHR 0x27, c, CHR 0x27]))"

definition parse_number :: "string \<Rightarrow> formula formula_parsed" where
  "parse_number s =
     (let out = takeWhile is_number_char s in
      case parse_f64 out of
        None \<Rightarrow> pfail (''invalid number '' @ CHR 0x27 # out @ CHR 0x27 # '': invalid float literal'')
      | Some x \<Rightarrow>
          (case number_to_value x of
             Inl e \<Rightarrow> pfail e
           | Inr v \<Rightarrow> pok (FLiteral v) (dropWhile is_number_char s)))"

definition unescape :: "char \<Rightarrow> char" where
  "unescape c = (if c = CHR ''n'' then CHR 0x0A else if c = CHR ''r'' then CHR 0x0D
     else if c = CHR ''t'' then CHR 0x09 else c)"

fun parse_string :: "char \<Rightarrow> string \<Rightarrow> string \<Rightarrow> formula formula_parsed" where
  "parse_string quote out [] = pfail ''unterminated string literal''"
| "parse_string quote out (c # s) =
     (if c = quote then pok (FLiteral (JString (rev out))) s
      else if c = CHR 0x5C
      then (case s of
          [] \<Rightarrow> pfail ''unterminated escape sequence''
        | e # t \<Rightarrow> parse_string quote (unescape e # out) t)
      else parse_string quote (c # out) s)"

definition add_op :: "char \<Rightarrow> bin_op option" where
  "add_op c = (if c = CHR ''+'' then Some OpAdd else if c = CHR ''-'' then Some OpSub else None)"

definition mul_op :: "char \<Rightarrow> bin_op option" where
  "mul_op c = (if c = CHR ''*'' then Some OpMul else if c = CHR ''/'' then Some OpDiv else None)"

definition next_op :: "(char \<Rightarrow> bin_op option) \<Rightarrow> string \<Rightarrow> (bin_op \<times> string) option" where
  "next_op f s = (case s of [] \<Rightarrow> None | c # t \<Rightarrow> map_option (\<lambda>op. (op, t)) (f c))"

function parse_add_sub :: "nat \<Rightarrow> string \<Rightarrow> formula formula_parsed"
  and add_sub_loop :: "nat \<Rightarrow> formula \<Rightarrow> string \<Rightarrow> formula formula_parsed"
  and parse_mul_div :: "nat \<Rightarrow> string \<Rightarrow> formula formula_parsed"
  and mul_div_loop :: "nat \<Rightarrow> formula \<Rightarrow> string \<Rightarrow> formula formula_parsed"
  and parse_unary :: "nat \<Rightarrow> string \<Rightarrow> formula formula_parsed"
  and parse_primary :: "nat \<Rightarrow> string \<Rightarrow> formula formula_parsed"
  and parse_args :: "nat \<Rightarrow> formula list \<Rightarrow> string \<Rightarrow> formula list formula_parsed" where
  "parse_add_sub 0 s = None"
| "parse_add_sub (Suc n) s = pbind (parse_mul_div n s) (\<lambda>e rest. add_sub_loop n e rest)"
| "add_sub_loop 0 e s = None"
| "add_sub_loop (Suc n) e s =
     (case next_op add_op (trim_start s) of
        None \<Rightarrow> pok e (trim_start s)
      | Some (op, t) \<Rightarrow> pbind (parse_mul_div n t) (\<lambda>r rest. add_sub_loop n (FBinary e op r) rest))"
| "parse_mul_div 0 s = None"
| "parse_mul_div (Suc n) s = pbind (parse_unary n s) (\<lambda>e rest. mul_div_loop n e rest)"
| "mul_div_loop 0 e s = None"
| "mul_div_loop (Suc n) e s =
     (case next_op mul_op (trim_start s) of
        None \<Rightarrow> pok e (trim_start s)
      | Some (op, t) \<Rightarrow> pbind (parse_unary n t) (\<lambda>r rest. mul_div_loop n (FBinary e op r) rest))"
| "parse_unary 0 s = None"
| "parse_unary (Suc n) s =
     (case trim_start s of
        [] \<Rightarrow> parse_primary n []
      | c # t \<Rightarrow>
          if c = CHR ''-'' then pbind (parse_unary n t) (\<lambda>e. pok (FMinus e))
          else if c = CHR ''+'' then parse_unary n t
          else parse_primary n (c # t))"
| "parse_primary 0 s = None"
| "parse_primary (Suc n) s =
     (case trim_start s of
        [] \<Rightarrow> pfail ''unexpected end of formula''
      | c # t \<Rightarrow>
          if c = CHR ''('' then pbind (parse_add_sub n t) (\<lambda>e rest. expect (CHR '')'') e rest)
          else if c = CHR 0x22 \<or> c = CHR 0x27 then parse_string c [] t
          else if is_number_char c then parse_number (c # t)
          else if is_ident_start c
          then (let name = takeWhile is_ident_continue (c # t); rest = trim_start (dropWhile is_ident_continue t) in
            case rest of
              d # rest' \<Rightarrow>
                if d = CHR ''(''
                then pbind
                  (case trim_start rest' of
                     x # y \<Rightarrow> if x = CHR '')'' then pok [] (x # y) else parse_args n [] (x # y)
                   | [] \<Rightarrow> parse_args n [] [])
                  (\<lambda>args. expect (CHR '')'') (FCall name args))
                else pok (FField name) rest
            | [] \<Rightarrow> pok (FField name) rest)
          else pfail (''unexpected character '' @ CHR 0x27 # first_char (c # t) @ CHR 0x27 # '' in formula''))"
| "parse_args 0 args s = None"
| "parse_args (Suc n) args s =
     pbind (parse_add_sub n s) (\<lambda>e rest.
       case trim_start rest of
         c # t \<Rightarrow>
           if c = CHR '','' then parse_args n (args @ [e]) t
           else if c = CHR '')'' then pok (args @ [e]) (c # t)
           else pfail ''expected ',' or ')' in function call''
       | [] \<Rightarrow> pfail ''expected ',' or ')' in function call'')"
  by pat_completeness auto
termination
  by (relation "measure (case_sum (case_sum (\<lambda>(n, _). n) (case_sum (\<lambda>(n, _, _). n) (\<lambda>(n, _). n)))
    (case_sum (case_sum (\<lambda>(n, _, _). n) (\<lambda>(n, _). n)) (case_sum (\<lambda>(n, _). n) (\<lambda>(n, _, _). n))))") simp_all

definition formula_fuel :: "string \<Rightarrow> nat" where
  "formula_fuel s = 6 * length s + 6"

definition parse_formula :: "string \<Rightarrow> (string, formula) result" where
  "parse_formula s =
     (case parse_add_sub (formula_fuel s) s of
        None \<Rightarrow> Inl ''''
      | Some (Inl e) \<Rightarrow> Inl e
      | Some (Inr (e, rest)) \<Rightarrow> if trim_start rest = [] then Inr e else Inl ''unexpected trailing characters'')"

definition evaluate_formula :: "nat \<Rightarrow> string \<Rightarrow> data_row \<Rightarrow> (string, json) result" where
  "evaluate_formula max_depth text row =
     rbind (parse_formula text) (\<lambda>e.
       if max_depth < expr_depth e
       then Inl (''formula expression depth exceeds max_depth='' @ show_nat max_depth)
       else evaluate_expr row e)"

end
