(* ===== verification/Data_Rules.thy ===== *)
theory Data_Rules
  imports Data_Formula
begin

text \<open>
  The row-wise operations of the data engine (\<open>tools/data_engine.rs\<close>): its options, the conditions with
  their validation and evaluation, assignments, rules with their actions, and cleaning.

  Arguments of the model are the deserializers that serde derives, regular expressions with their captures,
  Unicode lower case, and the text of numbers and quoted strings.
\<close>

section \<open>Data\<close>

record comparators =
  cm_exists :: "bool option"
  cm_not_exists :: "bool option"
  cm_truthy :: "bool option"
  cm_falsy :: "bool option"
  cm_equals :: "json option"
  cm_not_equals :: "json option"
  cm_contains :: "json option"
  cm_nonempty :: "bool option"
  cm_empty :: "bool option"
  cm_gt :: "json option"
  cm_gte :: "json option"
  cm_lt :: "json option"
  cm_lte :: "json option"
  cm_regex :: "string option"

datatype condition_spec = ConditionSpec
  (dc_field: "string option") (dc_cmp: comparators)
  (dc_all_of: "condition_spec list option") (dc_any_of: "condition_spec list option")
  (dc_not: "condition_spec option")

record rule_action =
  ra_set :: "data_row option"
  ra_tag :: "string option"
  ra_tags :: "string list option"
  ra_drop :: "bool option"
  ra_remove_fields :: "string list option"

record rule_spec =
  ru_condition :: condition_spec
  ru_then :: rule_action
  ru_else :: "rule_action option"

record clean_config =
  cl_trim_strings :: bool
  cl_lowercase_fields :: "string list"
  cl_null_values :: "json list"
  cl_type_coercion :: data_row

record rank_config =
  rk_score_field :: "string option"
  rk_score_formula :: "string option"
  rk_top_n :: "nat option"
  rk_descending :: bool

record aggregate_config =
  ag_group_by :: "string list"
  ag_metrics :: data_row

record extract_field_spec =
  ef_pattern :: string
  ef_type :: string
  ef_required :: bool

record extract_config =
  ex_source_field :: "string option"
  ex_schema :: data_row
  ex_required_fields :: "string list"

record rules_config =
  rc_mode :: string
  rc_rules :: "rule_spec list"

record pipeline_step =
  dp_op :: string
  dp_condition :: "condition_spec option"
  dp_assign :: "data_row option"
  dp_field :: "string option"
  dp_formula :: "string option"
  dp_config :: "json option"
  dp_mode :: "string option"
  dp_rules :: "rule_spec list option"
  dp_group_by :: "string list option"
  dp_metrics :: "data_row option"
  dp_top_n :: "nat option"
  dp_source_field :: "string option"
  dp_schema :: "data_row option"
  dp_required_fields :: "string list option"

record engine_options =
  eo_strict :: bool
  eo_max_depth :: nat
  eo_max_regex_length :: nat
  eo_max_formula_length :: nat

record data_env =
  de_regex :: "string \<Rightarrow> (string, string \<Rightarrow> bool) result"
  de_captures :: "string \<Rightarrow> string \<Rightarrow> (string \<times> string option) option"
  de_lower :: "string \<Rightarrow> string"
  de_number_text :: "json_num \<Rightarrow> string"
  de_quote :: "string \<Rightarrow> string"
  de_pipeline :: "json \<Rightarrow> (string, pipeline_step list) result"
  de_condition :: "json \<Rightarrow> (string, condition_spec) result"
  de_rules :: "json \<Rightarrow> (string, rules_config) result"
  de_clean :: "json \<Rightarrow> (string, clean_config) result"
  de_rank :: "json \<Rightarrow> (string, rank_config) result"
  de_aggregate :: "json \<Rightarrow> (string, aggregate_config) result"
  de_extract :: "json \<Rightarrow> (string, extract_config) result"
  de_field_spec :: "json \<Rightarrow> (string, extract_field_spec) result"

text \<open>\<open>map_err\<close> with a prefix, and the first error of a list.\<close>

definition prefix_err :: "string \<Rightarrow> (string, 'a) result \<Rightarrow> (string, 'a) result" where
  "prefix_err p r = map_sum (\<lambda>e. p @ e) id r"

fun each :: "('a \<Rightarrow> ('e, 'b) result) \<Rightarrow> 'a list \<Rightarrow> ('e, 'b list) result" where
  "each f [] = Inr []"
| "each f (x # xs) = rbind (f x) (\<lambda>y. rbind (each f xs) (\<lambda>ys. Inr (y # ys)))"

definition too_long :: "string \<Rightarrow> string \<Rightarrow> nat \<Rightarrow> string" where
  "too_long what s limit = what @ '' too long ('' @ show_nat (length s) @ '' > '' @ show_nat limit @ '')''"

section \<open>Conditions\<close>

definition comparator_flags :: "comparators \<Rightarrow> bool list" where
  "comparator_flags c = [cm_exists c \<noteq> None, cm_not_exists c \<noteq> None, cm_truthy c \<noteq> None, cm_falsy c \<noteq> None,
     cm_equals c \<noteq> None, cm_not_equals c \<noteq> None, cm_contains c \<noteq> None, cm_nonempty c \<noteq> None, cm_empty c \<noteq> None,
     cm_gt c \<noteq> None, cm_gte c \<noteq> None, cm_lt c \<noteq> None, cm_lte c \<noteq> None, cm_regex c \<noteq> None]"

definition check_shape :: "condition_spec \<Rightarrow> (string, unit) result" where
  "check_shape c =
     (if dc_not c \<noteq> None \<and> (dc_field c \<noteq> None \<or> dc_all_of c \<noteq> None \<or> dc_any_of c \<noteq> None)
      then Inl ''condition 'not' cannot be combined with atomic or grouped conditions''
      else if dc_all_of c \<noteq> None \<and> dc_any_of c \<noteq> None then Inl ''condition cannot have both all_of and any_of''
      else if dc_not c = None \<and> dc_all_of c = None \<and> dc_any_of c = None
      then (if dc_field c = None then Inl ''atomic condition requires field''
            else if length (filter id (comparator_flags (dc_cmp c))) \<noteq> 1
            then Inl ''atomic condition must define exactly one comparator'' else Inr ())
      else Inr ())"

definition check_regex :: "data_env \<Rightarrow> engine_options \<Rightarrow> string option \<Rightarrow> (string, unit) result" where
  "check_regex env opts r = (case r of
      None \<Rightarrow> Inr ()
    | Some p \<Rightarrow>
        if eo_max_regex_length opts < length p then Inl (too_long ''regex'' p (eo_max_regex_length opts))
        else map_sum (\<lambda>e. ''invalid regex: '' @ e) (\<lambda>_. ()) (de_regex env p))"

fun validate_condition :: "data_env \<Rightarrow> engine_options \<Rightarrow> nat \<Rightarrow> condition_spec \<Rightarrow> (string, unit) result"
  and validate_conditions :: "data_env \<Rightarrow> engine_options \<Rightarrow> nat \<Rightarrow> condition_spec list \<Rightarrow> (string, unit) result" where
  "validate_condition env opts depth (ConditionSpec field cmp all_of any_of neg) =
     (if eo_max_depth opts < depth
      then Inl (''condition depth exceeds max_depth='' @ show_nat (eo_max_depth opts))
      else rbind (check_shape (ConditionSpec field cmp all_of any_of neg)) (\<lambda>_.
        rbind (check_regex env opts (cm_regex cmp)) (\<lambda>_.
        rbind (case all_of of None \<Rightarrow> Inr ()
          | Some cs \<Rightarrow> if cs = [] then Inl ''all_of cannot be empty'' else validate_conditions env opts (depth + 1) cs) (\<lambda>_.
        rbind (case any_of of None \<Rightarrow> Inr ()
          | Some cs \<Rightarrow> if cs = [] then Inl ''any_of cannot be empty'' else validate_conditions env opts (depth + 1) cs) (\<lambda>_.
        (case neg of None \<Rightarrow> Inr () | Some c \<Rightarrow> validate_condition env opts (depth + 1) c))))))"
| "validate_conditions env opts depth [] = Inr ()"
| "validate_conditions env opts depth (c # cs) =
     rbind (validate_condition env opts depth c) (\<lambda>_. validate_conditions env opts depth cs)"

subsection \<open>Evaluation\<close>

fun is_truthy :: "json option \<Rightarrow> bool" where
  "is_truthy (Some (JBool b)) = b"
| "is_truthy (Some (JNumber n)) = (num_as_f64 n \<noteq> 0)"
| "is_truthy (Some (JString s)) = (trim s \<noteq> [])"
| "is_truthy (Some (JArray xs)) = (xs \<noteq> [])"
| "is_truthy (Some (JObject m)) = (m \<noteq> [])"
| "is_truthy _ = False"

fun is_empty_value :: "json option \<Rightarrow> bool" where
  "is_empty_value None = True"
| "is_empty_value (Some JNull) = True"
| "is_empty_value (Some (JString s)) = (trim s = [])"
| "is_empty_value (Some (JArray xs)) = (xs = [])"
| "is_empty_value (Some (JObject m)) = (m = [])"
| "is_empty_value _ = False"

fun data_contains :: "json option \<Rightarrow> json \<Rightarrow> bool" where
  "data_contains (Some (JString text)) right = (case as_str right of Some needle \<Rightarrow> str_contains needle text | None \<Rightarrow> False)"
| "data_contains (Some (JArray items)) right = list_ex (\<lambda>x. x = right) items"
| "data_contains (Some (JObject m)) right = (case as_str right of Some key \<Rightarrow> map_of m key \<noteq> None | None \<Rightarrow> False)"
| "data_contains _ _ = False"

definition compare_numeric :: "(f64 \<Rightarrow> f64 \<Rightarrow> bool) \<Rightarrow> json option \<Rightarrow> json \<Rightarrow> (string, bool) result" where
  "compare_numeric f left right =
     rbind (need ''numeric comparison requires numeric field value'' (Option.bind left number_of)) (\<lambda>l.
     rbind (need ''numeric comparison requires numeric comparison value'' (number_of right)) (\<lambda>r. Inr (f l r)))"

definition is_null_value :: "json option \<Rightarrow> bool" where
  "is_null_value v \<longleftrightarrow> (case v of Some x \<Rightarrow> x = JNull | None \<Rightarrow> True)"

definition match_regex :: "data_env \<Rightarrow> string \<Rightarrow> json option \<Rightarrow> (string, bool) result" where
  "match_regex env p value = (case Option.bind value as_str of
      None \<Rightarrow> Inr False
    | Some s \<Rightarrow> map_sum (\<lambda>e. ''invalid regex: '' @ e) (\<lambda>f. f s) (de_regex env p))"

definition compare_ordered :: "comparators \<Rightarrow> json option \<Rightarrow> (string, bool) result" where
  "compare_ordered c value =
     (case cm_gt c of Some e \<Rightarrow> compare_numeric (\<lambda>a b. flt b a) value e | None \<Rightarrow>
     (case cm_gte c of Some e \<Rightarrow> compare_numeric (\<lambda>a b. fle b a) value e | None \<Rightarrow>
     (case cm_lt c of Some e \<Rightarrow> compare_numeric flt value e | None \<Rightarrow>
     (case cm_lte c of Some e \<Rightarrow> compare_numeric fle value e | None \<Rightarrow> Inl ''unsupported condition''))))"

definition evaluate_atomic :: "data_env \<Rightarrow> comparators \<Rightarrow> json option \<Rightarrow> (string, bool) result" where
  "evaluate_atomic env c value =
     (case cm_exists c of Some e \<Rightarrow> Inr ((e = (value \<noteq> None)) \<and> \<not> is_null_value value) | None \<Rightarrow>
     (case cm_not_exists c of Some e \<Rightarrow> Inr (e = is_null_value value) | None \<Rightarrow>
     (case cm_truthy c of Some e \<Rightarrow> Inr (e = is_truthy value) | None \<Rightarrow>
     (case cm_falsy c of Some e \<Rightarrow> Inr (e = (\<not> is_truthy value)) | None \<Rightarrow>
     (case cm_equals c of Some e \<Rightarrow> Inr (value = Some e) | None \<Rightarrow>
     (case cm_not_equals c of Some e \<Rightarrow> Inr (value \<noteq> Some e) | None \<Rightarrow>
     (case cm_contains c of Some e \<Rightarrow> Inr (data_contains value e) | None \<Rightarrow>
     (if cm_nonempty c = Some True then Inr (\<not> is_empty_value value)
      else if cm_empty c = Some True then Inr (is_empty_value value)
      else (case cm_regex c of Some p \<Rightarrow> match_regex env p value | None \<Rightarrow> compare_ordered c value)))))))))"

fun data_condition :: "data_env \<Rightarrow> data_row \<Rightarrow> condition_spec \<Rightarrow> (string, bool) result"
  and evaluate_all :: "data_env \<Rightarrow> data_row \<Rightarrow> condition_spec list \<Rightarrow> (string, bool) result"
  and evaluate_any :: "data_env \<Rightarrow> data_row \<Rightarrow> condition_spec list \<Rightarrow> (string, bool) result" where
  "data_condition env row (ConditionSpec field cmp all_of any_of neg) =
     (case neg of
        Some c \<Rightarrow> rbind (data_condition env row c) (\<lambda>b. Inr (\<not> b))
      | None \<Rightarrow>
          (case all_of of
             Some cs \<Rightarrow> evaluate_all env row cs
           | None \<Rightarrow>
               (case any_of of
                  Some cs \<Rightarrow> evaluate_any env row cs
                | None \<Rightarrow>
                    rbind (need ''atomic condition requires field'' field) (\<lambda>f. evaluate_atomic env cmp (get_path row f)))))"
| "evaluate_all env row [] = Inr True"
| "evaluate_all env row (c # cs) =
     rbind (data_condition env row c) (\<lambda>b. if b then evaluate_all env row cs else Inr False)"
| "evaluate_any env row [] = Inr False"
| "evaluate_any env row (c # cs) =
     rbind (data_condition env row c) (\<lambda>b. if b then Inr True else evaluate_any env row cs)"

section \<open>Assignments and rules\<close>

definition evaluate_assignment_value ::
  "data_env \<Rightarrow> engine_options \<Rightarrow> json \<Rightarrow> data_row \<Rightarrow> (string, json) result" where
  "evaluate_assignment_value env opts value_spec row =
     (case as_object value_spec of
        None \<Rightarrow> Inr value_spec
      | Some obj \<Rightarrow>
          (case (map_of obj ''if'', map_of obj ''then'') of
             (Some c, Some t) \<Rightarrow>
               rbind (prefix_err ''invalid assign condition: '' (de_condition env c)) (\<lambda>cond.
               rbind (data_condition env row cond) (\<lambda>b.
               Inr (case (if b then Some t else map_of obj ''else'') of Some v \<Rightarrow> v | None \<Rightarrow> JNull)))
           | _ \<Rightarrow>
               if map_of obj ''formula'' \<noteq> None \<and> length obj = 1
               then rbind (need ''formula assignment requires string formula'' (Option.bind (map_of obj ''formula'') as_str))
                 (\<lambda>f. evaluate_formula (eo_max_depth opts) f row)
               else Inr value_spec))"

fun assign_fields :: "data_env \<Rightarrow> engine_options \<Rightarrow> data_row \<Rightarrow> data_row \<Rightarrow> (string, data_row) result" where
  "assign_fields env opts [] row = Inr row"
| "assign_fields env opts ((field, value_spec) # specs) row =
     rbind (evaluate_assignment_value env opts value_spec row) (\<lambda>v. assign_fields env opts specs (set_path field v row))"

definition append_tag :: "string \<Rightarrow> data_row \<Rightarrow> data_row" where
  "append_tag tag row =
     (case map_of row ''tags'' of
        Some (JArray items) \<Rightarrow>
          if list_ex (\<lambda>x. as_str x = Some tag) items then row
          else obj_insert ''tags'' (JArray (items @ [JString tag])) row
      | _ \<Rightarrow> obj_insert ''tags'' (JArray [JString tag]) row)"

definition opt_list :: "'a list option \<Rightarrow> 'a list" where
  "opt_list x = (case x of Some xs \<Rightarrow> xs | None \<Rightarrow> [])"

definition action_tags :: "rule_action \<Rightarrow> string list" where
  "action_tags a = (case ra_tag a of Some t \<Rightarrow> [t] | None \<Rightarrow> []) @ opt_list (ra_tags a)"

definition apply_action ::
  "data_env \<Rightarrow> engine_options \<Rightarrow> rule_action \<Rightarrow> data_row \<Rightarrow> (string, data_row \<times> bool) result" where
  "apply_action env opts a row =
     rbind (assign_fields env opts (opt_list (ra_set a)) row) (\<lambda>row.
     Inr (fold remove_path (opt_list (ra_remove_fields a)) (fold append_tag (action_tags a) row), ra_drop a = Some True))"

fun apply_rules :: "data_env \<Rightarrow> engine_options \<Rightarrow> string \<Rightarrow> rule_spec list \<Rightarrow> data_row \<Rightarrow> (string, data_row option) result" where
  "apply_rules env opts mode [] row = Inr (Some row)"
| "apply_rules env opts mode (rule # rules) row =
     rbind (data_condition env row (ru_condition rule)) (\<lambda>matched.
       case (if matched then Some (ru_then rule) else ru_else rule) of
         None \<Rightarrow> apply_rules env opts mode rules row
       | Some action \<Rightarrow>
           rbind (apply_action env opts action row) (\<lambda>(row', dropped).
             if mode = ''first_match'' then Inr (if dropped then None else Some row')
             else apply_rules env opts mode rules row'))"

definition parse_rules_config :: "data_env \<Rightarrow> pipeline_step \<Rightarrow> (string, rules_config) result" where
  "parse_rules_config env step =
     rbind (case dp_rules step of
         Some rules \<Rightarrow> Inr \<lparr>rc_mode = (case dp_mode step of Some m \<Rightarrow> m | None \<Rightarrow> ''first_match''), rc_rules = rules\<rparr>
       | None \<Rightarrow>
           (case dp_config step of
              Some config \<Rightarrow> rbind (prefix_err ''invalid apply_rules config: '' (de_rules env config))
                (\<lambda>rc. Inr (case dp_mode step of Some m \<Rightarrow> rc\<lparr>rc_mode := m\<rparr> | None \<Rightarrow> rc))
            | None \<Rightarrow> Inl ''apply_rules requires rules''))
     (\<lambda>rc.
       if rc_mode rc \<noteq> ''first_match'' \<and> rc_mode rc \<noteq> ''all_match''
       then Inl (''apply_rules mode must be 'first_match' or 'all_match'' @ [CHR 0x27])
       else if rc_rules rc = [] then Inl ''apply_rules requires at least one rule'' else Inr rc)"

section \<open>Cleaning\<close>

definition value_to_string :: "data_env \<Rightarrow> json \<Rightarrow> string option" where
  "value_to_string env v = (case v of
      JString s \<Rightarrow> Some s
    | JNumber n \<Rightarrow> Some (de_number_text env n)
    | JBool b \<Rightarrow> Some (if b then ''true'' else ''false'')
    | _ \<Rightarrow> None)"

definition coerce_string :: "string \<Rightarrow> string \<Rightarrow> json option" where
  "coerce_string value target =
     (let t = to_ascii_lowercase target in
      if t \<in> {''number'', ''float'', ''f64''} then Option.bind (parse_f64 value) json_of_f64
      else if t \<in> {''integer'', ''int'', ''i64''}
      then map_option (\<lambda>i. JNumber (if 0 \<le> i then PosInt (nat i) else NegInt i)) (parse_i64 value)
      else if t \<in> {''boolean'', ''bool''} then map_option JBool (parse_bool value)
      else if t = ''string'' then Some (JString value)
      else None)"

definition clean_string :: "data_env \<Rightarrow> clean_config \<Rightarrow> string \<Rightarrow> string \<Rightarrow> json" where
  "clean_string env cfg path s0 =
     (let s = (if cl_trim_strings cfg then trim s0 else s0) in
      if s \<in> set (List.map_filter (value_to_string env) (cl_null_values cfg)) then JNull
      else let s = (if path \<in> set (cl_lowercase_fields cfg) then de_lower env s else s) in
        (case Option.bind (map_of (cl_type_coercion cfg) path) as_str of
           Some target \<Rightarrow> (case coerce_string s target of Some v \<Rightarrow> v | None \<Rightarrow> JString s)
         | None \<Rightarrow> JString s))"

fun clean_value :: "data_env \<Rightarrow> clean_config \<Rightarrow> string \<Rightarrow> json \<Rightarrow> json"
  and clean_items :: "data_env \<Rightarrow> clean_config \<Rightarrow> string \<Rightarrow> json list \<Rightarrow> json list"
  and clean_fields :: "data_env \<Rightarrow> clean_config \<Rightarrow> string \<Rightarrow> data_row \<Rightarrow> data_row" where
  "clean_value env cfg path (JString s) = clean_string env cfg path s"
| "clean_value env cfg path (JArray xs) = JArray (clean_items env cfg path xs)"
| "clean_value env cfg path (JObject m) = JObject (clean_fields env cfg (path @ ''.'') m)"
| "clean_value env cfg path v = v"
| "clean_items env cfg path [] = []"
| "clean_items env cfg path (x # xs) = clean_value env cfg path x # clean_items env cfg path xs"
| "clean_fields env cfg start [] = []"
| "clean_fields env cfg start ((k, v) # m) = (k, clean_value env cfg (start @ k) v) # clean_fields env cfg start m"

definition clean_record :: "data_env \<Rightarrow> clean_config \<Rightarrow> data_row \<Rightarrow> data_row" where
  "clean_record env cfg row = clean_fields env cfg [] row"

end
