(* ===== verification/Data_Engine.thy ===== *)
theory Data_Engine
  imports Data_Rules Tool_Args "HOL-Library.Product_Lexorder"
begin

text \<open>
  The operations of the data engine on whole data sets (\<open>tools/data_engine.rs\<close>): ranking, aggregation and
  structured extraction, the pipeline, and the tool itself.
\<close>

section \<open>Texts of values\<close>

fun stable_json_string :: "data_env \<Rightarrow> json \<Rightarrow> string"
  and stable_items :: "data_env \<Rightarrow> json list \<Rightarrow> string list"
  and stable_fields :: "data_env \<Rightarrow> data_row \<Rightarrow> (string \<times> string) list" where
  "stable_json_string env JNull = ''null''"
| "stable_json_string env (JBool b) = (if b then ''true'' else ''false'')"
| "stable_json_string env (JNumber n) = de_number_text env n"
| "stable_json_string env (JString s) = de_quote env s"
| "stable_json_string env (JArray xs) = ''['' @ join_with '','' (stable_items env xs) @ '']''"
| "stable_json_string env (JObject m) =
     ''{'' @ join_with '','' (map (\<lambda>(k, t). de_quote env k @ '':'' @ t) (sort_key fst (stable_fields env m))) @ ''}''"
| "stable_items env [] = []"
| "stable_items env (x # xs) = stable_json_string env x # stable_items env xs"
| "stable_fields env [] = []"
| "stable_fields env ((k, v) # m) = (k, stable_json_string env v) # stable_fields env m"

section \<open>Ranking\<close>

text \<open>A scored record; \<open>number_to_value\<close> lets only finite scores through.\<close>

definition score_of :: "engine_options \<Rightarrow> rank_config \<Rightarrow> string \<Rightarrow> data_row \<Rightarrow> (string, f64) result" where
  "score_of opts cfg field row =
     (case rk_score_formula cfg of
        Some formula \<Rightarrow>
          rbind (evaluate_formula (eo_max_depth opts) formula row)
            (\<lambda>v. need ''rank formula must evaluate to a number'' (number_of v))
      | None \<Rightarrow>
          rbind (need (''missing score field '' @ CHR 0x27 # field @ [CHR 0x27]) (get_path row field))
            (\<lambda>v. need (''score field '' @ CHR 0x27 # field @ CHR 0x27 # '' must be numeric'') (number_of v)))"

definition score_row ::
  "data_env \<Rightarrow> engine_options \<Rightarrow> rank_config \<Rightarrow> string \<Rightarrow> data_row \<Rightarrow> (string, rat \<times> string \<times> data_row) result" where
  "score_row env opts cfg field row =
     rbind (score_of opts cfg field row) (\<lambda>score.
     rbind (number_to_value score) (\<lambda>v.
       let row' = set_path field v row in
       Inr (case score of FinF q \<Rightarrow> q | _ \<Rightarrow> 0, stable_json_string env (JObject row'), row')))"

definition rank_key :: "bool \<Rightarrow> rat \<times> string \<times> data_row \<Rightarrow> rat \<times> string" where
  "rank_key descending x = (if descending then - fst x else fst x, fst (snd x))"

definition with_rank :: "nat \<Rightarrow> data_row \<Rightarrow> data_row" where
  "with_rank i row = obj_insert ''rank'' (JNumber (PosInt (i + 1))) row"

definition rank_field :: "rank_config \<Rightarrow> string" where
  "rank_field cfg = (case rk_score_field cfg of Some f \<Rightarrow> f | None \<Rightarrow> ''score'')"

definition rank_records ::
  "data_env \<Rightarrow> engine_options \<Rightarrow> rank_config \<Rightarrow> data_row list \<Rightarrow> (string, data_row list) result" where
  "rank_records env opts cfg rows =
     rbind (each (score_row env opts cfg (rank_field cfg)) rows) (\<lambda>scored.
        let ranked = map (\<lambda>(i, x). with_rank i (snd (snd x)))
              (List.enumerate 0 (sort_key (rank_key (rk_descending cfg)) scored));
            top_n = (case rk_top_n cfg of Some n \<Rightarrow> n | None \<Rightarrow> 1000)
        in Inr (take top_n ranked))"

section \<open>Aggregation\<close>

record group_bucket =
  bu_group_values :: data_row
  bu_rows :: "data_row list"

definition group_value :: "data_row \<Rightarrow> string \<Rightarrow> json" where
  "group_value row field = (case get_path row field of Some v \<Rightarrow> v | None \<Rightarrow> JNull)"

definition group_key :: "data_env \<Rightarrow> string list \<Rightarrow> data_row \<Rightarrow> string" where
  "group_key env names row = stable_json_string env (JArray (map (group_value row) names))"

text \<open>The group_bucket of a key in a \<open>BTreeMap\<close>, changed or made.\<close>

fun into_bucket :: "string \<Rightarrow> (group_bucket \<Rightarrow> group_bucket) \<Rightarrow> (string \<times> group_bucket) list \<Rightarrow> (string \<times> group_bucket) list" where
  "into_bucket k f [] = [(k, f \<lparr>bu_group_values = [], bu_rows = []\<rparr>)]"
| "into_bucket k f ((k', b) # bs) =
     (if k < k' then (k, f \<lparr>bu_group_values = [], bu_rows = []\<rparr>) # (k', b) # bs
      else if k = k' then (k, f b) # bs
      else (k', b) # into_bucket k f bs)"

definition add_row :: "data_env \<Rightarrow> string list \<Rightarrow> data_row \<Rightarrow> (string \<times> group_bucket) list \<Rightarrow> (string \<times> group_bucket) list" where
  "add_row env names row =
     into_bucket (group_key env names row)
       (\<lambda>b. \<lparr>bu_group_values = fold (\<lambda>f. obj_insert f (group_value row f)) names (bu_group_values b),
             bu_rows = bu_rows b @ [row]\<rparr>)"

definition buckets_of :: "data_env \<Rightarrow> string list \<Rightarrow> data_row list \<Rightarrow> (string \<times> group_bucket) list" where
  "buckets_of env names rows = fold (add_row env names) rows []"

definition first_index :: "char \<Rightarrow> string \<Rightarrow> nat option" where
  "first_index c s = (let n = length (takeWhile (\<lambda>x. x \<noteq> c) s) in if n < length s then Some n else None)"

definition last_index :: "char \<Rightarrow> string \<Rightarrow> nat option" where
  "last_index c s = map_option (\<lambda>i. length s - 1 - i) (first_index c (rev s))"

definition metric_numbers :: "string \<Rightarrow> data_row list \<Rightarrow> f64 list" where
  "metric_numbers field rows = List.map_filter (\<lambda>row. Option.bind (get_path row field) number_of) rows"

definition metric_number :: "string \<Rightarrow> f64 list \<Rightarrow> f64" where
  "metric_number name xs =
     (if name = ''sum'' then fsum xs
      else if name = ''avg'' then fdiv (fsum xs) (f64_of_rat (of_nat (length xs)))
      else if name = ''min'' then fold (\<lambda>x acc. fmin acc x) xs PosInf
      else fold (\<lambda>x acc. fmax acc x) xs NegInf)"

definition count_json :: "nat \<Rightarrow> json" where
  "count_json n = JNumber (PosInt n)"

definition evaluate_metric :: "string \<Rightarrow> data_row list \<Rightarrow> (string, json) result" where
  "evaluate_metric expr0 rows =
     (let expr = trim expr0; bad = ''invalid metric expression '' @ CHR 0x27 # expr @ [CHR 0x27] in
      rbind (need bad (first_index (CHR ''('') expr)) (\<lambda>open_at.
      rbind (need bad (last_index (CHR '')'') expr)) (\<lambda>close_at.
      if close_at \<le> open_at then Inl bad
      else
        let name = to_ascii_lowercase (trim (take open_at expr));
            arg = trim (drop (open_at + 1) (take close_at expr)) in
        if name = ''count''
        then Inr (if arg = ''*'' then count_json (length rows)
          else count_json (length (filter (\<lambda>row. \<not> is_null_value (get_path row arg)) rows)))
        else if name \<in> {''sum'', ''avg'', ''min'', ''max''}
        then (let xs = metric_numbers arg rows in
          if xs = [] then Inr JNull else number_to_value (metric_number name xs))
        else Inl (''unsupported metric '' @ CHR 0x27 # name @ [CHR 0x27]))))"

fun add_metrics :: "data_row \<Rightarrow> data_row list \<Rightarrow> data_row \<Rightarrow> (string, data_row) result" where
  "add_metrics [] rows row = Inr row"
| "add_metrics ((name, expr) # metrics) rows row =
     rbind (need (''metric '' @ CHR 0x27 # name @ CHR 0x27 # '' must be a string expression'') (as_str expr)) (\<lambda>e.
     rbind (evaluate_metric e rows) (\<lambda>v. add_metrics metrics rows (obj_insert name v row)))"

definition aggregate_records ::
  "data_env \<Rightarrow> aggregate_config \<Rightarrow> data_row list \<Rightarrow> (string, data_row list) result" where
  "aggregate_records env cfg rows =
     (if ag_group_by cfg = [] then Inl ''aggregate_records requires group_by''
      else if ag_metrics cfg = [] then Inl ''aggregate_records requires metrics''
      else each (\<lambda>(_, b). add_metrics (ag_metrics cfg) (bu_rows b) (bu_group_values b))
        (buckets_of env (ag_group_by cfg) rows))"

section \<open>Extraction\<close>

definition field_spec_of :: "data_env \<Rightarrow> string \<times> json \<Rightarrow> (string, string \<times> extract_field_spec) result" where
  "field_spec_of env fs = (case fs of (field, raw) \<Rightarrow>
     map_sum id (Pair field)
       (case raw of
          JObject _ \<Rightarrow> prefix_err (''invalid schema spec for '' @ CHR 0x27 # field @ CHR 0x27 # '': '') (de_field_spec env raw)
        | JString pattern \<Rightarrow> Inr \<lparr>ef_pattern = pattern, ef_type = ''string'', ef_required = False\<rparr>
        | _ \<Rightarrow> Inl (''schema spec for '' @ CHR 0x27 # field @ CHR 0x27 # '' must be an object or string pattern'')))"

definition no_commas :: "string \<Rightarrow> string" where
  "no_commas s = filter (\<lambda>c. c \<noteq> CHR '','') s"

text \<open>The texts of the standard library's parse errors.\<close>

definition f64_error :: "string \<Rightarrow> string" where
  "f64_error s = (if s = [] then ''cannot parse float from empty string'' else ''invalid float literal'')"

fun i64_scan :: "bool \<Rightarrow> int \<Rightarrow> string \<Rightarrow> string" where
  "i64_scan negative acc [] = ''invalid digit found in string''"
| "i64_scan negative acc (c # cs) =
     (let d = int (byte_of c - 48); n = (if negative then acc * 10 - d else acc * 10 + d) in
      if \<not> is_ascii_digit c then ''invalid digit found in string''
      else if n < - (2 ^ 63) then ''number too small to fit in target type''
      else if 2 ^ 63 \<le> n then ''number too large to fit in target type''
      else i64_scan negative n cs)"

definition i64_error :: "string \<Rightarrow> string" where
  "i64_error s = (if s = [] then ''cannot parse integer from empty string''
     else case split_sign s of (negative, ds) \<Rightarrow> i64_scan negative 0 ds)"

definition bool_error :: string where
  "bool_error = ''provided string was not `true` or `false`''"

definition parse_failure :: "string \<Rightarrow> string \<Rightarrow> string \<Rightarrow> string" where
  "parse_failure what matched e = ''failed to parse '' @ what @ '' '' @ CHR 0x27 # matched @ CHR 0x27 # '': '' @ e"

definition convert_match :: "string \<Rightarrow> string \<Rightarrow> (string, json) result" where
  "convert_match ty matched =
     (let t = to_ascii_lowercase ty in
      if t \<in> {''number'', ''float'', ''f64''}
      then rbind (need (parse_failure ''number'' matched (f64_error (no_commas matched))) (parse_f64 (no_commas matched))) number_to_value
      else if t \<in> {''integer'', ''int'', ''i64''}
      then rbind (need (parse_failure ''integer'' matched (i64_error (no_commas matched))) (parse_i64 (no_commas matched)))
        (\<lambda>i. Inr (JNumber (if 0 \<le> i then PosInt (nat i) else NegInt i)))
      else if t \<in> {''boolean'', ''bool''}
      then rbind (need (parse_failure ''bool'' matched bool_error) (parse_bool matched)) (\<lambda>b. Inr (JBool b))
      else Inr (JString matched))"

definition extract_field_value ::
  "data_env \<Rightarrow> engine_options \<Rightarrow> string \<Rightarrow> extract_field_spec \<Rightarrow> (string, json) result" where
  "extract_field_value env opts source spec =
     (if eo_max_regex_length opts < length (ef_pattern spec)
      then Inl (too_long ''pattern'' (ef_pattern spec) (eo_max_regex_length opts))
      else rbind (prefix_err ''invalid pattern: '' (de_regex env (ef_pattern spec))) (\<lambda>_.
        case de_captures env (ef_pattern spec) source of
          None \<Rightarrow> Inr JNull
        | Some (whole, group1) \<Rightarrow>
            let matched = (case group1 of Some g \<Rightarrow> g | None \<Rightarrow> whole) in
            if matched = [] then Inr JNull else convert_match (ef_type spec) matched))"

fun extract_fields ::
  "(string \<Rightarrow> extract_field_spec \<Rightarrow> (string, json) result) \<Rightarrow> string set \<Rightarrow> (string \<times> extract_field_spec) list
     \<Rightarrow> data_row \<times> string list \<Rightarrow> (string, data_row \<times> string list) result" where
  "extract_fields value_of required [] acc = Inr acc"
| "extract_fields value_of required ((field, spec) # specs) (row, missing) =
     rbind (value_of field spec) (\<lambda>v.
       if v = JNull
       then extract_fields value_of required specs (row, if field \<in> required then missing @ [field] else missing)
       else extract_fields value_of required specs (set_path field v row, missing))"

definition source_text :: "string \<Rightarrow> data_row \<Rightarrow> string" where
  "source_text field row = (case Option.bind (get_path row field) as_str of Some s \<Rightarrow> s | None \<Rightarrow> [])"

definition missing_field :: "string \<Rightarrow> string" where
  "missing_field field = ''missing_field:'' @ field"

definition extract_structured_data ::
  "data_env \<Rightarrow> engine_options \<Rightarrow> extract_config \<Rightarrow> data_row list
     \<Rightarrow> (string, data_row list \<times> string list) result" where
  "extract_structured_data env opts cfg rows =
     (let source_field = (case ex_source_field cfg of Some f \<Rightarrow> f | None \<Rightarrow> ''content'') in
      rbind (each (field_spec_of env) (ex_schema cfg)) (\<lambda>specs.
      let required = set (ex_required_fields cfg) \<union> set (map fst (filter (\<lambda>(_, s). ef_required s) specs)) in
      rbind (each (\<lambda>row. extract_fields (\<lambda>_. extract_field_value env opts (source_text source_field row))
          required specs (row, [])) rows) (\<lambda>out.
      let empty = filter (\<lambda>row. source_text source_field row = []) rows;
          missing = sort (remdups (concat (map snd out))) in
      Inr (map fst out,
        map (\<lambda>_. missing_field source_field) empty
        @ (if missing = [] then []
           else map missing_field missing @ [''fallback_needed: deterministic extraction missing required names''])))))"

section \<open>The pipeline\<close>

definition validate_pattern :: "data_env \<Rightarrow> engine_options \<Rightarrow> string \<times> json \<Rightarrow> (string, unit) result" where
  "validate_pattern env opts fs =
     (case Option.bind (json_get ''pattern'' (snd fs)) as_str of
        None \<Rightarrow> Inr ()
      | Some p \<Rightarrow>
          if eo_max_regex_length opts < length p then Inl (too_long ''pattern'' p (eo_max_regex_length opts))
          else map_sum (\<lambda>e. ''invalid pattern: '' @ e) (\<lambda>_. ()) (de_regex env p))"

definition validate_step :: "data_env \<Rightarrow> engine_options \<Rightarrow> pipeline_step \<Rightarrow> (string, unit) result" where
  "validate_step env opts step =
     (if trim (dp_op step) = [] then Inl ''step op cannot be empty''
      else
        rbind (case dp_formula step of
            Some f \<Rightarrow> if eo_max_formula_length opts < length f then Inl (too_long ''formula'' f (eo_max_formula_length opts)) else Inr ()
          | None \<Rightarrow> Inr ()) (\<lambda>_.
        rbind (case dp_condition step of Some c \<Rightarrow> validate_condition env opts 1 c | None \<Rightarrow> Inr ()) (\<lambda>_.
        rbind (case dp_rules step of Some rules \<Rightarrow> validate_conditions env opts 1 (map ru_condition rules) | None \<Rightarrow> Inr ()) (\<lambda>_.
        (case dp_schema step of
           Some schema \<Rightarrow> rbind (each (validate_pattern env opts) schema) (\<lambda>_. Inr ())
         | None \<Rightarrow> Inr ())))))"

definition required_text :: "string option \<Rightarrow> string \<Rightarrow> (string, string) result" where
  "required_text t e = (case t of Some s \<Rightarrow> if trim s = [] then Inl e else Inr s | None \<Rightarrow> Inl e)"

definition config_of :: "pipeline_step \<Rightarrow> json" where
  "config_of step = (case dp_config step of Some c \<Rightarrow> c | None \<Rightarrow> JNull)"

definition filter_records :: "data_env \<Rightarrow> condition_spec \<Rightarrow> data_row list \<Rightarrow> (string, data_row list) result" where
  "filter_records env c rows =
     rbind (each (\<lambda>row. rbind (data_condition env row c) (\<lambda>b. Inr (if b then [row] else []))) rows) (\<lambda>kept. Inr (concat kept))"

definition rules_on_records ::
  "data_env \<Rightarrow> engine_options \<Rightarrow> rules_config \<Rightarrow> data_row list \<Rightarrow> (string, data_row list) result" where
  "rules_on_records env opts cfg rows =
     rbind (each (apply_rules env opts (rc_mode cfg) (rc_rules cfg)) rows) (\<lambda>out. Inr (List.map_filter id out))"

definition no_warnings :: "(string, data_row list) result \<Rightarrow> (string, data_row list \<times> string list) result" where
  "no_warnings r = map_sum id (\<lambda>rows. (rows, [])) r"

definition apply_step ::
  "data_env \<Rightarrow> engine_options \<Rightarrow> pipeline_step \<Rightarrow> data_row list
     \<Rightarrow> (string, data_row list \<times> string list) result" where
  "apply_step env opts step rows =
     (let op = dp_op step in
      if op = ''filter''
      then no_warnings (rbind (need ''filter step requires condition'' (dp_condition step)) (\<lambda>c. filter_records env c rows))
      else if op = ''map''
      then no_warnings (rbind (need ''map step requires assign'' (dp_assign step)) (\<lambda>assign. each (assign_fields env opts assign) rows))
      else if op = ''compute'' \<or> op = ''compute_formula''
      then no_warnings (rbind (required_text (dp_field step) ''compute step requires field'') (\<lambda>field.
        rbind (required_text (dp_formula step) ''compute step requires formula'') (\<lambda>formula.
        each (\<lambda>row. rbind (evaluate_formula (eo_max_depth opts) formula row) (\<lambda>v. Inr (set_path field v row))) rows)))
      else if op = ''clean'' \<or> op = ''clean_data''
      then no_warnings (rbind (prefix_err ''invalid clean_data config: '' (de_clean env (config_of step)))
        (\<lambda>cfg. Inr (map (clean_record env cfg) rows)))
      else if op = ''apply_rules''
      then no_warnings (rbind (parse_rules_config env step) (\<lambda>cfg. rules_on_records env opts cfg rows))
      else if op = ''rank'' \<or> op = ''rank_items''
      then no_warnings (rbind (prefix_err ''invalid rank_items config: '' (de_rank env (config_of step))) (\<lambda>cfg. rank_records env opts cfg rows))
      else if op = ''aggregate'' \<or> op = ''aggregate_records''
      then no_warnings (rbind (prefix_err ''invalid aggregate_records config: '' (de_aggregate env (config_of step)))
        (\<lambda>cfg. aggregate_records env cfg rows))
      else if op = ''extract_structured_data''
      then rbind (prefix_err ''invalid extract_structured_data config: '' (de_extract env (config_of step)))
        (\<lambda>cfg. extract_structured_data env opts cfg rows)
      else if op = ''transform_records'' then Inl ''transform_records is a pipeline alias; provide nested pipeline steps''
      else Inl (''unsupported op '' @ CHR 0x27 # op @ [CHR 0x27]))"

fun execute_pipeline ::
  "data_env \<Rightarrow> engine_options \<Rightarrow> pipeline_step list \<Rightarrow> data_row list
     \<Rightarrow> (string, data_row list \<times> string list) result" where
  "execute_pipeline env opts [] rows = Inr (rows, [])"
| "execute_pipeline env opts (step # steps) rows =
     rbind (validate_step env opts step) (\<lambda>_.
     rbind (apply_step env opts step rows) (\<lambda>(rows', warnings).
     rbind (execute_pipeline env opts steps rows') (\<lambda>(rows'', warnings').
     Inr (rows'', warnings @ warnings'))))"

definition single_step :: "data_env \<Rightarrow> string \<Rightarrow> json \<Rightarrow> pipeline_step" where
  "single_step env op config =
     \<lparr>dp_op = op,
      dp_condition = (case json_get ''condition'' config of
          Some v \<Rightarrow> (case de_condition env v of Inr c \<Rightarrow> Some c | Inl _ \<Rightarrow> None) | None \<Rightarrow> None),
      dp_assign = Option.bind (json_get ''assign'' config) as_object,
      dp_field = Option.bind (json_get ''field'' config) as_str,
      dp_formula = Option.bind (json_get ''formula'' config) as_str,
      dp_config = (if config = JNull then None else Some config),
      dp_mode = None, dp_rules = None, dp_group_by = None, dp_metrics = None, dp_top_n = None,
      dp_source_field = None, dp_schema = None, dp_required_fields = None\<rparr>"

section \<open>The tool\<close>

definition nat_option :: "string \<Rightarrow> nat \<Rightarrow> json \<Rightarrow> nat" where
  "nat_option k d raw = max 1 (case Option.bind (json_get k raw) json_as_u64 of Some n \<Rightarrow> n | None \<Rightarrow> d)"

definition parse_options :: "json \<Rightarrow> engine_options" where
  "parse_options raw =
     \<lparr>eo_strict = (case Option.bind (json_get ''strict'' raw) as_bool of Some b \<Rightarrow> b | None \<Rightarrow> True),
      eo_max_depth = nat_option ''max_depth'' 3 raw,
      eo_max_regex_length = nat_option ''max_regex_length'' 128 raw,
      eo_max_formula_length = nat_option ''max_formula_length'' 100 raw\<rparr>"

fun records_from :: "nat \<Rightarrow> json list \<Rightarrow> (string, data_row list) result" where
  "records_from i [] = Inr []"
| "records_from i (v # vs) =
     rbind (need (''record '' @ show_nat i @ '' must be an object'') (as_object v)) (\<lambda>row.
     rbind (records_from (i + 1) vs) (\<lambda>rows. Inr (row # rows)))"

definition parse_records :: "json \<Rightarrow> (string, data_row list) result" where
  "parse_records raw =
     rbind (need (CHR 0x27 # ''records'' @ CHR 0x27 # '' must be an array'') (as_array raw)) (records_from 0)"

definition arg_of :: "string \<Rightarrow> json \<Rightarrow> json" where
  "arg_of k args = (case json_get k args of Some v \<Rightarrow> v | None \<Rightarrow> JNull)"

fun dedupe_from :: "string set \<Rightarrow> string list \<Rightarrow> string list" where
  "dedupe_from seen [] = []"
| "dedupe_from seen (x # xs) = (if x \<in> seen then dedupe_from seen xs else x # dedupe_from (insert x seen) xs)"

definition dedupe_strings :: "string list \<Rightarrow> string list" where
  "dedupe_strings xs = dedupe_from {} xs"

definition clamp_unit :: "rat \<Rightarrow> rat" where
  "clamp_unit x = (if x < 0 then 0 else if 1 < x then 1 else x)"

definition confidence_score :: "nat \<Rightarrow> nat \<Rightarrow> nat \<Rightarrow> rat" where
  "confidence_score input_count output_count problems =
     (if input_count = 0 then 1
      else clamp_unit (f64_sub (f64_div (f64_of_nat output_count) (f64_of_nat input_count))
        (min (f64_mul (f64_of_nat problems) (f64_round (1 / 20))) (1 / 2))))"

definition missing_of :: "string list \<Rightarrow> string list" where
  "missing_of warnings = dedupe_strings (map trim (List.map_filter (strip_prefix ''missing_field:'') warnings))"

definition text_array :: "string list \<Rightarrow> json" where
  "text_array xs = JArray (map JString xs)"

definition data_result :: "nat \<Rightarrow> nat \<Rightarrow> string list \<Rightarrow> data_row list \<times> string list \<Rightarrow> json" where
  "data_result elapsed_ms input_count ops res = (case res of (rows, warnings) \<Rightarrow>
     let output_count = length rows; missing = missing_of warnings;
         meta = obj_of_list
           [(''input_count'', JNumber (PosInt input_count)), (''output_count'', JNumber (PosInt output_count)),
            (''dropped_count'', JNumber (PosInt (input_count - output_count))),
            (''derived_fields'', text_array (dedupe_strings ops)), (''ops_applied'', text_array ops),
            (''execution_time_ms'', JNumber (PosInt elapsed_ms)), (''used_llm'', JBool False),
            (''confidence'', JNumber (FloatNum (confidence_score input_count output_count (length warnings)))),
            (''fallback_needed'', JBool (missing \<noteq> [] \<or> list_ex (str_contains ''fallback_needed'') warnings)),
            (''missing_fields'', text_array missing)]
     in obj_of_list [(''records'', JArray (map JObject rows)), (''meta'', meta),
          (''warnings'', text_array warnings), (''errors'', JArray [])])"

definition data_engine ::
  "data_env \<Rightarrow> nat \<Rightarrow> json \<Rightarrow> tool_result" where
  "data_engine env elapsed_ms args =
     (let opts = parse_options (arg_of ''options'' args) in
      case parse_records (arg_of ''records'' args) of
        Inl e \<Rightarrow> tool_err e
      | Inr rows \<Rightarrow>
          let op = trim (case as_str (arg_of ''op'' args) of Some s \<Rightarrow> s | None \<Rightarrow> []);
              has_pipeline = (case Option.bind (json_get ''pipeline'' args) as_array of Some xs \<Rightarrow> xs \<noteq> [] | None \<Rightarrow> False);
              steps =
                (if has_pipeline
                 then (if op \<noteq> [] \<and> op \<noteq> ''transform_records''
                       then Inl (''pipeline mode requires op='' @ CHR 0x27 # ''transform_records'' @ CHR 0x27 # '' or no op'')
                       else prefix_err ''invalid pipeline: '' (de_pipeline env (arg_of ''pipeline'' args)))
                 else if op = []
                 then Inl (''either '' @ CHR 0x27 # ''pipeline'' @ CHR 0x27 # '' or '' @ CHR 0x27 # ''op'' @ CHR 0x27 # '' is required'')
                 else Inr [single_step env op (arg_of ''config'' args)])
          in case rbind steps (\<lambda>ss. map_sum id (Pair ss) (execute_pipeline env opts ss rows)) of
               Inl e \<Rightarrow> tool_err e
             | Inr (ss, res) \<Rightarrow> tool_ok (data_result elapsed_ms (length rows) (map dp_op ss) res))"

end
