(* ===== verification/Formula_Parser.thy ===== *)
theory Formula_Parser
  imports Data_Formula
begin

text \<open>
  The formula parser terminates on every text with the fuel it starts with, more fuel never changes its
  answer, and it reads back what a printer writes.
\<close>

section \<open>The fuel\<close>

text \<open>A parser is fed when it returns, and leaves fewer than \<open>k\<close> bytes when it succeeds.\<close>

definition fed :: "nat \<Rightarrow> 'a formula_parsed \<Rightarrow> bool" where
  "fed k p \<longleftrightarrow> (case p of None \<Rightarrow> False | Some (Inl _) \<Rightarrow> True | Some (Inr (_, rest)) \<Rightarrow> length rest < k)"

lemma fed_simps [simp]: "fed k (pok x rest) \<longleftrightarrow> length rest < k" "fed k (pfail e)"
  by (simp_all add: fed_def pok_def pfail_def)

lemma fed_pbind:
  assumes "fed k p" "\<And>x rest. length rest < k \<Longrightarrow> fed k' (f x rest)"
  shows "fed k' (pbind p f)"
proof -
  consider e where "p = Some (Inl e)" | x rest where "p = Some (Inr (x, rest))" "length rest < k"
    using assms(1) by (auto simp: fed_def split: option.splits sum.splits)
  then show ?thesis using assms(2) by cases (simp_all add: pbind_def fed_def)
qed

lemma fed_mono: "fed k p \<Longrightarrow> k \<le> k' \<Longrightarrow> fed k' p"
  by (auto simp: fed_def split: option.splits sum.splits)

lemma length_trim_start: "length (trim_start s) \<le> length s"
  unfolding trim_start_def using suffix_length_le [OF drop_any_suffix] .

lemma length_trim_start_Cons: "trim_start s = c # t \<Longrightarrow> length t < length s"
  using length_trim_start [of s] by simp

lemma next_op_length: "next_op f (trim_start s) = Some (op, t) \<Longrightarrow> length t < length s"
  by (auto simp: next_op_def split: list.splits dest: length_trim_start_Cons)

lemma fed_expect: "length s < k \<Longrightarrow> fed k (expect c x s)"
  using length_trim_start [of s] by (auto simp: expect_def split: list.split)

lemma fed_parse_string: "length s < k \<Longrightarrow> fed k (parse_string q out s)"
  by (induction q out s rule: parse_string.induct) (auto split: list.split)

lemma fed_parse_number:
  assumes "is_number_char c"
  shows "fed (length (c # t)) (parse_number (c # t))"
proof -
  have "length (dropWhile is_number_char (c # t)) < length (c # t)"
    using assms length_dropWhile_le [of is_number_char t] by simp
  with assms show ?thesis by (auto simp: parse_number_def Let_def split: option.split sum.split)
qed

text \<open>The fuel that each function needs for a text.\<close>

definition all_fed :: "nat \<Rightarrow> bool" where
  "all_fed n \<longleftrightarrow>
     (\<forall>s. 6 * length s + 4 \<le> n \<longrightarrow> fed (length s) (parse_add_sub n s))
   \<and> (\<forall>e s. 6 * length s + 1 \<le> n \<longrightarrow> fed (Suc (length s)) (add_sub_loop n e s))
   \<and> (\<forall>s. 6 * length s + 3 \<le> n \<longrightarrow> fed (length s) (parse_mul_div n s))
   \<and> (\<forall>e s. 6 * length s + 1 \<le> n \<longrightarrow> fed (Suc (length s)) (mul_div_loop n e s))
   \<and> (\<forall>s. 6 * length s + 2 \<le> n \<longrightarrow> fed (length s) (parse_unary n s))
   \<and> (\<forall>s. 6 * length s + 1 \<le> n \<longrightarrow> fed (length s) (parse_primary n s))
   \<and> (\<forall>args s. 6 * length s + 5 \<le> n \<longrightarrow> fed (length s) (parse_args n args s))"

lemma all_fedD:
  assumes "all_fed n"
  shows "6 * length s + 4 \<le> n \<Longrightarrow> fed (length s) (parse_add_sub n s)"
    and "6 * length s + 1 \<le> n \<Longrightarrow> fed (Suc (length s)) (add_sub_loop n e s)"
    and "6 * length s + 3 \<le> n \<Longrightarrow> fed (length s) (parse_mul_div n s)"
    and "6 * length s + 1 \<le> n \<Longrightarrow> fed (Suc (length s)) (mul_div_loop n e s)"
    and "6 * length s + 2 \<le> n \<Longrightarrow> fed (length s) (parse_unary n s)"
    and "6 * length s + 1 \<le> n \<Longrightarrow> fed (length s) (parse_primary n s)"
    and "6 * length s + 5 \<le> n \<Longrightarrow> fed (length s) (parse_args n args s)"
  using assms by (simp_all add: all_fed_def)

lemma fed_add_sub_Suc:
  assumes "all_fed n" "6 * length s + 4 \<le> Suc n"
  shows "fed (length s) (parse_add_sub (Suc n) s)"
proof -
  have "fed (length s) (pbind (parse_mul_div n s) (\<lambda>e rest. add_sub_loop n e rest))"
    by (rule fed_pbind [OF all_fedD(3) [OF assms(1)]])
      (use assms(2) in \<open>auto intro!: fed_mono [OF all_fedD(2) [OF assms(1)]]\<close>)
  then show ?thesis by simp
qed

lemma fed_mul_div_Suc:
  assumes "all_fed n" "6 * length s + 3 \<le> Suc n"
  shows "fed (length s) (parse_mul_div (Suc n) s)"
proof -
  have "fed (length s) (pbind (parse_unary n s) (\<lambda>e rest. mul_div_loop n e rest))"
    by (rule fed_pbind [OF all_fedD(5) [OF assms(1)]])
      (use assms(2) in \<open>auto intro!: fed_mono [OF all_fedD(4) [OF assms(1)]]\<close>)
  then show ?thesis by simp
qed

lemma fed_add_loop_Suc:
  assumes "all_fed n" "6 * length s + 1 \<le> Suc n"
  shows "fed (Suc (length s)) (add_sub_loop (Suc n) e s)"
proof (cases "next_op add_op (trim_start s)")
  case None
  then show ?thesis using length_trim_start [of s] by (simp add: less_Suc_eq_le)
next
  case (Some x)
  obtain op t where x: "x = (op, t)" by fastforce
  with Some have t: "length t < length s" by (auto dest: next_op_length)
  have "fed (Suc (length s)) (pbind (parse_mul_div n t) (\<lambda>r rest. add_sub_loop n (FBinary e op r) rest))"
    by (rule fed_pbind [OF all_fedD(3) [OF assms(1)]])
      (use assms(2) t in \<open>auto intro!: fed_mono [OF all_fedD(2) [OF assms(1)]]\<close>)
  with Some x show ?thesis by simp
qed

lemma fed_mul_loop_Suc:
  assumes "all_fed n" "6 * length s + 1 \<le> Suc n"
  shows "fed (Suc (length s)) (mul_div_loop (Suc n) e s)"
proof (cases "next_op mul_op (trim_start s)")
  case None
  then show ?thesis using length_trim_start [of s] by (simp add: less_Suc_eq_le)
next
  case (Some x)
  obtain op t where x: "x = (op, t)" by fastforce
  with Some have t: "length t < length s" by (auto dest: next_op_length)
  have "fed (Suc (length s)) (pbind (parse_unary n t) (\<lambda>r rest. mul_div_loop n (FBinary e op r) rest))"
    by (rule fed_pbind [OF all_fedD(5) [OF assms(1)]])
      (use assms(2) t in \<open>auto intro!: fed_mono [OF all_fedD(4) [OF assms(1)]]\<close>)
  with Some x show ?thesis by simp
qed

lemma fed_unary_Suc:
  assumes "all_fed n" "6 * length s + 2 \<le> Suc n"
  shows "fed (length s) (parse_unary (Suc n) s)"
proof (cases "trim_start s")
  case Nil
  have "fed (length s) (parse_primary n [])"
    by (rule fed_mono [OF all_fedD(6) [OF assms(1)]]) (use assms(2) in auto)
  with Nil show ?thesis by simp
next
  case (Cons c t)
  then have t: "length t < length s" by (rule length_trim_start_Cons)
  have "fed (length s) (pbind (parse_unary n t) (\<lambda>e. pok (FMinus e)))"
    by (rule fed_pbind [OF all_fedD(5) [OF assms(1)]]) (use assms(2) t in auto)
  moreover have "fed (length s) (parse_unary n t)" "fed (length s) (parse_primary n (c # t))"
    using assms(2) t by (auto intro!: fed_mono [OF all_fedD(5) [OF assms(1)]] fed_mono [OF all_fedD(6) [OF assms(1)]])
  ultimately show ?thesis using Cons by simp
qed

lemma fed_args_Suc:
  assumes "all_fed n" "6 * length s + 5 \<le> Suc n"
  shows "fed (length s) (parse_args (Suc n) args s)"
proof -
  have rest: "fed (length s) (case trim_start rest of
         c # t \<Rightarrow>
           if c = CHR '','' then parse_args n (args @ [e]) t
           else if c = CHR '')'' then pok (args @ [e]) (c # t)
           else pfail ''expected ',' or ')' in function call''
       | [] \<Rightarrow> pfail ''expected ',' or ')' in function call'')"
    if "length rest < length s" for e rest
  proof (cases "trim_start rest")
    case (Cons c t)
    then have "length t < length rest" by (rule length_trim_start_Cons)
    with that assms(2) have "fed (length s) (parse_args n (args @ [e]) t)"
      by (intro fed_mono [OF all_fedD(7) [OF assms(1)]]) auto
    with that Cons \<open>length t < length rest\<close> show ?thesis by simp
  qed simp
  have "fed (length s) (parse_add_sub n s)" using assms by (intro all_fedD(1)) auto
  from fed_pbind [OF this rest] show ?thesis by simp
qed

lemma fed_call:
  assumes "all_fed n" "6 * length s \<le> n" "length rest < length s"
  shows "fed (length s) (case rest of
              d # rest' \<Rightarrow>
                if d = CHR ''(''
                then pbind
                  (case trim_start rest' of
                     x # y \<Rightarrow> if x = CHR '')'' then pok [] (x # y) else parse_args n [] (x # y)
                   | [] \<Rightarrow> parse_args n [] [])
                  (\<lambda>args. expect (CHR '')'') (FCall name args))
                else pok (FField name) rest
            | [] \<Rightarrow> pok (FField name) rest)"
proof (cases rest)
  case (Cons d rest')
  have len: "length (trim_start rest') < length s"
    using length_trim_start [of rest'] assms(3) Cons by simp
  have args: "fed (length s) (parse_args n [] u)" if "length u < length s" for u
    using that assms(2) by (intro fed_mono [OF all_fedD(7) [OF assms(1)]]) auto
  have "fed (length s) (case trim_start rest' of
                     x # y \<Rightarrow> if x = CHR '')'' then pok [] (x # y) else parse_args n [] (x # y)
                   | [] \<Rightarrow> parse_args n [] [])"
    using len args by (auto split: list.split)
  then have "fed (length s) (pbind
                  (case trim_start rest' of
                     x # y \<Rightarrow> if x = CHR '')'' then pok [] (x # y) else parse_args n [] (x # y)
                   | [] \<Rightarrow> parse_args n [] [])
                  (\<lambda>args. expect (CHR '')'') (FCall name args)))"
    by (rule fed_pbind) (rule fed_expect)
  with Cons assms(3) show ?thesis by simp
qed (use assms(3) in simp)

lemma fed_primary_Suc:
  assumes "all_fed n" "6 * length s + 1 \<le> Suc n"
  shows "fed (length s) (parse_primary (Suc n) s)"
proof (cases "trim_start s")
  case (Cons c t)
  then have t: "length t < length s" by (rule length_trim_start_Cons)
  have paren: "fed (length s) (pbind (parse_add_sub n t) (\<lambda>e rest. expect (CHR '')'') e rest))"
    by (rule fed_pbind [OF all_fedD(1) [OF assms(1)]]) (use assms(2) t in \<open>auto intro: fed_expect\<close>)
  have str: "fed (length s) (parse_string c [] t)" using t by (rule fed_parse_string)
  have num: "is_number_char c \<Longrightarrow> fed (length s) (parse_number (c # t))"
    using t by (auto intro: fed_mono [OF fed_parse_number])
  have "length (trim_start (dropWhile is_ident_continue t)) < length s"
    using length_trim_start [of "dropWhile is_ident_continue t"] length_dropWhile_le [of is_ident_continue t] t by linarith
  with assms have call: "fed (length s) (case trim_start (dropWhile is_ident_continue t) of
              d # rest' \<Rightarrow>
                if d = CHR ''(''
                then pbind
                  (case trim_start rest' of
                     x # y \<Rightarrow> if x = CHR '')'' then pok [] (x # y) else parse_args n [] (x # y)
                   | [] \<Rightarrow> parse_args n [] [])
                  (\<lambda>args. expect (CHR '')'') (FCall name args))
                else pok (FField name) (trim_start (dropWhile is_ident_continue t))
            | [] \<Rightarrow> pok (FField name) (trim_start (dropWhile is_ident_continue t)))" for name
    by (intro fed_call) auto
  show ?thesis
    unfolding parse_primary.simps(2) Cons list.case Let_def
    using paren str num call by (simp only: if_split fed_simps) blast
qed simp

lemma parser_fed: "all_fed n"
proof (induction n)
  case (Suc n)
  then show ?case
    unfolding all_fed_def [of "Suc n"]
    by (intro conjI allI impI fed_add_sub_Suc fed_add_loop_Suc fed_mul_div_Suc fed_mul_loop_Suc
        fed_unary_Suc fed_primary_Suc fed_args_Suc)
qed (simp add: all_fed_def)

lemma parser_returns: "parse_add_sub (formula_fuel s) s \<noteq> None"
  using all_fedD(1) [OF parser_fed [of "formula_fuel s"], of s]
  by (auto simp: formula_fuel_def fed_def split: option.splits)

section \<open>More fuel\<close>

text \<open>The answer that is not \<open>None\<close> is kept.\<close>

definition kept :: "'a formula_parsed \<Rightarrow> 'a formula_parsed \<Rightarrow> bool" where
  "kept p p' \<longleftrightarrow> p = None \<or> p' = p"

lemma kept_simps [simp]: "kept p p" "kept None p"
  by (simp_all add: kept_def)

lemma kept_pbind: "kept p p' \<Longrightarrow> (\<And>x rest. kept (f x rest) (f' x rest)) \<Longrightarrow> kept (pbind p f) (pbind p' f')"
  by (auto simp: kept_def pbind_def split: option.splits sum.splits)

definition all_kept :: "nat \<Rightarrow> nat \<Rightarrow> bool" where
  "all_kept n m \<longleftrightarrow>
     (\<forall>s. kept (parse_add_sub n s) (parse_add_sub m s))
   \<and> (\<forall>e s. kept (add_sub_loop n e s) (add_sub_loop m e s))
   \<and> (\<forall>s. kept (parse_mul_div n s) (parse_mul_div m s))
   \<and> (\<forall>e s. kept (mul_div_loop n e s) (mul_div_loop m e s))
   \<and> (\<forall>s. kept (parse_unary n s) (parse_unary m s))
   \<and> (\<forall>s. kept (parse_primary n s) (parse_primary m s))
   \<and> (\<forall>args s. kept (parse_args n args s) (parse_args m args s))"

lemma kept_Suc:
  assumes "all_kept n m"
  shows "all_kept (Suc n) (Suc m)"
proof -
  have IH: "kept (parse_add_sub n s) (parse_add_sub m s)" "kept (add_sub_loop n e s) (add_sub_loop m e s)"
    "kept (parse_mul_div n s) (parse_mul_div m s)" "kept (mul_div_loop n e s) (mul_div_loop m e s)"
    "kept (parse_unary n s) (parse_unary m s)" "kept (parse_primary n s) (parse_primary m s)"
    "kept (parse_args n args s) (parse_args m args s)" for s e args
    using assms by (simp_all only: all_kept_def)
  have add: "kept (parse_add_sub (Suc n) s) (parse_add_sub (Suc m) s)" for s
    unfolding parse_add_sub.simps(2) by (intro kept_pbind IH)
  have add_loop: "kept (add_sub_loop (Suc n) e s) (add_sub_loop (Suc m) e s)" for e s
    unfolding add_sub_loop.simps(2) by (auto split: option.split intro!: kept_pbind IH)
  have mul: "kept (parse_mul_div (Suc n) s) (parse_mul_div (Suc m) s)" for s
    unfolding parse_mul_div.simps(2) by (intro kept_pbind IH)
  have mul_loop: "kept (mul_div_loop (Suc n) e s) (mul_div_loop (Suc m) e s)" for e s
    unfolding mul_div_loop.simps(2) by (auto split: option.split intro!: kept_pbind IH)
  have unary: "kept (parse_unary (Suc n) s) (parse_unary (Suc m) s)" for s
    unfolding parse_unary.simps(2) by (auto split: list.split intro!: kept_pbind IH)
  have primary: "kept (parse_primary (Suc n) s) (parse_primary (Suc m) s)" for s
    unfolding parse_primary.simps(2) Let_def
    by (auto split: list.split intro!: kept_pbind IH)
  have args: "kept (parse_args (Suc n) args s) (parse_args (Suc m) args s)" for args s
    unfolding parse_args.simps(2) by (auto split: list.split intro!: kept_pbind IH)
  show ?thesis unfolding all_kept_def using add add_loop mul mul_loop unary primary args by blast
qed

lemma parser_kept: "n \<le> m \<Longrightarrow> all_kept n m"
proof (induction n arbitrary: m)
  case 0
  show ?case by (simp add: all_kept_def)
next
  case (Suc n)
  then obtain m' where m': "m = Suc m'" "n \<le> m'" by (cases m) auto
  from kept_Suc [OF Suc.IH [OF m'(2)]] show ?case by (simp only: m'(1))
qed

lemma more_fuel:
  assumes "n \<le> m"
  shows "parse_add_sub n s = Some r \<Longrightarrow> parse_add_sub m s = Some r"
    and "add_sub_loop n e s = Some r \<Longrightarrow> add_sub_loop m e s = Some r"
    and "parse_mul_div n s = Some r \<Longrightarrow> parse_mul_div m s = Some r"
    and "mul_div_loop n e s = Some r \<Longrightarrow> mul_div_loop m e s = Some r"
    and "parse_unary n s = Some r \<Longrightarrow> parse_unary m s = Some r"
    and "parse_primary n s = Some r \<Longrightarrow> parse_primary m s = Some r"
    and "parse_args n args s = Some r' \<Longrightarrow> parse_args m args s = Some r'"
  using parser_kept [OF assms] by (simp_all only: all_kept_def kept_def) (metis option.distinct(1))+

section \<open>Printing\<close>

text \<open>A printer that writes parentheses only where precedence and left association need them: around a sum that
  is a factor or is signed, around a product that is signed, and around the right operand of an operation of
  the same precedence.  It can print literals that are texts or natural numbers, and names that the parser
  takes for names.\<close>

definition op_char :: "bin_op \<Rightarrow> char" where
  "op_char op = (case op of OpAdd \<Rightarrow> CHR ''+'' | OpSub \<Rightarrow> CHR ''-'' | OpMul \<Rightarrow> CHR ''*'' | OpDiv \<Rightarrow> CHR ''/'')"

definition escape_string :: "string \<Rightarrow> string" where
  "escape_string s = concat (map (\<lambda>c. if c = CHR 0x22 \<or> c = CHR 0x5C then [CHR 0x5C, c] else [c]) s)"

definition op_level :: "bin_op \<Rightarrow> nat" where
  "op_level op = (case op of OpAdd \<Rightarrow> 0 | OpSub \<Rightarrow> 0 | OpMul \<Rightarrow> 1 | OpDiv \<Rightarrow> 1)"

fun formula_level :: "formula \<Rightarrow> nat" where
  "formula_level (FBinary _ op _) = op_level op"
| "formula_level (FMinus _) = 2"
| "formula_level _ = 3"

definition parens :: "bool \<Rightarrow> string \<Rightarrow> string" where
  "parens b s = (if b then ''('' @ s @ '')'' else s)"

fun show_formula :: "formula \<Rightarrow> string" where
  "show_formula (FLiteral (JString s)) = CHR 0x22 # escape_string s @ [CHR 0x22]"
| "show_formula (FLiteral (JNumber (FloatNum q))) = show_nat (nat \<lfloor>q\<rfloor>)"
| "show_formula (FLiteral _) = []"
| "show_formula (FField name) = name"
| "show_formula (FMinus e) = CHR ''-'' # parens (formula_level e < 2) (show_formula e)"
| "show_formula (FBinary l op r) = parens (formula_level l < op_level op) (show_formula l)
     @ op_char op # parens (formula_level r \<le> op_level op) (show_formula r)"
| "show_formula (FCall name args) = name @ ''('' @ join_with '','' (map show_formula args) @ '')''"

definition is_identifier :: "string \<Rightarrow> bool" where
  "is_identifier name \<longleftrightarrow> name \<noteq> [] \<and> is_ident_start (hd name) \<and> list_all is_ident_continue name"

fun printable :: "formula \<Rightarrow> bool" where
  "printable (FLiteral (JString s)) = True"
| "printable (FLiteral (JNumber (FloatNum q))) = (\<exists>n<2 ^ 53. q = of_nat n)"
| "printable (FLiteral _) = False"
| "printable (FField name) = is_identifier name"
| "printable (FMinus e) = printable e"
| "printable (FBinary l _ r) = (printable l \<and> printable r)"
| "printable (FCall name args) = (is_identifier name \<and> (\<forall>e\<in>set args. printable e))"

subsection \<open>Characters\<close>

text \<open>What may follow an expression: nothing, or a sign that ends it.\<close>

definition ends_here :: "string \<Rightarrow> bool" where
  "ends_here rest \<longleftrightarrow> (case rest of [] \<Rightarrow> True
     | c # _ \<Rightarrow> c = CHR '')'' \<or> c = CHR '','' \<or> c = CHR ''+'' \<or> c = CHR ''-'' \<or> c = CHR ''*'' \<or> c = CHR ''/'')"

lemma trim_start_visible: "s = [] \<or> visible (hd s) \<Longrightarrow> trim_start s = s"
  unfolding trim_start_def by (intro drop_any_fixed) (metis white_space_not_visible)

lemma trim_start_Cons_visible [simp]: "visible c \<Longrightarrow> trim_start (c # s) = c # s"
  by (simp add: trim_start_visible)

lemma trim_start_Nil [simp]: "trim_start [] = []"
  by (simp add: trim_start_visible)

lemma trim_start_ends [simp]: "ends_here rest \<Longrightarrow> trim_start rest = rest"
  by (intro trim_start_visible) (auto simp: ends_here_def visible_def byte_of_def split: list.splits)

lemma ident_visible: "is_ident_start c \<Longrightarrow> visible c" "is_ident_continue c \<Longrightarrow> visible c"
  by (auto simp: is_ident_start_def is_ident_continue_def visible_def is_ascii_digit_def byte_of_def)

lemma digit_visible: "is_ascii_digit c \<Longrightarrow> visible c"
  by (simp add: is_ascii_digit_def visible_def)

lemma ident_start_not:
  assumes "is_ident_start c"
  shows "c \<noteq> CHR ''('' \<and> c \<noteq> CHR 0x22 \<and> c \<noteq> CHR 0x27 \<and> \<not> is_number_char c \<and> c \<noteq> CHR ''-'' \<and> c \<noteq> CHR ''+''"
  using assms by (auto simp: is_ident_start_def is_number_char_def is_ascii_digit_def byte_of_def)

lemma digit_not:
  assumes "is_ascii_digit c"
  shows "c \<noteq> CHR ''('' \<and> c \<noteq> CHR 0x22 \<and> c \<noteq> CHR 0x27 \<and> is_number_char c \<and> c \<noteq> CHR ''-'' \<and> c \<noteq> CHR ''+''"
  using assms by (auto simp: is_number_char_def is_ascii_digit_def byte_of_def)

lemma ends_not_continue: "ends_here (c # rest) \<Longrightarrow> \<not> is_ident_continue c \<and> \<not> is_number_char c \<and> c \<noteq> CHR ''(''"
  by (auto simp: ends_here_def is_ident_continue_def is_ident_start_def is_number_char_def is_ascii_digit_def byte_of_def)

lemma takeWhile_ends:
  assumes "list_all P xs" "ends_here rest \<or> (\<exists>r. rest = CHR ''('' # r)" "\<And>c r. rest = c # r \<Longrightarrow> \<not> P c"
  shows "takeWhile P (xs @ rest) = xs" "dropWhile P (xs @ rest) = rest"
  using assms by (cases rest; simp add: takeWhile_append dropWhile_append list_all_iff)+

text \<open>How a printed primary begins, and how any printed expression does.\<close>

definition begins :: "string \<Rightarrow> bool" where
  "begins s \<longleftrightarrow> s \<noteq> [] \<and> visible (hd s) \<and> hd s \<noteq> CHR ''-'' \<and> hd s \<noteq> CHR ''+'' \<and> hd s \<noteq> CHR '')''"

definition opens :: "string \<Rightarrow> bool" where
  "opens s \<longleftrightarrow> s \<noteq> [] \<and> visible (hd s) \<and> hd s \<noteq> CHR '')''"

lemma begins_opens: "begins s \<Longrightarrow> opens s"
  by (simp add: begins_def opens_def)

lemma show_nat_hd: "is_ascii_digit (hd (show_nat n))"
  using show_nat_digits [of "hd (show_nat n)" n] by (simp add: hd_in_set)

lemma show_begins:
  assumes "printable e" "formula_level e = 3"
  shows "begins (show_formula e @ rest)"
proof -
  have name: "begins (name @ more)" if name: "is_identifier name" for name more
  proof -
    obtain c t where c: "name = c # t" "is_ident_start c" using name by (cases name) (auto simp: is_identifier_def)
    then show ?thesis using ident_visible(1) [OF c(2)] ident_start_not [OF c(2)]
      by (auto simp: begins_def is_ident_start_def byte_of_def)
  qed
  have number: "begins (show_nat n @ more)" for n more
    using show_nat_hd [of n] digit_visible [OF show_nat_hd] digit_not [OF show_nat_hd, of n]
    by (auto simp: begins_def hd_append is_ascii_digit_def byte_of_def)
  show ?thesis using assms name number
    by (cases e rule: show_formula.cases) (auto simp: begins_def visible_def byte_of_def op_level_def split: bin_op.splits)
qed

lemma show_opens: "printable e \<Longrightarrow> opens (show_formula e @ rest)"
proof (induction e arbitrary: rest)
  case (FBinary l op r)
  then have "opens (show_formula l @ t)" for t by simp
  then show ?case by (simp add: parens_def) (simp add: opens_def visible_def byte_of_def)
next
  case (FMinus e)
  then show ?case by (simp add: opens_def visible_def byte_of_def)
qed (intro begins_opens show_begins; simp)+

subsection \<open>Reading back\<close>

text \<open>Some fuel is enough to read a value and leave the rest.\<close>

definition reads :: "(nat \<Rightarrow> string \<Rightarrow> 'a formula_parsed) \<Rightarrow> string \<Rightarrow> 'a \<Rightarrow> string \<Rightarrow> bool" where
  "reads p s x rest \<longleftrightarrow> (\<exists>n. p n s = Some (Inr (x, rest)))"

lemma pbind_Inr: "p = Some (Inr (x, rest)) \<Longrightarrow> pbind p f = f x rest"
  by (simp add: pbind_def)

lemma reads_unary:
  assumes "reads parse_primary s e rest" "begins s"
  shows "reads parse_unary s e rest"
proof -
  from assms(1) obtain n where "parse_primary n s = Some (Inr (e, rest))" by (auto simp: reads_def)
  with assms(2) have "parse_unary (Suc n) s = Some (Inr (e, rest))"
    by (cases s) (auto simp: begins_def)
  then show ?thesis unfolding reads_def by blast
qed

lemma reads_mul_div:
  assumes "reads parse_unary s e rest" "reads (\<lambda>n. mul_div_loop n e) rest e' rest'"
  shows "reads parse_mul_div s e' rest'"
proof -
  from assms obtain n m where "parse_unary n s = Some (Inr (e, rest))" "mul_div_loop m e rest = Some (Inr (e', rest'))"
    by (auto simp: reads_def)
  then have "parse_unary (max n m) s = Some (Inr (e, rest))" "mul_div_loop (max n m) e rest = Some (Inr (e', rest'))"
    by (auto intro: more_fuel(5) [of n "max n m"] more_fuel(4) [of m "max n m"])
  then have "parse_mul_div (Suc (max n m)) s = Some (Inr (e', rest'))" by (simp add: pbind_Inr)
  then show ?thesis unfolding reads_def by blast
qed

lemma reads_add_sub:
  assumes "reads parse_mul_div s e rest" "reads (\<lambda>n. add_sub_loop n e) rest e' rest'"
  shows "reads parse_add_sub s e' rest'"
proof -
  from assms obtain n m where "parse_mul_div n s = Some (Inr (e, rest))" "add_sub_loop m e rest = Some (Inr (e', rest'))"
    by (auto simp: reads_def)
  then have "parse_mul_div (max n m) s = Some (Inr (e, rest))" "add_sub_loop (max n m) e rest = Some (Inr (e', rest'))"
    by (auto intro: more_fuel(3) [of n "max n m"] more_fuel(2) [of m "max n m"])
  then have "parse_add_sub (Suc (max n m)) s = Some (Inr (e', rest'))" by (simp add: pbind_Inr)
  then show ?thesis unfolding reads_def by blast
qed

lemma reads_add_loop:
  assumes "add_op c = Some op" "visible c" "reads parse_mul_div s r rest"
    "reads (\<lambda>n. add_sub_loop n (FBinary e op r)) rest e' rest'"
  shows "reads (\<lambda>n. add_sub_loop n e) (c # s) e' rest'"
proof -
  from assms obtain n m where "parse_mul_div n s = Some (Inr (r, rest))"
    "add_sub_loop m (FBinary e op r) rest = Some (Inr (e', rest'))"
    by (auto simp: reads_def)
  then have "parse_mul_div (max n m) s = Some (Inr (r, rest))"
    "add_sub_loop (max n m) (FBinary e op r) rest = Some (Inr (e', rest'))"
    by (auto intro: more_fuel(3) [of n "max n m"] more_fuel(2) [of m "max n m"])
  then have "add_sub_loop (Suc (max n m)) e (c # s) = Some (Inr (e', rest'))"
    using assms(1,2) by (simp add: next_op_def pbind_Inr)
  then show ?thesis unfolding reads_def by blast
qed

lemma reads_mul_loop:
  assumes "mul_op c = Some op" "visible c" "reads parse_unary s r rest"
    "reads (\<lambda>n. mul_div_loop n (FBinary e op r)) rest e' rest'"
  shows "reads (\<lambda>n. mul_div_loop n e) (c # s) e' rest'"
proof -
  from assms obtain n m where "parse_unary n s = Some (Inr (r, rest))"
    "mul_div_loop m (FBinary e op r) rest = Some (Inr (e', rest'))"
    by (auto simp: reads_def)
  then have "parse_unary (max n m) s = Some (Inr (r, rest))"
    "mul_div_loop (max n m) (FBinary e op r) rest = Some (Inr (e', rest'))"
    by (auto intro: more_fuel(5) [of n "max n m"] more_fuel(4) [of m "max n m"])
  then have "mul_div_loop (Suc (max n m)) e (c # s) = Some (Inr (e', rest'))"
    using assms(1,2) by (simp add: next_op_def pbind_Inr)
  then show ?thesis unfolding reads_def by blast
qed

lemma loop_stops:
  "trim_start rest = rest \<Longrightarrow> next_op add_op rest = None \<Longrightarrow> reads (\<lambda>n. add_sub_loop n e) rest e rest"
  "trim_start rest = rest \<Longrightarrow> next_op mul_op rest = None \<Longrightarrow> reads (\<lambda>n. mul_div_loop n e) rest e rest"
  unfolding reads_def by (rule exI [of _ "Suc 0"], simp add: pok_def)+

text \<open>An expression that is read as a primary is read at every level, up to a closing sign.\<close>

definition closed_by :: "string \<Rightarrow> bool" where
  "closed_by rest \<longleftrightarrow> (case rest of [] \<Rightarrow> True | c # _ \<Rightarrow> c = CHR '')'' \<or> c = CHR '','')"

lemma closed_ends: "closed_by rest \<Longrightarrow> ends_here rest"
  by (auto simp: closed_by_def ends_here_def split: list.splits)

lemma closed_no_op: "closed_by rest \<Longrightarrow> next_op add_op rest = None" "closed_by rest \<Longrightarrow> next_op mul_op rest = None"
  by (auto simp: closed_by_def next_op_def add_op_def mul_op_def split: list.splits)

lemma f64_of_nat_value: "n < 2 ^ 53 \<Longrightarrow> f64_of_rat (of_nat n) = FinF (of_nat n)"
proof (cases "n = 0")
  case False
  assume n: "n < 2 ^ 53"
  have "(of_nat n :: rat) \<noteq> 0" using False by simp
  note bound = floor_log2_bounds(2) [OF this]
  have "0 \<le> floor_log2 (rat_of_nat n)"
  proof (rule ccontr)
    assume "\<not> 0 \<le> floor_log2 (rat_of_nat n)"
    then have "(2 :: rat) powi (floor_log2 (rat_of_nat n) + 1) \<le> 2 powi 0" by (intro power_int_increasing) auto
    with bound False show False by simp
  qed
  then have "max (floor_log2 (of_nat n) - 52) (- 1074) = floor_log2 (of_nat n) - 52" by linarith
  moreover have "of_int (round_even (of_nat n / 2 powi (floor_log2 (of_nat n) - 52))) * 2 powi (floor_log2 (of_nat n) - 52)
      = (of_nat n :: rat)"
    using f64_round_nat [OF n] False by (simp add: f64_round_def Let_def)
  moreover have "(of_nat n :: rat) < 2 ^ 1024"
  proof -
    have "(of_nat n :: rat) < 2 ^ 53" using n by (metis of_nat_less_iff of_nat_numeral of_nat_power)
    also have "\<dots> < 2 ^ 1024" by simp
    finally show ?thesis .
  qed
  ultimately show ?thesis using False by (simp add: f64_of_rat_def Let_def)
qed simp

lemma parse_f64_nat:
  assumes "n < 2 ^ 53"
  shows "parse_f64 (show_nat n) = Some (FinF (of_nat n))"
proof -
  obtain c t where c: "show_nat n = c # t" by (cases "show_nat n") simp_all
  then have d: "is_ascii_digit c" using show_nat_hd [of n] by simp
  have all: "list_all is_ascii_digit (show_nat n)" using show_nat_digits by (auto simp: list_all_iff)
  then have dec: "parse_decimal (show_nat n) = Some (of_nat n)"
    unfolding parse_decimal_def Let_def conjunct1 [OF takeWhile_all_digits [OF all]] conjunct2 [OF takeWhile_all_digits [OF all]]
    by (simp add: parse_exponent_def digits_of_def parse_digits_show)
  have sign: "split_sign (show_nat n) = (False, show_nat n)"
    using digit_not [OF d] by (auto simp: split_sign_def c)
  have "\<not> eq_ignore_ascii_case (show_nat n) (x # y)" if "ascii_lower x \<noteq> c" for x y
    using d that by (auto simp: eq_ignore_ascii_case_def to_ascii_lowercase_def c ascii_lower_def is_ascii_digit_def split: if_splits)
  moreover have "ascii_lower CHR ''i'' \<noteq> c" "ascii_lower CHR ''n'' \<noteq> c"
    using d by (auto simp: ascii_lower_def byte_of_def is_ascii_digit_def)
  ultimately show ?thesis using dec assms
    by (simp add: parse_f64_def sign f64_of_nat_value)
qed

lemma reads_number:
  assumes "n < 2 ^ 53" "ends_here rest"
  shows "reads parse_primary (show_nat n @ rest) (FLiteral (JNumber (FloatNum (of_nat n)))) rest"
proof -
  obtain c t where c: "show_nat n = c # t" by (cases "show_nat n") simp_all
  then have d: "is_ascii_digit c" using show_nat_hd [of n] by simp
  have num: "list_all is_number_char (show_nat n)"
    using show_nat_digits by (auto simp: list_all_iff is_number_char_def)
  have "takeWhile is_number_char (show_nat n @ rest) = show_nat n" "dropWhile is_number_char (show_nat n @ rest) = rest"
    using takeWhile_ends [OF num] assms(2) ends_not_continue by blast+
  then have "parse_number (show_nat n @ rest) = pok (FLiteral (JNumber (FloatNum (of_nat n)))) rest"
    using parse_f64_nat [OF assms(1)] by (simp add: parse_number_def number_to_value_def)
  then have "parse_primary 1 (show_nat n @ rest) = Some (Inr (FLiteral (JNumber (FloatNum (of_nat n))), rest))"
    using digit_not [OF d] digit_visible [OF d] by (simp add: c pok_def)
  then show ?thesis unfolding reads_def by blast
qed

lemma parse_escaped:
  "parse_string (CHR 0x22) out (escape_string s @ CHR 0x22 # rest) = pok (FLiteral (JString (rev out @ s))) rest"
  by (induction s arbitrary: out) (auto simp: escape_string_def unescape_def)

lemma reads_string:
  "reads parse_primary (show_formula (FLiteral (JString s)) @ rest) (FLiteral (JString s)) rest"
proof -
  have "parse_primary 1 (show_formula (FLiteral (JString s)) @ rest) = Some (Inr (FLiteral (JString s), rest))"
    by (simp add: parse_escaped pok_def visible_def byte_of_def)
  then show ?thesis unfolding reads_def by blast
qed

lemma primary_name:
  assumes "is_ident_start c" "list_all is_ident_continue t" "ends_here rest \<or> (\<exists>r. rest = CHR ''('' # r)"
  shows "parse_primary (Suc n) (c # t @ rest) =
      (case rest of
         d # rest' \<Rightarrow>
           if d = CHR ''(''
           then pbind
             (case trim_start rest' of
                x # y \<Rightarrow> if x = CHR '')'' then pok [] (x # y) else parse_args n [] (x # y)
              | [] \<Rightarrow> parse_args n [] [])
             (\<lambda>args. expect (CHR '')'') (FCall (c # t) args))
           else pok (FField (c # t)) rest
       | [] \<Rightarrow> pok (FField (c # t)) rest)"
proof -
  have nc: "\<not> is_ident_continue d" if "rest = d # r" for d r
    using assms(3) that ends_not_continue
    by (auto simp: is_ident_continue_def is_ident_start_def is_ascii_digit_def byte_of_def)
  have cont: "is_ident_continue c" using assms(1) by (simp add: is_ident_continue_def)
  have drop: "dropWhile is_ident_continue (t @ rest) = rest"
    using takeWhile_ends(2) [OF assms(2,3)] nc by blast
  have "takeWhile is_ident_continue (t @ rest) = t" using takeWhile_ends(1) [OF assms(2,3)] nc by blast
  with cont have take: "takeWhile is_ident_continue (c # t @ rest) = c # t" by (simp only: takeWhile.simps if_True)
  have trim: "trim_start rest = rest" "trim_start (c # t @ rest) = c # t @ rest"
    using assms(3) ident_visible(1) [OF assms(1)] by (auto simp: visible_def byte_of_def)
  show ?thesis
    unfolding parse_primary.simps(2) trim list.case Let_def take drop
    using ident_start_not [OF assms(1)] assms(1) by (simp only: if_False if_True simp_thms)
qed

lemma identifier_parts:
  assumes "is_identifier name"
  obtains c t where "name = c # t" "is_ident_start c" "list_all is_ident_continue t"
  using assms by (cases name) (auto simp: is_identifier_def)

lemma reads_field:
  assumes "is_identifier name" "ends_here rest"
  shows "reads parse_primary (name @ rest) (FField name) rest"
proof -
  obtain c t where c: "name = c # t" "is_ident_start c" "list_all is_ident_continue t"
    using assms(1) by (rule identifier_parts)
  have "parse_primary (Suc 0) (name @ rest) = Some (Inr (FField name, rest))"
    using primary_name [OF c(2,3), of rest 0] assms(2) ends_not_continue
    by (cases rest) (auto simp: c(1) pok_def simp del: parse_primary.simps)
  then show ?thesis unfolding reads_def by blast
qed

lemma reads_paren:
  assumes "reads parse_add_sub s e (CHR '')'' # rest)"
  shows "reads parse_primary (CHR ''('' # s) e rest"
proof -
  from assms obtain n where "parse_add_sub n s = Some (Inr (e, CHR '')'' # rest))" by (auto simp: reads_def)
  then have "parse_primary (Suc n) (CHR ''('' # s) = Some (Inr (e, rest))"
    by (simp add: pbind_Inr expect_def pok_def visible_def byte_of_def)
  then show ?thesis unfolding reads_def by blast
qed

lemma reads_minus:
  assumes "reads parse_unary s e rest"
  shows "reads parse_unary (CHR ''-'' # s) (FMinus e) rest"
proof -
  from assms obtain n where "parse_unary n s = Some (Inr (e, rest))" by (auto simp: reads_def)
  then have "parse_unary (Suc n) (CHR ''-'' # s) = Some (Inr (FMinus e, rest))"
    by (simp add: pbind_Inr pok_def visible_def byte_of_def)
  then show ?thesis unfolding reads_def by blast
qed

lemma reads_args_last:
  assumes "reads parse_add_sub s e (CHR '')'' # rest)"
  shows "reads (\<lambda>n. parse_args n acc) s (acc @ [e]) (CHR '')'' # rest)"
proof -
  from assms obtain n where "parse_add_sub n s = Some (Inr (e, CHR '')'' # rest))" by (auto simp: reads_def)
  then have "parse_args (Suc n) acc s = Some (Inr (acc @ [e], CHR '')'' # rest))"
    by (simp add: pbind_Inr pok_def visible_def byte_of_def)
  then show ?thesis unfolding reads_def by blast
qed

lemma reads_args_more:
  assumes "reads parse_add_sub s e (CHR '','' # t)" "reads (\<lambda>n. parse_args n (acc @ [e])) t es rest"
  shows "reads (\<lambda>n. parse_args n acc) s es rest"
proof -
  from assms obtain n m where "parse_add_sub n s = Some (Inr (e, CHR '','' # t))"
    "parse_args m (acc @ [e]) t = Some (Inr (es, rest))" by (auto simp: reads_def)
  then have "parse_add_sub (max n m) s = Some (Inr (e, CHR '','' # t))"
    "parse_args (max n m) (acc @ [e]) t = Some (Inr (es, rest))"
    by (auto intro: more_fuel(1) [of n "max n m"] more_fuel(7) [of m "max n m"])
  then have "parse_args (Suc (max n m)) acc s = Some (Inr (es, rest))"
    by (simp add: pbind_Inr visible_def byte_of_def)
  then show ?thesis unfolding reads_def by blast
qed

lemma reads_call:
  assumes "is_identifier name" "args = [] \<and> s = CHR '')'' # rest
      \<or> opens s \<and> reads (\<lambda>n. parse_args n []) s args (CHR '')'' # rest)"
  shows "reads parse_primary (name @ CHR ''('' # s) (FCall name args) rest"
proof -
  obtain c t where c: "name = c # t" "is_ident_start c" "list_all is_ident_continue t"
    using assms(1) by (rule identifier_parts)
  have par: "trim_start (CHR '')'' # rest) = CHR '')'' # rest" by (simp add: visible_def byte_of_def)
  obtain n where n: "(case trim_start s of
                     x # y \<Rightarrow> if x = CHR '')'' then pok [] (x # y) else parse_args n [] (x # y)
                   | [] \<Rightarrow> parse_args n [] []) = Some (Inr (args, CHR '')'' # rest))"
  proof (cases "args = [] \<and> s = CHR '')'' # rest")
    case True
    then show ?thesis using that [of 0] par by (simp add: pok_def)
  next
    case False
    with assms(2) obtain n where "opens s" "parse_args n [] s = Some (Inr (args, CHR '')'' # rest))"
      by (auto simp: reads_def)
    then show ?thesis using that [of n] by (cases s) (auto simp: opens_def)
  qed
  have "parse_primary (Suc n) (name @ CHR ''('' # s) = Some (Inr (FCall name args, rest))"
    using primary_name [OF c(2,3), of "CHR ''('' # s" n] n par
    by (simp add: c(1) pbind_Inr expect_def pok_def del: parse_primary.simps)
  then show ?thesis unfolding reads_def by blast
qed

text \<open>What a printed expression is read as, by its level: a sum, a product, a signed primary, a primary.\<close>

definition read_as_sum :: "formula \<Rightarrow> bool" where
  "read_as_sum e \<longleftrightarrow> (\<forall>rest e' rest'. ends_here rest \<longrightarrow> next_op mul_op rest = None
     \<longrightarrow> reads (\<lambda>n. add_sub_loop n e) rest e' rest' \<longrightarrow> reads parse_add_sub (show_formula e @ rest) e' rest')"

definition read_as_product :: "formula \<Rightarrow> bool" where
  "read_as_product e \<longleftrightarrow> (\<forall>rest e' rest'. ends_here rest
     \<longrightarrow> reads (\<lambda>n. mul_div_loop n e) rest e' rest' \<longrightarrow> reads parse_mul_div (show_formula e @ rest) e' rest')"

definition read_as_signed :: "formula \<Rightarrow> bool" where
  "read_as_signed e \<longleftrightarrow> (\<forall>rest. ends_here rest \<longrightarrow> reads parse_unary (show_formula e @ rest) e rest)"

definition read_as_primary :: "formula \<Rightarrow> bool" where
  "read_as_primary e \<longleftrightarrow> (\<forall>rest. ends_here rest \<longrightarrow> reads parse_primary (show_formula e @ rest) e rest)"

lemma read_down:
  "read_as_primary e \<Longrightarrow> printable e \<Longrightarrow> formula_level e = 3 \<Longrightarrow> read_as_signed e"
  "read_as_signed e \<Longrightarrow> read_as_product e"
  "read_as_product e \<Longrightarrow> read_as_sum e"
proof -
  show "read_as_primary e \<Longrightarrow> printable e \<Longrightarrow> formula_level e = 3 \<Longrightarrow> read_as_signed e"
    by (simp add: read_as_primary_def read_as_signed_def reads_unary show_begins)
  show "read_as_signed e \<Longrightarrow> read_as_product e"
    by (auto simp: read_as_signed_def read_as_product_def intro: reads_mul_div)
  show "read_as_product e \<Longrightarrow> read_as_sum e"
    unfolding read_as_sum_def read_as_product_def
    by (blast intro: reads_add_sub loop_stops(2) [OF trim_start_ends])
qed

definition readable :: "formula \<Rightarrow> bool" where
  "readable e \<longleftrightarrow> read_as_sum e \<and> (1 \<le> formula_level e \<longrightarrow> read_as_product e)
     \<and> (2 \<le> formula_level e \<longrightarrow> read_as_signed e)"

lemma readable_primary: "read_as_primary e \<Longrightarrow> printable e \<Longrightarrow> formula_level e = 3 \<Longrightarrow> readable e"
  unfolding readable_def by (blast intro: read_down)

lemma closed_read:
  assumes "read_as_sum e" "closed_by rest"
  shows "reads parse_add_sub (show_formula e @ rest) e rest"
proof -
  have "reads (\<lambda>n. add_sub_loop n e) rest e rest"
    using closed_ends [OF assms(2)] closed_no_op [OF assms(2)] by (intro loop_stops) simp_all
  with assms closed_ends [OF assms(2)] closed_no_op [OF assms(2)] show ?thesis by (simp add: read_as_sum_def)
qed

lemma begins_paren: "begins (CHR ''('' # s)"
  by (simp add: begins_def visible_def byte_of_def)

lemma read_parens:
  assumes "read_as_sum e"
  shows "reads parse_unary (CHR ''('' # show_formula e @ CHR '')'' # rest) e rest"
  by (rule reads_unary [OF reads_paren [OF closed_read [OF assms]] begins_paren]) (simp add: closed_by_def)

lemma read_operand_signed:
  assumes "readable e" "b \<or> 2 \<le> formula_level e" "ends_here rest"
  shows "reads parse_unary (parens b (show_formula e) @ rest) e rest"
proof (cases b)
  case True
  with read_parens [of e rest] assms(1) show ?thesis by (simp add: parens_def readable_def)
next
  case False
  with assms show ?thesis by (simp add: parens_def readable_def read_as_signed_def)
qed

lemma read_operand_product:
  assumes "readable e" "b \<or> 1 \<le> formula_level e" "ends_here rest"
    and "reads (\<lambda>n. mul_div_loop n e) rest e' rest'"
  shows "reads parse_mul_div (parens b (show_formula e) @ rest) e' rest'"
proof (cases b)
  case True
  have "reads parse_unary (parens b (show_formula e) @ rest) e rest"
    using True by (intro read_operand_signed [OF assms(1) _ assms(3)]) simp
  then show ?thesis using assms(4) by (rule reads_mul_div)
next
  case False
  with assms show ?thesis by (simp add: parens_def readable_def read_as_product_def)
qed

lemma op_char_visible: "visible (op_char op)"
  by (cases op) (simp_all add: op_char_def visible_def byte_of_def)

lemma ends_signs [simp]: "ends_here (op_char op # t)" "ends_here (CHR '')'' # t)" "ends_here (CHR '','' # t)"
  by (cases op) (simp_all add: ends_here_def op_char_def)

lemma readable_sum:
  assumes "readable l" "readable r" "op_level op = 0"
  shows "readable (FBinary l op r)"
proof -
  have op: "add_op (op_char op) = Some op" "next_op mul_op (op_char op # t) = None" for t
    using assms(3) by (cases op; simp add: op_char_def mul_op_def add_op_def next_op_def op_level_def)+
  have "reads parse_add_sub (show_formula (FBinary l op r) @ rest) e' rest'"
    if t: "ends_here rest" "next_op mul_op rest = None" "reads (\<lambda>n. add_sub_loop n (FBinary l op r)) rest e' rest'"
    for rest e' rest'
  proof -
    let ?r = "parens (formula_level r \<le> op_level op) (show_formula r) @ rest"
    have "reads parse_mul_div ?r r rest"
      using assms(3) t by (intro read_operand_product [OF assms(2)] loop_stops) auto
    then have "reads (\<lambda>n. add_sub_loop n l) (op_char op # ?r) e' rest'"
      using t(3) by (rule reads_add_loop [OF op(1) op_char_visible])
    then have "reads parse_add_sub (show_formula l @ op_char op # ?r) e' rest'"
      using assms(1) op(2) by (simp add: readable_def read_as_sum_def)
    then show ?thesis using assms(3) by (simp add: parens_def)
  qed
  then show ?thesis using assms(3) by (simp add: readable_def read_as_sum_def del: show_formula.simps)
qed

lemma readable_product:
  assumes "readable l" "readable r" "op_level op = 1"
  shows "readable (FBinary l op r)"
proof -
  have op: "mul_op (op_char op) = Some op"
    using assms(3) by (cases op) (simp_all add: op_char_def mul_op_def op_level_def)
  have "reads parse_mul_div (show_formula (FBinary l op r) @ rest) e' rest'"
    if t: "ends_here rest" "reads (\<lambda>n. mul_div_loop n (FBinary l op r)) rest e' rest'" for rest e' rest'
  proof -
    let ?r = "parens (formula_level r \<le> op_level op) (show_formula r) @ rest"
    have "reads parse_unary ?r r rest"
      using assms(3) t by (intro read_operand_signed [OF assms(2)]) auto
    then have "reads (\<lambda>n. mul_div_loop n l) (op_char op # ?r) e' rest'"
      using t(2) by (rule reads_mul_loop [OF op op_char_visible])
    then have "reads parse_mul_div (parens (formula_level l < op_level op) (show_formula l) @ op_char op # ?r) e' rest'"
      using assms(3) by (intro read_operand_product [OF assms(1)]) auto
    then show ?thesis by simp
  qed
  then have "read_as_product (FBinary l op r)" by (simp add: read_as_product_def del: show_formula.simps)
  then show ?thesis using assms(3) read_down(3) by (simp add: readable_def)
qed

lemma reads_show_args:
  assumes "\<And>e. e \<in> set es \<Longrightarrow> readable e" "es \<noteq> []"
  shows "reads (\<lambda>n. parse_args n acc) (join_with '','' (map show_formula es) @ CHR '')'' # rest) (acc @ es) (CHR '')'' # rest)"
  using assms
proof (induction es arbitrary: acc)
  case (Cons e es)
  have e: "reads parse_add_sub (show_formula e @ t) e t" if "closed_by t" for t
    using that Cons.prems by (intro closed_read) (auto simp: readable_def)
  show ?case
  proof (cases "es = []")
    case True
    then show ?thesis using reads_args_last [OF e] by (simp add: closed_by_def)
  next
    case False
    let ?t = "join_with '','' (map show_formula es) @ CHR '')'' # rest"
    have "reads (\<lambda>n. parse_args n (acc @ [e])) ?t ((acc @ [e]) @ es) (CHR '')'' # rest)"
      using Cons.prems False by (intro Cons.IH) auto
    from reads_args_more [OF e this] show ?thesis
      using False by (simp add: closed_by_def join_with_Cons)
  qed
qed simp

lemma read_call:
  assumes "\<And>e. e \<in> set args \<Longrightarrow> readable e" "printable (FCall name args)"
  shows "read_as_primary (FCall name args)"
  unfolding read_as_primary_def
proof (intro allI impI)
  fix rest
  show "reads parse_primary (show_formula (FCall name args) @ rest) (FCall name args) rest"
  proof (cases "args = []")
    case True
    then show ?thesis using reads_call [of name "[]" "CHR '')'' # rest" rest] assms(2) by simp
  next
    case False
    let ?s = "join_with '','' (map show_formula args) @ CHR '')'' # rest"
    have "reads (\<lambda>n. parse_args n []) ?s ([] @ args) (CHR '')'' # rest)"
      using assms(1) False by (rule reads_show_args)
    moreover have "opens ?s"
    proof -
      obtain e es where args: "args = e # es" using False by (cases args) auto
      with assms(2) have "printable e" by simp
      from show_opens [OF this] show ?thesis by (cases "es = []") (simp_all add: args join_with_Cons)
    qed
    ultimately show ?thesis using reads_call [of name args ?s rest] assms(2) by simp
  qed
qed

lemma reads_show: "printable e \<Longrightarrow> readable e"
proof (induction e rule: show_formula.induct)
  case (1 s)
  have "read_as_primary (FLiteral (JString s))" unfolding read_as_primary_def by (intro allI impI reads_string)
  with 1 show ?case by (intro readable_primary) simp_all
next
  case (2 q)
  then obtain n where "n < 2 ^ 53" "q = of_nat n" by auto
  then have "read_as_primary (FLiteral (JNumber (FloatNum q)))" by (simp add: read_as_primary_def reads_number)
  with 2 show ?case by (intro readable_primary) simp_all
next
  case (4 name)
  then have "read_as_primary (FField name)" by (simp add: read_as_primary_def reads_field)
  with 4 show ?case by (intro readable_primary) simp_all
next
  case (5 e)
  then have "readable e" by simp
  then have "read_as_signed (FMinus e)"
    by (auto simp: read_as_signed_def intro!: reads_minus read_operand_signed)
  then show ?case using read_down(2,3) by (simp add: readable_def)
next
  case (6 l op r)
  then have "readable l" "readable r" by simp_all
  then show ?case by (cases op) (auto intro: readable_sum readable_product simp: op_level_def)
next
  case (7 name args)
  then have "read_as_primary (FCall name args)" by (intro read_call) auto
  with 7(2) show ?case by (intro readable_primary) simp_all
qed auto

text \<open>What \<open>parse_formula\<close> finds with its own fuel is what any sufficient fuel finds.\<close>

lemma parse_formula_eqI:
  assumes "reads parse_add_sub s e rest"
  shows "parse_formula s = (if trim_start rest = [] then Inr e else Inl ''unexpected trailing characters'')"
proof -
  from assms obtain n where n: "parse_add_sub n s = Some (Inr (e, rest))" by (auto simp: reads_def)
  obtain r where r: "parse_add_sub (formula_fuel s) s = Some r" using parser_returns by blast
  have "parse_add_sub (max n (formula_fuel s)) s = Some (Inr (e, rest))"
    "parse_add_sub (max n (formula_fuel s)) s = Some r"
    using more_fuel(1) [OF _ n, of "max n (formula_fuel s)"] more_fuel(1) [OF _ r, of "max n (formula_fuel s)"] by simp_all
  with r show ?thesis by (simp add: parse_formula_def)
qed

text \<open>C25: The formula parser always returns: with the fuel it starts with, six units per byte and six more, no
  text makes it run out, and more fuel does not change its answer.\<close>

theorem formula_parser_terminates:
  "(\<exists>r. parse_add_sub (formula_fuel s) s = Some r \<and> parse_add_sub (formula_fuel s + k) s = Some r)"
proof -
  obtain r where r: "parse_add_sub (formula_fuel s) s = Some r" using parser_returns by blast
  with more_fuel(1) [OF le_add1 r] show ?thesis by blast
qed

text \<open>C12: The parser reads back what a printer writes that leaves out every parenthesis that precedence and
  association make superfluous: an expression of texts, natural numbers, fields, signs, operations and helper
  calls, printed and parsed again, is itself.  So a product binds more tightly than a sum and a sign more
  tightly than a product, operations of the same precedence associate to the left, and parentheses, escapes,
  nesting and argument lists are read as written.\<close>

theorem formula_roundtrip:
  assumes "printable e"
  shows "parse_formula (show_formula e) = Inr e"
proof -
  have "reads parse_add_sub (show_formula e @ []) e []"
    using reads_show [OF assms] by (intro closed_read) (simp_all add: readable_def closed_by_def)
  from parse_formula_eqI [OF this] show ?thesis by simp
qed

text \<open>A difference of three terms with a product among them, and a product with a sum as factor.\<close>

definition sample_formula :: formula where
  "sample_formula = FBinary (FBinary (FField ''a'') OpSub (FBinary (FField ''b'') OpMul (FMinus (FField ''c''))))
     OpSub (FBinary (FBinary (FField ''d'') OpAdd (FLiteral (JString ''e''))) OpDiv (FCall ''f'' [FField ''x'', FField ''y'']))"

lemma sample_formula_shown:
  "show_formula sample_formula = ''a-b*-c-(d+'' @ CHR 0x22 # ''e'' @ CHR 0x22 # '')/f(x,y)''"
  by code_simp

theorem formula_roundtrip_witness:
  "parse_formula (''a-b*-c-(d+'' @ CHR 0x22 # ''e'' @ CHR 0x22 # '')/f(x,y)'') = Inr sample_formula"
proof -
  have "printable sample_formula"
    by (simp add: sample_formula_def is_identifier_def is_ident_start_def is_ident_continue_def byte_of_def)
  from formula_roundtrip [OF this] show ?thesis unfolding sample_formula_shown .
qed

end
