(* ===== verification/Data_Laws.thy ===== *)
theory Data_Laws
  imports Data_Engine Formula_Parser "HOL-Library.Multiset"
begin

text \<open>
  The laws of the data engine: paths, conditions, rules, ranking, grouping and the pipeline, and where its
  operations do less than their names and tests say.
\<close>

section \<open>Paths\<close>

lemma get_parts_None [simp]: "get_parts ps None = None"
  by (cases ps) simp_all

lemma get_parts_empty: "ps \<noteq> [] \<Longrightarrow> get_parts ps (Some (JObject [])) = None"
  by (cases ps) simp_all

lemma get_parts_child: "ps \<noteq> [] \<Longrightarrow> get_parts ps (Some (JObject (child_object p m))) = get_parts ps (map_of m p)"
proof (cases "map_of m p")
  case (Some v)
  assume "ps \<noteq> []"
  with Some show ?thesis
    by (cases v; cases ps) (simp_all add: child_object_def)
qed (simp add: child_object_def get_parts_empty)

lemma get_set_parts: "ps \<noteq> [] \<Longrightarrow> get_parts ps (Some (JObject (set_path_parts m ps v))) = Some v"
  by (induction m ps v rule: set_path_parts.induct) (auto simp: map_of_obj_insert)

lemma get_set_parts_other:
  "\<not> prefix ps qs \<Longrightarrow> \<not> prefix qs ps \<Longrightarrow>
     get_parts qs (Some (JObject (set_path_parts m ps v))) = get_parts qs (Some (JObject m))"
proof (induction m ps v arbitrary: qs rule: set_path_parts.induct)
  case (2 m p v)
  then obtain q qs' where "qs = q # qs'" "q \<noteq> p" by (cases qs) auto
  then show ?case by (simp add: map_of_obj_insert)
next
  case (3 m p p2 ps v)
  then obtain q qs' where qs: "qs = q # qs'" by (cases qs) auto
  show ?case
  proof (cases "q = p")
    case True
    with 3(2,3) qs have "\<not> prefix (p2 # ps) qs'" "\<not> prefix qs' (p2 # ps)" by auto
    moreover from this(2) have "qs' \<noteq> []" by auto
    ultimately show ?thesis using 3(1) [of qs'] by (simp add: qs True map_of_obj_insert get_parts_child)
  next
    case False
    then show ?thesis by (simp add: qs map_of_obj_insert)
  qed
qed simp

definition dotted_parts :: "string \<Rightarrow> string list" where
  "dotted_parts path = split_on CHR ''.'' path"

text \<open>A path that was written is read back, and no other path is disturbed: after \<open>set_path\<close> the
  path holds the new value, and a path of which neither is a prefix of the other holds what it held
  before, also where an object had to be made on the way.\<close>

theorem path_laws:
  "get_path (set_path p v row) p = Some v
   \<and> (\<not> prefix (dotted_parts p) (dotted_parts q) \<and> \<not> prefix (dotted_parts q) (dotted_parts p) \<longrightarrow>
        get_path (set_path p v row) q = get_path row q)"
  by (simp add: get_path_def set_path_def dotted_parts_def get_set_parts get_set_parts_other)

theorem path_laws_witness:
  "get_path (set_path ''a.b'' JNull [(''a'', JBool True), (''c'', JBool False)]) ''c'' = Some (JBool False)"
proof -
  have "\<not> prefix (dotted_parts ''a.b'') (dotted_parts ''c'')" "\<not> prefix (dotted_parts ''c'') (dotted_parts ''a.b'')"
    "get_path [(''a'', JBool True), (''c'', JBool False)] ''c'' = Some (JBool False)" by code_simp+
  then show ?thesis
    using path_laws [of "''a.b''" JNull "[(''a'', JBool True), (''c'', JBool False)]" "''c''"] by metis
qed

section \<open>Lists of results\<close>

lemma each_Inr_iff: "each f xs = Inr ys \<longleftrightarrow> list_all2 (\<lambda>x y. f x = Inr y) xs ys"
proof (induction xs arbitrary: ys)
  case Nil
  show ?case by auto
next
  case (Cons x xs)
  show ?case by (auto simp: rbind_Inr_iff Cons list_all2_Cons1)
qed

lemma each_values: "each f xs = Inr ys \<longleftrightarrow> (\<forall>x\<in>set xs. \<exists>y. f x = Inr y) \<and> ys = map (\<lambda>x. projr (f x)) xs"
  unfolding each_Inr_iff
  by (induction xs arbitrary: ys) (auto simp: list_all2_Cons1)

lemma each_mset:
  assumes "each f xs = Inr ys" "mset xs' = mset xs"
  shows "\<exists>ys'. each f xs' = Inr ys' \<and> mset ys' = mset ys"
proof -
  from assms(2) have "set xs' = set xs" by (rule mset_eq_setD)
  with assms show ?thesis by (auto simp: each_values mset_map)
qed

section \<open>Ranking\<close>

text \<open>The texts tell the scored records apart, as the serialization of \<open>serde_json\<close> does.\<close>

definition texts_differ :: "data_env \<Rightarrow> engine_options \<Rightarrow> rank_config \<Rightarrow> data_row list \<Rightarrow> bool" where
  "texts_differ env opts cfg rows \<longleftrightarrow>
     (case each (score_row env opts cfg (rank_field cfg)) rows of
        Inl _ \<Rightarrow> True
      | Inr scored \<Rightarrow> (\<forall>x\<in>set scored. \<forall>y\<in>set scored. fst (snd x) = fst (snd y) \<longrightarrow> snd (snd x) = snd (snd y)))"

lemma rank_key_inj:
  assumes "\<forall>x\<in>set scored. \<forall>y\<in>set scored. fst (snd x) = fst (snd y) \<longrightarrow> snd (snd x) = snd (snd y)"
  shows "inj_on (rank_key d) (set scored)"
proof (rule inj_onI)
  fix x y
  assume xy: "x \<in> set scored" "y \<in> set scored" "rank_key d x = rank_key d y"
  then have "fst (snd x) = fst (snd y)" "fst x = fst y" by (auto simp: rank_key_def split: if_splits)
  moreover from this assms xy(1,2) have "snd (snd x) = snd (snd y)" by blast
  ultimately show "x = y" by (simp add: prod_eq_iff)
qed

text \<open>C31: Ranking does not depend on the order of the records: if different records have different texts,
  any permutation of the input has the same ranking, ties and the cut to the best included.\<close>

theorem rank_order_invariant:
  assumes "rank_records env opts cfg rows = Inr out" "mset rows' = mset rows" "texts_differ env opts cfg rows"
  shows "rank_records env opts cfg rows' = Inr out"
proof -
  let ?k = "rank_key (rk_descending cfg)"
  from assms(1) obtain scored where scored: "each (score_row env opts cfg (rank_field cfg)) rows = Inr scored"
    by (auto simp: rank_records_def Let_def rbind_Inr_iff)
  from each_mset [OF this assms(2)] obtain scored' where
    scored': "each (score_row env opts cfg (rank_field cfg)) rows' = Inr scored'" "mset scored' = mset scored" by blast
  from assms(3) have "inj_on ?k (set scored)"
    unfolding texts_differ_def scored sum.case by (rule rank_key_inj)
  then have "inj_on ?k (set scored')" unfolding mset_eq_setD [OF scored'(2)] .
  then have "sort_key ?k scored' = sort_key ?k scored"
    using sort_key_inj_key_eq [of scored' "sort_key ?k scored" ?k] by (simp only: mset_sort scored'(2) sorted_sort_key simp_thms)
  with assms(1) scored scored'(1) show ?thesis
    by (simp add: rank_records_def)
qed

lemma rank_length:
  assumes "rank_records env opts cfg rows = Inr out"
  shows "length out = min (case rk_top_n cfg of Some n \<Rightarrow> n | None \<Rightarrow> 1000) (length rows)"
  using assms by (auto simp: rank_records_def Let_def rbind_Inr_iff each_Inr_iff dest: list_all2_lengthD)

text \<open>A ranking is what it says: it has the best records, as many as asked for and there are, with the
  ranks from one on, in the order of their scores, and equal scores in the order of their texts.\<close>

theorem ranking_sorted:
  assumes "rank_records env opts cfg rows = Inr out"
  shows "\<exists>scored. each (score_row env opts cfg (rank_field cfg)) rows = Inr scored
    \<and> length out = min (case rk_top_n cfg of Some n \<Rightarrow> n | None \<Rightarrow> 1000) (length rows)
    \<and> (let best = sort_key (rank_key (rk_descending cfg)) scored in
        mset best = mset scored \<and> sorted (map (rank_key (rk_descending cfg)) best)
        \<and> (\<forall>i<length out. out ! i = obj_insert ''rank'' (JNumber (PosInt (i + 1))) (snd (snd (best ! i)))))"
proof -
  from assms obtain scored where scored: "each (score_row env opts cfg (rank_field cfg)) rows = Inr scored"
    and out: "out = take (case rk_top_n cfg of Some n \<Rightarrow> n | None \<Rightarrow> 1000)
      (map (\<lambda>(i, x). with_rank i (snd (snd x))) (List.enumerate 0 (sort_key (rank_key (rk_descending cfg)) scored)))"
    by (auto simp: rank_records_def Let_def rbind_Inr_iff)
  have "\<forall>i<length out. out ! i = obj_insert ''rank'' (JNumber (PosInt (i + 1)))
      (snd (snd (sort_key (rank_key (rk_descending cfg)) scored ! i)))"
    by (simp add: out nth_enumerate_eq with_rank_def)
  with scored rank_length [OF assms] show ?thesis by (auto simp: Let_def)
qed

section \<open>Grouping\<close>

lemma keys_into_bucket: "fst ` set (into_bucket k f bs) = insert k (fst ` set bs)"
  by (induction k f bs rule: into_bucket.induct) (simp_all add: insert_commute)

lemma sorted_into_bucket:
  "sorted (map fst bs) \<Longrightarrow> distinct (map fst bs) \<Longrightarrow>
     sorted (map fst (into_bucket k f bs)) \<and> distinct (map fst (into_bucket k f bs))"
proof (induction k f bs rule: into_bucket.induct)
  case (2 k f k' b bs)
  have "fst ` set (into_bucket k f bs) = insert k (fst ` set bs)" by (rule keys_into_bucket)
  with 2 show ?case by (auto simp: image_iff)
qed simp

definition bucket_rows :: "(string \<times> group_bucket) list \<Rightarrow> string \<Rightarrow> data_row list" where
  "bucket_rows bs k = (case map_of bs k of Some b \<Rightarrow> bu_rows b | None \<Rightarrow> [])"

lemma bucket_rows_into:
  assumes "\<And>b. bu_rows (f b) = bu_rows b @ [row]" "sorted (map fst bs)" "distinct (map fst bs)"
  shows "bucket_rows (into_bucket k f bs) k' = (if k' = k then bucket_rows bs k @ [row] else bucket_rows bs k')"
  using assms
proof (induction k f bs rule: into_bucket.induct)
  case (2 k f k1 b bs)
  have fresh: "map_of bs k = None" if "k < k1"
  proof -
    have "k \<notin> fst ` set bs" using that 2(3) by force
    then show ?thesis by (simp add: map_of_eq_None_iff)
  qed
  show ?case
  proof (cases "k < k1")
    case True
    with fresh 2(2) show ?thesis by (auto simp: bucket_rows_def)
  next
    case False
    show ?thesis
    proof (cases "k = k1")
      case True
      with 2(2) show ?thesis by (simp add: bucket_rows_def)
    next
      case ne: False
      with False 2(3,4) have "bucket_rows (into_bucket k f bs) k' = (if k' = k then bucket_rows bs k @ [row] else bucket_rows bs k')"
        by (intro 2(1) 2(2)) auto
      with False ne show ?thesis by (auto simp: bucket_rows_def)
    qed
  qed
qed (simp add: bucket_rows_def)

text \<open>C38: Grouping is a partition: the keys of the groups ascend without a repetition and are exactly the keys of
  the records, and the group of a key holds exactly the records with this key, in their order.\<close>

theorem groups_partition:
  "sorted (map fst (buckets_of env names rows)) \<and> distinct (map fst (buckets_of env names rows))
   \<and> fst ` set (buckets_of env names rows) = group_key env names ` set rows
   \<and> bucket_rows (buckets_of env names rows) k = filter (\<lambda>row. group_key env names row = k) rows"
proof (induction rows arbitrary: k rule: rev_induct)
  case Nil
  show ?case by (simp add: buckets_of_def bucket_rows_def)
next
  case (snoc row rows)
  have step: "buckets_of env names (rows @ [row]) = add_row env names row (buckets_of env names rows)"
    by (simp add: buckets_of_def)
  show ?case
    unfolding step add_row_def
    using snoc sorted_into_bucket bucket_rows_into [where row = row]
    by (simp add: keys_into_bucket)
qed

section \<open>Conditions\<close>

text \<open>Comparators that are given as false have no meaning of their own in the evaluation.\<close>

definition plain_comparators :: "comparators \<Rightarrow> bool" where
  "plain_comparators c \<longleftrightarrow> cm_nonempty c \<noteq> Some False \<and> cm_empty c \<noteq> Some False"

fun decided :: "condition_spec \<Rightarrow> bool" and decided_all :: "condition_spec list \<Rightarrow> bool" where
  "decided (ConditionSpec field cmp all_of any_of neg) =
     (plain_comparators cmp
      \<and> (case all_of of Some cs \<Rightarrow> decided_all cs | None \<Rightarrow> True)
      \<and> (case any_of of Some cs \<Rightarrow> decided_all cs | None \<Rightarrow> True)
      \<and> (case neg of Some c \<Rightarrow> decided c | None \<Rightarrow> True))"
| "decided_all [] = True"
| "decided_all (c # cs) = (decided c \<and> decided_all cs)"

text \<open>An evaluation that succeeds or meets a value that is not a number.\<close>

definition cond_evaluates :: "(string, bool) result \<Rightarrow> bool" where
  "cond_evaluates r \<longleftrightarrow> (case r of Inr _ \<Rightarrow> True
     | Inl e \<Rightarrow> e \<in> {''numeric comparison requires numeric field value'', ''numeric comparison requires numeric comparison value''})"

lemma evaluates_Inr [simp]: "cond_evaluates (Inr b)"
  by (simp add: cond_evaluates_def)

lemma evaluates_rbind: "cond_evaluates r \<Longrightarrow> (\<And>b. cond_evaluates (f b)) \<Longrightarrow> cond_evaluates (rbind r f)"
  by (cases r) (auto simp: cond_evaluates_def)

lemma evaluates_compare: "cond_evaluates (compare_numeric f l r)"
  by (auto simp: compare_numeric_def cond_evaluates_def need_def rbind_def split: option.splits)

lemma evaluates_atomic:
  assumes "list_ex id (comparator_flags c)" "plain_comparators c" "check_regex env opts (cm_regex c) = Inr ()"
  shows "cond_evaluates (evaluate_atomic env c value)"
proof -
  have "cond_evaluates (match_regex env p value)" if "cm_regex c = Some p" for p
    using assms(3) that
    by (cases "de_regex env p") (auto simp: check_regex_def match_regex_def split: option.splits if_splits)
  then show ?thesis
    using assms(1,2)
    by (auto simp: evaluate_atomic_def comparator_flags_def plain_comparators_def compare_ordered_def evaluates_compare
        split: option.splits)
qed

lemma validated_evaluates:
  "validate_condition env opts depth c = Inr () \<Longrightarrow> decided c \<Longrightarrow> cond_evaluates (data_condition env row c)"
  "validate_conditions env opts depth cs = Inr () \<Longrightarrow> decided_all cs \<Longrightarrow>
     cond_evaluates (evaluate_all env row cs) \<and> cond_evaluates (evaluate_any env row cs)"
proof (induction env opts depth c and env opts depth cs rule: validate_condition_validate_conditions.induct)
  case (1 env opts depth field cmp all_of any_of neg)
  from 1(4) have checks: "check_shape (ConditionSpec field cmp all_of any_of neg) = Inr ()" "check_regex env opts (cm_regex cmp) = Inr ()"
    by (auto simp: rbind_Inr_iff split: if_splits)
  have atomic: "cond_evaluates (evaluate_atomic env cmp v)" if "neg = None" "all_of = None" "any_of = None" for v
  proof (rule evaluates_atomic [OF _ _ checks(2)])
    have "filter id (comparator_flags cmp) \<noteq> []" using checks(1) that by (auto simp: check_shape_def split: if_splits)
    then show "list_ex id (comparator_flags cmp)" by (auto simp: filter_empty_conv list_ex_iff)
    show "plain_comparators cmp" using 1(5) by simp
  qed
  have field: "field \<noteq> None" if "neg = None" "all_of = None" "any_of = None"
    using checks(1) that by (auto simp: check_shape_def split: if_splits)
  show ?case
  proof (cases neg)
    case (Some c)
    with 1 checks have "cond_evaluates (data_condition env row c)"
      by (auto simp: rbind_Inr_iff split: if_splits)
    with Some show ?thesis by (auto intro: evaluates_rbind)
  next
    case None
    show ?thesis
    proof (cases all_of)
      case (Some cs)
      with None 1 checks show ?thesis by (auto simp: rbind_Inr_iff split: if_splits)
    next
      case no_all: None
      show ?thesis
      proof (cases any_of)
        case (Some cs)
        with None no_all 1 checks show ?thesis by (auto simp: rbind_Inr_iff split: if_splits)
      next
        case no_any: None
        with None no_all atomic field show ?thesis by (auto simp: need_def)
      qed
    qed
  qed
next
  case (3 env opts depth c cs)
  then have "cond_evaluates (data_condition env row c)" "cond_evaluates (evaluate_all env row cs)" "cond_evaluates (evaluate_any env row cs)"
    by (auto simp: rbind_Inr_iff)
  then show ?case by (auto intro!: evaluates_rbind)
qed simp

text \<open>A condition that passes validation can be evaluated on every record: it gives a truth value, or the
  error that a comparator_flags value is not a number.  No field, comparator or regular expression is found
  wanting only at run time, apart from the comparators that are given as false.\<close>

theorem validated_conditions_evaluate:
  assumes "validate_condition env opts depth c = Inr ()" "decided c"
  shows "(\<exists>b. data_condition env row c = Inr b)
    \<or> data_condition env row c = Inl ''numeric comparison requires numeric field value''
    \<or> data_condition env row c = Inl ''numeric comparison requires numeric comparison value''"
  using validated_evaluates(1) [OF assms, of row]
  by (cases "data_condition env row c") (auto simp: cond_evaluates_def)

definition no_comparators :: comparators where
  "no_comparators = \<lparr>cm_exists = None, cm_not_exists = None, cm_truthy = None, cm_falsy = None, cm_equals = None,
     cm_not_equals = None, cm_contains = None, cm_nonempty = None, cm_empty = None, cm_gt = None, cm_gte = None,
     cm_lt = None, cm_lte = None, cm_regex = None\<rparr>"

definition sample_condition :: condition_spec where
  "sample_condition = ConditionSpec None no_comparators
     (Some [ConditionSpec (Some ''a'') (no_comparators\<lparr>cm_gt := Some (JNumber (PosInt 3))\<rparr>) None None None]) None None"

definition sample_data_env :: data_env where
  "sample_data_env = \<lparr>de_regex = (\<lambda>_. Inl ''none''), de_captures = (\<lambda>_ _. None), de_lower = to_ascii_lowercase,
     de_number_text = (\<lambda>n. show_nat (nat \<lfloor>num_as_f64 n\<rfloor>)), de_quote = (\<lambda>s. s),
     de_pipeline = (\<lambda>_. Inl []), de_condition = (\<lambda>_. Inl []), de_rules = (\<lambda>_. Inl []), de_clean = (\<lambda>_. Inl []),
     de_rank = (\<lambda>_. Inl []), de_aggregate = (\<lambda>_. Inl []), de_extract = (\<lambda>_. Inl []), de_field_spec = (\<lambda>_. Inl [])\<rparr>"

theorem validated_conditions_evaluate_witness:
  "data_condition sample_data_env [(''a'', JNull)] sample_condition = Inl ''numeric comparison requires numeric field value''"
proof -
  have "validate_condition sample_data_env (parse_options JNull) 1 sample_condition = Inr ()" "decided sample_condition"
    by code_simp+
  from validated_conditions_evaluate [OF this, of "[(''a'', JNull)]"]
  have "\<not> (\<exists>b. data_condition sample_data_env [(''a'', JNull)] sample_condition = Inr b) \<Longrightarrow> ?thesis
     \<or> data_condition sample_data_env [(''a'', JNull)] sample_condition = Inl ''numeric comparison requires numeric comparison value''"
    by blast
  moreover have "data_condition sample_data_env [(''a'', JNull)] sample_condition = Inl ''numeric comparison requires numeric field value''"
    by code_simp
  ultimately show ?thesis by simp
qed

text \<open>Comparators that are given as false: \<open>exists: false\<close> never holds, and \<open>nonempty: false\<close>
  passes the validation and fails at run time.\<close>

lemma exists_false_never_holds: "cm_exists c = Some False \<Longrightarrow> evaluate_atomic env c value = Inr False"
  by (cases "value") (simp_all add: evaluate_atomic_def is_null_value_def)

lemma nonempty_false_fails:
  "validate_condition sample_data_env (parse_options JNull) 1
     (ConditionSpec (Some ''a'') (no_comparators\<lparr>cm_nonempty := Some False\<rparr>) None None None) = Inr ()"
  "data_condition env row (ConditionSpec (Some ''a'') (no_comparators\<lparr>cm_nonempty := Some False\<rparr>) None None None)
     = Inl ''unsupported condition''"
  by code_simp (simp add: need_def evaluate_atomic_def compare_ordered_def no_comparators_def)

section \<open>Rules, formulas and the pipeline\<close>

text \<open>Outside the mode of the first match a rule never drops a record.\<close>

lemma all_match_never_drops: "mode \<noteq> ''first_match'' \<Longrightarrow> apply_rules env opts mode rules row \<noteq> Inr None"
  by (induction env opts mode rules row rule: apply_rules.induct)
    (auto simp: rbind_Inr_iff split: option.splits)

text \<open>Number literals are floating-point values, and \<open>round\<close> takes its digits from integers only: digits that
  are written in a formula are ignored.\<close>

lemma round_ignores_literal_digits:
  "evaluate_expr row (FCall ''round'' [e, FLiteral (JNumber (FloatNum q))]) = evaluate_expr row (FCall ''round'' [e])"
proof -
  have "to_ascii_lowercase ''round'' = ''round''" by code_simp
  then show ?thesis
    by (cases "evaluate_expr row e") (simp_all add: call_helper_def round_digits_def json_as_i64.simps first_arg_def)
qed

text \<open>The limits on conditions and patterns hold for what stands in the step itself; what stands in its
  configuration is not looked at.\<close>

lemma limits_ignore_config: "validate_step env opts (step\<lparr>dp_config := c\<rparr>) = validate_step env opts step"
  by (simp add: validate_step_def)

text \<open>The sum of a group depends on the order of its records.\<close>

lemma floor_log2_eq:
  assumes "2 powi k \<le> q" "q < 2 powi (k + 1)"
  shows "floor_log2 q = k"
proof -
  have q: "0 < q" using assms(1) by (meson less_le_trans zero_less_numeral zero_less_power_int)
  then have b: "2 powi floor_log2 q \<le> q" "q < 2 powi (floor_log2 q + 1)" using floor_log2_bounds [of q] by simp_all
  have "floor_log2 q < k + 1" using assms(2) q by (intro floor_log2_less) auto
  moreover have "k < floor_log2 q + 1"
  proof (rule ccontr)
    assume "\<not> k < floor_log2 q + 1"
    then have "(2 :: rat) powi (floor_log2 q + 1) \<le> 2 powi k" by (intro power_int_increasing) auto
    with assms(1) b(2) show False by linarith
  qed
  ultimately show ?thesis by linarith
qed

lemma large_sums:
  "f64_of_rat 9007199254740993 = FinF 9007199254740992" "f64_of_rat 9007199254740994 = FinF 9007199254740994"
  "f64_of_rat 9007199254740992 = FinF 9007199254740992"
proof -
  have "floor_log2 9007199254740993 = 53" "floor_log2 9007199254740994 = 53" "floor_log2 9007199254740992 = 53"
    by (rule floor_log2_eq; simp)+
  moreover have "\<lfloor>9007199254740993 / 2 :: rat\<rfloor> = 4503599627370496" by (rule floor_unique) simp_all
  ultimately show "f64_of_rat 9007199254740993 = FinF 9007199254740992" "f64_of_rat 9007199254740994 = FinF 9007199254740994"
    "f64_of_rat 9007199254740992 = FinF 9007199254740992"
    by (simp_all add: f64_of_rat_def Let_def round_even_def)
qed

lemma small_sums: "f64_of_rat 1 = FinF 1" "f64_of_rat 2 = FinF 2"
  using f64_of_nat_value [of 1] f64_of_nat_value [of 2] by simp_all

lemma sum_depends_on_order:
  "fsum [FinF 9007199254740992, FinF 1, FinF 1] = FinF 9007199254740992"
  "fsum [FinF 1, FinF 1, FinF 9007199254740992] = FinF 9007199254740994"
  by (simp_all add: fsum_def large_sums small_sums)

text \<open>Pipelines compose: running one pipeline after another is running their concatenation, with the
  warnings of both, and an error of the first is the error of the whole.\<close>

theorem pipelines_compose:
  "execute_pipeline env opts (first @ second) rows =
     rbind (execute_pipeline env opts first rows) (\<lambda>(rows', warnings).
       rbind (execute_pipeline env opts second rows') (\<lambda>(rows'', warnings').
         Inr (rows'', warnings @ warnings')))"
proof (induction first arbitrary: rows)
  case Nil
  show ?case by (cases "execute_pipeline env opts second rows") auto
next
  case (Cons step first)
  show ?case by (auto simp: rbind_def Cons split: sum.split prod.split)
qed

lemma confidence_in_unit: "0 \<le> confidence_score i out k \<and> confidence_score i out k \<le> 1"
  by (simp add: confidence_score_def clamp_unit_def)

section \<open>Witnesses\<close>

definition sample_rows :: "data_row list" where
  "sample_rows = [[(''score'', JNumber (PosInt 2))], [(''score'', JNumber (PosInt 5))]]"

definition sample_rank :: rank_config where
  "sample_rank = \<lparr>rk_score_field = None, rk_score_formula = None, rk_top_n = Some 1, rk_descending = True\<rparr>"

lemma sample_ranking:
  "rank_records sample_data_env (parse_options JNull) sample_rank sample_rows
     = Inr [[(''rank'', JNumber (PosInt 1)), (''score'', JNumber (FloatNum 5))]]"
  by code_simp

theorem ranking_sorted_witness:
  "length [[(''rank'', JNumber (PosInt 1)), (''score'', JNumber (FloatNum 5))]] = min 1 (length sample_rows)"
  using ranking_sorted [OF sample_ranking] by (auto simp: sample_rank_def)

theorem rank_order_invariant_witness:
  "rank_records sample_data_env (parse_options JNull) sample_rank (rev sample_rows)
     = Inr [[(''rank'', JNumber (PosInt 1)), (''score'', JNumber (FloatNum 5))]]"
proof (rule rank_order_invariant [OF sample_ranking])
  have scored: "each (score_row sample_data_env (parse_options JNull) sample_rank (rank_field sample_rank)) sample_rows
     = Inr [(2, ''{score:2}'', [(''score'', JNumber (FloatNum 2))]), (5, ''{score:5}'', [(''score'', JNumber (FloatNum 5))])]"
    by code_simp
  show "texts_differ sample_data_env (parse_options JNull) sample_rank sample_rows"
    unfolding texts_differ_def scored by simp
qed simp

end
