(* ===== verification/Tenant_Config.thy ===== *)
theory Tenant_Config
  imports Agent_Store "HOL-Library.AList"
begin

unbundle bit_operations_syntax

text \<open>
  Tenants: their plans and limits (\<open>tenant/model.rs\<close>), their rows (\<open>tenant/store.rs\<close>), and the
  configuration with the encrypted credentials of model providers (\<open>tenant/config.rs\<close>).  A byte
  string is a string.  SHA-256, AES-256-GCM, the hexadecimal codec and the check for UTF-8 are
  arguments: they are other packages or tables of the standard library.
\<close>

section \<open>Plans\<close>

datatype tenant_plan = PlanFree | PlanGo | PlanPro | PlanEnterprise

fun max_steps_per_month :: "tenant_plan \<Rightarrow> nat" where
  "max_steps_per_month PlanFree = 1000"
| "max_steps_per_month PlanGo = 20000"
| "max_steps_per_month PlanPro = 150000"
| "max_steps_per_month PlanEnterprise = 2 ^ 64 - 1"

fun max_agents :: "tenant_plan \<Rightarrow> nat" where
  "max_agents PlanFree = 3"
| "max_agents PlanGo = 20"
| "max_agents PlanPro = 200"
| "max_agents PlanEnterprise = 2 ^ 64 - 1"

fun workspace_cap_bytes :: "tenant_plan \<Rightarrow> nat option" where
  "workspace_cap_bytes PlanFree = Some (50 * 1024 * 1024)"
| "workspace_cap_bytes PlanGo = Some (500 * 1024 * 1024)"
| "workspace_cap_bytes PlanPro = Some (2 * 1024 * 1024 * 1024)"
| "workspace_cap_bytes PlanEnterprise = None"

fun workspace_file_cap_bytes :: "tenant_plan \<Rightarrow> nat option" where
  "workspace_file_cap_bytes PlanFree = Some (10 * 1024 * 1024)"
| "workspace_file_cap_bytes PlanGo = Some (25 * 1024 * 1024)"
| "workspace_file_cap_bytes PlanPro = Some (50 * 1024 * 1024)"
| "workspace_file_cap_bytes PlanEnterprise = None"

fun plan_requests_per_sec :: "tenant_plan \<Rightarrow> rat" where
  "plan_requests_per_sec PlanFree = 2"
| "plan_requests_per_sec PlanGo = 10"
| "plan_requests_per_sec PlanPro = 50"
| "plan_requests_per_sec PlanEnterprise = 500"

fun spend_limit_usd :: "tenant_plan \<Rightarrow> rat" where
  "spend_limit_usd PlanFree = 50"
| "spend_limit_usd PlanGo = 500"
| "spend_limit_usd PlanPro = 5000"
| "spend_limit_usd PlanEnterprise = 0"

fun monthly_price_usd :: "tenant_plan \<Rightarrow> rat" where
  "monthly_price_usd PlanFree = 0"
| "monthly_price_usd PlanGo = 15"
| "monthly_price_usd PlanPro = 79"
| "monthly_price_usd PlanEnterprise = 0"

fun plan_as_str :: "tenant_plan \<Rightarrow> string" where
  "plan_as_str PlanFree = ''free''"
| "plan_as_str PlanGo = ''go''"
| "plan_as_str PlanPro = ''pro''"
| "plan_as_str PlanEnterprise = ''enterprise''"

definition plan_from_str :: "(string \<Rightarrow> string) \<Rightarrow> string \<Rightarrow> (string, tenant_plan) result" where
  "plan_from_str to_lowercase s =
     (let l = to_lowercase s in
      if l = ''free'' then Inr PlanFree
      else if l = ''go'' then Inr PlanGo
      else if l = ''pro'' then Inr PlanPro
      else if l = ''enterprise'' then Inr PlanEnterprise
      else Inl (''unknown plan: '' @ l))"

section \<open>Rows\<close>

datatype tenant_status = TenantActive | TenantSuspended | TenantDeleted

record tenant =
  tn_id :: string
  tn_username :: string
  tn_name :: string
  tn_email :: string
  tn_key_hash :: string
  tn_key_prefix :: string
  tn_status :: tenant_status
  tn_plan :: tenant_plan
  tn_created_at :: time
  tn_updated_at :: time

text \<open>A row of the table; the password, which no operation below reads, is left out.\<close>

record tenant_row =
  tw_id :: string
  tw_username :: "string option"
  tw_name :: string
  tw_email :: string
  tw_key_hash :: string
  tw_key_prefix :: string
  tw_status :: string
  tw_plan :: string
  tw_created_at :: time
  tw_updated_at :: time

definition row_to_tenant :: "tenant_row \<Rightarrow> tenant" where
  "row_to_tenant r =
     \<lparr>tn_id = tw_id r,
      tn_username = (case tw_username r of Some u \<Rightarrow> u | None \<Rightarrow> hd (split_on CHR ''@'' (tw_email r))),
      tn_name = tw_name r, tn_email = tw_email r, tn_key_hash = tw_key_hash r,
      tn_key_prefix = tw_key_prefix r,
      tn_status = (if tw_status r = ''suspended'' then TenantSuspended
        else if tw_status r = ''deleted'' then TenantDeleted else TenantActive),
      tn_plan = (if tw_plan r = ''go'' then PlanGo else if tw_plan r = ''pro'' then PlanPro
        else if tw_plan r = ''enterprise'' then PlanEnterprise else PlanFree),
      tn_created_at = tw_created_at r, tn_updated_at = tw_updated_at r\<rparr>"

text \<open>The insertion fails (\<open>None\<close>) on the unique columns.  Names are compared in lower case.\<close>

definition create_tenant ::
  "(string \<Rightarrow> string) \<Rightarrow> externals \<Rightarrow> string \<Rightarrow> string \<Rightarrow> string \<Rightarrow> string \<Rightarrow> string \<Rightarrow> string \<Rightarrow> time
     \<Rightarrow> tenant_row list \<Rightarrow> (tenant \<times> tenant_row list) option" where
  "create_tenant db_lower ext tid username name email key_hash key_prefix now rows =
     (if list_ex (\<lambda>r. tw_id r = tid \<or> tw_email r = email
          \<or> map_option db_lower (tw_username r) = Some (db_lower username)) rows then None
      else Some
        (\<lparr>tn_id = tid, tn_username = username, tn_name = name, tn_email = email, tn_key_hash = key_hash,
          tn_key_prefix = key_prefix, tn_status = TenantActive, tn_plan = PlanFree,
          tn_created_at = now, tn_updated_at = now\<rparr>,
         rows @ [\<lparr>tw_id = tid, tw_username = Some username, tw_name = name, tw_email = email,
          tw_key_hash = key_hash, tw_key_prefix = key_prefix, tw_status = ''active'', tw_plan = ''free'',
          tw_created_at = db_time ext now, tw_updated_at = db_time ext now\<rparr>]))"

definition get_by_key_prefix :: "string \<Rightarrow> tenant_row list \<Rightarrow> tenant option" where
  "get_by_key_prefix p rows =
     map_option row_to_tenant (find (\<lambda>r. tw_key_prefix r = p \<and> tw_status r = ''active'') rows)"

definition get_tenant_by_id :: "string \<Rightarrow> tenant_row list \<Rightarrow> tenant option" where
  "get_tenant_by_id tid rows = map_option row_to_tenant (find (\<lambda>r. tw_id r = tid) rows)"

definition update_tenant_row ::
  "string \<Rightarrow> (tenant_row \<Rightarrow> tenant_row) \<Rightarrow> time \<Rightarrow> tenant_row list \<Rightarrow> tenant_row list" where
  "update_tenant_row tid f now rows =
     map (\<lambda>r. if tw_id r = tid then (f r)\<lparr>tw_updated_at := now\<rparr> else r) rows"

definition update_plan :: "string \<Rightarrow> string \<Rightarrow> time \<Rightarrow> tenant_row list \<Rightarrow> tenant_row list" where
  "update_plan tid p = update_tenant_row tid (\<lambda>r. r\<lparr>tw_plan := p\<rparr>)"

definition suspend_tenant :: "string \<Rightarrow> time \<Rightarrow> tenant_row list \<Rightarrow> tenant_row list" where
  "suspend_tenant tid = update_tenant_row tid (\<lambda>r. r\<lparr>tw_status := ''suspended''\<rparr>)"

definition activate_tenant :: "string \<Rightarrow> time \<Rightarrow> tenant_row list \<Rightarrow> tenant_row list" where
  "activate_tenant tid = update_tenant_row tid (\<lambda>r. r\<lparr>tw_status := ''active''\<rparr>)"

definition list_all_tenants :: "tenant_row list \<Rightarrow> tenant list" where
  "list_all_tenants rows = map row_to_tenant (sort_key (\<lambda>r. - tw_created_at r) rows)"

section \<open>Configuration\<close>

record provider_credential =
  pr_provider :: string
  pr_secret_enc :: string
  pr_label :: string
  pr_model :: string
  pr_enabled :: bool

record tenant_routing =
  ro_simple :: string
  ro_medium :: string
  ro_complex :: string
  ro_fallback :: string

definition default_routing :: tenant_routing where
  "default_routing = \<lparr>ro_simple = ''openrouter'', ro_medium = ''openrouter'', ro_complex = ''anthropic'',
     ro_fallback = ''openrouter''\<rparr>"

text \<open>The map of credentials is the list of its entries in iteration order.\<close>

record tenant_config =
  tc_tenant_id :: string
  tc_credentials :: "(string \<times> provider_credential) list"
  tc_routing :: tenant_routing
  tc_metadata :: json

definition tenant_config_new :: "string \<Rightarrow> tenant_config" where
  "tenant_config_new tid = \<lparr>tc_tenant_id = tid, tc_credentials = [], tc_routing = default_routing,
     tc_metadata = JObject []\<rparr>"

definition set_credential :: "provider_credential \<Rightarrow> tenant_config \<Rightarrow> tenant_config" where
  "set_credential cred c = c\<lparr>tc_credentials := AList.update (pr_provider cred) cred (tc_credentials c)\<rparr>"

definition get_credential :: "tenant_config \<Rightarrow> string \<Rightarrow> provider_credential option" where
  "get_credential c = map_of (tc_credentials c)"

definition enabled_providers :: "tenant_config \<Rightarrow> string list" where
  "enabled_providers c = map pr_provider (filter pr_enabled (map snd (tc_credentials c)))"

section \<open>Secrets\<close>

text \<open>\<open>cr_open\<close> and \<open>cr_seal\<close> take the key, the nonce and the text; \<open>cr_utf8\<close> gives the error of
  \<open>String::from_utf8\<close>, if any.\<close>

record crypto =
  cr_sha256 :: "string \<Rightarrow> string"
  cr_seal :: "string \<Rightarrow> string \<Rightarrow> string \<Rightarrow> string"
  cr_open :: "string \<Rightarrow> string \<Rightarrow> string \<Rightarrow> string option"
  cr_hex_encode :: "string \<Rightarrow> string"
  cr_hex_decode :: "string \<Rightarrow> (string, string) result"
  cr_utf8 :: "string \<Rightarrow> string option"

definition em_dash :: string where
  "em_dash = [CHR 0xE2, CHR 0x80, CHR 0x94]"

definition nonce_len :: nat where
  "nonce_len = 12"

definition from_utf8 :: "crypto \<Rightarrow> string \<Rightarrow> string \<Rightarrow> (string, string) result" where
  "from_utf8 cr msg bs = (case cr_utf8 cr bs of None \<Rightarrow> Inr bs | Some e \<Rightarrow> Inl (msg @ e))"

text \<open>The nonce is drawn at random: an argument.\<close>

definition encrypt_secret :: "crypto \<Rightarrow> string \<Rightarrow> string \<Rightarrow> string \<Rightarrow> string" where
  "encrypt_secret cr nonce plaintext key =
     ''v1:'' @ cr_hex_encode cr (nonce @ cr_seal cr (cr_sha256 cr key) nonce plaintext)"

definition byte_xor :: "char \<Rightarrow> char \<Rightarrow> char" where
  "byte_xor a b = char_of (byte_of a XOR byte_of b)"

text \<open>\<open>key_bytes[i % key_bytes.len()]\<close> panics (\<open>None\<close>) on an empty key as soon as there is a byte.\<close>

definition xor_with :: "string \<Rightarrow> string \<Rightarrow> string option" where
  "xor_with key bs =
     (if key = [] \<and> bs \<noteq> [] then None
      else Some (map (\<lambda>(i, b). byte_xor b (key ! (i mod length key))) (List.enumerate 0 bs)))"

definition decrypt_secret_legacy :: "crypto \<Rightarrow> string \<Rightarrow> string \<Rightarrow> (string, string) result option" where
  "decrypt_secret_legacy cr ciphertext key =
     (case cr_hex_decode cr ciphertext of
        Inl e \<Rightarrow> Some (Inl (''invalid legacy ciphertext: '' @ e))
      | Inr bs \<Rightarrow> map_option (from_utf8 cr ''legacy decrypt failed: '') (xor_with key bs))"

definition decrypt_secret :: "crypto \<Rightarrow> string \<Rightarrow> string \<Rightarrow> (string, string) result option" where
  "decrypt_secret cr ciphertext key =
     (case str_find '':'' ciphertext of
        None \<Rightarrow> decrypt_secret_legacy cr ciphertext key
      | Some i \<Rightarrow> Some
          (let version = take i ciphertext; hex_payload = drop (i + 1) ciphertext in
           if version \<noteq> ''v1''
           then Inl (''unsupported encryption version '' @ CHR 0x27 # version
             @ CHR 0x27 # '' '' @ em_dash @ '' expected '' @ CHR 0x27 # ''v1'' @ [CHR 0x27])
           else case cr_hex_decode cr hex_payload of
             Inl e \<Rightarrow> Inl (''invalid ciphertext hex: '' @ e)
           | Inr payload \<Rightarrow>
               if length payload < nonce_len + 1 then Inl ''ciphertext too short''
               else case cr_open cr (cr_sha256 cr key) (take nonce_len payload) (drop nonce_len payload) of
                 None \<Rightarrow> Inl (''decryption failed '' @ em_dash @ '' wrong key or corrupted data'')
               | Some bs \<Rightarrow> from_utf8 cr ''decrypt produced invalid UTF-8: '' bs))"

section \<open>Secrets read back\<close>

text \<open>What is documented of the packages: hexadecimal decoding inverts encoding, the opened text is the
  sealed one, a sealed text carries a tag, and every \<open>&str\<close> is UTF-8.\<close>

definition crypto_ok :: "crypto \<Rightarrow> string \<Rightarrow> string \<Rightarrow> string \<Rightarrow> bool" where
  "crypto_ok cr key nonce plaintext \<longleftrightarrow>
     (let sealed = cr_seal cr (cr_sha256 cr key) nonce plaintext in
      cr_hex_decode cr (cr_hex_encode cr (nonce @ sealed)) = Inr (nonce @ sealed)
      \<and> sealed \<noteq> [] \<and> length nonce = nonce_len
      \<and> cr_open cr (cr_sha256 cr key) nonce sealed = Some plaintext
      \<and> cr_utf8 cr plaintext = None)"

text \<open>A stored credential is decrypted to the secret that was encrypted, whatever the secret (the empty
  one and one with colons included), the key and the nonce.\<close>

theorem secret_roundtrip:
  assumes "crypto_ok cr key nonce plaintext"
  shows "decrypt_secret cr (encrypt_secret cr nonce plaintext key) key = Some (Inr plaintext)"
proof -
  have "str_find '':'' (encrypt_secret cr nonce plaintext key) = Some 2"
    by (simp add: encrypt_secret_def)
  with assms show ?thesis
    by (cases "cr_seal cr (cr_sha256 cr key) nonce plaintext")
      (auto simp: decrypt_secret_def encrypt_secret_def crypto_ok_def from_utf8_def Let_def)
qed

lemma byte_lt: "byte_of c < 256"
  by (simp add: byte_of_def)

lemma char_of_byte_of [simp]: "char_of (byte_of c) = c"
  by (simp add: byte_of_def)

lemma xor_byte_lt: "a < 256 \<Longrightarrow> b < 256 \<Longrightarrow> a XOR b < (256 :: nat)"
  using take_bit_nat_eq_self_iff [of 8 a] take_bit_nat_eq_self_iff [of 8 b]
    take_bit_nat_eq_self_iff [of 8 "a XOR b"] by (simp add: take_bit_xor)

lemma byte_xor_xor [simp]: "byte_xor (byte_xor a k) k = a"
proof -
  have "(byte_of a XOR byte_of k) mod 256 = byte_of a XOR byte_of k"
    using xor_byte_lt [OF byte_lt byte_lt] by simp
  then show ?thesis by (simp add: byte_xor_def xor.assoc)
qed

lemma xor_with_twice: "key \<noteq> [] \<Longrightarrow> Option.bind (xor_with key bs) (xor_with key) = Some bs"
  by (auto simp: xor_with_def intro!: nth_equalityI simp: nth_enumerate_eq)

text \<open>A credential that was stored before the versioned format, as the bare hexadecimal text of the
  secret combined with the key, still decrypts to the secret.\<close>

theorem legacy_secret_roundtrip:
  assumes "key \<noteq> []" and "xor_with key plaintext = Some bs"
    and "cr_hex_decode cr (cr_hex_encode cr bs) = Inr bs" and "CHR '':'' \<notin> set (cr_hex_encode cr bs)"
    and "cr_utf8 cr plaintext = None"
  shows "decrypt_secret cr (cr_hex_encode cr bs) key = Some (Inr plaintext)"
proof -
  have "str_find '':'' s = None" if "CHR '':'' \<notin> set s" for s
    using that by (induction s) auto
  moreover have "xor_with key bs = Some plaintext"
    using xor_with_twice [OF assms(1), of plaintext] assms(2) by simp
  ultimately show ?thesis
    using assms by (simp add: decrypt_secret_def decrypt_secret_legacy_def from_utf8_def)
qed

text \<open>With an empty key the legacy format brings the process down.\<close>

lemma legacy_empty_key_panics:
  "cr_hex_decode cr s = Inr bs \<Longrightarrow> bs \<noteq> [] \<Longrightarrow> decrypt_secret_legacy cr s [] = None"
  by (simp add: decrypt_secret_legacy_def xor_with_def)

section \<open>Plans and accounts\<close>

text \<open>A plan that is written to its column by name is the plan that is read, and every name is parsed
  back; larger plans allow at least what smaller ones do.\<close>

lemma plan_from_str_roundtrip: "plan_from_str (\<lambda>s. s) (plan_as_str p) = Inr p"
  by (cases p) (simp_all add: plan_from_str_def)

lemma stored_plan: "tn_plan (row_to_tenant (r\<lparr>tw_plan := plan_as_str p\<rparr>)) = p"
  by (cases p) (simp_all add: row_to_tenant_def)

text \<open>A suspended account cannot sign in with an API key, whatever its key, until it is activated
  again; for every other account the lookup is what it would be without the suspended one.\<close>

theorem suspended_cannot_sign_in:
  "get_by_key_prefix p (suspend_tenant tid now rows)
   = map_option row_to_tenant (find (\<lambda>r. tw_key_prefix r = p \<and> tw_status r = ''active'' \<and> tw_id r \<noteq> tid) rows)"
  by (induction rows) (auto simp: get_by_key_prefix_def suspend_tenant_def update_tenant_row_def)

lemma create_tenant_unique:
  assumes "create_tenant lower ext tid username name email kh kp now rows = Some (t, rows')"
    and "distinct (map tw_id rows)" "distinct (map tw_email rows)"
  shows "distinct (map tw_id rows')" "distinct (map tw_email rows')"
    "get_tenant_by_id tid rows' = Some (t\<lparr>tn_created_at := db_time ext now, tn_updated_at := db_time ext now\<rparr>)"
proof -
  have *: "tid \<notin> tw_id ` set rows" "email \<notin> tw_email ` set rows"
    using assms(1) by (auto simp: create_tenant_def list_ex_iff split: if_splits)
  have "find (\<lambda>r. tw_id r = tid) (rows @ [r]) = Some r" if "tw_id r = tid" for r
    using * that by (simp add: find_append_fresh)
  with * assms show "distinct (map tw_id rows')" "distinct (map tw_email rows')"
    "get_tenant_by_id tid rows' = Some (t\<lparr>tn_created_at := db_time ext now, tn_updated_at := db_time ext now\<rparr>)"
    by (auto simp: create_tenant_def get_tenant_by_id_def row_to_tenant_def split: if_splits)
qed

section \<open>Concrete uses\<close>

definition sample_crypto :: crypto where
  "sample_crypto = \<lparr>cr_sha256 = (\<lambda>k. k), cr_seal = (\<lambda>k n p. p @ ''T''), cr_open = (\<lambda>k n c. Some (butlast c)),
     cr_hex_encode = (\<lambda>b. b), cr_hex_decode = Inr, cr_utf8 = (\<lambda>_. None)\<rparr>"

lemma sample_crypto_ok: "length nonce = 12 \<Longrightarrow> crypto_ok sample_crypto key nonce plaintext"
  by (simp add: crypto_ok_def sample_crypto_def nonce_len_def)

theorem secret_roundtrip_witness:
  "decrypt_secret sample_crypto (encrypt_secret sample_crypto ''abcdefghijkl'' ''sk:1'' ''key'') ''key'' = Some (Inr ''sk:1'')"
  by (rule secret_roundtrip [OF sample_crypto_ok]) simp

theorem legacy_secret_roundtrip_witness:
  "decrypt_secret sample_crypto ''#(~f'' ''PCT'' = Some (Inr ''sk*6'')"
proof -
  have "xor_with ''PCT'' ''sk*6'' = Some ''#(~f''"
    by (simp add: xor_with_def byte_xor_def byte_of_def) (simp add: char_of_def of_char_def bit_Suc_0_iff)
  then show ?thesis
    using legacy_secret_roundtrip [of "''PCT''" "''sk*6''" "''#(~f''" sample_crypto] by (simp add: sample_crypto_def)
qed

end
