(* ===== verification/Gateway_Chat.thy ===== *)
theory Gateway_Chat
  imports Gateway Llm_Controls Tenant_Config Float64 Dag
begin

text \<open>
  The gateway between the agents and the model providers: what a call costs and what a tenant may
  spend (\<open>gateway/cost.rs\<close>), the route by complexity (\<open>gateway/router.rs\<close>), and the call itself
  (\<open>gateway/gateway.rs\<close>), which goes through the cache, the spend check, the choice of a provider
  from the tenant's credentials, the rate limiter, the provider and the books.  A map is the list of
  its entries in iteration order; dollars are \<open>f64\<close>.  The providers and the store are arguments.
\<close>

section \<open>Costs\<close>

record model_pricing =
  input_per_million :: rat
  output_per_million :: rat

definition million :: rat where
  "million = 1000000"

definition pricing_cost :: "nat \<Rightarrow> nat \<Rightarrow> model_pricing \<Rightarrow> rat" where
  "pricing_cost input_tokens output_tokens p =
     f64_add (f64_mul (f64_div (of_nat input_tokens) million) (input_per_million p))
       (f64_mul (f64_div (of_nat output_tokens) million) (output_per_million p))"

record usage =
  us_input_tokens :: nat
  us_output_tokens :: nat
  us_cost_usd :: rat
  us_requests :: nat

definition no_usage :: usage where
  "no_usage = \<lparr>us_input_tokens = 0, us_output_tokens = 0, us_cost_usd = 0, us_requests = 0\<rparr>"

datatype spend_check =
    SpendOk | SpendExceeded rat rat | SpendWarning rat rat rat

text \<open>The usage of a tenant also has the start of the billing period.\<close>

record cost_tracker =
  ct_agent_usage :: "(string \<times> usage) list"
  ct_tenant_usage :: "(string \<times> usage \<times> time option) list"
  ct_pricing :: "(string \<times> model_pricing) list"

definition cost_tracker_new :: "(string \<times> model_pricing) list \<Rightarrow> cost_tracker" where
  "cost_tracker_new pricing = \<lparr>ct_agent_usage = [], ct_tenant_usage = [], ct_pricing = pricing\<rparr>"

definition price :: "rat \<Rightarrow> rat \<Rightarrow> model_pricing" where
  "price i out = \<lparr>input_per_million = f64_round i, output_per_million = f64_round out\<rparr>"

definition default_pricing :: "(string \<times> model_pricing) list" where
  "default_pricing =
     [(''claude-sonnet-4-6'', price 3 15),
      (''claude-opus-4-6'', price 15 75),
      (''claude-haiku-4-5'', price (1 / 4) (5 / 4)),
      (''claude-sonnet-4-20250514'', price 3 15),
      (''claude-haiku-4-5-20251001'', price (1 / 4) (5 / 4)),
      (''claude-opus-4-5'', price 15 75),
      (''gpt-4o'', price (5 / 2) 10),
      (''gpt-4o-mini'', price (15 / 100) (60 / 100)),
      (''gpt-4-turbo'', price 10 30),
      (''o1'', price 15 60),
      (''o3-mini'', price (110 / 100) (440 / 100)),
      (''gemini-2.0-flash'', price (10 / 100) (40 / 100)),
      (''gemini-2.0-pro'', price (5 / 4) 5),
      (''gemini-1.5-pro'', price (5 / 4) 5)]"

definition cost_for_model :: "cost_tracker \<Rightarrow> string \<Rightarrow> nat \<Rightarrow> nat \<Rightarrow> rat" where
  "cost_for_model ct model input_tokens output_tokens =
     (case map_of (ct_pricing ct) model of Some p \<Rightarrow> pricing_cost input_tokens output_tokens p | None \<Rightarrow> 0)"

text \<open>The counters are \<open>u64\<close>.\<close>

definition add_usage :: "externals \<Rightarrow> nat \<Rightarrow> nat \<Rightarrow> rat \<Rightarrow> usage \<Rightarrow> usage option" where
  "add_usage ext input_tokens output_tokens cost u =
     Option.bind (wrap_to ext 64 (us_input_tokens u + input_tokens)) (\<lambda>i.
     Option.bind (wrap_to ext 64 (us_output_tokens u + output_tokens)) (\<lambda>out.
     Option.bind (wrap_to ext 64 (us_requests u + 1)) (\<lambda>n.
     Some \<lparr>us_input_tokens = i, us_output_tokens = out, us_cost_usd = f64_add (us_cost_usd u) cost,
           us_requests = n\<rparr>)))"

text \<open>\<open>None\<close> is the panic of a counter that overflows in a debug build.\<close>

definition record_call ::
  "externals \<Rightarrow> string \<Rightarrow> string \<Rightarrow> string \<Rightarrow> nat \<Rightarrow> nat \<Rightarrow> time \<Rightarrow> cost_tracker \<Rightarrow> cost_tracker option" where
  "record_call ext tenant_id agent_id model input_tokens output_tokens now ct =
     (let cost = cost_for_model ct model input_tokens output_tokens;
          agent = (case map_of (ct_agent_usage ct) agent_id of Some u \<Rightarrow> u | None \<Rightarrow> no_usage);
          period = (case map_of (ct_tenant_usage ct) tenant_id of
            Some e \<Rightarrow> e | None \<Rightarrow> (no_usage, Some now)) in
      Option.bind (add_usage ext input_tokens output_tokens cost agent) (\<lambda>a.
      Option.bind (add_usage ext input_tokens output_tokens cost (fst period)) (\<lambda>t.
      Some (ct\<lparr>ct_agent_usage := AList.update agent_id a (ct_agent_usage ct),
               ct_tenant_usage := AList.update tenant_id (t, snd period) (ct_tenant_usage ct)\<rparr>))))"

definition get_usage :: "cost_tracker \<Rightarrow> string \<Rightarrow> usage option" where
  "get_usage ct = map_of (ct_agent_usage ct)"

definition get_tenant_usage :: "cost_tracker \<Rightarrow> string \<Rightarrow> (usage \<times> time option) option" where
  "get_tenant_usage ct = map_of (ct_tenant_usage ct)"

definition check_spend_limit :: "cost_tracker \<Rightarrow> string \<Rightarrow> rat \<Rightarrow> spend_check" where
  "check_spend_limit ct tenant_id limit_usd =
     (if limit_usd \<le> 0 then SpendOk
      else let current = (case get_tenant_usage ct tenant_id of Some (u, _) \<Rightarrow> us_cost_usd u | None \<Rightarrow> 0) in
        if current \<ge> limit_usd then SpendExceeded limit_usd current
        else let pct = f64_div current limit_usd in
          if pct \<ge> f64_round (8 / 10) then SpendWarning limit_usd current (f64_mul pct 100) else SpendOk)"

definition all_usage :: "cost_tracker \<Rightarrow> usage list" where
  "all_usage ct = map snd (ct_agent_usage ct)"

definition total_cost_usd :: "cost_tracker \<Rightarrow> rat" where
  "total_cost_usd ct = fold (\<lambda>u s. f64_add s (us_cost_usd u)) (all_usage ct) 0"

definition reset_tenant_period :: "string \<Rightarrow> time \<Rightarrow> cost_tracker \<Rightarrow> cost_tracker" where
  "reset_tenant_period tenant_id now ct =
     ct\<lparr>ct_tenant_usage := map (\<lambda>(k, e). if k = tenant_id then (k, no_usage, Some now) else (k, e)) (ct_tenant_usage ct)\<rparr>"

section \<open>Routing\<close>

datatype task_complexity = SimpleTask | MediumTask | ComplexTask

definition complex_keywords :: "string list" where
  "complex_keywords = [''analyze'', ''research'', ''design'', ''architect'', ''synthesize'', ''compare'',
     ''evaluate'', ''strategy'', ''comprehensive'', ''detailed'']"

definition medium_keywords :: "string list" where
  "medium_keywords = [''search'', ''fetch'', ''find'', ''check'', ''list'', ''summarize'', ''write'',
     ''edit'', ''update'', ''create'']"

definition infer_complexity :: "(string \<Rightarrow> string) \<Rightarrow> string \<Rightarrow> task_complexity" where
  "infer_complexity to_lowercase description =
     (let desc = to_lowercase description in
      if length desc > 300 \<or> list_ex (\<lambda>kw. str_contains kw desc) complex_keywords then ComplexTask
      else if length desc > 60 \<or> list_ex (\<lambda>kw. str_contains kw desc) medium_keywords then MediumTask
      else SimpleTask)"

fun preferred_provider :: "tenant_routing \<Rightarrow> task_complexity \<Rightarrow> string" where
  "preferred_provider r SimpleTask = ro_simple r"
| "preferred_provider r MediumTask = ro_medium r"
| "preferred_provider r ComplexTask = ro_complex r"

fun complexity_debug :: "task_complexity \<Rightarrow> string" where
  "complexity_debug SimpleTask = ''Simple''"
| "complexity_debug MediumTask = ''Medium''"
| "complexity_debug ComplexTask = ''Complex''"

definition quoted_name :: "string \<Rightarrow> string" where
  "quoted_name s = CHR 0x27 # s @ [CHR 0x27]"

text \<open>\<open>ProviderRouter\<close> over the platform's providers, with a table of the same shape as a tenant's.\<close>

definition router_resolve ::
  "(string \<times> 'p) list \<Rightarrow> tenant_routing \<Rightarrow> task_complexity \<Rightarrow> (string, 'p) result" where
  "router_resolve providers table complexity =
     (let preferred = preferred_provider table complexity in
      case map_of providers preferred of
        Some p \<Rightarrow> Inr p
      | None \<Rightarrow> (case map_of providers (ro_fallback table) of
          Some p \<Rightarrow> Inr p
        | None \<Rightarrow> Inl (''no provider available for complexity '' @ complexity_debug complexity @ '' (tried ''
            @ quoted_name preferred @ '' and fallback '' @ quoted_name (ro_fallback table) @ '')'')))"

section \<open>Resolution of a provider\<close>

definition supported_providers :: "string list" where
  "supported_providers = [''anthropic'', ''openai'', ''groq'', ''ollama'', ''gemini'', ''nvidia'', ''openrouter'',
     ''copilot'', ''glm'', ''novita'', ''sglang'', ''compatible'']"

text \<open>A provider that can be called: its name with the key and the model of the credential, or one of
  the platform's.\<close>

datatype provider_handle = TenantProvider string string string | PlatformProvider string

text \<open>\<open>None\<close> stands for the panic of the legacy format.\<close>

definition make_provider :: "string \<Rightarrow> string \<Rightarrow> (string, string) result \<Rightarrow> (string, provider_handle) result" where
  "make_provider provider model secret =
     (case secret of
        Inl _ \<Rightarrow> Inl (''failed to decrypt credential for provider '' @ quoted_name provider)
      | Inr api_key \<Rightarrow>
          if provider \<in> set supported_providers then Inr (TenantProvider provider api_key model)
          else Inl (''unknown provider type '' @ quoted_name provider @ ''. Supported: anthropic, openai, groq, gemini, nvidia, ollama, openrouter, copilot, glm, novita, sglang, compatible''))"

definition build_provider ::
  "crypto \<Rightarrow> string \<Rightarrow> tenant_config \<Rightarrow> string \<Rightarrow> (string, provider_handle) result option" where
  "build_provider cr encrypt_key config provider =
     (case get_credential config provider of
        None \<Rightarrow> Some (Inl (''no credential for provider '' @ quoted_name provider @ ''. Add it via PUT /credentials''))
      | Some cred \<Rightarrow>
          if \<not> pr_enabled cred
          then Some (Inl (''provider '' @ quoted_name provider @ '' is disabled for this tenant''))
          else map_option (make_provider provider (pr_model cred)) (decrypt_secret cr (pr_secret_enc cred) encrypt_key))"

definition enabled_names :: "tenant_config \<Rightarrow> string list" where
  "enabled_names config = sort (enabled_providers config)"

definition candidate_names :: "tenant_config \<Rightarrow> task_complexity \<Rightarrow> string list" where
  "candidate_names config complexity =
     (let enabled = enabled_names config in
      fold (\<lambda>n cs. if n \<in> set cs then cs else cs @ [n])
        (filter (\<lambda>n. n \<in> set enabled)
           [preferred_provider (tc_routing config) complexity, ro_fallback (tc_routing config)] @ enabled) [])"

text \<open>The first candidate that can be built, or the errors of all.\<close>

fun first_usable ::
  "(string \<Rightarrow> (string, provider_handle) result option) \<Rightarrow> string list \<Rightarrow> string list
     \<Rightarrow> (string list, provider_handle \<times> string) result option" where
  "first_usable build [] errs = Some (Inl errs)"
| "first_usable build (n # ns) errs =
     (case build n of
        None \<Rightarrow> None
      | Some (Inr h) \<Rightarrow> Some (Inr (h, n))
      | Some (Inl e) \<Rightarrow> first_usable build ns (errs @ [n @ '': '' @ e]))"

definition platform_fallback ::
  "string list \<Rightarrow> tenant_config \<Rightarrow> string \<Rightarrow> (string list, provider_handle \<times> string) result
     \<Rightarrow> (string, provider_handle \<times> string) result" where
  "platform_fallback platform config preferred r =
     (case r of
        Inr hn \<Rightarrow> Inr hn
      | Inl errs \<Rightarrow>
          if preferred \<in> set platform then Inr (PlatformProvider preferred, preferred)
          else (case platform of
            name # _ \<Rightarrow> Inr (PlatformProvider name, name)
          | [] \<Rightarrow>
              if enabled_names config \<noteq> [] \<and> errs \<noteq> []
              then Inl (''tenant '' @ quoted_name (tc_tenant_id config)
                @ '' has provider credentials configured, but none are usable: '' @ join_with ''; '' errs)
              else Inl (''tenant '' @ quoted_name (tc_tenant_id config)
                @ '' has no provider credentials configured and no platform fallback is available. Call PUT /credentials to add a provider API key.'')))"

definition resolve_provider ::
  "crypto \<Rightarrow> string \<Rightarrow> string list \<Rightarrow> tenant_config \<Rightarrow> task_complexity
     \<Rightarrow> (string, provider_handle \<times> string) result option" where
  "resolve_provider cr encrypt_key platform config complexity =
     map_option (platform_fallback platform config (preferred_provider (tc_routing config) complexity))
       (first_usable (build_provider cr encrypt_key config) (candidate_names config complexity) [])"

section \<open>A call\<close>

datatype llm_message_role = SystemRole | UserRole | AssistantRole | ToolRole

record llm_message =
  lm_role :: llm_message_role
  lm_content :: string
  lm_tool_call_id :: "string option"

record tool_spec =
  sp_name :: string
  sp_description :: string
  sp_parameters :: json
  sp_output_schema :: "json option"

record gateway_request =
  gq_agent_id :: string
  gq_tenant_id :: string
  gq_complexity :: task_complexity
  gq_messages :: "llm_message list"
  gq_tools :: "tool_spec list"
  gq_generation :: "llm_generation_config option"
  gq_bypass_cache :: bool

definition gateway_request_new :: "string \<Rightarrow> string \<Rightarrow> task_complexity \<Rightarrow> llm_message list \<Rightarrow> gateway_request" where
  "gateway_request_new agent_id tenant_id complexity messages =
     \<lparr>gq_agent_id = agent_id, gq_tenant_id = tenant_id, gq_complexity = complexity, gq_messages = messages,
      gq_tools = [], gq_generation = None, gq_bypass_cache = False\<rparr>"

text \<open>The calls to tools are values of the provider.\<close>

record provider_response =
  lr_content :: "string option"
  lr_tool_calls :: "json list"
  lr_input_tokens :: nat
  lr_output_tokens :: nat

record cost_event =
  ev_agent_id :: string
  ev_model :: string
  ev_input_tokens :: nat
  ev_output_tokens :: nat
  ev_cost_delta_usd :: rat
  ev_total_cost_usd :: rat
  ev_total_requests :: nat

record gateway_env =
  gw_ext :: externals
  gw_crypto :: crypto
  gw_encrypt_key :: string
  gw_platform :: "string list"
  gw_tenants :: "string \<Rightarrow> (string, tenant option) result"
  gw_configs :: "string \<Rightarrow> (string, tenant_config) result"
  gw_generation_text :: "llm_generation_config \<Rightarrow> string"
  gw_show_usd :: "rat \<Rightarrow> string"
  gw_event_bus :: bool

text \<open>\<open>gw_calls\<close> are the calls made so far to the providers.\<close>

record gateway_state =
  gw_cache :: "provider_response response_cache"
  gw_costs :: cost_tracker
  gw_limiter :: rate_limiter
  gw_events :: "cost_event list"
  gw_calls :: "provider_handle list"

text \<open>The clock readings of a call: of the cache, of the passes of \<open>acquire\<close>, of the billing period.\<close>

record readings =
  rd_lookup :: instant
  rd_passes :: "instant list"
  rd_recorded :: time
  rd_stored :: instant

definition cache_key :: "gateway_env \<Rightarrow> gateway_request \<Rightarrow> string" where
  "cache_key env req =
     (let content = join_with ''|'' (map lm_content (gq_messages req));
          generation = (case gq_generation req of Some g \<Rightarrow> gw_generation_text env g | None \<Rightarrow> [])
      in make_cache_key (gq_agent_id req) (hash_str (content @ ''|'' @ generation)))"

definition spend_refusal :: "gateway_env \<Rightarrow> cost_tracker \<Rightarrow> string \<Rightarrow> tenant option \<Rightarrow> string option" where
  "spend_refusal env ct tid t =
     (case t of
        None \<Rightarrow> None
      | Some t \<Rightarrow> (case check_spend_limit ct tid (spend_limit_usd (tn_plan t)) of
          SpendExceeded limit current \<Rightarrow>
            Some (''tenant '' @ quoted_name tid @ '' has exceeded spend limit ($'' @ gw_show_usd env current
              @ '' of $'' @ gw_show_usd env limit @ ''). Upgrade your plan or wait for the next billing period.'')
        | _ \<Rightarrow> None))"

text \<open>\<open>acquire\<close> returns when a pass gets a slot; \<open>None\<close> when it is still waiting after the passes whose
  times are given.\<close>

fun acquire_loop :: "instant list \<Rightarrow> string \<Rightarrow> rate_limiter \<Rightarrow> rate_limiter option" where
  "acquire_loop [] provider l = (if l provider = None then Some l else None)"
| "acquire_loop (t # ts) provider l =
     (case l provider of
        None \<Rightarrow> Some l
      | Some b \<Rightarrow> (case acquire_pass t b of
          (None, b') \<Rightarrow> Some (l(provider \<mapsto> b'))
        | (Some _, b') \<Rightarrow> acquire_loop ts provider (l(provider \<mapsto> b'))))"

definition cost_update :: "cost_tracker \<Rightarrow> cost_tracker \<Rightarrow> gateway_request \<Rightarrow> string \<Rightarrow> provider_response \<Rightarrow> cost_event" where
  "cost_update ct ct' req name resp =
     (let delta = cost_for_model ct name (lr_input_tokens resp) (lr_output_tokens resp);
          u = get_usage ct' (gq_agent_id req) in
      \<lparr>ev_agent_id = gq_agent_id req, ev_model = name, ev_input_tokens = lr_input_tokens resp,
       ev_output_tokens = lr_output_tokens resp, ev_cost_delta_usd = delta,
       ev_total_cost_usd = (case u of Some u \<Rightarrow> us_cost_usd u | None \<Rightarrow> delta),
       ev_total_requests = (case u of Some u \<Rightarrow> us_requests u | None \<Rightarrow> 1)\<rparr>)"

text \<open>After the answer: the books, the event, the cache.\<close>

definition settle_call ::
  "gateway_env \<Rightarrow> readings \<Rightarrow> gateway_request \<Rightarrow> string \<Rightarrow> provider_response \<Rightarrow> gateway_state \<Rightarrow> gateway_state option" where
  "settle_call env rd req name resp st =
     map_option (\<lambda>ct.
       st\<lparr>gw_costs := ct,
          gw_events := gw_events st @ (if gw_event_bus env then [cost_update (gw_costs st) ct req name resp] else []),
          gw_cache := (if gq_bypass_cache req then gw_cache st
            else cache_set (rd_stored rd) (cache_key env req) resp (gw_cache st))\<rparr>)
     (record_call (gw_ext env) (gq_tenant_id req) (gq_agent_id req) name (lr_input_tokens resp)
        (lr_output_tokens resp) (rd_recorded rd) (gw_costs st))"

text \<open>The call by the provider that was chosen: the slot, the request, the books.  \<open>None\<close>: a panic, or
  no slot yet.\<close>

definition call_provider ::
  "gateway_env \<Rightarrow> readings \<Rightarrow> (provider_handle \<Rightarrow> (string, provider_response) result) \<Rightarrow> gateway_request
     \<Rightarrow> provider_handle \<Rightarrow> string \<Rightarrow> gateway_state \<Rightarrow> ((string, provider_response) result \<times> gateway_state) option" where
  "call_provider env rd answer req h name st =
     Option.bind (acquire_loop (rd_passes rd) name (gw_limiter st)) (\<lambda>l.
       let st1 = st\<lparr>gw_limiter := l, gw_calls := gw_calls st @ [h]\<rparr> in
       case answer h of
         Inl e \<Rightarrow> Some (Inl e, st1)
       | Inr resp \<Rightarrow> map_option (Pair (Inr resp)) (settle_call env rd req name resp st1))"

definition dispatch_call ::
  "gateway_env \<Rightarrow> readings \<Rightarrow> (provider_handle \<Rightarrow> (string, provider_response) result) \<Rightarrow> gateway_request
     \<Rightarrow> gateway_state \<Rightarrow> (string, provider_handle \<times> string) result
     \<Rightarrow> ((string, provider_response) result \<times> gateway_state) option" where
  "dispatch_call env rd answer req st resolved =
     (case resolved of
        Inl e \<Rightarrow> Some (Inl e, st)
      | Inr (h, name) \<Rightarrow> call_provider env rd answer req h name st)"

definition gateway_chat ::
  "gateway_env \<Rightarrow> readings \<Rightarrow> (provider_handle \<Rightarrow> (string, provider_response) result) \<Rightarrow> gateway_request
     \<Rightarrow> gateway_state \<Rightarrow> ((string, provider_response) result \<times> gateway_state) option" where
  "gateway_chat env rd answer req st =
     (case (if gq_bypass_cache req then None else cache_get (rd_lookup rd) (cache_key env req) (gw_cache st)) of
        Some cached \<Rightarrow> Some (Inr cached, st)
      | None \<Rightarrow> (case gw_tenants env (gq_tenant_id req) of
          Inl e \<Rightarrow> Some (Inl e, st)
        | Inr t \<Rightarrow> (case spend_refusal env (gw_costs st) (gq_tenant_id req) t of
            Some msg \<Rightarrow> Some (Inl msg, st)
          | None \<Rightarrow> (case gw_configs env (gq_tenant_id req) of
              Inl e \<Rightarrow> Some (Inl e, st)
            | Inr config \<Rightarrow>
                Option.bind (resolve_provider (gw_crypto env) (gw_encrypt_key env) (gw_platform env) config (gq_complexity req))
                  (dispatch_call env rd answer req st)))))"

section \<open>The books balance\<close>

definition counters :: "usage \<Rightarrow> nat \<times> nat \<times> nat" where
  "counters u = (us_input_tokens u, us_output_tokens u, us_requests u)"

definition agent_sum :: "(usage \<Rightarrow> nat) \<Rightarrow> cost_tracker \<Rightarrow> nat" where
  "agent_sum f ct = (\<Sum>e\<leftarrow>ct_agent_usage ct. f (snd e))"

definition tenant_sum :: "(usage \<Rightarrow> nat) \<Rightarrow> cost_tracker \<Rightarrow> nat" where
  "tenant_sum f ct = (\<Sum>e\<leftarrow>ct_tenant_usage ct. f (fst (snd e)))"

text \<open>Keys are unique and the two tables agree, as far as 64-bit counters can.\<close>

definition balanced :: "cost_tracker \<Rightarrow> bool" where
  "balanced ct \<longleftrightarrow> distinct (map fst (ct_agent_usage ct)) \<and> distinct (map fst (ct_tenant_usage ct))
     \<and> (\<forall>f\<in>{us_input_tokens, us_output_tokens, us_requests}. agent_sum f ct mod 2 ^ 64 = tenant_sum f ct mod 2 ^ 64)"

lemma balanced_new: "balanced (cost_tracker_new pricing)"
  by (simp add: balanced_def cost_tracker_new_def agent_sum_def tenant_sum_def)

lemma wrap_to_mod: "wrap_to ext bits n = Some m \<Longrightarrow> m mod 2 ^ bits = n mod 2 ^ bits"
  by (auto simp: wrap_to_def split: if_splits)

lemma add_usage_counters:
  assumes "add_usage ext i out cost u = Some u'"
  shows "us_input_tokens u' mod 2 ^ 64 = (us_input_tokens u + i) mod 2 ^ 64"
    "us_output_tokens u' mod 2 ^ 64 = (us_output_tokens u + out) mod 2 ^ 64"
    "us_requests u' mod 2 ^ 64 = (us_requests u + 1) mod 2 ^ 64"
    "us_cost_usd u' = f64_add (us_cost_usd u) cost"
  using assms by (auto simp: add_usage_def bind_eq_Some_conv dest!: wrap_to_mod)

lemma mod_add_swap: "(a :: nat) mod m = b mod m \<Longrightarrow> (a + c) mod m = (b + c) mod m"
  by (metis mod_add_left_eq)

lemma sum_list_update_mod:
  fixes g :: "'b \<Rightarrow> nat"
  assumes "distinct (map fst xs)"
    and "g v mod m = ((case map_of xs k of Some w \<Rightarrow> g w | None \<Rightarrow> 0) + d) mod m"
  shows "(\<Sum>e\<leftarrow>AList.update k v xs. g (snd e)) mod m = ((\<Sum>e\<leftarrow>xs. g (snd e)) + d) mod m"
  using assms
proof (induction xs)
  case (Cons x xs)
  obtain k' w where x: "x = (k', w)" by fastforce
  show ?case
  proof (cases "k' = k")
    case True
    with Cons.prems have "g v mod m = (g w + d) mod m" by (simp add: x)
    from mod_add_swap [OF this, of "\<Sum>e\<leftarrow>xs. g (snd e)"] True show ?thesis
      by (simp add: x ac_simps)
  next
    case False
    with Cons have "(\<Sum>e\<leftarrow>AList.update k v xs. g (snd e)) mod m = ((\<Sum>e\<leftarrow>xs. g (snd e)) + d) mod m"
      by (simp add: x)
    from mod_add_swap [OF this, of "g w"] False show ?thesis by (simp add: x ac_simps)
  qed
qed simp

text \<open>Every call is booked once for its agent and once for its tenant: the tokens and requests of all
  agents together are those of all tenants together, in either build (modulo the width of the
  counters).\<close>

theorem books_balance:
  assumes "balanced ct" and "record_call ext tenant_id agent_id model i out now ct = Some ct'"
  shows "balanced ct'"
proof -
  define agent where "agent = (case map_of (ct_agent_usage ct) agent_id of Some u \<Rightarrow> u | None \<Rightarrow> no_usage)"
  define period where "period = (case map_of (ct_tenant_usage ct) tenant_id of Some e \<Rightarrow> e | None \<Rightarrow> (no_usage, Some now))"
  define cost where "cost = cost_for_model ct model i out"
  obtain a t where a: "add_usage ext i out cost agent = Some a" and t: "add_usage ext i out cost (fst period) = Some t"
    and ct': "ct' = ct\<lparr>ct_agent_usage := AList.update agent_id a (ct_agent_usage ct),
      ct_tenant_usage := AList.update tenant_id (t, snd period) (ct_tenant_usage ct)\<rparr>"
    using assms(2) by (auto simp: record_call_def Let_def bind_eq_Some_conv agent_def period_def cost_def)
  have d: "distinct (map fst (ct_agent_usage ct))" "distinct (map fst (ct_tenant_usage ct))"
    using assms(1) by (simp_all add: balanced_def)
  have "agent_sum f ct' mod 2 ^ 64 = tenant_sum f ct' mod 2 ^ 64"
    if f: "(f = us_input_tokens \<and> n = i) \<or> (f = us_output_tokens \<and> n = out) \<or> (f = us_requests \<and> n = 1)" for f n
  proof -
    have "f no_usage = 0" using f by (auto simp: no_usage_def)
    moreover have "f a mod 2 ^ 64 = (f agent + n) mod 2 ^ 64" "f t mod 2 ^ 64 = (f (fst period) + n) mod 2 ^ 64"
      using f add_usage_counters [OF a] add_usage_counters [OF t] by auto
    ultimately have "agent_sum f ct' mod 2 ^ 64 = (agent_sum f ct + n) mod 2 ^ 64"
      "tenant_sum f ct' mod 2 ^ 64 = (tenant_sum f ct + n) mod 2 ^ 64"
      using sum_list_update_mod [OF d(1), of f a "2 ^ 64" agent_id n]
        sum_list_update_mod [OF d(2), of "\<lambda>p. f (fst p)" "(t, snd period)" "2 ^ 64" tenant_id n]
      by (auto simp: agent_sum_def tenant_sum_def ct' agent_def period_def split: option.splits)
    moreover have "agent_sum f ct mod 2 ^ 64 = tenant_sum f ct mod 2 ^ 64"
      using assms(1) f by (auto simp: balanced_def)
    ultimately show ?thesis by (metis mod_add_swap)
  qed
  then show ?thesis
    using d by (auto simp: balanced_def ct' distinct_update)
qed

section \<open>Which calls are made\<close>

lemma first_usable_SomeD:
  "first_usable build ns errs = Some (Inr (h, n)) \<Longrightarrow> n \<in> set ns \<and> build n = Some (Inr h)"
  by (induction ns arbitrary: errs) (auto split: option.splits sum.splits)

text \<open>A provider that a tenant's call may go to: an enabled credential of the tenant whose secret
  decrypts, with its key and model; or a platform provider, where no enabled credential gives a provider.\<close>

definition usable :: "gateway_env \<Rightarrow> tenant_config \<Rightarrow> provider_handle \<Rightarrow> string \<Rightarrow> bool" where
  "usable env config h name \<longleftrightarrow>
     (\<exists>cred api_key. get_credential config name = Some cred \<and> pr_enabled cred \<and> name \<in> set supported_providers
        \<and> decrypt_secret (gw_crypto env) (pr_secret_enc cred) (gw_encrypt_key env) = Some (Inr api_key)
        \<and> h = TenantProvider name api_key (pr_model cred))
     \<or> name \<in> set (gw_platform env) \<and> h = PlatformProvider name
       \<and> (\<forall>n\<in>set (enabled_providers config).
            \<exists>e. build_provider (gw_crypto env) (gw_encrypt_key env) config n = Some (Inl e))"

lemma make_provider_Inr:
  "make_provider provider model secret = Inr h \<longleftrightarrow>
     (\<exists>api_key. secret = Inr api_key \<and> provider \<in> set supported_providers \<and> h = TenantProvider provider api_key model)"
  by (cases secret) (auto simp: make_provider_def)

lemma build_provider_SomeD:
  "build_provider cr key config n = Some (Inr h) \<Longrightarrow>
     \<exists>cred api_key. get_credential config n = Some cred \<and> pr_enabled cred \<and> n \<in> set supported_providers
       \<and> decrypt_secret cr (pr_secret_enc cred) key = Some (Inr api_key) \<and> h = TenantProvider n api_key (pr_model cred)"
  by (auto simp: build_provider_def make_provider_Inr split: option.splits if_splits)

lemma platform_fallback_Inr:
  "platform_fallback platform config preferred r = Inr (h, name) \<Longrightarrow>
     r = Inr (h, name) \<or> name \<in> set platform \<and> h = PlatformProvider name \<and> (\<exists>errs. r = Inl errs)"
  by (auto simp: platform_fallback_def split: sum.splits if_splits list.splits)

lemma first_usable_InlD:
  "first_usable build ns errs = Some (Inl es) \<Longrightarrow> n \<in> set ns \<Longrightarrow> \<exists>e. build n = Some (Inl e)"
  by (induction ns arbitrary: errs) (auto split: option.splits sum.splits)

lemma set_candidate_names: "set (enabled_providers config) \<subseteq> set (candidate_names config complexity)"
proof -
  have "set (fold (\<lambda>n cs. if n \<in> set cs then cs else cs @ [n]) ns cs) = set cs \<union> set ns" for ns cs :: "string list"
    by (induction ns arbitrary: cs) auto
  then show ?thesis unfolding candidate_names_def enabled_names_def Let_def by auto
qed

lemma resolve_provider_usable:
  assumes "resolve_provider (gw_crypto env) (gw_encrypt_key env) (gw_platform env) config c = Some (Inr (h, name))"
  shows "usable env config h name"
proof -
  let ?b = "build_provider (gw_crypto env) (gw_encrypt_key env) config"
  from assms obtain x where x: "first_usable ?b (candidate_names config c) [] = Some x"
    "platform_fallback (gw_platform env) config (preferred_provider (tc_routing config) c) x = Inr (h, name)"
    by (auto simp: resolve_provider_def)
  from platform_fallback_Inr [OF x(2)] show ?thesis
  proof (elim disjE conjE exE)
    assume "x = Inr (h, name)"
    with x(1) have "?b name = Some (Inr h)" using first_usable_SomeD by simp
    from build_provider_SomeD [OF this] show ?thesis by (simp add: usable_def)
  next
    fix errs
    assume "name \<in> set (gw_platform env)" "h = PlatformProvider name" "x = Inl errs"
    moreover have "\<exists>e. ?b n = Some (Inl e)" if "n \<in> set (enabled_providers config)" for n
      using that x(1) set_candidate_names [of config c] first_usable_InlD \<open>x = Inl errs\<close> by blast
    ultimately show ?thesis by (simp add: usable_def)
  qed
qed

lemma settle_call_frame:
  assumes "settle_call env rd req name resp st = Some st'"
  shows "gw_calls st' = gw_calls st \<and> gw_limiter st' = gw_limiter st
    \<and> record_call (gw_ext env) (gq_tenant_id req) (gq_agent_id req) name (lr_input_tokens resp)
        (lr_output_tokens resp) (rd_recorded rd) (gw_costs st) = Some (gw_costs st')
    \<and> gw_cache st' = (if gq_bypass_cache req then gw_cache st
        else cache_set (rd_stored rd) (cache_key env req) resp (gw_cache st))"
  using assms by (auto simp: settle_call_def)

lemma dispatch_SomeD:
  "dispatch_call env rd answer req st resolved = Some (r, st') \<Longrightarrow>
     st' = st \<or> (\<exists>h name. resolved = Inr (h, name) \<and> call_provider env rd answer req h name st = Some (r, st'))"
  by (auto simp: dispatch_call_def split: sum.splits prod.splits)

lemma gateway_chat_cases:
  assumes "gateway_chat env rd answer req st = Some (r, st')"
  obtains (local) "st' = st"
  | (call) t config h name where "gw_tenants env (gq_tenant_id req) = Inr t"
      "spend_refusal env (gw_costs st) (gq_tenant_id req) t = None"
      "gw_configs env (gq_tenant_id req) = Inr config"
      "resolve_provider (gw_crypto env) (gw_encrypt_key env) (gw_platform env) config (gq_complexity req) = Some (Inr (h, name))"
      "call_provider env rd answer req h name st = Some (r, st')"
  using assms
  by (auto simp: gateway_chat_def bind_eq_Some_conv split: option.splits sum.splits if_splits dest!: dispatch_SomeD)

lemma call_provider_cases:
  assumes "call_provider env rd answer req h name st = Some (r, st')"
  obtains l where "acquire_loop (rd_passes rd) name (gw_limiter st) = Some l" "gw_limiter st' = l"
    "gw_calls st' = gw_calls st @ [h]"
    "(\<exists>e. answer h = Inl e \<and> r = Inl e \<and> gw_costs st' = gw_costs st \<and> gw_cache st' = gw_cache st)
     \<or> (\<exists>resp. answer h = Inr resp \<and> r = Inr resp
        \<and> record_call (gw_ext env) (gq_tenant_id req) (gq_agent_id req) name (lr_input_tokens resp)
            (lr_output_tokens resp) (rd_recorded rd) (gw_costs st) = Some (gw_costs st')
        \<and> gw_cache st' = (if gq_bypass_cache req then gw_cache st
            else cache_set (rd_stored rd) (cache_key env req) resp (gw_cache st)))"
  using assms
  by (cases "answer h") (auto simp: call_provider_def Let_def bind_eq_Some_conv dest!: settle_call_frame)

text \<open>C22: A request reaches at most one provider, once, after the limiter gave it a slot: the provider of a
  supported, enabled credential of this tenant whose secret decrypts, with its key and model, or, where no
  enabled credential of the tenant gives a provider, one of the platform, which needs no credential.  Where
  the plan of the tenant has a spend limit, the cost in the books is below it at that time (with the price
  list that the program installs this cost is always zero).  Without a call the state stays as it is; a call
  that fails is not booked or stored; a call that is answered is booked for the tenant and the agent, and
  kept in the cache unless the request bypasses it.\<close>

theorem gateway_call_discipline:
  assumes "gateway_chat env rd answer req st = Some (r, st')"
  shows "(st' = st)
    \<or> (\<exists>t config h name. gw_tenants env (gq_tenant_id req) = Inr t \<and> gw_configs env (gq_tenant_id req) = Inr config
        \<and> gw_calls st' = gw_calls st @ [h]
        \<and> ((\<exists>cred api_key. get_credential config name = Some cred \<and> pr_enabled cred \<and> name \<in> set supported_providers
              \<and> decrypt_secret (gw_crypto env) (pr_secret_enc cred) (gw_encrypt_key env) = Some (Inr api_key)
              \<and> h = TenantProvider name api_key (pr_model cred))
           \<or> name \<in> set (gw_platform env) \<and> h = PlatformProvider name
              \<and> (\<forall>n\<in>set (enabled_providers config).
                   \<exists>e. build_provider (gw_crypto env) (gw_encrypt_key env) config n = Some (Inl e)))
        \<and> acquire_loop (rd_passes rd) name (gw_limiter st) = Some (gw_limiter st')
        \<and> (\<forall>tn. t = Some tn \<longrightarrow> 0 < spend_limit_usd (tn_plan tn) \<longrightarrow>
             (case get_tenant_usage (gw_costs st) (gq_tenant_id req) of
                Some (u, _) \<Rightarrow> us_cost_usd u < spend_limit_usd (tn_plan tn) | None \<Rightarrow> True))
        \<and> (case r of
             Inl e \<Rightarrow> answer h = Inl e \<and> gw_costs st' = gw_costs st \<and> gw_cache st' = gw_cache st
           | Inr resp \<Rightarrow> answer h = Inr resp
               \<and> record_call (gw_ext env) (gq_tenant_id req) (gq_agent_id req) name (lr_input_tokens resp)
                   (lr_output_tokens resp) (rd_recorded rd) (gw_costs st) = Some (gw_costs st')
               \<and> gw_cache st' = (if gq_bypass_cache req then gw_cache st
                   else cache_set (rd_stored rd) (cache_key env req) resp (gw_cache st))))"
  using assms
proof (cases rule: gateway_chat_cases)
  case (call t config h name)
  have limit: "case get_tenant_usage (gw_costs st) (gq_tenant_id req) of
      Some (u, _) \<Rightarrow> us_cost_usd u < spend_limit_usd (tn_plan tn) | None \<Rightarrow> True"
    if "t = Some tn" "0 < spend_limit_usd (tn_plan tn)" for tn
    using call(2) that by (auto simp: spend_refusal_def check_spend_limit_def Let_def split: option.splits if_splits)
  from call(5) show ?thesis
  proof (cases rule: call_provider_cases)
    case (1 l)
    have answer: "(case r of
             Inl e \<Rightarrow> answer h = Inl e \<and> gw_costs st' = gw_costs st \<and> gw_cache st' = gw_cache st
           | Inr resp \<Rightarrow> answer h = Inr resp
               \<and> record_call (gw_ext env) (gq_tenant_id req) (gq_agent_id req) name (lr_input_tokens resp)
                   (lr_output_tokens resp) (rd_recorded rd) (gw_costs st) = Some (gw_costs st')
               \<and> gw_cache st' = (if gq_bypass_cache req then gw_cache st
                   else cache_set (rd_stored rd) (cache_key env req) resp (gw_cache st)))"
      using 1(4) by (elim disjE exE conjE) simp_all
    note u = resolve_provider_usable [OF call(4), unfolded usable_def]
    from call(1,3) 1(1-3) answer limit u show ?thesis
      by - (rule disjI2, intro exI [of _ t] exI [of _ config] exI [of _ h] exI [of _ name] conjI allI impI, simp_all)
  qed
qed simp

section \<open>What the cache answers\<close>

text \<open>An answered request is answered again from the cache as long as the entry lives: the same
  response, without a call, a booking or a slot, whatever happened to the tenant's account and
  credentials in between.\<close>

theorem repeated_request_is_free:
  assumes "gateway_chat env rd answer req st = Some (Inr resp, st')" and "gw_calls st' \<noteq> gw_calls st"
    and "\<not> gq_bypass_cache req" and "rd_lookup rd' - rd_stored rd \<le> rc_default_ttl (gw_cache st)"
    and "cache_ok (gw_cache st)"
    and "gw_generation_text env' = gw_generation_text env"
  shows "gateway_chat env' rd' answer' req st' = Some (Inr resp, st')"
  using assms(1)
proof (cases rule: gateway_chat_cases)
  case local
  with assms(2) show ?thesis by simp
next
  case (call t config h name)
  have "gw_cache st' = cache_set (rd_stored rd) (cache_key env req) resp (gw_cache st)"
    using call(5) assms(3) by (cases rule: call_provider_cases) auto
  moreover have "cache_key env' req = cache_key env req" by (simp only: cache_key_def assms(6))
  ultimately show ?thesis
    using assms(3,4) by (simp add: gateway_chat_def cache_get_def cache_set_kept update_conv' is_expired_def)
qed

text \<open>The key of an entry is computed from the texts of the messages joined with bars and the
  settings.  Requests that differ in their tools or in the roles of their messages share it, and so
  do different lists of messages.\<close>

theorem cache_ignores_tools: "cache_key env (req\<lparr>gq_tools := tools\<rparr>) = cache_key env req"
  by (simp add: cache_key_def)

theorem cache_ignores_roles:
  "map lm_content ms = map lm_content (gq_messages req) \<Longrightarrow> cache_key env (req\<lparr>gq_messages := ms\<rparr>) = cache_key env req"
  by (simp add: cache_key_def)

section \<open>The spend limit\<close>

text \<open>The books are asked for the price of a model, but get the name of a provider.\<close>

definition priced_models :: "string list" where
  "priced_models = [''claude-sonnet-4-6'', ''claude-opus-4-6'', ''claude-haiku-4-5'', ''claude-sonnet-4-20250514'',
     ''claude-haiku-4-5-20251001'', ''claude-opus-4-5'', ''gpt-4o'', ''gpt-4o-mini'', ''gpt-4-turbo'', ''o1'', ''o3-mini'',
     ''gemini-2.0-flash'', ''gemini-2.0-pro'', ''gemini-1.5-pro'']"

lemma provider_names_unpriced:
  assumes "name \<in> set supported_providers"
  shows "map_of default_pricing name = None"
proof -
  have "list_all (\<lambda>n. n \<notin> set priced_models) supported_providers" by code_simp
  moreover have "map fst default_pricing = priced_models"
    by (simp only: default_pricing_def priced_models_def list.map fst_conv)
  ultimately show ?thesis
    using assms by (metis list_all_iff list.set_map map_of_eq_None_iff)
qed

definition free_books :: "cost_tracker \<Rightarrow> bool" where
  "free_books ct \<longleftrightarrow> ct_pricing ct = default_pricing \<and> (\<forall>e\<in>set (ct_tenant_usage ct). us_cost_usd (fst (snd e)) = 0)"

lemma set_alist_update: "set (AList.update k v xs) \<subseteq> insert (k, v) (set xs)"
  by (induction xs) auto

lemma record_call_free:
  assumes "free_books ct" "map_of default_pricing model = None"
    "record_call ext tenant_id agent_id model i out now ct = Some ct'"
  shows "free_books ct'"
proof -
  have zero: "us_cost_usd (fst (case map_of (ct_tenant_usage ct) tenant_id of Some e \<Rightarrow> e | None \<Rightarrow> (no_usage, Some now))) = 0"
    using assms(1) by (auto simp: free_books_def no_usage_def split: option.split dest!: map_of_SomeD)
  have cost: "cost_for_model ct model i out = 0"
    using assms(1,2) by (simp add: cost_for_model_def free_books_def)
  show ?thesis
    using assms(1,3) zero cost set_alist_update
    by (fastforce simp: record_call_def Let_def bind_eq_Some_conv free_books_def f64_add_def
        dest: add_usage_counters(4))
qed

lemma f64_round_pos: "0 < q \<Longrightarrow> 0 < f64_round q"
proof -
  assume q: "0 < q"
  then have "2 powi (floor_log2 q - 52) \<le> \<bar>q\<bar>"
    using floor_log2_bounds(1) [of q] power_int_increasing [of "floor_log2 q - 52" "floor_log2 q" "2 :: rat"] by simp
  with q have "1 \<le> q / 2 powi (floor_log2 q - 52)" by (simp add: le_divide_eq)
  then have "1 \<le> round_even (q / 2 powi (floor_log2 q - 52))" using round_even_ge [of 1] by simp
  with q show ?thesis by (simp add: f64_round_def Let_def)
qed

lemma free_books_under_limit: "free_books ct \<Longrightarrow> check_spend_limit ct tid limit = SpendOk"
  using f64_round_pos [of "8 / 10"]
  by (auto simp: check_spend_limit_def Let_def get_tenant_usage_def free_books_def f64_div_def
      split: option.split dest!: map_of_SomeD)

text \<open>With the price list that the program installs and no platform providers among its keys, no call
  ever costs anything: the books stay at zero and the spend limit of no plan is ever reached.\<close>

theorem spend_limit_never_reached:
  assumes "free_books (gw_costs st)" and "\<forall>name\<in>set (gw_platform env). map_of default_pricing name = None"
    and "gateway_chat env rd answer req st = Some (r, st')"
  shows "free_books (gw_costs st') \<and> check_spend_limit (gw_costs st') tid limit = SpendOk"
proof -
  from assms(3) have "free_books (gw_costs st')"
  proof (cases rule: gateway_chat_cases)
    case (call t config h name)
    have "map_of default_pricing name = None"
      using resolve_provider_usable [OF call(4)] assms(2) provider_names_unpriced by (auto simp: usable_def)
    with call(5) assms(1) show ?thesis
      by (cases rule: call_provider_cases) (auto intro: record_call_free)
  qed (use assms(1) in simp)
  then show ?thesis using free_books_under_limit by blast
qed

section \<open>A concrete call\<close>

definition sample_config :: tenant_config where
  "sample_config = set_credential \<lparr>pr_provider = ''openrouter'', pr_secret_enc = encrypt_secret sample_crypto ''abcdefghijkl'' ''s'' ''k'',
     pr_label = [], pr_model = ''m'', pr_enabled = True\<rparr> (tenant_config_new ''t1'')"

definition sample_tenant :: tenant where
  "sample_tenant = \<lparr>tn_id = ''t1'', tn_username = ''u'', tn_name = ''n'', tn_email = ''e'', tn_key_hash = [],
     tn_key_prefix = [], tn_status = TenantActive, tn_plan = PlanFree, tn_created_at = 0, tn_updated_at = 0\<rparr>"

definition sample_gateway :: gateway_env where
  "sample_gateway = \<lparr>gw_ext = sample_ext, gw_crypto = sample_crypto, gw_encrypt_key = ''k'', gw_platform = [],
     gw_tenants = (\<lambda>_. Inr (Some sample_tenant)), gw_configs = (\<lambda>_. Inr sample_config),
     gw_generation_text = (\<lambda>_. []), gw_show_usd = (\<lambda>_. []), gw_event_bus = True\<rparr>"

definition sample_request :: gateway_request where
  "sample_request = gateway_request_new ''a1'' ''t1'' SimpleTask [\<lparr>lm_role = UserRole, lm_content = ''hi'', lm_tool_call_id = None\<rparr>]"

definition sample_response :: provider_response where
  "sample_response = \<lparr>lr_content = Some ''hello'', lr_tool_calls = [], lr_input_tokens = 7, lr_output_tokens = 5\<rparr>"

definition sample_readings :: readings where
  "sample_readings = \<lparr>rd_lookup = 0, rd_passes = [], rd_recorded = 0, rd_stored = 1\<rparr>"

definition sample_gateway_state :: gateway_state where
  "sample_gateway_state = \<lparr>gw_cache = cache_new 60 100, gw_costs = cost_tracker_new default_pricing, gw_limiter = (\<lambda>_. None),
     gw_events = [], gw_calls = []\<rparr>"

definition sample_handle :: provider_handle where
  "sample_handle = TenantProvider ''openrouter'' ''s'' ''m''"

lemma sample_resolve:
  "resolve_provider sample_crypto ''k'' [] sample_config SimpleTask = Some (Inr (sample_handle, ''openrouter''))"
  by code_simp

lemma sample_record:
  "record_call sample_ext ''t1'' ''a1'' ''openrouter'' 7 5 0 (cost_tracker_new default_pricing)
   = Some (cost_tracker_new default_pricing
       \<lparr>ct_agent_usage := [(''a1'', \<lparr>us_input_tokens = 7, us_output_tokens = 5, us_cost_usd = 0, us_requests = 1\<rparr>)],
        ct_tenant_usage := [(''t1'', \<lparr>us_input_tokens = 7, us_output_tokens = 5, us_cost_usd = 0, us_requests = 1\<rparr>, Some 0)]\<rparr>)"
  using provider_names_unpriced [of "''openrouter''"]
  by (simp add: record_call_def cost_tracker_new_def cost_for_model_def add_usage_def no_usage_def wrap_to_def f64_add_def
      supported_providers_def)

lemma sample_chat:
  obtains st' where "gateway_chat sample_gateway sample_readings (\<lambda>_. Inr sample_response) sample_request sample_gateway_state
      = Some (Inr sample_response, st')"
    "gw_calls st' = [sample_handle]"
proof
  let ?st = "sample_gateway_state\<lparr>gw_calls := [sample_handle]\<rparr>"
  show "gateway_chat sample_gateway sample_readings (\<lambda>_. Inr sample_response) sample_request sample_gateway_state
      = Some (Inr sample_response, the (settle_call sample_gateway sample_readings sample_request ''openrouter'' sample_response ?st))"
    using sample_resolve sample_record
    by (simp add: gateway_chat_def dispatch_call_def call_provider_def sample_gateway_def sample_readings_def sample_request_def
        sample_response_def sample_gateway_state_def gateway_request_new_def cache_get_def cache_new_def spend_refusal_def
        check_spend_limit_def get_tenant_usage_def cost_tracker_new_def sample_tenant_def f64_div_def settle_call_def
        f64_round_pos not_le Let_def)
  show "gw_calls (the (settle_call sample_gateway sample_readings sample_request ''openrouter'' sample_response ?st)) = [sample_handle]"
    using sample_record
    by (simp add: sample_gateway_def sample_readings_def sample_request_def sample_response_def sample_gateway_state_def
        gateway_request_new_def settle_call_def cost_tracker_new_def)
qed

theorem gateway_call_discipline_witness:
  "\<exists>st' h name cred api_key. gateway_chat sample_gateway sample_readings (\<lambda>_. Inr sample_response) sample_request sample_gateway_state
      = Some (Inr sample_response, st') \<and> gw_calls st' = [h] \<and> get_credential sample_config name = Some cred
      \<and> pr_enabled cred \<and> h = TenantProvider name api_key (pr_model cred)"
proof -
  obtain st' where c: "gateway_chat sample_gateway sample_readings (\<lambda>_. Inr sample_response) sample_request sample_gateway_state
      = Some (Inr sample_response, st')" "gw_calls st' = [sample_handle]"
    using sample_chat by blast
  have "gw_calls sample_gateway_state = []" "gw_configs sample_gateway (gq_tenant_id sample_request) = Inr sample_config"
    "gw_platform sample_gateway = []"
    by (simp_all add: sample_gateway_state_def sample_gateway_def)
  with gateway_call_discipline [OF c(1)] c(2)
  obtain name cred api_key where "get_credential sample_config name = Some cred" "pr_enabled cred"
    "sample_handle = TenantProvider name api_key (pr_model cred)"
    by auto
  with c show ?thesis by blast
qed

theorem repeated_request_is_free_witness:
  "\<exists>st'. gateway_chat sample_gateway (sample_readings\<lparr>rd_lookup := 50\<rparr>) (\<lambda>_. Inl ''down'') sample_request st'
      = Some (Inr sample_response, st') \<and> gw_calls st' = [sample_handle]"
proof -
  obtain st' where c: "gateway_chat sample_gateway sample_readings (\<lambda>_. Inr sample_response) sample_request sample_gateway_state
      = Some (Inr sample_response, st')" "gw_calls st' = [sample_handle]"
    using sample_chat by blast
  have "gateway_chat sample_gateway (sample_readings\<lparr>rd_lookup := 50\<rparr>) (\<lambda>_. Inl ''down'') sample_request st' = Some (Inr sample_response, st')"
    by (rule repeated_request_is_free [OF c(1)])
      (simp_all add: c(2) sample_gateway_state_def sample_request_def gateway_request_new_def sample_readings_def cache_new_def
        cache_ok_def cache_size_def)
  with c(2) show ?thesis by blast
qed

theorem books_balance_witness:
  "balanced (the (record_call sample_ext ''t1'' ''a1'' ''openrouter'' 7 5 0 (cost_tracker_new default_pricing)))"
  using books_balance [OF balanced_new sample_record] sample_record by simp

theorem spend_limit_never_reached_witness:
  "\<exists>st'. gateway_chat sample_gateway sample_readings (\<lambda>_. Inr sample_response) sample_request sample_gateway_state
      = Some (Inr sample_response, st') \<and> gw_calls st' = [sample_handle] \<and> check_spend_limit (gw_costs st') ''t1'' 50 = SpendOk"
proof -
  obtain st' where c: "gateway_chat sample_gateway sample_readings (\<lambda>_. Inr sample_response) sample_request sample_gateway_state
      = Some (Inr sample_response, st')" "gw_calls st' = [sample_handle]"
    using sample_chat by blast
  have "free_books (gw_costs sample_gateway_state)"
    by (simp add: free_books_def sample_gateway_state_def cost_tracker_new_def)
  from spend_limit_never_reached [OF this _ c(1)] c show ?thesis
    by (auto simp: sample_gateway_def)
qed

end
