(* ===== verification/Agent_Messages.thy ===== *)
theory Agent_Messages
  imports Agent_Store Tool_Args Queue
begin

text \<open>
  How agents work together: the tools on session tasks (\<open>tools/session_tasks.rs\<close>), messages between
  agents (\<open>tools/send_message.rs\<close>, \<open>tools/message_inbox.rs\<close>) and delegation to child agents
  (\<open>tools/delegate.rs\<close>), on the tables of \<open>Agent_Store\<close>.  Statements of the database succeed.  Readings
  of the clock and fresh identifiers are numbered: \<open>ce_clock env n\<close> is the \<open>n\<close>-th reading of a call.
\<close>

section \<open>Arguments\<close>

definition quoted_key :: "string \<Rightarrow> string" where
  "quoted_key k = CHR 0x27 # k @ [CHR 0x27]"

definition trimmed_arg :: "json \<Rightarrow> string \<Rightarrow> string option" where
  "trimmed_arg args key = map_option trim (Option.bind (json_get key args) as_str)"

definition optional_string :: "json \<Rightarrow> string \<Rightarrow> string option" where
  "optional_string args key = (case trimmed_arg args key of Some [] \<Rightarrow> None | v \<Rightarrow> v)"

definition required_string :: "json \<Rightarrow> string \<Rightarrow> (string, string) result" where
  "required_string args key =
     (case optional_string args key of Some v \<Rightarrow> Inr v | None \<Rightarrow> Inl (quoted_key key @ '' is required''))"

definition optional_bool :: "json \<Rightarrow> string \<Rightarrow> bool" where
  "optional_bool args key = (case Option.bind (json_get key args) as_bool of Some b \<Rightarrow> b | None \<Rightarrow> False)"

definition nonempty_text :: "json \<Rightarrow> string option" where
  "nonempty_text v = (case map_option trim (as_str v) of Some [] \<Rightarrow> None | t \<Rightarrow> t)"

definition parse_string_array :: "json \<Rightarrow> string \<Rightarrow> string list" where
  "parse_string_array args key =
     (case Option.bind (json_get key args) as_array of Some items \<Rightarrow> List.map_filter nonempty_text items | None \<Rightarrow> [])"

definition parse_status :: "string option \<Rightarrow> session_task_status option" where
  "parse_status v =
     (case v of
        None \<Rightarrow> None
      | Some s \<Rightarrow> (let t = to_ascii_lowercase (trim s) in
          if t = ''pending'' then Some TaskPending
          else if t = ''in_progress'' then Some TaskInProgress
          else if t = ''blocked'' then Some TaskBlocked
          else if t = ''completed'' then Some TaskCompleted
          else if t = ''failed'' then Some TaskFailed
          else if t = ''stopped'' then Some TaskStopped
          else None))"

definition json_or_null :: "string option \<Rightarrow> json" where
  "json_or_null v = (case v of Some s \<Rightarrow> JString s | None \<Rightarrow> JNull)"

definition string_array_json :: "string list \<Rightarrow> json" where
  "string_array_json ss = JArray (map JString ss)"

definition result_status_text :: "session_task_result_status \<Rightarrow> string" where
  "result_status_text s = (case s of ResultComplete \<Rightarrow> ''complete'' | ResultPartial \<Rightarrow> ''partial'' | ResultFailed \<Rightarrow> ''failed'')"

definition task_output_json :: "session_task_output \<Rightarrow> json" where
  "task_output_json o' = obj_of_list
     ([(''status'', JString (result_status_text (to_status o'))), (''artifacts'', string_array_json (to_artifacts o')),
       (''findings'', string_array_json (to_findings o')), (''confidence'', JNumber (FloatNum (to_confidence o')))]
      @ (case to_note o' of Some n \<Rightarrow> [(''note'', JString n)] | None \<Rightarrow> []))"

definition optional_field :: "string \<Rightarrow> ('a \<Rightarrow> json) \<Rightarrow> 'a option \<Rightarrow> (string \<times> json) list" where
  "optional_field k f v = (case v of Some x \<Rightarrow> [(k, f x)] | None \<Rightarrow> [])"

section \<open>Environment and state\<close>

text \<open>\<open>ce_time_json\<close> is the serialized form of an instant, \<open>ce_rfc3339\<close> that of \<open>to_rfc3339\<close>;
  \<open>ce_push\<close> is the failure of the queue for an agent, if any.\<close>

record comm_env =
  ce_ext :: externals
  ce_time_json :: "time \<Rightarrow> string"
  ce_rfc3339 :: "time \<Rightarrow> string"
  ce_clock :: "nat \<Rightarrow> time"
  ce_uuid :: "nat \<Rightarrow> string"
  ce_workspace :: "string \<Rightarrow> string \<Rightarrow> (string, string) result"
  ce_push :: "string \<Rightarrow> string option"

datatype comm_event =
    MessageSent string string string "string option" bool
  | MessageReceived string string string "string option" bool
  | MessageDelivered string string
  | WorkerContinued string string "string option" "string option"

record comm_state =
  cs_agents :: "agent_row list"
  cs_tasks :: "session_task_row list"
  cs_messages :: "agent_message_row list"
  cs_queue :: memory_queue
  cs_events :: "comm_event list"

section \<open>Session tasks\<close>

definition task_to_json :: "comm_env \<Rightarrow> session_task \<Rightarrow> json" where
  "task_to_json env t = obj_of_list
     ([(''id'', JString (st_id t)), (''tenant_id'', JString (st_tenant_id t)), (''agent_id'', JString (st_agent_id t)),
       (''subject'', JString (st_subject t)), (''description'', JString (st_description t)),
       (''status'', JString (session_task_status_to_str (st_status t)))]
      @ optional_field ''owner'' JString (st_owner t)
      @ [(''blocked_by'', string_array_json (st_blocked_by t)), (''blocks'', string_array_json (st_blocks t)),
         (''metadata'', st_metadata t)]
      @ optional_field ''output'' task_output_json (st_output t)
      @ [(''created_at'', JString (ce_time_json env (st_created_at t))),
         (''updated_at'', JString (ce_time_json env (st_updated_at t)))]
      @ optional_field ''completed_at'' (\<lambda>c. JString (ce_time_json env c)) (st_completed_at t))"

definition task_reply :: "comm_env \<Rightarrow> string \<Rightarrow> session_task \<Rightarrow> tool_result" where
  "task_reply env status t = tool_ok (obj_of_list [(''status'', JString status), (''task'', task_to_json env t)])"

definition store_session_task :: "comm_env \<Rightarrow> session_task \<Rightarrow> comm_state \<Rightarrow> comm_state" where
  "store_session_task env t st = st\<lparr>cs_tasks := upsert_session_task (ce_ext env) t (cs_tasks st)\<rparr>"

definition created_task :: "comm_env \<Rightarrow> json \<Rightarrow> string \<Rightarrow> string \<Rightarrow> string \<Rightarrow> session_task" where
  "created_task env args tenant_id agent_id subject =
     (session_task_new (ce_uuid env 0) tenant_id agent_id subject
        (case optional_string args ''description'' of Some d \<Rightarrow> d | None \<Rightarrow> []) (ce_clock env 0))
     \<lparr>st_owner := optional_string args ''owner'', st_blocked_by := parse_string_array args ''blocked_by'',
      st_blocks := parse_string_array args ''blocks'',
      st_metadata := (case json_get ''metadata'' args of Some m \<Rightarrow> m | None \<Rightarrow> JObject [])\<rparr>"

definition task_create :: "comm_env \<Rightarrow> json \<Rightarrow> comm_state \<Rightarrow> tool_result \<times> comm_state" where
  "task_create env args st =
     (case required_string args ''tenant_id'' of Inl e \<Rightarrow> (tool_err e, st) | Inr tenant_id \<Rightarrow>
     (case required_string args ''agent_id'' of Inl e \<Rightarrow> (tool_err e, st) | Inr agent_id \<Rightarrow>
     (case required_string args ''subject'' of Inl e \<Rightarrow> (tool_err e, st) | Inr subject \<Rightarrow>
        let task = created_task env args tenant_id agent_id subject
        in (task_reply env ''created'' task, store_session_task env task st))))"

text \<open>The task that a tool addresses, or the error it returns.\<close>

definition addressed_task :: "json \<Rightarrow> comm_state \<Rightarrow> (tool_result, session_task) result" where
  "addressed_task args st =
     (case required_string args ''tenant_id'' of Inl e \<Rightarrow> Inl (tool_err e) | Inr tenant_id \<Rightarrow>
     (case required_string args ''task_id'' of Inl e \<Rightarrow> Inl (tool_err e) | Inr tid \<Rightarrow>
     (case get_session_task tenant_id tid (cs_tasks st) of
        None \<Rightarrow> Inl (tool_err (''task '' @ quoted_key tid @ '' not found''))
      | Some task \<Rightarrow> Inr task)))"

definition task_get :: "comm_env \<Rightarrow> json \<Rightarrow> comm_state \<Rightarrow> tool_result" where
  "task_get env args st =
     (case addressed_task args st of
        Inl e \<Rightarrow> e
      | Inr task \<Rightarrow> tool_ok (obj_of_list [(''task'', task_to_json env task)]))"

definition status_arg :: "json \<Rightarrow> session_task_status option" where
  "status_arg args = parse_status (Option.bind (json_get ''status'' args) as_str)"

definition listed_tasks :: "json \<Rightarrow> string \<Rightarrow> string \<Rightarrow> comm_state \<Rightarrow> session_task list" where
  "listed_tasks args tenant_id agent_id st =
     filter (\<lambda>t. case status_arg args of Some s \<Rightarrow> st_status t = s | None \<Rightarrow> True)
       (list_session_tasks_for_agent tenant_id agent_id (cs_tasks st))"

definition task_list :: "comm_env \<Rightarrow> json \<Rightarrow> comm_state \<Rightarrow> tool_result" where
  "task_list env args st =
     (case required_string args ''tenant_id'' of Inl e \<Rightarrow> tool_err e | Inr tenant_id \<Rightarrow>
     (case required_string args ''agent_id'' of Inl e \<Rightarrow> tool_err e | Inr agent_id \<Rightarrow>
        tool_ok (obj_of_list [(''tasks'', JArray (map (task_to_json env) (listed_tasks args tenant_id agent_id st)))])))"

definition updated_task :: "comm_env \<Rightarrow> json \<Rightarrow> session_task \<Rightarrow> session_task" where
  "updated_task env args t =
     (let t = (case optional_string args ''subject'' of Some s \<Rightarrow> t\<lparr>st_subject := s\<rparr> | None \<Rightarrow> t);
          t = (case optional_string args ''description'' of Some d \<Rightarrow> t\<lparr>st_description := d\<rparr> | None \<Rightarrow> t);
          t = (case optional_string args ''owner'' of Some w \<Rightarrow> t\<lparr>st_owner := Some w\<rparr> | None \<Rightarrow> t);
          t = (if json_get ''blocked_by'' args \<noteq> None then t\<lparr>st_blocked_by := parse_string_array args ''blocked_by''\<rparr> else t);
          t = (if json_get ''blocks'' args \<noteq> None then t\<lparr>st_blocks := parse_string_array args ''blocks''\<rparr> else t);
          t = (case json_get ''metadata'' args of Some m \<Rightarrow> t\<lparr>st_metadata := m\<rparr> | None \<Rightarrow> t)
      in case status_arg args of
           Some s \<Rightarrow> set_status s (ce_clock env 0) t
         | None \<Rightarrow> t\<lparr>st_updated_at := ce_clock env 0\<rparr>)"

definition task_update :: "comm_env \<Rightarrow> json \<Rightarrow> comm_state \<Rightarrow> tool_result \<times> comm_state" where
  "task_update env args st =
     (case addressed_task args st of
        Inl e \<Rightarrow> (e, st)
      | Inr task \<Rightarrow> (task_reply env ''updated'' (updated_task env args task), store_session_task env (updated_task env args task) st))"

text \<open>\<open>None\<close> is the panic of the assignment into metadata that is neither an object nor null.\<close>

definition stopped_task :: "comm_env \<Rightarrow> json \<Rightarrow> session_task \<Rightarrow> session_task option" where
  "stopped_task env args t =
     (let t = set_status TaskStopped (ce_clock env 0) t in
      case optional_string args ''reason'' of
        Some reason \<Rightarrow> map_option (\<lambda>m. t\<lparr>st_metadata := m\<rparr>) (json_set ''stop_reason'' (JString reason) (st_metadata t))
      | None \<Rightarrow> Some t)"

definition task_stop :: "comm_env \<Rightarrow> json \<Rightarrow> comm_state \<Rightarrow> (tool_result \<times> comm_state) option" where
  "task_stop env args st =
     (case addressed_task args st of
        Inl e \<Rightarrow> Some (e, st)
      | Inr task \<Rightarrow> map_option (\<lambda>t. (task_reply env ''stopped'' t, store_session_task env t st)) (stopped_task env args task))"

definition parse_result_status :: "json \<Rightarrow> session_task_result_status option option" where
  "parse_result_status args =
     map_option (\<lambda>s. let t = to_ascii_lowercase (trim s) in
         if t = ''complete'' then Some ResultComplete
         else if t = ''partial'' then Some ResultPartial
         else if t = ''failed'' then Some ResultFailed
         else None)
       (Option.bind (json_get ''status'' args) as_str)"

definition confidence_arg :: "json \<Rightarrow> rat" where
  "confidence_arg args =
     (let c = (case Option.bind (json_get ''confidence'' args) as_f64 of Some c \<Rightarrow> c | None \<Rightarrow> 1)
      in max 0 (min 1 c))"

definition task_output_of :: "json \<Rightarrow> session_task_result_status \<Rightarrow> session_task_output" where
  "task_output_of args status =
     \<lparr>to_status = status, to_artifacts = parse_string_array args ''artifacts'',
      to_findings = parse_string_array args ''findings'', to_confidence = confidence_arg args,
      to_note = optional_string args ''note''\<rparr>"

fun status_of_result :: "session_task_result_status \<Rightarrow> session_task_status" where
  "status_of_result ResultComplete = TaskCompleted"
| "status_of_result ResultPartial = TaskBlocked"
| "status_of_result ResultFailed = TaskFailed"

definition recorded_task :: "comm_env \<Rightarrow> json \<Rightarrow> session_task_result_status \<Rightarrow> session_task \<Rightarrow> session_task" where
  "recorded_task env args status t =
     set_status (status_of_result status) (ce_clock env 1) (set_output (task_output_of args status) (ce_clock env 0) t)"

definition task_output_call :: "comm_env \<Rightarrow> json \<Rightarrow> comm_state \<Rightarrow> tool_result \<times> comm_state" where
  "task_output_call env args st =
     (case addressed_task args st of
        Inl e \<Rightarrow> (e, st)
      | Inr task \<Rightarrow> (case parse_result_status args of
          Some (Some status) \<Rightarrow>
            (task_reply env ''recorded'' (recorded_task env args status task),
             store_session_task env (recorded_task env args status task) st)
        | _ \<Rightarrow> (tool_err (quoted_key ''status'' @ '' must be complete, partial, or failed''), st)))"

section \<open>Sending messages\<close>

definition parse_message_kind :: "json \<Rightarrow> (string, agent_message_kind) result" where
  "parse_message_kind args =
     (case Option.bind (json_get ''message_kind'' args) as_str of
        None \<Rightarrow> Inr UpdateMessage
      | Some s \<Rightarrow> (let k = to_ascii_lowercase (trim s) in
          if k = [] \<or> k = ''update'' then Inr UpdateMessage
          else if k = ''result'' then Inr ResultMessage
          else if k = ''question'' then Inr QuestionMessage
          else if k = ''instruction'' then Inr InstructionMessage
          else Inl (''unsupported message_kind '' @ quoted_key k)))"

definition parse_result_contract :: "json \<Rightarrow> (string, session_task_output option) result" where
  "parse_result_contract args =
     (case parse_result_status args of
        None \<Rightarrow> Inr None
      | Some (Some status) \<Rightarrow> Inr (Some (task_output_of args status))
      | Some None \<Rightarrow> Inl (quoted_key ''status'' @ '' must be complete, partial, or failed when sending a result contract''))"

definition message_to_json :: "comm_env \<Rightarrow> agent_message \<Rightarrow> json" where
  "message_to_json env m = obj_of_list
     ([(''id'', JString (am_id m)), (''tenant_id'', JString (am_tenant_id m)),
       (''sender_agent_id'', JString (am_sender_agent_id m)), (''recipient_agent_id'', JString (am_recipient_agent_id m)),
       (''message_kind'', JString (agent_message_kind_to_str (am_message_kind m))),
       (''subject'', JString (am_subject m)), (''body'', JString (am_body m))]
      @ optional_field ''task_id'' JString (am_task_id m)
      @ optional_field ''step_index'' (\<lambda>i. JNumber (PosInt i)) (am_step_index m)
      @ optional_field ''result_contract'' task_output_json (am_result_contract m)
      @ [(''metadata'', am_metadata m), (''created_at'', JString (ce_time_json env (am_created_at m)))]
      @ optional_field ''delivered_at'' (\<lambda>d. JString (ce_time_json env d)) (am_delivered_at m))"

definition recipient_of :: "json \<Rightarrow> (string, string) result" where
  "recipient_of args =
     (case (case optional_string args ''recipient_agent_id'' of
          Some r \<Rightarrow> Some r | None \<Rightarrow> optional_string args ''parent_agent_id'') of
        Some r \<Rightarrow> Inr r
      | None \<Rightarrow> Inl (quoted_key ''recipient_agent_id'' @ '' is required unless parent_agent_id is available''))"

definition message_kind_of :: "session_task_output option \<Rightarrow> agent_message_kind \<Rightarrow> agent_message_kind" where
  "message_kind_of contract kind = (if kind = UpdateMessage \<and> contract \<noteq> None then ResultMessage else kind)"

definition composed_message ::
  "comm_env \<Rightarrow> json \<Rightarrow> string \<Rightarrow> string \<Rightarrow> string \<Rightarrow> agent_message_kind \<Rightarrow> session_task_output option \<Rightarrow> agent_message" where
  "composed_message env args tenant_id sender recipient kind contract =
     (agent_message_new (ce_uuid env 0) tenant_id sender recipient (message_kind_of contract kind)
        (case optional_string args ''subject'' of Some s \<Rightarrow> s | None \<Rightarrow> [])
        (case optional_string args ''body'' of Some b \<Rightarrow> b | None \<Rightarrow> []) (ce_clock env 0))
     \<lparr>am_task_id := optional_string args ''task_id'',
      am_step_index := map_option (\<lambda>n. n mod 2 ^ 32) (Option.bind (json_get ''step_index'' args) json_as_u64),
      am_result_contract := contract,
      am_metadata := (case json_get ''metadata'' args of Some m \<Rightarrow> m | None \<Rightarrow> JObject [])\<rparr>"

definition announce :: "agent_message \<Rightarrow> comm_event list" where
  "announce m =
     (let kind = agent_message_kind_to_str (am_message_kind m) in
      [MessageSent (am_sender_agent_id m) (am_recipient_agent_id m) kind (am_task_id m) (has_result_contract m),
       MessageReceived (am_recipient_agent_id m) (am_sender_agent_id m) kind (am_task_id m) (has_result_contract m)])"

definition post :: "comm_env \<Rightarrow> agent_message \<Rightarrow> comm_state \<Rightarrow> comm_state" where
  "post env m st = st\<lparr>cs_messages := create_agent_message (ce_ext env) m (cs_messages st)\<rparr>"

definition send_message :: "comm_env \<Rightarrow> json \<Rightarrow> comm_state \<Rightarrow> tool_result \<times> comm_state" where
  "send_message env args st =
     (case required_string args ''tenant_id'' of Inl e \<Rightarrow> (tool_err e, st) | Inr tenant_id \<Rightarrow>
     (case required_string args ''agent_id'' of Inl e \<Rightarrow> (tool_err e, st) | Inr sender \<Rightarrow>
     (case recipient_of args of Inl e \<Rightarrow> (tool_err e, st) | Inr recipient \<Rightarrow>
        if get_agent tenant_id recipient (cs_agents st) = None
        then (tool_err (''recipient agent '' @ quoted_key recipient @ '' was not found''), st)
        else (case parse_result_contract args of Inl e \<Rightarrow> (tool_err e, st) | Inr contract \<Rightarrow>
        (case parse_message_kind args of Inl e \<Rightarrow> (tool_err e, st) | Inr kind \<Rightarrow>
           let m = composed_message env args tenant_id sender recipient kind contract; st1 = post env m st in
           (tool_ok (obj_of_list [(''status'', JString ''sent''), (''message'', message_to_json env m)]),
            st1\<lparr>cs_events := cs_events st1 @ announce m\<rparr>))))))"

section \<open>Further queries\<close>

definition newest_first :: "nat \<Rightarrow> (agent_message_row \<Rightarrow> bool) \<Rightarrow> agent_message_row list \<Rightarrow> agent_message list" where
  "newest_first limit P rows = map row_to_agent_message (take limit (sort_key (\<lambda>r. - mr_created_at r) (filter P rows)))"

definition list_agent_sent_messages :: "string \<Rightarrow> string \<Rightarrow> nat \<Rightarrow> agent_message_row list \<Rightarrow> agent_message list" where
  "list_agent_sent_messages tenant_id sender limit =
     newest_first limit (\<lambda>r. mr_tenant_id r = tenant_id \<and> mr_sender_agent_id r = sender)"

definition list_agent_messages_for_agent :: "string \<Rightarrow> string \<Rightarrow> nat \<Rightarrow> agent_message_row list \<Rightarrow> agent_message list" where
  "list_agent_messages_for_agent tenant_id aid limit =
     newest_first limit (\<lambda>r. mr_tenant_id r = tenant_id \<and> (mr_recipient_agent_id r = aid \<or> mr_sender_agent_id r = aid))"

definition get_agent_message_for_agent ::
  "string \<Rightarrow> string \<Rightarrow> string \<Rightarrow> agent_message_row list \<Rightarrow> agent_message option" where
  "get_agent_message_for_agent tenant_id aid mid rows = map_option row_to_agent_message
     (find (\<lambda>r. mr_tenant_id r = tenant_id \<and> mr_id r = mid \<and> (mr_recipient_agent_id r = aid \<or> mr_sender_agent_id r = aid)) rows)"

section \<open>Pushing an agent\<close>

text \<open>\<open>Swarm::push\<close>: a fresh task on the shared queue, or the error of the queue.\<close>

definition swarm_push :: "comm_env \<Rightarrow> string \<Rightarrow> time \<Rightarrow> string \<Rightarrow> comm_state \<Rightarrow> (string, unit) result \<times> comm_state" where
  "swarm_push env uuid now aid st =
     (case ce_push env aid of
        Some e \<Rightarrow> (Inl e, st)
      | None \<Rightarrow> (Inr (), st\<lparr>cs_queue := mem_enqueue (task_new uuid aid now) (cs_queue st)\<rparr>))"

section \<open>Continuing a child\<close>

record continue_request =
  cq_tenant_id :: string
  cq_parent_agent_id :: string
  cq_child_agent_id :: string
  cq_subject :: "string option"
  cq_body :: string
  cq_task_id :: "string option"
  cq_worker_type :: "string option"
  cq_write_scope :: "string list"
  cq_ack_message_ids :: "string list"
  cq_metadata :: json

fun status_debug :: "agent_status \<Rightarrow> string" where
  "status_debug AgentPlanApprovalNeeded = ''planapprovalneeded''"
| "status_debug s = status_to_str s"

definition instruction_of :: "comm_env \<Rightarrow> continue_request \<Rightarrow> agent_state \<Rightarrow> agent_state \<Rightarrow> agent_message" where
  "instruction_of env q parent child =
     (agent_message_new (ce_uuid env 0) (cq_tenant_id q) (as_id parent) (as_id child) InstructionMessage
        (case cq_subject q of Some s \<Rightarrow> s | None \<Rightarrow> ''continue_worker'') (cq_body q) (ce_clock env 0))
     \<lparr>am_task_id := (case cq_task_id q of Some t \<Rightarrow> Some t | None \<Rightarrow> as_current_task child),
      am_metadata := obj_of_list
        [(''continued_via'', JString ''message_inbox''), (''worker_type'', json_or_null (cq_worker_type q)),
         (''write_scope'', string_array_json (cq_write_scope q)), (''parent_status'', JString (status_debug (as_status parent))),
         (''extra'', cq_metadata q)]\<rparr>"

text \<open>The entry \<open>delegation_context\<close> of an object is updated in place; any other value is replaced.\<close>

definition new_context :: "comm_env \<Rightarrow> continue_request \<Rightarrow> string option \<Rightarrow> (string \<times> json) list option \<Rightarrow> json" where
  "new_context env q tid ctx =
     (case ctx of
        Some kvs \<Rightarrow>
          (let kvs = (case tid of Some t \<Rightarrow> obj_insert ''task_id'' (JString t) kvs | None \<Rightarrow> kvs);
               kvs = (case cq_worker_type q of Some w \<Rightarrow> obj_insert ''worker_type'' (JString w) kvs | None \<Rightarrow> kvs)
           in JObject (obj_insert ''continued_at'' (JString (ce_rfc3339 env (ce_clock env 2)))
                (obj_insert ''write_scope'' (string_array_json (cq_write_scope q)) kvs)))
      | None \<Rightarrow> obj_of_list
          [(''task_id'', json_or_null tid), (''worker_type'', json_or_null (cq_worker_type q)),
           (''write_scope'', string_array_json (cq_write_scope q)),
           (''continued_at'', JString (ce_rfc3339 env (ce_clock env 2)))])"

definition instructed :: "comm_env \<Rightarrow> continue_request \<Rightarrow> agent_message \<Rightarrow> agent_state \<Rightarrow> agent_state option" where
  "instructed env q m child =
     Option.bind (set_metadata ''last_user_input_context'' (JString (cq_body q)) child) (\<lambda>c.
     Option.bind (set_metadata ''continue_worker_instruction'' (obj_of_list
       [(''subject'', json_or_null (cq_subject q)), (''body'', JString (am_body m)), (''task_id'', json_or_null (am_task_id m)),
        (''worker_type'', json_or_null (cq_worker_type q)), (''write_scope'', string_array_json (cq_write_scope q)),
        (''continued_at'', JString (ce_rfc3339 env (ce_clock env 1)))]) c) (\<lambda>c.
     set_metadata ''delegation_context''
       (new_context env q (am_task_id m) (Option.bind (json_get ''delegation_context'' (as_metadata c)) as_object)) c))"

definition rescheduled :: "comm_env \<Rightarrow> agent_message \<Rightarrow> agent_state \<Rightarrow> agent_state" where
  "rescheduled env m c =
     (let c = (case am_task_id m of Some t \<Rightarrow> c\<lparr>as_current_task := Some t\<rparr> | None \<Rightarrow> c);
          c = clear_final_answer (ce_clock env 3) c
      in (agent_mark_waiting (ce_clock env 4) (ce_clock env 5) c)\<lparr>as_updated_at := ce_clock env 6\<rparr>)"

definition acknowledge_all :: "comm_env \<Rightarrow> continue_request \<Rightarrow> agent_message_row list \<Rightarrow> agent_message_row list" where
  "acknowledge_all env q rows =
     fold (\<lambda>mid rows. snd (mark_agent_message_delivered_for_recipient (cq_tenant_id q) (cq_parent_agent_id q) mid (ce_clock env 7) rows))
       (cq_ack_message_ids q) rows"

text \<open>\<open>None\<close> is a panic on the child's metadata, after the message has been stored.\<close>

definition continue_worker_from_parent ::
  "comm_env \<Rightarrow> continue_request \<Rightarrow> comm_state \<Rightarrow> ((string, tool_result) result \<times> comm_state) option" where
  "continue_worker_from_parent env q st =
     (case get_agent (cq_tenant_id q) (cq_parent_agent_id q) (cs_agents st) of
        None \<Rightarrow> Some (Inr (tool_err (''parent agent '' @ quoted_key (cq_parent_agent_id q) @ '' was not found'')), st)
      | Some parent \<Rightarrow> (case get_agent (cq_tenant_id q) (cq_child_agent_id q) (cs_agents st) of
        None \<Rightarrow> Some (Inr (tool_err (''child agent '' @ quoted_key (cq_child_agent_id q) @ '' was not found'')), st)
      | Some child \<Rightarrow>
          if as_parent_agent_id child \<noteq> Some (cq_parent_agent_id q)
          then Some (Inr (tool_err ''target child does not belong to this parent agent''), st)
          else if as_status child = AgentDelegating \<and> as_pending_children child \<noteq> []
          then Some (Inr (tool_err ''child is still waiting on its own pending children''), st)
          else
            let m = instruction_of env q parent child; st1 = post env m st in
            map_option (\<lambda>c.
              let c' = rescheduled env m c;
                  st2 = st1\<lparr>cs_agents := upsert_agent (ce_ext env) c' (cs_agents st1),
                            cs_messages := acknowledge_all env q (cs_messages st1)\<rparr>
              in case swarm_push env (ce_uuid env 1) (ce_clock env 8) (as_id child) st2 of
                   (Inl e, st3) \<Rightarrow> (Inl e, st3)
                 | (Inr _, st3) \<Rightarrow>
                     (Inr (tool_ok (obj_of_list
                        [(''status'', JString ''continued''), (''child_agent_id'', JString (as_id child)),
                         (''task_id'', json_or_null (am_task_id m)), (''message'', message_to_json env m)])),
                      st3\<lparr>cs_events := cs_events st3
                        @ [MessageSent (as_id parent) (as_id child) ''instruction'' (am_task_id m) False,
                           MessageReceived (as_id child) (as_id parent) ''instruction'' (am_task_id m) False,
                           WorkerContinued (as_id parent) (as_id child) (am_task_id m) (cq_worker_type q)]\<rparr>))
            (instructed env q m child)))"

section \<open>The inbox\<close>

definition inbox_list :: "comm_env \<Rightarrow> json \<Rightarrow> string \<Rightarrow> string \<Rightarrow> comm_state \<Rightarrow> tool_result" where
  "inbox_list env args tenant_id aid st =
     (let limit = nat (max 1 (min 100 (case Option.bind (json_get ''limit'' args) json_as_i64 of Some i \<Rightarrow> i | None \<Rightarrow> 20)));
          direction = (case optional_string args ''direction'' of Some d \<Rightarrow> d | None \<Rightarrow> ''inbox'');
          rows = cs_messages st;
          found = (if direction = ''inbox'' then Some (list_agent_inbox_messages tenant_id aid (optional_bool args ''undelivered_only'') limit rows)
            else if direction = ''sent'' then Some (list_agent_sent_messages tenant_id aid limit rows)
            else if direction = ''all'' then Some (list_agent_messages_for_agent tenant_id aid limit rows)
            else None)
      in case found of
           None \<Rightarrow> tool_err (''unsupported direction '' @ quoted_key direction)
         | Some messages \<Rightarrow> tool_ok (obj_of_list
             [(''direction'', JString direction), (''messages'', JArray (map (message_to_json env) messages)),
              (''count'', JNumber (PosInt (length messages))),
              (''unread_count'', JNumber (PosInt (count_undelivered_agent_messages tenant_id aid rows)))]))"

definition inbox_get :: "comm_env \<Rightarrow> json \<Rightarrow> string \<Rightarrow> string \<Rightarrow> comm_state \<Rightarrow> tool_result" where
  "inbox_get env args tenant_id aid st =
     (case required_string args ''message_id'' of Inl e \<Rightarrow> tool_err e | Inr mid \<Rightarrow>
     (case get_agent_message_for_agent tenant_id aid mid (cs_messages st) of
        None \<Rightarrow> tool_err (''message '' @ quoted_key mid @ '' not found'')
      | Some m \<Rightarrow> tool_ok (obj_of_list [(''message'', message_to_json env m)])))"

definition inbox_ack :: "comm_env \<Rightarrow> json \<Rightarrow> string \<Rightarrow> string \<Rightarrow> comm_state \<Rightarrow> tool_result \<times> comm_state" where
  "inbox_ack env args tenant_id aid st =
     (case required_string args ''message_id'' of Inl e \<Rightarrow> (tool_err e, st) | Inr mid \<Rightarrow>
     (case mark_agent_message_delivered_for_recipient tenant_id aid mid (ce_clock env 0) (cs_messages st) of
        (acknowledged, rows) \<Rightarrow>
          (tool_ok (obj_of_list [(''acknowledged'', JBool acknowledged), (''message_id'', JString mid)]),
           st\<lparr>cs_messages := rows,
              cs_events := cs_events st @ (if acknowledged then [MessageDelivered aid mid] else [])\<rparr>)))"

definition continue_request_of :: "json \<Rightarrow> string \<Rightarrow> string \<Rightarrow> string \<Rightarrow> string \<Rightarrow> continue_request" where
  "continue_request_of args tenant_id aid child body =
     \<lparr>cq_tenant_id = tenant_id, cq_parent_agent_id = aid, cq_child_agent_id = child,
      cq_subject = optional_string args ''subject'', cq_body = body, cq_task_id = optional_string args ''task_id'',
      cq_worker_type = optional_string args ''worker_type'', cq_write_scope = parse_string_array args ''write_scope'',
      cq_ack_message_ids = parse_string_array args ''ack_message_ids'',
      cq_metadata = (case json_get ''metadata'' args of Some m \<Rightarrow> m | None \<Rightarrow> JObject [])\<rparr>"

definition inbox_continue ::
  "comm_env \<Rightarrow> json \<Rightarrow> string \<Rightarrow> string \<Rightarrow> comm_state \<Rightarrow> ((string, tool_result) result \<times> comm_state) option" where
  "inbox_continue env args tenant_id aid st =
     (case required_string args ''child_agent_id'' of Inl e \<Rightarrow> Some (Inr (tool_err e), st) | Inr child \<Rightarrow>
     (case required_string args ''body'' of Inl e \<Rightarrow> Some (Inr (tool_err e), st) | Inr body \<Rightarrow>
        continue_worker_from_parent env (continue_request_of args tenant_id aid child body) st))"

definition message_inbox :: "comm_env \<Rightarrow> json \<Rightarrow> comm_state \<Rightarrow> ((string, tool_result) result \<times> comm_state) option" where
  "message_inbox env args st =
     (case required_string args ''action'' of Inl e \<Rightarrow> Some (Inr (tool_err e), st) | Inr action0 \<Rightarrow>
     (case required_string args ''tenant_id'' of Inl e \<Rightarrow> Some (Inr (tool_err e), st) | Inr tenant_id \<Rightarrow>
     (case required_string args ''agent_id'' of Inl e \<Rightarrow> Some (Inr (tool_err e), st) | Inr aid \<Rightarrow>
        let action = to_ascii_lowercase action0 in
        if action = ''list'' then Some (Inr (inbox_list env args tenant_id aid st), st)
        else if action = ''get'' then Some (Inr (inbox_get env args tenant_id aid st), st)
        else if action = ''ack'' then (case inbox_ack env args tenant_id aid st of (r, st') \<Rightarrow> Some (Inr r, st'))
        else if action = ''continue_worker'' then inbox_continue env args tenant_id aid st
        else Some (Inr (tool_err (''unsupported action '' @ quoted_key action)), st))))"

section \<open>Delegation\<close>

record delegate_args =
  da_tenant_id :: string
  da_parent_id :: string
  da_sub_goals :: "string list"
  da_worker_type :: "string option"
  da_task_id :: "string option"
  da_write_scope :: "string list"
  da_continue_child_id :: "string option"

definition raw_string :: "json \<Rightarrow> string \<Rightarrow> string option" where
  "raw_string args key = Option.bind (json_get key args) as_str"

definition raw_strings :: "json \<Rightarrow> string \<Rightarrow> string list" where
  "raw_strings args key =
     (case Option.bind (json_get key args) as_array of Some vs \<Rightarrow> List.map_filter as_str vs | None \<Rightarrow> [])"

definition parse_delegate_args :: "json \<Rightarrow> (string, delegate_args) result" where
  "parse_delegate_args args =
     (let tenant_id = (case raw_string args ''tenant_id'' of Some t \<Rightarrow> t | None \<Rightarrow> []);
          parent_id = (case raw_string args ''parent_agent_id'' of Some p \<Rightarrow> p | None \<Rightarrow> []);
          sub_goals = raw_strings args ''sub_goals''; continue_child_id = raw_string args ''continue_child_id'' in
      if sub_goals = [] \<and> continue_child_id = None
      then Inl ''sub_goals must not be empty unless continue_child_id is provided''
      else if tenant_id = [] \<or> parent_id = [] then Inl ''tenant_id and parent_agent_id are required''
      else Inr \<lparr>da_tenant_id = tenant_id, da_parent_id = parent_id, da_sub_goals = sub_goals,
        da_worker_type = raw_string args ''worker_type'', da_task_id = raw_string args ''task_id'',
        da_write_scope = raw_strings args ''write_scope'', da_continue_child_id = continue_child_id\<rparr>)"

definition delegate_result :: "string list \<Rightarrow> string option \<Rightarrow> tool_result" where
  "delegate_result child_ids continued = tool_ok (obj_of_list
     [(''child_agent_ids'', string_array_json child_ids), (''continued_child_id'', json_or_null continued),
      (''message'', JString (show_nat (length child_ids) @ '' sub-agents spawned and scheduled''))])"

definition delegation_context :: "comm_env \<Rightarrow> delegate_args \<Rightarrow> string \<Rightarrow> time \<Rightarrow> json" where
  "delegation_context env a stamp now = obj_of_list
     [(''worker_type'', json_or_null (da_worker_type a)), (''task_id'', json_or_null (da_task_id a)),
      (''write_scope'', string_array_json (da_write_scope a)), (stamp, JString (ce_rfc3339 env now))]"

definition push_or_log :: "comm_env \<Rightarrow> string \<Rightarrow> time \<Rightarrow> string \<Rightarrow> comm_state \<Rightarrow> comm_state" where
  "push_or_log env uuid now aid st = snd (swarm_push env uuid now aid st)"

text \<open>\<open>None\<close> is a panic on the child's metadata.\<close>

definition continue_child :: "comm_env \<Rightarrow> delegate_args \<Rightarrow> comm_state \<Rightarrow> (string option \<times> comm_state) option" where
  "continue_child env a st =
     (case Option.bind (da_continue_child_id a) (\<lambda>cid. get_agent (da_tenant_id a) cid (cs_agents st)) of
        None \<Rightarrow> Some (None, st)
      | Some child \<Rightarrow> map_option (\<lambda>c.
          (da_continue_child_id a,
           push_or_log env (ce_uuid env 0) (ce_clock env 1) (the (da_continue_child_id a))
             (st\<lparr>cs_agents := upsert_agent (ce_ext env) c (cs_agents st)\<rparr>)))
          (set_metadata ''delegation_context'' (delegation_context env a ''continued_at'' (ce_clock env 0)) child))"

definition spawned_child :: "comm_env \<Rightarrow> delegate_args \<Rightarrow> nat \<Rightarrow> string \<Rightarrow> string \<Rightarrow> agent_state" where
  "spawned_child env a i sub_goal workspace =
     (agent_new (ce_uuid env (2 * i + 1)) (da_tenant_id a) sub_goal workspace (ce_clock env (3 * i + 2)))
     \<lparr>as_parent_agent_id := Some (da_parent_id a),
      as_metadata := JObject [(''delegation_context'', delegation_context env a ''spawned_at'' (ce_clock env (3 * i + 3)))]\<rparr>"

text \<open>The children of the sub-goals from number \<open>i\<close> on: their identifiers, or the error of the workspace
  manager, which leaves the children before it in place.\<close>

fun spawn_children ::
  "comm_env \<Rightarrow> delegate_args \<Rightarrow> nat \<Rightarrow> string list \<Rightarrow> comm_state \<Rightarrow> (string, string list) result \<times> comm_state" where
  "spawn_children env a i [] st = (Inr [], st)"
| "spawn_children env a i (g # gs) st =
     (case ce_workspace env (da_tenant_id a) (ce_uuid env (2 * i + 1)) of
        Inl e \<Rightarrow> (Inl e, st)
      | Inr workspace \<Rightarrow>
          let child = spawned_child env a i g workspace;
              st1 = push_or_log env (ce_uuid env (2 * i + 2)) (ce_clock env (3 * i + 4)) (as_id child)
                (st\<lparr>cs_agents := upsert_agent (ce_ext env) child (cs_agents st)\<rparr>)
          in case spawn_children env a (i + 1) gs st1 of
               (Inl e, st2) \<Rightarrow> (Inl e, st2)
             | (Inr ids, st2) \<Rightarrow> (Inr (as_id child # ids), st2))"

definition delegate :: "comm_env \<Rightarrow> json \<Rightarrow> comm_state \<Rightarrow> ((string, tool_result) result \<times> comm_state) option" where
  "delegate env args st =
     (case parse_delegate_args args of
        Inl e \<Rightarrow> Some (Inr (tool_err e), st)
      | Inr a \<Rightarrow> map_option (\<lambda>(continued, st1).
          case spawn_children env a 0 (da_sub_goals a) st1 of
            (Inl e, st2) \<Rightarrow> (Inl e, st2)
          | (Inr ids, st2) \<Rightarrow>
              (Inr (delegate_result ((case continued of Some c \<Rightarrow> [c] | None \<Rightarrow> []) @ ids) continued), st2))
          (continue_child env a st))"

section \<open>Tasks keep their shape\<close>

text \<open>A call of one of the tools that change a task.\<close>

inductive task_call :: "comm_env \<Rightarrow> json \<Rightarrow> comm_state \<Rightarrow> comm_state \<Rightarrow> bool" where
  "task_create env args st = (r, st') \<Longrightarrow> task_call env args st st'"
| "task_update env args st = (r, st') \<Longrightarrow> task_call env args st st'"
| "task_stop env args st = Some (r, st') \<Longrightarrow> task_call env args st st'"
| "task_output_call env args st = (r, st') \<Longrightarrow> task_call env args st st'"

definition closed_ok :: "session_task \<Rightarrow> bool" where
  "closed_ok t \<longleftrightarrow> (st_completed_at t \<noteq> None \<longleftrightarrow> task_finished (st_status t))"

definition tasks_ok :: "session_task_row list \<Rightarrow> bool" where
  "tasks_ok rows \<longleftrightarrow> distinct (map sk_id rows) \<and> (\<forall>r\<in>set rows. closed_ok (row_to_session_task r))"

lemma closed_ok_set_status [simp]: "closed_ok (set_status s now t)"
  by (simp add: closed_ok_def set_status_def)

lemma created_task_fields [simp]:
  "st_id (created_task env args t a s) = ce_uuid env 0" "st_tenant_id (created_task env args t a s) = t"
  "closed_ok (created_task env args t a s)"
  by (simp_all add: created_task_def session_task_new_def closed_ok_def task_finished_def)

lemma closed_ok_row:
  "closed_ok (row_to_session_task ((session_task_row_of ext t)
     \<lparr>sk_tenant_id := a, sk_agent_id := b, sk_created_at := c\<rparr>)) \<longleftrightarrow> closed_ok t"
  "closed_ok (row_to_session_task (session_task_row_of ext t)) \<longleftrightarrow> closed_ok t"
  by (simp_all add: closed_ok_def row_to_session_task_def session_task_row_of_def)

lemma upsert_task_ids:
  "map sk_id (upsert_session_task ext t rows) =
     (if st_id t \<in> sk_id ` set rows then map sk_id rows else map sk_id rows @ [st_id t])"
  by (simp add: upsert_session_task_def Let_def session_task_row_of_def)

lemma upsert_tasks_ok: "tasks_ok rows \<Longrightarrow> closed_ok t \<Longrightarrow> tasks_ok (upsert_session_task ext t rows)"
  unfolding tasks_ok_def upsert_task_ids
  by (auto simp: upsert_session_task_def Let_def closed_ok_row)

lemma addressed_taskD:
  assumes "addressed_task args st = Inr t"
  shows "\<exists>tenant_id r. required_string args ''tenant_id'' = Inr tenant_id \<and> r \<in> set (cs_tasks st)
    \<and> sk_tenant_id r = tenant_id \<and> sk_id r = st_id t \<and> t = row_to_session_task r"
proof -
  obtain tenant_id tid r where *: "required_string args ''tenant_id'' = Inr tenant_id"
      "find (\<lambda>r. sk_tenant_id r = tenant_id \<and> sk_id r = tid) (cs_tasks st) = Some r" "t = row_to_session_task r"
    using assms by (auto simp: addressed_task_def get_session_task_def split: sum.splits option.splits)
  from find_mem [OF *(2)] have "r \<in> set (cs_tasks st)" "sk_tenant_id r = tenant_id" by auto
  moreover have "sk_id r = st_id t" by (simp add: *(3) row_to_session_task_def)
  ultimately show ?thesis using * by blast
qed

lemma addressed_closed_ok: "addressed_task args st = Inr t \<Longrightarrow> tasks_ok (cs_tasks st) \<Longrightarrow> closed_ok t"
  by (auto simp: tasks_ok_def dest: addressed_taskD)

lemma updated_task_frame:
  "\<exists>u. st_id u = st_id t \<and> st_status u = st_status t \<and> st_completed_at u = st_completed_at t
     \<and> (updated_task env args t = set_status (the (status_arg args)) (ce_clock env 0) u
        \<or> updated_task env args t = u\<lparr>st_updated_at := ce_clock env 0\<rparr>)"
proof -
  define u where "u = (let
      t = (case optional_string args ''subject'' of Some s \<Rightarrow> t\<lparr>st_subject := s\<rparr> | None \<Rightarrow> t);
      t = (case optional_string args ''description'' of Some d \<Rightarrow> t\<lparr>st_description := d\<rparr> | None \<Rightarrow> t);
      t = (case optional_string args ''owner'' of Some w \<Rightarrow> t\<lparr>st_owner := Some w\<rparr> | None \<Rightarrow> t);
      t = (if json_get ''blocked_by'' args \<noteq> None then t\<lparr>st_blocked_by := parse_string_array args ''blocked_by''\<rparr> else t);
      t = (if json_get ''blocks'' args \<noteq> None then t\<lparr>st_blocks := parse_string_array args ''blocks''\<rparr> else t)
    in case json_get ''metadata'' args of Some m \<Rightarrow> t\<lparr>st_metadata := m\<rparr> | None \<Rightarrow> t)"
  have "st_id u = st_id t \<and> st_status u = st_status t \<and> st_completed_at u = st_completed_at t"
    by (simp add: u_def Let_def option.case_eq_if)
  moreover have "updated_task env args t = (case status_arg args of
      Some s \<Rightarrow> set_status s (ce_clock env 0) u | None \<Rightarrow> u\<lparr>st_updated_at := ce_clock env 0\<rparr>)"
    by (simp only: updated_task_def u_def Let_def)
  ultimately show ?thesis by (cases "status_arg args") auto
qed

lemma updated_closed_ok: "closed_ok t \<Longrightarrow> closed_ok (updated_task env args t)"
  using updated_task_frame [of t env args] by (auto simp: closed_ok_def set_status_def split: if_splits)

lemma stopped_closed_ok: "stopped_task env args t = Some t' \<Longrightarrow> closed_ok t'"
  by (auto simp: stopped_task_def Let_def closed_ok_def set_status_def task_finished_def split: option.splits)

lemma updated_id [simp]: "st_id (updated_task env args t) = st_id t"
  using updated_task_frame [of t env args] by (auto simp: set_status_def)

lemma stopped_id: "stopped_task env args t = Some t' \<Longrightarrow> st_id t' = st_id t"
  by (auto simp: stopped_task_def Let_def set_status_def split: option.splits)

lemma recorded_id [simp]: "st_id (recorded_task env args s t) = st_id t"
  by (simp add: recorded_task_def set_status_def set_output_def)

lemma closed_ok_recorded: "closed_ok (recorded_task env args s t)"
  by (simp add: recorded_task_def)

text \<open>What a call does to the table: nothing, the insertion of a new task of the tenant of the call, or
  the update of the task it addresses.\<close>

lemma task_call_cases:
  assumes "task_call env args st st'"
  obtains (none) "st' = st"
  | (new) t where "st' = store_session_task env t st" "st_id t = ce_uuid env 0" "closed_ok t"
      "required_string args ''tenant_id'' = Inr (st_tenant_id t)"
  | (old) t t' where "st' = store_session_task env t' st" "addressed_task args st = Inr t" "st_id t' = st_id t"
      "closed_ok t \<Longrightarrow> closed_ok t'"
  using assms
proof cases
  case 1
  then consider "st' = st" | tenant_id agent_id subject where "required_string args ''tenant_id'' = Inr tenant_id"
      "st' = store_session_task env (created_task env args tenant_id agent_id subject) st"
    by (auto simp: task_create_def Let_def split: sum.splits)
  then show ?thesis
  proof cases
    case (2 tenant_id agent_id subject)
    then show ?thesis by (intro new [of "created_task env args tenant_id agent_id subject"]) simp_all
  qed (use none in simp)
next
  case 2
  then show ?thesis
    using none old updated_closed_ok by (auto simp: task_update_def split: sum.splits)
next
  case 3
  then show ?thesis
    using none old stopped_closed_ok stopped_id by (fastforce simp: task_stop_def split: sum.splits)
next
  case 4
  then consider "st' = st" | t status where "addressed_task args st = Inr t"
      "st' = store_session_task env (recorded_task env args status t) st"
    by (auto simp: task_output_call_def split: sum.splits option.splits)
  then show ?thesis
  proof cases
    case (2 t status)
    then show ?thesis by (intro old [of "recorded_task env args status t" t]) (simp_all add: closed_ok_recorded)
  qed (use none in simp)
qed

text \<open>Whatever the tools do, every stored task has one row, and it has a completion time exactly when
  its status is completed, failed or stopped.\<close>

theorem task_calls_keep_completion:
  assumes "task_call env args st st'" and "tasks_ok (cs_tasks st)"
  shows "tasks_ok (cs_tasks st')"
  using assms(1)
proof (cases rule: task_call_cases)
  case (old t t')
  with assms(2) show ?thesis by (simp add: store_session_task_def upsert_tasks_ok addressed_closed_ok)
qed (use assms(2) in \<open>simp_all add: store_session_task_def upsert_tasks_ok\<close>)

lemma filter_map_same:
  "(\<And>r. r \<in> set rows \<Longrightarrow> P (f r) = P r \<and> (P r \<longrightarrow> f r = r)) \<Longrightarrow> filter P (map f rows) = filter P rows"
  by (induction rows) auto

text \<open>A call of the task tools touches only tasks of the tenant it is made for.\<close>

theorem tasks_of_others_untouched:
  assumes "task_call env args st st'" and "distinct (map sk_id (cs_tasks st))"
    and "ce_uuid env 0 \<notin> sk_id ` set (cs_tasks st)" and "required_string args ''tenant_id'' \<noteq> Inr other"
  shows "filter (\<lambda>r. sk_tenant_id r = other) (cs_tasks st') = filter (\<lambda>r. sk_tenant_id r = other) (cs_tasks st)"
  using assms(1)
proof (cases rule: task_call_cases)
  case (new t)
  then have "st_tenant_id t \<noteq> other" using assms(4) by auto
  with new assms(3) show ?thesis
    by (simp add: store_session_task_def upsert_session_task_def session_task_row_of_def)
next
  case (old t t')
  obtain r where r: "r \<in> set (cs_tasks st)" "sk_id r = st_id t" "sk_tenant_id r \<noteq> other"
    using addressed_taskD [OF old(2)] assms(4) by auto
  have "sk_tenant_id r' \<noteq> other" if "r' \<in> set (cs_tasks st)" "sk_id r' = st_id t" for r'
    using r that assms(2) by (metis distinct_map inj_on_eq_iff)
  moreover have "st_id t \<in> sk_id ` set (cs_tasks st)" using r by force
  ultimately show ?thesis
    using old(1,3) by (simp add: store_session_task_def upsert_session_task_def Let_def) (rule filter_map_same, auto)
qed simp

text \<open>A task whose metadata is not an object cannot be stopped with a reason: the assignment panics.\<close>

theorem stop_panics_on_plain_metadata:
  assumes "addressed_task args st = Inr t" "st_metadata t = JString s" "optional_string args ''reason'' = Some reason"
  shows "task_stop env args st = None"
  using assms by (simp add: task_stop_def stopped_task_def set_status_def Let_def)

section \<open>Messages arrive\<close>

lemma send_message_success:
  assumes "send_message env args st = (r, st')" "tr_success r"
  obtains tenant_id sender recipient kind contract where
    "required_string args ''tenant_id'' = Inr tenant_id" "required_string args ''agent_id'' = Inr sender"
    "recipient_of args = Inr recipient" "get_agent tenant_id recipient (cs_agents st) \<noteq> None"
    "st' = (post env (composed_message env args tenant_id sender recipient kind contract) st)
       \<lparr>cs_events := cs_events st @ announce (composed_message env args tenant_id sender recipient kind contract)\<rparr>"
proof -
  note failed = send_message_def tool_err_def
  obtain tenant_id where 1: "required_string args ''tenant_id'' = Inr tenant_id"
    using assms by (cases "required_string args ''tenant_id''") (auto simp: failed)
  obtain sender where 2: "required_string args ''agent_id'' = Inr sender"
    using assms 1 by (cases "required_string args ''agent_id''") (auto simp: failed)
  obtain recipient where 3: "recipient_of args = Inr recipient"
    using assms 1 2 by (cases "recipient_of args") (auto simp: failed)
  have 4: "get_agent tenant_id recipient (cs_agents st) \<noteq> None"
    using assms 1 2 3 by (cases "get_agent tenant_id recipient (cs_agents st)") (auto simp: failed)
  obtain contract where 5: "parse_result_contract args = Inr contract"
    using assms 1 2 3 4 by (cases "parse_result_contract args") (auto simp: failed)
  obtain kind where 6: "parse_message_kind args = Inr kind"
    using assms 1 2 3 4 5 by (cases "parse_message_kind args") (auto simp: failed)
  show thesis
    by (rule that [OF 1 2 3 4]) (use assms(1) 1 2 3 4 5 6 in \<open>auto simp: send_message_def Let_def post_def\<close>)
qed

lemma composed_fields [simp]:
  "am_id (composed_message env args t s r k c) = ce_uuid env 0" "am_tenant_id (composed_message env args t s r k c) = t"
  "am_recipient_agent_id (composed_message env args t s r k c) = r" "am_delivered_at (composed_message env args t s r k c) = None"
  by (simp_all add: composed_message_def agent_message_new_def)

lemma posted_fresh:
  "am_id m \<notin> mr_id ` set rows \<Longrightarrow> create_agent_message ext m rows = rows @ [agent_message_row_of ext m]"
  by (simp add: create_agent_message_def)

lemma message_row_fields [simp]:
  "mr_id (agent_message_row_of ext m) = am_id m" "mr_tenant_id (agent_message_row_of ext m) = am_tenant_id m"
  "mr_recipient_agent_id (agent_message_row_of ext m) = am_recipient_agent_id m"
  "mr_delivered_at (agent_message_row_of ext m) = map_option (db_time ext) (am_delivered_at m)"
  by (simp_all add: agent_message_row_of_def)

text \<open>A message that was sent waits in the inbox of its recipient, an existing agent of the tenant, and
  in no other; once the recipient acknowledges it, the inbox is what it was before.\<close>

theorem message_lifecycle:
  assumes "send_message env args st = (r, st')" and "tr_success r"
    and "ce_uuid env 0 \<notin> mr_id ` set (cs_messages st)"
  shows "\<exists>tenant_id recipient. required_string args ''tenant_id'' = Inr tenant_id \<and> recipient_of args = Inr recipient
    \<and> get_agent tenant_id recipient (cs_agents st) \<noteq> None
    \<and> count_undelivered_agent_messages tenant_id recipient (cs_messages st')
        = Suc (count_undelivered_agent_messages tenant_id recipient (cs_messages st))
    \<and> (\<forall>t a. (t, a) \<noteq> (tenant_id, recipient) \<longrightarrow>
        list_undelivered_agent_messages t a (cs_messages st') = list_undelivered_agent_messages t a (cs_messages st))
    \<and> (\<forall>now ok rows. mark_agent_message_delivered_for_recipient tenant_id recipient (ce_uuid env 0) now (cs_messages st') = (ok, rows)
        \<longrightarrow> ok \<and> list_undelivered_agent_messages tenant_id recipient rows
            = list_undelivered_agent_messages tenant_id recipient (cs_messages st))"
  using assms(1,2)
proof (cases rule: send_message_success)
  case (1 tenant_id sender recipient kind contract)
  let ?m = "composed_message env args tenant_id sender recipient kind contract"
  have msgs: "cs_messages st' = cs_messages st @ [agent_message_row_of (ce_ext env) ?m]"
    using 1(5) assms(3) by (simp add: post_def posted_fresh)
  have "filter (undelivered tenant_id recipient) (map (\<lambda>r. if mr_tenant_id r = tenant_id \<and> mr_id r = ce_uuid env 0
      \<and> mr_recipient_agent_id r = recipient then r\<lparr>mr_delivered_at := Some now\<rparr> else r) (cs_messages st))
    = filter (undelivered tenant_id recipient) (cs_messages st)" for now
    proof (rule filter_map_same)
    fix r assume "r \<in> set (cs_messages st)"
    then have "mr_id r \<noteq> ce_uuid env 0" using assms(3) by (metis imageI)
    then show "undelivered tenant_id recipient (if mr_tenant_id r = tenant_id \<and> mr_id r = ce_uuid env 0
          \<and> mr_recipient_agent_id r = recipient then r\<lparr>mr_delivered_at := Some now\<rparr> else r) = undelivered tenant_id recipient r
        \<and> (undelivered tenant_id recipient r \<longrightarrow> (if mr_tenant_id r = tenant_id \<and> mr_id r = ce_uuid env 0
          \<and> mr_recipient_agent_id r = recipient then r\<lparr>mr_delivered_at := Some now\<rparr> else r) = r)"
      by simp
  qed
  with 1 msgs show ?thesis
    by (auto simp: count_undelivered_agent_messages_def list_undelivered_agent_messages_def undelivered_def
        mark_agent_message_delivered_for_recipient_def Let_def)
qed

section \<open>Delegation\<close>

definition fresh_children :: "comm_env \<Rightarrow> nat \<Rightarrow> nat \<Rightarrow> agent_row list \<Rightarrow> bool" where
  "fresh_children env i n rows \<longleftrightarrow> distinct (map (\<lambda>k. ce_uuid env (2 * k + 1)) [i..<i + n])
     \<and> (\<forall>k\<in>{i..<i + n}. ce_uuid env (2 * k + 1) \<notin> ag_id ` set rows \<and> ce_push env (ce_uuid env (2 * k + 1)) = None)"

lemma fresh_childrenD:
  assumes "fresh_children env i (Suc n) rows"
  shows "ce_uuid env (2 * i + 1) \<notin> ag_id ` set rows" "ce_push env (ce_uuid env (2 * i + 1)) = None"
    "ag_id r = ce_uuid env (2 * i + 1) \<Longrightarrow> fresh_children env (i + 1) n (rows @ [r])"
proof -
  have up: "[i..<i + Suc n] = i # [i + 1..<i + 1 + n]" by (simp add: upt_conv_Cons)
  show "ce_uuid env (2 * i + 1) \<notin> ag_id ` set rows" "ce_push env (ce_uuid env (2 * i + 1)) = None"
    using assms by (simp_all add: fresh_children_def)
  show "fresh_children env (i + 1) n (rows @ [r])" if r: "ag_id r = ce_uuid env (2 * i + 1)"
  proof -
    have d: "distinct (ce_uuid env (2 * i + 1) # map (\<lambda>k. ce_uuid env (2 * k + 1)) [i + 1..<i + 1 + n])"
      using assms unfolding fresh_children_def up list.map by (rule conjunct1)
    have "ce_uuid env (2 * k + 1) \<noteq> ag_id r" if "k \<in> {i + 1..<i + 1 + n}" for k
    proof -
      from that have "ce_uuid env (2 * k + 1) \<in> set (map (\<lambda>k. ce_uuid env (2 * k + 1)) [i + 1..<i + 1 + n])"
        by (simp only: set_map set_upt image_eqI)
      with d show ?thesis unfolding r by (metis distinct.simps(2))
    qed
    moreover have "ce_uuid env (2 * k + 1) \<notin> ag_id ` set rows \<and> ce_push env (ce_uuid env (2 * k + 1)) = None"
      if "k \<in> {i + 1..<i + 1 + n}" for k
      using assms that unfolding fresh_children_def by simp
    ultimately show ?thesis
      using d unfolding fresh_children_def by simp
  qed
qed

lemma spawned_child_id [simp]: "as_id (spawned_child env a i g ws) = ce_uuid env (2 * i + 1)"
  by (simp add: spawned_child_def agent_new_def)

lemma spawn_children_all:
  assumes "fresh_children env i (length gs) (cs_agents st)"
    and "\<forall>k\<in>{i..<i + length gs}. \<exists>ws. ce_workspace env (da_tenant_id a) (ce_uuid env (2 * k + 1)) = Inr ws"
  shows "\<exists>st'. spawn_children env a i gs st = (Inr (map (\<lambda>k. ce_uuid env (2 * k + 1)) [i..<i + length gs]), st')
    \<and> cs_agents st' = cs_agents st @ map (\<lambda>k. agent_row_of (ce_ext env) (spawned_child env a k (gs ! (k - i))
        (projr (ce_workspace env (da_tenant_id a) (ce_uuid env (2 * k + 1)))))) [i..<i + length gs]
    \<and> map task_agent_id (cs_queue st') = map task_agent_id (cs_queue st) @ map (\<lambda>k. ce_uuid env (2 * k + 1)) [i..<i + length gs]
    \<and> cs_tasks st' = cs_tasks st \<and> cs_messages st' = cs_messages st"
  using assms
proof (induction gs arbitrary: i st)
  case (Cons g gs)
  obtain ws where ws: "ce_workspace env (da_tenant_id a) (ce_uuid env (2 * i + 1)) = Inr ws"
    using Cons.prems(2) by fastforce
  let ?child = "spawned_child env a i g ws"
  let ?st1 = "push_or_log env (ce_uuid env (2 * i + 2)) (ce_clock env (3 * i + 4)) (as_id ?child)
    (st\<lparr>cs_agents := upsert_agent (ce_ext env) ?child (cs_agents st)\<rparr>)"
  have fresh: "fresh_children env i (Suc (length gs)) (cs_agents st)" using Cons.prems(1) by simp
  have row: "ag_id (agent_row_of (ce_ext env) ?child) = ce_uuid env (2 * i + 1)" by (simp add: agent_row_of_def)
  have agents: "cs_agents ?st1 = cs_agents st @ [agent_row_of (ce_ext env) ?child]"
    and queue: "map task_agent_id (cs_queue ?st1) = map task_agent_id (cs_queue st) @ [ce_uuid env (2 * i + 1)]"
    and rest: "cs_tasks ?st1 = cs_tasks st" "cs_messages ?st1 = cs_messages st"
    using fresh_childrenD(1,2) [OF fresh]
    by (simp_all add: push_or_log_def swarm_push_def upsert_agent_def mem_enqueue_def task_new_def)
  have "fresh_children env (i + 1) (length gs) (cs_agents ?st1)"
    unfolding agents by (rule fresh_childrenD(3) [OF fresh row])
  moreover have "\<forall>k\<in>{i + 1..<i + 1 + length gs}. \<exists>ws. ce_workspace env (da_tenant_id a) (ce_uuid env (2 * k + 1)) = Inr ws"
    using Cons.prems(2) by auto
  ultimately obtain st' where st': "spawn_children env a (i + 1) gs ?st1
      = (Inr (map (\<lambda>k. ce_uuid env (2 * k + 1)) [i + 1..<i + 1 + length gs]), st')"
    "cs_agents st' = cs_agents ?st1 @ map (\<lambda>k. agent_row_of (ce_ext env) (spawned_child env a k (gs ! (k - (i + 1)))
        (projr (ce_workspace env (da_tenant_id a) (ce_uuid env (2 * k + 1)))))) [i + 1..<i + 1 + length gs]"
    "map task_agent_id (cs_queue st') = map task_agent_id (cs_queue ?st1) @ map (\<lambda>k. ce_uuid env (2 * k + 1)) [i + 1..<i + 1 + length gs]"
    "cs_tasks st' = cs_tasks ?st1" "cs_messages st' = cs_messages ?st1"
    using Cons.IH by blast
  have up: "[i..<i + length (g # gs)] = i # [i + 1..<i + 1 + length gs]"
    using upt_conv_Cons [of i "i + length (g # gs)"] by (simp del: upt.simps)
  have nth: "(g # gs) ! (k - i) = gs ! (k - (i + 1))" if "k \<in> set [i + 1..<i + 1 + length gs]" for k
  proof -
    from that have "k - i = Suc (k - (i + 1))" by auto
    then show ?thesis by simp
  qed
  have "map (\<lambda>k. agent_row_of (ce_ext env) (spawned_child env a k ((g # gs) ! (k - i)) (W k))) [i + 1..<i + 1 + length gs]
      = map (\<lambda>k. agent_row_of (ce_ext env) (spawned_child env a k (gs ! (k - (i + 1))) (W k))) [i + 1..<i + 1 + length gs]" for W
    by (rule map_cong [OF refl]) (simp only: nth)
  moreover have "spawn_children env a i (g # gs) st
      = (Inr (ce_uuid env (2 * i + 1) # map (\<lambda>k. ce_uuid env (2 * k + 1)) [i + 1..<i + 1 + length gs]), st')"
    by (simp only: spawn_children.simps ws sum.case Let_def spawned_child_id st'(1) [unfolded spawned_child_id] prod.case)
  moreover have "spawned_child env a i ((g # gs) ! (i - i)) (projr (ce_workspace env (da_tenant_id a) (ce_uuid env (2 * i + 1)))) = ?child"
    by (simp only: ws sum.sel diff_self_eq_0 nth_Cons_0)
  ultimately show ?case
    unfolding up list.map using st'(2-) unfolding agents queue rest
    by (simp only: append_assoc append_Cons append_Nil) blast
qed simp

text \<open>Delegation without a child to continue creates one new agent for each sub-goal, in order: a
  pending child of the caller in the caller's tenant, stored and queued once, under the identifiers
  that the caller gets back; nothing else changes.\<close>

theorem delegation_spawns_children:
  assumes "parse_delegate_args args = Inr a" and "da_continue_child_id a = None"
    and "fresh_children env 0 (length (da_sub_goals a)) (cs_agents st)"
    and "\<forall>k<length (da_sub_goals a). \<exists>ws. ce_workspace env (da_tenant_id a) (ce_uuid env (2 * k + 1)) = Inr ws"
  shows "\<exists>st' ids rows. delegate env args st = Some (Inr (delegate_result ids None), st')
    \<and> length ids = length (da_sub_goals a) \<and> distinct ids
    \<and> cs_agents st' = cs_agents st @ rows \<and> map ag_id rows = ids \<and> map ag_goal rows = da_sub_goals a
    \<and> (\<forall>r\<in>set rows. ag_status r = ''pending'' \<and> ag_parent_agent_id r = Some (da_parent_id a)
        \<and> ag_tenant_id r = da_tenant_id a \<and> ag_pending_children r = [])
    \<and> map task_agent_id (cs_queue st') = map task_agent_id (cs_queue st) @ ids
    \<and> cs_tasks st' = cs_tasks st \<and> cs_messages st' = cs_messages st"
proof -
  let ?gs = "da_sub_goals a"
  obtain st' where s: "spawn_children env a 0 ?gs st = (Inr (map (\<lambda>k. ce_uuid env (2 * k + 1)) [0..<length ?gs]), st')"
    "cs_agents st' = cs_agents st @ map (\<lambda>k. agent_row_of (ce_ext env) (spawned_child env a k (?gs ! k)
        (projr (ce_workspace env (da_tenant_id a) (ce_uuid env (2 * k + 1)))))) [0..<length ?gs]"
    "map task_agent_id (cs_queue st') = map task_agent_id (cs_queue st) @ map (\<lambda>k. ce_uuid env (2 * k + 1)) [0..<length ?gs]"
    "cs_tasks st' = cs_tasks st" "cs_messages st' = cs_messages st"
    using spawn_children_all [OF assms(3), of a] assms(4) by auto
  have "delegate env args st = Some (Inr (delegate_result (map (\<lambda>k. ce_uuid env (2 * k + 1)) [0..<length ?gs]) None), st')"
    using assms(1,2) s(1) by (simp add: delegate_def continue_child_def)
  moreover have "distinct (map (\<lambda>k. ce_uuid env (2 * k + 1)) [0..<length ?gs])"
    using assms(3) by (simp add: fresh_children_def)
  moreover have "map (\<lambda>k. ?gs ! k) [0..<length ?gs] = ?gs" by (rule map_nth)
  ultimately show ?thesis
    using s by (intro exI) (auto simp: agent_row_of_def spawned_child_def agent_new_def comp_def)
qed

text \<open>When a workspace cannot be made, the call fails, but the children before it are already stored and
  queued: nobody waits for them, and a repeated call spawns them anew.\<close>

theorem failed_delegation_leaves_children:
  assumes "da_sub_goals a = [g1, g2]" and "ce_workspace env (da_tenant_id a) (ce_uuid env 1) = Inr ws"
    and "ce_workspace env (da_tenant_id a) (ce_uuid env 3) = Inl e" and "ce_push env (ce_uuid env 1) = None"
    and "ce_uuid env 1 \<notin> ag_id ` set (cs_agents st)"
  shows "\<exists>st'. spawn_children env a 0 (da_sub_goals a) st = (Inl e, st')
    \<and> ce_uuid env 1 \<in> ag_id ` set (cs_agents st') \<and> ce_uuid env 1 \<in> task_agent_id ` set (cs_queue st')"
  using assms
  by (auto simp: push_or_log_def swarm_push_def upsert_agent_def mem_enqueue_def task_new_def agent_row_of_def Let_def
      numeral_3_eq_3)

text \<open>An agent that waits for itself is never woken: \<open>delegate\<close> checks neither that the child to continue
  is another agent nor that it is a child of the caller.\<close>

theorem self_delegation_never_resolves:
  assumes "a \<in> set rows" "ag_status a = ''delegating''" "ag_id a \<in> set (ag_pending_children a)"
  shows "\<not> children_done rows a"
  using assms by (auto simp: children_done_def list_ex_iff)

theorem continue_child_accepts_any_agent:
  assumes "get_agent (da_tenant_id a) c (cs_agents st) = Some s" "da_continue_child_id a = Some c"
    "as_metadata s = JObject kvs"
  shows "\<exists>st'. continue_child env a st = Some (Some c, st')"
  using assms by (simp add: continue_child_def set_metadata_def)

section \<open>Continuation\<close>

lemma swarm_push_agents [simp]: "cs_agents (snd (swarm_push env u now aid st)) = cs_agents st"
  by (simp add: swarm_push_def split: option.split)

lemma instructed_frame:
  "instructed env q m c = Some c' \<Longrightarrow> as_id c' = as_id c"
  by (auto simp: instructed_def set_metadata_def bind_eq_Some_conv)

lemma rescheduled_id [simp]: "as_id (rescheduled env m c) = as_id c"
  by (simp add: rescheduled_def Let_def clear_final_answer_def agent_mark_waiting_def split: option.split)

lemma upsert_agent_frame:
  "r \<in> set rows \<Longrightarrow> ag_id r \<noteq> as_id s \<Longrightarrow> r \<in> set (upsert_agent ext s rows)"
  by (auto simp: upsert_agent_def Let_def image_iff)

lemma continue_worker_agents:
  assumes "continue_worker_from_parent env q st = Some (r, st')" and "cs_agents st' \<noteq> cs_agents st"
  obtains child c where "get_agent (cq_tenant_id q) (cq_child_agent_id q) (cs_agents st) = Some child"
    "as_parent_agent_id child = Some (cq_parent_agent_id q)" "as_id c = as_id child"
    "cs_agents st' = upsert_agent (ce_ext env) c (cs_agents st)"
proof -
  obtain parent child where pc: "get_agent (cq_tenant_id q) (cq_parent_agent_id q) (cs_agents st) = Some parent"
      "get_agent (cq_tenant_id q) (cq_child_agent_id q) (cs_agents st) = Some child"
      "as_parent_agent_id child = Some (cq_parent_agent_id q)"
    using assms by (auto simp: continue_worker_from_parent_def split: option.splits if_splits)
  have nowait: "\<not> (as_status child = AgentDelegating \<and> as_pending_children child \<noteq> [])"
    using assms pc by (auto simp: continue_worker_from_parent_def split: if_splits)
  obtain c where c: "instructed env q (instruction_of env q parent child) child = Some c"
    using assms(1) pc nowait by (auto simp: continue_worker_from_parent_def Let_def)
  let ?c = "rescheduled env (instruction_of env q parent child) c"
  have "cs_agents st' = upsert_agent (ce_ext env) ?c (cs_agents st)"
    using assms(1) pc nowait c
    by (auto simp: continue_worker_from_parent_def Let_def post_def swarm_push_def split: option.splits)
  with pc show thesis using that [of child ?c] instructed_frame [OF c] by simp
qed

text \<open>C35: through its inbox an agent can restart only its own children: whatever it asks for, every other
  agent stays as it is stored.\<close>

theorem only_own_children_continued:
  assumes "message_inbox env args st = Some (r, st')" and "distinct (map ag_id (cs_agents st))"
    and "row \<in> set (cs_agents st)" and "ag_parent_agent_id row \<noteq> optional_string args ''agent_id''"
  shows "row \<in> set (cs_agents st')"
proof (cases "cs_agents st' = cs_agents st")
  case False
  obtain tenant_id aid child body where req: "required_string args ''agent_id'' = Inr aid"
      "continue_worker_from_parent env (continue_request_of args tenant_id aid child body) st = Some (r, st')"
    using assms(1) False
    by (auto simp: message_inbox_def inbox_continue_def inbox_ack_def Let_def split: sum.splits if_splits prod.splits)
  from continue_worker_agents [OF req(2) False] obtain ch c
    where ch: "get_agent tenant_id child (cs_agents st) = Some ch" "as_parent_agent_id ch = Some aid" "as_id c = as_id ch"
      "cs_agents st' = upsert_agent (ce_ext env) c (cs_agents st)"
    by (auto simp: continue_request_of_def)
  obtain r0 where r0: "r0 \<in> set (cs_agents st)" "ch = row_to_agent_state r0"
    using ch(1) by (auto simp: get_agent_def dest: find_mem)
  have "optional_string args ''agent_id'' = Some aid"
    using req(1) by (auto simp: required_string_def split: option.splits)
  with assms(4) ch(2) r0(2) have "row \<noteq> r0" by (auto simp: row_to_agent_state_def)
  with assms(2,3) r0 have "ag_id row \<noteq> as_id c"
    by (auto simp: ch(3) row_to_agent_state_def distinct_map inj_on_eq_iff)
  with assms(3) ch(4) show ?thesis by (simp add: upsert_agent_frame)
qed (use assms(3) in simp)

section \<open>Concrete calls\<close>

definition sample_comm :: comm_env where
  "sample_comm = \<lparr>ce_ext = sample_ext, ce_time_json = (\<lambda>_. ''t''), ce_rfc3339 = (\<lambda>_. ''t''), ce_clock = (\<lambda>n. int n * 1000),
     ce_uuid = (\<lambda>n. replicate n CHR ''u''), ce_workspace = (\<lambda>_ _. Inr ''/w''), ce_push = (\<lambda>_. None)\<rparr>"

text \<open>An agent \<open>a1\<close>, its child \<open>a2\<close>, and an agent \<open>a3\<close>, all of one tenant.\<close>

definition sample_comm_state :: comm_state where
  "sample_comm_state = \<lparr>cs_agents = map (agent_row_of sample_ext)
       [sample_agent, sample_agent\<lparr>as_id := ''a2'', as_parent_agent_id := Some ''a1''\<rparr>, sample_agent\<lparr>as_id := ''a3''\<rparr>],
     cs_tasks = [], cs_messages = [], cs_queue = [], cs_events = []\<rparr>"

definition sample_comm_args :: json where
  "sample_comm_args = obj_of_list
     [(''action'', JString ''continue_worker''), (''agent_id'', JString ''a1''), (''body'', JString ''go on''),
      (''child_agent_id'', JString ''a2''), (''parent_agent_id'', JString ''a1''), (''recipient_agent_id'', JString ''a2''),
      (''sub_goals'', string_array_json [''x'', ''y'']), (''subject'', JString ''s''), (''tenant_id'', JString ''t1'')]"

lemma sample_comm_strings:
  "required_string sample_comm_args ''tenant_id'' = Inr ''t1''" "required_string sample_comm_args ''agent_id'' = Inr ''a1''"
  "required_string sample_comm_args ''subject'' = Inr ''s''" "recipient_of sample_comm_args = Inr ''a2''"
  "optional_string sample_comm_args ''agent_id'' = Some ''a1''" "parse_result_contract sample_comm_args = Inr None"
  "parse_message_kind sample_comm_args = Inr UpdateMessage"
  by code_simp+

lemma sample_create:
  obtains r where "task_create sample_comm sample_comm_args sample_comm_state
    = (r, store_session_task sample_comm (created_task sample_comm sample_comm_args ''t1'' ''a1'' ''s'') sample_comm_state)"
  by (simp add: task_create_def sample_comm_strings Let_def)

theorem task_calls_keep_completion_witness:
  "tasks_ok (cs_tasks (store_session_task sample_comm (created_task sample_comm sample_comm_args ''t1'' ''a1'' ''s'') sample_comm_state))"
proof -
  obtain r where r: "task_create sample_comm sample_comm_args sample_comm_state
    = (r, store_session_task sample_comm (created_task sample_comm sample_comm_args ''t1'' ''a1'' ''s'') sample_comm_state)"
    by (rule sample_create)
  have "tasks_ok (cs_tasks sample_comm_state)" by (simp add: tasks_ok_def sample_comm_state_def)
  from task_calls_keep_completion [OF task_call.intros(1) [OF r] this] show ?thesis .
qed

theorem tasks_of_others_untouched_witness:
  "filter (\<lambda>r. sk_tenant_id r = ''t2'')
     (cs_tasks (store_session_task sample_comm (created_task sample_comm sample_comm_args ''t1'' ''a1'' ''s'') sample_comm_state)) = []"
proof -
  obtain r where r: "task_create sample_comm sample_comm_args sample_comm_state
    = (r, store_session_task sample_comm (created_task sample_comm sample_comm_args ''t1'' ''a1'' ''s'') sample_comm_state)"
    by (rule sample_create)
  have "cs_tasks sample_comm_state = []" by (simp add: sample_comm_state_def)
  with tasks_of_others_untouched [OF task_call.intros(1) [OF r], of "''t2''"] show ?thesis
    by (simp add: sample_comm_strings)
qed

lemma sample_agent_rows:
  "get_agent ''t1'' ''a2'' (cs_agents sample_comm_state) \<noteq> None" "distinct (map ag_id (cs_agents sample_comm_state))"
  by code_simp+

theorem message_lifecycle_witness:
  "\<exists>r st'. send_message sample_comm sample_comm_args sample_comm_state = (r, st') \<and> tr_success r
     \<and> count_undelivered_agent_messages ''t1'' ''a2'' (cs_messages st') = 1"
proof -
  obtain r st' where s: "send_message sample_comm sample_comm_args sample_comm_state = (r, st')" "tr_success r"
    using sample_agent_rows(1) by (simp add: send_message_def sample_comm_strings tool_ok_def Let_def)
  have "cs_messages sample_comm_state = []" by (simp add: sample_comm_state_def)
  with message_lifecycle [OF s] have "count_undelivered_agent_messages ''t1'' ''a2'' (cs_messages st') = 1"
    by (simp add: sample_comm_strings) (simp add: count_undelivered_agent_messages_def)
  with s show ?thesis by blast
qed

lemma sample_delegate_args:
  "parse_delegate_args sample_comm_args = Inr \<lparr>da_tenant_id = ''t1'', da_parent_id = ''a1'', da_sub_goals = [''x'', ''y''],
     da_worker_type = None, da_task_id = None, da_write_scope = [], da_continue_child_id = None\<rparr>"
  by code_simp

theorem delegation_spawns_children_witness:
  "\<exists>st'. delegate sample_comm sample_comm_args sample_comm_state = Some (Inr (delegate_result [''u'', ''uuu''] None), st')
     \<and> map task_agent_id (cs_queue st') = [''u'', ''uuu'']"
proof -
  have "fresh_children sample_comm 0 2 (cs_agents sample_comm_state)"
    by (simp add: fresh_children_def sample_comm_def sample_comm_state_def agent_row_of_def sample_agent_def agent_new_def
        numeral_2_eq_2 less_Suc_eq numeral_3_eq_3)
  with delegation_spawns_children [OF sample_delegate_args, of sample_comm sample_comm_state]
  obtain st' ids where d: "delegate sample_comm sample_comm_args sample_comm_state = Some (Inr (delegate_result ids None), st')"
      "map task_agent_id (cs_queue st') = map task_agent_id (cs_queue sample_comm_state) @ ids"
    by (auto simp: sample_comm_def numeral_2_eq_2)
  have "cs_queue sample_comm_state = []" by (simp add: sample_comm_state_def)
  moreover have "map_option (\<lambda>(r, st). map task_agent_id (cs_queue st)) (delegate sample_comm sample_comm_args sample_comm_state)
      = Some [''u'', ''uuu'']"
    by code_simp
  ultimately show ?thesis using d by simp
qed

theorem only_own_children_continued_witness:
  "\<exists>r st'. message_inbox sample_comm sample_comm_args sample_comm_state = Some (r, st')
     \<and> agent_row_of sample_ext (sample_agent\<lparr>as_id := ''a3''\<rparr>) \<in> set (cs_agents st')
     \<and> map ag_status (cs_agents st') = [''pending'', ''waiting'', ''pending'']"
proof -
  have run: "map_option (\<lambda>(r, st). map ag_status (cs_agents st)) (message_inbox sample_comm sample_comm_args sample_comm_state)
      = Some [''pending'', ''waiting'', ''pending'']"
    by code_simp
  then obtain r st' where m: "message_inbox sample_comm sample_comm_args sample_comm_state = Some (r, st')"
      "map ag_status (cs_agents st') = [''pending'', ''waiting'', ''pending'']"
    by auto
  let ?row = "agent_row_of sample_ext (sample_agent\<lparr>as_id := ''a3''\<rparr>)"
  have "?row \<in> set (cs_agents sample_comm_state)" "ag_parent_agent_id ?row \<noteq> Some ''a1''"
    by (simp_all add: sample_comm_state_def) (simp add: agent_row_of_def sample_agent_def agent_new_def)
  with only_own_children_continued [OF m(1) sample_agent_rows(2)] m show ?thesis
    by (auto simp: sample_comm_strings)
qed

end
