(* ===== verification/Tool_Selection.thy ===== *)
theory Tool_Selection
  imports Judgement
begin

text \<open>
  Which tools an agent is shown: the job of a goal and its preferred tools (\<open>JobType\<close> of
  \<open>agent/prompts.rs\<close>, which has the constructors of \<open>RoleCategory\<close>), the categories and the registry of
  tools (\<open>tools/mod.rs\<close>), and the choice of at most twenty tools for a step (\<open>tools/selector.rs\<close>).
  Unicode lower case and the class of alphanumeric characters are arguments.
\<close>

section \<open>Jobs\<close>

definition software_keywords :: "string list" where
  "software_keywords =
     [''fix'', ''bug'', ''code'', ''commit'', ''pull request'', ''repo'', ''compile'', ''lint'', ''refactor'',
      ''deploy'', ''ci'', ''pipeline'', ''test'', ''function'', ''class'', ''implement'', ''write code'',
      ''typescript'', ''python'']"

definition research_keywords :: "string list" where
  "research_keywords =
     [''research'', ''analyze'', ''analyse'', ''competitor'', ''pricing'', ''market'', ''report'', ''survey'',
      ''comparison'', ''benchmark'', ''investigate'', ''study'', ''findings'']"

definition support_keywords :: "string list" where
  "support_keywords =
     [''ticket'', ''support'', ''customer'', ''email'', ''respond'', ''resolve'', ''helpdesk'', ''complaint'',
      ''inquiry'', ''reply'']"

definition devops_keywords :: "string list" where
  "devops_keywords =
     [''monitor'', ''infrastructure'', ''alert'', ''server'', ''cpu'', ''memory'', ''disk'', ''kubernetes'',
      ''docker'', ''logs'', ''incident'', ''uptime'', ''scale'', ''deploy'', ''container'', ''pod'']"

definition marketing_keywords :: "string list" where
  "marketing_keywords =
     [''campaign'', ''marketing'', ''seo'', ''content'', ''social'', ''advertisement'', ''copy'', ''brand'',
      ''audience'', ''post'']"

definition extraction_keywords :: "string list" where
  "extraction_keywords =
     [''scrape'', ''extract'', ''csv'', ''spreadsheet'', ''collect'', ''crawl'', ''parse'', ''structured'',
      ''harvest'', ''dataset'']"

definition sales_keywords :: "string list" where
  "sales_keywords =
     [''prospect'', ''outreach'', ''crm'', ''lead'', ''pipeline'', ''deal'', ''quota'', ''sales'', ''account'',
      ''salesforce'', ''hubspot'', ''opportunity'', ''enrichment'']"

definition finance_keywords :: "string list" where
  "finance_keywords =
     [''invoice'', ''reconcile'', ''reconciliation'', ''expense'', ''accounting'', ''payable'', ''receivable'',
      ''balance sheet'', ''ledger'', ''journal entry'', ''month-end'', ''close'', ''quickbooks'', ''xero'']"

definition hr_keywords :: "string list" where
  "hr_keywords =
     [''candidate'', ''hiring'', ''onboard'', ''onboarding'', ''recruit'', ''recruiting'', ''employee'',
      ''interview'', ''payroll'', ''performance review'', ''hr'', ''people ops'', ''job description'',
      ''offer letter'']"

definition legal_keywords :: "string list" where
  "legal_keywords =
     [''contract'', ''clause'', ''agreement'', ''legal'', ''redline'', ''nda'', ''liability'', ''due diligence'',
      ''review contract'', ''terms of service'', ''statement of work'', ''sow'', ''obligation'']"

definition itsm_keywords :: "string list" where
  "itsm_keywords =
     [''runbook'', ''itsm'', ''change request'', ''change advisory'', ''servicenow'', ''pagerduty'', ''on-call'',
      ''postmortem'', ''root cause'', ''maintenance window'', ''cmdb'', ''asset management'']"

definition job_detect :: "(string \<Rightarrow> string) \<Rightarrow> string \<Rightarrow> role_category" where
  "job_detect to_lowercase goal =
     (let g = to_lowercase goal; is = (\<lambda>kws. list_ex (\<lambda>k. str_contains k g) kws) in
      if is software_keywords then SoftwareEngineer
      else if is research_keywords then ResearchAnalyst
      else if is support_keywords then CustomerSupport
      else if is devops_keywords then DevOps
      else if is marketing_keywords then Marketing
      else if is extraction_keywords then DataExtraction
      else if is sales_keywords then SalesRevOps
      else if is finance_keywords then FinanceAccounting
      else if is hr_keywords then HRPeopleOps
      else if is legal_keywords then LegalContract
      else if is itsm_keywords then ITOpsITSM
      else General)"

fun preferred_tools :: "role_category \<Rightarrow> string list" where
  "preferred_tools SoftwareEngineer =
     [''shell'', ''file_read'', ''file_write'', ''file_edit'', ''content_search'', ''glob_search'',
      ''git_operations'', ''diff'', ''patch'', ''code_run'', ''sql_query'']"
| "preferred_tools ResearchAnalyst =
     [''web_search_tool'', ''web_fetch'', ''browser'', ''browser_interact'', ''data_extractor'', ''vector_store'',
      ''vector_search'', ''file_write'', ''memory_store'', ''pdf_read'', ''spreadsheet_write'']"
| "preferred_tools CustomerSupport =
     [''memory_recall'', ''vector_search'', ''email'', ''notification'', ''api_call'', ''request_credential'',
      ''file_read'', ''ask_user'']"
| "preferred_tools DevOps =
     [''shell'', ''docker'', ''kubernetes'', ''ssh_exec'', ''process_monitor'', ''http_request'', ''api_call'',
      ''notification'', ''memory_store'', ''file_read'', ''cron_add'']"
| "preferred_tools Marketing =
     [''web_search_tool'', ''web_fetch'', ''browser'', ''screenshot'', ''file_write'', ''image_process'',
      ''pdf_create'', ''notification'']"
| "preferred_tools DataExtraction =
     [''web_fetch'', ''browser'', ''browser_interact'', ''data_engine'', ''data_extractor'', ''content_search'',
      ''spreadsheet_write'', ''file_write'', ''sql_query'', ''compress'']"
| "preferred_tools SalesRevOps =
     [''web_search_tool'', ''web_fetch'', ''browser'', ''data_engine'', ''data_extractor'', ''email'',
      ''spreadsheet_write'', ''vector_search'', ''api_call'', ''memory_store'', ''memory_recall'', ''http_request'']"
| "preferred_tools FinanceAccounting =
     [''pdf_read'', ''spreadsheet_write'', ''data_engine'', ''sql_query'', ''data_extractor'', ''file_read'',
      ''file_write'', ''api_call'', ''content_search'', ''memory_store'', ''crypto_tool'']"
| "preferred_tools HRPeopleOps =
     [''pdf_read'', ''email'', ''vector_search'', ''schedule'', ''ask_user'', ''file_read'', ''file_write'',
      ''memory_store'', ''memory_recall'', ''spreadsheet_write'']"
| "preferred_tools LegalContract =
     [''pdf_read'', ''diff_patch'', ''content_search'', ''file_read'', ''file_write'', ''vector_search'',
      ''memory_store'', ''data_extractor'', ''pdf_create'']"
| "preferred_tools ITOpsITSM =
     [''shell'', ''ssh_exec'', ''docker'', ''kubernetes'', ''process_monitor'', ''http_request'', ''api_call'',
      ''notification'', ''file_read'', ''memory_store'', ''schedule'']"
| "preferred_tools General =
     [''shell'', ''file_read'', ''file_write'', ''web_search_tool'', ''data_engine'', ''memory_store'',
      ''memory_recall'', ''http_request'', ''code_run'']"

text \<open>The service level that a goal gets by its job (\<open>agent/manager.rs\<close>).\<close>

fun sla_priority_for_job :: "role_category \<Rightarrow> sla_priority" where
  "sla_priority_for_job CustomerSupport = SlaUrgent"
| "sla_priority_for_job ITOpsITSM = SlaCritical"
| "sla_priority_for_job DevOps = SlaHigh"
| "sla_priority_for_job LegalContract = SlaHigh"
| "sla_priority_for_job FinanceAccounting = SlaHigh"
| "sla_priority_for_job HRPeopleOps = SlaNormal"
| "sla_priority_for_job SalesRevOps = SlaNormal"
| "sla_priority_for_job _ = SlaLow"

section \<open>Tools\<close>

definition HIDDEN_TOOLS :: "string list" where
  "HIDDEN_TOOLS =
     [''wasm_exec'', ''wasm_call'', ''wasm_compile'', ''wasm_inspect'', ''run_registered_wasm'']"

definition RUNTIME_BLOCKED_TOOLS :: "string list" where
  "RUNTIME_BLOCKED_TOOLS =
     [''create_workspace_tool'']"

definition ALWAYS_INCLUDE :: "string list" where
  "ALWAYS_INCLUDE =
     [''ask_user'', ''delegate'', ''tool_search'', ''request_more_tools'']"

definition PLAN_POOL_TOOLS :: "string list" where
  "PLAN_POOL_TOOLS =
     [''ask_user'', ''task_create'', ''task_get'', ''task_list'', ''task_update'', ''task_output'', ''tool_search'',
      ''request_more_tools'', ''list_connectors_in_category'', ''request_more_connectors'',
      ''create_custom_connector'', ''mcp_session'', ''memory_consolidate'', ''memory_recall'', ''vector_search'',
      ''glob_search'', ''content_search'', ''file_read'', ''web_search_tool'', ''web_fetch'',
      ''create_workspace_tool'']"

definition COORDINATOR_POOL_TOOLS :: "string list" where
  "COORDINATOR_POOL_TOOLS =
     [''ask_user'', ''delegate'', ''send_message'', ''message_inbox'', ''task_create'', ''task_get'', ''task_list'',
      ''task_update'', ''task_output'', ''tool_search'', ''memory_consolidate'', ''request_more_tools'',
      ''list_connectors_in_category'', ''request_more_connectors'', ''create_custom_connector'', ''memory_recall'',
      ''vector_search'', ''glob_search'', ''content_search'', ''file_read'', ''web_search_tool'', ''web_fetch'']"

definition VERIFICATION_POOL_TOOLS :: "string list" where
  "VERIFICATION_POOL_TOOLS =
     [''shell'', ''file_read'', ''glob_search'', ''content_search'', ''git_operations'', ''diff'', ''code_run'',
      ''memory_consolidate'', ''memory_recall'', ''task_get'', ''task_list'', ''task_output'', ''tool_search'']"

definition TEAMMATE_POOL_TOOLS :: "string list" where
  "TEAMMATE_POOL_TOOLS =
     [''ask_user'', ''send_message'', ''message_inbox'', ''task_create'', ''task_get'', ''task_list'',
      ''task_update'', ''task_output'', ''tool_search'', ''memory_consolidate'', ''memory_recall'']"

definition STOP_WORDS :: "string list" where
  "STOP_WORDS =
     [''a'', ''an'', ''the'', ''and'', ''or'', ''but'', ''in'', ''on'', ''at'', ''to'', ''for'', ''of'', ''with'',
      ''by'', ''from'', ''as'', ''is'', ''it'', ''its'', ''this'', ''that'', ''be'', ''do'', ''have'', ''has'',
      ''had'', ''will'', ''would'', ''could'', ''should'', ''may'', ''might'', ''then'', ''after'', ''before'',
      ''step'', ''now'', ''next'', ''using'', ''use'', ''the'', ''create'', ''get'', ''set'', ''run'', ''make'',
      ''find'', ''read'', ''write'', ''check'', ''all'', ''any'', ''each'', ''every'', ''into'', ''out'', ''new'',
      ''old'', ''current'']"

definition category_for_tool_name :: "string \<Rightarrow> string" where
  "category_for_tool_name name =
     (if name \<in> set
        [''shell'', ''file_read'', ''file_write'', ''file_edit'', ''glob_search'', ''content_search'', ''compress'',
         ''decompress'', ''create_workspace_tool'']
       then ''filesystem''
      else if name \<in> set
        [''web_search_tool'', ''web_fetch'', ''http_request'', ''browser'', ''browser_interact'',
         ''browser_network'', ''browser_open'', ''browser_pdf'', ''screenshot'']
       then ''web''
      else if name \<in> set
        [''code_run'', ''sql_query'', ''diff'', ''patch'', ''git_operations'', ''enter_worktree'', ''exit_worktree'']
       then ''code''
      else if name \<in> set
        [''data_engine'', ''data_extractor'', ''image_info'', ''image_process'']
       then ''data''
      else if name \<in> set
        [''pdf_read'', ''pdf_create'']
       then ''data''
      else if name \<in> set
        [''spreadsheet_read'', ''spreadsheet_write'']
       then ''data''
      else if name \<in> set
        [''memory_store'', ''memory_recall'', ''memory_forget'', ''memory_consolidate'']
       then ''memory''
      else if name \<in> set
        [''vector_store'', ''vector_search'', ''vector_delete'']
       then ''memory''
      else if name \<in> set
        [''docker'', ''kubernetes'', ''ssh_exec'', ''process_monitor'', ''hardware_board_info'',
         ''hardware_memory_map'', ''hardware_memory_read'', ''proxy_config'']
       then ''infra''
      else if name \<in> set
        [''external_api'', ''external_db'', ''api_call'', ''register_api_tool'', ''mcp_session'',
         ''search_mcp_registry'', ''acp_session'']
       then ''integration''
      else if name \<in> set
        [''ask_user'', ''email'', ''notification'', ''pushover'']
       then ''communication''
      else if name \<in> set
        [''crypto_tool'', ''request_credential'', ''plane_guard'']
       then ''security''
      else if name \<in> set
        [''schedule'', ''delegate'']
       then ''automation''
      else if starts_with ''cron_'' name then ''automation''
      else if name \<in> set
        [''send_message'', ''message_inbox'', ''tool_search'', ''request_more_tools'',
         ''list_connectors_in_category'', ''request_more_connectors'', ''create_custom_connector'', ''tool_output'',
         ''tool_validation'', ''skill_wrapper'', ''model_routing'', ''suggest_connectors'', ''session_tasks'']
       then ''meta''
      else ''other'')"

text \<open>A registered tool; \<open>ti_spec\<close> is what is sent to a provider.  The registry is the list of its tools, one
  per name.\<close>

record 's tool_info =
  ti_name :: string
  ti_description :: string
  ti_category :: string
  ti_spec :: 's

type_synonym 's tool_registry = "'s tool_info list"

definition register_tool :: "'s tool_info \<Rightarrow> 's tool_registry \<Rightarrow> 's tool_registry" where
  "register_tool t reg = filter (\<lambda>u. ti_name u \<noteq> ti_name t) reg @ [t]"

definition get_tool :: "'s tool_registry \<Rightarrow> string \<Rightarrow> 's tool_info option" where
  "get_tool reg name = find (\<lambda>t. ti_name t = name) reg"

definition list_tools :: "'s tool_registry \<Rightarrow> string list" where
  "list_tools reg = sort (filter (\<lambda>n. n \<notin> set HIDDEN_TOOLS) (map ti_name reg))"

text \<open>\<open>by_category().get(category)\<close>: the sorted names of a category, if there are any.\<close>

definition tools_of_category :: "'s tool_registry \<Rightarrow> string \<Rightarrow> string list option" where
  "tools_of_category reg category =
     (let names = sort (map ti_name (filter (\<lambda>t. ti_category t = category \<and> ti_name t \<notin> set HIDDEN_TOOLS) reg))
      in if names = [] then None else Some names)"

definition tool_specs_for_category :: "'s tool_registry \<Rightarrow> string \<Rightarrow> 's list" where
  "tool_specs_for_category reg category =
     map ti_spec (filter (\<lambda>t. ti_category t = category) (filter (\<lambda>t. ti_name t \<notin> set HIDDEN_TOOLS) reg))"

section \<open>Pools\<close>

definition MAX_TOOLS :: nat where "MAX_TOOLS = 20"

definition MAX_ROLE_CATEGORY_TOOLS :: nat where "MAX_ROLE_CATEGORY_TOOLS = 4"

fun pool_allows :: "tool_pool \<Rightarrow> string \<Rightarrow> bool" where
  "pool_allows WorkerPool n = (n \<notin> set RUNTIME_BLOCKED_TOOLS \<and> n \<notin> set HIDDEN_TOOLS)"
| "pool_allows PlanPool n = (n \<in> set PLAN_POOL_TOOLS)"
| "pool_allows CoordinatorPool n = (n \<in> set COORDINATOR_POOL_TOOLS)"
| "pool_allows VerificationPool n = (n \<in> set VERIFICATION_POOL_TOOLS)"
| "pool_allows TeammatePool n = (n \<in> set TEAMMATE_POOL_TOOLS)"

definition tool_names_for_pool :: "'s tool_registry \<Rightarrow> tool_pool \<Rightarrow> string list" where
  "tool_names_for_pool reg pool = filter (pool_allows pool) (list_tools reg)"

section \<open>Relevance\<close>

text \<open>The words of a description, each once; their order plays no part.  \<open>alphanumeric\<close> is the class of a
  character, given as its UTF-8 text.\<close>

fun words_of :: "(string \<Rightarrow> bool) \<Rightarrow> string list \<Rightarrow> string \<Rightarrow> string list" where
  "words_of keep [] w = [w]"
| "words_of keep (c # cs) w = (if keep c then words_of keep cs (w @ c) else w # words_of keep cs [])"

definition extract_keywords :: "(string \<Rightarrow> string) \<Rightarrow> (string \<Rightarrow> bool) \<Rightarrow> string \<Rightarrow> string list" where
  "extract_keywords to_lowercase alphanumeric txt =
     remdups (filter (\<lambda>w. length w > 2 \<and> w \<notin> set STOP_WORDS)
       (words_of (\<lambda>c. alphanumeric c \<or> c = ''_'') (utf8_chars (to_lowercase txt)) []))"

definition tool_keyword_score :: "(string \<Rightarrow> string) \<Rightarrow> string list \<Rightarrow> string \<Rightarrow> string \<Rightarrow> nat" where
  "tool_keyword_score to_lowercase step_words name desc =
     (let haystack = to_lowercase (name @ '' '' @ desc) in
      length (filter (\<lambda>w. str_contains w haystack) step_words)
        + (if list_ex (\<lambda>w. str_contains w name) step_words then 3 else 0))"

section \<open>Selection\<close>

text \<open>The names selected so far, and all names that were looked at.\<close>

type_synonym selection = "string list \<times> string list"

definition select_tool :: "'s tool_registry \<Rightarrow> tool_pool \<Rightarrow> string \<Rightarrow> selection \<Rightarrow> selection" where
  "select_tool reg pool name sel =
     (case sel of (selected, seen) \<Rightarrow>
        if \<not> pool_allows pool name then (selected, seen)
        else if name \<in> set seen then (selected, seen)
        else (if get_tool reg name \<noteq> None then selected @ [name] else selected, name # seen))"

text \<open>A loop that stops at the cap.\<close>

definition select_capped :: "'s tool_registry \<Rightarrow> tool_pool \<Rightarrow> string list \<Rightarrow> selection \<Rightarrow> selection" where
  "select_capped reg pool names sel =
     fold (\<lambda>n sel. if length (fst sel) \<ge> MAX_TOOLS then sel else select_tool reg pool n sel) names sel"

definition category_names :: "'s tool_registry \<Rightarrow> string list \<Rightarrow> string list" where
  "category_names reg categories =
     concat (map (\<lambda>c. case tools_of_category reg c of Some ns \<Rightarrow> take MAX_ROLE_CATEGORY_TOOLS ns | None \<Rightarrow> []) categories)"

definition scored_names ::
  "(string \<Rightarrow> string) \<Rightarrow> (string \<Rightarrow> bool) \<Rightarrow> 's tool_registry \<Rightarrow> planned_step \<Rightarrow> string list \<Rightarrow> string list" where
  "scored_names to_lowercase alphanumeric reg step seen =
     (let ws = extract_keywords to_lowercase alphanumeric (ps_description step);
          scored = List.map_filter (\<lambda>name. Option.bind (get_tool reg name) (\<lambda>t.
            let score = tool_keyword_score to_lowercase ws (ti_name t) (ti_description t)
            in if score > 0 then Some (score, name) else None))
            (filter (\<lambda>n. n \<notin> set seen) (list_tools reg))
      in map snd (sort_key (\<lambda>(score, _). - int score) scored))"

definition selected_names ::
  "(string \<Rightarrow> string) \<Rightarrow> (string \<Rightarrow> bool) \<Rightarrow> 's tool_registry \<Rightarrow> planned_step \<Rightarrow> role_category \<Rightarrow> string list
     \<Rightarrow> string list \<Rightarrow> tool_pool \<Rightarrow> string list" where
  "selected_names to_lowercase alphanumeric reg step job role_tools role_categories pool =
     (let sel = (case ps_tool step of Some t \<Rightarrow> select_tool reg pool t ([], []) | None \<Rightarrow> ([], []));
          sel = fold (select_tool reg pool) ALWAYS_INCLUDE sel;
          sel = select_capped reg pool role_tools sel;
          sel = select_capped reg pool (category_names reg role_categories) sel;
          sel = select_capped reg pool (preferred_tools job) sel
      in fst (if length (fst sel) < MAX_TOOLS
           then select_capped reg pool (scored_names to_lowercase alphanumeric reg step (snd sel)) sel else sel))"

definition select_tools_for_step_with_pool ::
  "(string \<Rightarrow> string) \<Rightarrow> (string \<Rightarrow> bool) \<Rightarrow> 's tool_registry \<Rightarrow> planned_step \<Rightarrow> role_category \<Rightarrow> string list
     \<Rightarrow> string list \<Rightarrow> tool_pool \<Rightarrow> 's list" where
  "select_tools_for_step_with_pool to_lowercase alphanumeric reg step job role_tools role_categories pool =
     map ti_spec (List.map_filter (get_tool reg)
       (selected_names to_lowercase alphanumeric reg step job role_tools role_categories pool))"

definition select_tools_for_step ::
  "(string \<Rightarrow> string) \<Rightarrow> (string \<Rightarrow> bool) \<Rightarrow> 's tool_registry \<Rightarrow> planned_step \<Rightarrow> role_category \<Rightarrow> string list
     \<Rightarrow> string list \<Rightarrow> 's list" where
  "select_tools_for_step to_lowercase alphanumeric reg step job role_tools role_categories =
     select_tools_for_step_with_pool to_lowercase alphanumeric reg step job role_tools role_categories WorkerPool"

section \<open>Manifests\<close>

definition registry_groups :: "(string \<times> string list) list" where
  "registry_groups =
     [(''filesystem'',
        [''shell'', ''file_read'', ''file_write'', ''file_edit'', ''glob_search'', ''content_search'', ''compress'',
         ''decompress'']),
      (''web'',
        [''web_search_tool'', ''web_fetch'', ''http_request'', ''browser'', ''browser_interact'', ''browser_pdf'',
         ''browser_network'', ''screenshot'']),
      (''code'',
        [''code_run'', ''diff'', ''patch'', ''git_operations'', ''sql_query'']),
      (''data'',
        [''data_engine'', ''data_extractor'', ''pdf_read'', ''pdf_create'', ''spreadsheet_read'',
         ''spreadsheet_write'', ''image_process'', ''image_info'']),
      (''memory'',
        [''memory_store'', ''memory_consolidate'', ''memory_recall'', ''memory_forget'', ''vector_store'',
         ''vector_search'', ''vector_delete'']),
      (''infra'',
        [''docker'', ''kubernetes'', ''ssh_exec'', ''process_monitor'']),
      (''integration'',
        [''mcp_session'', ''search_mcp_registry'', ''acp_session'', ''api_call'', ''http_request'',
         ''register_api_tool'']),
      (''communication'',
        [''email'', ''notification'', ''pushover'', ''ask_user'', ''send_message'']),
      (''security'',
        [''crypto_tool'', ''plane_guard'', ''request_credential'']),
      (''automation'',
        [''schedule'', ''cron_add'', ''cron_list'', ''cron_remove'', ''cron_run'', ''delegate'', ''enter_worktree'',
         ''exit_worktree''])]"

definition names_groups :: "(string \<times> string list) list" where
  "names_groups =
     [(''filesystem'',
        [''shell'', ''file_read'', ''file_write'', ''file_edit'', ''glob_search'', ''content_search'', ''compress'',
         ''decompress'']),
      (''web'',
        [''web_search_tool'', ''web_fetch'', ''http_request'', ''browser'', ''browser_interact'', ''browser_pdf'',
         ''browser_network'', ''screenshot'']),
      (''code'',
        [''code_run'', ''diff'', ''patch'', ''git_operations'', ''sql_query'']),
      (''data'',
        [''data_engine'', ''data_extractor'', ''pdf_read'', ''pdf_create'', ''spreadsheet_read'',
         ''spreadsheet_write'', ''image_process'', ''image_info'']),
      (''memory'',
        [''memory_store'', ''memory_consolidate'', ''memory_recall'', ''memory_forget'', ''vector_store'',
         ''vector_search'', ''vector_delete'']),
      (''infra'',
        [''docker'', ''kubernetes'', ''ssh_exec'', ''process_monitor'']),
      (''integration'',
        [''mcp_session'', ''search_mcp_registry'', ''api_call'', ''http_request'', ''register_api_tool'']),
      (''communication'',
        [''email'', ''notification'', ''pushover'', ''ask_user'', ''send_message'']),
      (''security'',
        [''crypto_tool'', ''plane_guard'', ''request_credential'']),
      (''automation'',
        [''schedule'', ''cron_add'', ''cron_list'', ''cron_remove'', ''delegate'', ''enter_worktree'',
         ''exit_worktree''])]"

definition manifest_line :: "(string \<Rightarrow> bool) \<Rightarrow> string \<times> string list \<Rightarrow> string option" where
  "manifest_line available g =
     (let ns = filter available (snd g) in
      if ns = [] then None else Some (''  '' @ fst g @ '': '' @ join_with '', '' ns))"

definition other_line :: "string list \<Rightarrow> string list" where
  "other_line extras = (if extras = [] then [] else [''  other: '' @ join_with '', '' extras])"

definition tool_manifest :: "'s tool_registry \<Rightarrow> string" where
  "tool_manifest reg = join_with [CHR 0x0A]
     ([''Available tool categories (use exact names in tool_args):'']
      @ List.map_filter (manifest_line (\<lambda>n. get_tool reg n \<noteq> None)) registry_groups
      @ other_line (filter (\<lambda>n. n \<notin> set (concat (map snd registry_groups))) (list_tools reg)))"

definition tool_manifest_from_names :: "string list \<Rightarrow> string" where
  "tool_manifest_from_names names = join_with [CHR 0x0A]
     ([''Available tool categories:'']
      @ List.map_filter (manifest_line (\<lambda>n. n \<in> set names \<and> n \<notin> set HIDDEN_TOOLS)) names_groups
      @ other_line (filter (\<lambda>n. n \<notin> set (concat (map snd names_groups)) \<and> n \<notin> set HIDDEN_TOOLS) names))"

section \<open>The selection stays in bounds\<close>

definition selection_ok :: "'s tool_registry \<Rightarrow> tool_pool \<Rightarrow> selection \<Rightarrow> bool" where
  "selection_ok reg pool sel \<longleftrightarrow> distinct (fst sel) \<and> set (fst sel) \<subseteq> set (snd sel)
     \<and> (\<forall>n\<in>set (fst sel). pool_allows pool n \<and> n \<in> ti_name ` set reg)"

lemma get_tool_eq_None_iff: "get_tool reg n = None \<longleftrightarrow> n \<notin> ti_name ` set reg"
  by (auto simp: get_tool_def find_None_iff)

lemma select_tool_ok: "selection_ok reg pool sel \<Longrightarrow> selection_ok reg pool (select_tool reg pool n sel)"
  by (cases sel) (auto simp: selection_ok_def select_tool_def get_tool_eq_None_iff)

lemma select_tool_length: "length (fst (select_tool reg pool n sel)) \<le> Suc (length (fst sel))"
  by (cases sel) (auto simp: select_tool_def)

lemma select_tool_keeps: "set (fst sel) \<subseteq> set (fst (select_tool reg pool n sel))"
  by (cases sel) (auto simp: select_tool_def)

lemma select_tool_seen: "selection_ok reg pool sel \<Longrightarrow> (\<forall>n\<in>set (snd sel). n \<in> ti_name ` set reg \<longrightarrow> n \<in> set (fst sel)) \<Longrightarrow>
  (\<forall>n\<in>set (snd (select_tool reg pool m sel)). n \<in> ti_name ` set reg \<longrightarrow> n \<in> set (fst (select_tool reg pool m sel)))"
  by (cases sel) (auto simp: select_tool_def get_tool_eq_None_iff)

lemma fold_select_ok: "selection_ok reg pool sel \<Longrightarrow> selection_ok reg pool (fold (select_tool reg pool) ns sel)"
  by (induction ns arbitrary: sel) (simp_all add: select_tool_ok)

lemma fold_select_length: "length (fst (fold (select_tool reg pool) ns sel)) \<le> length (fst sel) + length ns"
proof (induction ns arbitrary: sel)
  case (Cons n ns)
  from Cons [of "select_tool reg pool n sel"] select_tool_length [of reg pool n sel] show ?case by simp
qed simp

lemma fold_select_keeps: "set (fst sel) \<subseteq> set (fst (fold (select_tool reg pool) ns sel))"
proof (induction ns arbitrary: sel)
  case (Cons n ns)
  from Cons [of "select_tool reg pool n sel"] select_tool_keeps [of sel reg pool n] show ?case by auto
qed simp

lemma capped_ok: "selection_ok reg pool sel \<Longrightarrow> selection_ok reg pool (select_capped reg pool ns sel)"
  unfolding select_capped_def by (induction ns arbitrary: sel) (simp_all add: select_tool_ok)

lemma capped_length:
  "length (fst sel) \<le> MAX_TOOLS \<Longrightarrow> length (fst (select_capped reg pool ns sel)) \<le> MAX_TOOLS"
  unfolding select_capped_def
proof (induction ns arbitrary: sel)
  case (Cons n ns)
  have "length (fst (if length (fst sel) \<ge> MAX_TOOLS then sel else select_tool reg pool n sel)) \<le> MAX_TOOLS"
    using Cons.prems select_tool_length [of reg pool n sel] by auto
  with Cons.IH show ?case by simp
qed simp

lemma capped_keeps: "set (fst sel) \<subseteq> set (fst (select_capped reg pool ns sel))"
  unfolding select_capped_def
proof (induction ns arbitrary: sel)
  case (Cons n ns)
  from Cons [of "if length (fst sel) \<ge> MAX_TOOLS then sel else select_tool reg pool n sel"] select_tool_keeps [of sel reg pool n]
  show ?case by (auto split: if_splits)
qed simp

text \<open>The state after the tool of the step and the tools that every agent gets.\<close>

definition core_selection :: "'s tool_registry \<Rightarrow> tool_pool \<Rightarrow> planned_step \<Rightarrow> selection" where
  "core_selection reg pool step = fold (select_tool reg pool) ALWAYS_INCLUDE
     (case ps_tool step of Some t \<Rightarrow> select_tool reg pool t ([], []) | None \<Rightarrow> ([], []))"

lemma core_selection_fold:
  "core_selection reg pool step = fold (select_tool reg pool) (case ps_tool step of Some t \<Rightarrow> t # ALWAYS_INCLUDE | None \<Rightarrow> ALWAYS_INCLUDE) ([], [])"
  by (simp add: core_selection_def split: option.split)

lemma selected_names_core:
  obtains rest where "selected_names low an reg step job rt rc pool = fst (rest (core_selection reg pool step))"
    "\<And>sel. selection_ok reg pool sel \<Longrightarrow> selection_ok reg pool (rest sel)"
    "\<And>sel. length (fst sel) \<le> MAX_TOOLS \<Longrightarrow> length (fst (rest sel)) \<le> MAX_TOOLS"
    "\<And>sel. set (fst sel) \<subseteq> set (fst (rest sel))"
proof
  let ?cap = "\<lambda>sel. select_capped reg pool (preferred_tools job)
    (select_capped reg pool (category_names reg rc) (select_capped reg pool rt sel))"
  let ?rest = "\<lambda>sel. if length (fst (?cap sel)) < MAX_TOOLS
    then select_capped reg pool (scored_names low an reg step (snd (?cap sel))) (?cap sel) else ?cap sel"
  show "selected_names low an reg step job rt rc pool = fst (?rest (core_selection reg pool step))"
    by (simp add: selected_names_def core_selection_def Let_def)
  show "selection_ok reg pool sel \<Longrightarrow> selection_ok reg pool (?rest sel)" for sel
    by (simp add: capped_ok)
  show "length (fst sel) \<le> MAX_TOOLS \<Longrightarrow> length (fst (?rest sel)) \<le> MAX_TOOLS" for sel
    by (simp add: capped_length)
  show "set (fst sel) \<subseteq> set (fst (?rest sel))" for sel
  proof -
    have cap: "set (fst sel) \<subseteq> set (fst (?cap sel))"
      by (rule subset_trans [OF subset_trans [OF capped_keeps capped_keeps] capped_keeps])
    show ?thesis
    proof (cases "length (fst (?cap sel)) < MAX_TOOLS")
      case True
      then show ?thesis using subset_trans [OF cap capped_keeps] by simp
    next
      case False
      then show ?thesis using cap by simp
    qed
  qed
qed

lemma selected_by_fold:
  assumes "n \<in> set ns" "pool_allows pool n" "n \<in> ti_name ` set reg"
    and "selection_ok reg pool sel" "\<forall>m\<in>set (snd sel). m \<in> ti_name ` set reg \<longrightarrow> m \<in> set (fst sel)"
  shows "n \<in> set (fst (fold (select_tool reg pool) ns sel))"
  using assms
proof (induction ns arbitrary: sel)
  case (Cons m ns)
  show ?case
  proof (cases "n = m")
    case True
    have "n \<in> set (fst (select_tool reg pool n sel))"
      using Cons.prems(2,3,5) by (cases sel) (auto simp: select_tool_def get_tool_eq_None_iff)
    with fold_select_keeps True show ?thesis by fastforce
  next
    case False
    with Cons.prems Cons.IH [of "select_tool reg pool m sel"] show ?thesis
      by (simp add: select_tool_ok select_tool_seen)
  qed
qed simp

text \<open>A step is offered at most twenty tools, each once, all of them registered and allowed in the pool
  of the agent.  The tool that the plan names and the tools that every agent gets are among them
  whenever they are registered and allowed.\<close>

theorem selection_within_pool:
  "let names = selected_names low an reg step job role_tools categories pool;
       offered = {n \<in> ti_name ` set reg. pool_allows pool n}
   in length names \<le> 20 \<and> distinct names \<and> set names \<subseteq> offered
      \<and> offered \<inter> (set_option (ps_tool step) \<union> set ALWAYS_INCLUDE) \<subseteq> set names"
proof -
  define names where "names = selected_names low an reg step job role_tools categories pool"
  obtain rest where r: "names = fst (rest (core_selection reg pool step))"
    "\<And>sel. selection_ok reg pool sel \<Longrightarrow> selection_ok reg pool (rest sel)"
    "\<And>sel. length (fst sel) \<le> MAX_TOOLS \<Longrightarrow> length (fst (rest sel)) \<le> MAX_TOOLS"
    "\<And>sel. set (fst sel) \<subseteq> set (fst (rest sel))"
    using selected_names_core unfolding names_def by blast
  have ok0: "selection_ok reg pool ([], [])" by (simp add: selection_ok_def)
  have core: "selection_ok reg pool (core_selection reg pool step)"
    unfolding core_selection_fold by (rule fold_select_ok [OF ok0])
  have "length (fst (core_selection reg pool step)) \<le> 5"
    unfolding core_selection_fold
    by (rule order_trans [OF fold_select_length]) (simp add: ALWAYS_INCLUDE_def split: option.split)
  then have len: "length names \<le> 20" using r(1,3) by (simp add: MAX_TOOLS_def)
  have "n \<in> set (fst (core_selection reg pool step))"
    if "n \<in> ti_name ` set reg" "pool_allows pool n" "n \<in> set_option (ps_tool step) \<union> set ALWAYS_INCLUDE" for n
    unfolding core_selection_fold
    by (rule selected_by_fold [OF _ that(2,1) ok0]) (use that(3) in \<open>auto split: option.split\<close>)
  with r(4) have "{n \<in> ti_name ` set reg. pool_allows pool n} \<inter> (set_option (ps_tool step) \<union> set ALWAYS_INCLUDE) \<subseteq> set names"
    unfolding r(1) by blast
  with len r(2) [OF core] show ?thesis
    by (auto simp: r(1) selection_ok_def Let_def simp flip: names_def)
qed

lemma get_tool_SomeD: "get_tool reg n = Some t \<Longrightarrow> t \<in> set reg \<and> ti_name t = n"
  by (auto simp: get_tool_def dest: find_mem)

section \<open>Keywords that never decide\<close>

lemma str_contains_trans: "a \<noteq> [] \<Longrightarrow> str_contains a b \<Longrightarrow> str_contains b c \<Longrightarrow> str_contains a c"
proof -
  assume a: "a \<noteq> []" and "str_contains a b" "str_contains b c"
  then obtain u v where b: "b = u @ a @ v" using str_contains_iff [OF a] by blast
  with a have "b \<noteq> []" by simp
  with \<open>str_contains b c\<close> obtain x y where "c = x @ b @ y" using str_contains_iff by blast
  with b have "c = (x @ u) @ a @ (v @ y)" by simp
  with a show ?thesis using str_contains_iff by blast
qed

text \<open>The first list of keywords has the two letters \<open>ci\<close>, and the lists are searched in order: a goal that
  names an incident, pricing, a reconciliation, social media or a pipeline is taken for software
  engineering, whatever else it says.\<close>

theorem shadowed_keywords:
  assumes "str_contains k (to_lowercase goal)"
    and "k \<in> {''incident'', ''pricing'', ''reconcile'', ''reconciliation'', ''social'', ''pipeline''}"
  shows "job_detect to_lowercase goal = SoftwareEngineer"
proof -
  have "str_contains ''ci'' k \<or> k = ''pipeline''" using assms(2) by (auto simp: str_contains_def)
  with assms(1) have "str_contains ''ci'' (to_lowercase goal) \<or> str_contains ''pipeline'' (to_lowercase goal)"
    using str_contains_trans [of "''ci''"] by blast
  then show ?thesis by (auto simp: job_detect_def software_keywords_def Let_def)
qed

text \<open>So a goal about an incident gets the lowest service level instead of the critical one.\<close>

theorem incident_gets_low_priority:
  "str_contains ''incident'' (to_lowercase goal) \<Longrightarrow> sla_priority_for_job (job_detect to_lowercase goal) = SlaLow"
  using shadowed_keywords [of "''incident''" to_lowercase goal] by simp

end
