(* ===== verification/Spec2Isabelle.thy ===== *)
theory Spec2Isabelle
  imports Dag_Engine Policy Queue Gateway Workflow_Validation Boundary_Broker Workforce Worker Agent_Retries Data_Laws Gateway_Chat Agent_Messages Tool_Selection
begin

text \<open>
  Narayan, the agent platform of this repository (\<open>src/src\<close>, Rust): its deterministic core.

  \<^bold>\<open>The program and its parts.\<close> A user describes a job; plan mode turns it into a role and a compiled
  workflow. The scheduler, a cron ticker and workforce events create agents, whose rows lie in PostgreSQL
  and whose tasks wait in a queue (in memory or in Redis). A worker takes a task, claims the agent's row
  with a lease, and runs the agent loop step by step: it gets a plan (a direct answer, a skill, the
  coordinator or the compiled workflow), decides by typed conditions whether a step runs, lets the
  orchestrator surround the step executor (templates, facts, questions, failure rules), judges the result
  and decides how to go on. A compiled workflow with dependencies is run by the workflow engine instead,
  a scheduler over a dependency graph that is stored after every transition. Every call of a tool passes the
  policy engine, every call of a model the gateway. Agents talk to each other through tools (tasks,
  messages, delegation), and to other companies through the boundary broker. What the platform does not
  decide itself (the language models, the tools, HTTP, cryptography, the clock, new ids) are arguments of
  the definitions: function arguments, or the fields of a record named \<open>..._env\<close>.

  \<^bold>\<open>Foundations.\<close>
  \<^item> \<open>Prelude\<close>: results of fallible operations (\<open>Inl\<close> the error, \<open>Inr\<close> the value), instants, the
    update of the first list element with a property, retention and ordering lemmas that all parts share.
  \<^item> \<open>Rust_Str\<close>: the part of Rust's \<open>str\<close> that the code uses (trim, split, search, replace, parsing of
    numbers); a string is a list of characters, bytes and characters agree on ASCII.
  \<^item> \<open>Json\<close>, \<open>Float64\<close>, \<open>F64_Value\<close>: \<open>serde_json::Value\<close> with ordered objects; binary64 arithmetic
    with rounding to 53 bits, infinities and NaN (the two zeros are one value).
  \<^item> \<open>Planner\<close>: \<open>Plan\<close>, \<open>PlannedStep\<close>, \<open>RetryPolicy\<close> and the expressions of \<open>agent/planner.rs\<close>.

  \<^bold>\<open>Workflow engine.\<close>
  \<^item> \<open>Dag\<close> (\<open>agent/dag.rs\<close>): \<open>StepNode\<close>, \<open>Workflow\<close>, the transitions \<open>mark_running\<close>, \<open>mark_success\<close>,
    \<open>mark_failed\<close>, \<open>mark_skipped\<close>, \<open>handle_failure\<close> with its retries, the queries \<open>ready_steps\<close>,
    \<open>detect_deadlock\<close>, \<open>is_complete\<close>, and \<open>from_plan\<close>. Integers that can overflow are computed with
    the width of the source, in both arithmetic builds (a panic, or wrapping).
    \<open>Dag_Machine\<close> holds its correctness: terminal steps stay, a measure bounds the
    transitions, the retry policy bounds the starts, and what a reported deadlock means.
  \<^item> \<open>Dag_Foreach\<close>: rendering of item placeholders (a partial function: the loop of the source need not
    stop) and the expansion of for-each templates into item and join nodes.
  \<^item> \<open>Dag_Conditions\<close> (\<open>agent/dag_engine.rs\<close>): the input of a step, paths, structured and typed
    conditions, the schema check. \<open>Json_Schema\<close> (\<open>tools/mod.rs\<close>): the validator and the schemas of types.
  \<^item> \<open>Dag_Store\<close> (\<open>storage/dag_store.rs\<close>): the two tables and all operations. The locale
    \<open>workflow_store\<close> is the contract of a store; its interpretation \<open>pg\<close> on the tables gives the refinement
    of the state machine by load, transition and save.
  \<^item> \<open>Dag_Engine\<close> (\<open>agent/dag_engine.rs\<close>): step tasks, \<open>run_cycle\<close> with the expansion, the loop until
    completion, failure, deadlock or cancellation.

  \<^bold>\<open>Workflow compiler.\<close> \<open>agent/workflow_compiler.rs\<close>, after the model's draft.
  \<^item> \<open>Typed_Expressions\<close>: the static check of conditions; \<open>Step_Conditions\<close> (\<open>agent/loop.rs\<close>): the second
    evaluator, which refines the first one where it has a value.
  \<^item> \<open>Workflow_Variants\<close>, \<open>Data_Signature\<close>: signatures of data, match rules, selection of a variant.
  \<^item> \<open>Llm_Controls\<close> (\<open>gateway/llm_controls.rs\<close>), \<open>Llm_Schemas\<close>: generation settings and what a model step
    has to return.
  \<^item> \<open>Compiled_Workflow\<close>, \<open>Workflow_Validation\<close>: the artifact, \<open>validate_compiled_workflow\<close> and its
    equivalence with a declarative closure predicate, \<open>Plan::from_compiled_workflow\<close>.

  \<^bold>\<open>Agents.\<close>
  \<^item> \<open>Agent_State\<close> (\<open>state/\<close>), \<open>Agent_Store\<close> (\<open>storage/postgres.rs\<close>): the durable records and the
    statements on their tables, with claims and leases. \<open>Agent_Definition\<close> (\<open>agent/definition.rs\<close>): roles and
    guidelines. \<open>Workforce\<close> (\<open>events/workforce.rs\<close>): subscriptions and the dispatcher.
  \<^item> \<open>Template_Vars\<close>, \<open>Tool_Args\<close>, \<open>Tool_Filters\<close>, \<open>Executor\<close> (\<open>agent/template_vars.rs\<close>,
    \<open>agent/executor.rs\<close>): one step, from the model's calls to the reports of the tools. \<open>call_report\<close> records
    what became of each call: \<open>Executed\<close> with the arguments that reached the tool, or why it was refused.
  \<^item> \<open>Evaluator\<close>, \<open>Intake\<close> (\<open>agent/evaluator.rs\<close>, \<open>preflight.rs\<close>, \<open>clarifier.rs\<close>), \<open>Orchestrator\<close>
    (\<open>agent/orchestrator.rs\<close>). The locale \<open>step_executor\<close> states what the orchestrator relies on; the
    interpretation \<open>llm\<close> shows it for the executor of \<open>Executor\<close>.
  \<^item> \<open>Judgement\<close> (\<open>cognition/\<close>, \<open>compliance/sla.rs\<close>, \<open>segments/domain.rs\<close>), \<open>Skills\<close> (\<open>skills/registry.rs\<close>),
    \<open>Tool_Selection\<close> (\<open>tools/selector.rs\<close>, \<open>tools/mod.rs\<close>, \<open>agent/prompts.rs\<close>).
  \<^item> \<open>Agent_Plan\<close>, \<open>Agent_Loop\<close> (\<open>agent/loop.rs\<close>): how a run gets its plan, and \<open>run_step\<close> with every branch, in an
    option monad over a state of the agent and the rows it writes (\<open>None\<close>: the code does not return or panics).
    \<open>Agent_Run\<close> and \<open>Agent_Retries\<close> hold its laws: frames, outcome and status, position, retries, length of a run.
  \<^item> \<open>Agent_Messages\<close> (\<open>tools/session_tasks.rs\<close>, \<open>send_message.rs\<close>, \<open>message_inbox.rs\<close>, \<open>delegate.rs\<close>).

  \<^bold>\<open>Around the agents.\<close>
  \<^item> \<open>Queue\<close> (\<open>scheduler/queue.rs\<close>, \<open>storage/redis.rs\<close>): the trait as the locale \<open>task_queue\<close>, with
    the interpretations \<open>mem\<close> and \<open>redis\<close>.
  \<^item> \<open>Recompile\<close>, \<open>Worker\<close> (\<open>worker/worker.rs\<close>): opening, running, closing and retrying a task.
  \<^item> \<open>Policy\<close> (\<open>policy/\<close>): guards, platform rules, tenant rules.
  \<^item> \<open>Gateway\<close>, \<open>Gateway_Chat\<close> (\<open>gateway/\<close>), \<open>Tenant_Config\<close> (\<open>tenant/\<close>): token buckets with exact
    rationals, the cache and its 64-bit key, costs, routing, credentials, the path of a call.
  \<^item> \<open>Boundary\<close>, \<open>Boundary_Audit\<close>, \<open>Boundary_Governance\<close>, \<open>Boundary_Runtime\<close>, \<open>Boundary_Broker\<close>
    (\<open>boundry/\<close>): contracts and their checks, the hash-chained ledger, freeze and revocation, the requester
    and the broker.
  \<^item> \<open>Data_Formula\<close>, \<open>Data_Rules\<close>, \<open>Data_Engine\<close> (\<open>tools/data_engine.rs\<close>): formulas, row operations, ranking,
    aggregation and pipelines; \<open>Formula_Parser\<close> and \<open>Data_Laws\<close> hold their laws.

  \<^bold>\<open>What the theorems show.\<close> The numbered properties stand beside the definitions they are about, each
  followed by a witness where it has a hypothesis. They fall into these groups.
  \<^item> Workflows: finished steps never change, in the machine and through the engine and the store; a cycle starts
    a step only when each dependency has succeeded or was skipped; the transitions and the starts of a step are
    bounded; a deadlock is reported only for one of four reasons, and never without them; the
    expansion does what it promises; inputs hold exactly the outputs of the dependencies.
  \<^item> Compiler: accepted workflows are exactly the closed ones; the plan keeps the dependencies; accepted
    expressions evaluate on inputs that supply their paths; the two evaluators agree.
  \<^item> Agents: a run stops, its retries are three, each outcome fixes the status, the frames of a step; plans come
    from four sources; outputs reach later templates; failed or refused calls fail their step.
  \<^item> Safety of calls: no call that a guard catches runs, the tenant's rules never weaken the platform's, the paths
    that are inspected are exactly those under nine keys; one provider per request, with a credential and a slot.
  \<^item> Around: both queues are first in, first out, a worker drains its queue and releases the agents; only own
    children are restarted; ranking and grouping do not lose or reorder rows; the formula parser terminates and
    reads back what a printer with minimal parentheses writes.
  Other theorems, without a number, are the laws the properties rest on, and counterexamples that show
  where the code departs from its comments (see the findings of the manifest).

  \<^bold>\<open>Bounds and fuel.\<close> The formula parser starts with six units of fuel per character and six more, which
  \<open>Formula_Parser\<close> proves enough for every text (each level of the grammar takes one unit before a
  character is read). Loops of the source that may not end (placeholders, template variables) are
  \<open>partial_function (option)\<close>. A cycle's and a run's length are arguments (lists of clock readings or
  environments, one per iteration), over which the theorems are quantified; the bounds on runs are derived,
  not chosen. Attempts are 32-bit and backoffs 64-bit numbers; rows of the store hold attempts below \<open>2 ^ 31\<close>.

  \<^bold>\<open>Not modelled.\<close> Plan mode, the draft pass of the compiler, prompts, chats with roles and agents, and the
  reflector: they exchange text with a model. HTTP API, authentication, billing, connectors, webhooks,
  providers, memory, workspaces and the tools themselves: input and output through other crates.
  Metrics, events, audit log and evidence: nothing reads them back to decide. The scheduler's poll and the cron
  ticker, which rest on the cron parser and on the clock of the database. Errors of the database connection are
  left out except where the agent loop handles them; concurrency is modelled as the order of the
  operations, each statement on a table being one step.
\<close>

end
